(* ===== verification/Prelude.thy ===== *)
theory Prelude
  imports Main "HOL-Library.Char_ord" "HOL-Library.List_Lexorder"
begin

text \<open>
  Shared vocabulary of the development: errors as values, tables of rows with the
  operations the services issue against the database client, and the list lemmas the
  component proofs rest on.

  A PostgreSQL table is a list of rows in insertion order.  The client calls the sources
  use become list functions: \<open>findFirst\<close> is \<open>List.find\<close>, \<open>updateMany\<close> rewrites every row
  its filter selects and reports how many there were, \<open>create\<close> appends.  A transaction is
  a function from the whole store to an error or a new store; an error carries no store,
  so a failed transaction leaves its caller with the old one, as a rollback does.
\<close>

named_theorems table_simps \<open>how table operations rewrite lookups, counts and sums\<close>
named_theorems inv_intros \<open>preservation of store invariants\<close>

subsection \<open>Errors as values\<close>

datatype svc_error =
    BadRequest string
  | Conflict string
  | NotFound string
  | Forbidden string
  | ServiceUnavailable string
  | TypeErr string
  | RetryableConflict string  \<comment> \<open>an \<open>Error\<close> with code \<open>P2034\<close>\<close>
  | UniqueViolation string    \<comment> \<open>a unique index refuses the row\<close>
  | CheckViolation string     \<comment> \<open>a CHECK constraint or a column range refuses the row\<close>

type_synonym 'a res = "svc_error + 'a"

definition bind_res :: "'e + 'a \<Rightarrow> ('a \<Rightarrow> 'e + 'b) \<Rightarrow> 'e + 'b" where
  "bind_res m f = (case m of Inl e \<Rightarrow> Inl e | Inr x \<Rightarrow> f x)"

lemma bind_res_simps [simp]:
  "bind_res (Inl e) f = Inl e"
  "bind_res (Inr x) f = f x"
  by (simp_all add: bind_res_def)

lemma bind_res_Inr_iff:
  "bind_res m f = Inr y \<longleftrightarrow> (\<exists>x. m = Inr x \<and> f x = Inr y)"
  by (cases m) auto

lemma bind_res_InrE [elim!]:
  assumes "bind_res m f = Inr y"
  obtains x where "m = Inr x" and "f x = Inr y"
  using assms by (auto simp: bind_res_Inr_iff)

definition guard_res :: "bool \<Rightarrow> 'e \<Rightarrow> 'e + unit" where
  "guard_res b e = (if b then Inr () else Inl e)"

lemma guard_res_Inr [simp]: "guard_res b e = Inr u \<longleftrightarrow> b"
  by (simp add: guard_res_def)

lemma guard_res_Inl [simp]: "guard_res b e = Inl e' \<longleftrightarrow> \<not> b \<and> e' = e"
  by (auto simp: guard_res_def)

subsection \<open>Tables\<close>

definition update_rows :: "('r \<Rightarrow> bool) \<Rightarrow> ('r \<Rightarrow> 'r) \<Rightarrow> 'r list \<Rightarrow> 'r list" where
  "update_rows p g rs = map (\<lambda>r. if p r then g r else r) rs"

definition count_rows :: "('r \<Rightarrow> bool) \<Rightarrow> 'r list \<Rightarrow> nat" where
  "count_rows p rs = length (filter p rs)"

definition find_unique :: "('r \<Rightarrow> bool) \<Rightarrow> 'r list \<Rightarrow> 'r option" where
  "find_unique p rs = List.find p rs"

lemma find_unique_SomeD:
  "find_unique p rs = Some r \<Longrightarrow> r \<in> set rs \<and> p r"
  unfolding find_unique_def by (auto simp: find_Some_iff)

lemma find_unique_None [table_simps]:
  "find_unique p rs = None \<longleftrightarrow> (\<forall>r \<in> set rs. \<not> p r)"
  by (auto simp: find_unique_def find_None_iff)

lemma update_rows_Nil [simp]: "update_rows p g [] = []"
  by (simp add: update_rows_def)

lemma update_rows_Cons [simp]:
  "update_rows p g (r # rs) = (if p r then g r else r) # update_rows p g rs"
  by (simp add: update_rows_def)

lemma length_update_rows [table_simps]: "length (update_rows p g rs) = length rs"
  by (simp add: update_rows_def)

lemma set_update_rows [table_simps]:
  "set (update_rows p g rs) = (\<lambda>r. if p r then g r else r) ` set rs"
  by (simp add: update_rows_def)

lemma update_rows_none: "(\<And>r. r \<in> set rs \<Longrightarrow> \<not> p r) \<Longrightarrow> update_rows p g rs = rs"
  by (induction rs) auto

lemma update_rows_cong:
  "(\<And>r. r \<in> set rs \<Longrightarrow> p r \<longleftrightarrow> p' r) \<Longrightarrow> update_rows p g rs = update_rows p' g rs"
  by (induction rs) auto

lemma map_update_rows_frame:
  "(\<And>r. p r \<Longrightarrow> f (g r) = f r) \<Longrightarrow> map f (update_rows p g rs) = map f rs"
  by (induction rs) auto

text \<open>
  The effect of an update on any sum over the table is the sum of the changes of the rows
  it selects: the one fact behind every balance proof below.
\<close>

lemma sum_update_rows:
  fixes h :: "'r \<Rightarrow> int"
  shows "(\<Sum>r \<leftarrow> update_rows p g rs. h r) =
    (\<Sum>r \<leftarrow> rs. h r) + (\<Sum>r \<leftarrow> filter p rs. h (g r) - h r)"
  by (induction rs) auto

lemma distinct_map_inj:
  "distinct (map k rs) \<Longrightarrow> x \<in> set rs \<Longrightarrow> y \<in> set rs \<Longrightarrow> k x = k y \<Longrightarrow> x = y"
  by (auto simp: distinct_map dest: inj_onD)

lemma filter_key_singleton:
  assumes "distinct (map k rs)" and "r \<in> set rs" and "p r"
    and "\<And>x. p x \<Longrightarrow> k x = k r"
  shows "filter p rs = [r]"
proof -
  have iff: "p x \<longleftrightarrow> x = r" if "x \<in> set rs" for x
    using assms(3) assms(4) [of x] distinct_map_inj [OF assms(1) that assms(2)] by blast
  have "filter p rs = filter (\<lambda>x. x = r) rs"
    by (rule filter_cong) (auto simp: iff)
  also have "\<dots> = [r]"
    using assms(1,2) by (induction rs) (auto simp: filter_empty_conv)
  finally show ?thesis .
qed

lemma count_rows_one_iff:
  assumes "distinct (map k rs)" and "r \<in> set rs" and "\<And>x. p x \<Longrightarrow> k x = k r"
  shows "count_rows p rs = 1 \<longleftrightarrow> p r"
proof (cases "p r")
  case True
  then have "filter p rs = [r]" by (rule filter_key_singleton [OF assms(1,2) _ assms(3)])
  with True show ?thesis by (simp add: count_rows_def)
next
  case False
  have "\<not> p x" if "x \<in> set rs" for x
    using assms(3) [of x] distinct_map_inj [OF assms(1) that assms(2)] False by blast
  with False show ?thesis by (simp add: count_rows_def filter_empty_conv)
qed

lemma count_rows_oneD: "count_rows p rs = 1 \<Longrightarrow> \<exists>r \<in> set rs. p r"
  by (metis count_rows_def filter_False length_0_conv zero_neq_one)

lemma sum_list_if_mem:
  fixes h :: "'r \<Rightarrow> int"
  assumes "\<And>r. r \<in> set rs \<Longrightarrow> 0 \<le> h r" and "r \<in> set rs"
  shows "h r \<le> (\<Sum>r \<leftarrow> rs. h r)"
  using assms
proof (induction rs)
  case (Cons a rs)
  have "0 \<le> (\<Sum>r \<leftarrow> rs. h r)"
    using Cons.prems(1) by (intro sum_list_nonneg) auto
  moreover have "r \<in> set rs \<Longrightarrow> h r \<le> (\<Sum>r \<leftarrow> rs. h r)"
    using Cons by simp
  moreover have "0 \<le> h a" using Cons.prems(1) by simp
  ultimately show ?case using Cons.prems(2) by auto
qed simp

subsection \<open>Strings\<close>

text \<open>\<open>split\<close> on one character.\<close>

fun split_on :: "char \<Rightarrow> string \<Rightarrow> string list" where
  "split_on c [] = [[]]"
| "split_on c (x # xs) =
     (if x = c then [] # split_on c xs
      else (case split_on c xs of [] \<Rightarrow> [[x]] | w # ws \<Rightarrow> (x # w) # ws))"

end
