(* ===== verification/Calendar.thy ===== *)
theory Calendar
  imports Prelude
begin

text \<open>
  Civil dates and quota period windows (\<open>packages/db/src/aiu-quota-policies.ts\<close>, second
  half).  Instants are integers, milliseconds since 1970-01-01T00:00Z, as \<open>Date.getTime\<close>
  gives them.  \<open>Date.UTC\<close>, \<open>getUTCFullYear\<close>, \<open>getUTCMonth\<close>, \<open>getUTCDate\<close> and \<open>getUTCDay\<close>
  follow the day arithmetic of the language standard (proleptic Gregorian calendar).  The
  time zone database behind \<open>Intl.DateTimeFormat\<close> is the parameter \<open>off\<close>: the offset of
  local time from UTC, in milliseconds, at an instant.
\<close>

subsection \<open>Day arithmetic of the language\<close>

definition ms_per_day :: int where
  "ms_per_day = 86400000"

definition dayFromYear :: "int \<Rightarrow> int" where
  "dayFromYear y =
     365 * (y - 1970) + (y - 1969) div 4 - (y - 1901) div 100 + (y - 1601) div 400"

definition leap_year :: "int \<Rightarrow> bool" where
  "leap_year y \<longleftrightarrow> y mod 4 = 0 \<and> (y mod 100 \<noteq> 0 \<or> y mod 400 = 0)"

text \<open>Days of the year before the first of month \<open>m\<close> (1 to 13).\<close>

definition month_start :: "bool \<Rightarrow> int \<Rightarrow> int" where
  "month_start leap m =
     (let l = (if leap then 1 else 0) in
      if m \<le> 1 then 0 else if m = 2 then 31 else if m = 3 then 59 + l
      else if m = 4 then 90 + l else if m = 5 then 120 + l else if m = 6 then 151 + l
      else if m = 7 then 181 + l else if m = 8 then 212 + l else if m = 9 then 243 + l
      else if m = 10 then 273 + l else if m = 11 then 304 + l else if m = 12 then 334 + l
      else 365 + l)"

record LocalDate =
  year :: int
  month :: int
  day :: int

text \<open>
  The day number of \<open>Date.UTC(year, month - 1, day)\<close>: months are taken modulo twelve and
  the day may run past the month, in either direction.  (\<open>Date.UTC\<close> reads the years 0 to 99
  as 1900 to 1999.)
\<close>

definition full_year :: "int \<Rightarrow> int" where
  "full_year y = (if 0 \<le> y \<and> y \<le> 99 then 1900 + y else y)"

definition utc_day :: "int \<Rightarrow> int \<Rightarrow> int \<Rightarrow> int" where
  "utc_day y m d =
     (let ym = full_year y + (m - 1) div 12; mn = (m - 1) mod 12 + 1
      in dayFromYear ym + month_start (leap_year ym) mn + d - 1)"

text \<open>The year and the date a day number falls in.\<close>

definition year_of_day :: "int \<Rightarrow> int" where
  "year_of_day n =
     (let c = 1970 + (400 * n) div 146097 in
      if n < dayFromYear c then c - 1
      else if dayFromYear (c + 1) \<le> n then c + 1 else c)"

definition month_of_doy :: "bool \<Rightarrow> int \<Rightarrow> int" where
  "month_of_doy leap k =
     (if k < month_start leap 2 then 1 else if k < month_start leap 3 then 2
      else if k < month_start leap 4 then 3 else if k < month_start leap 5 then 4
      else if k < month_start leap 6 then 5 else if k < month_start leap 7 then 6
      else if k < month_start leap 8 then 7 else if k < month_start leap 9 then 8
      else if k < month_start leap 10 then 9 else if k < month_start leap 11 then 10
      else if k < month_start leap 12 then 11 else 12)"

definition date_of_day :: "int \<Rightarrow> LocalDate" where
  "date_of_day n =
     (let y = year_of_day n; k = n - dayFromYear y; m = month_of_doy (leap_year y) k
      in \<lparr>year = y, month = m, day = k - month_start (leap_year y) m + 1\<rparr>)"

text \<open>\<open>getUTCDay\<close>: 0 is Sunday; the epoch was a Thursday.\<close>

definition utc_weekday :: "int \<Rightarrow> int" where
  "utc_weekday n = (n + 4) mod 7"

subsection \<open>Local dates and midnights\<close>

definition localDate :: "(int \<Rightarrow> int) \<Rightarrow> int \<Rightarrow> LocalDate" where
  "localDate off t = date_of_day ((t + off t) div ms_per_day)"

text \<open>
  One round of \<open>localMidnight\<close>: the local wall clock at the candidate, to the second, read
  back as if it were UTC.
\<close>

definition represented :: "(int \<Rightarrow> int) \<Rightarrow> int \<Rightarrow> int" where
  "represented off t =
     (let l = t + off t; d = date_of_day (l div ms_per_day); s = l mod ms_per_day div 1000
      in utc_day (year d) (month d) (day d) * ms_per_day + s * 1000)"

definition midnight_step :: "(int \<Rightarrow> int) \<Rightarrow> int \<Rightarrow> int \<Rightarrow> int" where
  "midnight_step off target candidate = candidate + (target - represented off candidate)"

definition localMidnight :: "(int \<Rightarrow> int) \<Rightarrow> LocalDate \<Rightarrow> int" where
  "localMidnight off d =
     (let target = utc_day (year d) (month d) (day d) * ms_per_day
      in (midnight_step off target ^^ 4) target)"

definition addDays :: "LocalDate \<Rightarrow> int \<Rightarrow> LocalDate" where
  "addDays d k = date_of_day (utc_day (year d) (month d) (day d + k))"

subsection \<open>Quota periods\<close>

datatype QuotaPeriodType =
    CALENDAR_DAY | CALENDAR_WEEK | CALENDAR_MONTH | FIXED_WINDOW | LIFETIME | UNKNOWN_PERIOD

record QuotaPeriodWindowValue =
  w_start :: int
  w_end :: "int option"

definition aiuQuotaPeriodWindow ::
  "QuotaPeriodType \<Rightarrow> (int \<Rightarrow> int) \<Rightarrow> int \<Rightarrow> (int \<times> int) option \<Rightarrow> QuotaPeriodWindowValue res" where
  "aiuQuotaPeriodWindow ty off now fixed =
     (if ty = LIFETIME then Inr \<lparr>w_start = now, w_end = None\<rparr>
      else if ty = FIXED_WINDOW then
        (case fixed of
           None \<Rightarrow> Inl (TypeErr ''Invalid fixed AIU window'')
         | Some (a, b) \<Rightarrow>
             if b \<le> a then Inl (TypeErr ''Invalid fixed AIU window'')
             else Inr \<lparr>w_start = a, w_end = Some b\<rparr>)
      else
        (let today = localDate off now;
             startDate =
               (if ty = CALENDAR_WEEK then
                  (let weekday = utc_weekday (utc_day (year today) (month today) (day today))
                   in addDays today (- ((weekday + 6) mod 7)))
                else if ty = CALENDAR_MONTH then today\<lparr>day := 1\<rparr>
                else today);
             endDate =
               (if ty = CALENDAR_DAY then addDays startDate 1
                else if ty = CALENDAR_WEEK then addDays startDate 7
                else if month startDate = 12
                  then \<lparr>year = year startDate + 1, month = 1, day = 1\<rparr>
                  else \<lparr>year = year startDate, month = month startDate + 1, day = 1\<rparr>)
         in Inr \<lparr>w_start = localMidnight off startDate,
                 w_end = Some (localMidnight off endDate)\<rparr>))"

subsection \<open>The calendar is consistent\<close>

lemma dayFromYear_bounds:
  "146097 * (y - 1970) - 1000 \<le> 400 * dayFromYear y"
  "400 * dayFromYear y \<le> 146097 * (y - 1970) + 1000"
proof -
  define a b c where "a = (y - 1969) div 4" and "b = (y - 1901) div 100"
    and "c = (y - 1601) div 400"
  have "4 * a \<le> y - 1969" "y - 1969 < 4 * a + 4"
    "100 * b \<le> y - 1901" "y - 1901 < 100 * b + 100"
    "400 * c \<le> y - 1601" "y - 1601 < 400 * c + 400"
    unfolding a_def b_def c_def
    using pos_mod_bound [of 4 "y - 1969"] pos_mod_sign [of 4 "y - 1969"]
      pos_mod_bound [of 100 "y - 1901"] pos_mod_sign [of 100 "y - 1901"]
      pos_mod_bound [of 400 "y - 1601"] pos_mod_sign [of 400 "y - 1601"]
    by (simp_all flip: minus_mod_eq_mult_div)
  moreover have "dayFromYear y = 365 * (y - 1970) + a - b + c"
    by (simp add: dayFromYear_def a_def b_def c_def)
  ultimately show "146097 * (y - 1970) - 1000 \<le> 400 * dayFromYear y"
    and "400 * dayFromYear y \<le> 146097 * (y - 1970) + 1000"
    by (simp_all add: algebra_simps)
qed

lemma div_minus_one:
  fixes x k :: int
  assumes "0 < k"
  shows "(x - 1) div k = x div k - (if x mod k = 0 then 1 else 0)"
proof (cases "x mod k = 0")
  case True
  have "x = k * (x div k) + x mod k" by simp
  with True have "x - 1 = k * (x div k - 1) + (k - 1)"
    by (simp add: algebra_simps)
  then have "(x - 1) div k = x div k - 1"
    by (rule int_div_pos_eq) (use assms in auto)
  with True show ?thesis by simp
next
  case False
  have "x - 1 = k * (x div k) + (x mod k - 1)" by simp
  then have "(x - 1) div k = x div k"
    by (rule int_div_pos_eq) (use assms False pos_mod_bound [of k x] pos_mod_sign [of k x] in linarith)+
  with False show ?thesis by simp
qed

lemma leap_sum:
  "leap_year y \<longleftrightarrow> y mod 4 = 0 \<and> \<not> (y mod 100 = 0 \<and> y mod 400 \<noteq> 0)"
  by (auto simp: leap_year_def)

lemma dayFromYear_Suc:
  "dayFromYear (y + 1) = dayFromYear y + (if leap_year y then 366 else 365)"
proof -
  have 4: "(y + 1 - 1969) div 4 = (y - 1969) div 4 + (if y mod 4 = 0 then 1 else 0)"
    using div_minus_one [of 4 "y - 1968"] mod_diff_right_eq [of y 1968 4]
    by (simp add: mod_eq_0_iff_dvd)
  have 100: "(y + 1 - 1901) div 100 = (y - 1901) div 100 + (if y mod 100 = 0 then 1 else 0)"
    using div_minus_one [of 100 "y - 1900"] mod_diff_right_eq [of y 1900 100]
    by (simp add: mod_eq_0_iff_dvd)
  have 400: "(y + 1 - 1601) div 400 = (y - 1601) div 400 + (if y mod 400 = 0 then 1 else 0)"
    using div_minus_one [of 400 "y - 1600"] mod_diff_right_eq [of y 1600 400]
    by (simp add: mod_eq_0_iff_dvd)
  define p q r where "p \<longleftrightarrow> y mod 4 = 0" and "q \<longleftrightarrow> y mod 100 = 0" and "r \<longleftrightarrow> y mod 400 = 0"
  have imp: "r \<longrightarrow> q" "q \<longrightarrow> p" unfolding p_def q_def r_def
    by (auto simp: mod_eq_0_iff_dvd intro: dvd_trans)
  have "dayFromYear (y + 1) = dayFromYear y + 365 + (if p then 1 else 0)
      - (if q then 1 else 0) + (if r then 1 else 0)"
    unfolding dayFromYear_def 4 100 400 p_def q_def r_def by simp
  moreover have "leap_year y \<longleftrightarrow> p \<and> (\<not> q \<or> r)"
    by (simp add: leap_year_def p_def q_def r_def)
  ultimately show ?thesis using imp by (cases p; cases q; cases r) simp_all
qed

lemma year_of_day_bounds:
  "dayFromYear (year_of_day n) \<le> n" "n < dayFromYear (year_of_day n + 1)"
proof -
  define c where "c = 1970 + (400 * n) div 146097"
  have c: "146097 * (c - 1970) \<le> 400 * n" "400 * n < 146097 * (c - 1970) + 146097"
    using mult_div_mod_eq [of 146097 "400 * n"] pos_mod_bound [of 146097 "400 * n", simplified]
      pos_mod_sign [of 146097 "400 * n", simplified] unfolding c_def by simp_all
  have low: "dayFromYear (c - 1) \<le> n" using dayFromYear_bounds(2) [of "c - 1"] c by simp
  have high: "n < dayFromYear (c + 2)" using dayFromYear_bounds(1) [of "c + 2"] c by simp
  have y: "year_of_day n =
    (if n < dayFromYear c then c - 1 else if dayFromYear (c + 1) \<le> n then c + 1 else c)"
    by (simp only: year_of_day_def c_def Let_def)
  show "dayFromYear (year_of_day n) \<le> n" using low unfolding y by (simp split: if_split)
  show "n < dayFromYear (year_of_day n + 1)"
    using high unfolding y by (simp add: add.assoc split: if_split)
qed

lemma month_start_simps [simp]:
  "month_start leap 1 = 0" "month_start leap 2 = 31"
  "month_start leap 3 = 59 + of_bool leap" "month_start leap 4 = 90 + of_bool leap"
  "month_start leap 5 = 120 + of_bool leap" "month_start leap 6 = 151 + of_bool leap"
  "month_start leap 7 = 181 + of_bool leap" "month_start leap 8 = 212 + of_bool leap"
  "month_start leap 9 = 243 + of_bool leap" "month_start leap 10 = 273 + of_bool leap"
  "month_start leap 11 = 304 + of_bool leap" "month_start leap 12 = 334 + of_bool leap"
  "month_start leap 13 = 365 + of_bool leap"
  by (simp_all add: month_start_def)

lemma month_of_doy_props:
  assumes "0 \<le> k" and "k < (if leap then 366 else 365)"
  shows "month_of_doy leap k \<in> {1..12}"
    and "month_start leap (month_of_doy leap k) \<le> k"
    and "k < month_start leap (month_of_doy leap k + 1)"
  using assms unfolding month_of_doy_def by (simp_all split: if_split_asm)

lemma date_of_day_props:
  fixes n :: int
  defines "d \<equiv> date_of_day n"
  shows "year d = year_of_day n" and "month d \<in> {1..12}" and "1 \<le> day d"
    and "dayFromYear (year d) + month_start (leap_year (year d)) (month d) + day d - 1 = n"
    and "n < dayFromYear (year d) + month_start (leap_year (year d)) (month d + 1)"
proof -
  let ?y = "year_of_day n"
  have k: "0 \<le> n - dayFromYear ?y" "n - dayFromYear ?y < (if leap_year ?y then 366 else 365)"
    using year_of_day_bounds [of n] dayFromYear_Suc [of ?y] by (auto split: if_splits)
  note m = month_of_doy_props [OF k]
  show "year d = year_of_day n" "month d \<in> {1..12}" "1 \<le> day d"
    "dayFromYear (year d) + month_start (leap_year (year d)) (month d) + day d - 1 = n"
    "n < dayFromYear (year d) + month_start (leap_year (year d)) (month d + 1)"
    using m unfolding d_def date_of_day_def Let_def by auto
qed

text \<open>
  \<open>Date.UTC\<close> inverts the date fields from the year 100 on, which is where the services
  live: the only hypothesis the window theorems carry about the calendar.
\<close>

lemma utc_day_date_of_day:
  assumes "100 \<le> year_of_day n"
  shows "utc_day (year (date_of_day n)) (month (date_of_day n)) (day (date_of_day n) + k) = n + k"
  using assms date_of_day_props [of n] unfolding utc_day_def Let_def full_year_def by auto

lemma utc_day_date_of_day0:
  assumes "100 \<le> year_of_day n"
  shows "utc_day (year (date_of_day n)) (month (date_of_day n)) (day (date_of_day n)) = n"
  using utc_day_date_of_day [OF assms, of 0] by simp

lemma dayFromYear_mono: "x \<le> y \<Longrightarrow> dayFromYear x \<le> dayFromYear y"
proof (induction y rule: int_ge_induct)
  case (step y)
  then show ?case using dayFromYear_Suc [of y] by (auto split: if_splits)
qed simp

lemma year_of_day_ge: "dayFromYear y \<le> n \<Longrightarrow> y \<le> year_of_day n"
proof (rule ccontr)
  assume "dayFromYear y \<le> n" and "\<not> y \<le> year_of_day n"
  then have "dayFromYear (year_of_day n + 1) \<le> dayFromYear y" by (intro dayFromYear_mono) simp
  with year_of_day_bounds(2) [of n] \<open>dayFromYear y \<le> n\<close> show False by simp
qed

text \<open>Day numbers from the first of January of the year 100 on.\<close>

definition modern_day :: "int \<Rightarrow> bool" where
  "modern_day n \<longleftrightarrow> dayFromYear 100 \<le> n"

lemma modern_year: "modern_day n \<Longrightarrow> 100 \<le> year_of_day n"
  unfolding modern_day_def by (rule year_of_day_ge)

lemma represented_modern:
  assumes "modern_day ((t + off t) div ms_per_day)"
  shows "represented off t = (t + off t) div 1000 * 1000"
proof -
  let ?l = "t + off t"
  have "represented off t = ?l div ms_per_day * ms_per_day + ?l mod ms_per_day div 1000 * 1000"
    using utc_day_date_of_day0 [OF modern_year [OF assms]] by (simp add: represented_def Let_def)
  moreover have "?l div 1000 * 1000 =
    (?l mod ms_per_day div 1000 + 86400 * (?l div ms_per_day)) * 1000"
  proof -
    have "?l div 1000 = (?l mod ms_per_day + 1000 * (86400 * (?l div ms_per_day))) div 1000"
    using div_mult_mod_eq [of ?l ms_per_day] by (simp add: ms_per_day_def)
    also have "\<dots> = ?l mod ms_per_day div 1000 + 86400 * (?l div ms_per_day)" by simp
    finally show ?thesis by simp
  qed
  ultimately show ?thesis by (simp add: ms_per_day_def algebra_simps)
qed

lemma localMidnight_fixed_offset:
  assumes "1000 dvd c" and "modern_day n" and "modern_day (n + c div ms_per_day)"
    and n: "utc_day (year d) (month d) (day d) = n"
  shows "localMidnight (\<lambda>_. c) d = n * ms_per_day - c"
proof -
  let ?T = "n * ms_per_day"
  have "(?T + c) div ms_per_day = n + c div ms_per_day"
    by (simp add: ms_per_day_def)
  then have r1: "represented (\<lambda>_. c) ?T = ?T + c"
    using assms(1,3) represented_modern [of ?T "\<lambda>_. c"] by (auto simp: ms_per_day_def)
  have r2: "represented (\<lambda>_. c) (?T - c) = ?T"
    using assms(2) represented_modern [of "?T - c" "\<lambda>_. c"] by (auto simp: ms_per_day_def)
  have s1: "midnight_step (\<lambda>_. c) ?T ?T = ?T - c" and
    s2: "midnight_step (\<lambda>_. c) ?T (?T - c) = ?T - c"
    using r1 r2 by (simp_all add: midnight_step_def)
  show ?thesis
    unfolding localMidnight_def n Let_def
    by (simp add: eval_nat_numeral s1 s2)
qed

lemma addDays_utc_day:
  assumes "utc_day (year d) (month d) (day d + k) = n" and "modern_day n"
  shows "utc_day (year (addDays d k)) (month (addDays d k)) (day (addDays d k)) = n"
  using assms utc_day_date_of_day0 [OF modern_year] by (simp add: addDays_def)

lemma utc_day_shift: "utc_day y m (d + k) = utc_day y m d + k"
  by (simp add: utc_day_def Let_def)

lemma utc_day_next_month:
  assumes "100 \<le> y" and "m \<in> {1..12}"
  shows "utc_day y (m + 1) 1 = dayFromYear y + month_start (leap_year y) (m + 1)"
proof (cases "m = 12")
  case True
  then show ?thesis using assms dayFromYear_Suc [of y] by (simp add: utc_day_def full_year_def)
next
  case False
  then show ?thesis using assms by (simp add: utc_day_def full_year_def)
qed

lemma utc_day_year_wrap:
  "100 \<le> y \<Longrightarrow> utc_day (y + 1) 1 1 = utc_day y 13 1"
  by (simp add: utc_day_def full_year_def)

lemma week_start_is_monday:
  "utc_weekday (n - (utc_weekday n + 6) mod 7) = 1"
  "n - (utc_weekday n + 6) mod 7 \<le> n" "n < n - (utc_weekday n + 6) mod 7 + 7"
  unfolding utc_weekday_def by presburger+

lemma day_bounds:
  "n = (now + c) div ms_per_day \<Longrightarrow> n * ms_per_day - c \<le> now \<and> now < (n + 1) * ms_per_day - c"
  using pos_mod_bound [of ms_per_day "now + c"] pos_mod_sign [of ms_per_day "now + c"]
    div_mult_mod_eq [of "now + c" ms_per_day]
  by (auto simp: ms_per_day_def algebra_simps)

text \<open>
  What \<open>aiuQuotaPeriodWindow\<close> has to deliver for a calendar period, with \<open>a\<close> and \<open>b\<close> the
  day numbers of the local dates at its two ends.
\<close>

definition period_days :: "QuotaPeriodType \<Rightarrow> int \<Rightarrow> int \<times> int" where
  "period_days ty n =
     (if ty = CALENDAR_DAY then (n, n + 1)
      else if ty = CALENDAR_WEEK then
        (let s = n - (utc_weekday n + 6) mod 7 in (s, s + 7))
      else
        (let d = date_of_day n
         in (utc_day (year d) (month d) 1, utc_day (year d) (month d + 1) 1)))"

lemma period_days_contains:
  assumes "modern_day n" and "period_days ty n = (a, b)"
  shows "a \<le> n" and "n < b"
proof -
  let ?d = "date_of_day n"
  have y: "100 \<le> year ?d" using modern_year [OF assms(1)] date_of_day_props(1) [of n] by simp
  have "utc_day (year ?d) (month ?d) 1 + (day ?d - 1) = n"
    using utc_day_date_of_day0 [OF modern_year [OF assms(1)]]
      utc_day_shift [of "year ?d" "month ?d" 1 "day ?d - 1"] by simp
  then have "utc_day (year ?d) (month ?d) 1 \<le> n"
    using date_of_day_props(3) [of n] by simp
  moreover have "n < utc_day (year ?d) (month ?d + 1) 1"
    using utc_day_next_month [OF y] date_of_day_props(2,5) [of n] by simp
  ultimately show "a \<le> n" "n < b"
    using assms(2) week_start_is_monday(2,3) [of n]
    by (auto simp: period_days_def Let_def split: if_splits)
qed

lemma period_days_modern:
  assumes "dayFromYear 101 \<le> n" and "period_days ty n = (a, b)"
  shows "dayFromYear 100 + 31 \<le> a"
proof -
  let ?d = "date_of_day n"
  have y: "101 \<le> year ?d" using year_of_day_ge [OF assms(1)] date_of_day_props(1) [of n] by simp
  have "dayFromYear 101 \<le> dayFromYear (year ?d)" using y by (rule dayFromYear_mono)
  also have "\<dots> \<le> utc_day (year ?d) (month ?d) 1"
    using y date_of_day_props(2) [of n]
    by (auto simp: utc_day_def full_year_def month_start_def Let_def)
  finally have "dayFromYear 101 \<le> utc_day (year ?d) (month ?d) 1" .
  moreover have "dayFromYear 101 = dayFromYear 100 + 365" by (simp add: dayFromYear_def)
  moreover have "n - 6 \<le> n - (utc_weekday n + 6) mod 7"
    using pos_mod_bound [of 7 "utc_weekday n + 6"] by simp
  ultimately show ?thesis
    using assms by (auto simp: period_days_def Let_def split: if_splits)
qed

lemma calendar_window_fixed_offset:
  assumes c: "1000 dvd c" "\<bar>c\<bar> \<le> ms_per_day"
    and ty: "ty \<noteq> LIFETIME" "ty \<noteq> FIXED_WINDOW" "ty \<noteq> UNKNOWN_PERIOD"
    and n: "n = (now + c) div ms_per_day" "dayFromYear 101 \<le> n"
    and ab: "period_days ty n = (a, b)"
  shows "aiuQuotaPeriodWindow ty (\<lambda>_. c) now fixed =
    Inr \<lparr>w_start = a * ms_per_day - c, w_end = Some (b * ms_per_day - c)\<rparr>"
proof -
  let ?d = "date_of_day n"
  have mod: "modern_day n" using n(2) by (simp add: modern_day_def dayFromYear_def)
  have "-1 \<le> c div ms_per_day" using c(2) by (auto simp: ms_per_day_def)
  moreover have "dayFromYear 100 + 31 \<le> a" using period_days_modern [OF n(2) ab] .
  moreover have "a \<le> b" using period_days_contains [OF mod ab] by simp
  ultimately have m: "modern_day a" "modern_day (a + c div ms_per_day)"
    "modern_day b" "modern_day (b + c div ms_per_day)"
    by (auto simp: modern_day_def)
  have u: "utc_day (year ?d) (month ?d) (day ?d + k) = n + k" for k
    using utc_day_date_of_day [OF modern_year [OF mod]] .
  have y: "100 \<le> year ?d" using modern_year [OF mod] date_of_day_props(1) [of n] by simp
  have M: "localMidnight (\<lambda>_. c) d = k * ms_per_day - c"
    if "utc_day (year d) (month d) (day d) = k" "modern_day k" "modern_day (k + c div ms_per_day)"
    for d k
    using localMidnight_fixed_offset [OF c(1) that(2,3,1)] .
  have today: "localDate (\<lambda>_. c) now = ?d" by (simp add: localDate_def n(1))
  consider "ty = CALENDAR_DAY" | "ty = CALENDAR_WEEK" | "ty = CALENDAR_MONTH"
    using ty by (cases ty) auto
  then show ?thesis
  proof cases
    case 1
    then have "a = n" "b = n + 1" using ab by (auto simp: period_days_def)
    with 1 show ?thesis
      using m M [OF u [of 0, simplified]] M [OF addDays_utc_day [OF u [of 1]]]
      by (simp add: aiuQuotaPeriodWindow_def today Let_def)
  next
    case 2
    let ?k = "(utc_weekday n + 6) mod 7"
    have ab': "a = n - ?k" "b = a + 7" using ab 2 by (auto simp: period_days_def Let_def)
    have s: "utc_day (year (addDays ?d (- ?k))) (month (addDays ?d (- ?k)))
        (day (addDays ?d (- ?k))) = a"
      by (rule addDays_utc_day) (use u [of "- ?k"] m ab' in simp_all)
    have e: "utc_day (year (addDays (addDays ?d (- ?k)) 7)) (month (addDays (addDays ?d (- ?k)) 7))
        (day (addDays (addDays ?d (- ?k)) 7)) = b"
      by (rule addDays_utc_day) (use s m ab' in \<open>simp_all add: utc_day_shift\<close>)
    show ?thesis
      using 2 M [OF s] M [OF e] m u [of 0]
      by (simp add: aiuQuotaPeriodWindow_def today Let_def)
  next
    case 3
    have ab': "a = utc_day (year ?d) (month ?d) 1" "b = utc_day (year ?d) (month ?d + 1) 1"
      using ab 3 by (auto simp: period_days_def Let_def)
    show ?thesis
      using 3 m M [of "?d\<lparr>day := 1\<rparr>" a] M [of "\<lparr>year = year ?d + 1, month = 1, day = 1\<rparr>" b]
        M [of "\<lparr>year = year ?d, month = month ?d + 1, day = 1\<rparr>" b] utc_day_year_wrap [OF y] ab'
      by (simp add: aiuQuotaPeriodWindow_def today Let_def)
  qed
qed

text \<open>In a zone of constant offset (a whole number of seconds, at most a day either way)
  and from the year 101 on, the window of a calendar period contains the current instant,
  both its ends are local midnights, a day window lasts one day, a week window seven days
  from a Monday, and a month window runs from the first of the current local month to the
  first of the next.
\<close>

theorem calendar_window_contains_now:
  assumes "1000 dvd c" "\<bar>c\<bar> \<le> ms_per_day"
    and "ty \<in> {CALENDAR_DAY, CALENDAR_WEEK, CALENDAR_MONTH}"
    and "dayFromYear 101 \<le> (now + c) div ms_per_day"
  shows "\<exists>a b. aiuQuotaPeriodWindow ty (\<lambda>_. c) now fixed =
      Inr \<lparr>w_start = a * ms_per_day - c, w_end = Some (b * ms_per_day - c)\<rparr> \<and>
    a * ms_per_day - c \<le> now \<and> now < b * ms_per_day - c \<and>
    (ty = CALENDAR_DAY \<longrightarrow> b = a + 1) \<and>
    (ty = CALENDAR_WEEK \<longrightarrow> b = a + 7 \<and> utc_weekday a = 1) \<and>
    (ty = CALENDAR_MONTH \<longrightarrow> (let d = localDate (\<lambda>_. c) now in
       a = utc_day (year d) (month d) 1 \<and> b = utc_day (year d) (month d + 1) 1))"
proof -
  let ?n = "(now + c) div ms_per_day"
  obtain a b where ab: "period_days ty ?n = (a, b)" by fastforce
  have mod: "modern_day ?n" using assms(4) by (simp add: modern_day_def dayFromYear_def)
  have w: "aiuQuotaPeriodWindow ty (\<lambda>_. c) now fixed =
      Inr \<lparr>w_start = a * ms_per_day - c, w_end = Some (b * ms_per_day - c)\<rparr>"
    by (rule calendar_window_fixed_offset [OF assms(1,2) _ _ _ refl assms(4) ab]) (use assms(3) in auto)
  have "a \<le> ?n" "?n + 1 \<le> b" using period_days_contains [OF mod ab] by auto
  then have "a * ms_per_day \<le> ?n * ms_per_day" "(?n + 1) * ms_per_day \<le> b * ms_per_day"
    by (intro mult_right_mono; simp add: ms_per_day_def)+
  then have "a * ms_per_day - c \<le> now" "now < b * ms_per_day - c"
    using day_bounds [OF refl, of now c] by linarith+
  with w ab week_start_is_monday(1) [of ?n] show ?thesis
    by (intro exI [of _ a] exI [of _ b])
      (auto simp: period_days_def localDate_def Let_def split: if_splits)
qed

theorem calendar_window_contains_now_witness:
  "\<exists>a b. aiuQuotaPeriodWindow CALENDAR_WEEK (\<lambda>_. 28800000) 1710000000000 None =
      Inr \<lparr>w_start = a * ms_per_day - 28800000, w_end = Some (b * ms_per_day - 28800000)\<rparr> \<and>
    a * ms_per_day - 28800000 \<le> 1710000000000 \<and> 1710000000000 < b * ms_per_day - 28800000 \<and>
    b = a + 7 \<and> utc_weekday a = 1"
  using calendar_window_contains_now [of 28800000 CALENDAR_WEEK 1710000000000 None]
  by (auto simp: ms_per_day_def dayFromYear_def)

subsection \<open>A midnight the clock skips\<close>

text \<open>
  Some zones west of Greenwich start summer time at midnight (America/Havana, on
  2024-03-10: the clock goes from 00:00 at UTC-5 to 01:00 at UTC-4).
\<close>

definition havana_2024 :: "int \<Rightarrow> int" where
  "havana_2024 t = (if t < 19792 * 86400000 + 5 * 3600000 then - 5 * 3600000 else - 4 * 3600000)"

lemma represented_havana:
  assumes "1700000000000 \<le> t"
  shows "represented havana_2024 t = (t + havana_2024 t) div 1000 * 1000"
proof (rule represented_modern)
  have "1600000000000 \<le> t + havana_2024 t" using assms by (simp add: havana_2024_def)
  then have "1600000000000 div ms_per_day \<le> (t + havana_2024 t) div ms_per_day"
    by (rule zdiv_mono1) (simp add: ms_per_day_def)
  then show "modern_day ((t + havana_2024 t) div ms_per_day)"
    by (simp add: modern_day_def dayFromYear_def ms_per_day_def)
qed

lemma havana_dates:
  "date_of_day 19791 = \<lparr>year = 2024, month = 3, day = 9\<rparr>"
  "date_of_day 19792 = \<lparr>year = 2024, month = 3, day = 10\<rparr>"
  by (simp_all add: date_of_day_def year_of_day_def dayFromYear_def month_of_doy_def leap_year_def Let_def)

lemma havana_utc_days:
  "utc_day 2024 3 9 = 19791" "utc_day 2024 3 10 = 19792"
  by (simp_all add: utc_day_def full_year_def dayFromYear_def leap_year_def)

lemma funpow_4: "(f ^^ 4) x = f (f (f (f x)))"
  by (simp add: eval_nat_numeral)

lemma havana_steps:
  "midnight_step havana_2024 1709942400000 1709942400000 = 1709960400000"
  "midnight_step havana_2024 1709942400000 1709960400000 = 1709960400000"
  "midnight_step havana_2024 1710028800000 1710028800000 = 1710046800000"
  "midnight_step havana_2024 1710028800000 1710046800000 = 1710043200000"
  "midnight_step havana_2024 1710028800000 1710043200000 = 1710046800000"
  by (simp_all add: midnight_step_def represented_havana) (simp_all add: havana_2024_def)

lemma havana_midnights:
  "localMidnight havana_2024 \<lparr>year = 2024, month = 3, day = 9\<rparr> = 1709960400000"
  "localMidnight havana_2024 \<lparr>year = 2024, month = 3, day = 10\<rparr> = 1710043200000"
  by (simp_all add: localMidnight_def havana_utc_days ms_per_day_def funpow_4 havana_steps)

text \<open>Where local midnight does not exist, the four rounds of \<open>localMidnight\<close> do not
  settle: on 2024-03-10 in Havana they stop at 23:00 of the day before.  At 23:30 of
  2024-03-09 the day window computed by \<open>aiuQuotaPeriodWindow\<close> then already ended, half an
  hour earlier, so a quota given that window counts as expired the moment it is renewed.
\<close>

theorem skipped_midnight_window_already_ended:
  "localMidnight havana_2024 \<lparr>year = 2024, month = 3, day = 10\<rparr> =
     19792 * ms_per_day + 4 * 3600000 \<and>
   localDate havana_2024 (19792 * ms_per_day + 4 * 3600000) = \<lparr>year = 2024, month = 3, day = 9\<rparr> \<and>
   (let now = 19792 * ms_per_day + 4 * 3600000 + 1800000 in
    localDate havana_2024 now = \<lparr>year = 2024, month = 3, day = 9\<rparr> \<and>
    aiuQuotaPeriodWindow CALENDAR_DAY havana_2024 now None =
      Inr \<lparr>w_start = 19791 * ms_per_day + 5 * 3600000, w_end = Some (now - 1800000)\<rparr>)"
proof -
  have off: "havana_2024 1710043200000 = - 18000000" "havana_2024 1710045000000 = - 18000000"
    by (simp_all add: havana_2024_def)
  show ?thesis
    by (simp add: ms_per_day_def localDate_def off havana_dates havana_midnights
        aiuQuotaPeriodWindow_def addDays_def havana_utc_days)
qed

end
