(* ===== verification/QuotaStore.thy ===== *)
theory QuotaStore
  imports Calendar
begin

text \<open>
  The tables behind AIU quotas and the operations on them that the API and the worker
  share: \<open>packages/db/prisma/schema/28-application-users.prisma\<close> (rows), the CHECK
  constraints of \<open>20260718000004_current_invariants\<close>, and
  \<open>packages/db/src/aiu-quota-policies.ts\<close> (which policy applies to a user and how it is
  written into the user's quota row).
\<close>

subsection \<open>Rows\<close>

datatype AiuReservationStatus = RESERVED | SETTLED | RELEASED | EXPIRED | UNKNOWN_STATUS

datatype AiuLedgerEntryType =
    GRANT | CONSUME | REFUND | ADJUSTMENT | EXPIRE | RESERVE | RESERVATION_RELEASE
  | SETTLEMENT_DELTA | REVERSAL

datatype AiuQuotaPolicyScope = USER_SCOPE | USER_GROUP_SCOPE | APPLICATION_SCOPE

datatype ApplicationUserStatus = ACTIVE | BLOCKED

type_synonym ident = string

record ApplicationUser =
  u_id :: ident
  u_applicationId :: ident
  u_externalId :: string
  u_name :: "string option"
  u_propertiesJson :: string
  u_status :: ApplicationUserStatus
  u_lastSeenAt :: int

record UserAiuQuota =
  q_id :: ident
  q_applicationId :: ident
  q_userId :: ident
  q_policyId :: "ident option"
  q_periodType :: QuotaPeriodType
  q_periodStart :: int
  q_periodEnd :: "int option"
  q_limit :: int
  q_consumed :: int
  q_reserved :: int
  q_hardLimit :: bool
  q_enabled :: bool
  q_lockVersion :: int

record UserAiuReservation =
  r_id :: ident
  r_applicationId :: ident
  r_userId :: ident
  r_quotaId :: ident
  r_operationId :: string
  r_virtualModel :: string
  r_candidates :: "string list"
  r_estimated :: int
  r_reserved :: int
  r_settled :: int
  r_tokenHash :: string
  r_status :: AiuReservationStatus
  r_expiresAt :: int
  r_settledAt :: "int option"
  r_releasedAt :: "int option"
  r_lockVersion :: int

record UserAiuLedgerEntry =
  l_applicationId :: ident
  l_userId :: ident
  l_quotaId :: ident
  l_entryType :: AiuLedgerEntryType
  l_consumedDelta :: int
  l_reservedDelta :: int
  l_consumedAfter :: int
  l_reservedAfter :: int
  l_limitAfter :: int
  l_sourceEventId :: "string option"
  l_sourceReservationId :: "ident option"
  l_idempotencyKey :: string
  l_reason :: string

text \<open>
  A group evaluation carries the definition version it was computed for and its members;
  \<open>g_evaluations\<close> lists the evaluations of a group, newest first.
\<close>

record GroupEvaluation =
  ev_definitionVersion :: int
  ev_members :: "ident list"

record UserGroup =
  g_id :: ident
  g_definitionVersion :: int
  g_evaluations :: "GroupEvaluation list"

record AiuQuotaPolicy =
  p_id :: ident
  p_applicationId :: ident
  p_scope :: AiuQuotaPolicyScope
  p_userId :: "ident option"
  p_userGroup :: "UserGroup option"
  p_limit :: int
  p_hardLimit :: bool
  p_periodType :: QuotaPeriodType
  p_startsAt :: "int option"
  p_endsAt :: "int option"
  p_priority :: int
  p_updatedAt :: int
  p_enabled :: bool

record AuditRow =
  a_action :: string
  a_objectType :: string
  a_objectId :: ident
  a_reason :: string

record QuotaDb =
  d_users :: "ApplicationUser list"
  d_policies :: "AiuQuotaPolicy list"
  d_quotas :: "UserAiuQuota list"
  d_reservations :: "UserAiuReservation list"
  d_ledger :: "UserAiuLedgerEntry list"
  d_audit :: "AuditRow list"

subsection \<open>Constraints of the schema\<close>

text \<open>\<open>BIGINT\<close> columns hold 64-bit integers; a value outside is refused, never wrapped.\<close>

definition bigint :: "int \<Rightarrow> bool" where
  "bigint x \<longleftrightarrow> - (2 ^ 63) \<le> x \<and> x < 2 ^ 63"

definition user_aiu_quotas_check :: "UserAiuQuota \<Rightarrow> bool" where
  "user_aiu_quotas_check q \<longleftrightarrow>
     0 \<le> q_limit q \<and> 0 \<le> q_consumed q \<and> 0 \<le> q_reserved q \<and>
     bigint (q_limit q) \<and> bigint (q_consumed q) \<and> bigint (q_reserved q) \<and>
     (case q_periodEnd q of None \<Rightarrow> True | Some e \<Rightarrow> q_periodStart q < e)"

definition user_aiu_ledger_snapshots_check :: "UserAiuLedgerEntry \<Rightarrow> bool" where
  "user_aiu_ledger_snapshots_check l \<longleftrightarrow>
     0 \<le> l_consumedAfter l \<and> 0 \<le> l_reservedAfter l \<and> 0 \<le> l_limitAfter l"

definition user_aiu_reservations_amounts_check :: "UserAiuReservation \<Rightarrow> bool" where
  "user_aiu_reservations_amounts_check r \<longleftrightarrow>
     0 \<le> r_estimated r \<and> 0 \<le> r_reserved r \<and> 0 \<le> r_settled r"

text \<open>Writing a changed table back: the constraints are checked on every row.\<close>

definition put_quotas :: "UserAiuQuota list \<Rightarrow> QuotaDb \<Rightarrow> QuotaDb res" where
  "put_quotas qs db =
     (if list_all user_aiu_quotas_check qs then Inr (db\<lparr>d_quotas := qs\<rparr>)
      else Inl (CheckViolation ''user_aiu_quotas''))"

definition put_reservations :: "UserAiuReservation list \<Rightarrow> QuotaDb \<Rightarrow> QuotaDb res" where
  "put_reservations rs db =
     (if list_all user_aiu_reservations_amounts_check rs then Inr (db\<lparr>d_reservations := rs\<rparr>)
      else Inl (CheckViolation ''user_aiu_reservations''))"

definition create_quota :: "UserAiuQuota \<Rightarrow> QuotaDb \<Rightarrow> QuotaDb res" where
  "create_quota q db =
     (if list_ex (\<lambda>x. q_id x = q_id q) (d_quotas db)
       \<or> list_ex (\<lambda>x. q_applicationId x = q_applicationId q \<and> q_userId x = q_userId q) (d_quotas db)
      then Inl (UniqueViolation ''user_aiu_quotas'')
      else put_quotas (d_quotas db @ [q]) db)"

definition create_reservation :: "UserAiuReservation \<Rightarrow> QuotaDb \<Rightarrow> QuotaDb res" where
  "create_reservation r db =
     (if list_ex (\<lambda>x. r_id x = r_id r) (d_reservations db)
       \<or> list_ex (\<lambda>x. r_applicationId x = r_applicationId r \<and> r_userId x = r_userId r
            \<and> r_operationId x = r_operationId r) (d_reservations db)
      then Inl (UniqueViolation ''user_aiu_reservations'')
      else put_reservations (d_reservations db @ [r]) db)"

definition find_ledger :: "ident \<Rightarrow> string \<Rightarrow> QuotaDb \<Rightarrow> UserAiuLedgerEntry option" where
  "find_ledger app key db =
     find_unique (\<lambda>l. l_applicationId l = app \<and> l_idempotencyKey l = key) (d_ledger db)"

definition create_ledger :: "UserAiuLedgerEntry \<Rightarrow> QuotaDb \<Rightarrow> QuotaDb res" where
  "create_ledger l db =
     (if find_ledger (l_applicationId l) (l_idempotencyKey l) db \<noteq> None
      then Inl (UniqueViolation ''user_aiu_ledger_idempotency_key'')
      else if \<not> user_aiu_ledger_snapshots_check l
      then Inl (CheckViolation ''user_aiu_ledger_snapshots_check'')
      else Inr (db\<lparr>d_ledger := d_ledger db @ [l]\<rparr>))"

definition find_quota :: "ident \<Rightarrow> ident \<Rightarrow> QuotaDb \<Rightarrow> UserAiuQuota option" where
  "find_quota app user db =
     find_unique (\<lambda>q. q_applicationId q = app \<and> q_userId q = user) (d_quotas db)"

text \<open>The \<open>quota\<close> relation of a reservation row (\<open>include: { quota: true }\<close>).\<close>

definition quota_of :: "UserAiuReservation \<Rightarrow> QuotaDb \<Rightarrow> UserAiuQuota option" where
  "quota_of r db =
     find_unique (\<lambda>q. q_applicationId q = r_applicationId r \<and> q_id q = r_quotaId r) (d_quotas db)"

text \<open>
  \<open>userAiuQuota.updateMany\<close> guarded by the lock version read before.  The caller gets the
  number of rows changed with the new store.
\<close>

definition lock_update_quota ::
  "ident \<Rightarrow> ident \<Rightarrow> int \<Rightarrow> (UserAiuQuota \<Rightarrow> UserAiuQuota) \<Rightarrow> QuotaDb \<Rightarrow> (QuotaDb \<times> nat) res" where
  "lock_update_quota app qid v g db =
     (let p = (\<lambda>q. q_applicationId q = app \<and> q_id q = qid \<and> q_lockVersion q = v);
          bump = (\<lambda>q. (g q)\<lparr>q_lockVersion := q_lockVersion q + 1\<rparr>)
      in bind_res (put_quotas (update_rows p bump (d_quotas db)) db)
           (\<lambda>db'. Inr (db', count_rows p (d_quotas db))))"

text \<open>The same for one reservation row, with the status it must still have.\<close>

definition lock_update_reservation ::
  "ident \<Rightarrow> ident \<Rightarrow> AiuReservationStatus \<Rightarrow> int \<Rightarrow> (UserAiuReservation \<Rightarrow> UserAiuReservation)
    \<Rightarrow> QuotaDb \<Rightarrow> (QuotaDb \<times> nat) res" where
  "lock_update_reservation app rid st v g db =
     (let p = (\<lambda>r. r_applicationId r = app \<and> r_id r = rid \<and> r_status r = st \<and> r_lockVersion r = v);
          bump = (\<lambda>r. (g r)\<lparr>r_lockVersion := r_lockVersion r + 1\<rparr>)
      in bind_res (put_reservations (update_rows p bump (d_reservations db)) db)
           (\<lambda>db'. Inr (db', count_rows p (d_reservations db))))"

text \<open>Closing every open reservation a filter selects (period renewal and reset).\<close>

definition close_reservations ::
  "(UserAiuReservation \<Rightarrow> bool) \<Rightarrow> AiuReservationStatus \<Rightarrow> int \<Rightarrow> QuotaDb \<Rightarrow> QuotaDb" where
  "close_reservations p st at db =
     db\<lparr>d_reservations := update_rows (\<lambda>r. p r \<and> r_status r = RESERVED)
          (\<lambda>r. r\<lparr>r_status := st, r_releasedAt := Some at, r_lockVersion := r_lockVersion r + 1\<rparr>)
          (d_reservations db)\<rparr>"

subsection \<open>The effective policy\<close>

text \<open>
  The query of \<open>resolveEffectiveAiuQuotaPolicy\<close> returns the enabled candidates ordered by
  priority (highest first), last update (newest first) and id; group policies come with the
  newest evaluation of their group.
\<close>

definition policy_before :: "AiuQuotaPolicy \<Rightarrow> AiuQuotaPolicy \<Rightarrow> bool" where
  "policy_before a b \<longleftrightarrow>
     p_priority b < p_priority a \<or>
     p_priority a = p_priority b \<and>
       (p_updatedAt b < p_updatedAt a \<or>
        p_updatedAt a = p_updatedAt b \<and> p_id a \<le> p_id b)"

fun insert_policy ::
  "AiuQuotaPolicy \<Rightarrow> AiuQuotaPolicy list \<Rightarrow> AiuQuotaPolicy list" where
  "insert_policy p [] = [p]"
| "insert_policy p (x # xs) =
     (if policy_before p x then p # x # xs else x # insert_policy p xs)"

definition order_policies ::
  "AiuQuotaPolicy list \<Rightarrow> AiuQuotaPolicy list" where
  "order_policies ps = foldr insert_policy ps []"

definition candidate_policy :: "ident \<Rightarrow> ident \<Rightarrow> AiuQuotaPolicy \<Rightarrow> bool" where
  "candidate_policy app user p \<longleftrightarrow>
     p_applicationId p = app \<and> p_enabled p \<and>
     (p_scope p = USER_SCOPE \<and> p_userId p = Some user \<or>
      p_scope p = USER_GROUP_SCOPE \<or> p_scope p = APPLICATION_SCOPE)"

definition group_policy_applies :: "ident \<Rightarrow> AiuQuotaPolicy \<Rightarrow> bool" where
  "group_policy_applies user p \<longleftrightarrow>
     p_scope p = USER_GROUP_SCOPE \<and>
     (case p_userGroup p of
        None \<Rightarrow> False
      | Some g \<Rightarrow>
          (case g_evaluations g of
             [] \<Rightarrow> False
           | ev # _ \<Rightarrow> ev_definitionVersion ev = g_definitionVersion g \<and>
               length (take 1 (filter (\<lambda>m. m = user) (ev_members ev))) = 1))"

definition resolveEffectiveAiuQuotaPolicy ::
  "QuotaDb \<Rightarrow> ident \<Rightarrow> ident \<Rightarrow> AiuQuotaPolicy option" where
  "resolveEffectiveAiuQuotaPolicy db app user =
     (let policies = order_policies (filter (candidate_policy app user) (d_policies db))
      in case List.find (\<lambda>p. p_scope p = USER_SCOPE) policies of
           Some direct \<Rightarrow> Some direct
         | None \<Rightarrow>
             (case List.find (group_policy_applies user) policies of
                Some g \<Rightarrow> Some g
              | None \<Rightarrow> List.find (\<lambda>p. p_scope p = APPLICATION_SCOPE) policies))"

subsection \<open>Materialising a policy\<close>

text \<open>
  \<open>materializeEffectiveAiuQuotaPolicy\<close>.  \<open>window\<close> is the caller's window function,
  \<open>quota_id\<close> the id the database generates for a new row, \<open>uuid\<close> the random part of the
  ledger key and \<open>now\<close> the clock reading for \<open>releasedAt\<close>.
\<close>

record materialize_input =
  mi_applicationId :: ident
  mi_userId :: ident
  mi_window :: "AiuQuotaPolicy \<Rightarrow> QuotaPeriodWindowValue res"
  mi_reason :: string
  mi_quota_id :: ident
  mi_uuid :: string
  mi_now :: int

definition grant_entry :: "materialize_input \<Rightarrow> ident \<Rightarrow> string \<Rightarrow> UserAiuLedgerEntry" where
  "grant_entry i quota key =
     \<lparr>l_applicationId = mi_applicationId i, l_userId = mi_userId i, l_quotaId = quota,
      l_entryType = GRANT, l_consumedDelta = 0, l_reservedDelta = 0, l_consumedAfter = 0,
      l_reservedAfter = 0, l_limitAfter = 0, l_sourceEventId = None,
      l_sourceReservationId = None, l_idempotencyKey = key, l_reason = mi_reason i\<rparr>"

definition period_changed ::
  "UserAiuQuota \<Rightarrow> AiuQuotaPolicy \<Rightarrow> QuotaPeriodWindowValue \<Rightarrow> bool" where
  "period_changed current policy window \<longleftrightarrow>
     q_periodType current \<noteq> p_periodType policy \<or>
     p_periodType policy \<noteq> LIFETIME \<and>
       (q_periodStart current \<noteq> w_start window \<or> q_periodEnd current \<noteq> w_end window)"

definition materialize_none ::
  "materialize_input \<Rightarrow> UserAiuQuota option \<Rightarrow> QuotaDb \<Rightarrow> (QuotaDb \<times> UserAiuQuota option) res" where
  "materialize_none i current db =
     (case current of
        None \<Rightarrow> Inr (db, None)
      | Some q \<Rightarrow>
          if q_policyId q = None \<or> \<not> q_enabled q then Inr (db, current)
          else
            (let upd = (\<lambda>x. x\<lparr>q_policyId := None, q_enabled := False,
                               q_lockVersion := q_lockVersion x + 1\<rparr>)
             in bind_res (put_quotas (update_rows (\<lambda>x. q_id x = q_id q) upd (d_quotas db)) db)
                  (\<lambda>db1. bind_res
                     (create_ledger
                        ((grant_entry i (q_id q)
                            (''quota-policy:none:'' @ mi_userId i @ '':'' @ mi_uuid i))
                         \<lparr>l_consumedAfter := q_consumed q, l_reservedAfter := q_reserved q,
                          l_limitAfter := q_limit q\<rparr>) db1)
                     (\<lambda>db2. Inr (db2, Some (upd q))))))"

definition materialize_create ::
  "materialize_input \<Rightarrow> AiuQuotaPolicy \<Rightarrow> QuotaPeriodWindowValue \<Rightarrow> QuotaDb
    \<Rightarrow> (QuotaDb \<times> UserAiuQuota option) res" where
  "materialize_create i policy window db =
     (let created =
        \<lparr>q_id = mi_quota_id i, q_applicationId = mi_applicationId i, q_userId = mi_userId i,
         q_policyId = Some (p_id policy), q_periodType = p_periodType policy,
         q_periodStart = w_start window, q_periodEnd = w_end window, q_limit = p_limit policy,
         q_consumed = 0, q_reserved = 0, q_hardLimit = p_hardLimit policy, q_enabled = True,
         q_lockVersion = 0\<rparr>
      in bind_res (create_quota created db)
           (\<lambda>db1. bind_res
              (create_ledger
                 ((grant_entry i (q_id created)
                     (''quota-policy:'' @ p_id policy @ '':'' @ mi_userId i @ '':'' @ mi_uuid i))
                  \<lparr>l_limitAfter := p_limit policy\<rparr>) db1)
              (\<lambda>db2. Inr (db2, Some created))))"

text \<open>The row written when a policy is applied to an existing quota, and its ledger entry.\<close>

definition materialized ::
  "AiuQuotaPolicy \<Rightarrow> QuotaPeriodWindowValue \<Rightarrow> UserAiuQuota \<Rightarrow> UserAiuQuota \<Rightarrow> UserAiuQuota" where
  "materialized policy window current x =
     (let changed = period_changed current policy window in
      x\<lparr>q_policyId := Some (p_id policy), q_periodType := p_periodType policy,
        q_periodStart := (if changed then w_start window else q_periodStart x),
        q_periodEnd := (if changed then w_end window else q_periodEnd x),
        q_limit := p_limit policy, q_consumed := (if changed then 0 else q_consumed current),
        q_reserved := (if changed then 0 else q_reserved current), q_hardLimit := p_hardLimit policy,
        q_enabled := True, q_lockVersion := q_lockVersion x + 1\<rparr>)"

definition materialize_entry ::
  "materialize_input \<Rightarrow> AiuQuotaPolicy \<Rightarrow> QuotaPeriodWindowValue \<Rightarrow> UserAiuQuota \<Rightarrow> UserAiuLedgerEntry" where
  "materialize_entry i policy window current =
     (let after = materialized policy window current current in
      (grant_entry i (q_id current)
         (''quota-policy:'' @ p_id policy @ '':'' @ mi_userId i @ '':'' @ mi_uuid i))
      \<lparr>l_consumedDelta := q_consumed after - q_consumed current,
       l_reservedDelta := q_reserved after - q_reserved current,
       l_consumedAfter := q_consumed after, l_reservedAfter := q_reserved after,
       l_limitAfter := p_limit policy\<rparr>)"

definition materialize_update ::
  "materialize_input \<Rightarrow> AiuQuotaPolicy \<Rightarrow> QuotaPeriodWindowValue \<Rightarrow> UserAiuQuota \<Rightarrow> QuotaDb
    \<Rightarrow> (QuotaDb \<times> UserAiuQuota option) res" where
  "materialize_update i policy window current db =
     (let changed = period_changed current policy window;
          unchanged =
            (q_policyId current = Some (p_id policy) \<and> q_limit current = p_limit policy \<and>
             q_hardLimit current = p_hardLimit policy \<and> q_enabled current \<and> \<not> changed)
      in if unchanged then Inr (db, Some current)
         else
           (let db0 = (if changed \<and> 0 < q_reserved current
                       then close_reservations
                              (\<lambda>r. r_applicationId r = mi_applicationId i \<and> r_userId r = mi_userId i)
                              RELEASED (mi_now i) db
                       else db);
                upd = materialized policy window current
            in bind_res
                 (put_quotas (update_rows (\<lambda>x. q_id x = q_id current) upd (d_quotas db0)) db0)
                 (\<lambda>db1. bind_res (create_ledger (materialize_entry i policy window current) db1)
                    (\<lambda>db2. Inr (db2, Some (upd current))))))"

definition materializeEffectiveAiuQuotaPolicy ::
  "materialize_input \<Rightarrow> QuotaDb
    \<Rightarrow> (QuotaDb \<times> UserAiuQuota option) res" where
  "materializeEffectiveAiuQuotaPolicy i db =
     (let current = find_quota (mi_applicationId i) (mi_userId i) db
      in case resolveEffectiveAiuQuotaPolicy db (mi_applicationId i) (mi_userId i) of
           None \<Rightarrow> materialize_none i current db
         | Some policy \<Rightarrow>
             bind_res (mi_window i policy)
               (\<lambda>window.
                  case current of
                    None \<Rightarrow> materialize_create i policy window db
                  | Some q \<Rightarrow> materialize_update i policy window q db))"

end
