(* ===== verification/Reservation.thy ===== *)
theory Reservation
  imports QuotaStore
begin

text \<open>
  The reservation API (\<open>apps/api/src/runtime/\<close>): the signed token, the reservation domain
  functions, the three requests of \<open>RuntimeUserReservationService\<close> (create, settle,
  release) and the retry loop around their transactions.

  The cryptographic functions, base64url, JSON and the schema parser of the token are the
  fields of a record \<open>codec\<close>; \<open>clk i\<close> is the \<open>i\<close>-th reading of the clock within one
  request.
\<close>

subsection \<open>The reservation token\<close>

record Claims =
  c_key_version :: string
  c_reservation_id :: ident
  c_application_id :: ident
  c_user_id :: ident
  c_quota_id :: ident
  c_operation_id :: string
  c_virtual_model :: string
  c_candidate_model_ids :: "string list"
  c_reserved_aiu_micros :: int
  c_expires_at :: int

record codec =
  signingKey :: "string option"
  keyVersionSetting :: "string option"
  hmac :: "string \<Rightarrow> string \<Rightarrow> string"
  sha256 :: "string \<Rightarrow> string"
  b64url :: "string \<Rightarrow> string"
  unb64url :: "string \<Rightarrow> string"
  jsonClaims :: "Claims \<Rightarrow> string"
  parseClaims :: "string \<Rightarrow> Claims option"

definition keyVersion :: "codec \<Rightarrow> string" where
  "keyVersion k = (case keyVersionSetting k of None \<Rightarrow> ''current'' | Some v \<Rightarrow> v)"

definition secret :: "codec \<Rightarrow> string res" where
  "secret k = (case signingKey k of
     None \<Rightarrow> Inl (ServiceUnavailable ''AIU reservation signing is not configured'')
   | Some v \<Rightarrow> Inr v)"

definition sign :: "codec \<Rightarrow> Claims \<Rightarrow> string res" where
  "sign k claims =
     (let payload = b64url k (jsonClaims k (claims\<lparr>c_key_version := keyVersion k\<rparr>))
      in bind_res (secret k)
           (\<lambda>key. Inr (''tpur1.'' @ payload @ ''.'' @ b64url k (hmac k key payload))))"

definition verify :: "codec \<Rightarrow> string \<Rightarrow> Claims res" where
  "verify k token =
     (case split_on (CHR ''.'') token of
        [prefix, payload, signature] \<Rightarrow>
          if prefix \<noteq> ''tpur1'' then Inl (Conflict ''Reservation token is invalid'')
          else bind_res (secret k)
            (\<lambda>key.
               if unb64url k signature \<noteq> hmac k key payload
               then Inl (Conflict ''Reservation token is invalid'')
               else (case parseClaims k (unb64url k payload) of
                       None \<Rightarrow> Inl (Conflict ''Reservation token is invalid'')
                     | Some parsed \<Rightarrow>
                         if c_key_version parsed \<noteq> keyVersion k
                         then Inl (Conflict ''Reservation token key is no longer active'')
                         else Inr parsed))
      | _ \<Rightarrow> Inl (Conflict ''Reservation token is invalid''))"

definition token_hash :: "codec \<Rightarrow> string \<Rightarrow> string" where
  "token_hash k token = sha256 k token"

subsection \<open>Domain functions\<close>

definition remainingAiu :: "UserAiuQuota \<Rightarrow> int" where
  "remainingAiu q =
     (let value = q_limit q - q_consumed q - q_reserved q in if 0 < value then value else 0)"

text \<open>
  \<open>reservationClaims\<close>; the key version is filled in by the caller.  Candidates are sorted
  as \<open>Array.prototype.sort\<close> does.
\<close>

definition reservationClaims :: "UserAiuReservation \<Rightarrow> Claims" where
  "reservationClaims row =
     \<lparr>c_key_version = [], c_reservation_id = r_id row, c_application_id = r_applicationId row,
      c_user_id = r_userId row, c_quota_id = r_quotaId row, c_operation_id = r_operationId row,
      c_virtual_model = r_virtualModel row, c_candidate_model_ids = sort (r_candidates row),
      c_reserved_aiu_micros = r_reserved row, c_expires_at = r_expiresAt row\<rparr>"

definition assertReservationTokenLineage ::
  "codec \<Rightarrow> UserAiuReservation \<Rightarrow> Claims \<Rightarrow> string \<Rightarrow> unit res" where
  "assertReservationTokenLineage k row claims token =
     (if token_hash k token \<noteq> r_tokenHash row
       \<or> claims \<noteq> (reservationClaims row)\<lparr>c_key_version := c_key_version claims\<rparr>
      then Inl (Conflict ''Reservation token lineage is invalid'') else Inr ())"

record user_summary =
  s_id :: ident
  s_limit :: "int option"
  s_used :: int
  s_reserved :: int
  s_remaining :: "int option"

definition reservationUserSummary :: "ident \<Rightarrow> UserAiuQuota option \<Rightarrow> user_summary" where
  "reservationUserSummary user quota =
     \<lparr>s_id = user,
      s_limit = map_option q_limit quota,
      s_used = (case quota of None \<Rightarrow> 0 | Some q \<Rightarrow> q_consumed q),
      s_reserved = (case quota of None \<Rightarrow> 0 | Some q \<Rightarrow> q_reserved q),
      s_remaining = map_option remainingAiu quota\<rparr>"

record reservation_ref =
  rr_id :: ident
  rr_token :: string
  rr_reserved :: int
  rr_expires_at :: int

record reservation_result =
  rs_allowed :: bool
  rs_reason :: string
  rs_user :: user_summary
  rs_reservation :: "reservation_ref option"

definition reservationDenied ::
  "ident \<Rightarrow> string \<Rightarrow> UserAiuQuota option \<Rightarrow> reservation_result" where
  "reservationDenied user reason quota =
     \<lparr>rs_allowed = False, rs_reason = reason, rs_user = reservationUserSummary user quota,
      rs_reservation = None\<rparr>"

record transition_result =
  tr_id :: ident
  tr_status :: AiuReservationStatus
  tr_settled :: int
  tr_user :: user_summary

definition reservationTransitionResult ::
  "UserAiuReservation \<Rightarrow> UserAiuQuota \<Rightarrow> transition_result" where
  "reservationTransitionResult row quota =
     \<lparr>tr_id = r_id row, tr_status = r_status row, tr_settled = r_settled row,
      tr_user = reservationUserSummary (r_userId row) (Some quota)\<rparr>"

text \<open>
  \<open>rolloverReservationQuota\<close>: an elapsed period is replaced by the current one, counters
  start at zero and the open reservations of the quota expire.  Its ledger key names the
  period that ended; \<open>toIso\<close> is \<open>Date.toISOString\<close>.
\<close>

definition rollover_entry :: "(int \<Rightarrow> string) \<Rightarrow> ident \<Rightarrow> ident \<Rightarrow> UserAiuQuota \<Rightarrow> int \<Rightarrow> UserAiuLedgerEntry" where
  "rollover_entry toIso app user q ended =
     \<lparr>l_applicationId = app, l_userId = user, l_quotaId = q_id q, l_entryType = EXPIRE,
      l_consumedDelta = - q_consumed q, l_reservedDelta = - q_reserved q,
      l_consumedAfter = 0, l_reservedAfter = 0, l_limitAfter = q_limit q,
      l_sourceEventId = None, l_sourceReservationId = None,
      l_idempotencyKey = ''user-quota:'' @ q_id q @ '':period:'' @ toIso ended,
      l_reason = ''AIU quota period renewed''\<rparr>"

text \<open>The counters and the window of a renewed period, in place of the old ones.\<close>

definition renew_quota :: "QuotaPeriodWindowValue \<Rightarrow> UserAiuQuota \<Rightarrow> UserAiuQuota" where
  "renew_quota window q =
     q\<lparr>q_consumed := 0, q_reserved := 0, q_periodStart := w_start window, q_periodEnd := w_end window\<rparr>"

definition rolloverReservationQuota ::
  "(int \<Rightarrow> string) \<Rightarrow> (int \<Rightarrow> int) \<Rightarrow> (nat \<Rightarrow> int) \<Rightarrow> UserAiuQuota \<Rightarrow> ident \<Rightarrow> ident \<Rightarrow> QuotaDb
    \<Rightarrow> (QuotaDb \<times> UserAiuQuota) res" where
  "rolloverReservationQuota toIso off clk quota user app db =
     (case q_periodEnd quota of
        None \<Rightarrow> Inr (db, quota)
      | Some ended \<Rightarrow>
          if clk 0 < ended then Inr (db, quota)
          else bind_res (aiuQuotaPeriodWindow (q_periodType quota) off (clk 1) None)
            (\<lambda>window.
               if w_end window = None then Inl (Conflict ''A lifetime quota cannot expire'')
               else
                 bind_res (lock_update_quota app (q_id quota) (q_lockVersion quota) (renew_quota window) db)
                       (\<lambda>(db1, n).
                          if n \<noteq> 1 then Inl (RetryableConflict ''User quota changed concurrently'')
                          else
                            (let db2 = close_reservations
                                   (\<lambda>r. r_applicationId r = app \<and> r_quotaId r = q_id quota)
                                   EXPIRED (clk 2) db1
                             in bind_res (create_ledger (rollover_entry toIso app user quota ended) db2)
                                  (\<lambda>db3. Inr (db3, (renew_quota window quota)
                                     \<lparr>q_lockVersion := q_lockVersion quota + 1\<rparr>))))))"

subsection \<open>Creating a reservation\<close>

record VirtualModelRow =
  vm_applicationId :: ident
  vm_name :: string
  vm_enabled :: bool
  vm_targets :: "(ident \<times> bool \<times> bool) list" \<comment> \<open>model id, target enabled, model enabled\<close>

record reservation_request =
  rq_user_id :: string
  rq_display_user :: "string option"
  rq_user_properties :: "string option"
  rq_operation_id :: string
  rq_virtual_model :: string
  rq_candidate_model_ids :: "ident list option"
  rq_estimated :: int

text \<open>What one request reads from its surroundings.\<close>

record request_env =
  e_codec :: codec
  e_iso :: "int \<Rightarrow> string"
  e_offset :: "int \<Rightarrow> int"
  e_ttlSeconds :: int
  e_clk :: "nat \<Rightarrow> int"
  e_user_id :: ident          \<comment> \<open>generated id of a new user row\<close>
  e_reservation_id :: ident   \<comment> \<open>\<open>randomUUID()\<close> of the reservation\<close>
  e_quota_id :: ident         \<comment> \<open>generated id of a new quota row\<close>
  e_uuid :: string            \<comment> \<open>\<open>randomUUID()\<close> of a grant entry\<close>

definition resolveCandidates ::
  "VirtualModelRow list \<Rightarrow> ident \<Rightarrow> reservation_request \<Rightarrow> string list res" where
  "resolveCandidates vms app request =
     (case find_unique (\<lambda>m. vm_applicationId m = app \<and> vm_name m = rq_virtual_model request
              \<and> vm_enabled m) vms of
        None \<Rightarrow> Inl (NotFound ''Virtual model is not available'')
      | Some model \<Rightarrow>
          (let available = remdups (map fst (filter (\<lambda>(_, t, m). t \<and> m) (vm_targets model)));
               requested = (case rq_candidate_model_ids request of
                              None \<Rightarrow> available | Some ids \<Rightarrow> ids)
           in if requested = [] \<or> list_ex (\<lambda>i. i \<notin> set available) requested
              then Inl (Conflict ''Reservation candidates do not belong to the virtual model'')
              else Inr (sort (remdups requested))))"

definition upsert_user :: "request_env \<Rightarrow> ident \<Rightarrow> reservation_request \<Rightarrow> QuotaDb \<Rightarrow> QuotaDb \<times> ApplicationUser" where
  "upsert_user e app request db =
     (let p = (\<lambda>u. u_applicationId u = app \<and> u_externalId u = rq_user_id request)
      in case find_unique p (d_users db) of
           None \<Rightarrow>
             (let u = \<lparr>u_id = e_user_id e, u_applicationId = app, u_externalId = rq_user_id request,
                       u_name = rq_display_user request,
                       u_propertiesJson = (case rq_user_properties request of
                                             None \<Rightarrow> ''{}'' | Some x \<Rightarrow> x),
                       u_status = ACTIVE, u_lastSeenAt = e_clk e 0\<rparr>
              in (db\<lparr>d_users := d_users db @ [u]\<rparr>, u))
         | Some u \<Rightarrow>
             (let g = (\<lambda>x. x\<lparr>u_name := (case rq_display_user request of
                                          None \<Rightarrow> u_name x | Some n \<Rightarrow> Some n),
                              u_propertiesJson := (case rq_user_properties request of
                                          None \<Rightarrow> u_propertiesJson x | Some v \<Rightarrow> v),
                              u_lastSeenAt := e_clk e 0\<rparr>)
              in (db\<lparr>d_users := update_rows p g (d_users db)\<rparr>, g u)))"

definition existing ::
  "codec \<Rightarrow> UserAiuReservation \<Rightarrow> UserAiuQuota \<Rightarrow> reservation_request \<Rightarrow> string list
    \<Rightarrow> reservation_result res" where
  "existing k row quota request candidates =
     (if r_virtualModel row \<noteq> rq_virtual_model request \<or> r_estimated row \<noteq> rq_estimated request
       \<or> sort (r_candidates row) \<noteq> candidates
      then Inl (Conflict ''Operation ID was already used for another reservation'')
      else if r_status row \<noteq> RESERVED
      then Inr (reservationDenied (r_userId row) ''operation_already_closed'' (Some quota))
      else bind_res (sign k (reservationClaims row))
        (\<lambda>token.
           if token_hash k token \<noteq> r_tokenHash row
           then Inl (Conflict ''Reservation token lineage conflict'')
           else Inr \<lparr>rs_allowed = True, rs_reason = ''reserved'',
                     rs_user = reservationUserSummary (r_userId row) (Some quota),
                     rs_reservation = Some \<lparr>rr_id = r_id row, rr_token = token,
                        rr_reserved = r_reserved row, rr_expires_at = r_expiresAt row\<rparr>\<rparr>))"

text \<open>The last part of the transaction: estimate against the rest, then the writes.\<close>

definition new_reservation ::
  "request_env \<Rightarrow> ident \<Rightarrow> ident \<Rightarrow> UserAiuQuota \<Rightarrow> reservation_request \<Rightarrow> string list \<Rightarrow> UserAiuReservation" where
  "new_reservation e app user quota request candidates =
     \<lparr>r_id = e_reservation_id e, r_applicationId = app, r_userId = user, r_quotaId = q_id quota,
      r_operationId = rq_operation_id request, r_virtualModel = rq_virtual_model request,
      r_candidates = candidates, r_estimated = rq_estimated request,
      r_reserved = rq_estimated request, r_settled = 0, r_tokenHash = [], r_status = RESERVED,
      r_expiresAt = e_clk e 5 + e_ttlSeconds e * 1000, r_settledAt = None, r_releasedAt = None,
      r_lockVersion = 0\<rparr>"

definition reserve_entry :: "UserAiuReservation \<Rightarrow> UserAiuQuota \<Rightarrow> UserAiuLedgerEntry" where
  "reserve_entry r q =
     \<lparr>l_applicationId = r_applicationId r, l_userId = r_userId r, l_quotaId = q_id q,
      l_entryType = RESERVE, l_consumedDelta = 0, l_reservedDelta = r_reserved r,
      l_consumedAfter = q_consumed q, l_reservedAfter = q_reserved q + r_reserved r,
      l_limitAfter = q_limit q, l_sourceEventId = None, l_sourceReservationId = Some (r_id r),
      l_idempotencyKey = ''user-reservation:'' @ r_id r @ '':reserve'',
      l_reason = ''AIU reserved before model call''\<rparr>"

definition reserve_new ::
  "request_env \<Rightarrow> ident \<Rightarrow> ident \<Rightarrow> UserAiuQuota \<Rightarrow> reservation_request \<Rightarrow> string list \<Rightarrow> QuotaDb
    \<Rightarrow> (QuotaDb \<times> reservation_result) res" where
  "reserve_new e app user quota request candidates db =
     (let estimate = rq_estimated request in
      if remainingAiu quota < estimate
      then Inr (db, reservationDenied user ''quota_exhausted'' (Some quota))
      else
        (let draft = new_reservation e app user quota request candidates
         in bind_res (sign (e_codec e) (reservationClaims draft))
              (\<lambda>token.
                 let row = draft\<lparr>r_tokenHash := token_hash (e_codec e) token\<rparr>
                 in bind_res (lock_update_quota app (q_id quota) (q_lockVersion quota)
                               (\<lambda>q. q\<lparr>q_reserved := q_reserved q + estimate\<rparr>) db)
                      (\<lambda>(db1, n).
                         if n \<noteq> 1 then Inl (RetryableConflict ''User quota changed concurrently'')
                         else bind_res (create_reservation row db1)
                           (\<lambda>db2. bind_res (create_ledger (reserve_entry row quota) db2)
                              (\<lambda>db3. Inr
                                 (db3\<lparr>d_audit := d_audit db3 @
                                    [\<lparr>a_action = ''runtime.user_aiu.reserve'',
                                      a_objectType = ''application_user'', a_objectId = user,
                                      a_reason = ''Reserved AIU before model call''\<rparr>]\<rparr>,
                                  \<lparr>rs_allowed = True, rs_reason = ''reserved'',
                                   rs_user = reservationUserSummary user
                                     (Some (quota\<lparr>q_reserved := q_reserved quota + estimate\<rparr>)),
                                   rs_reservation = Some \<lparr>rr_id = r_id row, rr_token = token,
                                     rr_reserved = estimate, rr_expires_at = r_expiresAt row\<rparr>\<rparr>)))))))"

definition policy_window :: "request_env \<Rightarrow> AiuQuotaPolicy \<Rightarrow> QuotaPeriodWindowValue res" where
  "policy_window e policy =
     (if p_periodType policy = FIXED_WINDOW
      then (case p_startsAt policy of
              None \<Rightarrow> Inl (TypeErr ''Cannot read properties of null'')
            | Some a \<Rightarrow> Inr \<lparr>w_start = a, w_end = p_endsAt policy\<rparr>)
      else aiuQuotaPeriodWindow (p_periodType policy) (e_offset e) (e_clk e 1) None)"

text \<open>The transaction of \<open>create\<close>, for the user row the upsert returned.\<close>

definition create_tx ::
  "request_env \<Rightarrow> ident \<Rightarrow> ident \<Rightarrow> reservation_request \<Rightarrow> string list \<Rightarrow> QuotaDb
    \<Rightarrow> (QuotaDb \<times> reservation_result) res" where
  "create_tx e app user request candidates db =
     bind_res (materializeEffectiveAiuQuotaPolicy
       \<lparr>mi_applicationId = app, mi_userId = user, mi_window = policy_window e,
        mi_reason = ''Applied the effective AIU quota rule before model access'',
        mi_quota_id = e_quota_id e, mi_uuid = e_uuid e, mi_now = e_clk e 1\<rparr> db)
       (\<lambda>(db1, _).
          case find_unique (\<lambda>u. u_applicationId u = app \<and> u_id u = user) (d_users db1) of
            None \<Rightarrow> Inl (NotFound ''Application user not found'')
          | Some current \<Rightarrow>
              (let quota = find_quota app user db1 in
               if u_status current = BLOCKED
               then Inr (db1, reservationDenied user ''user_blocked'' quota)
               else (case quota of
                  None \<Rightarrow> Inr (db1, \<lparr>rs_allowed = True, rs_reason = ''quota_not_set'',
                             rs_user = reservationUserSummary user None, rs_reservation = None\<rparr>)
                | Some q \<Rightarrow>
                    if \<not> q_enabled q \<or> \<not> q_hardLimit q
                    then Inr (db1, \<lparr>rs_allowed = True, rs_reason = ''quota_observed_only'',
                             rs_user = reservationUserSummary user quota, rs_reservation = None\<rparr>)
                    else if q_periodType q = FIXED_WINDOW
                        \<and> (case q_periodEnd q of None \<Rightarrow> False | Some b \<Rightarrow> b \<le> e_clk e 2)
                    then Inr (db1, reservationDenied user ''quota_period_ended'' quota)
                    else bind_res
                      (rolloverReservationQuota (e_iso e) (e_offset e) (\<lambda>i. e_clk e (2 + i)) q user app db1)
                      (\<lambda>(db2, q2).
                         case find_unique (\<lambda>r. r_applicationId r = app \<and> r_userId r = user
                                \<and> r_operationId r = rq_operation_id request) (d_reservations db2) of
                           Some row \<Rightarrow>
                             (case quota_of row db2 of
                                None \<Rightarrow> Inl (TypeErr ''missing quota relation'')
                              | Some rq \<Rightarrow> bind_res (existing (e_codec e) row rq request candidates)
                                   (\<lambda>r. Inr (db2, r)))
                         | None \<Rightarrow> reserve_new e app user q2 request candidates db2))))"

text \<open>
  \<open>create\<close>: the user row is written before the transaction and stays written when the
  transaction fails, so the new store is returned beside the outcome.
\<close>

definition create_request ::
  "request_env \<Rightarrow> ident option \<Rightarrow> VirtualModelRow list \<Rightarrow> reservation_request \<Rightarrow> QuotaDb
    \<Rightarrow> QuotaDb \<times> reservation_result res" where
  "create_request e context_app vms request db =
     (case context_app of
        None \<Rightarrow> (db, Inl (Forbidden ''An application context is required''))
      | Some app \<Rightarrow>
          (case resolveCandidates vms app request of
             Inl err \<Rightarrow> (db, Inl err)
           | Inr candidates \<Rightarrow>
               (let (db0, user) = upsert_user e app request db in
                if u_status user = BLOCKED
                then (db0, Inr (reservationDenied (u_id user) ''user_blocked'' None))
                else (case create_tx e app (u_id user) request candidates db0 of
                        Inl err \<Rightarrow> (db0, Inl err)
                      | Inr (db1, r) \<Rightarrow> (db1, Inr r)))))"

subsection \<open>Settling and releasing\<close>

datatype transition_action = SettleAction | ReleaseAction

definition transition_entry ::
  "transition_action \<Rightarrow> int \<Rightarrow> string \<Rightarrow> UserAiuReservation \<Rightarrow> UserAiuQuota \<Rightarrow> UserAiuLedgerEntry" where
  "transition_entry act actual reason row quota =
     \<lparr>l_applicationId = r_applicationId row, l_userId = r_userId row, l_quotaId = r_quotaId row,
      l_entryType = (if act = SettleAction then SETTLEMENT_DELTA else RESERVATION_RELEASE),
      l_consumedDelta = (if act = SettleAction then actual else 0),
      l_reservedDelta = - r_reserved row,
      l_consumedAfter = q_consumed quota + (if act = SettleAction then actual else 0),
      l_reservedAfter = q_reserved quota - r_reserved row,
      l_limitAfter = q_limit quota, l_sourceEventId = None,
      l_sourceReservationId = Some (r_id row),
      l_idempotencyKey = ''user-reservation:'' @ r_id row @
         (if act = SettleAction then '':settle'' else '':release''),
      l_reason = reason\<rparr>"

definition transition_tx ::
  "codec \<Rightarrow> ident \<Rightarrow> ident \<Rightarrow> Claims \<Rightarrow> string \<Rightarrow> transition_action \<Rightarrow> int \<Rightarrow> string \<Rightarrow> int \<Rightarrow> QuotaDb
    \<Rightarrow> (QuotaDb \<times> transition_result) res" where
  "transition_tx k app rid verified token act actual reason now db =
     (case find_unique (\<lambda>r. r_id r = rid \<and> r_applicationId r = app) (d_reservations db) of
        None \<Rightarrow> Inl (NotFound ''AIU reservation not found'')
      | Some row \<Rightarrow>
          (case quota_of row db of
             None \<Rightarrow> Inl (TypeErr ''missing quota relation'')
           | Some quota \<Rightarrow>
               bind_res (assertReservationTokenLineage k row verified token)
                 (\<lambda>_.
                    if r_status row = SETTLED then
                      (if act \<noteq> SettleAction \<or> r_settled row \<noteq> actual
                       then Inl (Conflict ''AIU reservation is already settled'')
                       else Inr (db, reservationTransitionResult row quota))
                    else if r_status row \<noteq> RESERVED then
                      (if act = ReleaseAction then Inr (db, reservationTransitionResult row quota)
                       else Inl (Conflict ''AIU reservation is already closed''))
                    else
                      (let close = (\<lambda>r. if act = SettleAction
                             then r\<lparr>r_status := SETTLED, r_settled := actual, r_settledAt := Some now\<rparr>
                             else r\<lparr>r_status := RELEASED, r_releasedAt := Some now\<rparr>)
                       in bind_res
                            (lock_update_reservation app rid RESERVED (r_lockVersion row) close db)
                            (\<lambda>(db1, n).
                               if n \<noteq> 1
                               then Inl (RetryableConflict ''User quota changed concurrently'')
                               else bind_res
                                 (lock_update_quota app (r_quotaId row) (q_lockVersion quota)
                                    (\<lambda>q. q\<lparr>q_reserved := q_reserved q - r_reserved row,
                                           q_consumed := q_consumed q +
                                             (if act = SettleAction then actual else 0)\<rparr>) db1)
                                 (\<lambda>(db2, m).
                                    if m \<noteq> 1
                                    then Inl (RetryableConflict ''User quota changed concurrently'')
                                    else bind_res
                                      (create_ledger (transition_entry act actual reason row quota) db2)
                                      (\<lambda>db3. Inr (db3, reservationTransitionResult
                                         (row\<lparr>r_status := (if act = SettleAction then SETTLED else RELEASED),
                                              r_settled := (if act = SettleAction then actual
                                                            else r_settled row)\<rparr>)
                                         (quota\<lparr>q_consumed := q_consumed quota +
                                                  (if act = SettleAction then actual else 0),
                                                q_reserved := q_reserved quota - r_reserved row\<rparr>)))))))))"

definition transition ::
  "codec \<Rightarrow> ident option \<Rightarrow> ident \<Rightarrow> string \<Rightarrow> transition_action \<Rightarrow> int \<Rightarrow> string \<Rightarrow> int \<Rightarrow> QuotaDb
    \<Rightarrow> (QuotaDb \<times> transition_result) res" where
  "transition k context_app rid token act actual reason now db =
     (case context_app of
        None \<Rightarrow> Inl (Forbidden ''An application context is required'')
      | Some app \<Rightarrow>
          bind_res (verify k token)
            (\<lambda>verified.
               if c_reservation_id verified \<noteq> rid \<or> c_application_id verified \<noteq> app
               then Inl (Conflict ''Reservation token does not match this application or path'')
               else transition_tx k app rid verified token act actual reason now db))"

definition settle ::
  "codec \<Rightarrow> ident option \<Rightarrow> ident \<Rightarrow> string \<Rightarrow> int \<Rightarrow> int \<Rightarrow> QuotaDb
    \<Rightarrow> (QuotaDb \<times> transition_result) res" where
  "settle k app rid token settled now db =
     transition k app rid token SettleAction settled ''AIU reservation settled'' now db"

definition release ::
  "codec \<Rightarrow> ident option \<Rightarrow> ident \<Rightarrow> string \<Rightarrow> string \<Rightarrow> int \<Rightarrow> QuotaDb
    \<Rightarrow> (QuotaDb \<times> transition_result) res" where
  "release k app rid token reason now db = transition k app rid token ReleaseAction 0 reason now db"

subsection \<open>The retry loop\<close>

text \<open>
  \<open>runReservationTransaction\<close>: at most three attempts; \<open>attempt i\<close> is the outcome of the
  \<open>i\<close>-th run of the transaction (each sees the store of its moment).  Only a \<open>P2034\<close>
  failure is retried, and the third failure is thrown.
\<close>

fun attempts_from :: "nat \<Rightarrow> nat \<Rightarrow> (nat \<Rightarrow> 'a res) \<Rightarrow> 'a res" where
  "attempts_from 0 i attempt = Inl (Conflict ''User quota changed; retry the request'')"
| "attempts_from (Suc n) i attempt =
     (case attempt i of
        Inr x \<Rightarrow> Inr x
      | Inl e \<Rightarrow>
          (case e of
             RetryableConflict m \<Rightarrow> if i = 2 then Inl e else attempts_from n (i + 1) attempt
           | _ \<Rightarrow> Inl e))"

definition runReservationTransaction :: "(nat \<Rightarrow> 'a res) \<Rightarrow> 'a res" where
  "runReservationTransaction attempt = attempts_from 3 0 attempt"

end
