(* ===== verification/Settlement.thy ===== *)
theory Settlement
  imports Reservation
begin

text \<open>
  The other writers of the quota tables: the worker's \<open>applyUserAiu\<close>
  (\<open>apps/worker/src/application-usage/user-aiu-settlement.ts\<close>), the sweeper of expired
  reservations (\<open>apps/worker/src/maintenance/user-aiu-reservation-sweeper.ts\<close>) and the
  console's \<open>save\<close> and \<open>reset\<close> of a user's quota (\<open>apps/api/src/users/user-quota.service.ts\<close>).
\<close>

subsection \<open>Rated usage against a reservation or a quota\<close>

datatype aiu_decision = AllowDecision | ObserveDecision | WarnDecision

record UserAiuConsumption =
  uc_consumed :: int
  uc_decision :: aiu_decision

definition usage_entry ::
  "UserAiuReservation \<Rightarrow> UserAiuQuota \<Rightarrow> ident \<Rightarrow> string \<Rightarrow> int \<Rightarrow> int \<Rightarrow> string \<Rightarrow> string \<Rightarrow> UserAiuLedgerEntry" where
  "usage_entry row quota user event consumed reserved suffix reason =
     \<lparr>l_applicationId = r_applicationId row, l_userId = user, l_quotaId = r_quotaId row,
      l_entryType = SETTLEMENT_DELTA, l_consumedDelta = consumed, l_reservedDelta = reserved,
      l_consumedAfter = q_consumed quota + consumed, l_reservedAfter = q_reserved quota + reserved,
      l_limitAfter = q_limit quota, l_sourceEventId = Some event,
      l_sourceReservationId = Some (r_id row),
      l_idempotencyKey = ''user-usage:'' @ event @ suffix, l_reason = reason\<rparr>"

text \<open>
  The two writes guarded by lock versions that both reservation branches make; either
  count other than one aborts the transaction.
\<close>

definition settle_rows ::
  "UserAiuReservation \<Rightarrow> UserAiuQuota \<Rightarrow> (UserAiuReservation \<Rightarrow> UserAiuReservation)
    \<Rightarrow> (UserAiuQuota \<Rightarrow> UserAiuQuota) \<Rightarrow> UserAiuLedgerEntry \<Rightarrow> QuotaDb \<Rightarrow> QuotaDb res" where
  "settle_rows row quota g h entry db =
     bind_res (lock_update_reservation (r_applicationId row) (r_id row) (r_status row) (r_lockVersion row) g db)
       (\<lambda>(db1, n). bind_res
          (lock_update_quota (r_applicationId row) (r_quotaId row) (q_lockVersion quota) h db1)
          (\<lambda>(db2, m). if n \<noteq> 1 \<or> m \<noteq> 1
                then Inl (RetryableConflict ''AIU reservation changed concurrently'')
                else create_ledger entry db2))"

definition applyUserAiu_reserved ::
  "ident \<Rightarrow> ident \<Rightarrow> ident \<Rightarrow> string \<Rightarrow> int option \<Rightarrow> int \<Rightarrow> QuotaDb
    \<Rightarrow> (QuotaDb \<times> UserAiuConsumption option) res" where
  "applyUserAiu_reserved app user reservation event actual now db =
     (case find_unique (\<lambda>r. r_applicationId r = app \<and> r_id r = reservation \<and> r_userId r = user)
            (d_reservations db) of
        None \<Rightarrow> Inl (TypeErr ''Usage event AIU reservation is invalid'')
      | Some row \<Rightarrow>
          (case quota_of row db of
             None \<Rightarrow> Inl (TypeErr ''missing quota relation'')
           | Some quota \<Rightarrow>
               (let settled = (case actual of None \<Rightarrow> 0 | Some a \<Rightarrow> a);
                    done = Some \<lparr>uc_consumed = settled, uc_decision = AllowDecision\<rparr>
                in if r_status row = SETTLED then
                     (if r_settled row = settled then Inr (db, done)
                      else
                        (let delta = settled - r_settled row
                         in bind_res
                              (settle_rows row quota (\<lambda>r. r\<lparr>r_settled := settled\<rparr>)
                                 (\<lambda>q. q\<lparr>q_consumed := q_consumed q + delta\<rparr>)
                                 (usage_entry row quota user event delta 0 '':settle-reconciliation''
                                    ''Reconciled reserved estimate with rated model AIU'') db)
                              (\<lambda>db'. Inr (db', done))))
                   else if r_status row \<noteq> RESERVED
                   then Inl (TypeErr ''Usage event AIU reservation is already closed'')
                   else bind_res
                     (settle_rows row quota
                        (\<lambda>r. r\<lparr>r_status := SETTLED, r_settled := settled, r_settledAt := Some now\<rparr>)
                        (\<lambda>q. q\<lparr>q_reserved := q_reserved q - r_reserved row,
                               q_consumed := q_consumed q + settled\<rparr>)
                        (usage_entry row quota user event settled (- r_reserved row) '':settle''
                           ''Settled model usage with rated AIU'') db)
                     (\<lambda>db'. Inr (db', done)))))"

definition consume_key :: "string \<Rightarrow> string" where
  "consume_key event = ''user-usage:'' @ event @ '':consume''"

definition consume_entry ::
  "ident \<Rightarrow> ident \<Rightarrow> UserAiuQuota \<Rightarrow> string \<Rightarrow> int \<Rightarrow> bool \<Rightarrow> UserAiuLedgerEntry" where
  "consume_entry app user quota event actual warning =
     \<lparr>l_applicationId = app, l_userId = user, l_quotaId = q_id quota, l_entryType = CONSUME,
      l_consumedDelta = actual, l_reservedDelta = 0, l_consumedAfter = q_consumed quota + actual,
      l_reservedAfter = q_reserved quota, l_limitAfter = q_limit quota,
      l_sourceEventId = Some event, l_sourceReservationId = None,
      l_idempotencyKey = consume_key event,
      l_reason = (if warning then ''Soft AIU limit exceeded; model call was allowed''
                  else ''Consumed rated model AIU'')\<rparr>"

definition applyUserAiu ::
  "ident \<Rightarrow> ident \<Rightarrow> ident option \<Rightarrow> string \<Rightarrow> int option \<Rightarrow> int \<Rightarrow> QuotaDb
    \<Rightarrow> (QuotaDb \<times> UserAiuConsumption option) res" where
  "applyUserAiu app user reservationId event actual now db =
     (case reservationId of
        Some reservation \<Rightarrow> applyUserAiu_reserved app user reservation event actual now db
      | None \<Rightarrow>
          (case actual of
             None \<Rightarrow> Inr (db, None)
           | Some a \<Rightarrow>
               (case find_quota app user db of
                  None \<Rightarrow> Inr (db, None)
                | Some quota \<Rightarrow>
                    if \<not> q_enabled quota then Inr (db, None)
                    else
                      (case find_ledger app (consume_key event) db of
                         Some l \<Rightarrow>
                           Inr (db, Some \<lparr>uc_consumed = l_consumedDelta l,
                             uc_decision = (if q_hardLimit quota then AllowDecision
                               else if q_limit quota < l_consumedAfter l then WarnDecision
                               else ObserveDecision)\<rparr>)
                       | None \<Rightarrow>
                           bind_res (lock_update_quota app (q_id quota) (q_lockVersion quota)
                                       (\<lambda>q. q\<lparr>q_consumed := q_consumed q + a\<rparr>) db)
                             (\<lambda>(db1, n).
                                if n \<noteq> 1 then Inl (RetryableConflict ''User AIU quota changed concurrently'')
                                else
                                  (let warning = (\<not> q_hardLimit quota \<and> q_limit quota < q_consumed quota + a)
                                   in bind_res (create_ledger (consume_entry app user quota event a warning) db1)
                                        (\<lambda>db2. Inr (db2, Some \<lparr>uc_consumed = a,
                                           uc_decision = (if warning then WarnDecision
                                                          else ObserveDecision)\<rparr>))))))))"

subsection \<open>Sweeping expired reservations\<close>

definition expire_entry :: "UserAiuReservation \<Rightarrow> UserAiuQuota \<Rightarrow> UserAiuLedgerEntry" where
  "expire_entry row quota =
     \<lparr>l_applicationId = r_applicationId row, l_userId = r_userId row, l_quotaId = r_quotaId row,
      l_entryType = EXPIRE, l_consumedDelta = 0, l_reservedDelta = - r_reserved row,
      l_consumedAfter = q_consumed quota, l_reservedAfter = q_reserved quota - r_reserved row,
      l_limitAfter = q_limit quota, l_sourceEventId = None,
      l_sourceReservationId = Some (r_id row),
      l_idempotencyKey = ''user-reservation:'' @ r_id row @ '':expire'',
      l_reason = ''AIU reservation expired before model usage was settled''\<rparr>"

definition expire_tx :: "ident \<Rightarrow> ident \<Rightarrow> int \<Rightarrow> QuotaDb \<Rightarrow> (QuotaDb \<times> bool) res" where
  "expire_tx app rid now db =
     (case find_unique (\<lambda>r. r_id r = rid \<and> r_applicationId r = app \<and> r_status r = RESERVED
              \<and> r_expiresAt r \<le> now) (d_reservations db) of
        None \<Rightarrow> Inr (db, False)
      | Some row \<Rightarrow>
          (case quota_of row db of
             None \<Rightarrow> Inl (TypeErr ''missing quota relation'')
           | Some quota \<Rightarrow>
               if q_reserved quota - r_reserved row < 0
               then Inl (TypeErr ''User AIU reserved balance is inconsistent'')
               else bind_res
                 (settle_rows row quota
                    (\<lambda>r. r\<lparr>r_status := EXPIRED, r_releasedAt := Some now\<rparr>)
                    (\<lambda>q. q\<lparr>q_reserved := q_reserved q - r_reserved row\<rparr>)
                    (expire_entry row quota) db)
                 (\<lambda>db'. Inr (db', True))))"

definition expiry_before :: "UserAiuReservation \<Rightarrow> UserAiuReservation \<Rightarrow> bool" where
  "expiry_before a b \<longleftrightarrow>
     r_expiresAt a < r_expiresAt b \<or> r_expiresAt a = r_expiresAt b \<and> r_id a \<le> r_id b"

fun insert_expiry :: "UserAiuReservation \<Rightarrow> UserAiuReservation list \<Rightarrow> UserAiuReservation list" where
  "insert_expiry r [] = [r]"
| "insert_expiry r (x # xs) = (if expiry_before r x then r # x # xs else x # insert_expiry r xs)"

definition due_reservations :: "nat \<Rightarrow> int \<Rightarrow> QuotaDb \<Rightarrow> UserAiuReservation list" where
  "due_reservations limit now db =
     take limit (foldr insert_expiry
       (filter (\<lambda>r. r_status r = RESERVED \<and> r_expiresAt r \<le> now) (d_reservations db)) [])"

text \<open>
  \<open>sweep\<close>: the rows are selected once, then expired one transaction each.  A failure of one
  row ends the sweep; the rows before it stay expired.
\<close>

fun sweep_rows ::
  "UserAiuReservation list \<Rightarrow> int \<Rightarrow> QuotaDb \<Rightarrow> nat \<Rightarrow> QuotaDb \<times> nat res" where
  "sweep_rows [] now db swept = (db, Inr swept)"
| "sweep_rows (row # rows) now db swept =
     (case expire_tx (r_applicationId row) (r_id row) now db of
        Inl e \<Rightarrow> (db, Inl e)
      | Inr (db', b) \<Rightarrow> sweep_rows rows now db' (if b then swept + 1 else swept))"

definition sweep :: "nat \<Rightarrow> int \<Rightarrow> QuotaDb \<Rightarrow> QuotaDb \<times> nat res" where
  "sweep limit now db = sweep_rows (due_reservations limit now db) now db 0"

subsection \<open>The console's quota settings\<close>

definition requireUser :: "ident \<Rightarrow> ident \<Rightarrow> QuotaDb \<Rightarrow> ApplicationUser res" where
  "requireUser app user db =
     (case find_unique (\<lambda>u. u_applicationId u = app \<and> u_id u = user) (d_users db) of
        None \<Rightarrow> Inl (NotFound ''User not found'') | Some u \<Rightarrow> Inr u)"

datatype save_period = DayPeriod | WeekPeriod | MonthPeriod | FixedPeriod | LifetimePeriod

definition userQuotaPeriodTypes :: "save_period \<Rightarrow> QuotaPeriodType" where
  "userQuotaPeriodTypes p = (case p of
     DayPeriod \<Rightarrow> CALENDAR_DAY | WeekPeriod \<Rightarrow> CALENDAR_WEEK | MonthPeriod \<Rightarrow> CALENDAR_MONTH
   | FixedPeriod \<Rightarrow> FIXED_WINDOW | LifetimePeriod \<Rightarrow> LIFETIME)"

record save_input =
  si_limit :: int
  si_hard_limit :: bool
  si_period :: save_period
  si_starts_at :: int
  si_ends_at :: int

text \<open>Upsert of the user's own policy; a new row starts at priority 0, enabled.\<close>

definition upsert_user_policy ::
  "ident \<Rightarrow> ident \<Rightarrow> save_input \<Rightarrow> QuotaPeriodWindowValue \<Rightarrow> ident \<Rightarrow> int \<Rightarrow> QuotaDb \<Rightarrow> QuotaDb \<times> AiuQuotaPolicy" where
  "upsert_user_policy app user si window pid now db =
     (let p = (\<lambda>x. p_applicationId x = app \<and> p_userId x = Some user);
          fixed = (si_period si = FixedPeriod);
          g = (\<lambda>x. x\<lparr>p_periodType := userQuotaPeriodTypes (si_period si),
                 p_startsAt := (if fixed then Some (w_start window) else None),
                 p_endsAt := (if fixed then w_end window else None),
                 p_limit := si_limit si, p_hardLimit := si_hard_limit si, p_enabled := True,
                 p_updatedAt := now\<rparr>)
      in case find_unique p (d_policies db) of
           Some x \<Rightarrow> (db\<lparr>d_policies := update_rows p g (d_policies db)\<rparr>, g x)
         | None \<Rightarrow>
             (let x = g \<lparr>p_id = pid, p_applicationId = app, p_scope = USER_SCOPE,
                         p_userId = Some user, p_userGroup = None, p_limit = 0, p_hardLimit = False,
                         p_periodType = LIFETIME, p_startsAt = None, p_endsAt = None,
                         p_priority = 0, p_updatedAt = now, p_enabled = True\<rparr>
              in (db\<lparr>d_policies := d_policies db @ [x]\<rparr>, x)))"

definition save_quota_row ::
  "ident \<Rightarrow> ident \<Rightarrow> save_input \<Rightarrow> QuotaPeriodWindowValue \<Rightarrow> ident \<Rightarrow> ident \<Rightarrow> QuotaDb
    \<Rightarrow> (QuotaDb \<times> UserAiuQuota) res" where
  "save_quota_row app user si window pid qid db =
     (let p = (\<lambda>q. q_applicationId q = app \<and> q_userId q = user);
          g = (\<lambda>q. q\<lparr>q_policyId := Some pid, q_periodType := userQuotaPeriodTypes (si_period si),
                 q_periodStart := w_start window, q_periodEnd := w_end window,
                 q_limit := si_limit si, q_hardLimit := si_hard_limit si,
                 q_lockVersion := q_lockVersion q + 1\<rparr>)
      in case find_quota app user db of
           Some q \<Rightarrow> bind_res (put_quotas (update_rows p g (d_quotas db)) db) (\<lambda>db'. Inr (db', g q))
         | None \<Rightarrow>
             (let q = \<lparr>q_id = qid, q_applicationId = app, q_userId = user, q_policyId = Some pid,
                       q_periodType = userQuotaPeriodTypes (si_period si),
                       q_periodStart = w_start window, q_periodEnd = w_end window,
                       q_limit = si_limit si, q_consumed = 0, q_reserved = 0,
                       q_hardLimit = si_hard_limit si, q_enabled = True, q_lockVersion = 0\<rparr>
              in bind_res (create_quota q db) (\<lambda>db'. Inr (db', q))))"

definition setting_entry ::
  "ident \<Rightarrow> ident \<Rightarrow> UserAiuQuota \<Rightarrow> string \<Rightarrow> UserAiuLedgerEntry" where
  "setting_entry app user saved uuid =
     \<lparr>l_applicationId = app, l_userId = user, l_quotaId = q_id saved, l_entryType = GRANT,
      l_consumedDelta = 0, l_reservedDelta = 0, l_consumedAfter = q_consumed saved,
      l_reservedAfter = q_reserved saved, l_limitAfter = q_limit saved, l_sourceEventId = None,
      l_sourceReservationId = None, l_idempotencyKey = ''quota-setting:'' @ uuid,
      l_reason = ''AIU quota updated''\<rparr>"

definition audit_row :: "string \<Rightarrow> ident \<Rightarrow> string \<Rightarrow> AuditRow" where
  "audit_row action user reason =
     \<lparr>a_action = action, a_objectType = ''application_user'', a_objectId = user, a_reason = reason\<rparr>"

definition save_quota ::
  "ident \<Rightarrow> ident \<Rightarrow> save_input \<Rightarrow> (int \<Rightarrow> int) \<Rightarrow> int \<Rightarrow> ident \<Rightarrow> ident \<Rightarrow> string \<Rightarrow> QuotaDb \<Rightarrow> QuotaDb res" where
  "save_quota app user si off now pid qid uuid db =
     bind_res (requireUser app user db)
       (\<lambda>_. bind_res
          (aiuQuotaPeriodWindow (userQuotaPeriodTypes (si_period si)) off now
             (if si_period si = FixedPeriod then Some (si_starts_at si, si_ends_at si) else None))
          (\<lambda>window.
             let (db1, policy) = upsert_user_policy app user si window pid now db
             in bind_res (save_quota_row app user si window (p_id policy) qid db1)
                  (\<lambda>(db2, saved). bind_res (create_ledger (setting_entry app user saved uuid) db2)
                     (\<lambda>db3. Inr (db3\<lparr>d_audit := d_audit db3 @
                        [audit_row ''user.quota.update'' user ''Updated AIU quota'']\<rparr>)))))"

definition reset_entry ::
  "ident \<Rightarrow> ident \<Rightarrow> UserAiuQuota \<Rightarrow> string \<Rightarrow> string \<Rightarrow> UserAiuLedgerEntry" where
  "reset_entry app user quota uuid reason =
     \<lparr>l_applicationId = app, l_userId = user, l_quotaId = q_id quota, l_entryType = ADJUSTMENT,
      l_consumedDelta = - q_consumed quota, l_reservedDelta = - q_reserved quota,
      l_consumedAfter = 0, l_reservedAfter = 0, l_limitAfter = q_limit quota,
      l_sourceEventId = None, l_sourceReservationId = None,
      l_idempotencyKey = ''quota-reset:'' @ uuid, l_reason = reason\<rparr>"

text \<open>
  \<open>reset\<close> reads the user and the quota before its transaction, so the row it resets from,
  \<open>read\<close>, may be older than the store \<open>db\<close> the transaction runs on; the lock version in
  the update's filter is what ties the two together.
\<close>

definition reset_tx ::
  "ident \<Rightarrow> ident \<Rightarrow> UserAiuQuota \<Rightarrow> (int \<Rightarrow> int) \<Rightarrow> int \<Rightarrow> string \<Rightarrow> string \<Rightarrow> QuotaDb \<Rightarrow> QuotaDb res" where
  "reset_tx app user read off start uuid reason db =
     bind_res (aiuQuotaPeriodWindow (q_periodType read) off start
        (case q_periodEnd read of
           Some b \<Rightarrow> if q_periodType read = FIXED_WINDOW then Some (q_periodStart read, b) else None
         | None \<Rightarrow> None))
       (\<lambda>window.
          let db1 = close_reservations (\<lambda>r. r_applicationId r = app \<and> r_userId r = user)
                      RELEASED start db
          in bind_res (lock_update_quota app (q_id read) (q_lockVersion read) (renew_quota window) db1)
               (\<lambda>(db2, n).
                  if n \<noteq> 1 then Inl (Conflict ''Quota changed; retry the reset'')
                  else bind_res (create_ledger (reset_entry app user read uuid reason) db2)
                    (\<lambda>db3. Inr (db3\<lparr>d_audit := d_audit db3 @
                        [audit_row ''user.quota.reset'' user reason]\<rparr>))))"

definition read_quota_for_reset :: "ident \<Rightarrow> ident \<Rightarrow> QuotaDb \<Rightarrow> UserAiuQuota res" where
  "read_quota_for_reset app user db =
     bind_res (requireUser app user db)
       (\<lambda>_. case find_quota app user db of
              None \<Rightarrow> Inl (NotFound ''User has no AIU quota'') | Some q \<Rightarrow> Inr q)"

subsection \<open>Resetting the quotas of a user group\<close>

text \<open>
  \<open>resetQuotas\<close> of the group actions: one transaction over the members of the last evaluation,
  each with the quota row read before the transaction began.  A member whose row has changed
  since is reported as failed and the loop goes on; its reservations are released by then.
\<close>

text \<open>\<open>setUTCDate\<close> and \<open>setUTCMonth\<close> keep the time of day; a day past the end of the month runs over.\<close>

definition make_day :: "int \<Rightarrow> int \<Rightarrow> int \<Rightarrow> int" where
  "make_day y m d =
     (let ym = y + (m - 1) div 12 in dayFromYear ym + month_start (leap_year ym) ((m - 1) mod 12 + 1) + d - 1)"

definition periodEnd :: "QuotaPeriodType \<Rightarrow> int \<Rightarrow> int option" where
  "periodEnd type start =
     (if type = LIFETIME then None
      else if type = CALENDAR_DAY then Some (start + ms_per_day)
      else if type = CALENDAR_WEEK then Some (start + 7 * ms_per_day)
      else if type = CALENDAR_MONTH
      then (let d = date_of_day (start div ms_per_day) in
            Some (make_day (year d) (month d + 1) (day d) * ms_per_day + start mod ms_per_day))
      else Some start)"

record group_member =
  gm_userId :: ident
  gm_quota :: "UserAiuQuota option"

definition group_reset_entry ::
  "ident \<Rightarrow> string \<Rightarrow> ident \<Rightarrow> UserAiuQuota \<Rightarrow> string \<Rightarrow> string \<Rightarrow> UserAiuLedgerEntry" where
  "group_reset_entry app evaluation user quota uuid reason =
     \<lparr>l_applicationId = app, l_userId = user, l_quotaId = q_id quota, l_entryType = ADJUSTMENT,
      l_consumedDelta = - q_consumed quota, l_reservedDelta = - q_reserved quota,
      l_consumedAfter = 0, l_reservedAfter = 0, l_limitAfter = q_limit quota,
      l_sourceEventId = None, l_sourceReservationId = None,
      l_idempotencyKey = ''group-quota-reset:'' @ evaluation @ '':'' @ user @ '':'' @ uuid, l_reason = reason\<rparr>"

definition reset_member ::
  "ident \<Rightarrow> string \<Rightarrow> (ident \<Rightarrow> string) \<Rightarrow> string \<Rightarrow> int \<Rightarrow> group_member \<Rightarrow> QuotaDb \<times> nat \<times> ident list
    \<Rightarrow> (QuotaDb \<times> nat \<times> ident list) res" where
  "reset_member app evaluation uuids reason now m st =
     (case st of (db, succeeded, failed) \<Rightarrow>
      case gm_quota m of
        None \<Rightarrow> Inr (db, succeeded, failed @ [gm_userId m])
      | Some quota \<Rightarrow>
          (let db1 = close_reservations (\<lambda>r. r_applicationId r = app \<and> r_userId r = gm_userId m) RELEASED now db
           in bind_res (lock_update_quota app (q_id quota) (q_lockVersion quota)
                (renew_quota \<lparr>w_start = now, w_end = periodEnd (q_periodType quota) now\<rparr>) db1)
              (\<lambda>(db2, n).
                 if n \<noteq> 1 then Inr (db2, succeeded, failed @ [gm_userId m])
                 else bind_res (create_ledger (group_reset_entry app evaluation (gm_userId m) quota (uuids (gm_userId m)) reason) db2)
                        (\<lambda>db3. Inr (db3, succeeded + 1, failed)))))"

fun reset_members ::
  "ident \<Rightarrow> string \<Rightarrow> (ident \<Rightarrow> string) \<Rightarrow> string \<Rightarrow> int \<Rightarrow> group_member list \<Rightarrow> QuotaDb \<times> nat \<times> ident list
    \<Rightarrow> (QuotaDb \<times> nat \<times> ident list) res" where
  "reset_members app evaluation uuids reason now [] st = Inr st"
| "reset_members app evaluation uuids reason now (m # ms) st =
     bind_res (reset_member app evaluation uuids reason now m st) (reset_members app evaluation uuids reason now ms)"

definition resetQuotas ::
  "ident \<Rightarrow> string \<Rightarrow> (ident \<Rightarrow> string) \<Rightarrow> string \<Rightarrow> int \<Rightarrow> group_member list \<Rightarrow> QuotaDb \<Rightarrow> (QuotaDb \<times> nat \<times> ident list) res" where
  "resetQuotas app evaluation uuids reason now members db = reset_members app evaluation uuids reason now members (db, 0, [])"

subsection \<open>Rebuilding quotas from the ledger\<close>

text \<open>
  \<open>rebuildQuota\<close> of the reconciliation operations: every quota of the application takes the
  \<open>after\<close> values of its latest ledger entry.  \<open>stamp\<close> is the pair of \<open>created_at\<close> and \<open>id\<close> the
  database gave an entry; the ledger of the model is in the order of the commits.
\<close>

definition latest_entry ::
  "(UserAiuLedgerEntry \<Rightarrow> 's::linorder) \<Rightarrow> ident \<Rightarrow> ident \<Rightarrow> UserAiuLedgerEntry list \<Rightarrow> UserAiuLedgerEntry option" where
  "latest_entry stamp app k ls =
     (case rev (sort_key stamp (filter (\<lambda>l. l_applicationId l = app \<and> l_quotaId l = k) ls)) of [] \<Rightarrow> None | e # _ \<Rightarrow> Some e)"

definition rebuilt :: "UserAiuLedgerEntry option \<Rightarrow> UserAiuQuota \<Rightarrow> UserAiuQuota" where
  "rebuilt entry q = (case entry of
     None \<Rightarrow> q
   | Some e \<Rightarrow> q\<lparr>q_consumed := l_consumedAfter e, q_reserved := l_reservedAfter e, q_limit := l_limitAfter e,
                 q_lockVersion := q_lockVersion q + 1\<rparr>)"

definition rebuildQuota :: "(UserAiuLedgerEntry \<Rightarrow> 's::linorder) \<Rightarrow> ident \<Rightarrow> QuotaDb \<Rightarrow> (QuotaDb \<times> nat) res" where
  "rebuildQuota stamp app db =
     (let latest = (\<lambda>q. latest_entry stamp app (q_id q) (d_ledger db));
          p = (\<lambda>q. q_applicationId q = app \<and> latest q \<noteq> None)
      in bind_res (put_quotas (update_rows p (\<lambda>q. rebuilt (latest q) q) (d_quotas db)) db)
           (\<lambda>db'. Inr (db', count_rows p (d_quotas db))))"

end
