(* ===== verification/QuotaInvariant.thy ===== *)
theory QuotaInvariant
  imports Settlement
begin

text \<open>
  The books balance.  A store is well formed (\<open>quota_inv\<close>) when the schema's keys hold,
  every quota row equals the sum of its ledger postings, and its reserved counter equals
  the open reservations behind it.  Every writer of the tables is one posting to one
  quota, so one lemma about a posting carries all of them.
\<close>

subsection \<open>The invariant\<close>

definition open_amount :: "UserAiuReservation \<Rightarrow> int" where
  "open_amount r = (if r_status r = RESERVED then r_reserved r else 0)"

definition reserved_total :: "ident \<Rightarrow> UserAiuReservation list \<Rightarrow> int" where
  "reserved_total k rs = (\<Sum>r \<leftarrow> rs. if r_quotaId r = k then open_amount r else 0)"

definition consumed_posted :: "ident \<Rightarrow> UserAiuLedgerEntry list \<Rightarrow> int" where
  "consumed_posted k ls = (\<Sum>l \<leftarrow> ls. if l_quotaId l = k then l_consumedDelta l else 0)"

definition reserved_posted :: "ident \<Rightarrow> UserAiuLedgerEntry list \<Rightarrow> int" where
  "reserved_posted k ls = (\<Sum>l \<leftarrow> ls. if l_quotaId l = k then l_reservedDelta l else 0)"

text \<open>The entry of a quota written last.\<close>

definition last_posting :: "ident \<Rightarrow> UserAiuLedgerEntry list \<Rightarrow> UserAiuLedgerEntry option" where
  "last_posting k ls = (case rev (filter (\<lambda>l. l_quotaId l = k) ls) of [] \<Rightarrow> None | e # _ \<Rightarrow> Some e)"

definition entry_shows :: "UserAiuQuota \<Rightarrow> UserAiuLedgerEntry \<Rightarrow> bool" where
  "entry_shows q e \<longleftrightarrow>
     l_applicationId e = q_applicationId q \<and> l_consumedAfter e = q_consumed q \<and> l_reservedAfter e = q_reserved q"

definition keys_ok :: "QuotaDb \<Rightarrow> bool" where
  "keys_ok db \<longleftrightarrow>
     distinct (map q_id (d_quotas db)) \<and>
     distinct (map (\<lambda>q. (q_applicationId q, q_userId q)) (d_quotas db)) \<and>
     distinct (map r_id (d_reservations db)) \<and>
     (\<forall>r \<in> set (d_reservations db). 0 \<le> r_reserved r \<and>
        (\<exists>q \<in> set (d_quotas db). q_id q = r_quotaId r \<and> q_applicationId q = r_applicationId r
           \<and> q_userId q = r_userId r)) \<and>
     (\<forall>l \<in> set (d_ledger db). \<exists>q \<in> set (d_quotas db). q_id q = l_quotaId l)"

definition balanced :: "QuotaDb \<Rightarrow> UserAiuQuota \<Rightarrow> bool" where
  "balanced db q \<longleftrightarrow>
     user_aiu_quotas_check q \<and>
     q_reserved q = reserved_total (q_id q) (d_reservations db) \<and>
     q_consumed q = consumed_posted (q_id q) (d_ledger db) \<and>
     q_reserved q = reserved_posted (q_id q) (d_ledger db) \<and>
     pred_option (entry_shows q) (last_posting (q_id q) (d_ledger db))"

definition quota_inv :: "QuotaDb \<Rightarrow> bool" where
  "quota_inv db \<longleftrightarrow> keys_ok db \<and> (\<forall>q \<in> set (d_quotas db). balanced db q)"

lemmas total_defs = reserved_total_def consumed_posted_def reserved_posted_def

lemma posted_append [simp]:
  "consumed_posted k (ls @ [e]) = consumed_posted k ls + (if l_quotaId e = k then l_consumedDelta e else 0)"
  "reserved_posted k (ls @ [e]) = reserved_posted k ls + (if l_quotaId e = k then l_reservedDelta e else 0)"
  by (simp_all add: total_defs)

lemma last_posting_append [simp]:
  "last_posting k (ls @ [e]) = (if l_quotaId e = k then Some e else last_posting k ls)"
  by (simp add: last_posting_def)

lemma reserved_total_append [simp]:
  "reserved_total k (rs @ [r]) = reserved_total k rs + (if r_quotaId r = k then open_amount r else 0)"
  by (simp add: total_defs)

lemma posted_no_entry:
  "\<forall>l \<in> set ls. l_quotaId l \<noteq> k \<Longrightarrow> consumed_posted k ls = 0 \<and> reserved_posted k ls = 0"
  by (induction ls) (auto simp: total_defs)

lemma reserved_total_none:
  "\<forall>r \<in> set rs. r_quotaId r \<noteq> k \<Longrightarrow> reserved_total k rs = 0"
  by (induction rs) (auto simp: total_defs)

lemma reserved_total_nonneg:
  "\<forall>r \<in> set rs. 0 \<le> r_reserved r \<Longrightarrow> 0 \<le> reserved_total k rs"
  unfolding reserved_total_def by (rule sum_list_nonneg) (auto simp: open_amount_def)

lemma reserved_total_ge:
  assumes "\<forall>r \<in> set rs. 0 \<le> r_reserved r" and "r \<in> set rs" and "r_status r = RESERVED"
  shows "r_reserved r \<le> reserved_total (r_quotaId r) rs"
  using sum_list_if_mem [of rs "\<lambda>x. if r_quotaId x = r_quotaId r then open_amount x else 0" r] assms
  by (auto simp: reserved_total_def open_amount_def)

subsection \<open>What a posting may do\<close>

text \<open>
  \<open>posting db q g rs e db'\<close>: the one row \<open>q\<close> is rewritten by \<open>g\<close>, the reservations become
  \<open>rs\<close>, the entry \<open>e\<close> is appended, and the three changes agree with one another.
\<close>

definition posting ::
  "QuotaDb \<Rightarrow> UserAiuQuota \<Rightarrow> (UserAiuQuota \<Rightarrow> UserAiuQuota) \<Rightarrow> UserAiuReservation list
    \<Rightarrow> UserAiuLedgerEntry \<Rightarrow> QuotaDb \<Rightarrow> bool" where
  "posting db q g rs e db' \<longleftrightarrow>
     q \<in> set (d_quotas db) \<and>
     q_id (g q) = q_id q \<and> q_applicationId (g q) = q_applicationId q \<and> q_userId (g q) = q_userId q \<and>
     d_quotas db' = update_rows (\<lambda>x. q_id x = q_id q) g (d_quotas db) \<and>
     list_all user_aiu_quotas_check (d_quotas db') \<and>
     d_reservations db' = rs \<and> d_ledger db' = d_ledger db @ [e] \<and>
     l_quotaId e = q_id q \<and>
     l_consumedDelta e = q_consumed (g q) - q_consumed q \<and>
     l_reservedDelta e = q_reserved (g q) - q_reserved q \<and> entry_shows (g q) e"

definition reservations_follow ::
  "QuotaDb \<Rightarrow> UserAiuQuota \<Rightarrow> UserAiuReservation list \<Rightarrow> int \<Rightarrow> bool" where
  "reservations_follow db q rs change \<longleftrightarrow>
     distinct (map r_id rs) \<and>
     (\<forall>r \<in> set rs. 0 \<le> r_reserved r \<and>
        (\<exists>x \<in> set (d_quotas db). q_id x = r_quotaId r \<and> q_applicationId x = r_applicationId r
           \<and> q_userId x = r_userId r)) \<and>
     reserved_total (q_id q) rs = reserved_total (q_id q) (d_reservations db) + change \<and>
     (\<forall>k. k \<noteq> q_id q \<longrightarrow> reserved_total k rs = reserved_total k (d_reservations db))"

lemma posting_inv:
  assumes inv: "quota_inv db" and post: "posting db q g rs e db'"
    and rs: "reservations_follow db q rs (q_reserved (g q) - q_reserved q)"
  shows "quota_inv db'"
proof -
  let ?u = "\<lambda>x. if q_id x = q_id q then g x else x"
  have keys: "keys_ok db" using inv by (simp add: quota_inv_def)
  have uniq: "x = q" if "x \<in> set (d_quotas db)" "q_id x = q_id q" for x
    using keys that post distinct_map_inj by (fastforce simp: keys_ok_def posting_def)
  have qs: "d_quotas db' = map ?u (d_quotas db)"
    using post by (simp add: posting_def update_rows_def)
  have frame: "q_id (?u x) = q_id x" "q_applicationId (?u x) = q_applicationId x"
    "q_userId (?u x) = q_userId x" if "x \<in> set (d_quotas db)" for x
    using uniq [OF that] post by (auto simp: posting_def)
  have ids: "map q_id (d_quotas db') = map q_id (d_quotas db)"
    "map (\<lambda>x. (q_applicationId x, q_userId x)) (d_quotas db') =
     map (\<lambda>x. (q_applicationId x, q_userId x)) (d_quotas db)"
    using frame unfolding qs by auto
  have mem: "\<exists>y \<in> set (d_quotas db'). q_id y = q_id x \<and> q_applicationId y = q_applicationId x
      \<and> q_userId y = q_userId x" if "x \<in> set (d_quotas db)" for x
    by (rule bexI [of _ "?u x"]) (use that frame [OF that] in \<open>simp_all add: qs\<close>)
  have rs': "d_reservations db' = rs" and ls': "d_ledger db' = d_ledger db @ [e]"
    and e: "l_quotaId e = q_id q" "q \<in> set (d_quotas db)"
    using post by (auto simp: posting_def)
  have fkr: "\<exists>y \<in> set (d_quotas db'). q_id y = r_quotaId r \<and> q_applicationId y = r_applicationId r
      \<and> q_userId y = r_userId r" if "r \<in> set rs" for r
  proof -
    from rs that obtain x where "x \<in> set (d_quotas db)" "q_id x = r_quotaId r"
      "q_applicationId x = r_applicationId r" "q_userId x = r_userId r"
      unfolding reservations_follow_def by auto
    with mem [of x] show ?thesis by auto
  qed
  have fkl: "\<exists>y \<in> set (d_quotas db'). q_id y = l_quotaId l" if "l \<in> set (d_ledger db')" for l
  proof -
    from that keys e obtain x where "x \<in> set (d_quotas db)" "q_id x = l_quotaId l"
      unfolding ls' keys_ok_def by fastforce
    with mem [of x] show ?thesis by auto
  qed
  have k': "keys_ok db'"
    unfolding keys_ok_def ids rs'
    using keys fkr fkl rs by (simp add: keys_ok_def reservations_follow_def)
  have "balanced db' y" if "y \<in> set (d_quotas db')" for y
  proof -
    from that obtain x where x: "x \<in> set (d_quotas db)" "y = ?u x" unfolding qs by auto
    have bal: "balanced db x" using inv x by (simp add: quota_inv_def)
    have chk: "user_aiu_quotas_check y" using post that by (auto simp: posting_def list_all_iff)
    show ?thesis
    proof (cases "q_id x = q_id q")
      case True
      with uniq x have "x = q" "y = g q" by auto
      with bal chk rs post show ?thesis
        by (auto simp: balanced_def posting_def reservations_follow_def)
    next
      case False
      with x bal chk rs post e show ?thesis
        by (auto simp: balanced_def posting_def reservations_follow_def)
    qed
  qed
  with k' show ?thesis by (simp add: quota_inv_def)
qed

subsection \<open>The guarded updates as postings\<close>

lemma put_quotas_Inr [simp]:
  "put_quotas qs db = Inr db' \<longleftrightarrow> list_all user_aiu_quotas_check qs \<and> db' = db\<lparr>d_quotas := qs\<rparr>"
  by (auto simp: put_quotas_def)

lemma put_reservations_Inr [simp]:
  "put_reservations rs db = Inr db' \<longleftrightarrow>
    list_all user_aiu_reservations_amounts_check rs \<and> db' = db\<lparr>d_reservations := rs\<rparr>"
  by (auto simp: put_reservations_def)

lemma create_ledger_Inr:
  "create_ledger l db = Inr db' \<longleftrightarrow>
    find_ledger (l_applicationId l) (l_idempotencyKey l) db = None \<and>
    user_aiu_ledger_snapshots_check l \<and> db' = db\<lparr>d_ledger := d_ledger db @ [l]\<rparr>"
  by (auto simp: create_ledger_def)

lemma quota_unique:
  "keys_ok db \<Longrightarrow> x \<in> set (d_quotas db) \<Longrightarrow> y \<in> set (d_quotas db) \<Longrightarrow> q_id x = q_id y \<Longrightarrow> x = y"
  unfolding keys_ok_def using distinct_map_inj by metis

lemma quota_unique_user:
  "keys_ok db \<Longrightarrow> x \<in> set (d_quotas db) \<Longrightarrow> y \<in> set (d_quotas db) \<Longrightarrow>
    q_applicationId x = q_applicationId y \<Longrightarrow> q_userId x = q_userId y \<Longrightarrow> x = y"
  by (rule distinct_map_inj [of "\<lambda>q. (q_applicationId q, q_userId q)" "d_quotas db"])
    (auto simp: keys_ok_def)

lemma reservation_unique:
  "keys_ok db \<Longrightarrow> x \<in> set (d_reservations db) \<Longrightarrow> y \<in> set (d_reservations db) \<Longrightarrow> r_id x = r_id y \<Longrightarrow> x = y"
  unfolding keys_ok_def using distinct_map_inj by metis

lemma find_quota_SomeD:
  "find_quota app user db = Some q \<Longrightarrow>
    q \<in> set (d_quotas db) \<and> q_applicationId q = app \<and> q_userId q = user"
  unfolding find_quota_def by (drule find_unique_SomeD) simp

lemma quota_of_SomeD:
  assumes "quota_of r db = Some q"
  shows "q \<in> set (d_quotas db)" and "q_id q = r_quotaId r" and "q_applicationId q = r_applicationId r"
  using assms unfolding quota_of_def by (auto dest: find_unique_SomeD)

text \<open>
  An update guarded by a lock version that changed one row rewrote exactly the row with
  that id, and the row still had the version read.
\<close>

lemma lock_update_quota_one:
  assumes keys: "distinct (map q_id (d_quotas db))" and upd: "lock_update_quota app qid v g db = Inr (db', 1)"
  obtains q where "q \<in> set (d_quotas db)" "q_id q = qid" "q_applicationId q = app"
    "q_lockVersion q = v"
    "db' = db\<lparr>d_quotas := update_rows (\<lambda>x. q_id x = qid)
       (\<lambda>x. (g x)\<lparr>q_lockVersion := q_lockVersion x + 1\<rparr>) (d_quotas db)\<rparr>"
    "list_all user_aiu_quotas_check (d_quotas db')"
proof -
  let ?p = "\<lambda>q. q_applicationId q = app \<and> q_id q = qid \<and> q_lockVersion q = v"
  have one: "count_rows ?p (d_quotas db) = 1"
    using upd by (auto simp: lock_update_quota_def Let_def)
  then obtain q where q: "q \<in> set (d_quotas db)" "?p q"
    using count_rows_oneD by blast
  have same: "?p x \<longleftrightarrow> q_id x = qid" if "x \<in> set (d_quotas db)" for x
    using distinct_map_inj [OF keys that q(1)] q(2) by auto
  have "update_rows ?p g' (d_quotas db) = update_rows (\<lambda>x. q_id x = qid) g' (d_quotas db)" for g'
    using same by (rule update_rows_cong)
  with that q upd show ?thesis
    by (auto simp: lock_update_quota_def Let_def)
qed

lemma lock_update_reservation_one:
  assumes keys: "keys_ok db" and row: "row \<in> set (d_reservations db)" "r_id row = rid"
    and upd: "lock_update_reservation app rid st v g db = Inr (db', 1)"
  shows "r_applicationId row = app" "r_status row = st" "r_lockVersion row = v"
    and "db' = db\<lparr>d_reservations := update_rows (\<lambda>x. r_id x = rid)
       (\<lambda>x. (g x)\<lparr>r_lockVersion := r_lockVersion x + 1\<rparr>) (d_reservations db)\<rparr>"
proof -
  let ?p = "\<lambda>r. r_applicationId r = app \<and> r_id r = rid \<and> r_status r = st \<and> r_lockVersion r = v"
  have one: "count_rows ?p (d_reservations db) = 1"
    using upd by (auto simp: lock_update_reservation_def Let_def)
  then obtain q where q: "q \<in> set (d_reservations db)" "?p q"
    using count_rows_oneD by blast
  with reservation_unique [OF keys _ row(1)] row have [simp]: "q = row" by auto
  show "r_applicationId row = app" "r_status row = st" "r_lockVersion row = v" using q by auto
  have same: "?p x \<longleftrightarrow> r_id x = rid" if "x \<in> set (d_reservations db)" for x
    using reservation_unique [OF keys that row(1)] row q(2) by auto
  have "update_rows ?p g' (d_reservations db) = update_rows (\<lambda>x. r_id x = rid) g' (d_reservations db)" for g'
    using same by (rule update_rows_cong)
  with upd show "db' = db\<lparr>d_reservations := update_rows (\<lambda>x. r_id x = rid)
       (\<lambda>x. (g x)\<lparr>r_lockVersion := r_lockVersion x + 1\<rparr>) (d_reservations db)\<rparr>"
    by (auto simp: lock_update_reservation_def Let_def)
qed

subsection \<open>How the reservations of a quota may change\<close>

lemma reservations_follow_same:
  "keys_ok db \<Longrightarrow> reservations_follow db q (d_reservations db) 0"
  by (auto simp: reservations_follow_def keys_ok_def)

lemma reservations_follow_update:
  assumes keys: "keys_ok db" and row: "row \<in> set (d_reservations db)" "r_quotaId row = q_id q"
    and frame: "r_id (g row) = r_id row" "r_quotaId (g row) = r_quotaId row"
      "r_applicationId (g row) = r_applicationId row" "r_userId (g row) = r_userId row"
      "0 \<le> r_reserved (g row)"
  shows "reservations_follow db q (update_rows (\<lambda>x. r_id x = r_id row) g (d_reservations db))
    (open_amount (g row) - open_amount row)"
proof -
  let ?rs = "d_reservations db" and ?p = "\<lambda>x. r_id x = r_id row"
  have uniq: "x = row" if "x \<in> set ?rs" "r_id x = r_id row" for x
    using reservation_unique [OF keys that(1) row(1) that(2)] .
  have one: "filter ?p ?rs = [row]"
    by (rule filter_key_singleton [where k = r_id]) (use keys row in \<open>auto simp: keys_ok_def\<close>)
  have sums: "reserved_total k (update_rows ?p g ?rs) =
      reserved_total k ?rs + (if q_id q = k then open_amount (g row) - open_amount row else 0)" for k
    unfolding reserved_total_def sum_update_rows one using row frame by simp
  have "map r_id (update_rows ?p g ?rs) = map r_id ?rs"
    using uniq frame by (auto simp: update_rows_def)
  moreover have "0 \<le> r_reserved r \<and> (\<exists>x \<in> set (d_quotas db). q_id x = r_quotaId r
      \<and> q_applicationId x = r_applicationId r \<and> q_userId x = r_userId r)"
    if r: "r \<in> set (update_rows ?p g ?rs)" for r
  proof -
    obtain x where x: "x \<in> set ?rs" "r = (if r_id x = r_id row then g x else x)"
      using r by (auto simp: set_update_rows)
    then have "r_quotaId r = r_quotaId x" "r_applicationId r = r_applicationId x"
      "r_userId r = r_userId x" using uniq [OF x(1)] frame by auto
    moreover have "0 \<le> r_reserved r" using x uniq [OF x(1)] frame keys by (auto simp: keys_ok_def)
    ultimately show ?thesis using keys x(1) by (auto simp: keys_ok_def)
  qed
  ultimately show ?thesis
    using keys sums by (auto simp: reservations_follow_def keys_ok_def)
qed

lemma reservations_follow_new:
  assumes keys: "keys_ok db" and q: "q \<in> set (d_quotas db)" and fresh: "r_id r \<notin> r_id ` set (d_reservations db)"
    and r: "r_quotaId r = q_id q" "r_applicationId r = q_applicationId q" "r_userId r = q_userId q"
      "0 \<le> r_reserved r"
  shows "reservations_follow db q (d_reservations db @ [r]) (open_amount r)"
  using assms by (auto simp: reservations_follow_def keys_ok_def)

lemma reservations_follow_close:
  assumes keys: "keys_ok db" and q: "q \<in> set (d_quotas db)" and st: "st \<noteq> RESERVED"
    and sel: "\<And>r. r \<in> set (d_reservations db) \<Longrightarrow> p r \<longleftrightarrow> r_quotaId r = q_id q"
  shows "reservations_follow db q (d_reservations (close_reservations p st at db))
    (- reserved_total (q_id q) (d_reservations db))"
proof -
  let ?g = "\<lambda>r. r\<lparr>r_status := st, r_releasedAt := Some at, r_lockVersion := r_lockVersion r + 1\<rparr>"
  let ?rs = "d_reservations db" and ?p = "\<lambda>r. p r \<and> r_status r = RESERVED"
  have new: "d_reservations (close_reservations p st at db) = update_rows ?p ?g ?rs"
    by (simp add: close_reservations_def)
  have sums: "reserved_total k (update_rows ?p ?g rs) =
      (if k = q_id q then 0 else reserved_total k rs)" if "set rs \<subseteq> set ?rs" for k rs
    using that st
  proof (induction rs)
    case (Cons r rs)
    with sel [of r] show ?case by (auto simp: reserved_total_def open_amount_def)
  qed (simp add: reserved_total_def)
  have "map r_id (update_rows ?p ?g ?rs) = map r_id ?rs"
    by (rule map_update_rows_frame) simp
  then show ?thesis
    using keys sums [of ?rs] unfolding new by (auto simp: reservations_follow_def keys_ok_def set_update_rows)
qed

lemma quota_of_reservation:
  assumes "keys_ok db" and "r \<in> set (d_reservations db)" and "quota_of r db = Some q"
  shows "q_userId q = r_userId r"
proof -
  obtain x where "x \<in> set (d_quotas db)" "q_id x = r_quotaId r" "q_userId x = r_userId r"
    using assms(1,2) by (auto simp: keys_ok_def)
  with quota_of_SomeD [OF assms(3)] quota_unique [OF assms(1)] show ?thesis by metis
qed

lemma owner_iff_quota:
  assumes "keys_ok db" and "q \<in> set (d_quotas db)" and "r \<in> set (d_reservations db)"
  shows "r_applicationId r = q_applicationId q \<and> r_userId r = q_userId q \<longleftrightarrow> r_quotaId r = q_id q"
proof -
  obtain x where "x \<in> set (d_quotas db)" "q_id x = r_quotaId r" "q_applicationId x = r_applicationId r"
    "q_userId x = r_userId r"
    using assms(1,3) by (auto simp: keys_ok_def)
  with assms(1,2) quota_unique quota_unique_user show ?thesis by metis
qed

subsection \<open>Every writer keeps the books balanced\<close>

lemma quota_inv_keys: "quota_inv db \<Longrightarrow> keys_ok db"
  by (simp add: quota_inv_def)

text \<open>Stores that agree on the three tables are equally well formed.\<close>

lemma quota_inv_cong:
  "d_quotas db' = d_quotas db \<Longrightarrow> d_reservations db' = d_reservations db \<Longrightarrow>
    d_ledger db' = d_ledger db \<Longrightarrow> quota_inv db' = quota_inv db"
  by (simp add: quota_inv_def keys_ok_def balanced_def)

lemma open_amount_lock [simp]: "open_amount (r\<lparr>r_lockVersion := v\<rparr>) = open_amount r"
  by (simp add: open_amount_def)

lemma guarded_posting_inv:
  assumes inv: "quota_inv db" and q: "q \<in> set (d_quotas db)" and same: "d_quotas db1 = d_quotas db"
    and upd: "lock_update_quota app (q_id q) v h db1 = Inr (db2, 1)"
    and db3: "d_quotas db3 = d_quotas db2" "d_reservations db3 = rs" "d_ledger db3 = d_ledger db @ [e]"
    and rs: "reservations_follow db q rs (q_reserved (h q) - q_reserved q)"
    and h: "q_id (h q) = q_id q" "q_applicationId (h q) = q_applicationId q" "q_userId (h q) = q_userId q"
    and e: "l_quotaId e = q_id q" "l_consumedDelta e = q_consumed (h q) - q_consumed q"
      "l_reservedDelta e = q_reserved (h q) - q_reserved q" "entry_shows (h q) e"
  shows "quota_inv db3" and "q_lockVersion q = v" and "q_applicationId q = app"
proof -
  have keys: "keys_ok db" using inv by (rule quota_inv_keys)
  have d: "distinct (map q_id (d_quotas db1))" using keys same by (simp add: keys_ok_def)
  obtain q' where q': "q' \<in> set (d_quotas db1)" "q_id q' = q_id q" "q_applicationId q' = app"
    "q_lockVersion q' = v"
    and db2: "db2 = db1\<lparr>d_quotas := update_rows (\<lambda>x. q_id x = q_id q)
       (\<lambda>x. (h x)\<lparr>q_lockVersion := q_lockVersion x + 1\<rparr>) (d_quotas db1)\<rparr>"
    and chk: "list_all user_aiu_quotas_check (d_quotas db2)"
    by (rule lock_update_quota_one [OF d upd])
  have "q' = q" using quota_unique [OF keys _ q] q' same by auto
  with q' show "q_lockVersion q = v" "q_applicationId q = app" by auto
  have "posting db q (\<lambda>x. (h x)\<lparr>q_lockVersion := q_lockVersion x + 1\<rparr>) rs e db3"
    using q h e db3 db2 chk same by (simp add: posting_def entry_shows_def)
  then show "quota_inv db3" using posting_inv [OF inv] rs by simp
qed

lemma settle_rows_inv:
  assumes inv: "quota_inv db" and row: "row \<in> set (d_reservations db)" and quota: "quota_of row db = Some quota"
    and run: "settle_rows row quota g h e db = Inr db'"
    and g: "r_id (g row) = r_id row" "r_quotaId (g row) = r_quotaId row"
      "r_applicationId (g row) = r_applicationId row" "r_userId (g row) = r_userId row"
      "r_reserved (g row) = r_reserved row"
    and h: "q_id (h quota) = q_id quota" "q_applicationId (h quota) = q_applicationId quota"
      "q_userId (h quota) = q_userId quota"
      "q_reserved (h quota) - q_reserved quota = open_amount (g row) - open_amount row"
    and e: "l_quotaId e = q_id quota" "l_consumedDelta e = q_consumed (h quota) - q_consumed quota"
      "l_reservedDelta e = q_reserved (h quota) - q_reserved quota" "entry_shows (h quota) e"
  shows "quota_inv db'"
proof -
  let ?g = "\<lambda>x. (g x)\<lparr>r_lockVersion := r_lockVersion x + 1\<rparr>"
  note keys = quota_inv_keys [OF inv]
  note q = quota_of_SomeD [OF quota]
  obtain db1 db2 where
    u1: "lock_update_reservation (r_applicationId row) (r_id row) (r_status row) (r_lockVersion row) g db = Inr (db1, 1)"
    and u2: "lock_update_quota (r_applicationId row) (q_id quota) (q_lockVersion quota) h db1 = Inr (db2, 1)"
    and led: "create_ledger e db2 = Inr db'"
    using run q(2) by (auto simp: settle_rows_def split: if_splits)
  have db1: "db1 = db\<lparr>d_reservations := update_rows (\<lambda>x. r_id x = r_id row) ?g (d_reservations db)\<rparr>"
    using lock_update_reservation_one [OF keys row refl u1] by blast
  have db2: "d_reservations db2 = d_reservations db1" "d_ledger db2 = d_ledger db1"
    using u2 by (auto simp: lock_update_quota_def Let_def)
  have nn: "0 \<le> r_reserved row" using keys row by (auto simp: keys_ok_def)
  have rs: "reservations_follow db quota (d_reservations db1) (q_reserved (h quota) - q_reserved quota)"
    unfolding h(4) db1
    using reservations_follow_update [OF keys row, of quota ?g] q g nn by simp
  show ?thesis
    by (rule guarded_posting_inv(1) [OF inv q(1) _ u2 _ _ _ rs h(1,2,3) e])
      (use led db1 db2 in \<open>auto simp: create_ledger_Inr\<close>)
qed

lemma applyUserAiu_reserved_inv:
  assumes inv: "quota_inv db" and run: "applyUserAiu_reserved app user rid event actual now db = Inr (db', c)"
  shows "quota_inv db'"
proof -
  obtain row where row: "find_unique (\<lambda>r. r_applicationId r = app \<and> r_id r = rid \<and> r_userId r = user)
      (d_reservations db) = Some row"
    using run by (auto simp: applyUserAiu_reserved_def split: option.splits)
  obtain quota where quota: "quota_of row db = Some quota"
    using run row by (auto simp: applyUserAiu_reserved_def split: option.splits)
  have mem: "row \<in> set (d_reservations db)" using find_unique_SomeD [OF row] by simp
  note q = quota_of_SomeD [OF quota]
  consider (same) "db' = db"
    | (reconcile) settled delta key reason where "r_status row = SETTLED"
        "settle_rows row quota (\<lambda>r. r\<lparr>r_settled := settled\<rparr>) (\<lambda>q. q\<lparr>q_consumed := q_consumed q + delta\<rparr>)
          (usage_entry row quota user event delta 0 key reason) db = Inr db'"
    | (settle) settled key reason where "r_status row = RESERVED"
        "settle_rows row quota
          (\<lambda>r. r\<lparr>r_status := SETTLED, r_settled := settled, r_settledAt := Some now\<rparr>)
          (\<lambda>q. q\<lparr>q_reserved := q_reserved q - r_reserved row, q_consumed := q_consumed q + settled\<rparr>)
          (usage_entry row quota user event settled (- r_reserved row) key reason) db = Inr db'"
    using run row quota by (auto simp: applyUserAiu_reserved_def Let_def split: if_splits)
  then show ?thesis
  proof cases
    case same
    with inv show ?thesis by simp
  next
    case reconcile
    from settle_rows_inv [OF inv mem quota reconcile(2)] show ?thesis
      using reconcile(1) by (simp add: open_amount_def usage_entry_def entry_shows_def q)
  next
    case settle
    from settle_rows_inv [OF inv mem quota settle(2)] show ?thesis
      using settle(1) by (simp add: open_amount_def usage_entry_def entry_shows_def q)
  qed
qed

lemma applyUserAiu_inv:
  assumes inv: "quota_inv db" and run: "applyUserAiu app user rid event actual now db = Inr (db', c)"
  shows "quota_inv db'"
proof (cases rid)
  case (Some r)
  with run show ?thesis by (auto simp: applyUserAiu_def intro: applyUserAiu_reserved_inv [OF inv])
next
  case None
  show ?thesis
  proof (cases "db' = db")
    case True
    with inv show ?thesis by simp
  next
    case False
    then obtain a quota db1 w where quota: "find_quota app user db = Some quota"
      and upd: "lock_update_quota app (q_id quota) (q_lockVersion quota)
        (\<lambda>q. q\<lparr>q_consumed := q_consumed q + a\<rparr>) db = Inr (db1, 1)"
      and led: "create_ledger (consume_entry app user quota event a w) db1 = Inr db'"
      using run None by (auto simp: applyUserAiu_def Let_def split: option.splits if_splits)
    note q = find_quota_SomeD [OF quota, THEN conjunct1]
    have db1: "d_reservations db1 = d_reservations db" "d_ledger db1 = d_ledger db"
      using upd by (auto simp: lock_update_quota_def Let_def)
    show ?thesis
      by (rule guarded_posting_inv(1) [OF inv q refl upd, of db' "d_reservations db" "consume_entry app user quota event a w"])
        (use led db1 reservations_follow_same [OF quota_inv_keys [OF inv]] find_quota_SomeD [OF quota] in
          \<open>auto simp: create_ledger_Inr consume_entry_def entry_shows_def\<close>)
  qed
qed

lemma expire_tx_inv:
  assumes inv: "quota_inv db" and run: "expire_tx app rid now db = Inr (db', b)"
  shows "quota_inv db'"
proof -
  let ?p = "\<lambda>r. r_id r = rid \<and> r_applicationId r = app \<and> r_status r = RESERVED \<and> r_expiresAt r \<le> now"
  show ?thesis
  proof (cases "find_unique ?p (d_reservations db)")
    case None
    with run inv show ?thesis by (auto simp: expire_tx_def)
  next
    case (Some row)
    then have mem: "row \<in> set (d_reservations db)" "r_status row = RESERVED"
      using find_unique_SomeD [OF Some] by auto
    from run Some obtain quota where quota: "quota_of row db = Some quota"
      by (auto simp: expire_tx_def split: option.splits)
    with run Some have "settle_rows row quota (\<lambda>r. r\<lparr>r_status := EXPIRED, r_releasedAt := Some now\<rparr>)
        (\<lambda>q. q\<lparr>q_reserved := q_reserved q - r_reserved row\<rparr>) (expire_entry row quota) db = Inr db'"
      by (auto simp: expire_tx_def split: if_splits)
    from settle_rows_inv [OF inv mem(1) quota this] show ?thesis
      using mem(2) by (simp add: open_amount_def expire_entry_def entry_shows_def quota_of_SomeD [OF quota])
  qed
qed

lemma transition_tx_inv:
  assumes inv: "quota_inv db" and run: "transition_tx k app rid verified token act actual reason now db = Inr (db', t)"
  shows "quota_inv db'"
proof -
  obtain row quota where row: "find_unique (\<lambda>r. r_id r = rid \<and> r_applicationId r = app) (d_reservations db) = Some row"
    and quota: "quota_of row db = Some quota"
    using run by (auto simp: transition_tx_def split: option.splits)
  have mem: "row \<in> set (d_reservations db)" and rid: "r_id row = rid" "r_applicationId row = app"
    using find_unique_SomeD [OF row] by auto
  note q = quota_of_SomeD [OF quota] and keys = quota_inv_keys [OF inv]
  let ?close = "\<lambda>r. if act = SettleAction
      then r\<lparr>r_status := SETTLED, r_settled := actual, r_settledAt := Some now\<rparr>
      else r\<lparr>r_status := RELEASED, r_releasedAt := Some now\<rparr>"
  let ?h = "\<lambda>q. q\<lparr>q_reserved := q_reserved q - r_reserved row,
      q_consumed := q_consumed q + (if act = SettleAction then actual else 0)\<rparr>"
  consider (same) "db' = db"
    | (close) db1 db2 where "r_status row = RESERVED"
      "lock_update_reservation app rid RESERVED (r_lockVersion row) ?close db = Inr (db1, 1)"
      "lock_update_quota app (q_id quota) (q_lockVersion quota) ?h db1 = Inr (db2, 1)"
      "create_ledger (transition_entry act actual reason row quota) db2 = Inr db'"
    using run row quota q(2) by (auto simp: transition_tx_def split: if_splits)
  then show ?thesis
  proof cases
    case same
    with inv show ?thesis by simp
  next
    case close
    have "settle_rows row quota ?close ?h (transition_entry act actual reason row quota) db = Inr db'"
      using close rid q(2) by (simp add: settle_rows_def)
    from settle_rows_inv [OF inv mem quota this] show ?thesis
      using close(1) by (simp add: open_amount_def transition_entry_def entry_shows_def q)
  qed
qed

lemma transition_inv:
  assumes "quota_inv db" and "transition k app rid token act actual reason now db = Inr (db', t)"
  shows "quota_inv db'"
  using assms by (auto simp: transition_def split: option.splits if_splits intro: transition_tx_inv)

lemma reserve_new_inv:
  assumes inv: "quota_inv db" and q: "q \<in> set (d_quotas db)" and own: "q_applicationId q = app" "q_userId q = user"
    and run: "reserve_new e app user q request candidates db = Inr (db', r)"
  shows "quota_inv db'"
proof (cases "remainingAiu q < rq_estimated request")
  case True
  with run inv show ?thesis by (auto simp: reserve_new_def Let_def)
next
  case False
  let ?h = "\<lambda>x. x\<lparr>q_reserved := q_reserved x + rq_estimated request\<rparr>"
  from False run obtain token where "sign (e_codec e) (reservationClaims (new_reservation e app user q request candidates)) = Inr token"
    by (auto simp: reserve_new_def Let_def)
  define row where "row = (new_reservation e app user q request candidates)\<lparr>r_tokenHash := token_hash (e_codec e) token\<rparr>"
  have row: "r_id row = e_reservation_id e" "r_quotaId row = q_id q" "r_applicationId row = app" "r_userId row = user"
      "r_reserved row = rq_estimated request" "open_amount row = rq_estimated request"
    by (simp_all add: row_def new_reservation_def open_amount_def)
  obtain db1 db2 db3 where
    u: "lock_update_quota app (q_id q) (q_lockVersion q) ?h db = Inr (db1, 1)"
    and c: "create_reservation row db1 = Inr db2"
    and l: "create_ledger (reserve_entry row q) db2 = Inr db3"
    and d: "d_quotas db' = d_quotas db3" "d_reservations db' = d_reservations db3" "d_ledger db' = d_ledger db3"
    using False run \<open>sign _ _ = _\<close> by (auto simp: reserve_new_def Let_def row_def split: if_splits)
  have db1: "d_reservations db1 = d_reservations db" "d_ledger db1 = d_ledger db"
    using u by (auto simp: lock_update_quota_def Let_def)
  have db2: "db2 = db1\<lparr>d_reservations := d_reservations db @ [row]\<rparr>"
    and fresh: "r_id row \<notin> r_id ` set (d_reservations db)" and nn: "0 \<le> r_reserved row"
    using c db1 by (auto simp: create_reservation_def list_ex_iff user_aiu_reservations_amounts_check_def split: if_splits)
  have rs: "reservations_follow db q (d_reservations db @ [row]) (q_reserved (?h q) - q_reserved q)"
    using reservations_follow_new [OF quota_inv_keys [OF inv] q fresh] row own nn by simp
  show ?thesis
    by (rule guarded_posting_inv(1) [OF inv q refl u _ _ _ rs, of _ "reserve_entry row q"])
      (use l d db1 db2 row own in \<open>auto simp: create_ledger_Inr reserve_entry_def entry_shows_def\<close>)
qed

lemma rollover_inv:
  assumes inv: "quota_inv db" and q: "q \<in> set (d_quotas db)" and own: "q_applicationId q = app" "q_userId q = user"
    and run: "rolloverReservationQuota toIso off clk q user app db = Inr (db', q')"
  shows "quota_inv db' \<and> q' \<in> set (d_quotas db') \<and> q_applicationId q' = app \<and> q_userId q' = user"
proof (cases "case q_periodEnd q of None \<Rightarrow> True | Some ended \<Rightarrow> clk 0 < ended")
  case True
  with run have "db' = db" "q' = q"
    by (auto simp: rolloverReservationQuota_def split: option.splits)
  with inv q own show ?thesis by simp
next
  case False
  then obtain ended where ended: "q_periodEnd q = Some ended" "\<not> clk 0 < ended"
    by (auto split: option.splits)
  from run [unfolded rolloverReservationQuota_def ended] obtain window db1 db2 where
    u: "lock_update_quota app (q_id q) (q_lockVersion q)
      (renew_quota window) db = Inr (db1, 1)"
    and db2: "db2 = close_reservations (\<lambda>r. r_applicationId r = app \<and> r_quotaId r = q_id q) EXPIRED (clk 2) db1"
    and l: "create_ledger (rollover_entry toIso app user q ended) db2 = Inr db'"
    and q': "q' = (renew_quota window q)\<lparr>q_lockVersion := q_lockVersion q + 1\<rparr>"
    using ended(2) by (auto simp: Let_def split: if_splits)
  note keys = quota_inv_keys [OF inv]
  have db1: "d_reservations db1 = d_reservations db" "d_ledger db1 = d_ledger db"
    using u by (auto simp: lock_update_quota_def Let_def)
  have bal: "q_reserved q = reserved_total (q_id q) (d_reservations db)"
    using inv q by (simp add: quota_inv_def balanced_def)
  have rdb2: "d_reservations db2 = d_reservations
      (close_reservations (\<lambda>r. r_applicationId r = app \<and> r_quotaId r = q_id q) EXPIRED (clk 2) db)"
    using db1 db2 by (simp add: close_reservations_def)
  have rs: "reservations_follow db q (d_reservations db2) (q_reserved (renew_quota window q) - q_reserved q)"
    using reservations_follow_close [OF keys q, of EXPIRED "\<lambda>r. r_applicationId r = app \<and> r_quotaId r = q_id q" "clk 2"]
      owner_iff_quota [OF keys q] own bal unfolding rdb2 by (fastforce simp: renew_quota_def)
  have inv': "quota_inv db'"
    by (rule guarded_posting_inv(1) [OF inv q refl u _ _ _ rs, of _ "rollover_entry toIso app user q ended"])
      (use l db1 db2 own in \<open>auto simp: create_ledger_Inr rollover_entry_def renew_quota_def close_reservations_def entry_shows_def\<close>)
  obtain x where "db1 = db\<lparr>d_quotas := update_rows (\<lambda>x. q_id x = q_id q)
       (\<lambda>x. (renew_quota window x)\<lparr>q_lockVersion := q_lockVersion x + 1\<rparr>) (d_quotas db)\<rparr>"
    using lock_update_quota_one [OF _ u] keys by (auto simp: keys_ok_def)
  then have "q' \<in> set (d_quotas db')"
    using l db2 q q' by (auto simp: create_ledger_Inr close_reservations_def set_update_rows)
  with inv' own q' show ?thesis by (simp add: renew_quota_def)
qed

lemma new_quota_inv:
  assumes inv: "quota_inv db" and c: "create_quota q db = Inr db1" and l: "create_ledger e db1 = Inr db2"
    and q: "q_consumed q = 0" "q_reserved q = 0"
    and e: "l_quotaId e = q_id q" "l_consumedDelta e = 0" "l_reservedDelta e = 0" "entry_shows q e"
  shows "quota_inv db2"
proof -
  note keys = quota_inv_keys [OF inv]
  have db1: "db1 = db\<lparr>d_quotas := d_quotas db @ [q]\<rparr>" and chk: "user_aiu_quotas_check q"
    and fresh: "q_id q \<notin> q_id ` set (d_quotas db)"
      "(q_applicationId q, q_userId q) \<notin> (\<lambda>q. (q_applicationId q, q_userId q)) ` set (d_quotas db)"
    using c by (auto simp: create_quota_def list_ex_iff split: if_splits)
  have db2: "db2 = db1\<lparr>d_ledger := d_ledger db @ [e]\<rparr>" using l db1 by (auto simp: create_ledger_Inr)
  have no_r: "\<forall>r \<in> set (d_reservations db). r_quotaId r \<noteq> q_id q"
    and no_l: "\<forall>l \<in> set (d_ledger db). l_quotaId l \<noteq> q_id q"
    using keys fresh(1) unfolding keys_ok_def by (metis image_eqI)+
  have "keys_ok db2" using keys fresh e by (auto simp: keys_ok_def db1 db2)
  moreover have "balanced db2 q"
    using chk q e reserved_total_none [OF no_r] posted_no_entry [OF no_l]
    by (simp add: balanced_def db1 db2)
  moreover have "balanced db2 x" if "x \<in> set (d_quotas db)" for x
    using inv that e fresh(1) by (auto simp: quota_inv_def balanced_def db1 db2)
  ultimately show ?thesis by (auto simp: quota_inv_def db1 db2)
qed

lemma materialize_none_inv:
  assumes inv: "quota_inv db"
    and cur: "\<And>q. current = Some q \<Longrightarrow> q \<in> set (d_quotas db) \<and> q_applicationId q = mi_applicationId i"
    and run: "materialize_none i current db = Inr (db', r)"
  shows "quota_inv db'"
proof (cases "db' = db")
  case False
  then obtain q where q: "current = Some q" and go: "q_policyId q \<noteq> None" "q_enabled q"
    using run by (auto simp: materialize_none_def split: option.splits if_splits)
  let ?g = "\<lambda>x. x\<lparr>q_policyId := None, q_enabled := False, q_lockVersion := q_lockVersion x + 1\<rparr>"
  let ?e = "(grant_entry i (q_id q) (''quota-policy:none:'' @ mi_userId i @ '':'' @ mi_uuid i))
      \<lparr>l_consumedAfter := q_consumed q, l_reservedAfter := q_reserved q, l_limitAfter := q_limit q\<rparr>"
  have post: "posting db q ?g (d_reservations db) ?e db'"
    using run go cur [OF q] unfolding q materialize_none_def
    by (auto simp: Let_def create_ledger_Inr posting_def grant_entry_def entry_shows_def)
  show ?thesis
    using posting_inv [OF inv post] reservations_follow_same [OF quota_inv_keys [OF inv]] by simp
qed (use inv in simp)

lemma materialize_create_inv:
  assumes "quota_inv db" and "materialize_create i policy window db = Inr (db', r)"
  shows "quota_inv db'"
  using assms(2) by (auto simp: materialize_create_def Let_def grant_entry_def entry_shows_def intro: new_quota_inv [OF assms(1)])

lemma materialize_update_cases:
  assumes "materialize_update i policy window q db = Inr (db', r)"
  obtains "db' = db" "r = Some q"
  | "d_quotas db' = update_rows (\<lambda>x. q_id x = q_id q) (materialized policy window q) (d_quotas db)"
      "list_all user_aiu_quotas_check (d_quotas db')"
      "r = Some (materialized policy window q q)"
      "d_users db' = d_users db" "d_policies db' = d_policies db"
      "d_reservations db' = (if period_changed q policy window \<and> 0 < q_reserved q
         then d_reservations (close_reservations
           (\<lambda>r. r_applicationId r = mi_applicationId i \<and> r_userId r = mi_userId i) RELEASED (mi_now i) db)
         else d_reservations db)"
      "d_ledger db' = d_ledger db @ [materialize_entry i policy window q]"
  using assms unfolding materialize_update_def
  by (auto simp: Let_def create_ledger_Inr close_reservations_def split: if_splits)

lemma materialize_update_inv:
  assumes inv: "quota_inv db" and q: "q \<in> set (d_quotas db)"
    and own: "q_applicationId q = mi_applicationId i" "q_userId q = mi_userId i"
    and run: "materialize_update i policy window q db = Inr (db', r)"
  shows "quota_inv db'"
  using run
proof (cases rule: materialize_update_cases)
  case 1
  with inv show ?thesis by simp
next
  case 2
  note keys = quota_inv_keys [OF inv]
  let ?m = "materialized policy window q"
  have post: "posting db q ?m (d_reservations db') (materialize_entry i policy window q) db'"
    using 2 q own by (simp add: posting_def materialize_entry_def grant_entry_def materialized_def Let_def entry_shows_def)
  have bal: "q_reserved q = reserved_total (q_id q) (d_reservations db)"
    using inv q by (simp add: quota_inv_def balanced_def)
  have "user_aiu_quotas_check q" using inv q by (simp add: quota_inv_def balanced_def)
  then have nn: "0 \<le> q_reserved q" by (simp add: user_aiu_quotas_check_def)
  have "reservations_follow db q (d_reservations db') (q_reserved (?m q) - q_reserved q)"
  proof (cases "period_changed q policy window \<and> 0 < q_reserved q")
    case True
    let ?p = "\<lambda>r. r_applicationId r = mi_applicationId i \<and> r_userId r = mi_userId i"
    have "reservations_follow db q (d_reservations (close_reservations ?p RELEASED (mi_now i) db))
        (- reserved_total (q_id q) (d_reservations db))"
      by (rule reservations_follow_close [OF keys q]) (use owner_iff_quota [OF keys q] own in auto)
    with True 2(6) bal show ?thesis by (simp add: materialized_def Let_def)
  next
    case False
    with 2(6) nn reservations_follow_same [OF keys, of q] show ?thesis
      by (auto simp: materialized_def Let_def)
  qed
  then show ?thesis by (rule posting_inv [OF inv post])
qed

lemma materialize_inv:
  assumes inv: "quota_inv db" and run: "materializeEffectiveAiuQuotaPolicy i db = Inr (db', r)"
  shows "quota_inv db'"
proof -
  have cur: "q \<in> set (d_quotas db) \<and> q_applicationId q = mi_applicationId i \<and> q_userId q = mi_userId i"
    if "find_quota (mi_applicationId i) (mi_userId i) db = Some q" for q
    using find_quota_SomeD [OF that] by simp
  note body = run [unfolded materializeEffectiveAiuQuotaPolicy_def Let_def]
  show ?thesis
  proof (cases "resolveEffectiveAiuQuotaPolicy db (mi_applicationId i) (mi_userId i)")
    case None
    then show ?thesis using body cur by (auto intro: materialize_none_inv [OF inv])
  next
    case (Some policy)
    then obtain window where "mi_window i policy = Inr window" using body by auto
    with Some body show ?thesis
      by (cases "find_quota (mi_applicationId i) (mi_userId i) db")
        (auto dest: cur intro: materialize_create_inv [OF inv] materialize_update_inv [OF inv])
  qed
qed

lemma create_tx_inv:
  assumes inv: "quota_inv db" and run: "create_tx e app user request candidates db = Inr (db', r)"
  shows "quota_inv db'"
proof -
  obtain db1 m where mat: "materializeEffectiveAiuQuotaPolicy
       \<lparr>mi_applicationId = app, mi_userId = user, mi_window = policy_window e,
        mi_reason = ''Applied the effective AIU quota rule before model access'',
        mi_quota_id = e_quota_id e, mi_uuid = e_uuid e, mi_now = e_clk e 1\<rparr> db = Inr (db1, m)"
    using run by (auto simp: create_tx_def)
  have inv1: "quota_inv db1" by (rule materialize_inv [OF inv mat])
  note body = run [unfolded create_tx_def mat, simplified]
  show ?thesis
  proof (cases "db' = db1")
    case True
    with inv1 show ?thesis by simp
  next
    case False
    with body obtain q db2 q2 where q: "find_quota app user db1 = Some q"
      and roll: "rolloverReservationQuota (e_iso e) (e_offset e) (\<lambda>i. e_clk e (2 + i)) q user app db1 = Inr (db2, q2)"
      and rest: "db' = db2 \<or> reserve_new e app user q2 request candidates db2 = Inr (db', r)"
      by (auto simp: Let_def split: option.splits if_splits)
    have "quota_inv db2 \<and> q2 \<in> set (d_quotas db2) \<and> q_applicationId q2 = app \<and> q_userId q2 = user"
      using rollover_inv [OF inv1 _ _ _ roll] find_quota_SomeD [OF q] by simp
    with rest reserve_new_inv show ?thesis by blast
  qed
qed

lemma create_request_inv:
  assumes inv: "quota_inv db" and run: "create_request e app vms request db = (db', r)"
  shows "quota_inv db'"
proof -
  have up: "quota_inv db0" if "upsert_user e a request db = (db0, u)" for a db0 u
    using that inv quota_inv_cong [of db0 db]
    by (auto simp: upsert_user_def Let_def split: option.splits)
  show ?thesis
    using run inv up unfolding create_request_def Let_def
    by (auto split: option.splits sum.splits prod.splits if_splits intro: create_tx_inv)
qed

lemma save_quota_inv:
  assumes inv: "quota_inv db" and run: "save_quota app user si off now pid qid uuid db = Inr db'"
  shows "quota_inv db'"
proof -
  obtain window policy db1 db2 db3 saved where
    up: "upsert_user_policy app user si window pid now db = (db1, policy)"
    and sv: "save_quota_row app user si window (p_id policy) qid db1 = Inr (db2, saved)"
    and l: "create_ledger (setting_entry app user saved uuid) db2 = Inr db3"
    and d: "d_quotas db' = d_quotas db3" "d_reservations db' = d_reservations db3" "d_ledger db' = d_ledger db3"
    using run by (auto simp: save_quota_def Let_def split: prod.splits)
  have db1: "d_quotas db1 = d_quotas db" "d_reservations db1 = d_reservations db" "d_ledger db1 = d_ledger db"
    using up by (auto simp: upsert_user_policy_def Let_def split: option.splits)
  then have inv1: "quota_inv db1" using inv quota_inv_cong by metis
  have "quota_inv db3"
  proof (cases "find_quota app user db1")
    case None
    with sv have "create_quota saved db1 = Inr db2" "q_consumed saved = 0" "q_reserved saved = 0" "q_applicationId saved = app"
      by (auto simp: save_quota_row_def Let_def)
    then show ?thesis by (intro new_quota_inv [OF inv1 _ l]) (auto simp: setting_entry_def entry_shows_def)
  next
    case (Some q)
    let ?g = "\<lambda>q. q\<lparr>q_policyId := Some (p_id policy), q_periodType := userQuotaPeriodTypes (si_period si),
                 q_periodStart := w_start window, q_periodEnd := w_end window,
                 q_limit := si_limit si, q_hardLimit := si_hard_limit si,
                 q_lockVersion := q_lockVersion q + 1\<rparr>"
    have q: "q \<in> set (d_quotas db1)" "q_applicationId q = app" "q_userId q = user"
      using find_quota_SomeD [OF Some] by auto
    have same: "update_rows (\<lambda>q. q_applicationId q = app \<and> q_userId q = user) ?g (d_quotas db1) =
        update_rows (\<lambda>x. q_id x = q_id q) ?g (d_quotas db1)"
    proof (rule update_rows_cong)
      fix x assume x: "x \<in> set (d_quotas db1)"
      show "q_applicationId x = app \<and> q_userId x = user \<longleftrightarrow> q_id x = q_id q"
        using quota_unique [OF quota_inv_keys [OF inv1] x q(1)]
          quota_unique_user [OF quota_inv_keys [OF inv1] x q(1)] q by auto
    qed
    have "posting db1 q ?g (d_reservations db1) (setting_entry app user saved uuid) db3"
      using sv Some q l unfolding save_quota_row_def Let_def same
      by (auto simp: create_ledger_Inr posting_def setting_entry_def entry_shows_def)
    then show ?thesis
      using posting_inv [OF inv1] reservations_follow_same [OF quota_inv_keys [OF inv1]] by simp
  qed
  with d quota_inv_cong show ?thesis by metis
qed

text \<open>
  A reset posts the counters of the row it read.  That is right exactly when the row of the
  store still has those counters, which \<open>reset_stale_read\<close> below gets from the lock version.
\<close>

lemma reset_rows_inv:
  assumes inv: "quota_inv db" and q: "q \<in> set (d_quotas db)" "q_id q = q_id read"
    and own: "q_applicationId q = app" "q_userId q = user"
    and fresh: "q_lockVersion q = q_lockVersion read \<Longrightarrow> q_consumed q = q_consumed read \<and> q_reserved q = q_reserved read"
    and u: "lock_update_quota app (q_id read) (q_lockVersion read) (renew_quota window)
         (close_reservations (\<lambda>r. r_applicationId r = app \<and> r_userId r = user) RELEASED start db) = Inr (db2, 1)"
    and l: "create_ledger e db2 = Inr db3"
    and e: "l_applicationId e = app" "l_quotaId e = q_id read" "l_consumedDelta e = - q_consumed read"
      "l_reservedDelta e = - q_reserved read" "l_consumedAfter e = 0" "l_reservedAfter e = 0"
  shows "quota_inv db3"
proof -
  let ?p = "\<lambda>r. r_applicationId r = app \<and> r_userId r = user"
  note keys = quota_inv_keys [OF inv]
  let ?db1 = "close_reservations ?p RELEASED start db"
  have db1: "d_quotas ?db1 = d_quotas db" "d_ledger ?db1 = d_ledger db" by (simp_all add: close_reservations_def)
  have db2: "d_reservations db2 = d_reservations ?db1" "d_ledger db2 = d_ledger db"
    using u db1 by (auto simp: lock_update_quota_def Let_def)
  have bal: "q_reserved q = reserved_total (q_id q) (d_reservations db)"
    using inv q by (simp add: quota_inv_def balanced_def)
  have rs: "reservations_follow db q (d_reservations ?db1) (q_reserved (renew_quota window q) - q_reserved q)"
    using reservations_follow_close [OF keys q(1), of RELEASED ?p start] owner_iff_quota [OF keys q(1)] own bal
    by (simp add: renew_quota_def)
  obtain x where "x \<in> set (d_quotas ?db1)" "q_id x = q_id q" "q_lockVersion x = q_lockVersion read"
    using lock_update_quota_one [OF _ u] keys db1 q(2) by (auto simp: keys_ok_def)
  then have "q_lockVersion q = q_lockVersion read" using quota_unique [OF keys _ q(1)] db1 by auto
  with fresh have c: "q_consumed q = q_consumed read" "q_reserved q = q_reserved read" by auto
  show "quota_inv db3"
    by (rule guarded_posting_inv(1) [OF inv q(1) db1(1) u [folded q(2)] _ _ _ rs, of _ e])
      (use l db2 c q(2) e own in \<open>auto simp: create_ledger_Inr renew_quota_def entry_shows_def\<close>)
qed

lemma reset_tx_inv:
  assumes "quota_inv db" and "q \<in> set (d_quotas db)" "q_id q = q_id read"
    and "q_applicationId q = app" "q_userId q = user"
    and "q_lockVersion q = q_lockVersion read \<Longrightarrow> q_consumed q = q_consumed read \<and> q_reserved q = q_reserved read"
    and run: "reset_tx app user read off start uuid reason db = Inr db'"
  shows "quota_inv db'"
proof -
  obtain window db2 db3 where
    u: "lock_update_quota app (q_id read) (q_lockVersion read) (renew_quota window)
         (close_reservations (\<lambda>r. r_applicationId r = app \<and> r_userId r = user) RELEASED start db) = Inr (db2, 1)"
    and l: "create_ledger (reset_entry app user read uuid reason) db2 = Inr db3"
    and d: "d_quotas db' = d_quotas db3" "d_reservations db' = d_reservations db3" "d_ledger db' = d_ledger db3"
    using run by (auto simp: reset_tx_def Let_def split: if_splits)
  have "quota_inv db3" by (rule reset_rows_inv [OF assms(1-6) u l]) (simp_all add: reset_entry_def)
  with d quota_inv_cong show ?thesis by metis
qed

subsection \<open>Group resets\<close>

text \<open>A member as read fits a store when its row belongs to the member and an equal version there means equal counters.\<close>

definition read_fits :: "UserAiuQuota \<Rightarrow> QuotaDb \<Rightarrow> bool" where
  "read_fits read db \<longleftrightarrow>
     (\<forall>q \<in> set (d_quotas db). q_id q = q_id read \<longrightarrow>
        q_applicationId q = q_applicationId read \<and> q_userId q = q_userId read \<and>
        (q_lockVersion q = q_lockVersion read \<longrightarrow>
           q_consumed q = q_consumed read \<and> q_reserved q = q_reserved read))"

definition member_fits :: "ident \<Rightarrow> QuotaDb \<Rightarrow> group_member \<Rightarrow> bool" where
  "member_fits app db m \<longleftrightarrow>
     pred_option (\<lambda>read. read_fits read db \<and> q_applicationId read = app \<and> q_userId read = gm_userId m) (gm_quota m)"

lemma reset_member_success:
  assumes inv: "quota_inv db" and fits: "member_fits app db m" and quota: "gm_quota m = Some read"
    and run: "reset_member app evaluation uuids reason now m (db, n, failed) = Inr (db', n', failed')" and ok: "n' = n + 1"
  shows "quota_inv db'"
    and "d_quotas db' = update_rows (\<lambda>x. q_id x = q_id read)
      (\<lambda>x. (renew_quota \<lparr>w_start = now, w_end = periodEnd (q_periodType read) now\<rparr> x)\<lparr>q_lockVersion := q_lockVersion x + 1\<rparr>) (d_quotas db)"
proof -
  let ?db1 = "close_reservations (\<lambda>r. r_applicationId r = app \<and> r_userId r = gm_userId m) RELEASED now db"
  let ?w = "\<lparr>w_start = now, w_end = periodEnd (q_periodType read) now\<rparr>"
  obtain db2 where u: "lock_update_quota app (q_id read) (q_lockVersion read) (renew_quota ?w) ?db1 = Inr (db2, 1)"
    and l: "create_ledger (group_reset_entry app evaluation (gm_userId m) read (uuids (gm_userId m)) reason) db2 = Inr db'"
    using run ok quota by (auto simp: reset_member_def Let_def split: if_splits)
  have same: "d_quotas ?db1 = d_quotas db" by (simp add: close_reservations_def)
  have d: "distinct (map q_id (d_quotas ?db1))" using quota_inv_keys [OF inv] by (simp add: keys_ok_def same)
  obtain q where q: "q \<in> set (d_quotas ?db1)" "q_id q = q_id read"
    and db2: "db2 = ?db1\<lparr>d_quotas := update_rows (\<lambda>x. q_id x = q_id read)
       (\<lambda>x. (renew_quota ?w x)\<lparr>q_lockVersion := q_lockVersion x + 1\<rparr>) (d_quotas ?db1)\<rparr>"
    using lock_update_quota_one [OF d u] by blast
  have own: "q_applicationId q = app" "q_userId q = gm_userId m"
    "q_lockVersion q = q_lockVersion read \<longrightarrow> q_consumed q = q_consumed read \<and> q_reserved q = q_reserved read"
    using fits q same by (auto simp: member_fits_def read_fits_def quota)
  show "quota_inv db'"
    by (rule reset_rows_inv [OF inv _ q(2) own(1,2) _ u l]) (use q own(3) same in \<open>simp_all add: group_reset_entry_def\<close>)
  show "d_quotas db' = update_rows (\<lambda>x. q_id x = q_id read)
      (\<lambda>x. (renew_quota ?w x)\<lparr>q_lockVersion := q_lockVersion x + 1\<rparr>) (d_quotas db)"
    using l db2 same by (auto simp: create_ledger_Inr)
qed

lemma reset_member_others:
  assumes "member_fits app db m" and "member_fits app db m0" and "gm_userId m \<noteq> gm_userId m0" and "gm_quota m0 = Some read"
    and "d_quotas db' = update_rows (\<lambda>x. q_id x = q_id read)
      (\<lambda>x. (renew_quota w x)\<lparr>q_lockVersion := q_lockVersion x + 1\<rparr>) (d_quotas db)"
  shows "member_fits app db' m"
proof (cases "gm_quota m")
  case (Some other)
  have "q_applicationId q = q_applicationId other \<and> q_userId q = q_userId other \<and>
      (q_lockVersion q = q_lockVersion other \<longrightarrow> q_consumed q = q_consumed other \<and> q_reserved q = q_reserved other)"
    if q: "q \<in> set (d_quotas db')" "q_id q = q_id other" for q
  proof -
    obtain x where x: "x \<in> set (d_quotas db)" "q = (if q_id x = q_id read then (renew_quota w x)\<lparr>q_lockVersion := q_lockVersion x + 1\<rparr> else x)"
      using q(1) by (auto simp: assms(5) set_update_rows)
    have id: "q_id x = q_id other" using x(2) q(2) by (simp add: renew_quota_def split: if_splits)
    have "q_id x \<noteq> q_id read"
    proof
      assume "q_id x = q_id read"
      moreover have "read_fits read db" "q_userId read = gm_userId m0" "read_fits other db" "q_userId other = gm_userId m"
        using assms(1,2) by (simp_all add: member_fits_def assms(4) Some)
      ultimately have "q_userId x = gm_userId m0" "q_userId x = gm_userId m" using x(1) id unfolding read_fits_def by metis+
      then show False using assms(3) by simp
    qed
    then have "q = x" using x(2) by simp
    then show ?thesis using assms(1) x(1) id by (simp add: member_fits_def read_fits_def Some)
  qed
  then show ?thesis using assms(1) Some by (auto simp: member_fits_def read_fits_def)
qed (simp add: member_fits_def)

lemma reset_member_count:
  "reset_member app evaluation uuids reason now m (db, n, failed) = Inr (db', n', failed') \<Longrightarrow>
   n' = n \<or> n' = n + 1 \<and> gm_quota m \<noteq> None"
  by (auto simp: reset_member_def Let_def split: option.splits if_splits)

definition with_quota :: "group_member list \<Rightarrow> nat" where
  "with_quota members = length (filter (\<lambda>m. gm_quota m \<noteq> None) members)"

lemma reset_members_count:
  "reset_members app evaluation uuids reason now ms (db, n, failed) = Inr (db', n', failed') \<Longrightarrow> n' \<le> n + with_quota ms"
proof (induction ms arbitrary: db n failed)
  case (Cons m ms)
  obtain db1 n1 f1 where one: "reset_member app evaluation uuids reason now m (db, n, failed) = Inr (db1, n1, f1)"
    and rest: "reset_members app evaluation uuids reason now ms (db1, n1, f1) = Inr (db', n', failed')"
    using Cons.prems by auto
  show ?case using Cons.IH [OF rest] reset_member_count [OF one] by (auto simp: with_quota_def)
qed (simp add: with_quota_def)

lemma reset_members_inv:
  assumes "quota_inv db" and "\<forall>m \<in> set ms. member_fits app db m" and "distinct (map gm_userId ms)"
    and "reset_members app evaluation uuids reason now ms (db, n, failed) = Inr (db', n', failed')" and "n' = n + with_quota ms"
  shows "quota_inv db'"
  using assms
proof (induction ms arbitrary: db n failed)
  case (Cons m ms)
  obtain db1 n1 f1 where one: "reset_member app evaluation uuids reason now m (db, n, failed) = Inr (db1, n1, f1)"
    and rest: "reset_members app evaluation uuids reason now ms (db1, n1, f1) = Inr (db', n', failed')"
    using Cons.prems(4) by auto
  note bound = reset_members_count [OF rest] and count = reset_member_count [OF one]
  show ?case
  proof (cases "gm_quota m")
    case None
    then have "db1 = db" "n1 = n" using one by (auto simp: reset_member_def)
    then show ?thesis using Cons.IH [OF Cons.prems(1) _ _ rest [unfolded \<open>db1 = db\<close>]] Cons.prems None by (auto simp: with_quota_def)
  next
    case (Some read)
    then have n1: "n1 = n + 1" using Cons.prems(5) bound count by (auto simp: with_quota_def)
    have m: "member_fits app db m" using Cons.prems(2) by simp
    note ok = reset_member_success [OF Cons.prems(1) m Some one n1]
    have "\<forall>x \<in> set ms. member_fits app db1 x"
      using reset_member_others [OF _ m _ Some ok(2)] Cons.prems(2,3) by (metis image_eqI distinct.simps(2) list.set_intros(2) list.simps(9) list.set_map)
    then show ?thesis using Cons.IH [OF ok(1) _ _ rest] Cons.prems(3,5) n1 Some by (simp add: with_quota_def)
  qed
qed simp

subsection \<open>Rebuilding\<close>

lemma latest_is_last:
  assumes "sorted (map stamp (filter (\<lambda>l. l_applicationId l = app) ls))" and "last_posting k ls = Some e" and "l_applicationId e = app"
  shows "latest_entry stamp app k ls = Some e"
proof -
  let ?xs = "filter (\<lambda>l. l_applicationId l = app \<and> l_quotaId l = k) ls"
  have "?xs = filter (\<lambda>l. l_quotaId l = k) (filter (\<lambda>l. l_applicationId l = app) ls)" by (simp add: conj_commute)
  then have "sorted (map stamp ?xs)" using assms(1) by (metis sorted_filter)
  then have "sort_key stamp ?xs = ?xs" by (rule sort_key_id_if_sorted)
  moreover obtain ys where ys: "filter (\<lambda>l. l_quotaId l = k) ls = ys @ [e]"
    using assms(2) by (auto simp: last_posting_def rev_eq_Cons_iff split: list.splits)
  have "?xs = filter (\<lambda>l. l_applicationId l = app) (filter (\<lambda>l. l_quotaId l = k) ls)" by (simp add: conj_commute)
  then have "?xs = filter (\<lambda>l. l_applicationId l = app) ys @ [e]" using ys assms(3) by simp
  ultimately show ?thesis by (simp add: latest_entry_def)
qed

lemma rebuildQuota_inv:
  assumes inv: "quota_inv db" and order: "sorted (map stamp (filter (\<lambda>l. l_applicationId l = app) (d_ledger db)))"
    and run: "rebuildQuota stamp app db = Inr (db', n)"
  shows "quota_inv db'"
proof -
  let ?latest = "\<lambda>q. latest_entry stamp app (q_id q) (d_ledger db)"
  let ?p = "\<lambda>q. q_applicationId q = app \<and> ?latest q \<noteq> None"
  let ?u = "\<lambda>q. if ?p q then rebuilt (?latest q) q else q"
  have qs: "d_quotas db' = map ?u (d_quotas db)" and chk: "list_all user_aiu_quotas_check (d_quotas db')"
    and rest: "d_reservations db' = d_reservations db" "d_ledger db' = d_ledger db"
    using run by (auto simp: rebuildQuota_def Let_def update_rows_def)
  have same: "q_consumed (?u q) = q_consumed q \<and> q_reserved (?u q) = q_reserved q" if "q \<in> set (d_quotas db)" for q
  proof (cases "?p q \<and> last_posting (q_id q) (d_ledger db) \<noteq> None")
    case True
    then obtain e where e: "last_posting (q_id q) (d_ledger db) = Some e" by auto
    have after: "entry_shows q e" using inv that e by (auto simp: quota_inv_def balanced_def)
    then have "?latest q = Some e" using latest_is_last [OF order e] True by (simp add: entry_shows_def)
    then show ?thesis using after by (simp add: rebuilt_def entry_shows_def)
  next
    case False
    have "?latest q = None" if "last_posting (q_id q) (d_ledger db) = None"
      using that by (auto simp: last_posting_def latest_entry_def filter_empty_conv split: list.splits)
    then show ?thesis using False by auto
  qed
  have frame: "q_id (?u q) = q_id q" "q_applicationId (?u q) = q_applicationId q" "q_userId (?u q) = q_userId q" for q
    by (simp_all add: rebuilt_def split: option.splits)
  have ids: "map q_id (d_quotas db') = map q_id (d_quotas db)"
    "map (\<lambda>x. (q_applicationId x, q_userId x)) (d_quotas db') = map (\<lambda>x. (q_applicationId x, q_userId x)) (d_quotas db)"
    unfolding qs using frame by (simp_all add: comp_def)
  have mem: "\<exists>y \<in> set (d_quotas db'). q_id y = q_id x \<and> q_applicationId y = q_applicationId x \<and> q_userId y = q_userId x"
    if "x \<in> set (d_quotas db)" for x
    by (rule bexI [of _ "?u x"]) (use that frame in \<open>simp_all add: qs\<close>)
  have "keys_ok db'" unfolding keys_ok_def ids rest using quota_inv_keys [OF inv] mem by (simp add: keys_ok_def) metis
  moreover have "balanced db' y" if y: "y \<in> set (d_quotas db')" for y
  proof -
    obtain x where x: "x \<in> set (d_quotas db)" "y = ?u x" using y by (auto simp: qs)
    have "balanced db x" using inv x by (simp add: quota_inv_def)
    moreover have "user_aiu_quotas_check y" using chk y by (simp add: list_all_iff)
    moreover have "q_consumed y = q_consumed x" "q_reserved y = q_reserved x" "q_id y = q_id x" "q_applicationId y = q_applicationId x"
      unfolding x(2) using same [OF x(1)] frame by blast+
    ultimately show ?thesis by (cases "last_posting (q_id x) (d_ledger db)") (simp_all add: balanced_def rest entry_shows_def)
  qed
  ultimately show ?thesis by (simp add: quota_inv_def)
qed

end
