(* ===== verification/QuotaSteps.thy ===== *)
theory QuotaSteps
  imports QuotaInvariant
begin

text \<open>
  Properties of the quota subsystem over its whole life: the steps every writer takes, the
  invariant in every reachable store, optimistic locking, and the behaviour of each request.
\<close>

subsection \<open>Optimistic locking\<close>

text \<open>
  Rows that carry a version: a step may replace a row only by one with a higher version, or
  leave its value alone.  Then a version read earlier and found again vouches for the value.
\<close>

locale versioned_rows =
  fixes rows :: "'s \<Rightarrow> 'r list" and key :: "'r \<Rightarrow> 'k" and version :: "'r \<Rightarrow> int"
    and val :: "'r \<Rightarrow> 'v" and step :: "'s \<Rightarrow> 's \<Rightarrow> bool"
  assumes step_row: "step s t \<Longrightarrow> r \<in> set (rows s) \<Longrightarrow>
    \<exists>r' \<in> set (rows t). key r' = key r \<and> version r \<le> version r' \<and> (version r' = version r \<longrightarrow> val r' = val r)"
begin

lemma stale_row:
  assumes "step\<^sup>*\<^sup>* s t" and "r \<in> set (rows s)"
  shows "\<exists>r' \<in> set (rows t). key r' = key r \<and> version r \<le> version r' \<and> (version r' = version r \<longrightarrow> val r' = val r)"
  using assms
proof (induction rule: rtranclp_induct)
  case base
  then show ?case by auto
next
  case (step t u)
  then obtain r' where r': "r' \<in> set (rows t)" "key r' = key r" "version r \<le> version r'"
    "version r' = version r \<longrightarrow> val r' = val r" by auto
  from step_row [OF step.hyps(2) r'(1)] obtain r'' where "r'' \<in> set (rows u)" "key r'' = key r'"
    "version r' \<le> version r''" "version r'' = version r' \<longrightarrow> val r'' = val r'" by auto
  with r' show ?case by (intro bexI [of _ r'']) auto
qed

lemma same_version_same_value:
  assumes "step\<^sup>*\<^sup>* s t" and "r \<in> set (rows s)" and "x \<in> set (rows t)" and "distinct (map key (rows t))"
    and "key x = key r" and "version x = version r"
  shows "val x = val r"
proof -
  obtain r' where r': "r' \<in> set (rows t)" "key r' = key r" "version r' = version r \<longrightarrow> val r' = val r"
    using stale_row [OF assms(1,2)] by auto
  have "r' = x" using distinct_map_inj [OF assms(4) r'(1) assms(3)] r'(2) assms(5) by simp
  with r' assms(6) show ?thesis by simp
qed

end

subsection \<open>The steps of the system\<close>

text \<open>
  One rule per transaction that commits.  \<open>other\<close> stands for every write to the tables of
  users and policies, which the quota rows do not depend on.  Two writers are steps only under
  a condition, because they break the books without it: a group reset must find the row of
  every member as it was read (\<open>stale_group_reset_unbalances\<close>), and a rebuild must find the
  ledger stamped in the order of the commits.  \<open>stamp\<close> ranks the entries by \<open>created_at\<close> and \<open>id\<close>.
\<close>

inductive quota_step :: "QuotaDb \<Rightarrow> QuotaDb \<Rightarrow> bool" where
  create: "create_request e app vms request db = (db', r) \<Longrightarrow> quota_step db db'"
| transition: "transition k app rid token act actual reason now db = Inr (db', t) \<Longrightarrow> quota_step db db'"
| usage: "applyUserAiu a user rid event actual now db = Inr (db', c) \<Longrightarrow> quota_step db db'"
| expire: "expire_tx a rid now db = Inr (db', b) \<Longrightarrow> quota_step db db'"
| save: "save_quota a user si off now pid qid uuid db = Inr db' \<Longrightarrow> quota_step db db'"
| materialize: "materializeEffectiveAiuQuotaPolicy i db = Inr (db', m) \<Longrightarrow> quota_step db db'"
| reset: "read_fits read db \<Longrightarrow> q_applicationId read = a \<Longrightarrow> q_userId read = user \<Longrightarrow>
    reset_tx a user read off start uuid reason db = Inr db' \<Longrightarrow> quota_step db db'"
| group: "\<forall>m \<in> set members. member_fits a db m \<Longrightarrow> distinct (map gm_userId members) \<Longrightarrow>
    resetQuotas a evaluation uuids reason now members db = Inr (db', n, failed) \<Longrightarrow> n = with_quota members \<Longrightarrow> quota_step db db'"
| rebuild: "sorted (map (stamp :: UserAiuLedgerEntry \<Rightarrow> int) (filter (\<lambda>l. l_applicationId l = a) (d_ledger db))) \<Longrightarrow>
    rebuildQuota stamp a db = Inr (db', n) \<Longrightarrow> quota_step db db'"
| other: "d_quotas db' = d_quotas db \<Longrightarrow> d_reservations db' = d_reservations db \<Longrightarrow>
    d_ledger db' = d_ledger db \<Longrightarrow> quota_step db db'"

definition empty_db :: QuotaDb where
  "empty_db = \<lparr>d_users = [], d_policies = [], d_quotas = [], d_reservations = [], d_ledger = [], d_audit = []\<rparr>"

inductive reachable_db :: "QuotaDb \<Rightarrow> bool" where
  start: "reachable_db empty_db"
| step: "reachable_db db \<Longrightarrow> quota_step db db' \<Longrightarrow> reachable_db db'"

lemma reset_quota_exists:
  assumes "reset_tx a user read off start uuid reason db = Inr db'" and "keys_ok db"
  obtains q where "q \<in> set (d_quotas db)" "q_id q = q_id read"
proof -
  let ?db1 = "close_reservations (\<lambda>r. r_applicationId r = a \<and> r_userId r = user) RELEASED start db"
  have same: "d_quotas ?db1 = d_quotas db" by (simp add: close_reservations_def)
  obtain window db2 where
    u: "lock_update_quota a (q_id read) (q_lockVersion read) (renew_quota window) ?db1 = Inr (db2, 1)"
    using assms(1) by (auto simp: reset_tx_def Let_def split: if_splits)
  have "distinct (map q_id (d_quotas ?db1))" using assms(2) same by (simp add: keys_ok_def)
  from lock_update_quota_one [OF this u] that same show ?thesis by metis
qed

lemma quota_step_inv: "quota_step db db' \<Longrightarrow> quota_inv db \<Longrightarrow> quota_inv db'"
proof (induction rule: quota_step.induct)
  case (reset read db a user off start uuid reason db')
  obtain q where q: "q \<in> set (d_quotas db)" "q_id q = q_id read"
    by (rule reset_quota_exists [OF reset(4) quota_inv_keys [OF reset(5)]])
  with reset show ?case
    by (intro reset_tx_inv [OF reset(5) q _ _ _ reset(4)]) (auto simp: read_fits_def)
next
  case (group members a db evaluation uuids reason now db' n failed)
  have "n = 0 + with_quota members" using group(4) by simp
  then show ?case by (rule reset_members_inv [OF group(5,1,2) group(3) [unfolded resetQuotas_def]])
next
  case (rebuild stamp a db db' n)
  then show ?case using rebuildQuota_inv by blast
next
  case (other db' db)
  then show ?case using quota_inv_cong by blast
qed (auto intro: create_request_inv transition_inv applyUserAiu_inv expire_tx_inv save_quota_inv materialize_inv)

lemma quota_inv_empty: "quota_inv empty_db"
  by (simp add: quota_inv_def keys_ok_def empty_db_def)

lemma reachable_quota_inv: "reachable_db db \<Longrightarrow> quota_inv db"
  by (induction rule: reachable_db.induct) (auto intro: quota_inv_empty quota_step_inv)

subsection \<open>Every writer advances the version of what it changes\<close>

definition row_advances :: "UserAiuQuota \<Rightarrow> UserAiuQuota \<Rightarrow> bool" where
  "row_advances q q' \<longleftrightarrow>
     q_id q' = q_id q \<and> q_applicationId q' = q_applicationId q \<and> q_userId q' = q_userId q \<and>
     q_lockVersion q \<le> q_lockVersion q' \<and>
     (q_lockVersion q' = q_lockVersion q \<longrightarrow> q_consumed q' = q_consumed q \<and> q_reserved q' = q_reserved q)"

definition versions_advance :: "QuotaDb \<Rightarrow> QuotaDb \<Rightarrow> bool" where
  "versions_advance db db' \<longleftrightarrow> (\<forall>q \<in> set (d_quotas db). \<exists>q' \<in> set (d_quotas db'). row_advances q q')"

lemma versions_advance_same: "d_quotas db' = d_quotas db \<Longrightarrow> versions_advance db db'"
  by (auto simp: versions_advance_def row_advances_def)

lemma versions_advance_trans:
  "versions_advance a b \<Longrightarrow> versions_advance b c \<Longrightarrow> versions_advance a c"
  unfolding versions_advance_def row_advances_def by (smt (verit, ccfv_threshold))

lemma versions_advance_update:
  assumes "\<And>x. q_id (g x) = q_id x \<and> q_applicationId (g x) = q_applicationId x \<and>
      q_userId (g x) = q_userId x \<and> q_lockVersion (g x) = q_lockVersion x + 1"
    and "d_quotas db' = update_rows p g (d_quotas db)"
  shows "versions_advance db db'"
  unfolding versions_advance_def
proof
  fix q assume q: "q \<in> set (d_quotas db)"
  show "\<exists>q' \<in> set (d_quotas db'). row_advances q q'"
    by (rule bexI [of _ "if p q then g q else q"])
      (use assms q in \<open>simp_all add: set_update_rows row_advances_def\<close>)
qed

lemma versions_advance_lock:
  assumes "lock_update_quota app qid v g db = Inr (db', n)"
    and "\<And>x. q_id (g x) = q_id x \<and> q_applicationId (g x) = q_applicationId x \<and> q_userId (g x) = q_userId x"
  shows "versions_advance db db'"
proof (rule versions_advance_update)
  show "d_quotas db' = update_rows (\<lambda>q. q_applicationId q = app \<and> q_id q = qid \<and> q_lockVersion q = v)
      (\<lambda>q. (g q)\<lparr>q_lockVersion := q_lockVersion q + 1\<rparr>) (d_quotas db)"
    using assms(1) by (auto simp: lock_update_quota_def Let_def)
qed (use assms(2) in simp)

lemma versions_advance_create: "create_quota q db = Inr db' \<Longrightarrow> versions_advance db db'"
  by (auto simp: create_quota_def versions_advance_def row_advances_def split: if_splits)

text \<open>
  Chaining backwards over the calls of a transaction: each call either leaves the quota
  rows alone or rewrites some of them with a new version.
\<close>

definition keeps_owner :: "(UserAiuQuota \<Rightarrow> UserAiuQuota) \<Rightarrow> bool" where
  "keeps_owner g \<longleftrightarrow> (\<forall>x. q_id (g x) = q_id x \<and> q_applicationId (g x) = q_applicationId x \<and> q_userId (g x) = q_userId x)"

lemma advance_ledger: "create_ledger l db1 = Inr db2 \<Longrightarrow> versions_advance db db1 \<Longrightarrow> versions_advance db db2"
  by (auto simp: create_ledger_Inr versions_advance_def)

lemma advance_create_reservation:
  "create_reservation r db1 = Inr db2 \<Longrightarrow> versions_advance db db1 \<Longrightarrow> versions_advance db db2"
  by (auto simp: create_reservation_def versions_advance_def split: if_splits)

lemma advance_reservation:
  "lock_update_reservation a rid st v g db1 = Inr (db2, n) \<Longrightarrow> versions_advance db db1 \<Longrightarrow> versions_advance db db2"
  by (auto simp: lock_update_reservation_def Let_def versions_advance_def)

lemma advance_lock:
  "lock_update_quota a i v g db1 = Inr (db2, n) \<Longrightarrow> keeps_owner g \<Longrightarrow> versions_advance db db1 \<Longrightarrow> versions_advance db db2"
  by (meson keeps_owner_def versions_advance_lock versions_advance_trans)

lemma advance_close: "versions_advance db db1 \<Longrightarrow> versions_advance db (close_reservations p st at db1)"
  by (simp add: close_reservations_def versions_advance_def)

lemma advance_audit: "versions_advance db db1 \<Longrightarrow> versions_advance db (db1\<lparr>d_audit := x\<rparr>)"
  by (simp add: versions_advance_def)

lemma advance_create_quota:
  "create_quota q db1 = Inr db2 \<Longrightarrow> versions_advance db db1 \<Longrightarrow> versions_advance db db2"
  using versions_advance_create versions_advance_trans by blast

lemmas advance_elims = advance_ledger advance_create_reservation advance_reservation advance_lock
  advance_create_quota

lemmas advance_rules = advance_close advance_audit versions_advance_same [OF refl]

lemma keeps_owner_simps [simp]:
  "keeps_owner (renew_quota window)"
  "keeps_owner (\<lambda>q. q\<lparr>q_reserved := f q\<rparr>)" "keeps_owner (\<lambda>q. q\<lparr>q_consumed := h q\<rparr>)"
  "keeps_owner (\<lambda>q. q\<lparr>q_reserved := f q, q_consumed := h q\<rparr>)"
  by (simp_all add: keeps_owner_def renew_quota_def)

lemma settle_rows_advance:
  "settle_rows row quota g h e db = Inr db' \<Longrightarrow> keeps_owner h \<Longrightarrow> versions_advance db db'"
  by (auto simp: settle_rows_def split: if_splits intro!: advance_rules elim!: advance_elims)

lemma transition_advance:
  "transition k app rid token act actual reason now db = Inr (db', t) \<Longrightarrow> versions_advance db db'"
  by (auto simp: transition_def transition_tx_def split: option.splits if_splits intro!: advance_rules elim!: advance_elims)

lemma applyUserAiu_advance:
  "applyUserAiu a user rid event actual now db = Inr (db', c) \<Longrightarrow> versions_advance db db'"
  by (auto simp: applyUserAiu_def applyUserAiu_reserved_def Let_def
      split: option.splits if_splits intro!: advance_rules elim!: settle_rows_advance advance_elims)

lemma expire_tx_advance: "expire_tx a rid now db = Inr (db', b) \<Longrightarrow> versions_advance db db'"
  by (auto simp: expire_tx_def split: option.splits if_splits intro!: advance_rules elim!: settle_rows_advance advance_elims)

lemma materialize_none_advance: "materialize_none i cur db = Inr (db', m) \<Longrightarrow> versions_advance db db'"
  by (auto simp: materialize_none_def Let_def split: option.splits if_splits
      elim!: advance_elims intro!: advance_rules versions_advance_update [of "\<lambda>x. x\<lparr>q_policyId := None, q_enabled := False,
        q_lockVersion := q_lockVersion x + 1\<rparr>"])

lemma materialize_create_advance:
  "materialize_create i policy window db = Inr (db', m) \<Longrightarrow> versions_advance db db'"
  by (auto simp: materialize_create_def Let_def intro!: advance_rules elim!: advance_elims)

lemma materialize_update_advance:
  assumes "materialize_update i policy window q db = Inr (db', m)"
  shows "versions_advance db db'"
  using assms
proof (cases rule: materialize_update_cases)
  case 2
  show ?thesis by (rule versions_advance_update [OF _ 2(1)]) (simp add: materialized_def Let_def)
qed (simp add: versions_advance_same)

lemma materialize_advance: "materializeEffectiveAiuQuotaPolicy i db = Inr (db', m) \<Longrightarrow> versions_advance db db'"
  by (auto simp: materializeEffectiveAiuQuotaPolicy_def Let_def split: option.splits
      intro: materialize_none_advance materialize_create_advance materialize_update_advance)

lemma rollover_advance:
  "rolloverReservationQuota toIso off clk q user app db = Inr (db', q') \<Longrightarrow> versions_advance db db'"
  by (auto simp: rolloverReservationQuota_def Let_def split: option.splits if_splits intro!: advance_rules elim!: advance_elims)

lemma reserve_new_advance:
  "reserve_new e app user q request candidates db = Inr (db', r) \<Longrightarrow> versions_advance db db'"
  by (auto simp: reserve_new_def Let_def split: if_splits intro!: advance_rules elim!: advance_elims)

lemma create_tx_advance:
  assumes "create_tx e app user request candidates db = Inr (db', r)"
  shows "versions_advance db db'"
proof -
  obtain db1 m where mat: "materializeEffectiveAiuQuotaPolicy
       \<lparr>mi_applicationId = app, mi_userId = user, mi_window = policy_window e,
        mi_reason = ''Applied the effective AIU quota rule before model access'',
        mi_quota_id = e_quota_id e, mi_uuid = e_uuid e, mi_now = e_clk e 1\<rparr> db = Inr (db1, m)"
    using assms by (auto simp: create_tx_def)
  have "versions_advance db1 db'"
    using assms [unfolded create_tx_def mat, simplified]
    by (auto simp: Let_def split: option.splits if_splits intro: advance_rules
        dest!: rollover_advance reserve_new_advance elim: versions_advance_trans)
  with materialize_advance [OF mat] show ?thesis by (rule versions_advance_trans)
qed

lemma create_request_advance:
  assumes "create_request e app vms request db = (db', r)"
  shows "versions_advance db db'"
proof -
  have up: "versions_advance db db0" if "upsert_user e a request db = (db0, u)" for a db0 u
    using that by (auto simp: upsert_user_def Let_def split: option.splits intro: versions_advance_same)
  show ?thesis
    using assms unfolding create_request_def Let_def
    by (auto split: option.splits sum.splits prod.splits if_splits dest!: up create_tx_advance
        intro!: advance_rules elim!: advance_elims elim: versions_advance_trans)
qed

lemma save_quota_row_advance:
  "save_quota_row app user si window pid qid db = Inr (db', saved) \<Longrightarrow> versions_advance db db'"
  by (auto simp: save_quota_row_def Let_def split: option.splits
      elim!: versions_advance_create intro: versions_advance_update [of "\<lambda>q. q\<lparr>q_policyId := Some pid,
        q_periodType := userQuotaPeriodTypes (si_period si), q_periodStart := w_start window,
        q_periodEnd := w_end window, q_limit := si_limit si, q_hardLimit := si_hard_limit si,
        q_lockVersion := q_lockVersion q + 1\<rparr>"])

lemma save_quota_advance:
  assumes "save_quota app user si off now pid qid uuid db = Inr db'"
  shows "versions_advance db db'"
proof -
  obtain window db1 p db2 saved db3 where up: "upsert_user_policy app user si window pid now db = (db1, p)"
    and sv: "save_quota_row app user si window (p_id p) qid db1 = Inr (db2, saved)"
    and led: "create_ledger (setting_entry app user saved uuid) db2 = Inr db3"
    and db': "d_quotas db' = d_quotas db3"
    using assms by (auto simp: save_quota_def split: prod.splits)
  have "versions_advance db db1"
    using up by (auto simp: upsert_user_policy_def Let_def split: option.splits intro: versions_advance_same)
  then have "versions_advance db db3"
    using save_quota_row_advance [OF sv] advance_ledger [OF led] versions_advance_trans by blast
  with db' show ?thesis by (simp add: versions_advance_def)
qed

lemma reset_tx_advance: "reset_tx app user read off start uuid reason db = Inr db' \<Longrightarrow> versions_advance db db'"
  by (auto simp: reset_tx_def Let_def split: if_splits intro!: advance_rules elim!: advance_elims)

lemma reset_member_advance:
  assumes "reset_member app evaluation uuids reason now m (db, n, failed) = Inr (db', n', failed')"
  shows "versions_advance db db'"
proof (cases "gm_quota m")
  case None
  then show ?thesis using assms by (auto simp: reset_member_def intro: advance_rules)
next
  case (Some read)
  let ?w = "\<lparr>w_start = now, w_end = periodEnd (q_periodType read) now\<rparr>"
  let ?db1 = "close_reservations (\<lambda>r. r_applicationId r = app \<and> r_userId r = gm_userId m) RELEASED now db"
  obtain db2 k where u: "lock_update_quota app (q_id read) (q_lockVersion read) (renew_quota ?w) ?db1 = Inr (db2, k)"
    and "db' = db2 \<or> (\<exists>e. create_ledger e db2 = Inr db')"
    using assms Some by (auto simp: reset_member_def Let_def split: if_splits) blast
  moreover have "versions_advance db db2" by (rule advance_lock [OF u]) (simp_all add: advance_close versions_advance_same)
  ultimately show ?thesis using advance_ledger by auto
qed

lemma reset_members_advance:
  "reset_members app evaluation uuids reason now ms (db, n, failed) = Inr (db', n', failed') \<Longrightarrow> versions_advance db db'"
proof (induction ms arbitrary: db n failed)
  case (Cons m ms)
  obtain db1 n1 f1 where one: "reset_member app evaluation uuids reason now m (db, n, failed) = Inr (db1, n1, f1)"
    and rest: "reset_members app evaluation uuids reason now ms (db1, n1, f1) = Inr (db', n', failed')"
    using Cons.prems by auto
  show ?case using versions_advance_trans [OF reset_member_advance [OF one] Cons.IH [OF rest]] .
qed (simp add: versions_advance_same)

lemma rebuildQuota_advance:
  assumes "rebuildQuota stamp app db = Inr (db', n)"
  shows "versions_advance db db'"
  unfolding versions_advance_def
proof
  fix q assume q: "q \<in> set (d_quotas db)"
  let ?latest = "\<lambda>q. latest_entry stamp app (q_id q) (d_ledger db)"
  let ?u = "if q_applicationId q = app \<and> ?latest q \<noteq> None then rebuilt (?latest q) q else q"
  have "d_quotas db' = update_rows (\<lambda>q. q_applicationId q = app \<and> ?latest q \<noteq> None) (\<lambda>q. rebuilt (?latest q) q) (d_quotas db)"
    using assms by (auto simp: rebuildQuota_def Let_def)
  then have "?u \<in> set (d_quotas db')" using q by (auto simp: set_update_rows)
  moreover have "row_advances q ?u" by (auto simp: row_advances_def rebuilt_def split: option.splits)
  ultimately show "\<exists>q' \<in> set (d_quotas db'). row_advances q q'" by blast
qed

lemma quota_step_advance: "quota_step db db' \<Longrightarrow> versions_advance db db'"
  by (induction rule: quota_step.induct)
    (auto intro: create_request_advance transition_advance applyUserAiu_advance expire_tx_advance
      save_quota_advance materialize_advance reset_tx_advance reset_members_advance rebuildQuota_advance versions_advance_same
      simp: resetQuotas_def)

subsection \<open>What a stale group reset does\<close>

text \<open>A member whose row changed since it was read is reported as failed, but its reservations are released; the
  reserved counter keeps their amounts.\<close>

lemma stale_group_reset_unbalances:
  assumes inv: "quota_inv db" and q: "q \<in> set (d_quotas db)" and stale: "q_id read = q_id q" "q_lockVersion read \<noteq> q_lockVersion q"
    and held: "0 < q_reserved q"
  shows "\<exists>db'. resetQuotas (q_applicationId q) evaluation uuids reason now [\<lparr>gm_userId = q_userId q, gm_quota = Some read\<rparr>] db =
      Inr (db', 0, [q_userId q]) \<and> q \<in> set (d_quotas db') \<and> reserved_total (q_id q) (d_reservations db') = 0 \<and> \<not> quota_inv db'"
proof -
  let ?p = "\<lambda>r. r_applicationId r = q_applicationId q \<and> r_userId r = q_userId q"
  let ?db1 = "close_reservations ?p RELEASED now db"
  note keys = quota_inv_keys [OF inv]
  have none: "\<not> (q_applicationId x = q_applicationId q \<and> q_id x = q_id read \<and> q_lockVersion x = q_lockVersion read)"
    if "x \<in> set (d_quotas db)" for x
    using quota_unique [OF keys that q] stale by auto
  have same: "d_quotas ?db1 = d_quotas db" by (simp add: close_reservations_def)
  have chk: "list_all user_aiu_quotas_check (d_quotas db)" using inv by (simp add: quota_inv_def balanced_def list_all_iff)
  have "update_rows (\<lambda>x. q_applicationId x = q_applicationId q \<and> q_id x = q_id read \<and> q_lockVersion x = q_lockVersion read) g (d_quotas db) =
      d_quotas db" for g
    using none by (auto simp: update_rows_def intro!: map_idI)
  moreover have "count_rows (\<lambda>x. q_applicationId x = q_applicationId q \<and> q_id x = q_id read \<and> q_lockVersion x = q_lockVersion read) (d_quotas db) = 0"
    using none by (auto simp: count_rows_def filter_empty_conv)
  ultimately have u: "lock_update_quota (q_applicationId q) (q_id read) (q_lockVersion read) g ?db1 = Inr (?db1\<lparr>d_quotas := d_quotas db\<rparr>, 0)" for g
    by (simp add: lock_update_quota_def put_quotas_def same chk)
  have total: "reserved_total (q_id q) (d_reservations ?db1) = 0"
    using reservations_follow_close [OF keys q, of RELEASED ?p now] owner_iff_quota [OF keys q] by (simp add: reservations_follow_def)
  then have "\<not> balanced (?db1\<lparr>d_quotas := d_quotas db\<rparr>) q" using held by (simp add: balanced_def)
  then have "\<not> quota_inv (?db1\<lparr>d_quotas := d_quotas db\<rparr>)" using q by (auto simp: quota_inv_def)
  then show ?thesis using q total by (simp add: resetQuotas_def reset_member_def u)
qed

text \<open>A quota with a fixed window gets an empty one from \<open>periodEnd\<close>, which the table refuses: the reset of the whole
  group is rolled back.\<close>

lemma fixed_window_blocks_group_reset:
  assumes inv: "quota_inv db" and q: "q \<in> set (d_quotas db)" "q_periodType q = FIXED_WINDOW"
  shows "\<exists>e. resetQuotas (q_applicationId q) evaluation uuids reason now (\<lparr>gm_userId = q_userId q, gm_quota = Some q\<rparr> # members) db = Inl e"
proof -
  let ?db1 = "close_reservations (\<lambda>r. r_applicationId r = q_applicationId q \<and> r_userId r = q_userId q) RELEASED now db"
  let ?g = "\<lambda>x. (renew_quota \<lparr>w_start = now, w_end = periodEnd (q_periodType q) now\<rparr> x)\<lparr>q_lockVersion := q_lockVersion x + 1\<rparr>"
  let ?p = "\<lambda>x. q_applicationId x = q_applicationId q \<and> q_id x = q_id q \<and> q_lockVersion x = q_lockVersion q"
  have "?g q \<in> set (update_rows ?p ?g (d_quotas db))" using q(1) by (force simp: set_update_rows)
  moreover have "\<not> user_aiu_quotas_check (?g q)" using q(2) by (simp add: user_aiu_quotas_check_def renew_quota_def periodEnd_def)
  ultimately have "\<not> list_all user_aiu_quotas_check (update_rows ?p ?g (d_quotas db))" unfolding list_all_iff by blast
  moreover have "d_quotas ?db1 = d_quotas db" by (simp add: close_reservations_def)
  ultimately have "\<not> list_all user_aiu_quotas_check (update_rows ?p ?g (d_quotas ?db1))" by simp
  then show ?thesis by (simp add: resetQuotas_def reset_member_def lock_update_quota_def put_quotas_def)
qed

subsection \<open>Versions vouch for the counters\<close>

interpretation quota_rows: versioned_rows d_quotas
  "\<lambda>q. (q_id q, q_applicationId q, q_userId q)" q_lockVersion "\<lambda>q. (q_consumed q, q_reserved q)" quota_step
proof unfold_locales
  fix db db' q
  assume "quota_step db db'" and q: "q \<in> set (d_quotas db)"
  then have "versions_advance db db'" by (simp add: quota_step_advance)
  with q show "\<exists>q' \<in> set (d_quotas db').
      (q_id q', q_applicationId q', q_userId q') = (q_id q, q_applicationId q, q_userId q) \<and>
      q_lockVersion q \<le> q_lockVersion q' \<and>
      (q_lockVersion q' = q_lockVersion q \<longrightarrow> (q_consumed q', q_reserved q') = (q_consumed q, q_reserved q))"
    unfolding versions_advance_def row_advances_def by fastforce
qed

end
