(* ===== verification/QuotaProperties.thy ===== *)
theory QuotaProperties
  imports QuotaSteps
begin

text \<open>
  What the quota subsystem promises, over every store its writers can reach: which policy applies,
  how often a transaction is tried, that the books balance, that tokens are sound, that a hard
  limit is not oversold, and that every request can be repeated.
\<close>

subsection \<open>A concrete system\<close>

text \<open>
  One application with one user and one hard policy, and a codec simple enough to evaluate;
  the examples below run the requests on it.
\<close>

definition hex_digit :: "nat \<Rightarrow> char" where
  "hex_digit n = char_of (n + 97)"

definition hex_encode :: "string \<Rightarrow> string" where
  "hex_encode s = concat (map (\<lambda>c. [hex_digit (of_char c div 16), hex_digit (of_char c mod 16)]) s)"

fun hex_decode :: "string \<Rightarrow> string" where
  "hex_decode (a # b # s) = char_of (((of_char a - 97) * 16 + (of_char b - 97)) :: nat) # hex_decode s"
| "hex_decode _ = []"

definition demo_claims :: Claims where
  "demo_claims =
     \<lparr>c_key_version = ''current'', c_reservation_id = ''r1'', c_application_id = ''app'',
      c_user_id = ''u1'', c_quota_id = ''q1'', c_operation_id = ''op'', c_virtual_model = ''vm'',
      c_candidate_model_ids = [''m1''], c_reserved_aiu_micros = 100, c_expires_at = 61000\<rparr>"

definition demo_codec :: codec where
  "demo_codec =
     \<lparr>signingKey = Some ''k'', keyVersionSetting = None, hmac = (\<lambda>key s. key @ s), sha256 = (\<lambda>s. s),
      b64url = hex_encode, unb64url = hex_decode, jsonClaims = c_reservation_id,
      parseClaims = (\<lambda>s. if s = ''r1'' then Some demo_claims else None)\<rparr>"

definition demo_env :: request_env where
  "demo_env =
     \<lparr>e_codec = demo_codec, e_iso = (\<lambda>_. ''t''), e_offset = (\<lambda>_. 0), e_ttlSeconds = 60,
      e_clk = (\<lambda>_. 1000), e_user_id = ''u1'', e_reservation_id = ''r1'', e_quota_id = ''q1'',
      e_uuid = ''x''\<rparr>"

definition demo_policy :: AiuQuotaPolicy where
  "demo_policy =
     \<lparr>p_id = ''p1'', p_applicationId = ''app'', p_scope = APPLICATION_SCOPE, p_userId = None,
      p_userGroup = None, p_limit = 1000, p_hardLimit = True, p_periodType = LIFETIME,
      p_startsAt = None, p_endsAt = None, p_priority = 5, p_updatedAt = 0, p_enabled = True\<rparr>"

definition demo_vm :: VirtualModelRow where
  "demo_vm = \<lparr>vm_applicationId = ''app'', vm_name = ''vm'', vm_enabled = True,
     vm_targets = [(''m1'', True, True)]\<rparr>"

definition demo_request :: reservation_request where
  "demo_request =
     \<lparr>rq_user_id = ''ext'', rq_display_user = None, rq_user_properties = None,
      rq_operation_id = ''op'', rq_virtual_model = ''vm'', rq_candidate_model_ids = None,
      rq_estimated = 100\<rparr>"

definition demo_db0 :: QuotaDb where
  "demo_db0 = empty_db\<lparr>d_policies := [demo_policy]\<rparr>"

definition demo_quota :: UserAiuQuota where
  "demo_quota =
     \<lparr>q_id = ''q1'', q_applicationId = ''app'', q_userId = ''u1'', q_policyId = Some ''p1'',
      q_periodType = LIFETIME, q_periodStart = 1000, q_periodEnd = None, q_limit = 1000,
      q_consumed = 0, q_reserved = 100, q_hardLimit = True, q_enabled = True, q_lockVersion = 1\<rparr>"

definition demo_token :: string where
  "demo_token = ''tpur1.'' @ hex_encode ''r1'' @ ''.'' @ hex_encode (''k'' @ hex_encode ''r1'')"

definition demo_reservation :: UserAiuReservation where
  "demo_reservation = (new_reservation demo_env ''app'' ''u1'' demo_quota demo_request [''m1''])
     \<lparr>r_tokenHash := demo_token\<rparr>"

definition demo_user :: ApplicationUser where
  "demo_user = \<lparr>u_id = ''u1'', u_applicationId = ''app'', u_externalId = ''ext'', u_name = None,
     u_propertiesJson = ''{}'', u_status = ACTIVE, u_lastSeenAt = 1000\<rparr>"

definition demo_grant :: UserAiuLedgerEntry where
  "demo_grant =
     \<lparr>l_applicationId = ''app'', l_userId = ''u1'', l_quotaId = ''q1'', l_entryType = GRANT,
      l_consumedDelta = 0, l_reservedDelta = 0, l_consumedAfter = 0, l_reservedAfter = 0,
      l_limitAfter = 1000, l_sourceEventId = None, l_sourceReservationId = None,
      l_idempotencyKey = ''quota-policy:p1:u1:x'',
      l_reason = ''Applied the effective AIU quota rule before model access''\<rparr>"

definition demo_db1 :: QuotaDb where
  "demo_db1 =
     \<lparr>d_users = [demo_user], d_policies = [demo_policy], d_quotas = [demo_quota],
      d_reservations = [demo_reservation],
      d_ledger = [demo_grant, reserve_entry demo_reservation (demo_quota\<lparr>q_reserved := 0\<rparr>)],
      d_audit = [\<lparr>a_action = ''runtime.user_aiu.reserve'', a_objectType = ''application_user'',
        a_objectId = ''u1'', a_reason = ''Reserved AIU before model call''\<rparr>]\<rparr>"

lemmas demo_defs = demo_env_def demo_policy_def demo_vm_def demo_request_def demo_db0_def
  demo_quota_def demo_reservation_def demo_codec_def empty_db_def demo_user_def demo_grant_def
  demo_db1_def

lemmas request_defs = create_request_def create_tx_def resolveCandidates_def upsert_user_def
  materializeEffectiveAiuQuotaPolicy_def resolveEffectiveAiuQuotaPolicy_def order_policies_def
  candidate_policy_def group_policy_applies_def policy_window_def aiuQuotaPeriodWindow_def
  materialize_create_def materialize_update_def materialize_none_def find_quota_def find_ledger_def
  create_quota_def create_ledger_def create_reservation_def put_quotas_def put_reservations_def
  grant_entry_def rolloverReservationQuota_def reserve_new_def new_reservation_def reserve_entry_def
  lock_update_quota_def find_unique_def update_rows_def count_rows_def remainingAiu_def
  user_aiu_quotas_check_def user_aiu_ledger_snapshots_check_def
  user_aiu_reservations_amounts_check_def bigint_def

lemma demo_sign: "sign demo_codec (reservationClaims demo_reservation) = Inr demo_token"
  by (simp add: Let_def sign_def secret_def demo_defs reservationClaims_def demo_token_def new_reservation_def)

lemma demo_create:
  "create_request demo_env (Some ''app'') [demo_vm] demo_request demo_db0 =
     (demo_db1, Inr \<lparr>rs_allowed = True, rs_reason = ''reserved'',
        rs_user = reservationUserSummary ''u1'' (Some (demo_quota\<lparr>q_lockVersion := 0\<rparr>)),
        rs_reservation = Some \<lparr>rr_id = ''r1'', rr_token = demo_token, rr_reserved = 100,
          rr_expires_at = 61000\<rparr>\<rparr>)"
  using demo_sign
  by (simp add: request_defs demo_defs reservationClaims_def token_hash_def Let_def sign_def)
subsection \<open>Effective policy\<close>

lemma set_insert_policy [simp]: "set (insert_policy p ps) = insert p (set ps)"
  by (induction ps) auto

lemma set_order_policies [simp]: "set (order_policies ps) = set ps"
  by (induction ps) (simp_all add: order_policies_def)

lemma policy_before_total: "\<not> policy_before a b \<Longrightarrow> policy_before b a"
  by (auto simp: policy_before_def)

lemma policy_before_trans: "policy_before a b \<Longrightarrow> policy_before b c \<Longrightarrow> policy_before a c"
  by (auto simp: policy_before_def)

lemma sorted_insert_policy:
  "sorted_wrt policy_before ps \<Longrightarrow> sorted_wrt policy_before (insert_policy p ps)"
  by (induction ps) (auto dest: policy_before_total intro: policy_before_trans)

lemma sorted_order_policies: "sorted_wrt policy_before (order_policies ps)"
  by (induction ps) (simp_all add: order_policies_def sorted_insert_policy)

lemma find_sorted_first:
  assumes "sorted_wrt policy_before ps" and "List.find P ps = Some x"
  shows "x \<in> set ps \<and> P x \<and> (\<forall>y \<in> set ps. P y \<longrightarrow> p_priority y \<le> p_priority x)"
  using assms by (induction ps) (auto simp: policy_before_def split: if_splits)

lemma find_ordered:
  "List.find P (order_policies ps) = Some x \<Longrightarrow>
   x \<in> set ps \<and> P x \<and> (\<forall>y \<in> set ps. P y \<longrightarrow> p_priority y \<le> p_priority x)"
  using find_sorted_first [OF sorted_order_policies] by fastforce

lemma find_ordered_None: "List.find P (order_policies ps) = None \<longleftrightarrow> (\<forall>x \<in> set ps. \<not> P x)"
  by (auto simp: find_None_iff)

definition policy_rank :: "AiuQuotaPolicy \<Rightarrow> nat" where
  "policy_rank p = (case p_scope p of USER_SCOPE \<Rightarrow> 2 | USER_GROUP_SCOPE \<Rightarrow> 1 | APPLICATION_SCOPE \<Rightarrow> 0)"

definition policy_applies :: "ident \<Rightarrow> ident \<Rightarrow> AiuQuotaPolicy \<Rightarrow> bool" where
  "policy_applies app user p \<longleftrightarrow>
     p_applicationId p = app \<and> p_enabled p \<and>
     (case p_scope p of
        USER_SCOPE \<Rightarrow> p_userId p = Some user
      | USER_GROUP_SCOPE \<Rightarrow> group_policy_applies user p
      | APPLICATION_SCOPE \<Rightarrow> True)"

text \<open>Which quota policy applies.  The resolved policy is one that applies to the user
  (enabled, in the application, and for a group policy the newest evaluation is of the
  current definition and contains the user); a more specific scope wins, within a scope the
  highest priority wins; and no policy is resolved only when none applies.\<close>

theorem effective_policy_is_most_specific:
  "case resolveEffectiveAiuQuotaPolicy db app user of
     None \<Rightarrow> \<forall>p \<in> set (d_policies db). \<not> policy_applies app user p
   | Some x \<Rightarrow> x \<in> set (d_policies db) \<and> policy_applies app user x \<and>
       (\<forall>p \<in> set (d_policies db). policy_applies app user p \<longrightarrow>
          policy_rank p < policy_rank x \<or>
          policy_rank p = policy_rank x \<and> p_priority p \<le> p_priority x)"
proof -
  let ?c = "filter (candidate_policy app user) (d_policies db)"
  have cand: "p \<in> set ?c \<longleftrightarrow> p \<in> set (d_policies db) \<and> candidate_policy app user p" for p by auto
  have split: "policy_applies app user p \<longleftrightarrow> candidate_policy app user p \<and>
     (p_scope p = USER_SCOPE \<or> group_policy_applies user p \<or> p_scope p = APPLICATION_SCOPE)" for p
    by (auto simp: policy_applies_def candidate_policy_def group_policy_applies_def
        split: AiuQuotaPolicyScope.splits)
  have grp: "group_policy_applies user p \<Longrightarrow> p_scope p = USER_GROUP_SCOPE" for p
    by (simp add: group_policy_applies_def)
  show ?thesis
    unfolding resolveEffectiveAiuQuotaPolicy_def Let_def
    by (auto split: option.splits AiuQuotaPolicyScope.splits dest!: find_ordered dest: grp
        simp: find_ordered_None split policy_rank_def)
qed

theorem effective_policy_is_most_specific_witness:
  "resolveEffectiveAiuQuotaPolicy demo_db0 ''app'' ''u1'' = Some demo_policy \<and>
   policy_applies ''app'' ''u1'' demo_policy"
  using effective_policy_is_most_specific [of demo_db0 "''app''" "''u1''"]
  by (simp add: request_defs demo_defs)

subsection \<open>The retry loop\<close>

lemma attempts_from_2:
  "attempts_from (Suc 0) 2 f = f 2"
  by (simp split: sum.splits svc_error.splits)

text \<open>A reservation transaction is run at most three times; what the caller gets is the
  outcome of the first run that did not fail with a write conflict, and the conflict of the
  third run when all three did.\<close>

theorem transaction_retry_outcome:
  "runReservationTransaction f =
     (if (\<nexists>m. f 0 = Inl (RetryableConflict m)) then f 0
      else if (\<nexists>m. f 1 = Inl (RetryableConflict m)) then f 1
      else f 2)"
  by (simp add: runReservationTransaction_def eval_nat_numeral split: sum.splits svc_error.splits)
lemma close_reservations_closed:
  assumes "st \<noteq> RESERVED" and "r \<in> set (d_reservations (close_reservations p st at db))"
    and "r_status r = RESERVED"
  shows "r \<in> set (d_reservations db) \<and> \<not> p r"
  using assms by (auto simp: close_reservations_def update_rows_def split: if_splits)

lemma update_rows_mem: "x \<in> set xs \<Longrightarrow> p x \<Longrightarrow> g x \<in> set (update_rows p g xs)"
  unfolding update_rows_def by force

subsection \<open>The books over the life of the store\<close>

lemma demo_reachable: "reachable_db demo_db0" "reachable_db demo_db1"
proof -
  have "quota_step empty_db demo_db0" by (rule quota_step.other) (simp_all add: demo_defs)
  then show 0: "reachable_db demo_db0" by (rule reachable_db.step [OF reachable_db.start])
  show "reachable_db demo_db1" by (rule reachable_db.step [OF 0 quota_step.create [OF demo_create]])
qed



lemma read_quota_for_reset_SomeD:
  assumes "read_quota_for_reset app user db = Inr read" and "keys_ok db"
  shows "read \<in> set (d_quotas db) \<and> q_applicationId read = app \<and> q_userId read = user"
proof -
  have "find_quota app user db = Some read"
    using assms(1) by (auto simp: read_quota_for_reset_def requireUser_def split: option.splits)
  then show ?thesis by (rule find_quota_SomeD)
qed

lemma stale_read_fits:
  assumes "reachable_db db0" and "quota_step\<^sup>*\<^sup>* db0 db"
    and "read \<in> set (d_quotas db0)"
  shows "read_fits read db"
proof -
  have "reachable_db db" using assms(2,1) by (induction rule: rtranclp_induct) (auto intro: reachable_db.step)
  then have keys: "keys_ok db" using quota_inv_keys reachable_quota_inv by blast
  obtain q' where q': "q' \<in> set (d_quotas db)" "q_id q' = q_id read" "q_applicationId q' = q_applicationId read"
    "q_userId q' = q_userId read"
    "q_lockVersion q' = q_lockVersion read \<longrightarrow> q_consumed q' = q_consumed read \<and> q_reserved q' = q_reserved read"
    using quota_rows.stale_row [OF assms(2,3)] by auto
  have "q = q'" if "q \<in> set (d_quotas db)" "q_id q = q_id read" for q
    using quota_unique [OF keys that(1) q'(1)] that q' by simp
  with q' show ?thesis unfolding read_fits_def by blast
qed

lemma reset_tx_effect:
  assumes "reset_tx app user read off start uuid reason db = Inr db'" and "keys_ok db"
  obtains q window where "q \<in> set (d_quotas db)" "q_id q = q_id read" "q_lockVersion q = q_lockVersion read"
    "d_ledger db' = d_ledger db @ [reset_entry app user read uuid reason]"
    "d_quotas db' = update_rows (\<lambda>x. q_id x = q_id read)
       (\<lambda>x. (renew_quota window x)\<lparr>q_lockVersion := q_lockVersion x + 1\<rparr>) (d_quotas db)"
    "d_reservations db' = d_reservations
       (close_reservations (\<lambda>r. r_applicationId r = app \<and> r_userId r = user) RELEASED start db)"
proof -
  let ?db1 = "close_reservations (\<lambda>r. r_applicationId r = app \<and> r_userId r = user) RELEASED start db"
  have same: "d_quotas ?db1 = d_quotas db" "d_ledger ?db1 = d_ledger db"
    by (simp_all add: close_reservations_def)
  have dist: "distinct (map q_id (d_quotas ?db1))" using assms(2) same by (simp add: keys_ok_def)
  obtain window db2 db3 where
    u: "lock_update_quota app (q_id read) (q_lockVersion read) (renew_quota window) ?db1 = Inr (db2, 1)"
    and led: "create_ledger (reset_entry app user read uuid reason) db2 = Inr db3"
    and db': "d_quotas db' = d_quotas db3" "d_reservations db' = d_reservations db3" "d_ledger db' = d_ledger db3"
    using assms(1) by (auto simp: reset_tx_def Let_def split: if_splits)
  obtain q where
    "q \<in> set (d_quotas ?db1)" "q_id q = q_id read" "q_lockVersion q = q_lockVersion read"
    "db2 = ?db1\<lparr>d_quotas := update_rows (\<lambda>x. q_id x = q_id read)
       (\<lambda>x. (renew_quota window x)\<lparr>q_lockVersion := q_lockVersion x + 1\<rparr>) (d_quotas ?db1)\<rparr>"
    by (rule lock_update_quota_one [OF dist u])
  with led db' same show ?thesis
    by (intro that [of q window]) (simp_all add: create_ledger_Inr)
qed

text \<open>Resetting a quota is safe under concurrency.  \<open>reset\<close> reads the quota row, then writes
  in a later transaction guarded only by the version it read.  Whatever other writers did in
  between, a reset that succeeds posts to the ledger exactly the counters the row held when it
  was overwritten, zeroes the row, leaves the user without open reservations, and keeps the
  store one in which the books balance.\<close>

theorem reset_is_atomic:
  assumes "reachable_db db0" and "read_quota_for_reset app user db0 = Inr read"
    and "quota_step\<^sup>*\<^sup>* db0 db" and "reset_tx app user read off start uuid reason db = Inr db'"
  shows "reachable_db db' \<and>
    (\<exists>q \<in> set (d_quotas db). \<exists>q' \<in> set (d_quotas db'). \<exists>entry.
       q_id q = q_id read \<and> q_id q' = q_id read \<and> q_consumed q' = 0 \<and> q_reserved q' = 0 \<and>
       d_ledger db' = d_ledger db @ [entry] \<and> l_quotaId entry = q_id q \<and>
       l_consumedDelta entry = - q_consumed q \<and> l_reservedDelta entry = - q_reserved q) \<and>
    (\<forall>r \<in> set (d_reservations db'). r_applicationId r = app \<and> r_userId r = user \<longrightarrow> r_status r \<noteq> RESERVED)"
proof -
  have reach: "reachable_db db" using assms(3,1) by (induction rule: rtranclp_induct) (auto intro: reachable_db.step)
  have read: "read \<in> set (d_quotas db0)" "q_applicationId read = app" "q_userId read = user"
    using read_quota_for_reset_SomeD [OF assms(2) quota_inv_keys [OF reachable_quota_inv [OF assms(1)]]] by auto
  have fits: "read_fits read db" by (rule stale_read_fits [OF assms(1,3) read(1)])
  have 1: "reachable_db db'" by (rule reachable_db.step [OF reach quota_step.reset [OF fits read(2,3) assms(4)]])
  obtain q window where q: "q \<in> set (d_quotas db)" "q_id q = q_id read" "q_lockVersion q = q_lockVersion read"
    and ls: "d_ledger db' = d_ledger db @ [reset_entry app user read uuid reason]"
    and qs: "d_quotas db' = update_rows (\<lambda>x. q_id x = q_id read)
       (\<lambda>x. (renew_quota window x)\<lparr>q_lockVersion := q_lockVersion x + 1\<rparr>) (d_quotas db)"
    and rs: "d_reservations db' = d_reservations
       (close_reservations (\<lambda>r. r_applicationId r = app \<and> r_userId r = user) RELEASED start db)"
    by (rule reset_tx_effect [OF assms(4) quota_inv_keys [OF reachable_quota_inv [OF reach]]])
  let ?q' = "(renew_quota window q)\<lparr>q_lockVersion := q_lockVersion q + 1\<rparr>"
  have "?q' \<in> set (d_quotas db')" unfolding qs using update_rows_mem [OF q(1), of "\<lambda>x. q_id x = q_id read"] q(2) by simp
  moreover have "q_consumed q = q_consumed read" "q_reserved q = q_reserved read"
    using fits q by (auto simp: read_fits_def)
  ultimately have 2: "\<exists>q \<in> set (d_quotas db). \<exists>q' \<in> set (d_quotas db'). \<exists>entry.
       q_id q = q_id read \<and> q_id q' = q_id read \<and> q_consumed q' = 0 \<and> q_reserved q' = 0 \<and>
       d_ledger db' = d_ledger db @ [entry] \<and> l_quotaId entry = q_id q \<and>
       l_consumedDelta entry = - q_consumed q \<and> l_reservedDelta entry = - q_reserved q"
    using q ls by (intro bexI [of _ q] bexI [of _ ?q'] exI [of _ "reset_entry app user read uuid reason"])
      (simp_all add: renew_quota_def reset_entry_def)
  have 3: "\<forall>r \<in> set (d_reservations db'). r_applicationId r = app \<and> r_userId r = user \<longrightarrow> r_status r \<noteq> RESERVED"
    unfolding rs
    by (auto dest!: close_reservations_closed [rotated])
  show ?thesis using 1 2 3 by blast
qed

lemma demo_reset:
  "read_quota_for_reset ''app'' ''u1'' demo_db1 = Inr demo_quota"
  "\<exists>db'. reset_tx ''app'' ''u1'' demo_quota (\<lambda>_. 0) 2000 ''y'' ''why'' demo_db1 = Inr db'"
  by (simp_all add: read_quota_for_reset_def requireUser_def reset_tx_def request_defs
      renew_quota_def close_reservations_def reset_entry_def demo_defs)

theorem reset_is_atomic_witness:
  "\<exists>db' entry. reset_tx ''app'' ''u1'' demo_quota (\<lambda>_. 0) 2000 ''y'' ''why'' demo_db1 = Inr db' \<and>
     reachable_db db' \<and> d_ledger db' = d_ledger demo_db1 @ [entry] \<and> l_reservedDelta entry = - 100"
proof -
  obtain db' where r: "reset_tx ''app'' ''u1'' demo_quota (\<lambda>_. 0) 2000 ''y'' ''why'' demo_db1 = Inr db'"
    using demo_reset(2) by blast
  show ?thesis
    using reset_is_atomic [OF demo_reachable(2) demo_reset(1) rtranclp.rtrancl_refl r] r
    by (auto simp: demo_defs)
qed
subsection \<open>Tokens\<close>

lemma split_on_ne: "split_on c s \<noteq> []"
  by (induction s) (auto split: list.splits)

lemma split_on_word: "c \<notin> set w \<Longrightarrow> split_on c w = [w]"
  by (induction w) auto

lemma split_on_cons: "c \<notin> set w \<Longrightarrow> split_on c (w @ c # s) = w # split_on c s"
  by (induction w) (auto split: list.splits)

fun join_on :: "char \<Rightarrow> string list \<Rightarrow> string" where
  "join_on c [] = []"
| "join_on c [w] = w"
| "join_on c (w # ws) = w @ c # join_on c ws"

lemma join_split: "join_on c (split_on c s) = s"
proof (induction s)
  case (Cons x xs)
  obtain w ws where "split_on c xs = w # ws" using split_on_ne by (cases "split_on c xs") auto
  with Cons show ?case by (cases ws) auto
qed simp

text \<open>
  What the token relies on: base64url is undone by its decoder and has no dot in its
  alphabet, and parsing the JSON of these claims gives them back.
\<close>

definition codec_fits :: "codec \<Rightarrow> Claims \<Rightarrow> bool" where
  "codec_fits k claims \<longleftrightarrow>
     (\<forall>s. unb64url k (b64url k s) = s) \<and> (\<forall>s. CHR ''.'' \<notin> set (b64url k s)) \<and>
     parseClaims k (jsonClaims k claims) = Some claims"

lemma sign_verify:
  assumes "sign k claims = Inr token" and "codec_fits k (claims\<lparr>c_key_version := keyVersion k\<rparr>)"
  shows "verify k token = Inr (claims\<lparr>c_key_version := keyVersion k\<rparr>)"
proof -
  obtain key payload where key: "signingKey k = Some key"
    and payload: "payload = b64url k (jsonClaims k (claims\<lparr>c_key_version := keyVersion k\<rparr>))"
    and token: "token = ''tpur1'' @ CHR ''.'' # payload @ CHR ''.'' # b64url k (hmac k key payload)"
    using assms(1) by (auto simp: sign_def secret_def Let_def split: option.splits)
  have nodot: "CHR ''.'' \<notin> set (b64url k s)" and undo: "unb64url k (b64url k s) = s" for s
    using assms(2) by (simp_all add: codec_fits_def)
  have "split_on (CHR ''.'') token = [''tpur1'', payload, b64url k (hmac k key payload)]"
    unfolding token payload using nodot
    by (subst split_on_cons, simp)+ (simp add: split_on_word)
  moreover have "parseClaims k (unb64url k payload) = Some (claims\<lparr>c_key_version := keyVersion k\<rparr>)"
    using assms(2) unfolding payload undo by (simp add: codec_fits_def)
  ultimately show ?thesis by (simp add: verify_def secret_def key undo)
qed

text \<open>A signed token verifies to its own claims, stamped with the key version in force.\<close>

theorem token_roundtrip:
  assumes "signingKey k = Some key" and "codec_fits k (claims\<lparr>c_key_version := keyVersion k\<rparr>)"
  shows "\<exists>token. sign k claims = Inr token \<and> verify k token = Inr (claims\<lparr>c_key_version := keyVersion k\<rparr>)"
proof -
  obtain token where "sign k claims = Inr token"
    using assms(1) by (simp add: sign_def secret_def Let_def)
  with sign_verify assms(2) show ?thesis by blast
qed

lemma hex_digit_of: "n < 16 \<Longrightarrow> of_char (hex_digit n) = n + 97"
  by (simp add: hex_digit_def)

lemma hex_decode_encode: "hex_decode (hex_encode s) = s"
proof (induction s)
  case (Cons c s)
  have "of_char c < (256::nat)" by simp
  with Cons show ?case by (simp add: hex_encode_def hex_digit_of less_mult_imp_div_less)
qed (simp add: hex_encode_def)

lemma hex_encode_nodot: "CHR ''.'' \<notin> set (hex_encode s)"
proof -
  have "hex_digit n \<noteq> CHR ''.''" if "n < 16" for n
  proof
    assume "hex_digit n = CHR ''.''"
    then have "of_char (hex_digit n) = (of_char (CHR ''.'') :: nat)" by simp
    with that show False by (simp add: hex_digit_of)
  qed
  moreover have "of_char c div 16 < (16::nat)" for c
    by (simp add: less_mult_imp_div_less)
  ultimately show ?thesis by (auto simp: hex_encode_def) (metis mod_less_divisor zero_less_numeral)+
qed

lemma demo_codec_fits: "codec_fits demo_codec demo_claims"
  by (simp add: codec_fits_def demo_codec_def hex_decode_encode hex_encode_nodot) (simp add: demo_claims_def)

theorem token_roundtrip_witness:
  "\<exists>token. sign demo_codec demo_claims = Inr token \<and> verify demo_codec token = Inr demo_claims"
proof -
  have "demo_claims\<lparr>c_key_version := keyVersion demo_codec\<rparr> = demo_claims"
    by (simp add: demo_claims_def keyVersion_def demo_codec_def)
  with token_roundtrip [of demo_codec "''k''" demo_claims] demo_codec_fits show ?thesis
    by (simp add: demo_codec_def)
qed

text \<open>Only a string signed with the configured key passes: an accepted token is the prefix,
  a payload and a signature that decodes to the HMAC of that payload, its claims are the
  payload's, and its key version is the one in force.\<close>

theorem verify_accepts_only_signed:
  assumes "verify k token = Inr claims"
  shows "\<exists>key payload signature. token = ''tpur1.'' @ payload @ ''.'' @ signature \<and>
    signingKey k = Some key \<and> unb64url k signature = hmac k key payload \<and>
    parseClaims k (unb64url k payload) = Some claims \<and> c_key_version claims = keyVersion k"
proof -
  obtain payload signature key where parts: "split_on (CHR ''.'') token = [''tpur1'', payload, signature]"
    and rest: "signingKey k = Some key" "unb64url k signature = hmac k key payload"
    "parseClaims k (unb64url k payload) = Some claims" "c_key_version claims = keyVersion k"
    using assms by (auto simp: verify_def secret_def split: list.splits option.splits if_splits)
  have "token = ''tpur1.'' @ payload @ ''.'' @ signature"
    using join_split [of "CHR ''.''" token] by (simp add: parts)
  with rest show ?thesis by blast
qed

theorem verify_accepts_only_signed_witness:
  "\<exists>token payload signature. verify demo_codec token = Inr demo_claims \<and>
     token = ''tpur1.'' @ payload @ ''.'' @ signature \<and> hex_decode signature = ''k'' @ payload"
proof -
  have *: "demo_claims\<lparr>c_key_version := keyVersion demo_codec\<rparr> = demo_claims"
    by (simp add: demo_claims_def keyVersion_def demo_codec_def)
  obtain token where "sign demo_codec demo_claims = Inr token"
    by (simp add: sign_def secret_def demo_codec_def Let_def)
  then have v: "verify demo_codec token = Inr demo_claims"
    using sign_verify [of demo_codec demo_claims] demo_codec_fits * by simp
  from verify_accepts_only_signed [OF this] v show ?thesis by (auto simp: demo_codec_def)
qed
subsection \<open>Guarded writes succeed\<close>

text \<open>The CHECK constraints hold of the rows the database stores.\<close>

definition schema_ok :: "QuotaDb \<Rightarrow> bool" where
  "schema_ok db \<longleftrightarrow> list_all user_aiu_quotas_check (d_quotas db) \<and>
     list_all user_aiu_reservations_amounts_check (d_reservations db)"

definition bump_quota :: "(UserAiuQuota \<Rightarrow> UserAiuQuota) \<Rightarrow> UserAiuQuota \<Rightarrow> UserAiuQuota" where
  "bump_quota h q = (h q)\<lparr>q_lockVersion := q_lockVersion q + 1\<rparr>"

definition bump_reservation ::
  "(UserAiuReservation \<Rightarrow> UserAiuReservation) \<Rightarrow> UserAiuReservation \<Rightarrow> UserAiuReservation" where
  "bump_reservation g r = (g r)\<lparr>r_lockVersion := r_lockVersion r + 1\<rparr>"

text \<open>The store after one reservation, one quota row and the ledger were written.\<close>

definition posted ::
  "UserAiuReservation \<Rightarrow> UserAiuQuota \<Rightarrow> (UserAiuReservation \<Rightarrow> UserAiuReservation)
    \<Rightarrow> (UserAiuQuota \<Rightarrow> UserAiuQuota) \<Rightarrow> UserAiuLedgerEntry \<Rightarrow> QuotaDb \<Rightarrow> QuotaDb" where
  "posted row quota g h e db = db\<lparr>
     d_quotas := update_rows (\<lambda>x. q_id x = q_id quota) (bump_quota h) (d_quotas db),
     d_reservations := update_rows (\<lambda>x. r_id x = r_id row) (bump_reservation g) (d_reservations db),
     d_ledger := d_ledger db @ [e]\<rparr>"

lemma list_all_update_rows:
  "list_all P xs \<Longrightarrow> (\<And>x. x \<in> set xs \<Longrightarrow> p x \<Longrightarrow> P (g x)) \<Longrightarrow> list_all P (update_rows p g xs)"
  by (induction xs) auto

lemma check_lock [simp]: "user_aiu_quotas_check (q\<lparr>q_lockVersion := v\<rparr>) = user_aiu_quotas_check q"
  by (simp add: user_aiu_quotas_check_def cong: option.case_cong)

lemma amounts_lock [simp]:
  "user_aiu_reservations_amounts_check (r\<lparr>r_lockVersion := v\<rparr>) = user_aiu_reservations_amounts_check r"
  by (simp add: user_aiu_reservations_amounts_check_def)

lemma lock_update_quota_run:
  assumes keys: "distinct (map q_id (d_quotas db))" and "list_all user_aiu_quotas_check (d_quotas db)" and "quota \<in> set (d_quotas db)"
    and "user_aiu_quotas_check (h quota)" and "app = q_applicationId quota"
  shows "lock_update_quota app (q_id quota) (q_lockVersion quota) h db =
    Inr (db\<lparr>d_quotas := update_rows (\<lambda>x. q_id x = q_id quota) (bump_quota h) (d_quotas db)\<rparr>, 1)"
proof -
  let ?p = "\<lambda>q. q_applicationId q = app \<and> q_id q = q_id quota \<and> q_lockVersion q = q_lockVersion quota"
  have iff: "?p x \<longleftrightarrow> q_id x = q_id quota" if "x \<in> set (d_quotas db)" for x
    using distinct_map_inj [OF keys that assms(3)] assms(5) by auto
  have count: "count_rows ?p (d_quotas db) = 1"
    using count_rows_one_iff [of q_id "d_quotas db" quota ?p] assms(1,3,5) by simp
  have upd: "update_rows ?p (bump_quota h) (d_quotas db) =
      update_rows (\<lambda>x. q_id x = q_id quota) (bump_quota h) (d_quotas db)"
    using iff by (rule update_rows_cong)
  have "list_all user_aiu_quotas_check (update_rows (\<lambda>x. q_id x = q_id quota) (bump_quota h) (d_quotas db))"
    by (rule list_all_update_rows [OF assms(2)])
      (use distinct_map_inj [OF keys _ assms(3)] assms(4) in
        \<open>auto simp: bump_quota_def\<close>)
  then show ?thesis
    using count upd unfolding lock_update_quota_def Let_def bump_quota_def [abs_def] put_quotas_def by simp
qed

lemma lock_update_reservation_run:
  assumes "keys_ok db" and "list_all user_aiu_reservations_amounts_check (d_reservations db)"
    and "row \<in> set (d_reservations db)" and "user_aiu_reservations_amounts_check (g row)"
    and "app = r_applicationId row" and "st = r_status row"
  shows "lock_update_reservation app (r_id row) st (r_lockVersion row) g db =
    Inr (db\<lparr>d_reservations := update_rows (\<lambda>x. r_id x = r_id row) (bump_reservation g) (d_reservations db)\<rparr>, 1)"
proof -
  let ?p = "\<lambda>r. r_applicationId r = app \<and> r_id r = r_id row \<and> r_status r = st \<and> r_lockVersion r = r_lockVersion row"
  have iff: "?p x \<longleftrightarrow> r_id x = r_id row" if "x \<in> set (d_reservations db)" for x
    using reservation_unique [OF assms(1) that assms(3)] assms(5,6) by auto
  have count: "count_rows ?p (d_reservations db) = 1"
    using count_rows_one_iff [of r_id "d_reservations db" row ?p] assms(1,3,5,6) by (simp add: keys_ok_def)
  have upd: "update_rows ?p (bump_reservation g) (d_reservations db) =
      update_rows (\<lambda>x. r_id x = r_id row) (bump_reservation g) (d_reservations db)"
    using iff by (rule update_rows_cong)
  have "list_all user_aiu_reservations_amounts_check
      (update_rows (\<lambda>x. r_id x = r_id row) (bump_reservation g) (d_reservations db))"
    by (rule list_all_update_rows [OF assms(2)])
      (use reservation_unique [OF assms(1) _ assms(3)] assms(4) in
        \<open>auto simp: bump_reservation_def\<close>)
  then show ?thesis
    using count upd unfolding lock_update_reservation_def Let_def bump_reservation_def [abs_def] put_reservations_def by simp
qed

lemma settle_rows_run:
  assumes keys: "keys_ok db" and schema: "schema_ok db" and row: "row \<in> set (d_reservations db)"
    and quota: "quota_of row db = Some quota"
    and g: "user_aiu_reservations_amounts_check (g row)" and h: "user_aiu_quotas_check (h quota)"
    and e: "find_ledger (l_applicationId e) (l_idempotencyKey e) db = None" "user_aiu_ledger_snapshots_check e"
  shows "settle_rows row quota g h e db = Inr (posted row quota g h e db)"
proof -
  note q = quota_of_SomeD [OF quota]
  let ?db1 = "db\<lparr>d_reservations := update_rows (\<lambda>x. r_id x = r_id row) (bump_reservation g) (d_reservations db)\<rparr>"
  let ?p = "\<lambda>q. q_applicationId q = r_applicationId row \<and> q_id q = r_quotaId row \<and> q_lockVersion q = q_lockVersion quota"
  have 1: "lock_update_reservation (r_applicationId row) (r_id row) (r_status row) (r_lockVersion row) g db = Inr (?db1, 1)"
    by (rule lock_update_reservation_run [where g = g, OF keys _ row]) (use g schema in \<open>simp_all add: schema_ok_def\<close>)
  have 2: "lock_update_quota (r_applicationId row) (r_quotaId row) (q_lockVersion quota) h ?db1 =
      Inr (?db1\<lparr>d_quotas := update_rows (\<lambda>x. q_id x = q_id quota) (bump_quota h) (d_quotas db)\<rparr>, 1)"
    using lock_update_quota_run [of ?db1 quota h "r_applicationId row"] keys schema q h
    by (simp add: schema_ok_def keys_ok_def)
  have "find_ledger (l_applicationId e) (l_idempotencyKey e)
      (?db1\<lparr>d_quotas := update_rows (\<lambda>x. q_id x = q_id quota) (bump_quota h) (d_quotas db)\<rparr>) = None"
    using e(1) by (simp add: find_ledger_def)
  then show ?thesis
    unfolding settle_rows_def 1 2 using e(2) by (simp add: 1 2 create_ledger_def posted_def)
qed

lemma quota_of_reservation_exists:
  assumes "keys_ok db" and "r \<in> set (d_reservations db)"
  obtains q where "quota_of r db = Some q"
proof -
  obtain x where "x \<in> set (d_quotas db)" "q_id x = r_quotaId r" "q_applicationId x = r_applicationId r"
    using assms by (auto simp: keys_ok_def)
  then have "quota_of r db \<noteq> None" by (auto simp: quota_of_def find_unique_None)
  with that show ?thesis by blast
qed

lemma find_unique_mem:
  assumes "distinct (map k rs)" and "r \<in> set rs" and "p r" and "\<And>x. p x \<Longrightarrow> k x = k r"
  shows "find_unique p rs = Some r"
proof -
  have "find_unique p rs \<noteq> None" using assms(2,3) by (auto simp: find_unique_None)
  then obtain x where "find_unique p rs = Some x" by blast
  with find_unique_SomeD [OF this] assms distinct_map_inj [OF assms(1) _ assms(2)] show ?thesis by metis
qed

lemma open_reservation_covered:
  assumes "quota_inv db" and "row \<in> set (d_reservations db)" and "r_status row = RESERVED"
    and "quota_of row db = Some quota"
  shows "0 \<le> r_reserved row" and "r_reserved row \<le> q_reserved quota"
proof -
  note q = quota_of_SomeD [OF assms(4)]
  have all: "\<forall>r \<in> set (d_reservations db). 0 \<le> r_reserved r"
    using assms(1) by (auto simp: quota_inv_def keys_ok_def)
  then show "0 \<le> r_reserved row" using assms(2) by simp
  have "q_reserved quota = reserved_total (r_quotaId row) (d_reservations db)"
    using assms(1) q(1,2) by (auto simp: quota_inv_def balanced_def)
  with reserved_total_ge [OF all assms(2,3)] show "r_reserved row \<le> q_reserved quota" by simp
qed

lemma lower_reserved_check:
  assumes "user_aiu_quotas_check quota" and "0 \<le> a" and "a \<le> q_reserved quota"
  shows "user_aiu_quotas_check (quota\<lparr>q_reserved := q_reserved quota - a\<rparr>)"
  using assms by (simp add: user_aiu_quotas_check_def bigint_def cong: option.case_cong)

text \<open>The sweeper never gets stuck on a well-formed store.  An open reservation whose time is
  up, and whose expiry was not posted before, is expired by one transaction: the row becomes
  EXPIRED, its amount leaves the reserved counter of its quota, consumption stays, and the
  checks for an inconsistent balance or a concurrent change do not fire.\<close>

theorem expiry_succeeds:
  assumes inv: "quota_inv db" and schema: "schema_ok db" and row: "row \<in> set (d_reservations db)"
    and due: "r_status row = RESERVED" "r_expiresAt row \<le> now"
    and fresh: "find_ledger (r_applicationId row) (''user-reservation:'' @ r_id row @ '':expire'') db = None"
  shows "\<exists>db' quota. expire_tx (r_applicationId row) (r_id row) now db = Inr (db', True) \<and>
    quota_of row db = Some quota \<and>
    db' = posted row quota (\<lambda>r. r\<lparr>r_status := EXPIRED, r_releasedAt := Some now\<rparr>)
      (\<lambda>q. q\<lparr>q_reserved := q_reserved q - r_reserved row\<rparr>) (expire_entry row quota) db"
proof -
  note keys = quota_inv_keys [OF inv]
  obtain quota where quota: "quota_of row db = Some quota" by (rule quota_of_reservation_exists [OF keys row])
  note q = quota_of_SomeD [OF quota] and cov = open_reservation_covered [OF inv row due(1) quota]
  have chk: "user_aiu_quotas_check quota" using schema q(1) by (simp add: schema_ok_def list_all_iff)
  have find: "find_unique (\<lambda>r. r_id r = r_id row \<and> r_applicationId r = r_applicationId row \<and> r_status r = RESERVED
              \<and> r_expiresAt r \<le> now) (d_reservations db) = Some row"
    by (rule find_unique_mem [of r_id]) (use keys row due in \<open>simp_all add: keys_ok_def\<close>)
  have "settle_rows row quota (\<lambda>r. r\<lparr>r_status := EXPIRED, r_releasedAt := Some now\<rparr>)
      (\<lambda>q. q\<lparr>q_reserved := q_reserved q - r_reserved row\<rparr>) (expire_entry row quota) db =
    Inr (posted row quota (\<lambda>r. r\<lparr>r_status := EXPIRED, r_releasedAt := Some now\<rparr>)
      (\<lambda>q. q\<lparr>q_reserved := q_reserved q - r_reserved row\<rparr>) (expire_entry row quota) db)"
    by (rule settle_rows_run [OF keys schema row quota])
      (use lower_reserved_check [OF chk cov] schema row chk cov fresh in \<open>simp_all add: schema_ok_def list_all_iff expire_entry_def
        user_aiu_reservations_amounts_check_def user_aiu_ledger_snapshots_check_def user_aiu_quotas_check_def\<close>)
  with quota cov show ?thesis by (simp add: expire_tx_def find)
qed

lemma demo_db1_ok: "quota_inv demo_db1" "schema_ok demo_db1" "demo_reservation \<in> set (d_reservations demo_db1)"
  "r_status demo_reservation = RESERVED" "r_expiresAt demo_reservation = 61000"
  using reachable_quota_inv [OF demo_reachable(2)]
  by (simp_all add: schema_ok_def demo_defs request_defs)

theorem expiry_succeeds_witness:
  "\<exists>db'. expire_tx ''app'' ''r1'' 61000 demo_db1 = Inr (db', True) \<and> map q_reserved (d_quotas db') = [0]"
proof -
  have "find_ledger (r_applicationId demo_reservation) (''user-reservation:'' @ r_id demo_reservation @ '':expire'') demo_db1 = None"
    by (simp add: demo_defs request_defs)
  from expiry_succeeds [OF demo_db1_ok(1,2,3,4) _ this, of 61000] demo_db1_ok(5) show ?thesis
    by (auto simp: posted_def demo_defs bump_quota_def quota_of_def new_reservation_def find_unique_def)
qed
subsection \<open>The life of a reservation\<close>

text \<open>
  What \<open>reserve_new\<close> did when it answered: it denied and wrote nothing, or it wrote the
  reservation under its signed token, raised the reserved counter and posted the entry.
\<close>

lemma reserve_new_effect:
  assumes run: "reserve_new e app user q request candidates db = Inr (db', r)" and keys: "keys_ok db"
    and q: "q \<in> set (d_quotas db)"
  obtains (denied) "remainingAiu q < rq_estimated request" "db' = db" "\<not> rs_allowed r" "rs_reservation r = None"
  | (reserved) token row where "rq_estimated request \<le> remainingAiu q"
    "sign (e_codec e) (reservationClaims row) = Inr token"
    "row = (new_reservation e app user q request candidates)\<lparr>r_tokenHash := token_hash (e_codec e) token\<rparr>"
    "d_quotas db' = update_rows (\<lambda>x. q_id x = q_id q)
       (bump_quota (\<lambda>x. x\<lparr>q_reserved := q_reserved x + rq_estimated request\<rparr>)) (d_quotas db)"
    "d_reservations db' = d_reservations db @ [row]"
    "d_ledger db' = d_ledger db @ [reserve_entry row q]"
    "list_all user_aiu_quotas_check (d_quotas db')"
    "list_all user_aiu_reservations_amounts_check (d_reservations db')"
    "rs_allowed r" "rs_reservation r = Some \<lparr>rr_id = r_id row, rr_token = token,
       rr_reserved = rq_estimated request, rr_expires_at = r_expiresAt row\<rparr>"
proof (cases "remainingAiu q < rq_estimated request")
  case True
  with run show ?thesis by (intro denied) (auto simp: reserve_new_def Let_def reservationDenied_def)
next
  case False
  let ?draft = "new_reservation e app user q request candidates"
  let ?h = "\<lambda>x. x\<lparr>q_reserved := q_reserved x + rq_estimated request\<rparr>"
  from False run obtain token where tok: "sign (e_codec e) (reservationClaims ?draft) = Inr token"
    by (auto simp: reserve_new_def Let_def)
  define row where "row = ?draft\<lparr>r_tokenHash := token_hash (e_codec e) token\<rparr>"
  obtain db1 db2 db3 where
    u: "lock_update_quota app (q_id q) (q_lockVersion q) ?h db = Inr (db1, 1)"
    and c: "create_reservation row db1 = Inr db2"
    and l: "create_ledger (reserve_entry row q) db2 = Inr db3"
    and d: "d_quotas db' = d_quotas db3" "d_reservations db' = d_reservations db3" "d_ledger db' = d_ledger db3"
    and r: "rs_allowed r" "rs_reservation r = Some \<lparr>rr_id = r_id row, rr_token = token,
       rr_reserved = rq_estimated request, rr_expires_at = r_expiresAt row\<rparr>"
    using False run tok by (auto simp: reserve_new_def Let_def row_def split: if_splits)
  have dist: "distinct (map q_id (d_quotas db))" using keys by (simp add: keys_ok_def)
  have db1: "db1 = db\<lparr>d_quotas := update_rows (\<lambda>x. q_id x = q_id q) (bump_quota ?h) (d_quotas db)\<rparr>"
    "list_all user_aiu_quotas_check (d_quotas db1)"
    by (rule lock_update_quota_one [OF dist u], simp add: bump_quota_def [abs_def])+
  have db2: "db2 = db1\<lparr>d_reservations := d_reservations db1 @ [row]\<rparr>"
    "list_all user_aiu_reservations_amounts_check (d_reservations db2)"
    using c by (auto simp: create_reservation_def split: if_splits)
  have claims: "reservationClaims row = reservationClaims ?draft" by (simp add: row_def reservationClaims_def)
  show ?thesis
    by (rule reserved [OF _ _ row_def])
      (use False tok claims db1 db2 l d r in \<open>simp_all add: create_ledger_Inr\<close>)
qed

text \<open>C4: A hard limit is never oversold.  When a request is answered, either nothing was written
  and the request is denied because the rest is below the estimate, or the estimate was added to
  the reserved counter, and for a positive estimate consumption and reservations together still
  fit the limit.\<close>

theorem hard_limit_never_oversold:
  assumes "quota_inv db" and "q \<in> set (d_quotas db)"
    and "reserve_new e app user q request candidates db = Inr (db', r)"
  shows "if rs_allowed r
    then (\<exists>q' \<in> set (d_quotas db'). q_id q' = q_id q \<and> q_limit q' = q_limit q \<and>
            q_consumed q' = q_consumed q \<and> q_reserved q' = q_reserved q + rq_estimated request \<and>
            (0 < rq_estimated request \<longrightarrow> q_consumed q' + q_reserved q' \<le> q_limit q'))
    else db' = db \<and> q_limit q - q_consumed q - q_reserved q < rq_estimated request"
proof (cases rule: reserve_new_effect [OF assms(3) quota_inv_keys [OF assms(1)] assms(2), case_names denied reserved])
  case denied
  then show ?thesis by (auto simp: remainingAiu_def Let_def split: if_splits)
next
  case (reserved token row)
  let ?q' = "bump_quota (\<lambda>x. x\<lparr>q_reserved := q_reserved x + rq_estimated request\<rparr>) q"
  have "?q' \<in> set (d_quotas db')"
    using reserved(4) update_rows_mem [OF assms(2), of "\<lambda>x. q_id x = q_id q"] by simp
  then have "\<exists>q' \<in> set (d_quotas db'). q_id q' = q_id q \<and> q_limit q' = q_limit q \<and>
            q_consumed q' = q_consumed q \<and> q_reserved q' = q_reserved q + rq_estimated request \<and>
            (0 < rq_estimated request \<longrightarrow> q_consumed q' + q_reserved q' \<le> q_limit q')"
    by (rule rev_bexI) (use reserved(1) in \<open>auto simp: bump_quota_def remainingAiu_def Let_def split: if_splits\<close>)
  with reserved show ?thesis by simp
qed

lemma demo_reserve:
  "\<exists>db' r. reserve_new (demo_env\<lparr>e_reservation_id := ''r2''\<rparr>) ''app'' ''u1'' demo_quota
     (demo_request\<lparr>rq_operation_id := ''op2'', rq_estimated := 900\<rparr>) [''m1''] demo_db1 = Inr (db', r) \<and> rs_allowed r"
  by (simp add: demo_defs request_defs sign_def secret_def Let_def)

theorem hard_limit_never_oversold_witness:
  "\<exists>db' r. reserve_new (demo_env\<lparr>e_reservation_id := ''r2''\<rparr>) ''app'' ''u1'' demo_quota
     (demo_request\<lparr>rq_operation_id := ''op2'', rq_estimated := 900\<rparr>) [''m1''] demo_db1 = Inr (db', r) \<and>
     (\<exists>q' \<in> set (d_quotas db'). q_reserved q' = 1000 \<and> q_consumed q' + q_reserved q' \<le> q_limit q')"
proof -
  obtain db' r where run: "reserve_new (demo_env\<lparr>e_reservation_id := ''r2''\<rparr>) ''app'' ''u1'' demo_quota
     (demo_request\<lparr>rq_operation_id := ''op2'', rq_estimated := 900\<rparr>) [''m1''] demo_db1 = Inr (db', r)" "rs_allowed r"
    using demo_reserve by blast
  have "demo_quota \<in> set (d_quotas demo_db1)" by (simp add: demo_db1_def)
  from hard_limit_never_oversold [OF demo_db1_ok(1) this run(1)] run show ?thesis
    by (fastforce simp: demo_quota_def)
qed

lemma find_unique_append:
  "find_unique p xs = None \<Longrightarrow> find_unique p (xs @ ys) = find_unique p ys"
  by (induction xs) (auto simp: find_unique_def split: if_splits)

lemma resolveCandidates_sorted: "resolveCandidates vms app request = Inr cs \<Longrightarrow> sort cs = cs"
  by (auto simp: resolveCandidates_def Let_def sorted_sort_id split: option.splits if_splits)

text \<open>C24: An operation id is an idempotency key.  After a reservation was made for an operation, the
  same request finds that row again and is answered with the same reservation and the same token,
  whatever the quota looks like by then; a request for another model, estimate or candidate list
  under the same id is refused.\<close>

theorem operation_replay_same_reservation:
  assumes "quota_inv db" and "q \<in> set (d_quotas db)"
    and "resolveCandidates vms app request = Inr candidates"
    and "find_unique (\<lambda>r. r_applicationId r = app \<and> r_userId r = user
           \<and> r_operationId r = rq_operation_id request) (d_reservations db) = None"
    and "reserve_new e app user q request candidates db = Inr (db', r)" and "rs_allowed r"
  shows "\<exists>row. find_unique (\<lambda>r. r_applicationId r = app \<and> r_userId r = user
           \<and> r_operationId r = rq_operation_id request) (d_reservations db') = Some row \<and>
    (\<forall>quota. \<exists>again. existing (e_codec e) row quota request candidates = Inr again \<and>
       rs_allowed again \<and> rs_reservation again = rs_reservation r) \<and>
    (\<forall>quota other cs. rq_virtual_model other \<noteq> rq_virtual_model request \<or>
         rq_estimated other \<noteq> rq_estimated request \<or> cs \<noteq> candidates \<longrightarrow>
       existing (e_codec e) row quota other cs = Inl (Conflict ''Operation ID was already used for another reservation''))"
proof (cases rule: reserve_new_effect [OF assms(5) quota_inv_keys [OF assms(1)] assms(2), case_names denied reserved])
  case denied
  with assms(6) show ?thesis by simp
next
  case (reserved token row)
  have row: "r_applicationId row = app" "r_userId row = user" "r_operationId row = rq_operation_id request"
    "r_virtualModel row = rq_virtual_model request" "r_estimated row = rq_estimated request"
    "r_candidates row = candidates" "r_status row = RESERVED" "r_reserved row = rq_estimated request"
    "r_tokenHash row = token_hash (e_codec e) token"
    by (simp_all add: reserved(3) new_reservation_def)
  have "find_unique (\<lambda>r. r_applicationId r = app \<and> r_userId r = user
           \<and> r_operationId r = rq_operation_id request) (d_reservations db') = Some row"
    using row unfolding reserved(5) find_unique_append [OF assms(4)] by (simp add: find_unique_def)
  moreover have "\<exists>again. existing (e_codec e) row quota request candidates = Inr again \<and>
       rs_allowed again \<and> rs_reservation again = rs_reservation r" for quota
    using row reserved resolveCandidates_sorted [OF assms(3)] by (simp add: existing_def)
  moreover have "existing (e_codec e) row quota other cs = Inl (Conflict ''Operation ID was already used for another reservation'')"
    if "rq_virtual_model other \<noteq> rq_virtual_model request \<or>
         rq_estimated other \<noteq> rq_estimated request \<or> cs \<noteq> candidates" for quota other cs
    using that row resolveCandidates_sorted [OF assms(3)] by (auto simp: existing_def)
  ultimately show ?thesis by blast
qed

theorem operation_replay_same_reservation_witness:
  "\<exists>db' r row again. reserve_new (demo_env\<lparr>e_reservation_id := ''r2''\<rparr>) ''app'' ''u1'' demo_quota
     (demo_request\<lparr>rq_operation_id := ''op2'', rq_estimated := 900\<rparr>) [''m1''] demo_db1 = Inr (db', r) \<and>
     row \<in> set (d_reservations db') \<and>
     existing demo_codec row demo_quota (demo_request\<lparr>rq_operation_id := ''op2'', rq_estimated := 900\<rparr>) [''m1''] = Inr again \<and>
     rs_reservation again = rs_reservation r"
proof -
  let ?rq = "demo_request\<lparr>rq_operation_id := ''op2'', rq_estimated := 900\<rparr>"
  obtain db' r where run: "reserve_new (demo_env\<lparr>e_reservation_id := ''r2''\<rparr>) ''app'' ''u1'' demo_quota
     ?rq [''m1''] demo_db1 = Inr (db', r)" "rs_allowed r"
    using demo_reserve by blast
  have q: "demo_quota \<in> set (d_quotas demo_db1)" by (simp add: demo_db1_def)
  have c: "resolveCandidates [demo_vm] ''app'' ?rq = Inr [''m1'']" by (simp add: demo_defs request_defs)
  have f: "find_unique (\<lambda>r. r_applicationId r = ''app'' \<and> r_userId r = ''u1''
           \<and> r_operationId r = rq_operation_id ?rq) (d_reservations demo_db1) = None"
    by (simp add: demo_defs request_defs)
  have k: "e_codec (demo_env\<lparr>e_reservation_id := ''r2''\<rparr>) = demo_codec" by (simp add: demo_env_def)
  from operation_replay_same_reservation [OF demo_db1_ok(1) q c f run] run(1) find_unique_SomeD
  show ?thesis unfolding k by meson
qed
definition close_row :: "transition_action \<Rightarrow> int \<Rightarrow> int \<Rightarrow> UserAiuReservation \<Rightarrow> UserAiuReservation" where
  "close_row act actual now r =
     (if act = SettleAction
      then r\<lparr>r_status := SETTLED, r_settled := actual, r_settledAt := Some now\<rparr>
      else r\<lparr>r_status := RELEASED, r_releasedAt := Some now\<rparr>)"

definition charge_quota :: "int \<Rightarrow> int \<Rightarrow> UserAiuQuota \<Rightarrow> UserAiuQuota" where
  "charge_quota reserved consumed q =
     q\<lparr>q_reserved := q_reserved q - reserved, q_consumed := q_consumed q + consumed\<rparr>"

definition charged :: "transition_action \<Rightarrow> int \<Rightarrow> int" where
  "charged act actual = (if act = SettleAction then actual else 0)"

text \<open>Closing an open reservation is one guarded posting, like every other settlement.\<close>

lemma transition_tx_open:
  assumes "find_unique (\<lambda>r. r_id r = rid \<and> r_applicationId r = app) (d_reservations db) = Some row"
    and "quota_of row db = Some quota" and "assertReservationTokenLineage k row verified token = Inr ()"
    and "r_status row = RESERVED"
  shows "transition_tx k app rid verified token act actual reason now db = Inr (db', t) \<longleftrightarrow>
    settle_rows row quota (close_row act actual now) (charge_quota (r_reserved row) (charged act actual))
      (transition_entry act actual reason row quota) db = Inr db' \<and>
    t = reservationTransitionResult (close_row act actual now row)
          (charge_quota (r_reserved row) (charged act actual) quota)"
proof -
  have id: "r_id row = rid" "r_applicationId row = app" using find_unique_SomeD [OF assms(1)] by auto
  show ?thesis
    unfolding transition_tx_def settle_rows_def close_row_def [abs_def] charge_quota_def [abs_def] charged_def
    using assms id
    by (cases act) (auto simp: bind_res_Inr_iff reservationTransitionResult_def reservationUserSummary_def
        remainingAiu_def split: if_splits)
qed

lemma charge_check:
  assumes "user_aiu_quotas_check quota" and "0 \<le> a" "a \<le> q_reserved quota" and "0 \<le> c" "bigint (q_consumed quota + c)"
  shows "user_aiu_quotas_check (charge_quota a c quota)"
  using assms by (simp add: charge_quota_def user_aiu_quotas_check_def bigint_def cong: option.case_cong)

text \<open>An open reservation, its own token and a free ledger key: the request goes through.\<close>

lemma transition_tx_succeeds:
  assumes inv: "quota_inv db" and schema: "schema_ok db" and row: "row \<in> set (d_reservations db)"
    and quota: "quota_of row db = Some quota" and st: "r_status row = RESERVED"
    and lin: "assertReservationTokenLineage k row verified token = Inr ()"
    and amount: "0 \<le> actual" "bigint (q_consumed quota + actual)"
    and fresh: "find_ledger (r_applicationId row) (l_idempotencyKey (transition_entry act actual reason row quota)) db = None"
  shows "transition_tx k (r_applicationId row) (r_id row) verified token act actual reason now db =
    Inr (posted row quota (close_row act actual now) (charge_quota (r_reserved row) (charged act actual))
           (transition_entry act actual reason row quota) db,
         reservationTransitionResult (close_row act actual now row)
          (charge_quota (r_reserved row) (charged act actual) quota))"
proof -
  note keys = quota_inv_keys [OF inv] and q = quota_of_SomeD [OF quota]
  note cov = open_reservation_covered [OF inv row st quota]
  have chk: "user_aiu_quotas_check quota" using schema q(1) by (simp add: schema_ok_def list_all_iff)
  have charged: "0 \<le> charged act actual" "bigint (q_consumed quota + charged act actual)"
    using amount chk by (auto simp: charged_def user_aiu_quotas_check_def)
  have find: "find_unique (\<lambda>r. r_id r = r_id row \<and> r_applicationId r = r_applicationId row) (d_reservations db) = Some row"
    by (rule find_unique_mem [of r_id]) (use keys row in \<open>simp_all add: keys_ok_def\<close>)
  have amounts: "user_aiu_reservations_amounts_check (close_row act actual now row)"
    using schema row amount
    by (auto simp: schema_ok_def list_all_iff close_row_def user_aiu_reservations_amounts_check_def)
  have snap: "user_aiu_ledger_snapshots_check (transition_entry act actual reason row quota)"
    using cov chk charged
    by (auto simp: transition_entry_def charged_def user_aiu_ledger_snapshots_check_def user_aiu_quotas_check_def)
  have "l_applicationId (transition_entry act actual reason row quota) = r_applicationId row"
    by (simp add: transition_entry_def)
  then have "settle_rows row quota (close_row act actual now) (charge_quota (r_reserved row) (charged act actual))
      (transition_entry act actual reason row quota) db =
    Inr (posted row quota (close_row act actual now) (charge_quota (r_reserved row) (charged act actual))
      (transition_entry act actual reason row quota) db)"
    using settle_rows_run [OF keys schema row quota, of "close_row act actual now"
        "charge_quota (r_reserved row) (charged act actual)"] amounts charge_check [OF chk cov charged] fresh snap
    by simp
  then show ?thesis using transition_tx_open [OF find quota lin st] by blast
qed

lemma quota_of_mem:
  assumes "keys_ok db" and "q \<in> set (d_quotas db)" and "q_id q = r_quotaId r" and "q_applicationId q = r_applicationId r"
  shows "quota_of r db = Some q"
  unfolding quota_of_def
  by (rule find_unique_mem [of q_id]) (use assms in \<open>simp_all add: keys_ok_def\<close>)

text \<open>C22: A reservation is good for its settlement.  The token handed out with a new reservation is
  accepted back: settling with it succeeds, moves exactly the reserved estimate out of the reserved
  counter and the actual amount, larger or smaller than the estimate, into consumption.\<close>

theorem reserved_token_settles:
  assumes inv: "quota_inv db" and q: "q \<in> set (d_quotas db)" "q_applicationId q = app" "q_userId q = user"
    and run: "reserve_new e app user q request candidates db = Inr (db', r)" and ref: "rs_reservation r = Some ref"
    and codec: "codec_fits (e_codec e) ((reservationClaims (new_reservation e app user q request candidates))
      \<lparr>c_key_version := keyVersion (e_codec e)\<rparr>)"
    and amount: "0 \<le> actual" "bigint (q_consumed q + actual)"
    and fresh: "find_ledger app (''user-reservation:'' @ rr_id ref @ '':settle'') db = None"
  shows "\<exists>db'' t. settle (e_codec e) (Some app) (rr_id ref) (rr_token ref) actual now db' = Inr (db'', t) \<and>
    tr_status t = SETTLED \<and> tr_settled t = actual \<and>
    (\<exists>q'' \<in> set (d_quotas db''). q_id q'' = q_id q \<and> q_consumed q'' = q_consumed q + actual \<and>
       q_reserved q'' = q_reserved q)"
proof (cases rule: reserve_new_effect [OF run quota_inv_keys [OF inv] q(1), case_names denied reserved])
  case denied
  with ref show ?thesis by simp
next
  case (reserved token row)
  let ?k = "e_codec e" and ?est = "rq_estimated request"
  have inv': "quota_inv db'" by (rule reserve_new_inv [OF inv q run])
  have row: "r_applicationId row = app" "r_quotaId row = q_id q" "r_status row = RESERVED"
    "r_reserved row = ?est" "r_tokenHash row = token_hash ?k token" "r_id row = e_reservation_id e"
    "row \<in> set (d_reservations db')"
    by (simp_all add: reserved(3,5) new_reservation_def)
  have refs: "rr_id ref = r_id row" "rr_token ref = token" using ref reserved by auto
  have "codec_fits ?k ((reservationClaims row)\<lparr>c_key_version := keyVersion ?k\<rparr>)"
    using codec by (simp add: reserved(3) reservationClaims_def)
  from sign_verify [OF reserved(2) this]
  have ver: "verify ?k token = Inr ((reservationClaims row)\<lparr>c_key_version := keyVersion ?k\<rparr>)" .
  have lin: "assertReservationTokenLineage ?k row ((reservationClaims row)\<lparr>c_key_version := keyVersion ?k\<rparr>) token = Inr ()"
    by (simp add: assertReservationTokenLineage_def row)
  let ?q' = "bump_quota (\<lambda>x. x\<lparr>q_reserved := q_reserved x + ?est\<rparr>) q"
  have q': "?q' \<in> set (d_quotas db')"
    using reserved(4) update_rows_mem [OF q(1), of "\<lambda>x. q_id x = q_id q"] by simp
  have quota: "quota_of row db' = Some ?q'"
    by (rule quota_of_mem [OF quota_inv_keys [OF inv'] q']) (simp_all add: bump_quota_def row q)
  have "find_ledger app (''user-reservation:'' @ r_id row @ '':settle'') db' = None"
    using fresh by (auto simp: refs find_ledger_def reserved(6) find_unique_None reserve_entry_def)
  then have "transition_tx ?k app (r_id row) ((reservationClaims row)\<lparr>c_key_version := keyVersion ?k\<rparr>) token
      SettleAction actual ''AIU reservation settled'' now db' =
    Inr (posted row ?q' (close_row SettleAction actual now) (charge_quota ?est actual)
           (transition_entry SettleAction actual ''AIU reservation settled'' row ?q') db',
         reservationTransitionResult (close_row SettleAction actual now row) (charge_quota ?est actual ?q'))"
    using transition_tx_succeeds [OF inv' _ row(7) quota row(3) lin amount(1), of SettleAction] amount(2) reserved(7,8)
    by (simp add: row bump_quota_def charged_def schema_ok_def transition_entry_def)
  then have "settle ?k (Some app) (rr_id ref) (rr_token ref) actual now db' =
    Inr (posted row ?q' (close_row SettleAction actual now) (charge_quota ?est actual)
           (transition_entry SettleAction actual ''AIU reservation settled'' row ?q') db',
         reservationTransitionResult (close_row SettleAction actual now row) (charge_quota ?est actual ?q'))"
    by (simp add: settle_def transition_def refs ver row(1) reservationClaims_def)
  moreover have "bump_quota (charge_quota ?est actual) ?q' \<in> set (d_quotas (posted row ?q' (close_row SettleAction actual now)
      (charge_quota ?est actual) (transition_entry SettleAction actual ''AIU reservation settled'' row ?q') db'))"
    using update_rows_mem [OF q', of "\<lambda>x. q_id x = q_id ?q'"] by (simp add: posted_def)
  ultimately show ?thesis
    by (auto simp: reservationTransitionResult_def close_row_def bump_quota_def charge_quota_def
        intro!: rev_bexI)
qed

lemma demo_first_reserve:
  "\<exists>db r. quota_inv db \<and> demo_quota\<lparr>q_reserved := 0\<rparr> \<in> set (d_quotas db) \<and> d_ledger db = [demo_grant] \<and>
     reserve_new demo_env ''app'' ''u1'' (demo_quota\<lparr>q_reserved := 0\<rparr>) demo_request [''m1''] db = Inr r \<and>
     rs_reservation (snd r) = Some \<lparr>rr_id = ''r1'', rr_token = demo_token, rr_reserved = 100, rr_expires_at = 61000\<rparr>"
proof -
  let ?db = "demo_db1\<lparr>d_quotas := [demo_quota\<lparr>q_reserved := 0\<rparr>], d_reservations := [], d_ledger := [demo_grant]\<rparr>"
  have "quota_inv ?db"
    by (simp add: quota_inv_def keys_ok_def balanced_def total_defs demo_defs request_defs last_posting_def entry_shows_def)
  moreover have "\<exists>r. reserve_new demo_env ''app'' ''u1'' (demo_quota\<lparr>q_reserved := 0\<rparr>) demo_request [''m1''] ?db = Inr r \<and>
     rs_reservation (snd r) = Some \<lparr>rr_id = ''r1'', rr_token = demo_token, rr_reserved = 100, rr_expires_at = 61000\<rparr>"
    by (simp add: demo_defs request_defs sign_def secret_def Let_def demo_token_def reservationClaims_def)
  ultimately show ?thesis by (intro exI [of _ ?db]) auto
qed

theorem reserved_token_settles_witness:
  "\<exists>db db'' t. quota_inv db \<and> settle demo_codec (Some ''app'') ''r1'' demo_token 250 5 db = Inr (db'', t) \<and> tr_settled t = 250"
proof -
  obtain db db' r where *: "quota_inv db" "demo_quota\<lparr>q_reserved := 0\<rparr> \<in> set (d_quotas db)" "d_ledger db = [demo_grant]"
     "reserve_new demo_env ''app'' ''u1'' (demo_quota\<lparr>q_reserved := 0\<rparr>) demo_request [''m1''] db = Inr (db', r)"
     "rs_reservation r = Some \<lparr>rr_id = ''r1'', rr_token = demo_token, rr_reserved = 100, rr_expires_at = 61000\<rparr>"
    using demo_first_reserve by (metis prod.collapse)
  have claims: "(reservationClaims (new_reservation demo_env ''app'' ''u1'' (demo_quota\<lparr>q_reserved := 0\<rparr>) demo_request [''m1'']))
      \<lparr>c_key_version := keyVersion (e_codec demo_env)\<rparr> = demo_claims"
    by (simp add: reservationClaims_def demo_defs request_defs demo_claims_def keyVersion_def)
  have inv': "quota_inv db'" using reserve_new_inv [OF *(1,2) _ _ *(4)] by (simp add: demo_quota_def)
  show ?thesis
    using reserved_token_settles [OF *(1,2) _ _ *(4,5), where actual = 250 and now = 5] claims demo_codec_fits inv' *(3)
    by (auto simp: demo_env_def demo_quota_def find_ledger_def find_unique_def demo_grant_def bigint_def)
qed
subsection \<open>Repeated requests\<close>

lemma posted_row:
  assumes "keys_ok db" and "row \<in> set (d_reservations db)" and "r_id (g row) = r_id row" and "r_applicationId (g row) = r_applicationId row"
    and "\<And>r. r_id (bump_reservation g r) = r_id r"
  shows "find_unique (\<lambda>r. r_id r = r_id row \<and> r_applicationId r = r_applicationId row)
    (d_reservations (posted row quota g h e db)) = Some (bump_reservation g row)"
proof (rule find_unique_mem [of r_id])
  show "distinct (map r_id (d_reservations (posted row quota g h e db)))"
    using assms(1,5) by (simp add: posted_def keys_ok_def map_update_rows_frame)
  show "bump_reservation g row \<in> set (d_reservations (posted row quota g h e db))"
    using update_rows_mem [OF assms(2), of "\<lambda>x. r_id x = r_id row"] by (simp add: posted_def)
qed (use assms(3,4) in \<open>simp_all add: bump_reservation_def\<close>)

lemma posted_quota:
  assumes "keys_ok db" and "quota \<in> set (d_quotas db)" and "q_id quota = r_quotaId r"
    and "q_applicationId quota = r_applicationId r" and "q_applicationId (h quota) = q_applicationId quota"
    and "\<And>q. q_id (h q) = q_id q"
  shows "quota_of r (posted row quota g h e db) = Some (bump_quota h quota)"
  unfolding quota_of_def
proof (rule find_unique_mem [of q_id])
  show "distinct (map q_id (d_quotas (posted row quota g h e db)))"
    using assms(1,6) by (simp add: posted_def keys_ok_def map_update_rows_frame bump_quota_def)
  show "bump_quota h quota \<in> set (d_quotas (posted row quota g h e db))"
    using update_rows_mem [OF assms(2), of "\<lambda>x. q_id x = q_id quota"] by (simp add: posted_def)
qed (use assms in \<open>simp_all add: bump_quota_def\<close>)

lemma settle_rows_posted:
  assumes keys: "keys_ok db" and row: "row \<in> set (d_reservations db)" and quota: "quota_of row db = Some quota"
    and run: "settle_rows row quota g h e db = Inr db'"
  shows "db' = posted row quota g h e db" and "user_aiu_quotas_check (h quota)"
proof -
  note q = quota_of_SomeD [OF quota]
  obtain db1 db2 where
    u1: "lock_update_reservation (r_applicationId row) (r_id row) (r_status row) (r_lockVersion row) g db = Inr (db1, 1)"
    and u2: "lock_update_quota (r_applicationId row) (r_quotaId row) (q_lockVersion quota) h db1 = Inr (db2, 1)"
    and led: "create_ledger e db2 = Inr db'"
    using run by (auto simp: settle_rows_def split: if_splits)
  have db1: "db1 = db\<lparr>d_reservations := update_rows (\<lambda>x. r_id x = r_id row) (bump_reservation g) (d_reservations db)\<rparr>"
    using lock_update_reservation_one(4) [OF keys row refl u1] by (simp add: bump_reservation_def [abs_def])
  have dist: "distinct (map q_id (d_quotas db1))" using keys by (simp add: db1 keys_ok_def)
  have db2: "db2 = db1\<lparr>d_quotas := update_rows (\<lambda>x. q_id x = q_id quota) (bump_quota h) (d_quotas db1)\<rparr>"
    and chk: "list_all user_aiu_quotas_check (d_quotas db2)"
    by (rule lock_update_quota_one [OF dist u2], simp add: bump_quota_def [abs_def] q)+
  show "db' = posted row quota g h e db"
    using led by (simp add: create_ledger_Inr db2 db1 posted_def)
  have "bump_quota h quota \<in> set (d_quotas db2)"
    using update_rows_mem [OF q(1), of "\<lambda>x. q_id x = q_id quota"] by (simp add: db2 db1)
  with chk have "user_aiu_quotas_check (bump_quota h quota)" by (simp add: list_all_iff)
  then show "user_aiu_quotas_check (h quota)" by (simp add: bump_quota_def)
qed

text \<open>What a transition that answered has established about the row it names.\<close>

lemma transition_tx_outcome:
  assumes inv: "quota_inv db" and run: "transition_tx k app rid verified token act actual reason now db = Inr (db', t)"
  obtains row quota where
    "find_unique (\<lambda>r. r_id r = rid \<and> r_applicationId r = app) (d_reservations db') = Some row"
    "quota_of row db' = Some quota" "assertReservationTokenLineage k row verified token = Inr ()"
    "t = reservationTransitionResult row quota"
    "act = SettleAction \<longrightarrow> r_status row = SETTLED \<and> r_settled row = actual"
    "act = ReleaseAction \<longrightarrow> r_status row \<noteq> RESERVED \<and> r_status row \<noteq> SETTLED"
proof -
  note keys = quota_inv_keys [OF inv]
  obtain row quota where row: "find_unique (\<lambda>r. r_id r = rid \<and> r_applicationId r = app) (d_reservations db) = Some row"
    and quota: "quota_of row db = Some quota" and lin: "assertReservationTokenLineage k row verified token = Inr ()"
    using run by (auto simp: transition_tx_def split: option.splits)
  have mem: "row \<in> set (d_reservations db)" and id: "r_id row = rid" "r_applicationId row = app"
    using find_unique_SomeD [OF row] by auto
  note q = quota_of_SomeD [OF quota]
  show ?thesis
  proof (cases "r_status row = RESERVED")
    case False
    then show ?thesis
      using run row quota lin
      by (intro that [of row quota]; cases act) (auto simp: transition_tx_def split: if_splits)
  next
    case True
    let ?g = "close_row act actual now" and ?h = "charge_quota (r_reserved row) (charged act actual)"
    have sr: "settle_rows row quota ?g ?h (transition_entry act actual reason row quota) db = Inr db'"
      and t: "t = reservationTransitionResult (?g row) (?h quota)"
      using run transition_tx_open [OF row quota lin True] by auto
    note db' = settle_rows_posted(1) [OF keys mem quota sr]
    have r: "find_unique (\<lambda>r. r_id r = rid \<and> r_applicationId r = app) (d_reservations db') = Some (bump_reservation ?g row)"
      unfolding db' id [symmetric]
      by (rule posted_row [OF keys mem]) (simp_all add: close_row_def bump_reservation_def)
    have qq: "quota_of (bump_reservation ?g row) db' = Some (bump_quota ?h quota)"
      unfolding db'
      by (rule posted_quota [OF keys q(1)]) (simp_all add: q close_row_def bump_reservation_def charge_quota_def)
    show ?thesis
      by (rule that [OF r qq]) (use lin t in \<open>auto simp: assertReservationTokenLineage_def reservationClaims_def
        reservationTransitionResult_def reservationUserSummary_def remainingAiu_def bump_reservation_def bump_quota_def
        close_row_def split: if_splits\<close>)
  qed
qed

text \<open>Settling is idempotent and final.  After a settlement was answered, the same request is
  answered the same and changes nothing; another amount or a release is refused.\<close>

theorem settle_idempotent:
  assumes "quota_inv db" and "settle k (Some app) rid token actual now db = Inr (db', t)"
  shows "settle k (Some app) rid token actual' now' db' =
      (if actual' = actual then Inr (db', t) else Inl (Conflict ''AIU reservation is already settled''))
    \<and> release k (Some app) rid token reason now' db' = Inl (Conflict ''AIU reservation is already settled'')"
proof -
  obtain verified where v: "verify k token = Inr verified" "c_reservation_id verified = rid" "c_application_id verified = app"
    and tx: "transition_tx k app rid verified token SettleAction actual ''AIU reservation settled'' now db = Inr (db', t)"
    using assms(2) by (auto simp: settle_def transition_def split: if_splits)
  show ?thesis
    by (rule transition_tx_outcome [OF assms(1) tx])
      (simp add: settle_def release_def transition_def transition_tx_def v)
qed

text \<open>Releasing is idempotent.  After a release was answered, releasing again is answered the
  same and changes nothing, and a settlement is refused.\<close>

theorem release_idempotent:
  assumes "quota_inv db" and "release k (Some app) rid token reason now db = Inr (db', t)"
  shows "release k (Some app) rid token reason' now' db' = Inr (db', t) \<and>
    settle k (Some app) rid token actual now' db' = Inl (Conflict ''AIU reservation is already closed'')"
proof -
  obtain verified where v: "verify k token = Inr verified" "c_reservation_id verified = rid" "c_application_id verified = app"
    and tx: "transition_tx k app rid verified token ReleaseAction 0 reason now db = Inr (db', t)"
    using assms(2) by (auto simp: release_def transition_def split: if_splits)
  show ?thesis
    by (rule transition_tx_outcome [OF assms(1) tx])
      (simp add: settle_def release_def transition_def transition_tx_def v)
qed

lemma demo_lineage: "verify demo_codec demo_token = Inr demo_claims"
  "assertReservationTokenLineage demo_codec demo_reservation demo_claims demo_token = Inr ()"
  "quota_of demo_reservation demo_db1 = Some demo_quota"
proof -
  have *: "(reservationClaims demo_reservation)\<lparr>c_key_version := keyVersion demo_codec\<rparr> = demo_claims"
    by (simp add: reservationClaims_def demo_defs request_defs demo_claims_def keyVersion_def)
  show "verify demo_codec demo_token = Inr demo_claims"
    using sign_verify [OF demo_sign] demo_codec_fits * by simp
  show "assertReservationTokenLineage demo_codec demo_reservation demo_claims demo_token = Inr ()"
    using * by (simp add: assertReservationTokenLineage_def demo_claims_def keyVersion_def demo_codec_def
        token_hash_def demo_reservation_def)
  show "quota_of demo_reservation demo_db1 = Some demo_quota"
    by (simp add: quota_of_def demo_defs request_defs)
qed

lemma demo_transition:
  assumes "0 \<le> actual" and "actual < 1000"
  shows "\<exists>db' t. transition demo_codec (Some ''app'') ''r1'' demo_token act actual reason now demo_db1 = Inr (db', t)"
proof -
  have fresh: "find_ledger ''app'' (l_idempotencyKey (transition_entry act actual reason demo_reservation demo_quota)) demo_db1 = None"
    by (cases act) (simp_all add: transition_entry_def demo_defs request_defs)
  have id: "r_applicationId demo_reservation = ''app''" "r_id demo_reservation = ''r1''"
    by (simp_all add: demo_reservation_def new_reservation_def demo_env_def)
  have "bigint (q_consumed demo_quota + actual)" using assms by (simp add: bigint_def demo_quota_def)
  from transition_tx_succeeds [OF demo_db1_ok(1,2,3) demo_lineage(3) demo_db1_ok(4) demo_lineage(2) assms(1) this, of act reason now]
  show ?thesis using fresh demo_lineage(1) by (simp add: id transition_def demo_claims_def)
qed

theorem settle_idempotent_witness:
  "\<exists>db' t. settle demo_codec (Some ''app'') ''r1'' demo_token 70 5 demo_db1 = Inr (db', t) \<and>
     settle demo_codec (Some ''app'') ''r1'' demo_token 70 9 db' = Inr (db', t)"
proof -
  obtain db' t where r: "settle demo_codec (Some ''app'') ''r1'' demo_token 70 5 demo_db1 = Inr (db', t)"
    using demo_transition [of 70 SettleAction "''AIU reservation settled''" 5] by (auto simp: settle_def)
  from settle_idempotent [OF demo_db1_ok(1) this, of 70 9 "''x''"] r show ?thesis by auto
qed

theorem release_idempotent_witness:
  "\<exists>db' t. release demo_codec (Some ''app'') ''r1'' demo_token ''a'' 5 demo_db1 = Inr (db', t) \<and>
     release demo_codec (Some ''app'') ''r1'' demo_token ''b'' 9 db' = Inr (db', t)"
proof -
  obtain db' t where r: "release demo_codec (Some ''app'') ''r1'' demo_token ''a'' 5 demo_db1 = Inr (db', t)"
    using demo_transition [of 0 ReleaseAction "''a''" 5] by (auto simp: release_def)
  from release_idempotent [OF demo_db1_ok(1) this, of "''b''" 9 70] r show ?thesis by auto
qed

subsection \<open>Usage\<close>

text \<open>C23: Usage of an event is charged once.  Once the consumption of an event without reservation was
  posted, processing the event again changes nothing and reports the amount charged.  The decision
  is reported again as long as the limit is soft; with a hard limit the first run reports
  \<open>observe\<close> and every later run \<open>allow\<close>.\<close>

theorem usage_charged_once:
  assumes inv: "quota_inv db" and run: "applyUserAiu app user None event (Some actual) now db = Inr (db', Some c)"
    and new: "find_ledger app (consume_key event) db = None"
  shows "\<exists>q \<in> set (d_quotas db). \<exists>q' \<in> set (d_quotas db'). q_id q' = q_id q \<and>
      q_consumed q' = q_consumed q + actual \<and> uc_consumed c = actual \<and>
      applyUserAiu app user None event (Some actual') now' db' =
        Inr (db', Some (if q_hardLimit q then c\<lparr>uc_decision := AllowDecision\<rparr> else c))"
proof -
  note keys = quota_inv_keys [OF inv]
  let ?h = "\<lambda>q. q\<lparr>q_consumed := q_consumed q + actual\<rparr>"
  obtain q db1 where q: "find_quota app user db = Some q" "q_enabled q"
    and u: "lock_update_quota app (q_id q) (q_lockVersion q) ?h db = Inr (db1, 1)"
    and led: "create_ledger (consume_entry app user q event actual
        (\<not> q_hardLimit q \<and> q_limit q < q_consumed q + actual)) db1 = Inr db'"
    and c: "c = \<lparr>uc_consumed = actual, uc_decision = (if \<not> q_hardLimit q \<and> q_limit q < q_consumed q + actual
        then WarnDecision else ObserveDecision)\<rparr>"
    using run new by (auto simp: applyUserAiu_def Let_def split: option.splits if_splits)
  note mem = find_quota_SomeD [OF q(1)]
  have dist: "distinct (map q_id (d_quotas db))" using keys by (simp add: keys_ok_def)
  have db1: "db1 = db\<lparr>d_quotas := update_rows (\<lambda>x. q_id x = q_id q) (bump_quota ?h) (d_quotas db)\<rparr>"
    by (rule lock_update_quota_one [OF dist u]) (simp add: bump_quota_def [abs_def])
  have db': "d_quotas db' = d_quotas db1"
    "d_ledger db' = d_ledger db @ [consume_entry app user q event actual
        (\<not> q_hardLimit q \<and> q_limit q < q_consumed q + actual)]"
    using led db1 by (auto simp: create_ledger_Inr)
  have q': "bump_quota ?h q \<in> set (d_quotas db')"
    using update_rows_mem [of q "d_quotas db" "\<lambda>x. q_id x = q_id q"] mem db1 db' by simp
  have "find_quota app user db' = Some (bump_quota ?h q)"
    unfolding find_quota_def
  proof (rule find_unique_mem [of "\<lambda>q. (q_applicationId q, q_userId q)"])
    show "distinct (map (\<lambda>q. (q_applicationId q, q_userId q)) (d_quotas db'))"
      using keys by (simp add: db' db1 keys_ok_def map_update_rows_frame bump_quota_def)
  qed (use q' mem in \<open>auto simp: bump_quota_def\<close>)
  moreover have "find_ledger app (consume_key event) db' = Some (consume_entry app user q event actual
        (\<not> q_hardLimit q \<and> q_limit q < q_consumed q + actual))"
    using new unfolding find_ledger_def db'
    by (subst find_unique_append) (simp_all add: find_unique_def consume_entry_def)
  ultimately have "applyUserAiu app user None event (Some actual') now' db' =
        Inr (db', Some (if q_hardLimit q then c\<lparr>uc_decision := AllowDecision\<rparr> else c))"
    using q(2) by (auto simp: applyUserAiu_def bump_quota_def consume_entry_def c)
  then show ?thesis
    by (intro bexI [OF _ conjunct1 [OF mem]] bexI [OF _ q'] conjI) (simp_all add: bump_quota_def c)
qed

theorem usage_charged_once_witness:
  "\<exists>db' c. applyUserAiu ''app'' ''u1'' None ''ev'' (Some 40) 5 demo_db1 = Inr (db', Some c) \<and> uc_consumed c = 40 \<and>
     applyUserAiu ''app'' ''u1'' None ''ev'' (Some 40) 6 db' = Inr (db', Some (c\<lparr>uc_decision := AllowDecision\<rparr>))"
proof -
  have run: "\<exists>db' c. applyUserAiu ''app'' ''u1'' None ''ev'' (Some 40) 5 demo_db1 = Inr (db', Some c)"
    by (simp add: applyUserAiu_def demo_defs request_defs consume_key_def consume_entry_def)
  then obtain db' c where r: "applyUserAiu ''app'' ''u1'' None ''ev'' (Some 40) 5 demo_db1 = Inr (db', Some c)" by blast
  have new: "find_ledger ''app'' (consume_key ''ev'') demo_db1 = None"
    by (simp add: demo_defs request_defs consume_key_def)
  have "d_quotas demo_db1 = [demo_quota]" "q_hardLimit demo_quota" by (simp_all add: demo_defs)
  with usage_charged_once [OF demo_db1_ok(1) r new, of 40 6] r show ?thesis by auto
qed










end
