(* ===== verification/JsValues.thy ===== *)
theory JsValues
  imports Prelude Complex_Main
begin

text \<open>
  JavaScript values as the sources handle them: JSON documents, strict equality, the string
  methods and the containers.  A string is its UTF-8 encoding, one \<open>char\<close> per byte; a number
  is the rational it denotes.
\<close>

subsection \<open>JSON\<close>

datatype json =
    JNull
  | JBool bool
  | JNum rat
  | JStr string
  | JArr "json list"
  | JObj "(string \<times> json) list"

text \<open>
  \<open>typeof l === typeof r && l === r\<close>.  Arrays and objects of an event are never the same
  reference as those of a rule.
\<close>

definition js_equals :: "json \<Rightarrow> json \<Rightarrow> bool" where
  "js_equals l r = (case (l, r) of
     (JNull, JNull) \<Rightarrow> True
   | (JBool a, JBool b) \<Rightarrow> a = b
   | (JNum a, JNum b) \<Rightarrow> a = b
   | (JStr a, JStr b) \<Rightarrow> a = b
   | _ \<Rightarrow> False)"

definition js_strict_eq :: "json option \<Rightarrow> json option \<Rightarrow> bool" where
  "js_strict_eq l r = (case (l, r) of
     (None, None) \<Rightarrow> True | (Some a, Some b) \<Rightarrow> js_equals a b | _ \<Rightarrow> False)"

text \<open>
  An object schema that refuses unknown members: the members of the object, when every
  required one is there.
\<close>

definition strict_object :: "string list \<Rightarrow> string list \<Rightarrow> json \<Rightarrow> (string \<Rightarrow> json option) option" where
  "strict_object required optional j = (case j of
     JObj members \<Rightarrow>
       if list_all (\<lambda>(k, _). k \<in> set required \<or> k \<in> set optional) members \<and>
          list_all (\<lambda>k. k \<in> fst ` set members) required
       then Some (map_of members) else None
   | _ \<Rightarrow> None)"

definition json_string :: "json option \<Rightarrow> string option" where
  "json_string v = (case v of Some (JStr s) \<Rightarrow> Some s | _ \<Rightarrow> None)"

definition json_array :: "json option \<Rightarrow> json list option" where
  "json_array v = (case v of Some (JArr xs) \<Rightarrow> Some xs | _ \<Rightarrow> None)"

text \<open>\<open>z.number().int()\<close>\<close>

definition json_int :: "json \<Rightarrow> int option" where
  "json_int v = (case v of JNum x \<Rightarrow> if of_int \<lfloor>x\<rfloor> = x then Some \<lfloor>x\<rfloor> else None | _ \<Rightarrow> None)"

fun all_some :: "'a option list \<Rightarrow> 'a list option" where
  "all_some [] = Some []"
| "all_some (x # xs) =
     (case x of None \<Rightarrow> None
      | Some a \<Rightarrow> (case all_some xs of None \<Rightarrow> None | Some as \<Rightarrow> Some (a # as)))"

subsection \<open>Strings\<close>

definition byte :: "char \<Rightarrow> nat" where
  "byte c = of_char c"

text \<open>\<open>length\<close> of a string counts UTF-16 units, \<open>Array.from(s).length\<close> code points.\<close>

definition utf16_length :: "string \<Rightarrow> nat" where
  "utf16_length s = (\<Sum>c \<leftarrow> s. if byte c < 128 then 1 else if byte c < 192 then 0 else if byte c < 240 then 1 else 2)"

definition code_points :: "string \<Rightarrow> nat" where
  "code_points s = (\<Sum>c \<leftarrow> s. if byte c < 128 then 1 else if byte c < 192 then 0 else 1)"

definition bounded_unicode :: "nat \<Rightarrow> nat \<Rightarrow> string \<Rightarrow> bool" where
  "bounded_unicode lo hi s \<longleftrightarrow> lo \<le> code_points s \<and> code_points s \<le> hi"

text \<open>The white space \<open>trim\<close> removes, each character by its UTF-8 bytes.\<close>

definition js_whitespace :: "string list" where
  "js_whitespace =
     map (map char_of)
       ([[9], [10], [11], [12], [13], [32], [0xC2, 0xA0], [0xE1, 0x9A, 0x80], [0xE2, 0x80, 0xA8],
         [0xE2, 0x80, 0xA9], [0xE2, 0x80, 0xAF], [0xE2, 0x81, 0x9F], [0xE3, 0x80, 0x80],
         [0xEF, 0xBB, 0xBF]] @ map (\<lambda>n. [0xE2, 0x80, n]) [0x80 ..< 0x8B :: nat])"

text \<open>Removes the given words from the front as long as one of them is there.\<close>

function strip_words :: "string list \<Rightarrow> string \<Rightarrow> string" where
  "strip_words ws s =
     (case List.find (\<lambda>w. w \<noteq> [] \<and> take (length w) s = w) ws of
        None \<Rightarrow> s | Some w \<Rightarrow> strip_words ws (drop (length w) s))"
  by auto
termination
proof (relation "measure (\<lambda>(ws, s). length s)")
  fix ws :: "string list" and s w
  assume "List.find (\<lambda>w. w \<noteq> [] \<and> take (length w) s = w) ws = Some w"
  then have w: "w \<noteq> []" "take (length w) s = w" by (auto simp: find_Some_iff)
  then have "length w \<le> length s" "0 < length w" by (metis length_take min.cobounded1 min.commute, simp)
  then have "length s - length w < length s" by linarith
  then show "((ws, drop (length w) s), ws, s) \<in> measure (\<lambda>(ws, s). length s)" by simp
qed simp

declare strip_words.simps [simp del]

definition js_trim :: "string \<Rightarrow> string" where
  "js_trim s = rev (strip_words (map rev js_whitespace) (rev (strip_words js_whitespace s)))"

definition js_lower :: "string \<Rightarrow> string" where
  "js_lower s = map (\<lambda>c. if CHR ''A'' \<le> c \<and> c \<le> CHR ''Z'' then char_of (byte c + 32) else c) s"

definition js_upper :: "string \<Rightarrow> string" where
  "js_upper s = map (\<lambda>c. if CHR ''a'' \<le> c \<and> c \<le> CHR ''z'' then char_of (byte c - 32) else c) s"

definition lower_alnum :: "char \<Rightarrow> bool" where
  "lower_alnum c \<longleftrightarrow> CHR ''a'' \<le> c \<and> c \<le> CHR ''z'' \<or> CHR ''0'' \<le> c \<and> c \<le> CHR ''9''"

definition lower_letter :: "char \<Rightarrow> bool" where
  "lower_letter c \<longleftrightarrow> CHR ''a'' \<le> c \<and> c \<le> CHR ''z''"

definition is_digit :: "char \<Rightarrow> bool" where
  "is_digit c \<longleftrightarrow> CHR ''0'' \<le> c \<and> c \<le> CHR ''9''"

text \<open>\<open>Number\<close> on a string of digits; \<open>None\<close> is \<open>NaN\<close>.\<close>

definition js_Number :: "string \<Rightarrow> nat option" where
  "js_Number s = (if list_all is_digit s then Some (foldl (\<lambda>n c. 10 * n + (byte c - 48)) 0 s) else None)"

fun js_includes :: "string \<Rightarrow> string \<Rightarrow> bool" where
  "js_includes [] part = (part = [])"
| "js_includes (c # s) part = (take (length part) (c # s) = part \<or> js_includes s part)"

definition js_startsWith :: "string \<Rightarrow> string \<Rightarrow> bool" where
  "js_startsWith s prefix \<longleftrightarrow> take (length prefix) s = prefix"

text \<open>\<open>sort\<close> compares UTF-16 units: a character outside the basic plane, a surrogate pair, comes before those from U+E000 on.\<close>

definition utf16_rank :: "string \<Rightarrow> nat list" where
  "utf16_rank s = map (\<lambda>c. if 240 \<le> byte c then byte c - 2 else if 238 \<le> byte c then byte c + 18 else byte c) s"

definition js_sort :: "string list \<Rightarrow> string list" where
  "js_sort = sort_key utf16_rank"

subsection \<open>Containers\<close>

definition nth_value :: "json list \<Rightarrow> nat \<Rightarrow> json option" where
  "nth_value xs i = (if i < length xs then Some (xs ! i) else None)"

text \<open>\<open>new Map(entries)\<close>: the last entry of a key wins.\<close>

definition js_map :: "('k \<times> 'v) list \<Rightarrow> 'k \<Rightarrow> 'v option" where
  "js_map entries = map_of (rev entries)"

text \<open>The decimal text of an integer.\<close>

fun decimal_text :: "nat \<Rightarrow> string" where
  "decimal_text n =
     (if n < 10 then [char_of (48 + n)] else decimal_text (n div 10) @ [char_of (48 + n mod 10)])"

declare decimal_text.simps [simp del]

definition bigint_text :: "int \<Rightarrow> string" where
  "bigint_text k = (if k < 0 then ''-'' @ decimal_text (nat (- k)) else decimal_text (nat k))"

end
