(* ===== verification/RouteMatch.thy ===== *)
theory RouteMatch
  imports JsValues
begin

text \<open>
  Conditions of routing rules: their schemas (\<open>packages/contracts/src/policy.ts\<close>) and what the
  control plane does with them (\<open>apps/api/src/virtual-models/route-matches.ts\<close>): conditions on
  groups, tags and AIU state are resolved against the audience into lists of user ids, and a
  resolved condition is evaluated for an instant and a request context.

  Parameters (\<open>route_env\<close>): the identifier format check of the schema library, the text of
  numbers and booleans, and the parts \<open>Intl.DateTimeFormat\<close> yields for an instant in a zone
  (\<open>None\<close>: the zone is unknown and it raises \<open>RangeError\<close>).
\<close>

record route_env =
  is_uuid :: "string \<Rightarrow> bool"
  js_text :: "json \<Rightarrow> string"
  local_parts :: "string \<Rightarrow> int \<Rightarrow> (string \<times> nat \<times> nat) option"

subsection \<open>Conditions and their schemas\<close>

datatype property_operator =
  P_equals | P_not_equals | P_contains | P_starts_with | P_is_set | P_is_not_set

record PropertyCondition =
  pc_key :: string
  pc_operator :: property_operator
  pc_value :: "json option"

record RouteSchedule =
  sch_days :: "nat list"
  sch_from :: string
  sch_to :: string

datatype RuntimeMatch =
    OverrideActive
  | MSchedule RouteSchedule
  | MUser "string list"
  | MUserProperty PropertyCondition
  | MCallSource string

datatype aiu_state = Available | Low | Exhausted | Unlimited

datatype StoredMatch =
    Direct RuntimeMatch
  | MUserGroup string
  | MUserTag string
  | MAiuState aiu_state

text \<open>\<open>clockTimeSchema\<close>: two digits below 24, a colon, two digits below 60.\<close>

definition clock_time :: "string \<Rightarrow> bool" where
  "clock_time s = (case s of
     [h1, h2, colon, m1, m2] \<Rightarrow>
       colon = CHR '':'' \<and> list_all is_digit [h1, h2, m1, m2] \<and> m1 < CHR ''6'' \<and>
       (h1 \<le> CHR ''1'' \<or> h1 = CHR ''2'' \<and> h2 \<le> CHR ''3'')
   | _ \<Rightarrow> False)"

definition scheduleSchema :: "json \<Rightarrow> RouteSchedule option" where
  "scheduleSchema j = (case strict_object [''days'', ''from'', ''to''] [] j of
     None \<Rightarrow> None
   | Some field \<Rightarrow>
       (case (json_array (field ''days''), json_string (field ''from''), json_string (field ''to'')) of
          (Some ds, Some from, Some to) \<Rightarrow>
            (case all_some (map json_int ds) of
               None \<Rightarrow> None
             | Some days \<Rightarrow>
                 if list_all (\<lambda>d. 1 \<le> d \<and> d \<le> 7) days \<and> 1 \<le> length days \<and> length days \<le> 7 \<and>
                    distinct days \<and> clock_time from \<and> clock_time to
                 then Some \<lparr>sch_days = map nat days, sch_from = from, sch_to = to\<rparr> else None)
        | _ \<Rightarrow> None))"

definition propertyValueSchema :: "json \<Rightarrow> bool" where
  "propertyValueSchema v = (case v of
     JStr s \<Rightarrow> utf16_length s \<le> 2048
   | JNum x \<Rightarrow> \<bar>x\<bar> \<le> 2 ^ 53 - 1 \<and> of_int \<lfloor>x\<rfloor> = x
   | JBool _ \<Rightarrow> True
   | _ \<Rightarrow> False)"

definition property_key :: "string \<Rightarrow> bool" where
  "property_key s = (case s of
     [] \<Rightarrow> False
   | c # cs \<Rightarrow> lower_letter c \<and> length cs \<le> 127 \<and>
       list_all (\<lambda>x. lower_alnum x \<or> x \<in> set ''._-'') cs)"

definition property_operators :: "(string \<times> property_operator) list" where
  "property_operators =
     [(''equals'', P_equals), (''not_equals'', P_not_equals), (''contains'', P_contains),
      (''starts_with'', P_starts_with), (''is_set'', P_is_set), (''is_not_set'', P_is_not_set)]"

definition userPropertyMatchSchema :: "json \<Rightarrow> PropertyCondition option" where
  "userPropertyMatchSchema j = (case strict_object [''key'', ''operator''] [''value''] j of
     None \<Rightarrow> None
   | Some field \<Rightarrow>
       (case (json_string (field ''key''), Option.bind (json_string (field ''operator'')) (map_of property_operators)) of
          (Some k, Some op) \<Rightarrow>
            if property_key k \<and> (case field ''value'' of None \<Rightarrow> True | Some v \<Rightarrow> propertyValueSchema v) \<and>
               (op \<noteq> P_is_set \<and> op \<noteq> P_is_not_set \<longrightarrow> field ''value'' \<noteq> None)
            then Some \<lparr>pc_key = k, pc_operator = op, pc_value = field ''value''\<rparr> else None
        | _ \<Rightarrow> None))"

definition user_ids_ok :: "string list \<Rightarrow> bool" where
  "user_ids_ok ids \<longleftrightarrow>
     length ids \<le> 50000 \<and> list_all (\<lambda>s. 1 \<le> utf16_length s \<and> utf16_length s \<le> 256) ids"

definition userSchema :: "json \<Rightarrow> string list option" where
  "userSchema j = (case strict_object [''ids''] [] j of
     None \<Rightarrow> None
   | Some field \<Rightarrow>
       (case Option.bind (json_array (field ''ids'')) (\<lambda>xs. all_some (map (\<lambda>x. json_string (Some x)) xs)) of
          Some ids \<Rightarrow> if user_ids_ok ids then Some ids else None
        | None \<Rightarrow> None))"

text \<open>A string member that is trimmed and then bounded.\<close>

definition trimmedSchema :: "nat \<Rightarrow> json \<Rightarrow> string option" where
  "trimmedSchema n j = (case strict_object [''value''] [] j of
     None \<Rightarrow> None
   | Some field \<Rightarrow>
       (case json_string (field ''value'') of
          Some s \<Rightarrow> (let t = js_trim s in if 1 \<le> utf16_length t \<and> utf16_length t \<le> n then Some t else None)
        | None \<Rightarrow> None))"

definition runtimeRouteMatchSchema :: "json \<Rightarrow> RuntimeMatch option" where
  "runtimeRouteMatchSchema j = (case j of
     JObj [(k, v)] \<Rightarrow>
       if k = ''override_active'' then (if v = JBool True then Some OverrideActive else None)
       else if k = ''schedule'' then map_option MSchedule (scheduleSchema v)
       else if k = ''user'' then map_option MUser (userSchema v)
       else if k = ''user_property'' then map_option MUserProperty (userPropertyMatchSchema v)
       else if k = ''call_source'' then map_option MCallSource (trimmedSchema 120 v)
       else None
   | _ \<Rightarrow> None)"

definition aiu_states :: "(string \<times> aiu_state) list" where
  "aiu_states = [(''available'', Available), (''low'', Low), (''exhausted'', Exhausted), (''unlimited'', Unlimited)]"

definition virtualModelRouteMatchSchema :: "'e route_env_scheme \<Rightarrow> json \<Rightarrow> StoredMatch option" where
  "virtualModelRouteMatchSchema env j = (case runtimeRouteMatchSchema j of
     Some m \<Rightarrow> Some (Direct m)
   | None \<Rightarrow>
       (case j of
          JObj [(k, v)] \<Rightarrow>
            if k = ''user_group'' then
              (case Option.bind (strict_object [''group_id''] [] v) (\<lambda>field. json_string (field ''group_id'')) of
                 Some g \<Rightarrow> if is_uuid env g then Some (MUserGroup g) else None | None \<Rightarrow> None)
            else if k = ''user_tag'' then map_option MUserTag (trimmedSchema 64 v)
            else if k = ''aiu_state'' then
              map_option MAiuState
                (Option.bind (strict_object [''value''] [] v)
                  (\<lambda>field. Option.bind (json_string (field ''value'')) (map_of aiu_states)))
            else None
        | _ \<Rightarrow> None))"

subsection \<open>Audience\<close>

record RouteQuota =
  rq_enabled :: bool
  rq_hardLimit :: bool
  rq_limitAiuMicros :: int
  rq_consumedAiuMicros :: int
  rq_reservedAiuMicros :: int

record RouteAudienceUser =
  au_externalId :: string
  au_tags :: "string list"
  au_blocked :: bool
  au_quota :: "RouteQuota option"

record RouteGroupEvaluation =
  ge_evaluatedAt :: int
  ge_definitionVersion :: int
  ge_members :: "string list"

record RouteGroupRow =
  rg_id :: string
  rg_enabled :: bool
  rg_definitionVersion :: int
  rg_evaluations :: "RouteGroupEvaluation list"

record RouteAudience =
  ra_users :: "RouteAudienceUser list"
  ra_groups :: "string \<Rightarrow> string list option"

text \<open>The rows are those of one application; the queries order users and members by id and
  evaluations by time, newest first.\<close>

definition loadRouteAudience :: "RouteAudienceUser list \<Rightarrow> RouteGroupRow list \<Rightarrow> RouteAudience" where
  "loadRouteAudience users groups =
     \<lparr>ra_users = sort_key au_externalId users,
      ra_groups = js_map (List.maps
        (\<lambda>g. case sort_key (\<lambda>e. - ge_evaluatedAt e) (rg_evaluations g) of
               [] \<Rightarrow> []
             | latest # _ \<Rightarrow>
                 if ge_definitionVersion latest \<noteq> rg_definitionVersion g then []
                 else [(rg_id g, sort (ge_members latest))])
        (filter rg_enabled groups))\<rparr>"

definition aiuState :: "RouteAudienceUser \<Rightarrow> aiu_state" where
  "aiuState user = (case au_quota user of
     None \<Rightarrow> Unlimited
   | Some quota \<Rightarrow>
       if \<not> rq_enabled quota \<or> \<not> rq_hardLimit quota then Unlimited
       else
         (let remaining = rq_limitAiuMicros quota - rq_consumedAiuMicros quota - rq_reservedAiuMicros quota
          in if remaining \<le> 0 then Exhausted
             else if 0 < rq_limitAiuMicros quota \<and> remaining * 5 \<le> rq_limitAiuMicros quota then Low
             else Available))"

text \<open>
  The part of \<open>resolveRuntimeMatch\<close> after parsing; parsing a parsed condition again returns it,
  so a condition that is already a runtime condition passes through.
\<close>

definition resolve_match :: "StoredMatch \<Rightarrow> RouteAudience \<Rightarrow> RuntimeMatch res" where
  "resolve_match m audience = (case m of
     Direct r \<Rightarrow> Inr r
   | MUserGroup g \<Rightarrow>
       (case ra_groups audience g of
          None \<Rightarrow> Inl (TypeErr ''Route condition references an unevaluated user group'')
        | Some ids \<Rightarrow> Inr (MUser ids))
   | MUserTag t \<Rightarrow> Inr (MUser (map au_externalId (filter (\<lambda>u. t \<in> set (au_tags u)) (ra_users audience))))
   | MAiuState s \<Rightarrow> Inr (MUser (map au_externalId (filter (\<lambda>u. aiuState u = s) (ra_users audience)))))"

definition resolveRuntimeMatch :: "'e route_env_scheme \<Rightarrow> json \<Rightarrow> RouteAudience \<Rightarrow> RuntimeMatch res" where
  "resolveRuntimeMatch env value audience = (case virtualModelRouteMatchSchema env value of
     None \<Rightarrow> Inl (TypeErr ''Invalid route condition'')
   | Some m \<Rightarrow> resolve_match m audience)"

subsection \<open>Evaluation in the control plane\<close>

record RouteRequestContext =
  qc_userId :: "string option"
  qc_userProperties :: "(string \<times> json) list option"
  qc_callSource :: "string option"

definition weekdayNumber :: "string \<Rightarrow> nat option" where
  "weekdayNumber = map_of
     [(''Mon'', 1), (''Tue'', 2), (''Wed'', 3), (''Thu'', 4), (''Fri'', 5), (''Sat'', 6), (''Sun'', 7)]"

definition localClock :: "'e route_env_scheme \<Rightarrow> int \<Rightarrow> string \<Rightarrow> (nat \<times> nat) option" where
  "localClock env instant timezone = (case local_parts env timezone instant of
     None \<Rightarrow> None
   | Some (wd, h, m) \<Rightarrow> Some (case weekdayNumber wd of None \<Rightarrow> 0 | Some d \<Rightarrow> d, h * 60 + m))"

text \<open>\<open>value.split(":").map(Number)\<close> with missing parts as 0; \<open>None\<close> is \<open>NaN\<close>.\<close>

definition clockMinute :: "string \<Rightarrow> nat option" where
  "clockMinute value =
     (let parts = map js_Number (split_on (CHR '':'') value);
          part = (\<lambda>i. if i < length parts then parts ! i else Some 0)
      in case (part 0, part 1) of (Some h, Some m) \<Rightarrow> Some (h * 60 + m) | _ \<Rightarrow> None)"

text \<open>The window test both evaluators share: \<open>days\<close> from \<open>start\<close> to \<open>end\<close>, over midnight when
  the end is before the start.  Comparisons with \<open>NaN\<close> are false.\<close>

definition in_window :: "nat list \<Rightarrow> nat option \<Rightarrow> nat option \<Rightarrow> nat \<Rightarrow> nat \<Rightarrow> bool" where
  "in_window days start end day minute = (case (start, end) of
     (Some s, Some e) \<Rightarrow>
       if s < e then day \<in> set days \<and> s \<le> minute \<and> minute < e
       else if e < s then
         day \<in> set days \<and> s \<le> minute \<or>
         (if day = 1 then 7 else day - 1) \<in> set days \<and> minute < e
       else False
   | _ \<Rightarrow> False)"

definition scheduleMatches :: "'e route_env_scheme \<Rightarrow> RouteSchedule \<Rightarrow> int \<Rightarrow> string \<Rightarrow> bool option" where
  "scheduleMatches env schedule instant timezone =
     map_option (\<lambda>(day, minute).
         in_window (sch_days schedule) (clockMinute (sch_from schedule)) (clockMinute (sch_to schedule)) day minute)
       (localClock env instant timezone)"

definition js_includes_value :: "json list \<Rightarrow> json option \<Rightarrow> bool" where
  "js_includes_value xs v = (case v of None \<Rightarrow> False | Some x \<Rightarrow> list_ex (\<lambda>item. js_equals item x) xs)"

definition value_text :: "'e route_env_scheme \<Rightarrow> json option \<Rightarrow> string" where
  "value_text env v = (case v of None \<Rightarrow> ''undefined'' | Some (JStr s) \<Rightarrow> s | Some j \<Rightarrow> js_text env j)"

definition propertyMatches :: "'e route_env_scheme \<Rightarrow> PropertyCondition \<Rightarrow> (string \<times> json) list \<Rightarrow> bool" where
  "propertyMatches env condition properties =
     (let current = map_of properties (pc_key condition) in
      case pc_operator condition of
        P_is_set \<Rightarrow> current \<noteq> None \<and> current \<noteq> Some JNull
      | P_is_not_set \<Rightarrow> current = None \<or> current = Some JNull
      | P_equals \<Rightarrow> js_strict_eq current (pc_value condition)
      | P_not_equals \<Rightarrow> \<not> js_strict_eq current (pc_value condition)
      | P_starts_with \<Rightarrow>
          (case current of
             Some (JStr s) \<Rightarrow> value_text env (pc_value condition) \<noteq> [] \<and>
               js_startsWith s (value_text env (pc_value condition))
           | _ \<Rightarrow> False)
      | P_contains \<Rightarrow>
          (case current of
             Some (JStr s) \<Rightarrow> js_includes s (value_text env (pc_value condition))
           | Some (JArr xs) \<Rightarrow> js_includes_value xs (pc_value condition)
           | _ \<Rightarrow> False))"

text \<open>
  The value is parsed again: of the parsed conditions only a resolved list of users can be too
  long or hold an id the schema refuses.
\<close>

definition match_parses :: "RuntimeMatch \<Rightarrow> bool" where
  "match_parses m = (case m of MUser ids \<Rightarrow> user_ids_ok ids | _ \<Rightarrow> True)"

definition runtimeMatchApplies ::
  "'e route_env_scheme \<Rightarrow> RuntimeMatch \<Rightarrow> int \<Rightarrow> string \<Rightarrow> RouteRequestContext \<Rightarrow> bool option" where
  "runtimeMatchApplies env match instant timezone context =
     (if \<not> match_parses match then Some False
      else (case match of
        OverrideActive \<Rightarrow> Some True
      | MSchedule s \<Rightarrow> scheduleMatches env s instant timezone
      | MUser ids \<Rightarrow> Some (case qc_userId context of None \<Rightarrow> False | Some u \<Rightarrow> u \<in> set ids)
      | MCallSource v \<Rightarrow> Some (qc_callSource context = Some v)
      | MUserProperty c \<Rightarrow>
          Some (propertyMatches env c (case qc_userProperties context of None \<Rightarrow> [] | Some ps \<Rightarrow> ps))))"

end
