(* ===== verification/CostConditions.thy ===== *)
theory CostConditions
  imports RouteMatch
begin

text \<open>
  The stored conditions of a model cost rule (\<open>packages/contracts/src/report-query.ts\<close> and
  \<open>model-cost.ts\<close>): the schema that reads them, with the comparisons each field admits.
\<close>

subsection \<open>Conditions\<close>

datatype cost_operator =
    Op_equals | Op_not_equals | Op_one_of | Op_contains | Op_starts_with | Op_contains_any
  | Op_contains_all | Op_between | Op_greater_than | Op_greater_or_equal | Op_less_than
  | Op_less_or_equal | Op_is_set | Op_is_not_set

datatype condition_subject = BuiltInField string | EventProperty string | UserProperty string

record ModelCostCondition =
  mc_subject :: condition_subject
  mc_operator :: cost_operator
  mc_values :: "json list"

subsection \<open>Vocabulary\<close>

definition reportBuiltInFieldValues :: "string list" where
  "reportBuiltInFieldValues =
     [''event_id'', ''request_id'', ''attempt_id'', ''operation_id'', ''session_id'', ''conversation_id'',
      ''user_id'', ''display_user'', ''user_tag'', ''user_group'', ''application_version'', ''sdk_version'',
      ''connector_version'', ''config_version'', ''virtual_model'', ''model_id'', ''connection_id'',
      ''connection_driver'', ''request_model'', ''provider'', ''status'', ''schema_version'', ''route_reason'',
      ''latency_ms'', ''cost_status'', ''aiu_status'', ''quota_status'']"

definition modelCostBuiltInFieldValues :: "string list" where
  "modelCostBuiltInFieldValues =
     [''event_id'', ''request_id'', ''attempt_id'', ''operation_id'', ''session_id'', ''conversation_id'',
      ''user_id'', ''display_user'', ''application_version'', ''sdk_version'', ''connector_version'',
      ''config_version'', ''virtual_model'', ''model_id'', ''connection_id'', ''connection_driver'',
      ''request_model'', ''provider'', ''status'', ''schema_version'', ''route_reason'', ''latency_ms'']"

definition reportFilterOperatorValues :: "(string \<times> cost_operator) list" where
  "reportFilterOperatorValues =
     [(''equals'', Op_equals), (''not_equals'', Op_not_equals), (''contains'', Op_contains),
      (''starts_with'', Op_starts_with), (''greater_than'', Op_greater_than),
      (''greater_or_equal'', Op_greater_or_equal), (''less_than'', Op_less_than),
      (''less_or_equal'', Op_less_or_equal), (''between'', Op_between), (''one_of'', Op_one_of),
      (''contains_any'', Op_contains_any), (''contains_all'', Op_contains_all), (''is_set'', Op_is_set),
      (''is_not_set'', Op_is_not_set)]"

definition textConditionOperators :: "cost_operator list" where
  "textConditionOperators =
     [Op_equals, Op_not_equals, Op_contains, Op_starts_with, Op_one_of, Op_is_set, Op_is_not_set]"

definition selectionConditionOperators :: "cost_operator list" where
  "selectionConditionOperators = [Op_equals, Op_not_equals, Op_one_of, Op_is_set, Op_is_not_set]"

definition numericConditionOperators :: "cost_operator list" where
  "numericConditionOperators =
     [Op_equals, Op_not_equals, Op_greater_than, Op_greater_or_equal, Op_less_than, Op_less_or_equal,
      Op_between, Op_is_set, Op_is_not_set]"

definition exactIdentifierFields :: "string list" where
  "exactIdentifierFields =
     [''event_id'', ''request_id'', ''attempt_id'', ''operation_id'', ''session_id'', ''conversation_id'']"

subsection \<open>Schemas\<close>

definition filterValueSchema :: "json \<Rightarrow> bool" where
  "filterValueSchema v = (case v of
     JStr s \<Rightarrow> bounded_unicode 1 2048 s
   | JNum x \<Rightarrow> \<bar>x\<bar> \<le> 2 ^ 53 - 1 \<and> of_int \<lfloor>x\<rfloor> = x
   | JBool _ \<Rightarrow> True
   | _ \<Rightarrow> False)"

definition filterValuesSchema :: "json option \<Rightarrow> json list option" where
  "filterValuesSchema v = (case v of
     None \<Rightarrow> Some []
   | Some (JArr xs) \<Rightarrow> if length xs \<le> 32 \<and> list_all filterValueSchema xs then Some xs else None
   | _ \<Rightarrow> None)"

definition builtInConditionSchema :: "json \<Rightarrow> ModelCostCondition option" where
  "builtInConditionSchema j = (case strict_object [''kind'', ''field'', ''operator''] [''values''] j of
     None \<Rightarrow> None
   | Some field \<Rightarrow>
       (case (json_string (field ''field''),
              Option.bind (json_string (field ''operator'')) (map_of reportFilterOperatorValues),
              filterValuesSchema (field ''values'')) of
          (Some f, Some op, Some vs) \<Rightarrow>
            if field ''kind'' = Some (JStr ''builtin'') \<and> List.member reportBuiltInFieldValues f
            then Some \<lparr>mc_subject = BuiltInField f, mc_operator = op, mc_values = vs\<rparr> else None
        | _ \<Rightarrow> None))"

definition condition_scope :: "json option \<Rightarrow> (string \<Rightarrow> condition_subject) option" where
  "condition_scope scope = (case scope of
     Some (JStr s) \<Rightarrow> if s = ''event'' then Some EventProperty else if s = ''user'' then Some UserProperty else None
   | _ \<Rightarrow> None)"

definition propertyConditionSchema :: "json \<Rightarrow> ModelCostCondition option" where
  "propertyConditionSchema j =
     (case strict_object [''kind'', ''scope'', ''key'', ''operator''] [''values''] j of
     None \<Rightarrow> None
   | Some field \<Rightarrow>
       (case (condition_scope (field ''scope''), json_string (field ''key''),
              Option.bind (json_string (field ''operator'')) (map_of reportFilterOperatorValues),
              filterValuesSchema (field ''values'')) of
          (Some subject, Some k, Some op, Some vs) \<Rightarrow>
            if field ''kind'' = Some (JStr ''property'') \<and> property_key k
            then Some \<lparr>mc_subject = subject k, mc_operator = op, mc_values = vs\<rparr> else None
        | _ \<Rightarrow> None))"

definition is_number :: "json \<Rightarrow> bool" where
  "is_number v = (case v of JNum _ \<Rightarrow> True | _ \<Rightarrow> False)"

definition is_string :: "json \<Rightarrow> bool" where
  "is_string v = (case v of JStr _ \<Rightarrow> True | _ \<Rightarrow> False)"

definition range_reversed :: "json list \<Rightarrow> bool" where
  "range_reversed vs = (case (nth_value vs 0, nth_value vs 1) of
     (Some (JNum a), Some (JNum b)) \<Rightarrow> b < a | _ \<Rightarrow> False)"

definition condition_operators :: "string \<Rightarrow> cost_operator list" where
  "condition_operators f =
     (if f = ''latency_ms'' then numericConditionOperators
      else if List.member exactIdentifierFields f then selectionConditionOperators
      else if List.member [''cost_status'', ''aiu_status'', ''quota_status'', ''user_group'', ''user_tag'', ''status''] f
        then selectionConditionOperators
      else textConditionOperators)"

definition validateBuiltInCondition :: "string \<Rightarrow> ModelCostCondition \<Rightarrow> bool" where
  "validateBuiltInCondition f condition \<longleftrightarrow>
     List.member (condition_operators f) (mc_operator condition) \<and>
     list_all (if f = ''latency_ms'' then is_number else is_string) (mc_values condition) \<and>
     \<not> (f = ''latency_ms'' \<and> mc_operator condition = Op_between \<and> range_reversed (mc_values condition))"

definition value_count_ok :: "ModelCostCondition \<Rightarrow> bool" where
  "value_count_ok condition \<longleftrightarrow>
     (let count = length (mc_values condition); op = mc_operator condition in
      if op = Op_is_set \<or> op = Op_is_not_set then count = 0
      else if op = Op_between then count = 2
      else 1 \<le> count)"

definition reportFilterConditionSchema :: "json \<Rightarrow> ModelCostCondition option" where
  "reportFilterConditionSchema j =
     (case (case builtInConditionSchema j of Some c \<Rightarrow> Some c | None \<Rightarrow> propertyConditionSchema j) of
        None \<Rightarrow> None
      | Some condition \<Rightarrow>
          if value_count_ok condition \<and>
             (case mc_subject condition of BuiltInField f \<Rightarrow> validateBuiltInCondition f condition | _ \<Rightarrow> True)
          then Some condition else None)"

definition modelCostConditionSchema :: "json \<Rightarrow> ModelCostCondition option" where
  "modelCostConditionSchema j = (case reportFilterConditionSchema j of
     None \<Rightarrow> None
   | Some condition \<Rightarrow>
       (case mc_subject condition of
          BuiltInField f \<Rightarrow> if List.member modelCostBuiltInFieldValues f then Some condition else None
        | _ \<Rightarrow> Some condition))"

text \<open>\<open>modelCostConditionSchema.array().safeParse\<close>\<close>

definition parseConditions :: "json \<Rightarrow> ModelCostCondition list option" where
  "parseConditions j = (case j of JArr js \<Rightarrow> all_some (map modelCostConditionSchema js) | _ \<Rightarrow> None)"

subsection \<open>What the schema guarantees to rating\<close>

lemma parseConditions_Nil [simp]: "parseConditions (JArr []) = Some []"
  by (simp add: parseConditions_def)

text \<open>A condition that was read carries the values its comparison looks at.\<close>

lemma modelCostConditionSchema_count:
  "modelCostConditionSchema j = Some c \<Longrightarrow> value_count_ok c"
  by (auto simp: modelCostConditionSchema_def reportFilterConditionSchema_def
      split: option.splits if_splits condition_subject.splits)

lemma modelCostConditionSchema_field:
  assumes "modelCostConditionSchema j = Some c" "mc_subject c = BuiltInField f"
  shows "List.member modelCostBuiltInFieldValues f \<and> validateBuiltInCondition f c"
  using assms
  by (auto simp: modelCostConditionSchema_def reportFilterConditionSchema_def split: option.splits if_splits condition_subject.splits)

lemma all_some_mem: "all_some xs = Some ys \<Longrightarrow> y \<in> set ys \<Longrightarrow> Some y \<in> set xs"
  by (induction xs arbitrary: ys) (auto split: option.splits)

lemma parseConditions_mem:
  "parseConditions j = Some cs \<Longrightarrow> c \<in> set cs \<Longrightarrow> \<exists>x. modelCostConditionSchema x = Some c"
  by (auto simp: parseConditions_def split: json.splits dest!: all_some_mem) (metis option.inject)

end
