(* ===== verification/Rating.thy ===== *)
theory Rating
  imports CostConditions "HOL-Library.Multiset"
begin

text \<open>
  Rating of normalized usage (\<open>apps/worker/src/application-usage/rating.ts\<close>): conditional
  cost rules and AIU rates with largest-remainder rounding.

  Numbers that travel as decimal strings are represented by the rational they denote; what
  \<open>decimal.js\<close> does to them is given by two functions of \<open>rating_env\<close>: \<open>dec_of\<close> reads a
  decimal string and \<open>dec_round\<close> is the rounding of every arithmetic result to the
  configured number of significant digits.  \<open>localeCompare\<close> and the conversion of
  non-string values by \<open>String\<close> are further fields.
\<close>

subsection \<open>Values and environment\<close>

record rating_env =
  dec_of :: "string \<Rightarrow> rat"
  dec_round :: "rat \<Rightarrow> rat"
  localeCompare :: "string \<Rightarrow> string \<Rightarrow> int"
  js_String :: "json \<Rightarrow> string"

record ApplicationUsageLine =
  ul_usage_type :: string
  ul_unit_key :: "string option"
  ul_quantity :: string

record SourceCost =
  sc_amount :: string
  sc_currency :: string
  sc_is_estimated :: bool

text \<open>The parts of a normalized usage event that rating and settlement read; null and
  absent members are both \<open>None\<close>.\<close>

record NormalizedUsage =
  n_event_id :: string
  n_event_time :: int
  n_schema_version :: string
  n_request_id :: string
  n_attempt_id :: string
  n_operation_id :: "string option"
  n_session_id :: "string option"
  n_conversation_id :: "string option"
  n_reservation_id :: "string option"
  n_user_id :: string
  n_display_user :: "string option"
  n_application_version :: "string option"
  n_sdk_version :: "string option"
  n_connector_version :: "string option"
  n_config_version :: "string option"
  n_virtual_model :: "string option"
  n_model_id :: "string option"
  n_connection_id :: "string option"
  n_connection_driver :: "string option"
  n_request_model :: string
  n_provider :: "string option"
  n_status :: string
  n_route_reason :: "string option"
  n_latency_ms :: "int option"
  n_event_properties :: "(string \<times> json) list option"
  n_user_properties :: "(string \<times> json) list option"
  n_source_cost :: "SourceCost option"
  n_usage_lines :: "ApplicationUsageLine list"

record CostRuleItem =
  ci_id :: string
  ci_usageType :: string
  ci_unitKey :: string
  ci_amountPerUnit :: rat

record CostRule =
  cr_id :: string
  cr_name :: string
  cr_priority :: int
  cr_matchMode :: string
  cr_conditionsJson :: json
  cr_fixedAmount :: "rat option"
  cr_items :: "CostRuleItem list"

record CostVersion =
  cv_id :: string
  cv_currency :: string
  cv_rules :: "CostRule list"

record AiuRateItem =
  ai_id :: string
  ai_usageType :: string
  ai_unitKey :: string
  ai_unitSize :: rat
  ai_aiuMicrosPerUnit :: int

record AiuVersion =
  av_id :: string
  av_items :: "AiuRateItem list"

datatype cost_source = ReportedCost | ReportedEstimate | RuleCost

record CostLine =
  cl_usage_type :: "string option"
  cl_unit_key :: string
  cl_quantity :: string
  cl_rate_item_id :: "string option"
  cl_amount_per_unit :: rat
  cl_amount :: rat

record CostRatingArtifact =
  ca_official :: bool
  ca_source :: "cost_source option"
  ca_versionId :: "string option"
  ca_ruleId :: "string option"
  ca_ruleName :: "string option"
  ca_currency :: "string option"
  ca_total :: "rat option"
  ca_lines :: "CostLine list"

record AiuLine =
  al_usage_type :: string
  al_unit_key :: string
  al_quantity :: string
  al_rate_item_id :: "string option"
  al_raw :: "rat option"
  al_charged :: "int option"

record AiuRatingArtifact =
  aa_official :: bool
  aa_versionId :: "string option"
  aa_totalMicros :: "int option"
  aa_lines :: "AiuLine list"

subsection \<open>Decimals\<close>

text \<open>\<open>toDecimalPlaces(n, ROUND_HALF_UP)\<close>: ties go away from zero.\<close>

definition toDecimalPlaces :: "nat \<Rightarrow> rat \<Rightarrow> rat" where
  "toDecimalPlaces n x =
     (if 0 \<le> x then of_int \<lfloor>x * 10 ^ n + 1 / 2\<rfloor> / 10 ^ n
      else - (of_int \<lfloor>(- x) * 10 ^ n + 1 / 2\<rfloor> / 10 ^ n))"

definition dec_add :: "rating_env \<Rightarrow> rat \<Rightarrow> rat \<Rightarrow> rat" where
  "dec_add env x y = dec_round env (x + y)"

definition dec_minus :: "rating_env \<Rightarrow> rat \<Rightarrow> rat \<Rightarrow> rat" where
  "dec_minus env x y = dec_round env (x - y)"

definition dec_mul :: "rating_env \<Rightarrow> rat \<Rightarrow> rat \<Rightarrow> rat" where
  "dec_mul env x y = dec_round env (x * y)"

definition dec_div :: "rating_env \<Rightarrow> rat \<Rightarrow> rat \<Rightarrow> rat" where
  "dec_div env x y = dec_round env (x / y)"

subsection \<open>Rate tables\<close>

definition usageTypeValues :: "string list" where
  "usageTypeValues =
     [''uncached_input_token'', ''cache_read_input_token'', ''cache_write_input_token'',
      ''output_token'', ''reasoning_output_token'', ''input_image'', ''output_image'',
      ''input_audio_second'', ''output_audio_second'', ''input_video_second'',
      ''output_video_second'', ''embedding_token'', ''request'', ''custom_unit'', ''unknown'']"

definition rate_key :: "string \<Rightarrow> string \<Rightarrow> string" where
  "rate_key usageType unitKey = usageType @ [CHR 0x00] @ unitKey"

definition relevant :: "rating_env \<Rightarrow> ApplicationUsageLine \<Rightarrow> bool" where
  "relevant env line \<longleftrightarrow>
     (if dec_of env (ul_quantity line) = 0 then False
      else ul_usage_type line \<in> set usageTypeValues)"

definition unit_key_of :: "ApplicationUsageLine \<Rightarrow> string" where
  "unit_key_of line = (case ul_unit_key line of None \<Rightarrow> [] | Some u \<Rightarrow> u)"

subsection \<open>Conditions\<close>

definition isSet :: "json option \<Rightarrow> bool" where
  "isSet value = (case value of
     None \<Rightarrow> False
   | Some JNull \<Rightarrow> False
   | Some (JStr s) \<Rightarrow> 0 < length s
   | Some (JArr xs) \<Rightarrow> 0 < length xs
   | Some _ \<Rightarrow> True)"

definition js_string_of :: "rating_env \<Rightarrow> json option \<Rightarrow> string" where
  "js_string_of env v = (case v of
     None \<Rightarrow> ''undefined'' | Some (JStr s) \<Rightarrow> s | Some j \<Rightarrow> js_String env j)"

text \<open>The sign of the comparison, when both sides are numbers or both are strings.\<close>

definition js_order :: "rating_env \<Rightarrow> json \<Rightarrow> json option \<Rightarrow> rat option" where
  "js_order env value expected = (case (value, expected) of
     (JNum a, Some (JNum b)) \<Rightarrow> Some (a - b)
   | (JStr a, Some (JStr b)) \<Rightarrow> Some (of_int (localeCompare env a b))
   | _ \<Rightarrow> None)"

definition js_between :: "json \<Rightarrow> json option \<Rightarrow> json option \<Rightarrow> bool" where
  "js_between value lo hi = (case (value, lo, hi) of
     (JNum v, Some (JNum a), Some (JNum b)) \<Rightarrow> a \<le> v \<and> v \<le> b
   | (JStr v, Some (JStr a), Some (JStr b)) \<Rightarrow> a \<le> v \<and> v \<le> b
   | _ \<Rightarrow> False)"

definition comparison :: "rating_env \<Rightarrow> json option \<Rightarrow> ModelCostCondition \<Rightarrow> bool" where
  "comparison env value condition =
     (let vs = mc_values condition; first = nth_value vs 0; op = mc_operator condition in
      if op = Op_is_set then isSet value
      else if op = Op_is_not_set then \<not> isSet value
      else if \<not> isSet value then False
      else (case value of
        None \<Rightarrow> False
      | Some v \<Rightarrow>
          (case op of
             Op_equals \<Rightarrow> (case first of None \<Rightarrow> False | Some x \<Rightarrow> js_equals v x)
           | Op_not_equals \<Rightarrow> \<not> list_ex (js_equals v) vs
           | Op_one_of \<Rightarrow> list_ex (js_equals v) vs
           | Op_contains \<Rightarrow> (case v of JStr s \<Rightarrow> js_includes s (js_string_of env first) | _ \<Rightarrow> False)
           | Op_starts_with \<Rightarrow>
               (case v of JStr s \<Rightarrow> js_startsWith s (js_string_of env first) | _ \<Rightarrow> False)
           | Op_contains_any \<Rightarrow>
               (case v of JArr xs \<Rightarrow> list_ex (\<lambda>item. list_ex (js_equals item) xs) vs | _ \<Rightarrow> False)
           | Op_contains_all \<Rightarrow>
               (case v of JArr xs \<Rightarrow> list_all (\<lambda>item. list_ex (js_equals item) xs) vs | _ \<Rightarrow> False)
           | Op_between \<Rightarrow> js_between v first (nth_value vs 1)
           | _ \<Rightarrow>
               (case js_order env v first of
                  None \<Rightarrow> False
                | Some order \<Rightarrow>
                    (case op of
                       Op_greater_than \<Rightarrow> 0 < order
                     | Op_greater_or_equal \<Rightarrow> 0 \<le> order
                     | Op_less_than \<Rightarrow> order < 0
                     | Op_less_or_equal \<Rightarrow> order \<le> 0
                     | _ \<Rightarrow> False)))))"

definition builtInValue :: "NormalizedUsage \<Rightarrow> string \<Rightarrow> json option" where
  "builtInValue event field =
     (let opt = map_option JStr in
      case map_of
        [(''event_id'', Some (JStr (n_event_id event))),
         (''request_id'', Some (JStr (n_request_id event))),
         (''attempt_id'', Some (JStr (n_attempt_id event))),
         (''operation_id'', opt (n_operation_id event)),
         (''session_id'', opt (n_session_id event)),
         (''conversation_id'', opt (n_conversation_id event)),
         (''user_id'', Some (JStr (n_user_id event))),
         (''display_user'', opt (n_display_user event)),
         (''application_version'', opt (n_application_version event)),
         (''sdk_version'', opt (n_sdk_version event)),
         (''connector_version'', opt (n_connector_version event)),
         (''config_version'', opt (n_config_version event)),
         (''virtual_model'', opt (n_virtual_model event)),
         (''model_id'', opt (n_model_id event)),
         (''connection_id'', opt (n_connection_id event)),
         (''connection_driver'', opt (n_connection_driver event)),
         (''request_model'', Some (JStr (n_request_model event))),
         (''provider'', opt (n_provider event)),
         (''status'', Some (JStr (n_status event))),
         (''schema_version'', Some (JStr (n_schema_version event))),
         (''route_reason'', opt (n_route_reason event)),
         (''latency_ms'', map_option (\<lambda>n. JNum (of_int n)) (n_latency_ms event))] field of
        None \<Rightarrow> None | Some v \<Rightarrow> v)"

definition property_value :: "(string \<times> json) list option \<Rightarrow> string \<Rightarrow> json option" where
  "property_value props k = (case props of None \<Rightarrow> None | Some ps \<Rightarrow> map_of ps k)"

definition matchesCostCondition :: "rating_env \<Rightarrow> NormalizedUsage \<Rightarrow> ModelCostCondition \<Rightarrow> bool" where
  "matchesCostCondition env event condition =
     comparison env
       (case mc_subject condition of
          BuiltInField f \<Rightarrow> builtInValue event f
        | EventProperty k \<Rightarrow> property_value (n_event_properties event) k
        | UserProperty k \<Rightarrow> property_value (n_user_properties event) k)
       condition"

definition rule_matches :: "rating_env \<Rightarrow> NormalizedUsage \<Rightarrow> CostRule \<Rightarrow> ModelCostCondition list \<Rightarrow> bool" where
  "rule_matches env event rule conditions =
     (let matches = map (matchesCostCondition env event) conditions in
      length matches = 0 \<or>
      (if cr_matchMode rule = ''any'' then list_ex (\<lambda>b. b) matches else list_all (\<lambda>b. b) matches))"

fun first_matching :: "rating_env \<Rightarrow> NormalizedUsage \<Rightarrow> CostRule list \<Rightarrow> CostRule option res" where
  "first_matching env event [] = Inr None"
| "first_matching env event (rule # rules) =
     (case parseConditions (cr_conditionsJson rule) of
        None \<Rightarrow> Inl (TypeErr (''Cost rule '' @ cr_id rule @ '' has invalid conditions''))
      | Some conditions \<Rightarrow>
          if rule_matches env event rule conditions then Inr (Some rule)
          else first_matching env event rules)"

definition matchingRule :: "rating_env \<Rightarrow> CostRule list \<Rightarrow> NormalizedUsage \<Rightarrow> CostRule option res" where
  "matchingRule env rules event = first_matching env event (sort_key cr_priority rules)"

subsection \<open>Cost\<close>

definition cost_rates :: "CostRule \<Rightarrow> string \<Rightarrow> CostRuleItem option" where
  "cost_rates rule = js_map (map (\<lambda>i. (rate_key (ci_usageType i) (ci_unitKey i), i)) (cr_items rule))"

definition unpriced :: "CostVersion option \<Rightarrow> CostRatingArtifact" where
  "unpriced version =
     \<lparr>ca_official = False, ca_source = None, ca_versionId = map_option cv_id version,
      ca_ruleId = None, ca_ruleName = None, ca_currency = None, ca_total = None, ca_lines = []\<rparr>"

definition fixed_lines :: "CostRule \<Rightarrow> CostLine list" where
  "fixed_lines rule = (case cr_fixedAmount rule of
     None \<Rightarrow> []
   | Some a \<Rightarrow> [\<lparr>cl_usage_type = None, cl_unit_key = [], cl_quantity = ''1'', cl_rate_item_id = None,
       cl_amount_per_unit = toDecimalPlaces 18 a, cl_amount = toDecimalPlaces 18 a\<rparr>])"

fun cost_lines ::
  "rating_env \<Rightarrow> (string \<Rightarrow> CostRuleItem option) \<Rightarrow> ApplicationUsageLine list \<Rightarrow> rat \<Rightarrow> rat \<times> CostLine list" where
  "cost_lines env rates [] acc = (acc, [])"
| "cost_lines env rates (line # usage) acc =
     (if \<not> relevant env line then cost_lines env rates usage acc
      else (case rates (rate_key (ul_usage_type line) (unit_key_of line)) of
        None \<Rightarrow> cost_lines env rates usage acc
      | Some rate \<Rightarrow>
          (let amount = dec_mul env (dec_of env (ul_quantity line)) (ci_amountPerUnit rate);
               (acc', ls) = cost_lines env rates usage (dec_add env acc amount)
           in (acc',
               \<lparr>cl_usage_type = Some (ul_usage_type line), cl_unit_key = unit_key_of line,
                cl_quantity = ul_quantity line, cl_rate_item_id = Some (ci_id rate),
                cl_amount_per_unit = toDecimalPlaces 18 (ci_amountPerUnit rate),
                cl_amount = toDecimalPlaces 18 amount\<rparr> # ls))))"

definition rateApplicationCost ::
  "rating_env \<Rightarrow> CostVersion option \<Rightarrow> NormalizedUsage \<Rightarrow> CostRatingArtifact res" where
  "rateApplicationCost env version event =
     (case n_source_cost event of
        Some sc \<Rightarrow> Inr
          \<lparr>ca_official = True,
           ca_source = Some (if sc_is_estimated sc then ReportedEstimate else ReportedCost),
           ca_versionId = None, ca_ruleId = None, ca_ruleName = None,
           ca_currency = Some (sc_currency sc),
           ca_total = Some (toDecimalPlaces 18 (dec_of env (sc_amount sc))), ca_lines = []\<rparr>
      | None \<Rightarrow>
          (case version of
             None \<Rightarrow> Inr (unpriced None)
           | Some v \<Rightarrow>
               bind_res (matchingRule env (cv_rules v) event)
                 (\<lambda>found. case found of
                    None \<Rightarrow> Inr (unpriced version)
                  | Some rule \<Rightarrow>
                      (let start = (case cr_fixedAmount rule of None \<Rightarrow> 0 | Some a \<Rightarrow> a);
                           (total_cost, ls) = cost_lines env (cost_rates rule) (n_usage_lines event) start
                       in Inr
                         \<lparr>ca_official = True, ca_source = Some RuleCost, ca_versionId = Some (cv_id v),
                          ca_ruleId = Some (cr_id rule), ca_ruleName = Some (cr_name rule),
                          ca_currency = Some (cv_currency v),
                          ca_total = Some (toDecimalPlaces 18 total_cost),
                          ca_lines = fixed_lines rule @ ls\<rparr>))))"

subsection \<open>AIU\<close>

record AiuDraft =
  d_index :: nat
  d_line :: ApplicationUsageLine
  d_unitKey :: string
  d_rate :: "AiuRateItem option"
  d_raw :: "rat option"
  d_floor :: int
  d_fraction :: rat

definition aiu_draft ::
  "rating_env \<Rightarrow> (string \<Rightarrow> AiuRateItem option) \<Rightarrow> nat \<times> ApplicationUsageLine \<Rightarrow> AiuDraft" where
  "aiu_draft env rates il =
     (let (i, line) = il; u = unit_key_of line in
      case rates (rate_key (ul_usage_type line) u) of
        None \<Rightarrow> \<lparr>d_index = i, d_line = line, d_unitKey = u, d_rate = None, d_raw = None,
                 d_floor = 0, d_fraction = 0\<rparr>
      | Some rate \<Rightarrow>
          (let raw = dec_mul env (dec_div env (dec_of env (ul_quantity line)) (ai_unitSize rate))
                       (of_int (ai_aiuMicrosPerUnit rate))
           in \<lparr>d_index = i, d_line = line, d_unitKey = u, d_rate = Some rate, d_raw = Some raw,
               d_floor = \<lfloor>raw\<rfloor>, d_fraction = dec_minus env raw (of_int \<lfloor>raw\<rfloor>)\<rparr>))"

definition aiu_drafts ::
  "rating_env \<Rightarrow> (string \<Rightarrow> AiuRateItem option) \<Rightarrow> ApplicationUsageLine list \<Rightarrow> AiuDraft list" where
  "aiu_drafts env rates usage =
     map (aiu_draft env rates)
       (filter (\<lambda>(_, line). relevant env line \<and> ul_usage_type line \<noteq> ''request'') (enumerate 0 usage))"

definition draft_line :: "AiuDraft \<Rightarrow> int option \<Rightarrow> AiuLine" where
  "draft_line d charged =
     \<lparr>al_usage_type = ul_usage_type (d_line d), al_unit_key = d_unitKey d,
      al_quantity = ul_quantity (d_line d), al_rate_item_id = map_option ai_id (d_rate d),
      al_raw = map_option (toDecimalPlaces 18) (d_raw d), al_charged = charged\<rparr>"

text \<open>The comparator of the sort: larger fractions first, then the smaller index.\<close>

definition remainder_before :: "AiuDraft \<Rightarrow> AiuDraft \<Rightarrow> bool" where
  "remainder_before l r \<longleftrightarrow>
     d_fraction r < d_fraction l \<or> d_fraction l = d_fraction r \<and> d_index l \<le> d_index r"

fun insert_draft :: "AiuDraft \<Rightarrow> AiuDraft list \<Rightarrow> AiuDraft list" where
  "insert_draft d [] = [d]"
| "insert_draft d (x # xs) = (if remainder_before d x then d # x # xs else x # insert_draft d xs)"

definition sort_drafts :: "AiuDraft list \<Rightarrow> AiuDraft list" where
  "sort_drafts ds = foldr insert_draft ds []"

text \<open>The \<open>flatMap\<close> that hands out the remaining micros, one per draft.\<close>

fun pick_additions :: "int \<Rightarrow> AiuDraft list \<Rightarrow> nat list" where
  "pick_additions additions [] = []"
| "pick_additions additions (d # ds) =
     (if additions \<le> 0 then pick_additions additions ds
      else d_index d # pick_additions (additions - 1) ds)"

definition raw_total :: "rating_env \<Rightarrow> AiuDraft list \<Rightarrow> rat" where
  "raw_total env drafts =
     fold (\<lambda>d sum. dec_add env sum (case d_raw d of None \<Rightarrow> 0 | Some r \<Rightarrow> r)) drafts 0"

definition charged_amount :: "nat list \<Rightarrow> AiuDraft \<Rightarrow> int" where
  "charged_amount selected d = d_floor d + (if d_index d \<in> set selected then 1 else 0)"

definition aiu_rates :: "AiuVersion option \<Rightarrow> string \<Rightarrow> AiuRateItem option" where
  "aiu_rates version =
     js_map (map (\<lambda>i. (rate_key (ai_usageType i) (ai_unitKey i), i))
       (case version of None \<Rightarrow> [] | Some v \<Rightarrow> av_items v))"

definition rateApplicationAiu ::
  "rating_env \<Rightarrow> AiuVersion option \<Rightarrow> ApplicationUsageLine list \<Rightarrow> AiuRatingArtifact" where
  "rateApplicationAiu env version usage =
     (let drafts = aiu_drafts env (aiu_rates version) usage;
          missing = (version = None \<or> list_ex (\<lambda>d. d_rate d = None) drafts)
      in if missing then
           \<lparr>aa_official = False, aa_versionId = map_option av_id version, aa_totalMicros = None,
            aa_lines = map (\<lambda>d. draft_line d None) drafts\<rparr>
         else
           (let target = \<lfloor>toDecimalPlaces 0 (raw_total env drafts)\<rfloor>;
                floors = (\<Sum>d \<leftarrow> drafts. d_floor d);
                selected = pick_additions (target - floors) (sort_drafts drafts)
            in \<lparr>aa_official = True, aa_versionId = map_option av_id version,
                aa_totalMicros = Some target,
                aa_lines = map (\<lambda>d. draft_line d (Some (charged_amount selected d))) drafts\<rparr>))"

end
