(* ===== verification/Rounding.thy ===== *)
theory Rounding
  imports Prelude Complex_Main
begin

text \<open>
  Rounding to significant digits, the arithmetic both number systems of the program share:
  \<open>decimal.js\<close> rounds every result half up to twenty decimal digits, a JavaScript number
  keeps fifty-three binary digits and rounds half to even.  \<open>round_sig\<close> computes either;
  the laws the components use are proved once, in the locale \<open>significant\<close>, from the laws of
  the rule that picks the nearest integer (\<open>nearest_int\<close>).  The exponent is not bounded: the
  values here are far from overflow and underflow.
\<close>

subsection \<open>Nearest integers\<close>

definition half_up :: "rat \<Rightarrow> int" where
  "half_up x = \<lfloor>x + 1 / 2\<rfloor>"

definition half_even :: "rat \<Rightarrow> int" where
  "half_even x =
     (let f = \<lfloor>x\<rfloor>; r = x - of_int f
      in if r < 1 / 2 \<or> r = 1 / 2 \<and> even f then f else f + 1)"

locale nearest_int =
  fixes near :: "rat \<Rightarrow> int"
  assumes near_mono: "x \<le> y \<Longrightarrow> near x \<le> near y"
    and near_err: "\<bar>of_int (near x) - x\<bar> \<le> 1 / 2"
begin

lemma near_of_int: "near (of_int k) = k"
proof -
  have "\<bar>of_int (near (of_int k) - k)\<bar> \<le> (1 / 2 :: rat)"
    using near_err [of "of_int k"] by simp
  then have "of_int \<bar>near (of_int k) - k\<bar> < (1 :: rat)" by simp
  then show ?thesis by linarith
qed

end

lemma half_up_err: "\<bar>of_int (half_up x) - x\<bar> \<le> 1 / 2"
  unfolding half_up_def by linarith

lemma half_up_mono: "x \<le> y \<Longrightarrow> half_up x \<le> half_up y"
  by (simp add: half_up_def floor_mono)

lemma half_even_err: "\<bar>of_int (half_even x) - x\<bar> \<le> 1 / 2"
proof -
  have "of_int \<lfloor>x\<rfloor> \<le> x" "x < of_int \<lfloor>x\<rfloor> + 1" by linarith+
  then show ?thesis by (auto simp: half_even_def Let_def abs_le_iff)
qed

lemma half_even_mono:
  assumes "x \<le> y"
  shows "half_even x \<le> half_even y"
proof (cases "\<lfloor>x\<rfloor> = \<lfloor>y\<rfloor>")
  case True
  with assms show ?thesis by (auto simp: half_even_def Let_def)
next
  case False
  then have "\<lfloor>x\<rfloor> + 1 \<le> \<lfloor>y\<rfloor>" using assms floor_mono [OF assms] by linarith
  moreover have "half_even x \<le> \<lfloor>x\<rfloor> + 1" "\<lfloor>y\<rfloor> \<le> half_even y" by (auto simp: half_even_def Let_def)
  ultimately show ?thesis by linarith
qed

interpretation half_up: nearest_int half_up
  by unfold_locales (rule half_up_mono, assumption, rule half_up_err)

interpretation half_even: nearest_int half_even
  by unfold_locales (rule half_even_mono, assumption, rule half_even_err)

subsection \<open>Leading digit\<close>

function scale_down :: "int \<Rightarrow> rat \<Rightarrow> nat" where
  "scale_down b x = (if b < 2 \<or> x < of_int b then 0 else Suc (scale_down b (x / of_int b)))"
  by auto
termination
proof (relation "measure (\<lambda>(b, x). nat \<lfloor>x\<rfloor>)")
  fix b :: int and x :: rat assume "\<not> (b < 2 \<or> x < of_int b)"
  then have b: "(2::rat) \<le> of_int b" and x: "of_int b \<le> x" by auto
  have "x / of_int b \<le> x / 2" using b x by (intro divide_left_mono) auto
  then have "\<lfloor>x / of_int b\<rfloor> \<le> \<lfloor>x / 2\<rfloor>" by (rule floor_mono)
  also have "\<dots> < \<lfloor>x\<rfloor>" using b x by linarith
  finally show "((b, x / of_int b), b, x) \<in> measure (\<lambda>(b, x). nat \<lfloor>x\<rfloor>)"
    using b x by simp
qed simp

function scale_up :: "int \<Rightarrow> rat \<Rightarrow> nat" where
  "scale_up b x = (if b < 2 \<or> 1 \<le> x \<or> x \<le> 0 then 0 else Suc (scale_up b (of_int b * x)))"
  by auto
termination
proof (relation "measure (\<lambda>(b, x). nat \<lfloor>1 / x\<rfloor>)")
  fix b :: int and x :: rat assume a: "\<not> (b < 2 \<or> 1 \<le> x \<or> x \<le> (0::rat))"
  define y where "y = 1 / x"
  have b: "(2::rat) \<le> of_int b" and y: "1 < y" using a by (auto simp: y_def field_simps)
  have "y / of_int b \<le> y / 2" using b y by (intro divide_left_mono) auto
  then have "\<lfloor>y / of_int b\<rfloor> \<le> \<lfloor>y / 2\<rfloor>" by (rule floor_mono)
  also have "\<dots> < \<lfloor>y\<rfloor>"
  proof -
    have "1 \<le> \<lfloor>y\<rfloor>" using y by simp
    then have "y / 2 < of_int \<lfloor>y\<rfloor>" by linarith
    then show ?thesis by (simp add: floor_less_iff)
  qed
  finally have "nat \<lfloor>y / of_int b\<rfloor> < nat \<lfloor>y\<rfloor>" using y by linarith
  moreover have "1 / (of_int b * x) = y / of_int b" by (simp add: y_def)
  ultimately show "((b, of_int b * x), b, x) \<in> measure (\<lambda>(b, x). nat \<lfloor>1 / x\<rfloor>)"
    by (simp add: y_def mult.commute)
qed simp

declare scale_down.simps [simp del] scale_up.simps [simp del]

definition lead_exp :: "int \<Rightarrow> rat \<Rightarrow> int" where
  "lead_exp b x = (if 1 \<le> x then int (scale_down b x) else - int (scale_up b x))"

definition round_sig :: "(rat \<Rightarrow> int) \<Rightarrow> int \<Rightarrow> nat \<Rightarrow> rat \<Rightarrow> rat" where
  "round_sig near b p x =
     (let u = of_int b powi (lead_exp b \<bar>x\<bar> - int p + 1)
      in if x = 0 then 0 else sgn x * (of_int (near (\<bar>x\<bar> / u)) * u))"

lemma scale_down_bounds:
  "2 \<le> b \<Longrightarrow> 1 \<le> x \<Longrightarrow> of_int b ^ scale_down b x \<le> x \<and> x < of_int b ^ Suc (scale_down b x)"
proof (induction b x rule: scale_down.induct)
  case (1 b x)
  show ?case
  proof (cases "x < of_int b")
    case True
    with 1 show ?thesis by (simp add: scale_down.simps [of b x])
  next
    case False
    with 1 show ?thesis by (simp add: scale_down.simps [of b x] field_simps)
  qed
qed

lemma scale_up_bounds:
  "2 \<le> b \<Longrightarrow> 0 < x \<Longrightarrow> x < of_int b \<Longrightarrow>
     1 \<le> x * of_int b ^ scale_up b x \<and> x * of_int b ^ scale_up b x < of_int b"
proof (induction b x rule: scale_up.induct)
  case (1 b x)
  show ?case
  proof (cases "1 \<le> x")
    case True
    with 1 show ?thesis by (simp add: scale_up.simps [of b x])
  next
    case False
    with 1 show ?thesis by (simp add: scale_up.simps [of b x] algebra_simps)
  qed
qed

subsection \<open>The laws\<close>

locale significant = nearest_int near for near +
  fixes b :: int and p :: nat
  assumes base: "2 \<le> b" and digits: "0 < p"
begin

lemma base_gt: "(1::rat) < of_int b" "(0::rat) < of_int b" "(of_int b :: rat) \<noteq> 0"
  using base by auto

lemma lead_exp_bounds:
  assumes "0 < x"
  shows "of_int b powi lead_exp b x \<le> x \<and> x < of_int b powi (lead_exp b x + 1)"
proof (cases "1 \<le> x")
  case True
  then show ?thesis
    using scale_down_bounds [OF base True] base_gt by (simp add: lead_exp_def power_int_add_1 mult.commute)
next
  case False
  then have "1 \<le> x * of_int b ^ scale_up b x" "x * of_int b ^ scale_up b x < of_int b"
    using scale_up_bounds [of b x] assms base base_gt by auto
  then have "1 / of_int b ^ scale_up b x \<le> x" "x < of_int b / of_int b ^ scale_up b x"
    using base_gt by (simp_all add: field_simps)
  moreover have "of_int b powi (1 - int (scale_up b x)) = (of_int b::rat) / of_int b ^ scale_up b x"
    "of_int b powi (- int (scale_up b x)) = (1::rat) / of_int b ^ scale_up b x"
    using base_gt by (simp_all add: power_int_diff power_int_minus divide_inverse)
  ultimately show ?thesis using False by (simp add: lead_exp_def)
qed

lemma powi_mono: "i \<le> j \<Longrightarrow> (of_int b :: rat) powi i \<le> of_int b powi j"
  using base_gt by (intro power_int_increasing) auto

lemma powi_pos: "0 < (of_int b :: rat) powi i"
  using base_gt by (intro zero_less_power_int) auto

lemma lead_exp_mono:
  assumes "0 < x" and "x \<le> y"
  shows "lead_exp b x \<le> lead_exp b y"
proof (rule ccontr)
  assume "\<not> lead_exp b x \<le> lead_exp b y"
  then have "(of_int b :: rat) powi (lead_exp b y + 1) \<le> of_int b powi lead_exp b x"
    by (intro powi_mono) auto
  with lead_exp_bounds [of x] lead_exp_bounds [of y] assms show False by linarith
qed

definition unit_of :: "rat \<Rightarrow> rat" where
  "unit_of x = of_int b powi (lead_exp b x - int p + 1)"

lemma unit_pos: "0 < unit_of x"
  unfolding unit_of_def by (rule powi_pos)

lemma round_pos_eq: "0 < x \<Longrightarrow> round_sig near b p x = of_int (near (x / unit_of x)) * unit_of x"
  by (simp add: round_sig_def unit_of_def Let_def)

lemma powi_scaled: "of_int b powi (int n + (lead_exp b x - int p + 1)) = of_int (b ^ n) * unit_of x"
  unfolding unit_of_def using base_gt by (simp add: power_int_add)

lemma round_bounds:
  assumes "0 < x"
  shows "of_int b powi lead_exp b x \<le> round_sig near b p x \<and>
    round_sig near b p x \<le> of_int b powi (lead_exp b x + 1)"
proof -
  have e0: "of_int b powi lead_exp b x = of_int (b ^ (p - 1)) * unit_of x"
    using powi_scaled [of "p - 1" x] digits by simp
  have e1: "of_int b powi (lead_exp b x + 1) = of_int (b ^ p) * unit_of x"
    using powi_scaled [of p x] by simp
  have lo: "of_int (b ^ (p - 1)) \<le> x / unit_of x" and hi: "x / unit_of x \<le> of_int (b ^ p)"
    using lead_exp_bounds [OF assms] unit_pos [of x] unfolding e0 e1
    by (simp_all add: field_simps)
  have "b ^ (p - 1) \<le> near (x / unit_of x)" "near (x / unit_of x) \<le> b ^ p"
    using near_mono [OF lo] near_mono [OF hi] by (simp_all only: near_of_int)
  then show ?thesis
    unfolding e0 e1 round_pos_eq [OF assms] using unit_pos [of x]
    by (simp only: mult_le_cancel_right_pos of_int_le_iff)
qed

lemma round_pos: "0 < x \<Longrightarrow> 0 < round_sig near b p x"
  using round_bounds [of x] powi_pos [of "lead_exp b x"] by linarith

lemma round_minus: "round_sig near b p (- x) = - round_sig near b p x"
  by (simp add: round_sig_def Let_def)

lemma round_zero: "round_sig near b p 0 = 0"
  by (simp add: round_sig_def)

lemma round_mono_pos:
  assumes "0 < x" and "x \<le> y"
  shows "round_sig near b p x \<le> round_sig near b p y"
proof (cases "lead_exp b x = lead_exp b y")
  case True
  then have u: "unit_of y = unit_of x" by (simp add: unit_of_def)
  have "x / unit_of x \<le> y / unit_of x" using assms(2) unit_pos [of x] by (simp add: divide_right_mono)
  then have "near (x / unit_of x) \<le> near (y / unit_of x)" by (rule near_mono)
  then show ?thesis
    using assms unit_pos [of x] by (simp add: round_pos_eq u)
next
  case False
  with lead_exp_mono [OF assms] have "(of_int b::rat) powi (lead_exp b x + 1) \<le> of_int b powi lead_exp b y"
    by (intro powi_mono) auto
  with round_bounds [of x] round_bounds [of y] assms show ?thesis by linarith
qed

lemma round_mono:
  assumes "x \<le> y"
  shows "round_sig near b p x \<le> round_sig near b p y"
proof -
  have pos: "0 \<le> round_sig near b p z" if "0 \<le> z" for z
    using round_pos [of z] that round_zero by (cases "z = 0") auto
  have neg: "round_sig near b p z \<le> 0" if "z \<le> 0" for z
    using pos [of "- z"] that by (simp add: round_minus)
  consider "0 < x" | "x \<le> 0" "0 \<le> y" | "y < 0" by linarith
  then show ?thesis
  proof cases
    case 1
    then show ?thesis using assms by (rule round_mono_pos)
  next
    case 2
    with neg [of x] pos [of y] show ?thesis by linarith
  next
    case 3
    then show ?thesis using round_mono_pos [of "- y" "- x"] assms by (simp add: round_minus)
  qed
qed

lemma round_rel_err:
  assumes "0 < x"
  shows "\<bar>round_sig near b p x - x\<bar> \<le> x * of_int b powi (1 - int p) / 2"
proof -
  let ?u = "unit_of x"
  have u: "0 < ?u" by (rule unit_pos)
  have "round_sig near b p x - x = (of_int (near (x / ?u)) - x / ?u) * ?u"
    using u assms by (simp add: round_pos_eq left_diff_distrib)
  then have "\<bar>round_sig near b p x - x\<bar> = \<bar>of_int (near (x / ?u)) - x / ?u\<bar> * ?u"
    using u by (simp add: abs_mult)
  also have "\<dots> \<le> 1 / 2 * ?u" using near_err [of "x / ?u"] u by (intro mult_right_mono) auto
  also have "?u = of_int b powi lead_exp b x * of_int b powi (1 - int p)"
    unfolding unit_of_def using base_gt by (simp add: power_int_add [symmetric] algebra_simps)
  also have "1 / 2 * \<dots> \<le> 1 / 2 * (x * of_int b powi (1 - int p))"
    using lead_exp_bounds [OF assms] powi_pos [of "1 - int p"] by (intro mult_left_mono mult_right_mono) auto
  finally show ?thesis by simp
qed

lemma round_exact:
  assumes "0 < x" and "x / unit_of x = of_int k"
  shows "round_sig near b p x = x"
  using assms unit_pos [of x] by (simp add: round_pos_eq near_of_int) (simp add: field_simps)

lemma round_int_pos:
  assumes "0 < n" and "n < b ^ p"
  shows "round_sig near b p (of_int n) = of_int n"
proof -
  let ?x = "of_int n :: rat"
  have pos: "0 < ?x" using assms(1) by simp
  have "lead_exp b ?x < int p"
  proof (rule ccontr)
    assume "\<not> lead_exp b ?x < int p"
    then have "(of_int b::rat) powi int p \<le> of_int b powi lead_exp b ?x" by (intro powi_mono) auto
    then have "(of_int b::rat) ^ p \<le> ?x"
      using lead_exp_bounds [OF pos] by (simp only: power_int_of_nat) linarith
    then have "of_int (b ^ p) \<le> ?x" by (simp only: of_int_power)
    with assms(2) show False by (simp only: of_int_le_iff)
  qed
  then have e: "lead_exp b ?x - int p + 1 = - int (nat (int p - 1 - lead_exp b ?x))" by simp
  have "?x / unit_of ?x = of_int (n * b ^ nat (int p - 1 - lead_exp b ?x))"
    unfolding unit_of_def e power_int_minus power_int_of_nat by (simp add: divide_inverse)
  then show ?thesis by (rule round_exact [OF pos])
qed

lemma round_int:
  assumes "\<bar>n\<bar> < b ^ p"
  shows "round_sig near b p (of_int n) = of_int n"
proof -
  consider "n = 0" | "0 < n" | "n < 0" by linarith
  then show ?thesis
  proof cases
    case 3
    with assms show ?thesis using round_int_pos [of "- n"] by (simp add: round_minus)
  qed (use assms in \<open>simp_all add: round_int_pos round_zero\<close>)
qed

end

interpretation dec20: significant half_up 10 20
  by unfold_locales auto

interpretation float53: significant half_even 2 53
  by unfold_locales auto

end
