(* ===== verification/RatingProperties.thy ===== *)
theory RatingProperties
  imports Rating Rounding
begin

text \<open>
  What rating promises: the rounding of \<open>decimal.js\<close> as an interface (\<open>decimal_rounding\<close>)
  with the concrete rounding to twenty digits as its instance, the largest-remainder
  distribution of AIU, which rule prices an event, and where twenty digits are too few.
\<close>

subsection \<open>Rounding to significant digits\<close>

text \<open>
  What rating relies on of \<open>decimal.js\<close>: rounding a result keeps its order, leaves integers
  within the precision alone and does not lose the sign of a positive number.
\<close>

locale decimal_rounding =
  fixes rnd :: "rat \<Rightarrow> rat" and bound :: int
  assumes rnd_mono: "x \<le> y \<Longrightarrow> rnd x \<le> rnd y"
    and rnd_int: "\<bar>n\<bar> < bound \<Longrightarrow> rnd (of_int n) = of_int n"
    and rnd_pos: "0 < x \<Longrightarrow> 0 < rnd x"
    and bound_pos: "0 < bound"
begin

text \<open>A rounded running sum stays between the sums of the floors and of the ceilings.\<close>

lemma rounded_sum_bounds:
  assumes "\<forall>r \<in> set rs. 0 \<le> r" and "0 \<le> a" and "b + (\<Sum>r \<leftarrow> rs. \<lceil>r\<rceil>) < bound"
    and "of_int a \<le> s" and "s \<le> of_int b"
  shows "of_int (a + (\<Sum>r \<leftarrow> rs. \<lfloor>r\<rfloor>)) \<le> fold (\<lambda>r s. rnd (s + r)) rs s \<and>
    fold (\<lambda>r s. rnd (s + r)) rs s \<le> of_int (b + (\<Sum>r \<leftarrow> rs. \<lceil>r\<rceil>))"
  using assms
proof (induction rs arbitrary: a b s)
  case (Cons r rs)
  have nn: "0 \<le> (\<Sum>r \<leftarrow> rs. \<lceil>r\<rceil>)" using Cons.prems(1) by (intro sum_list_nonneg) auto
  have r: "0 \<le> r" "0 \<le> \<lfloor>r\<rfloor>" "\<lfloor>r\<rfloor> \<le> \<lceil>r\<rceil>" using Cons.prems(1) floor_le_ceiling by auto
  have ab: "a \<le> b" using Cons.prems(4,5) by (metis of_int_le_iff order_trans)
  have lo: "of_int (a + \<lfloor>r\<rfloor>) \<le> s + r" using Cons.prems(4) of_int_floor_le [of r] by (simp add: add_mono)
  have hi: "s + r \<le> of_int (b + \<lceil>r\<rceil>)" using Cons.prems(5) le_of_int_ceiling [of r] by (simp add: add_mono)
  have "b + \<lceil>r\<rceil> < bound" using Cons.prems(3) nn by simp
  then have "\<bar>a + \<lfloor>r\<rfloor>\<bar> < bound" "\<bar>b + \<lceil>r\<rceil>\<bar> < bound" using Cons.prems(2) ab r by linarith+
  then have "of_int (a + \<lfloor>r\<rfloor>) \<le> rnd (s + r)" "rnd (s + r) \<le> of_int (b + \<lceil>r\<rceil>)"
    using rnd_mono [OF lo] rnd_mono [OF hi] by (simp_all only: rnd_int)
  then show ?case
    using Cons.IH [of "a + \<lfloor>r\<rfloor>" "b + \<lceil>r\<rceil>" "rnd (s + r)"] Cons.prems(1,2,3) r by (simp add: add.assoc)
qed simp

lemma rnd_zero: "rnd 0 = 0"
  using rnd_int [of 0] bound_pos by simp

lemma rnd_nonneg: "0 \<le> x \<Longrightarrow> 0 \<le> rnd x"
  using rnd_mono [of 0 x] by (simp add: rnd_zero)

end

text \<open>The decimal library rounds half up to twenty digits.\<close>

abbreviation decimal_round :: "rat \<Rightarrow> rat" where
  "decimal_round \<equiv> round_sig half_up 10 20"

interpretation decimal20: decimal_rounding decimal_round "10 ^ 20"
  by unfold_locales (auto intro: dec20.round_mono dec20.round_int dec20.round_pos)

subsection \<open>Largest remainder\<close>

lemma set_insert_draft [simp]: "set (insert_draft d ds) = insert d (set ds)"
  by (induction ds) auto

lemma mset_insert_draft [simp]: "mset (insert_draft d ds) = add_mset d (mset ds)"
  by (induction ds) auto

lemma mset_sort_drafts [simp]: "mset (sort_drafts ds) = mset ds"
  by (induction ds) (simp_all add: sort_drafts_def)

lemma set_sort_drafts [simp]: "set (sort_drafts ds) = set ds"
  by (metis mset_sort_drafts set_mset_mset)

lemma remainder_before_total: "\<not> remainder_before a b \<Longrightarrow> remainder_before b a"
  by (auto simp: remainder_before_def)

lemma remainder_before_trans: "remainder_before a b \<Longrightarrow> remainder_before b c \<Longrightarrow> remainder_before a c"
  by (auto simp: remainder_before_def)

lemma sorted_insert_draft:
  "sorted_wrt remainder_before ds \<Longrightarrow> sorted_wrt remainder_before (insert_draft d ds)"
  by (induction ds) (auto dest: remainder_before_total intro: remainder_before_trans)

lemma sorted_sort_drafts: "sorted_wrt remainder_before (sort_drafts ds)"
  by (induction ds) (simp_all add: sort_drafts_def sorted_insert_draft)

lemma pick_additions_take:
  "pick_additions n ds = map d_index (take (nat n) ds)"
proof (induction ds arbitrary: n)
  case (Cons d ds)
  show ?case
  proof (cases "n \<le> 0")
    case True
    with Cons [of n] show ?thesis by simp
  next
    case False
    then have "nat n = Suc (nat (n - 1))" by simp
    with False Cons [of "n - 1"] show ?thesis by simp
  qed
qed simp

lemma sum_list_mset_cong:
  fixes h :: "'a \<Rightarrow> int"
  shows "mset xs = mset ys \<Longrightarrow> (\<Sum>x \<leftarrow> xs. h x) = (\<Sum>x \<leftarrow> ys. h x)"
  by (metis mset_map sum_mset_sum_list)

lemma distinct_index_sorted: "distinct (map d_index ds) \<Longrightarrow> distinct (map d_index (sort_drafts ds))"
  by (metis mset_map mset_sort_drafts mset_eq_imp_distinct_iff)

text \<open>Every selected draft gets one micro, so the charges add up to the target.\<close>

lemma charges_sum:
  assumes "distinct (map d_index ds)" and "0 \<le> n" and "n \<le> int (length ds)"
  shows "(\<Sum>d \<leftarrow> ds. charged_amount (pick_additions n (sort_drafts ds)) d) = (\<Sum>d \<leftarrow> ds. d_floor d) + n"
proof -
  let ?s = "sort_drafts ds" and ?sel = "map d_index (take (nat n) (sort_drafts ds))"
  have dist: "distinct (map d_index ?s)" by (rule distinct_index_sorted [OF assms(1)])
  have len: "length ?s = length ds" by (metis mset_sort_drafts size_mset)
  have split: "?s = take (nat n) ?s @ drop (nat n) ?s" by simp
  have in_sel: "d_index d \<in> set ?sel" if "d \<in> set (take (nat n) ?s)" for d using that by auto
  have notin: "d_index d \<notin> set ?sel" if "d \<in> set (drop (nat n) ?s)" for d
    using dist that by (subst (asm) split, simp only: map_append distinct_append) auto
  have "(\<Sum>d \<leftarrow> ds. charged_amount ?sel d) = (\<Sum>d \<leftarrow> ?s. charged_amount ?sel d)"
    by (rule sum_list_mset_cong) simp
  also have "\<dots> = (\<Sum>d \<leftarrow> take (nat n) ?s. charged_amount ?sel d) + (\<Sum>d \<leftarrow> drop (nat n) ?s. charged_amount ?sel d)"
    by (subst split) (simp only: map_append sum_list_append)
  also have "(\<Sum>d \<leftarrow> take (nat n) ?s. charged_amount ?sel d) = (\<Sum>d \<leftarrow> take (nat n) ?s. d_floor d + 1)"
    using in_sel by (intro arg_cong [of _ _ sum_list] map_cong) (auto simp: charged_amount_def)
  also have "\<dots> = (\<Sum>d \<leftarrow> take (nat n) ?s. d_floor d) + n"
    using assms(2,3) len by (simp add: sum_list_addf sum_list_triv)
  also have "(\<Sum>d \<leftarrow> drop (nat n) ?s. charged_amount ?sel d) = (\<Sum>d \<leftarrow> drop (nat n) ?s. d_floor d)"
    using notin by (intro arg_cong [of _ _ sum_list] map_cong) (auto simp: charged_amount_def)
  finally have "(\<Sum>d \<leftarrow> ds. charged_amount ?sel d) = (\<Sum>d \<leftarrow> ?s. d_floor d) + n"
    by (subst (2) split) (simp only: map_append sum_list_append)
  also have "(\<Sum>d \<leftarrow> ?s. d_floor d) = (\<Sum>d \<leftarrow> ds. d_floor d)" by (rule sum_list_mset_cong) simp
  finally show ?thesis by (simp add: pick_additions_take)
qed

text \<open>Only drafts with a fraction are rounded up, when there are enough of them.\<close>

lemma picked_has_fraction:
  assumes dist: "distinct (map d_index ds)" and nn: "\<forall>d \<in> set ds. 0 \<le> d_fraction d"
    and enough: "n \<le> int (length (filter (\<lambda>d. 0 < d_fraction d) ds))"
    and d: "d \<in> set ds" and sel: "d_index d \<in> set (pick_additions n (sort_drafts ds))"
  shows "0 < d_fraction d"
proof (rule ccontr)
  assume "\<not> 0 < d_fraction d"
  with nn d have zero: "d_fraction d = 0" by force
  let ?s = "sort_drafts ds"
  obtain x where x: "x \<in> set (take (nat n) ?s)" "d_index x = d_index d"
    using sel by (auto simp: pick_additions_take)
  have "x = d"
    using distinct_map_inj [OF dist _ d x(2)] x(1) set_take_subset [of "nat n" ?s] by auto
  then obtain i where i: "i < nat n" "i < length ?s" "?s ! i = d"
    using x(1) by (auto simp: in_set_conv_nth)
  have before: "{j. j < length ?s \<and> 0 < d_fraction (?s ! j)} \<subseteq> {..<i}"
  proof
    fix j assume j: "j \<in> {j. j < length ?s \<and> 0 < d_fraction (?s ! j)}"
    have "\<not> i \<le> j"
    proof
      assume "i \<le> j"
      with j i zero have "i < j" by (cases "i = j") auto
      with sorted_wrt_nth_less [OF sorted_sort_drafts [of ds] this] j i zero show False
        by (auto simp: remainder_before_def)
    qed
    then show "j \<in> {..<i}" by simp
  qed
  have "length (filter (\<lambda>d. 0 < d_fraction d) ds) = length (filter (\<lambda>d. 0 < d_fraction d) ?s)"
    by (metis mset_filter mset_sort_drafts size_mset)
  also have "\<dots> = card {j. j < length ?s \<and> 0 < d_fraction (?s ! j)}"
    by (rule length_filter_conv_card)
  also have "\<dots> \<le> i" using card_mono [OF _ before] by simp
  finally show False using enough i(1) by linarith
qed
subsection \<open>Charges add up\<close>

lemma toDecimalPlaces_0_between:
  assumes "of_int a \<le> x" and "x \<le> of_int b" and "0 \<le> a"
  shows "a \<le> \<lfloor>toDecimalPlaces 0 x\<rfloor> \<and> \<lfloor>toDecimalPlaces 0 x\<rfloor> \<le> b"
proof -
  have "0 \<le> x" using assms(1,3) by (meson of_int_0_le_iff order_trans)
  then have "\<lfloor>toDecimalPlaces 0 x\<rfloor> = \<lfloor>x + 1 / 2\<rfloor>" by (simp add: toDecimalPlaces_def)
  with assms show ?thesis by linarith
qed

definition draft_raw :: "AiuDraft \<Rightarrow> rat" where
  "draft_raw d = (case d_raw d of None \<Rightarrow> 0 | Some r \<Rightarrow> r)"

text \<open>Quantities and rates are not negative, as the schemas of both require.\<close>

definition rates_nonneg :: "rating_env \<Rightarrow> AiuVersion \<Rightarrow> ApplicationUsageLine list \<Rightarrow> bool" where
  "rates_nonneg env v usage \<longleftrightarrow>
     list_all (\<lambda>l. 0 \<le> dec_of env (ul_quantity l)) usage \<and>
     list_all (\<lambda>i. 0 < ai_unitSize i \<and> 0 \<le> ai_aiuMicrosPerUnit i) (av_items v)"

lemma js_map_mem: "js_map kvs k = Some v \<Longrightarrow> (k, v) \<in> set kvs"
  by (auto simp: js_map_def dest: map_of_SomeD)

lemma aiu_rates_mem: "aiu_rates (Some v) k = Some i \<Longrightarrow> i \<in> set (av_items v)"
  by (auto simp: aiu_rates_def dest: js_map_mem)

lemma drafts_index: "map d_index (aiu_drafts env rates usage) =
    map fst (filter (\<lambda>(_, line). relevant env line \<and> ul_usage_type line \<noteq> ''request'') (enumerate 0 usage))"
  by (auto simp: aiu_drafts_def aiu_draft_def Let_def split: option.splits)

lemma drafts_distinct: "distinct (map d_index (aiu_drafts env rates usage))"
proof -
  have "distinct (map fst (enumerate 0 usage))" by simp
  then show ?thesis unfolding drafts_index by (rule distinct_map_filter)
qed

text \<open>A draft with a rate: its raw amount, its floor and its fraction.\<close>

lemma draft_facts:
  assumes r: "decimal_rounding (dec_round env) bound"
    and nn: "rates_nonneg env v usage" and d: "d \<in> set (aiu_drafts env (aiu_rates (Some v)) usage)"
    and rate: "d_rate d \<noteq> None"
  shows "d_raw d = Some (draft_raw d) \<and> 0 \<le> draft_raw d \<and> d_floor d = \<lfloor>draft_raw d\<rfloor> \<and> 0 \<le> d_fraction d \<and>
    (0 < d_fraction d \<longleftrightarrow> \<lceil>draft_raw d\<rceil> = \<lfloor>draft_raw d\<rfloor> + 1) \<and>
    (d_fraction d = 0 \<longleftrightarrow> \<lceil>draft_raw d\<rceil> = \<lfloor>draft_raw d\<rfloor>)"
proof -
  obtain i line where il: "(i, line) \<in> set (enumerate 0 usage)" and dd: "d = aiu_draft env (aiu_rates (Some v)) (i, line)"
    using d by (auto simp: aiu_drafts_def)
  obtain it where it: "aiu_rates (Some v) (rate_key (ul_usage_type line) (unit_key_of line)) = Some it"
    using rate unfolding dd by (auto simp: aiu_draft_def Let_def split: option.splits)
  let ?raw = "dec_mul env (dec_div env (dec_of env (ul_quantity line)) (ai_unitSize it)) (of_int (ai_aiuMicrosPerUnit it))"
  have "0 \<le> dec_of env (ul_quantity line)"
    using nn il by (auto simp: rates_nonneg_def list_all_iff in_set_enumerate_eq dest: nth_mem)
  moreover have "0 < ai_unitSize it" "0 \<le> ai_aiuMicrosPerUnit it"
    using nn aiu_rates_mem [OF it] by (auto simp: rates_nonneg_def list_all_iff)
  ultimately have raw: "0 \<le> ?raw"
    unfolding dec_mul_def dec_div_def
    using decimal_rounding.rnd_nonneg [OF r] by simp
  have raws: "draft_raw d = ?raw" "d_raw d = Some ?raw" "d_floor d = \<lfloor>?raw\<rfloor>"
    "d_fraction d = dec_round env (?raw - of_int \<lfloor>?raw\<rfloor>)"
    unfolding dd by (simp_all add: aiu_draft_def Let_def it draft_raw_def dec_minus_def)
  have frac: "0 \<le> ?raw - of_int \<lfloor>?raw\<rfloor>" by simp
  have z: "dec_round env 0 = 0" by (rule decimal_rounding.rnd_zero [OF r])
  show ?thesis
  proof (cases "?raw - of_int \<lfloor>?raw\<rfloor> = 0")
    case True
    then have "\<lceil>?raw\<rceil> = \<lfloor>?raw\<rfloor>" by (metis ceiling_of_int eq_iff_diff_eq_0)
    with True raw raws z show ?thesis by simp
  next
    case False
    with frac have pos: "0 < ?raw - of_int \<lfloor>?raw\<rfloor>" by linarith
    then have "\<lceil>?raw\<rceil> = \<lfloor>?raw\<rfloor> + 1" by linarith
    moreover have "0 < d_fraction d" unfolding raws by (rule decimal_rounding.rnd_pos [OF r pos])
    ultimately show ?thesis using raw raws(1,2,3) by simp
  qed
qed

lemma raw_total_fold: "raw_total env ds = fold (\<lambda>r s. dec_round env (s + r)) (map draft_raw ds) 0"
  unfolding raw_total_def draft_raw_def dec_add_def by (simp add: fold_map comp_def)

text \<open>The official artifact of a version, with its target and its selection spelled out.\<close>

lemma rateApplicationAiu_official:
  assumes "aa_official (rateApplicationAiu env version usage)"
  obtains v where "version = Some v" "\<forall>d \<in> set (aiu_drafts env (aiu_rates version) usage). d_rate d \<noteq> None"
    "rateApplicationAiu env version usage =
      (let drafts = aiu_drafts env (aiu_rates version) usage;
           target = \<lfloor>toDecimalPlaces 0 (raw_total env drafts)\<rfloor>;
           selected = pick_additions (target - (\<Sum>d \<leftarrow> drafts. d_floor d)) (sort_drafts drafts)
       in \<lparr>aa_official = True, aa_versionId = Some (av_id v), aa_totalMicros = Some target,
           aa_lines = map (\<lambda>d. draft_line d (Some (charged_amount selected d))) drafts\<rparr>)"
  using assms by (cases version) (auto simp: rateApplicationAiu_def Let_def list_ex_iff split: if_splits)

lemma count_if: "(\<Sum>x \<leftarrow> xs. if P x then 1 else 0) = int (length (filter P xs))"
  by (induction xs) auto

text \<open>C21: AIU charges add up.  When an event is officially rated, the charges of its lines sum to the
  total, which is the sum of the raw amounts rounded half up, and every line is charged its raw
  amount rounded down or up to a whole micro, never more: a line whose raw amount is whole is
  charged exactly that.\<close>

theorem aiu_charges_add_up:
  assumes r: "decimal_rounding (dec_round env) bound"
    and off: "aa_official (rateApplicationAiu env (Some v) usage)"
    and nn: "rates_nonneg env v usage"
    and fits: "(\<Sum>d \<leftarrow> aiu_drafts env (aiu_rates (Some v)) usage. \<lceil>draft_raw d\<rceil>) < bound"
  shows "\<exists>total. aa_totalMicros (rateApplicationAiu env (Some v) usage) = Some total \<and>
    total = \<lfloor>toDecimalPlaces 0 (raw_total env (aiu_drafts env (aiu_rates (Some v)) usage))\<rfloor> \<and>
    (\<Sum>l \<leftarrow> aa_lines (rateApplicationAiu env (Some v) usage). the (al_charged l)) = total \<and>
    list_all2 (\<lambda>d l. al_charged l = Some \<lfloor>draft_raw d\<rfloor> \<or> al_charged l = Some \<lceil>draft_raw d\<rceil>)
      (aiu_drafts env (aiu_rates (Some v)) usage) (aa_lines (rateApplicationAiu env (Some v) usage))"
proof -
  let ?ds = "aiu_drafts env (aiu_rates (Some v)) usage"
  define target where "target = \<lfloor>toDecimalPlaces 0 (raw_total env ?ds)\<rfloor>"
  define n where "n = target - (\<Sum>d \<leftarrow> ?ds. d_floor d)"
  define sel where "sel = pick_additions n (sort_drafts ?ds)"
  have rated: "d_rate d \<noteq> None" if "d \<in> set ?ds" for d
    by (rule rateApplicationAiu_official [OF off]) (use that in auto)
  have art: "aa_totalMicros (rateApplicationAiu env (Some v) usage) = Some target"
    "aa_lines (rateApplicationAiu env (Some v) usage) = map (\<lambda>d. draft_line d (Some (charged_amount sel d))) ?ds"
    by (rule rateApplicationAiu_official [OF off], simp add: Let_def target_def sel_def n_def)+
  note facts = draft_facts [OF r nn _ rated]
  have pos: "0 \<le> draft_raw d" if "d \<in> set ?ds" for d using facts [OF that that] by simp
  have floors: "(\<Sum>d \<leftarrow> ?ds. d_floor d) = (\<Sum>d \<leftarrow> ?ds. \<lfloor>draft_raw d\<rfloor>)"
    using facts by (intro arg_cong [of _ _ sum_list] map_cong) auto
  have b: "of_int (\<Sum>d \<leftarrow> ?ds. \<lfloor>draft_raw d\<rfloor>) \<le> raw_total env ?ds \<and>
      raw_total env ?ds \<le> of_int (\<Sum>d \<leftarrow> ?ds. \<lceil>draft_raw d\<rceil>)"
    using decimal_rounding.rounded_sum_bounds [OF r, of "map draft_raw ?ds" 0 0 0] pos fits
    by (simp add: raw_total_fold comp_def)
  have "0 \<le> (\<Sum>d \<leftarrow> ?ds. \<lfloor>draft_raw d\<rfloor>)" using pos by (intro sum_list_nonneg) auto
  with b toDecimalPlaces_0_between have t: "(\<Sum>d \<leftarrow> ?ds. \<lfloor>draft_raw d\<rfloor>) \<le> target"
    "target \<le> (\<Sum>d \<leftarrow> ?ds. \<lceil>draft_raw d\<rceil>)"
    unfolding target_def by blast+
  have "(\<Sum>d \<leftarrow> ?ds. \<lceil>draft_raw d\<rceil>) = (\<Sum>d \<leftarrow> ?ds. \<lfloor>draft_raw d\<rfloor> + (if 0 < d_fraction d then 1 else 0))"
    using facts by (intro arg_cong [of _ _ sum_list] map_cong) (auto, force)
  also have "\<dots> = (\<Sum>d \<leftarrow> ?ds. \<lfloor>draft_raw d\<rfloor>) + int (length (filter (\<lambda>d. 0 < d_fraction d) ?ds))"
    by (simp add: sum_list_addf count_if)
  finally have n: "0 \<le> n" "n \<le> int (length (filter (\<lambda>d. 0 < d_fraction d) ?ds))"
    using t by (simp_all add: n_def floors)
  then have "n \<le> int (length ?ds)" using length_filter_le [of "\<lambda>d. 0 < d_fraction d" ?ds] by linarith
  from charges_sum [OF drafts_distinct n(1) this]
  have sum: "(\<Sum>d \<leftarrow> ?ds. charged_amount sel d) = target" by (simp add: sel_def n_def)
  have each: "charged_amount sel d = \<lfloor>draft_raw d\<rfloor> \<or> charged_amount sel d = \<lceil>draft_raw d\<rceil>" if d: "d \<in> set ?ds" for d
    using picked_has_fraction [OF drafts_distinct _ n(2) d] facts [OF d d] facts
    unfolding charged_amount_def sel_def by (cases "d_index d \<in> set sel") (auto simp: sel_def)
  show ?thesis
    using sum each unfolding art
    by (intro exI [of _ target]) (auto simp: target_def draft_line_def comp_def list_all2_map2 list.rel_refl_strong
        intro!: list_all2_same [THEN iffD2])
qed
subsection \<open>A concrete environment\<close>

definition digits_rat :: "string \<Rightarrow> rat" where
  "digits_rat s = of_nat (foldl (\<lambda>a c. 10 * a + (of_char c - 48)) 0 s)"

definition demo_rating_env :: rating_env where
  "demo_rating_env =
     \<lparr>dec_of = digits_rat, dec_round = decimal_round,
      localeCompare = (\<lambda>a b. if a = b then 0 else if a < b then - 1 else 1),
      js_String = (\<lambda>_. [])\<rparr>"

definition third_rate :: AiuRateItem where
  "third_rate = \<lparr>ai_id = ''i'', ai_usageType = ''output_token'', ai_unitKey = [], ai_unitSize = 3,
     ai_aiuMicrosPerUnit = 1\<rparr>"

definition third_version :: AiuVersion where
  "third_version = \<lparr>av_id = ''v'', av_items = [third_rate]\<rparr>"

definition one_output :: ApplicationUsageLine where
  "one_output = \<lparr>ul_usage_type = ''output_token'', ul_unit_key = None, ul_quantity = ''1''\<rparr>"

definition third20 :: rat where
  "third20 = 33333333333333333333 / 10 ^ 20"

lemma round_third:
  "decimal_round (1 / 3) = third20" "decimal_round third20 = third20" "\<lfloor>third20\<rfloor> = 0" "\<lceil>third20\<rceil> = 1"
  "decimal_round (2 * third20) = 2 * third20" "\<lfloor>2 * third20 + 1 / 2\<rfloor> = 1" "0 \<le> third20"
  by (simp_all add: third20_def round_sig_def lead_exp_def scale_up.simps half_up_def power_int_def Let_def power_one_over
      floor_eq_iff ceiling_eq_iff)

lemma demo_drafts:
  "aiu_drafts demo_rating_env (aiu_rates (Some third_version)) [one_output, one_output] =
     map (\<lambda>i. \<lparr>d_index = i, d_line = one_output, d_unitKey = [], d_rate = Some third_rate,
        d_raw = Some third20, d_floor = 0, d_fraction = third20\<rparr>) [0, 1]"
  by (simp add: aiu_drafts_def aiu_draft_def aiu_rates_def js_map_def demo_rating_env_def third_version_def
      third_rate_def one_output_def relevant_def usageTypeValues_def digits_rat_def unit_key_of_def rate_key_def
      dec_mul_def dec_div_def dec_minus_def enumerate_Suc_eq Let_def round_third)

lemma demo_rounding: "decimal_rounding (dec_round demo_rating_env) (10 ^ 20)"
  using decimal20.decimal_rounding_axioms by (simp add: demo_rating_env_def)

theorem aiu_charges_add_up_witness:
  "\<exists>total. aa_totalMicros (rateApplicationAiu demo_rating_env (Some third_version) [one_output, one_output]) = Some total \<and>
     (\<Sum>l \<leftarrow> aa_lines (rateApplicationAiu demo_rating_env (Some third_version) [one_output, one_output]). the (al_charged l)) = total \<and>
     total = 1"
proof -
  have off: "aa_official (rateApplicationAiu demo_rating_env (Some third_version) [one_output, one_output])"
    using demo_drafts by (simp add: rateApplicationAiu_def Let_def)
  have nn: "rates_nonneg demo_rating_env third_version [one_output, one_output]"
    by (simp add: rates_nonneg_def demo_rating_env_def digits_rat_def one_output_def third_version_def third_rate_def)
  have fits: "(\<Sum>d \<leftarrow> aiu_drafts demo_rating_env (aiu_rates (Some third_version)) [one_output, one_output]. \<lceil>draft_raw d\<rceil>) < 10 ^ 20"
    unfolding demo_drafts by (simp add: draft_raw_def round_third)
  have "raw_total demo_rating_env (aiu_drafts demo_rating_env (aiu_rates (Some third_version)) [one_output, one_output])
      = 2 * third20"
    unfolding demo_drafts by (simp add: raw_total_def dec_add_def demo_rating_env_def round_third)
  then have "\<lfloor>toDecimalPlaces 0 (raw_total demo_rating_env (aiu_drafts demo_rating_env (aiu_rates (Some third_version)) [one_output, one_output]))\<rfloor> = 1"
    by (simp add: toDecimalPlaces_def round_third)
  with aiu_charges_add_up [OF demo_rounding off nn fits] show ?thesis by auto
qed

lemma bex_enumerate: "(\<exists>il \<in> set (enumerate n xs). P (snd il)) \<longleftrightarrow> (\<exists>x \<in> set xs. P x)"
  by (metis (no_types, lifting) imageE image_eqI list.set_map map_snd_enumerate)

text \<open>An event stays unrated exactly when its model has no rate version or some line that counts
  (a known usage type other than the request counter, with a non-zero quantity) has no rate; then
  there is no total and no line is charged.\<close>

theorem aiu_unrated_iff:
  "(\<not> aa_official (rateApplicationAiu env version usage) \<longleftrightarrow>
     version = None \<or>
     (\<exists>line \<in> set usage. relevant env line \<and> ul_usage_type line \<noteq> ''request'' \<and>
        aiu_rates version (rate_key (ul_usage_type line) (unit_key_of line)) = None)) \<and>
   (aa_totalMicros (rateApplicationAiu env version usage) = None \<longleftrightarrow>
     \<not> aa_official (rateApplicationAiu env version usage)) \<and>
   (\<not> aa_official (rateApplicationAiu env version usage) \<longrightarrow>
     (\<forall>l \<in> set (aa_lines (rateApplicationAiu env version usage)). al_charged l = None))"
proof -
  have "list_ex (\<lambda>d. d_rate d = None) (aiu_drafts env rates usage) \<longleftrightarrow>
     (\<exists>line \<in> set usage. relevant env line \<and> ul_usage_type line \<noteq> ''request'' \<and>
        rates (rate_key (ul_usage_type line) (unit_key_of line)) = None)" for rates
  proof -
    have "list_ex (\<lambda>d. d_rate d = None) (aiu_drafts env rates usage) \<longleftrightarrow>
       (\<exists>il \<in> set (enumerate 0 usage). relevant env (snd il) \<and> ul_usage_type (snd il) \<noteq> ''request'' \<and>
          rates (rate_key (ul_usage_type (snd il)) (unit_key_of (snd il))) = None)"
    proof -
      have "d_rate (aiu_draft env rates il) = rates (rate_key (ul_usage_type (snd il)) (unit_key_of (snd il)))" for il
        by (simp add: aiu_draft_def Let_def split: prod.splits option.splits)
      then show ?thesis unfolding list_ex_iff aiu_drafts_def by force
    qed
    then show ?thesis
      using bex_enumerate [of 0 usage "\<lambda>line. relevant env line \<and> ul_usage_type line \<noteq> ''request'' \<and>
        rates (rate_key (ul_usage_type line) (unit_key_of line)) = None"] by simp
  qed
  then show ?thesis by (auto simp: rateApplicationAiu_def Let_def draft_line_def)
qed

theorem aiu_unrated_iff_witness:
  "\<not> aa_official (rateApplicationAiu demo_rating_env None [one_output]) \<and>
   list_all (\<lambda>l. al_charged l = None) (aa_lines (rateApplicationAiu demo_rating_env None [one_output]))"
  using aiu_unrated_iff [of demo_rating_env None "[one_output]"] unfolding list_all_iff by blast

subsection \<open>Which rule prices an event\<close>

lemma first_matching_cases:
  assumes "sorted_wrt (\<lambda>a b. cr_priority a \<le> cr_priority b) rules"
  shows "case first_matching env event rules of
     Inr None \<Rightarrow> \<forall>r \<in> set rules. \<exists>cs. parseConditions (cr_conditionsJson r) = Some cs \<and> \<not> rule_matches env event r cs
   | Inr (Some r) \<Rightarrow> r \<in> set rules \<and>
       (\<exists>cs. parseConditions (cr_conditionsJson r) = Some cs \<and> rule_matches env event r cs) \<and>
       (\<forall>x \<in> set rules. cr_priority x < cr_priority r \<longrightarrow>
          (\<exists>cs. parseConditions (cr_conditionsJson x) = Some cs \<and> \<not> rule_matches env event x cs))
   | Inl _ \<Rightarrow> \<exists>r \<in> set rules. parseConditions (cr_conditionsJson r) = None \<and>
       (\<forall>x \<in> set rules. cr_priority x < cr_priority r \<longrightarrow>
          (\<exists>cs. parseConditions (cr_conditionsJson x) = Some cs \<and> \<not> rule_matches env event x cs))"
  using assms
proof (induction rules)
  case (Cons r rules)
  then show ?case by (fastforce split: option.splits sum.splits)
qed simp

text \<open>The rule that prices an event is the first by priority: it matches, and every rule of smaller
  priority has valid conditions that do not match.  No rule is found only when none matches, and
  rating fails only on a rule with invalid conditions that no earlier rule pre-empts.\<close>

theorem cost_rule_first_by_priority:
  "case matchingRule env rules event of
     Inr None \<Rightarrow> \<forall>r \<in> set rules. \<exists>cs. parseConditions (cr_conditionsJson r) = Some cs \<and> \<not> rule_matches env event r cs
   | Inr (Some r) \<Rightarrow> r \<in> set rules \<and>
       (\<exists>cs. parseConditions (cr_conditionsJson r) = Some cs \<and> rule_matches env event r cs) \<and>
       (\<forall>x \<in> set rules. cr_priority x < cr_priority r \<longrightarrow>
          (\<exists>cs. parseConditions (cr_conditionsJson x) = Some cs \<and> \<not> rule_matches env event x cs))
   | Inl _ \<Rightarrow> \<exists>r \<in> set rules. parseConditions (cr_conditionsJson r) = None \<and>
       (\<forall>x \<in> set rules. cr_priority x < cr_priority r \<longrightarrow>
          (\<exists>cs. parseConditions (cr_conditionsJson x) = Some cs \<and> \<not> rule_matches env event x cs))"
proof -
  have "sorted_wrt (\<lambda>a b. cr_priority a \<le> cr_priority b) (sort_key cr_priority rules)"
    by (metis sorted_map sorted_sort_key)
  from first_matching_cases [OF this, of env event] show ?thesis unfolding matchingRule_def set_sort .
qed

definition flat_rule :: "int \<Rightarrow> string \<Rightarrow> CostRule" where
  "flat_rule priority name = \<lparr>cr_id = name, cr_name = name, cr_priority = priority, cr_matchMode = ''all'',
     cr_conditionsJson = JArr [], cr_fixedAmount = Some (123456789012345678901 / 10 ^ 18), cr_items = []\<rparr>"

theorem cost_rule_first_by_priority_witness:
  "\<forall>event. matchingRule demo_rating_env [flat_rule 7 ''b'', flat_rule 3 ''a''] event = Inr (Some (flat_rule 3 ''a'')) \<and>
   flat_rule 3 ''a'' \<in> set [flat_rule 7 ''b'', flat_rule 3 ''a'']"
proof
  fix event
  have "matchingRule demo_rating_env [flat_rule 7 ''b'', flat_rule 3 ''a''] event = Inr (Some (flat_rule 3 ''a''))"
    by (simp add: matchingRule_def flat_rule_def demo_rating_env_def rule_matches_def)
  with cost_rule_first_by_priority
      [where env = demo_rating_env and rules = "[flat_rule 7 ''b'', flat_rule 3 ''a'']" and event = event]
  show "matchingRule demo_rating_env [flat_rule 7 ''b'', flat_rule 3 ''a''] event = Inr (Some (flat_rule 3 ''a'')) \<and>
     flat_rule 3 ''a'' \<in> set [flat_rule 7 ''b'', flat_rule 3 ''a'']"
    by simp
qed

definition demo_usage :: NormalizedUsage where
  "demo_usage =
     \<lparr>n_event_id = ''e'', n_event_time = 0, n_schema_version = ''2.0'', n_request_id = ''r'', n_attempt_id = ''a'',
      n_operation_id = None, n_session_id = None, n_conversation_id = None, n_reservation_id = None,
      n_user_id = ''u'', n_display_user = None, n_application_version = None, n_sdk_version = None,
      n_connector_version = None, n_config_version = None, n_virtual_model = None, n_model_id = None,
      n_connection_id = None, n_connection_driver = None, n_request_model = ''m'', n_provider = None,
      n_status = ''success'', n_route_reason = None, n_latency_ms = None, n_event_properties = None,
      n_user_properties = None, n_source_cost = None, n_usage_lines = [one_output]\<rparr>"

definition precise_version :: CostVersion where
  "precise_version = \<lparr>cv_id = ''v'', cv_currency = ''USD'',
     cv_rules = [(flat_rule 1 ''a'')\<lparr>cr_items := [\<lparr>ci_id = ''i'', ci_usageType = ''output_token'',
       ci_unitKey = [], ci_amountPerUnit = 1\<rparr>]\<rparr>]\<rparr>"

lemma precise_sum:
  "decimal_round (124456789012345678901 / 1000000000000000000) = 1244567890123456789 / 10000000000000000"
  "decimal_round 1 = 1" "\<lfloor>246913578024691357803 / (2::rat)\<rfloor> = 123456789012345678901"
  "\<lfloor>2000000000000000001 / (2::rat)\<rfloor> = 1000000000000000000"
  "\<lfloor>248913578024691357801 / (2::rat)\<rfloor> = 124456789012345678900"
  by (simp_all add: round_sig_def lead_exp_def scale_down.simps half_up_def power_int_def Let_def floor_eq_iff power_one_over)

text \<open>With the twenty significant digits of the decimal library a cost total can differ from its
  lines.  A fixed amount of 123.456789012345678901 and a line of 1 are both recorded to 18 places,
  but their sum is rounded to twenty digits, so the total is 10^-18 short of the lines.\<close>

theorem cost_total_differs_from_lines:
  "\<exists>art total. rateApplicationCost demo_rating_env (Some precise_version) demo_usage = Inr art \<and>
     ca_total art = Some total \<and> map cl_amount (ca_lines art) = [123456789012345678901 / 10 ^ 18, 1] \<and>
     total = (\<Sum>l \<leftarrow> ca_lines art. cl_amount l) - 1 / 10 ^ 18"
  by (simp add: precise_sum rateApplicationCost_def demo_usage_def precise_version_def matchingRule_def flat_rule_def
      demo_rating_env_def rule_matches_def cost_rates_def js_map_def one_output_def relevant_def usageTypeValues_def
      digits_rat_def unit_key_of_def rate_key_def dec_mul_def dec_add_def fixed_lines_def toDecimalPlaces_def Let_def)

subsection \<open>Conditions on built-in fields\<close>

lemma latency_value: "builtInValue event ''latency_ms'' = map_option (\<lambda>n. JNum (of_int n)) (n_latency_ms event)"
  by (simp add: builtInValue_def)

lemma first_value:
  assumes "value_count_ok c" "mc_operator c \<noteq> Op_is_set" "mc_operator c \<noteq> Op_is_not_set" "list_all P (mc_values c)"
  obtains x where "nth_value (mc_values c) 0 = Some x" "P x"
proof -
  from assms(1-3) have "0 < length (mc_values c)" by (auto simp: value_count_ok_def Let_def split: if_splits)
  then show ?thesis using assms(4) that by (auto simp: nth_value_def list_all_iff)
qed

lemma text_comparison_independent:
  assumes "value_count_ok c" "list_all is_string (mc_values c)" "List.member textConditionOperators (mc_operator c)"
  shows "comparison env value c = comparison env' value c"
proof (cases "mc_operator c = Op_is_set \<or> mc_operator c = Op_is_not_set")
  case False
  then obtain x where "nth_value (mc_values c) 0 = Some x" "is_string x"
    using first_value [OF assms(1) _ _ assms(2)] by metis
  then have "js_string_of env (nth_value (mc_values c) 0) = js_string_of env' (nth_value (mc_values c) 0)"
    by (auto simp: js_string_of_def is_string_def split: json.splits)
  with assms(3) show ?thesis by (auto simp: comparison_def Let_def textConditionOperators_def split: option.splits json.splits)
qed (auto simp: comparison_def)

lemma numeric_comparison_independent:
  assumes "value_count_ok c" "list_all is_number (mc_values c)" "List.member numericConditionOperators (mc_operator c)"
    "case value of None \<Rightarrow> True | Some v \<Rightarrow> is_number v"
  shows "comparison env value c = comparison env' value c"
proof (cases "mc_operator c = Op_is_set \<or> mc_operator c = Op_is_not_set \<or> value = None")
  case False
  then obtain x where "nth_value (mc_values c) 0 = Some x" "is_number x"
    using first_value [OF assms(1) _ _ assms(2)] by metis
  moreover from False assms(4) obtain v where "value = Some v" "is_number v" by (auto split: option.splits)
  ultimately show ?thesis using assms(3)
    by (auto simp: comparison_def Let_def numericConditionOperators_def js_order_def is_number_def split: json.splits)
qed (auto simp: comparison_def isSet_def)

text \<open>Whether a stored condition on a built-in field holds of an event does not depend on the environment the
  worker runs in: the schema admits a comparison only where both sides have the type the comparison is made for, so
  neither the collation of \<open>localeCompare\<close> nor the conversion of a value to text by \<open>String\<close> is ever reached.\<close>

theorem builtin_conditions_environment_independent:
  assumes "modelCostConditionSchema j = Some c" "mc_subject c = BuiltInField f"
  shows "matchesCostCondition env event c = matchesCostCondition env' event c"
proof -
  note count = modelCostConditionSchema_count [OF assms(1)]
    and valid = conjunct2 [OF modelCostConditionSchema_field [OF assms]]
  show ?thesis
  proof (cases "f = ''latency_ms''")
    case True
    with valid have "list_all is_number (mc_values c)" "List.member numericConditionOperators (mc_operator c)"
      by (simp_all add: validateBuiltInCondition_def condition_operators_def)
    from numeric_comparison_independent [OF count this, of "builtInValue event f" env env'] True
    show ?thesis by (simp add: matchesCostCondition_def assms(2) latency_value is_number_def split: option.splits)
  next
    case False
    with valid have "list_all is_string (mc_values c)" "List.member textConditionOperators (mc_operator c)"
      by (auto simp: validateBuiltInCondition_def condition_operators_def selectionConditionOperators_def
          textConditionOperators_def split: if_splits)
    from text_comparison_independent [OF count this] show ?thesis by (simp add: matchesCostCondition_def assms(2))
  qed
qed

definition latency_condition :: json where
  "latency_condition = JObj [(''kind'', JStr ''builtin''), (''field'', JStr ''latency_ms''),
     (''operator'', JStr ''greater_than''), (''values'', JArr [JNum 100])]"

theorem builtin_conditions_environment_independent_witness:
  "\<exists>c. modelCostConditionSchema latency_condition = Some c \<and>
     matchesCostCondition demo_rating_env (demo_usage\<lparr>n_latency_ms := Some 250\<rparr>) c \<and>
     (\<forall>env. matchesCostCondition env (demo_usage\<lparr>n_latency_ms := Some 250\<rparr>) c)"
proof -
  let ?c = "\<lparr>mc_subject = BuiltInField ''latency_ms'', mc_operator = Op_greater_than, mc_values = [JNum 100]\<rparr>"
  have parsed: "modelCostConditionSchema latency_condition = Some ?c"
    by code_simp
  have holds: "matchesCostCondition demo_rating_env (demo_usage\<lparr>n_latency_ms := Some 250\<rparr>) ?c"
    by (simp add: matchesCostCondition_def latency_value comparison_def isSet_def js_order_def nth_value_def Let_def)
  have "matchesCostCondition env (demo_usage\<lparr>n_latency_ms := Some 250\<rparr>) ?c" for env
  proof -
    have "matchesCostCondition env (demo_usage\<lparr>n_latency_ms := Some 250\<rparr>) ?c =
        matchesCostCondition demo_rating_env (demo_usage\<lparr>n_latency_ms := Some 250\<rparr>) ?c"
      by (rule builtin_conditions_environment_independent [OF parsed, of "''latency_ms''"]) simp
    with holds show ?thesis by simp
  qed
  with parsed holds show ?thesis by blast
qed

end
