(* ===== verification/RuntimeSnapshot.thy ===== *)
theory RuntimeSnapshot
  imports RouteMatch
begin

text \<open>
  The runtime snapshot the control plane publishes and the SDK consumes: its schema
  (\<open>packages/contracts/src/runtime-snapshot.ts\<close>, \<open>model-runtime.ts\<close>), its canonical text and
  fingerprint, and the two verifiers (\<open>runtime-snapshot-integrity.ts\<close> of the API and
  \<open>snapshot-validation.ts\<close> of the Node SDK).

  A snapshot is a record of the schema's shape; a schema is the predicate that accepts it.
  Instants are milliseconds; their ISO text, SHA-256, \<open>JSON.stringify\<close> of a primitive and the
  parts of a URL are fields of \<open>snapshot_env\<close>.
\<close>

record snapshot_env = route_env +
  sha256hex :: "string \<Rightarrow> string"
  stringify :: "json \<Rightarrow> string"
  toISOString :: "int \<Rightarrow> string"
  url_parts :: "string \<Rightarrow> (string \<times> string \<times> string \<times> string) option"

subsection \<open>Shape\<close>

record RuntimeRouteTarget =
  rt_model_id :: string
  rt_connection_id :: string
  rt_request_model :: string
  rt_provider :: string
  rt_task_type :: string
  rt_capabilities :: "string list"
  rt_route_tag :: string
  rt_fallback_order :: nat
  rt_weight :: rat

datatype selection_mode = Ordered | Weighted

record RuntimeRoute =
  ro_route_tag :: string
  ro_selection_mode :: selection_mode
  ro_targets :: "RuntimeRouteTarget list"

record RuntimeRoutingRule =
  rr_id :: string
  rr_priority :: int
  rr_match :: RuntimeMatch
  rr_route :: RuntimeRoute
  rr_expires_at :: "int option"

record RuntimeRoutingPlan =
  pl_virtual_model_id :: string
  pl_configuration_version :: int
  pl_configuration_etag :: string
  pl_published_at :: int
  pl_timezone :: string
  pl_default :: RuntimeRoute
  pl_rules :: "RuntimeRoutingRule list"

record RuntimeCallConnection =
  cn_id :: string
  cn_name :: string
  cn_driver :: string
  cn_base_url :: "string option"
  cn_credential_ref :: "string option"
  cn_timeout_ms :: rat
  cn_max_retries :: rat
  cn_api_version :: "string option option"

datatype aiu_mode = AiuDisabled | AiuObserve | AiuHardLimit

record RuntimeSnapshot =
  sn_application_id :: string
  sn_version :: string
  sn_etag :: string
  sn_signature :: string
  sn_expires_at :: int
  sn_connections :: "(string \<times> RuntimeCallConnection) list"
  sn_routing :: "(string \<times> RuntimeRoutingPlan) list"
  sn_aiu_enabled :: bool
  sn_aiu_mode :: aiu_mode
  sn_application_enabled :: bool
  sn_blocked_user_ids :: "string list"
  sn_allowed_keys :: "string list"

subsection \<open>Patterns\<close>

definition id_char :: "char \<Rightarrow> bool" where
  "id_char c \<longleftrightarrow> lower_alnum c \<or> CHR ''A'' \<le> c \<and> c \<le> CHR ''Z''"

definition opaque_id :: "string \<Rightarrow> bool" where
  "opaque_id s = (case s of
     [] \<Rightarrow> False
   | c # cs \<Rightarrow> id_char c \<and> length cs \<le> 255 \<and> list_all (\<lambda>x. id_char x \<or> x \<in> set ''._:@-'') cs)"

definition sha256_fingerprint :: "string \<Rightarrow> bool" where
  "sha256_fingerprint s \<longleftrightarrow>
     take 7 s = ''sha256:'' \<and> length s = 71 \<and>
     list_all (\<lambda>c. is_digit c \<or> CHR ''a'' \<le> c \<and> c \<le> CHR ''f'') (drop 7 s)"

definition dimension_key :: "string \<Rightarrow> bool" where
  "dimension_key s = (case s of
     [] \<Rightarrow> False
   | c # cs \<Rightarrow> lower_letter c \<and> length cs \<le> 63 \<and> list_all (\<lambda>x. lower_alnum x \<or> x = CHR ''_'') cs)"

text \<open>Runs of lower-case letters and digits with single separators between them; the flag says
  whether the character before was part of a run.\<close>

fun separated_runs :: "bool \<Rightarrow> string \<Rightarrow> bool" where
  "separated_runs run [] = run"
| "separated_runs run (c # cs) =
     (if lower_alnum c then separated_runs True cs
      else c \<in> set ''._-'' \<and> run \<and> separated_runs False cs)"

definition virtualModelName :: "string \<Rightarrow> bool" where
  "virtualModelName s \<longleftrightarrow>
     utf16_length s \<le> 120 \<and> (case s of [] \<Rightarrow> False | c # _ \<Rightarrow> lower_letter c) \<and> separated_runs False s"

definition tag_part :: "string \<Rightarrow> bool" where
  "tag_part s = (case s of
     [] \<Rightarrow> False
   | c # cs \<Rightarrow> lower_alnum c \<and> list_all (\<lambda>x. lower_alnum x \<or> x \<in> set ''._-'') cs)"

definition routeTag :: "string \<Rightarrow> bool" where
  "routeTag s \<longleftrightarrow> utf16_length s \<le> 200 \<and>
     (case split_on (CHR '':'') s of
        p # parts \<Rightarrow> p = ''cp'' \<and> 2 \<le> length parts \<and> list_all tag_part parts
      | [] \<Rightarrow> False)"

definition modelTaskTypeValues :: "string list" where
  "modelTaskTypeValues = [''chat'', ''embedding'', ''image'', ''audio'']"

definition modelCapabilityValues :: "string list" where
  "modelCapabilityValues =
     [''streaming'', ''tools'', ''structured_output'', ''image_input'', ''audio_input'',
      ''audio_output'', ''cache_metering'', ''reasoning'']"

definition capabilities_ok :: "string list \<Rightarrow> bool" where
  "capabilities_ok items \<longleftrightarrow>
     list_all (\<lambda>c. c \<in> set modelCapabilityValues) items \<and>
     length items \<le> length modelCapabilityValues \<and> distinct items"

subsection \<open>Schema\<close>

definition runtimeRouteTargetSchema :: "RuntimeRouteTarget \<Rightarrow> bool" where
  "runtimeRouteTargetSchema t \<longleftrightarrow>
     opaque_id (rt_model_id t) \<and> opaque_id (rt_connection_id t) \<and>
     bounded_unicode 1 256 (rt_request_model t) \<and> bounded_unicode 1 120 (rt_provider t) \<and>
     rt_task_type t \<in> set modelTaskTypeValues \<and> capabilities_ok (rt_capabilities t) \<and>
     routeTag (rt_route_tag t) \<and> rt_fallback_order t \<le> 63 \<and> 0 < rt_weight t \<and> rt_weight t \<le> 1000"

definition runtimeRouteSchema :: "RuntimeRoute \<Rightarrow> bool" where
  "runtimeRouteSchema r \<longleftrightarrow>
     routeTag (ro_route_tag r) \<and> 1 \<le> length (ro_targets r) \<and> length (ro_targets r) \<le> 64 \<and>
     list_all runtimeRouteTargetSchema (ro_targets r) \<and>
     distinct (map rt_model_id (ro_targets r)) \<and>
     list_all (\<lambda>t. rt_route_tag t = ro_route_tag r) (ro_targets r) \<and>
     map rt_fallback_order (ro_targets r) = [0 ..< length (ro_targets r)]"

definition runtimeRoutingRuleSchema :: "RuntimeRoutingRule \<Rightarrow> bool" where
  "runtimeRoutingRuleSchema r \<longleftrightarrow>
     bounded_unicode 1 120 (rr_id r) \<and> \<bar>rr_priority r\<bar> \<le> 2 ^ 53 - 1 \<and> match_parses (rr_match r) \<and>
     runtimeRouteSchema (rr_route r) \<and>
     (rr_match r = OverrideActive \<longrightarrow> rr_expires_at r \<noteq> None)"

definition runtimeRoutingPlanSchema :: "RuntimeRoutingPlan \<Rightarrow> bool" where
  "runtimeRoutingPlanSchema p \<longleftrightarrow>
     opaque_id (pl_virtual_model_id p) \<and> 0 < pl_configuration_version p \<and>
     sha256_fingerprint (pl_configuration_etag p) \<and> bounded_unicode 1 128 (pl_timezone p) \<and>
     runtimeRouteSchema (pl_default p) \<and> length (pl_rules p) \<le> 512 \<and>
     list_all runtimeRoutingRuleSchema (pl_rules p) \<and> distinct (map rr_id (pl_rules p))"

definition httpBaseUrl :: "'e snapshot_env_scheme \<Rightarrow> string \<Rightarrow> bool" where
  "httpBaseUrl env s \<longleftrightarrow> 1 \<le> utf16_length s \<and> utf16_length s \<le> 2048 \<and>
     (case url_parts env s of
        None \<Rightarrow> False
      | Some (protocol, username, password, hash) \<Rightarrow>
          (protocol = ''http:'' \<or> protocol = ''https:'') \<and> username = [] \<and> password = [] \<and> hash = [])"

definition credentialReference :: "string \<Rightarrow> bool" where
  "credentialReference s \<longleftrightarrow> bounded_unicode 1 256 s \<and>
     list_all (\<lambda>w. \<not> js_includes s w) js_whitespace \<and>
     list_all (\<lambda>c. 32 \<le> byte c \<and> byte c \<noteq> 127) s"

definition int_between :: "int \<Rightarrow> int \<Rightarrow> rat \<Rightarrow> bool" where
  "int_between lo hi x \<longleftrightarrow> of_int \<lfloor>x\<rfloor> = x \<and> lo \<le> \<lfloor>x\<rfloor> \<and> \<lfloor>x\<rfloor> \<le> hi"

definition runtimeCallConnectionSchema :: "'e snapshot_env_scheme \<Rightarrow> RuntimeCallConnection \<Rightarrow> bool" where
  "runtimeCallConnectionSchema env c \<longleftrightarrow>
     opaque_id (cn_id c) \<and> bounded_unicode 1 120 (cn_name c) \<and>
     (case cn_credential_ref c of None \<Rightarrow> True | Some r \<Rightarrow> credentialReference r) \<and>
     int_between 1 600000 (cn_timeout_ms c) \<and> int_between 0 10 (cn_max_retries c) \<and>
     (if cn_driver c = ''litellm'' \<or> cn_driver c = ''openai_compatible'' then
        cn_api_version c = None \<and> (case cn_base_url c of None \<Rightarrow> False | Some u \<Rightarrow> httpBaseUrl env u)
      else if cn_driver c = ''anthropic'' then
        (case cn_api_version c of
           None \<Rightarrow> False | Some None \<Rightarrow> True | Some (Some v) \<Rightarrow> bounded_unicode 1 64 v) \<and>
        (case cn_base_url c of None \<Rightarrow> True | Some u \<Rightarrow> httpBaseUrl env u)
      else False)"

definition plan_targets :: "RuntimeRoutingPlan \<Rightarrow> RuntimeRouteTarget list" where
  "plan_targets p = ro_targets (pl_default p) @ List.maps (\<lambda>r. ro_targets (rr_route r)) (pl_rules p)"

definition runtimeSnapshotSchema :: "'e snapshot_env_scheme \<Rightarrow> RuntimeSnapshot \<Rightarrow> bool" where
  "runtimeSnapshotSchema env s \<longleftrightarrow>
     is_uuid env (sn_application_id s) \<and> opaque_id (sn_version s) \<and>
     sha256_fingerprint (sn_etag s) \<and> sha256_fingerprint (sn_signature s) \<and>
     list_all (\<lambda>(k, c). opaque_id k \<and> runtimeCallConnectionSchema env c \<and> cn_id c = k) (sn_connections s) \<and>
     list_all (\<lambda>(k, p). virtualModelName k \<and> runtimeRoutingPlanSchema p) (sn_routing s) \<and>
     list_all (\<lambda>(_, p). list_all (\<lambda>t. rt_connection_id t \<in> fst ` set (sn_connections s)) (plan_targets p))
       (sn_routing s) \<and>
     (case sn_routing s of
        [] \<Rightarrow> True
      | (_, p) # ps \<Rightarrow>
          list_all (\<lambda>(_, q). pl_configuration_version q = pl_configuration_version p) ps) \<and>
     (sn_aiu_enabled s \<longleftrightarrow> sn_aiu_mode s \<noteq> AiuDisabled) \<and>
     list_all (bounded_unicode 1 256) (sn_blocked_user_ids s) \<and> length (sn_blocked_user_ids s) \<le> 50000 \<and>
     distinct (sn_blocked_user_ids s) \<and>
     list_all dimension_key (sn_allowed_keys s) \<and> length (sn_allowed_keys s) \<le> 256 \<and>
     distinct (sn_allowed_keys s)"

subsection \<open>Canonical text and fingerprint\<close>

fun join_with :: "string \<Rightarrow> string list \<Rightarrow> string" where
  "join_with sep [] = []"
| "join_with sep [x] = x"
| "join_with sep (x # xs) = x @ sep @ join_with sep xs"

fun canonical :: "'e snapshot_env_scheme \<Rightarrow> json \<Rightarrow> string" where
  "canonical env (JArr xs) = ''['' @ join_with '','' (map (canonical env) xs) @ '']''"
| "canonical env (JObj ms) =
     ''{'' @ join_with '',''
       (map (\<lambda>(k, text). stringify env (JStr k) @ '':'' @ text)
         (sort_key fst (map (\<lambda>(k, v). (k, canonical env v)) ms))) @ ''}''"
| "canonical env v = stringify env v"

definition runtimeFingerprint :: "'e snapshot_env_scheme \<Rightarrow> json \<Rightarrow> string" where
  "runtimeFingerprint env value = ''sha256:'' @ sha256hex env (canonical env value)"

definition bindingSignature :: "'e snapshot_env_scheme \<Rightarrow> string \<Rightarrow> string \<Rightarrow> string" where
  "bindingSignature env applicationId etag =
     runtimeFingerprint env (JObj [(''application_id'', JStr applicationId), (''etag'', JStr etag)])"

subsection \<open>Snapshots as JSON\<close>

definition jint :: "int \<Rightarrow> json" where
  "jint n = JNum (of_int n)"

definition jstrs :: "string list \<Rightarrow> json" where
  "jstrs xs = JArr (map JStr xs)"

definition jopt :: "string option \<Rightarrow> json" where
  "jopt v = (case v of None \<Rightarrow> JNull | Some s \<Rightarrow> JStr s)"

definition operator_name :: "property_operator \<Rightarrow> string" where
  "operator_name op = (case op of
     P_equals \<Rightarrow> ''equals'' | P_not_equals \<Rightarrow> ''not_equals'' | P_contains \<Rightarrow> ''contains''
   | P_starts_with \<Rightarrow> ''starts_with'' | P_is_set \<Rightarrow> ''is_set'' | P_is_not_set \<Rightarrow> ''is_not_set'')"

definition match_json :: "RuntimeMatch \<Rightarrow> json" where
  "match_json m = (case m of
     OverrideActive \<Rightarrow> JObj [(''override_active'', JBool True)]
   | MSchedule s \<Rightarrow> JObj [(''schedule'', JObj
       [(''days'', JArr (map (\<lambda>d. JNum (of_nat d)) (sch_days s))), (''from'', JStr (sch_from s)), (''to'', JStr (sch_to s))])]
   | MUser ids \<Rightarrow> JObj [(''user'', JObj [(''ids'', jstrs ids)])]
   | MUserProperty c \<Rightarrow> JObj [(''user_property'', JObj
       ([(''key'', JStr (pc_key c)), (''operator'', JStr (operator_name (pc_operator c)))] @
        (case pc_value c of None \<Rightarrow> [] | Some v \<Rightarrow> [(''value'', v)])))]
   | MCallSource v \<Rightarrow> JObj [(''call_source'', JObj [(''value'', JStr v)])])"

definition target_json :: "RuntimeRouteTarget \<Rightarrow> json" where
  "target_json t = JObj
     [(''model_id'', JStr (rt_model_id t)), (''connection_id'', JStr (rt_connection_id t)),
      (''request_model'', JStr (rt_request_model t)), (''provider'', JStr (rt_provider t)),
      (''task_type'', JStr (rt_task_type t)), (''capabilities'', jstrs (rt_capabilities t)),
      (''route_tag'', JStr (rt_route_tag t)), (''fallback_order'', JNum (of_nat (rt_fallback_order t))),
      (''weight'', JNum (rt_weight t))]"

definition route_json :: "RuntimeRoute \<Rightarrow> json" where
  "route_json r = JObj
     [(''route_tag'', JStr (ro_route_tag r)),
      (''selection_mode'', JStr (case ro_selection_mode r of Ordered \<Rightarrow> ''ordered'' | Weighted \<Rightarrow> ''weighted'')),
      (''targets'', JArr (map target_json (ro_targets r)))]"

definition rule_json :: "'e snapshot_env_scheme \<Rightarrow> RuntimeRoutingRule \<Rightarrow> json" where
  "rule_json env r = JObj
     ([(''id'', JStr (rr_id r)), (''priority'', jint (rr_priority r)), (''match'', match_json (rr_match r)),
       (''route'', route_json (rr_route r))] @
      (case rr_expires_at r of None \<Rightarrow> [] | Some t \<Rightarrow> [(''expires_at'', JStr (toISOString env t))]))"

definition plan_json :: "'e snapshot_env_scheme \<Rightarrow> RuntimeRoutingPlan \<Rightarrow> json" where
  "plan_json env p = JObj
     [(''virtual_model_id'', JStr (pl_virtual_model_id p)),
      (''configuration_version'', jint (pl_configuration_version p)),
      (''configuration_etag'', JStr (pl_configuration_etag p)),
      (''published_at'', JStr (toISOString env (pl_published_at p))), (''timezone'', JStr (pl_timezone p)),
      (''default'', route_json (pl_default p)), (''rules'', JArr (map (rule_json env) (pl_rules p)))]"

definition connection_json :: "RuntimeCallConnection \<Rightarrow> json" where
  "connection_json c = JObj
     ([(''id'', JStr (cn_id c)), (''name'', JStr (cn_name c)), (''driver'', JStr (cn_driver c)),
       (''base_url'', jopt (cn_base_url c)), (''credential_ref'', jopt (cn_credential_ref c)),
       (''timeout_ms'', JNum (cn_timeout_ms c)), (''max_retries'', JNum (cn_max_retries c))] @
      (case cn_api_version c of None \<Rightarrow> [] | Some v \<Rightarrow> [(''api_version'', jopt v)]))"

definition mode_name :: "aiu_mode \<Rightarrow> string" where
  "mode_name m = (case m of AiuDisabled \<Rightarrow> ''disabled'' | AiuObserve \<Rightarrow> ''observe'' | AiuHardLimit \<Rightarrow> ''hard_limit'')"

text \<open>The snapshot without \<open>etag\<close> and \<open>signature\<close>.\<close>

definition unsigned_json :: "'e snapshot_env_scheme \<Rightarrow> RuntimeSnapshot \<Rightarrow> json" where
  "unsigned_json env s = JObj
     [(''schema_version'', JStr ''2.0''), (''application_id'', JStr (sn_application_id s)),
      (''version'', JStr (sn_version s)), (''expires_at'', JStr (toISOString env (sn_expires_at s))),
      (''connections'', JObj (map (\<lambda>(k, c). (k, connection_json c)) (sn_connections s))),
      (''routing'', JObj (map (\<lambda>(k, p). (k, plan_json env p)) (sn_routing s))),
      (''aiu'', JObj [(''enabled'', JBool (sn_aiu_enabled s)), (''mode'', JStr (mode_name (sn_aiu_mode s))),
        (''unrated_model_policy'', JStr ''allow_unrated'')]),
      (''access'', JObj [(''application_enabled'', JBool (sn_application_enabled s)),
        (''blocked_user_ids'', jstrs (sn_blocked_user_ids s))]),
      (''dimensions'', JObj [(''analytics_allowed_keys'', jstrs (sn_allowed_keys s))])]"

subsection \<open>Signing and verifying\<close>

definition signRuntimeSnapshot :: "'e snapshot_env_scheme \<Rightarrow> RuntimeSnapshot \<Rightarrow> RuntimeSnapshot res" where
  "signRuntimeSnapshot env value =
     (let etag = runtimeFingerprint env (unsigned_json env value);
          signed = value\<lparr>sn_etag := etag, sn_signature := bindingSignature env (sn_application_id value) etag\<rparr>
      in if runtimeSnapshotSchema env signed then Inr signed else Inl (TypeErr ''ZodError''))"

definition verifyRuntimeSnapshot :: "'e snapshot_env_scheme \<Rightarrow> RuntimeSnapshot \<Rightarrow> RuntimeSnapshot res" where
  "verifyRuntimeSnapshot env value =
     (if \<not> runtimeSnapshotSchema env value then Inl (TypeErr ''ZodError'')
      else if runtimeFingerprint env (unsigned_json env value) \<noteq> sn_etag value
      then Inl (TypeErr ''Runtime Snapshot ETag does not match its immutable content'')
      else if bindingSignature env (sn_application_id value) (sn_etag value) \<noteq> sn_signature value
      then Inl (TypeErr ''Runtime Snapshot signature does not match its application binding'')
      else Inr value)"

datatype sdk_error =
    SDK_RUNTIME_SCHEMA
  | SDK_RUNTIME_CHECKSUM_MISMATCH
  | SDK_RUNTIME_SIGNATURE_MISMATCH
  | SDK_RUNTIME_EXPIRED
  | SDK_RUNTIME_TIMEZONE_INVALID
  | SDK_RUNTIME_ROUTE_NOT_FOUND string
  | SDK_RUNTIME_ROUTE_CONFLICT string
  | SDK_RUNTIME_ROUTE_EMPTY

definition parseVerifiedRuntimeSnapshot ::
  "'e snapshot_env_scheme \<Rightarrow> RuntimeSnapshot \<Rightarrow> int \<Rightarrow> bool \<Rightarrow> sdk_error + RuntimeSnapshot" where
  "parseVerifiedRuntimeSnapshot env input now allowExpired =
     (if \<not> runtimeSnapshotSchema env input then Inl SDK_RUNTIME_SCHEMA
      else if sn_etag input \<noteq> ''sha256:'' @ sha256hex env (canonical env (unsigned_json env input))
      then Inl SDK_RUNTIME_CHECKSUM_MISMATCH
      else if sn_signature input \<noteq>
        ''sha256:'' @ sha256hex env (canonical env
          (JObj [(''application_id'', JStr (sn_application_id input)), (''etag'', JStr (sn_etag input))]))
      then Inl SDK_RUNTIME_SIGNATURE_MISMATCH
      else if \<not> allowExpired \<and> sn_expires_at input \<le> now then Inl SDK_RUNTIME_EXPIRED
      else Inr input)"

end
