(* ===== verification/SdkRouting.thy ===== *)
theory SdkRouting
  imports RuntimeSnapshot Rounding "HOL-Library.Word"
begin

text \<open>
  Routing in the Node SDK (\<open>sdks/node/src/runtime/routing.ts\<close>): which rule of a published plan
  applies to a call, and in which order its targets are tried.  JavaScript numbers are rationals;
  \<open>fl\<close> rounds the result of an operation to a double.  The hash that spreads users over weighted
  targets works on 32-bit words.
\<close>

unbundle bit_operations_syntax

abbreviation fl :: "rat \<Rightarrow> rat" where
  "fl \<equiv> round_sig half_even 2 53"

record RuntimeRouteContext =
  rc_userId :: "string option"
  rc_userProperties :: "(string \<times> json) list option"
  rc_callSource :: "string option"
  rc_selectionKey :: "string option"

record RuntimeRouteSelection =
  se_virtualModel :: string
  se_virtualModelId :: string
  se_configurationVersion :: int
  se_configurationEtag :: string
  se_routeTag :: string
  se_ruleId :: "string option"
  se_primary :: RuntimeRouteTarget
  se_fallbacks :: "RuntimeRouteTarget list"

definition localized :: "'e route_env_scheme \<Rightarrow> int \<Rightarrow> string \<Rightarrow> sdk_error + (nat \<times> nat)" where
  "localized env now timezone = (case local_parts env timezone now of
     None \<Rightarrow> Inl SDK_RUNTIME_TIMEZONE_INVALID
   | Some (wd, h, m) \<Rightarrow>
       (case weekdayNumber wd of
          None \<Rightarrow> Inl SDK_RUNTIME_TIMEZONE_INVALID
        | Some weekday \<Rightarrow> Inr (weekday, h * 60 + m)))"

text \<open>\<open>Number(value.slice(0, 2)) * 60 + Number(value.slice(3, 5))\<close>\<close>

definition sdk_clockMinute :: "string \<Rightarrow> nat option" where
  "sdk_clockMinute value =
     (case (js_Number (take 2 value), js_Number (take 2 (drop 3 value))) of
        (Some h, Some m) \<Rightarrow> Some (h * 60 + m) | _ \<Rightarrow> None)"

definition previousWeekday :: "nat \<Rightarrow> nat" where
  "previousWeekday value = (if value = 1 then 7 else value - 1)"

definition property_applies :: "'e route_env_scheme \<Rightarrow> PropertyCondition \<Rightarrow> json option \<Rightarrow> bool" where
  "property_applies env condition value =
     (case pc_operator condition of
        P_is_set \<Rightarrow> value \<noteq> None \<and> value \<noteq> Some JNull
      | P_is_not_set \<Rightarrow> value = None \<or> value = Some JNull
      | P_equals \<Rightarrow> js_strict_eq value (pc_value condition)
      | P_not_equals \<Rightarrow> \<not> js_strict_eq value (pc_value condition)
      | P_starts_with \<Rightarrow>
          (case value of
             Some (JStr s) \<Rightarrow> js_startsWith s (value_text env (pc_value condition)) | _ \<Rightarrow> False)
      | P_contains \<Rightarrow>
          (case value of
             Some (JStr s) \<Rightarrow> js_includes s (value_text env (pc_value condition))
           | Some (JArr xs) \<Rightarrow> js_includes_value xs (pc_value condition)
           | _ \<Rightarrow> False))"

definition ruleMatches ::
  "'e route_env_scheme \<Rightarrow> RuntimeRoutingRule \<Rightarrow> nat \<times> nat \<Rightarrow> int \<Rightarrow> RuntimeRouteContext \<Rightarrow> bool" where
  "ruleMatches env rule local now context =
     (case rr_match rule of
        OverrideActive \<Rightarrow> (case rr_expires_at rule of None \<Rightarrow> False | Some t \<Rightarrow> now < t)
      | MUser ids \<Rightarrow> (case rc_userId context of None \<Rightarrow> [] | Some u \<Rightarrow> u) \<in> set ids
      | MUserProperty condition \<Rightarrow>
          property_applies env condition
            (case rc_userProperties context of None \<Rightarrow> None | Some ps \<Rightarrow> map_of ps (pc_key condition))
      | MCallSource v \<Rightarrow> rc_callSource context = Some v
      | MSchedule schedule \<Rightarrow>
          (let (weekday, minute) = local in
           case (sdk_clockMinute (sch_from schedule), sdk_clockMinute (sch_to schedule)) of
             (Some start, Some end) \<Rightarrow>
               if start < end then weekday \<in> set (sch_days schedule) \<and> start \<le> minute \<and> minute < end
               else if end < start then
                 weekday \<in> set (sch_days schedule) \<and> start \<le> minute \<or>
                 previousWeekday weekday \<in> set (sch_days schedule) \<and> minute < end
               else False
           | _ \<Rightarrow> False))"

subsection \<open>Weighted order\<close>

definition fnv_step :: "32 word \<Rightarrow> char \<Rightarrow> 32 word" where
  "fnv_step hash b = (hash XOR of_nat (byte b)) * 16777619"

definition deterministicFraction :: "string \<Rightarrow> rat" where
  "deterministicFraction value = of_nat (unat (foldl fnv_step 2166136261 value)) / 4294967296"

text \<open>The loop over the targets, with the running sum and the target chosen so far.\<close>

fun pick_weighted :: "('t \<Rightarrow> rat) \<Rightarrow> rat \<Rightarrow> rat \<Rightarrow> 't \<Rightarrow> 't list \<Rightarrow> 't" where
  "pick_weighted weight point cumulative selected [] = selected"
| "pick_weighted weight point cumulative selected (t # ts) =
     (let cumulative' = fl (cumulative + weight t)
      in if point < cumulative' then t else pick_weighted weight point cumulative' selected ts)"

definition weight_total :: "('t \<Rightarrow> rat) \<Rightarrow> 't list \<Rightarrow> rat" where
  "weight_total weight ts = foldl (\<lambda>sum t. fl (sum + weight t)) 0 ts"

text \<open>The body both evaluators share; an empty list has no first target and stays empty.\<close>

definition weighted_order :: "('t \<Rightarrow> rat) \<Rightarrow> ('t \<Rightarrow> string) \<Rightarrow> string \<Rightarrow> 't list \<Rightarrow> 't list" where
  "weighted_order weight key seed ts = (case ts of
     [] \<Rightarrow> []
   | first # _ \<Rightarrow>
       (let point = fl (deterministicFraction seed * weight_total weight ts);
            selected = pick_weighted weight point 0 first ts
        in selected # filter (\<lambda>t. key t \<noteq> key selected) ts))"

definition orderedTargets :: "RuntimeRoute \<Rightarrow> string option \<Rightarrow> RuntimeRouteTarget list" where
  "orderedTargets route selectionKey =
     (case selectionKey of
        Some k \<Rightarrow>
          if ro_selection_mode route \<noteq> Weighted then ro_targets route
          else weighted_order rt_weight rt_model_id (ro_route_tag route @ '':'' @ k) (ro_targets route)
      | None \<Rightarrow> ro_targets route)"

subsection \<open>Selection\<close>

definition selection ::
  "string \<Rightarrow> RuntimeRoutingPlan \<Rightarrow> RuntimeRoute \<Rightarrow> string option \<Rightarrow> RuntimeRouteContext \<Rightarrow>
   sdk_error + RuntimeRouteSelection" where
  "selection virtualModel plan route ruleId context =
     (case orderedTargets route
             (case rc_selectionKey context of None \<Rightarrow> rc_userId context | Some k \<Rightarrow> Some k) of
        [] \<Rightarrow> Inl SDK_RUNTIME_ROUTE_EMPTY
      | primary # fallbacks \<Rightarrow> Inr
          \<lparr>se_virtualModel = virtualModel, se_virtualModelId = pl_virtual_model_id plan,
           se_configurationVersion = pl_configuration_version plan,
           se_configurationEtag = pl_configuration_etag plan, se_routeTag = ro_route_tag route,
           se_ruleId = ruleId, se_primary = primary, se_fallbacks = fallbacks\<rparr>)"

definition resolveRuntimeRoute ::
  "'e route_env_scheme \<Rightarrow> RuntimeSnapshot \<Rightarrow> string \<Rightarrow> int \<Rightarrow> RuntimeRouteContext \<Rightarrow>
   sdk_error + RuntimeRouteSelection" where
  "resolveRuntimeRoute env snapshot virtualModel now context =
     (case map_of (sn_routing snapshot) virtualModel of
        None \<Rightarrow> Inl (SDK_RUNTIME_ROUTE_NOT_FOUND virtualModel)
      | Some plan \<Rightarrow>
          bind_res (localized env now (pl_timezone plan))
            (\<lambda>local.
               let matched = filter (\<lambda>rule. ruleMatches env rule local now context) (pl_rules plan) in
               if matched = [] then selection virtualModel plan (pl_default plan) None context
               else
                 (let highest = Max (set (map rr_priority matched));
                      winners = filter (\<lambda>rule. rr_priority rule = highest) matched
                  in case winners of
                       [winner] \<Rightarrow> selection virtualModel plan (rr_route winner) (Some (rr_id winner)) context
                     | _ \<Rightarrow> Inl (SDK_RUNTIME_ROUTE_CONFLICT virtualModel))))"

end
