(* ===== verification/VirtualModels.thy ===== *)
theory VirtualModels
  imports SdkRouting "HOL-Library.Product_Lexorder"
begin

text \<open>
  Virtual models in the control plane: their rows, the operations of
  \<open>apps/api/src/virtual-models/virtual-model.service.ts\<close> on targets and rules, and the simulation
  of a route in the console.  Every operation works on the one row of the virtual model it names,
  with its targets and rules; request bodies have passed their schemas.
\<close>

subsection \<open>Rows\<close>

record ConnectionRow =
  co_id :: string
  co_name :: string
  co_driver :: string
  co_baseUrl :: "string option"
  co_credentialRef :: "string option"
  co_publicConfigJson :: json
  co_enabled :: bool

record ModelRow =
  mo_id :: string
  mo_name :: string
  mo_requestModel :: string
  mo_provider :: string
  mo_taskType :: string
  mo_capabilitiesJson :: json
  mo_enabled :: bool
  mo_connection :: ConnectionRow

record TargetRow =
  ta_id :: string
  ta_model :: ModelRow
  ta_priority :: int
  ta_weight :: rat
  ta_enabled :: bool
  ta_createdAt :: int

record RuleRow =
  ru_id :: string
  ru_name :: string
  ru_priority :: int
  ru_matchJson :: json
  ru_targetModel :: ModelRow
  ru_expiresAt :: "int option"
  ru_enabled :: bool
  ru_createdAt :: int

record VirtualModel =
  vm_id :: string
  vm_name :: string
  vm_displayName :: string
  vm_description :: "string option"
  vm_taskType :: string
  vm_enabled :: bool
  vm_defaultModelId :: "string option"
  vm_timezone :: string
  vm_targets :: "TargetRow list"
  vm_rules :: "RuleRow list"

definition ta_modelId :: "TargetRow \<Rightarrow> string" where
  "ta_modelId t = mo_id (ta_model t)"

definition ru_targetModelId :: "RuleRow \<Rightarrow> string" where
  "ru_targetModelId r = mo_id (ru_targetModel r)"

text \<open>\<open>weight.toNumber()\<close>\<close>

definition ta_number :: "TargetRow \<Rightarrow> rat" where
  "ta_number t = fl (ta_weight t)"

text \<open>The orders of \<open>virtualModelRoutes\<close>.\<close>

definition order_targets :: "TargetRow list \<Rightarrow> TargetRow list" where
  "order_targets = sort_key (\<lambda>t. (ta_priority t, ta_createdAt t))"

definition order_rules :: "RuleRow list \<Rightarrow> RuleRow list" where
  "order_rules = sort_key (\<lambda>r. (- ru_priority r, ru_createdAt r))"

definition virtualModelRoutes :: "VirtualModel \<Rightarrow> VirtualModel" where
  "virtualModelRoutes vm = vm\<lparr>vm_targets := order_targets (vm_targets vm), vm_rules := order_rules (vm_rules vm)\<rparr>"

subsection \<open>Targets\<close>

definition assertCandidate :: "VirtualModel \<Rightarrow> string \<Rightarrow> unit res" where
  "assertCandidate row modelId =
     (if \<not> list_ex (\<lambda>t. ta_modelId t = modelId \<and> ta_enabled t) (vm_targets row)
      then Inl (BadRequest ''A route condition must select an enabled candidate'') else Inr ())"

text \<open>\<open>models\<close> is the table of the application's models.\<close>

definition assertModel :: "ModelRow list \<Rightarrow> string \<Rightarrow> string \<Rightarrow> ModelRow res" where
  "assertModel models modelId taskType =
     (case find_unique (\<lambda>m. mo_id m = modelId \<and> mo_enabled m \<and> co_enabled (mo_connection m)) models of
        None \<Rightarrow> Inl (BadRequest ''Route model is not available'')
      | Some row \<Rightarrow>
          if js_lower (mo_taskType row) \<noteq> taskType
          then Inl (BadRequest ''Route model uses a different task type'') else Inr row)"

text \<open>The column is \<open>numeric(9, 6)\<close> with a CHECK that the weight is positive.\<close>

definition weight_column :: "rat \<Rightarrow> rat res" where
  "weight_column w =
     (let stored = of_int (half_up (w * 10 ^ 6)) / 10 ^ 6 in
      if 1000 \<le> stored then Inl (CheckViolation ''numeric field overflow'')
      else if stored \<le> 0 then Inl (CheckViolation ''virtual_model_targets_weight_check'')
      else Inr stored)"

definition addTarget ::
  "ModelRow list \<Rightarrow> string \<Rightarrow> int \<Rightarrow> string \<Rightarrow> int option \<Rightarrow> rat option \<Rightarrow> VirtualModel \<Rightarrow> VirtualModel res" where
  "addTarget models newId now model_id priority weight vm =
     bind_res (assertModel models model_id (js_lower (vm_taskType vm)))
       (\<lambda>model.
          if mo_id model \<in> ta_modelId ` set (vm_targets vm)
          then Inl (UniqueViolation ''virtual_model_targets_model_key'')
          else bind_res (weight_column (case weight of None \<Rightarrow> 1 | Some w \<Rightarrow> w))
            (\<lambda>stored.
               let target =
                     \<lparr>ta_id = newId, ta_model = model,
                      ta_priority = (case priority of None \<Rightarrow> int (length (vm_targets vm)) | Some p \<Rightarrow> p),
                      ta_weight = stored, ta_enabled = True, ta_createdAt = now\<rparr>;
                   vm' = vm\<lparr>vm_targets := vm_targets vm @ [target]\<rparr>
               in Inr (if vm_defaultModelId vm = None then vm'\<lparr>vm_defaultModelId := Some (mo_id model)\<rparr> else vm')))"

text \<open>\<open>existing\<close> is a set: the size that must match counts distinct ids, and the schema has made
  sure the given ids are distinct.\<close>

definition reorderTargets :: "string list \<Rightarrow> VirtualModel \<Rightarrow> VirtualModel res" where
  "reorderTargets ordered vm =
     (let existing = set (map ta_id (vm_targets vm)) in
      if length ordered \<noteq> card existing \<or> list_ex (\<lambda>i. i \<notin> existing) ordered
      then Inl (BadRequest ''Fallback order must contain every candidate exactly once'')
      else Inr (vm\<lparr>vm_targets :=
        fold (\<lambda>(p, i). update_rows (\<lambda>t. ta_id t = i) (\<lambda>t. t\<lparr>ta_priority := int p\<rparr>))
          (enumerate 0 ordered) (vm_targets vm)\<rparr>))"

definition updateTarget :: "string \<Rightarrow> rat \<Rightarrow> VirtualModel \<Rightarrow> VirtualModel res" where
  "updateTarget targetId weight vm =
     (case find_unique (\<lambda>t. ta_id t = targetId) (vm_targets vm) of
        None \<Rightarrow> Inl (NotFound ''Route target not found'')
      | Some target \<Rightarrow>
          bind_res (weight_column weight)
            (\<lambda>stored. Inr (vm\<lparr>vm_targets :=
               update_rows (\<lambda>t. ta_id t = ta_id target) (\<lambda>t. t\<lparr>ta_weight := stored\<rparr>) (vm_targets vm)\<rparr>)))"

definition removeTarget :: "string \<Rightarrow> VirtualModel \<Rightarrow> VirtualModel res" where
  "removeTarget targetId vm =
     (case List.find (\<lambda>t. ta_id t = targetId) (order_targets (vm_targets vm)) of
        None \<Rightarrow> Inl (NotFound ''Route target not found'')
      | Some target \<Rightarrow>
          (let nextDefault = List.find (\<lambda>t. ta_id t \<noteq> ta_id target) (order_targets (vm_targets vm));
               vm' = vm\<lparr>vm_targets := filter (\<lambda>t. ta_id t \<noteq> ta_id target) (vm_targets vm)\<rparr>
           in Inr (if vm_defaultModelId vm = Some (ta_modelId target) then
                     vm'\<lparr>vm_defaultModelId := map_option ta_modelId nextDefault,
                         vm_enabled := (if nextDefault = None then False else vm_enabled vm)\<rparr>
                   else vm')))"

subsection \<open>Virtual models and rules\<close>

record vm_changes =
  ch_display_name :: "string option"
  ch_description :: "string option option"
  ch_task_type :: "string option"
  ch_default_model_id :: "string option option"
  ch_enabled :: "bool option"

text \<open>\<open>stableName\<close>, after trimming; the runtime name pattern wants a letter first.\<close>

definition stableName :: "string \<Rightarrow> bool" where
  "stableName s \<longleftrightarrow> 1 \<le> utf16_length s \<and> utf16_length s \<le> 120 \<and> separated_runs False s"

definition create_vm ::
  "ModelRow list \<Rightarrow> VirtualModel list \<Rightarrow> string \<Rightarrow> string \<Rightarrow> string \<Rightarrow> string option \<Rightarrow> string \<Rightarrow> string option \<Rightarrow>
   VirtualModel res" where
  "create_vm models existing newId timezone name display_name task_type default_model_id =
     (if \<not> stableName (js_trim name) then Inl (BadRequest ''Invalid virtual model'')
      else bind_res
        (case default_model_id of None \<Rightarrow> Inr () | Some m \<Rightarrow> bind_res (assertModel models m task_type) (\<lambda>_. Inr ()))
        (\<lambda>_. if js_trim name \<in> vm_name ` set existing
             then Inl (UniqueViolation ''virtual_models_application_name_key'')
             else Inr
               \<lparr>vm_id = newId, vm_name = js_trim name,
                vm_displayName = (case display_name of None \<Rightarrow> js_trim name | Some d \<Rightarrow> d),
                vm_description = None, vm_taskType = js_upper task_type, vm_enabled = False,
                vm_defaultModelId = default_model_id, vm_timezone = timezone,
                vm_targets = [], vm_rules = []\<rparr>))"

definition update_vm :: "ModelRow list \<Rightarrow> vm_changes \<Rightarrow> VirtualModel \<Rightarrow> VirtualModel res" where
  "update_vm models value current =
     (let nextTaskType = (case ch_task_type value of None \<Rightarrow> js_lower (vm_taskType current) | Some t \<Rightarrow> t) in
      if ch_enabled value = Some True \<and> vm_targets current = []
      then Inl (BadRequest ''A virtual model needs at least one route before enabling'')
      else if ch_task_type value \<noteq> None \<and>
         list_ex (\<lambda>t. js_lower (mo_taskType (ta_model t)) \<noteq> nextTaskType) (vm_targets current)
      then Inl (BadRequest ''Remove models with a different task type before changing it'')
      else bind_res
        (case ch_default_model_id value of
           Some (Some m) \<Rightarrow> bind_res (assertModel models m nextTaskType) (\<lambda>_. Inr ()) | _ \<Rightarrow> Inr ())
        (\<lambda>_. Inr (current
          \<lparr>vm_displayName := (case ch_display_name value of None \<Rightarrow> vm_displayName current | Some d \<Rightarrow> d),
           vm_description := (case ch_description value of None \<Rightarrow> vm_description current | Some d \<Rightarrow> d),
           vm_taskType := (case ch_task_type value of None \<Rightarrow> vm_taskType current | Some t \<Rightarrow> js_upper t),
           vm_defaultModelId := (case ch_default_model_id value of None \<Rightarrow> vm_defaultModelId current | Some d \<Rightarrow> d),
           vm_enabled := (case ch_enabled value of None \<Rightarrow> vm_enabled current | Some b \<Rightarrow> b)\<rparr>)))"

definition addRule ::
  "string \<Rightarrow> int \<Rightarrow> string \<Rightarrow> string \<Rightarrow> ModelRow \<Rightarrow> int option \<Rightarrow> json \<Rightarrow> int option \<Rightarrow>
   VirtualModel \<Rightarrow> VirtualModel res" where
  "addRule newId now name target_model_id targetModel priority match expires_at vm =
     bind_res (assertCandidate vm target_model_id)
       (\<lambda>_. Inr (vm\<lparr>vm_rules := vm_rules vm @
          [\<lparr>ru_id = newId, ru_name = name,
            ru_priority = (case priority of None \<Rightarrow> 1000 - int (length (vm_rules vm)) | Some p \<Rightarrow> p),
            ru_matchJson = match, ru_targetModel = targetModel, ru_expiresAt = expires_at,
            ru_enabled = True, ru_createdAt = now\<rparr>]\<rparr>))"

record rule_changes =
  rh_name :: "string option"
  rh_target :: "ModelRow option"
  rh_priority :: "int option"
  rh_match :: "json option"
  rh_expires_at :: "int option option"
  rh_enabled :: "bool option"

definition updateRule ::
  "'e route_env_scheme \<Rightarrow> string \<Rightarrow> rule_changes \<Rightarrow> VirtualModel \<Rightarrow> VirtualModel res" where
  "updateRule env ruleId value vm =
     (case List.find (\<lambda>r. ru_id r = ruleId) (order_rules (vm_rules vm)) of
        None \<Rightarrow> Inl (NotFound ''Route condition not found'')
      | Some current \<Rightarrow>
          bind_res (case rh_target value of None \<Rightarrow> Inr () | Some m \<Rightarrow> assertCandidate vm (mo_id m))
            (\<lambda>_. case virtualModelRouteMatchSchema env
                   (case rh_match value of None \<Rightarrow> ru_matchJson current | Some m \<Rightarrow> m) of
                 None \<Rightarrow> Inl (TypeErr ''ZodError'')
               | Some nextMatch \<Rightarrow>
                   (let nextExpiry = (case rh_expires_at value of None \<Rightarrow> ru_expiresAt current | Some t \<Rightarrow> t) in
                    if nextMatch = Direct OverrideActive \<and> nextExpiry = None
                    then Inl (BadRequest ''A temporary route requires an expiry'')
                    else Inr (vm\<lparr>vm_rules := update_rows (\<lambda>r. ru_id r = ru_id current)
                      (\<lambda>r. r\<lparr>ru_name := (case rh_name value of None \<Rightarrow> ru_name r | Some n \<Rightarrow> n),
                             ru_targetModel := (case rh_target value of None \<Rightarrow> ru_targetModel r | Some m \<Rightarrow> m),
                             ru_priority := (case rh_priority value of None \<Rightarrow> ru_priority r | Some p \<Rightarrow> p),
                             ru_matchJson := (case rh_match value of None \<Rightarrow> ru_matchJson r | Some m \<Rightarrow> m),
                             ru_expiresAt := (case rh_expires_at value of None \<Rightarrow> ru_expiresAt r | Some t \<Rightarrow> t),
                             ru_enabled := (case rh_enabled value of None \<Rightarrow> ru_enabled r | Some b \<Rightarrow> b)\<rparr>)
                      (vm_rules vm)\<rparr>))))"

definition removeRule :: "string \<Rightarrow> VirtualModel \<Rightarrow> VirtualModel res" where
  "removeRule ruleId vm =
     (case List.find (\<lambda>r. ru_id r = ruleId) (order_rules (vm_rules vm)) of
        None \<Rightarrow> Inl (NotFound ''Route condition not found'')
      | Some current \<Rightarrow> Inr (vm\<lparr>vm_rules := filter (\<lambda>r. ru_id r \<noteq> ru_id current) (vm_rules vm)\<rparr>))"

subsection \<open>Simulation\<close>

definition orderSimulationTargets ::
  "TargetRow list \<Rightarrow> string \<Rightarrow> string option \<Rightarrow> selection_mode \<times> TargetRow list" where
  "orderSimulationTargets targets tag selectionKey =
     (case selectionKey of
        Some k \<Rightarrow>
          if list_ex (\<lambda>t. ta_number t \<noteq> 1) targets
          then (Weighted, weighted_order ta_number ta_modelId (tag @ '':'' @ k) targets)
          else (Ordered, targets)
      | None \<Rightarrow> (Ordered, targets))"

record simulation =
  si_matched_rule :: "string option"
  si_selection_mode :: selection_mode
  si_model :: string
  si_fallbacks :: "string list"

text \<open>A rule whose condition cannot be resolved or evaluated does not apply.\<close>

definition simulated_rule ::
  "'e route_env_scheme \<Rightarrow> RouteAudience \<Rightarrow> int \<Rightarrow> string \<Rightarrow> RouteRequestContext \<Rightarrow> RuleRow \<Rightarrow> bool" where
  "simulated_rule env audience instant timezone context rule \<longleftrightarrow>
     ru_enabled rule \<and> (case ru_expiresAt rule of None \<Rightarrow> True | Some t \<Rightarrow> instant < t) \<and>
     (case resolveRuntimeMatch env (ru_matchJson rule) audience of
        Inl _ \<Rightarrow> False
      | Inr m \<Rightarrow> runtimeMatchApplies env m instant timezone context = Some True)"

definition simulate ::
  "'e route_env_scheme \<Rightarrow> RouteAudience \<Rightarrow> int \<Rightarrow> RouteRequestContext \<Rightarrow> VirtualModel \<Rightarrow> simulation res" where
  "simulate env audience instant context vm =
     (let targets = order_targets (vm_targets vm);
          activeRules = filter (simulated_rule env audience instant (vm_timezone vm) context) (order_rules (vm_rules vm));
          selectedRule = (case activeRules of [] \<Rightarrow> None | r # _ \<Rightarrow> Some r);
          modelId = (case selectedRule of None \<Rightarrow> vm_defaultModelId vm | Some r \<Rightarrow> Some (ru_targetModelId r));
          fallbackOrder = filter (\<lambda>t. Some (ta_modelId t) = modelId) targets @
                          filter (\<lambda>t. Some (ta_modelId t) \<noteq> modelId) targets
      in if fallbackOrder = [] then Inl (BadRequest ''The virtual model has no candidates'')
         else
           (let (mode, chosen) = (case selectedRule of
                  None \<Rightarrow> orderSimulationTargets fallbackOrder (''cp:virtual:'' @ vm_name vm @ '':default'') (qc_userId context)
                | Some _ \<Rightarrow> (Ordered, fallbackOrder))
            in case chosen of
                 [] \<Rightarrow> Inl (TypeErr ''no target'')
               | selected # fallbacks \<Rightarrow> Inr
                   \<lparr>si_matched_rule = map_option ru_name selectedRule, si_selection_mode = mode,
                    si_model = ta_modelId selected,
                    si_fallbacks = map (\<lambda>t. mo_requestModel (ta_model t)) fallbacks\<rparr>))"

end
