(* ===== verification/Publication.thy ===== *)
theory Publication
  imports VirtualModels
begin

text \<open>
  Building a publication (\<open>apps/api/src/runtime-configuration/runtime-publication-builder.ts\<close>): the
  enabled virtual models of an application with their enabled targets and rules become routing
  plans, every problem is collected as an issue, and without issues the snapshot is signed.
\<close>

subsection \<open>Issues\<close>

datatype issue_code =
    NO_ENABLED_VIRTUAL_MODEL
  | CONNECTION_CONFIGURATION_INVALID
  | VIRTUAL_MODEL_HAS_NO_ROUTE
  | VIRTUAL_MODEL_DEFAULT_UNAVAILABLE
  | VIRTUAL_MODEL_TASK_MISMATCH
  | MODEL_CAPABILITIES_INVALID
  | ROUTE_PRIORITY_DUPLICATE
  | ROUTE_CONDITION_INVALID
  | USER_GROUP_SNAPSHOT_MISSING
  | ROUTE_TARGET_UNAVAILABLE

record PublicationIssue =
  is_code :: issue_code
  is_object_id :: string
  is_object_name :: string

datatype publish_error = PublicationFailure "PublicationIssue list" | OtherFailure svc_error

subsection \<open>Targets and connections\<close>

definition modelCapabilitiesSchema :: "json \<Rightarrow> string list option" where
  "modelCapabilitiesSchema j = (case j of
     JArr xs \<Rightarrow>
       (case all_some (map (\<lambda>x. json_string (Some x)) xs) of
          Some items \<Rightarrow> if capabilities_ok items then Some items else None | None \<Rightarrow> None)
   | _ \<Rightarrow> None)"

definition routeTarget :: "TargetRow \<Rightarrow> string \<Rightarrow> nat \<Rightarrow> RuntimeRouteTarget res" where
  "routeTarget target tag order =
     (let model = ta_model target in
      case modelCapabilitiesSchema (mo_capabilitiesJson model) of
        None \<Rightarrow> Inl (BadRequest (''Model '' @ mo_requestModel model @ '' has invalid capabilities''))
      | Some capabilities \<Rightarrow> Inr
          \<lparr>rt_model_id = mo_id model, rt_connection_id = co_id (mo_connection model),
           rt_request_model = mo_requestModel model, rt_provider = mo_provider model,
           rt_task_type = js_lower (mo_taskType model), rt_capabilities = capabilities,
           rt_route_tag = tag, rt_fallback_order = order, rt_weight = ta_number target\<rparr>)"

text \<open>\<open>targets.map((target, order) => routeTarget(target, tag, order))\<close>\<close>

fun route_targets :: "string \<Rightarrow> nat \<Rightarrow> TargetRow list \<Rightarrow> RuntimeRouteTarget list res" where
  "route_targets tag order [] = Inr []"
| "route_targets tag order (t # ts) =
     bind_res (routeTarget t tag order)
       (\<lambda>x. bind_res (route_targets tag (Suc order) ts) (\<lambda>xs. Inr (x # xs)))"

definition activeTargets :: "TargetRow list \<Rightarrow> TargetRow list" where
  "activeTargets targets = filter (\<lambda>t. mo_enabled (ta_model t) \<and> co_enabled (mo_connection (ta_model t))) targets"

definition config_member :: "json \<Rightarrow> string \<Rightarrow> json option" where
  "config_member config key = (case config of JObj ms \<Rightarrow> map_of ms key | _ \<Rightarrow> None)"

definition number_or :: "json option \<Rightarrow> rat \<Rightarrow> rat" where
  "number_or v d = (case v of Some (JNum x) \<Rightarrow> x | _ \<Rightarrow> d)"

definition runtimeConnection :: "'e snapshot_env_scheme \<Rightarrow> ConnectionRow \<Rightarrow> RuntimeCallConnection option" where
  "runtimeConnection env row =
     (let config = config_member (co_publicConfigJson row);
          driver = js_lower (co_driver row);
          c = \<lparr>cn_id = co_id row, cn_name = co_name row, cn_driver = driver,
               cn_base_url = map_option js_trim (co_baseUrl row), cn_credential_ref = co_credentialRef row,
               cn_timeout_ms = number_or (config ''timeout_ms'') 60000,
               cn_max_retries = number_or (config ''max_retries'') 2,
               cn_api_version = (if driver = ''anthropic'' then Some (json_string (config ''api_version'')) else None)\<rparr>
      in if runtimeCallConnectionSchema env c then Some c else None)"

subsection \<open>Rules\<close>

definition virtual_model_issue :: "VirtualModel \<Rightarrow> issue_code \<Rightarrow> PublicationIssue" where
  "virtual_model_issue vm code = \<lparr>is_code = code, is_object_id = vm_id vm, is_object_name = vm_displayName vm\<rparr>"

text \<open>The issues \<open>pushVirtualModelIssues\<close> appends.\<close>

definition pushVirtualModelIssues :: "VirtualModel \<Rightarrow> TargetRow list \<Rightarrow> PublicationIssue list" where
  "pushVirtualModelIssues vm targets =
     map (virtual_model_issue vm)
       ((if targets = [] then [VIRTUAL_MODEL_HAS_NO_ROUTE] else []) @
        (if \<not> list_ex (\<lambda>t. Some (ta_modelId t) = vm_defaultModelId vm) targets
         then [VIRTUAL_MODEL_DEFAULT_UNAVAILABLE] else []) @
        (if list_ex (\<lambda>t. mo_taskType (ta_model t) \<noteq> vm_taskType vm) targets then [VIRTUAL_MODEL_TASK_MISMATCH] else []) @
        (if list_ex (\<lambda>t. modelCapabilitiesSchema (mo_capabilitiesJson (ta_model t)) = None) targets
         then [MODEL_CAPABILITIES_INVALID] else []))"

text \<open>One round of the loop: an issue, or the rule to publish.\<close>

definition build_rule ::
  "'e route_env_scheme \<Rightarrow> VirtualModel \<Rightarrow> TargetRow list \<Rightarrow> RouteAudience \<Rightarrow> nat \<Rightarrow> RuleRow \<Rightarrow>
   (issue_code + RuntimeRoutingRule) res" where
  "build_rule env vm targets audience index rule =
     (case virtualModelRouteMatchSchema env (ru_matchJson rule) of
        None \<Rightarrow> Inr (Inl ROUTE_CONDITION_INVALID)
      | Some match \<Rightarrow>
          (case resolve_match match audience of
             Inl _ \<Rightarrow> Inr (Inl USER_GROUP_SNAPSHOT_MISSING)
           | Inr runtimeMatch \<Rightarrow>
               (case List.find (\<lambda>t. ta_modelId t = ru_targetModelId rule) targets of
                  None \<Rightarrow> Inr (Inl ROUTE_TARGET_UNAVAILABLE)
                | Some selected \<Rightarrow>
                    if \<not> mo_enabled (ru_targetModel rule) then Inr (Inl ROUTE_TARGET_UNAVAILABLE)
                    else
                      (let tag = ''cp:virtual:'' @ vm_name vm @ '':rule'' @ decimal_text (index + 1) in
                       bind_res (route_targets tag 0 (selected # filter (\<lambda>t. ta_id t \<noteq> ta_id selected) targets))
                         (\<lambda>ts. Inr (Inr
                            \<lparr>rr_id = ru_id rule, rr_priority = ru_priority rule, rr_match = runtimeMatch,
                             rr_route = \<lparr>ro_route_tag = tag, ro_selection_mode = Ordered, ro_targets = ts\<rparr>,
                             rr_expires_at = ru_expiresAt rule\<rparr>))))))"

fun buildRules ::
  "'e route_env_scheme \<Rightarrow> VirtualModel \<Rightarrow> TargetRow list \<Rightarrow> RouteAudience \<Rightarrow> int list \<Rightarrow> nat \<Rightarrow> RuleRow list \<Rightarrow>
   (PublicationIssue list \<times> RuntimeRoutingRule list) res" where
  "buildRules env vm targets audience priorities index [] = Inr ([], [])"
| "buildRules env vm targets audience priorities index (rule # rules) =
     (if ru_priority rule \<in> set priorities then
        bind_res (buildRules env vm targets audience priorities (Suc index) rules)
          (\<lambda>(issues, built). Inr (virtual_model_issue vm ROUTE_PRIORITY_DUPLICATE # issues, built))
      else
        bind_res (build_rule env vm targets audience index rule)
          (\<lambda>outcome. bind_res (buildRules env vm targets audience (ru_priority rule # priorities) (Suc index) rules)
             (\<lambda>(issues, built). Inr (case outcome of
                 Inl code \<Rightarrow> (virtual_model_issue vm code # issues, built)
               | Inr r \<Rightarrow> (issues, r # built)))))"

subsection \<open>The publication\<close>

record publication_input =
  in_applicationId :: string
  in_slug :: string
  in_enabled :: bool
  in_settings :: "(bool \<times> bool) option"
  in_properties :: "string list"
  in_connections :: "ConnectionRow list"
  in_virtualModels :: "VirtualModel list"
  in_audience :: RouteAudience
  in_version :: nat
  in_now :: int

text \<open>\<open>runtimeVirtualModelInclude\<close>: enabled targets and rules, in order.\<close>

definition runtimeVirtualModelInclude :: "VirtualModel \<Rightarrow> VirtualModel" where
  "runtimeVirtualModelInclude vm =
     vm\<lparr>vm_targets := order_targets (filter ta_enabled (vm_targets vm)),
        vm_rules := order_rules (filter ru_enabled (vm_rules vm))\<rparr>"

definition plan_etag_json ::
  "'e snapshot_env_scheme \<Rightarrow> string \<Rightarrow> nat \<Rightarrow> string \<Rightarrow> RuntimeRoute \<Rightarrow> RuntimeRoutingRule list \<Rightarrow> json" where
  "plan_etag_json env app version vmId route rules = JObj
     [(''application_id'', JStr app), (''version'', JNum (of_nat version)), (''virtual_model_id'', JStr vmId),
      (''default'', route_json route), (''rules'', JArr (map (rule_json env) rules))]"

text \<open>One round of the loop over the virtual models: its issues and, unless the first checks
  failed, its plan.\<close>

definition build_plan ::
  "'e snapshot_env_scheme \<Rightarrow> publication_input \<Rightarrow> VirtualModel \<Rightarrow>
   (PublicationIssue list \<times> (string \<times> RuntimeRoutingPlan) list) res" where
  "build_plan env inp vm =
     (let targets = activeTargets (vm_targets vm);
          issues = pushVirtualModelIssues vm targets
      in if issues \<noteq> [] then Inr (issues, [])
         else
           (case List.find (\<lambda>(_, t). Some (ta_modelId t) = vm_defaultModelId vm) (enumerate 0 targets) of
              None \<Rightarrow> Inl (TypeErr ''no default'')
            | Some (defaultIndex, first) \<Rightarrow>
                (let ordered = first # map snd (filter (\<lambda>(i, _). i \<noteq> defaultIndex) (enumerate 0 targets));
                     tag = ''cp:virtual:'' @ vm_name vm @ '':default''
                 in bind_res (route_targets tag 0 ordered)
                   (\<lambda>ts.
                      let route = \<lparr>ro_route_tag = tag,
                            ro_selection_mode = (if list_ex (\<lambda>t. ta_number t \<noteq> 1) ordered then Weighted else Ordered),
                            ro_targets = ts\<rparr>
                      in bind_res (buildRules env vm targets (in_audience inp) [] 0 (vm_rules vm))
                        (\<lambda>(ruleIssues, rules). Inr (ruleIssues,
                           [(vm_name vm,
                             \<lparr>pl_virtual_model_id = vm_id vm, pl_configuration_version = int (in_version inp),
                              pl_configuration_etag = runtimeFingerprint env
                                (plan_etag_json env (in_applicationId inp) (in_version inp) (vm_id vm) route rules),
                              pl_published_at = in_now inp, pl_timezone = vm_timezone vm,
                              pl_default = route, pl_rules = rules\<rparr>)]))))))"

fun build_plans ::
  "'e snapshot_env_scheme \<Rightarrow> publication_input \<Rightarrow> VirtualModel list \<Rightarrow>
   (PublicationIssue list \<times> (string \<times> RuntimeRoutingPlan) list) res" where
  "build_plans env inp [] = Inr ([], [])"
| "build_plans env inp (vm # vms) =
     bind_res (build_plan env inp vm)
       (\<lambda>(i1, p1). bind_res (build_plans env inp vms) (\<lambda>(i2, p2). Inr (i1 @ i2, p1 @ p2)))"

definition build_connections ::
  "'e snapshot_env_scheme \<Rightarrow> ConnectionRow list \<Rightarrow> PublicationIssue list \<times> (string \<times> RuntimeCallConnection) list" where
  "build_connections env rows =
     (List.maps (\<lambda>row. case runtimeConnection env row of
          None \<Rightarrow> [\<lparr>is_code = CONNECTION_CONFIGURATION_INVALID, is_object_id = co_id row, is_object_name = co_name row\<rparr>]
        | Some _ \<Rightarrow> []) rows,
      List.maps (\<lambda>row. case runtimeConnection env row of None \<Rightarrow> [] | Some c \<Rightarrow> [(co_id row, c)]) rows)"

definition ten_years_ms :: int where
  "ten_years_ms = 10 * 365 * 86400000"

definition buildRuntimePublication ::
  "'e snapshot_env_scheme \<Rightarrow> publication_input \<Rightarrow> publish_error + RuntimeSnapshot" where
  "buildRuntimePublication env inp =
     (let noModel = (if in_virtualModels inp = []
            then [\<lparr>is_code = NO_ENABLED_VIRTUAL_MODEL, is_object_id = in_applicationId inp, is_object_name = in_slug inp\<rparr>]
            else []);
          (connectionIssues, connections) = build_connections env (in_connections inp)
      in case build_plans env inp (in_virtualModels inp) of
           Inl e \<Rightarrow> Inl (OtherFailure e)
         | Inr (planIssues, routing) \<Rightarrow>
             (let issues = noModel @ connectionIssues @ planIssues in
              if issues \<noteq> [] then Inl (PublicationFailure issues)
              else
                (case signRuntimeSnapshot env
                   \<lparr>sn_application_id = in_applicationId inp,
                    sn_version = ''runtime-'' @ in_slug inp @ ''-'' @ decimal_text (in_version inp),
                    sn_etag = [], sn_signature = [], sn_expires_at = in_now inp + ten_years_ms,
                    sn_connections = connections, sn_routing = routing,
                    sn_aiu_enabled = (case in_settings inp of None \<Rightarrow> False | Some (aiu, _) \<Rightarrow> aiu),
                    sn_aiu_mode = (case in_settings inp of
                        Some (True, hard) \<Rightarrow> (if hard then AiuHardLimit else AiuObserve) | _ \<Rightarrow> AiuDisabled),
                    sn_application_enabled = in_enabled inp,
                    sn_blocked_user_ids = map au_externalId (filter au_blocked (ra_users (in_audience inp))),
                    sn_allowed_keys = in_properties inp\<rparr> of
                   Inl e \<Rightarrow> Inl (OtherFailure e)
                 | Inr snapshot \<Rightarrow> Inr snapshot)))"

subsection \<open>Publishing\<close>

datatype PublicationStatus = Published | Retired

record ConfigurationVersion =
  cf_version :: nat
  cf_status :: PublicationStatus
  cf_etag :: string
  cf_signature :: string
  cf_snapshot :: RuntimeSnapshot

record routing_db =
  rd_application :: "(string \<times> string \<times> bool)"
  rd_settings :: "(bool \<times> bool) option"
  rd_properties :: "string list"
  rd_connections :: "ConnectionRow list"
  rd_virtualModels :: "VirtualModel list"
  rd_users :: "RouteAudienceUser list"
  rd_groups :: "RouteGroupRow list"
  rd_versions :: "ConfigurationVersion list"

definition latest_version :: "routing_db \<Rightarrow> nat" where
  "latest_version db = fold (\<lambda>v. max (cf_version v)) (rd_versions db) 0"

definition publish_input :: "routing_db \<Rightarrow> int \<Rightarrow> publication_input" where
  "publish_input db now =
     (let (app, slug, active) = rd_application db in
      \<lparr>in_applicationId = app, in_slug = slug, in_enabled = active, in_settings = rd_settings db,
       in_properties = sort (rd_properties db),
       in_connections = sort_key co_name (filter co_enabled (rd_connections db)),
       in_virtualModels = map runtimeVirtualModelInclude (sort_key vm_name (filter vm_enabled (rd_virtualModels db))),
       in_audience = loadRouteAudience (rd_users db) (rd_groups db),
       in_version = latest_version db + 1, in_now = now\<rparr>)"

text \<open>\<open>publish\<close> of \<open>runtime-configuration.service.ts\<close>: the current version is retired and the new one
  inserted in one transaction; both version number and etag are unique.\<close>

definition publish :: "'e snapshot_env_scheme \<Rightarrow> int \<Rightarrow> routing_db \<Rightarrow> publish_error + (RuntimeSnapshot \<times> routing_db)" where
  "publish env now db =
     (case buildRuntimePublication env (publish_input db now) of
        Inl e \<Rightarrow> Inl e
      | Inr snapshot \<Rightarrow>
          if sn_etag snapshot \<in> cf_etag ` set (rd_versions db)
          then Inl (OtherFailure (UniqueViolation ''runtime_configuration_versions_application_etag_key''))
          else Inr (snapshot, db\<lparr>rd_versions :=
            update_rows (\<lambda>v. cf_status v = Published) (\<lambda>v. v\<lparr>cf_status := Retired\<rparr>) (rd_versions db) @
            [\<lparr>cf_version = latest_version db + 1, cf_status = Published, cf_etag = sn_etag snapshot,
              cf_signature = sn_signature snapshot, cf_snapshot = snapshot\<rparr>]\<rparr>))"

end
