(* ===== verification/RouteResolution.thy ===== *)
theory RouteResolution
  imports Publication "HOL-Library.Multiset"
begin

text \<open>
  Lemmas on routing that the properties rest on: the weighted order is a permutation that starts with
  the target the hash points at, what the fields of a publication are, and which rule of a plan wins.
\<close>

subsection \<open>Weighted order\<close>

lemma deterministicFraction_bounds:
  "0 \<le> deterministicFraction v" "deterministicFraction v \<le> 1 - 1 / 2 ^ 32"
proof -
  let ?h = "foldl fnv_step 2166136261 v"
  show "0 \<le> deterministicFraction v"
    unfolding deterministicFraction_def by (intro divide_nonneg_pos of_nat_0_le_iff) simp
  have "unat ?h < 2 ^ 32" using unsigned_less [where ?'a = nat and w = ?h] by simp
  then have "unat ?h \<le> 4294967295" by simp
  then have h: "(of_nat (unat ?h) :: rat) \<le> of_nat 4294967295" by (simp only: of_nat_le_iff)
  have "deterministicFraction v \<le> of_nat 4294967295 / 4294967296"
    unfolding deterministicFraction_def by (rule divide_right_mono [OF h]) simp
  then show "deterministicFraction v \<le> 1 - 1 / 2 ^ 32" by simp
qed

lemma fl_below:
  assumes "0 < T" and "0 \<le> f" and "f \<le> 1 - 1 / 2 ^ 32"
  shows "fl (f * T) < T"
proof (cases "f = 0")
  case True
  with assms show ?thesis by (simp add: float53.round_zero)
next
  case False
  define y where "y = f * T"
  define d :: rat where "d = 1 / 2 ^ 53"
  have y: "0 < y" using assms False by (simp add: y_def)
  have "y \<le> (1 - 1 / 2 ^ 32) * T" unfolding y_def using assms by (intro mult_right_mono) auto
  moreover have "fl y \<le> y + y * d"
  proof -
    have "of_int 2 powi (1 - int 53) / 2 = d" by (simp add: power_int_def d_def power_one_over)
    then have "\<bar>fl y - y\<bar> \<le> y * d" using float53.round_rel_err [OF y] by (metis times_divide_eq_right)
    then show ?thesis by linarith
  qed
  moreover have "y + y * d \<le> (1 - 1 / 2 ^ 32) * T * (1 + d)"
    using calculation(1) by (simp add: distrib_left [symmetric] d_def mult_right_mono)
  moreover have "(1 - 1 / 2 ^ 32) * T * (1 + d) < T"
    using assms(1) by (simp add: d_def)
  ultimately show ?thesis unfolding y_def by linarith
qed


text \<open>The running sums of the loop, one per target.\<close>

fun running :: "('t \<Rightarrow> rat) \<Rightarrow> rat \<Rightarrow> 't list \<Rightarrow> rat list" where
  "running weight acc [] = []"
| "running weight acc (t # ts) = fl (acc + weight t) # running weight (fl (acc + weight t)) ts"

lemma length_running [simp]: "length (running weight acc ts) = length ts"
  by (induction ts arbitrary: acc) auto

lemma running_Nil_iff [simp]: "running weight acc ts = [] \<longleftrightarrow> ts = []"
  by (cases ts) auto

lemma last_running: "ts \<noteq> [] \<Longrightarrow> last (running weight acc ts) = foldl (\<lambda>s t. fl (s + weight t)) acc ts"
proof (induction ts arbitrary: acc)
  case (Cons t ts)
  then show ?case by (cases "ts = []") auto
qed simp

lemma running_last_pos:
  assumes "0 \<le> acc" and "\<forall>t \<in> set ts. 0 < weight t" and "ts \<noteq> []"
  shows "0 < last (running weight acc ts)"
  using assms
proof (induction ts arbitrary: acc)
  case (Cons t ts)
  have "0 < fl (acc + weight t)" using Cons.prems by (intro float53.round_pos) (simp add: add_nonneg_pos)
  then show ?case using Cons.IH [of "fl (acc + weight t)"] Cons.prems by auto
qed simp

lemma pick_weighted_first:
  assumes "ts \<noteq> []" and "point < last (running weight acc ts)"
  shows "\<exists>i < length ts. pick_weighted weight point acc sel ts = ts ! i \<and>
    point < running weight acc ts ! i \<and> (\<forall>j < i. running weight acc ts ! j \<le> point)"
  using assms
proof (induction ts arbitrary: acc)
  case (Cons t ts)
  show ?case
  proof (cases "point < fl (acc + weight t)")
    case True
    then show ?thesis by (intro exI [of _ 0]) (simp add: Let_def)
  next
    case False
    then have "ts \<noteq> []" using Cons.prems by auto
    with Cons.prems have "point < last (running weight (fl (acc + weight t)) ts)" by (cases ts) auto
    from Cons.IH [OF \<open>ts \<noteq> []\<close> this] obtain i where i: "i < length ts"
      "pick_weighted weight point (fl (acc + weight t)) sel ts = ts ! i"
      "point < running weight (fl (acc + weight t)) ts ! i"
      "\<forall>j < i. running weight (fl (acc + weight t)) ts ! j \<le> point" by blast
    with False show ?thesis
      by (intro exI [of _ "Suc i"]) (auto simp: Let_def nth_Cons split: nat.splits)
  qed
qed simp

lemma weighted_order_nonempty:
  "ts \<noteq> [] \<Longrightarrow> weighted_order weight key seed ts =
     (let selected = pick_weighted weight (fl (deterministicFraction seed * weight_total weight ts)) 0 (hd ts) ts
      in selected # filter (\<lambda>t. key t \<noteq> key selected) ts)"
  by (cases ts) (simp_all add: weighted_order_def Let_def del: pick_weighted.simps)

lemma weighted_pick_exists:
  assumes "ts \<noteq> []" and "\<forall>t \<in> set ts. 0 < weight t"
  shows "\<exists>i < length ts.
    weighted_order weight key seed ts = ts ! i # filter (\<lambda>t. key t \<noteq> key (ts ! i)) ts \<and>
    fl (deterministicFraction seed * last (running weight 0 ts)) < running weight 0 ts ! i \<and>
    (\<forall>j < i. running weight 0 ts ! j \<le> fl (deterministicFraction seed * last (running weight 0 ts)))"
proof -
  let ?T = "last (running weight 0 ts)"
  let ?p = "fl (deterministicFraction seed * ?T)"
  have "0 < ?T" using running_last_pos [of 0 ts weight] assms by simp
  then have "?p < ?T" by (rule fl_below [OF _ deterministicFraction_bounds])
  from pick_weighted_first [OF assms(1) this, of "hd ts"] obtain i where i: "i < length ts"
    "pick_weighted weight ?p 0 (hd ts) ts = ts ! i" "?p < running weight 0 ts ! i"
    "\<forall>j < i. running weight 0 ts ! j \<le> ?p" by (elim exE conjE)
  have "weight_total weight ts = ?T" by (simp only: weight_total_def last_running [OF assms(1)])
  then have "weighted_order weight key seed ts = ts ! i # filter (\<lambda>t. key t \<noteq> key (ts ! i)) ts"
    unfolding weighted_order_nonempty [OF assms(1)] Let_def by (simp only: i(2))
  with i(1,3,4) show ?thesis by (intro exI [of _ i] conjI)
qed

lemma weighted_order_perm:
  assumes "\<forall>t \<in> set ts. 0 < weight t" and "distinct (map key ts)"
  shows "mset (weighted_order weight key seed ts) = mset ts"
proof (cases "ts = []")
  case False
  from weighted_pick_exists [OF this assms(1)] obtain i where i: "i < length ts"
    "weighted_order weight key seed ts = ts ! i # filter (\<lambda>t. key t \<noteq> key (ts ! i)) ts" by metis
  have mem: "ts ! i \<in> set ts" using i(1) by simp
  have "filter (\<lambda>t. key t = key (ts ! i)) ts = [ts ! i]"
    by (rule filter_key_singleton [OF assms(2) mem]) auto
  then have "mset ts = {#ts ! i#} + mset (filter (\<lambda>t. key t \<noteq> key (ts ! i)) ts)"
    by (metis mset.simps mset_filter multiset_partition)
  with i(2) show ?thesis by simp
qed (simp add: weighted_order_def)

subsection \<open>What a publication contains\<close>

definition target_of :: "TargetRow \<Rightarrow> RuntimeRouteTarget \<Rightarrow> bool" where
  "target_of row t \<longleftrightarrow> rt_model_id t = ta_modelId row \<and> rt_weight t = ta_number row \<and>
     rt_request_model t = mo_requestModel (ta_model row)"

lemma route_targets_InrD: "route_targets tag n ts = Inr xs \<Longrightarrow> list_all2 target_of ts xs"
proof (induction ts arbitrary: n xs)
  case (Cons t ts)
  then show ?case
    by (auto simp: routeTarget_def Let_def target_of_def ta_modelId_def split: option.splits)
qed simp

lemma target_of_maps:
  assumes "list_all2 target_of ts xs"
  shows "map rt_model_id xs = map ta_modelId ts" "map rt_weight xs = map ta_number ts"
    "map rt_request_model xs = map (\<lambda>t. mo_requestModel (ta_model t)) ts"
  using assms by (induction rule: list_all2_induct) (auto simp: target_of_def)

lemma build_rule_InrD:
  assumes "build_rule env vm targets audience i r = Inr (Inr b)"
  shows "rr_id b = ru_id r" "rr_priority b = ru_priority r" "rr_expires_at b = ru_expiresAt r"
    "ro_selection_mode (rr_route b) = Ordered"
    "\<exists>m. virtualModelRouteMatchSchema env (ru_matchJson r) = Some m \<and> resolve_match m audience = Inr (rr_match b)"
    "\<exists>selected. List.find (\<lambda>t. ta_modelId t = ru_targetModelId r) targets = Some selected \<and>
       list_all2 target_of (selected # filter (\<lambda>t. ta_id t \<noteq> ta_id selected) targets) (ro_targets (rr_route b))"
  using assms
  by (auto simp: build_rule_def Let_def simp del: route_targets.simps dest!: route_targets_InrD split: option.splits sum.splits if_splits)

lemma buildRules_InrD:
  assumes "buildRules env vm targets audience ps i rules = Inr ([], built)"
  shows "list_all2 (\<lambda>r b. \<exists>i. build_rule env vm targets audience i r = Inr (Inr b)) rules built \<and>
    distinct (map ru_priority rules) \<and> set (map ru_priority rules) \<inter> set ps = {}"
  using assms
proof (induction rules arbitrary: ps i built)
  case (Cons r rules)
  from Cons.prems obtain out iss blt where new: "ru_priority r \<notin> set ps"
    and out: "build_rule env vm targets audience i r = Inr out"
    and rest: "buildRules env vm targets audience (ru_priority r # ps) (Suc i) rules = Inr (iss, blt)"
    and eq: "(case out of Inl code \<Rightarrow> (virtual_model_issue vm code # iss, blt) | Inr x \<Rightarrow> (iss, x # blt)) = ([], built)"
    by (auto split: if_splits)
  from eq obtain b where b: "out = Inr b" "iss = []" "built = b # blt" by (cases out) auto
  from Cons.IH [of "ru_priority r # ps" "Suc i" blt] rest b out new show ?case by auto
qed auto

lemma build_plan_InrD:
  assumes "build_plan env inp vm = Inr ([], ps)"
  obtains first plan where "ps = [(vm_name vm, plan)]"
    and "pl_timezone plan = vm_timezone vm"
    and "first \<in> set (activeTargets (vm_targets vm))" "Some (ta_modelId first) = vm_defaultModelId vm"
    and "\<exists>i. List.find (\<lambda>(_, t). Some (ta_modelId t) = vm_defaultModelId vm) (enumerate 0 (activeTargets (vm_targets vm))) = Some (i, first) \<and>
       list_all2 target_of (first # map snd (filter (\<lambda>(j, _). j \<noteq> i) (enumerate 0 (activeTargets (vm_targets vm)))))
         (ro_targets (pl_default plan))"
    and "ro_route_tag (pl_default plan) = ''cp:virtual:'' @ vm_name vm @ '':default''"
    and "ro_selection_mode (pl_default plan) =
       (if list_ex (\<lambda>t. ta_number t \<noteq> 1) (activeTargets (vm_targets vm)) then Weighted else Ordered)"
    and "buildRules env vm (activeTargets (vm_targets vm)) (in_audience inp) [] 0 (vm_rules vm) = Inr ([], pl_rules plan)"
proof -
  let ?ts = "activeTargets (vm_targets vm)"
  let ?find = "List.find (\<lambda>(_, t). Some (ta_modelId t) = vm_defaultModelId vm) (enumerate 0 ?ts)"
  have ok: "pushVirtualModelIssues vm ?ts = []" using assms by (auto simp: build_plan_def Let_def split: if_splits)
  obtain i first where f: "?find = Some (i, first)"
    using assms ok by (auto simp: build_plan_def Let_def split: option.splits)
  let ?ordered = "first # map snd (filter (\<lambda>(j, _). j \<noteq> i) (enumerate 0 ?ts))"
  have i: "i < length ?ts" "?ts ! i = first" "Some (ta_modelId first) = vm_defaultModelId vm"
    using f by (auto simp: find_Some_iff nth_enumerate_eq)
  have "set ?ordered = set ?ts"
  proof
    show "set ?ordered \<subseteq> set ?ts" using i by (auto simp: in_set_enumerate_eq)
    show "set ?ts \<subseteq> set ?ordered"
    proof
      fix x assume "x \<in> set ?ts"
      then obtain j where "j < length ?ts" "?ts ! j = x" by (auto simp: in_set_conv_nth)
      then show "x \<in> set ?ordered" using i
        by (cases "j = i") (auto simp: in_set_enumerate_eq intro!: image_eqI [of _ snd "(j, x)"])
    qed
  qed
  then have ex: "list_ex P ?ordered \<longleftrightarrow> list_ex P ?ts" for P unfolding list_ex_iff by blast
  from assms ok f obtain xs rules where r: "route_targets (''cp:virtual:'' @ vm_name vm @ '':default'') 0 ?ordered = Inr xs"
    and b: "buildRules env vm ?ts (in_audience inp) [] 0 (vm_rules vm) = Inr ([], rules)"
    and ps: "\<exists>plan. ps = [(vm_name vm, plan)] \<and> pl_timezone plan = vm_timezone vm \<and> pl_rules plan = rules \<and>
      pl_default plan = \<lparr>ro_route_tag = ''cp:virtual:'' @ vm_name vm @ '':default'',
        ro_selection_mode = (if list_ex (\<lambda>t. ta_number t \<noteq> 1) ?ordered then Weighted else Ordered), ro_targets = xs\<rparr>"
    by (auto simp: build_plan_def Let_def simp del: route_targets.simps)
  from ps obtain plan where plan: "ps = [(vm_name vm, plan)]" "pl_timezone plan = vm_timezone vm" "pl_rules plan = rules"
    "pl_default plan = \<lparr>ro_route_tag = ''cp:virtual:'' @ vm_name vm @ '':default'',
        ro_selection_mode = (if list_ex (\<lambda>t. ta_number t \<noteq> 1) ?ordered then Weighted else Ordered), ro_targets = xs\<rparr>"
    by blast
  show thesis
  proof (rule that [of plan first])
    show "first \<in> set ?ts" using i by auto
    show "\<exists>i. ?find = Some (i, first) \<and>
       list_all2 target_of (first # map snd (filter (\<lambda>(j, _). j \<noteq> i) (enumerate 0 ?ts))) (ro_targets (pl_default plan))"
      using f route_targets_InrD [OF r] plan by auto
    show "ro_selection_mode (pl_default plan) = (if list_ex (\<lambda>t. ta_number t \<noteq> 1) ?ts then Weighted else Ordered)"
      unfolding plan(4) by (simp only: RuntimeRoute.simps ex)
  qed (use plan i b in simp_all)
qed

lemma build_plans_InrD:
  assumes "build_plans env inp vms = Inr ([], ps)" and "(name, plan) \<in> set ps"
  shows "\<exists>vm \<in> set vms. build_plan env inp vm = Inr ([], [(name, plan)])"
  using assms
proof (induction vms arbitrary: ps)
  case (Cons vm vms)
  then obtain p1 p2 where p: "build_plan env inp vm = Inr ([], p1)" "build_plans env inp vms = Inr ([], p2)" "ps = p1 @ p2"
    by auto
  show ?case
  proof (cases "(name, plan) \<in> set p1")
    case True
    moreover obtain pl where "p1 = [(vm_name vm, pl)]" using build_plan_InrD [OF p(1)] by blast
    ultimately show ?thesis using p(1) by auto
  next
    case False
    with Cons p show ?thesis by auto
  qed
qed simp

lemma published_InrD:
  assumes "buildRuntimePublication env inp = Inr s"
  shows "runtimeSnapshotSchema env s"
    "build_plans env inp (in_virtualModels inp) = Inr ([], sn_routing s)"
    "verifyRuntimeSnapshot env s = Inr s"
    "sn_expires_at s = in_now inp + ten_years_ms"
    "sn_allowed_keys s = in_properties inp"
  using assms
  by (auto simp: buildRuntimePublication_def Let_def signRuntimeSnapshot_def verifyRuntimeSnapshot_def unsigned_json_def
      split: sum.splits prod.splits if_splits)

lemma schema_planD:
  assumes "runtimeSnapshotSchema env s" and "(name, plan) \<in> set (sn_routing s)"
  shows "runtimeRoutingPlanSchema plan" "virtualModelName name"
  using assms by (auto simp: runtimeSnapshotSchema_def list_all_iff)

lemma build_plan_facts:
  assumes "build_plan env inp vm = Inr ([], [(name, plan)])"
  shows "name = vm_name vm" "pl_timezone plan = vm_timezone vm"
    "buildRules env vm (activeTargets (vm_targets vm)) (in_audience inp) [] 0 (vm_rules vm) = Inr ([], pl_rules plan)"
    "ro_route_tag (pl_default plan) = ''cp:virtual:'' @ vm_name vm @ '':default''"
    "ro_selection_mode (pl_default plan) =
       (if list_ex (\<lambda>t. ta_number t \<noteq> 1) (activeTargets (vm_targets vm)) then Weighted else Ordered)"
  by (rule build_plan_InrD [OF assms], simp)+

lemma build_plan_default:
  assumes "build_plan env inp vm = Inr ([], [(name, plan)])"
  shows "\<exists>first i. first \<in> set (activeTargets (vm_targets vm)) \<and> Some (ta_modelId first) = vm_defaultModelId vm \<and>
    List.find (\<lambda>(_, t). Some (ta_modelId t) = vm_defaultModelId vm) (enumerate 0 (activeTargets (vm_targets vm))) = Some (i, first) \<and>
    list_all2 target_of (first # map snd (filter (\<lambda>(j, _). j \<noteq> i) (enumerate 0 (activeTargets (vm_targets vm)))))
      (ro_targets (pl_default plan))"
  by (rule build_plan_InrD [OF assms], simp, elim exE conjE, intro exI conjI, assumption+)

lemma plan_rules_built:
  assumes "build_plan env inp vm = Inr ([], [(name, plan)])"
  shows "list_all2 (\<lambda>r b. \<exists>i. build_rule env vm (activeTargets (vm_targets vm)) (in_audience inp) i r = Inr (Inr b))
      (vm_rules vm) (pl_rules plan)"
    "distinct (map ru_priority (vm_rules vm))"
  using buildRules_InrD [OF build_plan_facts(3) [OF assms]] by blast+

subsection \<open>Resolving a published route\<close>

lemma selection_runs:
  assumes "runtimeRouteSchema route"
  shows "\<exists>sel. selection name plan route rid ctx = Inr sel \<and> se_ruleId sel = rid \<and>
    mset (se_primary sel # se_fallbacks sel) = mset (ro_targets route)"
proof -
  let ?key = "case rc_selectionKey ctx of None \<Rightarrow> rc_userId ctx | Some k \<Rightarrow> Some k"
  have ok: "ro_targets route \<noteq> []" "\<forall>t \<in> set (ro_targets route). 0 < rt_weight t"
    "distinct (map rt_model_id (ro_targets route))"
    using assms by (auto simp: runtimeRouteSchema_def runtimeRouteTargetSchema_def list_all_iff)
  have m: "mset (orderedTargets route ?key) = mset (ro_targets route)"
    using weighted_order_perm [OF ok(2,3)] by (auto simp: orderedTargets_def split: option.splits)
  then obtain p fs where "orderedTargets route ?key = p # fs"
    using ok(1) by (cases "orderedTargets route ?key") auto
  with m show ?thesis by (simp add: selection_def)
qed

lemma resolve_unique_winner:
  assumes plan: "map_of (sn_routing s) name = Some plan" and loc: "localized env now (pl_timezone plan) = Inr local"
    and prio: "distinct (map rr_priority (pl_rules plan))"
    and r: "r \<in> set (pl_rules plan)" "ruleMatches env r local now ctx"
    and top: "\<And>r'. r' \<in> set (pl_rules plan) \<Longrightarrow> ruleMatches env r' local now ctx \<Longrightarrow> rr_priority r' \<le> rr_priority r"
  shows "resolveRuntimeRoute env s name now ctx = selection name plan (rr_route r) (Some (rr_id r)) ctx"
proof -
  let ?m = "filter (\<lambda>rule. ruleMatches env rule local now ctx) (pl_rules plan)"
  have r': "r \<in> set ?m" using r by simp
  have max: "Max (set (map rr_priority ?m)) = rr_priority r" using r top by (intro Max_eqI) auto
  have "distinct (map rr_priority ?m)" using prio by (rule distinct_map_filter)
  then have "filter (\<lambda>rule. rr_priority rule = rr_priority r) ?m = [r]"
    by (rule filter_key_singleton [OF _ r']) auto
  moreover have "?m \<noteq> []" using r' by (metis list.set(1) empty_iff)
  ultimately show ?thesis by (simp only: resolveRuntimeRoute_def plan loc option.case bind_res_simps Let_def max if_False list.case)
qed

lemma max_priority_rule:
  assumes "\<exists>r \<in> set rules. P r"
  shows "\<exists>r \<in> set rules. P r \<and> (\<forall>r' \<in> set rules. P r' \<longrightarrow> rr_priority r' \<le> rr_priority r)"
proof -
  let ?S = "rr_priority ` {r \<in> set rules. P r}"
  have f: "finite ?S" "?S \<noteq> {}" using assms by auto
  from Max_in [OF f] obtain r where "Max ?S = rr_priority r" "r \<in> {r \<in> set rules. P r}" by (rule imageE)
  moreover have "rr_priority r' \<le> Max ?S" if "r' \<in> set rules" "P r'" for r'
    using Max_ge [OF f(1)] that by blast
  ultimately show ?thesis by (intro bexI [of _ r]) auto
qed

lemma published_plan:
  assumes "buildRuntimePublication env inp = Inr s" and "map_of (sn_routing s) name = Some plan"
  obtains vm where "vm \<in> set (in_virtualModels inp)" "build_plan env inp vm = Inr ([], [(name, plan)])"
    "runtimeRoutingPlanSchema plan" "distinct (map rr_priority (pl_rules plan))"
proof -
  have mem: "(name, plan) \<in> set (sn_routing s)" using assms(2) by (rule map_of_SomeD)
  from build_plans_InrD [OF published_InrD(2) [OF assms(1)] mem]
  obtain vm where vm: "vm \<in> set (in_virtualModels inp)" "build_plan env inp vm = Inr ([], [(name, plan)])" by blast
  note d = plan_rules_built(2) [OF vm(2)]
  have l: "list_all2 (\<lambda>r b. rr_priority b = ru_priority r) (vm_rules vm) (pl_rules plan)"
    using plan_rules_built(1) [OF vm(2)] by (rule list_all2_mono) (auto dest: build_rule_InrD(2))
  have "map rr_priority (pl_rules plan) = map ru_priority (vm_rules vm)"
    using l by (induction rule: list_all2_induct) auto
  with d have "distinct (map rr_priority (pl_rules plan))" by simp
  with vm that schema_planD(1) [OF published_InrD(1) [OF assms(1)] mem] show thesis by blast
qed

lemma plan_schema_routes:
  assumes "runtimeRoutingPlanSchema plan"
  shows "runtimeRouteSchema (pl_default plan)" "r \<in> set (pl_rules plan) \<Longrightarrow> runtimeRouteSchema (rr_route r)"
  using assms by (auto simp: runtimeRoutingPlanSchema_def runtimeRoutingRuleSchema_def list_all_iff)

lemma plan_models_active:
  assumes "build_plan env inp vm = Inr ([], [(name, plan)])" and "t \<in> set (plan_targets plan)"
  shows "\<exists>x \<in> set (activeTargets (vm_targets vm)). rt_model_id t = ta_modelId x"
proof -
  let ?ts = "activeTargets (vm_targets vm)"
  have sub: "\<exists>x \<in> set xs. rt_model_id t = ta_modelId x" if "list_all2 target_of xs ys" "t \<in> set ys" for xs ys
    using that target_of_maps(1) [OF that(1)] by (metis (mono_tags, lifting) image_iff list.set_map)
  from assms(2) consider "t \<in> set (ro_targets (pl_default plan))"
    | r where "r \<in> set (pl_rules plan)" "t \<in> set (ro_targets (rr_route r))"
    by (auto simp: plan_targets_def)
  then show ?thesis
  proof cases
    case 1
    from build_plan_default [OF assms(1)] obtain first i where first: "first \<in> set ?ts"
      "list_all2 target_of (first # map snd (filter (\<lambda>(j, _). j \<noteq> i) (enumerate 0 ?ts))) (ro_targets (pl_default plan))"
      by (elim exE conjE)
    from sub [OF first(2) 1] first(1) show ?thesis by (auto simp: in_set_enumerate_eq)
  next
    case 2
    from plan_rules_built(1) [OF assms(1)] 2(1)
    obtain r0 i where "build_rule env vm ?ts (in_audience inp) i r0 = Inr (Inr r)"
      by (auto simp: list_all2_conv_all_nth in_set_conv_nth)
    from build_rule_InrD(6) [OF this] obtain x where x: "List.find (\<lambda>t. ta_modelId t = ru_targetModelId r0) ?ts = Some x"
      "list_all2 target_of (x # filter (\<lambda>t. ta_id t \<noteq> ta_id x) ?ts) (ro_targets (rr_route r))" by blast
    have "x \<in> set ?ts" using x(1) by (auto simp: find_Some_iff)
    with sub [OF x(2) 2(2)] show ?thesis by auto
  qed
qed

end
