(* ===== verification/RoutingDemo.thy ===== *)
theory RoutingDemo
  imports Publication
begin

text \<open>
  One small application and the snapshot its publication yields, for the witnesses of the routing
  properties: a virtual model with two weighted targets and one rule for one user.
\<close>

definition demo_env :: "'e \<Rightarrow> 'e snapshot_env_scheme" where
  "demo_env x =
     \<lparr>is_uuid = (\<lambda>_. True), js_text = (\<lambda>_. []), local_parts = (\<lambda>_ _. Some (''Mon'', 10, 0)),
      sha256hex = (\<lambda>_. replicate 64 (CHR ''0'')), stringify = (\<lambda>_. []), toISOString = (\<lambda>_. ''2025-01-01T00:00:00.000Z''),
      url_parts = (\<lambda>_. Some (''https:'', [], [], [])), \<dots> = x\<rparr>"

abbreviation demo_snapshot_env :: snapshot_env where
  "demo_snapshot_env \<equiv> demo_env ()"

definition demo_connection :: ConnectionRow where
  "demo_connection = \<lparr>co_id = ''c1'', co_name = ''gateway'', co_driver = ''LITELLM'', co_baseUrl = Some ''https://gw'',
     co_credentialRef = None, co_publicConfigJson = JObj [], co_enabled = True\<rparr>"

definition demo_model :: "string \<Rightarrow> ModelRow" where
  "demo_model i = \<lparr>mo_id = i, mo_name = i, mo_requestModel = ''r-'' @ i, mo_provider = ''acme'', mo_taskType = ''CHAT'',
     mo_capabilitiesJson = JArr [JStr ''tools''], mo_enabled = True, mo_connection = demo_connection\<rparr>"

definition demo_target :: "string \<Rightarrow> int \<Rightarrow> rat \<Rightarrow> TargetRow" where
  "demo_target i p w = \<lparr>ta_id = ''t'' @ i, ta_model = demo_model i, ta_priority = p, ta_weight = w, ta_enabled = True,
     ta_createdAt = p\<rparr>"

text \<open>A rule for one user that ends at instant 1000.\<close>

definition demo_rule :: RuleRow where
  "demo_rule = \<lparr>ru_id = ''rule'', ru_name = ''beta'', ru_priority = 1000,
     ru_matchJson = JObj [(''user'', JObj [(''ids'', JArr [JStr ''u1''])])], ru_targetModel = demo_model ''b'',
     ru_expiresAt = Some 1000, ru_enabled = True, ru_createdAt = 0\<rparr>"

definition demo_virtual_model :: VirtualModel where
  "demo_virtual_model = \<lparr>vm_id = ''v1'', vm_name = ''chat'', vm_displayName = ''Chat'', vm_description = None,
     vm_taskType = ''CHAT'', vm_enabled = True, vm_defaultModelId = Some ''a'', vm_timezone = ''UTC'',
     vm_targets = [demo_target ''a'' 0 1, demo_target ''b'' 1 3], vm_rules = [demo_rule]\<rparr>"

definition demo_routing_db :: routing_db where
  "demo_routing_db = \<lparr>rd_application = (''00000000-0000-4000-8000-000000000001'', ''demo'', True), rd_settings = Some (True, True),
     rd_properties = [''plan''], rd_connections = [demo_connection], rd_virtualModels = [demo_virtual_model],
     rd_users = [], rd_groups = [], rd_versions = []\<rparr>"

lemmas demo_routing_defs = demo_env_def demo_connection_def demo_model_def demo_target_def demo_rule_def
  demo_virtual_model_def demo_routing_db_def


lemma fl_demo: "fl 1 = 1" "fl 3 = 3"
  using float53.round_int [of 1] float53.round_int [of 3] by simp_all

lemma demo_capabilities: "modelCapabilitiesSchema (JArr [JStr ''tools'']) = Some [''tools'']"
  by (simp add: modelCapabilitiesSchema_def json_string_def capabilities_ok_def modelCapabilityValues_def)

lemma demo_match: "virtualModelRouteMatchSchema (demo_env x) (ru_matchJson demo_rule) = Some (Direct (MUser [''u1'']))"
  by (simp add: virtualModelRouteMatchSchema_def runtimeRouteMatchSchema_def demo_rule_def userSchema_def strict_object_def
      json_array_def json_string_def user_ids_ok_def utf16_length_def byte_def)

definition demo_route_target :: "string \<Rightarrow> string \<Rightarrow> nat \<Rightarrow> rat \<Rightarrow> RuntimeRouteTarget" where
  "demo_route_target tag i n w = \<lparr>rt_model_id = i, rt_connection_id = ''c1'', rt_request_model = ''r-'' @ i,
     rt_provider = ''acme'', rt_task_type = ''chat'', rt_capabilities = [''tools''], rt_route_tag = tag,
     rt_fallback_order = n, rt_weight = w\<rparr>"

definition demo_default :: RuntimeRoute where
  "demo_default = \<lparr>ro_route_tag = ''cp:virtual:chat:default'', ro_selection_mode = Weighted,
     ro_targets = [demo_route_target ''cp:virtual:chat:default'' ''a'' 0 1, demo_route_target ''cp:virtual:chat:default'' ''b'' 1 3]\<rparr>"

definition demo_runtime_rule :: RuntimeRoutingRule where
  "demo_runtime_rule = \<lparr>rr_id = ''rule'', rr_priority = 1000, rr_match = MUser [''u1''],
     rr_route = \<lparr>ro_route_tag = ''cp:virtual:chat:rule1'', ro_selection_mode = Ordered,
       ro_targets = [demo_route_target ''cp:virtual:chat:rule1'' ''b'' 0 3, demo_route_target ''cp:virtual:chat:rule1'' ''a'' 1 1]\<rparr>,
     rr_expires_at = Some 1000\<rparr>"

definition demo_plan :: RuntimeRoutingPlan where
  "demo_plan = \<lparr>pl_virtual_model_id = ''v1'', pl_configuration_version = 1,
     pl_configuration_etag = ''sha256:'' @ replicate 64 (CHR ''0''), pl_published_at = 0, pl_timezone = ''UTC'',
     pl_default = demo_default, pl_rules = [demo_runtime_rule]\<rparr>"

lemma demo_lower: "js_lower ''CHAT'' = ''chat''" "js_lower ''LITELLM'' = ''litellm''"
  by code_simp+

lemma demo_position: "decimal_text (Suc 0) = ''1''"
  by code_simp

lemma demo_route_targets:
  "routeTarget (demo_target i p 1) tag n = Inr (demo_route_target tag i n 1)"
  "routeTarget (demo_target i p 3) tag n = Inr (demo_route_target tag i n 3)"
  by (simp_all add: routeTarget_def demo_target_def demo_model_def demo_connection_def demo_capabilities
      demo_route_target_def demo_lower ta_number_def fl_demo)

lemma demo_active: "activeTargets [demo_target i p v, demo_target j q w] = [demo_target i p v, demo_target j q w]"
  by (simp add: activeTargets_def demo_target_def demo_model_def demo_connection_def)

lemma demo_target_simps [simp]:
  "ta_modelId (demo_target i p w) = i" "ta_number (demo_target i p w) = fl w" "ta_id (demo_target i p w) = ''t'' @ i"
  "mo_taskType (ta_model (demo_target i p w)) = ''CHAT''"
  "modelCapabilitiesSchema (mo_capabilitiesJson (ta_model (demo_target i p w))) = Some [''tools'']"
  "ta_enabled (demo_target i p w)" "ta_priority (demo_target i p w) = p" "ta_createdAt (demo_target i p w) = p"
  by (simp_all add: demo_target_def ta_modelId_def ta_number_def demo_model_def demo_capabilities)

lemma demo_rule_simps [simp]:
  "ru_targetModelId demo_rule = ''b''" "mo_enabled (ru_targetModel demo_rule)" "ru_id demo_rule = ''rule''"
  "ru_priority demo_rule = 1000" "ru_expiresAt demo_rule = Some 1000" "ru_enabled demo_rule"
  by (simp_all add: demo_rule_def ru_targetModelId_def demo_model_def)

lemma demo_hash: "sha256hex (demo_env x) v = replicate 64 (CHR ''0'')"
  by (simp add: demo_env_def)

lemma demo_build_plan:
  "build_plan (demo_env x) (publish_input demo_routing_db 0) (runtimeVirtualModelInclude demo_virtual_model) =
     Inr ([], [(''chat'', demo_plan)])"
  by (simp add: build_plan_def Let_def runtimeVirtualModelInclude_def demo_virtual_model_def demo_active order_targets_def
      order_rules_def pushVirtualModelIssues_def demo_route_targets build_rule_def demo_match resolve_match_def demo_position
      demo_runtime_rule_def demo_default_def demo_plan_def fl_demo publish_input_def demo_routing_db_def latest_version_def
      runtimeFingerprint_def demo_hash)

lemma demo_connection_published:
  "runtimeConnection (demo_env x) demo_connection = Some
     \<lparr>cn_id = ''c1'', cn_name = ''gateway'', cn_driver = ''litellm'', cn_base_url = Some ''https://gw'',
      cn_credential_ref = None, cn_timeout_ms = 60000, cn_max_retries = 2, cn_api_version = None\<rparr>"
  by code_simp
lemma demo_schema: "runtimeRoutingPlanSchema demo_plan" "virtualModelName ''chat''"
  by code_simp+

definition demo_snapshot :: RuntimeSnapshot where
  "demo_snapshot =
     \<lparr>sn_application_id = ''00000000-0000-4000-8000-000000000001'', sn_version = ''runtime-demo-1'', sn_etag = ''sha256:'' @ replicate 64 (CHR ''0''),
      sn_signature = ''sha256:'' @ replicate 64 (CHR ''0''), sn_expires_at = ten_years_ms,
      sn_connections = [(''c1'',
        \<lparr>cn_id = ''c1'', cn_name = ''gateway'', cn_driver = ''litellm'', cn_base_url = Some ''https://gw'',
         cn_credential_ref = None, cn_timeout_ms = 60000, cn_max_retries = 2, cn_api_version = None\<rparr>)],
      sn_routing = [(''chat'', demo_plan)], sn_aiu_enabled = True, sn_aiu_mode = AiuHardLimit,
      sn_application_enabled = True, sn_blocked_user_ids = [], sn_allowed_keys = [''plan'']\<rparr>"

lemma demo_ids:
  "opaque_id ''runtime-demo-1''" "opaque_id ''c1''" "dimension_key ''plan''"
  "sha256_fingerprint (''sha256:'' @ replicate 64 (CHR ''0''))"
  by code_simp+

lemma demo_snapshot_schema: "runtimeSnapshotSchema (demo_env x) demo_snapshot"
  using demo_ids demo_schema demo_connection_published [of x]
  unfolding runtimeSnapshotSchema_def demo_snapshot_def runtimeConnection_def Let_def
  by (simp add: demo_connection_def demo_lower demo_plan_def plan_targets_def demo_default_def demo_runtime_rule_def
      demo_route_target_def demo_env_def split: if_splits)

lemma demo_row_simps [simp]:
  "co_enabled demo_connection" "co_id demo_connection = ''c1''" "vm_enabled demo_virtual_model"
  by (simp_all add: demo_connection_def demo_virtual_model_def)

lemma demo_published: "buildRuntimePublication (demo_env x) (publish_input demo_routing_db 0) = Inr demo_snapshot"
proof -
  have "build_plans (demo_env x) (publish_input demo_routing_db 0) (in_virtualModels (publish_input demo_routing_db 0)) =
    Inr ([], [(''chat'', demo_plan)])"
    using demo_build_plan [of x] by (simp add: publish_input_def demo_routing_db_def)
  then show ?thesis
    using demo_snapshot_schema [of x]
    by (simp add: buildRuntimePublication_def Let_def build_connections_def demo_connection_published signRuntimeSnapshot_def
        publish_input_def demo_routing_db_def latest_version_def loadRouteAudience_def runtimeFingerprint_def
        bindingSignature_def demo_hash demo_snapshot_def demo_position)
qed

end
