(* ===== verification/RoutingProperties.thy ===== *)
theory RoutingProperties
  imports RouteResolution RoutingDemo
begin

text \<open>
  What routing promises to a caller of the SDK: a published route always resolves, a published snapshot
  verifies, and a weighted route follows the hash of the caller.
\<close>

text \<open>C19: A published route always resolves.  For every virtual model of a published snapshot, every
  caller and every instant the zone of the plan can express, the SDK finds a route and never reports
  a conflict or an empty route.  It is the default route exactly when no rule matches, and
  otherwise that of the matching rule of highest priority; the primary and the fallbacks are the
  targets of that route, each once, and all of them were active when the plan was published.\<close>

theorem published_routes_resolve:
  assumes pub: "buildRuntimePublication env inp = Inr s" and plan: "map_of (sn_routing s) name = Some plan"
    and loc: "localized env now (pl_timezone plan) = Inr local"
  shows "\<exists>sel route. resolveRuntimeRoute env s name now ctx = Inr sel \<and>
    mset (se_primary sel # se_fallbacks sel) = mset (ro_targets route) \<and>
    (case se_ruleId sel of
       None \<Rightarrow> route = pl_default plan \<and> (\<forall>r \<in> set (pl_rules plan). \<not> ruleMatches env r local now ctx)
     | Some i \<Rightarrow> \<exists>r \<in> set (pl_rules plan). rr_id r = i \<and> route = rr_route r \<and> ruleMatches env r local now ctx \<and>
         (\<forall>r' \<in> set (pl_rules plan). ruleMatches env r' local now ctx \<longrightarrow> rr_priority r' \<le> rr_priority r)) \<and>
    (\<exists>vm \<in> set (in_virtualModels inp). vm_name vm = name \<and>
       (\<forall>t \<in> set (ro_targets route). \<exists>x \<in> set (activeTargets (vm_targets vm)). rt_model_id t = ta_modelId x))"
proof -
  obtain vm where vm: "vm \<in> set (in_virtualModels inp)" "build_plan env inp vm = Inr ([], [(name, plan)])"
    and ok: "runtimeRoutingPlanSchema plan" and prio: "distinct (map rr_priority (pl_rules plan))"
    by (rule published_plan [OF pub plan])
  have vmname: "vm_name vm = name" using build_plan_facts(1) [OF vm(2)] by simp
  note active = plan_models_active [OF vm(2), unfolded plan_targets_def]
  show ?thesis
  proof (cases "\<exists>r \<in> set (pl_rules plan). ruleMatches env r local now ctx")
    case True
    from max_priority_rule [OF True] obtain r where r: "r \<in> set (pl_rules plan)" "ruleMatches env r local now ctx"
      and top: "\<forall>r' \<in> set (pl_rules plan). ruleMatches env r' local now ctx \<longrightarrow> rr_priority r' \<le> rr_priority r" by blast
    from selection_runs [OF plan_schema_routes(2) [OF ok r(1)], of name plan "Some (rr_id r)" ctx]
    obtain sel where sel: "selection name plan (rr_route r) (Some (rr_id r)) ctx = Inr sel"
      "se_ruleId sel = Some (rr_id r)" "mset (se_primary sel # se_fallbacks sel) = mset (ro_targets (rr_route r))"
      by (elim exE conjE)
    have res: "resolveRuntimeRoute env s name now ctx = Inr sel"
      using resolve_unique_winner [OF plan loc prio r] top sel(1) by simp
    have "\<exists>x \<in> set (activeTargets (vm_targets vm)). rt_model_id t = ta_modelId x" if "t \<in> set (ro_targets (rr_route r))" for t
      using active [of t] that r(1) by auto
    with res sel r top vm(1) vmname show ?thesis
      by (intro exI [of _ sel] exI [of _ "rr_route r"]) auto
  next
    case False
    from selection_runs [OF plan_schema_routes(1) [OF ok], of name plan None ctx]
    obtain sel where sel: "selection name plan (pl_default plan) None ctx = Inr sel"
      "se_ruleId sel = None" "mset (se_primary sel # se_fallbacks sel) = mset (ro_targets (pl_default plan))"
      by (elim exE conjE)
    have "filter (\<lambda>rule. ruleMatches env rule local now ctx) (pl_rules plan) = []" using False by (simp add: filter_empty_conv)
    then have res: "resolveRuntimeRoute env s name now ctx = Inr sel"
      by (simp add: resolveRuntimeRoute_def plan loc sel(1))
    with sel False vm(1) vmname active show ?thesis
      by (intro exI [of _ sel] exI [of _ "pl_default plan"]) auto
  qed
qed

text \<open>C25: What the control plane publishes, the SDK accepts.  A snapshot a publication returns passes the
  verification of the API and, at any instant before its expiry ten years later, the one of the SDK,
  which hands it to its caller unchanged.\<close>

theorem published_snapshot_verifies:
  assumes "publish env now db = Inr (s, db')" and "t < now + ten_years_ms"
  shows "verifyRuntimeSnapshot env s = Inr s \<and> parseVerifiedRuntimeSnapshot env s t False = Inr s"
proof -
  have b: "buildRuntimePublication env (publish_input db now) = Inr s"
    using assms(1) by (auto simp: publish_def split: sum.splits if_splits)
  have n: "in_now (publish_input db now) = now" by (simp add: publish_input_def Let_def split: prod.splits)
  from published_InrD(1,3,4) [OF b] assms(2) n show ?thesis
    by (auto simp: verifyRuntimeSnapshot_def parseVerifiedRuntimeSnapshot_def runtimeFingerprint_def bindingSignature_def
        split: if_splits)
qed

lemma demo_local: "localized (demo_env x) now tz = Inr (1, 600)"
  by (simp add: localized_def demo_env_def weekdayNumber_def)

theorem published_routes_resolve_witness:
  "\<exists>sel. resolveRuntimeRoute demo_snapshot_env demo_snapshot ''chat'' 7
       \<lparr>rc_userId = Some ''u2'', rc_userProperties = None, rc_callSource = None, rc_selectionKey = None\<rparr> = Inr sel \<and>
     se_ruleId sel = None \<and> mset (se_primary sel # se_fallbacks sel) = mset (ro_targets demo_default)"
proof -
  let ?ctx = "\<lparr>rc_userId = Some ''u2'', rc_userProperties = None, rc_callSource = None, rc_selectionKey = None\<rparr>"
  have plan: "map_of (sn_routing demo_snapshot) ''chat'' = Some demo_plan" by (simp add: demo_snapshot_def)
  have "\<not> ruleMatches demo_snapshot_env demo_runtime_rule (1, 600) 7 ?ctx" by (simp add: ruleMatches_def demo_runtime_rule_def)
  then show ?thesis
    using published_routes_resolve [OF demo_published [of "()"] plan demo_local, of 7 ?ctx]
    by (fastforce simp: demo_plan_def split: option.splits)
qed

theorem published_snapshot_verifies_witness:
  "parseVerifiedRuntimeSnapshot demo_snapshot_env demo_snapshot 5 False = Inr demo_snapshot"
proof -
  have "publish demo_snapshot_env 0 demo_routing_db = Inr (demo_snapshot, snd (projr (publish demo_snapshot_env 0 demo_routing_db)))"
    by (simp add: publish_def demo_published) (simp add: demo_routing_db_def)
  from published_snapshot_verifies [OF this, of 5] show ?thesis by (simp add: ten_years_ms_def)
qed

text \<open>C30: A weighted route sends a caller where the hash points.  The targets divide the interval up to the
  total weight, in order; the first choice is the target whose part holds the point of the caller, and
  the point always falls into one of them in spite of the rounding of doubles, so the target the code
  starts from is never taken by default.\<close>

theorem weighted_choice_follows_hash:
  assumes "runtimeRouteSchema route" and "ro_selection_mode route = Weighted"
  shows "\<exists>i < length (ro_targets route).
    orderedTargets route (Some k) =
      ro_targets route ! i # filter (\<lambda>t. rt_model_id t \<noteq> rt_model_id (ro_targets route ! i)) (ro_targets route) \<and>
    fl (deterministicFraction (ro_route_tag route @ '':'' @ k) * last (running rt_weight 0 (ro_targets route)))
      < running rt_weight 0 (ro_targets route) ! i \<and>
    (\<forall>j < i. running rt_weight 0 (ro_targets route) ! j
      \<le> fl (deterministicFraction (ro_route_tag route @ '':'' @ k) * last (running rt_weight 0 (ro_targets route))))"
proof -
  have ok: "ro_targets route \<noteq> []" "\<forall>t \<in> set (ro_targets route). 0 < rt_weight t"
    using assms(1) by (auto simp: runtimeRouteSchema_def runtimeRouteTargetSchema_def list_all_iff)
  from weighted_pick_exists [OF ok, of rt_model_id "ro_route_tag route @ '':'' @ k"] assms(2) show ?thesis
    by (simp add: orderedTargets_def)
qed

theorem weighted_choice_follows_hash_witness:
  "\<exists>i < 2. orderedTargets demo_default (Some ''u2'') =
      ro_targets demo_default ! i # filter (\<lambda>t. rt_model_id t \<noteq> rt_model_id (ro_targets demo_default ! i)) (ro_targets demo_default)"
proof -
  have "runtimeRouteSchema demo_default" using demo_schema(1) by (simp add: runtimeRoutingPlanSchema_def demo_plan_def)
  moreover have "ro_selection_mode demo_default = Weighted" "length (ro_targets demo_default) = 2" by (simp_all add: demo_default_def)
  ultimately show ?thesis using weighted_choice_follows_hash [of demo_default "''u2''"] by auto
qed

end
