(* ===== verification/ConsoleProperties.thy ===== *)
theory ConsoleProperties
  imports RoutingProperties
begin

text \<open>
  The console against the SDK: when the simulation of a route predicts what the SDK does and where the
  two differ, what makes a publication fail, and the invariant of virtual models under the operations
  of the console.
\<close>

subsection \<open>The console and the SDK\<close>
















subsection \<open>Targets\<close>




text \<open>What the tables guarantee: ids are primary keys and a model is a target only once.\<close>

definition targets_wf :: "VirtualModel \<Rightarrow> bool" where
  "targets_wf vm \<longleftrightarrow> distinct (map ta_id (vm_targets vm)) \<and> distinct (map ta_modelId (vm_targets vm))"




lemma find_Some_mem: "List.find p xs = Some x \<Longrightarrow> x \<in> set xs \<and> p x"
  by (auto simp: find_Some_iff)










lemma build_plans_mem:
  assumes "build_plans env inp vms = Inr ([], ps)" and "v \<in> set vms"
  shows "\<exists>plan. (vm_name v, plan) \<in> set ps"
  using assms
proof (induction vms arbitrary: ps)
  case (Cons u vms)
  then obtain p1 p2 where p: "build_plan env inp u = Inr ([], p1)" "build_plans env inp vms = Inr ([], p2)" "ps = p1 @ p2"
    by auto
  obtain pl where pl: "p1 = [(vm_name u, pl)]" by (rule build_plan_InrD [OF p(1)])
  show ?case
  proof (cases "v = u")
    case False
    then have "v \<in> set vms" using Cons.prems(2) by simp
    with Cons.IH [OF p(2)] p(3) show ?thesis by auto
  qed (use p pl in auto)
qed simp















subsection \<open>Where the two sides differ\<close>

text \<open>C40: An expiry on a rule that is not a temporary override is ignored by the SDK.  The rule is
  published with its expiry, the console stops applying it when it has passed, and the SDK matches
  callers as if the rule had none.\<close>

theorem expired_rule_still_routes:
  assumes "build_rule env vm targets audience i r = Inr (Inr b)" and "ru_expiresAt r = Some t" and "t \<le> now"
    and "rr_match b \<noteq> OverrideActive"
  shows "\<not> simulated_rule env audience now tz qctx r \<and> rr_expires_at b = Some t \<and>
    ruleMatches env b local now ctx = ruleMatches env (b\<lparr>rr_expires_at := None\<rparr>) local now ctx"
  using assms build_rule_InrD(3) [OF assms(1)]
  by (cases "rr_match b") (auto simp: simulated_rule_def ruleMatches_def)

theorem expired_rule_still_routes_witness:
  "\<not> simulated_rule demo_snapshot_env (in_audience (publish_input demo_routing_db 0)) 2000 ''UTC''
      \<lparr>qc_userId = Some ''u1'', qc_userProperties = None, qc_callSource = None\<rparr> demo_rule \<and>
   ruleMatches demo_snapshot_env demo_runtime_rule (1, 600) 2000
      \<lparr>rc_userId = Some ''u1'', rc_userProperties = None, rc_callSource = None, rc_selectionKey = None\<rparr>"
proof -
  have b: "build_rule demo_snapshot_env (runtimeVirtualModelInclude demo_virtual_model) [demo_target ''a'' 0 1, demo_target ''b'' 1 3]
      (in_audience (publish_input demo_routing_db 0)) 0 demo_rule = Inr (Inr demo_runtime_rule)"
    by (simp add: build_rule_def demo_match resolve_match_def demo_position demo_route_targets demo_runtime_rule_def
        runtimeVirtualModelInclude_def demo_virtual_model_def Let_def)
  have m: "rr_match demo_runtime_rule \<noteq> OverrideActive" by (simp add: demo_runtime_rule_def)
  show ?thesis
    using expired_rule_still_routes [OF b, of 1000 2000 "''UTC''"
        "\<lparr>qc_userId = Some ''u1'', qc_userProperties = None, qc_callSource = None\<rparr>" "(1, 600)"
        "\<lparr>rc_userId = Some ''u1'', rc_userProperties = None, rc_callSource = None, rc_selectionKey = None\<rparr>"] m
    by (simp add: ruleMatches_def demo_runtime_rule_def)
qed

text \<open>Where the patterns of the forms and of the snapshot schema part.\<close>

lemma form_keys_refused:
  assumes "property_key k"
  shows "dimension_key k \<longleftrightarrow> length k \<le> 64 \<and> CHR ''.'' \<notin> set k \<and> CHR ''-'' \<notin> set k"
proof (cases k)
  case (Cons c cs)
  have "lower_letter c" "list_all (\<lambda>x. lower_alnum x \<or> x \<in> set ''._-'') cs"
    using assms by (simp_all add: property_key_def Cons)
  moreover have "\<not> lower_letter (CHR ''.'')" "\<not> lower_letter (CHR ''-'')" "\<not> lower_alnum (CHR ''.'')" "\<not> lower_alnum (CHR ''-'')"
    by code_simp+
  ultimately show ?thesis by (auto simp: Cons dimension_key_def list_all_iff)
qed (use assms in \<open>simp add: property_key_def\<close>)

lemma nine_below_a: "c \<le> CHR ''9'' \<Longrightarrow> \<not> CHR ''a'' \<le> c"
  by (auto simp: less_eq_char_def)

lemma form_names_refused:
  assumes "stableName n"
  shows "virtualModelName n \<longleftrightarrow> \<not> is_digit (hd n)"
proof (cases n)
  case (Cons c cs)
  have c: "lower_alnum c" using assms by (auto simp: stableName_def Cons split: if_splits)
  then have "lower_letter c \<longleftrightarrow> \<not> is_digit c" using nine_below_a by (auto simp: lower_alnum_def lower_letter_def is_digit_def)
  then show ?thesis using assms c by (simp add: stableName_def virtualModelName_def Cons)
qed (use assms in \<open>simp add: stableName_def utf16_length_def\<close>)

text \<open>C39: Some names pass the forms of the console and are refused only when the snapshot is signed.  Let all
  property keys and virtual model names be accepted by the forms and let the publication raise no
  issue of its own: there is an enabled virtual model, every connection is published and every plan
  is built.  If a property key has a dot, a dash or more than 64 characters, or the name of a virtual
  model starts with a digit, the publication still fails, with the schema error of the signed
  snapshot in place of a list of issues.\<close>

theorem publication_refused_by_names:
  assumes forms: "\<forall>k \<in> set (in_properties inp). property_key k" "\<forall>vm \<in> set (in_virtualModels inp). stableName (vm_name vm)"
    and own: "in_virtualModels inp \<noteq> []" "fst (build_connections env (in_connections inp)) = []"
      "build_plans env inp (in_virtualModels inp) = Inr ([], plans)"
    and name: "(\<exists>k \<in> set (in_properties inp). 64 < length k \<or> CHR ''.'' \<in> set k \<or> CHR ''-'' \<in> set k) \<or>
      (\<exists>vm \<in> set (in_virtualModels inp). is_digit (hd (vm_name vm)))"
  shows "buildRuntimePublication env inp = Inl (OtherFailure (TypeErr ''ZodError''))"
proof -
  obtain cs where cs: "build_connections env (in_connections inp) = ([], cs)"
    using own(2) by (cases "build_connections env (in_connections inp)") simp
  have "\<not> runtimeSnapshotSchema env s" if s: "sn_allowed_keys s = in_properties inp" "sn_routing s = plans" for s :: RuntimeSnapshot
  proof
    assume sch: "runtimeSnapshotSchema env s"
    have "\<forall>k \<in> set (in_properties inp). dimension_key k" using sch s(1) by (simp add: runtimeSnapshotSchema_def list_all_iff)
    moreover have "virtualModelName (vm_name vm)" if vm: "vm \<in> set (in_virtualModels inp)" for vm
      using build_plans_mem [OF own(3) vm] schema_planD(2) [OF sch] unfolding s(2) by blast
    ultimately show False using name forms by (auto simp: form_keys_refused form_names_refused)
  qed
  then show ?thesis
    by (simp add: buildRuntimePublication_def own(1,3) cs signRuntimeSnapshot_def Let_def)
qed

definition dotted_input :: publication_input where
  "dotted_input = (publish_input demo_routing_db 0)\<lparr>in_properties := [''plan.tier'']\<rparr>"

theorem publication_refused_by_names_witness:
  "buildRuntimePublication demo_snapshot_env dotted_input = Inl (OtherFailure (TypeErr ''ZodError''))"
proof -
  let ?vms = "[runtimeVirtualModelInclude demo_virtual_model]"
  have vms: "in_virtualModels dotted_input = ?vms"
    by (simp add: dotted_input_def publish_input_def demo_routing_db_def)
  have "build_plan demo_snapshot_env dotted_input (runtimeVirtualModelInclude demo_virtual_model) = Inr ([], [(''chat'', demo_plan)])"
    by (simp add: build_plan_def Let_def runtimeVirtualModelInclude_def demo_virtual_model_def demo_active order_targets_def
      order_rules_def pushVirtualModelIssues_def demo_route_targets build_rule_def demo_match resolve_match_def demo_position
      demo_runtime_rule_def demo_default_def demo_plan_def fl_demo dotted_input_def publish_input_def demo_routing_db_def latest_version_def
      runtimeFingerprint_def demo_hash)
  then have plans: "build_plans demo_snapshot_env dotted_input (in_virtualModels dotted_input) = Inr ([], [(''chat'', demo_plan)])"
    by (simp add: vms)
  have cs: "fst (build_connections demo_snapshot_env (in_connections dotted_input)) = []"
    by (simp add: dotted_input_def publish_input_def demo_routing_db_def build_connections_def demo_connection_published)
  have "property_key ''plan.tier''" "stableName ''chat''" by code_simp+
  then have f: "\<forall>k \<in> set (in_properties dotted_input). property_key k" "\<forall>vm \<in> set (in_virtualModels dotted_input). stableName (vm_name vm)"
    by (simp_all add: vms) (simp_all add: dotted_input_def runtimeVirtualModelInclude_def demo_virtual_model_def)
  show ?thesis
    by (rule publication_refused_by_names [OF f _ cs plans]) (simp_all add: vms, simp add: dotted_input_def)
qed

subsection \<open>Virtual models over time\<close>

text \<open>The default priority of a new rule collides with an existing one as soon as an earlier rule was
  removed: after rules were added with default priorities and any but the last one was removed, the
  next rule without a priority gets that of the last, and the virtual model cannot be published.\<close>

theorem default_priority_collides:
  assumes ids: "distinct (map ru_id (vm_rules vm))"
    and prio: "map ru_priority (vm_rules vm) = map (\<lambda>i. 1000 - int i) [0 ..< length (vm_rules vm)]"
    and old: "k < length (vm_rules vm) - 1"
    and rem: "removeRule (ru_id (vm_rules vm ! k)) vm = Inr vm1"
    and add: "addRule newId now name target model None match expires vm1 = Inr vm2"
  shows "\<not> distinct (map ru_priority (vm_rules vm2))"
proof -
  let ?rs = "vm_rules vm" and ?n = "length (vm_rules vm)"
  have k: "k < ?n" "?n - 1 < ?n" "?n - 1 \<noteq> k" using old by auto
  obtain c where "List.find (\<lambda>r. ru_id r = ru_id (?rs ! k)) (order_rules ?rs) = Some c"
    "vm_rules vm1 = filter (\<lambda>r. ru_id r \<noteq> ru_id c) ?rs"
    using rem by (auto simp: removeRule_def split: option.splits)
  then have r1: "vm_rules vm1 = filter (\<lambda>r. ru_id r \<noteq> ru_id (?rs ! k)) ?rs"
    using find_Some_mem by fastforce
  have "filter (\<lambda>r. ru_id r = ru_id (?rs ! k)) ?rs = [?rs ! k]"
    by (rule filter_key_singleton [OF ids]) (use k in auto)
  then have "length (vm_rules vm1) = ?n - 1"
    unfolding r1 using sum_length_filter_compl [of "\<lambda>r. ru_id r = ru_id (?rs ! k)" ?rs] by simp
  moreover obtain r where "vm_rules vm2 = vm_rules vm1 @ [r]" "ru_priority r = 1000 - int (length (vm_rules vm1))"
    using add by (auto simp: addRule_def)
  moreover have "?rs ! (?n - 1) \<in> set (vm_rules vm1)"
    unfolding r1 using k nth_eq_iff_index_eq [OF ids, of "?n - 1" k] by simp
  moreover have "ru_priority (?rs ! (?n - 1)) = 1000 - int (?n - 1)"
    using arg_cong [OF prio, of "\<lambda>l. l ! (?n - 1)"] k by simp
  ultimately show ?thesis by (auto simp: image_iff intro!: bexI [of _ "?rs ! (?n - 1)"])
qed

text \<open>The writers of one virtual model.  New ids are fresh, as the database generates them.\<close>

inductive vm_step :: "'e route_env_scheme \<Rightarrow> ModelRow list \<Rightarrow> VirtualModel \<Rightarrow> VirtualModel \<Rightarrow> bool"
  for env :: "'e route_env_scheme" and models :: "ModelRow list" where
  step_update: "update_vm models ch vm = Inr vm' \<Longrightarrow> vm_step env models vm vm'"
| step_add_target:
    "addTarget models newId now m p w vm = Inr vm' \<Longrightarrow> newId \<notin> ta_id ` set (vm_targets vm) \<Longrightarrow> vm_step env models vm vm'"
| step_reorder: "reorderTargets ids vm = Inr vm' \<Longrightarrow> vm_step env models vm vm'"
| step_weight: "updateTarget t w vm = Inr vm' \<Longrightarrow> vm_step env models vm vm'"
| step_remove_target: "removeTarget t vm = Inr vm' \<Longrightarrow> vm_step env models vm vm'"
| step_add_rule: "addRule newId now n t m p j e vm = Inr vm' \<Longrightarrow> vm_step env models vm vm'"
| step_update_rule: "updateRule env r rh vm = Inr vm' \<Longrightarrow> vm_step env models vm vm'"
| step_remove_rule: "removeRule r vm = Inr vm' \<Longrightarrow> vm_step env models vm vm'"

inductive vm_reachable :: "'e route_env_scheme \<Rightarrow> ModelRow list \<Rightarrow> VirtualModel \<Rightarrow> bool"
  for env :: "'e route_env_scheme" and models :: "ModelRow list" where
  created: "create_vm models existing newId tz name d task m = Inr vm \<Longrightarrow> vm_reachable env models vm"
| stepped: "vm_reachable env models vm \<Longrightarrow> vm_step env models vm vm' \<Longrightarrow> vm_reachable env models vm'"

definition weights_ok :: "VirtualModel \<Rightarrow> bool" where
  "weights_ok vm \<longleftrightarrow> list_all (\<lambda>t. 0 < ta_weight t \<and> ta_weight t < 1000) (vm_targets vm)"

definition vm_ok :: "VirtualModel \<Rightarrow> bool" where
  "vm_ok vm \<longleftrightarrow> targets_wf vm \<and> weights_ok vm"

lemma vm_ok_cong:
  assumes "map ta_id (vm_targets vm') = map ta_id (vm_targets vm)" "map ta_modelId (vm_targets vm') = map ta_modelId (vm_targets vm)"
    "map ta_weight (vm_targets vm') = map ta_weight (vm_targets vm)" "vm_ok vm"
  shows "vm_ok vm'"
proof -
  have w: "weights_ok v \<longleftrightarrow> list_all (\<lambda>w. 0 < w \<and> w < 1000) (map ta_weight (vm_targets v))" for v
    by (simp add: weights_ok_def list.pred_map comp_def)
  show ?thesis using assms(4) by (simp only: vm_ok_def targets_wf_def w assms(1-3))
qed

lemma weight_column_Inr: "weight_column w = Inr v \<Longrightarrow> 0 < v \<and> v < 1000"
  by (auto simp: weight_column_def Let_def split: if_splits)

lemma map_update_rows_if:
  "(\<And>r. f (g r) = f r) \<Longrightarrow> map f (update_rows p g rs) = map f rs"
  by (rule map_update_rows_frame) simp

lemma reorder_frame:
  assumes "\<And>t p. f (t\<lparr>ta_priority := p\<rparr>) = f t"
  shows "map f (fold (\<lambda>(p, i). update_rows (\<lambda>t. ta_id t = i) (\<lambda>t. t\<lparr>ta_priority := int p\<rparr>)) ps ts) = map f ts"
  using assms by (induction ps arbitrary: ts) (auto simp: map_update_rows_if split: prod.splits)

lemma updateTarget_ok:
  assumes "updateTarget t w vm = Inr vm'" "vm_ok vm"
  shows "vm_ok vm'"
proof -
  from assms(1) obtain target where target: "find_unique (\<lambda>x. ta_id x = t) (vm_targets vm) = Some target"
    by (auto simp: updateTarget_def split: option.splits)
  from assms(1) obtain v where v: "weight_column w = Inr v"
    "vm_targets vm' = update_rows (\<lambda>t. ta_id t = ta_id target) (\<lambda>t. t\<lparr>ta_weight := v\<rparr>) (vm_targets vm)"
    by (auto simp: updateTarget_def target)
  have "map ta_id (vm_targets vm') = map ta_id (vm_targets vm)" "map ta_modelId (vm_targets vm') = map ta_modelId (vm_targets vm)"
    unfolding v(2) by (simp_all add: map_update_rows_if ta_modelId_def)
  with assms(2) weight_column_Inr [OF v(1)] show ?thesis
    by (auto simp: vm_ok_def targets_wf_def weights_ok_def list_all_iff v(2) set_update_rows)
qed

lemma removeTarget_ok: "removeTarget t vm = Inr vm' \<Longrightarrow> vm_ok vm \<Longrightarrow> vm_ok vm'"
  by (auto simp: removeTarget_def vm_ok_def targets_wf_def weights_ok_def list_all_iff Let_def distinct_map_filter
      split: option.splits if_splits)

lemma addTarget_ok:
  assumes "addTarget models newId now m p w vm = Inr vm'" "newId \<notin> ta_id ` set (vm_targets vm)" "vm_ok vm"
  shows "vm_ok vm'"
proof -
  from assms(1) obtain x v pr where t: "mo_id x \<notin> ta_modelId ` set (vm_targets vm)" "0 < v \<and> v < 1000"
    "vm_targets vm' = vm_targets vm @
       [\<lparr>ta_id = newId, ta_model = x, ta_priority = pr, ta_weight = v, ta_enabled = True, ta_createdAt = now\<rparr>]"
    by (auto simp: addTarget_def Let_def dest!: weight_column_Inr split: if_splits)
  have [simp]: "ta_modelId \<lparr>ta_id = newId, ta_model = x, ta_priority = pr, ta_weight = v, ta_enabled = True, ta_createdAt = now\<rparr> = mo_id x"
    by (simp add: ta_modelId_def)
  from t assms(2,3) show ?thesis by (simp add: vm_ok_def targets_wf_def weights_ok_def list_all_iff)
qed

lemma vm_step_ok: "vm_step env models vm vm' \<Longrightarrow> vm_ok vm \<Longrightarrow> vm_ok vm'"
proof (induction rule: vm_step.induct)
  case (step_update ch vm vm')
  then have "vm_targets vm' = vm_targets vm" by (auto simp: update_vm_def Let_def split: if_splits)
  with step_update show ?case by (intro vm_ok_cong [of vm' vm]) simp_all
next
  case (step_reorder ids vm vm')
  then show ?case
    by (intro vm_ok_cong [of vm' vm]) (auto simp: reorderTargets_def Let_def reorder_frame ta_modelId_def split: if_splits)
next
  case (step_add_rule newId now n t m p j e vm vm')
  then show ?case by (intro vm_ok_cong [of vm' vm]) (auto simp: addRule_def)
next
  case (step_update_rule r rh vm vm')
  then show ?case
    by (intro vm_ok_cong [of vm' vm]) (auto simp: updateRule_def Let_def split: option.splits if_splits)
next
  case (step_remove_rule r vm vm')
  then show ?case by (intro vm_ok_cong [of vm' vm]) (auto simp: removeRule_def split: option.splits)
qed (auto intro: addTarget_ok updateTarget_ok removeTarget_ok)

text \<open>Whatever sequence of console operations made a virtual model, each of its targets has its own id
  and its own model, and every weight is positive and below 1000, so the weight published for it is one
  the snapshot schema accepts.\<close>

theorem virtual_model_targets_sound:
  assumes "vm_reachable env models vm"
  shows "distinct (map ta_id (vm_targets vm)) \<and> distinct (map ta_modelId (vm_targets vm)) \<and>
    list_all (\<lambda>t. 0 < ta_number t \<and> ta_number t \<le> 1000) (vm_targets vm)"
proof -
  from assms have ok: "vm_ok vm"
  proof induction
    case (created existing newId tz name d task m vm)
    then have "vm_targets vm = []" by (auto simp: create_vm_def split: if_splits)
    then show ?case by (simp add: vm_ok_def targets_wf_def weights_ok_def)
  qed (rule vm_step_ok)
  have "fl w \<le> 1000" if "w < 1000" for w
    using float53.round_mono [of w 1000] float53.round_int [of 1000] that by simp
  with ok show ?thesis
    by (auto simp: vm_ok_def targets_wf_def weights_ok_def list_all_iff ta_number_def float53.round_pos)
qed











definition demo_two_rules :: VirtualModel where
  "demo_two_rules = demo_virtual_model\<lparr>vm_rules := [demo_rule, demo_rule\<lparr>ru_id := ''r2'', ru_priority := 999\<rparr>]\<rparr>"

theorem default_priority_collides_witness:
  "\<exists>vm1 vm2. removeRule ''rule'' demo_two_rules = Inr vm1 \<and>
     addRule ''r3'' 9 ''new'' ''a'' (demo_model ''a'') None (JObj []) None vm1 = Inr vm2 \<and>
     \<not> distinct (map ru_priority (vm_rules vm2))"
proof -
  have r: "ru_id (vm_rules demo_two_rules ! 0) = ''rule''" "length (vm_rules demo_two_rules) = 2"
    "distinct (map ru_id (vm_rules demo_two_rules))"
    "map ru_priority (vm_rules demo_two_rules) = map (\<lambda>i. 1000 - int i) [0 ..< length (vm_rules demo_two_rules)]"
    by (simp_all add: demo_two_rules_def demo_rule_def)
  obtain vm1 where vm1: "removeRule ''rule'' demo_two_rules = Inr vm1" "vm_targets vm1 = vm_targets demo_two_rules"
    by (simp add: removeRule_def demo_two_rules_def order_rules_def)
  obtain vm2 where vm2: "addRule ''r3'' 9 ''new'' ''a'' (demo_model ''a'') None (JObj []) None vm1 = Inr vm2"
    by (simp add: addRule_def assertCandidate_def vm1(2) demo_two_rules_def demo_virtual_model_def)
  from default_priority_collides [OF r(3,4), of 0, unfolded r(1,2), OF _ vm1(1) vm2] vm1(1) vm2 show ?thesis by auto
qed

definition demo_new_model :: VirtualModel where
  "demo_new_model = \<lparr>vm_id = ''v2'', vm_name = ''next'', vm_displayName = ''next'', vm_description = None,
     vm_taskType = ''CHAT'', vm_enabled = False, vm_defaultModelId = None, vm_timezone = ''UTC'', vm_targets = [], vm_rules = []\<rparr>"

theorem virtual_model_targets_sound_witness:
  "\<exists>vm. addTarget [demo_model ''a''] ''ta'' 1 ''a'' None (Some (1 / 2)) demo_new_model = Inr vm \<and>
     length (vm_targets vm) = 1 \<and> list_all (\<lambda>t. 0 < ta_number t \<and> ta_number t \<le> 1000) (vm_targets vm)"
proof -
  have "js_trim ''next'' = ''next''" "stableName ''next''" "js_upper ''chat'' = ''CHAT''" by code_simp+
  then have "create_vm [demo_model ''a''] [] ''v2'' ''UTC'' ''next'' None ''chat'' None = Inr demo_new_model"
    by (simp add: create_vm_def demo_new_model_def)
  then have "vm_reachable demo_snapshot_env [demo_model ''a''] demo_new_model" by (rule vm_reachable.created)
  moreover obtain vm where vm: "addTarget [demo_model ''a''] ''ta'' 1 ''a'' None (Some (1 / 2)) demo_new_model = Inr vm"
    "length (vm_targets vm) = 1"
    by (simp add: addTarget_def assertModel_def demo_new_model_def demo_lower find_unique_def demo_model_def demo_connection_def
        weight_column_def half_up_def Let_def)
  ultimately have "vm_reachable demo_snapshot_env [demo_model ''a''] vm"
    by (intro vm_reachable.stepped [OF _ vm_step.step_add_target [OF vm(1)]]) (auto simp: demo_new_model_def)
  from virtual_model_targets_sound [OF this] vm show ?thesis by blast
qed

end
