(* ===== verification/LeaseQueue.thy ===== *)
theory LeaseQueue
  imports Prelude "HOL-Library.Product_Lexorder"
begin

text \<open>
  The lease protocol the two work tables share (\<open>ingestion_inbox\<close> and \<open>pipeline_outbox\<close> of
  \<open>packages/db/prisma/schema/32-usage-pipeline.prisma\<close>): a worker leases a batch of due rows
  under a fresh owner token, and every later write of that worker carries the token and a
  deadline in its \<open>WHERE\<close> clause.

  \<open>LeasedRow\<close> holds the columns the protocol reads; the inbox and the outbox rows extend it.
  Instants are microseconds (\<open>timestamptz(6)\<close>).  The locale \<open>lease_table\<close> states what a
  worker may rely on, \<open>lease_map\<close> is the abstract view of who holds what, and both are used
  for the inbox and for the outbox.
\<close>

subsection \<open>Rows\<close>

text \<open>\<open>InboxStatus\<close> has \<open>Completed\<close> where \<open>OutboxStatus\<close> has \<open>Sent\<close>.\<close>

datatype QueueStatus = Pending | Leased | Completed | Sent | Failed | DeadLetter

record 'k LeasedRow =
  lr_id :: 'k
  lr_status :: QueueStatus
  lr_attemptCount :: int
  lr_availableAt :: int
  lr_nextRetryAt :: "int option"
  lr_leaseOwner :: "string option"
  lr_leaseExpiresAt :: "int option"
  lr_lastError :: "string option"

subsection \<open>Leasing\<close>

text \<open>The candidate condition of both leasing statements; a comparison with \<open>NULL\<close> is not true.\<close>

definition leasable :: "int \<Rightarrow> ('k, 'a) LeasedRow_scheme \<Rightarrow> bool" where
  "leasable now r \<longleftrightarrow>
     (lr_status r \<in> {Pending, Failed} \<and> lr_availableAt r \<le> now \<and>
      (case lr_nextRetryAt r of None \<Rightarrow> lr_availableAt r | Some t \<Rightarrow> t) \<le> now) \<or>
     (lr_status r = Leased \<and> (case lr_leaseExpiresAt r of None \<Rightarrow> False | Some e \<Rightarrow> e \<le> now))"

text \<open>\<open>ORDER BY available_at, id FOR UPDATE SKIP LOCKED LIMIT\<close>: \<open>locked\<close> are the rows other
  transactions hold.\<close>

definition lease_candidates ::
  "('k::linorder \<Rightarrow> bool) \<Rightarrow> (('k, 'a) LeasedRow_scheme \<Rightarrow> bool) \<Rightarrow> nat \<Rightarrow> int \<Rightarrow> ('k, 'a) LeasedRow_scheme list \<Rightarrow>
   'k list" where
  "lease_candidates locked eligible limit now rows =
     map lr_id (take limit (sort_key (\<lambda>r. (lr_availableAt r, lr_id r))
       (filter (\<lambda>r. eligible r \<and> leasable now r \<and> \<not> locked (lr_id r)) rows)))"

definition acquired ::
  "('k \<Rightarrow> string) \<Rightarrow> int \<Rightarrow> ('k, 'a) LeasedRow_scheme \<Rightarrow> ('k, 'a) LeasedRow_scheme" where
  "acquired owner expires r =
     r\<lparr>lr_status := Leased, lr_attemptCount := lr_attemptCount r + 1, lr_leaseOwner := Some (owner (lr_id r)),
       lr_leaseExpiresAt := Some expires, lr_nextRetryAt := None, lr_lastError := None\<rparr>"

definition acquire_rows ::
  "'k set \<Rightarrow> ('k \<Rightarrow> string) \<Rightarrow> int \<Rightarrow> ('k, 'a) LeasedRow_scheme list \<Rightarrow> ('k, 'a) LeasedRow_scheme list" where
  "acquire_rows ids owner expires rows = update_rows (\<lambda>r. lr_id r \<in> ids) (acquired owner expires) rows"

subsection \<open>Fenced writes\<close>

definition fenced :: "'k \<Rightarrow> string \<Rightarrow> int \<Rightarrow> ('k, 'a) LeasedRow_scheme \<Rightarrow> bool" where
  "fenced k owner now r \<longleftrightarrow>
     lr_id r = k \<and> lr_status r = Leased \<and> lr_leaseOwner r = Some owner \<and>
     (case lr_leaseExpiresAt r of None \<Rightarrow> False | Some e \<Rightarrow> now < e)"

definition fenced_write ::
  "'k \<Rightarrow> string \<Rightarrow> int \<Rightarrow> (('k, 'a) LeasedRow_scheme \<Rightarrow> ('k, 'a) LeasedRow_scheme) \<Rightarrow>
   ('k, 'a) LeasedRow_scheme list \<Rightarrow> ('k, 'a) LeasedRow_scheme list option" where
  "fenced_write k owner now g rows =
     (if count_rows (fenced k owner now) rows \<noteq> 1 then None
      else Some (update_rows (fenced k owner now) g rows))"

subsection \<open>The abstract view\<close>

text \<open>Who holds which row, and until when.\<close>

type_synonym 'k lease_map = "'k \<Rightarrow> (string \<times> int) option"

definition row_lease :: "('k, 'a) LeasedRow_scheme \<Rightarrow> (string \<times> int) option" where
  "row_lease r =
     (if lr_status r = Leased
      then case (lr_leaseOwner r, lr_leaseExpiresAt r) of (Some w, Some e) \<Rightarrow> Some (w, e) | _ \<Rightarrow> None
      else None)"

definition leases :: "('k, 'a) LeasedRow_scheme list \<Rightarrow> 'k lease_map" where
  "leases rows k = (case find_unique (\<lambda>r. lr_id r = k) rows of None \<Rightarrow> None | Some r \<Rightarrow> row_lease r)"

definition live :: "'k lease_map \<Rightarrow> 'k \<Rightarrow> string \<Rightarrow> int \<Rightarrow> bool" where
  "live m k owner now \<longleftrightarrow> (\<exists>e. m k = Some (owner, e) \<and> now < e)"

text \<open>What a service asks of the table, and at which instant: rows for new owners with a deadline, more
  time for a holder, the end of a holder's work, and the console's replay of one row.\<close>

datatype 'k lease_action =
    Act_grant int "'k \<Rightarrow> string" int
  | Act_extend int 'k string
  | Act_release int 'k string
  | Act_revoke 'k
  | Act_idle

definition due_ids :: "int \<Rightarrow> ('k, 'a) LeasedRow_scheme list \<Rightarrow> 'k set" where
  "due_ids now rows = lr_id ` {r \<in> set rows. leasable now r}"

subsection \<open>What a worker may rely on\<close>

text \<open>
  \<open>take\<close> hands out leases, \<open>write\<close> is any guarded statement.  A live lease excludes every
  other owner, a guarded write goes through exactly when the lease is live, and a row is
  handed out only when nobody holds it.
\<close>

locale lease_table =
  fixes view :: "'q \<Rightarrow> 'k lease_map"
    and acquire :: "'k set \<Rightarrow> ('k \<Rightarrow> string) \<Rightarrow> int \<Rightarrow> 'q \<Rightarrow> 'q"
    and due :: "int \<Rightarrow> 'q \<Rightarrow> 'k set"
    and guarded :: "'k \<Rightarrow> string \<Rightarrow> int \<Rightarrow> 'q \<Rightarrow> bool"
    and ok :: "'q \<Rightarrow> bool"
  assumes guarded_iff: "ok q \<Longrightarrow> guarded k w now q \<longleftrightarrow> live (view q) k w now"
    and acquire_view: "ok q \<Longrightarrow> ks \<subseteq> due now q \<Longrightarrow>
      view (acquire ks own e q) = (\<lambda>k. if k \<in> ks then Some (own k, e) else view q k)"
    and due_free: "ok q \<Longrightarrow> k \<in> due now q \<Longrightarrow> \<not> live (view q) k w now"
    and acquire_ok: "ok q \<Longrightarrow> ok (acquire ks own e q)"
begin

lemma one_holder: "ok q \<Longrightarrow> guarded k w now q \<Longrightarrow> guarded k w' now q \<Longrightarrow> w = w'"
  by (auto simp: guarded_iff live_def)

lemma takeover_fences:
  assumes "ok q" and "ks \<subseteq> due now q" and "k \<in> ks" and "w \<noteq> own k"
  shows "\<not> guarded k w later (acquire ks own e q)"
  using assms by (simp add: guarded_iff acquire_ok acquire_view live_def)

lemma takeover_grants:
  assumes "ok q" and "ks \<subseteq> due now q" and "k \<in> ks" and "later < e"
  shows "guarded k (own k) later (acquire ks own e q)"
  using assms by (simp add: guarded_iff acquire_ok acquire_view live_def)

lemma others_keep:
  assumes "ok q" and "ks \<subseteq> due now q" and "guarded k w now q"
  shows "guarded k w later (acquire ks own e q) \<longleftrightarrow> guarded k w later q"
proof -
  have "k \<notin> ks" using assms due_free guarded_iff by blast
  then show ?thesis using assms by (simp add: guarded_iff acquire_ok acquire_view live_def)
qed

end

subsection \<open>Lemmas\<close>

lemma fenced_id: "fenced k w now r \<Longrightarrow> lr_id r = k"
  by (simp add: fenced_def)

lemma fenced_row_lease: "fenced k w now r \<longleftrightarrow> lr_id r = k \<and> (\<exists>e. row_lease r = Some (w, e) \<and> now < e)"
  by (auto simp: fenced_def row_lease_def split: option.splits)

lemma find_row:
  assumes "distinct (map lr_id rows)" and "r \<in> set rows"
  shows "find_unique (\<lambda>x. lr_id x = lr_id r) rows = Some r"
proof -
  obtain x where x: "find_unique (\<lambda>x. lr_id x = lr_id r) rows = Some x"
    using assms(2) find_unique_None [of "\<lambda>x. lr_id x = lr_id r" rows] by (cases "find_unique (\<lambda>x. lr_id x = lr_id r) rows") auto
  have "x = r" using find_unique_SomeD [OF x] distinct_map_inj [OF assms(1) _ assms(2)] by blast
  then show ?thesis using x by simp
qed

lemma leases_row:
  assumes "distinct (map lr_id rows)" and "r \<in> set rows"
  shows "leases rows (lr_id r) = row_lease r"
  by (simp add: leases_def find_row [OF assms])

lemma leases_absent: "k \<notin> lr_id ` set rows \<Longrightarrow> leases rows k = None"
  by (auto simp: leases_def find_unique_None image_iff split: option.splits dest: find_unique_SomeD)

lemma fenced_live:
  assumes "distinct (map lr_id rows)"
  shows "(\<exists>r \<in> set rows. fenced k w now r) \<longleftrightarrow> live (leases rows) k w now"
proof (cases "k \<in> lr_id ` set rows")
  case True
  then obtain r where r: "r \<in> set rows" "k = lr_id r" by auto
  have "(\<exists>x \<in> set rows. fenced k w now x) \<longleftrightarrow> fenced k w now r"
    using r distinct_map_inj [OF assms _ r(1)] by (auto dest: fenced_id)
  then show ?thesis using r leases_row [OF assms r(1)] by (simp add: fenced_row_lease live_def)
next
  case False
  then show ?thesis by (auto simp: leases_absent live_def dest: fenced_id)
qed

lemma count_fenced:
  assumes "distinct (map lr_id rows)"
  shows "count_rows (fenced k w now) rows = 1 \<longleftrightarrow> live (leases rows) k w now"
proof (cases "\<exists>r \<in> set rows. fenced k w now r")
  case True
  then obtain r where r: "r \<in> set rows" "fenced k w now r" by blast
  have "count_rows (fenced k w now) rows = 1 \<longleftrightarrow> fenced k w now r"
    by (rule count_rows_one_iff [OF assms r(1)]) (use r(2) in \<open>simp add: fenced_id\<close>)
  then show ?thesis using r fenced_live [OF assms, of k w now] by blast
next
  case False
  then have "count_rows (fenced k w now) rows \<noteq> 1" using count_rows_oneD by blast
  then show ?thesis using False fenced_live [OF assms, of k w now] by blast
qed

lemma fenced_write_iff:
  "distinct (map lr_id rows) \<Longrightarrow> fenced_write k w now g rows \<noteq> None \<longleftrightarrow> live (leases rows) k w now"
  using count_fenced [of rows k w now] by (simp add: fenced_write_def)

lemma fenced_write_eq:
  "fenced_write k w now g rows = Some rows' \<Longrightarrow> rows' = update_rows (fenced k w now) g rows"
  by (simp add: fenced_write_def split: if_splits)

lemma map_id_update: "(\<And>r. lr_id (g r) = lr_id r) \<Longrightarrow> map lr_id (update_rows p g rows) = map lr_id rows"
  by (rule map_update_rows_frame) simp

lemma leases_update:
  assumes d: "distinct (map lr_id rows)" and g: "\<And>r. lr_id (g r) = lr_id r"
  shows "leases (update_rows p g rows) k =
    (case find_unique (\<lambda>r. lr_id r = k) rows of None \<Rightarrow> None
     | Some r \<Rightarrow> row_lease (if p r then g r else r))"
proof (cases "find_unique (\<lambda>r. lr_id r = k) rows")
  case None
  then have "k \<notin> lr_id ` set rows" by (auto simp: find_unique_None)
  then have "k \<notin> lr_id ` set (update_rows p g rows)" using g by (auto simp: set_update_rows split: if_splits)
  then show ?thesis using None by (simp add: leases_absent)
next
  case (Some r)
  then have r: "r \<in> set rows" "lr_id r = k" by (auto dest: find_unique_SomeD)
  let ?x = "if p r then g r else r"
  have "?x \<in> set (update_rows p g rows)" using r(1) by (auto simp: set_update_rows)
  moreover have "distinct (map lr_id (update_rows p g rows))" using d by (simp add: map_id_update [OF g])
  ultimately have "leases (update_rows p g rows) (lr_id ?x) = row_lease ?x" by (rule leases_row [rotated])
  then show ?thesis using Some r g by auto
qed

text \<open>The effect of a guarded write on who holds what.\<close>

lemma leases_fenced_write:
  assumes d: "distinct (map lr_id rows)" and g: "\<And>r. lr_id (g r) = lr_id r"
    and w: "fenced_write k w now g rows = Some rows'"
  obtains r where "r \<in> set rows" "fenced k w now r" "leases rows' = (leases rows)(k := row_lease (g r))"
proof -
  have eq: "rows' = update_rows (fenced k w now) g rows" by (rule fenced_write_eq [OF w])
  have "count_rows (fenced k w now) rows = 1" using w by (simp add: fenced_write_def split: if_splits)
  then obtain r where r: "r \<in> set rows" "fenced k w now r" using count_rows_oneD by blast
  have k: "lr_id r = k" using r(2) by (rule fenced_id)
  have "leases rows' x = ((leases rows)(k := row_lease (g r))) x" for x
  proof (cases "x = k")
    case True
    then show ?thesis
      using find_row [OF d r(1)] r(2) k unfolding eq leases_update [OF d g] by simp
  next
    case False
    have "\<not> fenced k w now y" if "find_unique (\<lambda>r. lr_id r = x) rows = Some y" for y
      using find_unique_SomeD [OF that] False by (auto dest: fenced_id)
    then show ?thesis
      using False unfolding eq leases_update [OF d g] by (auto simp: leases_def split: option.splits)
  qed
  then show thesis using r that by blast
qed

lemma row_lease_acquired: "row_lease (acquired own e r) = Some (own (lr_id r), e)"
  by (simp add: row_lease_def acquired_def)

lemma lr_id_acquired [simp]: "lr_id (acquired own e r) = lr_id r"
  by (simp add: acquired_def)

lemma map_id_acquire [simp]: "map lr_id (acquire_rows ks own e rows) = map lr_id rows"
  by (simp add: acquire_rows_def map_id_update)

lemma leases_acquire:
  assumes d: "distinct (map lr_id rows)" and ks: "ks \<subseteq> lr_id ` set rows"
  shows "leases (acquire_rows ks own e rows) = (\<lambda>k. if k \<in> ks then Some (own k, e) else leases rows k)"
proof
  fix k
  show "leases (acquire_rows ks own e rows) k = (if k \<in> ks then Some (own k, e) else leases rows k)"
  proof (cases "find_unique (\<lambda>r. lr_id r = k) rows")
    case None
    then have "k \<notin> ks" using ks by (auto simp: find_unique_None)
    then show ?thesis
      using None by (simp add: acquire_rows_def leases_update [OF d]) (simp add: leases_def)
  next
    case (Some r)
    then have "lr_id r = k" by (auto dest: find_unique_SomeD)
    then show ?thesis
      using Some by (simp add: acquire_rows_def leases_update [OF d] row_lease_acquired) (simp add: leases_def)
  qed
qed

lemma leasable_free: "leasable now r \<Longrightarrow> \<not> (\<exists>e. row_lease r = Some (w, e) \<and> now < e)"
  by (auto simp: leasable_def row_lease_def split: option.splits)

lemma due_ids_free:
  assumes "distinct (map lr_id rows)" and "k \<in> due_ids now rows"
  shows "\<not> live (leases rows) k w now"
proof -
  obtain r where r: "r \<in> set rows" "leasable now r" "k = lr_id r" using assms(2) by (auto simp: due_ids_def)
  show ?thesis using leasable_free [OF r(2)] by (simp add: live_def r(3) leases_row [OF assms(1) r(1)])
qed

lemma candidates_due: "set (lease_candidates locked el limit now rows) \<subseteq> due_ids now rows"
proof -
  have "set (take limit (sort_key f (filter p rows))) \<subseteq> {r \<in> set rows. p r}" for f :: "_ \<Rightarrow> _::linorder" and p
    using set_take_subset [of limit "sort_key f (filter p rows)"] by auto
  then show ?thesis unfolding lease_candidates_def due_ids_def by fastforce
qed

text \<open>Any table of rows with distinct ids keeps the contract.\<close>

interpretation lease_rows: lease_table
  "leases :: ('k, 'a) LeasedRow_scheme list \<Rightarrow> 'k lease_map" acquire_rows due_ids
  "\<lambda>k w now rows. fenced_write k w now id rows \<noteq> None" "\<lambda>rows. distinct (map lr_id rows)"
proof unfold_locales
  fix q :: "('k, 'a) LeasedRow_scheme list" and k w now ks own e
  assume d: "distinct (map lr_id q)"
  show "(fenced_write k w now id q \<noteq> None) = live (leases q) k w now"
    by (rule fenced_write_iff [OF d])
  show "distinct (map lr_id (acquire_rows ks own e q))" using d by simp
  show "leases (acquire_rows ks own e q) = (\<lambda>k. if k \<in> ks then Some (own k, e) else leases q k)"
    if "ks \<subseteq> due_ids now q"
    by (rule leases_acquire [OF d]) (use that in \<open>auto simp: due_ids_def\<close>)
  show "\<not> live (leases q) k w now" if "k \<in> due_ids now q"
    by (rule due_ids_free [OF d that])
qed

end
