(* ===== verification/PipelineErrors.thy ===== *)
theory PipelineErrors
  imports JsValues
begin

text \<open>
  Stages, thrown values and their classification: \<open>PIPELINE_STAGES\<close> of
  \<open>apps/worker/src/pipeline/types.ts\<close> and \<open>apps/worker/src/pipeline/errors.ts\<close>.

  A thrown value is one of the two pipeline errors, a \<open>ZodError\<close>, any other object, or a
  primitive.  Objects live in a store, since the walk over an error's envelope keeps a set of
  visited objects and errors can refer to each other in cycles.
\<close>

subsection \<open>Stages\<close>

datatype PipelineStage =
    Stage_received | Stage_normalized | Stage_model_resolved | Stage_provider_cost_rated | Stage_aiu_rated
  | Stage_quota_settled | Stage_official_committed | Stage_outbox_created | Stage_completed | Stage_dead_letter

definition PIPELINE_STAGES :: "PipelineStage list" where
  "PIPELINE_STAGES =
     [Stage_received, Stage_normalized, Stage_model_resolved, Stage_provider_cost_rated, Stage_aiu_rated,
      Stage_quota_settled, Stage_official_committed, Stage_outbox_created, Stage_completed, Stage_dead_letter]"

fun indexOf :: "'a list \<Rightarrow> 'a \<Rightarrow> nat" where
  "indexOf [] x = 0"
| "indexOf (y # ys) x = (if y = x then 0 else Suc (indexOf ys x))"

definition stageRank :: "PipelineStage \<Rightarrow> nat" where
  "stageRank s = indexOf PIPELINE_STAGES s"

definition stage_text :: "PipelineStage \<Rightarrow> string" where
  "stage_text s = (case s of
     Stage_received \<Rightarrow> ''received'' | Stage_normalized \<Rightarrow> ''normalized''
   | Stage_model_resolved \<Rightarrow> ''model_resolved'' | Stage_provider_cost_rated \<Rightarrow> ''provider_cost_rated''
   | Stage_aiu_rated \<Rightarrow> ''aiu_rated'' | Stage_quota_settled \<Rightarrow> ''quota_settled''
   | Stage_official_committed \<Rightarrow> ''official_committed'' | Stage_outbox_created \<Rightarrow> ''outbox_created''
   | Stage_completed \<Rightarrow> ''completed'' | Stage_dead_letter \<Rightarrow> ''dead_letter'')"

lemma stageRank_simps [simp]:
  "stageRank Stage_received = 0" "stageRank Stage_normalized = 1" "stageRank Stage_model_resolved = 2"
  "stageRank Stage_provider_cost_rated = 3" "stageRank Stage_aiu_rated = 4" "stageRank Stage_quota_settled = 5"
  "stageRank Stage_official_committed = 6" "stageRank Stage_outbox_created = 7" "stageRank Stage_completed = 8"
  "stageRank Stage_dead_letter = 9"
  by (simp_all add: stageRank_def PIPELINE_STAGES_def)

lemma stageRank_inj: "stageRank a = stageRank b \<longleftrightarrow> a = b"
  by (cases a; cases b) simp_all

text \<open>The stages in the order of \<open>PIPELINE_STAGES\<close>.\<close>

instantiation PipelineStage :: linorder
begin

definition less_eq_PipelineStage :: "PipelineStage \<Rightarrow> PipelineStage \<Rightarrow> bool" where
  "less_eq_PipelineStage a b \<longleftrightarrow> stageRank a \<le> stageRank b"

definition less_PipelineStage :: "PipelineStage \<Rightarrow> PipelineStage \<Rightarrow> bool" where
  "less_PipelineStage a b \<longleftrightarrow> stageRank a < stageRank b"

instance
  by standard (auto simp: less_eq_PipelineStage_def less_PipelineStage_def stageRank_inj)

end

subsection \<open>Thrown values\<close>

text \<open>The members of an error object that are strings, and the objects its envelope members
  refer to; \<open>eo_class\<close> is the constructor name of an \<open>Error\<close>.\<close>

record err_object =
  eo_class :: "string option"
  eo_message :: string
  eo_code :: "string option"
  eo_originalCode :: "string option"
  eo_sqlState :: "string option"
  eo_meta :: "nat option"
  eo_cause :: "nat option"
  eo_driverAdapterError :: "nat option"

datatype thrown =
    PermanentPipelineError string string json
  | RetryablePipelineError string string json
  | ZodErrorThrown json
  | ErrorObject "nat \<Rightarrow> err_object" nat
  | PrimitiveThrown

definition plain_error :: "string \<Rightarrow> string \<Rightarrow> string option \<Rightarrow> err_object" where
  "plain_error cls message code =
     \<lparr>eo_class = Some cls, eo_message = message, eo_code = code, eo_originalCode = None, eo_sqlState = None,
      eo_meta = None, eo_cause = None, eo_driverAdapterError = None\<rparr>"

definition js_error :: "string \<Rightarrow> string \<Rightarrow> thrown" where
  "js_error cls message = ErrorObject (\<lambda>_. plain_error cls message None) 0"

definition db_error :: "string \<Rightarrow> string \<Rightarrow> thrown" where
  "db_error code message = ErrorObject (\<lambda>_. plain_error ''PrismaClientKnownRequestError'' message (Some code)) 0"

record PipelineFailure =
  pf_code :: string
  pf_errorClass :: string
  pf_message :: string
  pf_retryable :: bool
  pf_details :: json

subsection \<open>Classification\<close>

definition RETRYABLE_DATABASE_CODES :: "string list" where
  "RETRYABLE_DATABASE_CODES =
     [''P1001'', ''P1002'', ''P1008'', ''P1017'', ''P2024'', ''P2034'', ''40001'', ''40P01'', ''53300'', ''57P01'',
      ''57P02'', ''57P03'']"

definition own_codes :: "err_object \<Rightarrow> string list" where
  "own_codes v = concat (map (\<lambda>c. case c of None \<Rightarrow> [] | Some s \<Rightarrow> if s = [] then [] else [s])
     [eo_code v, eo_originalCode v, eo_sqlState v])"

text \<open>\<open>levels\<close> is what is left of the depth limit: the walk starts with five, for depths 0 to 4.\<close>

fun collectErrorCodes ::
  "(nat \<Rightarrow> err_object) \<Rightarrow> nat \<Rightarrow> nat option \<Rightarrow> string list \<times> nat list \<Rightarrow> string list \<times> nat list" where
  "collectErrorCodes heap levels None acc = acc"
| "collectErrorCodes heap 0 (Some a) acc = acc"
| "collectErrorCodes heap (Suc n) (Some a) (candidates, visited) =
     (if a \<in> set visited then (candidates, visited)
      else
        (let v = heap a;
             acc0 = (candidates @ own_codes v, a # visited);
             acc1 = collectErrorCodes heap n (eo_meta v) acc0;
             acc2 = collectErrorCodes heap n (eo_cause v) acc1
         in collectErrorCodes heap n (eo_driverAdapterError v) acc2))"

definition errorCode :: "(nat \<Rightarrow> err_object) \<Rightarrow> nat \<Rightarrow> string option" where
  "errorCode heap a =
     (let candidates = fst (collectErrorCodes heap 5 (Some a) ([], [])) in
      case List.find (\<lambda>c. c \<in> set RETRYABLE_DATABASE_CODES) candidates of
        Some c \<Rightarrow> Some c
      | None \<Rightarrow> (case candidates of [] \<Rightarrow> None | c # _ \<Rightarrow> Some c))"

definition stage_details :: "PipelineStage \<Rightarrow> json" where
  "stage_details s = JObj [(''stage'', JStr (stage_text s))]"

definition classifyPipelineError :: "thrown \<Rightarrow> PipelineStage \<Rightarrow> PipelineFailure" where
  "classifyPipelineError error stage = (case error of
     PermanentPipelineError code message details \<Rightarrow>
       \<lparr>pf_code = code, pf_errorClass = ''PermanentPipelineError'', pf_message = message, pf_retryable = False,
        pf_details = details\<rparr>
   | RetryablePipelineError code message details \<Rightarrow>
       \<lparr>pf_code = code, pf_errorClass = ''RetryablePipelineError'', pf_message = message, pf_retryable = True,
        pf_details = details\<rparr>
   | ZodErrorThrown issues \<Rightarrow>
       \<lparr>pf_code = ''INVALID_USAGE_PAYLOAD'', pf_errorClass = ''ZodError'',
        pf_message = ''Inbox payload no longer satisfies Usage Event'', pf_retryable = False,
        pf_details = JObj [(''stage'', JStr (stage_text stage)), (''issues'', issues)]\<rparr>
   | ErrorObject heap a \<Rightarrow>
       (let code = errorCode heap a;
            retryable = (case code of None \<Rightarrow> False | Some c \<Rightarrow> c \<in> set RETRYABLE_DATABASE_CODES) in
        \<lparr>pf_code = (case code of None \<Rightarrow> ''PIPELINE_STAGE_FAILURE'' | Some c \<Rightarrow> c),
         pf_errorClass = (case eo_class (heap a) of None \<Rightarrow> ''UnknownPipelineError'' | Some c \<Rightarrow> c),
         pf_message = (if eo_class (heap a) = None then ''Unknown pipeline failure'' else eo_message (heap a)),
         pf_retryable = retryable, pf_details = stage_details stage\<rparr>)
   | PrimitiveThrown \<Rightarrow>
       \<lparr>pf_code = ''PIPELINE_STAGE_FAILURE'', pf_errorClass = ''UnknownPipelineError'',
        pf_message = ''Unknown pipeline failure'', pf_retryable = False, pf_details = stage_details stage\<rparr>)"

text \<open>\<open>retryDelayMs\<close>, in milliseconds.  The products stay far below \<open>2\<^sup>5\<^sup>3\<close> for the delays the
  services configure, so the arithmetic on doubles is exact.\<close>

definition retryDelayMs :: "int \<Rightarrow> int \<Rightarrow> int \<Rightarrow> int" where
  "retryDelayMs attemptCount baseDelayMs maximumMs =
     (let exponent = nat (max 0 (min 20 (attemptCount - 1))) in min maximumMs (baseDelayMs * 2 ^ exponent))"

subsection \<open>Lemmas\<close>

text \<open>Every code the walk collects belongs to an object of the envelope.\<close>

inductive envelope :: "(nat \<Rightarrow> err_object) \<Rightarrow> nat \<Rightarrow> nat \<Rightarrow> bool" for heap where
  here: "envelope heap a a"
| nested: "Some b \<in> {eo_meta (heap a), eo_cause (heap a), eo_driverAdapterError (heap a)} \<Longrightarrow>
    envelope heap b c \<Longrightarrow> envelope heap a c"

definition envelope_codes :: "(nat \<Rightarrow> err_object) \<Rightarrow> nat option \<Rightarrow> string set" where
  "envelope_codes heap v = {c. \<exists>a b. v = Some a \<and> envelope heap a b \<and> c \<in> set (own_codes (heap b))}"

lemma envelope_codes_nested:
  "w \<in> {eo_meta (heap a), eo_cause (heap a), eo_driverAdapterError (heap a)} \<Longrightarrow>
    envelope_codes heap w \<subseteq> envelope_codes heap (Some a)"
  by (auto simp: envelope_codes_def intro: envelope.nested)

lemma envelope_codes_here: "set (own_codes (heap a)) \<subseteq> envelope_codes heap (Some a)"
  by (auto simp: envelope_codes_def intro: envelope.here)

lemma collect_step:
  "a \<notin> set visited \<Longrightarrow> collectErrorCodes heap (Suc n) (Some a) (candidates, visited) =
     collectErrorCodes heap n (eo_driverAdapterError (heap a))
       (collectErrorCodes heap n (eo_cause (heap a))
         (collectErrorCodes heap n (eo_meta (heap a)) (candidates @ own_codes (heap a), a # visited)))"
  by (simp add: Let_def)

lemma collect_sound:
  "set (fst (collectErrorCodes heap n v acc)) \<subseteq> set (fst acc) \<union> envelope_codes heap v"
proof (induction n arbitrary: v acc)
  case 0
  show ?case by (cases v) simp_all
next
  case (Suc n)
  obtain candidates visited where acc: "acc = (candidates, visited)" by (cases acc)
  show ?case
  proof (cases v)
    case (Some a)
    show ?thesis
    proof (cases "a \<in> set visited")
      case False
      let ?v = "heap a" and ?acc0 = "(candidates @ own_codes (heap a), a # visited)"
      let ?acc1 = "collectErrorCodes heap n (eo_meta ?v) ?acc0"
      let ?acc2 = "collectErrorCodes heap n (eo_cause ?v) ?acc1"
      have "set (fst ?acc1) \<subseteq> set candidates \<union> envelope_codes heap (Some a)"
        using Suc.IH [of "eo_meta ?v" ?acc0] envelope_codes_nested [of "eo_meta ?v" heap a] envelope_codes_here [of heap a]
        by simp blast
      moreover have "set (fst ?acc2) \<subseteq> set (fst ?acc1) \<union> envelope_codes heap (Some a)"
        using Suc.IH [of "eo_cause ?v" ?acc1] envelope_codes_nested [of "eo_cause ?v" heap a] by blast
      moreover have "set (fst (collectErrorCodes heap n (eo_driverAdapterError ?v) ?acc2)) \<subseteq>
          set (fst ?acc2) \<union> envelope_codes heap (Some a)"
        using Suc.IH [of "eo_driverAdapterError ?v" ?acc2] envelope_codes_nested [of "eo_driverAdapterError ?v" heap a]
        by blast
      ultimately show ?thesis unfolding Some acc collect_step [OF False] fst_conv by blast
    qed (simp add: Some acc)
  qed simp
qed

lemma collect_mono: "set (fst acc) \<subseteq> set (fst (collectErrorCodes heap n v acc))"
proof (induction n arbitrary: v acc)
  case 0
  show ?case by (cases v) simp_all
next
  case (Suc n)
  obtain candidates visited where acc: "acc = (candidates, visited)" by (cases acc)
  show ?case
  proof (cases v)
    case (Some a)
    show ?thesis
    proof (cases "a \<in> set visited")
      case False
      let ?v = "heap a" and ?acc0 = "(candidates @ own_codes (heap a), a # visited)"
      let ?acc1 = "collectErrorCodes heap n (eo_meta ?v) ?acc0"
      have "set candidates \<subseteq> set (fst ?acc1)" using Suc.IH [of ?acc0 "eo_meta ?v"] by simp
      then show ?thesis
        unfolding Some acc collect_step [OF False] fst_conv
        using Suc.IH [of ?acc1 "eo_cause ?v"] Suc.IH [of "collectErrorCodes heap n (eo_cause ?v) ?acc1" "eo_driverAdapterError ?v"]
        by blast
    qed (simp add: Some acc)
  qed simp
qed

lemma retryable_iff:
  "pf_retryable (classifyPipelineError (ErrorObject heap a) stage) \<longleftrightarrow>
     (\<exists>c \<in> set (fst (collectErrorCodes heap 5 (Some a) ([], []))). c \<in> set RETRYABLE_DATABASE_CODES)"
proof -
  let ?cs = "fst (collectErrorCodes heap 5 (Some a) ([], []))"
  show ?thesis
  proof (cases "List.find (\<lambda>c. c \<in> set RETRYABLE_DATABASE_CODES) ?cs")
    case None
    then have "\<forall>c \<in> set ?cs. c \<notin> set RETRYABLE_DATABASE_CODES" by (simp add: find_None_iff)
    then show ?thesis
      using None by (auto simp: classifyPipelineError_def errorCode_def Let_def split: list.splits option.splits)
  next
    case (Some c)
    then have "c \<in> set ?cs \<and> c \<in> set RETRYABLE_DATABASE_CODES" by (auto simp: find_Some_iff)
    then show ?thesis
      using Some by (auto simp: classifyPipelineError_def errorCode_def Let_def split: list.splits option.splits)
  qed
qed

lemma own_code_found:
  assumes "eo_code (heap a) = Some c" and "c \<noteq> []"
  shows "c \<in> set (fst (collectErrorCodes heap 5 (Some a) ([], [])))"
proof -
  let ?acc0 = "([] @ own_codes (heap a), [a])"
  let ?acc1 = "collectErrorCodes heap 4 (eo_meta (heap a)) ?acc0"
  let ?acc2 = "collectErrorCodes heap 4 (eo_cause (heap a)) ?acc1"
  have "c \<in> set (fst ?acc0)" using assms by (simp add: own_codes_def)
  then have "c \<in> set (fst ?acc1)" by (rule subsetD [OF collect_mono])
  then have "c \<in> set (fst ?acc2)" by (rule subsetD [OF collect_mono])
  then have "c \<in> set (fst (collectErrorCodes heap 4 (eo_driverAdapterError (heap a)) ?acc2))"
    by (rule subsetD [OF collect_mono])
  then have "c \<in> set (fst (collectErrorCodes heap (Suc 4) (Some a) ([], [])))"
    by (subst collect_step) simp_all
  moreover have "Suc 4 = 5" by simp
  ultimately show ?thesis by (simp only:)
qed

lemma retryDelayMs_bounds:
  assumes "0 \<le> baseDelayMs" and "baseDelayMs \<le> maximumMs"
  shows "baseDelayMs \<le> retryDelayMs n baseDelayMs maximumMs" and "retryDelayMs n baseDelayMs maximumMs \<le> maximumMs"
proof -
  have "(1::int) \<le> 2 ^ k" for k :: nat by simp
  then have "baseDelayMs \<le> baseDelayMs * 2 ^ k" for k :: nat
    using mult_left_mono [of 1 "2 ^ k" baseDelayMs] assms(1) by simp
  then show "baseDelayMs \<le> retryDelayMs n baseDelayMs maximumMs" using assms(2) by (simp add: retryDelayMs_def Let_def)
qed (simp add: retryDelayMs_def Let_def)

lemma retryDelayMs_mono:
  assumes "0 \<le> baseDelayMs" and "n \<le> m"
  shows "retryDelayMs n baseDelayMs maximumMs \<le> retryDelayMs m baseDelayMs maximumMs"
proof -
  have "nat (max 0 (min 20 (n - 1))) \<le> nat (max 0 (min 20 (m - 1)))" using assms(2) by simp
  then have "baseDelayMs * 2 ^ nat (max 0 (min 20 (n - 1))) \<le> baseDelayMs * 2 ^ nat (max 0 (min 20 (m - 1)))"
    by (intro mult_left_mono power_increasing) (use assms(1) in simp_all)
  then show ?thesis unfolding retryDelayMs_def Let_def by (intro min.mono order_refl)
qed

end
