(* ===== verification/UsageContract.thy ===== *)
theory UsageContract
  imports RuntimeSnapshot Rating
begin

text \<open>
  The usage event contract and its normalization: \<open>packages/contracts/src/usage-event.ts\<close>,
  the primitives of \<open>primitives.ts\<close>, \<open>common.ts\<close> and \<open>usage-context.ts\<close> it is built from,
  and \<open>apps/worker/src/pipeline/normalization.ts\<close>.

  A schema is a predicate on JSON values: \<open>parse\<close> returns the value it was given or raises,
  since no schema here transforms its input.  The combinators below are the ones the
  sources use of \<open>zod\<close> 4: \<open>strictObject\<close> refuses unknown members, \<open>record\<close> checks every key
  and value, and \<open>safe\<close> on a number means a safe integer.  A JavaScript object never has two
  members of one name, so \<open>z_object\<close> and \<open>z_record\<close> require distinct member names.
\<close>

subsection \<open>Schema combinators\<close>

type_synonym schema = "json \<Rightarrow> bool"

definition z_string :: "(string \<Rightarrow> bool) \<Rightarrow> schema" where
  "z_string p j = (case j of JStr s \<Rightarrow> p s | _ \<Rightarrow> False)"

definition z_boolean :: schema where
  "z_boolean j = (case j of JBool b \<Rightarrow> True | _ \<Rightarrow> False)"

definition z_literal :: "json \<Rightarrow> schema" where
  "z_literal l j \<longleftrightarrow> j = l"

definition z_enum :: "string list \<Rightarrow> schema" where
  "z_enum values = z_string (\<lambda>s. s \<in> set values)"

definition z_nullable :: "schema \<Rightarrow> schema" where
  "z_nullable p j \<longleftrightarrow> j = JNull \<or> p j"

text \<open>\<open>z.number().int()\<close> of \<open>zod\<close> 4 accepts safe integers only.\<close>

definition z_int :: "(int \<Rightarrow> bool) \<Rightarrow> schema" where
  "z_int p j = (case json_int j of None \<Rightarrow> False | Some n \<Rightarrow> \<bar>n\<bar> \<le> 2 ^ 53 - 1 \<and> p n)"

definition z_array :: "schema \<Rightarrow> (json list \<Rightarrow> bool) \<Rightarrow> schema" where
  "z_array p q j = (case j of JArr xs \<Rightarrow> list_all p xs \<and> q xs | _ \<Rightarrow> False)"

definition z_record :: "(string \<Rightarrow> bool) \<Rightarrow> schema \<Rightarrow> ((string \<times> json) list \<Rightarrow> bool) \<Rightarrow> schema" where
  "z_record pk pv q j = (case j of
     JObj ms \<Rightarrow> distinct (map fst ms) \<and> list_all (\<lambda>(k, v). pk k \<and> pv v) ms \<and> q ms
   | _ \<Rightarrow> False)"

text \<open>A field is its name, whether it must be there, and the schema of its value.\<close>

type_synonym field = "string \<times> bool \<times> schema"

definition z_object :: "field list \<Rightarrow> schema" where
  "z_object fs j = (case j of
     JObj ms \<Rightarrow> distinct (map fst ms) \<and>
       list_all (\<lambda>(k, v). case map_of fs k of None \<Rightarrow> False | Some (_, p) \<Rightarrow> p v) ms \<and>
       list_all (\<lambda>(k, required, _). required \<longrightarrow> k \<in> set (map fst ms)) fs
   | _ \<Rightarrow> False)"

definition member :: "json \<Rightarrow> string \<Rightarrow> json option" where
  "member j k = (case j of JObj ms \<Rightarrow> map_of ms k | _ \<Rightarrow> None)"

subsection \<open>Primitives\<close>

definition bounded_string :: "nat \<Rightarrow> nat \<Rightarrow> schema" where
  "bounded_string lo hi = z_string (bounded_unicode lo hi)"

definition upper_letter :: "char \<Rightarrow> bool" where
  "upper_letter c \<longleftrightarrow> CHR ''A'' \<le> c \<and> c \<le> CHR ''Z''"

definition hex_digit :: "char \<Rightarrow> bool" where
  "hex_digit c \<longleftrightarrow> is_digit c \<or> CHR ''a'' \<le> c \<and> c \<le> CHR ''f'' \<or> CHR ''A'' \<le> c \<and> c \<le> CHR ''F''"

definition ulid :: "string \<Rightarrow> bool" where
  "ulid s \<longleftrightarrow> length s = 26 \<and> list_all (\<lambda>c. is_digit c \<or> upper_letter c \<and> c \<notin> set ''ILOU'') s"

definition hex_groups :: "nat list \<Rightarrow> string \<Rightarrow> bool" where
  "hex_groups sizes s \<longleftrightarrow>
     map length (split_on (CHR ''-'') s) = sizes \<and> list_all (list_all hex_digit) (split_on (CHR ''-'') s)"

definition uuid_v7 :: "string \<Rightarrow> bool" where
  "uuid_v7 s \<longleftrightarrow> hex_groups [8, 4, 4, 4, 12] s \<and> s ! 14 = CHR ''7'' \<and> s ! 19 \<in> set ''89ABab''"

definition eventIdSchema :: schema where
  "eventIdSchema = z_string (\<lambda>s. ulid s \<or> uuid_v7 s)"

definition opaqueIdSchema :: schema where
  "opaqueIdSchema = z_string opaque_id"

definition currencyCodeSchema :: schema where
  "currencyCodeSchema = z_string (\<lambda>s. length s = 3 \<and> list_all upper_letter s)"

text \<open>\<open>0\<close> or a digit string without leading zero, of at most \<open>n\<close> digits, then at most \<open>m\<close>
  digits after a point.\<close>

definition decimal_pattern :: "nat \<Rightarrow> nat \<Rightarrow> string \<Rightarrow> bool" where
  "decimal_pattern n m s =
     (let whole = (\<lambda>w. list_all is_digit w \<and> 1 \<le> length w \<and> length w \<le> n \<and> (hd w = CHR ''0'' \<longrightarrow> length w = 1));
          part = (\<lambda>f. list_all is_digit f \<and> 1 \<le> length f \<and> length f \<le> m) in
      case split_on (CHR ''.'') s of
        [w] \<Rightarrow> whole w | [w, f] \<Rightarrow> whole w \<and> part f | _ \<Rightarrow> False)"

definition decimal38_18Schema :: schema where
  "decimal38_18Schema = z_string (decimal_pattern 20 18)"

definition decimal38_9Schema :: schema where
  "decimal38_9Schema = z_string (decimal_pattern 29 9)"

definition unit_key :: "string \<Rightarrow> bool" where
  "unit_key s = (case s of
     [] \<Rightarrow> False
   | c # cs \<Rightarrow> lower_letter c \<and> length cs \<le> 127 \<and> list_all (\<lambda>x. lower_alnum x \<or> x \<in> set ''._-'') cs)"

definition source_path :: "string \<Rightarrow> bool" where
  "source_path s \<longleftrightarrow> 1 \<le> utf16_length s \<and> utf16_length s \<le> 256 \<and>
     list_all (\<lambda>c. id_char c \<or> c \<in> set ''_.$-[]'') s"

definition dimensionValueSchema :: schema where
  "dimensionValueSchema j \<longleftrightarrow> bounded_string 0 256 j \<or> z_int (\<lambda>_. True) j \<or> z_boolean j"

subsection \<open>Timestamps\<close>

definition isLeapYear :: "nat \<Rightarrow> bool" where
  "isLeapYear year \<longleftrightarrow> year mod 4 = 0 \<and> (year mod 100 \<noteq> 0 \<or> year mod 400 = 0)"

definition daysInMonth :: "nat \<Rightarrow> nat list" where
  "daysInMonth year = [31, if isLeapYear year then 29 else 28, 31, 30, 31, 30, 31, 31, 30, 31, 30, 31]"

text \<open>The text between the seconds and the final \<open>Z\<close>: nothing, or a point and one to nine
  digits.\<close>

definition utc_pattern :: "string \<Rightarrow> bool" where
  "utc_pattern s \<longleftrightarrow>
     20 \<le> length s \<and> last s = CHR ''Z'' \<and>
     list_all (\<lambda>i. is_digit (s ! i)) [0, 1, 2, 3, 5, 6, 8, 9, 11, 12, 14, 15, 17, 18] \<and>
     s ! 4 = CHR ''-'' \<and> s ! 7 = CHR ''-'' \<and> s ! 10 = CHR ''T'' \<and> s ! 13 = CHR '':'' \<and> s ! 16 = CHR '':'' \<and>
     (case drop 19 (butlast s) of
        [] \<Rightarrow> True
      | c # ds \<Rightarrow> c = CHR ''.'' \<and> 1 \<le> length ds \<and> length ds \<le> 9 \<and> list_all is_digit ds)"

definition digits_at :: "string \<Rightarrow> nat \<Rightarrow> nat \<Rightarrow> nat" where
  "digits_at s i n = (case js_Number (take n (drop i s)) of None \<Rightarrow> 0 | Some v \<Rightarrow> v)"

definition utcDateTimeSortKey :: "string \<Rightarrow> nat list option" where
  "utcDateTimeSortKey s =
     (if \<not> utc_pattern s then None
      else
        (let year = digits_at s 0 4; month = digits_at s 5 2; day = digits_at s 8 2;
             hour = digits_at s 11 2; minute = digits_at s 14 2; second = digits_at s 17 2;
             fraction = drop 20 (butlast s);
             nanosecond = digits_at (fraction @ replicate (9 - length fraction) (CHR ''0'')) 0 9 in
         if year = 0 \<or> month < 1 \<or> 12 < month \<or> day < 1 \<or> daysInMonth year ! (month - 1) < day \<or>
            23 < hour \<or> 59 < minute \<or> 59 < second
         then None
         else Some [year, month, day, hour, minute, second, nanosecond]))"

definition isRealUtcDateTime :: "string \<Rightarrow> bool" where
  "isRealUtcDateTime s \<longleftrightarrow> utcDateTimeSortKey s \<noteq> None"

definition utcTimestampSchema :: schema where
  "utcTimestampSchema = z_string isRealUtcDateTime"

subsection \<open>Properties and dimensions\<close>

text \<open>\<open>new Set(values).size === values.length\<close> on a list of strings.\<close>

definition propertyTextListSchema :: schema where
  "propertyTextListSchema = z_array (bounded_string 1 256) (\<lambda>xs. length xs \<le> 32 \<and> distinct xs)"

definition propertyValueSchema :: schema where
  "propertyValueSchema j \<longleftrightarrow>
     bounded_string 1 2048 j \<or> z_int (\<lambda>_. True) j \<or> z_boolean j \<or> propertyTextListSchema j"

definition typedPropertiesSchema :: schema where
  "typedPropertiesSchema = z_record unit_key propertyValueSchema (\<lambda>ms. length ms \<le> 64)"

definition reservedDimensionKeys :: "string list" where
  "reservedDimensionKeys =
     [''user_id'', ''virtual_model'', ''model'', ''request_model'', ''provider'', ''route_reason'',
      ''operation_id'']"

definition refineDimensionMap :: "'e snapshot_env_scheme \<Rightarrow> (string \<times> json) list \<Rightarrow> bool" where
  "refineDimensionMap env ms \<longleftrightarrow>
     length ms \<le> 32 \<and>
     list_all (\<lambda>(k, _). \<not> js_startsWith k ''cp_'' \<and> k \<notin> set reservedDimensionKeys) ms \<and>
     length (stringify env (JObj ms)) \<le> 8192"

definition analyticsDimensionsSchema :: "'e snapshot_env_scheme \<Rightarrow> schema" where
  "analyticsDimensionsSchema env = z_record dimension_key dimensionValueSchema (refineDimensionMap env)"

subsection \<open>Parts of an event\<close>

definition req :: "string \<Rightarrow> schema \<Rightarrow> field" where
  "req k p = (k, True, p)"

definition opt :: "string \<Rightarrow> schema \<Rightarrow> field" where
  "opt k p = (k, False, p)"

definition nullableBoundedStringSchema :: schema where
  "nullableBoundedStringSchema = z_nullable (bounded_string 1 256)"

definition usageUserSchema :: schema where
  "usageUserSchema = z_object
     [req ''user_id'' (bounded_string 1 256), opt ''display_user'' (z_nullable (bounded_string 1 256))]"

definition usageSourceTypeValues :: "string list" where
  "usageSourceTypeValues = [''gateway'', ''sdk'', ''import'', ''reconciler'', ''unknown'']"

definition usageSourceSchema :: schema where
  "usageSourceSchema = z_object
     [req ''type'' (z_enum usageSourceTypeValues), req ''name'' (bounded_string 1 120),
      req ''version'' (bounded_string 1 64), req ''instance_id'' (bounded_string 1 256)]"

definition usageRequestSchema :: schema where
  "usageRequestSchema = z_object
     [req ''request_id'' opaqueIdSchema, req ''attempt_id'' opaqueIdSchema,
      req ''attempt_index'' (z_int (\<lambda>n. 0 \<le> n \<and> n \<le> 63)), req ''is_final_attempt'' z_boolean,
      req ''operation_id'' (z_nullable opaqueIdSchema), req ''parent_request_id'' (z_nullable opaqueIdSchema),
      req ''session_id'' (z_nullable opaqueIdSchema), req ''conversation_id'' (z_nullable opaqueIdSchema),
      req ''trace_id'' (z_nullable opaqueIdSchema), opt ''reservation_id'' (z_nullable opaqueIdSchema)]"

definition callConnectionDriverValues :: "string list" where
  "callConnectionDriverValues = [''litellm'', ''openai_compatible'', ''anthropic'']"

definition usageModelSchema :: schema where
  "usageModelSchema = z_object
     [opt ''virtual_model'' (z_nullable (z_string virtualModelName)),
      opt ''model_id'' (z_nullable opaqueIdSchema), opt ''connection_id'' (z_nullable opaqueIdSchema),
      opt ''connection_driver'' (z_nullable (z_enum callConnectionDriverValues)),
      req ''request_model'' (bounded_string 1 256), opt ''provider'' nullableBoundedStringSchema]"

definition usageRouteSchema :: schema where
  "usageRouteSchema = z_object
     [req ''configuration_version'' nullableBoundedStringSchema, req ''rule'' nullableBoundedStringSchema,
      req ''reason'' nullableBoundedStringSchema,
      req ''tags'' (z_array (z_string routeTag) (\<lambda>xs. length xs \<le> 16 \<and> distinct xs)),
      req ''fallback_from'' nullableBoundedStringSchema, req ''is_final_success_attempt'' z_boolean,
      opt ''is_user_visible_operation'' z_boolean]"

definition resultStatusValues :: "string list" where
  "resultStatusValues = [''success'', ''failure'', ''cancelled'', ''timeout'', ''unknown'']"

definition usageResultSchema :: schema where
  "usageResultSchema = z_object
     [req ''status'' (z_enum resultStatusValues),
      req ''http_status'' (z_nullable (z_int (\<lambda>n. 100 \<le> n \<and> n \<le> 599))),
      req ''latency_ms'' (z_nullable (z_int (\<lambda>n. 0 \<le> n))),
      req ''error_class'' nullableBoundedStringSchema]"

definition sourceCostSchema :: schema where
  "sourceCostSchema = z_nullable (z_object
     [req ''amount'' decimal38_18Schema, req ''currency'' currencyCodeSchema, req ''is_estimated'' z_boolean])"

definition usagePrivacySchema :: schema where
  "usagePrivacySchema = z_object
     [req ''contains_prompt'' (z_literal (JBool False)), req ''contains_response'' (z_literal (JBool False))]"

definition rawCustomUnitSchema :: schema where
  "rawCustomUnitSchema = z_object
     [req ''unit_key'' (z_string unit_key), req ''quantity'' decimal38_9Schema, req ''unit'' (z_string unit_key),
      req ''source_path'' (z_string source_path), req ''is_estimated'' z_boolean]"

subsection \<open>Usage\<close>

definition standardUsageFields :: "string list" where
  "standardUsageFields =
     [''uncached_input_tokens'', ''cache_read_input_tokens'', ''cache_write_input_tokens'', ''output_tokens'',
      ''reasoning_output_tokens'', ''input_images'', ''output_images'', ''input_audio_seconds'',
      ''output_audio_seconds'', ''input_video_seconds'', ''output_video_seconds'', ''embedding_tokens'',
      ''request_count'']"

definition array_of :: "json option \<Rightarrow> json list" where
  "array_of v = (case v of Some (JArr xs) \<Rightarrow> xs | _ \<Rightarrow> [])"

definition custom_units :: "json \<Rightarrow> json list" where
  "custom_units usage = array_of (member usage ''custom_units'')"

definition string_member :: "json \<Rightarrow> string \<Rightarrow> string option" where
  "string_member j k = json_string (member j k)"

definition bool_member :: "json \<Rightarrow> string \<Rightarrow> bool" where
  "bool_member j k = (member j k = Some (JBool True))"

definition raw_usage_refined :: schema where
  "raw_usage_refined usage \<longleftrightarrow>
     \<not> (list_all (\<lambda>f. member usage f = None) standardUsageFields \<and> custom_units usage = []) \<and>
     distinct (map (\<lambda>u. member u ''unit_key'') (custom_units usage))"

definition rawUsageSchema :: schema where
  "rawUsageSchema usage \<longleftrightarrow>
     z_object (map (\<lambda>f. opt f decimal38_9Schema) standardUsageFields @
       [opt ''custom_units'' (z_array rawCustomUnitSchema (\<lambda>xs. length xs \<le> 32))]) usage \<and>
     raw_usage_refined usage"

definition eventEnvelopeShape :: "'e snapshot_env_scheme \<Rightarrow> field list" where
  "eventEnvelopeShape env =
     [req ''schema_version'' (z_literal (JStr ''2.0'')), req ''event_id'' eventIdSchema,
      req ''event_time'' utcTimestampSchema, opt ''application_version'' (bounded_string 1 64),
      opt ''sdk_version'' (bounded_string 1 64), opt ''connector_version'' (bounded_string 1 64),
      opt ''config_version'' (bounded_string 1 64), req ''user'' usageUserSchema,
      opt ''event_properties'' typedPropertiesSchema, opt ''user_properties'' typedPropertiesSchema,
      req ''source'' usageSourceSchema, req ''request'' usageRequestSchema, req ''model'' usageModelSchema,
      req ''route'' (z_nullable usageRouteSchema), req ''analytics_dimensions'' (analyticsDimensionsSchema env),
      req ''result'' usageResultSchema, req ''source_cost'' sourceCostSchema, req ''privacy'' usagePrivacySchema]"

definition usageEventSchema :: "'e snapshot_env_scheme \<Rightarrow> schema" where
  "usageEventSchema env = z_object (eventEnvelopeShape env @ [req ''usage'' rawUsageSchema])"

text \<open>\<open>usageUnitsByType\<close>\<close>

definition usageUnitForType :: "string \<Rightarrow> string" where
  "usageUnitForType t =
     (if t \<in> {''uncached_input_token'', ''cache_read_input_token'', ''cache_write_input_token'', ''output_token'',
              ''reasoning_output_token'', ''embedding_token''} then ''token''
      else if t \<in> {''input_image'', ''output_image''} then ''image''
      else if t \<in> {''input_audio_second'', ''output_audio_second'', ''input_video_second'', ''output_video_second''}
      then ''second''
      else if t = ''request'' then ''request''
      else if t = ''custom_unit'' then ''custom''
      else ''unknown'')"

definition usageUnitValues :: "string list" where
  "usageUnitValues = [''token'', ''image'', ''second'', ''request'', ''custom'', ''unknown'']"

definition usageConfidenceValues :: "string list" where
  "usageConfidenceValues = [''exact_provider_response'', ''gateway_reported'', ''sdk_reported'', ''estimated'']"

definition usage_line_refined :: schema where
  "usage_line_refined line \<longleftrightarrow>
     (if member line ''usage_type'' = Some (JStr ''custom_unit'')
      then member line ''unit_key'' \<noteq> None \<and> member line ''unit'' = Some (JStr ''custom'')
      else member line ''unit_key'' = None \<and>
        member line ''unit'' = map_option (JStr \<circ> usageUnitForType) (string_member line ''usage_type''))"

definition usageLineSchema :: schema where
  "usageLineSchema line \<longleftrightarrow>
     z_object
       [req ''usage_type'' (z_enum usageTypeValues), req ''quantity'' decimal38_9Schema,
        req ''unit'' (z_enum usageUnitValues), opt ''unit_key'' (z_string unit_key),
        req ''source_path'' (z_string source_path), req ''is_estimated'' z_boolean,
        req ''confidence'' (z_enum usageConfidenceValues)] line \<and>
     usage_line_refined line"

definition usageLineIdentity :: "json \<Rightarrow> string" where
  "usageLineIdentity line =
     (if member line ''usage_type'' = Some (JStr ''custom_unit'')
      then ''custom_unit:'' @ (case string_member line ''unit_key'' of None \<Rightarrow> ''<missing>'' | Some k \<Rightarrow> k)
      else case string_member line ''usage_type'' of None \<Rightarrow> [] | Some t \<Rightarrow> t)"

definition usageLinesSchema :: schema where
  "usageLinesSchema =
     z_array usageLineSchema
       (\<lambda>xs. 1 \<le> length xs \<and> length xs \<le> 64 \<and> distinct (map usageLineIdentity xs))"

definition normalizationWarningValues :: "string list" where
  "normalizationWarningValues = [''model_unmapped'', ''unknown'']"

definition normalizationSchema :: schema where
  "normalizationSchema = z_object
     [req ''normalizer_name'' (bounded_string 1 120), req ''normalizer_version'' (bounded_string 1 64),
      req ''missing_usage_fields'' (z_array (bounded_string 1 128) (\<lambda>xs. length xs \<le> 32 \<and> distinct xs)),
      req ''warnings'' (z_array (z_enum normalizationWarningValues)
        (\<lambda>xs. length xs \<le> length normalizationWarningValues \<and> distinct xs))]"

definition normalizedUsageSchema :: "'e snapshot_env_scheme \<Rightarrow> schema" where
  "normalizedUsageSchema env = z_object
     (eventEnvelopeShape env @ [req ''normalization'' normalizationSchema, req ''usage_lines'' usageLinesSchema])"

subsection \<open>Normalization\<close>

text \<open>\<open>STANDARD_USAGE\<close>: the bucket, the usage type of its line and the line's unit.\<close>

definition STANDARD_USAGE :: "(string \<times> string \<times> string) list" where
  "STANDARD_USAGE =
     [(''uncached_input_tokens'', ''uncached_input_token'', ''token''),
      (''cache_read_input_tokens'', ''cache_read_input_token'', ''token''),
      (''cache_write_input_tokens'', ''cache_write_input_token'', ''token''),
      (''output_tokens'', ''output_token'', ''token''),
      (''reasoning_output_tokens'', ''reasoning_output_token'', ''token''),
      (''input_images'', ''input_image'', ''image''), (''output_images'', ''output_image'', ''image''),
      (''input_audio_seconds'', ''input_audio_second'', ''second''),
      (''output_audio_seconds'', ''output_audio_second'', ''second''),
      (''input_video_seconds'', ''input_video_second'', ''second''),
      (''output_video_seconds'', ''output_video_second'', ''second''),
      (''embedding_tokens'', ''embedding_token'', ''token''), (''request_count'', ''request'', ''request'')]"

definition sub :: "json \<Rightarrow> string \<Rightarrow> json" where
  "sub j k = (case member j k of None \<Rightarrow> JNull | Some v \<Rightarrow> v)"

definition confidence :: "json \<Rightarrow> string" where
  "confidence event =
     (let source = string_member (sub event ''source'') ''type'' in
      if source = Some ''gateway'' then ''gateway_reported''
      else if source = Some ''sdk'' then ''sdk_reported''
      else ''estimated'')"

definition standard_line :: "string \<Rightarrow> string \<times> string \<times> string \<Rightarrow> string \<Rightarrow> json" where
  "standard_line conf entry quantity =
     (let (field, usageType, unit) = entry in JObj
       [(''usage_type'', JStr usageType), (''quantity'', JStr quantity), (''unit'', JStr unit),
        (''source_path'', JStr (''usage.'' @ field)), (''is_estimated'', JBool (conf = ''estimated'')),
        (''confidence'', JStr conf)])"

definition custom_line :: "string \<Rightarrow> json \<Rightarrow> json" where
  "custom_line conf custom = JObj
     [(''usage_type'', JStr ''custom_unit''), (''unit_key'', sub custom ''unit_key''),
      (''quantity'', sub custom ''quantity''), (''unit'', JStr ''custom''),
      (''source_path'', sub custom ''source_path''),
      (''is_estimated'', JBool (bool_member custom ''is_estimated'' \<or> conf = ''estimated'')),
      (''confidence'', JStr (if bool_member custom ''is_estimated'' then ''estimated'' else conf))]"

definition usageLines :: "json \<Rightarrow> json list" where
  "usageLines event =
     (let conf = confidence event; usage = sub event ''usage'' in
      List.maps (\<lambda>entry. case string_member usage (fst entry) of
                   None \<Rightarrow> [] | Some quantity \<Rightarrow> [standard_line conf entry quantity]) STANDARD_USAGE @
      map (custom_line conf) (custom_units usage))"

definition missing_usage_fields :: "json \<Rightarrow> string list" where
  "missing_usage_fields event =
     filter (\<lambda>f. member (sub event ''usage'') f = None) (map fst STANDARD_USAGE)"

text \<open>The envelope members the normalizer copies: the required ones always, the optional ones
  when the event has them.\<close>

definition envelope_fields :: "string list" where
  "envelope_fields =
     [''schema_version'', ''event_id'', ''event_time'', ''user'', ''application_version'', ''sdk_version'',
      ''connector_version'', ''config_version'', ''event_properties'', ''user_properties'', ''source'', ''request'',
      ''model'', ''route'', ''analytics_dimensions'', ''result'', ''source_cost'', ''privacy'']"

definition normalized_json :: "json \<Rightarrow> json" where
  "normalized_json event = JObj
     (List.maps (\<lambda>k. case member event k of None \<Rightarrow> [] | Some v \<Rightarrow> [(k, v)]) envelope_fields @
      [(''normalization'', JObj
         [(''normalizer_name'', JStr ''usage-event''), (''normalizer_version'', JStr ''current''),
          (''missing_usage_fields'', jstrs (missing_usage_fields event)), (''warnings'', JArr [])]),
       (''usage_lines'', JArr (usageLines event))])"

definition normalizeUsageEvent :: "'e snapshot_env_scheme \<Rightarrow> json \<Rightarrow> json option" where
  "normalizeUsageEvent env payload =
     (if usageEventSchema env payload \<and> normalizedUsageSchema env (normalized_json payload)
      then Some (normalized_json payload) else None)"

subsection \<open>Vocabulary of the proofs\<close>

text \<open>The facts of the bucket table the line proofs need, checked by evaluation.\<close>

definition bucket_ok :: "string \<times> string \<times> string \<Rightarrow> bool" where
  "bucket_ok entry = (case entry of (field, usageType, unit) \<Rightarrow>
     usageType \<in> set usageTypeValues \<and> usageType \<noteq> ''custom_unit'' \<and> unit = usageUnitForType usageType \<and>
     unit \<in> set usageUnitValues \<and> source_path (''usage.'' @ field) \<and> field \<in> set standardUsageFields \<and>
     CHR '':'' \<notin> set usageType \<and> bounded_unicode 1 128 field)"

definition standard_lines :: "string \<Rightarrow> json \<Rightarrow> (string \<times> string \<times> string) list \<Rightarrow> json list" where
  "standard_lines conf usage entries = List.maps (\<lambda>entry. case string_member usage (fst entry) of
     None \<Rightarrow> [] | Some quantity \<Rightarrow> [standard_line conf entry quantity]) entries"

text \<open>The members of the normalized object that come from the envelope.\<close>

definition copied :: "json \<Rightarrow> (string \<times> json) list" where
  "copied event = List.maps (\<lambda>k. case member event k of None \<Rightarrow> [] | Some v \<Rightarrow> [(k, v)]) envelope_fields"

text \<open>The quantities of the lines of one usage type.\<close>

definition quantities_of :: "string \<Rightarrow> json list \<Rightarrow> string option list" where
  "quantities_of usageType lines =
     map (\<lambda>l. string_member l ''quantity'') (filter (\<lambda>l. string_member l ''usage_type'' = Some usageType) lines)"

subsection \<open>Objects and schemas\<close>

lemma member_JObj [simp]: "member (JObj ms) k = map_of ms k"
  by (simp add: member_def)

lemma z_object_JObj:
  "z_object fs j \<longleftrightarrow> (\<exists>ms. j = JObj ms \<and> distinct (map fst ms) \<and>
     (\<forall>(k, v) \<in> set ms. \<exists>r p. map_of fs k = Some (r, p) \<and> p v) \<and>
     (\<forall>(k, r, p) \<in> set fs. r \<longrightarrow> k \<in> fst ` set ms))"
proof (cases j)
  case (JObj ms)
  have "(case map_of fs k of None \<Rightarrow> False | Some (r, p) \<Rightarrow> p v) \<longleftrightarrow>
      (\<exists>r p. map_of fs k = Some (r, p) \<and> p v)" for k and v :: json
    by (cases "map_of fs k") auto
  then show ?thesis unfolding JObj z_object_def by (simp add: list_all_iff case_prod_beta)
qed (simp_all add: z_object_def)

lemma z_objectD:
  assumes "z_object fs j" and "member j k = Some v"
  shows "\<exists>r p. map_of fs k = Some (r, p) \<and> p v"
proof -
  obtain ms where j: "j = JObj ms" and ok: "\<forall>(k, v) \<in> set ms. \<exists>r p. map_of fs k = Some (r, p) \<and> p v"
    using assms(1) unfolding z_object_JObj by blast
  have "(k, v) \<in> set ms" using assms(2) unfolding j by (simp add: map_of_SomeD)
  then show ?thesis using ok by blast
qed

lemma z_object_memberD:
  assumes "z_object fs j" and "member j k = Some v" and "map_of fs k = Some (r, p)"
  shows "p v"
  using z_objectD [OF assms(1,2)] assms(3) by simp

lemma z_object_requiredD:
  assumes "z_object fs j" and "(k, True, p) \<in> set fs"
  shows "\<exists>v. member j k = Some v"
proof -
  obtain ms where j: "j = JObj ms" and ok: "\<forall>(k, r, p) \<in> set fs. r \<longrightarrow> k \<in> fst ` set ms"
    using assms(1) unfolding z_object_JObj by blast
  have "k \<in> fst ` set ms" using bspec [OF ok assms(2)] by simp
  then show ?thesis unfolding j member_JObj by (metis map_of_eq_None_iff not_Some_eq)
qed

lemma z_objectI:
  assumes "distinct (map fst ms)"
    and "\<And>k v. (k, v) \<in> set ms \<Longrightarrow> \<exists>r p. map_of fs k = Some (r, p) \<and> p v"
    and "\<And>k p. (k, True, p) \<in> set fs \<Longrightarrow> k \<in> fst ` set ms"
  shows "z_object fs (JObj ms)"
proof -
  have "\<forall>x \<in> set ms. case x of (k, v) \<Rightarrow> \<exists>r p. map_of fs k = Some (r, p) \<and> p v"
    using assms(2) by (simp add: case_prod_beta)
  moreover have "\<forall>x \<in> set fs. case x of (k, r, p) \<Rightarrow> r \<longrightarrow> k \<in> fst ` set ms"
  proof
    fix x assume x: "x \<in> set fs"
    show "case x of (k, r, p) \<Rightarrow> r \<longrightarrow> k \<in> fst ` set ms"
      using assms(3) x by (cases x) auto
  qed
  ultimately show ?thesis unfolding z_object_JObj using assms(1) by blast
qed

lemma buckets_ok: "list_all bucket_ok STANDARD_USAGE"
  by code_simp

lemma buckets_distinct: "distinct (map fst STANDARD_USAGE)" "distinct (map (fst \<circ> snd) STANDARD_USAGE)"
  by code_simp+

lemma standard_fields: "map fst STANDARD_USAGE = standardUsageFields"
  by (simp add: STANDARD_USAGE_def standardUsageFields_def)
lemma z_object_field:
  assumes "z_object fs j" and "map_of fs k = Some (True, p)"
  shows "\<exists>v. member j k = Some v \<and> p v"
  using z_object_requiredD [OF assms(1) map_of_SomeD [OF assms(2)]] z_object_memberD [OF assms(1) _ assms(2)]
  by blast

lemma z_object_optional:
  assumes "z_object fs j" and "map_of fs k = Some (False, p)"
  shows "member j k = None \<or> (\<exists>v. member j k = Some v \<and> p v)"
  using z_object_memberD [OF assms(1) _ assms(2)] by (cases "member j k") simp_all

lemma z_string_iff [simp]: "z_string p (JStr s) = p s"
  by (simp add: z_string_def)

lemma z_stringE: "z_string p j \<Longrightarrow> \<exists>s. j = JStr s \<and> p s"
  by (cases j) (simp_all add: z_string_def)

lemma confidence_ok: "confidence event \<in> set usageConfidenceValues"
  by (simp add: confidence_def usageConfidenceValues_def Let_def)

lemma standard_line_ok:
  assumes entry: "bucket_ok entry" and q: "decimal38_9Schema (JStr q)" and conf: "conf \<in> set usageConfidenceValues"
  shows "usageLineSchema (standard_line conf entry q)"
proof -
  obtain field usageType unit where e: "entry = (field, usageType, unit)" by (cases entry)
  have ok: "usageType \<in> set usageTypeValues" "usageType \<noteq> ''custom_unit''" "usageUnitForType usageType \<in> set usageUnitValues"
    "source_path (''usage.'' @ field)" "unit = usageUnitForType usageType"
    using entry unfolding e bucket_ok_def by auto
  show ?thesis
    using ok q conf unfolding e
    by (simp add: usageLineSchema_def standard_line_def z_object_def req_def opt_def z_enum_def
      usage_line_refined_def string_member_def json_string_def z_boolean_def)
qed

lemma custom_unit_fields:
  assumes "rawCustomUnitSchema custom"
  obtains key q path where "member custom ''unit_key'' = Some (JStr key)" "unit_key key"
    "member custom ''quantity'' = Some (JStr q)" "decimal38_9Schema (JStr q)"
    "member custom ''source_path'' = Some (JStr path)" "source_path path"
proof -
  note obj = assms [unfolded rawCustomUnitSchema_def]
  obtain a where a: "member custom ''unit_key'' = Some a" "z_string unit_key a"
    using z_object_field [OF obj, of "''unit_key''" "z_string unit_key"] by (auto simp: req_def)
  obtain b where b: "member custom ''quantity'' = Some b" "decimal38_9Schema b"
    using z_object_field [OF obj, of "''quantity''" decimal38_9Schema] by (auto simp: req_def)
  obtain c where c: "member custom ''source_path'' = Some c" "z_string source_path c"
    using z_object_field [OF obj, of "''source_path''" "z_string source_path"] by (auto simp: req_def)
  show thesis
    using a b c that z_stringE [OF a(2)] z_stringE [OF c(2)] z_stringE [OF b(2) [unfolded decimal38_9Schema_def]]
    by blast
qed

lemma custom_line_ok:
  assumes unit: "rawCustomUnitSchema custom" and conf: "conf \<in> set usageConfidenceValues"
  shows "usageLineSchema (custom_line conf custom)"
proof -
  obtain key q path where "member custom ''unit_key'' = Some (JStr key)" "unit_key key"
    "member custom ''quantity'' = Some (JStr q)" "decimal38_9Schema (JStr q)"
    "member custom ''source_path'' = Some (JStr path)" "source_path path"
    using custom_unit_fields [OF unit] .
  then show ?thesis
    using conf
    by (simp add: usageLineSchema_def custom_line_def z_object_def req_def opt_def z_enum_def sub_def
      usage_line_refined_def string_member_def json_string_def z_boolean_def usageTypeValues_def usageUnitValues_def
      usageConfidenceValues_def)
qed
lemma event_usage:
  assumes "usageEventSchema env event"
  shows "member event ''usage'' = Some (sub event ''usage'')" and "rawUsageSchema (sub event ''usage'')"
proof -
  have "\<exists>v. member event ''usage'' = Some v \<and> rawUsageSchema v"
    by (rule z_object_field [OF assms [unfolded usageEventSchema_def]])
      (simp add: eventEnvelopeShape_def req_def opt_def)
  then show "member event ''usage'' = Some (sub event ''usage'')" "rawUsageSchema (sub event ''usage'')"
    by (auto simp: sub_def)
qed

lemma standard_bucket:
  assumes usage: "rawUsageSchema usage" and f: "f \<in> set standardUsageFields"
  shows "member usage f = None \<or> (\<exists>q. member usage f = Some (JStr q) \<and> decimal38_9Schema (JStr q))"
proof -
  have find: "map_of (map (\<lambda>f. opt f decimal38_9Schema) standardUsageFields @ xs) f = Some (False, decimal38_9Schema)" for xs
    using f by (auto simp: standardUsageFields_def opt_def)
  show ?thesis
    using z_object_optional [OF conjunct1 [OF usage [unfolded rawUsageSchema_def]] find]
    by (auto dest: z_stringE simp: decimal38_9Schema_def)
qed

lemma string_member_None:
  assumes "rawUsageSchema usage" and "f \<in> set standardUsageFields"
  shows "string_member usage f = None \<longleftrightarrow> member usage f = None"
  using standard_bucket [OF assms] by (auto simp: string_member_def json_string_def)

lemma custom_units_ok:
  assumes usage: "rawUsageSchema usage"
  shows "list_all rawCustomUnitSchema (custom_units usage)" and "length (custom_units usage) \<le> 32"
proof -
  let ?p = "z_array rawCustomUnitSchema (\<lambda>xs. length xs \<le> 32)"
  have find: "map_of (map (\<lambda>f. opt f decimal38_9Schema) standardUsageFields @ [opt ''custom_units'' ?p]) ''custom_units'' =
      Some (False, ?p)"
    by (simp add: standardUsageFields_def opt_def)
  have "member usage ''custom_units'' = None \<or> (\<exists>v. member usage ''custom_units'' = Some v \<and> ?p v)"
    by (rule z_object_optional [OF conjunct1 [OF usage [unfolded rawUsageSchema_def]] find])
  then have "list_all rawCustomUnitSchema (custom_units usage) \<and> length (custom_units usage) \<le> 32"
  proof (elim disjE exE conjE)
    fix v assume "member usage ''custom_units'' = Some v" and "?p v"
    then show ?thesis by (cases v) (simp_all add: custom_units_def array_of_def z_array_def)
  qed (simp add: custom_units_def array_of_def)
  then show "list_all rawCustomUnitSchema (custom_units usage)" "length (custom_units usage) \<le> 32" by simp_all
qed

lemma usageLines_split:
  "usageLines event = standard_lines (confidence event) (sub event ''usage'') STANDARD_USAGE @
     map (custom_line (confidence event)) (custom_units (sub event ''usage''))"
  by (simp add: usageLines_def standard_lines_def Let_def)

lemma standard_lines_simps [simp]:
  "standard_lines conf usage [] = []"
  "standard_lines conf usage (e # es) = (case string_member usage (fst e) of None \<Rightarrow> []
     | Some quantity \<Rightarrow> [standard_line conf e quantity]) @ standard_lines conf usage es"
  by (simp_all add: standard_lines_def List.maps_eq)

lemma standard_line_identity:
  "bucket_ok entry \<Longrightarrow> usageLineIdentity (standard_line conf entry q) = fst (snd entry)"
  by (cases entry) (simp add: bucket_ok_def standard_line_def usageLineIdentity_def string_member_def json_string_def)

lemma custom_line_identity:
  assumes "rawCustomUnitSchema custom"
  shows "usageLineIdentity (custom_line conf custom) =
    ''custom_unit:'' @ (case string_member custom ''unit_key'' of None \<Rightarrow> [] | Some k \<Rightarrow> k)"
proof -
  obtain key where "member custom ''unit_key'' = Some (JStr key)" by (rule custom_unit_fields [OF assms])
  then show ?thesis by (simp add: custom_line_def usageLineIdentity_def string_member_def json_string_def sub_def)
qed

lemma standard_lines_identities:
  "list_all bucket_ok es \<Longrightarrow> map usageLineIdentity (standard_lines conf usage es) =
     map (fst \<circ> snd) (filter (\<lambda>e. string_member usage (fst e) \<noteq> None) es)"
  by (induction es) (auto simp: standard_line_identity split: option.splits)

lemma standard_lines_ok:
  assumes "rawUsageSchema usage" and "conf \<in> set usageConfidenceValues"
  shows "list_all bucket_ok es \<Longrightarrow> list_all usageLineSchema (standard_lines conf usage es)"
proof (induction es)
  case (Cons e es)
  have e: "bucket_ok e" using Cons.prems by simp
  have f: "fst e \<in> set standardUsageFields" using e by (cases e) (simp add: bucket_ok_def)
  have "usageLineSchema (standard_line conf e q)" if "string_member usage (fst e) = Some q" for q
  proof -
    have "decimal38_9Schema (JStr q)"
      using standard_bucket [OF assms(1) f] that by (auto simp: string_member_def json_string_def)
    then show ?thesis by (rule standard_line_ok [OF e _ assms(2)])
  qed
  then show ?case using Cons by (cases "string_member usage (fst e)") auto
qed simp

lemma length_standard_lines: "length (standard_lines conf usage es) \<le> length es"
  by (induction es) (auto split: option.splits)

lemma unit_key_string:
  assumes "rawCustomUnitSchema u"
  shows "member u ''unit_key'' = Some (JStr (case string_member u ''unit_key'' of None \<Rightarrow> [] | Some k \<Rightarrow> k))"
proof -
  obtain key where "member u ''unit_key'' = Some (JStr key)" by (rule custom_unit_fields [OF assms])
  then show ?thesis by (simp add: string_member_def json_string_def)
qed

lemma unit_keys_strings:
  assumes "list_all rawCustomUnitSchema us"
  shows "map (\<lambda>u. member u ''unit_key'') us =
    map (\<lambda>u. Some (JStr (case string_member u ''unit_key'' of None \<Rightarrow> [] | Some k \<Rightarrow> k))) us"
  by (rule map_cong [OF refl], rule unit_key_string) (use assms in \<open>simp add: list_all_iff\<close>)

lemma usage_lines_identities_distinct:
  assumes usage: "rawUsageSchema (sub event ''usage'')"
  shows "distinct (map usageLineIdentity (usageLines event))"
proof -
  let ?u = "sub event ''usage''" and ?c = "confidence event"
  let ?key = "\<lambda>u. case string_member u ''unit_key'' of None \<Rightarrow> [] | Some k \<Rightarrow> k"
  have units: "list_all rawCustomUnitSchema (custom_units ?u)" by (rule custom_units_ok(1) [OF usage])
  have std: "map usageLineIdentity (standard_lines ?c ?u STANDARD_USAGE) =
      map (fst \<circ> snd) (filter (\<lambda>e. string_member ?u (fst e) \<noteq> None) STANDARD_USAGE)"
    by (rule standard_lines_identities [OF buckets_ok])
  have cus: "map (usageLineIdentity \<circ> custom_line ?c) (custom_units ?u) =
      map (\<lambda>u. ''custom_unit:'' @ ?key u) (custom_units ?u)"
    using units by (simp add: list_all_iff custom_line_identity)
  have keys: "distinct (map ?key (custom_units ?u))"
  proof -
    have "distinct (map (\<lambda>u. member u ''unit_key'') (custom_units ?u))"
      using usage by (simp add: rawUsageSchema_def raw_usage_refined_def)
    then have "distinct (map (\<lambda>k. Some (JStr k)) (map ?key (custom_units ?u)))"
      by (simp only: unit_keys_strings [OF units] map_map comp_def)
    then show ?thesis unfolding distinct_map by blast
  qed
  have dc: "distinct (map (\<lambda>u. ''custom_unit:'' @ ?key u) (custom_units ?u))"
    using keys by (simp add: distinct_map inj_on_def)
  have ds: "distinct (map (fst \<circ> snd) (filter (\<lambda>e. string_member ?u (fst e) \<noteq> None) STANDARD_USAGE))"
    by (rule distinct_map_filter [OF buckets_distinct(2)])
  have sep: "CHR '':'' \<notin> set (fst (snd e))" if "e \<in> set STANDARD_USAGE" for e
    using buckets_ok that by (cases e) (auto simp: list_all_iff bucket_ok_def)
  have "set (map (fst \<circ> snd) (filter (\<lambda>e. string_member ?u (fst e) \<noteq> None) STANDARD_USAGE)) \<inter>
      set (map (\<lambda>u. ''custom_unit:'' @ ?key u) (custom_units ?u)) = {}"
  proof -
    have "CHR '':'' \<in> set y" if "y \<in> set (map (\<lambda>u. ''custom_unit:'' @ ?key u) (custom_units ?u))" for y
      using that by auto
    moreover have "CHR '':'' \<notin> set y" if "y \<in> set (map (fst \<circ> snd) (filter (\<lambda>e. string_member ?u (fst e) \<noteq> None) STANDARD_USAGE))" for y
      using that sep by auto
    ultimately show ?thesis by blast
  qed
  then show ?thesis
    using dc ds unfolding usageLines_split map_append map_map distinct_append std cus by blast
qed

lemma usage_lines_ok:
  assumes event: "usageEventSchema env event"
  shows "usageLinesSchema (JArr (usageLines event))"
proof -
  let ?u = "sub event ''usage''" and ?c = "confidence event"
  have usage: "rawUsageSchema ?u" by (rule event_usage(2) [OF event])
  have valid: "list_all usageLineSchema (usageLines event)"
    unfolding usageLines_split
    using standard_lines_ok [OF usage confidence_ok [of event] buckets_ok] custom_units_ok(1) [OF usage]
      custom_line_ok [OF _ confidence_ok [of event]]
    by (auto simp: list_all_iff)
  have "length (standard_lines ?c ?u STANDARD_USAGE) \<le> 13"
    using length_standard_lines [of ?c ?u STANDARD_USAGE] by (simp add: STANDARD_USAGE_def)
  then have few: "length (usageLines event) \<le> 64"
    unfolding usageLines_split using custom_units_ok(2) [OF usage] by simp
  have some: "usageLines event \<noteq> []"
  proof
    assume none: "usageLines event = []"
    have "map usageLineIdentity (standard_lines ?c ?u STANDARD_USAGE) = []" and c: "custom_units ?u = []"
      using none unfolding usageLines_split by simp_all
    then have "filter (\<lambda>e. string_member ?u (fst e) \<noteq> None) STANDARD_USAGE = []"
      unfolding standard_lines_identities [OF buckets_ok] by simp
    then have "\<forall>f \<in> set standardUsageFields. string_member ?u f = None"
      unfolding filter_empty_conv standard_fields [symmetric] by auto
    then have "list_all (\<lambda>f. member ?u f = None) standardUsageFields"
      using string_member_None [OF usage] by (simp add: list_all_iff)
    then show False using usage c by (simp add: rawUsageSchema_def raw_usage_refined_def)
  qed
  have "1 \<le> length (usageLines event)" using some by (cases "usageLines event") simp_all
  then show ?thesis
    unfolding usageLinesSchema_def z_array_def
    using valid few usage_lines_identities_distinct [OF usage] by simp
qed
lemma envelope_fields_shape: "set envelope_fields = fst ` set (eventEnvelopeShape env)"
  by (auto simp: envelope_fields_def eventEnvelopeShape_def req_def opt_def)

lemma envelope_fields_fresh:
  "distinct envelope_fields" "''normalization'' \<notin> set envelope_fields" "''usage_lines'' \<notin> set envelope_fields"
  "''usage'' \<notin> set envelope_fields"
  by (simp_all add: envelope_fields_def)

lemma map_of_shape:
  assumes "k \<in> set envelope_fields"
  shows "map_of (eventEnvelopeShape env @ xs) k = map_of (eventEnvelopeShape env) k"
proof -
  have "map_of (eventEnvelopeShape env) k \<noteq> None"
    using assms unfolding envelope_fields_shape [of env] by (simp add: map_of_eq_None_iff)
  then show ?thesis by (auto simp: map_add_def split: option.splits)
qed

lemma missing_fields_ok: "normalizationSchema (JObj
    [(''normalizer_name'', JStr ''usage-event''), (''normalizer_version'', JStr ''current''),
     (''missing_usage_fields'', jstrs (missing_usage_fields event)), (''warnings'', JArr [])])"
proof -
  let ?ms = "missing_usage_fields event"
  have "list_all (bounded_string 1 128) (map JStr ?ms)"
    using buckets_ok by (auto simp: missing_usage_fields_def list_all_iff bounded_string_def bucket_ok_def case_prod_beta)
  moreover have "length ?ms \<le> 13"
    unfolding missing_usage_fields_def by (rule order_trans [OF length_filter_le]) (simp add: STANDARD_USAGE_def)
  moreover have "distinct (map JStr ?ms)"
    unfolding missing_usage_fields_def using buckets_distinct(1) by (simp add: distinct_map inj_on_def)
  ultimately have missing: "z_array (bounded_string 1 128) (\<lambda>xs. length xs \<le> 32 \<and> distinct xs) (jstrs ?ms)"
    by (simp add: jstrs_def z_array_def)
  have names: "bounded_string 1 120 (JStr ''usage-event'')" "bounded_string 1 64 (JStr ''current'')"
    by code_simp+
  show ?thesis
    using missing names by (simp add: normalizationSchema_def z_object_def req_def z_array_def)
qed

lemma fst_copied: "map fst (List.maps (\<lambda>k. case m k of None \<Rightarrow> [] | Some v \<Rightarrow> [(k, v)]) ks) = filter (\<lambda>k. m k \<noteq> None) ks"
  by (induction ks) (auto split: option.splits)

lemma set_copied: "(k, v) \<in> set (copied event) \<longleftrightarrow> k \<in> set envelope_fields \<and> member event k = Some v"
  by (auto simp: copied_def split: option.splits)

lemma normalized_json_ok:
  assumes event: "usageEventSchema env event"
  shows "normalizedUsageSchema env (normalized_json event)"
proof -
  note obj = event [unfolded usageEventSchema_def]
  let ?fs = "eventEnvelopeShape env @ [req ''normalization'' normalizationSchema, req ''usage_lines'' usageLinesSchema]"
  let ?n = "JObj [(''normalizer_name'', JStr ''usage-event''), (''normalizer_version'', JStr ''current''),
     (''missing_usage_fields'', jstrs (missing_usage_fields event)), (''warnings'', JArr [])]"
  let ?ms = "copied event @ [(''normalization'', ?n), (''usage_lines'', JArr (usageLines event))]"
  have n: "normalized_json event = JObj ?ms" by (simp add: normalized_json_def copied_def)
  have keys: "map fst (copied event) = filter (\<lambda>k. member event k \<noteq> None) envelope_fields"
    unfolding copied_def by (rule fst_copied)
  have fresh: "map_of (eventEnvelopeShape env) ''normalization'' = None" "map_of (eventEnvelopeShape env) ''usage_lines'' = None"
    using envelope_fields_fresh unfolding envelope_fields_shape [of env] by (simp_all add: map_of_eq_None_iff)
  have "z_object ?fs (JObj ?ms)"
  proof (rule z_objectI)
    show "distinct (map fst ?ms)"
      using envelope_fields_fresh by (simp add: keys)
    show "k \<in> fst ` set ?ms" if "(k, True, p) \<in> set ?fs" for k p
    proof (cases "(k, True, p) \<in> set (eventEnvelopeShape env)")
      case True
      then have "k \<in> set envelope_fields" unfolding envelope_fields_shape [of env] by force
      moreover obtain v where "member event k = Some v"
        using z_object_requiredD [OF obj, of k p] True by auto
      ultimately have "(k, v) \<in> set (copied event)" by (simp add: set_copied)
      then show ?thesis by force
    next
      case False
      then show ?thesis using that by (auto simp: req_def)
    qed
    show "\<exists>r p. map_of ?fs k = Some (r, p) \<and> p v" if kv: "(k, v) \<in> set ?ms" for k v
    proof (cases "(k, v) \<in> set (copied event)")
      case True
      then have k: "k \<in> set envelope_fields" and v: "member event k = Some v" by (simp_all add: set_copied)
      show ?thesis using z_objectD [OF obj v] unfolding map_of_shape [OF k] .
    next
      case False
      then have "(k = ''normalization'' \<and> v = ?n) \<or> (k = ''usage_lines'' \<and> v = JArr (usageLines event))"
        using kv by simp
      then show ?thesis
        using missing_fields_ok [of event] usage_lines_ok [OF event]
        by (elim disjE conjE) (simp_all add: map_add_def fresh req_def exI [of _ True])
    qed
  qed
  then show ?thesis unfolding n normalizedUsageSchema_def .
qed

lemma normalizeUsageEvent_total:
  "usageEventSchema env event \<Longrightarrow> normalizeUsageEvent env event = Some (normalized_json event)"
  using normalized_json_ok by (simp add: normalizeUsageEvent_def)

lemma quantities_standard:
  assumes "list_all bucket_ok es" and "distinct (map (fst \<circ> snd) es)" and "(field, usageType, unit) \<in> set es"
  shows "quantities_of usageType (standard_lines conf usage es) =
    (case string_member usage field of None \<Rightarrow> [] | Some q \<Rightarrow> [Some q])"
proof -
  have other: "quantities_of t (standard_lines conf usage es) = []" if "t \<notin> (fst \<circ> snd) ` set es" for t es
    using that
    by (induction es)
      (auto simp: quantities_of_def standard_line_def string_member_def json_string_def split: option.splits)
  show ?thesis
    using assms
  proof (induction es)
    case (Cons e es)
    show ?case
    proof (cases "e = (field, usageType, unit)")
      case True
      then have "quantities_of usageType (standard_lines conf usage es) = []"
        using Cons.prems(2) by (intro other) simp
      then show ?thesis
        unfolding True
        by (auto simp: quantities_of_def standard_line_def string_member_def json_string_def split: option.splits)
    next
      case False
      then have mem: "(field, usageType, unit) \<in> set es" using Cons.prems(3) by auto
      have ih: "quantities_of usageType (standard_lines conf usage es) =
          (case string_member usage field of None \<Rightarrow> [] | Some q \<Rightarrow> [Some q])"
        by (rule Cons.IH) (use Cons.prems mem in simp_all)
      have "usageType \<in> (fst \<circ> snd) ` set es" using imageI [OF mem, of "fst \<circ> snd"] by simp
      then have "usageType \<noteq> (fst \<circ> snd) e" using Cons.prems(2) unfolding list.map distinct.simps set_map by blast
      then have "usageType \<noteq> fst (snd e)" by simp
      then show ?thesis using ih
        by (cases e)
          (auto simp: quantities_of_def standard_line_def string_member_def json_string_def split: option.splits)
    qed
  qed simp
qed

lemma quantities_append: "quantities_of t (xs @ ys) = quantities_of t xs @ quantities_of t ys"
  by (simp add: quantities_of_def)

lemma quantities_custom: "t \<noteq> ''custom_unit'' \<Longrightarrow> quantities_of t (map (custom_line conf) us) = []"
  by (auto simp: quantities_of_def custom_line_def string_member_def json_string_def filter_empty_conv)

lemma usage_lines_quantities:
  assumes "(field, usageType, unit) \<in> set STANDARD_USAGE"
  shows "quantities_of usageType (usageLines event) =
    (case string_member (sub event ''usage'') field of None \<Rightarrow> [] | Some q \<Rightarrow> [Some q])"
proof -
  have "usageType \<noteq> ''custom_unit''" using buckets_ok assms by (auto simp: list_all_iff bucket_ok_def)
  then show ?thesis
    unfolding usageLines_split quantities_append
    using quantities_standard [OF buckets_ok buckets_distinct(2) assms] by (simp add: quantities_custom)
qed

end
