(* ===== verification/PipelineStore.thy ===== *)
theory PipelineStore
  imports LeaseQueue PipelineErrors UsageContract "HOL-Library.AList"
begin

text \<open>
  The usage pipeline's tables and the worker's inbox store:
  \<open>packages/db/prisma/schema/32-usage-pipeline.prisma\<close> (rows),
  \<open>apps/worker/src/pipeline/prisma-inbox-store.ts\<close>, \<open>replay-intent.ts\<close>,
  \<open>base-outbox-messages.ts\<close> and \<open>payload-cleanup.ts\<close>, the redaction of
  \<open>packages/clickhouse/src/sink/payload-readers.ts\<close>, and the replay of a dead letter in
  \<open>apps/api/src/dlq.service.ts\<close>.

  A transaction is a function of the whole database; the columns \<open>updated_at\<close>, which no
  statement reads, are left out.  \<open>pd_official\<close> are the tables only the official writer
  touches, and the writer itself is an argument of \<open>commitOfficial\<close>, as it is in the code.
  Each statement reads its own \<open>statement_timestamp()\<close>, so an operation takes one instant per
  statement that compares or stores one.  \<open>UPDATE ... RETURNING\<close> gives its rows in an order
  PostgreSQL does not fix: the argument \<open>returning\<close> reorders them.
\<close>

subsection \<open>Rows\<close>

record InboxRow = "string LeasedRow" +
  ib_applicationId :: string
  ib_eventId :: string
  ib_payloadJson :: "json option"
  ib_stage :: PipelineStage
  ib_completedAt :: "int option"
  ib_payloadPurgeAfter :: "int option"
  ib_payloadPurgedAt :: "int option"
  ib_replayIntentJson :: "json option"
  ib_createdAt :: int

record OutboxRow = "int LeasedRow" +
  ob_applicationId :: string
  ob_aggregateType :: string
  ob_aggregateId :: string
  ob_eventType :: string
  ob_payloadJson :: json
  ob_idempotencyKey :: string
  ob_replayOfOutboxId :: "int option"
  ob_sentAt :: "int option"
  ob_createdAt :: int

text \<open>\<open>usage_event_registry\<close>: the identity of an event, its denormalized columns, and how far the
  pipeline and the projections have come.\<close>

record RegistryRow =
  rg_applicationId :: string
  rg_eventId :: string
  rg_payloadHash :: string
  rg_applicationUserId :: string
  rg_reservationId :: "string option"
  rg_externalUserId :: string
  rg_userName :: "string option"
  rg_versions :: "string option list"
  rg_eventProperties :: "json option"
  rg_userProperties :: "json option"
  rg_virtualModel :: "string option"
  rg_realModelId :: "string option"
  rg_requestModel :: string
  rg_connectionId :: "string option"
  rg_connectionDriver :: "string option"
  rg_schemaVersion :: string
  rg_requestId :: string
  rg_attemptId :: string
  rg_attemptIndex :: int
  rg_isFinalAttempt :: bool
  rg_operationId :: "string option"
  rg_instanceId :: string
  rg_provider :: "string option"
  rg_resultStatus :: string
  rg_routeReason :: "string option"
  rg_fallbackFrom :: "string option"
  rg_eventTime :: int
  rg_sourceType :: string
  rg_analyticsDimensions :: json
  rg_processingStage :: PipelineStage
  rg_rawSyncedAt :: "int option"
  rg_officialSyncedAt :: "int option"
  rg_lastError :: "string option"

datatype DeadLetterStatus = Dlq_open | Dlq_replay_queued | Dlq_resolved | Dlq_ignored

record DeadLetterRow =
  dl_id :: string
  dl_applicationId :: string
  dl_eventId :: "string option"
  dl_inboxId :: "string option"
  dl_outboxId :: "int option"
  dl_stage :: PipelineStage
  dl_errorCode :: string
  dl_errorClass :: string
  dl_errorMessage :: string
  dl_detailsJson :: json
  dl_status :: DeadLetterStatus
  dl_attemptCount :: int
  dl_replayCount :: int
  dl_nextRetryAt :: "int option"
  dl_resolution :: "string option"
  dl_resolvedAt :: "int option"

datatype SyncStatus = Sync_healthy | Sync_degraded | Sync_stale | Sync_failed

record SyncState =
  sy_pipelineName :: string
  sy_lastOutboxId :: "int option"
  sy_lastEventTime :: "int option"
  sy_lastSuccessAt :: "int option"
  sy_lagSeconds :: int
  sy_status :: SyncStatus
  sy_lastError :: "string option"

text \<open>The columns of \<open>application_users\<close> that ingestion writes and the projections read, and of
  \<open>property_definitions\<close> that validate and type properties.\<close>

record UserProfile =
  up_id :: string
  up_applicationId :: string
  up_externalId :: string
  up_name :: "string option"
  up_propertiesJson :: json
  up_tags :: "string list"
  up_status :: string
  up_firstSeenAt :: int
  up_lastSeenAt :: int
  up_updatedAt :: int

datatype PropertyScope = EventScope | UserScope

record PropertyDefinition =
  pr_applicationId :: string
  pr_key :: string
  pr_scope :: PropertyScope
  pr_dataType :: string
  pr_allowedValues :: json
  pr_constraints :: json
  pr_active :: bool

record 'o PipelineDb =
  pd_inbox :: "InboxRow list"
  pd_outbox :: "OutboxRow list"
  pd_nextOutboxId :: int
  pd_registry :: "RegistryRow list"
  pd_deadLetters :: "DeadLetterRow list"
  pd_sync :: "SyncState list"
  pd_users :: "UserProfile list"
  pd_properties :: "PropertyDefinition list"
  pd_openDiffSamples :: "json list"
  pd_audit :: "(string \<times> string) list"
  pd_official :: 'o

subsection \<open>Values handed between the stages\<close>

text \<open>\<open>PipelineReplayIntent\<close>; both choices are absent when the stored type names a member every
  object inherits.\<close>

record PipelineReplayIntent =
  ri_runId :: string
  ri_providerCost :: "string option"
  ri_aiu :: "string option"
  ri_quota :: string

record InboxLease =
  il_id :: string
  il_applicationId :: string
  il_eventId :: string
  il_payloadHash :: string
  il_payload :: json
  il_stage :: PipelineStage
  il_attemptCount :: int
  il_leaseOwner :: string
  il_leaseExpiresAt :: int
  il_createdAt :: int
  il_replayIntent :: "PipelineReplayIntent option"

record PipelineResolutionArtifact =
  ra_status :: string
  ra_modelId :: "string option"
  ra_mappingFingerprint :: string
  ra_evidence :: "json option"

record PipelineOutboxMessage =
  om_aggregateType :: string
  om_aggregateId :: string
  om_eventType :: string
  om_payload :: json
  om_idempotencyKey :: string

text \<open>The context of a commit; \<open>'c\<close>, \<open>'a\<close> and \<open>'q\<close> are what the stage handlers return, which
  the pipeline passes on unread.  \<open>None\<close> is the placeholder of a stage that did not run:
  \<open>{status: "disabled"}\<close> for a rating, \<open>{status: "not_applicable"}\<close> for the quota.\<close>

record ('c, 'a, 'q) PipelineSettlementContext =
  pc_applicationId :: string
  pc_event :: json
  pc_normalized :: json
  pc_resolution :: PipelineResolutionArtifact
  pc_providerCost :: "'c option"
  pc_aiu :: "'a option"
  pc_quota :: "'q option"
  pc_replayIntent :: "PipelineReplayIntent option"

subsection \<open>Replay intents\<close>

text \<open>The names every JavaScript object inherits.\<close>

definition object_prototype :: "string list" where
  "object_prototype =
     [''constructor'', ''__defineGetter__'', ''__defineSetter__'', ''hasOwnProperty'', ''__lookupGetter__'',
      ''__lookupSetter__'', ''isPrototypeOf'', ''propertyIsEnumerable'', ''toString'', ''valueOf'', ''__proto__'',
      ''toLocaleString'']"

definition RECONCILIATION_REPLAY_ACTIONS :: "string \<Rightarrow> (string option \<times> string option) option" where
  "RECONCILIATION_REPLAY_ACTIONS t =
     (if t = ''rerun_provider_cost'' then Some (Some ''rerate'', Some ''keep_unrated'')
      else if t = ''rerun_aiu_observe'' then Some (Some ''keep_existing'', Some ''backfill'')
      else if t \<in> set object_prototype then Some (None, None)
      else None)"

definition uuid_pattern :: "string \<Rightarrow> bool" where
  "uuid_pattern s \<longleftrightarrow> hex_groups [8, 4, 4, 4, 12] s \<and> s ! 14 \<in> set ''12345678'' \<and> s ! 19 \<in> set ''89ABab''"

definition exactKeys :: "(string \<times> json) list \<Rightarrow> string list \<Rightarrow> bool" where
  "exactKeys ms keys \<longleftrightarrow> sort (map fst ms) = sort keys"

definition parsePipelineReplayIntent :: "json option \<Rightarrow> thrown + PipelineReplayIntent option" where
  "parsePipelineReplayIntent stored = (case stored of
     None \<Rightarrow> Inr None
   | Some JNull \<Rightarrow> Inr None
   | Some (JObj ms) \<Rightarrow>
       (let value = JObj ms; run = string_member value ''run_id''; kind = string_member value ''replay_type'' in
        if \<not> exactKeys ms [''authority'', ''run_id'', ''replay_type''] \<or>
           member value ''authority'' \<noteq> Some (JStr ''reconciliation'') \<or>
           (case run of None \<Rightarrow> True | Some r \<Rightarrow> \<not> uuid_pattern r) \<or> kind = None
        then Inl (js_error ''TypeError'' ''Inbox has an invalid reconciliation replay intent'')
        else
          (case RECONCILIATION_REPLAY_ACTIONS (the kind) of
             None \<Rightarrow> Inl (js_error ''TypeError'' ''Inbox has an unsupported reconciliation replay intent'')
           | Some (cost, aiu) \<Rightarrow>
               Inr (Some \<lparr>ri_runId = the run, ri_providerCost = cost, ri_aiu = aiu,
                          ri_quota = ''keep_existing''\<rparr>)))
   | Some _ \<Rightarrow> Inl (js_error ''TypeError'' ''Inbox has an invalid replay intent''))"

subsection \<open>Leasing the inbox\<close>

definition registry_of :: "string \<Rightarrow> string \<Rightarrow> RegistryRow list \<Rightarrow> RegistryRow option" where
  "registry_of app event rs = find_unique (\<lambda>g. rg_eventId g = event \<and> rg_applicationId g = app) rs"

definition mapLease :: "RegistryRow list \<Rightarrow> InboxRow \<Rightarrow> thrown + InboxLease" where
  "mapLease rs row = (case (case ib_payloadJson row of None \<Rightarrow> JNull | Some payload \<Rightarrow> payload) of
     JNull \<Rightarrow> Inl (js_error ''TypeError'' ''Inbox was leased after its payload was purged'')
   | payload \<Rightarrow>
       bind_res (parsePipelineReplayIntent (ib_replayIntentJson row))
         (\<lambda>intent. Inr
            \<lparr>il_id = lr_id row, il_applicationId = ib_applicationId row, il_eventId = ib_eventId row,
             il_payloadHash = (case registry_of (ib_applicationId row) (ib_eventId row) rs of
                                 None \<Rightarrow> [] | Some g \<Rightarrow> rg_payloadHash g),
             il_payload = payload, il_stage = ib_stage row, il_attemptCount = lr_attemptCount row,
             il_leaseOwner = (case lr_leaseOwner row of None \<Rightarrow> [] | Some w \<Rightarrow> w),
             il_leaseExpiresAt = (case lr_leaseExpiresAt row of None \<Rightarrow> 0 | Some e \<Rightarrow> e),
             il_createdAt = ib_createdAt row, il_replayIntent = intent\<rparr>))"

fun map_results :: "('r \<Rightarrow> 'e + 'b) \<Rightarrow> 'r list \<Rightarrow> 'e + 'b list" where
  "map_results f [] = Inr []"
| "map_results f (r # rs) = bind_res (f r) (\<lambda>b. bind_res (map_results f rs) (\<lambda>bs. Inr (b # bs)))"

definition inbox_eligible :: "InboxRow \<Rightarrow> bool" where
  "inbox_eligible r \<longleftrightarrow> ib_stage r \<notin> {Stage_completed, Stage_dead_letter}"

definition inbox_owner :: "string \<Rightarrow> string \<Rightarrow> string" where
  "inbox_owner token k = token @ '':'' @ k"

text \<open>The rows one leasing statement takes: its candidates that join with a registry row.\<close>

definition inbox_batch :: "(string \<Rightarrow> bool) \<Rightarrow> nat \<Rightarrow> int \<Rightarrow> 'o PipelineDb \<Rightarrow> string set" where
  "inbox_batch locked limit now db =
     (let candidates = lease_candidates locked inbox_eligible limit now (pd_inbox db) in
      lr_id ` set (filter (\<lambda>r. lr_id r \<in> set candidates \<and>
        registry_of (ib_applicationId r) (ib_eventId r) (pd_registry db) \<noteq> None) (pd_inbox db)))"

definition leaseInbox ::
  "(InboxRow list \<Rightarrow> InboxRow list) \<Rightarrow> (string \<Rightarrow> bool) \<Rightarrow> int \<Rightarrow> string \<Rightarrow> nat \<Rightarrow> int \<Rightarrow> 'o PipelineDb \<Rightarrow>
   'o PipelineDb \<times> (thrown + InboxLease list)" where
  "leaseInbox returning locked leaseDurationMs token limit now db =
     (if limit < 1 \<or> 1000 < limit
      then (db, Inl (js_error ''RangeError'' ''Inbox lease batch size must be between 1 and 1000''))
      else
        (let ks = inbox_batch locked limit now db;
             rows = acquire_rows ks (inbox_owner token) (now + leaseDurationMs * 1000) (pd_inbox db)
         in (db\<lparr>pd_inbox := rows\<rparr>,
             map_results (mapLease (pd_registry db)) (returning (filter (\<lambda>r. lr_id r \<in> ks) rows)))))"

subsection \<open>Guarded transitions of a leased row\<close>

definition leaseLost :: "InboxLease \<Rightarrow> thrown" where
  "leaseLost lease = RetryablePipelineError ''PIPELINE_LEASE_LOST''
     (''Inbox lease '' @ il_id lease @ '' is no longer owned by '' @ il_leaseOwner lease)
     (JObj [(''inbox_id'', JStr (il_id lease)), (''event_id'', JStr (il_eventId lease))])"

definition set_registry :: "string \<Rightarrow> string \<Rightarrow> (RegistryRow \<Rightarrow> RegistryRow) \<Rightarrow> 'o PipelineDb \<Rightarrow> 'o PipelineDb" where
  "set_registry app event g db =
     db\<lparr>pd_registry := update_rows (\<lambda>x. rg_eventId x = event \<and> rg_applicationId x = app) g (pd_registry db)\<rparr>"

definition advanced :: "int \<Rightarrow> PipelineStage \<Rightarrow> int \<Rightarrow> InboxRow \<Rightarrow> InboxRow" where
  "advanced leaseDurationMs stage now r =
     r\<lparr>ib_stage := stage,
       lr_leaseExpiresAt := Some (case lr_leaseExpiresAt r of
           None \<Rightarrow> now + leaseDurationMs * 1000
         | Some e \<Rightarrow> max (e + 1) (now + leaseDurationMs * 1000))\<rparr>"

text \<open>\<open>advance\<close>: the update joins with the registry row, so a row without one counts as lost.\<close>

definition advance ::
  "int \<Rightarrow> InboxLease \<Rightarrow> PipelineStage \<Rightarrow> int \<Rightarrow> 'o PipelineDb \<Rightarrow> thrown + ('o PipelineDb \<times> InboxLease)" where
  "advance leaseDurationMs lease stage now db =
     (let p = (\<lambda>r. fenced (il_id lease) (il_leaseOwner lease) now r \<and>
                 registry_of (ib_applicationId r) (ib_eventId r) (pd_registry db) \<noteq> None);
          rows = update_rows p (advanced leaseDurationMs stage now) (pd_inbox db) in
      case filter p (pd_inbox db) of
        [r] \<Rightarrow>
          (let db1 = set_registry (il_applicationId lease) (il_eventId lease)
                       (\<lambda>g. g\<lparr>rg_processingStage := stage\<rparr>) (db\<lparr>pd_inbox := rows\<rparr>) in
           bind_res (mapLease (pd_registry db) (advanced leaseDurationMs stage now r)) (\<lambda>l. Inr (db1, l)))
      | _ \<Rightarrow> Inl (leaseLost lease))"

definition checkpoint ::
  "int \<Rightarrow> InboxLease \<Rightarrow> PipelineStage \<Rightarrow> int \<Rightarrow> 'o PipelineDb \<Rightarrow> thrown + ('o PipelineDb \<times> InboxLease)" where
  "checkpoint leaseDurationMs lease stage now db = advance leaseDurationMs lease stage now db"

definition completed_row :: "int \<Rightarrow> int \<Rightarrow> InboxRow \<Rightarrow> InboxRow" where
  "completed_row payloadTtlDays now r =
     r\<lparr>lr_status := Completed, ib_stage := Stage_completed, ib_completedAt := Some now,
       ib_payloadPurgeAfter := Some (now + payloadTtlDays * 86400000000), ib_replayIntentJson := None\<rparr>"

definition resolve_queued :: "string \<Rightarrow> string \<Rightarrow> int \<Rightarrow> DeadLetterRow list \<Rightarrow> DeadLetterRow list" where
  "resolve_queued inboxId text now ds =
     update_rows (\<lambda>d. dl_inboxId d = Some inboxId \<and> dl_status d = Dlq_replay_queued)
       (\<lambda>d. d\<lparr>dl_status := Dlq_resolved, dl_resolution := Some text, dl_resolvedAt := Some now,
              dl_nextRetryAt := None\<rparr>) ds"

text \<open>\<open>rows[0].event_id\<close>: the registry statement uses the row's own event, the lease's application.\<close>

definition complete :: "int \<Rightarrow> InboxLease \<Rightarrow> int \<Rightarrow> 'o PipelineDb \<Rightarrow> thrown + 'o PipelineDb" where
  "complete payloadTtlDays lease now db =
     (let p = fenced (il_id lease) (il_leaseOwner lease) now in
      case filter p (pd_inbox db) of
        [r] \<Rightarrow>
          (let db1 = db\<lparr>pd_inbox := update_rows p (completed_row payloadTtlDays now) (pd_inbox db)\<rparr>;
               db2 = set_registry (il_applicationId lease) (ib_eventId r)
                       (\<lambda>g. g\<lparr>rg_processingStage := Stage_completed\<rparr>) db1
           in Inr (db2\<lparr>pd_deadLetters :=
                resolve_queued (il_id lease) ''Canonical replay completed successfully'' now (pd_deadLetters db2)\<rparr>))
      | _ \<Rightarrow> Inl (leaseLost lease))"

definition error_text :: "PipelineFailure \<Rightarrow> string" where
  "error_text f = pf_code f @ '': '' @ pf_message f"

definition retried_row :: "int \<Rightarrow> string \<Rightarrow> InboxRow \<Rightarrow> InboxRow" where
  "retried_row retryAt text r =
     r\<lparr>lr_status := Failed, lr_availableAt := retryAt, lr_nextRetryAt := Some retryAt, lr_lastError := Some text\<rparr>"

definition retry :: "InboxLease \<Rightarrow> PipelineFailure \<Rightarrow> int \<Rightarrow> int \<Rightarrow> 'o PipelineDb \<Rightarrow> thrown + 'o PipelineDb" where
  "retry lease failure retryAt now db =
     (case fenced_write (il_id lease) (il_leaseOwner lease) now (retried_row retryAt (error_text failure)) (pd_inbox db) of
        None \<Rightarrow> Inl (leaseLost lease)
      | Some rows \<Rightarrow> Inr (db\<lparr>pd_inbox := rows\<rparr>))"

definition dead_row :: "string \<Rightarrow> InboxRow \<Rightarrow> InboxRow" where
  "dead_row text r =
     r\<lparr>lr_status := DeadLetter, ib_stage := Stage_dead_letter, lr_nextRetryAt := None, lr_lastError := Some text\<rparr>"

definition inbox_dead_letter :: "string \<Rightarrow> InboxLease \<Rightarrow> PipelineFailure \<Rightarrow> DeadLetterRow" where
  "inbox_dead_letter newId lease failure =
     \<lparr>dl_id = newId, dl_applicationId = il_applicationId lease, dl_eventId = Some (il_eventId lease),
      dl_inboxId = Some (il_id lease), dl_outboxId = None, dl_stage = il_stage lease, dl_errorCode = pf_code failure,
      dl_errorClass = pf_errorClass failure, dl_errorMessage = pf_message failure,
      dl_detailsJson = pf_details failure, dl_status = Dlq_open, dl_attemptCount = il_attemptCount lease,
      dl_replayCount = 0, dl_nextRetryAt = None, dl_resolution = None, dl_resolvedAt = None\<rparr>"

definition deadLetter ::
  "string \<Rightarrow> InboxLease \<Rightarrow> PipelineFailure \<Rightarrow> int \<Rightarrow> 'o PipelineDb \<Rightarrow> thrown + 'o PipelineDb" where
  "deadLetter newId lease failure now db =
     (let ds = resolve_queued (il_id lease) ''Replay failed and was superseded by a new dead-letter event'' now
                 (pd_deadLetters db) @ [inbox_dead_letter newId lease failure];
          text = error_text failure in
      case fenced_write (il_id lease) (il_leaseOwner lease) now (dead_row text) (pd_inbox db) of
        None \<Rightarrow> Inl (leaseLost lease)
      | Some rows \<Rightarrow>
          Inr (set_registry (il_applicationId lease) (il_eventId lease)
                 (\<lambda>g. g\<lparr>rg_processingStage := Stage_dead_letter, rg_lastError := Some text\<rparr>)
                 (db\<lparr>pd_inbox := rows, pd_deadLetters := ds\<rparr>)))"

subsection \<open>Base outbox messages\<close>

definition SECRET_KEYS :: "string list" where
  "SECRET_KEYS =
     [''access_token'', ''api_key'', ''authorization'', ''bearer_token'', ''client_secret'', ''password'',
      ''private_key'', ''secret'', ''signature'']"

function redactClickHouseRawPayload :: "json \<Rightarrow> json" where
  "redactClickHouseRawPayload (JArr xs) = JArr (map redactClickHouseRawPayload xs)"
| "redactClickHouseRawPayload (JObj ms) =
     JObj (map (\<lambda>(k, v). (k, redactClickHouseRawPayload v))
       (filter (\<lambda>(k, _). js_lower k \<notin> set SECRET_KEYS) ms))"
| "redactClickHouseRawPayload JNull = JNull"
| "redactClickHouseRawPayload (JBool b) = JBool b"
| "redactClickHouseRawPayload (JNum x) = JNum x"
| "redactClickHouseRawPayload (JStr s) = JStr s"
  by pat_completeness auto
termination
proof (relation "measure size")
  fix ms :: "(string \<times> json) list" and z k v
  assume "z \<in> set (filter (\<lambda>(k, _). js_lower k \<notin> set SECRET_KEYS) ms)" and "(k, v) = z"
  then have "(k, v) \<in> set ms" by auto
  then have "size v < Suc (size_list (size_prod (\<lambda>_. 0) size) ms)"
    by (induction ms) auto
  then show "(v, JObj ms) \<in> measure size" by simp
qed (auto simp: less_Suc_eq_le intro: size_list_estimation')

definition fromEntries :: "(string \<times> json) list \<Rightarrow> json" where
  "fromEntries es = JObj (fold (\<lambda>(k, v). AList.update k v) es [])"

definition scope_types :: "PropertyScope \<Rightarrow> PropertyDefinition list \<Rightarrow> json" where
  "scope_types scope definitions =
     fromEntries (map (\<lambda>d. (pr_key d, JStr (pr_dataType d))) (filter (\<lambda>d. pr_scope d = scope) definitions))"

definition property_types :: "PropertyDefinition list \<Rightarrow> json" where
  "property_types definitions =
     JObj [(''event'', scope_types EventScope definitions), (''user'', scope_types UserScope definitions)]"

definition active_definitions :: "string \<Rightarrow> PropertyDefinition list \<Rightarrow> PropertyDefinition list" where
  "active_definitions app ps = filter (\<lambda>d. pr_applicationId d = app \<and> pr_active d) ps"

definition projected_properties :: "PropertyDefinition list \<Rightarrow> UserProfile \<Rightarrow> json" where
  "projected_properties definitions u =
     (let known = (\<lambda>k. member (scope_types UserScope definitions) k \<noteq> None \<or> k \<in> set object_prototype) in
      JObj (filter (\<lambda>(k, _). known k) (case up_propertiesJson u of JObj ms \<Rightarrow> ms | _ \<Rightarrow> [])))"

definition resolution_json :: "PipelineResolutionArtifact \<Rightarrow> json" where
  "resolution_json r = JObj
     ([(''status'', JStr (ra_status r)), (''modelId'', jopt (ra_modelId r)),
       (''mappingFingerprint'', JStr (ra_mappingFingerprint r))] @
      (case ra_evidence r of None \<Rightarrow> [] | Some e \<Rightarrow> [(''evidence'', e)]))"

definition event_text :: "json \<Rightarrow> string \<Rightarrow> string" where
  "event_text event k = (case string_member event k of None \<Rightarrow> [] | Some s \<Rightarrow> s)"

definition baseOutboxMessages ::
  "'e snapshot_env_scheme \<Rightarrow> ('c, 'a, 'q) PipelineSettlementContext \<Rightarrow> string \<Rightarrow> 'o PipelineDb \<Rightarrow>
   thrown + PipelineOutboxMessage list" where
  "baseOutboxMessages env context payloadHash db =
     (let app = pc_applicationId context;
          eventId = event_text (pc_event context) ''event_id'';
          user_id = event_text (sub (pc_normalized context) ''user'') ''user_id'';
          definitions = active_definitions app (pd_properties db);
          types = property_types definitions in
      case List.find (\<lambda>u. up_applicationId u = app \<and> up_externalId u = user_id) (pd_users db) of
        None \<Rightarrow> Inl (db_error ''P2025'' ''No ApplicationUser found'')
      | Some u \<Rightarrow> Inr
          [\<lparr>om_aggregateType = ''usage_event'', om_aggregateId = eventId, om_eventType = ''usage_events_raw'',
            om_payload = JObj
              [(''schema_version'', JStr ''clickhouse-usage-raw''), (''application_id'', JStr app),
               (''event'', redactClickHouseRawPayload (pc_event context)), (''normalized'', pc_normalized context),
               (''resolution'', resolution_json (pc_resolution context)), (''user_tags'', jstrs (up_tags u)),
               (''property_types'', types), (''payload_hash'', JStr payloadHash)],
            om_idempotencyKey = ''clickhouse-raw:'' @ eventId @ '':'' @ payloadHash\<rparr>,
           \<lparr>om_aggregateType = ''usage_event'', om_aggregateId = eventId, om_eventType = ''usage_lines'',
            om_payload = JObj
              [(''schema_version'', JStr ''clickhouse-usage-lines''), (''application_id'', JStr app),
               (''normalized'', pc_normalized context), (''resolution'', resolution_json (pc_resolution context)),
               (''user_tags'', jstrs (up_tags u)), (''property_types'', types)],
            om_idempotencyKey = ''clickhouse-usage-lines:'' @ eventId @ '':'' @ payloadHash\<rparr>,
           \<lparr>om_aggregateType = ''application_user'', om_aggregateId = up_id u, om_eventType = ''application_user.profile'',
            om_payload = JObj
              [(''schema_version'', JStr ''application-user-profile-1''), (''application_id'', JStr app),
               (''user_record_id'', JStr (up_id u)), (''user_id'', JStr (up_externalId u)),
               (''display_user'', jopt (up_name u)), (''tags'', jstrs (sort (remdups (up_tags u)))),
               (''status'', JStr (js_lower (up_status u))),
               (''first_seen_at'', JStr (toISOString env (up_firstSeenAt u))),
               (''last_seen_at'', JStr (toISOString env (up_lastSeenAt u))),
               (''profile_updated_at'', JStr (toISOString env (up_updatedAt u))),
               (''properties'', projected_properties definitions u),
               (''property_types'', JObj [(''user'', scope_types UserScope definitions)])],
            om_idempotencyKey = ''clickhouse-user-profile:'' @ eventId @ '':'' @ payloadHash\<rparr>])"

subsection \<open>The official commit\<close>

definition new_outbox :: "string \<Rightarrow> int \<Rightarrow> int \<Rightarrow> PipelineOutboxMessage \<Rightarrow> OutboxRow" where
  "new_outbox app k now m =
     \<lparr>lr_id = k, lr_status = Pending, lr_attemptCount = 0, lr_availableAt = now, lr_nextRetryAt = None,
      lr_leaseOwner = None, lr_leaseExpiresAt = None, lr_lastError = None,
      ob_applicationId = app, ob_aggregateType = om_aggregateType m, ob_aggregateId = om_aggregateId m,
      ob_eventType = om_eventType m, ob_payloadJson = om_payload m, ob_idempotencyKey = om_idempotencyKey m,
      ob_replayOfOutboxId = None, ob_sentAt = None, ob_createdAt = now\<rparr>"

definition has_outbox :: "string \<Rightarrow> string \<Rightarrow> OutboxRow list \<Rightarrow> bool" where
  "has_outbox app key os \<longleftrightarrow> find_unique (\<lambda>x. ob_applicationId x = app \<and> ob_idempotencyKey x = key) os \<noteq> None"

definition add_outbox :: "string \<Rightarrow> int \<Rightarrow> PipelineOutboxMessage \<Rightarrow> 'o PipelineDb \<Rightarrow> 'o PipelineDb" where
  "add_outbox app now m db =
     (if has_outbox app (om_idempotencyKey m) (pd_outbox db) then db
      else db\<lparr>pd_outbox := pd_outbox db @ [new_outbox app (pd_nextOutboxId db) now m],
              pd_nextOutboxId := pd_nextOutboxId db + 1\<rparr>)"

type_synonym ('o, 'c, 'a, 'q, 'm) official_writer =
  "('c, 'a, 'q) PipelineSettlementContext \<Rightarrow> 'o PipelineDb \<Rightarrow> thrown + ('o \<times> PipelineOutboxMessage list \<times> 'm)"

text \<open>\<open>lockedAt\<close>, \<open>committedAt\<close> and \<open>createdAt\<close> are the instants of the locking statement, of the
  first advance and of the inserts with the second advance.\<close>

record commit_clock =
  cc_lockedAt :: int
  cc_committedAt :: int
  cc_createdAt :: int

definition commitOfficial ::
  "'e snapshot_env_scheme \<Rightarrow> int \<Rightarrow> commit_clock \<Rightarrow> ('o, 'c, 'a, 'q, 'm) official_writer \<Rightarrow> InboxLease \<Rightarrow>
   ('c, 'a, 'q) PipelineSettlementContext \<Rightarrow> 'o PipelineDb \<Rightarrow> thrown + ('o PipelineDb \<times> InboxLease \<times> 'm)" where
  "commitOfficial env leaseDurationMs clock writer lease context db =
     (if count_rows (fenced (il_id lease) (il_leaseOwner lease) (cc_lockedAt clock)) (pd_inbox db) \<noteq> 1
      then Inl (leaseLost lease)
      else
        bind_res (writer context db) (\<lambda>(official, additional, metrics).
        bind_res (advance leaseDurationMs lease Stage_official_committed (cc_committedAt clock)
                    (db\<lparr>pd_official := official\<rparr>)) (\<lambda>(db1, current).
        bind_res (baseOutboxMessages env context (il_payloadHash lease) db1) (\<lambda>base.
        bind_res (advance leaseDurationMs current Stage_outbox_created (cc_createdAt clock)
                    (fold (add_outbox (pc_applicationId context) (cc_createdAt clock)) (base @ additional) db1))
          (\<lambda>(db2, last). Inr (db2, last, metrics))))))"

subsection \<open>Payload cleanup\<close>

text \<open>The candidate condition of \<open>purgeBatch\<close>: the registry row is joined on the event id alone, and
  so are the dead letters; \<open>pd_openDiffSamples\<close> are the \<open>sample_event_ids_json\<close> of the
  reconciliation differences still open or under investigation.\<close>

definition purgeable :: "int \<Rightarrow> 'o PipelineDb \<Rightarrow> InboxRow \<Rightarrow> bool" where
  "purgeable now db r \<longleftrightarrow>
     lr_status r = Completed \<and> ib_stage r = Stage_completed \<and> ib_payloadJson r \<noteq> None \<and>
     (case ib_payloadPurgeAfter r of None \<Rightarrow> False | Some t \<Rightarrow> t \<le> now) \<and>
     list_ex (\<lambda>g. rg_eventId g = ib_eventId r \<and> rg_rawSyncedAt g \<noteq> None) (pd_registry db) \<and>
     \<not> list_ex (\<lambda>d. dl_eventId d = Some (ib_eventId r) \<and> dl_status d \<in> {Dlq_open, Dlq_replay_queued})
         (pd_deadLetters db) \<and>
     \<not> list_ex (\<lambda>j. case j of JArr xs \<Rightarrow> JStr (ib_eventId r) \<in> set xs | _ \<Rightarrow> False) (pd_openDiffSamples db)"

text \<open>\<open>LIMIT\<close> counts joined rows: an event id that several registry rows share appears once for
  each of them.\<close>

definition purge_candidates :: "(string \<Rightarrow> bool) \<Rightarrow> nat \<Rightarrow> int \<Rightarrow> 'o PipelineDb \<Rightarrow> string list" where
  "purge_candidates locked limit now db =
     map lr_id (take limit (sort_key (\<lambda>r. (the (ib_payloadPurgeAfter r), lr_id r))
       (concat (map (\<lambda>r. map (\<lambda>_. r) (filter (\<lambda>g. rg_eventId g = ib_eventId r \<and> rg_rawSyncedAt g \<noteq> None) (pd_registry db)))
          (filter (\<lambda>r. purgeable now db r \<and> \<not> locked (lr_id r)) (pd_inbox db))))))"

definition purgeBatch :: "(string \<Rightarrow> bool) \<Rightarrow> nat \<Rightarrow> int \<Rightarrow> 'o PipelineDb \<Rightarrow> thrown + ('o PipelineDb \<times> string list)" where
  "purgeBatch locked limit now db =
     (if limit < 1 \<or> 5000 < limit
      then Inl (js_error ''RangeError'' ''Payload cleanup batch size must be between 1 and 5000'')
      else
        (let ks = set (purge_candidates locked limit now db);
             purged = filter (\<lambda>r. lr_id r \<in> ks) (pd_inbox db)
         in Inr (db\<lparr>pd_inbox := update_rows (\<lambda>r. lr_id r \<in> ks)
                      (\<lambda>r. r\<lparr>ib_payloadJson := None, ib_payloadPurgedAt := Some now\<rparr>) (pd_inbox db),
                    pd_audit := pd_audit db @ map (\<lambda>r. (''pipeline.inbox_payload.purged'', lr_id r)) purged\<rparr>,
                 map ib_eventId purged)))"

subsection \<open>Replaying a dead letter\<close>

datatype replay_outcome = Replay_idempotent | Replay_queued

text \<open>\<open>uuid\<close> and \<open>reason\<close> are the request's fields after its schema; \<open>now\<close> is a JavaScript
  \<open>Date\<close> in microseconds.\<close>

definition reset_inbox :: "int \<Rightarrow> InboxRow \<Rightarrow> InboxRow" where
  "reset_inbox now r =
     r\<lparr>lr_status := Pending, ib_stage := Stage_received, lr_attemptCount := 0, lr_availableAt := now,
       lr_nextRetryAt := None, lr_leaseOwner := None, lr_leaseExpiresAt := None, lr_lastError := None,
       ib_completedAt := None, ib_payloadPurgeAfter := None, ib_payloadPurgedAt := None\<rparr>"

definition replay_schema :: "'e route_env_scheme \<Rightarrow> json \<Rightarrow> bool" where
  "replay_schema env = z_object
     [req ''dead_letter_id'' (z_string (is_uuid env)),
      req ''reason'' (z_string (\<lambda>s. 5 \<le> utf16_length (js_trim s) \<and> utf16_length (js_trim s) \<le> 500))]"

definition replay ::
  "'e route_env_scheme \<Rightarrow> string option \<Rightarrow> json \<Rightarrow> int \<Rightarrow> 'o PipelineDb \<Rightarrow> svc_error + ('o PipelineDb \<times> replay_outcome)" where
  "replay env application request now db =
     (if \<not> replay_schema env request then Inl (BadRequest ''Invalid DLQ replay request'')
      else case application of
        None \<Rightarrow> Inl (Forbidden ''Application context required'')
      | Some app \<Rightarrow>
          (case find_unique (\<lambda>d. dl_id d = event_text request ''dead_letter_id'' \<and> dl_applicationId d = app)
                  (pd_deadLetters db) of
             None \<Rightarrow> Inl (NotFound ''Dead-letter event was not found'')
           | Some d \<Rightarrow>
               (let inbox = (case dl_inboxId d of None \<Rightarrow> None
                     | Some k \<Rightarrow> find_unique (\<lambda>r. lr_id r = k \<and> ib_applicationId r = dl_applicationId d) (pd_inbox db)) in
                if dl_status d = Dlq_replay_queued \<and> map_option lr_status inbox = Some Pending
                then Inr (db, Replay_idempotent)
                else if dl_status d \<noteq> Dlq_open
                then Inl (BadRequest ''Only open dead-letter events can be replayed'')
                else
                  (case inbox of
                     None \<Rightarrow> Inl (BadRequest ''The canonical inbox payload is no longer available'')
                   | Some r \<Rightarrow>
                       if ib_payloadJson r = None
                       then Inl (BadRequest ''The canonical inbox payload is no longer available'')
                       else
                         (let db1 = db\<lparr>pd_deadLetters := update_rows (\<lambda>x. dl_id x = dl_id d)
                                 (\<lambda>x. x\<lparr>dl_status := Dlq_replay_queued, dl_replayCount := dl_replayCount x + 1,
                                        dl_nextRetryAt := Some now\<rparr>) (pd_deadLetters db),
                               pd_inbox := update_rows (\<lambda>x. lr_id x = lr_id r) (reset_inbox now) (pd_inbox db),
                               pd_audit := pd_audit db @ [(''dead_letter.replay.queued'', dl_id d)]\<rparr> in
                          case dl_eventId d of
                            None \<Rightarrow> Inr (db1, Replay_queued)
                          | Some event \<Rightarrow>
                              if registry_of (ib_applicationId r) event (pd_registry db) = None
                              then Inl (NotFound ''P2025'')
                              else Inr (set_registry (ib_applicationId r) event
                                     (\<lambda>g. g\<lparr>rg_processingStage := Stage_received, rg_lastError := None\<rparr>) db1,
                                   Replay_queued))))))"

end
