(* ===== verification/Ingestion.thy ===== *)
theory Ingestion
  imports PipelineStore "HOL-Library.Multiset"
begin

text \<open>
  The ingestion boundary of the API: \<open>apps/api/src/usage-ingestion.service.ts\<close>,
  \<open>ingestion/property-validation.ts\<close> and \<open>ingestion/canonical-payload.ts\<close>.  A batch is checked as
  a whole, then each event is validated and written, with its user and its inbox row, in one
  transaction.

  \<open>ingest_env\<close> extends the environment of the contracts with \<open>zod\<close>'s ISO date-times, \<open>Date.parse\<close>
  (as the test that it yields a number, and as the instant in milliseconds), what PostgreSQL
  accepts as a UUID, and the ids the database generates.
\<close>

subsection \<open>Environment and catalog\<close>

record ingest_env = snapshot_env +
  iso_datetime :: "string \<Rightarrow> bool"
  date_parses :: "string \<Rightarrow> bool"
  date_ms :: "string \<Rightarrow> int"
  pg_uuid :: "string \<Rightarrow> bool"

record CallConnectionRow =
  kc_id :: string
  kc_applicationId :: string
  kc_driver :: string

record CatalogModelRow =
  km_id :: string
  km_applicationId :: string
  km_connectionId :: string
  km_requestModel :: string
  km_enabled :: bool

record catalog =
  cg_connections :: "CallConnectionRow list"
  cg_models :: "CatalogModelRow list"

record UsageIngestionOptions =
  io_maxBatchSize :: nat
  io_maxBatchBytes :: nat
  io_maxEventBytes :: nat

subsection \<open>Canonical payloads\<close>

function canonicalizeJson :: "json \<Rightarrow> json" where
  "canonicalizeJson (JArr xs) = JArr (map canonicalizeJson xs)"
| "canonicalizeJson (JObj ms) = JObj (map (\<lambda>(k, v). (k, canonicalizeJson v)) (sort_key fst ms))"
| "canonicalizeJson JNull = JNull"
| "canonicalizeJson (JBool b) = JBool b"
| "canonicalizeJson (JNum x) = JNum x"
| "canonicalizeJson (JStr s) = JStr s"
  by pat_completeness auto
termination
proof (relation "measure size")
  fix ms :: "(string \<times> json) list" and z k v
  assume "z \<in> set (sort_key fst ms)" and "(k, v) = z"
  then have "(k, v) \<in> set ms" by auto
  then have "size v < Suc (size_list (size_prod (\<lambda>_. 0) size) ms)"
    by (induction ms) auto
  then show "(v, JObj ms) \<in> measure size" by simp
qed (auto simp: less_Suc_eq_le intro: size_list_estimation')

definition canonicalJson :: "'e snapshot_env_scheme \<Rightarrow> json \<Rightarrow> string" where
  "canonicalJson env v = stringify env (canonicalizeJson v)"

definition canonicalPayloadHash :: "'e snapshot_env_scheme \<Rightarrow> json \<Rightarrow> string" where
  "canonicalPayloadHash env v = sha256hex env (canonicalJson env v)"

subsection \<open>Properties\<close>

text \<open>A constraint that is absent holds; the console stores numbers only.\<close>

definition limit_holds :: "json \<Rightarrow> string \<Rightarrow> (rat \<Rightarrow> bool) \<Rightarrow> bool" where
  "limit_holds constraints k p = (case member constraints k of
     None \<Rightarrow> True | Some (JNum m) \<Rightarrow> p m | Some _ \<Rightarrow> False)"

definition valueMatches :: "'e ingest_env_scheme \<Rightarrow> PropertyDefinition \<Rightarrow> json \<Rightarrow> bool" where
  "valueMatches env d value =
     (let limit = pr_constraints d; kind = pr_dataType d;
          short = (\<lambda>s. limit_holds limit ''max_length'' (\<lambda>m. of_nat (utf16_length s) \<le> m)) in
      if kind = ''TEXT'' then z_string short value
      else if kind = ''NUMBER'' then
        (case value of JNum x \<Rightarrow> limit_holds limit ''min'' (\<lambda>m. m \<le> x) \<and> limit_holds limit ''max'' (\<lambda>m. x \<le> m)
         | _ \<Rightarrow> False)
      else if kind = ''BOOLEAN'' then z_boolean value
      else if kind = ''DATETIME'' then z_string (\<lambda>s. js_includes s ''T'' \<and> date_parses env s) value
      else if kind = ''ENUM'' then
        (case (value, pr_allowedValues d) of (JStr s, JArr xs) \<Rightarrow> JStr s \<in> set xs | _ \<Rightarrow> False)
      else if kind = ''TEXT_LIST'' then
        (case value of
           JArr xs \<Rightarrow> limit_holds limit ''max_items'' (\<lambda>m. of_nat (length xs) \<le> m) \<and> list_all (z_string short) xs
         | _ \<Rightarrow> False)
      else False)"

definition scope_text :: "PropertyScope \<Rightarrow> string" where
  "scope_text s = (case s of EventScope \<Rightarrow> ''EVENT'' | UserScope \<Rightarrow> ''USER'')"

fun validate_entries ::
  "'e ingest_env_scheme \<Rightarrow> PropertyScope \<Rightarrow> (string \<Rightarrow> PropertyDefinition option) \<Rightarrow> (string \<times> json) list \<Rightarrow> string option" where
  "validate_entries env scope indexed [] = None"
| "validate_entries env scope indexed ((k, v) # es) =
     (case indexed (scope_text scope @ '':'' @ k) of
        None \<Rightarrow> Some (js_lower (scope_text scope) @ '' property '' @ k @ '' is not defined'')
      | Some d \<Rightarrow>
          if \<not> valueMatches env d v
          then Some (js_lower (scope_text scope) @ '' property '' @ k @ '' does not match '' @ js_lower (pr_dataType d))
          else validate_entries env scope indexed es)"

definition validateScope ::
  "'e ingest_env_scheme \<Rightarrow> PropertyScope \<Rightarrow> json option \<Rightarrow> (string \<Rightarrow> PropertyDefinition option) \<Rightarrow> string option" where
  "validateScope env scope values indexed =
     validate_entries env scope indexed (case values of Some (JObj ms) \<Rightarrow> ms | _ \<Rightarrow> [])"

definition validateEventProperties ::
  "'e ingest_env_scheme \<Rightarrow> json \<Rightarrow> PropertyDefinition list \<Rightarrow> string option" where
  "validateEventProperties env event definitions =
     (let indexed = js_map (map (\<lambda>d. (scope_text (pr_scope d) @ '':'' @ pr_key d, d)) definitions) in
      case validateScope env EventScope (member event ''event_properties'') indexed of
        Some m \<Rightarrow> Some m
      | None \<Rightarrow> validateScope env UserScope (member event ''user_properties'') indexed)"

subsection \<open>Validation of one event\<close>

datatype item_status = Item_accepted | Item_duplicate | Item_conflict | Item_rejected

record UsageIngestionItemResult =
  ir_index :: nat
  ir_event_id :: "string option"
  ir_status :: item_status
  ir_code :: "string option"
  ir_message :: "string option"

record ValidatedUsageEvent =
  ve_index :: nat
  ve_event :: json
  ve_payloadHash :: string

definition possibleEventId :: "json \<Rightarrow> string option" where
  "possibleEventId value = (case member value ''event_id'' of
     None \<Rightarrow> None | Some v \<Rightarrow> if eventIdSchema v then json_string (Some v) else None)"

definition rejected :: "nat \<Rightarrow> string option \<Rightarrow> string \<Rightarrow> string \<Rightarrow> UsageIngestionItemResult" where
  "rejected index eventId code message =
     \<lparr>ir_index = index, ir_event_id = eventId, ir_status = Item_rejected, ir_code = Some code,
      ir_message = Some message\<rparr>"

definition validateEvent ::
  "'e ingest_env_scheme \<Rightarrow> UsageIngestionOptions \<Rightarrow> nat \<Rightarrow> json \<Rightarrow> PropertyDefinition list \<Rightarrow>
   UsageIngestionItemResult + ValidatedUsageEvent" where
  "validateEvent env opts index candidate definitions =
     (if \<not> usageEventSchema env candidate
      then Inl (rejected index (possibleEventId candidate) ''INVALID_EVENT''
                  ''The event did not satisfy the Usage Event contract.'')
      else
        (case validateEventProperties env candidate definitions of
           Some message \<Rightarrow> Inl (rejected index (string_member candidate ''event_id'') ''INVALID_PROPERTY'' message)
         | None \<Rightarrow>
             if io_maxEventBytes opts < length (canonicalJson env candidate)
             then Inl (rejected index (string_member candidate ''event_id'') ''EVENT_TOO_LARGE''
                    (''The canonical event exceeds '' @ decimal_text (io_maxEventBytes opts) @ '' bytes.''))
             else Inr \<lparr>ve_index = index, ve_event = candidate, ve_payloadHash = canonicalPayloadHash env candidate\<rparr>))"

subsection \<open>Writing one event\<close>

text \<open>What the tables refuse of an event the contract accepts: a user id or a request model of
  blanks only (CHECK constraints), a provider longer than its column, and a reservation id that
  is not a UUID.\<close>

definition btrim :: "string \<Rightarrow> string" where
  "btrim s = rev (dropWhile (\<lambda>c. c = CHR '' '') (rev (dropWhile (\<lambda>c. c = CHR '' '') s)))"

definition registry_accepts :: "'e ingest_env_scheme \<Rightarrow> RegistryRow \<Rightarrow> bool" where
  "registry_accepts env g \<longleftrightarrow>
     btrim (rg_externalUserId g) \<noteq> [] \<and> btrim (rg_requestModel g) \<noteq> [] \<and>
     (case rg_provider g of None \<Rightarrow> True | Some p \<Rightarrow> code_points p \<le> 120) \<and>
     (case rg_reservationId g of None \<Rightarrow> True | Some r \<Rightarrow> pg_uuid env r)"

definition find_connection :: "'e ingest_env_scheme \<Rightarrow> catalog \<Rightarrow> string \<Rightarrow> json \<Rightarrow> CallConnectionRow option" where
  "find_connection env cat app model = (case string_member model ''connection_id'' of
     None \<Rightarrow> None
   | Some c \<Rightarrow> if is_uuid env c
       then List.find (\<lambda>x. kc_id x = c \<and> kc_applicationId x = app) (cg_connections cat) else None)"

definition find_model ::
  "'e ingest_env_scheme \<Rightarrow> catalog \<Rightarrow> string \<Rightarrow> json \<Rightarrow> CallConnectionRow option \<Rightarrow> CatalogModelRow option" where
  "find_model env cat app model connection =
     (let requestModel = event_text model ''request_model'' in
      case string_member model ''model_id'' of
        Some m \<Rightarrow>
          if is_uuid env m
          then List.find (\<lambda>x. km_id x = m \<and> km_applicationId x = app \<and> km_requestModel x = requestModel \<and>
                 (case connection of None \<Rightarrow> True | Some c \<Rightarrow> km_connectionId x = kc_id c)) (cg_models cat)
          else (case connection of None \<Rightarrow> None
             | Some c \<Rightarrow> List.find (\<lambda>x. km_applicationId x = app \<and> km_connectionId x = kc_id c \<and>
                 km_requestModel x = requestModel \<and> km_enabled x) (cg_models cat))
      | None \<Rightarrow>
          (case connection of None \<Rightarrow> None
           | Some c \<Rightarrow> List.find (\<lambda>x. km_applicationId x = app \<and> km_connectionId x = kc_id c \<and>
               km_requestModel x = requestModel \<and> km_enabled x) (cg_models cat)))"

definition model_driver :: "catalog \<Rightarrow> CatalogModelRow \<Rightarrow> string option" where
  "model_driver cat m = map_option (\<lambda>c. js_lower (kc_driver c))
     (List.find (\<lambda>c. kc_id c = km_connectionId m \<and> kc_applicationId c = km_applicationId m) (cg_connections cat))"

text \<open>The user of an event: created with the event's time as both seen times, or updated where the
  event says something and widened to its time.\<close>

definition upsert_profile ::
  "string \<Rightarrow> string \<Rightarrow> json \<Rightarrow> int \<Rightarrow> int \<Rightarrow> 'o PipelineDb \<Rightarrow> 'o PipelineDb \<times> UserProfile" where
  "upsert_profile app newId event eventTime now db =
     (let user = sub event ''user''; external = event_text user ''user_id''; name = string_member user ''display_user'';
          p = (\<lambda>u. up_applicationId u = app \<and> up_externalId u = external);
          named = (\<lambda>u. u\<lparr>up_name := (case name of None \<Rightarrow> up_name u | Some n \<Rightarrow> Some n),
                   up_propertiesJson := (case member event ''user_properties'' of None \<Rightarrow> up_propertiesJson u | Some v \<Rightarrow> v),
                   up_updatedAt := now\<rparr>);
          seen = (\<lambda>u. u\<lparr>up_firstSeenAt := min (up_firstSeenAt u) eventTime,
                   up_lastSeenAt := max (up_lastSeenAt u) eventTime\<rparr>) in
      case find_unique p (pd_users db) of
        Some u \<Rightarrow> (db\<lparr>pd_users := update_rows p (seen \<circ> named) (pd_users db)\<rparr>, u)
      | None \<Rightarrow>
          (let u = \<lparr>up_id = newId, up_applicationId = app, up_externalId = external, up_name = name,
                    up_propertiesJson = (case member event ''user_properties'' of None \<Rightarrow> JObj [] | Some v \<Rightarrow> v),
                    up_tags = [], up_status = ''ACTIVE'', up_firstSeenAt = eventTime, up_lastSeenAt = eventTime,
                    up_updatedAt = now\<rparr>
           in (db\<lparr>pd_users := pd_users db @ [u]\<rparr>, u)))"

definition registry_row ::
  "'e ingest_env_scheme \<Rightarrow> catalog \<Rightarrow> string \<Rightarrow> ValidatedUsageEvent \<Rightarrow> string \<Rightarrow> RegistryRow" where
  "registry_row env cat app inp userId =
     (let event = ve_event inp; model = sub event ''model''; request = sub event ''request''; route = sub event ''route'';
          connection = find_connection env cat app model; definition_row = find_model env cat app model connection in
      \<lparr>rg_applicationId = app, rg_eventId = event_text event ''event_id'', rg_payloadHash = ve_payloadHash inp,
       rg_applicationUserId = userId, rg_reservationId = string_member request ''reservation_id'',
       rg_externalUserId = event_text (sub event ''user'') ''user_id'',
       rg_userName = string_member (sub event ''user'') ''display_user'',
       rg_versions = map (string_member event) [''application_version'', ''sdk_version'', ''connector_version'', ''config_version''],
       rg_eventProperties = member event ''event_properties'', rg_userProperties = member event ''user_properties'',
       rg_virtualModel = string_member model ''virtual_model'', rg_realModelId = map_option km_id definition_row,
       rg_requestModel = event_text model ''request_model'',
       rg_connectionId = (case definition_row of Some m \<Rightarrow> Some (km_connectionId m) | None \<Rightarrow> map_option kc_id connection),
       rg_connectionDriver =
         (case (case definition_row of Some m \<Rightarrow> model_driver cat m | None \<Rightarrow> None) of
            Some d \<Rightarrow> Some d
          | None \<Rightarrow> (case connection of Some c \<Rightarrow> Some (js_lower (kc_driver c)) | None \<Rightarrow> string_member model ''connection_driver'')),
       rg_schemaVersion = event_text event ''schema_version'', rg_requestId = event_text request ''request_id'',
       rg_attemptId = event_text request ''attempt_id'',
       rg_attemptIndex = (case member request ''attempt_index'' of None \<Rightarrow> 0
          | Some j \<Rightarrow> (case json_int j of None \<Rightarrow> 0 | Some n \<Rightarrow> n)),
       rg_isFinalAttempt = bool_member request ''is_final_attempt'', rg_operationId = string_member request ''operation_id'',
       rg_instanceId = event_text (sub event ''source'') ''instance_id'', rg_provider = string_member model ''provider'',
       rg_resultStatus = event_text (sub event ''result'') ''status'', rg_routeReason = string_member route ''reason'',
       rg_fallbackFrom = string_member route ''fallback_from'',
       rg_eventTime = date_ms env (event_text event ''event_time''), rg_sourceType = event_text (sub event ''source'') ''type'',
       rg_analyticsDimensions = sub event ''analytics_dimensions'', rg_processingStage = Stage_received,
       rg_rawSyncedAt = None, rg_officialSyncedAt = None, rg_lastError = None\<rparr>)"

definition new_inbox :: "string \<Rightarrow> string \<Rightarrow> string \<Rightarrow> json \<Rightarrow> int \<Rightarrow> InboxRow" where
  "new_inbox newId app eventId payload now =
     \<lparr>lr_id = newId, lr_status = Pending, lr_attemptCount = 0, lr_availableAt = now, lr_nextRetryAt = None,
      lr_leaseOwner = None, lr_leaseExpiresAt = None, lr_lastError = None, ib_applicationId = app, ib_eventId = eventId,
      ib_payloadJson = Some payload, ib_stage = Stage_received, ib_completedAt = None, ib_payloadPurgeAfter = None,
      ib_payloadPurgedAt = None, ib_replayIntentJson = None, ib_createdAt = now\<rparr>"

definition statusForExisting :: "RegistryRow \<Rightarrow> string \<Rightarrow> item_status" where
  "statusForExisting g payloadHash = (if rg_payloadHash g = payloadHash then Item_duplicate else Item_conflict)"

definition itemResult :: "ValidatedUsageEvent \<Rightarrow> item_status \<Rightarrow> UsageIngestionItemResult" where
  "itemResult inp status =
     \<lparr>ir_index = ve_index inp, ir_event_id = string_member (ve_event inp) ''event_id'', ir_status = status,
      ir_code = (if status = Item_conflict then Some ''PAYLOAD_HASH_CONFLICT'' else None),
      ir_message = (if status = Item_conflict
                    then Some ''event_id already exists with a different canonical payload hash'' else None)\<rparr>"

text \<open>
  \<open>persistEvent\<close>.  The transaction reads whether the event exists, then writes; \<open>others\<close> is what
  other writers commit in between.  When one of them has stored the same event the insert meets
  the unique index, the transaction is rolled back and the event is classified against the hash
  that is there now.  Ids are generated: \<open>pv_userId\<close> and \<open>pv_inboxId\<close>.
\<close>

record persist_world =
  pv_userId :: string
  pv_inboxId :: string
  pv_now :: int

definition insert_event ::
  "'e ingest_env_scheme \<Rightarrow> catalog \<Rightarrow> persist_world \<Rightarrow> string \<Rightarrow> ValidatedUsageEvent \<Rightarrow> 'o PipelineDb \<Rightarrow>
   thrown + 'o PipelineDb" where
  "insert_event env cat w app inp db =
     (let event = ve_event inp; eventId = event_text event ''event_id'';
          (db1, user) = upsert_profile app (pv_userId w) event (date_ms env (event_text event ''event_time'')) (pv_now w) db;
          g = registry_row env cat app inp (up_id user);
          r = new_inbox (pv_inboxId w) app eventId event (pv_now w) in
      if \<not> registry_accepts env g then Inl (db_error ''23514'' ''the row violates a column type or CHECK constraint'')
      else if registry_of app eventId (pd_registry db1) \<noteq> None \<or> list_ex (\<lambda>x. lr_id x = lr_id r) (pd_inbox db1)
      then Inl (db_error ''P2002'' ''Unique constraint failed'')
      else Inr (db1\<lparr>pd_registry := pd_registry db1 @ [g], pd_inbox := pd_inbox db1 @ [r]\<rparr>))"

definition isUniqueConflict :: "thrown \<Rightarrow> bool" where
  "isUniqueConflict e = (case e of ErrorObject heap a \<Rightarrow> eo_code (heap a) = Some ''P2002'' | _ \<Rightarrow> False)"

definition persistEvent ::
  "'e ingest_env_scheme \<Rightarrow> catalog \<Rightarrow> persist_world \<Rightarrow> ('o PipelineDb \<Rightarrow> 'o PipelineDb) \<Rightarrow> string \<Rightarrow> ValidatedUsageEvent \<Rightarrow>
   'o PipelineDb \<Rightarrow> 'o PipelineDb \<times> (thrown + UsageIngestionItemResult)" where
  "persistEvent env cat w others app inp db =
     (let eventId = event_text (ve_event inp) ''event_id''; after = others db in
      case registry_of app eventId (pd_registry db) of
        Some g \<Rightarrow> (after, Inr (itemResult inp (statusForExisting g (ve_payloadHash inp))))
      | None \<Rightarrow>
          (case insert_event env cat w app inp after of
             Inr db' \<Rightarrow> (db', Inr (itemResult inp Item_accepted))
           | Inl e \<Rightarrow>
               if \<not> isUniqueConflict e then (after, Inl e)
               else
                 (case registry_of app eventId (pd_registry after) of
                    None \<Rightarrow> (after, Inl e)
                  | Some g \<Rightarrow> (after, Inr (itemResult inp (statusForExisting g (ve_payloadHash inp)))))))"

subsection \<open>A batch\<close>

definition batchEnvelopeSchema :: "'e ingest_env_scheme \<Rightarrow> json \<Rightarrow> bool" where
  "batchEnvelopeSchema env = z_object
     [req ''schema_version'' (z_literal (JStr ''2.0'')),
      req ''batch_id'' (z_string (\<lambda>s. 1 \<le> utf16_length s \<and> utf16_length s \<le> 256)),
      req ''sent_at'' (z_string (iso_datetime env)), req ''events'' (z_array (\<lambda>_. True) (\<lambda>xs. 1 \<le> length xs))]"

definition propertyDefinitions :: "string \<Rightarrow> json list \<Rightarrow> 'o PipelineDb \<Rightarrow> PropertyDefinition list" where
  "propertyDefinitions app events db =
     (if list_ex (\<lambda>e. member e ''event_properties'' \<noteq> None \<or> member e ''user_properties'' \<noteq> None) events
      then active_definitions app (pd_properties db) else [])"

text \<open>The events one after another; an error that is not a lost race ends the request, with the
  events before it already stored.\<close>

fun ingest_events ::
  "'e ingest_env_scheme \<Rightarrow> catalog \<Rightarrow> UsageIngestionOptions \<Rightarrow> (nat \<Rightarrow> persist_world) \<Rightarrow>
   (nat \<Rightarrow> 'o PipelineDb \<Rightarrow> 'o PipelineDb) \<Rightarrow> string \<Rightarrow> PropertyDefinition list \<Rightarrow> nat \<Rightarrow> json list \<Rightarrow> 'o PipelineDb \<Rightarrow> 'o PipelineDb \<times> (thrown + UsageIngestionItemResult list)" where
  "ingest_events env cat opts worlds others app definitions index [] db = (db, Inr [])"
| "ingest_events env cat opts worlds others app definitions index (candidate # cs) db =
     (case validateEvent env opts index candidate definitions of
        Inl r \<Rightarrow>
          (case ingest_events env cat opts worlds others app definitions (index + 1) cs db of
             (db', Inl e) \<Rightarrow> (db', Inl e) | (db', Inr rs) \<Rightarrow> (db', Inr (r # rs)))
      | Inr v \<Rightarrow>
          (case persistEvent env cat (worlds index) (others index) app v db of
             (db1, Inl e) \<Rightarrow> (db1, Inl e)
           | (db1, Inr r) \<Rightarrow>
               (case ingest_events env cat opts worlds others app definitions (index + 1) cs db1 of
                  (db', Inl e) \<Rightarrow> (db', Inl e) | (db', Inr rs) \<Rightarrow> (db', Inr (r # rs)))))"

record UsageBatchResponse =
  br_batch_id :: string
  br_accepted :: nat
  br_duplicates :: nat
  br_conflicts :: nat
  br_rejected :: nat
  br_results :: "UsageIngestionItemResult list"

datatype ingest_error = PayloadTooLarge string | BadBatch string | IngestFailure thrown

definition count_status :: "item_status \<Rightarrow> UsageIngestionItemResult list \<Rightarrow> nat" where
  "count_status s rs = length (filter (\<lambda>r. ir_status r = s) rs)"

definition ingest ::
  "'e ingest_env_scheme \<Rightarrow> catalog \<Rightarrow> UsageIngestionOptions \<Rightarrow> (nat \<Rightarrow> persist_world) \<Rightarrow>
   (nat \<Rightarrow> 'o PipelineDb \<Rightarrow> 'o PipelineDb) \<Rightarrow> json \<Rightarrow> string \<Rightarrow> 'o PipelineDb \<Rightarrow>
   'o PipelineDb \<times> (ingest_error + UsageBatchResponse)" where
  "ingest env cat opts worlds others inp app db =
     (if io_maxBatchBytes opts < length (stringify env inp) then (db, Inl (PayloadTooLarge ''Usage batch is too large''))
      else if \<not> batchEnvelopeSchema env inp then (db, Inl (BadBatch ''Body must satisfy the Usage Batch envelope''))
      else
        (let events = array_of (member inp ''events'') in
         if io_maxBatchSize opts < length events
         then (db, Inl (PayloadTooLarge (''Batch contains more than '' @ decimal_text (io_maxBatchSize opts) @ '' events'')))
         else
           (case ingest_events env cat opts worlds others app (propertyDefinitions app events db) 0 events db of
              (db', Inl e) \<Rightarrow> (db', Inl (IngestFailure e))
            | (db', Inr results) \<Rightarrow>
                (db', Inr \<lparr>br_batch_id = event_text inp ''batch_id'', br_accepted = count_status Item_accepted results,
                   br_duplicates = count_status Item_duplicate results, br_conflicts = count_status Item_conflict results,
                   br_rejected = count_status Item_rejected results, br_results = results\<rparr>))))"

subsection \<open>The canonical form ignores the order of members\<close>

text \<open>The same JSON value with the members of its objects in another order.\<close>

inductive reordered :: "json \<Rightarrow> json \<Rightarrow> bool" where
  same: "reordered j j"
| arr: "list_all2 reordered xs ys \<Longrightarrow> reordered (JArr xs) (JArr ys)"
| obj: "distinct (map fst ms) \<Longrightarrow> list_all2 (\<lambda>x y. fst x = fst y \<and> reordered (snd x) (snd y)) ms ms' \<Longrightarrow>
    mset ms'' = mset ms' \<Longrightarrow> reordered (JObj ms) (JObj ms'')"

lemma insort_key_map:
  "(\<And>x. f (g x) = f x) \<Longrightarrow> map g (insort_key f x xs) = insort_key f (g x) (map g xs)"
  by (induction xs) auto

lemma sort_key_map:
  "(\<And>x. f (g x) = f x) \<Longrightarrow> map g (sort_key f xs) = sort_key f (map g xs)"
  by (induction xs) (auto simp: insort_key_map)

lemma canonicalize_obj:
  "canonicalizeJson (JObj ms) = JObj (sort_key fst (map (\<lambda>(k, v). (k, canonicalizeJson v)) ms))"
  by (simp add: sort_key_map case_prod_beta)

lemma reordered_canonical: "reordered j j' \<Longrightarrow> canonicalizeJson j = canonicalizeJson j'"
proof (induction rule: reordered.induct)
  case (arr xs ys)
  have "map canonicalizeJson xs = map canonicalizeJson ys"
    using arr by (auto simp: list_all2_conv_all_nth intro: nth_equalityI)
  then show ?case by simp
next
  case (obj ms ms' ms'')
  let ?g = "\<lambda>(k :: string, v). (k, canonicalizeJson v)"
  have len: "length ms = length ms'"
    and at: "\<And>i. i < length ms \<Longrightarrow> fst (ms ! i) = fst (ms' ! i) \<and> canonicalizeJson (snd (ms ! i)) = canonicalizeJson (snd (ms' ! i))"
    using obj.IH by (auto simp: list_all2_conv_all_nth)
  have eq: "map ?g ms = map ?g ms'"
    using len at by (auto intro: nth_equalityI simp: case_prod_beta)
  have "map fst ms = map fst ms'" using len at by (auto intro: nth_equalityI)
  then have d: "distinct (map fst (map ?g ms'))" using obj.hyps(1) by (simp add: case_prod_beta comp_def)
  then have "inj_on fst (set (map ?g ms'))" unfolding distinct_map [of fst] by (rule conjunct2)
  moreover have "mset (map ?g ms') = mset (map ?g ms'')" using obj.hyps(2) by simp
  ultimately have "sort_key fst (map ?g ms') = sort_key fst (map ?g ms'')"
    by (intro sort_key_inj_key_eq) simp_all
  then show ?case unfolding canonicalize_obj eq by simp
qed simp

lemma reordered_hash: "reordered j j' \<Longrightarrow> canonicalPayloadHash env j = canonicalPayloadHash env j'"
  by (simp add: canonicalPayloadHash_def canonicalJson_def reordered_canonical)

text \<open>A string member reads the same in both.\<close>

lemma reordered_string: "reordered (JStr s) j \<longleftrightarrow> j = JStr s"
  by (auto elim: reordered.cases intro: reordered.same)

inductive_cases reordered_objE: "reordered (JObj ms) j"

lemma reordered_string_member:
  assumes "reordered j j'" and "member j k = Some (JStr s)"
  shows "member j' k = Some (JStr s)"
proof -
  obtain ms where j: "j = JObj ms" and k: "map_of ms k = Some (JStr s)"
    using assms(2) by (cases j) (simp_all add: member_def)
  show ?thesis using assms(1) unfolding j
  proof (rule reordered_objE)
    assume "j' = JObj ms"
    then show ?thesis using k by simp
  next
    fix ms' ms'' assume j': "j' = JObj ms''" and d: "distinct (map fst ms)" and m: "mset ms'' = mset ms'"
      and r: "list_all2 (\<lambda>x y. fst x = fst y \<and> reordered (snd x) (snd y)) ms ms'"
    have "(k, JStr s) \<in> set ms" using k by (rule map_of_SomeD)
    then obtain i where i: "i < length ms" "ms ! i = (k, JStr s)" by (auto simp: in_set_conv_nth)
    then have "fst (ms' ! i) = k \<and> reordered (JStr s) (snd (ms' ! i))" "i < length ms'"
      using r by (auto simp: list_all2_conv_all_nth)
    then have "(k, JStr s) \<in> set ms'" using nth_mem [of i ms'] by (cases "ms' ! i") (simp add: reordered_string)
    then have mem: "(k, JStr s) \<in> set ms''" using mset_eq_setD [OF m] by simp
    have "map fst ms = map fst ms'" using r by (auto simp: list_all2_conv_all_nth intro: nth_equalityI)
    then have "distinct (map fst ms')" using d by simp
    then have "distinct (map fst ms'')"
      using m by (metis mset_eq_imp_distinct_iff mset_map)
    then show ?thesis unfolding j' member_JObj using mem by (simp add: map_of_eq_Some_iff)
  qed
qed

subsection \<open>Writing and writing again\<close>

lemma registry_of_snoc:
  "registry_of app event (gs @ [g]) =
     (case registry_of app event gs of Some x \<Rightarrow> Some x
      | None \<Rightarrow> if rg_eventId g = event \<and> rg_applicationId g = app then Some g else None)"
  by (simp add: registry_of_def find_unique_def) (induction gs; simp)

lemma upsert_profile_frame:
  assumes "upsert_profile app newId event t now db = (db1, u)"
  shows "pd_registry db1 = pd_registry db" "pd_inbox db1 = pd_inbox db" "pd_outbox db1 = pd_outbox db"
    "pd_nextOutboxId db1 = pd_nextOutboxId db" "pd_deadLetters db1 = pd_deadLetters db" "pd_official db1 = pd_official db"
    "pd_sync db1 = pd_sync db"
  using assms by (auto simp: upsert_profile_def Let_def split: option.splits)

lemma registry_row_ids [simp]:
  "rg_applicationId (registry_row env cat app inp u) = app"
  "rg_eventId (registry_row env cat app inp u) = event_text (ve_event inp) ''event_id''"
  "rg_payloadHash (registry_row env cat app inp u) = ve_payloadHash inp"
  by (simp_all add: registry_row_def Let_def)

lemma insert_event_registry:
  assumes "insert_event env cat w app inp db = Inr db'"
  shows "\<exists>u. pd_registry db' = pd_registry db @ [registry_row env cat app inp u]"
    and "registry_of app (event_text (ve_event inp) ''event_id'') (pd_registry db) = None"
    and "pd_inbox db' = pd_inbox db @ [new_inbox (pv_inboxId w) app (event_text (ve_event inp) ''event_id'') (ve_event inp) (pv_now w)]"
proof -
  obtain db1 u where u: "upsert_profile app (pv_userId w) (ve_event inp)
      (date_ms env (event_text (ve_event inp) ''event_time'')) (pv_now w) db = (db1, u)" by (rule prod.exhaust)
  note frame = upsert_profile_frame [OF u]
  show "\<exists>u. pd_registry db' = pd_registry db @ [registry_row env cat app inp u]"
    "registry_of app (event_text (ve_event inp) ''event_id'') (pd_registry db) = None"
    "pd_inbox db' = pd_inbox db @ [new_inbox (pv_inboxId w) app (event_text (ve_event inp) ''event_id'') (ve_event inp) (pv_now w)]"
    using assms frame by (auto simp: insert_event_def u Let_def split: if_splits)
qed

lemma accepted_registered:
  assumes "persistEvent env cat w others app inp db = (db', Inr r)" and "ir_status r = Item_accepted"
  shows "insert_event env cat w app inp (others db) = Inr db'"
    and "\<exists>g. registry_of app (event_text (ve_event inp) ''event_id'') (pd_registry db') = Some g \<and>
           rg_payloadHash g = ve_payloadHash inp"
proof -
  show ins: "insert_event env cat w app inp (others db) = Inr db'"
    using assms by (auto simp: persistEvent_def Let_def itemResult_def statusForExisting_def
      split: option.splits sum.splits if_splits)
  show "\<exists>g. registry_of app (event_text (ve_event inp) ''event_id'') (pd_registry db') = Some g \<and>
      rg_payloadHash g = ve_payloadHash inp"
    using insert_event_registry(1,2) [OF ins] by (auto simp: registry_of_snoc)
qed

lemma known_event:
  assumes "registry_of app (event_text (ve_event inp) ''event_id'') (pd_registry db) = Some g"
  shows "persistEvent env cat w others app inp db =
    (others db, Inr (itemResult inp (statusForExisting g (ve_payloadHash inp))))"
  using assms by (simp add: persistEvent_def Let_def)

lemma refused_event:
  assumes new: "registry_of app (event_text (ve_event inp) ''event_id'') (pd_registry db) = None"
    and refused: "\<And>u. \<not> registry_accepts env (registry_row env cat app inp u)"
  shows "persistEvent env cat w id app inp db =
    (db, Inl (db_error ''23514'' ''the row violates a column type or CHECK constraint''))"
  using new refused
  by (simp add: persistEvent_def insert_event_def Let_def case_prod_beta isUniqueConflict_def db_error_def plain_error_def)

end
