(* ===== verification/PipelineProcessor.thy ===== *)
theory PipelineProcessor
  imports PipelineStore
begin

text \<open>
  The pipeline processor, \<open>apps/worker/src/pipeline/processor.ts\<close>: one leased event is taken
  through the stages, each of which is recorded by a guarded transaction, then committed and
  completed; a failure is retried later or dead-lettered.

  The stage handlers and the official writer are constructor arguments of the processor and
  arguments of the model.  A handler reads the database.  The duration an outcome carries is
  left out.
\<close>

subsection \<open>Configuration\<close>

record PipelineRuntimeFlags =
  fl_usagePipeline :: bool
  fl_modelResolution :: bool
  fl_providerCost :: bool
  fl_aiu :: bool
  fl_quota :: bool

record ('o, 'c, 'a, 'q) PipelineStageHandlers =
  h_resolveModel :: "'o PipelineDb \<Rightarrow> string \<Rightarrow> json \<Rightarrow> thrown + PipelineResolutionArtifact"
  h_rateProviderCost :: "'o PipelineDb \<Rightarrow> string \<Rightarrow> json \<Rightarrow> PipelineResolutionArtifact \<Rightarrow> thrown + 'c"
  h_rateAiu :: "'o PipelineDb \<Rightarrow> string \<Rightarrow> json \<Rightarrow> PipelineResolutionArtifact \<Rightarrow> thrown + 'a"
  h_settleQuota :: "string \<Rightarrow> json \<Rightarrow> 'a \<Rightarrow> thrown + 'q"

record processor_options =
  px_batchSize :: nat
  px_maxAttempts :: int
  px_retryBaseDelayMs :: int
  px_leaseDurationMs :: int
  px_payloadTtlDays :: int

text \<open>The instants of one run, the id a dead letter would get and the issues \<open>zod\<close> reports for a
  payload it refuses.\<close>

record process_world =
  pw_checkpointAt :: "PipelineStage \<Rightarrow> int"
  pw_commit :: commit_clock
  pw_completeAt :: int
  pw_failureAt :: int
  pw_nowMs :: int
  pw_newId :: string
  pw_zodIssues :: "json \<Rightarrow> json"

subsection \<open>Metrics and outcomes\<close>

datatype PipelineMetricStage =
    Metric_normalization | Metric_model_resolution | Metric_provider_cost | Metric_aiu | Metric_quota
  | Metric_official_commit | Metric_outbox

datatype PipelineMetricStatus = Metric_completed | Metric_retry | Metric_failed | Metric_dead_letter

type_synonym stage_metrics = "(PipelineMetricStage \<times> PipelineMetricStatus) list"

definition recordStageMetric :: "PipelineMetricStage \<Rightarrow> PipelineMetricStatus \<Rightarrow> stage_metrics \<Rightarrow> stage_metrics" where
  "recordStageMetric stage status ms = AList.update stage status ms"

datatype process_status = Ps_completed | Ps_retry_scheduled | Ps_failed | Ps_dead_lettered

record 'm PipelineProcessOutcome =
  po_eventId :: string
  po_status :: process_status
  po_stage :: PipelineStage
  po_stageMetrics :: stage_metrics
  po_modelUnmapped :: bool
  po_officialMetrics :: "'m option"
  po_errorCode :: "string option"

subsection \<open>The stages of one event\<close>

definition disabledResolution :: "'e snapshot_env_scheme \<Rightarrow> InboxLease \<Rightarrow> PipelineResolutionArtifact" where
  "disabledResolution env lease =
     \<lparr>ra_status = ''disabled'', ra_modelId = None,
      ra_mappingFingerprint = ''sha256:'' @ sha256hex env
        (''model-resolution-disabled:'' @ il_eventId lease @ '':'' @ il_payloadHash lease),
      ra_evidence = None\<rparr>"

text \<open>The variables of \<open>process\<close>, with the database as its transactions have left it.\<close>

record ('o, 'm) proc_state =
  ps_db :: "'o PipelineDb"
  ps_lease :: InboxLease
  ps_active :: PipelineMetricStage
  ps_metrics :: stage_metrics
  ps_unmapped :: bool
  ps_official :: "'m option"

text \<open>\<open>advanceIfNeeded\<close>\<close>

definition advanceIfNeeded ::
  "int \<Rightarrow> PipelineStage \<Rightarrow> int \<Rightarrow> InboxLease \<Rightarrow> 'o PipelineDb \<Rightarrow> thrown + ('o PipelineDb \<times> InboxLease \<times> bool)" where
  "advanceIfNeeded leaseDurationMs target now lease db =
     (if stageRank target \<le> stageRank (il_stage lease) then Inr (db, lease, False)
      else bind_res (checkpoint leaseDurationMs lease target now db) (\<lambda>(db', l). Inr (db', l, True)))"

text \<open>One stage: compute its artifact, then record the stage unless the row is already past it.\<close>

definition run_stage ::
  "processor_options \<Rightarrow> process_world \<Rightarrow> PipelineMetricStage \<Rightarrow> PipelineStage \<Rightarrow> (thrown + 'x) \<Rightarrow> ('o, 'm) proc_state \<Rightarrow>
   (('o, 'm) proc_state \<times> thrown) + (('o, 'm) proc_state \<times> 'x \<times> bool)" where
  "run_stage opts w active target computed s =
     (let s1 = s\<lparr>ps_active := active\<rparr> in
      case computed of
        Inl e \<Rightarrow> Inl (s1, e)
      | Inr x \<Rightarrow>
          (case advanceIfNeeded (px_leaseDurationMs opts) target (pw_checkpointAt w target) (ps_lease s1) (ps_db s1) of
             Inl e \<Rightarrow> Inl (s1, e)
           | Inr (db, lease, did) \<Rightarrow>
               Inr (s1\<lparr>ps_db := db, ps_lease := lease,
                       ps_metrics := (if did then recordStageMetric active Metric_completed (ps_metrics s1)
                                      else ps_metrics s1)\<rparr>, x, did)))"

definition parse_event :: "'e snapshot_env_scheme \<Rightarrow> process_world \<Rightarrow> json \<Rightarrow> thrown + json" where
  "parse_event env w payload =
     (if \<not> usageEventSchema env payload then Inl (ZodErrorThrown (pw_zodIssues w payload))
      else case normalizeUsageEvent env payload of
        None \<Rightarrow> Inl (ZodErrorThrown (pw_zodIssues w payload)) | Some n \<Rightarrow> Inr n)"

definition cost_enabled :: "PipelineRuntimeFlags \<Rightarrow> InboxLease \<Rightarrow> bool" where
  "cost_enabled flags lease =
     (case il_replayIntent lease of None \<Rightarrow> fl_providerCost flags | Some i \<Rightarrow> ri_providerCost i = Some ''rerate'')"

definition aiu_enabled :: "PipelineRuntimeFlags \<Rightarrow> InboxLease \<Rightarrow> bool" where
  "aiu_enabled flags lease =
     (case il_replayIntent lease of None \<Rightarrow> fl_aiu flags | Some i \<Rightarrow> ri_aiu i = Some ''backfill'')"

definition quota_enabled :: "PipelineRuntimeFlags \<Rightarrow> InboxLease \<Rightarrow> bool" where
  "quota_enabled flags lease \<longleftrightarrow>
     fl_quota flags \<and>
     (case il_replayIntent lease of None \<Rightarrow> True | Some i \<Rightarrow> ri_quota i \<noteq> ''keep_existing'')"

text \<open>The quota stage also needs an AIU rating: \<open>run_stages\<close> asks for it.  A stage that is switched off hands on its placeholder.\<close>

definition if_enabled :: "bool \<Rightarrow> (thrown + 'x) \<Rightarrow> thrown + 'x option" where
  "if_enabled b m = (if b then bind_res m (\<lambda>x. Inr (Some x)) else Inr None)"

definition resolve_stage ::
  "'e snapshot_env_scheme \<Rightarrow> PipelineRuntimeFlags \<Rightarrow> ('o, 'c, 'a, 'q) PipelineStageHandlers \<Rightarrow> json \<Rightarrow>
   ('o, 'm) proc_state \<Rightarrow> thrown + PipelineResolutionArtifact" where
  "resolve_stage env flags h normalized s =
     (let lease = ps_lease s in
      if fl_modelResolution flags \<or> il_replayIntent lease \<noteq> None
      then h_resolveModel h (ps_db s) (il_applicationId lease) normalized
      else Inr (disabledResolution env lease))"

definition note_unmapped :: "PipelineResolutionArtifact \<Rightarrow> bool \<Rightarrow> ('o, 'm) proc_state \<Rightarrow> ('o, 'm) proc_state" where
  "note_unmapped resolution did s =
     (if did \<and> ra_status resolution \<in> {''unmapped'', ''conflict''} then s\<lparr>ps_unmapped := True\<rparr> else s)"

definition run_stages ::
  "'e snapshot_env_scheme \<Rightarrow> processor_options \<Rightarrow> process_world \<Rightarrow> PipelineRuntimeFlags \<Rightarrow>
   ('o, 'c, 'a, 'q) PipelineStageHandlers \<Rightarrow> ('o, 'm) proc_state \<Rightarrow>
   (('o, 'm) proc_state \<times> thrown) + (('o, 'm) proc_state \<times> ('c, 'a, 'q) PipelineSettlementContext)" where
  "run_stages env opts w flags h s0 =
     bind_res (run_stage opts w Metric_normalization Stage_normalized (parse_event env w (il_payload (ps_lease s0))) s0)
       (\<lambda>(s1, normalized, _).
     bind_res (run_stage opts w Metric_model_resolution Stage_model_resolved (resolve_stage env flags h normalized s1) s1)
       (\<lambda>(s2', resolution, did). let s2 = note_unmapped resolution did s2'; app = il_applicationId (ps_lease s2) in
     bind_res (run_stage opts w Metric_provider_cost Stage_provider_cost_rated
         (if_enabled (cost_enabled flags (ps_lease s2)) (h_rateProviderCost h (ps_db s2) app normalized resolution)) s2)
       (\<lambda>(s3, cost, _).
     bind_res (run_stage opts w Metric_aiu Stage_aiu_rated
         (if_enabled (aiu_enabled flags (ps_lease s3)) (h_rateAiu h (ps_db s3) app normalized resolution)) s3)
       (\<lambda>(s4, aiu, _).
     bind_res (run_stage opts w Metric_quota Stage_quota_settled
         (case aiu of None \<Rightarrow> Inr None
          | Some a \<Rightarrow> if_enabled (quota_enabled flags (ps_lease s4)) (h_settleQuota h app normalized a)) s4)
       (\<lambda>(s5, quota, _). Inr (s5,
          \<lparr>pc_applicationId = app, pc_event = il_payload (ps_lease s0), pc_normalized = normalized,
           pc_resolution = resolution, pc_providerCost = cost, pc_aiu = aiu, pc_quota = quota,
           pc_replayIntent = il_replayIntent (ps_lease s5)\<rparr>))))))"

definition commit_stage ::
  "'e snapshot_env_scheme \<Rightarrow> processor_options \<Rightarrow> process_world \<Rightarrow> ('o, 'c, 'a, 'q, 'm) official_writer \<Rightarrow>
   ('c, 'a, 'q) PipelineSettlementContext \<Rightarrow> ('o, 'm) proc_state \<Rightarrow>
   (('o, 'm) proc_state \<times> thrown) + ('o, 'm) proc_state" where
  "commit_stage env opts w writer context s =
     (let s1 = s\<lparr>ps_active := Metric_official_commit\<rparr>; before = il_stage (ps_lease s1) in
      if stageRank before < stageRank Stage_outbox_created
      then
        (case commitOfficial env (px_leaseDurationMs opts) (pw_commit w) writer (ps_lease s1) context (ps_db s1) of
           Inl e \<Rightarrow> Inl (s1, e)
         | Inr (db, lease, metrics) \<Rightarrow>
             Inr (s1\<lparr>ps_db := db, ps_lease := lease,
                     ps_metrics := recordStageMetric Metric_outbox Metric_completed
                       (if stageRank before < stageRank Stage_official_committed
                        then recordStageMetric Metric_official_commit Metric_completed (ps_metrics s1)
                        else ps_metrics s1),
                     ps_official := Some metrics\<rparr>))
      else Inr s1)"

definition complete_stage ::
  "processor_options \<Rightarrow> process_world \<Rightarrow> ('o, 'm) proc_state \<Rightarrow> (('o, 'm) proc_state \<times> thrown) + ('o, 'm) proc_state" where
  "complete_stage opts w s =
     (let s1 = s\<lparr>ps_active := Metric_outbox\<rparr> in
      case complete (px_payloadTtlDays opts) (ps_lease s1) (pw_completeAt w) (ps_db s1) of
        Inl e \<Rightarrow> Inl (s1, e)
      | Inr db \<Rightarrow> Inr (s1\<lparr>ps_db := db\<rparr>))"

subsection \<open>Failure\<close>

definition outcome_of ::
  "process_status \<Rightarrow> PipelineStage \<Rightarrow> stage_metrics \<Rightarrow> string option \<Rightarrow> ('o, 'm) proc_state \<Rightarrow> 'm PipelineProcessOutcome" where
  "outcome_of status stage metrics code s =
     \<lparr>po_eventId = il_eventId (ps_lease s), po_status = status, po_stage = stage, po_stageMetrics = metrics,
      po_modelUnmapped = ps_unmapped s, po_officialMetrics = ps_official s, po_errorCode = code\<rparr>"

definition exhausted :: "PipelineFailure \<Rightarrow> PipelineFailure" where
  "exhausted f =
     (if pf_retryable f
      then f\<lparr>pf_code := ''PIPELINE_RETRY_EXHAUSTED'', pf_retryable := False,
             pf_details := (case pf_details f of
                JObj ms \<Rightarrow> JObj (AList.update ''last_error_code'' (JStr (pf_code f)) ms)
              | d \<Rightarrow> JObj [(''last_error_code'', JStr (pf_code f))])\<rparr>
      else f)"

definition persistence_failed :: "('o, 'm) proc_state \<Rightarrow> 'o PipelineDb \<times> 'm PipelineProcessOutcome" where
  "persistence_failed s =
     (ps_db s, outcome_of Ps_failed (il_stage (ps_lease s))
        (recordStageMetric (ps_active s) Metric_failed (ps_metrics s))
        (Some ''PIPELINE_FAILURE_PERSISTENCE_FAILED'') s)"

definition handle_failure ::
  "processor_options \<Rightarrow> process_world \<Rightarrow> ('o, 'm) proc_state \<Rightarrow> thrown \<Rightarrow> 'o PipelineDb \<times> 'm PipelineProcessOutcome" where
  "handle_failure opts w s error =
     (let lease = ps_lease s; failure = classifyPipelineError error (il_stage lease) in
      if pf_retryable failure \<and> il_attemptCount lease < px_maxAttempts opts
      then
        (let retryAt = (pw_nowMs w + retryDelayMs (il_attemptCount lease) (px_retryBaseDelayMs opts) 300000) * 1000 in
         case retry lease failure retryAt (pw_failureAt w) (ps_db s) of
           Inl e \<Rightarrow> persistence_failed s
         | Inr db \<Rightarrow>
             (db, outcome_of Ps_retry_scheduled (il_stage lease)
                (recordStageMetric (ps_active s) Metric_retry (ps_metrics s)) (Some (pf_code failure)) s))
      else
        (case deadLetter (pw_newId w) lease (exhausted failure) (pw_failureAt w) (ps_db s) of
           Inl e \<Rightarrow> persistence_failed s
         | Inr db \<Rightarrow>
             (db, outcome_of Ps_dead_lettered Stage_dead_letter
                (recordStageMetric (ps_active s) Metric_dead_letter (ps_metrics s))
                (Some (pf_code (exhausted failure))) s)))"

subsection \<open>One event, one batch\<close>

definition initial_state :: "'o PipelineDb \<Rightarrow> InboxLease \<Rightarrow> ('o, 'm) proc_state" where
  "initial_state db lease =
     \<lparr>ps_db = db, ps_lease = lease, ps_active = Metric_normalization, ps_metrics = [], ps_unmapped = False,
      ps_official = None\<rparr>"

definition process ::
  "'e snapshot_env_scheme \<Rightarrow> processor_options \<Rightarrow> PipelineRuntimeFlags \<Rightarrow> ('o, 'c, 'a, 'q) PipelineStageHandlers \<Rightarrow>
   ('o, 'c, 'a, 'q, 'm) official_writer \<Rightarrow> process_world \<Rightarrow> InboxLease \<Rightarrow> 'o PipelineDb \<Rightarrow>
   'o PipelineDb \<times> 'm PipelineProcessOutcome" where
  "process env opts flags h writer w lease db =
     (case bind_res (run_stages env opts w flags h (initial_state db lease)) (\<lambda>(s, context).
           bind_res (commit_stage env opts w writer context s) (complete_stage opts w)) of
        Inl (s, error) \<Rightarrow> handle_failure opts w s error
      | Inr s \<Rightarrow> (ps_db s, outcome_of Ps_completed Stage_completed (ps_metrics s) None s))"

text \<open>The lane of a lease: events of one application user share a lane, a payload that does not
  parse has its own.\<close>

definition lane :: "'e snapshot_env_scheme \<Rightarrow> InboxLease \<Rightarrow> string" where
  "lane env lease =
     (if usageEventSchema env (il_payload lease)
      then il_applicationId lease @ [CHR 0x00] @ event_text (sub (il_payload lease) ''user'') ''user_id''
      else il_applicationId lease @ [CHR 0x00] @ ''invalid'' @ [CHR 0x00] @ il_id lease)"

fun add_lane :: "string \<Rightarrow> 'x \<Rightarrow> (string \<times> 'x list) list \<Rightarrow> (string \<times> 'x list) list" where
  "add_lane k x [] = [(k, [x])]"
| "add_lane k x ((k', xs) # ls) = (if k = k' then (k', xs @ [x]) # ls else (k', xs) # add_lane k x ls)"

definition lanes :: "'e snapshot_env_scheme \<Rightarrow> InboxLease list \<Rightarrow> (string \<times> (nat \<times> InboxLease) list) list" where
  "lanes env ls = fold (\<lambda>(i, l). add_lane (lane env l) (i, l)) (List.enumerate 0 ls) []"

text \<open>
  The lanes of a batch run concurrently.  \<open>schedule\<close> is the order in which their events are
  processed, at the granularity of whole events: any merge of the lanes.
\<close>

fun run_entries ::
  "(nat \<Rightarrow> InboxLease \<Rightarrow> 'o PipelineDb \<Rightarrow> 'o PipelineDb \<times> 'm PipelineProcessOutcome) \<Rightarrow> (nat \<times> InboxLease) list \<Rightarrow>
   'o PipelineDb \<Rightarrow> 'o PipelineDb \<times> (nat \<times> 'm PipelineProcessOutcome) list" where
  "run_entries f [] db = (db, [])"
| "run_entries f ((i, l) # es) db =
     (let (db1, outcome) = f i l db; (db2, rest) = run_entries f es db1 in (db2, (i, outcome) # rest))"

definition runBatch ::
  "'e snapshot_env_scheme \<Rightarrow> processor_options \<Rightarrow> PipelineRuntimeFlags \<Rightarrow> ('o, 'c, 'a, 'q) PipelineStageHandlers \<Rightarrow>
   ('o, 'c, 'a, 'q, 'm) official_writer \<Rightarrow> (nat \<Rightarrow> process_world) \<Rightarrow>
   ((string \<times> (nat \<times> InboxLease) list) list \<Rightarrow> (nat \<times> InboxLease) list) \<Rightarrow>
   ('o PipelineDb \<Rightarrow> 'o PipelineDb \<times> (thrown + InboxLease list)) \<Rightarrow> 'o PipelineDb \<Rightarrow>
   'o PipelineDb \<times> (thrown + (nat \<times> 'm PipelineProcessOutcome) list)" where
  "runBatch env opts flags h writer worlds schedule leaseBatch db =
     (if \<not> fl_usagePipeline flags then (db, Inr [])
      else case leaseBatch db of
        (db1, Inl e) \<Rightarrow> (db1, Inl e)
      | (db1, Inr ls) \<Rightarrow>
          (let (db2, outcomes) = run_entries (\<lambda>i. process env opts flags h writer (worlds i))
                                   (schedule (lanes env ls)) db1
           in (db2, Inr (sort_key fst outcomes))))"

end
