(* ===== verification/OfficialWriter.thy ===== *)
theory OfficialWriter
  imports PipelineProcessor Settlement Rating
begin

text \<open>
  The stage handlers and the official writer the worker runs the pipeline with:
  \<open>apps/worker/src/application-usage/stage-handlers.ts\<close> and \<open>official-writer.ts\<close>.  They connect
  the pipeline with the rating of usage and with the users' AIU quotas.

  \<open>OfficialTables\<close> are the tables the pipeline itself does not touch.  \<open>writer_env\<close> carries
  \<open>Date.parse\<close>, the printing of decimals, the ids the database generates, the time zone offset
  of the application and the clock.
\<close>

subsection \<open>Tables and environment\<close>

record ModelDefinitionRow =
  md_id :: string
  md_applicationId :: string
  md_connectionId :: string
  md_requestModel :: string
  md_enabled :: bool

datatype VersionStatus = V_draft | V_published | V_retired

record 'v ModelVersionRow =
  mv_applicationId :: string
  mv_modelId :: string
  mv_status :: VersionStatus
  mv_effectiveFrom :: int
  mv_version :: int
  mv_content :: 'v

record ApplicationUsageRating =
  ur_id :: string
  ur_applicationId :: string
  ur_eventId :: string
  ur_userId :: string
  ur_modelId :: string
  ur_virtualModel :: "string option"
  ur_cost :: CostRatingArtifact
  ur_tokens :: "rat \<times> rat \<times> rat \<times> rat"
  ur_aiu :: AiuRatingArtifact

record OfficialTables =
  ot_ratings :: "ApplicationUsageRating list"
  ot_quota :: QuotaDb
  ot_models :: "ModelDefinitionRow list"
  ot_costVersions :: "CostVersion ModelVersionRow list"
  ot_aiuVersions :: "AiuVersion ModelVersionRow list"
  ot_applications :: "string list"

record writer_env =
  we_rating :: rating_env
  we_parseDate :: "string \<Rightarrow> int"
  we_decimalText :: "rat \<Rightarrow> string"
  we_sha256 :: "string \<Rightarrow> string"
  we_ratingId :: "string \<Rightarrow> string \<Rightarrow> string"
  we_quotaId :: string
  we_uuid :: string
  we_offset :: "int \<Rightarrow> int"
  we_now :: int

subsection \<open>Reading a normalized event\<close>

definition line_view :: "json \<Rightarrow> ApplicationUsageLine" where
  "line_view l =
     \<lparr>ul_usage_type = event_text l ''usage_type'', ul_unit_key = string_member l ''unit_key'',
      ul_quantity = event_text l ''quantity''\<rparr>"

definition members_view :: "json option \<Rightarrow> (string \<times> json) list option" where
  "members_view v = (case v of Some (JObj ms) \<Rightarrow> Some ms | _ \<Rightarrow> None)"

definition cost_view :: "json \<Rightarrow> SourceCost option" where
  "cost_view j = (case j of
     JObj ms \<Rightarrow> Some \<lparr>sc_amount = event_text j ''amount'', sc_currency = event_text j ''currency'',
                      sc_is_estimated = bool_member j ''is_estimated''\<rparr>
   | _ \<Rightarrow> None)"

text \<open>The record the rating functions read, from the normalized JSON.\<close>

definition normalized_view :: "writer_env \<Rightarrow> json \<Rightarrow> NormalizedUsage" where
  "normalized_view we n =
     (let request = sub n ''request''; user = sub n ''user''; model = sub n ''model''; route = sub n ''route'';
          result = sub n ''result'' in
      \<lparr>n_event_id = event_text n ''event_id'', n_event_time = we_parseDate we (event_text n ''event_time''),
       n_schema_version = event_text n ''schema_version'', n_request_id = event_text request ''request_id'',
       n_attempt_id = event_text request ''attempt_id'', n_operation_id = string_member request ''operation_id'',
       n_session_id = string_member request ''session_id'', n_conversation_id = string_member request ''conversation_id'',
       n_reservation_id = string_member request ''reservation_id'', n_user_id = event_text user ''user_id'',
       n_display_user = string_member user ''display_user'', n_application_version = string_member n ''application_version'',
       n_sdk_version = string_member n ''sdk_version'', n_connector_version = string_member n ''connector_version'',
       n_config_version = string_member n ''config_version'', n_virtual_model = string_member model ''virtual_model'',
       n_model_id = string_member model ''model_id'', n_connection_id = string_member model ''connection_id'',
       n_connection_driver = string_member model ''connection_driver'', n_request_model = event_text model ''request_model'',
       n_provider = string_member model ''provider'', n_status = event_text result ''status'',
       n_route_reason = string_member route ''reason'',
       n_latency_ms = (case member result ''latency_ms'' of None \<Rightarrow> None | Some j \<Rightarrow> json_int j),
       n_event_properties = members_view (member n ''event_properties''),
       n_user_properties = members_view (member n ''user_properties''),
       n_source_cost = cost_view (sub n ''source_cost''),
       n_usage_lines = map line_view (array_of (member n ''usage_lines''))\<rparr>)"

text \<open>Errors of the other components as the worker sees them thrown.\<close>

definition thrown_of :: "svc_error \<Rightarrow> thrown" where
  "thrown_of e = (case e of
     TypeErr m \<Rightarrow> js_error ''TypeError'' m
   | RetryableConflict m \<Rightarrow> ErrorObject (\<lambda>_. plain_error ''Error'' m (Some ''P2034'')) 0
   | UniqueViolation m \<Rightarrow> db_error ''P2002'' m
   | CheckViolation m \<Rightarrow> db_error ''23514'' m
   | BadRequest m \<Rightarrow> js_error ''Error'' m
   | Conflict m \<Rightarrow> js_error ''Error'' m
   | NotFound m \<Rightarrow> js_error ''Error'' m
   | Forbidden m \<Rightarrow> js_error ''Error'' m
   | ServiceUnavailable m \<Rightarrow> js_error ''Error'' m)"

definition lift_res :: "'x res \<Rightarrow> thrown + 'x" where
  "lift_res m = (case m of Inl e \<Rightarrow> Inl (thrown_of e) | Inr x \<Rightarrow> Inr x)"

subsection \<open>Stage handlers\<close>

definition mapping_fingerprint :: "writer_env \<Rightarrow> string \<Rightarrow> string option \<Rightarrow> string \<Rightarrow> string" where
  "mapping_fingerprint we app modelId tag =
     ''sha256:'' @ we_sha256 we (app @ [CHR 0x00] @ (case modelId of None \<Rightarrow> [] | Some m \<Rightarrow> m) @ [CHR 0x00] @ tag)"

definition evidence :: "string option \<Rightarrow> string option \<Rightarrow> string \<Rightarrow> json" where
  "evidence modelId connectionId requestModel =
     JObj [(''model_id'', jopt modelId), (''connection_id'', jopt connectionId), (''request_model'', JStr requestModel)]"

definition resolveModel ::
  "writer_env \<Rightarrow> OfficialTables PipelineDb \<Rightarrow> string \<Rightarrow> json \<Rightarrow> thrown + PipelineResolutionArtifact" where
  "resolveModel we db app normalized =
     (let n = normalized_view we normalized; modelId = n_model_id n; connectionId = n_connection_id n;
          requestModel = n_request_model n;
          hasModelId = (case modelId of None \<Rightarrow> False | Some m \<Rightarrow> uuid_pattern m);
          hasConnectionId = (case connectionId of None \<Rightarrow> False | Some c \<Rightarrow> uuid_pattern c);
          unmapped = \<lparr>ra_status = ''unmapped'', ra_modelId = None,
                      ra_mappingFingerprint = mapping_fingerprint we app modelId requestModel,
                      ra_evidence = Some (evidence modelId connectionId requestModel)\<rparr> in
      if \<not> hasModelId \<and> \<not> hasConnectionId then Inr unmapped
      else
        (case List.find (\<lambda>m. md_applicationId m = app \<and> md_enabled m \<and> md_requestModel m = requestModel \<and>
                (hasModelId \<longrightarrow> Some (md_id m) = modelId) \<and>
                (hasConnectionId \<longrightarrow> Some (md_connectionId m) = connectionId)) (ot_models (pd_official db)) of
           None \<Rightarrow> Inr unmapped
         | Some m \<Rightarrow> Inr
             \<lparr>ra_status = ''matched'', ra_modelId = Some (md_id m),
              ra_mappingFingerprint = mapping_fingerprint we app (Some (md_id m)) (md_requestModel m),
              ra_evidence = Some (evidence (Some (md_id m)) (Some (md_connectionId m)) (md_requestModel m))\<rparr>))"

text \<open>The version in force at the event's time: the latest effective one, then the highest number.\<close>

definition version_at :: "string \<Rightarrow> string \<Rightarrow> int \<Rightarrow> 'v ModelVersionRow list \<Rightarrow> 'v option" where
  "version_at app modelId time vs =
     (case rev (sort_key (\<lambda>v. (mv_effectiveFrom v, mv_version v))
        (filter (\<lambda>v. mv_applicationId v = app \<and> mv_modelId v = modelId \<and> mv_status v \<in> {V_published, V_retired} \<and>
           mv_effectiveFrom v \<le> time) vs)) of
        [] \<Rightarrow> None | v # _ \<Rightarrow> Some (mv_content v))"

definition rateProviderCost ::
  "writer_env \<Rightarrow> OfficialTables PipelineDb \<Rightarrow> string \<Rightarrow> json \<Rightarrow> PipelineResolutionArtifact \<Rightarrow> thrown + CostRatingArtifact" where
  "rateProviderCost we db app normalized resolution =
     (let n = normalized_view we normalized in
      if n_source_cost n \<noteq> None then lift_res (rateApplicationCost (we_rating we) None n)
      else lift_res (rateApplicationCost (we_rating we)
             (case ra_modelId resolution of None \<Rightarrow> None
              | Some m \<Rightarrow> version_at app m (n_event_time n) (ot_costVersions (pd_official db))) n))"

definition rateAiu ::
  "writer_env \<Rightarrow> OfficialTables PipelineDb \<Rightarrow> string \<Rightarrow> json \<Rightarrow> PipelineResolutionArtifact \<Rightarrow> thrown + AiuRatingArtifact" where
  "rateAiu we db app normalized resolution =
     (let n = normalized_view we normalized in
      Inr (rateApplicationAiu (we_rating we)
        (case ra_modelId resolution of None \<Rightarrow> None
         | Some m \<Rightarrow> version_at app m (n_event_time n) (ot_aiuVersions (pd_official db))) (n_usage_lines n)))"

text \<open>\<open>ApplicationQuotaArtifact\<close> is the reservation id it carries.\<close>

definition settleQuota :: "writer_env \<Rightarrow> string \<Rightarrow> json \<Rightarrow> AiuRatingArtifact \<Rightarrow> thrown + string option" where
  "settleQuota we app normalized aiu = Inr (n_reservation_id (normalized_view we normalized))"

definition application_handlers ::
  "writer_env \<Rightarrow> (OfficialTables, CostRatingArtifact, AiuRatingArtifact, string option) PipelineStageHandlers" where
  "application_handlers we =
     \<lparr>h_resolveModel = resolveModel we, h_rateProviderCost = rateProviderCost we, h_rateAiu = rateAiu we,
      h_settleQuota = settleQuota we\<rparr>"

subsection \<open>The official writer\<close>

type_synonym app_context = "(CostRatingArtifact, AiuRatingArtifact, string option) PipelineSettlementContext"

definition costArtifact :: "CostRatingArtifact option \<Rightarrow> thrown + CostRatingArtifact" where
  "costArtifact v = (case v of None \<Rightarrow> Inl (js_error ''TypeError'' ''Application cost rating is missing'') | Some c \<Rightarrow> Inr c)"

definition aiuArtifact :: "AiuRatingArtifact option \<Rightarrow> thrown + AiuRatingArtifact" where
  "aiuArtifact v = (case v of None \<Rightarrow> Inl (js_error ''TypeError'' ''Application AIU rating is missing'') | Some a \<Rightarrow> Inr a)"

definition quotaArtifact :: "string option option \<Rightarrow> string option" where
  "quotaArtifact v = (case v of None \<Rightarrow> None | Some r \<Rightarrow> r)"

definition attemptOutcome :: "string \<Rightarrow> string" where
  "attemptOutcome status =
     (if status \<in> {''failure'', ''cancelled'', ''timeout'', ''success''} then status else ''unknown'')"

definition input_type :: "string \<Rightarrow> bool" where
  "input_type t \<longleftrightarrow>
     t \<in> {''uncached_input_token'', ''cache_read_input_token'', ''cache_write_input_token'', ''embedding_token''}"

definition cached_type :: "string \<Rightarrow> bool" where
  "cached_type t \<longleftrightarrow> t \<in> {''cache_read_input_token'', ''cache_write_input_token''}"

definition output_type :: "string \<Rightarrow> bool" where
  "output_type t \<longleftrightarrow> t \<in> {''output_token'', ''reasoning_output_token''}"

definition tokenTotals :: "rating_env \<Rightarrow> ApplicationUsageLine list \<Rightarrow> rat \<times> rat \<times> rat \<times> rat" where
  "tokenTotals env usage =
     (let total_of = (\<lambda>p. fold (\<lambda>l acc. if p (ul_usage_type l) then dec_add env acc (dec_of env (ul_quantity l)) else acc)
                        usage 0);
          input = total_of input_type; output = total_of output_type; cached = total_of cached_type
      in (input, output, cached, dec_add env input output))"

definition ratingBase :: "app_context \<Rightarrow> string \<Rightarrow> string \<Rightarrow> (string \<times> json) list" where
  "ratingBase context ratingId modelId =
     (let event = pc_event context; request = sub event ''request''; model = sub event ''model'' in
      [(''schema_version'', JStr ''2.0''), (''application_id'', JStr (pc_applicationId context)),
       (''event_id'', sub event ''event_id''), (''request_id'', sub request ''request_id''),
       (''attempt_id'', sub request ''attempt_id''), (''attempt_index'', sub request ''attempt_index''),
       (''is_final_attempt'', sub request ''is_final_attempt''), (''operation_id'', sub request ''operation_id''),
       (''event_time'', sub event ''event_time''), (''instance_id'', sub (sub event ''source'') ''instance_id''),
       (''user_id'', sub (sub event ''user'') ''user_id''), (''virtual_model'', sub model ''virtual_model''),
       (''model_id'', JStr modelId), (''connection_id'', sub model ''connection_id''),
       (''connection_driver'', sub model ''connection_driver''), (''request_model'', sub model ''request_model'')] @
      (case member model ''provider'' of None \<Rightarrow> [] | Some v \<Rightarrow> [(''provider'', v)]) @
      [(''attempt_outcome'', JStr (attemptOutcome (event_text (sub event ''result'') ''status''))),
       (''route_reason'', sub (sub event ''route'') ''reason''), (''rating_id'', JStr ratingId),
       (''replaces_rating_id'', JNull)])"

definition source_text :: "cost_source \<Rightarrow> string" where
  "source_text c = (case c of ReportedCost \<Rightarrow> ''reported'' | ReportedEstimate \<Rightarrow> ''reported_estimate'' | RuleCost \<Rightarrow> ''rule'')"

definition rating_fingerprint :: "writer_env \<Rightarrow> string list \<Rightarrow> string" where
  "rating_fingerprint we parts = ''sha256:'' @ we_sha256 we (join_with [CHR 0x00] parts)"

definition text_or :: "string \<Rightarrow> string option \<Rightarrow> string" where
  "text_or d v = (case v of None \<Rightarrow> d | Some s \<Rightarrow> s)"

definition ratingOutboxes ::
  "writer_env \<Rightarrow> app_context \<Rightarrow> string \<Rightarrow> string \<Rightarrow> CostRatingArtifact \<Rightarrow> AiuRatingArtifact \<Rightarrow> PipelineOutboxMessage list" where
  "ratingOutboxes we context ratingId modelId cost aiu =
     (let base = ratingBase context ratingId modelId; app = pc_applicationId context;
          eventId = event_text (pc_event context) ''event_id'';
          money = map_option (we_decimalText we) (ca_total cost);
          micros = map_option bigint_text (aa_totalMicros aiu);
          costPrint = rating_fingerprint we [app, eventId, ''cost'', text_or ''unpriced'' (map_option source_text (ca_source cost)),
            text_or ''unpriced'' (ca_versionId cost), text_or ''no-rule'' (ca_ruleId cost), text_or [] money];
          aiuPrint = rating_fingerprint we [app, eventId, ''aiu'', text_or ''unrated'' (aa_versionId aiu), text_or [] micros];
          costStatus = (if ca_official cost then ''official'' else ''unpriced'');
          aiuStatus = (if aa_official aiu then ''official'' else ''unrated'') in
      [\<lparr>om_aggregateType = ''application_usage_rating'', om_aggregateId = ratingId,
        om_eventType = (if ca_official cost then ''provider_cost.official_delta'' else ''provider_cost.unpriced''),
        om_payload = JObj (base @
          [(''status'', JStr costStatus), (''rating_fingerprint'', JStr costPrint),
           (''price_version_id'', jopt (ca_versionId cost)), (''calculation_version'', JStr ''conditional-model-cost-1''),
           (''cost_source'', jopt (map_option source_text (ca_source cost))), (''cost_rule_id'', jopt (ca_ruleId cost)),
           (''cost_rule_name'', jopt (ca_ruleName cost)),
           (''total_amount'', JStr (text_or ''0.000000000000000000'' money)), (''currency'', jopt (ca_currency cost)),
           (''deltas'', JArr [JObj
             [(''rating_event_id'', JStr (ratingId @ '':cost'')), (''rating_sign'', jint 1), (''rating_stage'', JStr costStatus),
              (''amount'', jopt money), (''currency'', jopt (ca_currency cost)), (''price_version_id'', jopt (ca_versionId cost)),
              (''calculation_version'', JStr ''conditional-model-cost-1''), (''rating_fingerprint'', JStr costPrint),
              (''reason'', JStr (if ca_official cost
                 then (if ca_source cost = Some RuleCost
                       then ''matched model cost rule: '' @ text_or (text_or ''unknown'' (ca_ruleId cost)) (ca_ruleName cost)
                       else if ca_source cost = Some ReportedEstimate then ''source-reported model cost estimate''
                       else ''source-reported model cost'')
                 else ''no reported model cost or matching cost rule''))]])]),
        om_idempotencyKey = ''application-rating:'' @ app @ '':'' @ eventId @ '':cost''\<rparr>,
       \<lparr>om_aggregateType = ''application_usage_rating'', om_aggregateId = ratingId,
        om_eventType = (if aa_official aiu then ''aiu.official_delta'' else ''aiu.decision''),
        om_payload = JObj (base @
          [(''status'', JStr aiuStatus), (''rating_fingerprint'', JStr aiuPrint), (''rate_version_id'', jopt (aa_versionId aiu)),
           (''calculation_version'', JStr ''application-model-aiu-1''), (''total_aiu_micros'', jopt micros),
           (''deltas'', JArr [JObj
             [(''rating_event_id'', JStr (ratingId @ '':aiu'')), (''rating_sign'', jint 1), (''rating_stage'', JStr aiuStatus),
              (''rating_fingerprint'', JStr aiuPrint), (''total_aiu_micros'', jopt micros),
              (''aiu_rate_version_id'', jopt (aa_versionId aiu)), (''calculation_version'', JStr ''application-model-aiu-1''),
              (''reason'', JStr (if aa_official aiu then ''application model AIU rating''
                                 else ''application model AIU rate is not configured'')),
              (''lines'', JArr (map (\<lambda>l. JObj
                 [(''usage_type'', JStr (al_usage_type l)),
                  (''unit_key'', if al_unit_key l = [] then JNull else JStr (al_unit_key l)),
                  (''aiu_micros'', jopt (map_option bigint_text (al_charged l)))]) (aa_lines aiu)))]])]),
        om_idempotencyKey = ''application-rating:'' @ app @ '':'' @ eventId @ '':aiu''\<rparr>])"

record PipelineOfficialMetrics =
  mx_providerCostUnpriced :: bool
  mx_aiuUnrated :: bool
  mx_ratedAiuMicros :: "int option"
  mx_consumption :: "UserAiuConsumption option"

definition find_rating :: "string \<Rightarrow> string \<Rightarrow> ApplicationUsageRating list \<Rightarrow> ApplicationUsageRating option" where
  "find_rating app eventId rs = find_unique (\<lambda>x. ur_applicationId x = app \<and> ur_eventId x = eventId) rs"

text \<open>The policy window of a settlement: the fixed one of the policy, or the calendar period of now.\<close>

definition settlement_window :: "writer_env \<Rightarrow> AiuQuotaPolicy \<Rightarrow> QuotaPeriodWindowValue res" where
  "settlement_window we policy =
     (if p_periodType policy = FIXED_WINDOW
      then (case p_startsAt policy of
              None \<Rightarrow> Inl (TypeErr ''Cannot read properties of null'')
            | Some a \<Rightarrow> Inr \<lparr>w_start = a, w_end = p_endsAt policy\<rparr>)
      else aiuQuotaPeriodWindow (p_periodType policy) (we_offset we) (we_now we) None)"

definition settlement_input :: "writer_env \<Rightarrow> string \<Rightarrow> string \<Rightarrow> materialize_input" where
  "settlement_input we app user =
     \<lparr>mi_applicationId = app, mi_userId = user, mi_window = settlement_window we,
      mi_reason = ''Applied the effective AIU quota rule during usage settlement'',
      mi_quota_id = we_quotaId we, mi_uuid = we_uuid we, mi_now = we_now we\<rparr>"

text \<open>The quota part of a commit: the effective policy is written into the user's quota when the
  usage was rated, then the usage is charged.\<close>

definition settle_usage ::
  "writer_env \<Rightarrow> string \<Rightarrow> string \<Rightarrow> string option \<Rightarrow> string \<Rightarrow> int option \<Rightarrow> string list \<Rightarrow> QuotaDb \<Rightarrow>
   (QuotaDb \<times> UserAiuConsumption option) res" where
  "settle_usage we app user reservation eventId micros applications q =
     bind_res
       (if micros = None then Inr q
        else if app \<notin> set applications then Inl (NotFound ''P2025'')
        else bind_res (materializeEffectiveAiuQuotaPolicy (settlement_input we app user) q) (\<lambda>(q', _). Inr q'))
       (applyUserAiu app user reservation eventId micros (we_now we))"

definition commit ::
  "writer_env \<Rightarrow>
   (OfficialTables, CostRatingArtifact, AiuRatingArtifact, string option, PipelineOfficialMetrics) official_writer" where
  "commit we context db =
     bind_res (costArtifact (pc_providerCost context)) (\<lambda>cost.
     bind_res (aiuArtifact (pc_aiu context)) (\<lambda>aiu.
       (let app = pc_applicationId context; eventId = event_text (pc_event context) ''event_id'';
            tables = pd_official db in
        case registry_of app eventId (pd_registry db) of
          None \<Rightarrow> Inl (db_error ''P2025'' ''No UsageEventRegistry found'')
        | Some registry \<Rightarrow>
            (case ra_modelId (pc_resolution context) of
               None \<Rightarrow> Inr (tables, [], \<lparr>mx_providerCostUnpriced = True, mx_aiuUnrated = True,
                                         mx_ratedAiuMicros = None, mx_consumption = None\<rparr>)
             | Some modelId \<Rightarrow>
                 (let user = rg_applicationUserId registry;
                      created = \<lparr>ur_id = we_ratingId we app eventId, ur_applicationId = app, ur_eventId = eventId,
                        ur_userId = user, ur_modelId = modelId,
                        ur_virtualModel = string_member (sub (pc_event context) ''model'') ''virtual_model'', ur_cost = cost,
                        ur_tokens = tokenTotals (we_rating we) (map line_view (array_of (member (pc_normalized context) ''usage_lines''))),
                        ur_aiu = aiu\<rparr>;
                      (rating, ratings) = (case find_rating app eventId (ot_ratings tables) of
                         Some x \<Rightarrow> (x, ot_ratings tables) | None \<Rightarrow> (created, ot_ratings tables @ [created]));
                      reservation = (case quotaArtifact (pc_quota context) of
                         Some r \<Rightarrow> Some r | None \<Rightarrow> rg_reservationId registry) in
                  bind_res (lift_res (settle_usage we app user reservation eventId (aa_totalMicros aiu)
                              (ot_applications tables) (ot_quota tables)))
                    (\<lambda>(quota, consumption). Inr
                       (tables\<lparr>ot_ratings := ratings, ot_quota := quota\<rparr>,
                        ratingOutboxes we context (ur_id rating) (ur_modelId rating) cost aiu,
                        \<lparr>mx_providerCostUnpriced = (\<not> ca_official cost), mx_aiuUnrated = (\<not> aa_official aiu),
                         mx_ratedAiuMicros = aa_totalMicros aiu, mx_consumption = consumption\<rparr>)))))))"

end
