(* ===== verification/OutboxStore.thy ===== *)
theory OutboxStore
  imports PipelineStore
begin

text \<open>
  Delivery of the outbox to ClickHouse: \<open>apps/worker/src/pipeline/prisma-outbox-store.ts\<close> and
  \<open>clickhouse-outbox-processor.ts\<close>.  The ClickHouse sink, which the processor gets as a
  constructor argument, is the function \<open>deliver\<close>.
\<close>

subsection \<open>Leasing\<close>

definition CLICKHOUSE_PIPELINE_EVENT_TYPES :: "string list" where
  "CLICKHOUSE_PIPELINE_EVENT_TYPES =
     [''usage_events_raw'', ''usage_lines'', ''provider_cost.provisional'', ''provider_cost.official_delta'',
      ''provider_cost.adjustment'', ''provider_cost.unpriced'', ''aiu.provisional'', ''aiu.official_delta'',
      ''aiu.decision'', ''application_user.profile'']"

record OutboxLease =
  ol_id :: int
  ol_applicationId :: string
  ol_aggregateType :: string
  ol_aggregateId :: string
  ol_eventType :: string
  ol_payload :: json
  ol_idempotencyKey :: string
  ol_replayOfOutboxId :: "int option"
  ol_attemptCount :: int
  ol_leaseOwner :: string
  ol_leaseExpiresAt :: int
  ol_createdAt :: int

definition mapOutboxLease :: "OutboxRow \<Rightarrow> OutboxLease" where
  "mapOutboxLease row =
     \<lparr>ol_id = lr_id row, ol_applicationId = ob_applicationId row, ol_aggregateType = ob_aggregateType row,
      ol_aggregateId = ob_aggregateId row, ol_eventType = ob_eventType row, ol_payload = ob_payloadJson row,
      ol_idempotencyKey = ob_idempotencyKey row, ol_replayOfOutboxId = ob_replayOfOutboxId row,
      ol_attemptCount = lr_attemptCount row,
      ol_leaseOwner = (case lr_leaseOwner row of None \<Rightarrow> [] | Some w \<Rightarrow> w),
      ol_leaseExpiresAt = (case lr_leaseExpiresAt row of None \<Rightarrow> 0 | Some e \<Rightarrow> e),
      ol_createdAt = ob_createdAt row\<rparr>"

record ClickHouseOutboxRecord =
  ch_id :: int
  ch_aggregateType :: string
  ch_aggregateId :: string
  ch_eventType :: string
  ch_payload :: json
  ch_idempotencyKey :: string
  ch_replayOfOutboxId :: "int option"
  ch_createdAt :: int

definition outboxLeaseRecord :: "OutboxLease \<Rightarrow> ClickHouseOutboxRecord" where
  "outboxLeaseRecord l =
     \<lparr>ch_id = ol_id l, ch_aggregateType = ol_aggregateType l, ch_aggregateId = ol_aggregateId l,
      ch_eventType = ol_eventType l, ch_payload = ol_payload l, ch_idempotencyKey = ol_idempotencyKey l,
      ch_replayOfOutboxId = ol_replayOfOutboxId l, ch_createdAt = ol_createdAt l\<rparr>"

definition outbox_owner :: "string \<Rightarrow> int \<Rightarrow> string" where
  "outbox_owner token k = token @ '':'' @ bigint_text k"

definition outbox_batch :: "string list \<Rightarrow> (int \<Rightarrow> bool) \<Rightarrow> nat \<Rightarrow> int \<Rightarrow> 'o PipelineDb \<Rightarrow> int set" where
  "outbox_batch eventTypes locked limit now db =
     set (lease_candidates locked (\<lambda>r. ob_eventType r \<in> set eventTypes) limit now (pd_outbox db))"

definition leaseOutbox ::
  "(OutboxRow list \<Rightarrow> OutboxRow list) \<Rightarrow> (int \<Rightarrow> bool) \<Rightarrow> int \<Rightarrow> string \<Rightarrow> string list \<Rightarrow> nat \<Rightarrow> int \<Rightarrow> 'o PipelineDb \<Rightarrow>
   thrown + ('o PipelineDb \<times> OutboxLease list)" where
  "leaseOutbox returning locked leaseDurationMs token eventTypes limit now db =
     (if eventTypes = [] then Inr (db, [])
      else if limit < 1 \<or> 1000 < limit
      then Inl (js_error ''RangeError'' ''Outbox lease batch size must be between 1 and 1000'')
      else
        (let ks = outbox_batch eventTypes locked limit now db;
             rows = acquire_rows ks (outbox_owner token) (now + leaseDurationMs * 1000) (pd_outbox db)
         in Inr (db\<lparr>pd_outbox := rows\<rparr>, map mapOutboxLease (returning (filter (\<lambda>r. lr_id r \<in> ks) rows)))))"

definition outboxLeaseLost :: "OutboxLease \<Rightarrow> thrown" where
  "outboxLeaseLost l = RetryablePipelineError ''OUTBOX_LEASE_LOST''
     (''Outbox lease '' @ bigint_text (ol_id l) @ '' is no longer owned by '' @ ol_leaseOwner l)
     (JObj [(''outbox_id'', JStr (bigint_text (ol_id l))), (''event_type'', JStr (ol_eventType l))])"

subsection \<open>Acknowledging a delivery\<close>

record DeliveryResult =
  dr_outboxIds :: "int list"
  dr_maxOutboxId :: int
  dr_maxEventTime :: "int option"

definition acknowledges :: "OutboxLease list \<Rightarrow> DeliveryResult \<Rightarrow> bool" where
  "acknowledges ls result \<longleftrightarrow>
     ls \<noteq> [] \<and> dr_outboxIds result = map ol_id ls \<and> dr_maxOutboxId result = ol_id (last ls)"

definition sent_row :: "int \<Rightarrow> OutboxRow \<Rightarrow> OutboxRow" where
  "sent_row deliveredAt r =
     r\<lparr>lr_status := Sent, ob_sentAt := Some deliveredAt, lr_nextRetryAt := None, lr_lastError := None\<rparr>"

definition mark_raw :: "int \<Rightarrow> OutboxLease \<Rightarrow> 'o PipelineDb \<Rightarrow> 'o PipelineDb" where
  "mark_raw deliveredAt l db =
     (if ol_eventType l = ''usage_events_raw''
      then set_registry (ol_applicationId l) (ol_aggregateId l)
             (\<lambda>g. g\<lparr>rg_rawSyncedAt := (case rg_rawSyncedAt g of None \<Rightarrow> Some deliveredAt | Some t \<Rightarrow> Some t)\<rparr>) db
      else db)"

text \<open>The first loop: each row is fenced by its own statement, at its own instant.\<close>

fun mark_sent :: "int \<Rightarrow> (int \<Rightarrow> int) \<Rightarrow> OutboxLease list \<Rightarrow> 'o PipelineDb \<Rightarrow> thrown + 'o PipelineDb" where
  "mark_sent deliveredAt clock [] db = Inr db"
| "mark_sent deliveredAt clock (l # ls) db =
     (case fenced_write (ol_id l) (ol_leaseOwner l) (clock (ol_id l)) (sent_row deliveredAt) (pd_outbox db) of
        None \<Rightarrow> Inl (outboxLeaseLost l)
      | Some rows \<Rightarrow> mark_sent deliveredAt clock ls (mark_raw deliveredAt l (db\<lparr>pd_outbox := rows\<rparr>)))"

definition OFFICIAL_EVENT_TYPES :: "string list" where
  "OFFICIAL_EVENT_TYPES =
     [''provider_cost.official_delta'', ''provider_cost.adjustment'', ''provider_cost.unpriced'',
      ''aiu.official_delta'', ''aiu.decision'']"

definition mark_official :: "int \<Rightarrow> OutboxLease \<Rightarrow> 'o PipelineDb \<Rightarrow> 'o PipelineDb" where
  "mark_official deliveredAt l db =
     (if ol_eventType l \<in> set OFFICIAL_EVENT_TYPES
      then (case find_unique (\<lambda>r. lr_id r = ol_id l) (pd_outbox db) of
              None \<Rightarrow> db
            | Some r \<Rightarrow>
                (case string_member (ob_payloadJson r) ''event_id'' of
                   None \<Rightarrow> db
                 | Some event \<Rightarrow>
                     set_registry (ob_applicationId r) event
                       (\<lambda>g. g\<lparr>rg_officialSyncedAt :=
                          (case rg_officialSyncedAt g of None \<Rightarrow> Some deliveredAt | Some t \<Rightarrow> Some t)\<rparr>) db))
      else db)"

definition lag_seconds :: "int \<Rightarrow> OutboxLease list \<Rightarrow> DeliveryResult \<Rightarrow> int" where
  "lag_seconds deliveredAt ls result =
     max 0 ((deliveredAt div 1000 - (case dr_maxEventTime result of Some t \<Rightarrow> t | None \<Rightarrow>
        (if ls = [] then deliveredAt else ol_createdAt (last ls))) div 1000) div 1000)"

definition healthy_state :: "string \<Rightarrow> DeliveryResult \<Rightarrow> int \<Rightarrow> int \<Rightarrow> SyncState" where
  "healthy_state name result deliveredAt lag =
     \<lparr>sy_pipelineName = name, sy_lastOutboxId = Some (dr_maxOutboxId result),
      sy_lastEventTime = dr_maxEventTime result, sy_lastSuccessAt = Some deliveredAt, sy_lagSeconds = lag,
      sy_status = Sync_healthy, sy_lastError = None\<rparr>"

text \<open>\<open>ON CONFLICT (pipeline_name) DO UPDATE\<close>: a batch behind the watermark refreshes only the time
  of the last success.\<close>

definition merge_state :: "SyncState \<Rightarrow> SyncState \<Rightarrow> SyncState" where
  "merge_state excluded s =
     (let ahead = (case sy_lastOutboxId s of None \<Rightarrow> True | Some k \<Rightarrow> k \<le> the (sy_lastOutboxId excluded));
          success = (case (sy_lastSuccessAt s, sy_lastSuccessAt excluded) of
             (Some a, Some b) \<Rightarrow> Some (max a b) | (None, t) \<Rightarrow> t | (t, None) \<Rightarrow> t) in
      if ahead then excluded\<lparr>sy_lastSuccessAt := success\<rparr> else s\<lparr>sy_lastSuccessAt := success\<rparr>)"

definition upsert_state :: "SyncState \<Rightarrow> (SyncState \<Rightarrow> SyncState) \<Rightarrow> SyncState list \<Rightarrow> SyncState list" where
  "upsert_state create update ss =
     (if list_ex (\<lambda>s. sy_pipelineName s = sy_pipelineName create) ss
      then update_rows (\<lambda>s. sy_pipelineName s = sy_pipelineName create) update ss
      else ss @ [create])"

definition markDelivered ::
  "string \<Rightarrow> int \<Rightarrow> (int \<Rightarrow> int) \<Rightarrow> OutboxLease list \<Rightarrow> DeliveryResult \<Rightarrow> 'o PipelineDb \<Rightarrow> thrown + 'o PipelineDb" where
  "markDelivered pipelineName deliveredAt clock ls result db =
     (if \<not> acknowledges ls result
      then Inl (js_error ''TypeError'' ''ClickHouse delivery acknowledgement does not match the leased batch'')
      else
        bind_res (mark_sent deliveredAt clock ls db) (\<lambda>db1.
          (let db2 = fold (mark_official deliveredAt) ls db1;
               state = healthy_state pipelineName result deliveredAt (lag_seconds deliveredAt ls result)
           in Inr (db2\<lparr>pd_sync := upsert_state state (merge_state state) (pd_sync db2)\<rparr>))))"

subsection \<open>Failures\<close>

record OutboxFailure =
  of_code :: string
  of_errorClass :: string
  of_message :: string
  of_retryable :: bool

definition failureFrom :: "thrown \<Rightarrow> OutboxFailure" where
  "failureFrom error =
     (let (cls, message) = (case error of
            ErrorObject heap a \<Rightarrow>
              (case eo_class (heap a) of
                 None \<Rightarrow> (''UnknownClickHouseError'', ''Unknown ClickHouse delivery failure'')
               | Some c \<Rightarrow> (c, eo_message (heap a)))
          | PermanentPipelineError code m d \<Rightarrow> (''PermanentPipelineError'', m)
          | RetryablePipelineError code m d \<Rightarrow> (''RetryablePipelineError'', m)
          | ZodErrorThrown issues \<Rightarrow> (''ZodError'', [])
          | PrimitiveThrown \<Rightarrow> (''UnknownClickHouseError'', ''Unknown ClickHouse delivery failure''));
          permanent = (cls = ''TypeError'' \<or> cls = ''RangeError'') in
      \<lparr>of_code = (if permanent then ''CLICKHOUSE_OUTBOX_PAYLOAD_INVALID'' else ''CLICKHOUSE_DELIVERY_FAILED''),
       of_errorClass = cls, of_message = message, of_retryable = \<not> permanent\<rparr>)"

definition outbox_error_text :: "OutboxFailure \<Rightarrow> string" where
  "outbox_error_text f = of_code f @ '': '' @ of_message f"

definition markSyncFailure :: "string \<Rightarrow> OutboxFailure \<Rightarrow> bool \<Rightarrow> 'o PipelineDb \<Rightarrow> 'o PipelineDb" where
  "markSyncFailure pipelineName failure terminal db =
     (let st = (if terminal then Sync_failed else Sync_degraded); text = outbox_error_text failure in
      db\<lparr>pd_sync := upsert_state
            \<lparr>sy_pipelineName = pipelineName, sy_lastOutboxId = None, sy_lastEventTime = None,
             sy_lastSuccessAt = None, sy_lagSeconds = 0, sy_status = st, sy_lastError = Some text\<rparr>
            (\<lambda>s. s\<lparr>sy_status := st, sy_lastError := Some text\<rparr>) (pd_sync db)\<rparr>)"

text \<open>
  The failure path of a row is two transactions: the guarded statement on the row (with the dead
  letter, when there is one), then the state of the pipeline.  A crash between them leaves the
  second undone.
\<close>

definition outbox_retry_row ::
  "OutboxLease \<Rightarrow> OutboxFailure \<Rightarrow> int \<Rightarrow> int \<Rightarrow> 'o PipelineDb \<Rightarrow> thrown + 'o PipelineDb" where
  "outbox_retry_row l failure retryAt now db =
     (case fenced_write (ol_id l) (ol_leaseOwner l) now
             (\<lambda>r. r\<lparr>lr_status := Failed, lr_availableAt := retryAt, lr_nextRetryAt := Some retryAt,
                    lr_lastError := Some (outbox_error_text failure)\<rparr>) (pd_outbox db) of
        None \<Rightarrow> Inl (outboxLeaseLost l)
      | Some rows \<Rightarrow> Inr (db\<lparr>pd_outbox := rows\<rparr>))"

definition outbox_retry ::
  "string \<Rightarrow> OutboxLease \<Rightarrow> OutboxFailure \<Rightarrow> int \<Rightarrow> int \<Rightarrow> 'o PipelineDb \<Rightarrow> thrown + 'o PipelineDb" where
  "outbox_retry pipelineName l failure retryAt now db =
     bind_res (outbox_retry_row l failure retryAt now db) (\<lambda>db'. Inr (markSyncFailure pipelineName failure False db'))"

definition outbox_dead_letter :: "string \<Rightarrow> OutboxLease \<Rightarrow> OutboxFailure \<Rightarrow> DeadLetterRow" where
  "outbox_dead_letter newId l failure =
     \<lparr>dl_id = newId, dl_applicationId = ol_applicationId l, dl_eventId = None, dl_inboxId = None,
      dl_outboxId = Some (ol_id l), dl_stage = Stage_outbox_created, dl_errorCode = of_code failure,
      dl_errorClass = of_errorClass failure, dl_errorMessage = of_message failure,
      dl_detailsJson = JObj
        [(''outbox_id'', JStr (bigint_text (ol_id l))), (''event_type'', JStr (ol_eventType l)),
         (''aggregate_type'', JStr (ol_aggregateType l)), (''aggregate_id'', JStr (ol_aggregateId l))],
      dl_status = Dlq_open, dl_attemptCount = ol_attemptCount l, dl_replayCount = 0, dl_nextRetryAt = None,
      dl_resolution = None, dl_resolvedAt = None\<rparr>"

definition outbox_dead_row ::
  "string \<Rightarrow> OutboxLease \<Rightarrow> OutboxFailure \<Rightarrow> int \<Rightarrow> 'o PipelineDb \<Rightarrow> thrown + 'o PipelineDb" where
  "outbox_dead_row newId l failure now db =
     (case fenced_write (ol_id l) (ol_leaseOwner l) now
             (\<lambda>r. r\<lparr>lr_status := DeadLetter, lr_nextRetryAt := None,
                    lr_lastError := Some (outbox_error_text failure)\<rparr>) (pd_outbox db) of
        None \<Rightarrow> Inl (outboxLeaseLost l)
      | Some rows \<Rightarrow>
          Inr (db\<lparr>pd_outbox := rows, pd_deadLetters := pd_deadLetters db @ [outbox_dead_letter newId l failure]\<rparr>))"

definition outbox_deadLetter ::
  "string \<Rightarrow> string \<Rightarrow> OutboxLease \<Rightarrow> OutboxFailure \<Rightarrow> int \<Rightarrow> 'o PipelineDb \<Rightarrow> thrown + 'o PipelineDb" where
  "outbox_deadLetter pipelineName newId l failure now db =
     bind_res (outbox_dead_row newId l failure now db) (\<lambda>db'. Inr (markSyncFailure pipelineName failure True db'))"

subsection \<open>The processor\<close>

record outbox_options =
  oo_batchSize :: nat
  oo_maxAttempts :: int
  oo_retryBaseDelayMs :: int
  oo_leaseDurationMs :: int
  oo_pipelineName :: string

text \<open>What one batch reads from its surroundings: the lease token, the rows others hold, the order of
  \<open>RETURNING\<close>, fresh ids, and its instants (of the leasing statement, of the guarded statement on
  each row, of \<open>new Date()\<close> at the acknowledgement and of \<open>Date.now()\<close> in the failure path).\<close>

record outbox_world =
  ow_token :: string
  ow_locked :: "int \<Rightarrow> bool"
  ow_returning :: "OutboxRow list \<Rightarrow> OutboxRow list"
  ow_newId :: "int \<Rightarrow> string"
  ow_leaseAt :: int
  ow_statementAt :: "int \<Rightarrow> int"
  ow_deliveredAt :: int
  ow_nowMs :: int

datatype outbox_status = Ob_idle | Ob_delivered | Ob_retry_scheduled | Ob_dead_lettered

record outbox_outcome =
  oc_status :: outbox_status
  oc_leased :: nat
  oc_delivered :: nat
  oc_retried :: nat
  oc_deadLettered :: nat

text \<open>One failed row: retried while it has attempts left, dead-lettered otherwise.\<close>

definition fail_lease ::
  "outbox_options \<Rightarrow> outbox_world \<Rightarrow> OutboxFailure \<Rightarrow> OutboxLease \<Rightarrow> 'o PipelineDb \<Rightarrow> thrown + ('o PipelineDb \<times> bool)" where
  "fail_lease opts w failure l db =
     (if of_retryable failure \<and> ol_attemptCount l < oo_maxAttempts opts
      then bind_res (outbox_retry (oo_pipelineName opts) l failure
             ((ow_nowMs w + retryDelayMs (ol_attemptCount l) (oo_retryBaseDelayMs opts) 300000) * 1000)
             (ow_statementAt w (ol_id l)) db) (\<lambda>db'. Inr (db', True))
      else bind_res (outbox_deadLetter (oo_pipelineName opts) (ow_newId w (ol_id l)) l
             (if of_retryable failure
              then failure\<lparr>of_code := ''CLICKHOUSE_DELIVERY_RETRY_EXHAUSTED'', of_retryable := False\<rparr> else failure)
             (ow_statementAt w (ol_id l)) db) (\<lambda>db'. Inr (db', False)))"

fun handle_leases ::
  "outbox_options \<Rightarrow> outbox_world \<Rightarrow> OutboxFailure \<Rightarrow> OutboxLease list \<Rightarrow> nat \<Rightarrow> nat \<Rightarrow> 'o PipelineDb \<Rightarrow>
   'o PipelineDb \<times> (thrown + nat \<times> nat)" where
  "handle_leases opts w failure [] retried dead db = (db, Inr (retried, dead))"
| "handle_leases opts w failure (l # ls) retried dead db =
     (case fail_lease opts w failure l db of
        Inl e \<Rightarrow> (db, Inl e)
      | Inr (db', True) \<Rightarrow> handle_leases opts w failure ls (retried + 1) dead db'
      | Inr (db', False) \<Rightarrow> handle_leases opts w failure ls retried (dead + 1) db')"

definition handleFailure ::
  "outbox_options \<Rightarrow> outbox_world \<Rightarrow> OutboxLease list \<Rightarrow> OutboxFailure \<Rightarrow> 'o PipelineDb \<Rightarrow>
   'o PipelineDb \<times> (thrown + outbox_outcome)" where
  "handleFailure opts w ls failure db =
     (case handle_leases opts w failure ls 0 0 db of
        (db', Inl e) \<Rightarrow> (db', Inl e)
      | (db', Inr (retried, dead)) \<Rightarrow>
          (db', Inr \<lparr>oc_status = (if 0 < retried then Ob_retry_scheduled else Ob_dead_lettered),
                     oc_leased = length ls, oc_delivered = 0, oc_retried = retried, oc_deadLettered = dead\<rparr>))"

definition outbox_runBatch ::
  "outbox_options \<Rightarrow> outbox_world \<Rightarrow> (ClickHouseOutboxRecord list \<Rightarrow> thrown + DeliveryResult) \<Rightarrow> 'o PipelineDb \<Rightarrow>
   'o PipelineDb \<times> (thrown + outbox_outcome)" where
  "outbox_runBatch opts w deliver db =
     (case leaseOutbox (ow_returning w) (ow_locked w) (oo_leaseDurationMs opts) (ow_token w)
             CLICKHOUSE_PIPELINE_EVENT_TYPES (oo_batchSize opts) (ow_leaseAt w) db of
        Inl e \<Rightarrow> (db, Inl e)
      | Inr (db1, unsorted) \<Rightarrow>
          (let ls = sort_key ol_id unsorted in
           if ls = []
           then (db1, Inr \<lparr>oc_status = Ob_idle, oc_leased = 0, oc_delivered = 0, oc_retried = 0, oc_deadLettered = 0\<rparr>)
           else
             (case deliver (map outboxLeaseRecord ls) of
                Inl e \<Rightarrow> handleFailure opts w ls (failureFrom e) db1
              | Inr result \<Rightarrow>
                  (case markDelivered (oo_pipelineName opts) (ow_deliveredAt w) (ow_statementAt w) ls result db1 of
                     Inl e \<Rightarrow> (db1, Inl e)
                   | Inr db2 \<Rightarrow>
                       (db2, Inr \<lparr>oc_status = Ob_delivered, oc_leased = length ls, oc_delivered = length ls,
                                  oc_retried = 0, oc_deadLettered = 0\<rparr>)))))"

end
