(* ===== verification/ReplayOperations.thy ===== *)
theory ReplayOperations
  imports OutboxStore
begin

text \<open>
  The recovery operations of reconciliation on the pipeline's tables,
  \<open>apps/worker/src/reconciliation/operation-executor.ts\<close>: a queued run is claimed once, then its
  plan requeues inbox rows with a replay intent or copies delivered outbox rows for another
  delivery.
\<close>

subsection \<open>Runs\<close>

datatype RunStatus = Run_queued | Run_running | Run_completed | Run_failed | Run_other

record ReconciliationRun =
  rn_id :: string
  rn_applicationId :: string
  rn_status :: RunStatus
  rn_scopeJson :: json
  rn_startedAt :: int
  rn_finishedAt :: "int option"
  rn_error :: "string option"

definition envelope_ok :: "json \<Rightarrow> bool" where
  "envelope_ok v = (case v of
     JObj ms \<Rightarrow>
       (member v ''operation'' = Some (JStr ''replay'') \<or> member v ''operation'' = Some (JStr ''rebuild'')) \<and>
       member v ''plan'' \<noteq> None \<and>
       (case string_member v ''reason'' of None \<Rightarrow> False | Some r \<Rightarrow> 5 \<le> utf16_length (js_trim r))
   | _ \<Rightarrow> False)"

text \<open>\<open>claim\<close>: the conditional update, then the checks whose failure rolls it back.\<close>

definition claim ::
  "string \<Rightarrow> string \<Rightarrow> int \<Rightarrow> 'r ReconciliationRun_scheme list \<Rightarrow>
   thrown + ('r ReconciliationRun_scheme list \<times> (string \<times> json) option)" where
  "claim runId expected now runs =
     (let p = (\<lambda>r. rn_id r = runId \<and> rn_status r \<in> {Run_queued, Run_failed}) in
      if count_rows p runs \<noteq> 1 then Inr (runs, None)
      else
        (case find_unique (\<lambda>r. rn_id r = runId) runs of
           None \<Rightarrow> Inl (db_error ''P2025'' ''No ReconciliationRun found'')
         | Some run \<Rightarrow>
             if \<not> envelope_ok (rn_scopeJson run)
             then Inl (js_error ''TypeError'' ''Reconciliation operation payload is incomplete'')
             else if string_member (rn_scopeJson run) ''operation'' \<noteq> Some expected
             then Inl (js_error ''TypeError'' ''Expected another operation'')
             else Inr (update_rows p (\<lambda>r. r\<lparr>rn_status := Run_running, rn_startedAt := now, rn_error := None\<rparr>) runs,
                       Some (rn_applicationId run, rn_scopeJson run))))"

definition complete_run :: "string \<Rightarrow> int \<Rightarrow> 'r ReconciliationRun_scheme list \<Rightarrow> 'r ReconciliationRun_scheme list" where
  "complete_run runId now runs =
     update_rows (\<lambda>r. rn_id r = runId) (\<lambda>r. r\<lparr>rn_status := Run_completed, rn_finishedAt := Some now, rn_error := None\<rparr>) runs"

definition fail_run :: "string \<Rightarrow> string \<Rightarrow> int \<Rightarrow> 'r ReconciliationRun_scheme list \<Rightarrow> 'r ReconciliationRun_scheme list" where
  "fail_run runId message now runs =
     update_rows (\<lambda>r. rn_id r = runId \<and> rn_status r = Run_running)
       (\<lambda>r. r\<lparr>rn_status := Run_failed, rn_finishedAt := Some now, rn_error := Some (take 8000 message)\<rparr>) runs"

subsection \<open>Requeueing\<close>

record ReplayPlan =
  rp_replayType :: string
  rp_rangeStart :: int
  rp_rangeEnd :: int

definition in_range :: "ReplayPlan \<Rightarrow> int \<Rightarrow> bool" where
  "in_range plan t \<longleftrightarrow> rp_rangeStart plan \<le> t \<and> t < rp_rangeEnd plan"

definition intent_json :: "string \<Rightarrow> string \<Rightarrow> json" where
  "intent_json runId replayType = JObj
     [(''authority'', JStr ''reconciliation''), (''run_id'', JStr runId), (''replay_type'', JStr replayType)]"

definition requeued :: "string \<Rightarrow> string \<Rightarrow> int \<Rightarrow> InboxRow \<Rightarrow> InboxRow" where
  "requeued runId replayType now r = (reset_inbox now r)\<lparr>ib_replayIntentJson := Some (intent_json runId replayType)\<rparr>"

definition resetInbox :: "string \<Rightarrow> string \<Rightarrow> ReplayPlan \<Rightarrow> int \<Rightarrow> 'o PipelineDb \<Rightarrow> 'o PipelineDb \<times> nat" where
  "resetInbox runId app plan now db =
     (let p = (\<lambda>r. ib_applicationId r = app \<and> ib_payloadJson r \<noteq> None \<and>
                 lr_status r \<in> {Pending, Failed, Completed, DeadLetter} \<and>
                 (case registry_of (ib_applicationId r) (ib_eventId r) (pd_registry db) of
                    None \<Rightarrow> False | Some g \<Rightarrow> in_range plan (rg_eventTime g)))
      in (db\<lparr>pd_inbox := update_rows p (requeued runId (rp_replayType plan) now) (pd_inbox db)\<rparr>,
          count_rows p (pd_inbox db)))"

definition events_in_range :: "string \<Rightarrow> ReplayPlan \<Rightarrow> 'o PipelineDb \<Rightarrow> string list" where
  "events_in_range app plan db =
     map rg_eventId (filter (\<lambda>g. rg_applicationId g = app \<and> in_range plan (rg_eventTime g)) (pd_registry db))"

text \<open>\<open>timestamptz\<close> is PostgreSQL's cast of the profile's update time, in milliseconds.\<close>

definition reprojectable :: "(string \<Rightarrow> int) \<Rightarrow> string \<Rightarrow> ReplayPlan \<Rightarrow> 'o PipelineDb \<Rightarrow> OutboxRow \<Rightarrow> bool" where
  "reprojectable timestamptz app plan db r \<longleftrightarrow>
     ob_applicationId r = app \<and> lr_status r \<in> {Sent, DeadLetter} \<and>
     \<not> js_startsWith (ob_idempotencyKey r) ''reconciliation:'' \<and> ob_eventType r \<in> set CLICKHOUSE_PIPELINE_EVENT_TYPES \<and>
     (if ob_eventType r = ''application_user.profile''
      then (case string_member (ob_payloadJson r) ''profile_updated_at'' of
              None \<Rightarrow> False | Some t \<Rightarrow> in_range plan (timestamptz t))
      else ob_aggregateId r \<in> set (events_in_range app plan db) \<or>
           (case string_member (ob_payloadJson r) ''event_id'' of
              None \<Rightarrow> False | Some e \<Rightarrow> e \<in> set (events_in_range app plan db)))"

definition replayed_outbox :: "string \<Rightarrow> int \<Rightarrow> int \<Rightarrow> OutboxRow \<Rightarrow> OutboxRow" where
  "replayed_outbox runId k now r =
     r\<lparr>lr_id := k, lr_status := Pending, lr_attemptCount := 0, lr_availableAt := now, lr_nextRetryAt := None,
       lr_leaseOwner := None, lr_leaseExpiresAt := None, lr_lastError := None,
       ob_idempotencyKey := ''reconciliation:'' @ runId @ '':outbox:'' @ bigint_text (lr_id r),
       ob_replayOfOutboxId := Some (case ob_replayOfOutboxId r of None \<Rightarrow> lr_id r | Some s \<Rightarrow> s),
       ob_sentAt := None, ob_createdAt := now\<rparr>"

definition add_replay :: "string \<Rightarrow> int \<Rightarrow> OutboxRow \<Rightarrow> 'o PipelineDb \<times> nat \<Rightarrow> 'o PipelineDb \<times> nat" where
  "add_replay runId now r acc =
     (let (db, n) = acc; new = replayed_outbox runId (pd_nextOutboxId db) now r in
      if has_outbox (ob_applicationId new) (ob_idempotencyKey new) (pd_outbox db) then (db, n)
      else (db\<lparr>pd_outbox := pd_outbox db @ [new], pd_nextOutboxId := pd_nextOutboxId db + 1\<rparr>, n + 1))"

definition resetOutbox ::
  "(string \<Rightarrow> int) \<Rightarrow> string \<Rightarrow> string \<Rightarrow> ReplayPlan \<Rightarrow> int \<Rightarrow> 'o PipelineDb \<Rightarrow> 'o PipelineDb \<times> nat" where
  "resetOutbox timestamptz runId app plan now db =
     fold (add_replay runId now) (filter (reprojectable timestamptz app plan db) (pd_outbox db)) (db, 0)"

text \<open>\<open>applyReplay\<close> for the pipeline's tables; any other plan type rebuilds the quotas.\<close>

datatype replay_effect = Outbox_requeued nat | Inbox_requeued nat | Quota_rebuild

definition applyReplay ::
  "(string \<Rightarrow> int) \<Rightarrow> string \<Rightarrow> string \<Rightarrow> ReplayPlan \<Rightarrow> int \<Rightarrow> 'o PipelineDb \<Rightarrow> 'o PipelineDb \<times> replay_effect" where
  "applyReplay timestamptz runId app plan now db =
     (if rp_replayType plan = ''reproject_to_clickhouse''
      then (let (db', n) = resetOutbox timestamptz runId app plan now db in (db', Outbox_requeued n))
      else if rp_replayType plan \<in> {''rerun_provider_cost'', ''rerun_aiu_observe''}
      then (let (db', n) = resetInbox runId app plan now db in (db', Inbox_requeued n))
      else (db, Quota_rebuild))"

end
