(* ===== verification/PipelineSteps.thy ===== *)
theory PipelineSteps
  imports Ingestion OfficialWriter ReplayOperations
begin

text \<open>
  The pipeline under interleaving.  A state is the database with every lease a worker was ever
  given; a step is one committed transaction of any service: ingestion, leasing, a guarded write
  of some lease holder, a replay from the console or from reconciliation, payload cleanup, or
  the delivery side.  The invariant holds in every reachable state, whatever the order.
\<close>

subsection \<open>Steps\<close>

record pipe_sys =
  sys_db :: "OfficialTables PipelineDb"
  sys_issued :: "InboxLease list"
  sys_outIssued :: "OutboxLease list"

text \<open>The stages a checkpoint records.\<close>

definition checkpoint_stages :: "PipelineStage list" where
  "checkpoint_stages =
     [Stage_normalized, Stage_model_resolved, Stage_provider_cost_rated, Stage_aiu_rated, Stage_quota_settled]"

text \<open>An acquisition token carries a random UUID: no lease was issued under it before.\<close>

definition fresh_token :: "string \<Rightarrow> InboxLease list \<Rightarrow> bool" where
  "fresh_token token issued \<longleftrightarrow> list_all (\<lambda>l. il_leaseOwner l \<noteq> inbox_owner token (il_id l)) issued"

text \<open>The inbox row a console replay resets: the one its dead letter names.\<close>

definition replay_action :: "string option \<Rightarrow> json \<Rightarrow> 'o PipelineDb \<Rightarrow> string lease_action" where
  "replay_action application request db =
     (case find_unique (\<lambda>d. dl_id d = event_text request ''dead_letter_id'' \<and> Some (dl_applicationId d) = application)
             (pd_deadLetters db) of
        None \<Rightarrow> Act_idle
      | Some d \<Rightarrow> (case dl_inboxId d of None \<Rightarrow> Act_idle | Some k \<Rightarrow> Act_revoke k))"

text \<open>One committed transaction, with what it asks of the inbox's leases.\<close>

inductive pipe_act :: "pipe_sys \<Rightarrow> string lease_action \<Rightarrow> pipe_sys \<Rightarrow> bool" where
  ingest: "validateEvent (env :: ingest_env) opts i candidate definitions = Inr v \<Longrightarrow>
    persistEvent env cat w id app v (sys_db s) = (db', r) \<Longrightarrow> pipe_act s Act_idle (s\<lparr>sys_db := db'\<rparr>)"
| lease: "leaseInbox returning locked dur token limit now (sys_db s) = (db', Inr ls) \<Longrightarrow>
    fresh_token token (sys_issued s) \<Longrightarrow> \<forall>xs. set (returning xs) = set xs \<Longrightarrow>
    pipe_act s (Act_grant now (inbox_owner token) (now + dur * 1000)) (s\<lparr>sys_db := db', sys_issued := sys_issued s @ ls\<rparr>)"
| checkpoint: "l \<in> set (sys_issued s) \<Longrightarrow> stage \<in> set checkpoint_stages \<Longrightarrow>
    checkpoint dur l stage now (sys_db s) = Inr (db', l') \<Longrightarrow>
    pipe_act s (Act_extend now (il_id l) (il_leaseOwner l)) (s\<lparr>sys_db := db', sys_issued := sys_issued s @ [l']\<rparr>)"
| commit: "l \<in> set (sys_issued s) \<Longrightarrow> commitOfficial (env :: snapshot_env) dur clock (commit we) l context (sys_db s) = Inr (db', l', m) \<Longrightarrow>
    pipe_act s (Act_extend (cc_committedAt clock) (il_id l) (il_leaseOwner l)) (s\<lparr>sys_db := db', sys_issued := sys_issued s @ [l']\<rparr>)"
| complete: "l \<in> set (sys_issued s) \<Longrightarrow> complete ttl l now (sys_db s) = Inr db' \<Longrightarrow>
    pipe_act s (Act_release now (il_id l) (il_leaseOwner l)) (s\<lparr>sys_db := db'\<rparr>)"
| retry: "l \<in> set (sys_issued s) \<Longrightarrow> retry l failure retryAt now (sys_db s) = Inr db' \<Longrightarrow>
    pipe_act s (Act_release now (il_id l) (il_leaseOwner l)) (s\<lparr>sys_db := db'\<rparr>)"
| dead: "l \<in> set (sys_issued s) \<Longrightarrow> deadLetter newId l failure now (sys_db s) = Inr db' \<Longrightarrow>
    pipe_act s (Act_release now (il_id l) (il_leaseOwner l)) (s\<lparr>sys_db := db'\<rparr>)"
| replay: "replay (renv :: route_env) application request now (sys_db s) = Inr (db', outcome) \<Longrightarrow>
    pipe_act s (replay_action application request (sys_db s)) (s\<lparr>sys_db := db'\<rparr>)"
| reset: "applyReplay tz runId app plan now (sys_db s) = (db', effect) \<Longrightarrow> uuid_pattern runId \<Longrightarrow>
    pipe_act s Act_idle (s\<lparr>sys_db := db'\<rparr>)"
| purge: "purgeBatch locked limit now (sys_db s) = Inr (db', events) \<Longrightarrow> pipe_act s Act_idle (s\<lparr>sys_db := db'\<rparr>)"
| out_lease: "leaseOutbox oreturning olocked dur token types limit now (sys_db s) = Inr (db', ols) \<Longrightarrow>
    pipe_act s Act_idle (s\<lparr>sys_db := db', sys_outIssued := sys_outIssued s @ ols\<rparr>)"
| delivered: "set ols \<subseteq> set (sys_outIssued s) \<Longrightarrow> markDelivered name t oclock ols result (sys_db s) = Inr db' \<Longrightarrow>
    pipe_act s Act_idle (s\<lparr>sys_db := db'\<rparr>)"
| out_retry: "ol \<in> set (sys_outIssued s) \<Longrightarrow> outbox_retry_row ol ofailure retryAt now (sys_db s) = Inr db' \<Longrightarrow>
    pipe_act s Act_idle (s\<lparr>sys_db := db'\<rparr>)"
| out_dead: "ol \<in> set (sys_outIssued s) \<Longrightarrow> outbox_dead_row newId ol ofailure now (sys_db s) = Inr db' \<Longrightarrow>
    pipe_act s Act_idle (s\<lparr>sys_db := db'\<rparr>)"
| out_state: "pipe_act s Act_idle (s\<lparr>sys_db := markSyncFailure name ofailure terminal (sys_db s)\<rparr>)"
| other: "pipe_act s Act_idle (s\<lparr>sys_db := (sys_db s)\<lparr>pd_official := tables, pd_users := users, pd_properties := props,
    pd_openDiffSamples := samples\<rparr>\<rparr>)"

definition pipe_step :: "pipe_sys \<Rightarrow> pipe_sys \<Rightarrow> bool" where
  "pipe_step s s' \<longleftrightarrow> (\<exists>a. pipe_act s a s')"

lemma pipe_stepI: "pipe_act s a s' \<Longrightarrow> pipe_step s s'"
  by (auto simp: pipe_step_def)

definition empty_pipeline :: "OfficialTables \<Rightarrow> OfficialTables PipelineDb" where
  "empty_pipeline tables =
     \<lparr>pd_inbox = [], pd_outbox = [], pd_nextOutboxId = 1, pd_registry = [], pd_deadLetters = [], pd_sync = [],
      pd_users = [], pd_properties = [], pd_openDiffSamples = [], pd_audit = [], pd_official = tables\<rparr>"

inductive pipe_reachable :: "pipe_sys \<Rightarrow> bool" where
  start: "pipe_reachable \<lparr>sys_db = empty_pipeline tables, sys_issued = [], sys_outIssued = []\<rparr>"
| step: "pipe_reachable s \<Longrightarrow> pipe_step s s' \<Longrightarrow> pipe_reachable s'"

subsection \<open>The invariant\<close>

definition ib_key :: "InboxRow \<Rightarrow> string \<times> string" where
  "ib_key r = (ib_applicationId r, ib_eventId r)"

definition rg_key :: "RegistryRow \<Rightarrow> string \<times> string" where
  "rg_key g = (rg_applicationId g, rg_eventId g)"

definition ob_key :: "OutboxRow \<Rightarrow> string \<times> string" where
  "ob_key x = (ob_applicationId x, ob_idempotencyKey x)"

definition il_key :: "InboxLease \<Rightarrow> string \<times> string" where
  "il_key l = (il_applicationId l, il_eventId l)"

text \<open>One inbox row: status and stage agree on the terminal states, a lease has an owner and a
  deadline, a row that may still be processed has its payload and a readable intent.\<close>

definition row_local :: "InboxRow \<Rightarrow> bool" where
  "row_local r \<longleftrightarrow>
     (lr_status r = Completed \<longleftrightarrow> ib_stage r = Stage_completed) \<and>
     (lr_status r = DeadLetter \<longleftrightarrow> ib_stage r = Stage_dead_letter) \<and> lr_status r \<noteq> Sent \<and>
     (lr_status r = Leased \<longrightarrow> lr_leaseOwner r \<noteq> None \<and> lr_leaseExpiresAt r \<noteq> None) \<and>
     (ib_payloadJson r = None \<longrightarrow> lr_status r = Completed) \<and>
     (case ib_payloadJson r of None \<Rightarrow> True | Some j \<Rightarrow> \<exists>ms. j = JObj ms) \<and>
     (\<exists>i. parsePipelineReplayIntent (ib_replayIntentJson r) = Inr i)"

text \<open>The registry shows the stage of the inbox row, unless the row was requeued by reconciliation.\<close>

definition mirrors :: "InboxRow \<Rightarrow> RegistryRow \<Rightarrow> bool" where
  "mirrors r g \<longleftrightarrow> ib_stage r = rg_processingStage g \<or> ib_replayIntentJson r \<noteq> None"

definition inbox_inv :: "InboxRow list \<Rightarrow> RegistryRow list \<Rightarrow> bool" where
  "inbox_inv rs gs \<longleftrightarrow>
     distinct (map lr_id rs) \<and> distinct (map ib_key rs) \<and> distinct (map rg_key gs) \<and>
     (\<forall>r \<in> set rs. row_local r) \<and>
     (\<forall>r \<in> set rs. \<exists>g \<in> set gs. rg_key g = ib_key r \<and> mirrors r g)"

definition outbox_inv :: "OutboxRow list \<Rightarrow> int \<Rightarrow> bool" where
  "outbox_inv xs next \<longleftrightarrow>
     distinct (map lr_id xs) \<and> distinct (map ob_key xs) \<and> (\<forall>x \<in> set xs. lr_id x < next)"

text \<open>The rows of the inbox by id, application and event; leases and dead letters name rows of it.\<close>

definition idents :: "InboxRow list \<Rightarrow> (string \<times> string \<times> string) set" where
  "idents rs = (\<lambda>r. (lr_id r, ib_key r)) ` set rs"

definition issued_fits :: "InboxRow list \<Rightarrow> InboxLease \<Rightarrow> bool" where
  "issued_fits rs l \<longleftrightarrow> (il_id l, il_key l) \<in> idents rs"

definition dead_fits :: "InboxRow list \<Rightarrow> DeadLetterRow \<Rightarrow> bool" where
  "dead_fits rs d = (case dl_inboxId d of None \<Rightarrow> True
     | Some k \<Rightarrow> (case dl_eventId d of None \<Rightarrow> False | Some e \<Rightarrow> (k, dl_applicationId d, e) \<in> idents rs))"

definition db_inv :: "'o PipelineDb \<Rightarrow> bool" where
  "db_inv db \<longleftrightarrow>
     inbox_inv (pd_inbox db) (pd_registry db) \<and> outbox_inv (pd_outbox db) (pd_nextOutboxId db) \<and>
     (\<forall>d \<in> set (pd_deadLetters db). dead_fits (pd_inbox db) d)"

definition pipe_inv :: "pipe_sys \<Rightarrow> bool" where
  "pipe_inv s \<longleftrightarrow> db_inv (sys_db s) \<and> (\<forall>l \<in> set (sys_issued s). issued_fits (pd_inbox (sys_db s)) l)"

subsection \<open>Updates that keep identities\<close>

definition keeps_row :: "(InboxRow \<Rightarrow> InboxRow) \<Rightarrow> bool" where
  "keeps_row g \<longleftrightarrow> (\<forall>r. lr_id (g r) = lr_id r \<and> ib_key (g r) = ib_key r)"

definition keeps_registry :: "(RegistryRow \<Rightarrow> RegistryRow) \<Rightarrow> bool" where
  "keeps_registry h \<longleftrightarrow> (\<forall>g. rg_key (h g) = rg_key g)"

lemma keeps_rows [simp, intro]:
  "keeps_row (advanced dur stage now)" "keeps_row (completed_row ttl now)" "keeps_row (retried_row t text)"
  "keeps_row (dead_row text)" "keeps_row (reset_inbox now)" "keeps_row (requeued runId kind now)"
  "keeps_row (acquired own e)"
  "keeps_row (\<lambda>r. r\<lparr>ib_payloadJson := None, ib_payloadPurgedAt := Some now\<rparr>)"
  by (simp_all add: keeps_row_def ib_key_def advanced_def completed_row_def retried_row_def dead_row_def
    reset_inbox_def requeued_def acquired_def)

lemma update_rows_same:
  "(\<And>r. r \<in> set rs \<Longrightarrow> p r \<longleftrightarrow> q r) \<Longrightarrow> update_rows p g rs = update_rows q g rs"
  by (rule update_rows_cong)

text \<open>
  The shape of every inbox write: rows selected by \<open>p\<close> change by \<open>g\<close>, registry rows selected by
  \<open>q\<close> by \<open>h\<close>, identities stay; it is enough to look at one row and its registry row.
\<close>

lemma inbox_inv_update:
  assumes inv: "inbox_inv rs gs" and g: "keeps_row g" and h: "keeps_registry h"
    and loc: "\<And>r. r \<in> set rs \<Longrightarrow> p r \<Longrightarrow> row_local r \<Longrightarrow> row_local (g r)"
    and mir: "\<And>r x. r \<in> set rs \<Longrightarrow> x \<in> set gs \<Longrightarrow> rg_key x = ib_key r \<Longrightarrow> mirrors r x \<Longrightarrow>
      mirrors (if p r then g r else r) (if q x then h x else x)"
  shows "inbox_inv (update_rows p g rs) (update_rows q h gs)"
proof -
  have ids: "map lr_id (update_rows p g rs) = map lr_id rs" "map ib_key (update_rows p g rs) = map ib_key rs"
    "map rg_key (update_rows q h gs) = map rg_key gs"
    using g h by (auto intro!: map_update_rows_frame simp: keeps_row_def keeps_registry_def)
  have "row_local r" if "r \<in> set (update_rows p g rs)" for r
    using that inv loc by (auto simp: set_update_rows inbox_inv_def)
  moreover have "\<exists>x \<in> set (update_rows q h gs). rg_key x = ib_key r \<and> mirrors r x"
    if r: "r \<in> set (update_rows p g rs)" for r
  proof -
    obtain r0 where r0: "r0 \<in> set rs" "r = (if p r0 then g r0 else r0)" using r by (auto simp: set_update_rows)
    obtain x where x: "x \<in> set gs" "rg_key x = ib_key r0" "mirrors r0 x" using inv r0(1) by (auto simp: inbox_inv_def)
    let ?x = "if q x then h x else x"
    have "?x \<in> set (update_rows q h gs)" using x(1) by (auto simp: set_update_rows)
    moreover have "rg_key ?x = ib_key r" using x(2) g h r0(2) by (simp add: keeps_row_def keeps_registry_def)
    moreover have "mirrors r ?x" using mir [OF r0(1) x(1,2,3)] r0(2) by simp
    ultimately show ?thesis by blast
  qed
  ultimately show ?thesis using inv unfolding inbox_inv_def ids by blast
qed

lemma idents_update:
  assumes "keeps_row g"
  shows "idents (update_rows p g rs) = idents rs"
proof -
  have "(\<lambda>r. (lr_id r, ib_key r)) ((\<lambda>r. if p r then g r else r) r) = (lr_id r, ib_key r)" for r
    using assms by (simp add: keeps_row_def)
  then show ?thesis unfolding idents_def set_update_rows image_image by simp
qed

text \<open>A lease names one row, and that row's registry entry.\<close>

lemma lease_row:
  assumes inv: "inbox_inv rs gs" and fits: "issued_fits rs l" and r: "r \<in> set rs"
  shows "lr_id r = il_id l \<longleftrightarrow> ib_key r = il_key l"
proof -
  obtain r0 where r0: "r0 \<in> set rs" "lr_id r0 = il_id l" "ib_key r0 = il_key l"
    using fits by (auto simp: issued_fits_def idents_def)
  have "lr_id r = lr_id r0 \<longleftrightarrow> ib_key r = ib_key r0"
    using inv r r0(1) distinct_map_inj [of lr_id rs r r0] distinct_map_inj [of ib_key rs r r0]
    by (auto simp: inbox_inv_def)
  then show ?thesis using r0 by simp
qed

text \<open>A guarded write by a lease holder, with the matching registry update.\<close>

lemma inbox_inv_guarded:
  assumes inv: "inbox_inv rs gs" and fits: "issued_fits rs l" and g: "keeps_row g" and h: "keeps_registry h"
    and sel: "\<And>r. r \<in> set rs \<Longrightarrow> p r \<longleftrightarrow> lr_id r = il_id l"
    and loc: "\<And>r. r \<in> set rs \<Longrightarrow> lr_id r = il_id l \<Longrightarrow> row_local r \<Longrightarrow> row_local (g r)"
    and mir: "\<And>r x. mirrors (g r) (h x)"
  shows "inbox_inv (update_rows p g rs)
    (update_rows (\<lambda>x. rg_eventId x = il_eventId l \<and> rg_applicationId x = il_applicationId l) h gs)"
proof (rule inbox_inv_update [OF inv g h])
  show "row_local (g r)" if "r \<in> set rs" "p r" "row_local r" for r
    using that loc sel by blast
  show "mirrors (if p r then g r else r)
      (if rg_eventId x = il_eventId l \<and> rg_applicationId x = il_applicationId l then h x else x)"
    if r: "r \<in> set rs" and "x \<in> set gs" and key: "rg_key x = ib_key r" and m: "mirrors r x" for r x
  proof -
    have "p r \<longleftrightarrow> rg_key x = il_key l" using sel [OF r] lease_row [OF inv fits r] key by simp
    then have "p r \<longleftrightarrow> rg_eventId x = il_eventId l \<and> rg_applicationId x = il_applicationId l"
      by (auto simp: rg_key_def il_key_def)
    then show ?thesis using mir m by auto
  qed
qed

text \<open>When a guarded statement finds its row, it selects exactly the row of the lease.\<close>

lemma fenced_selects:
  assumes "distinct (map lr_id rs)" and "r0 \<in> set rs" and "fenced k w now r0" and "r \<in> set rs"
  shows "fenced k w now r \<longleftrightarrow> lr_id r = k"
proof
  assume "lr_id r = k"
  then have "lr_id r = lr_id r0" using fenced_id [OF assms(3)] by simp
  then have "r = r0" by (rule distinct_map_inj [OF assms(1) assms(4) assms(2)])
  then show "fenced k w now r" using assms(3) by simp
qed (rule fenced_id)

lemma filter_fenced:
  assumes d: "distinct (map lr_id rs)" and f: "filter p rs = [r0]" and p: "\<forall>r. p r \<longrightarrow> lr_id r = k"
  shows "\<And>r. r \<in> set rs \<Longrightarrow> p r \<longleftrightarrow> lr_id r = k" and "r0 \<in> set rs" and "p r0"
proof -
  have r0: "r0 \<in> set rs" "p r0" using arg_cong [OF f, of set] by auto
  show "p r \<longleftrightarrow> lr_id r = k" if "r \<in> set rs" for r
  proof
    assume "lr_id r = k"
    then have "r = r0" using p r0(2) by (intro distinct_map_inj [OF d that r0(1)]) simp
    then show "p r" using r0(2) by simp
  qed (use p in blast)
  show "r0 \<in> set rs" "p r0" using r0 by simp_all
qed

subsection \<open>Preservation: the inbox\<close>

lemma keeps_registry_stage [simp]:
  "keeps_registry (\<lambda>g. g\<lparr>rg_processingStage := s\<rparr>)"
  "keeps_registry (\<lambda>g. g\<lparr>rg_processingStage := s, rg_lastError := e\<rparr>)"
  "keeps_registry (\<lambda>g. g\<lparr>rg_rawSyncedAt := f g\<rparr>)" "keeps_registry (\<lambda>g. g\<lparr>rg_officialSyncedAt := f g\<rparr>)"
  by (simp_all add: keeps_registry_def rg_key_def)

lemma set_registry_simps [simp]:
  "pd_inbox (set_registry app e h db) = pd_inbox db" "pd_outbox (set_registry app e h db) = pd_outbox db"
  "pd_nextOutboxId (set_registry app e h db) = pd_nextOutboxId db"
  "pd_deadLetters (set_registry app e h db) = pd_deadLetters db" "pd_sync (set_registry app e h db) = pd_sync db"
  "pd_official (set_registry app e h db) = pd_official db" "pd_users (set_registry app e h db) = pd_users db"
  "pd_properties (set_registry app e h db) = pd_properties db"
  "pd_registry (set_registry app e h db) =
     update_rows (\<lambda>x. rg_eventId x = e \<and> rg_applicationId x = app) h (pd_registry db)"
  by (simp_all add: set_registry_def)

text \<open>What a successful advance does to the two tables.\<close>

lemma advance_effect:
  assumes "advance dur l stage now db = Inr (db', l')"
  obtains p r0 where "filter p (pd_inbox db) = [r0]" "\<And>r. p r \<Longrightarrow> fenced (il_id l) (il_leaseOwner l) now r"
    "mapLease (pd_registry db) (advanced dur stage now r0) = Inr l'"
    "db' = set_registry (il_applicationId l) (il_eventId l) (\<lambda>g. g\<lparr>rg_processingStage := stage\<rparr>)
       (db\<lparr>pd_inbox := update_rows p (advanced dur stage now) (pd_inbox db)\<rparr>)"
  using assms by (auto simp: advance_def Let_def split: list.splits)

lemma mapLease_fields:
  assumes "mapLease gs r = Inr l"
  shows "il_id l = lr_id r" "il_key l = ib_key r" "il_stage l = ib_stage r" "il_attemptCount l = lr_attemptCount r"
    "lr_leaseOwner r = Some w \<Longrightarrow> il_leaseOwner l = w"
  using assms by (auto simp: mapLease_def il_key_def ib_key_def split: json.splits option.splits)

lemma row_local_advanced:
  "row_local r \<Longrightarrow> lr_status r = Leased \<Longrightarrow> stage \<notin> {Stage_completed, Stage_dead_letter} \<Longrightarrow> row_local (advanced dur stage now r)"
  by (simp add: row_local_def advanced_def)

lemma mirrors_advanced: "mirrors (advanced dur stage now r) (g\<lparr>rg_processingStage := stage\<rparr>)"
  by (simp add: mirrors_def advanced_def)

lemma advance_inv:
  assumes inv: "inbox_inv (pd_inbox db) (pd_registry db)" and fits: "issued_fits (pd_inbox db) l"
    and stage: "stage \<notin> {Stage_completed, Stage_dead_letter}" and ok: "advance dur l stage now db = Inr (db', l')"
  shows "inbox_inv (pd_inbox db') (pd_registry db')" and "issued_fits (pd_inbox db') l'"
    and "idents (pd_inbox db') = idents (pd_inbox db)"
    and "pd_outbox db' = pd_outbox db" and "pd_nextOutboxId db' = pd_nextOutboxId db"
proof -
  obtain p r0 where f: "filter p (pd_inbox db) = [r0]"
    and p: "\<And>r. p r \<Longrightarrow> fenced (il_id l) (il_leaseOwner l) now r"
    and map: "mapLease (pd_registry db) (advanced dur stage now r0) = Inr l'"
    and db': "db' = set_registry (il_applicationId l) (il_eventId l) (\<lambda>g. g\<lparr>rg_processingStage := stage\<rparr>)
       (db\<lparr>pd_inbox := update_rows p (advanced dur stage now) (pd_inbox db)\<rparr>)"
    by (rule advance_effect [OF ok]) (rule that)
  have d: "distinct (map lr_id (pd_inbox db))" using inv by (simp add: inbox_inv_def)
  have pid: "\<forall>r. p r \<longrightarrow> lr_id r = il_id l" by (intro allI impI, erule fenced_id [OF p])
  have sel: "p r \<longleftrightarrow> lr_id r = il_id l" if "r \<in> set (pd_inbox db)" for r
    by (rule filter_fenced(1) [OF d f pid that])
  have r0: "r0 \<in> set (pd_inbox db)" "p r0" using filter_fenced(2,3) [OF d f pid] by simp_all
  show "inbox_inv (pd_inbox db') (pd_registry db')"
    unfolding db' set_registry_simps
    by (simp, rule inbox_inv_guarded [OF inv fits _ _ sel])
      (use p sel stage in \<open>auto simp: mirrors_advanced fenced_def intro!: row_local_advanced\<close>)
  have keep: "pd_inbox db' = update_rows p (advanced dur stage now) (pd_inbox db)" by (simp add: db')
  show "idents (pd_inbox db') = idents (pd_inbox db)" unfolding keep by (rule idents_update) simp
  show "issued_fits (pd_inbox db') l'"
  proof -
    have "advanced dur stage now r0 \<in> set (pd_inbox db')" using r0 unfolding keep by (force simp: set_update_rows)
    then show ?thesis using mapLease_fields(1,2) [OF map] by (auto simp: issued_fits_def idents_def)
  qed
  show "pd_outbox db' = pd_outbox db" "pd_nextOutboxId db' = pd_nextOutboxId db" by (simp_all add: db')
qed

lemma complete_effect:
  assumes "complete ttl l now db = Inr db'"
  obtains r0 where "filter (fenced (il_id l) (il_leaseOwner l) now) (pd_inbox db) = [r0]"
    "pd_inbox db' = update_rows (fenced (il_id l) (il_leaseOwner l) now) (completed_row ttl now) (pd_inbox db)"
    "pd_registry db' = update_rows (\<lambda>x. rg_eventId x = ib_eventId r0 \<and> rg_applicationId x = il_applicationId l)
       (\<lambda>g. g\<lparr>rg_processingStage := Stage_completed\<rparr>) (pd_registry db)"
    "pd_outbox db' = pd_outbox db" "pd_nextOutboxId db' = pd_nextOutboxId db" "pd_official db' = pd_official db"
  using assms by (auto simp: complete_def Let_def split: list.splits)

lemma complete_inv:
  assumes inv: "inbox_inv (pd_inbox db) (pd_registry db)" and fits: "issued_fits (pd_inbox db) l"
    and ok: "complete ttl l now db = Inr db'"
  shows "inbox_inv (pd_inbox db') (pd_registry db')" and "idents (pd_inbox db') = idents (pd_inbox db)"
    and "pd_outbox db' = pd_outbox db" and "pd_nextOutboxId db' = pd_nextOutboxId db"
proof -
  let ?p = "fenced (il_id l) (il_leaseOwner l) now"
  obtain r0 where f: "filter ?p (pd_inbox db) = [r0]"
    and i: "pd_inbox db' = update_rows ?p (completed_row ttl now) (pd_inbox db)"
    and g: "pd_registry db' = update_rows (\<lambda>x. rg_eventId x = ib_eventId r0 \<and> rg_applicationId x = il_applicationId l)
       (\<lambda>g. g\<lparr>rg_processingStage := Stage_completed\<rparr>) (pd_registry db)"
    and rest: "pd_outbox db' = pd_outbox db" "pd_nextOutboxId db' = pd_nextOutboxId db"
    by (rule complete_effect [OF ok]) (rule that)
  have d: "distinct (map lr_id (pd_inbox db))" using inv by (simp add: inbox_inv_def)
  have pid: "\<forall>r. ?p r \<longrightarrow> lr_id r = il_id l" by (simp add: fenced_def)
  note sel = filter_fenced [OF d f pid]
  have e: "ib_eventId r0 = il_eventId l"
    using lease_row [OF inv fits sel(2)] fenced_id [OF sel(3)] by (simp add: ib_key_def il_key_def)
  show "inbox_inv (pd_inbox db') (pd_registry db')"
    unfolding i g e
    by (rule inbox_inv_guarded [OF inv fits _ _ sel(1)])
      (auto simp: row_local_def completed_row_def mirrors_def parsePipelineReplayIntent_def split: option.splits)
  show "idents (pd_inbox db') = idents (pd_inbox db)" unfolding i by (rule idents_update) simp
  show "pd_outbox db' = pd_outbox db" "pd_nextOutboxId db' = pd_nextOutboxId db" using rest by simp_all
qed

lemma fenced_write_filter:
  assumes "fenced_write k w now g rows = Some rows'"
  obtains r0 where "filter (fenced k w now) rows = [r0]" "rows' = update_rows (fenced k w now) g rows"
proof -
  have "length (filter (fenced k w now) rows) = 1" using assms by (simp add: fenced_write_def count_rows_def split: if_splits)
  then obtain r0 where "filter (fenced k w now) rows = [r0]" by (auto simp: length_Suc_conv)
  then show thesis using that fenced_write_eq [OF assms] by blast
qed

lemma retry_inv:
  assumes inv: "inbox_inv (pd_inbox db) (pd_registry db)" and fits: "issued_fits (pd_inbox db) l"
    and ok: "retry l failure t now db = Inr db'"
  shows "inbox_inv (pd_inbox db') (pd_registry db')" and "idents (pd_inbox db') = idents (pd_inbox db)"
    and "pd_outbox db' = pd_outbox db" and "pd_nextOutboxId db' = pd_nextOutboxId db"
proof -
  let ?p = "fenced (il_id l) (il_leaseOwner l) now" and ?g = "retried_row t (error_text failure)"
  obtain rows where w: "fenced_write (il_id l) (il_leaseOwner l) now ?g (pd_inbox db) = Some rows"
    and db': "db' = db\<lparr>pd_inbox := rows\<rparr>"
    using ok by (auto simp: retry_def split: option.splits)
  obtain r0 where f: "filter ?p (pd_inbox db) = [r0]" and rows: "rows = update_rows ?p ?g (pd_inbox db)"
    using w by (rule fenced_write_filter)
  have "inbox_inv (update_rows ?p ?g (pd_inbox db)) (update_rows (\<lambda>_. False) id (pd_registry db))"
    by (rule inbox_inv_update [OF inv])
      (auto simp: keeps_registry_def row_local_def retried_row_def mirrors_def fenced_def split: option.splits)
  then show "inbox_inv (pd_inbox db') (pd_registry db')" by (simp add: db' rows update_rows_none)
  show "idents (pd_inbox db') = idents (pd_inbox db)" unfolding db' rows by (simp add: idents_update)
  show "pd_outbox db' = pd_outbox db" "pd_nextOutboxId db' = pd_nextOutboxId db" by (simp_all add: db')
qed

lemma deadLetter_inv:
  assumes inv: "inbox_inv (pd_inbox db) (pd_registry db)" and fits: "issued_fits (pd_inbox db) l"
    and ok: "deadLetter newId l failure now db = Inr db'"
  shows "inbox_inv (pd_inbox db') (pd_registry db')" and "idents (pd_inbox db') = idents (pd_inbox db)"
    and "pd_outbox db' = pd_outbox db" and "pd_nextOutboxId db' = pd_nextOutboxId db"
proof -
  let ?p = "fenced (il_id l) (il_leaseOwner l) now" and ?g = "dead_row (error_text failure)"
  let ?h = "\<lambda>g. g\<lparr>rg_processingStage := Stage_dead_letter, rg_lastError := Some (error_text failure)\<rparr>"
  obtain rows where w: "fenced_write (il_id l) (il_leaseOwner l) now ?g (pd_inbox db) = Some rows"
    and i: "pd_inbox db' = rows"
    and g: "pd_registry db' = update_rows (\<lambda>x. rg_eventId x = il_eventId l \<and> rg_applicationId x = il_applicationId l) ?h (pd_registry db)"
    and rest: "pd_outbox db' = pd_outbox db" "pd_nextOutboxId db' = pd_nextOutboxId db"
    using ok by (auto simp: deadLetter_def Let_def split: option.splits)
  obtain r0 where f: "filter ?p (pd_inbox db) = [r0]" and rows: "rows = update_rows ?p ?g (pd_inbox db)"
    using w by (rule fenced_write_filter)
  have d: "distinct (map lr_id (pd_inbox db))" using inv by (simp add: inbox_inv_def)
  have pid: "\<forall>r. ?p r \<longrightarrow> lr_id r = il_id l" by (simp add: fenced_def)
  note sel = filter_fenced [OF d f pid]
  have live: "lr_status r0 = Leased" using sel(3) by (simp add: fenced_def)
  have status: "lr_status r = Leased" if "r \<in> set (pd_inbox db)" "lr_id r = il_id l" for r
    using that sel(1) [OF that(1)] by (simp add: fenced_def)
  show "inbox_inv (pd_inbox db') (pd_registry db')"
    unfolding i g rows
    by (rule inbox_inv_guarded [OF inv fits _ _ sel(1)])
      (auto simp: row_local_def dead_row_def mirrors_def status split: option.splits)
  show "idents (pd_inbox db') = idents (pd_inbox db)" unfolding i rows by (rule idents_update) simp
  show "pd_outbox db' = pd_outbox db" "pd_nextOutboxId db' = pd_nextOutboxId db" using rest by simp_all
qed

end
