(* ===== verification/PipelineInvariant.thy ===== *)
theory PipelineInvariant
  imports PipelineSteps
begin

text \<open>
  The invariant of the pipeline is kept by every step: leasing, the official commit, replays,
  cleanup, ingestion and delivery; hence it holds in every reachable state.
\<close>

subsection \<open>Preservation: leasing, commits, replays, cleanup\<close>

lemma candidate_row:
  assumes d: "distinct (map lr_id rows)" and r: "r \<in> set rows"
    and c: "lr_id r \<in> set (lease_candidates locked el limit now rows)"
  shows "el r \<and> leasable now r \<and> \<not> locked (lr_id r)"
proof -
  let ?f = "\<lambda>r. el r \<and> leasable now r \<and> \<not> locked (lr_id r)"
  let ?s = "sort_key (\<lambda>r. (lr_availableAt r, lr_id r)) (filter ?f rows)"
  obtain r' where r': "r' \<in> set (take limit ?s)" "lr_id r' = lr_id r" using c by (auto simp: lease_candidates_def)
  then have "r' \<in> set ?s" by (meson in_set_takeD)
  then have in_rows: "r' \<in> set rows" "?f r'" by auto
  have "r' = r" by (rule distinct_map_inj [OF d in_rows(1) r r'(2)])
  then show ?thesis using in_rows(2) by simp
qed

lemma map_results_Inr:
  "map_results f rs = Inr bs \<Longrightarrow> b \<in> set bs \<Longrightarrow> \<exists>r \<in> set rs. f r = Inr b"
  by (induction rs arbitrary: bs) auto

lemma row_local_acquired:
  "row_local r \<Longrightarrow> inbox_eligible r \<Longrightarrow> leasable now r \<Longrightarrow> row_local (acquired own e r)"
  by (auto simp: row_local_def acquired_def inbox_eligible_def leasable_def)

lemma mirrors_acquired [simp]: "mirrors (acquired own e r) g \<longleftrightarrow> mirrors r g"
  by (simp add: mirrors_def acquired_def)

lemma inbox_inv_rows:
  assumes inv: "inbox_inv rs gs" and g: "keeps_row g"
    and loc: "\<And>r. r \<in> set rs \<Longrightarrow> p r \<Longrightarrow> row_local r \<Longrightarrow> row_local (g r)"
    and mir: "\<And>r x. p r \<Longrightarrow> mirrors r x \<Longrightarrow> mirrors (g r) x"
  shows "inbox_inv (update_rows p g rs) gs"
proof -
  have "inbox_inv (update_rows p g rs) (update_rows (\<lambda>_. False) id gs)"
    by (rule inbox_inv_update [OF inv g _ loc]) (use mir in \<open>auto simp: keeps_registry_def\<close>)
  then show ?thesis by (simp add: update_rows_none)
qed

lemma leaseInbox_inv:
  assumes inv: "inbox_inv (pd_inbox db) (pd_registry db)"
    and ok: "leaseInbox returning locked dur token limit now db = (db', res)"
  shows "inbox_inv (pd_inbox db') (pd_registry db')" and "idents (pd_inbox db') = idents (pd_inbox db)"
    and "pd_outbox db' = pd_outbox db" and "pd_nextOutboxId db' = pd_nextOutboxId db"
    and "pd_deadLetters db' = pd_deadLetters db"
    and "\<And>ls l. res = Inr ls \<Longrightarrow> \<forall>xs. set (returning xs) = set xs \<Longrightarrow> l \<in> set ls \<Longrightarrow> issued_fits (pd_inbox db') l"
proof -
  let ?ks = "inbox_batch locked limit now db"
  let ?rows = "acquire_rows ?ks (inbox_owner token) (now + dur * 1000) (pd_inbox db)"
  have d: "distinct (map lr_id (pd_inbox db))" using inv by (simp add: inbox_inv_def)
  have step: "inbox_inv ?rows (pd_registry db)"
    unfolding acquire_rows_def
  proof (rule inbox_inv_rows [OF inv])
    show "row_local (acquired (inbox_owner token) (now + dur * 1000) r)"
      if r: "r \<in> set (pd_inbox db)" and k: "lr_id r \<in> ?ks" and loc: "row_local r" for r
    proof -
      have "lr_id r \<in> set (lease_candidates locked inbox_eligible limit now (pd_inbox db))"
        using k by (auto simp: inbox_batch_def Let_def)
      from candidate_row [OF d r this] have el: "inbox_eligible r" and lb: "leasable now r" by simp_all
      show ?thesis by (rule row_local_acquired [OF loc el lb])
    qed
  qed simp_all
  have idents: "idents ?rows = idents (pd_inbox db)" unfolding acquire_rows_def by (rule idents_update) simp
  have db': "db' = db \<or> db' = db\<lparr>pd_inbox := ?rows\<rparr>"
    using ok by (auto simp: leaseInbox_def Let_def split: if_splits)
  from db' show "inbox_inv (pd_inbox db') (pd_registry db')" by (elim disjE) (simp_all add: inv step)
  from db' show "idents (pd_inbox db') = idents (pd_inbox db)" by (elim disjE) (simp_all add: idents)
  from db' show "pd_outbox db' = pd_outbox db" "pd_nextOutboxId db' = pd_nextOutboxId db" "pd_deadLetters db' = pd_deadLetters db"
    by (elim disjE; simp)+
  show "issued_fits (pd_inbox db') l" if res: "res = Inr ls" and ret: "\<forall>xs. set (returning xs) = set xs" and l: "l \<in> set ls" for ls l
  proof -
    have db1: "db' = db\<lparr>pd_inbox := ?rows\<rparr>"
      and m: "map_results (mapLease (pd_registry db)) (returning (filter (\<lambda>r. lr_id r \<in> ?ks) ?rows)) = Inr ls"
      using ok res by (auto simp: leaseInbox_def Let_def split: if_splits)
    obtain r where "r \<in> set (returning (filter (\<lambda>r. lr_id r \<in> ?ks) ?rows))" "mapLease (pd_registry db) r = Inr l"
      using map_results_Inr [OF m l] by blast
    then show ?thesis using ret mapLease_fields(1,2) [of "pd_registry db" r l] by (auto simp: db1 issued_fits_def idents_def)
  qed
qed

lemma add_outbox_frame [simp]:
  "pd_inbox (add_outbox app now m db) = pd_inbox db" "pd_registry (add_outbox app now m db) = pd_registry db"
  "pd_deadLetters (add_outbox app now m db) = pd_deadLetters db"
  by (simp_all add: add_outbox_def)

lemma fold_add_outbox_frame [simp]:
  "pd_inbox (fold (add_outbox app now) ms db) = pd_inbox db" "pd_registry (fold (add_outbox app now) ms db) = pd_registry db"
  "pd_deadLetters (fold (add_outbox app now) ms db) = pd_deadLetters db"
  by (induction ms arbitrary: db) simp_all

lemma has_outbox_iff: "has_outbox app key xs \<longleftrightarrow> (app, key) \<in> ob_key ` set xs"
  by (auto simp: has_outbox_def find_unique_None ob_key_def image_iff)

lemma outbox_inv_snoc:
  "outbox_inv xs n \<Longrightarrow> lr_id x = n \<Longrightarrow> ob_key x \<notin> ob_key ` set xs \<Longrightarrow> outbox_inv (xs @ [x]) (n + 1)"
  by (fastforce simp: outbox_inv_def)

lemma add_outbox_inv:
  assumes "outbox_inv (pd_outbox db) (pd_nextOutboxId db)"
  shows "outbox_inv (pd_outbox (add_outbox app now m db)) (pd_nextOutboxId (add_outbox app now m db))"
proof (cases "has_outbox app (om_idempotencyKey m) (pd_outbox db)")
  case False
  let ?x = "new_outbox app (pd_nextOutboxId db) now m"
  have "lr_id ?x = pd_nextOutboxId db" "ob_key ?x = (app, om_idempotencyKey m)" by (simp_all add: new_outbox_def ob_key_def)
  then show ?thesis using False assms outbox_inv_snoc [OF assms, of ?x] by (simp add: add_outbox_def has_outbox_iff)
qed (use assms in \<open>simp add: add_outbox_def\<close>)

lemma fold_add_outbox_inv:
  "outbox_inv (pd_outbox db) (pd_nextOutboxId db) \<Longrightarrow>
   outbox_inv (pd_outbox (fold (add_outbox app now) ms db)) (pd_nextOutboxId (fold (add_outbox app now) ms db))"
  by (induction ms arbitrary: db) (simp_all add: add_outbox_inv)

lemma advance_deadLetters: "advance dur l stage now db = Inr (db', l') \<Longrightarrow> pd_deadLetters db' = pd_deadLetters db"
  by (erule advance_effect) simp

lemma commitOfficial_effect:
  assumes "commitOfficial env dur clock writer l context db = Inr (db', l', m)"
  obtains tables additional db1 cur base where
    "count_rows (fenced (il_id l) (il_leaseOwner l) (cc_lockedAt clock)) (pd_inbox db) = 1"
    "writer context db = Inr (tables, additional, m)"
    "advance dur l Stage_official_committed (cc_committedAt clock) (db\<lparr>pd_official := tables\<rparr>) = Inr (db1, cur)"
    "baseOutboxMessages env context (il_payloadHash l) db1 = Inr base"
    "advance dur cur Stage_outbox_created (cc_createdAt clock)
       (fold (add_outbox (pc_applicationId context) (cc_createdAt clock)) (base @ additional) db1) = Inr (db', l')"
  using assms by (auto simp: commitOfficial_def split: if_splits)

lemma commit_inv:
  assumes inv: "inbox_inv (pd_inbox db) (pd_registry db)" and out: "outbox_inv (pd_outbox db) (pd_nextOutboxId db)"
    and fits: "issued_fits (pd_inbox db) l" and ok: "commitOfficial env dur clock writer l context db = Inr (db', l', m)"
  shows "inbox_inv (pd_inbox db') (pd_registry db')" and "idents (pd_inbox db') = idents (pd_inbox db)"
    and "outbox_inv (pd_outbox db') (pd_nextOutboxId db')" and "issued_fits (pd_inbox db') l'"
    and "pd_deadLetters db' = pd_deadLetters db"
proof -
  obtain tables additional db1 cur base where
    a1: "advance dur l Stage_official_committed (cc_committedAt clock) (db\<lparr>pd_official := tables\<rparr>) = Inr (db1, cur)"
    and a2: "advance dur cur Stage_outbox_created (cc_createdAt clock)
       (fold (add_outbox (pc_applicationId context) (cc_createdAt clock)) (base @ additional) db1) = Inr (db', l')"
    by (rule commitOfficial_effect [OF ok]) (rule that)
  let ?db2 = "fold (add_outbox (pc_applicationId context) (cc_createdAt clock)) (base @ additional) db1"
  have one: "inbox_inv (pd_inbox db1) (pd_registry db1)" "issued_fits (pd_inbox db1) cur"
    "idents (pd_inbox db1) = idents (pd_inbox db)" "pd_outbox db1 = pd_outbox db" "pd_nextOutboxId db1 = pd_nextOutboxId db"
    using advance_inv [OF _ _ _ a1] inv fits by simp_all
  have out2: "outbox_inv (pd_outbox ?db2) (pd_nextOutboxId ?db2)"
    by (rule fold_add_outbox_inv) (use one(4,5) out in simp)
  have inv2: "inbox_inv (pd_inbox ?db2) (pd_registry ?db2)" and fits2: "issued_fits (pd_inbox ?db2) cur"
    using one by simp_all
  note two = advance_inv [OF inv2 fits2 _ a2]
  show "inbox_inv (pd_inbox db') (pd_registry db')" "issued_fits (pd_inbox db') l'"
    "outbox_inv (pd_outbox db') (pd_nextOutboxId db')" "idents (pd_inbox db') = idents (pd_inbox db)"
    using two out2 one(3) by simp_all
  show "pd_deadLetters db' = pd_deadLetters db"
    using advance_deadLetters [OF a1] advance_deadLetters [OF a2] by simp
qed

lemma resetInbox_inv:
  assumes inv: "inbox_inv (pd_inbox db) (pd_registry db)" and run: "uuid_pattern runId"
    and kind: "rp_replayType plan \<in> {''rerun_provider_cost'', ''rerun_aiu_observe''}"
    and ok: "resetInbox runId app plan now db = (db', n)"
  shows "inbox_inv (pd_inbox db') (pd_registry db')" and "idents (pd_inbox db') = idents (pd_inbox db)"
    and "pd_outbox db' = pd_outbox db" and "pd_nextOutboxId db' = pd_nextOutboxId db" and "pd_deadLetters db' = pd_deadLetters db"
proof -
  let ?g = "requeued runId (rp_replayType plan) now"
  have intent: "\<exists>i. parsePipelineReplayIntent (Some (intent_json runId (rp_replayType plan))) = Inr i"
    using run kind
    by (auto simp: parsePipelineReplayIntent_def intent_json_def Let_def string_member_def json_string_def exactKeys_def
      RECONCILIATION_REPLAY_ACTIONS_def)
  obtain p where i: "pd_inbox db' = update_rows p ?g (pd_inbox db)" and p: "\<And>r. p r \<Longrightarrow> ib_payloadJson r \<noteq> None"
    and rest: "pd_registry db' = pd_registry db" "pd_outbox db' = pd_outbox db" "pd_nextOutboxId db' = pd_nextOutboxId db"
      "pd_deadLetters db' = pd_deadLetters db"
    using ok by (auto simp: resetInbox_def Let_def)
  show "inbox_inv (pd_inbox db') (pd_registry db')"
    unfolding i rest
    by (rule inbox_inv_rows [OF inv])
      (use intent p in \<open>auto simp: row_local_def requeued_def reset_inbox_def mirrors_def split: option.splits\<close>)
  show "idents (pd_inbox db') = idents (pd_inbox db)" unfolding i by (rule idents_update) simp
  show "pd_outbox db' = pd_outbox db" "pd_nextOutboxId db' = pd_nextOutboxId db" "pd_deadLetters db' = pd_deadLetters db"
    using rest by simp_all
qed

lemma purgeBatch_inv:
  assumes inv: "inbox_inv (pd_inbox db) (pd_registry db)" and ok: "purgeBatch locked limit now db = Inr (db', es)"
  shows "inbox_inv (pd_inbox db') (pd_registry db')" and "idents (pd_inbox db') = idents (pd_inbox db)"
    and "pd_outbox db' = pd_outbox db" and "pd_nextOutboxId db' = pd_nextOutboxId db" and "pd_deadLetters db' = pd_deadLetters db"
proof -
  let ?ks = "set (purge_candidates locked limit now db)" and ?g = "\<lambda>r. r\<lparr>ib_payloadJson := None, ib_payloadPurgedAt := Some now\<rparr>"
  have db': "pd_inbox db' = update_rows (\<lambda>r. lr_id r \<in> ?ks) ?g (pd_inbox db)" "pd_registry db' = pd_registry db"
    "pd_outbox db' = pd_outbox db" "pd_nextOutboxId db' = pd_nextOutboxId db" "pd_deadLetters db' = pd_deadLetters db"
    using ok by (auto simp: purgeBatch_def Let_def split: if_splits)
  have d: "distinct (map lr_id (pd_inbox db))" using inv by (simp add: inbox_inv_def)
  have completed: "lr_status r = Completed" if r: "r \<in> set (pd_inbox db)" and k: "lr_id r \<in> ?ks" for r
  proof -
    obtain r' where "r' \<in> set (pd_inbox db)" "purgeable now db r'" "lr_id r' = lr_id r"
      using k by (auto simp: purge_candidates_def dest!: in_set_takeD)
    moreover from this have "r' = r" using distinct_map_inj [OF d _ r] by blast
    ultimately show ?thesis by (simp add: purgeable_def)
  qed
  show "inbox_inv (pd_inbox db') (pd_registry db')"
    unfolding db' by (rule inbox_inv_rows [OF inv]) (use completed in \<open>auto simp: row_local_def mirrors_def\<close>)
  show "idents (pd_inbox db') = idents (pd_inbox db)" unfolding db' by (rule idents_update) simp
  show "pd_outbox db' = pd_outbox db" "pd_nextOutboxId db' = pd_nextOutboxId db" "pd_deadLetters db' = pd_deadLetters db"
    using db' by simp_all
qed

subsection \<open>Preservation: ingestion, replays, delivery\<close>

lemma dead_fits_mono: "idents rs \<subseteq> idents rs' \<Longrightarrow> dead_fits rs d \<Longrightarrow> dead_fits rs' d"
  by (auto simp: dead_fits_def split: option.splits)

lemma issued_fits_mono: "idents rs \<subseteq> idents rs' \<Longrightarrow> issued_fits rs l \<Longrightarrow> issued_fits rs' l"
  by (auto simp: issued_fits_def)

lemma dead_fits_status [simp]:
  "dead_fits rs (d\<lparr>dl_status := st, dl_resolution := x, dl_resolvedAt := y, dl_nextRetryAt := z\<rparr>) = dead_fits rs d"
  "dead_fits rs (d\<lparr>dl_status := st, dl_replayCount := n, dl_nextRetryAt := z\<rparr>) = dead_fits rs d"
  by (simp_all add: dead_fits_def cong: option.case_cong)

lemma resolve_queued_fits:
  "\<forall>d \<in> set ds. dead_fits rs d \<Longrightarrow> \<forall>d \<in> set (resolve_queued k text now ds). dead_fits rs d"
  by (auto simp: resolve_queued_def set_update_rows)

lemma db_invI:
  assumes "db_inv db" and "inbox_inv (pd_inbox db') (pd_registry db')" and "outbox_inv (pd_outbox db') (pd_nextOutboxId db')"
    and "idents (pd_inbox db) \<subseteq> idents (pd_inbox db')"
    and "\<forall>d \<in> set (pd_deadLetters db'). d \<in> set (pd_deadLetters db) \<or> dead_fits (pd_inbox db) d"
  shows "db_inv db' \<and> idents (pd_inbox db) \<subseteq> idents (pd_inbox db')"
  using assms dead_fits_mono [OF assms(4)] by (auto simp: db_inv_def)

lemma outbox_inv_update:
  assumes "\<And>x. lr_id (g x) = lr_id x" and "\<And>x. ob_key (g x) = ob_key x" and "outbox_inv xs n"
  shows "outbox_inv (update_rows p g xs) n"
proof -
  have "map lr_id (update_rows p g xs) = map lr_id xs" "map ob_key (update_rows p g xs) = map ob_key xs"
    using assms(1,2) by (auto intro!: map_update_rows_frame)
  moreover have "lr_id x < n" if "x \<in> set (update_rows p g xs)" for x
    using that assms(1,3) by (auto simp: set_update_rows outbox_inv_def)
  ultimately show ?thesis using assms(3) by (simp add: outbox_inv_def)
qed

lemma inbox_inv_registry:
  assumes "inbox_inv rs gs" and "keeps_registry h" and "\<And>g. rg_processingStage (h g) = rg_processingStage g"
  shows "inbox_inv rs (update_rows p h gs)"
proof -
  have "inbox_inv (update_rows (\<lambda>_. False) id rs) (update_rows p h gs)"
    by (rule inbox_inv_update [OF assms(1) _ assms(2)]) (auto simp: keeps_row_def mirrors_def assms(3))
  then show ?thesis by (simp add: update_rows_none)
qed

lemma inbox_inv_snoc:
  assumes inv: "inbox_inv rs gs" and r: "row_local r" "lr_id r \<notin> lr_id ` set rs" and x: "rg_key x = ib_key r" "mirrors r x"
    and new: "rg_key x \<notin> rg_key ` set gs"
  shows "inbox_inv (rs @ [r]) (gs @ [x])"
proof -
  have "ib_key r \<notin> ib_key ` set rs"
  proof
    assume "ib_key r \<in> ib_key ` set rs"
    then obtain r0 g where "r0 \<in> set rs" "ib_key r = ib_key r0" "g \<in> set gs" "rg_key g = ib_key r0"
      using inv by (auto simp: inbox_inv_def)
    then show False using new x(1) by (metis image_eqI)
  qed
  then show ?thesis using assms by (fastforce simp: inbox_inv_def)
qed

lemma registry_of_None:
  "registry_of app e gs = None \<longleftrightarrow> (app, e) \<notin> rg_key ` set gs"
  by (auto simp: registry_of_def find_unique_None rg_key_def image_iff)

lemma validated_object:
  assumes "validateEvent env opts i candidate definitions = Inr v"
  shows "\<exists>ms. ve_event v = JObj ms"
  using assms by (auto simp: validateEvent_def usageEventSchema_def z_object_def split: if_splits option.splits json.splits)

lemma row_local_new: "\<exists>ms. j = JObj ms \<Longrightarrow> row_local (new_inbox k app e j now)"
  by (auto simp: row_local_def new_inbox_def parsePipelineReplayIntent_def)

lemma insert_event_frame:
  assumes "insert_event env cat w app inp db = Inr db'"
  shows "pd_outbox db' = pd_outbox db" "pd_nextOutboxId db' = pd_nextOutboxId db" "pd_deadLetters db' = pd_deadLetters db"
    "pv_inboxId w \<notin> lr_id ` set (pd_inbox db)"
proof -
  obtain db1 u where u: "upsert_profile app (pv_userId w) (ve_event inp)
      (date_ms env (event_text (ve_event inp) ''event_time'')) (pv_now w) db = (db1, u)" by (rule prod.exhaust)
  note frame = upsert_profile_frame [OF u]
  have "pd_outbox db1 = pd_outbox db" "pd_nextOutboxId db1 = pd_nextOutboxId db" "pd_deadLetters db1 = pd_deadLetters db"
    using u by (auto simp: upsert_profile_def Let_def split: option.splits)
  then show "pd_outbox db' = pd_outbox db" "pd_nextOutboxId db' = pd_nextOutboxId db" "pd_deadLetters db' = pd_deadLetters db"
    "pv_inboxId w \<notin> lr_id ` set (pd_inbox db)"
    using assms frame by (auto simp: insert_event_def u Let_def list_ex_iff new_inbox_def split: if_splits)
qed

lemma insert_event_inv:
  assumes inv: "db_inv db" and obj: "\<exists>ms. ve_event inp = JObj ms" and ok: "insert_event env cat w app inp db = Inr db'"
  shows "db_inv db' \<and> idents (pd_inbox db) \<subseteq> idents (pd_inbox db')"
proof (rule db_invI [OF inv])
  let ?e = "event_text (ve_event inp) ''event_id''"
  let ?r = "new_inbox (pv_inboxId w) app ?e (ve_event inp) (pv_now w)"
  obtain u where g: "pd_registry db' = pd_registry db @ [registry_row env cat app inp u]"
    using insert_event_registry(1) [OF ok] by (elim exE)
  note i = insert_event_registry(3) [OF ok] and new = insert_event_registry(2) [OF ok] and frame = insert_event_frame [OF ok]
  let ?x = "registry_row env cat app inp u"
  have key: "rg_key ?x = (app, ?e)" "ib_key ?r = (app, ?e)" by (simp_all add: rg_key_def ib_key_def new_inbox_def)
  have m: "mirrors ?r ?x" by (simp add: mirrors_def new_inbox_def registry_row_def Let_def)
  have fresh: "lr_id ?r \<notin> lr_id ` set (pd_inbox db)" using frame(4) by (simp add: new_inbox_def)
  have absent: "rg_key ?x \<notin> rg_key ` set (pd_registry db)" using new by (simp add: registry_of_None key)
  have old: "inbox_inv (pd_inbox db) (pd_registry db)" using inv by (simp add: db_inv_def)
  show "inbox_inv (pd_inbox db') (pd_registry db')"
    unfolding g i by (rule inbox_inv_snoc [OF old row_local_new [OF obj] fresh _ m absent]) (simp add: key)
  show "outbox_inv (pd_outbox db') (pd_nextOutboxId db')" using inv frame by (simp add: db_inv_def)
  show "idents (pd_inbox db) \<subseteq> idents (pd_inbox db')" by (auto simp: i idents_def)
  show "\<forall>d \<in> set (pd_deadLetters db'). d \<in> set (pd_deadLetters db) \<or> dead_fits (pd_inbox db) d" using frame by simp
qed

lemma persistEvent_inv:
  assumes inv: "db_inv db" and obj: "\<exists>ms. ve_event inp = JObj ms" and ok: "persistEvent env cat w id app inp db = (db', r)"
  shows "db_inv db' \<and> idents (pd_inbox db) \<subseteq> idents (pd_inbox db')"
proof -
  have "db' = db \<or> insert_event env cat w app inp db = Inr db'"
    using ok by (auto simp: persistEvent_def Let_def split: option.splits sum.splits if_splits)
  then show ?thesis
  proof
    assume "db' = db" then show ?thesis using inv by simp
  next
    assume "insert_event env cat w app inp db = Inr db'" then show ?thesis by (rule insert_event_inv [OF inv obj])
  qed
qed

lemma db_inv_frame:
  assumes "db_inv db" and "inbox_inv (pd_inbox db') (pd_registry db')" and "idents (pd_inbox db') = idents (pd_inbox db)"
    and "pd_outbox db' = pd_outbox db" and "pd_nextOutboxId db' = pd_nextOutboxId db" and "pd_deadLetters db' = pd_deadLetters db"
  shows "db_inv db' \<and> idents (pd_inbox db) \<subseteq> idents (pd_inbox db')"
  by (rule db_invI [OF assms(1,2)]) (use assms in \<open>simp_all add: db_inv_def\<close>)

text \<open>Replaying a dead letter: its inbox row and its registry row start again together.\<close>

lemma row_local_reset:
  "row_local r \<Longrightarrow> ib_payloadJson r \<noteq> None \<Longrightarrow> row_local (reset_inbox now r)"
  by (auto simp: row_local_def reset_inbox_def)

lemma replay_effect:
  assumes "replay env application request now db = Inr (db', outcome)" and "db' \<noteq> db"
  obtains d r where "d \<in> set (pd_deadLetters db)" "dl_inboxId d = Some (lr_id r)" "r \<in> set (pd_inbox db)"
    "ib_applicationId r = dl_applicationId d" "ib_payloadJson r \<noteq> None"
    "pd_inbox db' = update_rows (\<lambda>x. lr_id x = lr_id r) (reset_inbox now) (pd_inbox db)"
    "\<And>e. dl_eventId d = Some e \<Longrightarrow> pd_registry db' = update_rows (\<lambda>x. rg_eventId x = e \<and> rg_applicationId x = ib_applicationId r)
       (\<lambda>g. g\<lparr>rg_processingStage := Stage_received, rg_lastError := None\<rparr>) (pd_registry db)"
    "pd_outbox db' = pd_outbox db" "pd_nextOutboxId db' = pd_nextOutboxId db"
    "pd_deadLetters db' = update_rows (\<lambda>x. dl_id x = dl_id d)
       (\<lambda>x. x\<lparr>dl_status := Dlq_replay_queued, dl_replayCount := dl_replayCount x + 1, dl_nextRetryAt := Some now\<rparr>)
       (pd_deadLetters db)"
    "pd_sync db' = pd_sync db"
proof -
  obtain app d where app: "application = Some app"
    and d: "find_unique (\<lambda>d. dl_id d = event_text request ''dead_letter_id'' \<and> dl_applicationId d = app) (pd_deadLetters db) = Some d"
    using assms by (auto simp: replay_def split: if_splits option.splits)
  obtain r k where k: "dl_inboxId d = Some k"
    and r: "find_unique (\<lambda>r. lr_id r = k \<and> ib_applicationId r = dl_applicationId d) (pd_inbox db) = Some r"
    using assms d by (auto simp: replay_def app Let_def split: if_splits option.splits)
  note found = find_unique_SomeD [OF d] find_unique_SomeD [OF r]
  let ?db1 = "db\<lparr>pd_deadLetters := update_rows (\<lambda>x. dl_id x = dl_id d)
       (\<lambda>x. x\<lparr>dl_status := Dlq_replay_queued, dl_replayCount := dl_replayCount x + 1, dl_nextRetryAt := Some now\<rparr>) (pd_deadLetters db),
     pd_inbox := update_rows (\<lambda>x. lr_id x = lr_id r) (reset_inbox now) (pd_inbox db),
     pd_audit := pd_audit db @ [(''dead_letter.replay.queued'', dl_id d)]\<rparr>"
  have payload: "ib_payloadJson r \<noteq> None"
    using assms by (auto simp: replay_def app d k r Let_def split: if_splits)
  have none: "db' = ?db1" if "dl_eventId d = None"
    using assms that by (auto simp: replay_def app d k r Let_def split: if_splits)
  have some: "db' = set_registry (ib_applicationId r) e (\<lambda>g. g\<lparr>rg_processingStage := Stage_received, rg_lastError := None\<rparr>) ?db1"
    if "dl_eventId d = Some e" for e
    using assms that by (auto simp: replay_def app d k r Let_def split: if_splits)
  have frame: "pd_inbox db' = pd_inbox ?db1" "pd_deadLetters db' = pd_deadLetters ?db1"
    "pd_outbox db' = pd_outbox db" "pd_nextOutboxId db' = pd_nextOutboxId db" "pd_sync db' = pd_sync db"
    using none some by (cases "dl_eventId d"; simp)+
  show thesis
    by (rule that [of d r]) (use found k payload frame in simp_all, use some in simp)
qed

lemma replay_inv:
  assumes inv: "db_inv db" and ok: "replay env application request now db = Inr (db', outcome)"
  shows "db_inv db' \<and> idents (pd_inbox db) \<subseteq> idents (pd_inbox db')"
proof (cases "db' = db")
  case False
  obtain d r where d: "d \<in> set (pd_deadLetters db)" "dl_inboxId d = Some (lr_id r)" and r: "r \<in> set (pd_inbox db)"
    "ib_applicationId r = dl_applicationId d" "ib_payloadJson r \<noteq> None"
    and i: "pd_inbox db' = update_rows (\<lambda>x. lr_id x = lr_id r) (reset_inbox now) (pd_inbox db)"
    and g: "\<And>e. dl_eventId d = Some e \<Longrightarrow> pd_registry db' = update_rows (\<lambda>x. rg_eventId x = e \<and> rg_applicationId x = ib_applicationId r)
       (\<lambda>g. g\<lparr>rg_processingStage := Stage_received, rg_lastError := None\<rparr>) (pd_registry db)"
    and o: "pd_outbox db' = pd_outbox db" "pd_nextOutboxId db' = pd_nextOutboxId db"
    and ds: "pd_deadLetters db' = update_rows (\<lambda>x. dl_id x = dl_id d)
       (\<lambda>x. x\<lparr>dl_status := Dlq_replay_queued, dl_replayCount := dl_replayCount x + 1, dl_nextRetryAt := Some now\<rparr>) (pd_deadLetters db)"
    by (rule replay_effect [OF ok False]) (rule that)
  have box: "inbox_inv (pd_inbox db) (pd_registry db)" using inv by (simp add: db_inv_def)
  then have ids: "distinct (map lr_id (pd_inbox db))" and keys: "distinct (map ib_key (pd_inbox db))" by (simp_all add: inbox_inv_def)
  obtain e r' where e: "dl_eventId d = Some e" and r': "r' \<in> set (pd_inbox db)" "lr_id r' = lr_id r" "ib_key r' = (dl_applicationId d, e)"
  proof -
    have "dead_fits (pd_inbox db) d" using inv d(1) by (simp add: db_inv_def)
    then have "\<exists>e. dl_eventId d = Some e \<and> (lr_id r, dl_applicationId d, e) \<in> idents (pd_inbox db)"
      by (simp add: dead_fits_def d(2) split: option.splits)
    then obtain e where "dl_eventId d = Some e" "(lr_id r, dl_applicationId d, e) \<in> idents (pd_inbox db)" by (elim exE conjE)
    then show thesis using that by (auto simp: idents_def)
  qed
  have "r' = r" by (rule distinct_map_inj [OF ids r'(1) r(1) r'(2)])
  then have key: "ib_key r = (ib_applicationId r, e)" using r'(3) r(2) by simp
  have reg: "pd_registry db' = update_rows (\<lambda>x. rg_eventId x = e \<and> rg_applicationId x = ib_applicationId r)
       (\<lambda>g. g\<lparr>rg_processingStage := Stage_received, rg_lastError := None\<rparr>) (pd_registry db)" by (rule g [OF e])
  have "inbox_inv (pd_inbox db') (pd_registry db')"
    unfolding i reg
  proof (rule inbox_inv_update [OF box])
    show "row_local (reset_inbox now x)" if "x \<in> set (pd_inbox db)" "lr_id x = lr_id r" "row_local x" for x
      using that distinct_map_inj [OF ids that(1) r(1) that(2)] r(3) by (simp add: row_local_reset)
    show "mirrors (if lr_id x = lr_id r then reset_inbox now x else x)
       (if rg_eventId y = e \<and> rg_applicationId y = ib_applicationId r
        then y\<lparr>rg_processingStage := Stage_received, rg_lastError := None\<rparr> else y)"
      if "x \<in> set (pd_inbox db)" "y \<in> set (pd_registry db)" "rg_key y = ib_key x" "mirrors x y" for x y
    proof -
      have "lr_id x = lr_id r \<longleftrightarrow> ib_key x = ib_key r"
        using distinct_map_inj [OF ids that(1) r(1)] distinct_map_inj [OF keys that(1) r(1)] by (intro iffI) simp_all
      then have "lr_id x = lr_id r \<longleftrightarrow> rg_eventId y = e \<and> rg_applicationId y = ib_applicationId r"
        using that(3) key by (auto simp: rg_key_def)
      then show ?thesis using that(4) by (auto simp: mirrors_def reset_inbox_def)
    qed
  qed simp_all
  moreover have "idents (pd_inbox db') = idents (pd_inbox db)" unfolding i by (rule idents_update) simp
  moreover have "outbox_inv (pd_outbox db') (pd_nextOutboxId db')" using inv o by (simp add: db_inv_def)
  moreover have "\<forall>x \<in> set (pd_deadLetters db'). x \<in> set (pd_deadLetters db) \<or> dead_fits (pd_inbox db) x"
    using inv by (auto simp: ds set_update_rows db_inv_def)
  ultimately show ?thesis by (intro db_invI [OF inv]) simp_all
qed (use inv in simp)

lemma add_replay_inv:
  assumes "outbox_inv (pd_outbox db) (pd_nextOutboxId db)" and "add_replay runId now r (db, n) = (db', n')"
  shows "outbox_inv (pd_outbox db') (pd_nextOutboxId db') \<and> pd_inbox db' = pd_inbox db \<and>
    pd_registry db' = pd_registry db \<and> pd_deadLetters db' = pd_deadLetters db"
proof (cases "n' = n")
  case True
  then show ?thesis using assms by (auto simp: add_replay_def Let_def split: if_splits)
next
  case False
  let ?x = "replayed_outbox runId (pd_nextOutboxId db) now r"
  have no: "\<not> has_outbox (ob_applicationId ?x) (ob_idempotencyKey ?x) (pd_outbox db)"
    and db': "db' = db\<lparr>pd_outbox := pd_outbox db @ [?x], pd_nextOutboxId := pd_nextOutboxId db + 1\<rparr>"
    using assms(2) False by (auto simp: add_replay_def Let_def split: if_splits)
  have "lr_id ?x = pd_nextOutboxId db" by (simp add: replayed_outbox_def)
  moreover have "ob_key ?x \<notin> ob_key ` set (pd_outbox db)" using no by (simp add: has_outbox_iff ob_key_def)
  ultimately show ?thesis using outbox_inv_snoc [OF assms(1)] by (simp add: db')
qed

lemma fold_add_replay_inv:
  "outbox_inv (pd_outbox db) (pd_nextOutboxId db) \<Longrightarrow> fold (add_replay runId now) rs (db, n) = (db', n') \<Longrightarrow>
   outbox_inv (pd_outbox db') (pd_nextOutboxId db') \<and> pd_inbox db' = pd_inbox db \<and>
   pd_registry db' = pd_registry db \<and> pd_deadLetters db' = pd_deadLetters db"
proof (induction rs arbitrary: db n)
  case (Cons r rs)
  obtain db1 n1 where one: "add_replay runId now r (db, n) = (db1, n1)" by (rule prod.exhaust)
  note first = add_replay_inv [OF Cons.prems(1) one]
  have "fold (add_replay runId now) rs (db1, n1) = (db', n')" using Cons.prems(2) by (simp add: one)
  from Cons.IH [OF conjunct1 [OF first] this] show ?case using first by simp
qed simp

lemma applyReplay_inv:
  assumes inv: "db_inv db" and run: "uuid_pattern runId" and ok: "applyReplay tz runId app plan now db = (db', effect)"
  shows "db_inv db' \<and> idents (pd_inbox db) \<subseteq> idents (pd_inbox db')"
proof -
  have box: "inbox_inv (pd_inbox db) (pd_registry db)" and out: "outbox_inv (pd_outbox db) (pd_nextOutboxId db)"
    using inv by (simp_all add: db_inv_def)
  consider (o) n where "resetOutbox tz runId app plan now db = (db', n)"
    | (i) n where "resetInbox runId app plan now db = (db', n)" "rp_replayType plan \<in> {''rerun_provider_cost'', ''rerun_aiu_observe''}"
    | (q) "db' = db"
    using ok by (cases "resetOutbox tz runId app plan now db"; cases "resetInbox runId app plan now db")
      (auto simp: applyReplay_def split: if_splits)
  then show ?thesis
  proof cases
    case o
    note f = fold_add_replay_inv [OF out o [unfolded resetOutbox_def]]
    show ?thesis by (rule db_invI [OF inv]) (use f box in simp_all)
  next
    case i
    note f = resetInbox_inv [OF box run i(2) i(1)]
    show ?thesis by (rule db_inv_frame [OF inv f])
  qed (use inv in simp)
qed

text \<open>The delivery side writes outbox rows, synchronization times and the watermark only.\<close>

lemma mark_raw_frame [simp]:
  "pd_inbox (mark_raw t l db) = pd_inbox db" "pd_outbox (mark_raw t l db) = pd_outbox db"
  "pd_nextOutboxId (mark_raw t l db) = pd_nextOutboxId db" "pd_deadLetters (mark_raw t l db) = pd_deadLetters db"
  by (simp_all add: mark_raw_def)

lemma mark_official_frame [simp]:
  "pd_inbox (mark_official t l db) = pd_inbox db" "pd_outbox (mark_official t l db) = pd_outbox db"
  "pd_nextOutboxId (mark_official t l db) = pd_nextOutboxId db" "pd_deadLetters (mark_official t l db) = pd_deadLetters db"
  by (simp_all add: mark_official_def split: option.splits)

lemma db_inv_registry:
  assumes "db_inv db" and "keeps_registry h" and "\<And>g. rg_processingStage (h g) = rg_processingStage g"
  shows "db_inv (set_registry app e h db)"
  using assms inbox_inv_registry [OF _ assms(2,3)] by (simp add: db_inv_def)

lemma mark_raw_inv: "db_inv db \<Longrightarrow> db_inv (mark_raw t l db)"
  unfolding mark_raw_def by (cases "ol_eventType l = ''usage_events_raw''") (auto intro: db_inv_registry)

lemma mark_official_inv: "db_inv db \<Longrightarrow> db_inv (mark_official t l db)"
  by (auto simp: mark_official_def intro: db_inv_registry split: option.splits)

lemma fold_mark_official_inv:
  "db_inv db \<Longrightarrow> db_inv (fold (mark_official t) ls db) \<and> pd_inbox (fold (mark_official t) ls db) = pd_inbox db"
  by (induction ls arbitrary: db) (simp_all add: mark_official_inv)

lemma fenced_outbox_inv:
  assumes "db_inv db" and "fenced_write k w now g (pd_outbox db) = Some rows"
    and "\<And>x. lr_id (g x) = lr_id x" and "\<And>x. ob_key (g x) = ob_key x"
  shows "db_inv (db\<lparr>pd_outbox := rows\<rparr>)"
  using assms(1) outbox_inv_update [OF assms(3,4)] by (simp add: db_inv_def fenced_write_eq [OF assms(2)])

lemma sent_row_keeps [simp]: "lr_id (sent_row t x) = lr_id x" "ob_key (sent_row t x) = ob_key x"
  by (simp_all add: sent_row_def ob_key_def)

lemma mark_sent_inv:
  "db_inv db \<Longrightarrow> mark_sent t clock ls db = Inr db' \<Longrightarrow> db_inv db' \<and> pd_inbox db' = pd_inbox db"
proof (induction ls arbitrary: db)
  case (Cons l ls)
  obtain rows where w: "fenced_write (ol_id l) (ol_leaseOwner l) (clock (ol_id l)) (sent_row t) (pd_outbox db) = Some rows"
    and rest: "mark_sent t clock ls (mark_raw t l (db\<lparr>pd_outbox := rows\<rparr>)) = Inr db'"
    using Cons.prems(2) by (auto split: option.splits)
  have "db_inv (mark_raw t l (db\<lparr>pd_outbox := rows\<rparr>))"
    by (rule mark_raw_inv, rule fenced_outbox_inv [OF Cons.prems(1) w]) simp_all
  from Cons.IH [OF this rest] show ?case by simp
qed simp

lemma markDelivered_inv:
  assumes inv: "db_inv db" and ok: "markDelivered name t clock ls result db = Inr db'"
  shows "db_inv db' \<and> idents (pd_inbox db) \<subseteq> idents (pd_inbox db')"
proof -
  obtain db1 ss where m: "mark_sent t clock ls db = Inr db1"
    and db': "db' = (fold (mark_official t) ls db1)\<lparr>pd_sync := ss\<rparr>"
    using ok by (auto simp: markDelivered_def Let_def split: if_splits)
  note one = mark_sent_inv [OF inv m]
  note two = fold_mark_official_inv [OF conjunct1 [OF one], of t ls]
  have "db_inv db'" using conjunct1 [OF two] by (simp add: db' db_inv_def)
  then show ?thesis using one two by (simp add: db')
qed

lemma leaseOutbox_inv:
  assumes inv: "db_inv db" and ok: "leaseOutbox returning locked dur token types limit now db = Inr (db', ols)"
  shows "db_inv db' \<and> idents (pd_inbox db) \<subseteq> idents (pd_inbox db')"
proof -
  let ?rows = "acquire_rows (outbox_batch types locked limit now db) (outbox_owner token) (now + dur * 1000) (pd_outbox db)"
  have "db' = db \<or> db' = db\<lparr>pd_outbox := ?rows\<rparr>"
    using ok by (auto simp: leaseOutbox_def Let_def split: if_splits)
  then show ?thesis
  proof
    assume db': "db' = db\<lparr>pd_outbox := ?rows\<rparr>"
    have "outbox_inv ?rows (pd_nextOutboxId db)"
      unfolding acquire_rows_def by (rule outbox_inv_update) (use inv in \<open>simp_all add: db_inv_def acquired_def ob_key_def\<close>)
    then show ?thesis using inv by (simp add: db' db_inv_def)
  qed (use inv in simp)
qed

lemma outbox_failure_inv:
  assumes inv: "db_inv db"
  shows "outbox_retry_row l failure t now db = Inr db' \<Longrightarrow> db_inv db' \<and> idents (pd_inbox db) \<subseteq> idents (pd_inbox db')"
    and "outbox_dead_row newId l failure now db = Inr db' \<Longrightarrow> db_inv db' \<and> idents (pd_inbox db) \<subseteq> idents (pd_inbox db')"
proof -
  assume "outbox_retry_row l failure t now db = Inr db'"
  then obtain rows where w: "fenced_write (ol_id l) (ol_leaseOwner l) now
      (\<lambda>r. r\<lparr>lr_status := Failed, lr_availableAt := t, lr_nextRetryAt := Some t, lr_lastError := Some (outbox_error_text failure)\<rparr>)
      (pd_outbox db) = Some rows" and db': "db' = db\<lparr>pd_outbox := rows\<rparr>"
    by (auto simp: outbox_retry_row_def split: option.splits)
  have "db_inv (db\<lparr>pd_outbox := rows\<rparr>)" by (rule fenced_outbox_inv [OF inv w]) (simp_all add: ob_key_def)
  then show "db_inv db' \<and> idents (pd_inbox db) \<subseteq> idents (pd_inbox db')" by (simp add: db')
next
  assume "outbox_dead_row newId l failure now db = Inr db'"
  then obtain rows where w: "fenced_write (ol_id l) (ol_leaseOwner l) now
      (\<lambda>r. r\<lparr>lr_status := DeadLetter, lr_nextRetryAt := None, lr_lastError := Some (outbox_error_text failure)\<rparr>)
      (pd_outbox db) = Some rows"
    and db': "db' = db\<lparr>pd_outbox := rows, pd_deadLetters := pd_deadLetters db @ [outbox_dead_letter newId l failure]\<rparr>"
    by (auto simp: outbox_dead_row_def split: option.splits)
  have "db_inv (db\<lparr>pd_outbox := rows\<rparr>)" by (rule fenced_outbox_inv [OF inv w]) (simp_all add: ob_key_def)
  moreover have "dead_fits (pd_inbox db) (outbox_dead_letter newId l failure)" by (simp add: outbox_dead_letter_def dead_fits_def)
  ultimately show "db_inv db' \<and> idents (pd_inbox db) \<subseteq> idents (pd_inbox db')" by (auto simp: db' db_inv_def)
qed

lemma markSyncFailure_inv: "db_inv db \<Longrightarrow> db_inv (markSyncFailure name failure terminal db) \<and>
    idents (pd_inbox db) \<subseteq> idents (pd_inbox (markSyncFailure name failure terminal db))"
  by (simp add: markSyncFailure_def db_inv_def Let_def)

subsection \<open>Every reachable state satisfies the invariant\<close>

lemma complete_deadLetters:
  "complete ttl l now db = Inr db' \<Longrightarrow>
   pd_deadLetters db' = resolve_queued (il_id l) ''Canonical replay completed successfully'' now (pd_deadLetters db)"
  by (auto simp: complete_def Let_def split: list.splits)

lemma deadLetter_deadLetters:
  "deadLetter newId l failure now db = Inr db' \<Longrightarrow>
   pd_deadLetters db' = resolve_queued (il_id l) ''Replay failed and was superseded by a new dead-letter event'' now
     (pd_deadLetters db) @ [inbox_dead_letter newId l failure]"
  by (auto simp: deadLetter_def Let_def split: option.splits)

lemma inbox_dead_letter_fits: "issued_fits rs l \<Longrightarrow> dead_fits rs (inbox_dead_letter newId l failure)"
  by (simp add: inbox_dead_letter_def dead_fits_def issued_fits_def il_key_def)

lemma complete_db:
  assumes inv: "db_inv db" and fits: "issued_fits (pd_inbox db) l" and ok: "complete ttl l now db = Inr db'"
  shows "db_inv db' \<and> idents (pd_inbox db) \<subseteq> idents (pd_inbox db')"
proof -
  have box: "inbox_inv (pd_inbox db) (pd_registry db)" using inv by (simp add: db_inv_def)
  note c = complete_inv [OF box fits ok]
  show ?thesis
  proof (rule db_invI [OF inv c(1)])
    show "\<forall>d \<in> set (pd_deadLetters db'). d \<in> set (pd_deadLetters db) \<or> dead_fits (pd_inbox db) d"
      using resolve_queued_fits [of "pd_deadLetters db" "pd_inbox db"] inv by (simp add: complete_deadLetters [OF ok] db_inv_def)
  qed (use c inv in \<open>simp_all add: db_inv_def\<close>)
qed

lemma deadLetter_db:
  assumes inv: "db_inv db" and fits: "issued_fits (pd_inbox db) l" and ok: "deadLetter newId l failure now db = Inr db'"
  shows "db_inv db' \<and> idents (pd_inbox db) \<subseteq> idents (pd_inbox db')"
proof -
  have box: "inbox_inv (pd_inbox db) (pd_registry db)" using inv by (simp add: db_inv_def)
  note c = deadLetter_inv [OF box fits ok]
  show ?thesis
  proof (rule db_invI [OF inv c(1)])
    show "\<forall>d \<in> set (pd_deadLetters db'). d \<in> set (pd_deadLetters db) \<or> dead_fits (pd_inbox db) d"
      using resolve_queued_fits [of "pd_deadLetters db" "pd_inbox db"] inv inbox_dead_letter_fits [OF fits]
      by (simp add: deadLetter_deadLetters [OF ok] db_inv_def)
  qed (use c inv in \<open>simp_all add: db_inv_def\<close>)
qed

lemma pipe_invI:
  assumes "\<forall>l \<in> set (sys_issued s). issued_fits (pd_inbox (sys_db s)) l" and "db_inv db' \<and> idents (pd_inbox (sys_db s)) \<subseteq> idents (pd_inbox db')"
    and "\<forall>l \<in> set ls. issued_fits (pd_inbox db') l" and "sys_db s' = db'" and "sys_issued s' = sys_issued s @ ls"
  shows "pipe_inv s'"
  using assms issued_fits_mono [OF conjunct2 [OF assms(2)]] by (auto simp: pipe_inv_def db_inv_def)

lemma pipe_act_inv:
  assumes step: "pipe_act s a s'" and inv: "pipe_inv s"
  shows "pipe_inv s'"
proof -
  have db: "db_inv (sys_db s)" and fit: "\<forall>l \<in> set (sys_issued s). issued_fits (pd_inbox (sys_db s)) l"
    and box: "inbox_inv (pd_inbox (sys_db s)) (pd_registry (sys_db s))"
    and out: "outbox_inv (pd_outbox (sys_db s)) (pd_nextOutboxId (sys_db s))"
    using inv by (simp_all add: pipe_inv_def db_inv_def)
  from step show ?thesis
  proof cases
    case (ingest env opts i candidate definitions v cat w app db' r)
    show ?thesis by (rule pipe_invI [OF fit persistEvent_inv [OF db validated_object [OF ingest(3)] ingest(4)], of "[]"]) (simp_all add: ingest(2))
  next
    case (lease returning locked dur token limit now db' ls)
    note c = leaseInbox_inv [OF box lease(3)]
    show ?thesis by (rule pipe_invI [OF fit db_inv_frame [OF db c(1-5)], of ls]) (use c(6) lease in auto)
  next
    case (checkpoint l stage dur now db' l')
    have st: "stage \<notin> {Stage_completed, Stage_dead_letter}" using checkpoint(4) by (auto simp: checkpoint_stages_def)
    have l: "issued_fits (pd_inbox (sys_db s)) l" using fit checkpoint(3) by simp
    have a: "advance dur l stage now (sys_db s) = Inr (db', l')" using checkpoint(5) by (simp add: checkpoint_def)
    note c = advance_inv [OF box l st a]
    show ?thesis
      by (rule pipe_invI [OF fit db_inv_frame [OF db c(1,3-5) advance_deadLetters [OF a]], of "[l']"]) (use c(2) checkpoint(2) in simp_all)
  next
    case (commit l env dur clock we cx db' l' m)
    have l: "issued_fits (pd_inbox (sys_db s)) l" using fit commit(3) by simp
    note c = commit_inv [OF box out l commit(4)]
    have "db_inv db' \<and> idents (pd_inbox (sys_db s)) \<subseteq> idents (pd_inbox db')"
      by (rule db_invI [OF db c(1,3)]) (use c in simp_all)
    then show ?thesis by (rule pipe_invI [OF fit, of _ "[l']"]) (use c(4) commit(2) in simp_all)
  next
    case (complete l ttl now db')
    show ?thesis by (rule pipe_invI [OF fit complete_db [OF db _ complete(4)], of "[]"]) (use fit complete in simp_all)
  next
    case (retry l failure t now db')
    have l: "issued_fits (pd_inbox (sys_db s)) l" using fit retry(3) by simp
    have d: "pd_deadLetters db' = pd_deadLetters (sys_db s)" using retry(4) by (auto simp: retry_def split: option.splits)
    show ?thesis
      by (rule pipe_invI [OF fit db_inv_frame [OF db retry_inv [OF box l retry(4)] d], of "[]"]) (use retry(2) in simp_all)
  next
    case (dead l newId failure now db')
    show ?thesis by (rule pipe_invI [OF fit deadLetter_db [OF db _ dead(4)], of "[]"]) (use fit dead in simp_all)
  next
    case (replay renv application request now db' outcome)
    show ?thesis by (rule pipe_invI [OF fit replay_inv [OF db replay(3)], of "[]"]) (simp_all add: replay(2))
  next
    case (reset tz runId app plan now db' effect)
    show ?thesis by (rule pipe_invI [OF fit applyReplay_inv [OF db reset(4) reset(3)], of "[]"]) (simp_all add: reset(2))
  next
    case (purge locked limit now db' es)
    show ?thesis by (rule pipe_invI [OF fit db_inv_frame [OF db purgeBatch_inv [OF box purge(3)]], of "[]"]) (simp_all add: purge(2))
  next
    case (out_lease oreturning olocked dur token types limit now db' ols)
    show ?thesis by (rule pipe_invI [OF fit leaseOutbox_inv [OF db out_lease(3)], of "[]"]) (simp_all add: out_lease(2))
  next
    case (delivered ols name t oclock result db')
    show ?thesis by (rule pipe_invI [OF fit markDelivered_inv [OF db delivered(4)], of "[]"]) (simp_all add: delivered(2))
  next
    case (out_retry ol ofailure t now db')
    show ?thesis by (rule pipe_invI [OF fit outbox_failure_inv(1) [OF db out_retry(4)], of "[]"]) (simp_all add: out_retry(2))
  next
    case (out_dead ol newId ofailure now db')
    show ?thesis by (rule pipe_invI [OF fit outbox_failure_inv(2) [OF db out_dead(4)], of "[]"]) (simp_all add: out_dead(2))
  next
    case (out_state name ofailure terminal)
    show ?thesis by (rule pipe_invI [OF fit markSyncFailure_inv [OF db, of name ofailure terminal], of "[]"]) (simp_all add: out_state(2))
  next
    case (other tables users props samples)
    show ?thesis using inv by (simp add: other pipe_inv_def db_inv_def)
  qed
qed

lemma pipe_step_inv: "pipe_step s s' \<Longrightarrow> pipe_inv s \<Longrightarrow> pipe_inv s'"
  by (auto simp: pipe_step_def intro: pipe_act_inv)

lemma reachable_inv: "pipe_reachable s \<Longrightarrow> pipe_inv s"
proof (induction rule: pipe_reachable.induct)
  case (start tables)
  show ?case by (simp add: pipe_inv_def db_inv_def empty_pipeline_def inbox_inv_def outbox_inv_def)
qed (rule pipe_step_inv)

end
