(* ===== verification/LeaseRefinement.thy ===== *)
theory LeaseRefinement
  imports PipelineInvariant
begin

text \<open>
  The inbox as a lease service.  \<open>lease_step\<close> is an abstract service that knows only who holds
  which row; every step of the pipeline, seen through \<open>inbox_leases\<close>, is the step of that service
  its request asks for, at the instant the request carries.
  The inbox and the outbox table are instances of \<open>lease_table\<close>.
\<close>

subsection \<open>The abstract lease service\<close>

text \<open>
  Who holds which inbox row, and how that may change at the instant of a request: rows nobody
  holds then are granted to owners that did not hold them before, all with the deadline of the
  request; a holder, before its deadline, gets a later one or gives its lease up; the console
  takes back a row that an open dead letter names.  A request touches nothing else.
\<close>

inductive lease_step :: "'k set \<Rightarrow> 'k lease_map \<Rightarrow> 'k lease_action \<Rightarrow> 'k lease_map \<Rightarrow> bool"
  for open_rows :: "'k set" and m :: "'k lease_map" where
  idle: "lease_step open_rows m Act_idle m"
| grant: "\<forall>k \<in> ks. \<forall>w e'. m k = Some (w, e') \<longrightarrow> e' \<le> now \<and> own k \<noteq> w \<Longrightarrow>
    lease_step open_rows m (Act_grant now own e) (\<lambda>k. if k \<in> ks then Some (own k, e) else m k)"
| extend: "m k = Some (w, e) \<Longrightarrow> now < e \<Longrightarrow> e < e' \<Longrightarrow>
    lease_step open_rows m (Act_extend now k w) (m(k := Some (w, e')))"
| release: "m k = Some (w, e) \<Longrightarrow> now < e \<Longrightarrow> lease_step open_rows m (Act_release now k w) (m(k := None))"
| revoke: "k \<in> open_rows \<or> m k = None \<Longrightarrow> lease_step open_rows m (Act_revoke k) (m(k := None))"

text \<open>What a holder may rely on: its lease changes by its own request while it is live, by a grant
  at or after its deadline, or by the console.\<close>

lemma lease_step_holder:
  assumes "lease_step open_rows m a m'" and "m k = Some (w, e)"
  shows "(\<exists>e' \<ge> e. m' k = Some (w, e')) \<or> (\<exists>now < e. a = Act_release now k w) \<or>
    (\<exists>now own e'. a = Act_grant now own e' \<and> e \<le> now \<and> own k \<noteq> w) \<or> (a = Act_revoke k \<and> k \<in> open_rows)"
  using assms by (cases rule: lease_step.cases) (auto split: if_splits)

definition open_rows :: "'o PipelineDb \<Rightarrow> string set" where
  "open_rows db = {k. \<exists>d \<in> set (pd_deadLetters db). dl_status d = Dlq_open \<and> dl_inboxId d = Some k}"

definition inbox_leases :: "'o PipelineDb \<Rightarrow> string lease_map" where
  "inbox_leases db = leases (pd_inbox db)"

subsection \<open>Updates seen through the leases\<close>

lemma leases_same:
  assumes d: "distinct (map lr_id rows)" and g: "\<And>r. lr_id (g r) = lr_id r"
    and same: "\<And>r. r \<in> set rows \<Longrightarrow> p r \<Longrightarrow> row_lease (g r) = row_lease r"
  shows "leases (update_rows p g rows) = leases rows"
proof
  fix k
  show "leases (update_rows p g rows) k = leases rows k"
  proof (cases "find_unique (\<lambda>r. lr_id r = k) rows")
    case None
    then show ?thesis by (simp add: leases_update [OF d g]) (simp add: leases_def)
  next
    case (Some r)
    have "row_lease (if p r then g r else r) = row_lease r" using same [of r] find_unique_SomeD [OF Some] by simp
    then show ?thesis using Some by (simp add: leases_update [OF d g]) (simp add: leases_def)
  qed
qed

lemma leases_one:
  assumes d: "distinct (map lr_id rows)" and g: "\<And>r. lr_id (g r) = lr_id r"
    and p: "\<And>r. r \<in> set rows \<Longrightarrow> p r \<longleftrightarrow> lr_id r = lr_id r0" and r0: "r0 \<in> set rows"
  shows "leases (update_rows p g rows) = (leases rows)(lr_id r0 := row_lease (g r0))"
proof
  fix k
  show "leases (update_rows p g rows) k = ((leases rows)(lr_id r0 := row_lease (g r0))) k"
  proof (cases "k = lr_id r0")
    case True
    then show ?thesis unfolding leases_update [OF d g] using find_row [OF d r0] p [OF r0] by simp
  next
    case False
    have "\<not> p y" if "find_unique (\<lambda>r. lr_id r = k) rows = Some y" for y
      using find_unique_SomeD [OF that] p False by auto
    then show ?thesis using False by (cases "find_unique (\<lambda>r. lr_id r = k) rows") (simp_all add: leases_update [OF d g], simp_all add: leases_def)
  qed
qed

lemma find_append_None: "List.find p xs = None \<Longrightarrow> List.find p (xs @ ys) = List.find p ys"
  by (induction xs) (auto split: if_splits)

lemma find_append_Some: "List.find p xs = Some x \<Longrightarrow> List.find p (xs @ ys) = Some x"
  by (induction xs) (auto split: if_splits)

lemma leases_snoc:
  assumes "lr_id r \<notin> lr_id ` set rows" and "row_lease r = None"
  shows "leases (rows @ [r]) = leases rows"
proof
  fix k
  show "leases (rows @ [r]) k = leases rows k"
  proof (cases "List.find (\<lambda>r. lr_id r = k) rows")
    case None
    then show ?thesis using assms(2) by (simp add: leases_def find_unique_def find_append_None)
  next
    case (Some x)
    then show ?thesis by (simp add: leases_def find_unique_def find_append_Some)
  qed
qed

subsection \<open>The operations\<close>

lemma row_ids_distinct: "db_inv db \<Longrightarrow> distinct (map lr_id (pd_inbox db))"
  by (simp add: db_inv_def inbox_inv_def)

lemma keeps_row_id: "keeps_row g \<Longrightarrow> lr_id (g r) = lr_id r"
  by (simp add: keeps_row_def)

text \<open>A guarded statement that found its row: the row was held by the lease.\<close>

lemma selected_leases:
  assumes d: "distinct (map lr_id rows)" and f: "filter p rows = [r0]" and p: "\<forall>r. p r \<longrightarrow> fenced k w now r" and g: "keeps_row g"
  shows "\<exists>e. leases rows k = Some (w, e) \<and> now < e \<and> row_lease r0 = Some (w, e)"
    and "leases (update_rows p g rows) = (leases rows)(k := row_lease (g r0))"
proof -
  have pid: "\<forall>r. p r \<longrightarrow> lr_id r = k" using p by (auto dest: fenced_id)
  note sel = filter_fenced [OF d f pid]
  have held: "fenced k w now r0" using p sel(3) by simp
  have k: "lr_id r0 = k" by (rule fenced_id [OF held])
  show "\<exists>e. leases rows k = Some (w, e) \<and> now < e \<and> row_lease r0 = Some (w, e)"
    using held leases_row [OF d sel(2)] by (auto simp: fenced_row_lease k)
  have "p r \<longleftrightarrow> lr_id r = lr_id r0" if "r \<in> set rows" for r using sel(1) [OF that] k by simp
  then show "leases (update_rows p g rows) = (leases rows)(k := row_lease (g r0))"
    using leases_one [OF d keeps_row_id [OF g] _ sel(2), where p = p] k by simp
qed

lemma row_lease_advanced:
  "row_lease r = Some (w, e) \<Longrightarrow> \<exists>e'. row_lease (advanced dur stage now r) = Some (w, e') \<and> e < e'"
  by (auto simp: row_lease_def advanced_def split: if_splits option.splits)

lemma lease_owner_advanced:
  "mapLease gs (advanced dur stage now r) = Inr l \<Longrightarrow> row_lease r = Some (w, e) \<Longrightarrow> il_leaseOwner l = w"
  using mapLease_fields(5) [of gs "advanced dur stage now r" l w]
  by (auto simp: row_lease_def advanced_def split: if_splits option.splits)

lemma advance_leases:
  assumes d: "distinct (map lr_id (pd_inbox db))" and ok: "advance dur l stage now db = Inr (db', l')"
  obtains e e' where "inbox_leases db (il_id l) = Some (il_leaseOwner l, e)" "now < e" "e < e'"
    "inbox_leases db' = (inbox_leases db)(il_id l := Some (il_leaseOwner l, e'))"
    "il_id l' = il_id l" "il_leaseOwner l' = il_leaseOwner l"
proof -
  obtain p r0 where f: "filter p (pd_inbox db) = [r0]"
    and p: "\<And>r. p r \<Longrightarrow> fenced (il_id l) (il_leaseOwner l) now r"
    and map: "mapLease (pd_registry db) (advanced dur stage now r0) = Inr l'"
    and db': "db' = set_registry (il_applicationId l) (il_eventId l) (\<lambda>g. g\<lparr>rg_processingStage := stage\<rparr>)
       (db\<lparr>pd_inbox := update_rows p (advanced dur stage now) (pd_inbox db)\<rparr>)"
    by (rule advance_effect [OF ok]) (rule that)
  have p': "\<forall>r. p r \<longrightarrow> fenced (il_id l) (il_leaseOwner l) now r" using p by simp
  have g: "keeps_row (advanced dur stage now)" by simp
  note sel = selected_leases [OF d f p' g]
  obtain e where e: "leases (pd_inbox db) (il_id l) = Some (il_leaseOwner l, e)" "now < e" "row_lease r0 = Some (il_leaseOwner l, e)"
    using sel(1) by blast
  obtain e' where e': "row_lease (advanced dur stage now r0) = Some (il_leaseOwner l, e')" "e < e'"
    using row_lease_advanced [OF e(3)] by blast
  have "r0 \<in> set (filter p (pd_inbox db))" using f by simp
  then have "lr_id r0 = il_id l" using p' by (auto dest: fenced_id)
  then have id: "il_id l' = il_id l" using mapLease_fields(1) [OF map] keeps_row_id [OF g] by simp
  show thesis
    by (rule that [of e e']) (use e e' sel(2) id lease_owner_advanced [OF map e(3)] in \<open>simp_all add: inbox_leases_def db'\<close>)
qed

lemma advance_step:
  assumes "distinct (map lr_id (pd_inbox db))" and "advance dur l stage now db = Inr (db', l')"
  shows "lease_step (open_rows db) (inbox_leases db) (Act_extend now (il_id l) (il_leaseOwner l)) (inbox_leases db')"
proof -
  obtain e e' where "inbox_leases db (il_id l) = Some (il_leaseOwner l, e)" "now < e" "e < e'"
    and v: "inbox_leases db' = (inbox_leases db)(il_id l := Some (il_leaseOwner l, e'))"
    by (rule advance_leases [OF assms]) (rule that)
  then show ?thesis unfolding v by (intro lease_step.extend)
qed

lemma commit_step:
  assumes inv: "db_inv db" and fits: "issued_fits (pd_inbox db) l" and ok: "commitOfficial env dur clock writer l context db = Inr (db', l', m)"
  shows "lease_step (open_rows db) (inbox_leases db) (Act_extend (cc_committedAt clock) (il_id l) (il_leaseOwner l)) (inbox_leases db')"
proof -
  obtain tables additional db1 cur base where
    a1: "advance dur l Stage_official_committed (cc_committedAt clock) (db\<lparr>pd_official := tables\<rparr>) = Inr (db1, cur)"
    and a2: "advance dur cur Stage_outbox_created (cc_createdAt clock)
       (fold (add_outbox (pc_applicationId context) (cc_createdAt clock)) (base @ additional) db1) = Inr (db', l')"
    by (rule commitOfficial_effect [OF ok]) (rule that)
  let ?db2 = "fold (add_outbox (pc_applicationId context) (cc_createdAt clock)) (base @ additional) db1"
  have box: "inbox_inv (pd_inbox (db\<lparr>pd_official := tables\<rparr>)) (pd_registry (db\<lparr>pd_official := tables\<rparr>))"
    using inv by (simp add: db_inv_def)
  have fits': "issued_fits (pd_inbox (db\<lparr>pd_official := tables\<rparr>)) l" using fits by simp
  have d0: "distinct (map lr_id (pd_inbox (db\<lparr>pd_official := tables\<rparr>)))" using row_ids_distinct [OF inv] by simp
  have "inbox_inv (pd_inbox db1) (pd_registry db1)" using advance_inv(1) [OF box fits' _ a1] by simp
  then have d1: "distinct (map lr_id (pd_inbox ?db2))" by (simp add: inbox_inv_def)
  obtain e e1 where one: "inbox_leases (db\<lparr>pd_official := tables\<rparr>) (il_id l) = Some (il_leaseOwner l, e)" "cc_committedAt clock < e" "e < e1"
    "inbox_leases db1 = (inbox_leases (db\<lparr>pd_official := tables\<rparr>))(il_id l := Some (il_leaseOwner l, e1))"
    "il_id cur = il_id l" "il_leaseOwner cur = il_leaseOwner l"
    by (rule advance_leases [OF d0 a1]) (rule that)
  obtain e1' e2 where two: "inbox_leases ?db2 (il_id cur) = Some (il_leaseOwner cur, e1')" "e1' < e2"
    "inbox_leases db' = (inbox_leases ?db2)(il_id cur := Some (il_leaseOwner cur, e2))"
    by (rule advance_leases [OF d1 a2]) (rule that)
  have "inbox_leases ?db2 = inbox_leases db1" "inbox_leases (db\<lparr>pd_official := tables\<rparr>) = inbox_leases db"
    by (simp_all add: inbox_leases_def)
  then have held: "inbox_leases db (il_id l) = Some (il_leaseOwner l, e)" and later: "e < e2"
    and v: "inbox_leases db' = (inbox_leases db)(il_id l := Some (il_leaseOwner l, e2))"
    using one two by auto
  show ?thesis unfolding v by (rule lease_step.extend, rule held, rule one(2), rule later)
qed

lemma release_step:
  assumes d: "distinct (map lr_id rows)" and f: "filter (fenced k w now) rows = [r0]" and g: "keeps_row g" and free: "row_lease (g r0) = None"
  shows "lease_step ds (leases rows) (Act_release now k w) (leases (update_rows (fenced k w now) g rows))"
proof -
  note sel = selected_leases [OF d f _ g, of k w now]
  obtain e where e: "leases rows k = Some (w, e)" "now < e" using sel(1) by auto
  have "lease_step ds (leases rows) (Act_release now k w) ((leases rows)(k := None))" by (rule lease_step.release [where e = e]) (fact e)+
  then show ?thesis using sel(2) free by simp
qed

lemma inactive_rows [simp]:
  "row_lease (completed_row ttl now r) = None" "row_lease (retried_row t text r) = None" "row_lease (dead_row text r) = None"
  "row_lease (reset_inbox now r) = None" "row_lease (requeued runId kind now r) = None" "row_lease (new_inbox k app e j now) = None"
  by (simp_all add: row_lease_def completed_row_def retried_row_def dead_row_def reset_inbox_def requeued_def new_inbox_def)

lemma complete_step:
  assumes "db_inv db" and ok: "complete ttl l now db = Inr db'"
  shows "lease_step (open_rows db) (inbox_leases db) (Act_release now (il_id l) (il_leaseOwner l)) (inbox_leases db')"
proof -
  obtain r0 where f: "filter (fenced (il_id l) (il_leaseOwner l) now) (pd_inbox db) = [r0]"
    and i: "pd_inbox db' = update_rows (fenced (il_id l) (il_leaseOwner l) now) (completed_row ttl now) (pd_inbox db)"
    by (rule complete_effect [OF ok]) (rule that)
  show ?thesis unfolding inbox_leases_def i by (rule release_step [OF row_ids_distinct [OF assms(1)] f]) simp_all
qed

lemma failure_step:
  assumes inv: "db_inv db" and w: "fenced_write k own now g (pd_inbox db) = Some rows" and g: "keeps_row g" and free: "\<And>r. row_lease (g r) = None"
  shows "lease_step (open_rows db) (inbox_leases db) (Act_release now k own) (leases rows)"
proof -
  obtain r0 where f: "filter (fenced k own now) (pd_inbox db) = [r0]" and rows: "rows = update_rows (fenced k own now) g (pd_inbox db)"
    using w by (rule fenced_write_filter)
  show ?thesis unfolding inbox_leases_def rows by (rule release_step [OF row_ids_distinct [OF inv] f g free])
qed

lemma inbox_batch_due: "inbox_batch locked limit now db \<subseteq> due_ids now (pd_inbox db)"
  using candidates_due [of locked inbox_eligible limit now "pd_inbox db"] by (auto simp: inbox_batch_def Let_def)

lemma leaseInbox_leases:
  assumes inv: "db_inv db" and ok: "leaseInbox returning locked dur token limit now db = (db', Inr ls)"
  shows "inbox_leases db' = (\<lambda>k. if k \<in> inbox_batch locked limit now db then Some (inbox_owner token k, now + dur * 1000) else inbox_leases db k)"
proof -
  have "db' = db\<lparr>pd_inbox := acquire_rows (inbox_batch locked limit now db) (inbox_owner token) (now + dur * 1000) (pd_inbox db)\<rparr>"
    using ok by (auto simp: leaseInbox_def Let_def split: if_splits)
  moreover have "inbox_batch locked limit now db \<subseteq> lr_id ` set (pd_inbox db)"
    using inbox_batch_due [of locked limit now db] by (auto simp: due_ids_def)
  ultimately show ?thesis
    unfolding inbox_leases_def by (simp add: leases_acquire [OF row_ids_distinct [OF inv]])
qed

text \<open>Every lease in force was issued, so a fresh token names no current holder.\<close>

definition holders_issued :: "pipe_sys \<Rightarrow> bool" where
  "holders_issued s \<longleftrightarrow>
     (\<forall>k w e. inbox_leases (sys_db s) k = Some (w, e) \<longrightarrow> (\<exists>l \<in> set (sys_issued s). il_id l = k \<and> il_leaseOwner l = w))"

lemma fresh_owner:
  assumes "holders_issued s" and "fresh_token token (sys_issued s)" and "inbox_leases (sys_db s) k = Some (w, e)"
  shows "inbox_owner token k \<noteq> w"
  using assms unfolding holders_issued_def fresh_token_def list_all_iff by metis

lemma leaseInbox_step:
  assumes inv: "db_inv (sys_db s)" and held: "holders_issued s" and fresh: "fresh_token token (sys_issued s)"
    and ok: "leaseInbox returning locked dur token limit now (sys_db s) = (db', Inr ls)"
  shows "lease_step ds (inbox_leases (sys_db s)) (Act_grant now (inbox_owner token) (now + dur * 1000)) (inbox_leases db')"
  unfolding leaseInbox_leases [OF inv ok]
proof (rule lease_step.grant, intro ballI allI impI)
  fix k w e assume "k \<in> inbox_batch locked limit now (sys_db s)" and m: "inbox_leases (sys_db s) k = Some (w, e)"
  then have "k \<in> due_ids now (pd_inbox (sys_db s))" using inbox_batch_due by blast
  then have "\<not> live (inbox_leases (sys_db s)) k w now" unfolding inbox_leases_def by (rule due_ids_free [OF row_ids_distinct [OF inv]])
  then show "e \<le> now \<and> inbox_owner token k \<noteq> w" using m fresh_owner [OF held fresh m] by (simp add: live_def)
qed

lemma replay_idempotent_or_open:
  assumes ok: "replay env application request now db = Inr (db', outcome)"
  obtains d k where "replay_action application request db = Act_revoke k" "d \<in> set (pd_deadLetters db)" "dl_inboxId d = Some k"
    "db' = db \<and> (\<exists>r \<in> set (pd_inbox db). lr_id r = k \<and> lr_status r = Pending) \<or>
     dl_status d = Dlq_open \<and> (\<exists>r \<in> set (pd_inbox db). lr_id r = k \<and>
       pd_inbox db' = update_rows (\<lambda>x. lr_id x = k) (reset_inbox now) (pd_inbox db))"
proof -
  obtain app d where app: "application = Some app"
    and d: "find_unique (\<lambda>d. dl_id d = event_text request ''dead_letter_id'' \<and> dl_applicationId d = app) (pd_deadLetters db) = Some d"
    using ok by (auto simp: replay_def split: if_splits option.splits)
  obtain k r where k: "dl_inboxId d = Some k"
    and r: "find_unique (\<lambda>r. lr_id r = k \<and> ib_applicationId r = dl_applicationId d) (pd_inbox db) = Some r"
    using ok d by (auto simp: replay_def app Let_def split: if_splits option.splits)
  have rk: "r \<in> set (pd_inbox db)" "lr_id r = k" using find_unique_SomeD [OF r] by simp_all
  have a: "replay_action application request db = Act_revoke k" using d k by (simp add: replay_action_def app)
  have "db' = db \<and> lr_status r = Pending \<or>
     dl_status d = Dlq_open \<and> pd_inbox db' = update_rows (\<lambda>x. lr_id x = k) (reset_inbox now) (pd_inbox db)"
    using ok d k r rk(2) by (auto simp: replay_def app Let_def split: if_splits option.splits)
  then show thesis using that [OF a _ k] find_unique_SomeD [OF d] rk by blast
qed

lemma replay_step:
  assumes inv: "db_inv db" and ok: "replay env application request now db = Inr (db', outcome)"
  shows "lease_step (open_rows db) (inbox_leases db) (replay_action application request db) (inbox_leases db')"
proof -
  obtain d k where a: "replay_action application request db = Act_revoke k" and d: "d \<in> set (pd_deadLetters db)" "dl_inboxId d = Some k"
    and cases: "db' = db \<and> (\<exists>r \<in> set (pd_inbox db). lr_id r = k \<and> lr_status r = Pending) \<or>
     dl_status d = Dlq_open \<and> (\<exists>r \<in> set (pd_inbox db). lr_id r = k \<and>
       pd_inbox db' = update_rows (\<lambda>x. lr_id x = k) (reset_inbox now) (pd_inbox db))"
    by (rule replay_idempotent_or_open [OF ok]) (rule that)
  note dist = row_ids_distinct [OF inv]
  have "(k \<in> open_rows db \<or> inbox_leases db k = None) \<and> inbox_leases db' = (inbox_leases db)(k := None)"
    using cases
  proof (elim disjE conjE bexE)
    fix r assume "db' = db" and r: "r \<in> set (pd_inbox db)" "lr_id r = k" "lr_status r = Pending"
    then show ?thesis using leases_row [OF dist r(1)] by (auto simp: inbox_leases_def row_lease_def)
  next
    fix r assume "dl_status d = Dlq_open" and r: "r \<in> set (pd_inbox db)" "lr_id r = k"
      and i: "pd_inbox db' = update_rows (\<lambda>x. lr_id x = k) (reset_inbox now) (pd_inbox db)"
    then show ?thesis
      unfolding inbox_leases_def i using d leases_one [OF dist _ _ r(1), of "reset_inbox now" "\<lambda>x. lr_id x = k"]
      by (auto simp: open_rows_def reset_inbox_def row_lease_def)
  qed
  then show ?thesis unfolding a by (auto intro: lease_step.revoke)
qed

lemma applyReplay_leases:
  assumes inv: "db_inv db" and ok: "applyReplay tz runId app plan now db = (db', effect)"
  shows "inbox_leases db' = inbox_leases db"
proof -
  have out: "outbox_inv (pd_outbox db) (pd_nextOutboxId db)" using inv by (simp add: db_inv_def)
  consider (o) n where "resetOutbox tz runId app plan now db = (db', n)"
    | (i) n where "resetInbox runId app plan now db = (db', n)" | (q) "db' = db"
    using ok by (cases "resetOutbox tz runId app plan now db"; cases "resetInbox runId app plan now db")
      (auto simp: applyReplay_def split: if_splits)
  then show ?thesis
  proof cases
    case o
    then show ?thesis using fold_add_replay_inv [OF out o [unfolded resetOutbox_def]] by (simp add: inbox_leases_def)
  next
    case i
    obtain p where "pd_inbox db' = update_rows p (requeued runId (rp_replayType plan) now) (pd_inbox db)"
      and "\<forall>r. p r \<longrightarrow> lr_status r \<noteq> Leased"
    proof (rule that)
      let ?p = "\<lambda>r. ib_applicationId r = app \<and> ib_payloadJson r \<noteq> None \<and>
                 lr_status r \<in> {Pending, Failed, Completed, DeadLetter} \<and>
                 (case registry_of (ib_applicationId r) (ib_eventId r) (pd_registry db) of
                    None \<Rightarrow> False | Some g \<Rightarrow> in_range plan (rg_eventTime g))"
      show "pd_inbox db' = update_rows ?p (requeued runId (rp_replayType plan) now) (pd_inbox db)"
        using i by (auto simp: resetInbox_def Let_def)
      show "\<forall>r. ?p r \<longrightarrow> lr_status r \<noteq> Leased" by auto
    qed
    then show ?thesis
      using leases_same [OF row_ids_distinct [OF inv], where g = "requeued runId (rp_replayType plan) now" and p = p]
      by (simp add: inbox_leases_def row_lease_def requeued_def reset_inbox_def)
  qed simp
qed

lemma purge_leases:
  assumes inv: "db_inv db" and ok: "purgeBatch locked limit now db = Inr (db', es)"
  shows "inbox_leases db' = inbox_leases db"
proof -
  have "pd_inbox db' = update_rows (\<lambda>r. lr_id r \<in> set (purge_candidates locked limit now db))
      (\<lambda>r. r\<lparr>ib_payloadJson := None, ib_payloadPurgedAt := Some now\<rparr>) (pd_inbox db)"
    using ok by (auto simp: purgeBatch_def Let_def split: if_splits)
  then show ?thesis unfolding inbox_leases_def
    by (simp add: leases_same [OF row_ids_distinct [OF inv]] row_lease_def)
qed

lemma persist_leases:
  assumes ok: "persistEvent env cat w id app inp db = (db', r)"
  shows "inbox_leases db' = inbox_leases db"
proof -
  have "db' = db \<or> insert_event env cat w app inp db = Inr db'"
    using ok by (auto simp: persistEvent_def Let_def split: option.splits sum.splits if_splits)
  then show ?thesis
  proof
    assume i: "insert_event env cat w app inp db = Inr db'"
    let ?r = "new_inbox (pv_inboxId w) app (event_text (ve_event inp) ''event_id'') (ve_event inp) (pv_now w)"
    have "lr_id ?r \<notin> lr_id ` set (pd_inbox db)" using insert_event_frame(4) [OF i] by (simp add: new_inbox_def)
    then show ?thesis using insert_event_registry(3) [OF i] leases_snoc [of ?r "pd_inbox db"] by (simp add: inbox_leases_def)
  qed simp
qed

subsection \<open>The simulation\<close>

lemma markDelivered_inbox:
  assumes inv: "db_inv db" and ok: "markDelivered name t clock ls result db = Inr db'"
  shows "pd_inbox db' = pd_inbox db"
proof -
  obtain db1 ss where m: "mark_sent t clock ls db = Inr db1"
    and db': "db' = (fold (mark_official t) ls db1)\<lparr>pd_sync := ss\<rparr>"
    using ok by (auto simp: markDelivered_def Let_def split: if_splits)
  note one = mark_sent_inv [OF inv m]
  show ?thesis using one fold_mark_official_inv [OF conjunct1 [OF one], of t ls] by (simp add: db')
qed

lemma pipe_act_simulates:
  assumes step: "pipe_act s a s'" and inv: "pipe_inv s" and held: "holders_issued s"
  shows "lease_step (open_rows (sys_db s)) (inbox_leases (sys_db s)) a (inbox_leases (sys_db s'))"
proof -
  have db: "db_inv (sys_db s)" and fit: "\<forall>l \<in> set (sys_issued s). issued_fits (pd_inbox (sys_db s)) l"
    using inv by (simp_all add: pipe_inv_def)
  note d = row_ids_distinct [OF db]
  have same: "lease_step (open_rows (sys_db s)) (inbox_leases (sys_db s)) Act_idle (inbox_leases db')"
    if "pd_inbox db' = pd_inbox (sys_db s)" for db' :: "OfficialTables PipelineDb"
    using that by (simp add: inbox_leases_def lease_step.idle)
  from step show ?thesis
  proof cases
    case ingest
    then show ?thesis using persist_leases [OF ingest(4)] by (simp add: lease_step.idle)
  next
    case lease
    then show ?thesis using leaseInbox_step [OF db held lease(4,3)] by simp
  next
    case (checkpoint l stage dur now db' l')
    have "advance dur l stage now (sys_db s) = Inr (db', l')" using checkpoint(5) by (simp add: checkpoint_def)
    then show ?thesis using advance_step [OF d] checkpoint(1,2) by simp
  next
    case (commit l env dur clock we cx db' l' m)
    then show ?thesis using commit_step [OF db _ commit(4)] fit by simp
  next
    case complete
    then show ?thesis using complete_step [OF db complete(4)] by simp
  next
    case (retry l failure t now db')
    then obtain rows where "fenced_write (il_id l) (il_leaseOwner l) now (retried_row t (error_text failure)) (pd_inbox (sys_db s)) = Some rows"
      and "db' = (sys_db s)\<lparr>pd_inbox := rows\<rparr>" by (auto simp: retry_def split: option.splits)
    then show ?thesis using failure_step [OF db] retry(1,2) by (simp add: inbox_leases_def)
  next
    case (dead l newId failure now db')
    then obtain rows where "fenced_write (il_id l) (il_leaseOwner l) now (dead_row (error_text failure)) (pd_inbox (sys_db s)) = Some rows"
      and "pd_inbox db' = rows" by (auto simp: deadLetter_def Let_def split: option.splits)
    then show ?thesis using failure_step [OF db] dead(1,2) by (simp add: inbox_leases_def)
  next
    case replay
    then show ?thesis using replay_step [OF db replay(3)] by simp
  next
    case reset
    then show ?thesis using applyReplay_leases [OF db reset(3)] by (simp add: lease_step.idle)
  next
    case purge
    then show ?thesis using purge_leases [OF db purge(3)] by (simp add: lease_step.idle)
  next
    case (out_lease oreturning olocked dur token types limit now db' ols)
    then have "pd_inbox db' = pd_inbox (sys_db s)" by (auto simp: leaseOutbox_def Let_def split: if_splits)
    then show ?thesis using same out_lease(1,2) by simp
  next
    case (delivered ols name t oclock result db')
    have "pd_inbox db' = pd_inbox (sys_db s)" by (rule markDelivered_inbox [OF db delivered(4)])
    then show ?thesis using same delivered(1,2) by simp
  next
    case (out_retry ol ofailure t now db')
    then have "pd_inbox db' = pd_inbox (sys_db s)" by (auto simp: outbox_retry_row_def split: option.splits)
    then show ?thesis using same out_retry(1,2) by simp
  next
    case (out_dead ol newId ofailure now db')
    then have "pd_inbox db' = pd_inbox (sys_db s)" by (auto simp: outbox_dead_row_def split: option.splits)
    then show ?thesis using same out_dead(1,2) by simp
  next
    case out_state
    then show ?thesis using same by (simp add: markSyncFailure_def Let_def)
  next
    case other
    then show ?thesis using same by simp
  qed
qed

lemma issued_mono: "pipe_act s a s' \<Longrightarrow> set (sys_issued s) \<subseteq> set (sys_issued s')"
  by (cases rule: pipe_act.cases) auto

text \<open>The leases a successful acquisition returns carry the owners it wrote.\<close>

lemma map_results_covers:
  "map_results f rs = Inr bs \<Longrightarrow> r \<in> set rs \<Longrightarrow> \<exists>b \<in> set bs. f r = Inr b"
proof (induction rs arbitrary: bs)
  case (Cons x rs)
  then obtain b cs where "f x = Inr b" "map_results f rs = Inr cs" "bs = b # cs" by (auto elim!: bind_res_InrE)
  then show ?case using Cons by auto
qed simp

lemma granted_issued:
  assumes inv: "pipe_inv s" and step: "pipe_act s (Act_grant now own e) s'" and m: "inbox_leases (sys_db s') k = Some (own k, e)"
    and new: "inbox_leases (sys_db s) k \<noteq> inbox_leases (sys_db s') k"
  shows "\<exists>l \<in> set (sys_issued s'). il_id l = k \<and> il_leaseOwner l = own k"
  using step
proof cases
  case (lease returning locked dur token limit db' ls)
  have db: "db_inv (sys_db s)" using inv by (simp add: pipe_inv_def)
  let ?ks = "inbox_batch locked limit now (sys_db s)"
  have k: "k \<in> ?ks" using new leaseInbox_leases [OF db lease(4)] lease(3) by (auto split: if_splits)
  obtain ls' where ls': "map_results (mapLease (pd_registry (sys_db s)))
      (returning (filter (\<lambda>r. lr_id r \<in> ?ks) (acquire_rows ?ks (inbox_owner token) e (pd_inbox (sys_db s))))) = Inr ls'" "ls' = ls"
    using lease by (auto simp: leaseInbox_def Let_def split: if_splits)
  obtain r where r: "r \<in> set (pd_inbox (sys_db s))" "lr_id r = k"
    using k inbox_batch_due [of locked limit now "sys_db s"] by (auto simp: due_ids_def)
  let ?r = "acquired (inbox_owner token) e r"
  have "?r \<in> set (returning (filter (\<lambda>r. lr_id r \<in> ?ks) (acquire_rows ?ks (inbox_owner token) e (pd_inbox (sys_db s)))))"
    using lease(6) r k by (force simp: acquire_rows_def set_update_rows)
  then obtain l where l: "l \<in> set ls'" "mapLease (pd_registry (sys_db s)) ?r = Inr l" using map_results_covers [OF ls'(1)] by blast
  have "il_id l = k" "il_leaseOwner l = inbox_owner token k"
    using mapLease_fields(1,5) [OF l(2)] r(2) by (simp_all add: acquired_def)
  then show ?thesis using l(1) ls'(2) lease by auto
next
  case replay
  then show ?thesis by (auto simp: replay_action_def split: option.splits)
qed

lemma holders_step:
  assumes step: "pipe_act s a s'" and inv: "pipe_inv s" and held: "holders_issued s"
  shows "holders_issued s'"
  unfolding holders_issued_def
proof (intro allI impI)
  fix k w e assume m': "inbox_leases (sys_db s') k = Some (w, e)"
  note mono = issued_mono [OF step]
  have kept: "\<exists>l \<in> set (sys_issued s'). il_id l = k \<and> il_leaseOwner l = w" if "inbox_leases (sys_db s) k = Some (w, e')" for e'
    using held that mono unfolding holders_issued_def by blast
  from pipe_act_simulates [OF step inv held] show "\<exists>l \<in> set (sys_issued s'). il_id l = k \<and> il_leaseOwner l = w"
  proof cases
    case (grant ks now own e')
    show ?thesis
    proof (cases "inbox_leases (sys_db s) k = inbox_leases (sys_db s') k")
      case False
      then have "own k = w \<and> e' = e" using grant(2) m' by (auto split: if_splits)
      then show ?thesis using granted_issued [OF inv _ _ False, of now own e'] step grant(1) m' by auto
    qed (use m' kept in simp)
  qed (use m' kept in \<open>auto split: if_splits\<close>)
qed

lemma reachable_holders: "pipe_reachable s \<Longrightarrow> holders_issued s"
proof (induction rule: pipe_reachable.induct)
  case (start tables)
  show ?case by (simp add: holders_issued_def inbox_leases_def empty_pipeline_def leases_def find_unique_def)
next
  case (step s s')
  then show ?case using holders_step [OF _ reachable_inv [OF step(1)]] by (auto simp: pipe_step_def)
qed

subsection \<open>The two work tables keep the contract\<close>

interpretation inbox_table: lease_table
  "inbox_leases :: 'o PipelineDb \<Rightarrow> string lease_map"
  "\<lambda>ks own e db. db\<lparr>pd_inbox := acquire_rows ks own e (pd_inbox db)\<rparr>" "\<lambda>now db. due_ids now (pd_inbox db)"
  "\<lambda>k w now db. count_rows (fenced k w now) (pd_inbox db) = 1" "\<lambda>db. distinct (map lr_id (pd_inbox db))"
  by unfold_locales
    (simp_all add: inbox_leases_def count_fenced [unfolded One_nat_def] lease_rows.acquire_view due_ids_free cong: if_cong)

interpretation outbox_table: lease_table
  "\<lambda>db :: 'o PipelineDb. leases (pd_outbox db)"
  "\<lambda>ks own e db. db\<lparr>pd_outbox := acquire_rows ks own e (pd_outbox db)\<rparr>" "\<lambda>now db. due_ids now (pd_outbox db)"
  "\<lambda>k w now db. count_rows (fenced k w now) (pd_outbox db) = 1" "\<lambda>db. distinct (map lr_id (pd_outbox db))"
  by unfold_locales
    (simp_all add: count_fenced [unfolded One_nat_def] lease_rows.acquire_view due_ids_free)

end
