(* ===== verification/PipelineRuns.thy ===== *)
theory PipelineRuns
  imports LeaseRefinement
begin

text \<open>
  Whole runs of the processor.  The locales \<open>checkpointed\<close> and \<open>guarded_run\<close> carry a fact about
  the database and the worker's lease through the stages of \<open>process\<close>, its commit and its
  failure path; their instances are a worker whose lease was taken over, the invariant of the
  tables, the attempt counts and the replay intent.  The last part is progress: with a live
  lease, a first run of the worker's own handlers and writer completes.
\<close>

text \<open>What a computation that may throw leaves behind: \<open>I\<close> of the state at the throw, or \<open>Q\<close> of
  the result.\<close>

definition outcome_ok :: "('s \<Rightarrow> bool) \<Rightarrow> ('b \<Rightarrow> bool) \<Rightarrow> ('s \<times> thrown) + 'b \<Rightarrow> bool" where
  "outcome_ok I Q r = (case r of Inl (s, _) \<Rightarrow> I s | Inr x \<Rightarrow> Q x)"

lemma outcome_bind:
  "outcome_ok I A m \<Longrightarrow> (\<And>x. A x \<Longrightarrow> outcome_ok I Q (f x)) \<Longrightarrow> outcome_ok I Q (bind_res m f)"
  by (cases m) (auto simp: outcome_ok_def)

lemma outcome_Inr [simp]: "outcome_ok I Q (Inr x) = Q x"
  by (simp add: outcome_ok_def)

lemma outcome_Inl [simp]: "outcome_ok I Q (Inl (s, e)) = I s"
  by (simp add: outcome_ok_def)

subsection \<open>Facts that survive the guarded writes\<close>

text \<open>
  \<open>checkpointed\<close>: a relation \<open>P\<close> between the database and the worker's current lease that every
  checkpoint keeps.  \<open>guarded_run\<close> adds the commit and the three ways a run ends, after which
  \<open>R\<close> holds of the database.
\<close>

locale checkpointed =
  fixes P :: "'o PipelineDb \<Rightarrow> InboxLease \<Rightarrow> bool"
  assumes advance_keeps: "P db l \<Longrightarrow> stage \<in> set checkpoint_stages \<Longrightarrow> advance dur l stage now db = Inr (db', l') \<Longrightarrow> P db' l'"
begin

lemma run_stage_keeps:
  assumes "P (ps_db s) (ps_lease s)" and "target \<in> set checkpoint_stages"
  shows "outcome_ok (\<lambda>s'. P (ps_db s') (ps_lease s')) (\<lambda>(s', x, did). computed = Inr x \<and> P (ps_db s') (ps_lease s'))
    (run_stage opts w active target computed s)"
  using assms advance_keeps
  by (auto simp: outcome_ok_def run_stage_def advanceIfNeeded_def checkpoint_def Let_def split: sum.splits if_splits)

text \<open>The stages keep \<open>P\<close>, and a rating in the context was enabled by a lease \<open>P\<close> held of.\<close>

lemma run_stages_keeps:
  assumes start: "P (ps_db s0) (ps_lease s0)"
  shows "outcome_ok (\<lambda>s. P (ps_db s) (ps_lease s))
    (\<lambda>(s, context). P (ps_db s) (ps_lease s) \<and>
       (\<exists>db l. P db l \<and> (pc_providerCost context \<noteq> None \<longrightarrow> cost_enabled flags l)) \<and>
       (\<exists>db l. P db l \<and> (pc_aiu context \<noteq> None \<longrightarrow> aiu_enabled flags l)))
    (run_stages env opts w flags h s0)"
proof -
  have st: "Stage_normalized \<in> set checkpoint_stages" "Stage_model_resolved \<in> set checkpoint_stages"
    "Stage_provider_cost_rated \<in> set checkpoint_stages" "Stage_aiu_rated \<in> set checkpoint_stages"
    "Stage_quota_settled \<in> set checkpoint_stages" by (simp_all add: checkpoint_stages_def)
  have on: "b" if "if_enabled b m = Inr (Some x)" for b and m :: "thrown + 'x" and x
    using that by (auto simp: if_enabled_def split: if_splits)
  show ?thesis
    unfolding run_stages_def
    apply (rule outcome_bind [OF run_stage_keeps [OF start st(1)]], clarsimp)
    apply (rule outcome_bind [OF run_stage_keeps [OF _ st(2)]], assumption, clarsimp simp: Let_def)
    apply (rule outcome_bind [OF run_stage_keeps [OF _ st(3)]], simp add: note_unmapped_def, clarsimp)
    apply (rule outcome_bind [OF run_stage_keeps [OF _ st(4)]], assumption, clarsimp)
    apply (rule outcome_bind [OF run_stage_keeps [OF _ st(5)]], assumption, clarsimp)
    apply (intro conjI)
     apply (auto simp: note_unmapped_def dest: on split: if_splits)
    done
qed

end

locale guarded_run = checkpointed P for P :: "'o PipelineDb \<Rightarrow> InboxLease \<Rightarrow> bool" +
  fixes R :: "'o PipelineDb \<Rightarrow> bool"
    and env :: "'e snapshot_env_scheme"
    and writer :: "('o, 'c, 'a, 'q, 'm) official_writer"
  assumes commit_keeps: "P db l \<Longrightarrow> commitOfficial env dur clock writer l context db = Inr (db', l', m) \<Longrightarrow> P db' l'"
    and complete_ends: "P db l \<Longrightarrow> complete ttl l now db = Inr db' \<Longrightarrow> R db'"
    and retry_ends: "P db l \<Longrightarrow> retry l failure t now db = Inr db' \<Longrightarrow> R db'"
    and dead_ends: "P db l \<Longrightarrow> deadLetter newId l failure now db = Inr db' \<Longrightarrow> R db'"
    and undone: "P db l \<Longrightarrow> R db"
begin

lemma commit_stage_keeps:
  assumes "P (ps_db s) (ps_lease s)"
  shows "outcome_ok (\<lambda>s. P (ps_db s) (ps_lease s)) (\<lambda>s. P (ps_db s) (ps_lease s)) (commit_stage env opts w writer context s)"
proof -
  let ?r = "commitOfficial env (px_leaseDurationMs opts) (pw_commit w) writer (ps_lease s) context (ps_db s)"
  have "P db' l'" if "?r = Inr (db', l', m)" for db' l' m by (rule commit_keeps [OF assms that])
  then show ?thesis using assms by (cases ?r) (auto simp: commit_stage_def Let_def)
qed

lemma complete_stage_ends:
  assumes "P (ps_db s) (ps_lease s)"
  shows "outcome_ok (\<lambda>s. P (ps_db s) (ps_lease s)) 
    (\<lambda>s. R (ps_db s) \<and> (\<exists>db1 l1. P db1 l1 \<and> complete (px_payloadTtlDays opts) l1 (pw_completeAt w) db1 = Inr (ps_db s)))
    (complete_stage opts w s)"
proof -
  let ?r = "complete (px_payloadTtlDays opts) (ps_lease s) (pw_completeAt w) (ps_db s)"
  have "R db'" if "?r = Inr db'" for db' by (rule complete_ends [OF assms that])
  then show ?thesis using assms by (cases ?r) (auto simp: complete_stage_def Let_def)
qed

lemma handle_failure_ends:
  assumes "P (ps_db s) (ps_lease s)"
  shows "R (fst (handle_failure opts w s e))"
    and "po_status (snd (handle_failure opts w s e)) \<noteq> Ps_completed"
    and "po_status (snd (handle_failure opts w s e)) = Ps_retry_scheduled \<Longrightarrow>
      il_attemptCount (ps_lease s) < px_maxAttempts opts \<and>
      (\<exists>f t db'. retry (ps_lease s) f t (pw_failureAt w) (ps_db s) = Inr db')"
    and "po_status (snd (handle_failure opts w s e)) = Ps_dead_lettered \<Longrightarrow>
      \<exists>f db'. deadLetter (pw_newId w) (ps_lease s) f (pw_failureAt w) (ps_db s) = Inr db'"
  using assms undone [OF assms] retry_ends [OF assms] dead_ends [OF assms]
  by (auto simp: handle_failure_def Let_def persistence_failed_def outcome_of_def split: sum.splits if_splits)

lemma run_keeps:
  assumes start: "P db l"
  shows "outcome_ok (\<lambda>s. P (ps_db s) (ps_lease s))
    (\<lambda>s. R (ps_db s) \<and> (\<exists>db1 l1. P db1 l1 \<and> complete (px_payloadTtlDays opts) l1 (pw_completeAt w) db1 = Inr (ps_db s)))
    (bind_res (run_stages env opts w flags h (initial_state db l)) (\<lambda>(s, context).
       bind_res (commit_stage env opts w writer context s) (complete_stage opts w)))"
proof (rule outcome_bind [OF run_stages_keeps [of _ flags env opts w h]])
  show "P (ps_db (initial_state db l)) (ps_lease (initial_state db l))" using start by (simp add: initial_state_def)
  fix x :: "('o, 'm) proc_state \<times> ('c, 'a, 'q) PipelineSettlementContext"
  assume x: "case x of (s, context) \<Rightarrow> P (ps_db s) (ps_lease s) \<and>
     (\<exists>db l. P db l \<and> (pc_providerCost context \<noteq> None \<longrightarrow> cost_enabled flags l)) \<and>
     (\<exists>db l. P db l \<and> (pc_aiu context \<noteq> None \<longrightarrow> aiu_enabled flags l))"
  obtain s cx where x': "x = (s, cx)" by (cases x)
  have "P (ps_db s) (ps_lease s)" using x by (simp add: x')
  from outcome_bind [OF commit_stage_keeps [OF this] complete_stage_ends]
  show "outcome_ok (\<lambda>s. P (ps_db s) (ps_lease s))
      (\<lambda>s. R (ps_db s) \<and> (\<exists>db1 l1. P db1 l1 \<and> complete (px_payloadTtlDays opts) l1 (pw_completeAt w) db1 = Inr (ps_db s)))
      (case x of (s, context) \<Rightarrow> bind_res (commit_stage env opts w writer context s) (complete_stage opts w))"
    by (simp add: x')
qed

lemma process_ends:
  assumes start: "P db l"
  shows "R (fst (process env opts flags h writer w l db))"
    and "po_status (snd (process env opts flags h writer w l db)) = Ps_completed \<Longrightarrow>
      \<exists>db1 l1 db2. P db1 l1 \<and> complete (px_payloadTtlDays opts) l1 (pw_completeAt w) db1 = Inr db2"
    and "po_status (snd (process env opts flags h writer w l db)) = Ps_retry_scheduled \<Longrightarrow>
      \<exists>db1 l1 f t db2. P db1 l1 \<and> il_attemptCount l1 < px_maxAttempts opts \<and> retry l1 f t (pw_failureAt w) db1 = Inr db2"
    and "po_status (snd (process env opts flags h writer w l db)) = Ps_dead_lettered \<Longrightarrow>
      \<exists>db1 l1 f db2. P db1 l1 \<and> deadLetter (pw_newId w) l1 f (pw_failureAt w) db1 = Inr db2"
proof -
  let ?run = "bind_res (run_stages env opts w flags h (initial_state db l)) (\<lambda>(s, context).
           bind_res (commit_stage env opts w writer context s) (complete_stage opts w))"
  note run = run_keeps [OF start, of opts w flags h]
  consider (failed) s e where "?run = Inl (s, e)" "P (ps_db s) (ps_lease s)"
    | (ended) s db1 l1 where "?run = Inr s" "R (ps_db s)" "P db1 l1"
        "complete (px_payloadTtlDays opts) l1 (pw_completeAt w) db1 = Inr (ps_db s)"
    using run by (cases ?run) auto
  note either = this
  show "R (fst (process env opts flags h writer w l db))"
    using either by cases (simp_all add: process_def handle_failure_ends)
  show "\<exists>db1 l1 db2. P db1 l1 \<and> complete (px_payloadTtlDays opts) l1 (pw_completeAt w) db1 = Inr db2"
    if "po_status (snd (process env opts flags h writer w l db)) = Ps_completed"
    using either that by cases (simp add: process_def handle_failure_ends, blast)
  show "\<exists>db1 l1 f t db2. P db1 l1 \<and> il_attemptCount l1 < px_maxAttempts opts \<and> retry l1 f t (pw_failureAt w) db1 = Inr db2"
    if "po_status (snd (process env opts flags h writer w l db)) = Ps_retry_scheduled"
    using either
  proof cases
    case failed
    have "po_status (snd (handle_failure opts w s e)) = Ps_retry_scheduled" using that failed(1) by (simp add: process_def)
    from handle_failure_ends(3) [OF failed(2) this] show ?thesis using failed(2) by blast
  qed (use that in \<open>simp add: process_def outcome_of_def\<close>)
  show "\<exists>db1 l1 f db2. P db1 l1 \<and> deadLetter (pw_newId w) l1 f (pw_failureAt w) db1 = Inr db2"
    if "po_status (snd (process env opts flags h writer w l db)) = Ps_dead_lettered"
    using either
  proof cases
    case failed
    have "po_status (snd (handle_failure opts w s e)) = Ps_dead_lettered" using that failed(1) by (simp add: process_def)
    from handle_failure_ends(4) [OF failed(2) this] show ?thesis using failed(2) by blast
  qed (use that in \<open>simp add: process_def outcome_of_def\<close>)
qed

end

subsection \<open>A worker that lost its lease\<close>

definition stale :: "InboxLease \<Rightarrow> 'o PipelineDb \<Rightarrow> bool" where
  "stale l db \<longleftrightarrow>
     list_all (\<lambda>r. lr_id r = il_id l \<and> lr_status r = Leased \<longrightarrow> lr_leaseOwner r \<noteq> Some (il_leaseOwner l)) (pd_inbox db)"

lemma stale_fenced: "stale l db \<Longrightarrow> r \<in> set (pd_inbox db) \<Longrightarrow> \<not> fenced (il_id l) (il_leaseOwner l) now r"
  by (auto simp: stale_def list_all_iff fenced_def)

lemma stale_writes:
  assumes "stale l db"
  shows "advance dur l stage now db = Inl (leaseLost l)" and "complete ttl l now db = Inl (leaseLost l)"
    and "retry l failure t now db = Inl (leaseLost l)" and "deadLetter newId l failure now db = Inl (leaseLost l)"
    and "commitOfficial env dur clock writer l context db = Inl (leaseLost l)"
proof -
  have none: "filter (\<lambda>r. fenced (il_id l) (il_leaseOwner l) now r \<and> p r) (pd_inbox db) = []" for now p
    using stale_fenced [OF assms] by (auto simp: filter_empty_conv)
  have empty: "filter (fenced (il_id l) (il_leaseOwner l) now) (pd_inbox db) = []" for now
    using none [of now "\<lambda>_. True"] by simp
  show "advance dur l stage now db = Inl (leaseLost l)" by (simp add: advance_def none)
  show "complete ttl l now db = Inl (leaseLost l)" by (simp add: complete_def empty)
  show "retry l failure t now db = Inl (leaseLost l)" by (simp add: retry_def fenced_write_def count_rows_def empty)
  show "deadLetter newId l failure now db = Inl (leaseLost l)" by (simp add: deadLetter_def fenced_write_def count_rows_def empty)
  show "commitOfficial env dur clock writer l context db = Inl (leaseLost l)" by (simp add: commitOfficial_def count_rows_def empty)
qed

interpretation fenced_off: guarded_run
  "\<lambda>db l. db = db0 \<and> l = l0 \<and> stale l0 db0" "\<lambda>db. db = db0" env writer
  for db0 :: "'o PipelineDb" and l0 env writer
  by unfold_locales (auto simp: stale_writes)

lemma stale_process:
  assumes "stale l db"
  shows "fst (process env opts flags h writer w l db) = db" and "po_status (snd (process env opts flags h writer w l db)) = Ps_failed"
proof -
  have start: "db = db \<and> l = l \<and> stale l db" using assms by simp
  note run = fenced_off.process_ends [OF start, of env opts flags h writer w]
  show "fst (process env opts flags h writer w l db) = db" by (rule run(1))
  show "po_status (snd (process env opts flags h writer w l db)) = Ps_failed"
    using run(2-4) by (cases "po_status (snd (process env opts flags h writer w l db))") (auto simp: stale_writes)
qed

lemma takeover_stale:
  assumes ok: "leaseInbox returning locked dur token limit now db = (db', Inr ls)"
    and k: "il_id l \<in> inbox_batch locked limit now db" and other: "il_leaseOwner l \<noteq> inbox_owner token (il_id l)"
  shows "stale l db'"
proof -
  have db': "db' = db\<lparr>pd_inbox := acquire_rows (inbox_batch locked limit now db) (inbox_owner token) (now + dur * 1000) (pd_inbox db)\<rparr>"
    using ok by (auto simp: leaseInbox_def Let_def split: if_splits)
  show ?thesis using k other by (auto simp: stale_def db' list_all_iff acquire_rows_def set_update_rows acquired_def)
qed

subsection \<open>A run keeps the invariant\<close>

interpretation kept: guarded_run
  "\<lambda>db l. db_inv db \<and> issued_fits (pd_inbox db) l" "db_inv :: 'o PipelineDb \<Rightarrow> bool" env writer
  for env writer
proof unfold_locales
  fix db db' :: "'o PipelineDb" and l l' stage dur now
  assume P: "db_inv db \<and> issued_fits (pd_inbox db) l" and st: "stage \<in> set checkpoint_stages"
    and a: "advance dur l stage now db = Inr (db', l')"
  have box: "inbox_inv (pd_inbox db) (pd_registry db)" using P by (simp add: db_inv_def)
  have stage: "stage \<notin> {Stage_completed, Stage_dead_letter}" using st by (auto simp: checkpoint_stages_def)
  note c = advance_inv [OF box conjunct2 [OF P] stage a]
  show "db_inv db' \<and> issued_fits (pd_inbox db') l'"
    using db_inv_frame [OF conjunct1 [OF P] c(1,3-5) advance_deadLetters [OF a]] c(2) by simp
next
  fix db db' :: "'o PipelineDb" and l l' dur clock cx m
  assume P: "db_inv db \<and> issued_fits (pd_inbox db) l" and a: "commitOfficial env dur clock writer l cx db = Inr (db', l', m)"
  have box: "inbox_inv (pd_inbox db) (pd_registry db)" "outbox_inv (pd_outbox db) (pd_nextOutboxId db)" using P by (simp_all add: db_inv_def)
  note c = commit_inv [OF box conjunct2 [OF P] a]
  have "db_inv db' \<and> idents (pd_inbox db) \<subseteq> idents (pd_inbox db')"
    by (rule db_invI [OF conjunct1 [OF P] c(1,3)]) (use c in simp_all)
  then show "db_inv db' \<and> issued_fits (pd_inbox db') l'" using c(4) by simp
next
  fix db db' :: "'o PipelineDb" and l failure t now
  assume P: "db_inv db \<and> issued_fits (pd_inbox db) l" and a: "retry l failure t now db = Inr db'"
  have box: "inbox_inv (pd_inbox db) (pd_registry db)" using P by (simp add: db_inv_def)
  have d: "pd_deadLetters db' = pd_deadLetters db" using a by (auto simp: retry_def split: option.splits)
  show "db_inv db'" using db_inv_frame [OF conjunct1 [OF P] retry_inv [OF box conjunct2 [OF P] a] d] by simp
next
  fix db db' :: "'o PipelineDb" and l
  assume P: "db_inv db \<and> issued_fits (pd_inbox db) l"
  show "db_inv db'" if "complete ttl l now db = Inr db'" for ttl now using complete_db [OF _ _ that] P by simp
  show "db_inv db'" if "deadLetter newId l failure now db = Inr db'" for newId failure now using deadLetter_db [OF _ _ that] P by simp
  show "db_inv db" using P by simp
qed

lemmas process_db_inv = kept.process_ends(1)

subsection \<open>A run keeps the attempt counts\<close>

definition attempts :: "'o PipelineDb \<Rightarrow> (string \<times> int) list" where
  "attempts db = map (\<lambda>r. (lr_id r, lr_attemptCount r)) (pd_inbox db)"

lemma attempts_update:
  "(\<And>r. lr_id (g r) = lr_id r \<and> lr_attemptCount (g r) = lr_attemptCount r) \<Longrightarrow> pd_inbox db' = update_rows p g (pd_inbox db) \<Longrightarrow>
   attempts db' = attempts db"
  unfolding attempts_def by (simp add: map_update_rows_frame)

lemma advance_attempts:
  assumes d: "distinct (map lr_id (pd_inbox db))" and ok: "advance dur l stage now db = Inr (db', l')"
  shows "attempts db' = attempts db" and "il_id l' = il_id l" and "(il_id l', il_attemptCount l') \<in> set (attempts db)"
proof -
  obtain p r0 where f: "filter p (pd_inbox db) = [r0]"
    and p: "\<And>r. p r \<Longrightarrow> fenced (il_id l) (il_leaseOwner l) now r"
    and map: "mapLease (pd_registry db) (advanced dur stage now r0) = Inr l'"
    and db': "db' = set_registry (il_applicationId l) (il_eventId l) (\<lambda>g. g\<lparr>rg_processingStage := stage\<rparr>)
       (db\<lparr>pd_inbox := update_rows p (advanced dur stage now) (pd_inbox db)\<rparr>)"
    by (rule advance_effect [OF ok]) (rule that)
  show "attempts db' = attempts db"
    by (rule attempts_update [of "advanced dur stage now" db' p]) (simp_all add: db' advanced_def)
  have "r0 \<in> set (filter p (pd_inbox db))" using f by simp
  then have r0: "r0 \<in> set (pd_inbox db)" "fenced (il_id l) (il_leaseOwner l) now r0" using p by auto
  show "il_id l' = il_id l" using mapLease_fields(1) [OF map] fenced_id [OF r0(2)] by (simp add: advanced_def)
  show "(il_id l', il_attemptCount l') \<in> set (attempts db)"
    using mapLease_fields(1,4) [OF map] r0(1) by (auto simp: advanced_def attempts_def)
qed

lemma attempts_ids: "map fst (attempts db) = map lr_id (pd_inbox db)"
  by (simp add: attempts_def)

definition counted :: "(string \<times> int) list \<Rightarrow> string \<Rightarrow> int \<Rightarrow> 'o PipelineDb \<Rightarrow> InboxLease \<Rightarrow> bool" where
  "counted cs k n db l \<longleftrightarrow> attempts db = cs \<and> distinct (map fst cs) \<and> (k, n) \<in> set cs \<and> il_id l = k \<and> il_attemptCount l = n"

lemma counted_advance:
  assumes P: "counted cs k n db l" and ok: "advance dur l stage now db = Inr (db', l')"
  shows "counted cs k n db' l'"
proof -
  have d: "distinct (map lr_id (pd_inbox db))" using P attempts_ids [of db] by (simp add: counted_def)
  note a = advance_attempts [OF d ok]
  have "(k, il_attemptCount l') \<in> set cs" using a(2,3) P by (simp add: counted_def)
  then have "il_attemptCount l' = n" using P by (auto simp: counted_def dest: eq_key_imp_eq_value)
  then show ?thesis using P a(1,2) by (simp add: counted_def)
qed

interpretation counts: guarded_run "counted cs k n" "\<lambda>db. attempts db = cs" env writer
  for cs k n env writer
proof unfold_locales
  fix db db' :: "'a PipelineDb" and l l' dur clock cx m
  assume P: "counted cs k n db l" and ok: "commitOfficial env dur clock writer l cx db = Inr (db', l', m)"
  obtain tables additional db1 cur base where
    a1: "advance dur l Stage_official_committed (cc_committedAt clock) (db\<lparr>pd_official := tables\<rparr>) = Inr (db1, cur)"
    and a2: "advance dur cur Stage_outbox_created (cc_createdAt clock)
       (fold (add_outbox (pc_applicationId cx) (cc_createdAt clock)) (base @ additional) db1) = Inr (db', l')"
    by (rule commitOfficial_effect [OF ok]) (rule that)
  have "counted cs k n (db\<lparr>pd_official := tables\<rparr>) l" using P by (simp add: counted_def attempts_def)
  from counted_advance [OF this a1]
  have "counted cs k n (fold (add_outbox (pc_applicationId cx) (cc_createdAt clock)) (base @ additional) db1) cur"
    by (simp add: counted_def attempts_def)
  then show "counted cs k n db' l'" by (rule counted_advance [OF _ a2])
next
  fix db db' :: "'a PipelineDb" and l ttl now
  assume P: "counted cs k n db l" and ok: "complete ttl l now db = Inr db'"
  have "pd_inbox db' = update_rows (fenced (il_id l) (il_leaseOwner l) now) (completed_row ttl now) (pd_inbox db)"
    by (rule complete_effect [OF ok])
  then have "attempts db' = attempts db" by (rule attempts_update [rotated]) (simp add: completed_row_def)
  then show "attempts db' = cs" using P by (simp add: counted_def)
next
  fix db db' :: "'a PipelineDb" and l failure t now
  assume P: "counted cs k n db l" and ok: "retry l failure t now db = Inr db'"
  have "pd_inbox db' = update_rows (fenced (il_id l) (il_leaseOwner l) now) (retried_row t (error_text failure)) (pd_inbox db)"
    using ok by (auto simp: retry_def fenced_write_def split: option.splits if_splits)
  then have "attempts db' = attempts db" by (rule attempts_update [rotated]) (simp add: retried_row_def)
  then show "attempts db' = cs" using P by (simp add: counted_def)
next
  fix db db' :: "'a PipelineDb" and l newId failure now
  assume P: "counted cs k n db l" and ok: "deadLetter newId l failure now db = Inr db'"
  have "pd_inbox db' = update_rows (fenced (il_id l) (il_leaseOwner l) now) (dead_row (error_text failure)) (pd_inbox db)"
    using ok by (auto simp: deadLetter_def Let_def fenced_write_def split: option.splits if_splits)
  then have "attempts db' = attempts db" by (rule attempts_update [rotated]) (simp add: dead_row_def)
  then show "attempts db' = cs" using P by (simp add: counted_def)
qed (auto simp: counted_advance, simp add: counted_def)

subsection \<open>Rounds that end in a retry\<close>

text \<open>
  \<open>failed_rounds k n db db'\<close>: from \<open>db\<close> to \<open>db'\<close> the event in row \<open>k\<close> was leased and run \<open>n\<close> times,
  each time ending in a scheduled retry; in between, whatever leaves the row's attempt count
  alone may have happened.
\<close>

inductive failed_rounds ::
  "'e snapshot_env_scheme \<Rightarrow> processor_options \<Rightarrow> PipelineRuntimeFlags \<Rightarrow> ('o, 'c, 'a, 'q) PipelineStageHandlers \<Rightarrow>
   ('o, 'c, 'a, 'q, 'm) official_writer \<Rightarrow> string \<Rightarrow> nat \<Rightarrow> 'o PipelineDb \<Rightarrow> 'o PipelineDb \<Rightarrow> bool"
  for env opts flags h writer k where
  start: "failed_rounds env opts flags h writer k 0 db db"
| other: "failed_rounds env opts flags h writer k n db db1 \<Longrightarrow> distinct (map lr_id (pd_inbox db2)) \<Longrightarrow>
    map_of (attempts db2) k = map_of (attempts db1) k \<Longrightarrow> failed_rounds env opts flags h writer k n db db2"
| round: "failed_rounds env opts flags h writer k n db db1 \<Longrightarrow>
    leaseInbox returning locked dur token limit now db1 = (db2, Inr ls) \<Longrightarrow> \<forall>xs. set (returning xs) = set xs \<Longrightarrow>
    l \<in> set ls \<Longrightarrow> il_id l = k \<Longrightarrow> process env opts flags h writer w l db2 = (db3, out) \<Longrightarrow>
    po_status out = Ps_retry_scheduled \<Longrightarrow> failed_rounds env opts flags h writer k (Suc n) db db3"

lemma leaseInbox_attempts:
  assumes d: "distinct (map lr_id (pd_inbox db))" and ok: "leaseInbox returning locked dur token limit now db = (db', Inr ls)"
    and ret: "\<forall>xs. set (returning xs) = set xs" and l: "l \<in> set ls"
  shows "counted (attempts db') (il_id l) (il_attemptCount l) db' l"
    and "map_of (attempts db) (il_id l) = Some (il_attemptCount l - 1)"
proof -
  let ?ks = "inbox_batch locked limit now db"
  let ?rows = "acquire_rows ?ks (inbox_owner token) (now + dur * 1000) (pd_inbox db)"
  have db': "db' = db\<lparr>pd_inbox := ?rows\<rparr>"
    and m: "map_results (mapLease (pd_registry db)) (returning (filter (\<lambda>r. lr_id r \<in> ?ks) ?rows)) = Inr ls"
    using ok by (auto simp: leaseInbox_def Let_def split: if_splits)
  obtain r where r: "r \<in> set ?rows" "lr_id r \<in> ?ks" and map: "mapLease (pd_registry db) r = Inr l"
    using map_results_Inr [OF m l] ret by auto
  note f = mapLease_fields(1,4) [OF map]
  have "(il_id l, il_attemptCount l) \<in> set (attempts db')" using r(1) f by (auto simp: attempts_def db')
  moreover have "distinct (map fst (attempts db'))" using d by (simp add: attempts_ids db')
  ultimately show "counted (attempts db') (il_id l) (il_attemptCount l) db' l" by (simp add: counted_def)
  obtain r0 where "r0 \<in> set (pd_inbox db)" "r = acquired (inbox_owner token) (now + dur * 1000) r0"
    using r by (auto simp: acquire_rows_def set_update_rows split: if_splits)
  then have "(il_id l, il_attemptCount l - 1) \<in> set (attempts db)" using f by (auto simp: attempts_def acquired_def)
  then show "map_of (attempts db) (il_id l) = Some (il_attemptCount l - 1)"
    using d by (simp add: attempts_ids)
qed

lemma failed_rounds_bound:
  assumes "failed_rounds env opts flags h writer k n db db'" and "distinct (map lr_id (pd_inbox db))" and "map_of (attempts db) k = Some a"
  shows "distinct (map lr_id (pd_inbox db')) \<and> map_of (attempts db') k = Some (a + int n) \<and> (0 < n \<longrightarrow> a + int n < px_maxAttempts opts)"
  using assms
proof (induction rule: failed_rounds.induct)
  case (round n db db1 returning locked dur token limit now db2 ls l w db3 out)
  have IH: "distinct (map lr_id (pd_inbox db1))" "map_of (attempts db1) k = Some (a + int n)"
    using round.IH round.prems by simp_all
  note c = leaseInbox_attempts [OF IH(1) round.hyps(2,3,4)]
  have "il_attemptCount l = a + int (Suc n)" using c(2) IH(2) round.hyps(5) by simp
  then have P: "counted (attempts db2) k (a + int (Suc n)) db2 l" using c(1) by (simp only: round.hyps(5))
  note run = counts.process_ends [OF P, of env opts flags h writer w, unfolded round.hyps(6) fst_conv snd_conv]
  have bound: "a + int (Suc n) < px_maxAttempts opts" using run(3) [OF round.hyps(7)] by (auto simp: counted_def)
  have "distinct (map fst (attempts db3))" "map_of (attempts db3) k = Some (a + int (Suc n))"
    using run(1) P by (simp_all add: counted_def)
  then show ?case using bound by (simp add: attempts_ids)
qed simp_all

subsection \<open>Replays of reconciliation\<close>

definition replaying :: "PipelineReplayIntent \<Rightarrow> 'o PipelineDb \<Rightarrow> InboxLease \<Rightarrow> bool" where
  "replaying i db l \<longleftrightarrow>
     il_replayIntent l = Some i \<and> stageRank (il_stage l) < stageRank Stage_outbox_created \<and>
     list_all (\<lambda>r. lr_id r = il_id l \<longrightarrow> parsePipelineReplayIntent (ib_replayIntentJson r) = Inr (Some i)) (pd_inbox db)"

lemma mapLease_intent:
  "mapLease gs r = Inr l \<Longrightarrow> parsePipelineReplayIntent (ib_replayIntentJson r) = Inr (il_replayIntent l)"
  by (auto simp: mapLease_def split: json.splits option.splits)

interpretation replays: checkpointed "replaying i :: 'o PipelineDb \<Rightarrow> InboxLease \<Rightarrow> bool" for i
proof
  fix db db' :: "'o PipelineDb" and l l' stage dur now
  assume P: "replaying i db l" and st: "stage \<in> set checkpoint_stages" and ok: "advance dur l stage now db = Inr (db', l')"
  obtain p r0 where f: "filter p (pd_inbox db) = [r0]"
    and p: "\<And>r. p r \<Longrightarrow> fenced (il_id l) (il_leaseOwner l) now r"
    and map: "mapLease (pd_registry db) (advanced dur stage now r0) = Inr l'"
    and db': "db' = set_registry (il_applicationId l) (il_eventId l) (\<lambda>g. g\<lparr>rg_processingStage := stage\<rparr>)
       (db\<lparr>pd_inbox := update_rows p (advanced dur stage now) (pd_inbox db)\<rparr>)"
    by (rule advance_effect [OF ok]) (rule that)
  have "r0 \<in> set (filter p (pd_inbox db))" using f by simp
  then have r0: "r0 \<in> set (pd_inbox db)" "lr_id r0 = il_id l" using p by (auto dest: fenced_id)
  have keep: "ib_replayIntentJson (advanced dur stage now r) = ib_replayIntentJson r" "lr_id (advanced dur stage now r) = lr_id r" for r
    by (simp_all add: advanced_def)
  have "il_id l' = il_id l" "il_stage l' = stage" using mapLease_fields(1,3) [OF map] r0(2) by (simp_all add: advanced_def)
  moreover have "parsePipelineReplayIntent (ib_replayIntentJson r0) = Inr (Some i)" using P r0 by (auto simp: replaying_def list_all_iff)
  then have "il_replayIntent l' = Some i" using mapLease_intent [OF map] keep(1) by simp
  moreover have "stageRank stage < stageRank Stage_outbox_created"
    using st by (auto simp: checkpoint_stages_def stageRank_def PIPELINE_STAGES_def)
  moreover have "list_all (\<lambda>r. lr_id r = il_id l \<longrightarrow> parsePipelineReplayIntent (ib_replayIntentJson r) = Inr (Some i)) (pd_inbox db')"
    using P by (auto simp: db' replaying_def list_all_iff set_update_rows keep)
  ultimately show "replaying i db' l'" by (simp add: replaying_def)
qed

lemma intent_leaves_one_out:
  assumes "parsePipelineReplayIntent j = Inr (Some i)" and "il_replayIntent l = Some i" and "il_replayIntent l' = Some i"
  shows "\<not> cost_enabled flags l \<or> \<not> aiu_enabled flags l'"
proof -
  have "ri_providerCost i \<noteq> Some ''rerate'' \<or> ri_aiu i \<noteq> Some ''backfill''"
    using assms(1)
    by (auto simp: parsePipelineReplayIntent_def Let_def RECONCILIATION_REPLAY_ACTIONS_def split: option.splits json.splits if_splits)
  then show ?thesis using assms(2,3) by (auto simp: cost_enabled_def aiu_enabled_def)
qed

lemma commit_needs_both:
  assumes "pc_providerCost context = None \<or> pc_aiu context = None"
  shows "\<exists>e. commitOfficial env dur clock (commit we) l context db = Inl e"
proof -
  have "\<exists>e. commit we context db = Inl e"
    using assms by (cases "pc_providerCost context") (auto simp: commit_def costArtifact_def aiuArtifact_def)
  then show ?thesis by (auto simp: commitOfficial_def)
qed

lemma current_lease_replays:
  assumes d: "distinct (map lr_id (pd_inbox db))" and r: "r \<in> set (pd_inbox db)" and l: "mapLease (pd_registry db) r = Inr l"
    and i: "il_replayIntent l = Some i" and st: "stageRank (il_stage l) < stageRank Stage_outbox_created"
  shows "replaying i db l"
proof -
  have "x = r" if "x \<in> set (pd_inbox db)" "lr_id x = il_id l" for x
    using distinct_map_inj [OF d that(1) r] that(2) mapLease_fields(1) [OF l] by simp
  then show ?thesis using i st mapLease_intent [OF l] by (auto simp: replaying_def list_all_iff)
qed

lemma replay_never_completes:
  assumes P: "replaying i db l" and j: "parsePipelineReplayIntent j = Inr (Some i)"
  shows "po_status (snd (process env opts flags h (commit we) w l db)) \<noteq> Ps_completed"
proof -
  let ?s0 = "initial_state db l :: (OfficialTables, PipelineOfficialMetrics) proc_state"
  have P0: "replaying i (ps_db ?s0) (ps_lease ?s0)" using P by (simp add: initial_state_def)
  note run = replays.run_stages_keeps [OF P0, of flags env opts w h]
  show ?thesis
  proof (cases "run_stages env opts w flags h ?s0")
    case (Inl se)
    then show ?thesis
      by (cases se) (auto simp: process_def handle_failure_def Let_def persistence_failed_def outcome_of_def split: sum.splits)
  next
    case (Inr sc)
    obtain s cx where sc: "sc = (s, cx)" by (cases sc)
    have all: "replaying i (ps_db s) (ps_lease s) \<and>
       (\<exists>db l. replaying i (db :: OfficialTables PipelineDb) l \<and> (pc_providerCost cx \<noteq> None \<longrightarrow> cost_enabled flags l)) \<and>
       (\<exists>db l. replaying i (db :: OfficialTables PipelineDb) l \<and> (pc_aiu cx \<noteq> None \<longrightarrow> aiu_enabled flags l))"
      using run unfolding Inr sc by simp
    have "pc_providerCost cx = None \<or> pc_aiu cx = None"
      using all intent_leaves_one_out [OF j] by (auto simp: replaying_def)
    from commit_needs_both [OF this, of env "px_leaseDurationMs opts" "pw_commit w" we "ps_lease s" "ps_db s"]
    obtain s' e where "commit_stage env opts w (commit we) cx s = Inl (s', e)"
      using all by (auto simp: commit_stage_def replaying_def)
    then show ?thesis using Inr sc
      by (auto simp: process_def handle_failure_def Let_def persistence_failed_def outcome_of_def split: sum.splits)
  qed
qed

subsection \<open>A run that nothing disturbs\<close>

text \<open>The worker's lease names the row it holds until \<open>E\<close> at least; \<open>us\<close>, \<open>key\<close> and \<open>payload\<close> are
  the users, the identity and the payload of the event the run started with.\<close>

definition holds :: "int \<Rightarrow> UserProfile list \<Rightarrow> string \<times> string \<Rightarrow> json \<Rightarrow> 'o PipelineDb \<Rightarrow> InboxLease \<Rightarrow> bool" where
  "holds E us key payload db l \<longleftrightarrow>
     db_inv db \<and> pd_users db = us \<and> il_key l = key \<and> il_payload l = payload \<and>
     (\<exists>r \<in> set (pd_inbox db). lr_id r = il_id l \<and> ib_key r = key \<and> ib_payloadJson r = Some payload \<and>
        lr_status r = Leased \<and> lr_leaseOwner r = Some (il_leaseOwner l) \<and>
        (\<exists>e. lr_leaseExpiresAt r = Some e \<and> E \<le> e))"

lemma filter_eq_single: "distinct xs \<Longrightarrow> r \<in> set xs \<Longrightarrow> filter (\<lambda>x. x = r) xs = [r]"
proof (induction xs)
  case (Cons x xs)
  then show ?case by (cases "x = r") (auto simp: filter_empty_conv)
qed simp

lemma filter_one:
  assumes d: "distinct (map lr_id rows)" and r: "r \<in> set rows" and "p r" and p: "\<forall>x. p x \<longrightarrow> lr_id x = lr_id r"
  shows "filter p rows = [r]"
proof -
  have "p x \<longleftrightarrow> x = r" if x: "x \<in> set rows" for x
  proof
    assume "p x"
    then have "lr_id x = lr_id r" using p by simp
    then show "x = r" by (rule distinct_map_inj [OF d x r])
  qed (use \<open>p r\<close> in simp)
  then have "filter p rows = filter (\<lambda>x. x = r) rows" by (rule filter_cong [OF refl])
  moreover have "distinct rows" using d by (simp add: distinct_map)
  ultimately show ?thesis using r by (simp add: filter_eq_single)
qed

lemma holdsE:
  assumes "holds E us key payload db l"
  obtains r where "r \<in> set (pd_inbox db)" "lr_id r = il_id l" "ib_key r = il_key l" "ib_payloadJson r = Some payload" "row_local r"
    "\<And>now. now < E \<Longrightarrow> fenced (il_id l) (il_leaseOwner l) now r"
    "\<And>now p. now < E \<Longrightarrow> p r \<Longrightarrow> filter (\<lambda>x. fenced (il_id l) (il_leaseOwner l) now x \<and> p x) (pd_inbox db) = [r]"
    "registry_of (ib_applicationId r) (ib_eventId r) (pd_registry db) \<noteq> None" "issued_fits (pd_inbox db) l"
    "lr_leaseOwner r = Some (il_leaseOwner l)" "lr_status r = Leased" "\<exists>e. lr_leaseExpiresAt r = Some e \<and> E \<le> e"
proof -
  obtain r e where r: "r \<in> set (pd_inbox db)" "lr_id r = il_id l" "ib_key r = il_key l" "ib_payloadJson r = Some payload"
    "lr_status r = Leased" "lr_leaseOwner r = Some (il_leaseOwner l)" "lr_leaseExpiresAt r = Some e" "E \<le> e"
    using assms by (auto simp: holds_def)
  have inv: "inbox_inv (pd_inbox db) (pd_registry db)" using assms by (simp add: holds_def db_inv_def)
  have f: "fenced (il_id l) (il_leaseOwner l) now r" if "now < E" for now using r that by (simp add: fenced_def)
  have one: "filter (\<lambda>x. fenced (il_id l) (il_leaseOwner l) now x \<and> p x) (pd_inbox db) = [r]" if "now < E" "p r" for now p
    using inv f [OF that(1)] that(2) r(2) by (intro filter_one [OF _ r(1)]) (auto simp: inbox_inv_def dest: fenced_id)
  have "ib_key r \<in> rg_key ` set (pd_registry db)" using inv r(1) by (force simp: inbox_inv_def)
  then have reg: "registry_of (ib_applicationId r) (ib_eventId r) (pd_registry db) \<noteq> None" by (simp add: registry_of_None ib_key_def)
  have fits: "issued_fits (pd_inbox db) l" using r(1-3) by (auto simp: issued_fits_def idents_def intro!: image_eqI [of _ _ r])
  have loc: "row_local r" using inv r(1) by (simp add: inbox_inv_def)
  show thesis by (rule that [OF r(1-4) loc f one reg fits r(6,5)]) (use r(7,8) in simp_all)
qed

lemma mapLease_succeeds:
  assumes "row_local r" and "ib_payloadJson r = Some payload"
  shows "\<exists>l. mapLease gs r = Inr l \<and> il_payload l = payload \<and> il_applicationId l = ib_applicationId r \<and> il_eventId l = ib_eventId r"
proof -
  obtain ms i where "payload = JObj ms" "parsePipelineReplayIntent (ib_replayIntentJson r) = Inr i"
    using assms by (auto simp: row_local_def)
  then show ?thesis using assms(2) by (simp add: mapLease_def)
qed

lemma advance_succeeds:
  assumes h: "holds E us key payload db l" and now: "now < E" and st: "stage \<notin> {Stage_completed, Stage_dead_letter}"
  shows "\<exists>db' l'. advance dur l stage now db = Inr (db', l') \<and> holds E us key payload db' l' \<and> pd_outbox db' = pd_outbox db"
proof -
  obtain r where r: "r \<in> set (pd_inbox db)" "lr_id r = il_id l" "ib_key r = il_key l" "ib_payloadJson r = Some payload" "row_local r"
    and one: "\<And>now p. now < E \<Longrightarrow> p r \<Longrightarrow> filter (\<lambda>x. fenced (il_id l) (il_leaseOwner l) now x \<and> p x) (pd_inbox db) = [r]"
    and f: "\<And>now. now < E \<Longrightarrow> fenced (il_id l) (il_leaseOwner l) now r"
    and reg: "registry_of (ib_applicationId r) (ib_eventId r) (pd_registry db) \<noteq> None" and fits: "issued_fits (pd_inbox db) l"
    and own: "lr_leaseOwner r = Some (il_leaseOwner l)" "lr_status r = Leased" "\<exists>e. lr_leaseExpiresAt r = Some e \<and> E \<le> e"
    by (rule holdsE [OF h]) (rule that)
  let ?r = "advanced dur stage now r" and ?p = "\<lambda>x. fenced (il_id l) (il_leaseOwner l) now x \<and>
     registry_of (ib_applicationId x) (ib_eventId x) (pd_registry db) \<noteq> None"
  have keep: "ib_payloadJson ?r = Some payload" "ib_applicationId ?r = ib_applicationId r" "ib_eventId ?r = ib_eventId r"
    "lr_id ?r = lr_id r" "lr_leaseOwner ?r = lr_leaseOwner r" "lr_status ?r = lr_status r" using r(4) by (simp_all add: advanced_def)
  obtain l' where l': "mapLease (pd_registry db) ?r = Inr l'" "il_payload l' = payload" "il_applicationId l' = ib_applicationId r" "il_eventId l' = ib_eventId r"
    using mapLease_succeeds [OF row_local_advanced [OF r(5) own(2) st] keep(1)] keep by auto
  have "filter ?p (pd_inbox db) = [r]" by (rule one [OF now]) (rule reg)
  then obtain db' where ok: "advance dur l stage now db = Inr (db', l')" and db': "pd_users db' = pd_users db"
      "pd_inbox db' = update_rows ?p (advanced dur stage now) (pd_inbox db)"
    using l'(1) by (auto simp: advance_def Let_def)
  have box: "inbox_inv (pd_inbox db) (pd_registry db)" using h by (simp add: holds_def db_inv_def)
  note c = advance_inv [OF box fits st ok]
  have inv: "db_inv db" using h by (simp add: holds_def)
  have "db_inv db'" using db_inv_frame [OF inv c(1,3-5) advance_deadLetters [OF ok]] by simp
  moreover have "?r \<in> set (pd_inbox db')" using r(1) reg f [OF now] by (auto simp: db'(2) set_update_rows image_iff)
  moreover have "il_leaseOwner l' = il_leaseOwner l" using mapLease_fields(5) [OF l'(1)] own(1) keep(5) by simp
  moreover have "\<exists>e. lr_leaseExpiresAt ?r = Some e \<and> E \<le> e" using own(3) by (auto simp: advanced_def)
  moreover have "il_key l' = key"
    using h r(3) l'(3,4) by (simp add: holds_def il_key_def ib_key_def)
  moreover have "ib_key ?r = ib_key r" by (simp add: ib_key_def keep)
  ultimately have "holds E us key payload db' l'"
    using h r l' keep own db'(1) mapLease_fields(1) [OF l'(1)]
    unfolding holds_def by (auto simp: ib_key_def intro!: bexI [of _ ?r])
  then show ?thesis using ok c(4) by blast
qed

lemma run_stage_succeeds:
  assumes h: "holds E us key payload (ps_db s) (ps_lease s)" and now: "pw_checkpointAt w target < E"
    and st: "target \<in> set checkpoint_stages" and c: "computed = Inr x"
  shows "\<exists>s' did. run_stage opts w active target computed s = Inr (s', x, did) \<and> holds E us key payload (ps_db s') (ps_lease s')"
proof (cases "stageRank target \<le> stageRank (il_stage (ps_lease s))")
  case True
  then show ?thesis using h by (intro exI [of _ "s\<lparr>ps_active := active\<rparr>"] exI [of _ False]) (simp add: run_stage_def c advanceIfNeeded_def Let_def)
next
  case False
  have "target \<notin> {Stage_completed, Stage_dead_letter}" using st by (auto simp: checkpoint_stages_def)
  from advance_succeeds [OF h now this, of "px_leaseDurationMs opts"] False show ?thesis
    by (auto simp: run_stage_def c advanceIfNeeded_def checkpoint_def Let_def)
qed

subsection \<open>A first run\<close>

text \<open>No replay intent, the tables of rating and quota as given, and the event's registry entry naming its user and reservation.\<close>

definition first_run ::
  "'o \<Rightarrow> string \<times> string \<Rightarrow> string \<times> string option \<Rightarrow> 'o PipelineDb \<Rightarrow> InboxLease \<Rightarrow> bool" where
  "first_run T event owner db l \<longleftrightarrow>
     pd_official db = T \<and> il_replayIntent l = None \<and>
     list_all (\<lambda>r. lr_id r = il_id l \<longrightarrow> parsePipelineReplayIntent (ib_replayIntentJson r) = Inr None) (pd_inbox db) \<and>
     map_option (\<lambda>g. (rg_applicationUserId g, rg_reservationId g)) (registry_of (fst event) (snd event) (pd_registry db)) = Some owner"

lemma registry_of_update:
  assumes "\<And>g. rg_key (h g) = rg_key g" and "\<And>g. f (h g) = f g"
  shows "map_option f (registry_of a e (update_rows p h gs)) = map_option f (registry_of a e gs)"
proof -
  have "rg_eventId (h g) = rg_eventId g" "rg_applicationId (h g) = rg_applicationId g" for g using assms(1) [of g] by (simp_all add: rg_key_def)
  then show ?thesis using assms(2) by (induction gs) (auto simp: registry_of_def find_unique_def update_rows_def)
qed

interpretation first_runs: checkpointed "first_run T event owner" for T event owner
proof
  fix db db' :: "'a PipelineDb" and l l' stage dur now
  assume P: "first_run T event owner db l" and ok: "advance dur l stage now db = Inr (db', l')"
  obtain p r0 where f: "filter p (pd_inbox db) = [r0]" and p: "\<And>r. p r \<Longrightarrow> fenced (il_id l) (il_leaseOwner l) now r"
    and map: "mapLease (pd_registry db) (advanced dur stage now r0) = Inr l'"
    and db': "db' = set_registry (il_applicationId l) (il_eventId l) (\<lambda>g. g\<lparr>rg_processingStage := stage\<rparr>)
       (db\<lparr>pd_inbox := update_rows p (advanced dur stage now) (pd_inbox db)\<rparr>)"
    by (rule advance_effect [OF ok]) (rule that)
  have "r0 \<in> set (filter p (pd_inbox db))" using f by simp
  then have r0: "r0 \<in> set (pd_inbox db)" "lr_id r0 = il_id l" using p by (auto dest: fenced_id)
  have keep: "ib_replayIntentJson (advanced dur stage now r) = ib_replayIntentJson r" "lr_id (advanced dur stage now r) = lr_id r" for r
    by (simp_all add: advanced_def)
  have "parsePipelineReplayIntent (ib_replayIntentJson r0) = Inr None" using P r0 by (auto simp: first_run_def list_all_iff)
  then have "il_replayIntent l' = None" "il_id l' = il_id l"
    using mapLease_intent [OF map] mapLease_fields(1) [OF map] r0(2) by (simp_all add: keep)
  moreover have "list_all (\<lambda>r. lr_id r = il_id l \<longrightarrow> parsePipelineReplayIntent (ib_replayIntentJson r) = Inr None) (pd_inbox db')"
    using P by (auto simp: db' first_run_def list_all_iff set_update_rows keep)
  moreover have "map_option (\<lambda>g. (rg_applicationUserId g, rg_reservationId g)) (registry_of (fst event) (snd event) (pd_registry db')) = Some owner"
    unfolding db' set_registry_simps using P by (subst registry_of_update) (simp_all add: rg_key_def first_run_def)
  ultimately show "first_run T event owner db' l'" using P by (simp add: first_run_def db')
qed

definition ready :: "int \<Rightarrow> UserProfile list \<Rightarrow> string \<times> string \<Rightarrow> json \<Rightarrow> 'o \<Rightarrow> string \<times> string \<Rightarrow> string \<times> string option \<Rightarrow> ('o, 'm) proc_state \<Rightarrow> bool" where
  "ready E us key payload T event owner s \<longleftrightarrow>
     holds E us key payload (ps_db s) (ps_lease s) \<and> first_run T event owner (ps_db s) (ps_lease s)"

lemma ready_fields:
  assumes "ready E us key payload T event owner s"
  shows "pd_official (ps_db s) = T" "il_replayIntent (ps_lease s) = None" "il_applicationId (ps_lease s) = fst key" "il_payload (ps_lease s) = payload"
  using assms by (auto simp: ready_def holds_def first_run_def il_key_def)

lemma ready_stage:
  assumes r: "ready E us key payload T event owner s" and now: "\<forall>stage. pw_checkpointAt w stage < E"
    and st: "target \<in> set checkpoint_stages" and c: "computed = Inr x"
  shows "\<exists>s' did. run_stage opts w active target computed s = Inr (s', x, did) \<and> ready E us key payload T event owner s'"
proof -
  obtain s' did where s': "run_stage opts w active target computed s = Inr (s', x, did)" "holds E us key payload (ps_db s') (ps_lease s')"
    using run_stage_succeeds [where opts = opts and active = active, OF _ _ st c] r now unfolding ready_def by blast
  have "first_run T event owner (ps_db s) (ps_lease s)" using r by (simp add: ready_def)
  from first_runs.run_stage_keeps [OF this st, of computed opts w active] have "first_run T event owner (ps_db s') (ps_lease s')"
    by (simp add: s')
  then show ?thesis using s' by (auto simp: ready_def)
qed

lemma ready_note [simp]: "ready E us key payload T event owner (note_unmapped res did s) = ready E us key payload T event owner s"
  by (simp add: ready_def note_unmapped_def)

lemma run_stages_succeed:
  assumes h0: "ready E us key payload T event owner s0" and clock: "\<forall>stage. pw_checkpointAt w stage < E"
    and parse: "parse_event env w payload = Inr n"
    and res: "\<And>db. pd_official db = T \<Longrightarrow> h_resolveModel h db (fst key) n = Inr res"
    and cost: "\<And>db. pd_official db = T \<Longrightarrow> h_rateProviderCost h db (fst key) n res = Inr cost"
    and aiu: "\<And>db. pd_official db = T \<Longrightarrow> h_rateAiu h db (fst key) n res = Inr aiu"
    and quota: "h_settleQuota h (fst key) n aiu = Inr q"
    and flags: "fl_modelResolution flags" "fl_providerCost flags" "fl_aiu flags" "fl_quota flags"
  shows "\<exists>s. run_stages env opts w flags h s0 = Inr (s,
      \<lparr>pc_applicationId = fst key, pc_event = payload, pc_normalized = n, pc_resolution = res, pc_providerCost = Some cost,
       pc_aiu = Some aiu, pc_quota = Some q, pc_replayIntent = None\<rparr>) \<and> ready E us key payload T event owner s"
proof -
  note st = ready_stage [OF _ clock]
  obtain s1 d1 where 1: "run_stage opts w Metric_normalization Stage_normalized (parse_event env w (il_payload (ps_lease s0))) s0 = Inr (s1, n, d1)"
    and r1: "ready E us key payload T event owner s1"
    using st [OF h0, of Stage_normalized _ n opts Metric_normalization] parse ready_fields(4) [OF h0] by (auto simp: checkpoint_stages_def)
  have c2: "resolve_stage env flags h n s1 = Inr res" using flags(1) res ready_fields [OF r1] by (simp add: resolve_stage_def Let_def)
  obtain s2' d2 where 2: "run_stage opts w Metric_model_resolution Stage_model_resolved (resolve_stage env flags h n s1) s1 = Inr (s2', res, d2)"
    and r2': "ready E us key payload T event owner s2'"
    using st [OF r1 _ c2, of Stage_model_resolved opts Metric_model_resolution] by (auto simp: checkpoint_stages_def)
  let ?s2 = "note_unmapped res d2 s2'"
  have r2: "ready E us key payload T event owner ?s2" using r2' by simp
  have c3: "if_enabled (cost_enabled flags (ps_lease ?s2)) (h_rateProviderCost h (ps_db ?s2) (fst key) n res) = Inr (Some cost)"
    using flags(2) cost ready_fields [OF r2] by (simp add: if_enabled_def cost_enabled_def)
  obtain s3 d3 where 3: "run_stage opts w Metric_provider_cost Stage_provider_cost_rated
      (if_enabled (cost_enabled flags (ps_lease ?s2)) (h_rateProviderCost h (ps_db ?s2) (fst key) n res)) ?s2 = Inr (s3, Some cost, d3)"
    and r3: "ready E us key payload T event owner s3"
    using st [OF r2 _ c3, of Stage_provider_cost_rated opts Metric_provider_cost] by (auto simp: checkpoint_stages_def)
  have c4: "if_enabled (aiu_enabled flags (ps_lease s3)) (h_rateAiu h (ps_db s3) (fst key) n res) = Inr (Some aiu)"
    using flags(3) aiu ready_fields [OF r3] by (simp add: if_enabled_def aiu_enabled_def)
  obtain s4 d4 where 4: "run_stage opts w Metric_aiu Stage_aiu_rated
      (if_enabled (aiu_enabled flags (ps_lease s3)) (h_rateAiu h (ps_db s3) (fst key) n res)) s3 = Inr (s4, Some aiu, d4)"
    and r4: "ready E us key payload T event owner s4"
    using st [OF r3 _ c4, of Stage_aiu_rated opts Metric_aiu] by (auto simp: checkpoint_stages_def)
  have c5: "if_enabled (quota_enabled flags (ps_lease s4)) (h_settleQuota h (fst key) n aiu) = Inr (Some q)"
    using flags(4) quota ready_fields [OF r4] by (simp add: if_enabled_def quota_enabled_def)
  obtain s5 d5 where 5: "run_stage opts w Metric_quota Stage_quota_settled
      (if_enabled (quota_enabled flags (ps_lease s4)) (h_settleQuota h (fst key) n aiu)) s4 = Inr (s5, Some q, d5)"
    and r5: "ready E us key payload T event owner s5"
    using st [OF r4 _ c5, of Stage_quota_settled opts Metric_quota] by (auto simp: checkpoint_stages_def)
  show ?thesis
    using r5 ready_fields [OF h0] ready_fields [OF r5]
    unfolding run_stages_def 1 bind_res_simps prod.case 2 Let_def ready_fields(3) [OF r2] 3 4 option.case 5 by simp
qed

text \<open>The official writer, on the context of a full run.\<close>

lemma commit_answers:
  assumes g: "registry_of (pc_applicationId cx) (event_text (pc_event cx) ''event_id'') (pd_registry db) = Some g"
    and cx: "pc_providerCost cx = Some cost" "pc_aiu cx = Some aiu" "pc_quota cx = Some q"
    and settle: "ra_modelId (pc_resolution cx) \<noteq> None \<Longrightarrow> \<exists>x. settle_usage we (pc_applicationId cx) (rg_applicationUserId g)
      (case q of None \<Rightarrow> rg_reservationId g | Some r \<Rightarrow> Some r) (event_text (pc_event cx) ''event_id'') (aa_totalMicros aiu)
      (ot_applications (pd_official db)) (ot_quota (pd_official db)) = Inr x"
  shows "\<exists>x. commit we cx db = Inr x"
proof (cases "ra_modelId (pc_resolution cx)")
  case None
  then show ?thesis using g cx by (simp add: commit_def costArtifact_def aiuArtifact_def Let_def)
next
  case (Some m)
  then obtain quota consumption where "settle_usage we (pc_applicationId cx) (rg_applicationUserId g)
      (case q of None \<Rightarrow> rg_reservationId g | Some r \<Rightarrow> Some r) (event_text (pc_event cx) ''event_id'') (aa_totalMicros aiu)
      (ot_applications (pd_official db)) (ot_quota (pd_official db)) = Inr (quota, consumption)" using settle by auto
  then show ?thesis using g cx Some
    by (cases q) (simp_all add: commit_def costArtifact_def aiuArtifact_def quotaArtifact_def lift_res_def Let_def case_prod_beta)
qed

text \<open>The stage handlers read only the official tables.\<close>

lemma handlers_read:
  assumes "pd_official db = pd_official db'"
  shows "resolveModel we db app n = resolveModel we db' app n" "rateProviderCost we db app n res = rateProviderCost we db' app n res"
    "rateAiu we db app n res = rateAiu we db' app n res"
  using assms by (cases "ra_modelId res"; simp add: resolveModel_def rateProviderCost_def rateAiu_def Let_def)+

lemma commit_succeeds:
  assumes h: "holds E us key payload db l" and clock: "cc_lockedAt clock < E" "cc_committedAt clock < E" "cc_createdAt clock < E"
    and wr: "writer cx db = Inr (tables, additional, m)" and cx: "pc_applicationId cx = fst key"
    and user: "List.find (\<lambda>u. up_applicationId u = fst key \<and> up_externalId u = event_text (sub (pc_normalized cx) ''user'') ''user_id'') us \<noteq> None"
  shows "\<exists>db' l'. commitOfficial env dur clock writer l cx db = Inr (db', l', m) \<and> holds E us key payload db' l'"
proof -
  obtain r where one: "\<And>now p. now < E \<Longrightarrow> p r \<Longrightarrow> filter (\<lambda>x. fenced (il_id l) (il_leaseOwner l) now x \<and> p x) (pd_inbox db) = [r]"
    by (rule holdsE [OF h]) (rule that)
  have locked: "count_rows (fenced (il_id l) (il_leaseOwner l) (cc_lockedAt clock)) (pd_inbox db) = 1"
    using one [OF clock(1), of "\<lambda>_. True"] by (simp add: count_rows_def)
  have h': "holds E us key payload (db\<lparr>pd_official := tables\<rparr>) l" using h by (simp add: holds_def db_inv_def)
  obtain db1 cur where a1: "advance dur l Stage_official_committed (cc_committedAt clock) (db\<lparr>pd_official := tables\<rparr>) = Inr (db1, cur)"
    and h1: "holds E us key payload db1 cur"
    using advance_succeeds [OF h' clock(2), of Stage_official_committed dur] by auto
  have "pd_users db1 = us" using h1 by (simp add: holds_def)
  then obtain base where base: "baseOutboxMessages env cx (il_payloadHash l) db1 = Inr base"
    using user by (auto simp: baseOutboxMessages_def Let_def cx split: option.splits)
  let ?db2 = "fold (add_outbox (pc_applicationId cx) (cc_createdAt clock)) (base @ additional) db1"
  have users: "pd_users (fold (add_outbox a t) ms d) = pd_users d" for a t ms and d :: "'a PipelineDb"
    by (induction ms arbitrary: d) (simp_all add: add_outbox_def)
  have "db_inv ?db2" using h1 fold_add_outbox_inv [of db1 "pc_applicationId cx" "cc_createdAt clock" "base @ additional"]
    by (simp add: holds_def db_inv_def)
  then have h2: "holds E us key payload ?db2 cur" using h1 by (simp add: holds_def users)
  obtain db' l' where a2: "advance dur cur Stage_outbox_created (cc_createdAt clock) ?db2 = Inr (db', l')" and h3: "holds E us key payload db' l'"
    using advance_succeeds [OF h2 clock(3), of Stage_outbox_created dur] by auto
  show ?thesis using h3 by (simp add: commitOfficial_def locked wr a1 base a2 del: fold_append)
qed

lemma complete_succeeds:
  assumes h: "holds E us key payload db l" and now: "now < E"
  shows "\<exists>db'. complete ttl l now db = Inr db' \<and> db_inv db' \<and>
    (\<exists>r \<in> set (pd_inbox db'). ib_key r = il_key l \<and> lr_status r = Completed \<and> ib_stage r = Stage_completed \<and> ib_replayIntentJson r = None)"
proof -
  obtain r where r: "r \<in> set (pd_inbox db)" "lr_id r = il_id l" "ib_key r = il_key l"
    and one: "\<And>now p. now < E \<Longrightarrow> p r \<Longrightarrow> filter (\<lambda>x. fenced (il_id l) (il_leaseOwner l) now x \<and> p x) (pd_inbox db) = [r]"
    and f: "\<And>now. now < E \<Longrightarrow> fenced (il_id l) (il_leaseOwner l) now r" and fits: "issued_fits (pd_inbox db) l"
    by (rule holdsE [OF h]) (rule that)
  have "filter (fenced (il_id l) (il_leaseOwner l) now) (pd_inbox db) = [r]" using one [OF now, of "\<lambda>_. True"] by simp
  then obtain db' where ok: "complete ttl l now db = Inr db'"
    and i: "pd_inbox db' = update_rows (fenced (il_id l) (il_leaseOwner l) now) (completed_row ttl now) (pd_inbox db)"
    by (simp add: complete_def Let_def)
  have inv: "db_inv db" using h by (simp add: holds_def)
  have "completed_row ttl now r \<in> set (pd_inbox db')" using r(1) f [OF now] by (force simp: i set_update_rows)
  moreover have "ib_key (completed_row ttl now r) = il_key l" using r(3) by (simp add: completed_row_def ib_key_def)
  ultimately show ?thesis using ok complete_db [OF inv fits ok] by (auto simp: completed_row_def)
qed

text \<open>A first run of the worker's own handlers and writer completes.\<close>

lemma process_succeeds:
  fixes env :: "'e snapshot_env_scheme"
  assumes h0: "holds E us key payload db l" and r0: "first_run (pd_official db) (fst key, event_text payload ''event_id'') owner db l"
    and clock: "\<forall>stage. pw_checkpointAt w stage < E"
    "cc_lockedAt (pw_commit w) < E" "cc_committedAt (pw_commit w) < E" "cc_createdAt (pw_commit w) < E" "pw_completeAt w < E"
    and parse: "parse_event env w payload = Inr n"
    and res: "resolveModel we db (fst key) n = Inr res" and cost: "rateProviderCost we db (fst key) n res = Inr cost"
    and aiu: "rateAiu we db (fst key) n res = Inr aiu"
    and flags: "fl_modelResolution flags" "fl_providerCost flags" "fl_aiu flags" "fl_quota flags"
    and settle: "ra_modelId res \<noteq> None \<Longrightarrow> \<exists>x. settle_usage we (fst key) (fst owner)
      (case n_reservation_id (normalized_view we n) of None \<Rightarrow> snd owner | Some r \<Rightarrow> Some r) (event_text payload ''event_id'') (aa_totalMicros aiu)
      (ot_applications (pd_official db)) (ot_quota (pd_official db)) = Inr x"
    and user: "List.find (\<lambda>u. up_applicationId u = fst key \<and> up_externalId u = event_text (sub n ''user'') ''user_id'') us \<noteq> None"
  shows "\<exists>db' out. process env opts flags (application_handlers we) (commit we) w l db = (db', out) \<and> po_status out = Ps_completed \<and> db_inv db' \<and>
    (\<exists>r \<in> set (pd_inbox db'). ib_key r = key \<and> lr_status r = Completed \<and> ib_stage r = Stage_completed \<and> ib_replayIntentJson r = None)"
proof -
  let ?s0 = "initial_state db l :: (OfficialTables, PipelineOfficialMetrics) proc_state"
  let ?event = "(fst key, event_text payload ''event_id'')"
  let ?cx = "\<lparr>pc_applicationId = fst key, pc_event = payload, pc_normalized = n, pc_resolution = res, pc_providerCost = Some cost,
       pc_aiu = Some aiu, pc_quota = Some (n_reservation_id (normalized_view we n)), pc_replayIntent = None\<rparr>"
  have "ready E us key payload (pd_official db) ?event owner ?s0" using h0 r0 by (simp add: ready_def initial_state_def)
  note start = this
  have h: "h_resolveModel (application_handlers we) d (fst key) n = Inr res" "h_rateProviderCost (application_handlers we) d (fst key) n res = Inr cost"
    "h_rateAiu (application_handlers we) d (fst key) n res = Inr aiu" if "pd_official d = pd_official db" for d
    using handlers_read [OF that, of we "fst key" n] res cost aiu by (simp_all add: application_handlers_def)
  have q: "h_settleQuota (application_handlers we) (fst key) n aiu = Inr (n_reservation_id (normalized_view we n))"
    by (simp add: application_handlers_def settleQuota_def)
  obtain s where run: "run_stages env opts w flags (application_handlers we) ?s0 = Inr (s, ?cx)"
    and h1: "ready E us key payload (pd_official db) ?event owner s"
    using run_stages_succeed [where h = "application_handlers we" and opts = opts, OF start clock(1) parse h q flags] by blast
  have hs: "holds E us key payload (ps_db s) (ps_lease s)" using h1 by (simp add: ready_def)
  obtain g where g: "registry_of (fst key) (event_text payload ''event_id'') (pd_registry (ps_db s)) = Some g"
    "rg_applicationUserId g = fst owner" "rg_reservationId g = snd owner"
  proof -
    have "map_option (\<lambda>g. (rg_applicationUserId g, rg_reservationId g)) (registry_of (fst key) (event_text payload ''event_id'') (pd_registry (ps_db s))) = Some owner"
      using h1 unfolding ready_def first_run_def fst_conv snd_conv by blast
    then show thesis using that by (cases owner) (auto simp: map_option_eq_Some)
  qed
  have "\<exists>x. commit we ?cx (ps_db s) = Inr x"
    by (rule commit_answers [where g = g and cost = cost and aiu = aiu and q = "n_reservation_id (normalized_view we n)"])
      (simp_all only: g ready_fields(1) [OF h1] PipelineSettlementContext.simps, rule settle)
  then obtain tables additional m where w': "commit we ?cx (ps_db s) = Inr (tables, additional, m)" by auto
  have "\<exists>s'. commit_stage env opts w (commit we) ?cx s = Inr s' \<and> holds E us key payload (ps_db s') (ps_lease s')"
    using commit_succeeds [where writer = "commit we" and cx = ?cx and m = m, OF hs clock(2-4) w' _ _, of env "px_leaseDurationMs opts"] hs user
    by (auto simp: commit_stage_def Let_def)
  then obtain s' where commit: "commit_stage env opts w (commit we) ?cx s = Inr s'" and h2: "holds E us key payload (ps_db s') (ps_lease s')" by blast
  obtain db' r where comp: "complete (px_payloadTtlDays opts) (ps_lease s') (pw_completeAt w) (ps_db s') = Inr db'" and inv: "db_inv db'"
    and r: "r \<in> set (pd_inbox db')" "ib_key r = il_key (ps_lease s')" "lr_status r = Completed" "ib_stage r = Stage_completed"
      "ib_replayIntentJson r = None"
    using complete_succeeds [OF h2 clock(5), of "px_payloadTtlDays opts"] by blast
  have "ib_key r = key" using r(2) h2 by (simp add: holds_def)
  then show ?thesis using r inv
    by (auto simp: process_def run commit complete_stage_def Let_def comp outcome_of_def intro!: bexI [of _ r])
qed

subsection \<open>Leasing in a consistent database\<close>

lemma map_results_succeeds:
  "(\<And>r. r \<in> set rs \<Longrightarrow> \<exists>b. f r = Inr b) \<Longrightarrow> \<exists>bs. map_results f rs = Inr bs \<and> list_all2 (\<lambda>r b. f r = Inr b) rs bs"
proof (induction rs)
  case (Cons r rs)
  obtain b where b: "f r = Inr b" using Cons.prems by auto
  obtain bs where "map_results f rs = Inr bs" "list_all2 (\<lambda>r b. f r = Inr b) rs bs" using Cons by auto
  then show ?case using b by auto
qed simp

lemma leased_row:
  assumes inv: "db_inv db" and r: "r \<in> set (acquire_rows (inbox_batch locked limit now db) own e (pd_inbox db))"
    and k: "lr_id r \<in> inbox_batch locked limit now db"
  obtains r0 payload where "r0 \<in> set (pd_inbox db)" "r = acquired own e r0" "row_local r" "ib_payloadJson r = Some payload"
proof -
  obtain r0 where r0: "r0 \<in> set (pd_inbox db)" "r = acquired own e r0"
    using r k by (auto simp: acquire_rows_def set_update_rows split: if_splits)
  have box: "inbox_inv (pd_inbox db) (pd_registry db)" using inv by (simp add: db_inv_def)
  have "lr_id r0 \<in> set (lease_candidates locked inbox_eligible limit now (pd_inbox db))"
    using k by (auto simp: inbox_batch_def Let_def r0(2))
  from candidate_row [OF row_ids_distinct [OF inv] r0(1) this] have el: "inbox_eligible r0" "leasable now r0" by simp_all
  have "row_local r0" using box r0(1) by (simp add: inbox_inv_def)
  then have loc: "row_local r" using row_local_acquired el by (simp add: r0(2))
  have "lr_status r \<noteq> Completed" by (simp add: r0(2) acquired_def)
  then obtain payload where "ib_payloadJson r = Some payload" using loc by (auto simp: row_local_def)
  then show thesis using that r0 loc by blast
qed

lemma leased_ids: "list_all2 (\<lambda>r l. mapLease gs r = Inr l) rs ls \<Longrightarrow> map il_id ls = map lr_id rs"
  by (induction rule: list_all2_induct) (auto dest: mapLease_fields(1))

lemma leaseInbox_succeeds:
  assumes inv: "db_inv db" and limit: "1 \<le> limit" "limit \<le> 1000" and ret: "\<forall>xs. set (returning xs) = set xs"
  shows "\<exists>db' ls. leaseInbox returning locked dur token limit now db = (db', Inr ls) \<and> il_id ` set ls = inbox_batch locked limit now db"
proof -
  let ?ks = "inbox_batch locked limit now db"
  let ?rows = "acquire_rows ?ks (inbox_owner token) (now + dur * 1000) (pd_inbox db)"
  let ?picked = "returning (filter (\<lambda>r. lr_id r \<in> ?ks) ?rows)"
  have "\<exists>l. mapLease (pd_registry db) r = Inr l" if "r \<in> set ?picked" for r
  proof -
    have "r \<in> set ?rows" "lr_id r \<in> ?ks" using that ret by auto
    then obtain payload where "row_local r" "ib_payloadJson r = Some payload" by (rule leased_row [OF inv])
    then show ?thesis using mapLease_succeeds by blast
  qed
  then obtain ls where ls: "map_results (mapLease (pd_registry db)) ?picked = Inr ls"
    and all: "list_all2 (\<lambda>r l. mapLease (pd_registry db) r = Inr l) ?picked ls"
    using map_results_succeeds [of ?picked "mapLease (pd_registry db)"] by blast
  have "map il_id ls = map lr_id ?picked" by (rule leased_ids [OF all])
  then have "il_id ` set ls = lr_id ` set ?picked" by (metis set_map)
  also have "\<dots> = ?ks \<inter> lr_id ` set ?rows" using ret by auto
  also have "\<dots> = ?ks \<inter> lr_id ` set (pd_inbox db)"
    by (metis map_id_acquire set_map)
  also have "\<dots> = ?ks" by (auto simp: inbox_batch_def Let_def)
  finally show ?thesis using ls limit by (auto simp: leaseInbox_def Let_def)
qed

lemma lease_holds:
  assumes inv: "db_inv db" and ok: "leaseInbox returning locked dur token limit now db = (db', Inr ls)"
    and ret: "\<forall>xs. set (returning xs) = set xs" and l: "l \<in> set ls"
  shows "holds (now + dur * 1000) (pd_users db) (il_key l) (il_payload l) db' l"
proof -
  let ?ks = "inbox_batch locked limit now db"
  let ?rows = "acquire_rows ?ks (inbox_owner token) (now + dur * 1000) (pd_inbox db)"
  have db': "db' = db\<lparr>pd_inbox := ?rows\<rparr>"
    and m: "map_results (mapLease (pd_registry db)) (returning (filter (\<lambda>r. lr_id r \<in> ?ks) ?rows)) = Inr ls"
    using ok by (auto simp: leaseInbox_def Let_def split: if_splits)
  obtain r where r: "r \<in> set ?rows" "lr_id r \<in> ?ks" and map: "mapLease (pd_registry db) r = Inr l"
    using map_results_Inr [OF m l] ret by auto
  obtain r0 payload where r0: "r = acquired (inbox_owner token) (now + dur * 1000) r0" "row_local r" "ib_payloadJson r = Some payload"
    using r by (rule leased_row [OF inv])
  have pay: "il_payload l = payload" using mapLease_succeeds [OF r0(2,3), of "pd_registry db"] map by auto
  have own: "lr_leaseOwner r = Some (il_leaseOwner l)"
    using mapLease_fields(5) [OF map] by (simp add: r0(1) acquired_def)
  have box: "inbox_inv (pd_inbox db) (pd_registry db)" using inv by (simp add: db_inv_def)
  have "db_inv db'" using db_inv_frame [OF inv leaseInbox_inv(1-5) [OF box ok]] by simp
  then show ?thesis
    using r(1) mapLease_fields(1,2) [OF map] r0(3) own pay unfolding holds_def
    by (auto simp: db' r0(1) acquired_def intro!: bexI [of _ r])
qed

lemma lease_first_run:
  assumes inv: "db_inv db" and ok: "leaseInbox returning locked dur token limit now db = (db', Inr ls)"
    and ret: "\<forall>xs. set (returning xs) = set xs" and l: "l \<in> set ls" and new: "il_replayIntent l = None"
    and g: "registry_of (fst event) (snd event) (pd_registry db) = Some g"
  shows "pd_official db' = pd_official db" and "first_run (pd_official db') event (rg_applicationUserId g, rg_reservationId g) db' l"
proof -
  let ?ks = "inbox_batch locked limit now db"
  let ?rows = "acquire_rows ?ks (inbox_owner token) (now + dur * 1000) (pd_inbox db)"
  have db': "db' = db\<lparr>pd_inbox := ?rows\<rparr>"
    and m: "map_results (mapLease (pd_registry db)) (returning (filter (\<lambda>r. lr_id r \<in> ?ks) ?rows)) = Inr ls"
    using ok by (auto simp: leaseInbox_def Let_def split: if_splits)
  obtain r where r: "r \<in> set ?rows" and map: "mapLease (pd_registry db) r = Inr l"
    using map_results_Inr [OF m l] ret by auto
  have d: "distinct (map lr_id ?rows)" using row_ids_distinct [OF inv] by simp
  have "x = r" if "x \<in> set ?rows" "lr_id x = il_id l" for x
    using distinct_map_inj [OF d that(1) r] that(2) mapLease_fields(1) [OF map] by simp
  then have "list_all (\<lambda>x. lr_id x = il_id l \<longrightarrow> parsePipelineReplayIntent (ib_replayIntentJson x) = Inr None) ?rows"
    using mapLease_intent [OF map] new by (auto simp: list_all_iff)
  then show "pd_official db' = pd_official db" "first_run (pd_official db') event (rg_applicationUserId g, rg_reservationId g) db' l"
    using new g by (simp_all add: first_run_def db')
qed

end
