(* ===== verification/PipelineTraces.thy ===== *)
theory PipelineTraces
  imports PipelineRuns
begin

text \<open>
  What histories of the pipeline never undo: a registered event keeps its payload hash, the
  ClickHouse watermark never moves back, and an event that is committed a second time adds
  neither a rating nor an outbox message.
\<close>

subsection \<open>Fingerprints of registered events\<close>

definition fingerprints :: "'o PipelineDb \<Rightarrow> ((string \<times> string) \<times> string) set" where
  "fingerprints db = (\<lambda>g. (rg_key g, rg_payloadHash g)) ` set (pd_registry db)"

text \<open>The ClickHouse watermark: the last outbox row known to be delivered.\<close>

definition watermark :: "string \<Rightarrow> 'o PipelineDb \<Rightarrow> int option" where
  "watermark name db = (case find_unique (\<lambda>s. sy_pipelineName s = name) (pd_sync db) of None \<Rightarrow> None | Some s \<Rightarrow> sy_lastOutboxId s)"

definition reached :: "int option \<Rightarrow> int option \<Rightarrow> bool" where
  "reached a b = (case a of None \<Rightarrow> True | Some x \<Rightarrow> (case b of None \<Rightarrow> False | Some y \<Rightarrow> x \<le> y))"

definition extends :: "'o PipelineDb \<Rightarrow> 'o PipelineDb \<Rightarrow> bool" where
  "extends db db' \<longleftrightarrow> fingerprints db \<subseteq> fingerprints db' \<and> (\<forall>name. reached (watermark name db) (watermark name db'))"

text \<open>The idempotency keys of the messages a commit writes.\<close>

definition message_keys :: "string \<Rightarrow> string \<Rightarrow> string \<Rightarrow> string list" where
  "message_keys app eventId payloadHash =
     [''clickhouse-raw:'' @ eventId @ '':'' @ payloadHash, ''clickhouse-usage-lines:'' @ eventId @ '':'' @ payloadHash,
      ''clickhouse-user-profile:'' @ eventId @ '':'' @ payloadHash,
      ''application-rating:'' @ app @ '':'' @ eventId @ '':cost'', ''application-rating:'' @ app @ '':'' @ eventId @ '':aiu'']"

lemma reached_refl [simp]: "reached a a"
  by (simp add: reached_def split: option.splits)

lemma reached_trans: "reached a b \<Longrightarrow> reached b c \<Longrightarrow> reached a c"
  by (auto simp: reached_def split: option.splits)

lemma extends_refl [simp]: "extends db db"
  by (simp add: extends_def)

lemma extends_trans: "extends a b \<Longrightarrow> extends b c \<Longrightarrow> extends a c"
  by (auto simp: extends_def intro: reached_trans)

lemma extends_frame: "pd_registry db' = pd_registry db \<Longrightarrow> pd_sync db' = pd_sync db \<Longrightarrow> extends db db'"
  by (simp add: extends_def fingerprints_def watermark_def)

lemma extends_registry:
  assumes "pd_registry db' = update_rows q h (pd_registry db)" and "pd_sync db' = pd_sync db"
    and "\<And>g. rg_key (h g) = rg_key g \<and> rg_payloadHash (h g) = rg_payloadHash g"
  shows "extends db db'"
proof -
  have "(\<lambda>g. (rg_key g, rg_payloadHash g)) ((\<lambda>g. if q g then h g else g) g) = (rg_key g, rg_payloadHash g)" for g
    using assms(3) by simp
  then have "fingerprints db' = fingerprints db" unfolding fingerprints_def assms(1) set_update_rows image_image by simp
  then show ?thesis using assms(2) by (simp add: extends_def watermark_def)
qed

lemma extends_set_registry:
  "(\<And>g. rg_key (h g) = rg_key g \<and> rg_payloadHash (h g) = rg_payloadHash g) \<Longrightarrow> extends db (set_registry app e h db)"
  by (rule extends_registry [of _ _ h]) simp_all

lemma extends_snoc: "pd_registry db' = pd_registry db @ gs \<Longrightarrow> pd_sync db' = pd_sync db \<Longrightarrow> extends db db'"
  by (auto simp: extends_def fingerprints_def watermark_def)

lemma persist_extends:
  assumes ok: "persistEvent env cat w id app inp db = (db', r)"
  shows "extends db db'"
proof -
  have "db' = db \<or> insert_event env cat w app inp db = Inr db'"
    using ok by (auto simp: persistEvent_def Let_def split: option.splits sum.splits if_splits)
  then show ?thesis
  proof
    assume i: "insert_event env cat w app inp db = Inr db'"
    have "pd_sync db' = pd_sync db"
      using i by (auto simp: insert_event_def upsert_profile_def Let_def case_prod_beta split: if_splits option.splits)
    then show ?thesis using insert_event_registry(1) [OF i] by (auto intro: extends_snoc)
  qed simp
qed

lemma advance_extends: "advance dur l stage now db = Inr (db', l') \<Longrightarrow> extends db db'"
  by (erule advance_effect, rule extends_registry [of _ _ "\<lambda>g. g\<lparr>rg_processingStage := stage\<rparr>"]) (auto simp: rg_key_def)

lemma add_outbox_extends: "extends db (fold (add_outbox app now) ms db)"
proof (rule extends_frame)
  show "pd_sync (fold (add_outbox app now) ms db) = pd_sync db" by (induction ms arbitrary: db) (simp_all add: add_outbox_def)
qed simp

lemma commit_extends:
  assumes ok: "commitOfficial env dur clock writer l context db = Inr (db', l', m)"
  shows "extends db db'"
proof -
  obtain tables additional db1 cur base where
    a1: "advance dur l Stage_official_committed (cc_committedAt clock) (db\<lparr>pd_official := tables\<rparr>) = Inr (db1, cur)"
    and a2: "advance dur cur Stage_outbox_created (cc_createdAt clock)
       (fold (add_outbox (pc_applicationId context) (cc_createdAt clock)) (base @ additional) db1) = Inr (db', l')"
    by (rule commitOfficial_effect [OF ok]) (rule that)
  have "extends db (db\<lparr>pd_official := tables\<rparr>)" by (rule extends_frame) simp_all
  from extends_trans [OF extends_trans [OF this advance_extends [OF a1]] extends_trans [OF add_outbox_extends advance_extends [OF a2]]]
  show ?thesis .
qed

lemma replay_extends:
  assumes inv: "db_inv db" and ok: "replay env application request now db = Inr (db', outcome)"
  shows "extends db db'"
proof (cases "db' = db")
  case False
  obtain d r where d: "d \<in> set (pd_deadLetters db)" "dl_inboxId d = Some (lr_id r)" and "r \<in> set (pd_inbox db)"
    and g: "\<And>e. dl_eventId d = Some e \<Longrightarrow> pd_registry db' = update_rows (\<lambda>x. rg_eventId x = e \<and> rg_applicationId x = ib_applicationId r)
       (\<lambda>g. g\<lparr>rg_processingStage := Stage_received, rg_lastError := None\<rparr>) (pd_registry db)"
    and sync: "pd_sync db' = pd_sync db"
    by (rule replay_effect [OF ok False]) (rule that)
  have "dead_fits (pd_inbox db) d" using inv d(1) by (simp add: db_inv_def)
  then obtain e where "dl_eventId d = Some e" using d(2) by (auto simp: dead_fits_def split: option.splits)
  from extends_registry [OF g [OF this] sync] show ?thesis by (simp add: rg_key_def)
qed simp

lemma fold_add_replay_sync:
  "fold (add_replay runId now) rs (db, n) = (db', n') \<Longrightarrow> pd_sync db' = pd_sync db \<and> pd_registry db' = pd_registry db"
proof (induction rs arbitrary: db n)
  case (Cons r rs)
  obtain db1 n1 where one: "add_replay runId now r (db, n) = (db1, n1)" by (rule prod.exhaust)
  have "pd_sync db1 = pd_sync db \<and> pd_registry db1 = pd_registry db" using one by (auto simp: add_replay_def Let_def split: if_splits)
  moreover have "fold (add_replay runId now) rs (db1, n1) = (db', n')" using Cons.prems by (simp add: one)
  ultimately show ?case using Cons.IH by metis
qed simp

lemma applyReplay_extends:
  assumes ok: "applyReplay tz runId app plan now db = (db', effect)"
  shows "extends db db'"
proof (rule extends_frame)
  have "pd_sync db' = pd_sync db \<and> pd_registry db' = pd_registry db"
  proof (cases "rp_replayType plan = ''reproject_to_clickhouse''")
    case True
    obtain n where "fold (add_replay runId now) (filter (reprojectable tz app plan db) (pd_outbox db)) (db, 0) = (db', n)"
      using ok True by (auto simp: applyReplay_def resetOutbox_def split: prod.splits)
    then show ?thesis by (rule fold_add_replay_sync)
  qed (use ok in \<open>auto simp: applyReplay_def resetInbox_def Let_def split: if_splits\<close>)
  then show "pd_registry db' = pd_registry db" "pd_sync db' = pd_sync db" by simp_all
qed

subsection \<open>The watermark\<close>

lemma mark_sent_extends: "mark_sent t clock ls db = Inr db' \<Longrightarrow> extends db db' \<and> pd_sync db' = pd_sync db"
proof (induction ls arbitrary: db)
  case (Cons l ls)
  then obtain rows where rest: "mark_sent t clock ls (mark_raw t l (db\<lparr>pd_outbox := rows\<rparr>)) = Inr db'" by (auto split: option.splits)
  have "extends db (db\<lparr>pd_outbox := rows\<rparr>)" by (rule extends_frame) simp_all
  moreover have "extends (db\<lparr>pd_outbox := rows\<rparr>) (mark_raw t l (db\<lparr>pd_outbox := rows\<rparr>))"
    by (simp add: mark_raw_def extends_set_registry rg_key_def)
  ultimately show ?case using Cons.IH [OF rest] by (auto simp: mark_raw_def intro: extends_trans)
qed simp

lemma mark_official_extends: "extends db (mark_official t l db) \<and> pd_sync (mark_official t l db) = pd_sync db"
  by (auto simp: mark_official_def extends_set_registry rg_key_def split: option.splits)

lemma fold_mark_official_extends:
  "extends db (fold (mark_official t) ls db) \<and> pd_sync (fold (mark_official t) ls db) = pd_sync db"
proof (induction ls arbitrary: db)
  case (Cons l ls)
  then show ?case using mark_official_extends [of db t l] by (auto intro: extends_trans)
qed simp

lemma watermark_upsert:
  assumes keep: "\<And>s. sy_pipelineName s = sy_pipelineName new \<Longrightarrow> sy_pipelineName (upd s) = sy_pipelineName s"
    and up: "\<And>s. sy_pipelineName s = sy_pipelineName new \<Longrightarrow> reached (sy_lastOutboxId s) (sy_lastOutboxId (upd s))"
  shows "reached (watermark name db) (watermark name (db\<lparr>pd_sync := upsert_state new upd (pd_sync db)\<rparr>))"
proof -
  have "reached (case List.find (\<lambda>s. sy_pipelineName s = name) ss of None \<Rightarrow> None | Some s \<Rightarrow> sy_lastOutboxId s)
      (case List.find (\<lambda>s. sy_pipelineName s = name) (update_rows (\<lambda>s. sy_pipelineName s = sy_pipelineName new) upd ss) of
         None \<Rightarrow> None | Some s \<Rightarrow> sy_lastOutboxId s)" for ss
    by (induction ss) (auto simp: keep up)
  moreover have "reached (case List.find (\<lambda>s. sy_pipelineName s = name) ss of None \<Rightarrow> None | Some s \<Rightarrow> sy_lastOutboxId s)
      (case List.find (\<lambda>s. sy_pipelineName s = name) (ss @ [new]) of None \<Rightarrow> None | Some s \<Rightarrow> sy_lastOutboxId s)" for ss
    by (cases "List.find (\<lambda>s. sy_pipelineName s = name) ss") (simp add: reached_def, simp add: find_append_Some)
  ultimately show ?thesis by (simp add: watermark_def upsert_state_def find_unique_def)
qed

lemma markDelivered_extends:
  assumes ok: "markDelivered name t clock ls result db = Inr db'"
  shows "extends db db'"
proof -
  let ?new = "healthy_state name result t (lag_seconds t ls result)"
  obtain db1 where m: "mark_sent t clock ls db = Inr db1"
    and db': "db' = (fold (mark_official t) ls db1)\<lparr>pd_sync := upsert_state ?new (merge_state ?new) (pd_sync (fold (mark_official t) ls db1))\<rparr>"
    using ok by (auto simp: markDelivered_def Let_def split: if_splits)
  let ?db2 = "fold (mark_official t) ls db1"
  have "extends db ?db2" using mark_sent_extends [OF m] fold_mark_official_extends [of db1 t ls] by (auto intro: extends_trans)
  moreover have "reached (watermark p ?db2) (watermark p db')" for p
    unfolding db' by (rule watermark_upsert) (auto simp: merge_state_def healthy_state_def Let_def reached_def split: option.splits)
  moreover have "fingerprints db' = fingerprints ?db2" by (simp add: db' fingerprints_def)
  ultimately show ?thesis by (auto simp: extends_def intro: reached_trans)
qed

lemma markSyncFailure_extends: "extends db (markSyncFailure name failure terminal db)"
proof -
  have "reached (watermark p db) (watermark p (markSyncFailure name failure terminal db))" for p
    unfolding markSyncFailure_def Let_def by (rule watermark_upsert) simp_all
  then show ?thesis by (simp add: extends_def fingerprints_def markSyncFailure_def Let_def)
qed

subsection \<open>Every step extends the registry and the watermark\<close>

lemma pipe_step_extends:
  assumes step: "pipe_step s s'" and inv: "pipe_inv s"
  shows "extends (sys_db s) (sys_db s')"
proof -
  have db: "db_inv (sys_db s)" using inv by (simp add: pipe_inv_def)
  from step obtain a where "pipe_act s a s'" by (auto simp: pipe_step_def)
  then show ?thesis
  proof cases
    case ingest
    then show ?thesis using persist_extends [OF ingest(4)] by simp
  next
    case (lease returning locked dur token limit now db' ls)
    then show ?thesis by (auto simp: leaseInbox_def Let_def split: if_splits intro: extends_frame)
  next
    case (checkpoint l stage dur now db' l')
    then show ?thesis using advance_extends [OF checkpoint(5) [unfolded checkpoint_def]] by simp
  next
    case commit
    then show ?thesis using commit_extends [OF commit(4)] by simp
  next
    case (complete l ttl now db')
    obtain e where g: "pd_registry db' = update_rows (\<lambda>x. rg_eventId x = e \<and> rg_applicationId x = il_applicationId l)
        (\<lambda>g. g\<lparr>rg_processingStage := Stage_completed\<rparr>) (pd_registry (sys_db s))"
      by (rule complete_effect [OF complete(4)]) (rule that)
    have sync: "pd_sync db' = pd_sync (sys_db s)" using complete(4) by (auto simp: complete_def Let_def split: list.splits)
    have "extends (sys_db s) db'" by (rule extends_registry [OF g sync]) (simp add: rg_key_def)
    then show ?thesis using complete(2) by simp
  next
    case (retry l failure t now db')
    then show ?thesis by (auto simp: retry_def split: option.splits intro: extends_frame)
  next
    case (dead l newId failure now db')
    then obtain h where g: "pd_registry db' = update_rows (\<lambda>x. rg_eventId x = il_eventId l \<and> rg_applicationId x = il_applicationId l)
        (\<lambda>g. g\<lparr>rg_processingStage := Stage_dead_letter, rg_lastError := h\<rparr>) (pd_registry (sys_db s))"
      and sync: "pd_sync db' = pd_sync (sys_db s)" by (auto simp: deadLetter_def Let_def split: option.splits)
    have "extends (sys_db s) db'" by (rule extends_registry [OF g sync]) (simp add: rg_key_def)
    then show ?thesis using dead(2) by simp
  next
    case replay
    then show ?thesis using replay_extends [OF db replay(3)] by simp
  next
    case reset
    then show ?thesis using applyReplay_extends [OF reset(3)] by simp
  next
    case purge
    then show ?thesis by (auto simp: purgeBatch_def Let_def split: if_splits intro: extends_frame)
  next
    case out_lease
    then show ?thesis by (auto simp: leaseOutbox_def Let_def split: if_splits intro: extends_frame)
  next
    case delivered
    then show ?thesis using markDelivered_extends [OF delivered(4)] by simp
  next
    case (out_retry ol ofailure t now db')
    then show ?thesis by (auto simp: outbox_retry_row_def split: option.splits intro: extends_frame)
  next
    case (out_dead ol newId ofailure now db')
    then show ?thesis by (auto simp: outbox_dead_row_def split: option.splits intro: extends_frame)
  next
    case (out_state name ofailure terminal)
    then show ?thesis using markSyncFailure_extends [of "sys_db s" name ofailure terminal] by simp
  next
    case other
    then show ?thesis by (auto intro: extends_frame)
  qed
qed

lemma pipe_steps_extend:
  assumes "pipe_step\<^sup>*\<^sup>* s s'" and "pipe_inv s"
  shows "extends (sys_db s) (sys_db s') \<and> pipe_inv s'"
  using assms
proof (induction rule: rtranclp_induct)
  case (step t u)
  then show ?case using pipe_step_extends [OF step(2)] pipe_step_inv [OF step(2)] by (blast intro: extends_trans)
qed simp

lemma registered_hash:
  assumes "db_inv db" and "((app, e), hash) \<in> fingerprints db"
  shows "\<exists>g. registry_of app e (pd_registry db) = Some g \<and> rg_payloadHash g = hash"
proof -
  have d: "distinct (map rg_key (pd_registry db))" using assms(1) by (simp add: db_inv_def inbox_inv_def)
  obtain g0 where g0: "g0 \<in> set (pd_registry db)" "rg_key g0 = (app, e)" "rg_payloadHash g0 = hash"
    using assms(2) by (auto simp: fingerprints_def)
  have "(app, e) \<in> rg_key ` set (pd_registry db)" using g0(1,2) by (metis imageI)
  then obtain g where g: "registry_of app e (pd_registry db) = Some g" using registry_of_None by blast
  then have mem: "g \<in> set (pd_registry db)" "rg_key g = rg_key g0"
    using g0(2) by (auto simp: registry_of_def rg_key_def dest: find_unique_SomeD)
  have "g = g0" by (rule distinct_map_inj [OF d mem(1) g0(1) mem(2)])
  then show ?thesis using g g0(3) by simp
qed

subsection \<open>Committing an event again\<close>

lemma add_outbox_known:
  "has_outbox app (om_idempotencyKey m) (pd_outbox db) \<Longrightarrow> add_outbox app now m db = db"
  by (simp add: add_outbox_def)

lemma fold_add_outbox_known:
  "list_all (\<lambda>m. (app, om_idempotencyKey m) \<in> ob_key ` set (pd_outbox db)) ms \<Longrightarrow> fold (add_outbox app now) ms db = db"
  by (induction ms) (simp_all add: add_outbox_known has_outbox_iff)

lemma add_outbox_keys:
  "ob_key ` set (pd_outbox (add_outbox app now m db)) = insert (app, om_idempotencyKey m) (ob_key ` set (pd_outbox db))"
  by (auto simp: add_outbox_def has_outbox_iff new_outbox_def ob_key_def)

lemma fold_add_outbox_keys:
  "ob_key ` set (pd_outbox (fold (add_outbox app now) ms db)) = (\<lambda>m. (app, om_idempotencyKey m)) ` set ms \<union> ob_key ` set (pd_outbox db)"
  by (induction ms arbitrary: db) (auto simp: add_outbox_keys)

lemma base_keys:
  "baseOutboxMessages env cx hash db = Inr base \<Longrightarrow>
   map om_idempotencyKey base = take 3 (message_keys (pc_applicationId cx) (event_text (pc_event cx) ''event_id'') hash)"
  by (auto simp: baseOutboxMessages_def Let_def message_keys_def split: option.splits)

lemma rating_keys:
  "map om_idempotencyKey (ratingOutboxes we cx ratingId modelId cost aiu) =
   drop 3 (message_keys (pc_applicationId cx) (event_text (pc_event cx) ''event_id'') hash)"
  by (simp add: ratingOutboxes_def Let_def message_keys_def)

lemma find_rating_snoc:
  "find_rating app e (xs @ ys) = (case find_rating app e xs of None \<Rightarrow> find_rating app e ys | Some x \<Rightarrow> Some x)"
  by (simp add: find_rating_def find_unique_def find_append_None find_append_Some split: option.splits)

lemma find_rating_single [simp]:
  "ur_applicationId r = app \<Longrightarrow> ur_eventId r = e \<Longrightarrow> find_rating app e [r] = Some r"
  by (simp add: find_rating_def find_unique_def)

text \<open>A commit of a resolved event leaves its rating behind, and writes one only when there is none.\<close>

lemma commit_writer:
  assumes "commit we cx db = Inr (tables, additional, m)" and "ra_modelId (pc_resolution cx) = Some modelId"
  shows "map om_idempotencyKey additional = drop 3 (message_keys (pc_applicationId cx) (event_text (pc_event cx) ''event_id'') hash)"
    and "find_rating (pc_applicationId cx) (event_text (pc_event cx) ''event_id'') (ot_ratings tables) \<noteq> None"
    and "find_rating (pc_applicationId cx) (event_text (pc_event cx) ''event_id'') (ot_ratings (pd_official db)) \<noteq> None \<Longrightarrow>
      ot_ratings tables = ot_ratings (pd_official db)"
  using assms
  by (auto simp: commit_def Let_def rating_keys [where hash = hash] find_rating_snoc split: option.splits prod.splits)

lemma commit_keys:
  assumes "commit we cx db = Inr (tables, additional, m)"
  shows "set (map om_idempotencyKey additional) \<subseteq>
    set (drop 3 (message_keys (pc_applicationId cx) (event_text (pc_event cx) ''event_id'') hash))"
proof (cases "ra_modelId (pc_resolution cx)")
  case None
  then show ?thesis using assms by (auto simp: commit_def Let_def split: option.splits)
next
  case (Some modelId)
  then show ?thesis using commit_writer(1) [OF assms Some, of hash] by simp
qed

lemma commit_ratings:
  assumes "commit we cx db = Inr (tables, additional, m)"
    and "find_rating (pc_applicationId cx) (event_text (pc_event cx) ''event_id'') (ot_ratings (pd_official db)) \<noteq> None"
  shows "ot_ratings tables = ot_ratings (pd_official db)"
proof (cases "ra_modelId (pc_resolution cx)")
  case None
  then show ?thesis using assms by (auto simp: commit_def Let_def split: option.splits)
next
  case (Some modelId)
  show ?thesis by (rule commit_writer(3) [OF assms(1) Some assms(2)])
qed

lemma advance_frame:
  "advance dur l stage now db = Inr (db', l') \<Longrightarrow> pd_outbox db' = pd_outbox db \<and> pd_official db' = pd_official db"
  by (erule advance_effect) simp

lemma fold_add_outbox_official [simp]: "pd_official (fold (add_outbox app now) ms db) = pd_official db"
  by (induction ms arbitrary: db) (simp_all add: add_outbox_def)

lemma recommit:
  assumes first: "commitOfficial env dur clock (commit we) l cx db = Inr (db1, l1, m1)" and model: "ra_modelId (pc_resolution cx) \<noteq> None"
    and keys: "ob_key ` set (pd_outbox db1) \<subseteq> ob_key ` set (pd_outbox db2)"
    and ratings: "ot_ratings (pd_official db2) = ot_ratings (pd_official db1) @ rs"
    and second: "commitOfficial env' dur' clock' (commit we') l' cx' db2 = Inr (db3, l3, m3)"
    and same: "pc_applicationId cx' = pc_applicationId cx" "event_text (pc_event cx') ''event_id'' = event_text (pc_event cx) ''event_id''"
      "il_payloadHash l' = il_payloadHash l"
  shows "pd_outbox db3 = pd_outbox db2" and "ot_ratings (pd_official db3) = ot_ratings (pd_official db2)"
proof -
  let ?app = "pc_applicationId cx" and ?e = "event_text (pc_event cx) ''event_id''"
  let ?keys = "message_keys ?app ?e (il_payloadHash l)"
  obtain modelId where modelId: "ra_modelId (pc_resolution cx) = Some modelId" using model by blast
  obtain tables add dbA curA base where w1: "commit we cx db = Inr (tables, add, m1)"
    and a1: "advance dur l Stage_official_committed (cc_committedAt clock) (db\<lparr>pd_official := tables\<rparr>) = Inr (dbA, curA)"
    and b1: "baseOutboxMessages env cx (il_payloadHash l) dbA = Inr base"
    and c1: "advance dur curA Stage_outbox_created (cc_createdAt clock) (fold (add_outbox ?app (cc_createdAt clock)) (base @ add) dbA) = Inr (db1, l1)"
    by (rule commitOfficial_effect [OF first]) (rule that)
  obtain tables' add' dbB curB base' where w2: "commit we' cx' db2 = Inr (tables', add', m3)"
    and a2: "advance dur' l' Stage_official_committed (cc_committedAt clock') (db2\<lparr>pd_official := tables'\<rparr>) = Inr (dbB, curB)"
    and b2: "baseOutboxMessages env' cx' (il_payloadHash l') dbB = Inr base'"
    and c2: "advance dur' curB Stage_outbox_created (cc_createdAt clock') (fold (add_outbox (pc_applicationId cx') (cc_createdAt clock')) (base' @ add') dbB) = Inr (db3, l3)"
    by (rule commitOfficial_effect [OF second]) (rule that)
  note frame = advance_frame [OF a1] advance_frame [OF c1] advance_frame [OF a2] advance_frame [OF c2]
  have all: "map om_idempotencyKey (base @ add) = ?keys"
    using append_take_drop_id [of 3 ?keys] by (simp only: map_append base_keys [OF b1] commit_writer(1) [OF w1 modelId, of "il_payloadHash l"])
  have "(\<lambda>m. (?app, om_idempotencyKey m)) ` set (base @ add) = Pair ?app ` set ?keys"
    unfolding all [symmetric] by auto
  then have stored: "Pair ?app ` set ?keys \<subseteq> ob_key ` set (pd_outbox db2)"
    using keys fold_add_outbox_keys [of ?app "cc_createdAt clock" "base @ add" dbA] frame(2) by auto
  have sub: "set (map om_idempotencyKey (base' @ add')) \<subseteq> set ?keys"
    using base_keys [OF b2] commit_keys [OF w2] set_take_subset [of 3 ?keys] set_drop_subset [of 3 ?keys] by (auto simp: same)
  have known: "(?app, om_idempotencyKey m) \<in> ob_key ` set (pd_outbox db2)" if "m \<in> set (base' @ add')" for m
  proof -
    have "om_idempotencyKey m \<in> set ?keys" using sub that by (auto simp only: set_map image_subset_iff)
    then show ?thesis using stored by blast
  qed
  have "list_all (\<lambda>m. (?app, om_idempotencyKey m) \<in> ob_key ` set (pd_outbox dbB)) (base' @ add')"
    unfolding list_all_iff using known frame(3) by simp
  from fold_add_outbox_known [OF this, of "cc_createdAt clock'"] frame(3,4)
  show "pd_outbox db3 = pd_outbox db2" by (simp add: same del: fold_append)
  have "find_rating ?app ?e (ot_ratings tables) \<noteq> None" by (rule commit_writer(2) [OF w1 modelId])
  moreover have "ot_ratings (pd_official db1) = ot_ratings tables" using frame(1,2) by simp
  ultimately have "find_rating ?app ?e (ot_ratings (pd_official db2)) \<noteq> None" by (auto simp: ratings find_rating_snoc split: option.splits)
  then have "ot_ratings tables' = ot_ratings (pd_official db2)" using commit_ratings [OF w2] by (simp add: same)
  then show "ot_ratings (pd_official db3) = ot_ratings (pd_official db2)" using frame(3,4) by simp
qed

end
