(* ===== verification/PipelineDemo.thy ===== *)
theory PipelineDemo
  imports PipelineTraces
begin

text \<open>
  One concrete event, from its JSON to its leased inbox row, on which the properties of the
  pipeline are instantiated.
\<close>

subsection \<open>A sample event\<close>

definition sample_env :: ingest_env where
  "sample_env =
     \<lparr>is_uuid = uuid_pattern, js_text = (\<lambda>_. []), local_parts = (\<lambda>_ _. None), sha256hex = rev, stringify = (\<lambda>_. ''{}''),
      toISOString = bigint_text, url_parts = (\<lambda>_. None), iso_datetime = (\<lambda>_. True), date_parses = (\<lambda>_. True),
      date_ms = (\<lambda>_. 1752000000000), pg_uuid = uuid_pattern\<rparr>"

definition sample_usage :: json where
  "sample_usage = JObj [(''output_tokens'', JStr ''12''), (''request_count'', JStr ''1'')]"

definition swapped_usage :: json where
  "swapped_usage = JObj [(''request_count'', JStr ''1''), (''output_tokens'', JStr ''12'')]"

definition sample_envelope :: "string \<Rightarrow> (string \<times> json) list" where
  "sample_envelope user =
     [(''schema_version'', JStr ''2.0''), (''event_id'', JStr ''01JZ5M0N8Q4R7T2V9W3X6Y1Z0A''),
      (''event_time'', JStr ''2025-07-08T18:40:00Z''), (''user'', JObj [(''user_id'', JStr user)]),
      (''source'', JObj [(''type'', JStr ''sdk''), (''name'', JStr ''n''), (''version'', JStr ''1''), (''instance_id'', JStr ''i'')]),
      (''request'', JObj
         [(''request_id'', JStr ''r''), (''attempt_id'', JStr ''a''), (''attempt_index'', JNum 0),
          (''is_final_attempt'', JBool True), (''operation_id'', JNull), (''parent_request_id'', JNull),
          (''session_id'', JNull), (''conversation_id'', JNull), (''trace_id'', JNull)]),
      (''model'', JObj [(''request_model'', JStr ''m'')]), (''route'', JNull), (''analytics_dimensions'', JObj []),
      (''result'', JObj [(''status'', JStr ''success''), (''http_status'', JNull), (''latency_ms'', JNull), (''error_class'', JNull)]),
      (''source_cost'', JNull),
      (''privacy'', JObj [(''contains_prompt'', JBool False), (''contains_response'', JBool False)])]"

definition sample_event :: "string \<Rightarrow> json \<Rightarrow> json" where
  "sample_event user usage = JObj (sample_envelope user @ [(''usage'', usage)])"

definition sample_options :: UsageIngestionOptions where
  "sample_options = \<lparr>io_maxBatchSize = 100, io_maxBatchBytes = 1000000, io_maxEventBytes = 100000\<rparr>"

definition sample_valid :: "string \<Rightarrow> json \<Rightarrow> ValidatedUsageEvent" where
  "sample_valid user usage = \<lparr>ve_index = 0, ve_event = sample_event user usage, ve_payloadHash = ''}{''\<rparr>"

definition sample_catalog :: catalog where
  "sample_catalog = \<lparr>cg_connections = [], cg_models = []\<rparr>"

definition sample_world :: persist_world where
  "sample_world = \<lparr>pv_userId = ''user-1'', pv_inboxId = ''inbox-1'', pv_now = 0\<rparr>"

definition sample_tables :: OfficialTables where
  "sample_tables =
     \<lparr>ot_ratings = [],
      ot_quota = \<lparr>d_users = [], d_policies = [], d_quotas = [], d_reservations = [], d_ledger = [], d_audit = []\<rparr>,
       ot_models = [], ot_costVersions = [], ot_aiuVersions = [], ot_applications = []\<rparr>"

definition sample_profile :: UserProfile where
  "sample_profile =
     \<lparr>up_id = ''user-1'', up_applicationId = ''app'', up_externalId = ''u1'', up_name = None, up_propertiesJson = JObj [],
      up_tags = [], up_status = ''ACTIVE'', up_firstSeenAt = 1752000000000, up_lastSeenAt = 1752000000000, up_updatedAt = 0\<rparr>"

definition sample_registry :: RegistryRow where
  "sample_registry = registry_row sample_env sample_catalog ''app'' (sample_valid ''u1'' sample_usage) ''user-1''"

definition sample_row :: InboxRow where
  "sample_row = new_inbox ''inbox-1'' ''app'' ''01JZ5M0N8Q4R7T2V9W3X6Y1Z0A'' (sample_event ''u1'' sample_usage) 0"

definition sample_db :: "OfficialTables PipelineDb" where
  "sample_db = (empty_pipeline sample_tables)\<lparr>pd_users := [sample_profile], pd_registry := [sample_registry], pd_inbox := [sample_row]\<rparr>"

definition sample_sys :: pipe_sys where
  "sample_sys = \<lparr>sys_db = sample_db, sys_issued = [], sys_outIssued = []\<rparr>"

definition sample_leased :: InboxRow where
  "sample_leased = acquired (inbox_owner ''w'') 60000000 sample_row"

definition sample_db2 :: "OfficialTables PipelineDb" where
  "sample_db2 = sample_db\<lparr>pd_inbox := [sample_leased]\<rparr>"

definition sample_lease :: InboxLease where
  "sample_lease =
     \<lparr>il_id = ''inbox-1'', il_applicationId = ''app'', il_eventId = ''01JZ5M0N8Q4R7T2V9W3X6Y1Z0A'', il_payloadHash = ''}{'',
      il_payload = sample_event ''u1'' sample_usage, il_stage = Stage_received, il_attemptCount = 1,
      il_leaseOwner = ''w:inbox-1'', il_leaseExpiresAt = 60000000, il_createdAt = 0, il_replayIntent = None\<rparr>"

subsection \<open>A sample run\<close>

definition all_flags :: PipelineRuntimeFlags where
  "all_flags = \<lparr>fl_usagePipeline = True, fl_modelResolution = True, fl_providerCost = True, fl_aiu = True, fl_quota = True\<rparr>"

definition sample_processor :: processor_options where
  "sample_processor = \<lparr>px_batchSize = 10, px_maxAttempts = 5, px_retryBaseDelayMs = 1000, px_leaseDurationMs = 60000, px_payloadTtlDays = 30\<rparr>"

definition sample_run :: process_world where
  "sample_run =
     \<lparr>pw_checkpointAt = (\<lambda>_. 1), pw_commit = \<lparr>cc_lockedAt = 2, cc_committedAt = 3, cc_createdAt = 4\<rparr>, pw_completeAt = 5,
      pw_failureAt = 6, pw_nowMs = 0, pw_newId = ''dead-1'', pw_zodIssues = (\<lambda>_. JNull)\<rparr>"

definition sample_writer :: writer_env where
  "sample_writer =
     \<lparr>we_rating = \<lparr>dec_of = (\<lambda>_. 0), dec_round = id, localeCompare = (\<lambda>_ _. 0), js_String = (\<lambda>_. [])\<rparr>, we_parseDate = (\<lambda>_. 0), we_decimalText = (\<lambda>_. ''0''), we_sha256 = rev,
      we_ratingId = (\<lambda>app e. e), we_quotaId = ''q'', we_uuid = ''u'', we_offset = (\<lambda>_. 0), we_now = 0\<rparr>"

text \<open>Handlers whose first stage meets a lost database connection, and handlers that always answer.\<close>

definition failing_handlers :: "(OfficialTables, CostRatingArtifact, AiuRatingArtifact, string option) PipelineStageHandlers" where
  "failing_handlers =
     \<lparr>h_resolveModel = (\<lambda>_ _ _. Inl (db_error ''P1001'' ''unreachable'')), h_rateProviderCost = (\<lambda>_ _ _ _. Inl PrimitiveThrown),
      h_rateAiu = (\<lambda>_ _ _ _. Inl PrimitiveThrown), h_settleQuota = (\<lambda>_ _ _. Inl PrimitiveThrown)\<rparr>"

definition sample_cost :: CostRatingArtifact where
  "sample_cost = \<lparr>ca_official = False, ca_source = None, ca_versionId = None, ca_ruleId = None, ca_ruleName = None, ca_currency = None, ca_total = None, ca_lines = []\<rparr>"

definition sample_aiu :: AiuRatingArtifact where
  "sample_aiu = \<lparr>aa_official = False, aa_versionId = None, aa_totalMicros = None, aa_lines = []\<rparr>"

definition sample_resolution :: PipelineResolutionArtifact where
  "sample_resolution = \<lparr>ra_status = ''mapped'', ra_modelId = Some ''model-1'', ra_mappingFingerprint = ''f'', ra_evidence = None\<rparr>"

definition answering_handlers :: "(OfficialTables, CostRatingArtifact, AiuRatingArtifact, string option) PipelineStageHandlers" where
  "answering_handlers =
     \<lparr>h_resolveModel = (\<lambda>_ _ _. Inr sample_resolution), h_rateProviderCost = (\<lambda>_ _ _ _. Inr sample_cost),
      h_rateAiu = (\<lambda>_ _ _ _. Inr sample_aiu), h_settleQuota = (\<lambda>_ _ _. Inr None)\<rparr>"

definition unmapped_resolution :: PipelineResolutionArtifact where
  "unmapped_resolution =
     \<lparr>ra_status = ''unmapped'', ra_modelId = None, ra_mappingFingerprint = mapping_fingerprint sample_writer ''app'' None ''m'',
      ra_evidence = Some (evidence None None ''m'')\<rparr>"

definition sample_context :: app_context where
  "sample_context =
     \<lparr>pc_applicationId = ''app'', pc_event = sample_event ''u1'' sample_usage, pc_normalized = normalized_json (sample_event ''u1'' sample_usage),
      pc_resolution = sample_resolution, pc_providerCost = Some sample_cost, pc_aiu = Some sample_aiu, pc_quota = Some None, pc_replayIntent = None\<rparr>"

definition replayed_row :: InboxRow where
  "replayed_row = sample_leased\<lparr>ib_replayIntentJson := Some (intent_json ''11111111-1111-4111-8111-111111111111'' ''rerun_provider_cost'')\<rparr>"

subsection \<open>The sample event is valid, stored and leased\<close>

lemma sample_usage_ok: "rawUsageSchema sample_usage" "rawUsageSchema swapped_usage"
  by code_simp+

lemma sample_parts_ok:
  "eventIdSchema (JStr ''01JZ5M0N8Q4R7T2V9W3X6Y1Z0A'')" "utcTimestampSchema (JStr ''2025-07-08T18:40:00Z'')"
  "usageSourceSchema (JObj [(''type'', JStr ''sdk''), (''name'', JStr ''n''), (''version'', JStr ''1''), (''instance_id'', JStr ''i'')])"
  "usageRequestSchema (JObj
         [(''request_id'', JStr ''r''), (''attempt_id'', JStr ''a''), (''attempt_index'', JNum 0),
          (''is_final_attempt'', JBool True), (''operation_id'', JNull), (''parent_request_id'', JNull),
          (''session_id'', JNull), (''conversation_id'', JNull), (''trace_id'', JNull)])"
  "usageModelSchema (JObj [(''request_model'', JStr ''m'')])" "analyticsDimensionsSchema sample_env (JObj [])"
  "usageResultSchema (JObj [(''status'', JStr ''success''), (''http_status'', JNull), (''latency_ms'', JNull), (''error_class'', JNull)])"
  "sourceCostSchema JNull" "usagePrivacySchema (JObj [(''contains_prompt'', JBool False), (''contains_response'', JBool False)])"
  by code_simp+

lemma sample_users: "bounded_string 1 256 (JStr ''u1'')" "bounded_string 1 256 (JStr '' '')"
  by code_simp+

lemma sample_event_schema:
  "bounded_string 1 256 (JStr u) \<Longrightarrow> rawUsageSchema usage \<Longrightarrow> usageEventSchema sample_env (sample_event u usage)"
  by (simp add: usageEventSchema_def eventEnvelopeShape_def z_object_def sample_event_def sample_envelope_def req_def opt_def
    sample_parts_ok usageUserSchema_def z_literal_def z_nullable_def)

lemma sample_members [simp]:
  "member (sample_event u usage) ''event_id'' = Some (JStr ''01JZ5M0N8Q4R7T2V9W3X6Y1Z0A'')"
  "member (sample_event u usage) ''user'' = Some (JObj [(''user_id'', JStr u)])"
  "member (sample_event u usage) ''model'' = Some (JObj [(''request_model'', JStr ''m'')])"
  "member (sample_event u usage) ''event_properties'' = None" "member (sample_event u usage) ''user_properties'' = None"
  by (simp_all add: sample_event_def sample_envelope_def)

lemma sample_texts [simp]:
  "event_text (sample_event u usage) ''event_id'' = ''01JZ5M0N8Q4R7T2V9W3X6Y1Z0A''"
  "event_text (sub (sample_event u usage) ''user'') ''user_id'' = u"
  by (simp_all add: event_text_def string_member_def json_string_def sub_def)

lemma sample_validates:
  "bounded_string 1 256 (JStr u) \<Longrightarrow> rawUsageSchema usage \<Longrightarrow>
   validateEvent sample_env sample_options 0 (sample_event u usage) [] = Inr (sample_valid u usage)"
  by (simp add: validateEvent_def sample_event_schema validateEventProperties_def validateScope_def sample_options_def
    canonicalJson_def canonicalPayloadHash_def sample_valid_def) (simp add: sample_env_def)

lemma sample_row_fields:
  "rg_externalUserId (registry_row sample_env sample_catalog app (sample_valid u usage) k) = u"
  "rg_requestModel (registry_row sample_env sample_catalog app (sample_valid u usage) k) = ''m''"
  "rg_provider (registry_row sample_env sample_catalog app (sample_valid u usage) k) = None"
  "rg_reservationId (registry_row sample_env sample_catalog app (sample_valid u usage) k) = None"
  by (simp_all add: registry_row_def sample_valid_def Let_def event_text_def string_member_def json_string_def sub_def)
    (simp_all add: sample_event_def sample_envelope_def)

lemma sample_persists:
  "persistEvent sample_env sample_catalog sample_world id ''app'' (sample_valid ''u1'' sample_usage) (empty_pipeline sample_tables) =
     (sample_db, Inr (itemResult (sample_valid ''u1'' sample_usage) Item_accepted))"
proof -
  have "registry_accepts sample_env (registry_row sample_env sample_catalog ''app'' (sample_valid ''u1'' sample_usage) ''user-1'')"
    by (simp add: registry_accepts_def sample_row_fields btrim_def)
  then show ?thesis
    by (simp add: persistEvent_def insert_event_def upsert_profile_def Let_def empty_pipeline_def registry_of_def find_unique_def
      sample_db_def sample_registry_def sample_row_def sample_profile_def sample_world_def string_member_def json_string_def sub_def)
      (simp add: sample_valid_def sample_env_def event_text_def string_member_def json_string_def)
qed

lemma sample_reachable: "pipe_reachable sample_sys"
proof -
  let ?s = "\<lparr>sys_db = empty_pipeline sample_tables, sys_issued = [], sys_outIssued = []\<rparr>"
  have "persistEvent sample_env sample_catalog sample_world id ''app'' (sample_valid ''u1'' sample_usage) (sys_db ?s) =
     (sample_db, Inr (itemResult (sample_valid ''u1'' sample_usage) Item_accepted))" using sample_persists by simp
  from pipe_stepI [OF pipe_act.ingest [OF sample_validates this]] have "pipe_step ?s (?s\<lparr>sys_db := sample_db\<rparr>)" using sample_users sample_usage_ok by simp
  from pipe_reachable.step [OF pipe_reachable.start this] show ?thesis by (simp add: sample_sys_def)
qed

lemma sample_batch: "inbox_batch (\<lambda>_. False) 10 0 sample_db = {''inbox-1''}"
  by (simp add: inbox_batch_def lease_candidates_def sample_db_def empty_pipeline_def sample_row_def new_inbox_def leasable_def
    inbox_eligible_def registry_of_def find_unique_def sample_registry_def sample_valid_def)

lemma sample_leases: "leaseInbox id (\<lambda>_. False) 60000 ''w'' 10 0 sample_db = (sample_db2, Inr [sample_lease])"
proof -
  have rows: "acquire_rows {''inbox-1''} (inbox_owner ''w'') 60000000 (pd_inbox sample_db) = [sample_leased]"
    by (simp add: acquire_rows_def sample_db_def sample_leased_def sample_row_def new_inbox_def)
  have "mapLease (pd_registry sample_db) sample_leased = Inr sample_lease"
    by (simp add: mapLease_def sample_leased_def sample_row_def acquired_def new_inbox_def sample_event_def sample_lease_def
      parsePipelineReplayIntent_def registry_of_def find_unique_def sample_db_def sample_registry_def inbox_owner_def sample_valid_def)
      (simp add: event_text_def string_member_def json_string_def sample_envelope_def)
  moreover have "lr_id sample_leased = ''inbox-1''" by (simp add: sample_leased_def sample_row_def new_inbox_def)
  ultimately show ?thesis by (simp add: leaseInbox_def sample_batch rows Let_def sample_db2_def)
qed

subsection \<open>Lemmas on validation\<close>

lemma normalized_lines: "member (normalized_json event) ''usage_lines'' = Some (JArr (usageLines event))"
proof -
  have "''usage_lines'' \<notin> set envelope_fields" by (simp add: envelope_fields_def)
  then have "map_of (List.maps (\<lambda>k. case member event k of None \<Rightarrow> [] | Some v \<Rightarrow> [(k, v)]) ks) ''usage_lines'' = None"
    if "set ks \<subseteq> set envelope_fields" for ks
    using that by (induction ks) (auto simp: List.maps_eq map_add_def split: option.splits)
  then show ?thesis by (simp add: normalized_json_def map_add_def)
qed

lemma validated_event:
  assumes "validateEvent env opts i e definitions = Inr v"
  shows "ve_event v = e \<and> ve_payloadHash v = canonicalPayloadHash env e \<and> usageEventSchema env e"
  using assms by (auto simp: validateEvent_def split: if_splits option.splits)

lemma registry_of_fingerprint:
  "registry_of app e (pd_registry db) = Some g \<Longrightarrow> ((app, e), rg_payloadHash g) \<in> fingerprints db"
  by (auto simp: registry_of_def fingerprints_def rg_key_def image_iff dest!: find_unique_SomeD intro!: bexI [of _ g])

lemma reordered_event_id:
  assumes "reordered e e'" and "validateEvent env opts i e definitions = Inr v"
  shows "event_text e ''event_id'' = event_text e' ''event_id''"
proof -
  have "usageEventSchema env e" using validated_event [OF assms(2)] by simp
  then have "\<exists>v. member e ''event_id'' = Some v \<and> eventIdSchema v"
    unfolding usageEventSchema_def by (rule z_object_field) (simp add: eventEnvelopeShape_def req_def)
  then obtain v where "member e ''event_id'' = Some v" "eventIdSchema v" by blast
  then obtain s where s: "member e ''event_id'' = Some (JStr s)" by (cases v) (auto simp: eventIdSchema_def z_string_def)
  then show ?thesis using reordered_string_member [OF assms(1) s] by (simp add: event_text_def string_member_def)
qed

lemma sample_reordered: "reordered (sample_event u sample_usage) (sample_event u swapped_usage)"
proof -
  have usage: "reordered sample_usage swapped_usage"
    unfolding sample_usage_def swapped_usage_def
    by (rule reordered.obj [where ms' = "[(''output_tokens'', JStr ''12''), (''request_count'', JStr ''1'')]"]) (simp_all add: reordered.same add_mset_commute)
  have same: "list_all2 (\<lambda>x y. fst x = fst y \<and> reordered (snd x) (snd y)) ms ms" for ms :: "(string \<times> json) list"
    by (simp add: list_all2_conv_all_nth reordered.same)
  show ?thesis
    unfolding sample_event_def
    by (rule reordered.obj [OF _ _ refl]) (simp add: sample_envelope_def, simp add: list_all2_append same usage)
qed

lemma sample_batch_id: "utf16_length ''b'' = 1"
  by code_simp

subsection \<open>Runs of the sample event\<close>

lemma sample_parses: "parse_event sample_env w (sample_event ''u1'' usage) = Inr (normalized_json (sample_event ''u1'' usage))"
  if "rawUsageSchema usage"
  using sample_event_schema [OF sample_users(1) that] normalizeUsageEvent_total [OF sample_event_schema [OF sample_users(1) that]]
  by (simp add: parse_event_def)

lemma retry_succeeds:
  assumes h: "holds E us key payload db l" and now: "now < E"
  shows "\<exists>db'. retry l failure t now db = Inr db'"
proof -
  obtain r where one: "\<And>now p. now < E \<Longrightarrow> p r \<Longrightarrow> filter (\<lambda>x. fenced (il_id l) (il_leaseOwner l) now x \<and> p x) (pd_inbox db) = [r]"
    by (rule holdsE [OF h]) (rule that)
  have "count_rows (fenced (il_id l) (il_leaseOwner l) now) (pd_inbox db) = 1"
    using one [OF now, of "\<lambda>_. True"] by (simp add: count_rows_def)
  then show ?thesis by (simp add: retry_def fenced_write_def)
qed

lemma unreachable_retryable: "pf_retryable (classifyPipelineError (db_error ''P1001'' ''unreachable'') stage)"
  by (simp add: classifyPipelineError_def db_error_def plain_error_def errorCode_def own_codes_def RETRYABLE_DATABASE_CODES_def Let_def
    eval_nat_numeral)

lemma sample_retry:
  "po_status (snd (process sample_env sample_processor all_flags failing_handlers (commit sample_writer) sample_run sample_lease sample_db2)) =
     Ps_retry_scheduled"
proof -
  have inv: "db_inv sample_db" using reachable_inv [OF sample_reachable] by (simp add: pipe_inv_def sample_sys_def)
  let ?s0 = "initial_state sample_db2 sample_lease :: (OfficialTables, PipelineOfficialMetrics) proc_state"
  have h0: "holds 60000000 (pd_users sample_db) (il_key sample_lease) (il_payload sample_lease) sample_db2 sample_lease"
    using lease_holds [OF inv sample_leases] by simp
  have pay: "il_payload sample_lease = sample_event ''u1'' sample_usage" by (simp add: sample_lease_def)
  let ?n = "normalized_json (sample_event ''u1'' sample_usage)"
  have "\<exists>s1 did. run_stage sample_processor sample_run Metric_normalization Stage_normalized
      (parse_event sample_env sample_run (il_payload (ps_lease ?s0))) ?s0 = Inr (s1, ?n, did) \<and>
      holds 60000000 (pd_users sample_db) (il_key sample_lease) (il_payload sample_lease) (ps_db s1) (ps_lease s1)"
    by (rule run_stage_succeeds)
      (use h0 sample_parses [OF sample_usage_ok(1)] in \<open>simp_all add: initial_state_def sample_run_def checkpoint_stages_def pay\<close>)
  then obtain s1 did where r1: "run_stage sample_processor sample_run Metric_normalization Stage_normalized
      (parse_event sample_env sample_run (il_payload (ps_lease ?s0))) ?s0 = Inr (s1, ?n, did)"
    and h1: "holds 60000000 (pd_users sample_db) (il_key sample_lease) (il_payload sample_lease) (ps_db s1) (ps_lease s1)" by blast
  have c0: "counted (attempts sample_db2) ''inbox-1'' 1 (ps_db ?s0) (ps_lease ?s0)"
    by (simp add: counted_def initial_state_def attempts_def sample_db2_def sample_leased_def sample_row_def new_inbox_def acquired_def
      sample_lease_def)
  have "il_attemptCount (ps_lease s1) = 1"
    using counts.run_stage_keeps [OF c0, of Stage_normalized "parse_event sample_env sample_run (il_payload (ps_lease ?s0))"
      sample_processor sample_run Metric_normalization] r1
    by (simp add: checkpoint_stages_def counted_def)
  moreover have "retry (ps_lease s1) f t 6 (ps_db s1) \<noteq> Inl e" for f t e using retry_succeeds [OF h1, of 6 f t] by auto
  moreover have "resolve_stage sample_env all_flags failing_handlers ?n s1 = Inl (db_error ''P1001'' ''unreachable'')"
    by (simp add: resolve_stage_def all_flags_def failing_handlers_def Let_def)
  ultimately show ?thesis
    using r1 unreachable_retryable
    by (auto simp: process_def run_stages_def run_stage_def [of _ _ Metric_model_resolution] handle_failure_def Let_def
      sample_processor_def sample_run_def outcome_of_def split: sum.splits)
qed

lemma sample_holds:
  "holds 60000000 [sample_profile] (''app'', ''01JZ5M0N8Q4R7T2V9W3X6Y1Z0A'') (sample_event ''u1'' sample_usage) sample_db2 sample_lease"
proof -
  have inv: "db_inv sample_db" using reachable_inv [OF sample_reachable] by (simp add: pipe_inv_def sample_sys_def)
  show ?thesis using lease_holds [OF inv sample_leases, of sample_lease] by (simp add: sample_db_def sample_lease_def il_key_def)
qed

lemma sample_normalized_user:
  "event_text (sub (normalized_json (sample_event ''u1'' sample_usage)) ''user'') ''user_id'' = ''u1''"
proof -
  have "member (normalized_json (sample_event ''u1'' sample_usage)) ''user'' = Some (JObj [(''user_id'', JStr ''u1'')])"
    by (simp add: normalized_json_def envelope_fields_def List.maps_eq sample_event_def sample_envelope_def)
  then show ?thesis by (simp add: sub_def event_text_def string_member_def json_string_def)
qed

lemma commit_unrated:
  assumes "registry_of ''app'' ''01JZ5M0N8Q4R7T2V9W3X6Y1Z0A'' (pd_registry db) \<noteq> None" and "list_all (\<lambda>g. rg_reservationId g = None) (pd_registry db)"
  shows "\<exists>tables additional m. commit sample_writer sample_context db = Inr (tables, additional, m)"
proof -
  obtain g where g: "registry_of ''app'' ''01JZ5M0N8Q4R7T2V9W3X6Y1Z0A'' (pd_registry db) = Some g" using assms(1) by blast
  then have "rg_reservationId g = None" using assms(2) by (auto simp: registry_of_def list_all_iff dest: find_unique_SomeD)
  then show ?thesis using g
    by (simp add: commit_def sample_context_def costArtifact_def aiuArtifact_def sample_resolution_def sample_aiu_def settle_usage_def
      quotaArtifact_def applyUserAiu_def lift_res_def Let_def case_prod_beta)
qed

lemma advance_reservations:
  "advance dur l stage now db = Inr (db', l') \<Longrightarrow> list_all (\<lambda>g. rg_reservationId g = None) (pd_registry db) \<Longrightarrow>
   list_all (\<lambda>g. rg_reservationId g = None) (pd_registry db')"
  by (erule advance_effect) (auto simp: list_all_iff set_update_rows)

lemma sample_commits:
  assumes h: "holds 60000000 [sample_profile] (''app'', ''01JZ5M0N8Q4R7T2V9W3X6Y1Z0A'') (sample_event ''u1'' sample_usage) db l"
    and free: "list_all (\<lambda>g. rg_reservationId g = None) (pd_registry db)"
  shows "\<exists>db' l' m. commitOfficial sample_env 60000 (pw_commit sample_run) (commit sample_writer) l sample_context db = Inr (db', l', m) \<and>
    holds 60000000 [sample_profile] (''app'', ''01JZ5M0N8Q4R7T2V9W3X6Y1Z0A'') (sample_event ''u1'' sample_usage) db' l' \<and>
    list_all (\<lambda>g. rg_reservationId g = None) (pd_registry db')"
proof -
  obtain r where r: "ib_key r = il_key l" and reg: "registry_of (ib_applicationId r) (ib_eventId r) (pd_registry db) \<noteq> None"
    by (rule holdsE [OF h]) (rule that)
  have "il_key l = (''app'', ''01JZ5M0N8Q4R7T2V9W3X6Y1Z0A'')" using h by (simp add: holds_def)
  then have "registry_of ''app'' ''01JZ5M0N8Q4R7T2V9W3X6Y1Z0A'' (pd_registry db) \<noteq> None" using r reg by (simp add: ib_key_def)
  from commit_unrated [OF this free] obtain tables additional m where w: "commit sample_writer sample_context db = Inr (tables, additional, m)" by blast
  have "\<exists>db' l'. commitOfficial sample_env 60000 (pw_commit sample_run) (commit sample_writer) l sample_context db = Inr (db', l', m) \<and>
      holds 60000000 [sample_profile] (''app'', ''01JZ5M0N8Q4R7T2V9W3X6Y1Z0A'') (sample_event ''u1'' sample_usage) db' l'"
    by (rule commit_succeeds [OF h], simp_all add: sample_run_def, rule w, simp_all add: sample_context_def sample_profile_def sample_normalized_user)
  then obtain db' l' where ok: "commitOfficial sample_env 60000 (pw_commit sample_run) (commit sample_writer) l sample_context db = Inr (db', l', m)"
    and h': "holds 60000000 [sample_profile] (''app'', ''01JZ5M0N8Q4R7T2V9W3X6Y1Z0A'') (sample_event ''u1'' sample_usage) db' l'" by blast
  obtain tables1 additional1 db1 cur base where
    a1: "advance 60000 l Stage_official_committed (cc_committedAt (pw_commit sample_run)) (db\<lparr>pd_official := tables1\<rparr>) = Inr (db1, cur)"
    and a2: "advance 60000 cur Stage_outbox_created (cc_createdAt (pw_commit sample_run))
       (fold (add_outbox (pc_applicationId sample_context) (cc_createdAt (pw_commit sample_run))) (base @ additional1) db1) = Inr (db', l')"
    by (rule commitOfficial_effect [OF ok]) (rule that)
  have "list_all (\<lambda>g. rg_reservationId g = None) (pd_registry db1)" by (rule advance_reservations [OF a1]) (simp add: free)
  then have "list_all (\<lambda>g. rg_reservationId g = None) (pd_registry db')" by (intro advance_reservations [OF a2]) simp
  then show ?thesis using ok h' by blast
qed

lemma replayed_lease: "\<exists>l i. mapLease [sample_registry] replayed_row = Inr l \<and> il_replayIntent l = Some i \<and> il_stage l = Stage_received"
proof -
  have "uuid_pattern ''11111111-1111-4111-8111-111111111111''" by code_simp
  then have "\<exists>i. parsePipelineReplayIntent (ib_replayIntentJson replayed_row) = Inr (Some i)"
    by (simp add: replayed_row_def parsePipelineReplayIntent_def intent_json_def Let_def string_member_def json_string_def exactKeys_def
      RECONCILIATION_REPLAY_ACTIONS_def)
  moreover have "ib_payloadJson replayed_row = Some (sample_event ''u1'' sample_usage)" "ib_stage replayed_row = Stage_received"
    by (simp_all add: replayed_row_def sample_leased_def sample_row_def new_inbox_def acquired_def)
  ultimately show ?thesis by (auto simp: mapLease_def sample_event_def)
qed

lemma sample_view:
  "n_source_cost (normalized_view we (normalized_json (sample_event ''u1'' sample_usage))) = None"
  "n_model_id (normalized_view we (normalized_json (sample_event ''u1'' sample_usage))) = None"
  "n_connection_id (normalized_view we (normalized_json (sample_event ''u1'' sample_usage))) = None"
  by (simp_all add: normalized_view_def Let_def normalized_json_def envelope_fields_def List.maps_eq sample_event_def sample_envelope_def
    sub_def cost_view_def string_member_def json_string_def)

lemma sample_stages:
  "resolveModel sample_writer db ''app'' (normalized_json (sample_event ''u1'' sample_usage)) = Inr unmapped_resolution"
  "rateProviderCost sample_writer db ''app'' (normalized_json (sample_event ''u1'' sample_usage)) unmapped_resolution = Inr (unpriced None)"
  "\<exists>aiu. rateAiu sample_writer db ''app'' (normalized_json (sample_event ''u1'' sample_usage)) unmapped_resolution = Inr aiu"
proof -
  have "n_request_model (normalized_view sample_writer (normalized_json (sample_event ''u1'' sample_usage))) = ''m''"
    by (simp add: normalized_view_def Let_def normalized_json_def envelope_fields_def List.maps_eq sample_event_def sample_envelope_def
      sub_def event_text_def string_member_def json_string_def)
  then show "resolveModel sample_writer db ''app'' (normalized_json (sample_event ''u1'' sample_usage)) = Inr unmapped_resolution"
    by (simp add: resolveModel_def sample_view Let_def unmapped_resolution_def)
  show "rateProviderCost sample_writer db ''app'' (normalized_json (sample_event ''u1'' sample_usage)) unmapped_resolution = Inr (unpriced None)"
    by (simp add: rateProviderCost_def sample_view rateApplicationCost_def lift_res_def Let_def unmapped_resolution_def)
  show "\<exists>aiu. rateAiu sample_writer db ''app'' (normalized_json (sample_event ''u1'' sample_usage)) unmapped_resolution = Inr aiu"
    by (simp add: rateAiu_def Let_def)
qed

end
