(* ===== verification/PipelineProperties.thy ===== *)
theory PipelineProperties
  imports PipelineDemo
begin

text \<open>
  The properties of the usage pipeline: contract and ingestion, the inbox under interleaving
  workers, commits, replays and delivery.  Each is instantiated on the sample event of
  \<open>PipelineDemo\<close>.
\<close>

subsection \<open>Contracts and ingestion\<close>

text \<open>C7: Every event that satisfies the ingestion contract can be normalized: the normalizer's own output schema never
  refuses what it built.  The result carries each standard usage bucket the event reports as exactly one line with the
  reported quantity, and no line for a bucket that is absent.\<close>

theorem usage_event_normalizes:
  assumes "usageEventSchema env event"
  shows "\<exists>n. normalizeUsageEvent env event = Some n \<and> normalizedUsageSchema env n \<and>
    list_all (\<lambda>(bucket, usageType, unit). quantities_of usageType (array_of (member n ''usage_lines'')) =
      (case string_member (sub event ''usage'') bucket of None \<Rightarrow> [] | Some q \<Rightarrow> [Some q])) STANDARD_USAGE"
  using normalizeUsageEvent_total [OF assms] normalized_json_ok [OF assms] normalized_lines [of event]
  by (auto simp: list_all_iff array_of_def usage_lines_quantities)

theorem usage_event_normalizes_witness:
  "\<exists>n. normalizeUsageEvent sample_env (sample_event ''u1'' sample_usage) = Some n \<and> normalizedUsageSchema sample_env n \<and>
    list_all (\<lambda>(bucket, usageType, unit). quantities_of usageType (array_of (member n ''usage_lines'')) =
      (case string_member (sub (sample_event ''u1'' sample_usage) ''usage'') bucket of None \<Rightarrow> [] | Some q \<Rightarrow> [Some q])) STANDARD_USAGE"
  by (rule usage_event_normalizes, rule sample_event_schema [OF sample_users(1) sample_usage_ok(1)])

text \<open>C15: An accepted event is stored once.  Submitted again, with the members of its objects in any order, it is reported
  as a duplicate and changes nothing, in every state any interleaving of the services can reach afterwards.\<close>

theorem resubmission_is_duplicate:
  fixes env :: ingest_env
  assumes "pipe_reachable s" and "validateEvent env opts i e definitions = Inr v"
    and "persistEvent env cat w id app v (sys_db s) = (db1, Inr r)" and "ir_status r = Item_accepted"
    and "pipe_step\<^sup>*\<^sup>* (s\<lparr>sys_db := db1\<rparr>) s2"
    and "reordered e e'" and "validateEvent env opts' j e' definitions' = Inr v'"
  shows "persistEvent env cat' w' id app v' (sys_db s2) = (sys_db s2, Inr (itemResult v' Item_duplicate))"
proof -
  let ?id = "event_text e ''event_id''"
  have step: "pipe_step s (s\<lparr>sys_db := db1\<rparr>)" by (rule pipe_stepI [OF pipe_act.ingest [OF assms(2,3)]])
  then have inv: "pipe_inv (s\<lparr>sys_db := db1\<rparr>)" using reachable_inv [OF assms(1)] by (rule pipe_step_inv)
  note later = pipe_steps_extend [OF assms(5) inv]
  have v: "ve_event v = e" "ve_payloadHash v = canonicalPayloadHash env e" and v': "ve_event v' = e'" "ve_payloadHash v' = canonicalPayloadHash env e'"
    using validated_event [OF assms(2)] validated_event [OF assms(7)] by simp_all
  obtain g where g: "registry_of app ?id (pd_registry db1) = Some g" "rg_payloadHash g = ve_payloadHash v"
    using accepted_registered(2) [OF assms(3,4)] v(1) by auto
  have "((app, ?id), ve_payloadHash v) \<in> fingerprints db1" using registry_of_fingerprint [OF g(1)] g(2) by simp
  then have "((app, ?id), ve_payloadHash v) \<in> fingerprints (sys_db s2)" using later by (auto simp: extends_def)
  then obtain g2 where g2: "registry_of app ?id (pd_registry (sys_db s2)) = Some g2" "rg_payloadHash g2 = ve_payloadHash v"
    using registered_hash later by (metis pipe_inv_def)
  have "?id = event_text e' ''event_id''" by (rule reordered_event_id [OF assms(6,2)])
  then show ?thesis
    using known_event [of app v' "sys_db s2" g2 env cat' w' id] g2 v' v(2) reordered_hash [OF assms(6), of env]
    by (simp add: statusForExisting_def)
qed

theorem resubmission_is_duplicate_witness:
  "persistEvent sample_env sample_catalog sample_world id ''app'' (sample_valid ''u1'' swapped_usage) sample_db =
     (sample_db, Inr (itemResult (sample_valid ''u1'' swapped_usage) Item_duplicate))"
proof -
  let ?s = "\<lparr>sys_db = empty_pipeline sample_tables, sys_issued = [], sys_outIssued = []\<rparr>"
  have stored: "persistEvent sample_env sample_catalog sample_world id ''app'' (sample_valid ''u1'' sample_usage) (sys_db ?s) =
     (sample_db, Inr (itemResult (sample_valid ''u1'' sample_usage) Item_accepted))" using sample_persists by simp
  have swapped: "reordered (sample_event ''u1'' sample_usage) (sample_event ''u1'' swapped_usage)" by (rule sample_reordered)
  show ?thesis
    using resubmission_is_duplicate [OF pipe_reachable.start sample_validates [OF sample_users(1) sample_usage_ok(1)] stored _
      rtranclp.rtrancl_refl swapped sample_validates [OF sample_users(1) sample_usage_ok(2)]]
    by (simp add: itemResult_def)
qed

subsection \<open>The inbox under interleaving\<close>

text \<open>C2: In every state the services can reach, the tables are consistent: ids, events and idempotency keys are unique, each
  inbox row has its registry row and shows the same stage unless reconciliation requeued it, status and stage agree on the
  terminal states, a row that may still run has its payload, and leases and dead letters name rows that exist.  Hence
  leasing never fails there: it hands out exactly the rows it selected.\<close>

theorem reachable_pipeline_consistent:
  assumes "pipe_reachable s" and "1 \<le> limit" and "limit \<le> 1000" and "\<forall>xs. set (returning xs) = set xs"
  shows "pipe_inv s \<and>
    (\<exists>db' ls. leaseInbox returning locked dur token limit now (sys_db s) = (db', Inr ls) \<and>
       il_id ` set ls = inbox_batch locked limit now (sys_db s))"
proof -
  have inv: "pipe_inv s" by (rule reachable_inv [OF assms(1)])
  then have "db_inv (sys_db s)" by (simp add: pipe_inv_def)
  from leaseInbox_succeeds [OF this assms(2-4)] show ?thesis using inv by blast
qed

theorem reachable_pipeline_consistent_witness:
  "pipe_inv sample_sys \<and>
    (\<exists>db' ls. leaseInbox rev (\<lambda>_. False) 60000 ''w'' 10 0 (sys_db sample_sys) = (db', Inr ls) \<and>
       il_id ` set ls = inbox_batch (\<lambda>_. False) 10 0 (sys_db sample_sys))"
  by (rule reachable_pipeline_consistent [OF sample_reachable]) simp_all

text \<open>C3: The inbox implements the abstract lease service.  Every transaction of every service, seen as a change of who holds
  which row until when, is the step of the lease service for the request it carries, at the instant it carries: a
  leasing statement grants, to owners that did not hold them, rows no lease is live on at that instant; a checkpoint or
  commit extends, and a completion, retry or dead letter releases, the worker's own lease while it is live; a console
  replay takes back the row of an open dead letter; the others change no lease.  So a worker keeps its row, with the same
  or a later deadline, unless it releases it itself, another worker is granted it at or after the deadline, or the console
  replays it.\<close>

theorem inbox_refines_lease_service:
  assumes "pipe_reachable s" and "pipe_act s a s'"
  shows "lease_step (open_rows (sys_db s)) (inbox_leases (sys_db s)) a (inbox_leases (sys_db s')) \<and>
    (\<forall>k w e. inbox_leases (sys_db s) k = Some (w, e) \<longrightarrow>
       (\<exists>e' \<ge> e. inbox_leases (sys_db s') k = Some (w, e')) \<or> (\<exists>now < e. a = Act_release now k w) \<or>
       (\<exists>now own e'. a = Act_grant now own e' \<and> e \<le> now \<and> own k \<noteq> w) \<or> (a = Act_revoke k \<and> k \<in> open_rows (sys_db s)))"
proof -
  have sim: "lease_step (open_rows (sys_db s)) (inbox_leases (sys_db s)) a (inbox_leases (sys_db s'))"
    by (rule pipe_act_simulates [OF assms(2) reachable_inv [OF assms(1)] reachable_holders [OF assms(1)]])
  then show ?thesis using lease_step_holder [OF sim] by blast
qed

theorem inbox_refines_lease_service_witness:
  "lease_step {} (inbox_leases sample_db) (Act_grant 0 (inbox_owner ''w'') 60000000) (inbox_leases sample_db2) \<and>
     inbox_leases sample_db ''inbox-1'' = None \<and> inbox_leases sample_db2 ''inbox-1'' = Some (''w:inbox-1'', 60000000)"
proof -
  have "pipe_act sample_sys (Act_grant 0 (inbox_owner ''w'') (0 + 60000 * 1000))
      (sample_sys\<lparr>sys_db := sample_db2, sys_issued := sys_issued sample_sys @ [sample_lease]\<rparr>)"
    by (rule pipe_act.lease [of id "\<lambda>_. False" 60000 "''w''" 10 0])
      (simp_all add: sample_sys_def sample_leases fresh_token_def)
  from inbox_refines_lease_service [OF sample_reachable this]
  have "lease_step {} (inbox_leases sample_db) (Act_grant 0 (inbox_owner ''w'') 60000000) (inbox_leases sample_db2)"
    by (simp add: sample_sys_def open_rows_def) (simp add: sample_db_def empty_pipeline_def)
  then show ?thesis
    by (simp add: inbox_leases_def leases_def find_unique_def row_lease_def sample_db_def sample_db2_def sample_leased_def
      sample_row_def new_inbox_def acquired_def inbox_owner_def)
qed

text \<open>C5: A worker whose row was taken over by another worker changes nothing: whatever its lease, its handlers and its
  clocks say, its run leaves the database as it is and reports failure.\<close>

theorem taken_over_worker_is_fenced:
  assumes "leaseInbox returning locked dur token limit now db = (db', Inr ls)" and "il_id l \<in> inbox_batch locked limit now db"
    and "il_leaseOwner l \<noteq> inbox_owner token (il_id l)"
  shows "fst (process env opts flags h writer w l db') = db' \<and> po_status (snd (process env opts flags h writer w l db')) = Ps_failed"
  using stale_process [OF takeover_stale [OF assms]] by blast

theorem taken_over_worker_is_fenced_witness:
  "fst (process sample_env sample_processor all_flags failing_handlers (commit sample_writer) sample_run (sample_lease\<lparr>il_leaseOwner := ''old''\<rparr>) sample_db2) =
     sample_db2 \<and>
   po_status (snd (process sample_env sample_processor all_flags failing_handlers (commit sample_writer) sample_run
     (sample_lease\<lparr>il_leaseOwner := ''old''\<rparr>) sample_db2)) = Ps_failed"
  by (rule taken_over_worker_is_fenced [OF sample_leases]) (simp_all add: sample_lease_def sample_batch inbox_owner_def)

text \<open>C8: Retries end.  However often an event is leased, run and scheduled for another try, the rounds that end in a retry
  stay below the configured number of attempts, counted from the attempts the row starts with.\<close>

theorem retries_are_bounded:
  assumes "failed_rounds env opts flags h writer k n db db'" and "distinct (map lr_id (pd_inbox db))"
    and "map_of (attempts db) k = Some a" and "0 < n"
  shows "a + int n < px_maxAttempts opts \<and> map_of (attempts db') k = Some (a + int n)"
  using failed_rounds_bound [OF assms(1-3)] assms(4) by simp

theorem retries_are_bounded_witness:
  "\<exists>db'. failed_rounds sample_env sample_processor all_flags failing_handlers (commit sample_writer) ''inbox-1'' 1 sample_db db' \<and>
     0 + int 1 < px_maxAttempts sample_processor \<and> map_of (attempts db') ''inbox-1'' = Some (0 + int 1)"
proof -
  obtain db' out where run: "process sample_env sample_processor all_flags failing_handlers (commit sample_writer) sample_run sample_lease sample_db2 = (db', out)"
    and out: "po_status out = Ps_retry_scheduled" using sample_retry by (metis prod.collapse)
  have "failed_rounds sample_env sample_processor all_flags failing_handlers (commit sample_writer) ''inbox-1'' (Suc 0) sample_db db'"
    by (rule failed_rounds.round [OF failed_rounds.start sample_leases _ _ _ run out]) (simp_all add: sample_lease_def)
  then have rounds: "failed_rounds sample_env sample_processor all_flags failing_handlers (commit sample_writer) ''inbox-1'' 1 sample_db db'" by simp
  have "distinct (map lr_id (pd_inbox sample_db))" "map_of (attempts sample_db) ''inbox-1'' = Some 0"
    by (simp_all add: sample_db_def attempts_def sample_row_def new_inbox_def)
  from retries_are_bounded [OF rounds this] rounds show ?thesis by auto
qed

subsection \<open>Commits, replays, delivery\<close>



text \<open>C33: A reconciliation replay never completes.  Its intent switches off either the cost or the AIU rating, the
  official writer demands both, so whatever the flags, handlers and clocks, a run of a requeued event ends in a retry, a
  failure or a dead letter.\<close>

theorem reconciliation_replay_never_completes:
  assumes "distinct (map lr_id (pd_inbox db))" and "r \<in> set (pd_inbox db)" and "mapLease (pd_registry db) r = Inr l"
    and "il_replayIntent l = Some i" and "stageRank (il_stage l) < stageRank Stage_outbox_created"
  shows "po_status (snd (process env opts flags h (commit we) w l db)) \<noteq> Ps_completed"
proof -
  have "replaying i db l" by (rule current_lease_replays [OF assms])
  moreover have "parsePipelineReplayIntent (ib_replayIntentJson r) = Inr (Some i)" using mapLease_intent [OF assms(3)] assms(4) by simp
  ultimately show ?thesis by (rule replay_never_completes)
qed

theorem reconciliation_replay_never_completes_witness:
  "\<exists>l. mapLease [sample_registry] replayed_row = Inr l \<and>
     po_status (snd (process sample_env sample_processor all_flags answering_handlers (commit sample_writer) sample_run l
       (sample_db\<lparr>pd_inbox := [replayed_row]\<rparr>))) \<noteq> Ps_completed"
proof -
  obtain l i where l: "mapLease [sample_registry] replayed_row = Inr l" "il_replayIntent l = Some i" "il_stage l = Stage_received"
    using replayed_lease by blast
  have "po_status (snd (process sample_env sample_processor all_flags answering_handlers (commit sample_writer) sample_run l
       (sample_db\<lparr>pd_inbox := [replayed_row]\<rparr>))) \<noteq> Ps_completed"
    by (rule reconciliation_replay_never_completes [of _ replayed_row _ i])
      (use l in \<open>simp_all add: sample_db_def stageRank_def PIPELINE_STAGES_def\<close>)
  then show ?thesis using l(1) by blast
qed

text \<open>C29: The ClickHouse watermark never moves back: whatever batches are delivered, fail or are replayed, in whatever
  order, the last outbox id a pipeline reports as delivered only grows.\<close>

theorem watermark_never_moves_back:
  assumes "pipe_reachable s" and "pipe_step\<^sup>*\<^sup>* s s'"
  shows "reached (watermark name (sys_db s)) (watermark name (sys_db s'))"
  using pipe_steps_extend [OF assms(2) reachable_inv [OF assms(1)]] by (simp add: extends_def)

theorem watermark_never_moves_back_witness:
  "reached (watermark ''clickhouse'' (sys_db sample_sys))
     (watermark ''clickhouse'' (sys_db (sample_sys\<lparr>sys_db := sample_db2, sys_issued := [sample_lease]\<rparr>)))"
proof -
  have "pipe_step sample_sys (sample_sys\<lparr>sys_db := sample_db2, sys_issued := sys_issued sample_sys @ [sample_lease]\<rparr>)"
    by (rule pipe_stepI [OF pipe_act.lease [of id "\<lambda>_. False" 60000 "''w''" 10 0]])
      (simp_all add: sample_sys_def sample_leases fresh_token_def)
  then have "pipe_step\<^sup>*\<^sup>* sample_sys (sample_sys\<lparr>sys_db := sample_db2, sys_issued := [sample_lease]\<rparr>)"
    by (intro r_into_rtranclp) (simp add: sample_sys_def)
  then show ?thesis by (rule watermark_never_moves_back [OF sample_reachable])
qed

text \<open>C9: Progress.  A newly received event leased in a reachable state is completed by one run of the worker's own stage
  handlers and official writer, provided its payload satisfies the contract, its user and registry entry are there, all
  stages are switched on, its cost rule can be evaluated, the settlement of its usage against the quota goes through
  when its model is known, and the run ends before the lease does; then both the inbox row and the registry row are
  completed.\<close>

theorem leased_event_completes:
  fixes env :: "'e snapshot_env_scheme"
  assumes "pipe_reachable s" and "leaseInbox returning locked dur token limit now (sys_db s) = (db', Inr ls)"
    and "\<forall>xs. set (returning xs) = set xs" and "l \<in> set ls" and "usageEventSchema env (il_payload l)" and "il_replayIntent l = None"
    and "registry_of (il_applicationId l) (event_text (il_payload l) ''event_id'') (pd_registry (sys_db s)) = Some g"
    and "List.find (\<lambda>u. up_applicationId u = il_applicationId l \<and>
      up_externalId u = event_text (sub (normalized_json (il_payload l)) ''user'') ''user_id'') (pd_users (sys_db s)) \<noteq> None"
    and "fl_modelResolution flags" and "fl_providerCost flags" and "fl_aiu flags" and "fl_quota flags"
    and "resolveModel we (sys_db s) (il_applicationId l) (normalized_json (il_payload l)) = Inr res"
    and "rateProviderCost we (sys_db s) (il_applicationId l) (normalized_json (il_payload l)) res = Inr cost"
    and "rateAiu we (sys_db s) (il_applicationId l) (normalized_json (il_payload l)) res = Inr aiu"
    and "ra_modelId res \<noteq> None \<longrightarrow> (\<exists>x. settle_usage we (il_applicationId l) (rg_applicationUserId g)
      (case n_reservation_id (normalized_view we (normalized_json (il_payload l))) of None \<Rightarrow> rg_reservationId g | Some r \<Rightarrow> Some r)
      (event_text (il_payload l) ''event_id'') (aa_totalMicros aiu)
      (ot_applications (pd_official (sys_db s))) (ot_quota (pd_official (sys_db s))) = Inr x)"
    and "\<forall>stage. pw_checkpointAt w stage < now + dur * 1000" and "cc_lockedAt (pw_commit w) < now + dur * 1000"
    and "cc_committedAt (pw_commit w) < now + dur * 1000" and "cc_createdAt (pw_commit w) < now + dur * 1000"
    and "pw_completeAt w < now + dur * 1000"
  shows "\<exists>db2 out. process env opts flags (application_handlers we) (commit we) w l db' = (db2, out) \<and> po_status out = Ps_completed \<and>
    (\<exists>r \<in> set (pd_inbox db2). ib_key r = il_key l \<and> lr_status r = Completed \<and> ib_stage r = Stage_completed) \<and>
    (\<exists>g \<in> set (pd_registry db2). rg_key g = il_key l \<and> rg_processingStage g = Stage_completed)"
proof -
  have inv: "db_inv (sys_db s)" using reachable_inv [OF assms(1)] by (simp add: pipe_inv_def)
  note h0 = lease_holds [OF inv assms(2-4)]
  note r0 = lease_first_run [where event = "(il_applicationId l, event_text (il_payload l) ''event_id'')", OF inv assms(2-4,6), simplified, OF assms(7)]
  have parse: "parse_event env w (il_payload l) = Inr (normalized_json (il_payload l))"
    using assms(5) normalizeUsageEvent_total [OF assms(5)] by (simp add: parse_event_def)
  have app: "fst (il_key l) = il_applicationId l" by (simp add: il_key_def)
  note reads = handlers_read [OF r0(1)]
  have "\<exists>db2 out. process env opts flags (application_handlers we) (commit we) w l db' = (db2, out) \<and> po_status out = Ps_completed \<and> db_inv db2 \<and>
    (\<exists>r \<in> set (pd_inbox db2). ib_key r = il_key l \<and> lr_status r = Completed \<and> ib_stage r = Stage_completed \<and> ib_replayIntentJson r = None)"
    by (rule process_succeeds [OF h0 _ assms(17-21) parse _ _ _ assms(9-12), of "(rg_applicationUserId g, rg_reservationId g)" we res cost aiu])
      (use r0 assms(8,13-16) in \<open>simp_all add: app reads cong: option.case_cong\<close>)
  then obtain db2 out r where run: "process env opts flags (application_handlers we) (commit we) w l db' = (db2, out)" "po_status out = Ps_completed" "db_inv db2"
    and r: "r \<in> set (pd_inbox db2)" "ib_key r = il_key l" "lr_status r = Completed" "ib_stage r = Stage_completed" "ib_replayIntentJson r = None" by blast
  have "\<exists>g \<in> set (pd_registry db2). rg_key g = ib_key r \<and> mirrors r g" using run(3) r(1) by (simp add: db_inv_def inbox_inv_def)
  then show ?thesis using run r by (auto simp: mirrors_def)
qed

theorem leased_event_completes_witness:
  "\<exists>db2 out. process sample_env sample_processor all_flags (application_handlers sample_writer) (commit sample_writer) sample_run sample_lease sample_db2 = (db2, out) \<and>
     po_status out = Ps_completed \<and>
     (\<exists>r \<in> set (pd_inbox db2). ib_key r = il_key sample_lease \<and> lr_status r = Completed \<and> ib_stage r = Stage_completed) \<and>
     (\<exists>g \<in> set (pd_registry db2). rg_key g = il_key sample_lease \<and> rg_processingStage g = Stage_completed)"
proof -
  obtain aiu where aiu: "rateAiu sample_writer sample_db ''app'' (normalized_json (sample_event ''u1'' sample_usage)) unmapped_resolution = Inr aiu"
    using sample_stages(3) by blast
  have reg: "registry_of ''app'' ''01JZ5M0N8Q4R7T2V9W3X6Y1Z0A'' (pd_registry sample_db) = Some sample_registry"
    by (simp add: registry_of_def find_unique_def sample_db_def sample_registry_def sample_valid_def)
  have rest: "pd_users sample_db = [sample_profile]" "ra_modelId unmapped_resolution = None"
    by (simp_all add: sample_db_def unmapped_resolution_def)
  show ?thesis
    by (rule leased_event_completes [OF sample_reachable, of id "\<lambda>_. False" 60000 "''w''" 10 0 _ "[sample_lease]" _ _ sample_registry
        _ _ unmapped_resolution "unpriced None" aiu])
      (use sample_leases sample_event_schema [OF sample_users(1) sample_usage_ok(1)] sample_normalized_user sample_stages(1,2) [of sample_db] aiu reg rest in
        \<open>simp_all add: sample_sys_def sample_lease_def sample_profile_def sample_run_def all_flags_def\<close>)
qed

end
