(* ===== verification/UsageSpool.thy ===== *)
theory UsageSpool
  imports Ingestion
begin

text \<open>
  The usage reporter of the Node SDK: the durable spool (\<open>sdks/node/src/runtime/usage-spool.ts\<close>), the upload
  loop (\<open>runtime-usage-reporter.ts\<close>), the schema by which the SDK reads a response
  (\<open>packages/contracts/src/machine-contracts.ts\<close>), and the ingestion API as the server it talks to.

  A table of the SQLite file is the list of its rows in the order of their row ids; a new row gets the largest
  one.  A stored payload is the JSON document its text denotes.  The size of the file is an argument of
  \<open>enqueue\<close>, the server an argument of the loop: it answers the \<open>k\<close>-th request with an HTTP status that is
  not ok or with a JSON document.
\<close>

subsection \<open>The spool\<close>

record SpooledUsageEvent =
  sp_eventId :: string
  sp_payload :: json
  sp_createdAt :: int

record RejectedUsageEvent =
  rj_eventId :: string
  rj_payload :: json
  rj_reasonCode :: string
  rj_rejectedAt :: int

record DurableUsageSpool =
  su_events :: "SpooledUsageEvent list"
  su_rejected :: "RejectedUsageEvent list"

datatype sdk_failure =
    UsageEventInvalid
  | UsageSpoolCapacityError int int
  | RequestFailed int
  | ResponseInvalid

definition spool_knows :: "string \<Rightarrow> DurableUsageSpool \<Rightarrow> bool" where
  "spool_knows k sp \<longleftrightarrow> list_ex (\<lambda>r. sp_eventId r = k) (su_events sp) \<or> list_ex (\<lambda>r. rj_eventId r = k) (su_rejected sp)"

definition enqueue ::
  "'e snapshot_env_scheme \<Rightarrow> int \<Rightarrow> int \<Rightarrow> int \<Rightarrow> json \<Rightarrow> DurableUsageSpool \<Rightarrow> sdk_failure + (DurableUsageSpool \<times> bool)" where
  "enqueue env maximumBytes fileBytes now event sp =
     (if \<not> usageEventSchema env event then Inl UsageEventInvalid
      else
        (let k = event_text event ''event_id'' in
         if spool_knows k sp then Inr (sp, False)
         else if maximumBytes < fileBytes + int (length (stringify env event))
         then Inl (UsageSpoolCapacityError fileBytes maximumBytes)
         else Inr (sp\<lparr>su_events := su_events sp @ [\<lparr>sp_eventId = k, sp_payload = event, sp_createdAt = now\<rparr>]\<rparr>, True)))"

definition pending :: "'e snapshot_env_scheme \<Rightarrow> nat \<Rightarrow> DurableUsageSpool \<Rightarrow> sdk_failure + SpooledUsageEvent list" where
  "pending env limit sp =
     (let rows = take limit (su_events sp) in
      if list_all (\<lambda>r. usageEventSchema env (sp_payload r)) rows then Inr rows else Inl UsageEventInvalid)"

definition delete_event :: "string \<Rightarrow> DurableUsageSpool \<Rightarrow> DurableUsageSpool" where
  "delete_event k sp = sp\<lparr>su_events := filter (\<lambda>r. sp_eventId r \<noteq> k) (su_events sp)\<rparr>"

definition count_event :: "string \<Rightarrow> DurableUsageSpool \<Rightarrow> nat" where
  "count_event k sp = length (filter (\<lambda>r. sp_eventId r = k) (su_events sp))"

definition acknowledge :: "string list \<Rightarrow> DurableUsageSpool \<Rightarrow> DurableUsageSpool \<times> nat" where
  "acknowledge eventIds sp =
     fold (\<lambda>k (s, removed). (delete_event k s, removed + count_event k s)) eventIds (sp, 0)"

text \<open>\<open>INSERT OR IGNORE ... SELECT\<close>, then the delete; an id with a rejected row keeps that row.\<close>

definition reject :: "int \<Rightarrow> string \<Rightarrow> string \<Rightarrow> DurableUsageSpool \<Rightarrow> DurableUsageSpool" where
  "reject now k reasonCode sp =
     (let new = (if list_ex (\<lambda>r. rj_eventId r = k) (su_rejected sp) then []
                 else map (\<lambda>r. \<lparr>rj_eventId = sp_eventId r, rj_payload = sp_payload r,
                        rj_reasonCode = take 120 reasonCode, rj_rejectedAt = now\<rparr>)
                        (filter (\<lambda>r. sp_eventId r = k) (su_events sp))) in
      delete_event k (sp\<lparr>su_rejected := su_rejected sp @ new\<rparr>))"

definition depth :: "DurableUsageSpool \<Rightarrow> nat" where
  "depth sp = length (su_events sp)"

subsection \<open>Reading a response\<close>

definition contractIdSchema :: schema where
  "contractIdSchema = z_string (\<lambda>s. ulid s \<or> uuid_v7 s)"

definition utcDateTimeSchema :: "'e ingest_env_scheme \<Rightarrow> schema" where
  "utcDateTimeSchema env = z_string (\<lambda>s. utc_pattern s \<and> date_parses env s)"

definition nonNegativeSafeIntegerSchema :: schema where
  "nonNegativeSafeIntegerSchema = z_int (\<lambda>n. 0 \<le> n)"

definition status_values :: "string list" where
  "status_values = [''accepted'', ''duplicate'', ''conflict'', ''rejected'']"

definition result_code :: "string \<Rightarrow> bool" where
  "result_code s \<longleftrightarrow> s \<noteq> [] \<and> length s \<le> 120 \<and> upper_letter (hd s) \<and>
     list_all (\<lambda>c. upper_letter c \<or> is_digit c \<or> c = CHR ''_'') s"

definition result_schema :: schema where
  "result_schema = z_object
     [req ''index'' nonNegativeSafeIntegerSchema, req ''event_id'' (z_nullable contractIdSchema),
      req ''status'' (z_enum status_values), opt ''code'' (z_nullable (z_string result_code)),
      opt ''message'' (z_nullable (z_string (\<lambda>s. 1 \<le> utf16_length s \<and> utf16_length s \<le> 500)))]"

definition status_count :: "string \<Rightarrow> json list \<Rightarrow> nat" where
  "status_count status results = length (filter (\<lambda>r. string_member r ''status'' = Some status) results)"

definition response_refined :: "json \<Rightarrow> bool" where
  "response_refined j \<longleftrightarrow>
     (let results = array_of (member j ''results'') in
      list_all (\<lambda>(status, total). member j total = Some (JNum (of_nat (status_count status results))))
        [(''accepted'', ''accepted''), (''duplicate'', ''duplicates''), (''conflict'', ''conflicts''), (''rejected'', ''rejected'')] \<and>
      distinct (map (\<lambda>r. member r ''index'') results))"

definition batchIngestionResponseSchema :: "'e ingest_env_scheme \<Rightarrow> schema" where
  "batchIngestionResponseSchema env j \<longleftrightarrow>
     z_object
       [req ''schema_version'' (z_literal (JStr ''2.0'')), req ''batch_id'' contractIdSchema,
        req ''received_at'' (utcDateTimeSchema env), req ''accepted'' nonNegativeSafeIntegerSchema,
        req ''duplicates'' nonNegativeSafeIntegerSchema, req ''conflicts'' nonNegativeSafeIntegerSchema,
        req ''rejected'' nonNegativeSafeIntegerSchema, req ''results'' (z_array result_schema (\<lambda>_. True))] j \<and>
     response_refined j"

subsection \<open>The upload loop\<close>

definition batch_json :: "string \<Rightarrow> SpooledUsageEvent list \<Rightarrow> json" where
  "batch_json sentAt items =
     JObj [(''schema_version'', JStr ''2.0''), (''batch_id'', JStr (sp_eventId (hd items))),
           (''sent_at'', JStr sentAt), (''events'', JArr (map sp_payload items))]"

text \<open>The event a result is about: the id it names, or the one at its index.\<close>

definition result_event :: "SpooledUsageEvent list \<Rightarrow> json \<Rightarrow> string option" where
  "result_event items item = (case string_member item ''event_id'' of
     Some k \<Rightarrow> Some k
   | None \<Rightarrow> (case Option.bind (member item ''index'') json_int of
       None \<Rightarrow> None
     | Some i \<Rightarrow> if 0 \<le> i \<and> nat i < length items then Some (sp_eventId (items ! nat i)) else None))"

definition handle_result ::
  "int \<Rightarrow> SpooledUsageEvent list \<Rightarrow> json \<Rightarrow> DurableUsageSpool \<times> nat \<Rightarrow> DurableUsageSpool \<times> nat" where
  "handle_result now items item state =
     (let (sp, delivered) = state; status = event_text item ''status'' in
      case result_event items item of
        None \<Rightarrow> (sp, delivered)
      | Some k \<Rightarrow>
          if status = ''accepted'' \<or> status = ''duplicate''
          then (let (sp', removed) = acknowledge [k] sp in (sp', delivered + removed))
          else (reject now k (case string_member item ''code'' of Some c \<Rightarrow> c | None \<Rightarrow> js_upper status) sp, delivered))"

record upload_clock =
  uc_sentAt :: "nat \<Rightarrow> string"
  uc_rejectedAt :: "nat \<Rightarrow> int"

partial_function (option) flush ::
  "'e ingest_env_scheme \<Rightarrow> (nat \<Rightarrow> json \<Rightarrow> 'd \<Rightarrow> 'd \<times> (int + json)) \<Rightarrow> upload_clock \<Rightarrow> nat \<Rightarrow> nat \<Rightarrow>
   DurableUsageSpool \<Rightarrow> 'd \<Rightarrow> nat \<Rightarrow> (DurableUsageSpool \<times> 'd \<times> (sdk_failure + nat)) option" where
  "flush env server clock batchSize k sp d delivered =
     (case pending env batchSize sp of
        Inl e \<Rightarrow> Some (sp, d, Inl e)
      | Inr items \<Rightarrow>
          if items = [] then Some (sp, d, Inr delivered)
          else
            (case server k (batch_json (uc_sentAt clock k) items) d of
               (d', Inl status) \<Rightarrow> Some (sp, d', Inl (RequestFailed status))
             | (d', Inr body) \<Rightarrow>
                 if \<not> batchIngestionResponseSchema env body then Some (sp, d', Inl ResponseInvalid)
                 else
                   (let (sp', delivered') = fold (handle_result (uc_rejectedAt clock k) items)
                          (array_of (member body ''results'')) (sp, delivered) in
                    flush env server clock batchSize (Suc k) sp' d' delivered')))"

text \<open>\<open>report\<close>: every event is enqueued, with the size the file has then, before the upload starts.\<close>

fun enqueue_all ::
  "'e snapshot_env_scheme \<Rightarrow> int \<Rightarrow> (nat \<Rightarrow> int) \<Rightarrow> int \<Rightarrow> nat \<Rightarrow> json list \<Rightarrow> DurableUsageSpool \<Rightarrow>
   DurableUsageSpool \<times> sdk_failure option" where
  "enqueue_all env maximumBytes fileBytes now i [] sp = (sp, None)"
| "enqueue_all env maximumBytes fileBytes now i (event # events) sp =
     (case enqueue env maximumBytes (fileBytes i) now event sp of
        Inl e \<Rightarrow> (sp, Some e)
      | Inr (sp', _) \<Rightarrow> enqueue_all env maximumBytes fileBytes now (Suc i) events sp')"

definition report ::
  "'e ingest_env_scheme \<Rightarrow> (nat \<Rightarrow> json \<Rightarrow> 'd \<Rightarrow> 'd \<times> (int + json)) \<Rightarrow> upload_clock \<Rightarrow> nat \<Rightarrow> int \<Rightarrow> (nat \<Rightarrow> int) \<Rightarrow> int \<Rightarrow>
   json list \<Rightarrow> DurableUsageSpool \<Rightarrow> 'd \<Rightarrow> (DurableUsageSpool \<times> 'd \<times> (sdk_failure + nat)) option" where
  "report env server clock batchSize maximumBytes fileBytes now events sp d =
     (if events = [] then Some (sp, d, Inr 0)
      else
        (case enqueue_all env maximumBytes fileBytes now 0 events sp of
           (sp', Some e) \<Rightarrow> Some (sp', d, Inl e)
         | (sp', None) \<Rightarrow> flush env server clock batchSize 0 sp' d 0))"

subsection \<open>The ingestion API as the server\<close>

definition DEFAULT_OPTIONS :: UsageIngestionOptions where
  "DEFAULT_OPTIONS = \<lparr>io_maxBatchSize = 1000, io_maxBatchBytes = 10 * 1024 * 1024, io_maxEventBytes = 1024 * 1024\<rparr>"

definition status_text :: "item_status \<Rightarrow> string" where
  "status_text s = (case s of
     Item_accepted \<Rightarrow> ''accepted'' | Item_duplicate \<Rightarrow> ''duplicate'' | Item_conflict \<Rightarrow> ''conflict''
   | Item_rejected \<Rightarrow> ''rejected'')"

definition optional_member :: "string \<Rightarrow> string option \<Rightarrow> (string \<times> json) list" where
  "optional_member k v = (case v of None \<Rightarrow> [] | Some s \<Rightarrow> [(k, JStr s)])"

definition item_json :: "UsageIngestionItemResult \<Rightarrow> json" where
  "item_json r = JObj
     ([(''index'', JNum (of_nat (ir_index r))),
       (''event_id'', case ir_event_id r of None \<Rightarrow> JNull | Some k \<Rightarrow> JStr k), (''status'', JStr (status_text (ir_status r)))] @
      optional_member ''code'' (ir_code r) @ optional_member ''message'' (ir_message r))"

definition response_json :: "string \<Rightarrow> UsageBatchResponse \<Rightarrow> json" where
  "response_json receivedAt b = JObj
     [(''schema_version'', JStr ''2.0''), (''batch_id'', JStr (br_batch_id b)), (''received_at'', JStr receivedAt),
      (''accepted'', JNum (of_nat (br_accepted b))), (''duplicates'', JNum (of_nat (br_duplicates b))),
      (''conflicts'', JNum (of_nat (br_conflicts b))), (''rejected'', JNum (of_nat (br_rejected b))),
      (''results'', JArr (map item_json (br_results b)))]"

definition http_status :: "ingest_error \<Rightarrow> int" where
  "http_status e = (case e of PayloadTooLarge _ \<Rightarrow> 413 | BadBatch _ \<Rightarrow> 400 | IngestFailure _ \<Rightarrow> 500)"

record api_world =
  aw_receivedAt :: "nat \<Rightarrow> string"
  aw_persist :: "nat \<Rightarrow> nat \<Rightarrow> persist_world"

definition api_server ::
  "'e ingest_env_scheme \<Rightarrow> catalog \<Rightarrow> UsageIngestionOptions \<Rightarrow> api_world \<Rightarrow> string \<Rightarrow>
   nat \<Rightarrow> json \<Rightarrow> 'o PipelineDb \<Rightarrow> 'o PipelineDb \<times> (int + json)" where
  "api_server env cat opts w app k body db =
     (case ingest env cat opts (aw_persist w k) (\<lambda>_. id) body app db of
        (db', Inl e) \<Rightarrow> (db', Inl (http_status e))
      | (db', Inr b) \<Rightarrow> (db', Inr (response_json (aw_receivedAt w k) b)))"

end
