(* ===== verification/SpoolDelivery.thy ===== *)
theory SpoolDelivery
  imports UsageSpool
begin

text \<open>
  The composition of the SDK's usage spool with the ingestion API: what one answer does to the spool, that the SDK reads
  every answer the API gives, and that the upload loop empties the spool.
\<close>

subsection \<open>Well-formed spools, storable events\<close>

definition spool_total :: "DurableUsageSpool \<Rightarrow> nat" where
  "spool_total sp = length (su_events sp) + length (su_rejected sp)"

text \<open>Ids are unique across the two tables and every payload is a valid event with the id of its row.\<close>

definition spool_ok :: "'e snapshot_env_scheme \<Rightarrow> DurableUsageSpool \<Rightarrow> bool" where
  "spool_ok env sp \<longleftrightarrow>
     distinct (map sp_eventId (su_events sp)) \<and>
     list_all (\<lambda>r. usageEventSchema env (sp_payload r) \<and> sp_eventId r = event_text (sp_payload r) ''event_id'' \<and>
       \<not> list_ex (\<lambda>x. rj_eventId x = sp_eventId r) (su_rejected sp)) (su_events sp)"

text \<open>What the CHECK constraints of the registry ask of a valid event.\<close>

definition storable :: "'e ingest_env_scheme \<Rightarrow> json \<Rightarrow> bool" where
  "storable env e \<longleftrightarrow>
     btrim (event_text (sub e ''user'') ''user_id'') \<noteq> [] \<and> btrim (event_text (sub e ''model'') ''request_model'') \<noteq> [] \<and>
     (case string_member (sub e ''model'') ''provider'' of None \<Rightarrow> True | Some p \<Rightarrow> code_points p \<le> 120) \<and>
     (case string_member (sub e ''request'') ''reservation_id'' of None \<Rightarrow> True | Some r \<Rightarrow> pg_uuid env r)"

text \<open>The values of the database enum of property types.\<close>

definition PropertyDataType :: "string list" where
  "PropertyDataType = [''TEXT'', ''NUMBER'', ''BOOLEAN'', ''DATETIME'', ''ENUM'', ''TEXT_LIST'']"

definition typed :: "PropertyDefinition list \<Rightarrow> bool" where
  "typed ds = list_all (\<lambda>d. List.member PropertyDataType (pr_dataType d)) ds"

text \<open>A result the response schema accepts.\<close>

definition readable :: "UsageIngestionItemResult \<Rightarrow> bool" where
  "readable r \<longleftrightarrow> (case ir_code r of None \<Rightarrow> True | Some c \<Rightarrow> result_code c) \<and>
     (case ir_message r of None \<Rightarrow> True | Some m \<Rightarrow> 1 \<le> utf16_length m \<and> utf16_length m \<le> 500)"

text \<open>What the drain of a spool needs of the events, the clocks and the database.\<close>

definition deliverable ::
  "'e ingest_env_scheme \<Rightarrow> api_world \<Rightarrow> upload_clock \<Rightarrow> SpooledUsageEvent list \<Rightarrow> 'o PipelineDb \<Rightarrow> bool" where
  "deliverable env w clock events db \<longleftrightarrow>
     list_all (\<lambda>r. storable env (sp_payload r)) events \<and> typed (pd_properties db) \<and>
     (\<forall>k. iso_datetime env (uc_sentAt clock k) \<and> utc_pattern (aw_receivedAt w k) \<and> date_parses env (aw_receivedAt w k)) \<and>
     (\<forall>k n m. length (stringify env (batch_json (uc_sentAt clock k) (take n (drop m events)))) \<le> io_maxBatchBytes DEFAULT_OPTIONS) \<and>
     inj (\<lambda>(k, i). pv_inboxId (aw_persist w k i))"

subsection \<open>The spool\<close>

lemma acknowledge_one: "acknowledge [k] sp = (delete_event k sp, count_event k sp)"
  by (simp add: acknowledge_def)

lemma delete_event_simps [simp]:
  "su_events (delete_event k sp) = filter (\<lambda>r. sp_eventId r \<noteq> k) (su_events sp)"
  "su_rejected (delete_event k sp) = su_rejected sp"
  by (simp_all add: delete_event_def)

lemma reject_events [simp]: "su_events (reject now k c sp) = filter (\<lambda>r. sp_eventId r \<noteq> k) (su_events sp)"
  by (simp add: reject_def Let_def)

lemma spool_ok_delete: "spool_ok env sp \<Longrightarrow> spool_ok env (delete_event k sp)"
  by (auto simp: spool_ok_def list_all_iff distinct_map_filter)

lemma count_event_split: "count_event k sp + length (su_events (delete_event k sp)) = length (su_events sp)"
  unfolding count_event_def by (simp add: sum_length_filter_compl)

lemma delete_total: "spool_total (delete_event k sp) + count_event k sp = spool_total sp"
  using count_event_split [of k sp] by (simp add: spool_total_def)

lemma reject_rejected:
  "su_rejected (reject now k c sp) = su_rejected sp @
     (if list_ex (\<lambda>r. rj_eventId r = k) (su_rejected sp) then []
      else map (\<lambda>r. \<lparr>rj_eventId = sp_eventId r, rj_payload = sp_payload r, rj_reasonCode = take 120 c, rj_rejectedAt = now\<rparr>)
        (filter (\<lambda>r. sp_eventId r = k) (su_events sp)))"
  by (simp add: reject_def Let_def)

lemma spool_ok_reject: "spool_ok env sp \<Longrightarrow> spool_ok env (reject now k c sp)"
  by (auto simp: spool_ok_def list_all_iff list_ex_iff reject_rejected distinct_map_filter)

lemma reject_total:
  assumes "spool_ok env sp"
  shows "spool_total (reject now k c sp) = spool_total sp"
proof (cases "list_ex (\<lambda>r. rj_eventId r = k) (su_rejected sp)")
  case True
  then have "filter (\<lambda>r. sp_eventId r \<noteq> k) (su_events sp) = su_events sp"
    using assms unfolding filter_id_conv spool_ok_def list_all_iff by blast
  then show ?thesis using True by (simp add: spool_total_def reject_rejected)
next
  case False
  then show ?thesis
    using count_event_split [of k sp] unfolding spool_total_def reject_rejected by (simp add: count_event_def)
qed

text \<open>One result of the server: what it removes from the queue and what it counts.\<close>

lemma handle_result_effect:
  assumes "spool_ok env sp" and "handle_result now items item (sp, n) = (sp', n')"
  shows "spool_ok env sp'" and "spool_total sp' + n' = spool_total sp + n"
    and "su_events sp' = filter (\<lambda>r. Some (sp_eventId r) \<noteq> result_event items item) (su_events sp)"
    and "set (su_rejected sp) \<subseteq> set (su_rejected sp')" and "n \<le> n'"
proof -
  note split = handle_result_def acknowledge_one Let_def
  show "spool_ok env sp'" using assms
    by (auto simp: split spool_ok_delete spool_ok_reject split: option.splits if_splits)
  show "spool_total sp' + n' = spool_total sp + n" using assms(2)
    by (auto simp: split reject_total [OF assms(1)] delete_total split: option.splits if_splits)
  show "su_events sp' = filter (\<lambda>r. Some (sp_eventId r) \<noteq> result_event items item) (su_events sp)"
    using assms(2) by (auto simp: split split: option.splits if_splits)
  show "set (su_rejected sp) \<subseteq> set (su_rejected sp')"
    using assms(2) by (auto simp: split reject_rejected split: option.splits if_splits)
  show "n \<le> n'" using assms(2) by (auto simp: split split: option.splits if_splits)
qed

lemma handle_results_effect:
  assumes "spool_ok env sp" and "fold (handle_result now items) results (sp, n) = (sp', n')"
  shows "spool_ok env sp' \<and> spool_total sp' + n' = spool_total sp + n \<and>
    su_events sp' = filter (\<lambda>r. Some (sp_eventId r) \<notin> result_event items ` set results) (su_events sp) \<and>
    set (su_rejected sp) \<subseteq> set (su_rejected sp') \<and> n \<le> n'"
  using assms
proof (induction results arbitrary: sp n)
  case (Cons item results)
  obtain sp1 n1 where one: "handle_result now items item (sp, n) = (sp1, n1)" by fastforce
  note effect = handle_result_effect [OF Cons.prems(1) one]
  have "fold (handle_result now items) results (sp1, n1) = (sp', n')" using Cons.prems(2) one by simp
  note rest = Cons.IH [OF effect(1) this]
  have "su_events sp' = filter (\<lambda>r. Some (sp_eventId r) \<notin> result_event items ` set (item # results)) (su_events sp)"
    using rest effect(3) by (auto intro!: filter_cong)
  then show ?case using rest effect by auto
qed simp

lemma pending_Nil: "pending env limit sp = Inr [] \<Longrightarrow> 0 < limit \<Longrightarrow> su_events sp = []"
  by (auto simp: pending_def Let_def split: if_splits)

lemma flush_conserves:
  assumes "flush env server clock limit k sp d n = Some y" and "spool_ok env sp" and "0 < limit"
  shows "case y of (sp', d', r) \<Rightarrow>
    spool_ok env sp' \<and> set (su_rejected sp) \<subseteq> set (su_rejected sp') \<and> set (su_events sp') \<subseteq> set (su_events sp) \<and>
    (case r of Inr m \<Rightarrow> su_events sp' = [] \<and> m + length (su_rejected sp') = n + spool_total sp
     | Inl e \<Rightarrow> spool_total sp' \<le> spool_total sp)"
  using assms
proof (induction rule: flush.raw_induct [rotated, consumes 1])
  case (1 fl env server clock limit k sp d n y)
  note step = "1.hyps" and IH = "1.IH" and ok = "1.prems"
  show ?case
  proof (cases "pending env limit sp")
    case (Inl e)
    then show ?thesis using step ok by auto
  next
    case items: (Inr items)
    show ?thesis
    proof (cases "items = []")
      case True
      then show ?thesis using step ok items pending_Nil [of env limit sp] by (auto simp: spool_total_def)
    next
      case False
      obtain d1 answer where server: "server k (batch_json (uc_sentAt clock k) items) d = (d1, answer)" by fastforce
      show ?thesis
      proof (cases "\<exists>body. answer = Inr body \<and> batchIngestionResponseSchema env body")
        case False
        then show ?thesis using step ok items \<open>items \<noteq> []\<close> server by (auto split: sum.splits if_splits)
      next
        case True
        then obtain body where body: "answer = Inr body" "batchIngestionResponseSchema env body" by blast
        obtain sp1 n1 where round: "fold (handle_result (uc_rejectedAt clock k) items) (array_of (member body ''results'')) (sp, n) = (sp1, n1)"
          by fastforce
        note effect = handle_results_effect [OF ok(1) round]
        have rest: "fl env server clock limit (Suc k) sp1 d1 n1 = Some y"
          using step items \<open>items \<noteq> []\<close> server body round by simp
        have "spool_ok env sp1" using effect by simp
        from IH [OF rest this ok(2)] show ?thesis using effect by (auto split: sum.splits)
      qed
    qed
  qed
qed

text \<open>The events a server's readable answers name at all, and those they name as accepted or duplicate.\<close>

definition named :: "'e ingest_env_scheme \<Rightarrow> (nat \<Rightarrow> json \<Rightarrow> 'd \<Rightarrow> 'd \<times> (int + json)) \<Rightarrow> upload_clock \<Rightarrow> string set" where
  "named env server clock =
     {e. \<exists>k items d d' body item. server k (batch_json (uc_sentAt clock k) items) d = (d', Inr body) \<and>
        batchIngestionResponseSchema env body \<and> item \<in> set (array_of (member body ''results'')) \<and> result_event items item = Some e}"

definition acknowledged :: "'e ingest_env_scheme \<Rightarrow> (nat \<Rightarrow> json \<Rightarrow> 'd \<Rightarrow> 'd \<times> (int + json)) \<Rightarrow> upload_clock \<Rightarrow> string set" where
  "acknowledged env server clock =
     {e. \<exists>k items d d' body item. server k (batch_json (uc_sentAt clock k) items) d = (d', Inr body) \<and>
        batchIngestionResponseSchema env body \<and> item \<in> set (array_of (member body ''results'')) \<and> result_event items item = Some e \<and>
        event_text item ''status'' \<in> {''accepted'', ''duplicate''}}"

text \<open>An event is still there: in the queue, or set aside with its payload.\<close>

definition set_aside :: "SpooledUsageEvent \<Rightarrow> DurableUsageSpool \<Rightarrow> bool" where
  "set_aside r sp \<longleftrightarrow> (\<exists>x \<in> set (su_rejected sp). rj_eventId x = sp_eventId r \<and> rj_payload x = sp_payload r)"

lemma handle_result_keeps:
  assumes ok: "spool_ok env sp" and run: "handle_result now items item (sp, n) = (sp', n')" and r: "r \<in> set (su_events sp)"
    and ack: "result_event items item = Some (sp_eventId r) \<Longrightarrow> event_text item ''status'' \<notin> {''accepted'', ''duplicate''}"
  shows "r \<in> set (su_events sp') \<or> set_aside r sp'"
proof (cases "result_event items item = Some (sp_eventId r)")
  case True
  then have "sp' = reject now (sp_eventId r) (case string_member item ''code'' of Some c \<Rightarrow> c | None \<Rightarrow> js_upper (event_text item ''status'')) sp"
    using run ack by (simp add: handle_result_def Let_def)
  moreover have "\<not> list_ex (\<lambda>x. rj_eventId x = sp_eventId r) (su_rejected sp)" using ok r unfolding spool_ok_def list_all_iff by blast
  ultimately have "set_aside r sp'" using r by (force simp: set_aside_def reject_rejected)
  then show ?thesis ..
next
  case False
  then show ?thesis using handle_result_effect(3) [OF ok run] r by auto
qed

lemma handle_results_keep:
  assumes "spool_ok env sp" and "fold (handle_result now items) results (sp, n) = (sp', n')" and "r \<in> set (su_events sp) \<or> set_aside r sp"
    and "\<forall>item \<in> set results. result_event items item = Some (sp_eventId r) \<longrightarrow> event_text item ''status'' \<notin> {''accepted'', ''duplicate''}"
  shows "r \<in> set (su_events sp') \<or> set_aside r sp'"
  using assms
proof (induction results arbitrary: sp n)
  case (Cons item results)
  obtain sp1 n1 where one: "handle_result now items item (sp, n) = (sp1, n1)" by fastforce
  note effect = handle_result_effect [OF Cons.prems(1) one]
  have rest: "fold (handle_result now items) results (sp1, n1) = (sp', n')" using Cons.prems(2) one by simp
  have "r \<in> set (su_events sp1) \<or> set_aside r sp1"
    using Cons.prems(3)
  proof
    assume "r \<in> set (su_events sp)"
    then show ?thesis by (rule handle_result_keeps [OF Cons.prems(1) one]) (use Cons.prems(4) in simp)
  next
    assume "set_aside r sp"
    then show ?thesis using effect(4) by (auto simp: set_aside_def)
  qed
  then show ?case using Cons.IH [OF effect(1) rest] Cons.prems(4) by simp
qed simp

lemma flush_keeps:
  assumes "flush env server clock limit k sp d n = Some y" and "spool_ok env sp" and "0 < limit"
  shows "case y of (sp', d', res) \<Rightarrow>
    (r \<in> set (su_events sp) \<or> set_aside r sp \<longrightarrow> sp_eventId r \<notin> acknowledged env server clock \<longrightarrow> r \<in> set (su_events sp') \<or> set_aside r sp') \<and>
    (r \<in> set (su_events sp) \<longrightarrow> sp_eventId r \<notin> named env server clock \<longrightarrow> r \<in> set (su_events sp'))"
  using assms
proof (induction rule: flush.raw_induct [rotated, consumes 1])
  case (1 fl env server clock limit k sp d n y)
  note step = "1.hyps" and IH = "1.IH" and ok = "1.prems"
  show ?case
  proof (cases "pending env limit sp")
    case (Inl e)
    then show ?thesis using step by auto
  next
    case items: (Inr items)
    obtain d1 answer where server: "server k (batch_json (uc_sentAt clock k) items) d = (d1, answer)" by fastforce
    show ?thesis
    proof (cases "items \<noteq> [] \<and> (\<exists>body. answer = Inr body \<and> batchIngestionResponseSchema env body)")
      case False
      then show ?thesis using step items server by (auto split: sum.splits if_splits)
    next
      case True
      then obtain body where body: "answer = Inr body" "batchIngestionResponseSchema env body" by blast
      let ?results = "array_of (member body ''results'')"
      obtain sp1 n1 where round: "fold (handle_result (uc_rejectedAt clock k) items) ?results (sp, n) = (sp1, n1)" by fastforce
      note effect = handle_results_effect [OF ok(1) round]
      have rest: "fl env server clock limit (Suc k) sp1 d1 n1 = Some y" using step items True server body round by simp
      have ack: "\<forall>item \<in> set ?results. result_event items item = Some (sp_eventId r) \<longrightarrow> event_text item ''status'' \<notin> {''accepted'', ''duplicate''}"
        if "sp_eventId r \<notin> acknowledged env server clock"
        using that server body unfolding acknowledged_def by blast
      have nam: "Some (sp_eventId r) \<notin> result_event items ` set ?results" if "sp_eventId r \<notin> named env server clock"
        using that server body unfolding named_def by force
      have 1: "r \<in> set (su_events sp1) \<or> set_aside r sp1" if "r \<in> set (su_events sp) \<or> set_aside r sp" "sp_eventId r \<notin> acknowledged env server clock"
        by (rule handle_results_keep [OF ok(1) round that(1) ack [OF that(2)]])
      have 2: "r \<in> set (su_events sp1)" if "r \<in> set (su_events sp)" "sp_eventId r \<notin> named env server clock"
        using that nam effect by simp
      have "spool_ok env sp1" using effect by simp
      from IH [OF rest this ok(2)] 1 2 show ?thesis by (auto split: prod.splits)
    qed
  qed
qed

subsection \<open>What the ingestion API answers\<close>

lemma storable_accepted: "storable env (ve_event v) \<Longrightarrow> registry_accepts env (registry_row env cat app v u)"
  by (simp add: storable_def registry_accepts_def registry_row_def Let_def)

lemma utf16_length_Nil [simp]: "utf16_length [] = 0"
  by (simp add: utf16_length_def)

lemma utf16_length_append [simp]: "utf16_length (s @ t) = utf16_length s + utf16_length t"
  by (simp add: utf16_length_def)

lemma utf16_length_le: "utf16_length s \<le> 2 * length s"
  by (induction s) (auto simp: utf16_length_def)

lemma utf16_bounds:
  assumes "m = s @ t" and "1 \<le> utf16_length s" and "length m \<le> 250"
  shows "1 \<le> utf16_length m \<and> utf16_length m \<le> 500"
  using assms utf16_length_le [of m] by simp

lemma scope_words:
  "length (js_lower (scope_text scope)) \<le> 5" "1 \<le> utf16_length (js_lower (scope_text scope))"
proof -
  have "list_all (\<lambda>s. length (js_lower (scope_text s)) \<le> 5 \<and> 1 \<le> utf16_length (js_lower (scope_text s))) [EventScope, UserScope]"
    by code_simp
  then show "length (js_lower (scope_text scope)) \<le> 5" "1 \<le> utf16_length (js_lower (scope_text scope))"
    by (cases scope; simp)+
qed

lemma data_type_words: "List.member PropertyDataType t \<Longrightarrow> length (js_lower t) \<le> 9"
proof -
  have "list_all (\<lambda>t. length (js_lower t) \<le> 9) PropertyDataType" by code_simp
  then show "List.member PropertyDataType t \<Longrightarrow> length (js_lower t) \<le> 9" by (auto simp: list_all_iff)
qed

lemma property_message:
  assumes "validate_entries env scope indexed es = Some m" and "\<forall>(k, v) \<in> set es. unit_key k"
    and "\<forall>k d. indexed k = Some d \<longrightarrow> List.member PropertyDataType (pr_dataType d)"
  shows "1 \<le> utf16_length m \<and> utf16_length m \<le> 500"
  using assms
proof (induction es)
  case (Cons e es)
  obtain k v where e: "e = (k, v)" by fastforce
  have k: "length k \<le> 128" using Cons.prems(2) by (auto simp: e unit_key_def split: list.splits)
  show ?case
  proof (cases "indexed (scope_text scope @ '':'' @ k)")
    case None
    then have m: "m = js_lower (scope_text scope) @ '' property '' @ k @ '' is not defined''"
      using Cons.prems(1) by (simp add: e)
    show ?thesis by (rule utf16_bounds [OF m scope_words(2)]) (use m k scope_words(1) [of scope] in simp)
  next
    case (Some d)
    note t = data_type_words [OF Cons.prems(3) [rule_format, OF Some]]
    show ?thesis
    proof (cases "valueMatches env d v")
      case True
      then show ?thesis using Cons Some by (simp add: e)
    next
      case False
      then have m: "m = js_lower (scope_text scope) @ '' property '' @ k @ '' does not match '' @ js_lower (pr_dataType d)"
        using Cons.prems(1) Some by (simp add: e)
      show ?thesis by (rule utf16_bounds [OF m scope_words(2)]) (use m k t scope_words(1) [of scope] in simp)
    qed
  qed
qed simp

lemma event_properties_keys:
  assumes "usageEventSchema env e" and "k = ''event_properties'' \<or> k = ''user_properties''" and "member e k = Some (JObj ms)"
  shows "\<forall>(x, v) \<in> set ms. unit_key x"
proof -
  have "typedPropertiesSchema (JObj ms)"
  proof (rule z_object_memberD [OF assms(1) [unfolded usageEventSchema_def] assms(3)])
    show "map_of (eventEnvelopeShape env @ [req ''usage'' rawUsageSchema]) k = Some (False, typedPropertiesSchema)"
      using assms(2) by (rule disjE) (simp_all add: eventEnvelopeShape_def req_def opt_def)
  qed
  then show ?thesis by (auto simp: typedPropertiesSchema_def z_record_def list_all_iff)
qed

lemma invalid_property_message:
  assumes "usageEventSchema env e" and "typed definitions" and "validateEventProperties env e definitions = Some m"
  shows "1 \<le> utf16_length m \<and> utf16_length m \<le> 500"
proof -
  let ?i = "js_map (map (\<lambda>d. (scope_text (pr_scope d) @ '':'' @ pr_key d, d)) definitions)"
  have ok: "\<forall>k d. ?i k = Some d \<longrightarrow> List.member PropertyDataType (pr_dataType d)"
    using assms(2) by (auto simp: js_map_def typed_def list_all_iff dest!: map_of_SomeD)
  have entries: "\<forall>(x, v) \<in> set (case member e k of Some (JObj ms) \<Rightarrow> ms | _ \<Rightarrow> []). unit_key x"
    if "k = ''event_properties'' \<or> k = ''user_properties''" for k
  proof (cases "\<exists>ms. member e k = Some (JObj ms)")
    case True
    then obtain ms where ms: "member e k = Some (JObj ms)" by blast
    show ?thesis using event_properties_keys [OF assms(1) that ms] ms by simp
  next
    case False
    then have "(case member e k of Some (JObj ms) \<Rightarrow> ms | _ \<Rightarrow> []) = []" by (auto split: option.split json.split)
    then show ?thesis by simp
  qed
  consider "validateScope env EventScope (member e ''event_properties'') ?i = Some m"
    | "validateScope env UserScope (member e ''user_properties'') ?i = Some m"
    using assms(3) by (auto simp: validateEventProperties_def Let_def split: option.splits)
  then show ?thesis
  proof cases
    case 1
    from property_message [OF 1 [unfolded validateScope_def] entries ok] show ?thesis by simp
  next
    case 2
    from property_message [OF 2 [unfolded validateScope_def] entries ok] show ?thesis by simp
  qed
qed

lemma event_identity:
  assumes "usageEventSchema env e"
  shows "string_member e ''event_id'' = Some (event_text e ''event_id'') \<and>
    (ulid (event_text e ''event_id'') \<or> uuid_v7 (event_text e ''event_id''))"
proof -
  have "\<exists>v. member e ''event_id'' = Some v \<and> eventIdSchema v"
    by (rule z_object_field [OF assms [unfolded usageEventSchema_def]]) (simp add: eventEnvelopeShape_def req_def opt_def)
  then show ?thesis by (auto simp: eventIdSchema_def string_member_def json_string_def event_text_def dest!: z_stringE)
qed

lemma fixed_texts:
  "result_code ''INVALID_PROPERTY''" "result_code ''EVENT_TOO_LARGE''" "result_code ''PAYLOAD_HASH_CONFLICT''"
  "utf16_length ''event_id already exists with a different canonical payload hash'' = 63"
  "1 \<le> utf16_length ''The canonical event exceeds ''"
  by code_simp+

lemma too_large_message:
  assumes "m = ''The canonical event exceeds '' @ decimal_text (io_maxEventBytes DEFAULT_OPTIONS) @ '' bytes.''"
  shows "1 \<le> utf16_length m \<and> utf16_length m \<le> 500"
proof (rule utf16_bounds [OF assms fixed_texts(5)])
  have "length (decimal_text (io_maxEventBytes DEFAULT_OPTIONS)) = 7"
    by (simp add: DEFAULT_OPTIONS_def decimal_text.simps)
  then show "length m \<le> 250" using assms by simp
qed

lemma validate_outcome:
  assumes "usageEventSchema env e" and "typed definitions"
  shows "(\<exists>r. validateEvent env DEFAULT_OPTIONS i e definitions = Inl r \<and> ir_index r = i \<and> readable r \<and>
      ir_event_id r = Some (event_text e ''event_id'') \<and> ir_status r = Item_rejected) \<or>
    (\<exists>v. validateEvent env DEFAULT_OPTIONS i e definitions = Inr v \<and> ve_event v = e \<and> ve_index v = i)"
proof (cases "validateEventProperties env e definitions")
  case (Some m)
  from invalid_property_message [OF assms Some] show ?thesis
    using assms(1) Some event_identity [OF assms(1)] by (simp add: validateEvent_def rejected_def readable_def fixed_texts)
next
  case None
  then show ?thesis
    using assms(1) event_identity [OF assms(1)] too_large_message [OF refl]
    by (simp add: validateEvent_def rejected_def readable_def fixed_texts)
qed

lemma upsert_properties:
  "upsert_profile app newId event t now db = (db1, u) \<Longrightarrow> pd_properties db1 = pd_properties db"
  by (auto simp: upsert_profile_def Let_def split: option.splits)

lemma persist_outcome:
  fixes db :: "'o PipelineDb"
  assumes "storable env (ve_event v)" and "usageEventSchema env (ve_event v)" and "pv_inboxId w \<notin> lr_id ` set (pd_inbox db)"
  obtains db' r where "persistEvent env cat w id app v db = (db', Inr r)" "ir_index r = ve_index v" "readable r"
    "ir_event_id r = Some (event_text (ve_event v) ''event_id'')"
    "registry_of app (event_text (ve_event v) ''event_id'') (pd_registry db') \<noteq> None"
    "\<And>k. registry_of app k (pd_registry db) \<noteq> None \<Longrightarrow> registry_of app k (pd_registry db') \<noteq> None"
    "lr_id ` set (pd_inbox db') \<subseteq> insert (pv_inboxId w) (lr_id ` set (pd_inbox db))" "pd_properties db' = pd_properties db"
proof -
  let ?k = "event_text (ve_event v) ''event_id''"
  have item: "ir_index (itemResult v s) = ve_index v" "readable (itemResult v s)" "ir_event_id (itemResult v s) = Some ?k" for s
    using event_identity [OF assms(2)] by (simp_all add: itemResult_def readable_def fixed_texts)
  show ?thesis
  proof (cases "registry_of app ?k (pd_registry db)")
    case (Some g)
    have "persistEvent env cat w id app v db = (db, Inr (itemResult v (statusForExisting g (ve_payloadHash v))))"
      using known_event [OF Some, of env cat w id] by simp
    from that [OF this item] Some show ?thesis by auto
  next
    case None
    obtain db1 u where u: "upsert_profile app (pv_userId w) (ve_event v) (date_ms env (event_text (ve_event v) ''event_time'')) (pv_now w) db = (db1, u)"
      by (rule prod.exhaust)
    note frame = upsert_profile_frame [OF u] upsert_properties [OF u]
    obtain db' where ins: "insert_event env cat w app v db = Inr db'" and props: "pd_properties db' = pd_properties db"
    proof -
      have "\<not> list_ex (\<lambda>x. lr_id x = pv_inboxId w) (pd_inbox db)" using assms(3) by (force simp: list_ex_iff)
      then have "\<exists>db'. insert_event env cat w app v db = Inr db' \<and> pd_properties db' = pd_properties db"
        using None storable_accepted [OF assms(1), of cat app "up_id u"]
        by (simp add: insert_event_def u frame new_inbox_def Let_def)
      then show thesis using that by blast
    qed
    note reg = insert_event_registry [OF ins]
    from reg(1) obtain x where x: "pd_registry db' = pd_registry db @ [registry_row env cat app v x]" by blast
    show ?thesis
    proof (rule that [OF _ item _ _ _ props])
      show "persistEvent env cat w id app v db = (db', Inr (itemResult v Item_accepted))"
        using None ins by (simp add: persistEvent_def Let_def)
      show "registry_of app ?k (pd_registry db') \<noteq> None"
        by (simp add: x registry_of_snoc registry_row_def Let_def split: option.splits)
      show "registry_of app k (pd_registry db') \<noteq> None" if "registry_of app k (pd_registry db) \<noteq> None" for k
        using that by (auto simp: x registry_of_snoc)
      show "lr_id ` set (pd_inbox db') \<subseteq> insert (pv_inboxId w) (lr_id ` set (pd_inbox db))"
        by (auto simp: reg(3) new_inbox_def)
    qed
  qed
qed

text \<open>A batch of valid, storable events is answered completely: one readable result per event, in order, and
  every event whose result is not a rejection is registered.\<close>

lemma ingest_events_outcome:
  fixes db :: "'o PipelineDb"
  assumes "list_all (\<lambda>e. usageEventSchema env e \<and> storable env e) es" and "typed definitions"
    and "\<forall>i \<ge> n. pv_inboxId (worlds i) \<notin> lr_id ` set (pd_inbox db)" and "inj (\<lambda>i. pv_inboxId (worlds i))"
  shows "\<exists>db' rs. ingest_events env cat DEFAULT_OPTIONS worlds (\<lambda>_. id) app definitions n es db = (db', Inr rs) \<and>
    map ir_index rs = [n ..< n + length es] \<and> map ir_event_id rs = map (\<lambda>e. Some (event_text e ''event_id'')) es \<and>
    list_all readable rs \<and>
    list_all (\<lambda>r. ir_status r = Item_rejected \<or> registry_of app (the (ir_event_id r)) (pd_registry db') \<noteq> None) rs \<and>
    (\<forall>k. registry_of app k (pd_registry db) \<noteq> None \<longrightarrow> registry_of app k (pd_registry db') \<noteq> None) \<and>
    lr_id ` set (pd_inbox db') \<subseteq> lr_id ` set (pd_inbox db) \<union> range (\<lambda>i. pv_inboxId (worlds i)) \<and>
    pd_properties db' = pd_properties db"
  using assms(1,3)
proof (induction es arbitrary: n db)
  case Nil
  then show ?case by auto
next
  case (Cons e es)
  have e: "usageEventSchema env e" "storable env e" and es: "list_all (\<lambda>e. usageEventSchema env e \<and> storable env e) es"
    using Cons.prems(1) by simp_all
  have upt: "[n ..< n + length (e # es)] = n # [Suc n ..< Suc n + length es]" by (subst upt_conv_Cons) simp_all
  from validate_outcome [OF e(1) assms(2), of n] show ?case
  proof (elim disjE exE conjE)
    fix r assume r: "validateEvent env DEFAULT_OPTIONS n e definitions = Inl r" "ir_index r = n" "readable r"
      "ir_event_id r = Some (event_text e ''event_id'')" "ir_status r = Item_rejected"
    have "\<forall>i \<ge> Suc n. pv_inboxId (worlds i) \<notin> lr_id ` set (pd_inbox db)" using Cons.prems(2) by simp
    from Cons.IH [OF es this] obtain db' rs where rest:
      "ingest_events env cat DEFAULT_OPTIONS worlds (\<lambda>_. id) app definitions (Suc n) es db = (db', Inr rs)"
      "map ir_index rs = [Suc n ..< Suc n + length es]" "map ir_event_id rs = map (\<lambda>e. Some (event_text e ''event_id'')) es"
      "list_all readable rs"
      "list_all (\<lambda>r. ir_status r = Item_rejected \<or> registry_of app (the (ir_event_id r)) (pd_registry db') \<noteq> None) rs"
      "\<forall>k. registry_of app k (pd_registry db) \<noteq> None \<longrightarrow> registry_of app k (pd_registry db') \<noteq> None"
      "lr_id ` set (pd_inbox db') \<subseteq> lr_id ` set (pd_inbox db) \<union> range (\<lambda>i. pv_inboxId (worlds i))"
      "pd_properties db' = pd_properties db" by blast
    have run: "ingest_events env cat DEFAULT_OPTIONS worlds (\<lambda>_. id) app definitions n (e # es) db = (db', Inr (r # rs))"
      using r(1) rest(1) by simp
    show ?thesis unfolding upt
      by (intro exI [of _ db'] exI [of _ "r # rs"] conjI, rule run) (use r rest(2-8) in simp_all)
  next
    fix v assume v: "validateEvent env DEFAULT_OPTIONS n e definitions = Inr v" "ve_event v = e" "ve_index v = n"
    have fresh: "pv_inboxId (worlds n) \<notin> lr_id ` set (pd_inbox db)" using Cons.prems(2) by simp
    obtain db1 r where one: "persistEvent env cat (worlds n) id app v db = (db1, Inr r)" "ir_index r = n" "readable r"
      "ir_event_id r = Some (event_text e ''event_id'')" "registry_of app (event_text e ''event_id'') (pd_registry db1) \<noteq> None"
      "\<And>k. registry_of app k (pd_registry db) \<noteq> None \<Longrightarrow> registry_of app k (pd_registry db1) \<noteq> None"
      "lr_id ` set (pd_inbox db1) \<subseteq> insert (pv_inboxId (worlds n)) (lr_id ` set (pd_inbox db))" "pd_properties db1 = pd_properties db"
      by (rule persist_outcome [of env v "worlds n" db cat app]) (use v e fresh in auto)
    have "\<forall>i \<ge> Suc n. pv_inboxId (worlds i) \<notin> lr_id ` set (pd_inbox db1)"
    proof (intro allI impI)
      fix i assume i: "Suc n \<le> i"
      then have "pv_inboxId (worlds i) \<noteq> pv_inboxId (worlds n)" using injD [OF assms(4), of i n] by auto
      moreover have "pv_inboxId (worlds i) \<notin> lr_id ` set (pd_inbox db)" using Cons.prems(2) i by simp
      ultimately show "pv_inboxId (worlds i) \<notin> lr_id ` set (pd_inbox db1)" using one(7) by blast
    qed
    from Cons.IH [OF es this] obtain db' rs where rest:
      "ingest_events env cat DEFAULT_OPTIONS worlds (\<lambda>_. id) app definitions (Suc n) es db1 = (db', Inr rs)"
      "map ir_index rs = [Suc n ..< Suc n + length es]" "map ir_event_id rs = map (\<lambda>e. Some (event_text e ''event_id'')) es"
      "list_all readable rs"
      "list_all (\<lambda>r. ir_status r = Item_rejected \<or> registry_of app (the (ir_event_id r)) (pd_registry db') \<noteq> None) rs"
      "\<forall>k. registry_of app k (pd_registry db1) \<noteq> None \<longrightarrow> registry_of app k (pd_registry db') \<noteq> None"
      "lr_id ` set (pd_inbox db') \<subseteq> lr_id ` set (pd_inbox db1) \<union> range (\<lambda>i. pv_inboxId (worlds i))"
      "pd_properties db' = pd_properties db1" by blast
    have run: "ingest_events env cat DEFAULT_OPTIONS worlds (\<lambda>_. id) app definitions n (e # es) db = (db', Inr (r # rs))"
      using v(1) one(1) rest(1) by simp
    have kept: "\<forall>k. registry_of app k (pd_registry db) \<noteq> None \<longrightarrow> registry_of app k (pd_registry db') \<noteq> None"
      using one(6) rest(6) by blast
    have ids: "lr_id ` set (pd_inbox db') \<subseteq> lr_id ` set (pd_inbox db) \<union> range (\<lambda>i. pv_inboxId (worlds i))"
      using one(7) rest(7) by blast
    have stored: "registry_of app (event_text e ''event_id'') (pd_registry db') \<noteq> None" using one(5) rest(6) by blast
    show ?thesis unfolding upt
      by (intro exI [of _ db'] exI [of _ "r # rs"] conjI, rule run)
        (use kept ids stored one(2,3,4,8) rest(2-5,8) in simp_all)
  qed
qed

subsection \<open>The SDK reads every answer of the API\<close>

lemma json_int_of_nat [simp]: "json_int (JNum (of_nat n)) = Some (int n)"
  by (simp add: json_int_def)

lemma small_nat: "n \<le> 1000 \<Longrightarrow> nonNegativeSafeIntegerSchema (JNum (of_nat n))"
  by (simp add: nonNegativeSafeIntegerSchema_def z_int_def)

lemma item_members [simp]:
  "string_member (item_json r) ''status'' = Some (status_text (ir_status r))"
  "member (item_json r) ''index'' = Some (JNum (of_nat (ir_index r)))"
  "string_member (item_json r) ''event_id'' = ir_event_id r"
  by (auto simp: item_json_def string_member_def json_string_def split: option.splits)

lemma status_text_value: "status_text s \<in> set status_values"
  by (cases s) (simp_all add: status_text_def status_values_def)

lemma status_text_inj: "status_text s = status_text t \<longleftrightarrow> s = t"
  by (cases s; cases t) (simp_all add: status_text_def)

lemma item_readable:
  assumes "readable r" and "ir_index r \<le> 1000" and "ir_event_id r = Some k" and "ulid k \<or> uuid_v7 k"
  shows "result_schema (item_json r)"
  using assms small_nat [OF assms(2)] status_text_value [of "ir_status r"]
  by (cases "ir_code r"; cases "ir_message r")
    (simp_all add: result_schema_def z_object_def item_json_def optional_member_def req_def opt_def readable_def
      contractIdSchema_def z_nullable_def z_enum_def)

lemma status_count_items: "status_count (status_text s) (map item_json rs) = count_status s rs"
  by (simp add: status_count_def count_status_def filter_map comp_def status_text_inj)

lemma response_accepted:
  assumes "map ir_index rs = [0 ..< n]" and "n \<le> 1000" and "list_all readable rs"
    and "list_all (\<lambda>r. case ir_event_id r of None \<Rightarrow> False | Some k \<Rightarrow> ulid k \<or> uuid_v7 k) rs"
    and "ulid b \<or> uuid_v7 b" and "utc_pattern received" and "date_parses env received"
  shows "batchIngestionResponseSchema env (response_json received
    \<lparr>br_batch_id = b, br_accepted = count_status Item_accepted rs, br_duplicates = count_status Item_duplicate rs,
     br_conflicts = count_status Item_conflict rs, br_rejected = count_status Item_rejected rs, br_results = rs\<rparr>)"
proof -
  have len: "length rs = n" using arg_cong [OF assms(1), of length] by simp
  have "\<forall>r \<in> set rs. ir_index r < n" using assms(1) by (metis atLeastLessThan_iff image_eqI list.set_map set_upt)
  then have items: "list_all result_schema (map item_json rs)"
    using assms(2,3,4) by (fastforce simp: list_all_iff intro: item_readable split: option.splits)
  have count: "nonNegativeSafeIntegerSchema (JNum (of_nat (count_status s rs)))" for s
    by (rule small_nat) (use length_filter_le [of _ rs] len assms(2) in \<open>auto simp: count_status_def intro: le_trans\<close>)
  have "distinct (map ir_index rs)" using assms(1) by simp
  then have indexes: "distinct (map (\<lambda>r. member r ''index'') (map item_json rs))"
    by (auto simp: distinct_map inj_on_def)
  have counts: "status_count ''accepted'' (map item_json rs) = count_status Item_accepted rs"
    "status_count ''duplicate'' (map item_json rs) = count_status Item_duplicate rs"
    "status_count ''conflict'' (map item_json rs) = count_status Item_conflict rs"
    "status_count ''rejected'' (map item_json rs) = count_status Item_rejected rs"
    using status_count_items [of Item_accepted rs] status_count_items [of Item_duplicate rs]
      status_count_items [of Item_conflict rs] status_count_items [of Item_rejected rs] by (simp_all add: status_text_def)
  show ?thesis
    using items count indexes assms(5-7)
    by (simp add: batchIngestionResponseSchema_def response_refined_def response_json_def z_object_def req_def z_literal_def
        contractIdSchema_def utcDateTimeSchema_def z_array_def array_of_def counts del: map_map)
qed

subsection \<open>One round\<close>

lemma rejected_result:
  assumes "fold (handle_result now items) results (sp, n) = (sp', n')" and "spool_ok env sp"
    and "distinct (map (result_event items) results)" and "item \<in> set results" and "result_event items item = Some k"
    and "event_text item ''status'' \<noteq> ''accepted''" and "event_text item ''status'' \<noteq> ''duplicate''"
    and "k \<in> sp_eventId ` set (su_events sp)"
  shows "k \<in> rj_eventId ` set (su_rejected sp')"
  using assms
proof (induction results arbitrary: sp n)
  case (Cons x results)
  obtain sp1 n1 where one: "handle_result now items x (sp, n) = (sp1, n1)" by fastforce
  note effect = handle_result_effect [OF Cons.prems(2) one]
  have rest: "fold (handle_result now items) results (sp1, n1) = (sp', n')" using Cons.prems(1) one by simp
  show ?case
  proof (cases "x = item")
    case True
    have "sp1 = reject now k (case string_member item ''code'' of Some c \<Rightarrow> c | None \<Rightarrow> js_upper (event_text item ''status'')) sp"
      using one Cons.prems(5,6,7) True by (simp add: handle_result_def Let_def split: option.splits)
    then have "k \<in> rj_eventId ` set (su_rejected sp1)"
      using Cons.prems(8) by (force simp: reject_rejected list_ex_iff)
    then show ?thesis using handle_results_effect [OF effect(1) rest] by blast
  next
    case False
    then have "result_event items x \<noteq> Some k" using Cons.prems(3,4,5) by (auto simp: image_iff)
    then have "k \<in> sp_eventId ` set (su_events sp1)" using Cons.prems(8) by (auto simp: effect(3))
    then show ?thesis using Cons.IH [OF rest effect(1)] Cons.prems(3-7) False by auto
  qed
qed simp

lemma split_on_length: "Suc (length s) = (\<Sum>w \<leftarrow> split_on c s. Suc (length w))"
  by (induction s) (auto split: list.splits)

lemma ascii_first: "x \<le> CHR ''z'' \<Longrightarrow> 1 \<le> utf16_length (x # s)"
  by (simp add: utf16_length_def byte_def less_eq_char_def)

lemma event_id_size:
  assumes "ulid k \<or> uuid_v7 k"
  shows "length k \<le> 100 \<and> 1 \<le> utf16_length k"
  using assms
proof
  assume u: "ulid k"
  then obtain x xs where k: "k = x # xs" by (cases k) (simp_all add: ulid_def)
  have "x \<le> CHR ''z''" using u by (auto simp: k ulid_def is_digit_def upper_letter_def less_eq_char_def)
  then show ?thesis using u ascii_first by (simp add: k ulid_def)
next
  assume "uuid_v7 k"
  then have g: "map length (split_on (CHR ''-'') k) = [8, 4, 4, 4, 12]" "list_all (list_all hex_digit) (split_on (CHR ''-'') k)"
    by (simp_all add: uuid_v7_def hex_groups_def)
  have "(\<Sum>w \<leftarrow> split_on (CHR ''-'') k. Suc (length w)) = sum_list (map Suc [8, 4, 4, 4, 12])"
    unfolding g(1) [symmetric] by (simp add: comp_def)
  then have len: "length k = 36" using split_on_length [of k "CHR ''-''"] by simp
  then obtain x xs where k: "k = x # xs" by (cases k) simp_all
  have "hex_digit x" using g by (auto simp: k split: if_splits list.splits)
  then have "x \<le> CHR ''z''" by (auto simp: hex_digit_def is_digit_def less_eq_char_def)
  then show ?thesis using len ascii_first by (simp add: k)
qed

lemma batch_envelope:
  assumes "items \<noteq> []" and "ulid (sp_eventId (hd items)) \<or> uuid_v7 (sp_eventId (hd items))" and "iso_datetime env sentAt"
  shows "batchEnvelopeSchema env (batch_json sentAt items)"
  using assms utf16_length_le [of "sp_eventId (hd items)"] event_id_size [OF assms(2)]
  by (simp add: batchEnvelopeSchema_def batch_json_def z_object_def req_def z_literal_def z_array_def Suc_le_eq list_all_iff)

lemma filter_drop_prefix:
  assumes "distinct (map f xs)"
  shows "filter (\<lambda>x. f x \<notin> f ` set (take n xs)) xs = drop n xs"
proof -
  have "filter (\<lambda>x. f x \<notin> f ` set (take n xs)) (take n xs) = []" by (simp add: filter_empty_conv)
  moreover have "filter (\<lambda>x. f x \<notin> f ` set (take n xs)) (drop n xs) = drop n xs"
  proof -
    have "f ` set (take n xs) \<inter> f ` set (drop n xs) = {}"
      using assms by (metis append_take_drop_id distinct_append map_append set_map)
    then show ?thesis unfolding filter_id_conv by blast
  qed
  ultimately show ?thesis by (metis append_take_drop_id filter_append append_Nil)
qed

text \<open>A batch of the spool is answered by the API, and the SDK reads the answer: one result per event, in order.\<close>

lemma api_answers:
  fixes db :: "'o PipelineDb"
  assumes ne: "items \<noteq> []" and len: "length items \<le> 1000" and ty: "typed (pd_properties db)"
    and items: "\<forall>r \<in> set items. usageEventSchema env (sp_payload r) \<and> sp_eventId r = event_text (sp_payload r) ''event_id'' \<and> storable env (sp_payload r)"
    and clock: "iso_datetime env sentAt" "utc_pattern (aw_receivedAt w k)" "date_parses env (aw_receivedAt w k)"
    and fits: "length (stringify env (batch_json sentAt items)) \<le> io_maxBatchBytes DEFAULT_OPTIONS"
    and fresh: "\<forall>i. pv_inboxId (aw_persist w k i) \<notin> lr_id ` set (pd_inbox db)" "inj (\<lambda>i. pv_inboxId (aw_persist w k i))"
  obtains db' answer rs where "api_server env cat DEFAULT_OPTIONS w app k (batch_json sentAt items) db = (db', Inr answer)"
    "batchIngestionResponseSchema env answer" "array_of (member answer ''results'') = map item_json rs"
    "map ir_event_id rs = map (\<lambda>r. Some (sp_eventId r)) items"
    "list_all (\<lambda>r. ir_status r = Item_rejected \<or> registry_of app (the (ir_event_id r)) (pd_registry db') \<noteq> None) rs"
    "\<forall>k. registry_of app k (pd_registry db) \<noteq> None \<longrightarrow> registry_of app k (pd_registry db') \<noteq> None"
    "lr_id ` set (pd_inbox db') \<subseteq> lr_id ` set (pd_inbox db) \<union> range (\<lambda>i. pv_inboxId (aw_persist w k i))"
    "pd_properties db' = pd_properties db"
proof -
  let ?body = "batch_json sentAt items"
  have ids: "ulid (sp_eventId r) \<or> uuid_v7 (sp_eventId r)" if "r \<in> set items" for r
    using items that event_identity by force
  have env_ok: "batchEnvelopeSchema env ?body" by (rule batch_envelope [OF ne ids [OF hd_in_set [OF ne]] clock(1)])
  have es: "array_of (member ?body ''events'') = map sp_payload items" by (simp add: batch_json_def array_of_def)
  have valid: "list_all (\<lambda>e. usageEventSchema env e \<and> storable env e) (map sp_payload items)" using items by (simp add: list_all_iff)
  have defs: "typed (propertyDefinitions app (map sp_payload items) db)"
    using ty by (auto simp: typed_def propertyDefinitions_def active_definitions_def list_all_iff)
  obtain db' rs where run: "ingest_events env cat DEFAULT_OPTIONS (aw_persist w k) (\<lambda>_. id) app
      (propertyDefinitions app (map sp_payload items) db) 0 (map sp_payload items) db = (db', Inr rs)"
    and rs: "map ir_index rs = [0 ..< length items]" "map ir_event_id rs = map (\<lambda>r. Some (sp_eventId r)) items" "list_all readable rs"
      "list_all (\<lambda>r. ir_status r = Item_rejected \<or> registry_of app (the (ir_event_id r)) (pd_registry db') \<noteq> None) rs"
    and db': "\<forall>k. registry_of app k (pd_registry db) \<noteq> None \<longrightarrow> registry_of app k (pd_registry db') \<noteq> None"
      "lr_id ` set (pd_inbox db') \<subseteq> lr_id ` set (pd_inbox db) \<union> range (\<lambda>i. pv_inboxId (aw_persist w k i))" "pd_properties db' = pd_properties db"
    using ingest_events_outcome [OF valid defs, of 0 "aw_persist w k" db cat app] fresh items by (auto cong: map_cong)
  let ?b = "\<lparr>br_batch_id = sp_eventId (hd items), br_accepted = count_status Item_accepted rs, br_duplicates = count_status Item_duplicate rs,
     br_conflicts = count_status Item_conflict rs, br_rejected = count_status Item_rejected rs, br_results = rs\<rparr>"
  let ?answer = "response_json (aw_receivedAt w k) ?b"
  have bid: "event_text ?body ''batch_id'' = sp_eventId (hd items)"
    by (simp add: batch_json_def event_text_def string_member_def json_string_def)
  have size: "\<not> io_maxBatchSize DEFAULT_OPTIONS < length (map sp_payload items)" using len by (simp add: DEFAULT_OPTIONS_def)
  have server: "api_server env cat DEFAULT_OPTIONS w app k ?body db = (db', Inr ?answer)"
    using fits env_ok size run unfolding api_server_def ingest_def es Let_def bid by simp
  have "list_all (\<lambda>y. case y of None \<Rightarrow> False | Some x \<Rightarrow> ulid x \<or> uuid_v7 x) (map ir_event_id rs)"
    unfolding rs(2) using ids by (simp add: list_all_iff)
  then have each: "list_all (\<lambda>r. case ir_event_id r of None \<Rightarrow> False | Some x \<Rightarrow> ulid x \<or> uuid_v7 x) rs"
    by (simp add: list_all_iff)
  have accepted: "batchIngestionResponseSchema env ?answer"
    by (rule response_accepted [OF rs(1) len rs(3) each ids [OF hd_in_set [OF ne]] clock(2,3)])
  have results: "array_of (member ?answer ''results'') = map item_json rs" by (simp add: response_json_def array_of_def)
  show thesis by (rule that [OF server accepted results rs(2,4) db'])
qed

text \<open>The results of a batch empty its part of the queue, and whatever is rejected is set aside.\<close>

lemma results_settle:
  assumes ok: "spool_ok env sp" and rs: "map ir_event_id rs = map (\<lambda>r. Some (sp_eventId r)) (take limit (su_events sp))"
    and round: "fold (handle_result now (take limit (su_events sp))) (map item_json rs) (sp, n) = (sp', n')"
  shows "su_events sp' = drop limit (su_events sp)"
    and "x \<in> set rs \<Longrightarrow> ir_status x = Item_rejected \<Longrightarrow> the (ir_event_id x) \<in> rj_eventId ` set (su_rejected sp')"
proof -
  let ?items = "take limit (su_events sp)"
  have named: "\<exists>r \<in> set ?items. ir_event_id x = Some (sp_eventId r)" if "x \<in> set rs" for x
    using arg_cong [OF rs, of set] that by auto
  have "result_event ?items (item_json x) = ir_event_id x" if "x \<in> set rs" for x
    using named [OF that] by (auto simp: result_event_def)
  then have evs: "map (result_event ?items) (map item_json rs) = map (\<lambda>r. Some (sp_eventId r)) ?items"
    using rs by (simp cong: map_cong)
  have dist: "distinct (map sp_eventId (su_events sp))" using ok by (simp add: spool_ok_def)
  then have "distinct (map sp_eventId ?items)" by (metis distinct_take take_map)
  then have distinct_results: "distinct (map (result_event ?items) (map item_json rs))"
    unfolding evs by (auto simp: distinct_map inj_on_def)
  have "result_event ?items ` set (map item_json rs) = Some ` sp_eventId ` set ?items"
    using arg_cong [OF evs, of set] by (auto simp: image_image)
  then have "su_events sp' = filter (\<lambda>r. sp_eventId r \<notin> sp_eventId ` set ?items) (su_events sp)"
    using handle_results_effect [OF ok round] by (auto intro: filter_cong)
  then show "su_events sp' = drop limit (su_events sp)" using filter_drop_prefix [OF dist] by simp
  assume x: "x \<in> set rs" "ir_status x = Item_rejected"
  obtain r where r: "r \<in> set ?items" "ir_event_id x = Some (sp_eventId r)" using named [OF x(1)] by blast
  have "sp_eventId r \<in> rj_eventId ` set (su_rejected sp')"
  proof (rule rejected_result [OF round ok distinct_results])
    show "item_json x \<in> set (map item_json rs)" using x(1) by simp
    show "result_event ?items (item_json x) = Some (sp_eventId r)" using r(2) by (simp add: result_event_def)
    show "event_text (item_json x) ''status'' \<noteq> ''accepted''" "event_text (item_json x) ''status'' \<noteq> ''duplicate''"
      using x(2) by (simp_all add: event_text_def status_text_def)
    show "sp_eventId r \<in> sp_eventId ` set (su_events sp)" using r(1) by (auto dest: in_set_takeD)
  qed
  then show "the (ir_event_id x) \<in> rj_eventId ` set (su_rejected sp')" using r(2) by simp
qed

text \<open>One round against the API: the batch is answered, all its events leave the queue, and each of them is registered or
  set aside.\<close>

lemma round_drains:
  fixes db :: "'o PipelineDb"
  assumes ok: "spool_ok env sp" and ev: "su_events sp \<noteq> []" "list_all (\<lambda>r. storable env (sp_payload r)) (su_events sp)"
    and limit: "0 < limit" "limit \<le> 1000" and ty: "typed (pd_properties db)"
    and clock: "iso_datetime env (uc_sentAt clock k)" "utc_pattern (aw_receivedAt w k)" "date_parses env (aw_receivedAt w k)"
    and fits: "length (stringify env (batch_json (uc_sentAt clock k) (take limit (su_events sp)))) \<le> io_maxBatchBytes DEFAULT_OPTIONS"
    and fresh: "\<forall>i. pv_inboxId (aw_persist w k i) \<notin> lr_id ` set (pd_inbox db)" "inj (\<lambda>i. pv_inboxId (aw_persist w k i))"
  obtains sp' db' n' where
    "flush env (api_server env cat DEFAULT_OPTIONS w app) clock limit k sp db n =
       flush env (api_server env cat DEFAULT_OPTIONS w app) clock limit (Suc k) sp' db' n'"
    "spool_ok env sp'" "su_events sp' = drop limit (su_events sp)" "set (su_rejected sp) \<subseteq> set (su_rejected sp')"
    "\<forall>r \<in> set (take limit (su_events sp)). registry_of app (sp_eventId r) (pd_registry db') \<noteq> None \<or>
       sp_eventId r \<in> rj_eventId ` set (su_rejected sp')"
    "\<forall>k. registry_of app k (pd_registry db) \<noteq> None \<longrightarrow> registry_of app k (pd_registry db') \<noteq> None"
    "lr_id ` set (pd_inbox db') \<subseteq> lr_id ` set (pd_inbox db) \<union> range (\<lambda>i. pv_inboxId (aw_persist w k i))"
    "pd_properties db' = pd_properties db"
proof -
  let ?items = "take limit (su_events sp)"
  have rows: "list_all (\<lambda>r. usageEventSchema env (sp_payload r) \<and> sp_eventId r = event_text (sp_payload r) ''event_id'') (su_events sp)"
    using ok by (auto simp: spool_ok_def list_all_iff)
  then have items: "\<forall>r \<in> set ?items. usageEventSchema env (sp_payload r) \<and> sp_eventId r = event_text (sp_payload r) ''event_id'' \<and> storable env (sp_payload r)"
    using ev(2) by (auto simp: list_all_iff dest: in_set_takeD)
  have ne: "?items \<noteq> []" using ev(1) limit(1) by simp
  have pend: "pending env limit sp = Inr ?items" using items by (simp add: pending_def list_all_iff)
  have len: "length ?items \<le> 1000" using limit(2) by simp
  obtain db' answer rs where server: "api_server env cat DEFAULT_OPTIONS w app k (batch_json (uc_sentAt clock k) ?items) db = (db', Inr answer)"
    and answer: "batchIngestionResponseSchema env answer" "array_of (member answer ''results'') = map item_json rs"
    and rs: "map ir_event_id rs = map (\<lambda>r. Some (sp_eventId r)) ?items"
      "list_all (\<lambda>r. ir_status r = Item_rejected \<or> registry_of app (the (ir_event_id r)) (pd_registry db') \<noteq> None) rs"
    and db': "\<forall>k. registry_of app k (pd_registry db) \<noteq> None \<longrightarrow> registry_of app k (pd_registry db') \<noteq> None"
      "lr_id ` set (pd_inbox db') \<subseteq> lr_id ` set (pd_inbox db) \<union> range (\<lambda>i. pv_inboxId (aw_persist w k i))" "pd_properties db' = pd_properties db"
    by (rule api_answers [OF ne len ty items clock fits fresh]) (rule that)
  obtain sp' n' where round: "fold (handle_result (uc_rejectedAt clock k) ?items) (map item_json rs) (sp, n) = (sp', n')"
    by (rule prod.exhaust)
  note effect = handle_results_effect [OF ok round] and settle = results_settle [OF ok rs(1) round]
  have settled: "registry_of app (sp_eventId r) (pd_registry db') \<noteq> None \<or> sp_eventId r \<in> rj_eventId ` set (su_rejected sp')"
    if r: "r \<in> set ?items" for r
  proof -
    have "Some (sp_eventId r) \<in> set (map ir_event_id rs)" unfolding rs(1) using r by auto
    then obtain x where x: "x \<in> set rs" "ir_event_id x = Some (sp_eventId r)" by auto
    then show ?thesis using rs(2) settle(2) [OF x(1)] by (auto simp: list_all_iff)
  qed
  show thesis
  proof (rule that [OF _ _ settle(1) _ _ db'])
    show "flush env (api_server env cat DEFAULT_OPTIONS w app) clock limit k sp db n =
       flush env (api_server env cat DEFAULT_OPTIONS w app) clock limit (Suc k) sp' db' n'"
      by (subst flush.simps) (use ne in \<open>simp add: pend server answer round del: hd_take\<close>)
  qed (use effect settled in auto)
qed

subsection \<open>The drain\<close>

lemma flush_drains:
  fixes db :: "'o PipelineDb"
  assumes "spool_ok env sp" and "deliverable env w clock (su_events sp) db" and "0 < limit" and "limit \<le> 1000"
    and "\<forall>j \<ge> k. \<forall>i. pv_inboxId (aw_persist w j i) \<notin> lr_id ` set (pd_inbox db)"
  shows "\<exists>sp' db' m. flush env (api_server env cat DEFAULT_OPTIONS w app) clock limit k sp db n = Some (sp', db', Inr m) \<and>
    su_events sp' = [] \<and> set (su_rejected sp) \<subseteq> set (su_rejected sp') \<and>
    (\<forall>k. registry_of app k (pd_registry db) \<noteq> None \<longrightarrow> registry_of app k (pd_registry db') \<noteq> None) \<and>
    (\<forall>r \<in> set (su_events sp). registry_of app (sp_eventId r) (pd_registry db') \<noteq> None \<or>
       sp_eventId r \<in> rj_eventId ` set (su_rejected sp'))"
  using assms
proof (induction "length (su_events sp)" arbitrary: sp db k n rule: less_induct)
  case less
  note ok = less.prems(1) and del = less.prems(2) and limit = less.prems(3,4) and fresh = less.prems(5)
  show ?case
  proof (cases "su_events sp = []")
    case True
    then have "flush env (api_server env cat DEFAULT_OPTIONS w app) clock limit k sp db n = Some (sp, db, Inr n)"
      by (subst flush.simps) (simp add: pending_def)
    then show ?thesis using True by simp
  next
    case False
    have batch: "length (stringify env (batch_json (uc_sentAt clock k) (take limit (su_events sp)))) \<le> io_maxBatchBytes DEFAULT_OPTIONS"
      using del [unfolded deliverable_def] by (metis drop0)
    have inj: "inj (\<lambda>i. pv_inboxId (aw_persist w k i))" using del by (auto simp: deliverable_def inj_on_def)
    have now: "\<forall>i. pv_inboxId (aw_persist w k i) \<notin> lr_id ` set (pd_inbox db)" using fresh by simp
    have world: "list_all (\<lambda>r. storable env (sp_payload r)) (su_events sp)" "typed (pd_properties db)"
      "iso_datetime env (uc_sentAt clock k)" "utc_pattern (aw_receivedAt w k)" "date_parses env (aw_receivedAt w k)"
      using del by (simp_all add: deliverable_def)
    obtain sp1 db1 n1 where step: "flush env (api_server env cat DEFAULT_OPTIONS w app) clock limit k sp db n =
         flush env (api_server env cat DEFAULT_OPTIONS w app) clock limit (Suc k) sp1 db1 n1"
      and sp1: "spool_ok env sp1" "su_events sp1 = drop limit (su_events sp)" "set (su_rejected sp) \<subseteq> set (su_rejected sp1)"
      and settled: "\<forall>r \<in> set (take limit (su_events sp)). registry_of app (sp_eventId r) (pd_registry db1) \<noteq> None \<or>
         sp_eventId r \<in> rj_eventId ` set (su_rejected sp1)"
      and db1: "\<forall>k. registry_of app k (pd_registry db) \<noteq> None \<longrightarrow> registry_of app k (pd_registry db1) \<noteq> None"
        "lr_id ` set (pd_inbox db1) \<subseteq> lr_id ` set (pd_inbox db) \<union> range (\<lambda>i. pv_inboxId (aw_persist w k i))"
        "pd_properties db1 = pd_properties db"
      by (rule round_drains [OF ok False world(1) limit world(2-5) batch now inj]) (rule that)
    have "deliverable env w clock (su_events sp1) db1"
      using del unfolding deliverable_def sp1(2) db1(3) by (auto simp: list_all_iff dest: in_set_dropD)
    moreover have "\<forall>j \<ge> Suc k. \<forall>i. pv_inboxId (aw_persist w j i) \<notin> lr_id ` set (pd_inbox db1)"
    proof (intro allI impI)
      fix j i assume j: "Suc k \<le> j"
      have "pv_inboxId (aw_persist w j i) \<noteq> pv_inboxId (aw_persist w k i')" for i'
        using del j by (auto simp: deliverable_def dest!: injD [of _ "(j, i)" "(k, i')"])
      moreover have "pv_inboxId (aw_persist w j i) \<notin> lr_id ` set (pd_inbox db)" using fresh j by simp
      ultimately show "pv_inboxId (aw_persist w j i) \<notin> lr_id ` set (pd_inbox db1)" using db1(2) by blast
    qed
    moreover have "length (su_events sp1) < length (su_events sp)" using False limit by (simp add: sp1(2))
    ultimately obtain sp' db' m where rest: "flush env (api_server env cat DEFAULT_OPTIONS w app) clock limit (Suc k) sp1 db1 n1 = Some (sp', db', Inr m)"
      "su_events sp' = []" "set (su_rejected sp1) \<subseteq> set (su_rejected sp')"
      "\<forall>k. registry_of app k (pd_registry db1) \<noteq> None \<longrightarrow> registry_of app k (pd_registry db') \<noteq> None"
      "\<forall>r \<in> set (su_events sp1). registry_of app (sp_eventId r) (pd_registry db') \<noteq> None \<or> sp_eventId r \<in> rj_eventId ` set (su_rejected sp')"
      using less.hyps [OF _ sp1(1) _ limit] by blast
    have all: "registry_of app (sp_eventId r) (pd_registry db') \<noteq> None \<or> sp_eventId r \<in> rj_eventId ` set (su_rejected sp')"
      if "r \<in> set (su_events sp)" for r
    proof -
      have "r \<in> set (take limit (su_events sp)) \<or> r \<in> set (su_events sp1)"
        using that by (metis append_take_drop_id Un_iff set_append sp1(2))
      then show ?thesis using settled rest(3-5) by blast
    qed
    show ?thesis
    proof (intro exI conjI)
      show "flush env (api_server env cat DEFAULT_OPTIONS w app) clock limit k sp db n = Some (sp', db', Inr m)"
        using step rest(1) by simp
      show "su_events sp' = []" by (rule rest(2))
      show "set (su_rejected sp) \<subseteq> set (su_rejected sp')" using sp1(3) rest(3) by blast
      show "\<forall>k. registry_of app k (pd_registry db) \<noteq> None \<longrightarrow> registry_of app k (pd_registry db') \<noteq> None"
        using db1(1) rest(4) by blast
    qed (rule ballI, rule all)
  qed
qed

subsection \<open>Reports\<close>

text \<open>The rows a report adds keep the spool well formed.\<close>

lemma enqueue_ok:
  assumes "spool_ok env sp" and "enqueue env mx fb now e sp = Inr (sp', b)"
  shows "spool_ok env sp' \<and> su_rejected sp' = su_rejected sp \<and> spool_knows (event_text e ''event_id'') sp' \<and>
    (b \<longleftrightarrow> \<not> spool_knows (event_text e ''event_id'') sp) \<and>
    su_events sp' = su_events sp @ (if b then [\<lparr>sp_eventId = event_text e ''event_id'', sp_payload = e, sp_createdAt = now\<rparr>] else [])"
  using assms
  by (auto simp: enqueue_def Let_def spool_ok_def spool_knows_def list_all_iff list_ex_iff split: if_splits) (metis+)

text \<open>A head event the server refuses with an error blocks the queue.\<close>

lemma flush_stalls:
  assumes "su_events sp \<noteq> []" and "0 < limit" and "list_all (\<lambda>r. usageEventSchema env (sp_payload r)) (take limit (su_events sp))"
    and "server k (batch_json (uc_sentAt clock k) (take limit (su_events sp))) d = (d', Inl status)"
  shows "flush env server clock limit k sp d n = Some (sp, d', Inl (RequestFailed status))"
  using assms by (subst flush.simps) (simp add: pending_def del: hd_take)

lemma enqueue_all_ok:
  assumes "spool_ok env sp" and "enqueue_all env mx fb now i es sp = (sp', None)"
  shows "spool_ok env sp' \<and> su_rejected sp' = su_rejected sp \<and> set (su_events sp) \<subseteq> set (su_events sp') \<and>
    list_all (\<lambda>e. spool_knows (event_text e ''event_id'') sp') es"
  using assms
proof (induction es arbitrary: i sp)
  case (Cons e es)
  obtain sp1 b where one: "enqueue env mx (fb i) now e sp = Inr (sp1, b)"
    and rest: "enqueue_all env mx fb now (Suc i) es sp1 = (sp', None)"
    using Cons.prems(2) by (auto split: sum.splits)
  note first = enqueue_ok [OF Cons.prems(1) one]
  note IH = Cons.IH [OF conjunct1 [OF first] rest]
  have "spool_knows (event_text e ''event_id'') sp'" using first IH by (auto simp: spool_knows_def list_ex_iff)
  then show ?case using first IH by auto
qed simp

text \<open>A server whose answers name no event of the queue keeps the loop running.\<close>

lemma flush_spins:
  assumes "flush env server clock limit k sp d n = Some y" and "0 < limit" and "su_events sp \<noteq> []"
    and "list_all (\<lambda>r. usageEventSchema env (sp_payload r)) (su_events sp)"
    and "\<And>k b d. \<exists>body. server k b d = (d, Inr body) \<and> batchIngestionResponseSchema env body \<and> array_of (member body ''results'') = []"
  shows False
  using assms
proof (induction rule: flush.raw_induct [rotated, consumes 1])
  case (1 fl env server clock limit k sp d n y)
  have "list_all (\<lambda>r. usageEventSchema env (sp_payload r)) (take limit (su_events sp))"
    using "1.prems"(3) by (auto simp: list_all_iff dest: in_set_takeD)
  then have pend: "pending env limit sp = Inr (take limit (su_events sp))" by (simp add: pending_def)
  obtain body where body: "server k (batch_json (uc_sentAt clock k) (take limit (su_events sp))) d = (d, Inr body)"
    "batchIngestionResponseSchema env body" "array_of (member body ''results'') = []"
    using "1.prems"(4) by blast
  have "fl env server clock limit (Suc k) sp d n = Some y"
    using "1.hyps" "1.prems"(1,2) by (simp add: pend body del: hd_take)
  from "1.IH" [OF this "1.prems"] show False .
qed

end
