(* ===== verification/SpoolProperties.thy ===== *)
theory SpoolProperties
  imports PipelineDemo SpoolDelivery
begin

text \<open>
  The properties of the SDK's usage reporter and of its composition with the ingestion API, each instantiated on a spool
  with the sample event of \<open>PipelineDemo\<close>.
\<close>

subsection \<open>A sample spool\<close>

definition sample_clock :: upload_clock where
  "sample_clock = \<lparr>uc_sentAt = (\<lambda>_. ''2025-07-08T18:40:00Z''), uc_rejectedAt = (\<lambda>_. 0)\<rparr>"

definition sample_api :: api_world where
  "sample_api =
     \<lparr>aw_receivedAt = (\<lambda>_. ''2025-07-08T18:40:00Z''),
      aw_persist = (\<lambda>k i. \<lparr>pv_userId = ''user-1'', pv_inboxId = replicate k CHR ''k'' @ CHR ''-'' # replicate i CHR ''i'', pv_now = 0\<rparr>)\<rparr>"

definition empty_spool :: DurableUsageSpool where
  "empty_spool = \<lparr>su_events = [], su_rejected = []\<rparr>"

definition sample_spooled :: "string \<Rightarrow> SpooledUsageEvent" where
  "sample_spooled user = \<lparr>sp_eventId = ''01JZ5M0N8Q4R7T2V9W3X6Y1Z0A'', sp_payload = sample_event user sample_usage, sp_createdAt = 0\<rparr>"

definition sample_spool :: "string \<Rightarrow> DurableUsageSpool" where
  "sample_spool user = \<lparr>su_events = [sample_spooled user], su_rejected = []\<rparr>"

definition empty_answer :: json where
  "empty_answer = response_json ''2025-07-08T18:40:00Z''
     \<lparr>br_batch_id = ''01JZ5M0N8Q4R7T2V9W3X6Y1Z0A'', br_accepted = 0, br_duplicates = 0, br_conflicts = 0, br_rejected = 0, br_results = []\<rparr>"

lemma sample_sizes: "stringify sample_env j = ''{}''"
  by (simp add: sample_env_def)

lemma sample_instant: "utc_pattern ''2025-07-08T18:40:00Z''"
  by code_simp

lemma sample_schemas: "usageEventSchema sample_env (sample_event ''u1'' sample_usage)" "usageEventSchema sample_env (sample_event '' '' sample_usage)"
  using sample_event_schema [OF sample_users(1) sample_usage_ok(1)] sample_event_schema [OF sample_users(2) sample_usage_ok(1)] by simp_all

lemma sample_spool_ok: "spool_ok sample_env empty_spool" "spool_ok sample_env (sample_spool ''u1'')" "spool_ok sample_env (sample_spool '' '')"
  by (simp_all add: spool_ok_def empty_spool_def sample_spool_def sample_spooled_def sample_schemas)





lemma empty_answer_read: "batchIngestionResponseSchema sample_env empty_answer" "array_of (member empty_answer ''results'') = []"
proof -
  show "batchIngestionResponseSchema sample_env empty_answer"
    using response_accepted [of "[]" 0 "''01JZ5M0N8Q4R7T2V9W3X6Y1Z0A''" "''2025-07-08T18:40:00Z''" sample_env] sample_instant sample_parts_ok(1)
    by (simp add: empty_answer_def count_status_def eventIdSchema_def z_string_def) (simp add: sample_env_def)
  show "array_of (member empty_answer ''results'') = []" by (simp add: empty_answer_def response_json_def array_of_def)
qed

lemma spool_rows: "spool_ok env sp \<Longrightarrow> list_all (\<lambda>r. usageEventSchema env (sp_payload r)) (take n (su_events sp))"
  by (auto simp: spool_ok_def list_all_iff dest: in_set_takeD)

text \<open>A batch whose first new event has a blank user id fails as a whole on the table.\<close>

lemma blank_head_fails:
  assumes "length (stringify env inp) \<le> io_maxBatchBytes opts" and "batchEnvelopeSchema env inp"
    and "array_of (member inp ''events'') = e # es" and "length (e # es) \<le> io_maxBatchSize opts"
    and "validateEvent env opts 0 e (propertyDefinitions app (e # es) db) = Inr v"
    and "registry_of app (event_text e ''event_id'') (pd_registry db) = None"
    and "btrim (event_text (sub e ''user'') ''user_id'') = []"
  shows "ingest env cat opts worlds (\<lambda>_. id) inp app db =
    (db, Inl (IngestFailure (db_error ''23514'' ''the row violates a column type or CHECK constraint'')))"
proof -
  have v: "ve_event v = e" using validated_event [OF assms(5)] by simp
  have "\<not> registry_accepts env (registry_row env cat app v u)" for u
    using assms(7) by (simp add: registry_accepts_def registry_row_def Let_def v)
  then have "persistEvent env cat (worlds 0) id app v db = (db, Inl (db_error ''23514'' ''the row violates a column type or CHECK constraint''))"
    by (intro refused_event) (simp_all add: v assms(6))
  then show ?thesis using assms(1-5) by (simp add: ingest_def)
qed

subsection \<open>Properties\<close>



text \<open>C16: Whatever the server answers and whenever it fails, an upload loses and invents nothing.  The tables stay well
  formed, no rejected row disappears and no queued row appears.  An event no readable answer names is still queued, and
  an event none acknowledges as accepted or duplicate is still queued or set aside with its payload; so an event leaves the
  spool only on an acknowledgement.  When the loop returns a count, the queue is empty and the events it counted as
  delivered together with the rejected ones are exactly those it started with.\<close>

theorem upload_conserves_events:
  assumes "spool_ok env sp" and "0 < batchSize" and "flush env server clock batchSize k sp d 0 = Some (sp', d', r)"
  shows "spool_ok env sp' \<and> set (su_rejected sp) \<subseteq> set (su_rejected sp') \<and> set (su_events sp') \<subseteq> set (su_events sp) \<and>
    (\<forall>x \<in> set (su_events sp).
       (sp_eventId x \<notin> named env server clock \<longrightarrow> x \<in> set (su_events sp')) \<and>
       (sp_eventId x \<notin> acknowledged env server clock \<longrightarrow> x \<in> set (su_events sp') \<or> set_aside x sp')) \<and>
    (case r of
       Inr m \<Rightarrow> su_events sp' = [] \<and> m + length (su_rejected sp') = length (su_events sp) + length (su_rejected sp)
     | Inl e \<Rightarrow> depth sp' + length (su_rejected sp') \<le> depth sp + length (su_rejected sp))"
  using flush_conserves [OF assms(3,1,2)] flush_keeps [OF assms(3,1,2)]
  by (auto simp: spool_total_def depth_def split: sum.splits)

lemma silent_server: "named env (\<lambda>k b d. (d, Inl status)) clock = {}" "acknowledged env (\<lambda>k b d. (d, Inl status)) clock = {}"
  by (auto simp: named_def acknowledged_def)

theorem upload_conserves_events_witness:
  "\<exists>sp' d' r. flush sample_env (\<lambda>k b d. (d :: nat, Inl 503)) sample_clock 100 0 (sample_spool ''u1'') 0 0 = Some (sp', d', r) \<and>
     sample_spooled ''u1'' \<in> set (su_events sp')"
proof -
  have ok: "list_all (\<lambda>r. usageEventSchema sample_env (sp_payload r)) (take 100 (su_events (sample_spool ''u1'')))"
    by (rule spool_rows [OF sample_spool_ok(2)])
  have run: "flush sample_env (\<lambda>k b d. (d :: nat, Inl 503)) sample_clock 100 0 (sample_spool ''u1'') 0 0 =
      Some (sample_spool ''u1'', 0, Inl (RequestFailed 503))"
    by (rule flush_stalls [OF _ _ ok]) (simp_all add: sample_spool_def)
  from upload_conserves_events [OF sample_spool_ok(2) _ run] show ?thesis
    using run by (auto simp: silent_server sample_spool_def)
qed

text \<open>C35: An event whose user id is blank passes the SDK's schema and the API's, but not the table.  At the head of the
  spool it makes every upload, now and at any later attempt, end with HTTP 500 and leave spool and database as they were:
  the events behind it are never delivered.\<close>

theorem blank_user_stalls_spool:
  fixes db :: "'o PipelineDb"
  assumes "spool_ok env sp" and "su_events sp = r # rs" and "0 < batchSize" and "batchSize \<le> 1000"
    and "btrim (event_text (sub (sp_payload r) ''user'') ''user_id'') = []"
    and "registry_of app (sp_eventId r) (pd_registry db) = None"
    and "\<forall>k. iso_datetime env (uc_sentAt clock k)"
    and "\<forall>k. length (stringify env (batch_json (uc_sentAt clock k) (take batchSize (r # rs)))) \<le> io_maxBatchBytes DEFAULT_OPTIONS"
    and "validateEvent env DEFAULT_OPTIONS 0 (sp_payload r) (propertyDefinitions app (map sp_payload (take batchSize (r # rs))) db) = Inr v"
  shows "\<forall>k. flush env (api_server env cat DEFAULT_OPTIONS w app) clock batchSize k sp db 0 = Some (sp, db, Inl (RequestFailed 500))"
proof
  fix k
  obtain items where items: "take batchSize (r # rs) = r # items" using assms(3) by (cases batchSize) simp_all
  have row: "usageEventSchema env (sp_payload r)" "sp_eventId r = event_text (sp_payload r) ''event_id''"
    using assms(1,2) by (simp_all add: spool_ok_def)
  let ?body = "batch_json (uc_sentAt clock k) (r # items)"
  have envelope: "batchEnvelopeSchema env ?body"
    by (rule batch_envelope) (use row event_identity [OF row(1)] assms(7) in simp_all)
  have events: "array_of (member ?body ''events'') = sp_payload r # map sp_payload items" by (simp add: batch_json_def array_of_def)
  have size: "length (sp_payload r # map sp_payload items) \<le> io_maxBatchSize DEFAULT_OPTIONS"
    using arg_cong [OF items, of length] assms(4) by (simp add: DEFAULT_OPTIONS_def)
  have fits: "length (stringify env ?body) \<le> io_maxBatchBytes DEFAULT_OPTIONS" using assms(8) items by simp
  have "ingest env cat DEFAULT_OPTIONS (aw_persist w k) (\<lambda>_. id) ?body app db =
      (db, Inl (IngestFailure (db_error ''23514'' ''the row violates a column type or CHECK constraint'')))"
    by (rule blank_head_fails [OF fits envelope events size]) (use assms(5,6,9) row(2) items in simp_all)
  then have "api_server env cat DEFAULT_OPTIONS w app k ?body db = (db, Inl 500)" by (simp add: api_server_def http_status_def)
  then show "flush env (api_server env cat DEFAULT_OPTIONS w app) clock batchSize k sp db 0 = Some (sp, db, Inl (RequestFailed 500))"
    by (intro flush_stalls) (use assms(2,3) spool_rows [OF assms(1), of batchSize] items in simp_all)
qed

theorem blank_user_stalls_spool_witness:
  "\<forall>k. flush sample_env (api_server sample_env sample_catalog DEFAULT_OPTIONS sample_api ''app'') sample_clock 100 k
     (sample_spool '' '') (empty_pipeline sample_tables) 0 = Some (sample_spool '' '', empty_pipeline sample_tables, Inl (RequestFailed 500))"
proof (rule blank_user_stalls_spool [OF sample_spool_ok(3)])
  show "su_events (sample_spool '' '') = sample_spooled '' '' # []" by (simp add: sample_spool_def)
  show "validateEvent sample_env DEFAULT_OPTIONS 0 (sp_payload (sample_spooled '' ''))
      (propertyDefinitions ''app'' (map sp_payload (take 100 (sample_spooled '' '' # []))) (empty_pipeline sample_tables)) =
      Inr (sample_valid '' '' sample_usage)"
    by (simp add: sample_spooled_def propertyDefinitions_def empty_pipeline_def validateEvent_def sample_schemas validateEventProperties_def validateScope_def
        DEFAULT_OPTIONS_def canonicalJson_def canonicalPayloadHash_def sample_valid_def sample_sizes) (simp add: sample_env_def)
qed (simp_all add: sample_sizes DEFAULT_OPTIONS_def sample_spooled_def btrim_def empty_pipeline_def registry_of_def find_unique_def, simp add: sample_env_def)

text \<open>C36: The response schema ties the counts of an answer to its results, not the results to the batch.  Against a server
  that answers every batch with a well-formed response without results, the upload loop does not end.\<close>

theorem silent_answers_never_end:
  assumes "\<forall>k b d. \<exists>body. server k b d = (d, Inr body) \<and> batchIngestionResponseSchema env body \<and> array_of (member body ''results'') = []"
    and "spool_ok env sp" and "su_events sp \<noteq> []" and "0 < batchSize"
  shows "flush env server clock batchSize k sp d n = None"
proof (rule ccontr)
  assume "flush env server clock batchSize k sp d n \<noteq> None"
  then obtain y where y: "flush env server clock batchSize k sp d n = Some y" by blast
  have "list_all (\<lambda>r. usageEventSchema env (sp_payload r)) (su_events sp)"
    using spool_rows [OF assms(2), of "length (su_events sp)"] by simp
  from flush_spins [OF y assms(4,3) this] assms(1) show False by blast
qed

theorem silent_answers_never_end_witness:
  "flush sample_env (\<lambda>k b d. (d :: nat, Inr empty_answer)) sample_clock 100 0 (sample_spool ''u1'') 0 0 = None"
  by (rule silent_answers_never_end [OF _ sample_spool_ok(2)]) (simp_all add: empty_answer_read sample_spool_def)

end
