(* ===== verification/ReconciliationEngine.thy ===== *)
theory ReconciliationEngine
  imports Ingestion Rounding "HOL-Library.AList"
begin

text \<open>
  \<open>packages/reconciliation-engine/src\<close>: the comparison of the official aggregates of PostgreSQL with their projection in
  ClickHouse (\<open>reconciler.ts\<close>, \<open>metrics.ts\<close>), the plans of runs, replays and rebuilds (\<open>run-plan.ts\<close>,
  \<open>replay.ts\<close>, \<open>rebuild.ts\<close>), pseudonyms (\<open>privacy.ts\<close>) and the CSV export.

  A \<open>TypeError\<close> is its message (\<open>Inl\<close>).  A \<open>BigInt\<close> is an \<open>int\<close> and a \<open>Decimal\<close> the rational it denotes;
  subtraction rounds to the twenty significant digits of the library's default configuration.
\<close>

subsection \<open>Types\<close>

record ReconciliationDimensions =
  dm_applicationId :: string
  dm_bucketStart :: string
  dm_bucketSize :: string
  dm_virtualModel :: "string option"
  dm_modelId :: "string option"
  dm_requestModel :: "string option"
  dm_provider :: "string option"
  dm_userId :: "string option"

record ReconciliationMetrics =
  mt_eventCount :: string
  mt_inputTokens :: string
  mt_cachedInputTokens :: string
  mt_outputTokens :: string
  mt_providerCost :: string
  mt_aiuMicros :: string
  mt_unpricedCount :: string
  mt_unratedCount :: string

record ReconciliationSnapshotRow =
  sr_projectionId :: string
  sr_dimensions :: ReconciliationDimensions
  sr_metrics :: ReconciliationMetrics
  sr_duplicateProjectionCount :: "string option"
  sr_sampleEventIds :: "string list"
  sr_modelIdentityFingerprint :: "string option"
  sr_costVersionId :: "string option"
  sr_aiuVersionId :: "string option"
  sr_payloadHashConflict :: bool
  sr_officialDeltaPending :: bool
  sr_lateEventCount :: string
  sr_unprojectedAdjustmentCount :: string

datatype ReconciliationDiffType =
    CH_MISSING | PG_MISSING | DUPLICATE_PROJECTION | PAYLOAD_HASH_CONFLICT | USAGE_NORMALIZATION_MISMATCH
  | MODEL_IDENTITY_MISMATCH | PRICE_VERSION_MISMATCH | AIU_RATE_VERSION_MISMATCH | PROVISIONAL_OFFICIAL_DELTA_PENDING
  | LEDGER_PROJECTION_MISSING | LATE_EVENT | ADJUSTMENT_NOT_PROJECTED | WATERMARK_STALLED

datatype ReconciliationSeverity = Sev_info | Sev_warning | Sev_error | Sev_critical

text \<open>\<open>Partial<ReconciliationMetrics>\<close> is the list of its members.\<close>

type_synonym metric_values = "(string \<times> string) list"

record ReconciliationDiff =
  df_type :: ReconciliationDiffType
  df_severity :: ReconciliationSeverity
  df_dimensions :: "ReconciliationDimensions option"
  df_count :: string
  df_amount :: "string option"
  df_pgValues :: "ReconciliationMetrics option"
  df_chValues :: "ReconciliationMetrics option"
  df_deltaValues :: metric_values
  df_sampleEventIds :: "string list"
  df_explanation :: string

record ReconciliationTolerance =
  to_providerCost :: string
  to_aiuMicros :: string
  to_watermarkStallSeconds :: int

subsection \<open>Metrics\<close>

text \<open>The members in the order of the declaration, under their names.\<close>

definition metric_members :: "ReconciliationMetrics \<Rightarrow> metric_values" where
  "metric_members m =
     [(''eventCount'', mt_eventCount m), (''inputTokens'', mt_inputTokens m), (''cachedInputTokens'', mt_cachedInputTokens m),
      (''outputTokens'', mt_outputTokens m), (''providerCost'', mt_providerCost m), (''aiuMicros'', mt_aiuMicros m),
      (''unpricedCount'', mt_unpricedCount m), (''unratedCount'', mt_unratedCount m)]"

definition metric_at :: "ReconciliationMetrics \<Rightarrow> string \<Rightarrow> string" where
  "metric_at m k = (case map_of (metric_members m) k of None \<Rightarrow> [] | Some v \<Rightarrow> v)"

definition integerMetricKeys :: "string list" where
  "integerMetricKeys =
     [''eventCount'', ''inputTokens'', ''cachedInputTokens'', ''outputTokens'', ''aiuMicros'', ''unpricedCount'', ''unratedCount'']"

definition usageMetricKeys :: "string list" where
  "usageMetricKeys =
     [''eventCount'', ''inputTokens'', ''cachedInputTokens'', ''outputTokens'', ''unpricedCount'', ''unratedCount'']"

text \<open>\<open>0|[1-9][0-9]*\<close>\<close>

definition integer_text :: "string \<Rightarrow> bool" where
  "integer_text s \<longleftrightarrow> s = ''0'' \<or> (s \<noteq> [] \<and> list_all is_digit s \<and> hd s \<noteq> CHR ''0'')"

definition digits_value :: "string \<Rightarrow> nat" where
  "digits_value s = foldl (\<lambda>n c. 10 * n + (byte c - 48)) 0 s"

definition parseMetricInteger :: "string \<Rightarrow> string \<Rightarrow> string + int" where
  "parseMetricInteger v fld =
     (if integer_text v then Inr (int (digits_value v)) else Inl (fld @ '' must be a non-negative integer string''))"

text \<open>The part before the point and, if there is one, the part after it.\<close>

definition split_point :: "string \<Rightarrow> string \<times> string option" where
  "split_point s =
     (let a = takeWhile (\<lambda>c. c \<noteq> CHR ''.'') s; r = dropWhile (\<lambda>c. c \<noteq> CHR ''.'') s in
      (a, case r of [] \<Rightarrow> None | _ # b \<Rightarrow> Some b))"

definition cost_text :: "string \<Rightarrow> bool" where
  "cost_text s \<longleftrightarrow> (case split_point s of (a, b) \<Rightarrow>
     integer_text a \<and> (case b of None \<Rightarrow> True | Some f \<Rightarrow> f \<noteq> [] \<and> list_all is_digit f))"

definition cost_value :: "string \<Rightarrow> rat" where
  "cost_value s = (case split_point s of (a, b) \<Rightarrow>
     of_nat (digits_value a) + (case b of None \<Rightarrow> 0 | Some f \<Rightarrow> of_nat (digits_value f) / 10 ^ length f))"

definition parseCost :: "string \<Rightarrow> string \<Rightarrow> string + rat" where
  "parseCost v fld = (if cost_text v then Inr (cost_value v) else Inl (fld @ '' must be a non-negative decimal string''))"

fun validate_integers :: "ReconciliationMetrics \<Rightarrow> string list \<Rightarrow> string + unit" where
  "validate_integers m [] = Inr ()"
| "validate_integers m (k # ks) = bind_res (parseMetricInteger (metric_at m k) k) (\<lambda>_. validate_integers m ks)"

definition validateMetrics :: "ReconciliationMetrics \<Rightarrow> string + unit" where
  "validateMetrics m =
     bind_res (validate_integers m integerMetricKeys) (\<lambda>_.
     bind_res (parseCost (mt_providerCost m) ''providerCost'') (\<lambda>_. Inr ()))"

definition signedIntegerDelta :: "string \<Rightarrow> string \<Rightarrow> string + string" where
  "signedIntegerDelta l r =
     bind_res (parseMetricInteger l ''left'') (\<lambda>a. bind_res (parseMetricInteger r ''right'') (\<lambda>b. Inr (bigint_text (a - b))))"

text \<open>\<open>Decimal.minus\<close>, and \<open>toFixed(18)\<close>: eighteen decimal places, rounded half up.\<close>

definition decimal_minus :: "rat \<Rightarrow> rat \<Rightarrow> rat" where
  "decimal_minus x y = round_sig half_up 10 20 (x - y)"

definition pad_zeros :: "nat \<Rightarrow> string \<Rightarrow> string" where
  "pad_zeros n s = replicate (n - length s) CHR ''0'' @ s"

definition toFixed18 :: "rat \<Rightarrow> string" where
  "toFixed18 x =
     (let n = nat (half_up (\<bar>x\<bar> * 10 ^ 18)) in
      (if x < 0 then ''-'' else []) @ decimal_text (n div 10 ^ 18) @ ''.'' @ pad_zeros 18 (decimal_text (n mod 10 ^ 18)))"

definition signedCostDelta :: "string \<Rightarrow> string \<Rightarrow> string + string" where
  "signedCostDelta l r =
     bind_res (parseCost l ''left'') (\<lambda>a. bind_res (parseCost r ''right'') (\<lambda>b. Inr (toFixed18 (decimal_minus a b))))"

subsection \<open>The reconciler\<close>

definition severity :: "ReconciliationDiffType \<Rightarrow> ReconciliationSeverity" where
  "severity t = (case t of
     CH_MISSING \<Rightarrow> Sev_error | PG_MISSING \<Rightarrow> Sev_warning | DUPLICATE_PROJECTION \<Rightarrow> Sev_error
   | PAYLOAD_HASH_CONFLICT \<Rightarrow> Sev_critical | USAGE_NORMALIZATION_MISMATCH \<Rightarrow> Sev_error | MODEL_IDENTITY_MISMATCH \<Rightarrow> Sev_error
   | PRICE_VERSION_MISMATCH \<Rightarrow> Sev_error | AIU_RATE_VERSION_MISMATCH \<Rightarrow> Sev_error
   | PROVISIONAL_OFFICIAL_DELTA_PENDING \<Rightarrow> Sev_warning | LEDGER_PROJECTION_MISSING \<Rightarrow> Sev_critical | LATE_EVENT \<Rightarrow> Sev_info
   | ADJUSTMENT_NOT_PROJECTED \<Rightarrow> Sev_critical | WATERMARK_STALLED \<Rightarrow> Sev_critical)"

definition dimensionsKey :: "'e snapshot_env_scheme \<Rightarrow> ReconciliationDimensions \<Rightarrow> string" where
  "dimensionsKey env d = stringify env (JArr
     [JStr (dm_bucketSize d), JStr (dm_bucketStart d), JStr (dm_applicationId d), jopt (dm_virtualModel d), jopt (dm_modelId d),
      jopt (dm_requestModel d), jopt (dm_provider d), jopt (dm_userId d)])"

definition samples :: "string list list \<Rightarrow> string list" where
  "samples groups = take 100 (js_sort (remdups (concat groups)))"

definition countDelta :: "ReconciliationMetrics option \<Rightarrow> ReconciliationMetrics option \<Rightarrow> string + string" where
  "countDelta pg ch =
     bind_res (case pg of None \<Rightarrow> Inr 0 | Some m \<Rightarrow> parseMetricInteger (mt_eventCount m) ''pg.eventCount'') (\<lambda>l.
     bind_res (case ch of None \<Rightarrow> Inr 0 | Some m \<Rightarrow> parseMetricInteger (mt_eventCount m) ''ch.eventCount'') (\<lambda>r.
     Inr (bigint_text \<bar>l - r\<bar>)))"

definition diff ::
  "ReconciliationDiffType \<Rightarrow> ReconciliationDimensions option \<Rightarrow> ReconciliationSnapshotRow option \<Rightarrow> ReconciliationSnapshotRow option \<Rightarrow>
   metric_values \<Rightarrow> string option \<Rightarrow> string option \<Rightarrow> string \<Rightarrow> string + ReconciliationDiff" where
  "diff t dims pg ch deltaValues cnt amount explanation =
     bind_res (case cnt of Some c \<Rightarrow> Inr c | None \<Rightarrow> countDelta (map_option sr_metrics pg) (map_option sr_metrics ch)) (\<lambda>c.
     Inr \<lparr>df_type = t, df_severity = severity t, df_dimensions = dims, df_count = c, df_amount = amount,
          df_pgValues = map_option sr_metrics pg, df_chValues = map_option sr_metrics ch, df_deltaValues = deltaValues,
          df_sampleEventIds = samples [case pg of None \<Rightarrow> [] | Some r \<Rightarrow> sr_sampleEventIds r, case ch of None \<Rightarrow> [] | Some r \<Rightarrow> sr_sampleEventIds r],
          df_explanation = explanation\<rparr>)"

definition duplicates_of :: "ReconciliationSnapshotRow \<Rightarrow> string + int" where
  "duplicates_of r = parseMetricInteger (case sr_duplicateProjectionCount r of None \<Rightarrow> ''0'' | Some c \<Rightarrow> c) ''duplicateProjectionCount''"

fun group ::
  "'e ingest_env_scheme \<Rightarrow> ReconciliationSnapshotRow list \<Rightarrow> (string \<times> ReconciliationSnapshotRow list) list \<Rightarrow>
   string + (string \<times> ReconciliationSnapshotRow list) list" where
  "group env [] grouped = Inr grouped"
| "group env (row # rows) grouped =
     bind_res (validateMetrics (sr_metrics row)) (\<lambda>_.
     bind_res (duplicates_of row) (\<lambda>n.
     if n < 0 then Inl ''duplicateProjectionCount cannot be negative''
     else if \<not> date_parses env (dm_bucketStart (sr_dimensions row)) then Inl ''reconciliation bucketStart is invalid''
     else
       (let key = dimensionsKey env (sr_dimensions row) in
        group env rows (AList.update key ((case map_of grouped key of None \<Rightarrow> [] | Some rs \<Rightarrow> rs) @ [row]) grouped))))"

text \<open>\<open>output.push\<close> of an optional difference.\<close>

definition pushed :: "bool \<Rightarrow> (string + ReconciliationDiff) \<Rightarrow> string + ReconciliationDiff list" where
  "pushed c d = (if c then bind_res d (\<lambda>x. Inr [x]) else Inr [])"

definition append_res :: "'e + 'a list \<Rightarrow> 'e + 'a list \<Rightarrow> 'e + 'a list" where
  "append_res a b = bind_res a (\<lambda>xs. bind_res b (\<lambda>ys. Inr (xs @ ys)))"

fun usage_delta :: "ReconciliationMetrics \<Rightarrow> ReconciliationMetrics \<Rightarrow> string list \<Rightarrow> string + metric_values" where
  "usage_delta pg ch [] = Inr []"
| "usage_delta pg ch (k # ks) =
     (if metric_at pg k = metric_at ch k then usage_delta pg ch ks
      else bind_res (signedIntegerDelta (metric_at pg k) (metric_at ch k)) (\<lambda>d.
           bind_res (usage_delta pg ch ks) (\<lambda>ds. Inr ((k, d) # ds))))"

definition identity_diffs :: "ReconciliationSnapshotRow \<Rightarrow> ReconciliationSnapshotRow \<Rightarrow> string + ReconciliationDiff list" where
  "identity_diffs pg ch =
     (let one = (\<lambda>t e. diff t (Some (sr_dimensions pg)) (Some pg) (Some ch) [] (Some ''1'') None e) in
      append_res (pushed (sr_payloadHashConflict pg \<or> sr_payloadHashConflict ch)
        (one PAYLOAD_HASH_CONFLICT ''the same event id was observed with different canonical payload hashes''))
     (append_res (pushed (sr_modelIdentityFingerprint pg \<noteq> sr_modelIdentityFingerprint ch)
        (one MODEL_IDENTITY_MISMATCH ''model identity differs between official and projected data''))
     (append_res (pushed (sr_costVersionId pg \<noteq> sr_costVersionId ch)
        (one PRICE_VERSION_MISMATCH ''provider price version differs between official and projected data''))
      (pushed (sr_aiuVersionId pg \<noteq> sr_aiuVersionId ch)
        (one AIU_RATE_VERSION_MISMATCH ''AIU rate-card version differs between official and projected data'')))))"

definition usage_diffs :: "ReconciliationSnapshotRow \<Rightarrow> ReconciliationSnapshotRow \<Rightarrow> string + ReconciliationDiff list" where
  "usage_diffs pg ch =
     bind_res (usage_delta (sr_metrics pg) (sr_metrics ch) usageMetricKeys) (\<lambda>delta.
     pushed (delta \<noteq> []) (diff USAGE_NORMALIZATION_MISMATCH (Some (sr_dimensions pg)) (Some pg) (Some ch) delta None None
       ''normalized counts or mutually-exclusive usage buckets differ''))"

text \<open>The tolerance comes from \<open>RECON_COST_TOLERANCE\<close>, whose schema in \<open>packages/shared/src/runtime-environment.ts\<close> has the
  pattern of \<open>cost_text\<close>.  Of such a text \<open>new Decimal\<close> is \<open>cost_value\<close>; any other text is treated as invalid.\<close>

definition cost_diffs ::
  "ReconciliationTolerance \<Rightarrow> ReconciliationSnapshotRow \<Rightarrow> ReconciliationSnapshotRow \<Rightarrow> string + ReconciliationDiff list" where
  "cost_diffs tol pg ch =
     bind_res (parseCost (mt_providerCost (sr_metrics pg)) ''pg.providerCost'') (\<lambda>l.
     bind_res (parseCost (mt_providerCost (sr_metrics ch)) ''ch.providerCost'') (\<lambda>r.
     if \<not> cost_text (to_providerCost tol) then Inl ''providerCost tolerance is invalid''
     else
       (let costDelta = decimal_minus l r; pend = sr_officialDeltaPending pg \<or> sr_officialDeltaPending ch in
        pushed (cost_value (to_providerCost tol) < \<bar>costDelta\<bar>)
          (bind_res (signedCostDelta (mt_providerCost (sr_metrics pg)) (mt_providerCost (sr_metrics ch))) (\<lambda>d.
           diff (if pend then PROVISIONAL_OFFICIAL_DELTA_PENDING else LEDGER_PROJECTION_MISSING) (Some (sr_dimensions pg)) (Some pg) (Some ch)
             [(''providerCost'', d)] None (Some (toFixed18 \<bar>costDelta\<bar>))
             (if pend then ''official provider-cost delta is queued but not yet reflected in ClickHouse''
              else ''official provider-cost ledger total is not reflected in ClickHouse''))))))"

definition aiu_diffs ::
  "ReconciliationTolerance \<Rightarrow> ReconciliationSnapshotRow \<Rightarrow> ReconciliationSnapshotRow \<Rightarrow> string + ReconciliationDiff list" where
  "aiu_diffs tol pg ch =
     bind_res (parseMetricInteger (mt_aiuMicros (sr_metrics pg)) ''pg.aiuMicros'') (\<lambda>l.
     bind_res (parseMetricInteger (mt_aiuMicros (sr_metrics ch)) ''ch.aiuMicros'') (\<lambda>r.
     bind_res (parseMetricInteger (to_aiuMicros tol) ''aiuMicros tolerance'') (\<lambda>t.
     pushed (t < \<bar>l - r\<bar>)
       (diff LEDGER_PROJECTION_MISSING (Some (sr_dimensions pg)) (Some pg) (Some ch) [(''aiuMicros'', bigint_text (l - r))] None None
         ''official AIU ledger total is not reflected in ClickHouse''))))"

definition late_diffs :: "ReconciliationSnapshotRow \<Rightarrow> ReconciliationSnapshotRow \<Rightarrow> string + ReconciliationDiff list" where
  "late_diffs pg ch =
     bind_res (parseMetricInteger (sr_lateEventCount pg) ''lateEventCount'') (\<lambda>n.
     pushed (0 < n) (diff LATE_EVENT (Some (sr_dimensions pg)) (Some pg) (Some ch) [] (Some (bigint_text n)) None
       ''events arrived after the aggregate watermark and require deterministic replay''))"

definition adjustment_diffs :: "ReconciliationSnapshotRow \<Rightarrow> ReconciliationSnapshotRow \<Rightarrow> string + ReconciliationDiff list" where
  "adjustment_diffs pg ch =
     bind_res (parseMetricInteger (sr_unprojectedAdjustmentCount pg) ''unprojectedAdjustmentCount'') (\<lambda>n.
     pushed (0 < n) (diff ADJUSTMENT_NOT_PROJECTED (Some (sr_dimensions pg)) (Some pg) (Some ch) [] (Some (bigint_text n)) None
       ''append-only official corrections are missing from the projection''))"

definition pairedDiffs ::
  "ReconciliationSnapshotRow \<Rightarrow> ReconciliationSnapshotRow \<Rightarrow> ReconciliationTolerance \<Rightarrow> string + ReconciliationDiff list" where
  "pairedDiffs pg ch tol =
     append_res (identity_diffs pg ch) (append_res (usage_diffs pg ch) (append_res (cost_diffs tol pg ch)
       (append_res (aiu_diffs tol pg ch) (append_res (late_diffs pg ch) (adjustment_diffs pg ch)))))"

fun sum_duplicates :: "int \<Rightarrow> ReconciliationSnapshotRow list \<Rightarrow> string + int" where
  "sum_duplicates n [] = Inr n"
| "sum_duplicates n (r # rs) = bind_res (duplicates_of r) (\<lambda>k. sum_duplicates (n + k) rs)"

definition head_row :: "ReconciliationSnapshotRow list \<Rightarrow> ReconciliationSnapshotRow option" where
  "head_row rs = (case rs of [] \<Rightarrow> None | r # _ \<Rightarrow> Some r)"

text \<open>The body of the loop over the keys.\<close>

definition key_diffs ::
  "ReconciliationTolerance \<Rightarrow> ReconciliationSnapshotRow list \<Rightarrow> ReconciliationSnapshotRow list \<Rightarrow> string + ReconciliationDiff list" where
  "key_diffs tol pgRows chRows =
     (let dims = (case head_row pgRows of Some r \<Rightarrow> Some (sr_dimensions r) | None \<Rightarrow> map_option sr_dimensions (head_row chRows)) in
      bind_res (sum_duplicates (int ((length pgRows - 1) + (length chRows - 1))) (pgRows @ chRows)) (\<lambda>n.
      append_res
        (pushed (0 < n) (diff DUPLICATE_PROJECTION dims (head_row pgRows) (head_row chRows) [] (Some (bigint_text n)) None
          ''duplicate physical projection rows or aggregate rows exist for the canonical dimension key''))
        (case (pgRows, chRows) of
           ([], _) \<Rightarrow> pushed True (diff PG_MISSING dims None (head_row chRows) [] None None
             ''ClickHouse projection has no corresponding PostgreSQL official aggregate'')
         | (p # _, []) \<Rightarrow> pushed True (diff CH_MISSING dims (Some p) None [] None None
             ''PostgreSQL official aggregate has not been projected to ClickHouse'')
         | (p # _, c # _) \<Rightarrow> pairedDiffs p c tol)))"

fun concat_res :: "('e + 'a list) list \<Rightarrow> 'e + 'a list" where
  "concat_res [] = Inr []"
| "concat_res (x # xs) = append_res x (concat_res xs)"

record reconciliation_watermark =
  wm_pgEventTime :: string
  wm_chEventTime :: string
  wm_chLastSuccessAt :: string
  wm_now :: string

definition watermark_diffs ::
  "'e ingest_env_scheme \<Rightarrow> ReconciliationTolerance \<Rightarrow> reconciliation_watermark option \<Rightarrow> string + ReconciliationDiff list" where
  "watermark_diffs env tol wm = (case wm of
     None \<Rightarrow> Inr []
   | Some m \<Rightarrow>
       if \<not> list_all (date_parses env) [wm_pgEventTime m, wm_chEventTime m, wm_chLastSuccessAt m, wm_now m]
       then Inl ''watermark timestamps are invalid''
       else pushed (date_ms env (wm_chEventTime m) < date_ms env (wm_pgEventTime m) \<and>
                    to_watermarkStallSeconds tol * 1000 < date_ms env (wm_now m) - date_ms env (wm_chLastSuccessAt m))
              (diff WATERMARK_STALLED None None None [] (Some ''1'') None
                ''ClickHouse watermark is behind PostgreSQL and has not advanced within the configured interval''))"

definition rows_at :: "(string \<times> ReconciliationSnapshotRow list) list \<Rightarrow> string \<Rightarrow> ReconciliationSnapshotRow list" where
  "rows_at m k = (case map_of m k of None \<Rightarrow> [] | Some rs \<Rightarrow> rs)"

definition reconcileSnapshots ::
  "'e ingest_env_scheme \<Rightarrow> ReconciliationSnapshotRow list \<Rightarrow> ReconciliationSnapshotRow list \<Rightarrow> ReconciliationTolerance \<Rightarrow>
   reconciliation_watermark option \<Rightarrow> string + ReconciliationDiff list" where
  "reconcileSnapshots env pgRows chRows tol wm =
     bind_res (group env pgRows []) (\<lambda>pg.
     bind_res (group env chRows []) (\<lambda>ch.
     append_res
       (concat_res (map (\<lambda>key. key_diffs tol (rows_at pg key) (rows_at ch key)) (js_sort (remdups (map fst pg @ map fst ch)))))
       (watermark_diffs env tol wm)))"

subsection \<open>Pseudonyms\<close>

text \<open>\<open>hmac\<close> is the hexadecimal HMAC-SHA-256 of a text under a key.\<close>

definition pseudonymizeReconciliationUser :: "(string \<Rightarrow> string \<Rightarrow> string) \<Rightarrow> string \<Rightarrow> string \<Rightarrow> string + string" where
  "pseudonymizeReconciliationUser hmac userId secret =
     (if length secret < 32 then Inl ''reconciliation user HMAC secret must be at least 32 bytes''
      else if userId = [] then Inl ''userId is required''
      else Inr (''user_hmac:'' @ hmac secret userId))"

definition redactReconciliationDimensions ::
  "(string \<Rightarrow> string \<Rightarrow> string) \<Rightarrow> string \<Rightarrow> ReconciliationDimensions \<Rightarrow> string + ReconciliationDimensions" where
  "redactReconciliationDimensions hmac secret d = (case dm_userId d of
     None \<Rightarrow> Inr d
   | Some u \<Rightarrow> bind_res (pseudonymizeReconciliationUser hmac u secret) (\<lambda>p. Inr (d\<lparr>dm_userId := Some p\<rparr>)))"

subsection \<open>Plans\<close>

record ReconciliationRunPlan =
  pl_applicationId :: string
  pl_runType :: string
  pl_rangeStart :: string
  pl_rangeEnd :: string
  pl_virtualModel :: "string option"
  pl_modelId :: "string option"
  pl_userId :: "string option"
  pl_asynchronous :: bool
  pl_expectedPgWatermark :: "string option"
  pl_expectedChWatermark :: "string option"

definition parse_time :: "'e ingest_env_scheme \<Rightarrow> string \<Rightarrow> string \<Rightarrow> string + int" where
  "parse_time env v fld = (if date_parses env v then Inr (date_ms env v) else Inl (fld @ '' is invalid''))"

definition planReconciliationRun ::
  "'e ingest_env_scheme \<Rightarrow> string \<Rightarrow> string \<Rightarrow> string \<Rightarrow> string \<Rightarrow> string option \<Rightarrow> string option \<Rightarrow> string option \<Rightarrow>
   string option \<Rightarrow> string option \<Rightarrow> string + ReconciliationRunPlan" where
  "planReconciliationRun env app runType rangeStart rangeEnd virtualModel modelId userId pgWatermark chWatermark =
     bind_res (parse_time env rangeStart ''rangeStart'') (\<lambda>s.
     bind_res (parse_time env rangeEnd ''rangeEnd'') (\<lambda>e.
     if e \<le> s then Inl ''reconciliation rangeEnd must follow rangeStart''
     else if runType = ''hourly'' \<and> e - s \<noteq> 3600000 then Inl ''hourly reconciliation must cover exactly one hour''
     else if runType = ''daily'' \<and> e - s \<noteq> 86400000 then Inl ''daily reconciliation must cover exactly one UTC day''
     else if 366 * 86400000 < e - s then Inl ''one reconciliation run cannot exceed 366 days''
     else if js_trim app = [] then Inl ''applicationId is required''
     else Inr \<lparr>pl_applicationId = app, pl_runType = runType, pl_rangeStart = toISOString env s, pl_rangeEnd = toISOString env e,
            pl_virtualModel = virtualModel, pl_modelId = modelId, pl_userId = userId,
            pl_asynchronous = (runType \<noteq> ''manual'' \<or> 3600000 < e - s),
            pl_expectedPgWatermark = pgWatermark, pl_expectedChWatermark = chWatermark\<rparr>))"

record replay_request =
  rq_replayType :: string
  rq_rangeStart :: string
  rq_rangeEnd :: string
  rq_dryRun :: "bool option"
  rq_reason :: "string option"
  rq_requestedBy :: "string option"
  rq_existingProviderCostLedgerEffects :: "bool option"
  rq_existingAiuLedgerEffects :: "bool option"
  rq_wouldCreateAiuLedger :: "bool option"
  rq_aiuEnabledIntervals :: "(string \<times> string option) list option"

record replay_plan =
  rl_replayType :: string
  rl_rangeStart :: string
  rl_rangeEnd :: string
  rl_dryRun :: bool
  rl_reason :: "string option"
  rl_requestedBy :: "string option"
  rl_providerCostCorrection :: string
  rl_aiuCorrection :: string
  rl_historicalAiuChargeAllowed :: bool

fun coveredByIntervals :: "'e ingest_env_scheme \<Rightarrow> int \<Rightarrow> int \<Rightarrow> (string \<times> string option) list \<Rightarrow> string + bool" where
  "coveredByIntervals env rangeStart rangeEnd [] = Inr False"
| "coveredByIntervals env rangeStart rangeEnd ((a, b) # rest) =
     bind_res (parse_time env a ''AIU enabled interval start'') (\<lambda>s.
     bind_res (case b of None \<Rightarrow> Inr 8640000000000000 | Some t \<Rightarrow> parse_time env t ''AIU enabled interval end'') (\<lambda>e.
     if s \<le> rangeStart \<and> rangeEnd \<le> e then Inr True else coveredByIntervals env rangeStart rangeEnd rest))"

definition planReplay :: "'e ingest_env_scheme \<Rightarrow> replay_request \<Rightarrow> string + replay_plan" where
  "planReplay env q =
     bind_res (parse_time env (rq_rangeStart q) ''rangeStart'') (\<lambda>s.
     bind_res (parse_time env (rq_rangeEnd q) ''rangeEnd'') (\<lambda>e.
     let dryRun = (case rq_dryRun q of None \<Rightarrow> True | Some b \<Rightarrow> b) in
     if e \<le> s then Inl ''replay rangeEnd must follow rangeStart''
     else if \<not> dryRun \<and> (case rq_reason q of None \<Rightarrow> True | Some r \<Rightarrow> utf16_length (js_trim r) < 5 \<or> 500 < utf16_length r)
     then Inl ''committed replay requires a reason between 5 and 500 characters''
     else if \<not> dryRun \<and> (case rq_requestedBy q of None \<Rightarrow> True | Some a \<Rightarrow> js_trim a = [])
     then Inl ''committed replay requires an audit actor''
     else
       bind_res (coveredByIntervals env s e (case rq_aiuEnabledIntervals q of None \<Rightarrow> [] | Some xs \<Rightarrow> xs)) (\<lambda>covered.
       if rq_wouldCreateAiuLedger q = Some True \<and> \<not> covered
       then Inl ''ordinary replay cannot charge historical intervals where AIU was not enabled''
       else Inr \<lparr>rl_replayType = rq_replayType q, rl_rangeStart = toISOString env s, rl_rangeEnd = toISOString env e, rl_dryRun = dryRun,
              rl_reason = (if dryRun then None else map_option js_trim (rq_reason q)),
              rl_requestedBy = (if dryRun then None else rq_requestedBy q),
              rl_providerCostCorrection =
                (if rq_replayType q = ''rerun_provider_cost'' \<and> rq_existingProviderCostLedgerEffects q = Some True
                 then ''replacement_and_reversal'' else ''none''),
              rl_aiuCorrection =
                (if rq_replayType q = ''rerun_aiu_observe'' \<and> rq_existingAiuLedgerEffects q = Some True then ''ledger_adjustment'' else ''none''),
              rl_historicalAiuChargeAllowed = (rq_wouldCreateAiuLedger q = Some True \<and> covered)\<rparr>)))"

definition FRESH_REBUILD_STEPS :: "string list" where
  "FRESH_REBUILD_STEPS = [''clear_isolated_database'', ''create_current_schema'', ''replay_postgresql_outbox'', ''verify_current_projection'']"

record FreshClickHouseRebuildPlan =
  fr_rebuildId :: string
  fr_database :: string
  fr_steps :: "string list"

definition word_char :: "char \<Rightarrow> bool" where
  "word_char c \<longleftrightarrow> lower_alnum c \<or> upper_letter c \<or> c = CHR ''_''"

definition planFreshClickHouseRebuild :: "string \<Rightarrow> string \<Rightarrow> string + FreshClickHouseRebuildPlan" where
  "planFreshClickHouseRebuild rebuildId database =
     (if \<not> (rebuildId \<noteq> [] \<and> length rebuildId \<le> 120 \<and> list_all (\<lambda>c. word_char c \<or> c = CHR ''-'') rebuildId)
      then Inl ''rebuildId is invalid''
      else if \<not> (database \<noteq> [] \<and> length database \<le> 127 \<and> lower_letter (hd database) \<and>
                 list_all (\<lambda>c. lower_alnum c \<or> c = CHR ''_'') database)
      then Inl ''database is not a safe ClickHouse identifier''
      else Inr \<lparr>fr_rebuildId = rebuildId, fr_database = database, fr_steps = FRESH_REBUILD_STEPS\<rparr>)"

subsection \<open>CSV\<close>

text \<open>A cell is absent, a text, or a document that is printed.\<close>

datatype cell = Absent | Text string | Document json

definition cell_text :: "'e snapshot_env_scheme \<Rightarrow> cell \<Rightarrow> string" where
  "cell_text env c = (case c of Absent \<Rightarrow> [] | Text s \<Rightarrow> s | Document j \<Rightarrow> stringify env j)"

definition quote_char :: char where
  "quote_char = CHR 34"

definition csv :: "'e snapshot_env_scheme \<Rightarrow> cell \<Rightarrow> string" where
  "csv env c =
     (let t = cell_text env c in
      if list_ex (\<lambda>x. x \<in> {quote_char, CHR '','', CHR 13, CHR 10}) t
      then quote_char # concat (map (\<lambda>x. if x = quote_char then [quote_char, quote_char] else [x]) t) @ [quote_char]
      else t)"

definition csv_header :: "string list" where
  "csv_header = [''type'', ''severity'', ''bucket_start'', ''bucket_size'', ''count'', ''amount'', ''delta_values'', ''sample_event_ids'', ''explanation'']"

definition diff_type_text :: "ReconciliationDiffType \<Rightarrow> string" where
  "diff_type_text t = (case t of
     CH_MISSING \<Rightarrow> ''CH_MISSING'' | PG_MISSING \<Rightarrow> ''PG_MISSING'' | DUPLICATE_PROJECTION \<Rightarrow> ''DUPLICATE_PROJECTION''
   | PAYLOAD_HASH_CONFLICT \<Rightarrow> ''PAYLOAD_HASH_CONFLICT'' | USAGE_NORMALIZATION_MISMATCH \<Rightarrow> ''USAGE_NORMALIZATION_MISMATCH''
   | MODEL_IDENTITY_MISMATCH \<Rightarrow> ''MODEL_IDENTITY_MISMATCH'' | PRICE_VERSION_MISMATCH \<Rightarrow> ''PRICE_VERSION_MISMATCH''
   | AIU_RATE_VERSION_MISMATCH \<Rightarrow> ''AIU_RATE_VERSION_MISMATCH'' | PROVISIONAL_OFFICIAL_DELTA_PENDING \<Rightarrow> ''PROVISIONAL_OFFICIAL_DELTA_PENDING''
   | LEDGER_PROJECTION_MISSING \<Rightarrow> ''LEDGER_PROJECTION_MISSING'' | LATE_EVENT \<Rightarrow> ''LATE_EVENT''
   | ADJUSTMENT_NOT_PROJECTED \<Rightarrow> ''ADJUSTMENT_NOT_PROJECTED'' | WATERMARK_STALLED \<Rightarrow> ''WATERMARK_STALLED'')"

definition severity_text :: "ReconciliationSeverity \<Rightarrow> string" where
  "severity_text s = (case s of Sev_info \<Rightarrow> ''info'' | Sev_warning \<Rightarrow> ''warning'' | Sev_error \<Rightarrow> ''error'' | Sev_critical \<Rightarrow> ''critical'')"

definition text_cell :: "string option \<Rightarrow> cell" where
  "text_cell v = (case v of None \<Rightarrow> Absent | Some s \<Rightarrow> Text s)"

definition diff_cells :: "ReconciliationDiff \<Rightarrow> cell list" where
  "diff_cells d =
     [Text (diff_type_text (df_type d)), Text (severity_text (df_severity d)), text_cell (map_option dm_bucketStart (df_dimensions d)),
      text_cell (map_option dm_bucketSize (df_dimensions d)), Text (df_count d), text_cell (df_amount d),
      Document (JObj (map (\<lambda>(k, v). (k, JStr v)) (df_deltaValues d))), Document (JArr (map JStr (df_sampleEventIds d))),
      Text (df_explanation d)]"

definition csv_lines :: "'e snapshot_env_scheme \<Rightarrow> cell list list \<Rightarrow> string" where
  "csv_lines env rows = join_with [CHR 10] (map (\<lambda>row. join_with '','' (map (csv env) row)) rows) @ [CHR 10]"

definition exportReconciliationDiffsCsv :: "'e snapshot_env_scheme \<Rightarrow> ReconciliationDiff list \<Rightarrow> string" where
  "exportReconciliationDiffsCsv env ds = csv_lines env (map Text csv_header # map diff_cells ds)"

end
