(* ===== verification/ReconciliationRuns.thy ===== *)
theory ReconciliationRuns
  imports ReconciliationEngine ReplayOperations
begin

text \<open>
  The runs of reconciliation: the rows the snapshot source builds (\<open>apps/worker/src/reconciliation/snapshot-source.ts\<close>),
  the repository (\<open>prisma-repository.ts\<close>), the runner (\<open>runner.ts\<close>), the schedule (\<open>schedule.ts\<close>, \<open>worker.ts\<close>) and
  the service of the console (\<open>apps/api/src/reconciliation\<close>).

  The tables of runs and differences, the audit log and the job queue form one state.  The SQL that aggregates the two
  stores is a parameter of the runner; the texts it yields for numbers are built here.
\<close>

subsection \<open>Snapshot rows\<close>

definition nullableText :: "string option \<Rightarrow> string option" where
  "nullableText v = (case v of None \<Rightarrow> None | Some s \<Rightarrow> if s = [] then None else Some s)"

text \<open>The text format of ClickHouse for an instant: a date, a blank, a time and up to nine decimals.\<close>

definition clickhouse_pattern :: "string \<Rightarrow> bool" where
  "clickhouse_pattern s \<longleftrightarrow>
     19 \<le> length s \<and> list_all (\<lambda>i. is_digit (s ! i)) [0, 1, 2, 3, 5, 6, 8, 9, 11, 12, 14, 15, 17, 18] \<and>
     s ! 4 = CHR ''-'' \<and> s ! 7 = CHR ''-'' \<and> s ! 10 = CHR '' '' \<and> s ! 13 = CHR '':'' \<and> s ! 16 = CHR '':'' \<and>
     (let f = drop 19 s in f = [] \<or> (hd f = CHR ''.'' \<and> 2 \<le> length f \<and> length f \<le> 10 \<and> list_all is_digit (tl f)))"

definition clickHouseUtcInstant :: "'e ingest_env_scheme \<Rightarrow> string \<Rightarrow> string + string" where
  "clickHouseUtcInstant env s =
     (let t = (if clickhouse_pattern s then s[10 := CHR ''T''] @ ''Z'' else s) in
      if date_parses env t then Inr (toISOString env (date_ms env t)) else Inl ''Invalid time value'')"

definition identityFingerprint :: "'e snapshot_env_scheme \<Rightarrow> ReconciliationDimensions \<Rightarrow> string" where
  "identityFingerprint env d = ''sha256:'' @ sha256hex env (stringify env (JArr
     [JStr (dm_applicationId d), jopt (dm_virtualModel d), jopt (dm_modelId d), jopt (dm_requestModel d), jopt (dm_provider d)]))"

definition projectionId :: "'e snapshot_env_scheme \<Rightarrow> ReconciliationDimensions \<Rightarrow> string" where
  "projectionId env d = ''reconciliation:'' @ sha256hex env (stringify env (JObj
     [(''applicationId'', JStr (dm_applicationId d)), (''bucketStart'', JStr (dm_bucketStart d)), (''bucketSize'', JStr (dm_bucketSize d)),
      (''virtualModel'', jopt (dm_virtualModel d)), (''modelId'', jopt (dm_modelId d)), (''requestModel'', jopt (dm_requestModel d)),
      (''provider'', jopt (dm_provider d)), (''userId'', jopt (dm_userId d))]))"

text \<open>A row of the PostgreSQL query.  \<open>String\<close> of its bucket start is given; numeric columns are rationals.\<close>

record SnapshotDatabaseRow =
  sd_application_id :: string
  sd_bucket_start :: string
  sd_virtual_model :: "string option"
  sd_model_id :: "string option"
  sd_request_model :: "string option"
  sd_provider :: "string option"
  sd_user_id :: "string option"
  sd_event_count :: int
  sd_input_tokens :: rat
  sd_cached_input_tokens :: rat
  sd_output_tokens :: rat
  sd_provider_cost :: rat
  sd_aiu_micros :: int
  sd_unpriced_count :: int
  sd_unrated_count :: int
  sd_sample_event_ids :: "string list"
  sd_cost_version_id :: "string option"
  sd_aiu_version_id :: "string option"
  sd_official_delta_pending :: bool
  sd_unprojected_adjustment_count :: int

definition snapshot_dimensions :: "'e ingest_env_scheme \<Rightarrow> string \<Rightarrow> 'r SnapshotDatabaseRow_scheme \<Rightarrow> string + ReconciliationDimensions" where
  "snapshot_dimensions env bucketSize row =
     bind_res (clickHouseUtcInstant env (sd_bucket_start row)) (\<lambda>start.
     Inr \<lparr>dm_applicationId = sd_application_id row, dm_bucketStart = start, dm_bucketSize = bucketSize,
          dm_virtualModel = nullableText (sd_virtual_model row), dm_modelId = nullableText (sd_model_id row),
          dm_requestModel = nullableText (sd_request_model row), dm_provider = nullableText (sd_provider row),
          dm_userId = nullableText (sd_user_id row)\<rparr>)"

text \<open>\<open>decimalString\<close> is \<open>String\<close> of a \<open>Decimal\<close>.\<close>

definition snapshot_metrics :: "(rat \<Rightarrow> string) \<Rightarrow> 'r SnapshotDatabaseRow_scheme \<Rightarrow> ReconciliationMetrics" where
  "snapshot_metrics decimalString row =
     \<lparr>mt_eventCount = bigint_text (sd_event_count row), mt_inputTokens = decimalString (sd_input_tokens row),
      mt_cachedInputTokens = decimalString (sd_cached_input_tokens row), mt_outputTokens = decimalString (sd_output_tokens row),
      mt_providerCost = decimalString (sd_provider_cost row), mt_aiuMicros = bigint_text (sd_aiu_micros row),
      mt_unpricedCount = bigint_text (sd_unpriced_count row), mt_unratedCount = bigint_text (sd_unrated_count row)\<rparr>"

definition postgresSnapshot ::
  "'e ingest_env_scheme \<Rightarrow> (rat \<Rightarrow> string) \<Rightarrow> string \<Rightarrow> 'r SnapshotDatabaseRow_scheme \<Rightarrow> string + ReconciliationSnapshotRow" where
  "postgresSnapshot env decimalString bucketSize row =
     bind_res (snapshot_dimensions env bucketSize row) (\<lambda>identity.
     Inr \<lparr>sr_projectionId = projectionId env identity, sr_dimensions = identity, sr_metrics = snapshot_metrics decimalString row,
          sr_duplicateProjectionCount = Some ''0'', sr_sampleEventIds = sd_sample_event_ids row,
          sr_modelIdentityFingerprint = Some (identityFingerprint env identity), sr_costVersionId = sd_cost_version_id row,
          sr_aiuVersionId = sd_aiu_version_id row, sr_payloadHashConflict = False,
          sr_officialDeltaPending = sd_official_delta_pending row, sr_lateEventCount = ''0'',
          sr_unprojectedAdjustmentCount = bigint_text (sd_unprojected_adjustment_count row)\<rparr>)"

fun map_snapshot :: "('a \<Rightarrow> 'e + 'b) \<Rightarrow> 'a list \<Rightarrow> 'e + 'b list" where
  "map_snapshot f [] = Inr []"
| "map_snapshot f (x # xs) = bind_res (f x) (\<lambda>y. bind_res (map_snapshot f xs) (\<lambda>ys. Inr (y # ys)))"

definition bucket_size :: "ReconciliationRunPlan \<Rightarrow> string" where
  "bucket_size plan = (if pl_runType plan = ''daily'' then ''day'' else ''hour'')"

definition loadPostgres ::
  "'e ingest_env_scheme \<Rightarrow> (rat \<Rightarrow> string) \<Rightarrow> (ReconciliationRunPlan \<Rightarrow> SnapshotDatabaseRow list) \<Rightarrow> ReconciliationRunPlan \<Rightarrow>
   string + ReconciliationSnapshotRow list" where
  "loadPostgres env decimalString query plan = map_snapshot (postgresSnapshot env decimalString (bucket_size plan)) (query plan)"

subsection \<open>The tables\<close>

record RunRow = ReconciliationRun +
  rr_idempotencyKey :: "string option"
  rr_runType :: string
  rr_rangeStart :: int
  rr_rangeEnd :: int
  rr_pgWatermark :: "int option"
  rr_chWatermark :: "int option"
  rr_summaryJson :: json
  rr_startedBy :: "string option"

datatype DiffStatus = Diff_open | Diff_investigating | Diff_resolved | Diff_ignored

record PersistedDiff =
  pf_diffType :: ReconciliationDiffType
  pf_severity :: string
  pf_dimensionsJson :: "json option"
  pf_pgValuesJson :: "json option"
  pf_chValuesJson :: "json option"
  pf_deltaValuesJson :: json
  pf_sampleEventIdsJson :: json
  pf_differenceCount :: int
  pf_amount :: "rat option"
  pf_explanation :: string

record DiffRow = PersistedDiff +
  dr_id :: string
  dr_runId :: string
  dr_status :: DiffStatus
  dr_resolution :: "string option"
  dr_resolvedBy :: "string option"
  dr_resolvedAt :: "int option"
  dr_createdAt :: int

record AuditEntry =
  au_action :: string
  au_objectId :: string
  au_reason :: string

record QueuedJob =
  qj_jobId :: string
  qj_kind :: string
  qj_runId :: string

record ReconDb =
  rc_runs :: "RunRow list"
  rc_diffs :: "DiffRow list"
  rc_audit :: "AuditEntry list"
  rc_jobs :: "QueuedJob list"

subsection \<open>Stored documents\<close>

definition persistedDimensions :: "ReconciliationDimensions \<Rightarrow> json" where
  "persistedDimensions d = JObj
     [(''application_id'', JStr (dm_applicationId d)), (''granularity'', JStr (dm_bucketSize d)), (''time_bucket'', JStr (dm_bucketStart d)),
      (''virtual_model'', jopt (dm_virtualModel d)), (''model_id'', jopt (dm_modelId d)), (''request_model'', jopt (dm_requestModel d)),
      (''provider'', jopt (dm_provider d)), (''user_id'', jopt (dm_userId d))]"

definition restoredDimensions :: "json \<Rightarrow> ReconciliationDimensions" where
  "restoredDimensions j =
     \<lparr>dm_applicationId = event_text j ''application_id'', dm_bucketStart = event_text j ''time_bucket'', dm_bucketSize = event_text j ''granularity'',
      dm_virtualModel = string_member j ''virtual_model'', dm_modelId = string_member j ''model_id'',
      dm_requestModel = string_member j ''request_model'', dm_provider = string_member j ''provider'', dm_userId = string_member j ''user_id''\<rparr>"

definition metric_names :: "(string \<times> string) list" where
  "metric_names =
     [(''eventCount'', ''event_count''), (''inputTokens'', ''input_tokens''), (''cachedInputTokens'', ''cached_input_tokens''),
      (''outputTokens'', ''output_tokens''), (''providerCost'', ''provider_cost''), (''aiuMicros'', ''aiu_micros''),
      (''unpricedCount'', ''unpriced_count''), (''unratedCount'', ''unrated_count'')]"

definition persistedMetrics :: "metric_values \<Rightarrow> json" where
  "persistedMetrics vs = JObj (List.maps (\<lambda>(k, n). case map_of vs k of None \<Rightarrow> [] | Some v \<Rightarrow> [(n, JStr v)]) metric_names)"

definition restoredMetrics :: "json \<Rightarrow> metric_values" where
  "restoredMetrics j = List.maps (\<lambda>(k, n). case string_member j n of None \<Rightarrow> [] | Some v \<Rightarrow> [(k, v)]) metric_names"

text \<open>The cast of a partial document to \<open>ReconciliationMetrics\<close>; an absent member reads as no text.\<close>

definition metrics_of :: "metric_values \<Rightarrow> ReconciliationMetrics" where
  "metrics_of vs =
     (let at_key = (\<lambda>k. case map_of vs k of None \<Rightarrow> [] | Some v \<Rightarrow> v) in
      \<lparr>mt_eventCount = at_key ''eventCount'', mt_inputTokens = at_key ''inputTokens'', mt_cachedInputTokens = at_key ''cachedInputTokens'',
       mt_outputTokens = at_key ''outputTokens'', mt_providerCost = at_key ''providerCost'', mt_aiuMicros = at_key ''aiuMicros'',
       mt_unpricedCount = at_key ''unpricedCount'', mt_unratedCount = at_key ''unratedCount''\<rparr>)"

definition toPersistedDiff :: "ReconciliationDiff \<Rightarrow> string + PersistedDiff" where
  "toPersistedDiff d =
     (if \<not> integer_text (df_count d) then Inl ''reconciliation diff count must be a non-negative integer string''
      else Inr \<lparr>pf_diffType = df_type d, pf_severity = js_upper (severity_text (df_severity d)),
        pf_dimensionsJson = map_option persistedDimensions (df_dimensions d),
        pf_pgValuesJson = map_option (persistedMetrics \<circ> metric_members) (df_pgValues d),
        pf_chValuesJson = map_option (persistedMetrics \<circ> metric_members) (df_chValues d),
        pf_deltaValuesJson = persistedMetrics (df_deltaValues d), pf_sampleEventIdsJson = JArr (map JStr (df_sampleEventIds d)),
        pf_differenceCount = int (digits_value (df_count d)), pf_amount = map_option cost_value (df_amount d),
        pf_explanation = df_explanation d\<rparr>)"

definition severity_of :: "string \<Rightarrow> ReconciliationSeverity option" where
  "severity_of t = List.find (\<lambda>s. severity_text s = t) [Sev_info, Sev_warning, Sev_error, Sev_critical]"

text \<open>\<open>decimalFixed\<close> is \<open>toFixed()\<close> of a \<open>Decimal\<close>: its digits without an exponent.\<close>

definition parseDiff :: "(rat \<Rightarrow> string) \<Rightarrow> 'r PersistedDiff_scheme \<Rightarrow> ReconciliationDiff" where
  "parseDiff decimalFixed row =
     \<lparr>df_type = pf_diffType row,
      df_severity = (case severity_of (js_lower (pf_severity row)) of None \<Rightarrow> Sev_info | Some s \<Rightarrow> s),
      df_dimensions = map_option restoredDimensions (pf_dimensionsJson row), df_count = bigint_text (pf_differenceCount row),
      df_amount = map_option decimalFixed (pf_amount row),
      df_pgValues = map_option (metrics_of \<circ> restoredMetrics) (pf_pgValuesJson row),
      df_chValues = map_option (metrics_of \<circ> restoredMetrics) (pf_chValuesJson row),
      df_deltaValues = restoredMetrics (pf_deltaValuesJson row),
      df_sampleEventIds = List.map_filter (\<lambda>j. json_string (Some j)) (array_of (Some (pf_sampleEventIdsJson row))),
      df_explanation = pf_explanation row\<rparr>"

subsection \<open>The repository\<close>

definition default_summary :: json where
  "default_summary = JObj
     (map (\<lambda>n. (n, JStr ''0'')) [''event_count'', ''input_tokens'', ''cached_input_tokens'', ''output_tokens'', ''provider_cost'',
        ''aiu_micros'', ''unpriced_count'', ''unrated_count'', ''diff_count''])"

definition scope_json :: "ReconciliationRunPlan \<Rightarrow> bool \<Rightarrow> json" where
  "scope_json plan asynchronous = JObj
     [(''virtual_model'', jopt (pl_virtualModel plan)), (''model_id'', jopt (pl_modelId plan)), (''user_id'', jopt (pl_userId plan)),
      (''asynchronous'', JBool asynchronous)]"

definition new_run ::
  "'e ingest_env_scheme \<Rightarrow> string \<Rightarrow> int \<Rightarrow> ReconciliationRunPlan \<Rightarrow> json \<Rightarrow> string option \<Rightarrow> string option \<Rightarrow> RunRow" where
  "new_run env newId now plan scope startedBy key =
     \<lparr>rn_id = newId, rn_applicationId = pl_applicationId plan, rn_status = Run_queued, rn_scopeJson = scope, rn_startedAt = now,
      rn_finishedAt = None, rn_error = None, rr_idempotencyKey = key, rr_runType = js_upper (pl_runType plan),
      rr_rangeStart = date_ms env (pl_rangeStart plan), rr_rangeEnd = date_ms env (pl_rangeEnd plan),
      rr_pgWatermark = map_option (date_ms env) (pl_expectedPgWatermark plan),
      rr_chWatermark = map_option (date_ms env) (pl_expectedChWatermark plan), rr_summaryJson = default_summary,
      rr_startedBy = startedBy\<rparr>"

text \<open>\<open>upsert\<close> on the idempotency key with an empty update.\<close>

definition upsert_run :: "string \<Rightarrow> RunRow \<Rightarrow> ReconDb \<Rightarrow> ReconDb \<times> RunRow" where
  "upsert_run key new db = (case find_unique (\<lambda>r. rr_idempotencyKey r = Some key) (rc_runs db) of
     Some r \<Rightarrow> (db, r)
   | None \<Rightarrow> (db\<lparr>rc_runs := rc_runs db @ [new]\<rparr>, new))"

definition createQueued ::
  "'e ingest_env_scheme \<Rightarrow> string \<Rightarrow> int \<Rightarrow> ReconciliationRunPlan \<Rightarrow> string option \<Rightarrow> string option \<Rightarrow> ReconDb \<Rightarrow> ReconDb \<times> string" where
  "createQueued env newId now plan requestedBy key db =
     (let new = new_run env newId now plan (scope_json plan (pl_asynchronous plan)) requestedBy key in
      case key of
        Some k \<Rightarrow> (let (db', r) = upsert_run k new db in (db', rn_id r))
      | None \<Rightarrow> (db\<lparr>rc_runs := rc_runs db @ [new]\<rparr>, newId))"

definition parsePlan :: "'e ingest_env_scheme \<Rightarrow> RunRow \<Rightarrow> ReconciliationRunPlan" where
  "parsePlan env row =
     (let scope = rn_scopeJson row in
      \<lparr>pl_applicationId = rn_applicationId row, pl_runType = js_lower (rr_runType row), pl_rangeStart = toISOString env (rr_rangeStart row),
       pl_rangeEnd = toISOString env (rr_rangeEnd row), pl_virtualModel = string_member scope ''virtual_model'',
       pl_modelId = string_member scope ''model_id'', pl_userId = string_member scope ''user_id'',
       pl_asynchronous = (case member scope ''asynchronous'' of Some (JBool b) \<Rightarrow> b | _ \<Rightarrow> True),
       pl_expectedPgWatermark = map_option (toISOString env) (rr_pgWatermark row),
       pl_expectedChWatermark = map_option (toISOString env) (rr_chWatermark row)\<rparr>)"

definition claim_run :: "'e ingest_env_scheme \<Rightarrow> string \<Rightarrow> int \<Rightarrow> ReconDb \<Rightarrow> ReconDb \<times> ReconciliationRunPlan option" where
  "claim_run env runId now db =
     (let p = (\<lambda>r. rn_id r = runId \<and> rn_status r = Run_queued);
          runs = update_rows p (\<lambda>r. r\<lparr>rn_status := Run_running, rn_startedAt := now, rn_error := None\<rparr>) (rc_runs db) in
      if count_rows p (rc_runs db) \<noteq> 1 then (db, None)
      else (db\<lparr>rc_runs := runs\<rparr>, map_option (parsePlan env) (find_unique (\<lambda>r. rn_id r = runId) runs)))"

definition diff_row :: "string \<Rightarrow> int \<Rightarrow> string \<Rightarrow> PersistedDiff \<Rightarrow> DiffRow" where
  "diff_row runId now newId p =
     PersistedDiff.extend p \<lparr>dr_id = newId, dr_runId = runId, dr_status = Diff_open, dr_resolution = None, dr_resolvedBy = None,
       dr_resolvedAt = None, dr_createdAt = now\<rparr>"

definition replaceDiffs :: "(nat \<Rightarrow> string) \<Rightarrow> int \<Rightarrow> string \<Rightarrow> ReconciliationDiff list \<Rightarrow> ReconDb \<Rightarrow> string + ReconDb" where
  "replaceDiffs newIds now runId ds db =
     (if map_option rn_status (find_unique (\<lambda>r. rn_id r = runId) (rc_runs db)) \<noteq> Some Run_running
      then Inl (''Reconciliation run '' @ runId @ '' is not running'')
      else
        bind_res (map_snapshot toPersistedDiff ds) (\<lambda>ps.
        Inr (db\<lparr>rc_diffs := filter (\<lambda>d. dr_runId d \<noteq> runId) (rc_diffs db) @
               map (\<lambda>(i, p). diff_row runId now (newIds i) p) (enumerate 0 ps)\<rparr>)))"

record ReconciliationWatermarks =
  rw_pgEventTime :: string
  rw_chEventTime :: string
  rw_chLastSuccessAt :: string

record ReconciliationRunSummary =
  su_totalDiffs :: nat
  su_byType :: "(string \<times> nat) list"
  su_bySeverity :: "(string \<times> nat) list"
  su_sampleEventCount :: nat
  su_metricDiffs :: "(ReconciliationDiffType \<times> ReconciliationSeverity \<times> string) list"
  su_providerCostDelta :: string
  su_aiuMicroDelta :: string
  su_authoritativeMetrics :: ReconciliationMetrics

definition persistedSummary :: "ReconciliationRunSummary \<Rightarrow> json" where
  "persistedSummary s =
     (let m = su_authoritativeMetrics s in JObj
      [(''event_count'', JStr (mt_eventCount m)), (''input_tokens'', JStr (mt_inputTokens m)),
       (''cached_input_tokens'', JStr (mt_cachedInputTokens m)), (''output_tokens'', JStr (mt_outputTokens m)),
       (''provider_cost'', JStr (mt_providerCost m)), (''aiu_micros'', JStr (mt_aiuMicros m)),
       (''unpriced_count'', JStr (mt_unpricedCount m)), (''unrated_count'', JStr (mt_unratedCount m)),
       (''diff_count'', JStr (decimal_text (su_totalDiffs s)))])"

definition repository_complete ::
  "'e ingest_env_scheme \<Rightarrow> string \<Rightarrow> int \<Rightarrow> ReconciliationWatermarks \<Rightarrow> ReconciliationRunSummary \<Rightarrow> ReconDb \<Rightarrow> string + ReconDb" where
  "repository_complete env runId now wm summary db =
     (let p = (\<lambda>r. rn_id r = runId \<and> rn_status r = Run_running) in
      if count_rows p (rc_runs db) \<noteq> 1 then Inl (''Reconciliation run '' @ runId @ '' lost its claim'')
      else Inr (db\<lparr>rc_runs := update_rows p (\<lambda>r. r\<lparr>rn_status := Run_completed, rn_finishedAt := Some now, rn_error := None,
             rr_pgWatermark := Some (date_ms env (rw_pgEventTime wm)), rr_chWatermark := Some (date_ms env (rw_chEventTime wm)),
             rr_summaryJson := persistedSummary summary\<rparr>) (rc_runs db)\<rparr>))"

definition repository_fail :: "string \<Rightarrow> int \<Rightarrow> string \<Rightarrow> ReconDb \<Rightarrow> ReconDb" where
  "repository_fail runId now message db =
     db\<lparr>rc_runs := update_rows (\<lambda>r. rn_id r = runId \<and> rn_status r = Run_running)
          (\<lambda>r. r\<lparr>rn_status := Run_failed, rn_finishedAt := Some now, rn_error := Some (take 8000 message)\<rparr>) (rc_runs db)\<rparr>"

definition severity_rank :: "string \<Rightarrow> nat" where
  "severity_rank s = (if s = ''INFO'' then 0 else if s = ''WARNING'' then 1 else if s = ''ERROR'' then 2 else if s = ''CRITICAL'' then 3 else 4)"

text \<open>Severity descending, then creation time and id ascending.\<close>

definition export_order :: "DiffRow list \<Rightarrow> DiffRow list" where
  "export_order rows =
     sort_key (\<lambda>r. - int (severity_rank (pf_severity r))) (sort_key dr_createdAt (sort_key dr_id rows))"

definition listDiffs :: "(rat \<Rightarrow> string) \<Rightarrow> string \<Rightarrow> ReconDb \<Rightarrow> ReconciliationDiff list" where
  "listDiffs decimalFixed runId db = map (parseDiff decimalFixed) (export_order (filter (\<lambda>d. dr_runId d = runId) (rc_diffs db)))"

subsection \<open>The runner\<close>

definition metricInteger :: "string \<Rightarrow> string \<Rightarrow> string + int" where
  "metricInteger v fld =
     (if integer_text v then Inr (int (digits_value v))
      else if v \<noteq> [] \<and> hd v = CHR ''-'' \<and> integer_text (tl v) then Inr (- int (digits_value (tl v)))
      else Inl (fld @ '' must be an integer''))"

definition count_up :: "string \<Rightarrow> (string \<times> nat) list \<Rightarrow> (string \<times> nat) list" where
  "count_up k m = AList.update k ((case map_of m k of None \<Rightarrow> 0 | Some n \<Rightarrow> n) + 1) m"

text \<open>The groups of differences by type and severity with their counts; a count of zero weighs one.\<close>

fun metric_groups ::
  "ReconciliationDiff list \<Rightarrow> (string \<times> (ReconciliationDiffType \<times> ReconciliationSeverity \<times> int)) list \<Rightarrow>
   string + (string \<times> (ReconciliationDiffType \<times> ReconciliationSeverity \<times> int)) list" where
  "metric_groups [] m = Inr m"
| "metric_groups (d # ds) m =
     bind_res (metricInteger (df_count d) ''reconciliation diff count'') (\<lambda>c.
     if c < 0 then Inl ''reconciliation diff count cannot be negative''
     else
       (let key = diff_type_text (df_type d) @ '':'' @ severity_text (df_severity d); n = (if c = 0 then 1 else c) in
        metric_groups ds (AList.update key
          (case map_of m key of None \<Rightarrow> (df_type d, df_severity d, n) | Some (t, s, k) \<Rightarrow> (t, s, k + n)) m)))"

fun insert_by :: "('a \<Rightarrow> 'a \<Rightarrow> int) \<Rightarrow> 'a \<Rightarrow> 'a list \<Rightarrow> 'a list" where
  "insert_by cmp x [] = [x]"
| "insert_by cmp x (y # ys) = (if cmp x y \<le> 0 then x # y # ys else y # insert_by cmp x ys)"

definition sort_by :: "('a \<Rightarrow> 'a \<Rightarrow> int) \<Rightarrow> 'a list \<Rightarrow> 'a list" where
  "sort_by cmp xs = foldr (insert_by cmp) xs []"

record summary_env =
  sn_localeCompare :: "string \<Rightarrow> string \<Rightarrow> int"
  sn_plus :: "rat \<Rightarrow> rat"
  sn_canonical :: "rat \<Rightarrow> string"

fun sum_metric :: "string \<Rightarrow> string \<Rightarrow> int \<Rightarrow> ReconciliationSnapshotRow list \<Rightarrow> string + int" where
  "sum_metric key fld n [] = Inr n"
| "sum_metric key fld n (r # rs) = bind_res (metricInteger (metric_at (sr_metrics r) key) fld) (\<lambda>k. sum_metric key fld (n + k) rs)"

definition integerTotal :: "ReconciliationSnapshotRow list \<Rightarrow> string \<Rightarrow> string + string" where
  "integerTotal rows key = bind_res (sum_metric key (''reconciliation '' @ key) 0 rows) (\<lambda>n. Inr (bigint_text n))"

text \<open>\<open>sn_plus\<close> rounds a result to the hundred digits of \<open>ReconciliationDecimal\<close>, \<open>sn_canonical\<close> prints one.\<close>

definition cost_total :: "summary_env \<Rightarrow> ReconciliationSnapshotRow list \<Rightarrow> rat" where
  "cost_total se rows = foldl (\<lambda>s r. sn_plus se (s + cost_value (mt_providerCost (sr_metrics r)))) 0 rows"

definition summarize ::
  "summary_env \<Rightarrow> ReconciliationDiff list \<Rightarrow> ReconciliationSnapshotRow list \<Rightarrow> ReconciliationSnapshotRow list \<Rightarrow>
   string + ReconciliationRunSummary" where
  "summarize se ds pgRows chRows =
     bind_res (metric_groups ds []) (\<lambda>groups.
     bind_res (sum_metric ''aiuMicros'' ''reconciliation AIU micros'' 0 pgRows) (\<lambda>pgAiu.
     bind_res (sum_metric ''aiuMicros'' ''reconciliation AIU micros'' 0 chRows) (\<lambda>chAiu.
     bind_res (integerTotal pgRows ''eventCount'') (\<lambda>events.
     bind_res (integerTotal pgRows ''inputTokens'') (\<lambda>inputs.
     bind_res (integerTotal pgRows ''cachedInputTokens'') (\<lambda>cached.
     bind_res (integerTotal pgRows ''outputTokens'') (\<lambda>outputs.
     bind_res (integerTotal pgRows ''aiuMicros'') (\<lambda>aiu.
     bind_res (integerTotal pgRows ''unpricedCount'') (\<lambda>noPrice.
     bind_res (integerTotal pgRows ''unratedCount'') (\<lambda>noRate.
     Inr \<lparr>su_totalDiffs = length ds, su_byType = fold (\<lambda>d. count_up (diff_type_text (df_type d))) ds [],
          su_bySeverity = fold (\<lambda>d. count_up (severity_text (df_severity d))) ds [],
          su_sampleEventCount = card (set (concat (map df_sampleEventIds ds))),
          su_metricDiffs = map (\<lambda>(t, s, n). (t, s, bigint_text n))
            (sort_by (\<lambda>(t, s, _) (t', s', _). if t = t' then sn_localeCompare se (severity_text s) (severity_text s')
               else sn_localeCompare se (diff_type_text t) (diff_type_text t')) (map snd groups)),
          su_providerCostDelta = sn_canonical se (sn_plus se (cost_total se pgRows - cost_total se chRows)),
          su_aiuMicroDelta = bigint_text (pgAiu - chAiu),
          su_authoritativeMetrics = \<lparr>mt_eventCount = events, mt_inputTokens = inputs, mt_cachedInputTokens = cached, mt_outputTokens = outputs,
            mt_providerCost = sn_canonical se (cost_total se pgRows), mt_aiuMicros = aiu, mt_unpricedCount = noPrice,
            mt_unratedCount = noRate\<rparr>\<rparr>))))))))))"

record run_world =
  wo_hmac :: "string \<Rightarrow> string \<Rightarrow> string"
  wo_secret :: string
  wo_tolerance :: ReconciliationTolerance
  wo_loadPostgres :: "ReconciliationRunPlan \<Rightarrow> string + ReconciliationSnapshotRow list"
  wo_loadClickHouse :: "ReconciliationRunPlan \<Rightarrow> string + ReconciliationSnapshotRow list"
  wo_loadWatermarks :: "ReconciliationRunPlan \<Rightarrow> string + ReconciliationWatermarks"
  wo_summary :: summary_env
  wo_errorName :: "string \<Rightarrow> string"
  wo_newIds :: "nat \<Rightarrow> string"
  wo_now :: int

text \<open>\<open>wo_errorName\<close> is the class of the exception with a message.\<close>

definition failure_text :: "run_world \<Rightarrow> string \<Rightarrow> string" where
  "failure_text w e = wo_errorName w e @ '': '' @ e"

definition redact_diff :: "run_world \<Rightarrow> ReconciliationDiff \<Rightarrow> string + ReconciliationDiff" where
  "redact_diff w d = (case df_dimensions d of
     None \<Rightarrow> Inr d
   | Some dims \<Rightarrow> bind_res (redactReconciliationDimensions (wo_hmac w) (wo_secret w) dims) (\<lambda>dims'. Inr (d\<lparr>df_dimensions := Some dims'\<rparr>)))"

text \<open>Everything between the claim and the writes.\<close>

definition compare_stores ::
  "'e ingest_env_scheme \<Rightarrow> run_world \<Rightarrow> ReconciliationRunPlan \<Rightarrow>
   string + (ReconciliationDiff list \<times> ReconciliationWatermarks \<times> ReconciliationRunSummary)" where
  "compare_stores env w plan =
     bind_res (wo_loadPostgres w plan) (\<lambda>pgRows.
     bind_res (wo_loadClickHouse w plan) (\<lambda>chRows.
     bind_res (wo_loadWatermarks w plan) (\<lambda>wm.
     bind_res (reconcileSnapshots env pgRows chRows (wo_tolerance w)
        (Some \<lparr>wm_pgEventTime = rw_pgEventTime wm, wm_chEventTime = rw_chEventTime wm, wm_chLastSuccessAt = rw_chLastSuccessAt wm,
           wm_now = toISOString env (wo_now w)\<rparr>)) (\<lambda>raw.
     bind_res (map_snapshot (redact_diff w) raw) (\<lambda>ds.
     bind_res (summarize (wo_summary w) ds pgRows chRows) (\<lambda>summary. Inr (ds, wm, summary)))))))"

definition execute ::
  "'e ingest_env_scheme \<Rightarrow> run_world \<Rightarrow> string \<Rightarrow> ReconDb \<Rightarrow> ReconDb \<times> (string + ReconciliationRunSummary option)" where
  "execute env w runId db = (case claim_run env runId (wo_now w) db of
     (db1, None) \<Rightarrow> (db1, Inr None)
   | (db1, Some plan) \<Rightarrow>
       (case bind_res (compare_stores env w plan) (\<lambda>(ds, wm, summary).
               bind_res (replaceDiffs (wo_newIds w) (wo_now w) runId ds db1) (\<lambda>db2. Inr (db2, wm, summary))) of
          Inl e \<Rightarrow> (repository_fail runId (wo_now w) (failure_text w e) db1, Inl e)
        | Inr (db2, wm, summary) \<Rightarrow>
            (case repository_complete env runId (wo_now w) wm summary db2 of
               Inl e \<Rightarrow> (repository_fail runId (wo_now w) (failure_text w e) db2, Inl e)
             | Inr db3 \<Rightarrow> (db3, Inr (Some summary)))))"

definition exportCsv :: "'e snapshot_env_scheme \<Rightarrow> (rat \<Rightarrow> string) \<Rightarrow> string \<Rightarrow> ReconDb \<Rightarrow> string" where
  "exportCsv env decimalFixed runId db = exportReconciliationDiffsCsv env (listDiffs decimalFixed runId db)"

subsection \<open>The schedule\<close>

definition scheduledReconciliationPlan :: "'e ingest_env_scheme \<Rightarrow> string \<Rightarrow> string \<Rightarrow> int \<Rightarrow> string + ReconciliationRunPlan" where
  "scheduledReconciliationPlan env app runType triggeredAt =
     (let width = (if runType = ''hourly'' then 3600000 else 86400000); boundary = triggeredAt div width * width in
      planReconciliationRun env app runType (toISOString env (boundary - width)) (toISOString env boundary) None None None None None)"

definition scheduledReconciliationIdempotencyKey :: "ReconciliationRunPlan \<Rightarrow> string + string" where
  "scheduledReconciliationIdempotencyKey plan =
     (if pl_runType plan = ''manual'' then Inl ''manual reconciliation does not have a schedule key''
      else Inr (''reconciliation:'' @ pl_applicationId plan @ '':'' @ pl_runType plan @ '':'' @ pl_rangeStart plan @ '':'' @ pl_rangeEnd plan))"

text \<open>A scheduled job: one run per application, each in its own world; the first error ends the job.\<close>

fun run_schedule ::
  "'e ingest_env_scheme \<Rightarrow> (nat \<Rightarrow> run_world) \<Rightarrow> (nat \<Rightarrow> string) \<Rightarrow> string \<Rightarrow> int \<Rightarrow> nat \<Rightarrow> string list \<Rightarrow> ReconDb \<Rightarrow>
   ReconDb \<times> (string + ReconciliationRunSummary option list)" where
  "run_schedule env worlds newIds runType triggeredAt i [] db = (db, Inr [])"
| "run_schedule env worlds newIds runType triggeredAt i (app # apps) db =
     (case bind_res (scheduledReconciliationPlan env app runType triggeredAt) (\<lambda>plan.
             bind_res (scheduledReconciliationIdempotencyKey plan) (\<lambda>key. Inr (plan, key))) of
        Inl e \<Rightarrow> (db, Inl e)
      | Inr (plan, key) \<Rightarrow>
          (let (db1, k) = createQueued env (newIds i) (wo_now (worlds i)) plan None (Some key) db in
           case execute env (worlds i) k db1 of
             (db2, Inl e) \<Rightarrow> (db2, Inl e)
           | (db2, Inr s) \<Rightarrow>
               (case run_schedule env worlds newIds runType triggeredAt (Suc i) apps db2 of
                  (db3, Inl e) \<Rightarrow> (db3, Inl e)
                | (db3, Inr ss) \<Rightarrow> (db3, Inr (s # ss)))))"

subsection \<open>The service of the console\<close>

datatype recon_error = BadRequest string | NotFound string | Conflict string | Unavailable string | Uncaught string

text \<open>\<open>z.string().min(lo).max(hi)\<close>\<close>

definition text_between :: "nat \<Rightarrow> nat \<Rightarrow> schema" where
  "text_between lo hi = z_string (\<lambda>s. lo \<le> utf16_length s \<and> utf16_length s \<le> hi)"

definition range_fields :: "'e ingest_env_scheme \<Rightarrow> field list" where
  "range_fields env = [opt ''from'' (z_string (iso_datetime env)), opt ''to'' (z_string (iso_datetime env))]"

definition createRunSchema :: "'e ingest_env_scheme \<Rightarrow> schema" where
  "createRunSchema env = z_object
     ([opt ''type'' (z_enum [''hourly'', ''daily'', ''manual''])] @ range_fields env @
      [opt ''virtual_model'' (text_between 1 120), opt ''model_id'' (z_string (is_uuid env)), opt ''user_id'' (text_between 1 256),
       req ''reason'' (text_between 5 500)])"

definition defaultRange ::
  "'e ingest_env_scheme \<Rightarrow> int \<Rightarrow> string \<Rightarrow> string option \<Rightarrow> string option \<Rightarrow> recon_error + (string \<times> string)" where
  "defaultRange env now type fromArg toArg =
     (if type = ''manual''
      then (case (fromArg, toArg) of (Some f, Some t) \<Rightarrow> Inr (f, t) | _ \<Rightarrow> Inl (BadRequest ''Manual reconciliation requires from and to''))
      else
        (let width = (if type = ''hourly'' then 3600000 else 86400000);
             e = (case toArg of None \<Rightarrow> now div width * width | Some t \<Rightarrow> date_ms env t);
             s = (case fromArg of None \<Rightarrow> e - width | Some f \<Rightarrow> date_ms env f) in
         Inr (toISOString env s, toISOString env e)))"

definition plan_json :: "ReconciliationRunPlan \<Rightarrow> json" where
  "plan_json p = JObj
     [(''applicationId'', JStr (pl_applicationId p)), (''runType'', JStr (pl_runType p)), (''rangeStart'', JStr (pl_rangeStart p)),
      (''rangeEnd'', JStr (pl_rangeEnd p)), (''virtualModel'', jopt (pl_virtualModel p)), (''modelId'', jopt (pl_modelId p)),
      (''userId'', jopt (pl_userId p)), (''asynchronous'', JBool (pl_asynchronous p)),
      (''expectedPgWatermark'', jopt (pl_expectedPgWatermark p)), (''expectedChWatermark'', jopt (pl_expectedChWatermark p))]"

definition manual_key :: "'e snapshot_env_scheme \<Rightarrow> ReconciliationRunPlan \<Rightarrow> string" where
  "manual_key env plan = ''manual:'' @ sha256hex env (stringify env (plan_json plan))"

text \<open>A job with an id that exists is not added again; the queue may be unreachable.\<close>

definition enqueue_job :: "bool \<Rightarrow> string \<Rightarrow> string \<Rightarrow> ReconDb \<Rightarrow> ReconDb \<times> (recon_error + unit)" where
  "enqueue_job reachable kind runId db =
     (let jobId = ''reconciliation-'' @ kind @ ''-'' @ runId in
      if \<not> reachable then (db, Inl (Unavailable ''Reconciliation request was stored but queueing is temporarily unavailable''))
      else if list_ex (\<lambda>j. qj_jobId j = jobId) (rc_jobs db) then (db, Inr ())
      else (db\<lparr>rc_jobs := rc_jobs db @ [\<lparr>qj_jobId = jobId, qj_kind = kind, qj_runId = runId\<rparr>]\<rparr>, Inr ()))"

definition audited :: "string \<Rightarrow> string \<Rightarrow> string \<Rightarrow> ReconDb \<Rightarrow> ReconDb" where
  "audited action objectId reason db = db\<lparr>rc_audit := rc_audit db @ [\<lparr>au_action = action, au_objectId = objectId, au_reason = reason\<rparr>]\<rparr>"

record api_call =
  ac_applicationId :: string
  ac_actorId :: string
  ac_newId :: string
  ac_now :: int
  ac_queueReachable :: bool

definition after_queue :: "'a \<Rightarrow> ReconDb \<times> (recon_error + unit) \<Rightarrow> ReconDb \<times> (recon_error + 'a)" where
  "after_queue x r = (case r of (db, Inl e) \<Rightarrow> (db, Inl e) | (db, Inr _) \<Rightarrow> (db, Inr x))"

definition createRun :: "'e ingest_env_scheme \<Rightarrow> api_call \<Rightarrow> json \<Rightarrow> ReconDb \<Rightarrow> ReconDb \<times> (recon_error + string)" where
  "createRun env c inp db =
     (if \<not> createRunSchema env inp then (db, Inl (BadRequest ''Invalid reconciliation request''))
      else
        (let type = (case string_member inp ''type'' of None \<Rightarrow> ''hourly'' | Some t \<Rightarrow> t) in
         case defaultRange env (ac_now c) type (string_member inp ''from'') (string_member inp ''to'') of
           Inl e \<Rightarrow> (db, Inl e)
         | Inr (f, t) \<Rightarrow>
             (case planReconciliationRun env (ac_applicationId c) type f t (string_member inp ''virtual_model'')
                     (string_member inp ''model_id'') (string_member inp ''user_id'') None None of
                Inl m \<Rightarrow> (db, Inl (BadRequest m))
              | Inr plan \<Rightarrow>
                  (let key = manual_key env plan;
                       new = new_run env (ac_newId c) (ac_now c) plan (scope_json plan True) None (Some key);
                       (db1, run) = upsert_run key new db;
                       db2 = audited ''reconciliation.run.requested'' (rn_id run) (event_text inp ''reason'') db1 in
                   after_queue (rn_id run) (enqueue_job (ac_queueReachable c) ''run'' (rn_id run) db2)))))"

definition replayTypeForDiff :: "ReconciliationDiffType \<Rightarrow> string + string" where
  "replayTypeForDiff t = (case t of
     USAGE_NORMALIZATION_MISMATCH \<Rightarrow> Inl ''This projection difference requires a fresh ClickHouse rebuild''
   | DUPLICATE_PROJECTION \<Rightarrow> Inl ''This projection difference requires a fresh ClickHouse rebuild''
   | PRICE_VERSION_MISMATCH \<Rightarrow> Inr ''rerun_provider_cost''
   | AIU_RATE_VERSION_MISMATCH \<Rightarrow> Inr ''rerun_aiu_observe''
   | _ \<Rightarrow> Inr ''reproject_to_clickhouse'')"

definition operation_json :: "string \<Rightarrow> json \<Rightarrow> string option \<Rightarrow> string \<Rightarrow> json" where
  "operation_json operation plan sourceDiffId reason = JObj
     [(''operation'', JStr operation), (''plan'', plan), (''source_diff_id'', jopt sourceDiffId), (''reason'', JStr reason)]"

definition createOperationRun ::
  "api_call \<Rightarrow> string \<Rightarrow> int \<Rightarrow> int \<Rightarrow> string \<Rightarrow> json \<Rightarrow> string option \<Rightarrow> string \<Rightarrow> ReconDb \<Rightarrow> ReconDb" where
  "createOperationRun c runType rangeStart rangeEnd operation plan sourceDiffId reason db =
     audited (''reconciliation.'' @ operation @ ''.requested'') (ac_newId c) reason
       (db\<lparr>rc_runs := rc_runs db @
          [\<lparr>rn_id = ac_newId c, rn_applicationId = ac_applicationId c, rn_status = Run_queued,
            rn_scopeJson = operation_json operation plan sourceDiffId reason, rn_startedAt = ac_now c, rn_finishedAt = None, rn_error = None,
            rr_idempotencyKey = None, rr_runType = runType, rr_rangeStart = rangeStart, rr_rangeEnd = rangeEnd, rr_pgWatermark = None,
            rr_chWatermark = None, rr_summaryJson = default_summary, rr_startedBy = None\<rparr>]\<rparr>)"

definition rebuild_json :: "FreshClickHouseRebuildPlan \<Rightarrow> json" where
  "rebuild_json p = JObj [(''rebuildId'', JStr (fr_rebuildId p)), (''database'', JStr (fr_database p)), (''steps'', jstrs (fr_steps p))]"

definition replay_json :: "replay_plan \<Rightarrow> json" where
  "replay_json p = JObj
     [(''replayType'', JStr (rl_replayType p)), (''rangeStart'', JStr (rl_rangeStart p)), (''rangeEnd'', JStr (rl_rangeEnd p)),
      (''dryRun'', JBool (rl_dryRun p)), (''reason'', jopt (rl_reason p)), (''requestedBy'', jopt (rl_requestedBy p)),
      (''providerCostCorrection'', JStr (rl_providerCostCorrection p)), (''aiuCorrection'', JStr (rl_aiuCorrection p)),
      (''historicalAiuChargeAllowed'', JBool (rl_historicalAiuChargeAllowed p))]"

definition replaySchema :: schema where
  "replaySchema = z_object [opt ''mode'' (z_enum [''dry_run'', ''execute'']), req ''reason'' (text_between 5 500)]"

definition find_diff :: "string \<Rightarrow> string \<Rightarrow> ReconDb \<Rightarrow> (DiffRow \<times> RunRow) option" where
  "find_diff app k db = (case find_unique (\<lambda>d. dr_id d = k) (rc_diffs db) of
     None \<Rightarrow> None
   | Some d \<Rightarrow> (case find_unique (\<lambda>r. rn_id r = dr_runId d) (rc_runs db) of
       None \<Rightarrow> None
     | Some r \<Rightarrow> if rn_applicationId r = app then Some (d, r) else None))"

text \<open>The operation a rebuild request queues; \<open>earliest\<close> is the time of the first registered event of the application.\<close>

definition queue_rebuild ::
  "api_call \<Rightarrow> int option \<Rightarrow> FreshClickHouseRebuildPlan \<Rightarrow> string option \<Rightarrow> string \<Rightarrow> ReconDb \<Rightarrow> ReconDb \<times> (recon_error + string)" where
  "queue_rebuild c earliest plan sourceDiffId reason db =
     (let db1 = createOperationRun c ''REBUILD'' (case earliest of None \<Rightarrow> ac_now c | Some t \<Rightarrow> t) (ac_now c) ''rebuild''
            (rebuild_json plan) sourceDiffId reason db in
      after_queue (ac_newId c) (enqueue_job (ac_queueReachable c) ''rebuild'' (ac_newId c) db1))"

text \<open>A preview answers without a run id.\<close>

definition replayDiff ::
  "'e ingest_env_scheme \<Rightarrow> api_call \<Rightarrow> string \<Rightarrow> int option \<Rightarrow> string \<Rightarrow> json \<Rightarrow> ReconDb \<Rightarrow> ReconDb \<times> (recon_error + string option)" where
  "replayDiff env c database earliest k inp db =
     (if \<not> replaySchema inp then (db, Inl (BadRequest ''Invalid reconciliation request''))
      else
        (let dry = (case string_member inp ''mode'' of None \<Rightarrow> True | Some m \<Rightarrow> m = ''dry_run''); reason = event_text inp ''reason'' in
         case find_diff (ac_applicationId c) k db of
           None \<Rightarrow> (db, Inl (NotFound ''Reconciliation diff not found''))
         | Some (d, run) \<Rightarrow>
             (case replayTypeForDiff (pf_diffType d) of
                Inl _ \<Rightarrow>
                  (case planFreshClickHouseRebuild (ac_newId c) database of
                     Inl m \<Rightarrow> (db, Inl (Uncaught m))
                   | Inr plan \<Rightarrow>
                       if dry then (audited ''reconciliation.rebuild.previewed'' k reason db, Inr None)
                       else (case queue_rebuild c earliest plan (Some k) reason db of
                               (db', Inl e) \<Rightarrow> (db', Inl e) | (db', Inr r) \<Rightarrow> (db', Inr (Some r))))
              | Inr replayType \<Rightarrow>
                  (case planReplay env \<lparr>rq_replayType = replayType, rq_rangeStart = toISOString env (rr_rangeStart run),
                          rq_rangeEnd = toISOString env (rr_rangeEnd run), rq_dryRun = Some dry, rq_reason = Some reason,
                          rq_requestedBy = Some (ac_actorId c), rq_existingProviderCostLedgerEffects = Some True,
                          rq_existingAiuLedgerEffects = Some True, rq_wouldCreateAiuLedger = Some False, rq_aiuEnabledIntervals = None\<rparr> of
                     Inl m \<Rightarrow> (db, Inl (BadRequest m))
                   | Inr plan \<Rightarrow>
                       if dry then (audited ''reconciliation.replay.previewed'' k reason db, Inr None)
                       else
                         (let db1 = createOperationRun c ''MANUAL'' (rr_rangeStart run) (rr_rangeEnd run) ''replay''
                                (replay_json plan) (Some k) reason db in
                          after_queue (Some (ac_newId c)) (enqueue_job (ac_queueReachable c) ''replay'' (ac_newId c) db1))))))"

definition rebuildSchema :: schema where
  "rebuildSchema = z_object [req ''mode'' (z_literal (JStr ''fresh_rebuild'')), req ''reason'' (text_between 5 500)]"

definition rebuildClickHouse :: "api_call \<Rightarrow> string \<Rightarrow> int option \<Rightarrow> json \<Rightarrow> ReconDb \<Rightarrow> ReconDb \<times> (recon_error + string)" where
  "rebuildClickHouse c database earliest inp db =
     (if \<not> rebuildSchema inp then (db, Inl (BadRequest ''Invalid reconciliation request''))
      else (case planFreshClickHouseRebuild (ac_newId c) database of
              Inl m \<Rightarrow> (db, Inl (Uncaught m))
            | Inr plan \<Rightarrow> queue_rebuild c earliest plan None (event_text inp ''reason'') db))"

definition resolveSchema :: schema where
  "resolveSchema = z_object
     [req ''resolution'' (z_enum [''official_confirmed'', ''false_positive'', ''corrected'', ''ignored'']), req ''note'' (text_between 5 500)]"

definition resolveDiff :: "api_call \<Rightarrow> string \<Rightarrow> json \<Rightarrow> ReconDb \<Rightarrow> recon_error + ReconDb" where
  "resolveDiff c k inp db =
     (if \<not> resolveSchema inp then Inl (BadRequest ''Invalid reconciliation request'')
      else (case find_diff (ac_applicationId c) k db of
              None \<Rightarrow> Inl (NotFound ''Reconciliation diff not found'')
            | Some (d, _) \<Rightarrow>
                if dr_status d \<notin> {Diff_open, Diff_investigating} then Inl (Conflict ''Reconciliation diff is already closed'')
                else
                  (let resolution = event_text inp ''resolution''; note' = event_text inp ''note'' in
                   Inr (audited ''reconciliation.diff.resolved'' k note'
                     (db\<lparr>rc_diffs := update_rows (\<lambda>x. dr_id x = k)
                        (\<lambda>x. x\<lparr>dr_status := (if resolution = ''ignored'' then Diff_ignored else Diff_resolved),
                               dr_resolution := Some (resolution @ '': '' @ note'), dr_resolvedBy := Some (ac_actorId c),
                               dr_resolvedAt := Some (ac_now c)\<rparr>) (rc_diffs db)\<rparr>)))))"

text \<open>The export casts the stored documents to the types of the engine without converting them: the columns of the bucket
  are the members \<open>bucketStart\<close> and \<open>bucketSize\<close> of the stored dimensions.\<close>

definition member_cell :: "json option \<Rightarrow> string \<Rightarrow> cell" where
  "member_cell j k = (case j of None \<Rightarrow> Absent | Some v \<Rightarrow> text_cell (string_member v k))"

definition row_cells :: "(rat \<Rightarrow> string) \<Rightarrow> DiffRow \<Rightarrow> cell list" where
  "row_cells decimalString r =
     [Text (diff_type_text (pf_diffType r)), Text (js_lower (pf_severity r)), member_cell (pf_dimensionsJson r) ''bucketStart'',
      member_cell (pf_dimensionsJson r) ''bucketSize'', Text (bigint_text (pf_differenceCount r)),
      text_cell (map_option decimalString (pf_amount r)), Document (pf_deltaValuesJson r), Document (pf_sampleEventIdsJson r),
      Text (pf_explanation r)]"

definition exportReconciliationRun ::
  "'e snapshot_env_scheme \<Rightarrow> (rat \<Rightarrow> string) \<Rightarrow> string \<Rightarrow> string \<Rightarrow> ReconDb \<Rightarrow> recon_error + string" where
  "exportReconciliationRun env decimalString app runId db =
     (case find_unique (\<lambda>r. rn_id r = runId) (rc_runs db) of
        None \<Rightarrow> Inl (NotFound ''Reconciliation run not found'')
      | Some run \<Rightarrow>
          if rn_applicationId run \<noteq> app then Inl (NotFound ''Reconciliation run not found'')
          else Inr (csv_lines env (map Text csv_header #
                 map (row_cells decimalString) (export_order (filter (\<lambda>d. dr_runId d = runId) (rc_diffs db))))))"

end
