(* ===== verification/ReconciliationFacts.thy ===== *)
theory ReconciliationFacts
  imports ReconciliationEngine
begin

text \<open>
  Facts about the reconciliation engine: which rows are valid, how the comparison splits into buckets, when it finds
  nothing, that it does not depend on the order of rows, and that a reader of CSV gets back what was exported.
\<close>

subsection \<open>Results\<close>

lemma append_res_simps [simp]: "append_res (Inl e) b = Inl e" "append_res (Inr xs) (Inr ys) = Inr (xs @ ys)"
  by (simp_all add: append_res_def)

lemma append_res_Nil_iff [simp]: "append_res a b = Inr [] \<longleftrightarrow> a = Inr [] \<and> b = Inr []"
  by (cases a; cases b) (auto simp: append_res_def)

definition succeeds :: "'e + 'a \<Rightarrow> bool" where
  "succeeds r \<longleftrightarrow> (\<exists>x. r = Inr x)"

lemma succeeds_simps [simp]: "succeeds (Inr x)" "\<not> succeeds (Inl e)"
  by (simp_all add: succeeds_def)

lemma succeeds_append [simp]: "succeeds (append_res a b) \<longleftrightarrow> succeeds a \<and> succeeds b"
  by (cases a; cases b) (simp_all add: append_res_def)

lemma pushed_Nil_iff [simp]: "pushed c d = Inr [] \<longleftrightarrow> \<not> c"
  by (cases d) (simp_all add: pushed_def)

lemma succeeds_pushed [simp]: "succeeds (pushed c d) \<longleftrightarrow> (c \<longrightarrow> succeeds d)"
  by (cases d) (simp_all add: pushed_def)

lemma concat_res_Nil_iff: "concat_res xs = Inr [] \<longleftrightarrow> list_all (\<lambda>x. x = Inr []) xs"
  by (induction xs) simp_all

lemma succeeds_concat: "succeeds (concat_res xs) \<longleftrightarrow> list_all succeeds xs"
  by (induction xs) simp_all

lemma parse_ok [simp]: "integer_text v \<Longrightarrow> parseMetricInteger v fld = Inr (int (digits_value v))"
  "cost_text v \<Longrightarrow> parseCost v fld = Inr (cost_value v)"
  by (simp_all add: parseMetricInteger_def parseCost_def)

subsection \<open>Valid rows\<close>

definition duplicate_text :: "ReconciliationSnapshotRow \<Rightarrow> string" where
  "duplicate_text r = (case sr_duplicateProjectionCount r of None \<Rightarrow> ''0'' | Some c \<Rightarrow> c)"

definition metrics_valid :: "ReconciliationMetrics \<Rightarrow> bool" where
  "metrics_valid m \<longleftrightarrow> list_all (\<lambda>k. integer_text (metric_at m k)) integerMetricKeys \<and> cost_text (mt_providerCost m)"

definition row_valid :: "'e ingest_env_scheme \<Rightarrow> ReconciliationSnapshotRow \<Rightarrow> bool" where
  "row_valid env r \<longleftrightarrow>
     metrics_valid (sr_metrics r) \<and> integer_text (duplicate_text r) \<and> date_parses env (dm_bucketStart (sr_dimensions r))"

definition counts_valid :: "ReconciliationSnapshotRow \<Rightarrow> bool" where
  "counts_valid r \<longleftrightarrow> integer_text (sr_lateEventCount r) \<and> integer_text (sr_unprojectedAdjustmentCount r)"

definition tolerance_valid :: "ReconciliationTolerance \<Rightarrow> bool" where
  "tolerance_valid tol \<longleftrightarrow> cost_text (to_providerCost tol) \<and> integer_text (to_aiuMicros tol)"

abbreviation row_key :: "'e snapshot_env_scheme \<Rightarrow> ReconciliationSnapshotRow \<Rightarrow> string" where
  "row_key env r \<equiv> dimensionsKey env (sr_dimensions r)"

lemma validate_integers_iff:
  "validate_integers m ks = Inr () \<longleftrightarrow> list_all (\<lambda>k. integer_text (metric_at m k)) ks"
  by (induction ks) (auto simp: parseMetricInteger_def)

lemma unit_result: "(r :: 'e + unit) = Inr () \<or> (\<exists>e. r = Inl e)"
  by (cases r) simp_all

lemma validateMetrics_iff: "validateMetrics m = Inr () \<longleftrightarrow> metrics_valid m"
  by (cases "validate_integers m integerMetricKeys")
    (auto simp: validateMetrics_def metrics_valid_def parseCost_def validate_integers_iff [symmetric])

lemma duplicates_of_iff: "duplicates_of r = Inr n \<longleftrightarrow> integer_text (duplicate_text r) \<and> n = int (digits_value (duplicate_text r))"
  by (auto simp: duplicates_of_def duplicate_text_def parseMetricInteger_def)

lemma group_step:
  assumes "row_valid env r"
  shows "group env (r # rs) g = group env rs (AList.update (row_key env r) (rows_at g (row_key env r) @ [r]) g)"
proof -
  have "validateMetrics (sr_metrics r) = Inr ()" using assms by (simp add: validateMetrics_iff row_valid_def)
  moreover have "duplicates_of r = Inr (int (digits_value (duplicate_text r)))"
    using assms by (simp add: duplicates_of_iff row_valid_def)
  ultimately show ?thesis using assms by (simp add: row_valid_def Let_def rows_at_def)
qed

lemma group_invalid:
  assumes "\<not> row_valid env r"
  shows "\<exists>e. group env (r # rs) g = Inl e"
proof (cases "validateMetrics (sr_metrics r)")
  case u: (Inr u)
  show ?thesis
  proof (cases "duplicates_of r")
    case d: (Inr n)
    have "\<not> date_parses env (dm_bucketStart (sr_dimensions r))"
      using assms u d validateMetrics_iff [of "sr_metrics r"] by (simp add: row_valid_def duplicates_of_iff)
    then show ?thesis using u d by simp
  qed (use u in simp)
qed simp

text \<open>The groups of a list of valid rows.\<close>

lemma group_valid:
  assumes "list_all (row_valid env) rs"
  shows "\<exists>g'. group env rs g = Inr g' \<and> (\<forall>k. rows_at g' k = rows_at g k @ filter (\<lambda>r. row_key env r = k) rs) \<and>
    set (map fst g') = set (map fst g) \<union> row_key env ` set rs"
  using assms
proof (induction rs arbitrary: g)
  case (Cons r rs)
  let ?g = "AList.update (row_key env r) (rows_at g (row_key env r) @ [r]) g"
  have upd: "rows_at ?g k = (if k = row_key env r then rows_at g k @ [r] else rows_at g k)" for k
    by (simp add: rows_at_def update_conv')
  have keys: "set (map fst ?g) = insert (row_key env r) (set (map fst g))" by (simp add: dom_update)
  have "list_all (row_valid env) rs" using Cons.prems by simp
  from Cons.IH [OF this, of ?g] obtain g' where g': "group env rs ?g = Inr g'"
    "\<forall>k. rows_at g' k = rows_at ?g k @ filter (\<lambda>r. row_key env r = k) rs"
    "set (map fst g') = set (map fst ?g) \<union> row_key env ` set rs" by blast
  have r: "row_valid env r" using Cons.prems by simp
  have "group env (r # rs) g = Inr g'" unfolding group_step [OF r] by (rule g'(1))
  moreover have "rows_at g' k = rows_at g k @ filter (\<lambda>r. row_key env r = k) (r # rs)" for k using g'(2) upd by simp
  moreover have "set (map fst g') = set (map fst g) \<union> row_key env ` set (r # rs)" unfolding g'(3) keys by auto
  ultimately show ?case by blast
qed simp

lemma group_fails: "\<not> list_all (row_valid env) rs \<Longrightarrow> \<exists>e. group env rs g = Inl e"
proof (induction rs arbitrary: g)
  case (Cons r rs)
  show ?case
  proof (cases "row_valid env r")
    case True
    then have "\<not> list_all (row_valid env) rs" using Cons.prems by simp
    then show ?thesis unfolding group_step [OF True] by (rule Cons.IH)
  qed (rule group_invalid)
qed simp

subsection \<open>The order of keys\<close>

lemma inj_utf16_rank: "inj utf16_rank"
proof -
  let ?f = "\<lambda>c. if 240 \<le> byte c then byte c - 2 else if 238 \<le> byte c then byte c + 18 else byte c"
  have "inj ?f"
  proof (rule injI)
    fix x y assume "?f x = ?f y"
    moreover have "byte x < 256" "byte y < 256" by (simp_all add: byte_def)
    ultimately have "byte x = byte y" by (simp split: if_split_asm)
    then show "x = y" by (simp add: byte_def)
  qed
  then show ?thesis unfolding utf16_rank_def [abs_def] by (rule inj_mapI)
qed

lemma js_sort_cong: "set xs = set ys \<Longrightarrow> js_sort (remdups xs) = js_sort (remdups ys)"
  unfolding js_sort_def
  by (rule sort_key_inj_key_eq) (auto simp: set_eq_iff_mset_remdups_eq intro: inj_on_subset [OF inj_utf16_rank])

lemma set_js_sort [simp]: "set (js_sort xs) = set xs"
  by (simp add: js_sort_def)

text \<open>The comparison of valid snapshots, bucket by bucket.\<close>

definition bucket :: "'e snapshot_env_scheme \<Rightarrow> ReconciliationSnapshotRow list \<Rightarrow> string \<Rightarrow> ReconciliationSnapshotRow list" where
  "bucket env rows k = filter (\<lambda>r. row_key env r = k) rows"

lemma reconcile_buckets:
  assumes "list_all (row_valid env) pg" and "list_all (row_valid env) ch"
  shows "reconcileSnapshots env pg ch tol wm =
    append_res (concat_res (map (\<lambda>k. key_diffs tol (bucket env pg k) (bucket env ch k))
      (js_sort (remdups (map (row_key env) (pg @ ch)))))) (watermark_diffs env tol wm)"
proof -
  obtain g h where g: "group env pg [] = Inr g" "\<forall>k. rows_at g k = bucket env pg k" "set (map fst g) = row_key env ` set pg"
    and h: "group env ch [] = Inr h" "\<forall>k. rows_at h k = bucket env ch k" "set (map fst h) = row_key env ` set ch"
    using group_valid [OF assms(1), of "[]"] group_valid [OF assms(2), of "[]"] by (auto simp: bucket_def rows_at_def)
  have "js_sort (remdups (map fst g @ map fst h)) = js_sort (remdups (map (row_key env) (pg @ ch)))"
    by (rule js_sort_cong) (use g(3) h(3) in simp)
  then show ?thesis using g(1,2) h(1,2) by (simp add: reconcileSnapshots_def)
qed

lemma reconcile_invalid:
  assumes "\<not> list_all (row_valid env) (pg @ ch)"
  shows "\<exists>e. reconcileSnapshots env pg ch tol wm = Inl e"
proof (cases "list_all (row_valid env) pg")
  case True
  then obtain g where "group env pg [] = Inr g" using group_valid by blast
  moreover obtain e where "group env ch [] = Inl e" using True assms group_fails [of env ch] by auto
  ultimately show ?thesis by (simp add: reconcileSnapshots_def)
next
  case False
  then obtain e where "group env pg [] = Inl e" using group_fails by blast
  then show ?thesis by (simp add: reconcileSnapshots_def)
qed

subsection \<open>Agreement\<close>

definition duplicates :: "ReconciliationSnapshotRow \<Rightarrow> nat" where
  "duplicates r = digits_value (duplicate_text r)"

text \<open>What it means that a projected row shows the official one.\<close>

definition row_agrees :: "ReconciliationTolerance \<Rightarrow> ReconciliationSnapshotRow \<Rightarrow> ReconciliationSnapshotRow \<Rightarrow> bool" where
  "row_agrees tol p c \<longleftrightarrow>
     \<not> sr_payloadHashConflict p \<and> \<not> sr_payloadHashConflict c \<and>
     sr_modelIdentityFingerprint p = sr_modelIdentityFingerprint c \<and> sr_costVersionId p = sr_costVersionId c \<and>
     sr_aiuVersionId p = sr_aiuVersionId c \<and>
     list_all (\<lambda>k. metric_at (sr_metrics p) k = metric_at (sr_metrics c) k) usageMetricKeys \<and>
     \<bar>decimal_minus (cost_value (mt_providerCost (sr_metrics p))) (cost_value (mt_providerCost (sr_metrics c)))\<bar>
       \<le> cost_value (to_providerCost tol) \<and>
     \<bar>int (digits_value (mt_aiuMicros (sr_metrics p))) - int (digits_value (mt_aiuMicros (sr_metrics c)))\<bar>
       \<le> int (digits_value (to_aiuMicros tol)) \<and>
     digits_value (sr_lateEventCount p) = 0 \<and> digits_value (sr_unprojectedAdjustmentCount p) = 0"

definition snapshots_agree ::
  "ReconciliationTolerance \<Rightarrow> ReconciliationSnapshotRow list \<Rightarrow> ReconciliationSnapshotRow list \<Rightarrow> bool" where
  "snapshots_agree tol pg ch \<longleftrightarrow>
     distinct (map sr_dimensions pg) \<and> distinct (map sr_dimensions ch) \<and> sr_dimensions ` set pg = sr_dimensions ` set ch \<and>
     list_all (\<lambda>r. duplicates r = 0) (pg @ ch) \<and>
     list_all (\<lambda>p. list_all (\<lambda>c. sr_dimensions p = sr_dimensions c \<longrightarrow> row_agrees tol p c) ch) pg"

lemma metric_keys:
  assumes "metrics_valid m"
  shows "k \<in> set usageMetricKeys \<Longrightarrow> integer_text (metric_at m k)" and "integer_text (mt_eventCount m)" and "integer_text (mt_aiuMicros m)"
    and "cost_text (mt_providerCost m)"
  using assms by (auto simp: metrics_valid_def integerMetricKeys_def usageMetricKeys_def metric_at_def metric_members_def)

lemma usage_delta_ok:
  assumes "list_all (\<lambda>k. integer_text (metric_at p k) \<and> integer_text (metric_at c k)) ks"
  shows "succeeds (usage_delta p c ks)" and "usage_delta p c ks = Inr [] \<longleftrightarrow> list_all (\<lambda>k. metric_at p k = metric_at c k) ks"
proof -
  have "\<exists>ds. usage_delta p c ks = Inr ds \<and> (ds = [] \<longleftrightarrow> list_all (\<lambda>k. metric_at p k = metric_at c k) ks)"
    using assms by (induction ks) (auto simp: signedIntegerDelta_def)
  then show "succeeds (usage_delta p c ks)" "usage_delta p c ks = Inr [] \<longleftrightarrow> list_all (\<lambda>k. metric_at p k = metric_at c k) ks" by auto
qed

lemma diff_succeeds:
  assumes "pred_option (\<lambda>r. integer_text (mt_eventCount (sr_metrics r))) pg" and "pred_option (\<lambda>r. integer_text (mt_eventCount (sr_metrics r))) ch"
  shows "succeeds (diff t dims pg ch vs cnt amount e)"
  using assms by (cases cnt; cases pg; cases ch) (simp_all add: diff_def countDelta_def)

lemma paired_diffs:
  assumes "metrics_valid (sr_metrics p)" and "metrics_valid (sr_metrics c)" and "counts_valid p" and "tolerance_valid tol"
  shows "succeeds (pairedDiffs p c tol)" and "pairedDiffs p c tol = Inr [] \<longleftrightarrow> row_agrees tol p c"
proof -
  note keys = metric_keys [OF assms(1)] metric_keys [OF assms(2)]
  have ok: "succeeds (diff t dims (Some p) (Some c) vs cnt amount e)" for t dims vs cnt amount e
    by (rule diff_succeeds) (use keys in simp_all)
  have "list_all (\<lambda>k. integer_text (metric_at (sr_metrics p) k) \<and> integer_text (metric_at (sr_metrics c) k)) usageMetricKeys"
    using keys(1,5) by (simp add: list_all_iff)
  note usage = usage_delta_ok [OF this]
  obtain ds where ds: "usage_delta (sr_metrics p) (sr_metrics c) usageMetricKeys = Inr ds" using usage(1) by (auto simp: succeeds_def)
  have us: "succeeds (usage_diffs p c)" "usage_diffs p c = Inr [] \<longleftrightarrow> list_all (\<lambda>k. metric_at (sr_metrics p) k = metric_at (sr_metrics c) k) usageMetricKeys"
    using usage(2) ok ds by (simp_all add: usage_diffs_def)
  have rest: "succeeds (identity_diffs p c)" "succeeds (cost_diffs tol p c)" "succeeds (aiu_diffs tol p c)" "succeeds (late_diffs p c)"
    "succeeds (adjustment_diffs p c)"
    using keys assms(3,4) ok
    by (simp_all add: identity_diffs_def cost_diffs_def aiu_diffs_def late_diffs_def adjustment_diffs_def signedCostDelta_def counts_valid_def
        tolerance_valid_def Let_def)
  show "succeeds (pairedDiffs p c tol)" using us(1) rest by (simp add: pairedDiffs_def)
  show "pairedDiffs p c tol = Inr [] \<longleftrightarrow> row_agrees tol p c"
    using us(2) keys assms(3,4)
    by (auto simp: pairedDiffs_def identity_diffs_def cost_diffs_def aiu_diffs_def late_diffs_def adjustment_diffs_def counts_valid_def
        tolerance_valid_def row_agrees_def Let_def)
qed

lemma sum_duplicates_eq:
  "list_all (\<lambda>r. integer_text (duplicate_text r)) rs \<Longrightarrow> sum_duplicates n rs = Inr (n + (\<Sum>r \<leftarrow> rs. int (duplicates r)))"
proof (induction rs arbitrary: n)
  case (Cons r rs)
  then have "duplicates_of r = Inr (int (duplicates r))" by (simp add: duplicates_of_iff duplicates_def)
  then show ?case using Cons by simp
qed simp

lemma sum_nonneg_le: "0 \<le> (\<Sum>r \<leftarrow> rs. int (f r))"
  by (rule sum_list_nonneg) auto

lemma sum_nonneg_zero: "(\<Sum>r \<leftarrow> rs. int (f r)) = 0 \<longleftrightarrow> list_all (\<lambda>r. f r = 0) rs"
proof (induction rs)
  case (Cons r rs)
  show ?case using sum_nonneg_le [of f rs] Cons.IH by auto
qed simp

text \<open>One bucket: no difference exactly when both sides have one row, none is duplicated and they agree.\<close>

lemma bucket_diffs:
  assumes "list_all (row_valid env) ps" and "list_all (row_valid env) cs" and "list_all counts_valid ps" and "tolerance_valid tol"
    and "ps \<noteq> [] \<or> cs \<noteq> []"
  shows "succeeds (key_diffs tol ps cs)"
    and "key_diffs tol ps cs = Inr [] \<longleftrightarrow>
      (\<exists>p c. ps = [p] \<and> cs = [c] \<and> duplicates p = 0 \<and> duplicates c = 0 \<and> row_agrees tol p c)"
proof -
  let ?n = "int (length ps - 1 + (length cs - 1)) + (\<Sum>r \<leftarrow> ps @ cs. int (duplicates r))"
  have dup: "sum_duplicates (int (length ps - 1 + (length cs - 1))) (ps @ cs) = Inr ?n"
    by (rule sum_duplicates_eq) (use assms(1,2) in \<open>auto simp: list_all_iff row_valid_def\<close>)
  have zero: "?n \<le> 0 \<longleftrightarrow> length ps \<le> 1 \<and> length cs \<le> 1 \<and> list_all (\<lambda>r. duplicates r = 0) (ps @ cs)"
    using sum_nonneg_le [where f = duplicates and rs = "ps @ cs"] sum_nonneg_zero [where f = duplicates and rs = "ps @ cs"] by linarith
  have ev: "integer_text (mt_eventCount (sr_metrics r))" if "r \<in> set ps \<union> set cs" for r
    using assms(1,2) that metric_keys(2) by (auto simp: list_all_iff row_valid_def)
  have heads: "pred_option (\<lambda>r. integer_text (mt_eventCount (sr_metrics r))) (head_row ps)"
    "pred_option (\<lambda>r. integer_text (mt_eventCount (sr_metrics r))) (head_row cs)"
    using ev by (auto simp: head_row_def split: list.splits)
  note ok = diff_succeeds [OF heads] diff_succeeds [of None, OF _ heads(2)] diff_succeeds [of _ None, OF heads(1)]
  have pair: "succeeds (pairedDiffs p c tol)" "pairedDiffs p c tol = Inr [] \<longleftrightarrow> row_agrees tol p c" if "p \<in> set ps" "c \<in> set cs" for p c
    using paired_diffs [OF _ _ _ assms(4), of p c] assms(1-3) that by (auto simp: list_all_iff row_valid_def)
  show "succeeds (key_diffs tol ps cs)"
    using dup ok pair by (cases ps; cases cs) (simp_all add: key_diffs_def head_row_def Let_def)
  show "key_diffs tol ps cs = Inr [] \<longleftrightarrow>
      (\<exists>p c. ps = [p] \<and> cs = [c] \<and> duplicates p = 0 \<and> duplicates c = 0 \<and> row_agrees tol p c)"
  proof (cases "ps = [] \<or> cs = []")
    case True
    then show ?thesis using dup assms(5) by (auto simp: key_diffs_def Let_def split: list.splits)
  next
    case False
    then obtain p ps' c cs' where eq: "ps = p # ps'" "cs = c # cs'" by (meson list.exhaust)
    have "key_diffs tol ps cs = Inr [] \<longleftrightarrow> ?n \<le> 0 \<and> row_agrees tol p c"
      using dup pair(2) [of p c] by (simp add: key_diffs_def eq not_less Let_def)
    then show ?thesis unfolding zero by (auto simp: eq)
  qed
qed

text \<open>\<open>JSON.stringify\<close> gives different texts for different lists of texts and nulls.\<close>

definition scalar :: "json \<Rightarrow> bool" where
  "scalar j \<longleftrightarrow> (case j of JNull \<Rightarrow> True | JStr _ \<Rightarrow> True | _ \<Rightarrow> False)"

definition stringify_faithful :: "'e snapshot_env_scheme \<Rightarrow> bool" where
  "stringify_faithful env \<longleftrightarrow> inj_on (\<lambda>xs. stringify env (JArr xs)) {xs. list_all scalar xs}"

lemma jopt_scalar [simp]: "scalar (jopt v)" "scalar (JStr s)"
  by (cases v; simp add: scalar_def jopt_def) (simp add: scalar_def)

lemma jopt_inj [simp]: "jopt a = jopt b \<longleftrightarrow> a = b"
  by (cases a; cases b) (simp_all add: jopt_def)

lemma dimensionsKey_inj:
  assumes "stringify_faithful env" and "dimensionsKey env d = dimensionsKey env d'"
  shows "d = d'"
proof -
  have "[JStr (dm_bucketSize d), JStr (dm_bucketStart d), JStr (dm_applicationId d), jopt (dm_virtualModel d), jopt (dm_modelId d),
      jopt (dm_requestModel d), jopt (dm_provider d), jopt (dm_userId d)] =
    [JStr (dm_bucketSize d'), JStr (dm_bucketStart d'), JStr (dm_applicationId d'), jopt (dm_virtualModel d'), jopt (dm_modelId d'),
      jopt (dm_requestModel d'), jopt (dm_provider d'), jopt (dm_userId d')]"
    by (rule inj_onD [OF assms(1) [unfolded stringify_faithful_def]]) (use assms(2) in \<open>simp_all add: dimensionsKey_def\<close>)
  then show ?thesis by simp
qed

lemma row_key_eq: "stringify_faithful env \<Longrightarrow> row_key env r = row_key env s \<longleftrightarrow> sr_dimensions r = sr_dimensions s"
  using dimensionsKey_inj by metis

lemma bucket_same:
  assumes "stringify_faithful env"
  shows "bucket env rows (row_key env r) = filter (\<lambda>s. sr_dimensions s = sr_dimensions r) rows"
  unfolding bucket_def using row_key_eq [OF assms] by metis

lemma filter_single:
  assumes "filter (\<lambda>s. f s = f r) xs = [p]" and "r \<in> set xs"
  shows "p = r"
proof -
  have "r \<in> set (filter (\<lambda>s. f s = f r) xs)" using assms(2) by simp
  then show ?thesis unfolding assms(1) by simp
qed

lemma distinct_filter_single:
  assumes "distinct (map f xs)" and "r \<in> set xs"
  shows "filter (\<lambda>s. f s = f r) xs = [r]"
  using assms
proof (induction xs)
  case (Cons x xs)
  show ?case
  proof (cases "x = r")
    case True
    have "f s \<noteq> f r" if "s \<in> set xs" for s using Cons.prems(1) True imageI [OF that, of f] by auto
    then have "filter (\<lambda>s. f s = f r) xs = []" by (simp add: filter_empty_conv)
    then show ?thesis using True by simp
  next
    case False
    then show ?thesis using Cons by auto
  qed
qed simp

lemma single_distinct: "\<forall>r \<in> set xs. filter (\<lambda>s. f s = f r) xs = [r] \<Longrightarrow> distinct (map f xs)"
proof (induction xs)
  case (Cons x xs)
  have "filter (\<lambda>s. f s = f x) xs = []" using Cons.prems by simp
  then have x: "f x \<notin> f ` set xs" by (auto simp: filter_empty_conv)
  have "filter (\<lambda>s. f s = f r) xs = [r]" if "r \<in> set xs" for r
  proof -
    have "f x \<noteq> f r" using x that by force
    then show ?thesis using Cons.prems that by auto
  qed
  then show ?case using Cons.IH x by simp
qed simp

text \<open>The buckets of two snapshots pair their rows exactly when the snapshots agree.\<close>

lemma buckets_agree_iff:
  "(\<forall>d \<in> sr_dimensions ` (set pg \<union> set ch). \<exists>p c. filter (\<lambda>s. sr_dimensions s = d) pg = [p] \<and> filter (\<lambda>s. sr_dimensions s = d) ch = [c] \<and>
      duplicates p = 0 \<and> duplicates c = 0 \<and> row_agrees tol p c) \<longleftrightarrow> snapshots_agree tol pg ch" (is "?L \<longleftrightarrow> _")
proof
  assume L: ?L
  have one: "filter (\<lambda>s. sr_dimensions s = sr_dimensions r) pg = [r]" if "r \<in> set pg" for r
    using L that filter_single [where f = sr_dimensions] by fastforce
  have two: "filter (\<lambda>s. sr_dimensions s = sr_dimensions r) ch = [r]" if "r \<in> set ch" for r
    using L that filter_single [where f = sr_dimensions] by fastforce
  have mem: "d \<in> sr_dimensions ` set pg \<and> d \<in> sr_dimensions ` set ch" if d: "d \<in> sr_dimensions ` (set pg \<union> set ch)" for d
  proof -
    obtain p c where "filter (\<lambda>s. sr_dimensions s = d) pg = [p]" "filter (\<lambda>s. sr_dimensions s = d) ch = [c]" using L d by blast
    then have pc: "p \<in> set pg" "sr_dimensions p = d" "c \<in> set ch" "sr_dimensions c = d" by (auto simp: filter_eq_Cons_iff)
    show ?thesis using imageI [OF pc(1), of sr_dimensions] imageI [OF pc(3), of sr_dimensions] pc(2,4) by simp
  qed
  have "row_agrees tol p c \<and> duplicates p = 0 \<and> duplicates c = 0" if "p \<in> set pg" "c \<in> set ch" "sr_dimensions p = sr_dimensions c" for p c
    using L one [OF that(1)] two [OF that(2)] that by force
  moreover have "duplicates r = 0" if "r \<in> set pg \<union> set ch" for r
  proof -
    from that have "sr_dimensions r \<in> sr_dimensions ` (set pg \<union> set ch)" by blast
    then obtain p c where "filter (\<lambda>s. sr_dimensions s = sr_dimensions r) pg = [p]" "filter (\<lambda>s. sr_dimensions s = sr_dimensions r) ch = [c]"
      "duplicates p = 0" "duplicates c = 0" using L by blast
    then show ?thesis using one two that by auto
  qed
  ultimately show "snapshots_agree tol pg ch"
    using one two mem single_distinct [of pg sr_dimensions] single_distinct [of ch sr_dimensions]
    unfolding snapshots_agree_def list_all_iff by auto
next
  assume agree: "snapshots_agree tol pg ch"
  note d = agree [unfolded snapshots_agree_def list_all_iff]
  show ?L
  proof
    fix x assume "x \<in> sr_dimensions ` (set pg \<union> set ch)"
    then have "x \<in> sr_dimensions ` set pg" "x \<in> sr_dimensions ` set ch" using d by auto
    then obtain p c where pc: "p \<in> set pg" "c \<in> set ch" "sr_dimensions p = x" "sr_dimensions c = x" by auto
    have "filter (\<lambda>s. sr_dimensions s = x) pg = [p]" using distinct_filter_single [of sr_dimensions pg p] d pc by simp
    moreover have "filter (\<lambda>s. sr_dimensions s = x) ch = [c]" using distinct_filter_single [of sr_dimensions ch c] d pc by simp
    ultimately show "\<exists>p c. filter (\<lambda>s. sr_dimensions s = x) pg = [p] \<and> filter (\<lambda>s. sr_dimensions s = x) ch = [c] \<and>
      duplicates p = 0 \<and> duplicates c = 0 \<and> row_agrees tol p c" using d pc by auto
  qed
qed

lemma reconcile_none:
  assumes "list_all (row_valid env) pg" and "list_all (row_valid env) ch" and "list_all counts_valid pg" and "tolerance_valid tol"
    and "stringify_faithful env"
  shows "\<exists>ds. reconcileSnapshots env pg ch tol None = Inr ds \<and> (ds = [] \<longleftrightarrow> snapshots_agree tol pg ch)"
proof -
  let ?r = "reconcileSnapshots env pg ch tol None"
  let ?b = "\<lambda>k. key_diffs tol (bucket env pg k) (bucket env ch k)"
  have r: "?r = append_res (concat_res (map ?b (js_sort (remdups (map (row_key env) (pg @ ch)))))) (Inr [])"
    using reconcile_buckets [OF assms(1,2)] by (simp add: watermark_diffs_def)
  have b: "succeeds (?b k)" "?b k = Inr [] \<longleftrightarrow> (\<exists>p c. bucket env pg k = [p] \<and> bucket env ch k = [c] \<and> duplicates p = 0 \<and> duplicates c = 0 \<and> row_agrees tol p c)"
    if k: "k \<in> row_key env ` (set pg \<union> set ch)" for k
  proof -
    have "list_all (row_valid env) (bucket env pg k)" "list_all (row_valid env) (bucket env ch k)" "list_all counts_valid (bucket env pg k)"
      using assms(1-3) by (auto simp: list_all_iff bucket_def)
    moreover have "bucket env pg k \<noteq> [] \<or> bucket env ch k \<noteq> []" using k by (auto simp: bucket_def filter_empty_conv)
    ultimately show "succeeds (?b k)" "?b k = Inr [] \<longleftrightarrow> (\<exists>p c. bucket env pg k = [p] \<and> bucket env ch k = [c] \<and> duplicates p = 0 \<and> duplicates c = 0 \<and> row_agrees tol p c)"
      using bucket_diffs [OF _ _ _ assms(4)] by blast+
  qed
  have "succeeds ?r" unfolding r using b(1) by (auto simp: succeeds_concat list_all_iff)
  then obtain ds where ds: "?r = Inr ds" by (auto simp: succeeds_def)
  have "ds = [] \<longleftrightarrow> ?r = Inr []" using ds by simp
  also have "\<dots> \<longleftrightarrow> (\<forall>k \<in> row_key env ` (set pg \<union> set ch). ?b k = Inr [])"
    unfolding r by (auto simp: concat_res_Nil_iff list_all_iff)
  also have "\<dots> \<longleftrightarrow> (\<forall>d \<in> sr_dimensions ` (set pg \<union> set ch). \<exists>p c. filter (\<lambda>s. sr_dimensions s = d) pg = [p] \<and>
      filter (\<lambda>s. sr_dimensions s = d) ch = [c] \<and> duplicates p = 0 \<and> duplicates c = 0 \<and> row_agrees tol p c)"
    using b(2) bucket_same [OF assms(5)] by auto
  finally show ?thesis using ds buckets_agree_iff by simp
qed

text \<open>With one row per bucket the order of the rows does not matter.\<close>

lemma bucket_perm:
  assumes "mset rows = mset rows'" and "distinct (map (row_key env) rows)"
  shows "bucket env rows k = bucket env rows' k"
proof -
  have d: "distinct (map (row_key env) rows')" using assms mset_eq_imp_distinct_iff [of "map (row_key env) rows" "map (row_key env) rows'"] by simp
  have s: "set rows = set rows'" using assms(1) by (rule mset_eq_setD)
  show ?thesis
  proof (cases "k \<in> row_key env ` set rows")
    case True
    then obtain r where r: "r \<in> set rows" "k = row_key env r" by blast
    then show ?thesis
      using distinct_filter_single [OF assms(2) r(1)] distinct_filter_single [OF d, of r] s by (simp add: bucket_def)
  next
    case False
    then have "bucket env rows k = []" "bucket env rows' k = []" using s by (auto simp: bucket_def filter_empty_conv)
    then show ?thesis by simp
  qed
qed

lemma reconcile_perm:
  assumes "list_all (row_valid env) pg" and "list_all (row_valid env) ch" and "mset pg = mset pg'" and "mset ch = mset ch'"
    and "distinct (map (row_key env) pg)" and "distinct (map (row_key env) ch)"
  shows "reconcileSnapshots env pg' ch' tol wm = reconcileSnapshots env pg ch tol wm"
proof -
  have sets: "set pg' = set pg" "set ch' = set ch" using assms(3,4) by (metis mset_eq_setD)+
  have keys: "js_sort (remdups (map (row_key env) (pg' @ ch'))) = js_sort (remdups (map (row_key env) (pg @ ch)))"
    by (rule js_sort_cong) (simp add: sets)
  have "list_all (row_valid env) pg'" "list_all (row_valid env) ch'" using assms(1,2) by (simp_all add: list_all_iff sets)
  then show ?thesis
    unfolding reconcile_buckets [OF assms(1,2)] by (simp add: reconcile_buckets keys bucket_perm [OF assms(3,5)] bucket_perm [OF assms(4,6)] del: map_append)
qed

subsection \<open>Reading CSV\<close>

text \<open>A reader after RFC 4180: \<open>Start\<close> is the beginning of a cell, \<open>Closing\<close> follows a quote inside a quoted cell.\<close>

datatype csv_mode = Start | Plain | Quoted | Closing

type_synonym csv_state = "string list list \<times> string list \<times> string \<times> csv_mode"

definition end_cell :: "char \<Rightarrow> csv_mode \<Rightarrow> csv_state \<Rightarrow> csv_state" where
  "end_cell c m st = (case st of (rows, row, cell, _) \<Rightarrow>
     if c = CHR '','' then (rows, row @ [cell], [], Start)
     else if c = CHR 10 then (rows @ [row @ [cell]], [], [], Start)
     else (rows, row, cell @ [c], m))"

definition csv_step :: "csv_state \<Rightarrow> char \<Rightarrow> csv_state" where
  "csv_step st c = (case st of (rows, row, cell, m) \<Rightarrow>
     (case m of
        Start \<Rightarrow> if c = quote_char then (rows, row, cell, Quoted) else end_cell c Plain st
      | Plain \<Rightarrow> end_cell c Plain st
      | Quoted \<Rightarrow> if c = quote_char then (rows, row, cell, Closing) else (rows, row, cell @ [c], Quoted)
      | Closing \<Rightarrow> if c = quote_char then (rows, row, cell @ [c], Quoted) else end_cell c Plain st))"

definition parse_csv :: "string \<Rightarrow> string list list" where
  "parse_csv s = fst (foldl csv_step ([], [], [], Start) s)"

lemma quoted_body:
  "foldl csv_step (rows, row, cell, Quoted) (concat (map (\<lambda>x. if x = quote_char then [quote_char, quote_char] else [x]) t)) =
    (rows, row, cell @ t, Quoted)"
  by (induction t arbitrary: cell) (simp_all add: csv_step_def)

lemma plain_body:
  assumes "\<not> list_ex (\<lambda>x. x \<in> {quote_char, CHR '','', CHR 13, CHR 10}) t"
  shows "foldl csv_step (rows, row, cell, Plain) t = (rows, row, cell @ t, Plain)"
  using assms by (induction t arbitrary: cell) (simp_all add: csv_step_def end_cell_def)

lemma cell_read:
  "\<exists>m. foldl csv_step (rows, row, [], Start) (csv env c) = (rows, row, cell_text env c, m) \<and> m \<noteq> Quoted"
proof (cases "list_ex (\<lambda>x. x \<in> {quote_char, CHR '','', CHR 13, CHR 10}) (cell_text env c)")
  case True
  have "csv_step (rows, row, [], Start) quote_char = (rows, row, [], Quoted)"
    "csv_step (rows, row, cell_text env c, Quoted) quote_char = (rows, row, cell_text env c, Closing)" by (simp_all add: csv_step_def)
  then show ?thesis using True by (simp add: csv_def Let_def quoted_body)
next
  case False
  show ?thesis
  proof (cases "cell_text env c")
    case Nil
    then show ?thesis by (simp add: csv_def Let_def)
  next
    case (Cons x t)
    have x: "csv_step (rows, row, [], Start) x = (rows, row, [x], Plain)" using False by (auto simp: Cons csv_step_def end_cell_def)
    have "\<not> list_ex (\<lambda>x. x \<in> {quote_char, CHR '','', CHR 13, CHR 10}) t" using False by (simp add: Cons)
    from plain_body [OF this] have "foldl csv_step (rows, row, [], Start) (x # t) = (rows, row, x # t, Plain)" using x by simp
    then show ?thesis using False by (simp add: csv_def Let_def Cons)
  qed
qed

lemma separator_read:
  assumes "m \<noteq> Quoted"
  shows "csv_step (rows, row, cell, m) CHR '','' = (rows, row @ [cell], [], Start)"
    and "csv_step (rows, row, cell, m) CHR 10 = (rows @ [row @ [cell]], [], [], Start)"
  using assms by (cases m; simp add: csv_step_def end_cell_def quote_char_def)+

lemma row_read:
  "cs \<noteq> [] \<Longrightarrow> foldl csv_step (rows, row, [], Start) (join_with '','' (map (csv env) cs) @ [CHR 10]) =
    (rows @ [row @ map (cell_text env) cs], [], [], Start)"
proof (induction cs arbitrary: row)
  case (Cons c cs)
  obtain m where m: "foldl csv_step (rows, row, [], Start) (csv env c) = (rows, row, cell_text env c, m)" "m \<noteq> Quoted"
    using cell_read by blast
  note sep = separator_read [OF m(2)]
  show ?case
  proof (cases cs)
    case Nil
    then show ?thesis using m(1) sep by simp
  next
    case (Cons d ds)
    then show ?thesis using Cons.IH [of "row @ [cell_text env c]"] m(1) sep by simp
  qed
qed simp

lemma rows_read:
  assumes "list_all (\<lambda>cs. cs \<noteq> []) rs" and "rs \<noteq> []"
  shows "foldl csv_step (rows, [], [], Start) (csv_lines env rs) = (rows @ map (map (cell_text env)) rs, [], [], Start)"
  using assms
proof (induction rs arbitrary: rows)
  case (Cons r rs)
  have r: "foldl csv_step (rows, [], [], Start) (join_with '','' (map (csv env) r) @ [CHR 10]) = (rows @ [map (cell_text env) r], [], [], Start)"
    using row_read [of r rows "[]" env] Cons.prems by simp
  show ?case
  proof (cases rs)
    case Nil
    then show ?thesis using r by (simp add: csv_lines_def)
  next
    case (Cons x xs)
    have "csv_lines env (r # rs) = (join_with '','' (map (csv env) r) @ [CHR 10]) @ csv_lines env rs"
      by (simp add: csv_lines_def Cons)
    then show ?thesis using r Cons.IH [of "rows @ [map (cell_text env) r]"] Cons.prems Cons by simp
  qed
qed simp

lemma export_read: "parse_csv (exportReconciliationDiffsCsv env ds) = csv_header # map (map (cell_text env) \<circ> diff_cells) ds"
proof -
  have "list_all (\<lambda>cs. cs \<noteq> []) (map Text csv_header # map diff_cells ds)"
    by (simp add: list_all_iff csv_header_def diff_cells_def)
  from rows_read [OF this, of "[]" env] show ?thesis
    by (simp add: parse_csv_def exportReconciliationDiffsCsv_def comp_def cell_text_def)
qed

subsection \<open>The watermark of a run\<close>

text \<open>ClickHouse is behind PostgreSQL and its last delivery is longer ago than the tolerance admits.\<close>

definition watermark_dates :: "reconciliation_watermark \<Rightarrow> string list" where
  "watermark_dates m = [wm_pgEventTime m, wm_chEventTime m, wm_chLastSuccessAt m, wm_now m]"

definition stalled :: "'e ingest_env_scheme \<Rightarrow> ReconciliationTolerance \<Rightarrow> reconciliation_watermark \<Rightarrow> bool" where
  "stalled env tol m \<longleftrightarrow>
     date_ms env (wm_chEventTime m) < date_ms env (wm_pgEventTime m) \<and>
     to_watermarkStallSeconds tol * 1000 < date_ms env (wm_now m) - date_ms env (wm_chLastSuccessAt m)"

lemma reconcile_watermark:
  assumes rows: "list_all (row_valid env) pg" "list_all (row_valid env) ch" "list_all counts_valid pg" "tolerance_valid tol"
    "stringify_faithful env"
  shows "if list_all (date_parses env) (watermark_dates m)
    then \<exists>ds. reconcileSnapshots env pg ch tol (Some m) = Inr ds \<and> (ds = [] \<longleftrightarrow> snapshots_agree tol pg ch \<and> \<not> stalled env tol m)
    else reconcileSnapshots env pg ch tol (Some m) = Inl ''watermark timestamps are invalid''"
proof -
  obtain ds where ds: "reconcileSnapshots env pg ch tol None = Inr ds" "ds = [] \<longleftrightarrow> snapshots_agree tol pg ch"
    using reconcile_none [OF rows] by blast
  let ?x = "concat_res (map (\<lambda>k. key_diffs tol (bucket env pg k) (bucket env ch k)) (js_sort (remdups (map (row_key env) (pg @ ch)))))"
  have "?x = Inr ds" using ds(1) by (cases ?x) (simp_all add: reconcile_buckets [OF rows(1,2)] watermark_diffs_def append_res_def)
  then have r: "reconcileSnapshots env pg ch tol (Some m) = append_res (Inr ds) (watermark_diffs env tol (Some m))"
    using reconcile_buckets [OF rows(1,2), of tol "Some m"] by simp
  show ?thesis
    unfolding r using ds(2)
    by (auto simp: append_res_def watermark_diffs_def watermark_dates_def stalled_def pushed_def diff_def)
qed

end
