(* ===== verification/ReconciliationSteps.thy ===== *)
theory ReconciliationSteps
  imports ReconciliationRuns ReconciliationFacts
begin

text \<open>
  The step relation of all services that write the tables of reconciliation, its invariant, what a run that failed can
  still become, and the course of single runs.
\<close>

subsection \<open>The services together\<close>

record recon_sys =
  rs_db :: ReconDb
  rs_claimed :: "string list"

definition fresh_run :: "string \<Rightarrow> ReconDb \<Rightarrow> bool" where
  "fresh_run k db \<longleftrightarrow> k \<notin> rn_id ` set (rc_runs db)"

text \<open>One transaction of any service.  An executor of operations completes or fails only what it has claimed.\<close>

inductive recon_step :: "recon_sys \<Rightarrow> recon_sys \<Rightarrow> bool" where
  queue: "createQueued (env :: ingest_env) newId now plan requestedBy key (rs_db s) = (db', k) \<Longrightarrow> fresh_run newId (rs_db s) \<Longrightarrow>
    recon_step s (s\<lparr>rs_db := db'\<rparr>)"
| request: "createRun (env :: ingest_env) c inp (rs_db s) = (db', answer) \<Longrightarrow> fresh_run (ac_newId c) (rs_db s) \<Longrightarrow> recon_step s (s\<lparr>rs_db := db'\<rparr>)"
| replay: "replayDiff (env :: ingest_env) c database earliest k inp (rs_db s) = (db', reply) \<Longrightarrow> fresh_run (ac_newId c) (rs_db s) \<Longrightarrow>
    recon_step s (s\<lparr>rs_db := db'\<rparr>)"
| rebuild: "rebuildClickHouse c database earliest inp (rs_db s) = (db', answer) \<Longrightarrow> fresh_run (ac_newId c) (rs_db s) \<Longrightarrow>
    recon_step s (s\<lparr>rs_db := db'\<rparr>)"
| resolve: "resolveDiff c k inp (rs_db s) = Inr db' \<Longrightarrow> recon_step s (s\<lparr>rs_db := db'\<rparr>)"
| claimed: "claim_run (env :: ingest_env) runId now (rs_db s) = (db', p) \<Longrightarrow> recon_step s (s\<lparr>rs_db := db'\<rparr>)"
| replaced: "replaceDiffs newIds now runId ds (rs_db s) = Inr db' \<Longrightarrow> recon_step s (s\<lparr>rs_db := db'\<rparr>)"
| completed: "repository_complete (env :: ingest_env) runId now wm summary (rs_db s) = Inr db' \<Longrightarrow> recon_step s (s\<lparr>rs_db := db'\<rparr>)"
| failed: "recon_step s (s\<lparr>rs_db := repository_fail runId now message (rs_db s)\<rparr>)"
| operation: "claim runId expected now (rc_runs (rs_db s)) = Inr (runs', Some x) \<Longrightarrow>
    recon_step s (s\<lparr>rs_db := (rs_db s)\<lparr>rc_runs := runs'\<rparr>, rs_claimed := runId # rs_claimed s\<rparr>)"
| operated: "runId \<in> set (rs_claimed s) \<Longrightarrow>
    recon_step s (s\<lparr>rs_db := (rs_db s)\<lparr>rc_runs := complete_run runId now (rc_runs (rs_db s))\<rparr>\<rparr>)"
| broken: "runId \<in> set (rs_claimed s) \<Longrightarrow>
    recon_step s (s\<lparr>rs_db := (rs_db s)\<lparr>rc_runs := fail_run runId message now (rc_runs (rs_db s))\<rparr>\<rparr>)"

definition recon_start :: recon_sys where
  "recon_start = \<lparr>rs_db = \<lparr>rc_runs = [], rc_diffs = [], rc_audit = [], rc_jobs = []\<rparr>, rs_claimed = []\<rparr>"

inductive recon_reachable :: "recon_sys \<Rightarrow> bool" where
  start: "recon_reachable recon_start"
| step: "recon_reachable s \<Longrightarrow> recon_step s s' \<Longrightarrow> recon_reachable s'"

text \<open>A comparison, as opposed to an operation.\<close>

definition is_comparison :: "RunRow \<Rightarrow> bool" where
  "is_comparison r \<longleftrightarrow> \<not> envelope_ok (rn_scopeJson r)"

text \<open>Ids and idempotency keys are unique, and what executors hold are operations.\<close>

definition runs_inv :: "recon_sys \<Rightarrow> bool" where
  "runs_inv s \<longleftrightarrow>
     (let runs = rc_runs (rs_db s) in
      distinct (map rn_id runs) \<and>
      distinct (List.map_filter rr_idempotencyKey runs) \<and>
      list_all (\<lambda>r. rn_id r \<in> set (rs_claimed s) \<longrightarrow> \<not> is_comparison r) runs \<and> set (rs_claimed s) \<subseteq> rn_id ` set runs)"

text \<open>What a transaction may do to the table of runs: change rows in place, never their identity, or append a new one.\<close>

definition same_identity :: "RunRow \<Rightarrow> RunRow \<Rightarrow> bool" where
  "same_identity r r' \<longleftrightarrow> rn_id r' = rn_id r \<and> rr_idempotencyKey r' = rr_idempotencyKey r \<and> rn_scopeJson r' = rn_scopeJson r"

definition settled :: "RunRow \<Rightarrow> RunRow \<Rightarrow> bool" where
  "settled r r' \<longleftrightarrow> same_identity r r' \<and> (rn_status r = Run_failed \<and> is_comparison r \<longrightarrow> r' = r)"

inductive runs_change :: "RunRow list \<Rightarrow> RunRow list \<Rightarrow> bool" where
  inplace: "list_all2 settled runs runs' \<Longrightarrow> runs_change runs runs'"
| insert: "rn_id new \<notin> rn_id ` set runs \<Longrightarrow>
    (case rr_idempotencyKey new of None \<Rightarrow> True | Some k \<Rightarrow> k \<notin> set (List.map_filter rr_idempotencyKey runs)) \<Longrightarrow>
    runs_change runs (runs @ [new])"

lemma settled_refl: "settled r r"
  by (simp add: settled_def same_identity_def)

lemma update_change:
  assumes "\<And>r. r \<in> set runs \<Longrightarrow> p r \<Longrightarrow> settled r (f r)"
  shows "runs_change runs (update_rows p f runs)"
proof (rule runs_change.inplace)
  show "list_all2 settled runs (update_rows p f runs)"
    using assms settled_refl by (auto simp: update_rows_def list_all2_map2 intro!: list.rel_refl_strong)
qed

lemma no_change: "runs_change runs runs"
  by (rule runs_change.inplace) (simp add: list.rel_refl settled_refl)

lemma upsert_change:
  assumes "upsert_run key new db = (db', r)" and "fresh_run (rn_id new) db" and "rr_idempotencyKey new = Some key"
  shows "runs_change (rc_runs db) (rc_runs db')"
proof (cases "find_unique (\<lambda>r. rr_idempotencyKey r = Some key) (rc_runs db)")
  case None
  then have "key \<notin> set (List.map_filter rr_idempotencyKey (rc_runs db))"
    by (auto simp: find_unique_None map_filter_def)
  then have "runs_change (rc_runs db) (rc_runs db @ [new])"
    by (intro runs_change.insert) (use assms(2,3) in \<open>simp_all add: fresh_run_def\<close>)
  then show ?thesis using assms(1) None by (auto simp: upsert_run_def)
next
  case (Some x)
  then show ?thesis using assms(1) no_change by (simp add: upsert_run_def)
qed

lemma createQueued_change:
  assumes "createQueued env newId now plan requestedBy key db = (db', k)" and "fresh_run newId db"
  shows "runs_change (rc_runs db) (rc_runs db')"
proof (cases key)
  case None
  then have "rc_runs db' = rc_runs db @ [new_run env newId now plan (scope_json plan (pl_asynchronous plan)) requestedBy None]"
    using assms(1) by (auto simp: createQueued_def)
  moreover have "runs_change (rc_runs db) (rc_runs db @ [new_run env newId now plan (scope_json plan (pl_asynchronous plan)) requestedBy None])"
    by (rule runs_change.insert) (use assms(2) in \<open>simp_all add: fresh_run_def new_run_def\<close>)
  ultimately show ?thesis by simp
next
  case (Some key)
  let ?new = "new_run env newId now plan (scope_json plan (pl_asynchronous plan)) requestedBy (Some key)"
  obtain db1 r where u: "upsert_run key ?new db = (db1, r)" by fastforce
  have "db1 = db'" using assms(1) u by (simp add: createQueued_def Some)
  then show ?thesis using upsert_change [OF u] assms(2) by (simp add: new_run_def)
qed

lemma enqueue_job_runs: "enqueue_job b kind runId db = (db', r) \<Longrightarrow> rc_runs db' = rc_runs db"
  by (auto simp: enqueue_job_def Let_def split: if_splits)

lemma after_queue_runs: "after_queue x (enqueue_job b kind runId db) = (db', r) \<Longrightarrow> rc_runs db' = rc_runs db"
  using enqueue_job_runs by (auto simp: after_queue_def split: prod.splits sum.splits)

lemma audited_runs [simp]: "rc_runs (audited a k r db) = rc_runs db"
  by (simp add: audited_def)

lemma operation_change:
  assumes "fresh_run (ac_newId c) db"
  shows "runs_change (rc_runs db) (rc_runs (createOperationRun c t a e operation plan source reason db))"
  by (simp add: createOperationRun_def) (rule runs_change.insert, use assms in \<open>simp_all add: fresh_run_def\<close>)

lemma queue_rebuild_change:
  assumes "queue_rebuild c earliest plan source reason db = (db', r)" and "fresh_run (ac_newId c) db"
  shows "runs_change (rc_runs db) (rc_runs db')"
proof -
  have "rc_runs db' = rc_runs (createOperationRun c ''REBUILD'' (case earliest of None \<Rightarrow> ac_now c | Some t \<Rightarrow> t) (ac_now c) ''rebuild''
      (rebuild_json plan) source reason db)"
    using assms(1) after_queue_runs by (auto simp: queue_rebuild_def Let_def)
  then show ?thesis using operation_change [OF assms(2)] by simp
qed

lemma createRun_change:
  assumes "createRun env c inp db = (db', answer)" and "fresh_run (ac_newId c) db"
  shows "runs_change (rc_runs db) (rc_runs db')"
proof (cases "db' = db")
  case False
  from assms(1) False obtain plan db1 r where
    u: "upsert_run (manual_key env plan) (new_run env (ac_newId c) (ac_now c) plan (scope_json plan True) None (Some (manual_key env plan))) db = (db1, r)"
    and q: "after_queue (rn_id r) (enqueue_job (ac_queueReachable c) ''run'' (rn_id r)
      (audited ''reconciliation.run.requested'' (rn_id r) (event_text inp ''reason'') db1)) = (db', answer)"
    by (auto simp: createRun_def Let_def split: if_splits sum.splits prod.splits)
  show ?thesis using upsert_change [OF u] after_queue_runs [OF q] assms(2) by (simp add: new_run_def)
qed (simp add: no_change)

lemma replayDiff_change:
  assumes "replayDiff env c database earliest k inp db = (db', reply)" and "fresh_run (ac_newId c) db"
  shows "runs_change (rc_runs db) (rc_runs db')"
proof (cases "replaySchema inp")
  case False
  then show ?thesis using assms(1) no_change by (simp add: replayDiff_def)
next
  case schema: True
  show ?thesis
  proof (cases "find_diff (ac_applicationId c) k db")
    case None
    then show ?thesis using assms(1) schema no_change by (simp add: replayDiff_def Let_def)
  next
    case (Some dr)
    obtain d run where dr: "dr = (d, run)" by fastforce
    note call = assms(1) [unfolded replayDiff_def Let_def] schema Some dr
    show ?thesis
    proof (cases "replayTypeForDiff (pf_diffType d)")
      case (Inl m)
      then show ?thesis using call assms(2) no_change
        by (auto split: sum.splits if_splits option.splits prod.splits intro: queue_rebuild_change)
    next
      case (Inr t)
      then show ?thesis using call no_change operation_change [OF assms(2)]
        by (auto split: sum.splits if_splits option.splits dest!: after_queue_runs)
    qed
  qed
qed

lemma rebuildClickHouse_change:
  assumes "rebuildClickHouse c database earliest inp db = (db', answer)" and "fresh_run (ac_newId c) db"
  shows "runs_change (rc_runs db) (rc_runs db')"
  using assms no_change by (auto simp: rebuildClickHouse_def split: if_splits sum.splits intro: queue_rebuild_change)

lemma in_place_fields:
  assumes "list_all2 settled runs runs'"
  shows "map rn_id runs' = map rn_id runs" and "map rr_idempotencyKey runs' = map rr_idempotencyKey runs"
    and "map rn_scopeJson runs' = map rn_scopeJson runs"
  using assms by (induction rule: list_all2_induct) (simp_all add: settled_def same_identity_def)

lemma map_filter_keys: "List.map_filter rr_idempotencyKey runs = List.map_filter id (map rr_idempotencyKey runs)"
  by (induction runs) (simp_all add: map_filter_simps split: option.split)

lemma in_map_filter: "k \<in> set (List.map_filter f xs) \<longleftrightarrow> (\<exists>x \<in> set xs. f x = Some k)"
  by (induction xs) (auto simp: map_filter_simps split: option.splits)

lemma id_row_unique:
  assumes "distinct (map rn_id runs)" and "r \<in> set runs" and "r' \<in> set runs" and "rn_id r = rn_id r'"
  shows "r = r'"
  using assms by (metis distinct_map inj_onD)

text \<open>Every transaction changes the table in one of the two ways, and claims only operations.\<close>

lemma step_change:
  assumes "recon_step s s'" and "runs_inv s"
  shows "runs_change (rc_runs (rs_db s)) (rc_runs (rs_db s')) \<and>
    (rs_claimed s' = rs_claimed s \<or>
     (\<exists>r \<in> set (rc_runs (rs_db s)). rs_claimed s' = rn_id r # rs_claimed s \<and> \<not> is_comparison r))"
  using assms
proof (cases rule: recon_step.cases)
  case (queue env newId now plan requestedBy key db' k)
  then show ?thesis using createQueued_change [OF queue(2,3)] by simp
next
  case (request env c inp db' answer)
  then show ?thesis using createRun_change [OF request(2,3)] by simp
next
  case (replay env c database earliest k inp db' reply)
  then show ?thesis using replayDiff_change [OF replay(2,3)] by simp
next
  case (rebuild c database earliest inp db' answer)
  then show ?thesis using rebuildClickHouse_change [OF rebuild(2,3)] by simp
next
  case (resolve c k inp db')
  then have "rc_runs db' = rc_runs (rs_db s)" by (auto simp: resolveDiff_def Let_def split: if_splits option.splits)
  then show ?thesis using resolve(1) no_change by simp
next
  case (claimed env runId now db' p)
  have "runs_change (rc_runs (rs_db s)) (update_rows (\<lambda>r. rn_id r = runId \<and> rn_status r = Run_queued)
      (\<lambda>r. r\<lparr>rn_status := Run_running, rn_startedAt := now, rn_error := None\<rparr>) (rc_runs (rs_db s)))"
    by (rule update_change) (simp add: settled_def same_identity_def)
  then show ?thesis using claimed no_change by (auto simp: claim_run_def Let_def split: if_splits)
next
  case (replaced newIds now runId ds db')
  then have "rc_runs db' = rc_runs (rs_db s)" by (auto simp: replaceDiffs_def split: if_splits)
  then show ?thesis using replaced(1) no_change by simp
next
  case (completed env runId now wm summary db')
  then have "rc_runs db' = update_rows (\<lambda>r. rn_id r = runId \<and> rn_status r = Run_running) (\<lambda>r. r\<lparr>rn_status := Run_completed,
      rn_finishedAt := Some now, rn_error := None, rr_pgWatermark := Some (date_ms env (rw_pgEventTime wm)),
      rr_chWatermark := Some (date_ms env (rw_chEventTime wm)), rr_summaryJson := persistedSummary summary\<rparr>) (rc_runs (rs_db s))"
    by (auto simp: repository_complete_def Let_def split: if_splits)
  moreover have "runs_change (rc_runs (rs_db s)) \<dots>" by (rule update_change) (simp add: settled_def same_identity_def)
  ultimately show ?thesis using completed(1) by simp
next
  case (failed runId now message)
  have "runs_change (rc_runs (rs_db s)) (rc_runs (repository_fail runId now message (rs_db s)))"
    unfolding repository_fail_def by simp (rule update_change, simp add: settled_def same_identity_def)
  then show ?thesis using failed by simp
next
  case (operation runId expected now runs' x)
  let ?p = "\<lambda>r. rn_id r = runId \<and> rn_status r \<in> {Run_queued, Run_failed}"
  from operation(2) obtain run where run: "find_unique (\<lambda>r. rn_id r = runId) (rc_runs (rs_db s)) = Some run" "envelope_ok (rn_scopeJson run)"
    and runs': "runs' = update_rows ?p (\<lambda>r. r\<lparr>rn_status := Run_running, rn_startedAt := now, rn_error := None\<rparr>) (rc_runs (rs_db s))"
    by (auto simp: claim_def Let_def split: if_splits option.splits)
  note mem = find_unique_SomeD [OF run(1)]
  have dist: "distinct (map rn_id (rc_runs (rs_db s)))" using assms(2) by (simp add: runs_inv_def Let_def)
  have "runs_change (rc_runs (rs_db s)) runs'" unfolding runs'
  proof (rule update_change)
    fix r assume r: "r \<in> set (rc_runs (rs_db s))" "?p r"
    have "r = run" by (rule id_row_unique [OF dist r(1)]) (use mem r(2) in simp_all)
    then show "settled r (r\<lparr>rn_status := Run_running, rn_startedAt := now, rn_error := None\<rparr>)"
      using run(2) by (simp add: settled_def same_identity_def is_comparison_def)
  qed
  moreover have "\<not> is_comparison run" "rs_claimed s' = rn_id run # rs_claimed s" using run(2) mem operation(1) by (simp_all add: is_comparison_def)
  ultimately show ?thesis using operation(1) mem by auto
next
  case (operated runId now)
  have "runs_change (rc_runs (rs_db s)) (complete_run runId now (rc_runs (rs_db s)))"
    unfolding complete_run_def
    by (rule update_change) (use assms(2) operated(2) in \<open>auto simp: runs_inv_def Let_def list_all_iff settled_def same_identity_def\<close>)
  then show ?thesis using operated(1) by simp
next
  case (broken runId message now)
  have "runs_change (rc_runs (rs_db s)) (fail_run runId message now (rc_runs (rs_db s)))"
    unfolding fail_run_def by (rule update_change) (simp add: settled_def same_identity_def)
  then show ?thesis using broken(1) by simp
qed

lemma change_keeps_inv:
  assumes "runs_change runs runs'" and "distinct (map rn_id runs)" and "distinct (List.map_filter rr_idempotencyKey runs)"
    and "list_all (\<lambda>r. rn_id r \<in> C \<longrightarrow> \<not> is_comparison r) runs" and "C \<subseteq> rn_id ` set runs"
  shows "distinct (map rn_id runs') \<and> distinct (List.map_filter rr_idempotencyKey runs') \<and>
    list_all (\<lambda>r. rn_id r \<in> C \<longrightarrow> \<not> is_comparison r) runs' \<and> C \<subseteq> rn_id ` set runs'"
  using assms(1)
proof cases
  case inplace
  note f = in_place_fields [OF inplace]
  have "list_all (\<lambda>r. rn_id r \<in> C \<longrightarrow> \<not> is_comparison r) runs'"
    using inplace assms(4) by (induction rule: list_all2_induct) (auto simp: settled_def same_identity_def is_comparison_def)
  moreover have "rn_id ` set runs' = rn_id ` set runs" using arg_cong [OF f(1), of set] by simp
  ultimately show ?thesis using assms(2,3,5) f by (simp add: map_filter_keys)
next
  case (insert new)
  have "rn_id new \<notin> C" using insert(2) assms(5) by blast
  moreover have "List.map_filter rr_idempotencyKey (runs @ [new]) =
      List.map_filter rr_idempotencyKey runs @ (case rr_idempotencyKey new of None \<Rightarrow> [] | Some k \<Rightarrow> [k])"
    by (simp add: map_filter_def split: option.split)
  ultimately show ?thesis using insert assms(2-5) by (auto split: option.splits)
qed

lemma step_inv:
  assumes "recon_step s s'" and "runs_inv s"
  shows "runs_inv s'"
proof -
  note inv = assms(2) [unfolded runs_inv_def Let_def]
  note change = step_change [OF assms]
  have C: "list_all (\<lambda>r. rn_id r \<in> set (rs_claimed s') \<longrightarrow> \<not> is_comparison r) (rc_runs (rs_db s))" "set (rs_claimed s') \<subseteq> rn_id ` set (rc_runs (rs_db s))"
  proof -
    show "list_all (\<lambda>r. rn_id r \<in> set (rs_claimed s') \<longrightarrow> \<not> is_comparison r) (rc_runs (rs_db s))"
      using change inv id_row_unique by (fastforce simp: list_all_iff)
    show "set (rs_claimed s') \<subseteq> rn_id ` set (rc_runs (rs_db s))" using change inv by auto
  qed
  show ?thesis unfolding runs_inv_def Let_def
    using change_keeps_inv [OF conjunct1 [OF change] _ _ C] inv by blast
qed

lemma reachable_runs_inv: "recon_reachable s \<Longrightarrow> runs_inv s"
proof (induction rule: recon_reachable.induct)
  case start
  then show ?case by (simp add: recon_start_def runs_inv_def map_filter_simps)
next
  case (step s s')
  then show ?case using step_inv by blast
qed

text \<open>A comparison that failed keeps its row.\<close>

lemma failed_kept:
  assumes "recon_step\<^sup>*\<^sup>* s s'" and "runs_inv s" and "r \<in> set (rc_runs (rs_db s))" and "rn_status r = Run_failed" and "is_comparison r"
  shows "runs_inv s' \<and> r \<in> set (rc_runs (rs_db s'))"
  using assms(1)
proof (induction rule: rtranclp_induct)
  case base
  then show ?case using assms(2,3) by simp
next
  case (step t u)
  have "runs_change (rc_runs (rs_db t)) (rc_runs (rs_db u))" using step_change [OF step.hyps(2)] step.IH by simp
  then have "r \<in> set (rc_runs (rs_db u))"
  proof cases
    case inplace
    from step.IH obtain i where "i < length (rc_runs (rs_db t))" "rc_runs (rs_db t) ! i = r" by (auto simp: in_set_conv_nth)
    then have "settled r (rc_runs (rs_db u) ! i)" "i < length (rc_runs (rs_db u))" using inplace by (auto simp: list_all2_conv_all_nth)
    then show ?thesis using assms(4,5) by (auto simp: settled_def in_set_conv_nth)
  next
    case (insert new)
    then show ?thesis using step.IH by simp
  qed
  then show ?case using step_inv [OF step.hyps(2)] step.IH by simp
qed

lemma claim_refused:
  assumes "runs_inv s" and "r \<in> set (rc_runs (rs_db s))" and "rn_status r \<noteq> Run_queued"
  shows "claim_run env (rn_id r) now (rs_db s) = (rs_db s, None)"
proof -
  have dist: "distinct (map rn_id (rc_runs (rs_db s)))" using assms(1) by (simp add: runs_inv_def Let_def)
  have "\<not> (rn_id x = rn_id r \<and> rn_status x = Run_queued)" if "x \<in> set (rc_runs (rs_db s))" for x
    using id_row_unique [OF dist that assms(2)] assms(3) by blast
  then have "count_rows (\<lambda>x. rn_id x = rn_id r \<and> rn_status x = Run_queued) (rc_runs (rs_db s)) = 0"
    by (simp add: count_rows_def filter_empty_conv)
  then show ?thesis by (simp add: claim_run_def Let_def)
qed

lemma key_row_unique:
  assumes "distinct (List.map_filter rr_idempotencyKey runs)" and "r \<in> set runs" and "r' \<in> set runs"
    and "rr_idempotencyKey r = Some k" and "rr_idempotencyKey r' = Some k"
  shows "r = r'"
  using assms
proof (induction runs)
  case (Cons a runs)
  have "distinct (List.map_filter rr_idempotencyKey runs)" using Cons.prems(1) by (auto simp: map_filter_simps split: option.splits)
  moreover have "k \<notin> set (List.map_filter rr_idempotencyKey runs)" if "rr_idempotencyKey a = Some k"
    using Cons.prems(1) that by (simp add: map_filter_simps)
  then have "\<not> (\<exists>x \<in> set runs. rr_idempotencyKey x = Some k)" if "rr_idempotencyKey a = Some k" using that by (simp add: in_map_filter)
  ultimately show ?case using Cons by auto
qed simp

lemma upsert_known:
  assumes "runs_inv s" and "r \<in> set (rc_runs (rs_db s))" and "rr_idempotencyKey r = Some key"
  shows "upsert_run key new (rs_db s) = (rs_db s, r)"
proof -
  obtain x where x: "find_unique (\<lambda>r. rr_idempotencyKey r = Some key) (rc_runs (rs_db s)) = Some x"
    using assms(2,3) find_unique_None [of "\<lambda>r. rr_idempotencyKey r = Some key" "rc_runs (rs_db s)"] by blast
  have "distinct (List.map_filter rr_idempotencyKey (rc_runs (rs_db s)))" using assms(1) by (simp add: runs_inv_def Let_def)
  then have "x = r" using key_row_unique find_unique_SomeD [OF x] assms(2,3) by blast
  then show ?thesis using x by (simp add: upsert_run_def)
qed
subsection \<open>Costs in exponent notation\<close>

lemma cost_text_digits:
  assumes "cost_text s" and "c \<in> set s"
  shows "is_digit c \<or> c = CHR ''.''"
proof -
  have s: "s = takeWhile (\<lambda>c. c \<noteq> CHR ''.'') s @ dropWhile (\<lambda>c. c \<noteq> CHR ''.'') s" by simp
  have a: "list_all is_digit (takeWhile (\<lambda>c. c \<noteq> CHR ''.'') s)"
    using assms(1) by (auto simp: cost_text_def split_point_def integer_text_def Let_def is_digit_def less_eq_char_def)
  show ?thesis
  proof (cases "dropWhile (\<lambda>c. c \<noteq> CHR ''.'') s")
    case Nil
    then show ?thesis using a s assms(2) by (metis append_Nil2 list_all_iff)
  next
    case (Cons x b)
    have x: "x = CHR ''.''" using hd_dropWhile [of "\<lambda>c. c \<noteq> CHR ''.''" s] Cons by simp
    have b: "list_all is_digit b" using assms(1) Cons by (simp add: cost_text_def split_point_def Let_def)
    have "c \<in> set (takeWhile (\<lambda>c. c \<noteq> CHR ''.'') s) \<union> insert x (set b)" using s assms(2) Cons by (metis Un_iff list.simps(15) set_append)
    then show ?thesis using a b x by (auto simp: list_all_iff)
  qed
qed

lemma exponent_refused: "CHR ''e'' \<in> set s \<Longrightarrow> \<not> cost_text s"
  using cost_text_digits [of s "CHR ''e''"] by (auto simp: is_digit_def less_eq_char_def)

lemma map_snapshot_mem:
  "map_snapshot f xs = Inr ys \<Longrightarrow> x \<in> set xs \<Longrightarrow> \<exists>y \<in> set ys. f x = Inr y"
  by (induction xs arbitrary: ys) auto

lemma map_snapshot_all:
  "map_snapshot f xs = Inr ys \<Longrightarrow> list_all2 (\<lambda>x y. f x = Inr y) xs ys"
  by (induction xs arbitrary: ys) auto

lemma exponent_fails_comparison:
  assumes "wo_loadPostgres w plan = loadPostgres env decimalString query plan" and "row \<in> set (query plan)"
    and "CHR ''e'' \<in> set (decimalString (sd_provider_cost row))"
  shows "\<exists>e. compare_stores env w plan = Inl e"
proof (cases "wo_loadPostgres w plan")
  case (Inl e)
  then show ?thesis by (simp add: compare_stores_def)
next
  case pg: (Inr pgRows)
  have "map_snapshot (postgresSnapshot env decimalString (bucket_size plan)) (query plan) = Inr pgRows"
    using pg assms(1) by (simp add: loadPostgres_def)
  from map_snapshot_mem [OF this assms(2)] obtain y where y: "y \<in> set pgRows" "postgresSnapshot env decimalString (bucket_size plan) row = Inr y" by blast
  then have "mt_providerCost (sr_metrics y) = decimalString (sd_provider_cost row)" by (auto simp: postgresSnapshot_def snapshot_metrics_def)
  then have "\<not> row_valid env y" using exponent_refused [OF assms(3)] by (simp add: row_valid_def metrics_valid_def)
  then have bad: "\<not> list_all (row_valid env) (pgRows @ chRows)" for chRows using y(1) by (auto simp: list_all_iff)
  show ?thesis
  proof (cases "wo_loadClickHouse w plan")
    case ch: (Inr chRows)
    show ?thesis
    proof (cases "wo_loadWatermarks w plan")
      case (Inr wm)
      obtain e where "reconcileSnapshots env pgRows chRows (wo_tolerance w)
        (Some \<lparr>wm_pgEventTime = rw_pgEventTime wm, wm_chEventTime = rw_chEventTime wm, wm_chLastSuccessAt = rw_chLastSuccessAt wm,
           wm_now = toISOString env (wo_now w)\<rparr>) = Inl e"
        using reconcile_invalid [OF bad] by blast
      then show ?thesis using pg ch Inr by (simp add: compare_stores_def)
    qed (use pg ch in \<open>simp add: compare_stores_def\<close>)
  qed (use pg in \<open>simp add: compare_stores_def\<close>)
qed

lemma execute_fails:
  assumes "claim_run env runId (wo_now w) db = (db1, Some plan)" and "compare_stores env w plan = Inl e"
  shows "execute env w runId db = (repository_fail runId (wo_now w) (failure_text w e) db1, Inl e)"
  using assms by (simp add: execute_def)

lemma fresh_other: "fresh_run k db \<Longrightarrow> r \<in> set (rc_runs db) \<Longrightarrow> rn_id r \<noteq> k"
  unfolding fresh_run_def by (metis imageI)

lemma claim_new:
  assumes "fresh_run (rn_id new) db" and "rn_status new = Run_queued"
  shows "claim_run env (rn_id new) now (db\<lparr>rc_runs := rc_runs db @ [new]\<rparr>) =
    (db\<lparr>rc_runs := rc_runs db @ [new\<lparr>rn_status := Run_running, rn_startedAt := now, rn_error := None\<rparr>]\<rparr>,
     Some (parsePlan env (new\<lparr>rn_status := Run_running, rn_startedAt := now, rn_error := None\<rparr>)))"
proof -
  let ?p = "\<lambda>r. rn_id r = rn_id new \<and> rn_status r = Run_queued"
  note old = fresh_other [OF assms(1)]
  then have "update_rows ?p f (rc_runs db) = rc_runs db" for f by (intro update_rows_none) blast
  moreover have "filter ?p (rc_runs db) = []" using old by (simp add: filter_empty_conv)
  moreover have "find_unique (\<lambda>r. rn_id r = rn_id new) (rc_runs db @ [x]) = Some x" if "rn_id x = rn_id new" for x
  proof -
    have "List.find (\<lambda>r. rn_id r = rn_id new) (rs @ [x]) = Some x" if "\<forall>r \<in> set rs. rn_id r \<noteq> rn_id new" for rs
      using that \<open>rn_id x = rn_id new\<close> by (induction rs) simp_all
    then show ?thesis using old by (simp add: find_unique_def)
  qed
  ultimately show ?thesis using assms(2) by (simp add: claim_run_def count_rows_def update_rows_def Let_def)
qed

lemma fail_new:
  assumes "fresh_run (rn_id new) db"
  shows "repository_fail (rn_id new) now m (db\<lparr>rc_runs := rc_runs db @ [new\<lparr>rn_status := Run_running, rn_startedAt := t, rn_error := None\<rparr>]\<rparr>) =
    db\<lparr>rc_runs := rc_runs db @ [new\<lparr>rn_status := Run_failed, rn_startedAt := t, rn_finishedAt := Some now, rn_error := Some (take 8000 m)\<rparr>]\<rparr>"
proof -
  note old = fresh_other [OF assms]
  then have "update_rows (\<lambda>r. rn_id r = rn_id new \<and> rn_status r = Run_running) f (rc_runs db) = rc_runs db" for f
    by (intro update_rows_none) blast
  then show ?thesis by (simp add: repository_fail_def update_rows_def)
qed

lemma create_new:
  assumes "key \<notin> set (List.map_filter rr_idempotencyKey (rc_runs db))"
  shows "createQueued env newId now plan by (Some key) db =
    (db\<lparr>rc_runs := rc_runs db @ [new_run env newId now plan (scope_json plan (pl_asynchronous plan)) by (Some key)]\<rparr>, newId)"
proof -
  have "find_unique (\<lambda>r. rr_idempotencyKey r = Some key) (rc_runs db) = None"
    using assms by (auto simp: find_unique_None in_map_filter)
  then show ?thesis by (simp add: createQueued_def upsert_run_def new_run_def)
qed

subsection \<open>Pseudonyms\<close>

definition pseudonymous :: "json option \<Rightarrow> bool" where
  "pseudonymous j = (case j of None \<Rightarrow> True | Some v \<Rightarrow>
     (case string_member v ''user_id'' of None \<Rightarrow> True | Some u \<Rightarrow> js_startsWith u ''user_hmac:''))"

lemma persisted_user: "string_member (persistedDimensions d) ''user_id'' = dm_userId d"
  by (cases "dm_userId d") (simp_all add: persistedDimensions_def string_member_def json_string_def jopt_def)

lemma redacted_user:
  assumes "redactReconciliationDimensions hmac secret d = Inr d'"
  shows "case dm_userId d' of None \<Rightarrow> True | Some u \<Rightarrow> js_startsWith u ''user_hmac:''"
  using assms by (auto simp: redactReconciliationDimensions_def pseudonymizeReconciliationUser_def js_startsWith_def split: option.splits if_splits)

lemma redacted_persisted:
  assumes "redact_diff w d = Inr d'" and "toPersistedDiff d' = Inr p"
  shows "pseudonymous (pf_dimensionsJson p)"
proof (cases "df_dimensions d")
  case None
  then show ?thesis using assms by (auto simp: redact_diff_def toPersistedDiff_def pseudonymous_def split: if_splits)
next
  case (Some dims)
  then obtain dims' where r: "redactReconciliationDimensions (wo_hmac w) (wo_secret w) dims = Inr dims'" "d' = d\<lparr>df_dimensions := Some dims'\<rparr>"
    using assms(1) by (auto simp: redact_diff_def)
  have "pf_dimensionsJson p = Some (persistedDimensions dims')" using assms(2) r(2) by (auto simp: toPersistedDiff_def split: if_splits)
  then show ?thesis using redacted_user [OF r(1)] by (simp add: pseudonymous_def persisted_user)
qed

lemma execute_diffs:
  assumes "execute env w runId db = (db', Inr (Some summary))"
  shows "\<exists>ds raw ps. map_snapshot (redact_diff w) raw = Inr ds \<and> map_snapshot toPersistedDiff ds = Inr ps \<and>
    rc_diffs db' = filter (\<lambda>d. dr_runId d \<noteq> runId) (rc_diffs db) @ map (\<lambda>(i, p). diff_row runId (wo_now w) (wo_newIds w i) p) (enumerate 0 ps)"
proof -
  obtain db1 p where c: "claim_run env runId (wo_now w) db = (db1, p)" by fastforce
  then have frame: "rc_diffs db1 = rc_diffs db" by (auto simp: claim_run_def Let_def split: if_splits)
  obtain plan where p: "p = Some plan" using assms c by (cases p) (simp_all add: execute_def)
  from assms c p obtain ds wm sm db2 where cs: "compare_stores env w plan = Inr (ds, wm, sm)"
    and rep: "replaceDiffs (wo_newIds w) (wo_now w) runId ds db1 = Inr db2" and comp: "repository_complete env runId (wo_now w) wm sm db2 = Inr db'"
    by (auto simp: execute_def split: sum.splits)
  obtain raw where raw: "map_snapshot (redact_diff w) raw = Inr ds" using cs by (auto simp: compare_stores_def)
  have "rc_diffs db' = rc_diffs db2" using comp by (auto simp: repository_complete_def Let_def split: if_splits)
  then show ?thesis using rep raw frame by (auto simp: replaceDiffs_def split: if_splits)
qed

lemma diff_row_fields [simp]:
  "dr_runId (diff_row runId now k p) = runId" "pf_dimensionsJson (diff_row runId now k p) = pf_dimensionsJson p"
  by (simp_all add: diff_row_def PersistedDiff.defs)

subsection \<open>The documents of differences\<close>

definition stored_dimensions :: "DiffRow \<Rightarrow> bool" where
  "stored_dimensions r \<longleftrightarrow> (\<exists>dims. pf_dimensionsJson r = map_option persistedDimensions dims)"

lemma audited_diffs [simp]: "rc_diffs (audited a k r db) = rc_diffs db"
  by (simp add: audited_def)

lemma queue_diffs: "after_queue x (enqueue_job b kind runId db) = (db', r) \<Longrightarrow> rc_diffs db' = rc_diffs db"
  by (auto simp: after_queue_def enqueue_job_def Let_def split: prod.splits sum.splits if_splits)

lemma upsert_diffs: "upsert_run key new db = (db', r) \<Longrightarrow> rc_diffs db' = rc_diffs db"
  by (auto simp: upsert_run_def split: option.splits)

lemma createQueued_diffs: "createQueued env newId now plan by key db = (db', k) \<Longrightarrow> rc_diffs db' = rc_diffs db"
  by (auto simp: createQueued_def Let_def split: option.splits prod.splits dest: upsert_diffs)

lemma createRun_diffs: "createRun env c inp db = (db', answer) \<Longrightarrow> rc_diffs db' = rc_diffs db"
  by (auto simp: createRun_def Let_def split: if_splits sum.splits prod.splits dest!: queue_diffs upsert_diffs)

lemma operation_diffs [simp]: "rc_diffs (createOperationRun c t a e operation plan source reason db) = rc_diffs db"
  by (simp add: createOperationRun_def)

lemma queue_rebuild_diffs: "queue_rebuild c earliest plan source reason db = (db', r) \<Longrightarrow> rc_diffs db' = rc_diffs db"
  by (auto simp: queue_rebuild_def Let_def dest!: queue_diffs)

lemma rebuildClickHouse_diffs: "rebuildClickHouse c database earliest inp db = (db', answer) \<Longrightarrow> rc_diffs db' = rc_diffs db"
  by (auto simp: rebuildClickHouse_def split: if_splits sum.splits dest: queue_rebuild_diffs)

lemma replayDiff_diffs:
  assumes "replayDiff env c database earliest k inp db = (db', reply)"
  shows "rc_diffs db' = rc_diffs db"
proof (cases "replaySchema inp")
  case schema: True
  show ?thesis
  proof (cases "find_diff (ac_applicationId c) k db")
    case (Some dr)
    obtain d run where dr: "dr = (d, run)" by fastforce
    note call = assms [unfolded replayDiff_def Let_def] schema Some dr
    show ?thesis
    proof (cases "replayTypeForDiff (pf_diffType d)")
      case (Inl m)
      then show ?thesis using call by (auto split: sum.splits if_splits option.splits prod.splits dest: queue_rebuild_diffs)
    next
      case (Inr t)
      then show ?thesis using call by (auto split: sum.splits if_splits option.splits dest!: queue_diffs)
    qed
  qed (use assms schema in \<open>simp add: replayDiff_def Let_def\<close>)
qed (use assms in \<open>simp add: replayDiff_def\<close>)

lemma persisted_stored:
  assumes "toPersistedDiff d = Inr p"
  shows "stored_dimensions (diff_row runId now k p)"
  using assms by (auto simp: stored_dimensions_def toPersistedDiff_def split: if_splits)

lemma enumerate_mem: "(i, p) \<in> set (enumerate n xs) \<Longrightarrow> p \<in> set xs"
  by (auto simp: enumerate_eq_zip dest: set_zip_rightD)

lemma replaceDiffs_stored:
  assumes "replaceDiffs newIds now runId ds db = Inr db'" and "list_all stored_dimensions (rc_diffs db)"
  shows "list_all stored_dimensions (rc_diffs db')"
proof -
  obtain ps where ps: "map_snapshot toPersistedDiff ds = Inr ps"
    and db': "rc_diffs db' = filter (\<lambda>d. dr_runId d \<noteq> runId) (rc_diffs db) @ map (\<lambda>(i, p). diff_row runId now (newIds i) p) (enumerate 0 ps)"
    using assms(1) by (auto simp: replaceDiffs_def split: if_splits)
  have "stored_dimensions (diff_row runId now k p)" if "p \<in> set ps" for k p
    using map_snapshot_all [OF ps] that persisted_stored by (auto simp: list_all2_conv_all_nth in_set_conv_nth)
  then show ?thesis using assms(2) unfolding db' by (auto simp: list_all_iff dest: enumerate_mem)
qed

lemma resolveDiff_stored:
  assumes "resolveDiff c k inp db = Inr db'" and "list_all stored_dimensions (rc_diffs db)"
  shows "list_all stored_dimensions (rc_diffs db')"
  using assms
  by (auto simp: resolveDiff_def Let_def list_all_iff update_rows_def stored_dimensions_def split: if_splits option.splits)

lemma reachable_diffs: "recon_reachable s \<Longrightarrow> list_all stored_dimensions (rc_diffs (rs_db s))"
proof (induction rule: recon_reachable.induct)
  case start
  then show ?case by (simp add: recon_start_def)
next
  case (step s s')
  from step.hyps(2) show ?case
  proof cases
    case (queue env newId now plan requestedBy key db' k)
    then show ?thesis using step.IH createQueued_diffs [OF queue(2)] by simp
  next
    case (request env c inp db' answer)
    then show ?thesis using step.IH createRun_diffs [OF request(2)] by simp
  next
    case (replay env c database earliest k inp db' reply)
    then show ?thesis using step.IH replayDiff_diffs [OF replay(2)] by simp
  next
    case (rebuild c database earliest inp db' answer)
    then show ?thesis using step.IH rebuildClickHouse_diffs [OF rebuild(2)] by simp
  next
    case (resolve c k inp db')
    then show ?thesis using resolveDiff_stored [OF resolve(2) step.IH] by simp
  next
    case (replaced newIds now runId ds db')
    then show ?thesis using replaceDiffs_stored [OF replaced(2) step.IH] by simp
  qed (use step.IH in \<open>auto simp: claim_run_def repository_complete_def repository_fail_def Let_def split: if_splits\<close>)
qed

text \<open>Executing a run is a sequence of steps of the services.\<close>

lemma execute_reachable:
  fixes env :: ingest_env
  assumes "recon_reachable s" and "execute env w runId (rs_db s) = (db', answer)"
  shows "recon_reachable (s\<lparr>rs_db := db'\<rparr>)"
proof -
  obtain db1 p where c: "claim_run env runId (wo_now w) (rs_db s) = (db1, p)" by fastforce
  have r1: "recon_reachable (s\<lparr>rs_db := db1\<rparr>)" by (rule recon_reachable.step [OF assms(1) recon_step.claimed [OF c]])
  have failed: "recon_reachable (s\<lparr>rs_db := repository_fail runId now m db\<rparr>)" if "recon_reachable (s\<lparr>rs_db := db\<rparr>)" for db now m
    using recon_reachable.step [OF that recon_step.failed [of "s\<lparr>rs_db := db\<rparr>" runId now m]] by simp
  have replaced: "recon_reachable (s\<lparr>rs_db := db2\<rparr>)" if "replaceDiffs (wo_newIds w) (wo_now w) runId ds db1 = Inr db2" for ds db2
    using recon_reachable.step [OF r1 recon_step.replaced [of "wo_newIds w" "wo_now w" runId ds "s\<lparr>rs_db := db1\<rparr>" db2]] that by simp
  have completed: "recon_reachable (s\<lparr>rs_db := db3\<rparr>)"
    if "recon_reachable (s\<lparr>rs_db := db2\<rparr>)" and "repository_complete env runId (wo_now w) wm sm db2 = Inr db3" for db2 db3 wm sm
    using recon_reachable.step [OF that(1) recon_step.completed [of env runId "wo_now w" wm sm "s\<lparr>rs_db := db2\<rparr>" db3]] that(2) by simp
  show ?thesis
  proof (cases p)
    case None
    then show ?thesis using assms(2) c r1 by (simp add: execute_def)
  next
    case (Some plan)
    show ?thesis
    proof (cases "compare_stores env w plan")
      case (Inl e)
      then show ?thesis using assms(2) c Some failed [OF r1] by (auto simp: execute_def)
    next
      case (Inr res)
      obtain ds wm sm where res: "res = (ds, wm, sm)" by (cases res)
      show ?thesis
      proof (cases "replaceDiffs (wo_newIds w) (wo_now w) runId ds db1")
        case (Inl e)
        then show ?thesis using assms(2) c Some Inr res failed [OF r1] by (auto simp: execute_def)
      next
        case r2: (Inr db2)
        then show ?thesis
          using assms(2) c Some Inr res failed [OF replaced [OF r2]] completed [OF replaced [OF r2]]
          by (cases "repository_complete env runId (wo_now w) wm sm db2") (auto simp: execute_def)
      qed
    qed
  qed
qed

end
