(* ===== verification/ReconciliationProperties.thy ===== *)
theory ReconciliationProperties
  imports PipelineDemo ReconciliationSteps
begin

text \<open>Properties of reconciliation: what the comparison of the two stores reports, that the report does not depend on the order
  of the rows and can be read back from its CSV form, what happens to runs that fail, and what is stored and exported.  The
  examples compare one bucket of one application in an hour.\<close>

subsection \<open>A sample comparison\<close>

fun scalar_code :: "json \<Rightarrow> string" where
  "scalar_code (JStr s) = CHR ''s'' # concat (map (\<lambda>c. [CHR ''c'', c]) s) @ ''.''"
| "scalar_code _ = ''n''"

fun array_code :: "json \<Rightarrow> string" where
  "array_code (JArr xs) = concat (map scalar_code xs)"
| "array_code _ = []"

definition recon_env :: ingest_env where
  "recon_env = sample_env\<lparr>stringify := array_code, sha256hex := id\<rparr>"

definition tiny_tolerance :: ReconciliationTolerance where
  "tiny_tolerance = \<lparr>to_providerCost = ''0.000001'', to_aiuMicros = ''0'', to_watermarkStallSeconds = 900\<rparr>"

definition hour_dimensions :: ReconciliationDimensions where
  "hour_dimensions = \<lparr>dm_applicationId = ''app'', dm_bucketStart = ''2025-07-08T18:00:00Z'', dm_bucketSize = ''hour'', dm_virtualModel = None,
     dm_modelId = None, dm_requestModel = Some ''m'', dm_provider = None, dm_userId = Some ''u1''\<rparr>"

definition hour_metrics :: ReconciliationMetrics where
  "hour_metrics = \<lparr>mt_eventCount = ''1'', mt_inputTokens = ''0'', mt_cachedInputTokens = ''0'', mt_outputTokens = ''12'', mt_providerCost = ''0'',
     mt_aiuMicros = ''3'', mt_unpricedCount = ''0'', mt_unratedCount = ''0''\<rparr>"

definition hour_row :: ReconciliationSnapshotRow where
  "hour_row = \<lparr>sr_projectionId = ''p'', sr_dimensions = hour_dimensions, sr_metrics = hour_metrics, sr_duplicateProjectionCount = Some ''0'',
     sr_sampleEventIds = [''01JZ5M0N8Q4R7T2V9W3X6Y1Z0A''], sr_modelIdentityFingerprint = Some ''f'', sr_costVersionId = None, sr_aiuVersionId = None,
     sr_payloadHashConflict = False, sr_officialDeltaPending = False, sr_lateEventCount = ''0'', sr_unprojectedAdjustmentCount = ''0''\<rparr>"

lemma text_code_inj:
  "concat (map (\<lambda>c. [CHR ''c'', c]) s) @ CHR ''.'' # r = concat (map (\<lambda>c. [CHR ''c'', c]) t) @ CHR ''.'' # r' \<Longrightarrow> s = t \<and> r = r'"
proof (induction s arbitrary: t)
  case Nil
  then show ?case by (cases t) simp_all
next
  case (Cons c s)
  then show ?case by (cases t) auto
qed

lemma array_code_inj:
  "list_all scalar xs \<Longrightarrow> list_all scalar ys \<Longrightarrow> concat (map scalar_code xs) = concat (map scalar_code ys) \<Longrightarrow> xs = ys"
proof (induction xs arbitrary: ys)
  case Nil
  then show ?case by (cases ys) (auto simp: scalar_def split: json.splits)
next
  case (Cons x xs)
  obtain y ys' where ys: "ys = y # ys'" using Cons.prems by (cases ys) (auto simp: scalar_def split: json.splits)
  have xy: "scalar x" "scalar y" "list_all scalar xs" "list_all scalar ys'" using Cons.prems ys by simp_all
  have code: "scalar_code x @ concat (map scalar_code xs) = scalar_code y @ concat (map scalar_code ys')" using Cons.prems(3) ys by simp
  have "x = y \<and> concat (map scalar_code xs) = concat (map scalar_code ys')"
  proof (cases x)
    case (JStr s)
    then obtain t where t: "y = JStr t" using xy(2) code by (cases y) (simp_all add: scalar_def)
    then show ?thesis using code JStr text_code_inj [of s _ t] by simp
  next
    case JNull
    then have "y = JNull" using xy(2) code by (cases y) (simp_all add: scalar_def)
    then show ?thesis using code JNull by simp
  qed (use xy(1) in \<open>simp_all add: scalar_def\<close>)
  then show ?case using Cons.IH [OF xy(3,4)] ys by blast
qed

lemma recon_faithful: "stringify_faithful recon_env"
  unfolding stringify_faithful_def by (rule inj_onI) (auto simp: recon_env_def intro: array_code_inj)

lemma hour_texts:
  "integer_text ''0''" "integer_text ''1''" "integer_text ''12''" "integer_text ''3''" "cost_text ''0''" "cost_text ''0.000001''"
  "digits_value ''0'' = 0" "digits_value ''3'' = 3"
  by code_simp+


lemma hour_valid: "row_valid recon_env hour_row" "counts_valid hour_row" "tolerance_valid tiny_tolerance"
  by (simp_all add: row_valid_def metrics_valid_def integerMetricKeys_def metric_at_def metric_members_def hour_row_def hour_metrics_def
      duplicate_text_def counts_valid_def tolerance_valid_def tiny_tolerance_def hour_texts recon_env_def sample_env_def)


subsection \<open>The comparison\<close>




text \<open>C18: The result does not depend on the order in which the stores return their rows, although it is built from maps in
  insertion order: snapshots with one row per bucket that are permutations of each other give the same differences in the
  same order, and the same watermark check.\<close>

theorem reconciler_ignores_row_order:
  assumes "list_all (row_valid env) pgRows" and "list_all (row_valid env) chRows" and "mset pgRows = mset pgRows'"
    and "mset chRows = mset chRows'" and "distinct (map sr_dimensions pgRows)" and "distinct (map sr_dimensions chRows)"
    and "stringify_faithful env"
  shows "reconcileSnapshots env pgRows' chRows' tol wm = reconcileSnapshots env pgRows chRows tol wm"
proof (rule reconcile_perm [OF assms(1-4)])
  have "inj (dimensionsKey env)" using dimensionsKey_inj [OF assms(7)] by (auto intro: injI)
  then have keys: "distinct (map (row_key env) rows)" if "distinct (map sr_dimensions rows)" for rows
    using that by (auto simp: distinct_map inj_on_def)
  show "distinct (map (row_key env) pgRows)" "distinct (map (row_key env) chRows)" using keys assms(5,6) by blast+
qed

theorem reconciler_ignores_row_order_witness:
  "reconcileSnapshots recon_env [hour_row\<lparr>sr_dimensions := hour_dimensions\<lparr>dm_userId := None\<rparr>\<rparr>, hour_row] [] tiny_tolerance None =
   reconcileSnapshots recon_env [hour_row, hour_row\<lparr>sr_dimensions := hour_dimensions\<lparr>dm_userId := None\<rparr>\<rparr>] [] tiny_tolerance None"
proof (rule reconciler_ignores_row_order)
  have "row_valid recon_env (hour_row\<lparr>sr_dimensions := hour_dimensions\<lparr>dm_userId := None\<rparr>\<rparr>)"
    using hour_valid(1) by (simp add: row_valid_def duplicate_text_def hour_row_def)
  then show "list_all (row_valid recon_env) [hour_row, hour_row\<lparr>sr_dimensions := hour_dimensions\<lparr>dm_userId := None\<rparr>\<rparr>]"
    using hour_valid(1) by simp
  show "distinct (map sr_dimensions [hour_row, hour_row\<lparr>sr_dimensions := hour_dimensions\<lparr>dm_userId := None\<rparr>\<rparr>])"
    by (simp add: hour_row_def hour_dimensions_def)
qed (simp_all add: recon_faithful)

text \<open>The CSV export can be read back: a reader after RFC 4180 gets the header and, for every difference, the texts of its
  cells, whatever quotes, commas and line breaks they contain.\<close>

theorem csv_export_read_back:
  "parse_csv (exportReconciliationDiffsCsv env ds) = csv_header # map (map (cell_text env) \<circ> diff_cells) ds"
  by (rule export_read)

subsection \<open>Runs\<close>

definition hours_env :: ingest_env where
  "hours_env = recon_env\<lparr>toISOString := (\<lambda>t. replicate (nat (t div 3600000)) CHR ''h''), date_ms := (\<lambda>s. 3600000 * int (length s))\<rparr>"

definition hour_plan :: ReconciliationRunPlan where
  "hour_plan = \<lparr>pl_applicationId = ''app'', pl_runType = ''hourly'', pl_rangeStart = '''', pl_rangeEnd = ''h'', pl_virtualModel = None,
     pl_modelId = None, pl_userId = None, pl_asynchronous = True, pl_expectedPgWatermark = None, pl_expectedChWatermark = None\<rparr>"

definition no_runs :: ReconDb where
  "no_runs = \<lparr>rc_runs = [], rc_diffs = [], rc_audit = [], rc_jobs = []\<rparr>"

definition hour_run :: RunRow where
  "hour_run = new_run hours_env ''run-1'' 0 hour_plan (scope_json hour_plan True) None (Some ''k'')"

definition failed_run :: RunRow where
  "failed_run = hour_run\<lparr>rn_status := Run_failed, rn_startedAt := 0, rn_finishedAt := Some 1, rn_error := Some ''e''\<rparr>"

definition failed_sys :: recon_sys where
  "failed_sys = recon_start\<lparr>rs_db := no_runs\<lparr>rc_runs := [failed_run]\<rparr>\<rparr>"

definition tiny_row :: SnapshotDatabaseRow where
  "tiny_row = \<lparr>sd_application_id = ''app'', sd_bucket_start = '''', sd_virtual_model = None, sd_model_id = None, sd_request_model = None,
     sd_provider = None, sd_user_id = None, sd_event_count = 1, sd_input_tokens = 1, sd_cached_input_tokens = 0, sd_output_tokens = 0,
     sd_provider_cost = 1 / 10 ^ 7, sd_aiu_micros = 0, sd_unpriced_count = 0, sd_unrated_count = 0, sd_sample_event_ids = [],
     sd_cost_version_id = None, sd_aiu_version_id = None, sd_official_delta_pending = False, sd_unprojected_adjustment_count = 0\<rparr>"

definition exponent_text :: "rat \<Rightarrow> string" where
  "exponent_text x = (if 0 < x \<and> x < 1 / 10 ^ 6 then ''1e-7'' else ''0'')"

definition tiny_world :: run_world where
  "tiny_world = \<lparr>wo_hmac = (\<lambda>_. id), wo_secret = replicate 32 CHR ''s'', wo_tolerance = tiny_tolerance,
     wo_loadPostgres = loadPostgres hours_env exponent_text (\<lambda>_. [tiny_row]), wo_loadClickHouse = (\<lambda>_. Inr []),
     wo_loadWatermarks = (\<lambda>_. Inl ''unavailable''),
     wo_summary = \<lparr>sn_localeCompare = (\<lambda>_ _. 0), sn_plus = id, sn_canonical = (\<lambda>_. ''0'')\<rparr>, wo_errorName = (\<lambda>_. ''TypeError''),
     wo_newIds = (\<lambda>_. ''d''), wo_now = 0\<rparr>"

lemma new_run_comparison: "is_comparison (new_run env k now plan (scope_json plan b) by key)"
  by (simp add: is_comparison_def new_run_def scope_json_def envelope_ok_def)

lemma queued_reachable: "recon_reachable (recon_start\<lparr>rs_db := no_runs\<lparr>rc_runs := [hour_run]\<rparr>\<rparr>)"
proof -
  have none: "rs_db recon_start = no_runs" by (simp add: recon_start_def no_runs_def)
  have "createQueued hours_env ''run-1'' 0 hour_plan None (Some ''k'') (rs_db recon_start) = (no_runs\<lparr>rc_runs := [hour_run]\<rparr>, ''run-1'')"
    using create_new [of "''k''" no_runs hours_env "''run-1''" 0 hour_plan None]
    by (simp add: none no_runs_def hour_run_def hour_plan_def map_filter_simps)
  then have "recon_step recon_start (recon_start\<lparr>rs_db := no_runs\<lparr>rc_runs := [hour_run]\<rparr>\<rparr>)"
    by (rule recon_step.queue) (simp add: fresh_run_def none no_runs_def)
  then show ?thesis by (rule recon_reachable.step [OF recon_reachable.start])
qed

lemma failed_reachable: "recon_reachable failed_sys"
proof -
  let ?q = "recon_start\<lparr>rs_db := no_runs\<lparr>rc_runs := [hour_run]\<rparr>\<rparr>"
  let ?r = "hour_run\<lparr>rn_status := Run_running, rn_startedAt := 0, rn_error := None\<rparr>"
  have fresh: "fresh_run (rn_id hour_run) no_runs" "rn_status hour_run = Run_queued" "rn_id hour_run = ''run-1''"
    by (simp_all add: fresh_run_def no_runs_def hour_run_def new_run_def)
  have "claim_run hours_env ''run-1'' 0 (rs_db ?q) = (no_runs\<lparr>rc_runs := [?r]\<rparr>, Some (parsePlan hours_env ?r))"
    using claim_new [OF fresh(1,2), of hours_env 0] fresh(3) by (simp add: no_runs_def)
  then have "recon_step ?q (?q\<lparr>rs_db := no_runs\<lparr>rc_runs := [?r]\<rparr>\<rparr>)" by (rule recon_step.claimed)
  then have r: "recon_reachable (recon_start\<lparr>rs_db := no_runs\<lparr>rc_runs := [?r]\<rparr>\<rparr>)"
    using recon_reachable.step [OF queued_reachable] by simp
  have "repository_fail ''run-1'' 1 ''e'' (no_runs\<lparr>rc_runs := [?r]\<rparr>) = no_runs\<lparr>rc_runs := [failed_run]\<rparr>"
    using fail_new [OF fresh(1), of 1 "''e''" 0] fresh(3) by (simp add: no_runs_def failed_run_def)
  then show ?thesis
    using recon_reachable.step [OF r recon_step.failed [of "recon_start\<lparr>rs_db := no_runs\<lparr>rc_runs := [?r]\<rparr>\<rparr>" "''run-1''" 1 "''e''"]]
    by (simp add: failed_sys_def)
qed

text \<open>C34: A comparison that failed is final.  Whatever the services do afterwards, its row stays as it is; executing it again does
  nothing and reports no error; and a request with its idempotency key, which the schedule and the console derive from
  the plan, returns the failed run instead of a new one.  The period is never compared again.\<close>

theorem failed_comparison_is_final:
  assumes "recon_reachable s" and "r \<in> set (rc_runs (rs_db s))" and "rn_status r = Run_failed" and "is_comparison r"
    and "rr_idempotencyKey r = Some key" and "recon_step\<^sup>*\<^sup>* s s'"
  shows "r \<in> set (rc_runs (rs_db s')) \<and> execute env w (rn_id r) (rs_db s') = (rs_db s', Inr None) \<and>
    createQueued env newId now plan requestedBy (Some key) (rs_db s') = (rs_db s', rn_id r)"
proof -
  have kept: "runs_inv s'" "r \<in> set (rc_runs (rs_db s'))"
    using failed_kept [OF assms(6) reachable_runs_inv [OF assms(1)] assms(2-4)] by simp_all
  have "rn_status r \<noteq> Run_queued" using assms(3) by simp
  from claim_refused [OF kept this, of env "wo_now w"] have "execute env w (rn_id r) (rs_db s') = (rs_db s', Inr None)" by (simp add: execute_def)
  moreover have "createQueued env newId now plan requestedBy (Some key) (rs_db s') = (rs_db s', rn_id r)"
    by (simp add: createQueued_def upsert_known [OF kept assms(5)])
  ultimately show ?thesis using kept(2) by simp
qed

theorem failed_comparison_is_final_witness:
  "failed_run \<in> set (rc_runs (rs_db failed_sys)) \<and> execute hours_env tiny_world (rn_id failed_run) (rs_db failed_sys) = (rs_db failed_sys, Inr None) \<and>
    createQueued hours_env ''run-2'' 5 hour_plan None (Some ''k'') (rs_db failed_sys) = (rs_db failed_sys, rn_id failed_run)"
proof (rule failed_comparison_is_final [OF failed_reachable])
  show "is_comparison failed_run"
    using new_run_comparison [of hours_env "''run-1''" 0 hour_plan True None "Some ''k''"] by (simp add: failed_run_def hour_run_def is_comparison_def)
qed (simp_all add: failed_sys_def failed_run_def hour_run_def new_run_def)

text \<open>One bucket with a tiny cost stops reconciliation for others.  The total of a bucket is a \<open>Decimal\<close> turned into a
  text, which below a millionth has an exponent; the engine refuses such a text, so the run of the application fails.  The
  scheduled job handles the applications in turn and ends with the error: no run is created for the applications behind it,
  and this repeats in every period in which the first one has such a bucket.\<close>

theorem tiny_cost_stops_schedule:
  assumes "scheduledReconciliationPlan env app runType triggeredAt = Inr plan" and "scheduledReconciliationIdempotencyKey plan = Inr key"
    and "key \<notin> set (List.map_filter rr_idempotencyKey (rc_runs db))" and "fresh_run (newIds i) db"
    and "wo_loadPostgres (worlds i) = loadPostgres env decimalString query"
    and "\<forall>p. pl_applicationId p = app \<and> pl_rangeStart p = toISOString env (date_ms env (pl_rangeStart plan)) \<longrightarrow>
      list_ex (\<lambda>row. 0 < sd_provider_cost row \<and> sd_provider_cost row < 1 / 10 ^ 6) (query p)"
    and "\<forall>x. 0 < x \<and> x < 1 / 10 ^ 6 \<longrightarrow> CHR ''e'' \<in> set (decimalString x)"
  shows "\<exists>e db'. run_schedule env worlds newIds runType triggeredAt i (app # apps) db = (db', Inl e) \<and>
    filter (\<lambda>r. rn_applicationId r \<noteq> app) (rc_runs db') = filter (\<lambda>r. rn_applicationId r \<noteq> app) (rc_runs db) \<and>
    list_ex (\<lambda>r. rn_id r = newIds i \<and> rn_status r = Run_failed) (rc_runs db')"
proof -
  let ?now = "wo_now (worlds i)"
  let ?new = "new_run env (newIds i) ?now plan (scope_json plan (pl_asynchronous plan)) None (Some key)"
  let ?run = "?new\<lparr>rn_status := Run_running, rn_startedAt := ?now, rn_error := None\<rparr>"
  have app: "pl_applicationId plan = app"
    using assms(1) by (auto simp: scheduledReconciliationPlan_def planReconciliationRun_def Let_def split: if_splits)
  have new: "rn_id ?new = newIds i" "rn_status ?new = Run_queued" "rn_applicationId ?new = app" by (simp_all add: new_run_def app)
  have fresh: "fresh_run (rn_id ?new) db" using assms(4) new(1) by simp
  have claim: "claim_run env (newIds i) ?now (db\<lparr>rc_runs := rc_runs db @ [?new]\<rparr>) = (db\<lparr>rc_runs := rc_runs db @ [?run]\<rparr>, Some (parsePlan env ?run))"
    using claim_new [OF fresh new(2), of env ?now] new(1) by simp
  have "pl_applicationId (parsePlan env ?run) = app \<and> pl_rangeStart (parsePlan env ?run) = toISOString env (date_ms env (pl_rangeStart plan))"
    by (simp add: parsePlan_def new_run_def Let_def app)
  then obtain row where row: "row \<in> set (query (parsePlan env ?run))" "0 < sd_provider_cost row \<and> sd_provider_cost row < 1 / 10 ^ 6"
    using assms(6) by (auto simp: list_ex_iff)
  have "wo_loadPostgres (worlds i) (parsePlan env ?run) = loadPostgres env decimalString query (parsePlan env ?run)" by (simp add: assms(5))
  moreover have "CHR ''e'' \<in> set (decimalString (sd_provider_cost row))" using assms(7) row(2) by blast
  ultimately obtain e where e: "compare_stores env (worlds i) (parsePlan env ?run) = Inl e" using exponent_fails_comparison row(1) by blast
  let ?db = "db\<lparr>rc_runs := rc_runs db @ [?new\<lparr>rn_status := Run_failed, rn_startedAt := ?now, rn_finishedAt := Some ?now,
    rn_error := Some (take 8000 (failure_text (worlds i) e))\<rparr>]\<rparr>"
  have "execute env (worlds i) (newIds i) (db\<lparr>rc_runs := rc_runs db @ [?new]\<rparr>) = (?db, Inl e)"
    using execute_fails [OF claim e] fail_new [OF fresh, of ?now "failure_text (worlds i) e" ?now] new(1) by simp
  then have "run_schedule env worlds newIds runType triggeredAt i (app # apps) db = (?db, Inl e)"
    using assms(1,2) create_new [OF assms(3), of env "newIds i" ?now plan None] by simp
  moreover have "filter (\<lambda>r. rn_applicationId r \<noteq> app) (rc_runs ?db) = filter (\<lambda>r. rn_applicationId r \<noteq> app) (rc_runs db)"
    using new(3) by simp
  moreover have "list_ex (\<lambda>r. rn_id r = newIds i \<and> rn_status r = Run_failed) (rc_runs ?db)" using new(1) by simp
  ultimately show ?thesis by blast
qed

theorem tiny_cost_stops_schedule_witness:
  "\<exists>e db'. run_schedule hours_env (\<lambda>_. tiny_world) (\<lambda>_. ''run-1'') ''hourly'' 3600000 0 [''app'', ''other''] no_runs = (db', Inl e) \<and>
    filter (\<lambda>r. rn_applicationId r \<noteq> ''app'') (rc_runs db') = filter (\<lambda>r. rn_applicationId r \<noteq> ''app'') (rc_runs no_runs) \<and>
    list_ex (\<lambda>r. rn_id r = ''run-1'' \<and> rn_status r = Run_failed) (rc_runs db')"
proof (rule tiny_cost_stops_schedule [where plan = hour_plan and key = "''reconciliation:app:hourly::h''" and decimalString = exponent_text and query = "\<lambda>_. [tiny_row]"])
  have app: "js_trim ''app'' \<noteq> []" by code_simp
  show "scheduledReconciliationPlan hours_env ''app'' ''hourly'' 3600000 = Inr hour_plan"
    by (simp add: scheduledReconciliationPlan_def planReconciliationRun_def parse_time_def hours_env_def hour_plan_def Let_def app)
      (simp add: recon_env_def sample_env_def)
qed (simp_all add: scheduledReconciliationIdempotencyKey_def hour_plan_def no_runs_def map_filter_simps fresh_run_def tiny_world_def exponent_text_def tiny_row_def)

subsection \<open>Stored differences\<close>

lemma diff_row_dimensions: "pf_dimensionsJson (diff_row runId now k p) = pf_dimensionsJson p"
  by (simp add: diff_row_def PersistedDiff.defs)

text \<open>A run stores no user id.  Every difference it writes names a user, if at all, by the keyed hash of the id.\<close>

theorem stored_diffs_are_pseudonymous:
  assumes "execute env w runId db = (db', Inr (Some summary))"
  shows "list_all (\<lambda>d. pseudonymous (pf_dimensionsJson d)) (filter (\<lambda>d. dr_runId d = runId) (rc_diffs db'))"
proof -
  obtain ds raw ps where red: "map_snapshot (redact_diff w) raw = Inr ds" and per: "map_snapshot toPersistedDiff ds = Inr ps"
    and diffs: "rc_diffs db' = filter (\<lambda>d. dr_runId d \<noteq> runId) (rc_diffs db) @ map (\<lambda>(i, p). diff_row runId (wo_now w) (wo_newIds w i) p) (enumerate 0 ps)"
    using execute_diffs [OF assms] by blast
  have pseudo: "pseudonymous (pf_dimensionsJson p)" if p: "p \<in> set ps" for p
  proof -
    obtain i where i: "i < length ps" "ps ! i = p" using p by (auto simp: in_set_conv_nth)
    have len: "length ds = length ps" "length raw = length ds"
      using map_snapshot_all [OF per] map_snapshot_all [OF red] by (auto dest: list_all2_lengthD)
    have "toPersistedDiff (ds ! i) = Inr p" "redact_diff w (raw ! i) = Inr (ds ! i)"
      using map_snapshot_all [OF per] map_snapshot_all [OF red] i len by (auto simp: list_all2_conv_all_nth)
    then show ?thesis using redacted_persisted by blast
  qed
  have "pseudonymous (pf_dimensionsJson d)"
    if d: "d \<in> set (map (\<lambda>(i, p). diff_row runId (wo_now w) (wo_newIds w i) p) (enumerate 0 ps))" for d
  proof -
    obtain i p where "d = diff_row runId (wo_now w) (wo_newIds w i) p" and "(i, p) \<in> set (enumerate 0 ps)" using d by auto
    then show ?thesis using pseudo enumerate_mem [of i p 0 ps] by (simp add: diff_row_dimensions)
  qed
  then show ?thesis unfolding diffs list_all_iff by simp
qed

definition hour_world :: run_world where
  "hour_world = tiny_world\<lparr>wo_loadPostgres := (\<lambda>_. Inr [hour_row]),
     wo_loadWatermarks := (\<lambda>_. Inr \<lparr>rw_pgEventTime = ''h'', rw_chEventTime = ''h'', rw_chLastSuccessAt = ''h''\<rparr>)\<rparr>"

lemma hour_executes:
  "case execute hours_env hour_world ''run-1'' (no_runs\<lparr>rc_runs := [hour_run]\<rparr>) of (_, Inr (Some _)) \<Rightarrow> True | _ \<Rightarrow> False"
  by code_simp

theorem stored_diffs_are_pseudonymous_witness:
  "\<exists>db' s. execute hours_env hour_world ''run-1'' (no_runs\<lparr>rc_runs := [hour_run]\<rparr>) = (db', Inr (Some s)) \<and>
    list_all (\<lambda>d. pseudonymous (pf_dimensionsJson d)) (filter (\<lambda>d. dr_runId d = ''run-1'') (rc_diffs db'))"
proof -
  obtain db' s where run: "execute hours_env hour_world ''run-1'' (no_runs\<lparr>rc_runs := [hour_run]\<rparr>) = (db', Inr (Some s))"
    using hour_executes by (auto split: prod.splits sum.splits option.splits)
  then show ?thesis using stored_diffs_are_pseudonymous [OF run] by blast
qed

text \<open>The export of the console loses the buckets.  It reads \<open>bucketStart\<close> and \<open>bucketSize\<close> of the stored dimensions, which
  are stored as \<open>time_bucket\<close> and \<open>granularity\<close>: in every reachable state, both columns are empty in every line it
  exports.\<close>

theorem console_export_loses_buckets:
  assumes "recon_reachable s" and "exportReconciliationRun env decimalString app runId (rs_db s) = Inr text"
  shows "list_all (\<lambda>cells. cells ! 2 = [] \<and> cells ! 3 = []) (tl (parse_csv text))"
proof -
  let ?rows = "export_order (filter (\<lambda>d. dr_runId d = runId) (rc_diffs (rs_db s)))"
  have out: "text = csv_lines env (map Text csv_header # map (row_cells decimalString) ?rows)"
    using assms(2) by (auto simp: exportReconciliationRun_def split: option.splits if_splits)
  have "list_all (\<lambda>cs. cs \<noteq> []) (map Text csv_header # map (row_cells decimalString) ?rows)"
    by (simp add: list_all_iff csv_header_def row_cells_def)
  from rows_read [OF this, of "[]" env] have "parse_csv text = map (map (cell_text env)) (map Text csv_header # map (row_cells decimalString) ?rows)"
    by (simp add: parse_csv_def out)
  moreover have "cell_text env (row_cells decimalString r ! 2) = [] \<and> cell_text env (row_cells decimalString r ! 3) = []" if "r \<in> set ?rows" for r
  proof -
    have "r \<in> set (rc_diffs (rs_db s))" using that by (simp add: export_order_def)
    then obtain dims where "pf_dimensionsJson r = map_option persistedDimensions dims"
      using reachable_diffs [OF assms(1)] by (auto simp: list_all_iff stored_dimensions_def)
    then have "member_cell (pf_dimensionsJson r) ''bucketStart'' = Absent" "member_cell (pf_dimensionsJson r) ''bucketSize'' = Absent"
      by (cases dims; simp add: member_cell_def persistedDimensions_def string_member_def json_string_def text_cell_def)+
    then show ?thesis by (simp add: row_cells_def cell_text_def)
  qed
  moreover have "length (row_cells decimalString r) = 9" for r by (simp add: row_cells_def)
  ultimately show ?thesis by (simp add: list_all_iff)
qed

definition compared_sys :: recon_sys where
  "compared_sys = recon_start\<lparr>rs_db := fst (execute hours_env hour_world ''run-1'' (no_runs\<lparr>rc_runs := [hour_run]\<rparr>))\<rparr>"

lemma compared_reachable: "recon_reachable compared_sys"
  using execute_reachable [OF queued_reachable, of hours_env hour_world "''run-1''"]
  by (simp add: compared_sys_def) (metis prod.collapse)

lemma compared_exports:
  "case exportReconciliationRun hours_env (\<lambda>_. ''0'') ''app'' ''run-1'' (rs_db compared_sys) of Inr text \<Rightarrow> 1 < length (parse_csv text) | _ \<Rightarrow> False"
  by code_simp

theorem console_export_loses_buckets_witness:
  "\<exists>text. exportReconciliationRun hours_env (\<lambda>_. ''0'') ''app'' ''run-1'' (rs_db compared_sys) = Inr text \<and> 1 < length (parse_csv text) \<and>
     list_all (\<lambda>cells. cells ! 2 = [] \<and> cells ! 3 = []) (tl (parse_csv text))"
proof -
  obtain out where "exportReconciliationRun hours_env (\<lambda>_. ''0'') ''app'' ''run-1'' (rs_db compared_sys) = Inr out" and "1 < length (parse_csv out)"
    using compared_exports by (auto split: sum.splits)
  then show ?thesis using console_export_loses_buckets [OF compared_reachable] by blast
qed

end
