(* ===== verification/RuntimeDelivery.thy ===== *)
theory RuntimeDelivery
  imports Publication UsageSpool
begin

text \<open>
  How a published configuration leaves the API and what comes back: the snapshot endpoint
  (\<open>apps/api/src/runtime/snapshot.service.ts\<close>), the publication of access controls and the restoration of an earlier
  version (\<open>runtime-access-snapshot.service.ts\<close>, \<open>runtime-configuration-restore.service.ts\<close>), and the acknowledgements of
  clients (\<open>runtime-acknowledgement.service.ts\<close> with the schema of \<open>packages/contracts/src/runtime-acknowledgement.ts\<close>).
  The tables belong to one application, as in \<open>Publication\<close>.
\<close>

subsection \<open>Serving a snapshot\<close>

definition includesEtag :: "string option \<Rightarrow> string \<Rightarrow> bool" where
  "includesEtag header etag = (case header of
     None \<Rightarrow> False
   | Some h \<Rightarrow> list_ex
       (\<lambda>raw.
          let trimmed = js_trim raw;
              strong = (if js_startsWith trimmed ''W/'' then drop 2 trimmed else trimmed);
              candidate = (if js_startsWith strong [CHR 0x22] \<and> last strong = CHR 0x22 then butlast (tl strong) else strong)
          in trimmed = ''*'' \<or> candidate = etag)
       (split_on (CHR '','') h))"

text \<open>\<open>findFirst\<close> among the published versions, newest first.\<close>

definition current_version :: "ConfigurationVersion list \<Rightarrow> ConfigurationVersion option" where
  "current_version versions = (case filter (\<lambda>v. cf_status v = Published) versions of
     [] \<Rightarrow> None
   | v # vs \<Rightarrow> Some (fold (\<lambda>r best. if cf_version best < cf_version r then r else best) vs v))"

text \<open>Reading a stored row: the snapshot it holds, when it is intact and belongs to the application.\<close>

definition intact_snapshot :: "'e snapshot_env_scheme \<Rightarrow> string \<Rightarrow> ConfigurationVersion \<Rightarrow> RuntimeSnapshot res" where
  "intact_snapshot env app row = (case verifyRuntimeSnapshot env (cf_snapshot row) of
     Inl _ \<Rightarrow> Inl (ServiceUnavailable ''The published configuration failed integrity checks'')
   | Inr snapshot \<Rightarrow>
       if sn_application_id snapshot \<noteq> app \<or> cf_etag row \<noteq> sn_etag snapshot \<or> cf_signature row \<noteq> sn_signature snapshot
       then Inl (ServiceUnavailable ''The published configuration binding is invalid'')
       else Inr snapshot)"

definition get_snapshot ::
  "'e snapshot_env_scheme \<Rightarrow> string \<Rightarrow> string option \<Rightarrow> ConfigurationVersion list \<Rightarrow> (RuntimeSnapshot \<times> bool) res" where
  "get_snapshot env app ifNoneMatch versions = (case current_version versions of
     None \<Rightarrow> Inl (NotFound ''No configuration has been published'')
   | Some row \<Rightarrow>
       bind_res (intact_snapshot env app row)
         (\<lambda>snapshot. Inr (snapshot, includesEtag ifNoneMatch (sn_etag snapshot))))"

subsection \<open>Publishing without the builder\<close>

text \<open>The plan of an earlier publication under a new version number.\<close>

definition republished_plan :: "'e snapshot_env_scheme \<Rightarrow> string \<Rightarrow> nat \<Rightarrow> int \<Rightarrow> RuntimeRoutingPlan \<Rightarrow> RuntimeRoutingPlan" where
  "republished_plan env app version now plan =
     plan\<lparr>pl_configuration_version := int version,
          pl_configuration_etag := runtimeFingerprint env
            (plan_etag_json env app version (pl_virtual_model_id plan) (pl_default plan) (pl_rules plan)),
          pl_published_at := now\<rparr>"

text \<open>The transaction that retires the current version and inserts the new one; the etag is unique.\<close>

definition insert_version :: "nat \<Rightarrow> RuntimeSnapshot \<Rightarrow> routing_db \<Rightarrow> routing_db res" where
  "insert_version version snapshot db =
     (if sn_etag snapshot \<in> cf_etag ` set (rd_versions db)
      then Inl (UniqueViolation ''runtime_configuration_versions_application_etag_key'')
      else Inr (db\<lparr>rd_versions :=
        update_rows (\<lambda>v. cf_status v = Published) (\<lambda>v. v\<lparr>cf_status := Retired\<rparr>) (rd_versions db) @
        [\<lparr>cf_version = version, cf_status = Published, cf_etag = sn_etag snapshot, cf_signature = sn_signature snapshot,
          cf_snapshot = snapshot\<rparr>]\<rparr>))"

definition access_snapshot :: "'e snapshot_env_scheme \<Rightarrow> int \<Rightarrow> routing_db \<Rightarrow> RuntimeSnapshot \<Rightarrow> RuntimeSnapshot" where
  "access_snapshot env now db source =
     (let (app, slug, active) = rd_application db; version = latest_version db + 1 in
      source\<lparr>sn_application_id := app, sn_version := ''runtime-'' @ slug @ ''-'' @ decimal_text version,
        sn_expires_at := now + ten_years_ms,
        sn_routing := map (\<lambda>(name, plan). (name, republished_plan env app version now plan)) (sn_routing source),
        sn_application_enabled := active,
        sn_blocked_user_ids := sort (map au_externalId (filter au_blocked (rd_users db)))\<rparr>)"

text \<open>\<open>publishWithin\<close> of \<open>runtime-access-snapshot.service.ts\<close>: the access controls of now with the routing published last.\<close>

definition publishWithin :: "'e snapshot_env_scheme \<Rightarrow> int \<Rightarrow> routing_db \<Rightarrow> (RuntimeSnapshot option \<times> routing_db) res" where
  "publishWithin env now db = (case current_version (rd_versions db) of
     None \<Rightarrow> Inr (None, db)
   | Some row \<Rightarrow>
       bind_res (intact_snapshot env (fst (rd_application db)) row)
         (\<lambda>source.
            if 50000 < length (filter au_blocked (rd_users db))
            then Inl (ServiceUnavailable ''Too many blocked users for the runtime policy'')
            else
              bind_res (signRuntimeSnapshot env (access_snapshot env now db source))
                (\<lambda>snapshot. bind_res (insert_version (latest_version db + 1) snapshot db)
                   (\<lambda>db'. Inr (Some snapshot, db')))))"

definition restored_snapshot :: "'e snapshot_env_scheme \<Rightarrow> int \<Rightarrow> routing_db \<Rightarrow> RuntimeSnapshot \<Rightarrow> RuntimeSnapshot" where
  "restored_snapshot env now db source =
     (let (app, slug, active) = rd_application db; version = latest_version db + 1 in
      source\<lparr>sn_application_id := app, sn_version := ''runtime-'' @ slug @ ''-'' @ decimal_text version,
        sn_expires_at := now + ten_years_ms,
        sn_routing := map (\<lambda>(name, plan). (name, republished_plan env app version now plan)) (sn_routing source),
        sn_aiu_enabled := (case rd_settings db of None \<Rightarrow> False | Some (aiu, _) \<Rightarrow> aiu),
        sn_aiu_mode := (case rd_settings db of
            Some (True, hard) \<Rightarrow> (if hard then AiuHardLimit else AiuObserve) | _ \<Rightarrow> AiuDisabled),
        sn_application_enabled := active,
        sn_blocked_user_ids :=
          map au_externalId (filter au_blocked (ra_users (loadRouteAudience (rd_users db) (rd_groups db)))),
        sn_allowed_keys := sort (rd_properties db)\<rparr>)"

text \<open>\<open>restore\<close> of \<open>runtime-configuration-restore.service.ts\<close>.  The ids of the enabled models of the application are an
  argument.\<close>

definition restore ::
  "'e snapshot_env_scheme \<Rightarrow> string list \<Rightarrow> int \<Rightarrow> int \<Rightarrow> routing_db \<Rightarrow> (RuntimeSnapshot \<times> routing_db) res" where
  "restore env enabledModels sourceVersion now db =
     (if sourceVersion < 1 \<or> 2 ^ 53 - 1 < sourceVersion then Inl (BadRequest ''Configuration version must be a positive integer'')
      else
        (case List.find (\<lambda>v. int (cf_version v) = sourceVersion) (rd_versions db) of
           None \<Rightarrow> Inl (NotFound ''Configuration version not found'')
         | Some row \<Rightarrow>
             (case verifyRuntimeSnapshot env (cf_snapshot row) of
                Inl _ \<Rightarrow> Inl (BadRequest ''The saved configuration failed integrity checks'')
              | Inr source \<Rightarrow>
                  if sn_application_id source \<noteq> fst (rd_application db) \<or> sn_etag source \<noteq> cf_etag row \<or>
                     sn_signature source \<noteq> cf_signature row
                  then Inl (BadRequest ''The saved configuration does not belong to this application'')
                  else
                    (let modelIds = remdups (map rt_model_id (List.maps (\<lambda>(_, plan). plan_targets plan) (sn_routing source))) in
                     if length (filter (\<lambda>m. m \<in> set modelIds) enabledModels) \<noteq> length modelIds
                     then Inl (BadRequest ''This configuration references a model that is no longer available'')
                     else
                       bind_res (signRuntimeSnapshot env (restored_snapshot env now db source))
                         (\<lambda>snapshot. bind_res (insert_version (latest_version db + 1) snapshot db)
                            (\<lambda>db'. Inr (snapshot, db')))))))"

subsection \<open>Acknowledgements\<close>

text \<open>A digit string of at least one digit.\<close>

definition digits :: "string \<Rightarrow> bool" where
  "digits s \<longleftrightarrow> s \<noteq> [] \<and> list_all is_digit s"

text \<open>\<open>SEMVER_PATTERN\<close>: three numbers, then an optional suffix that starts at the first dash.\<close>

definition semantic_version :: "string \<Rightarrow> bool" where
  "semantic_version s \<longleftrightarrow>
     (let core = takeWhile (\<lambda>c. c \<noteq> CHR ''-'') s; rest = dropWhile (\<lambda>c. c \<noteq> CHR ''-'') s in
      (case split_on (CHR ''.'') core of [a, b, c] \<Rightarrow> digits a \<and> digits b \<and> digits c | _ \<Rightarrow> False) \<and>
      (rest = [] \<or> tl rest \<noteq> [] \<and> list_all (\<lambda>c. id_char c \<or> c \<in> set ''.-'') (tl rest)))"

definition ack_error_code :: "string \<Rightarrow> bool" where
  "ack_error_code s \<longleftrightarrow> s \<noteq> [] \<and> length s \<le> 120 \<and> upper_letter (hd s) \<and>
     list_all (\<lambda>c. upper_letter c \<or> is_digit c \<or> c = CHR ''_'') (tl s)"

definition ack_connector_schema :: schema where
  "ack_connector_schema = z_object
     [req ''instance_id'' (bounded_string 1 256), req ''name'' (z_enum [''node'', ''python'', ''litellm'']),
      req ''version'' (z_string semantic_version)]"

definition ack_error_schema :: schema where
  "ack_error_schema = z_object [req ''code'' (z_string ack_error_code), req ''message'' (bounded_string 1 500)]"

text \<open>The five refinements of the schema.\<close>

definition ack_refined :: "'e ingest_env_scheme \<Rightarrow> schema" where
  "ack_refined env j \<longleftrightarrow>
     (let state = string_member j ''state'';
          applied = string_member j ''applied_at'';
          failed = member j ''error'' \<noteq> Some JNull in
      (state = Some ''rejected'' \<longrightarrow> failed) \<and> (state = Some ''applied'' \<longrightarrow> applied \<noteq> None) \<and>
      (state \<noteq> Some ''applied'' \<longrightarrow> applied = None) \<and> (state \<noteq> Some ''rejected'' \<longrightarrow> \<not> failed) \<and>
      (case applied of None \<Rightarrow> True | Some t \<Rightarrow> date_ms env t \<le> date_ms env (event_text j ''acknowledged_at'')))"

definition runtimeConfigurationAcknowledgementSchema :: "'e ingest_env_scheme \<Rightarrow> schema" where
  "runtimeConfigurationAcknowledgementSchema env j \<longleftrightarrow>
     z_object
       [req ''schema_version'' (z_literal (JStr ''2.0'')), req ''application_id'' (z_string (is_uuid env)),
        req ''acknowledgement_id'' contractIdSchema, req ''acknowledged_at'' utcTimestampSchema,
        req ''connector'' ack_connector_schema, req ''configuration_version'' (z_int (\<lambda>n. 0 < n)),
        req ''configuration_etag'' (z_string sha256_fingerprint),
        req ''state'' (z_enum [''received'', ''applied'', ''rejected'']),
        req ''applied_at'' (z_nullable utcTimestampSchema), req ''error'' (z_nullable ack_error_schema)] j \<and>
     ack_refined env j"

datatype PolicyAcknowledgementState = Ack_received | Ack_applied | Ack_rejected

record AcknowledgementRow =
  ak_acknowledgementId :: string
  ak_connectorInstanceId :: string
  ak_connectorName :: string
  ak_connectorVersion :: string
  ak_configurationVersion :: int
  ak_configurationEtag :: string
  ak_state :: PolicyAcknowledgementState
  ak_acknowledgedAt :: int
  ak_appliedAt :: "int option"
  ak_errorCode :: "string option"
  ak_errorMessage :: "string option"
  ak_payloadHash :: string

definition states :: "string \<Rightarrow> PolicyAcknowledgementState" where
  "states s = (if s = ''received'' then Ack_received else if s = ''applied'' then Ack_applied else Ack_rejected)"

text \<open>\<open>parse\<close> returns the members in the order of the schema, so the hash does not depend on the order of the body.\<close>

definition ack_members :: "string list" where
  "ack_members = [''schema_version'', ''application_id'', ''acknowledgement_id'', ''acknowledged_at'', ''connector'',
     ''configuration_version'', ''configuration_etag'', ''state'', ''applied_at'', ''error'']"

definition in_order :: "string list \<Rightarrow> json \<Rightarrow> json" where
  "in_order ks j = (case j of JObj ms \<Rightarrow> JObj (List.map_filter (\<lambda>k. map_option (Pair k) (map_of ms k)) ks) | _ \<Rightarrow> j)"

definition parsed_acknowledgement :: "json \<Rightarrow> json" where
  "parsed_acknowledgement j = (case in_order ack_members j of
     JObj ms \<Rightarrow> JObj (map (\<lambda>(k, v).
       (k, if k = ''connector'' then in_order [''instance_id'', ''name'', ''version''] v
           else if k = ''error'' then in_order [''code'', ''message''] v else v)) ms)
   | v \<Rightarrow> v)"

definition ack_payloadHash :: "'e snapshot_env_scheme \<Rightarrow> json \<Rightarrow> string" where
  "ack_payloadHash env j = sha256hex env (stringify env (parsed_acknowledgement j))"

definition int_member :: "json \<Rightarrow> string \<Rightarrow> int" where
  "int_member j k = (case Option.bind (member j k) json_int of None \<Rightarrow> 0 | Some n \<Rightarrow> n)"

definition ack_row :: "'e ingest_env_scheme \<Rightarrow> json \<Rightarrow> AcknowledgementRow" where
  "ack_row env j =
     \<lparr>ak_acknowledgementId = event_text j ''acknowledgement_id'',
      ak_connectorInstanceId = event_text (sub j ''connector'') ''instance_id'',
      ak_connectorName = event_text (sub j ''connector'') ''name'',
      ak_connectorVersion = event_text (sub j ''connector'') ''version'',
      ak_configurationVersion = int_member j ''configuration_version'',
      ak_configurationEtag = event_text j ''configuration_etag'', ak_state = states (event_text j ''state''),
      ak_acknowledgedAt = date_ms env (event_text j ''acknowledged_at''),
      ak_appliedAt = map_option (date_ms env) (string_member j ''applied_at''),
      ak_errorCode = string_member (sub j ''error'') ''code'', ak_errorMessage = string_member (sub j ''error'') ''message'',
      ak_payloadHash = ack_payloadHash env j\<rparr>"

text \<open>The columns \<open>VarChar(64)\<close> and \<open>Int\<close> are narrower than the schema.\<close>

definition ack_fits :: "AcknowledgementRow \<Rightarrow> bool" where
  "ack_fits r \<longleftrightarrow> length (ak_connectorVersion r) \<le> 64 \<and> ak_configurationVersion r \<le> 2 ^ 31 - 1"

definition find_ack :: "string \<Rightarrow> AcknowledgementRow list \<Rightarrow> AcknowledgementRow option" where
  "find_ack k acks = List.find (\<lambda>r. ak_acknowledgementId r = k) acks"

definition ack_known :: "string \<Rightarrow> AcknowledgementRow \<Rightarrow> bool res" where
  "ack_known hash r =
     (if ak_payloadHash r \<noteq> hash then Inl (Conflict ''Acknowledgement ID was already used with another payload'') else Inr True)"

text \<open>\<open>acknowledge\<close>: whether the acknowledgement is a duplicate.  \<open>raced\<close> are the rows other requests insert between the
  lookup and the insert.\<close>

definition acknowledge_configuration ::
  "'e ingest_env_scheme \<Rightarrow> int \<Rightarrow> string \<Rightarrow> ConfigurationVersion list \<Rightarrow> AcknowledgementRow list \<Rightarrow> json \<Rightarrow>
   AcknowledgementRow list \<Rightarrow> AcknowledgementRow list \<times> bool res" where
  "acknowledge_configuration env now app versions raced j acks =
     (if \<not> runtimeConfigurationAcknowledgementSchema env j
      then (acks, Inl (BadRequest ''Body must satisfy the current Runtime Configuration Acknowledgement contract''))
      else if event_text j ''application_id'' \<noteq> app
      then (acks, Inl (NotFound ''The acknowledged application configuration was not found''))
      else if now + 5 * 60000 < date_ms env (event_text j ''acknowledged_at'')
      then (acks, Inl (BadRequest ''acknowledged_at is too far in the future''))
      else
        (let row = ack_row env j; hash = ak_payloadHash row in
         case find_ack (ak_acknowledgementId row) acks of
           Some r \<Rightarrow> (acks, ack_known hash r)
         | None \<Rightarrow>
             (case List.find (\<lambda>v. int (cf_version v) = ak_configurationVersion row) versions of
                None \<Rightarrow> (acks, Inl (NotFound ''The acknowledged application configuration was not found''))
              | Some v \<Rightarrow>
                  if cf_etag v \<noteq> ak_configurationEtag row
                  then (acks, Inl (NotFound ''The acknowledged application configuration was not found''))
                  else
                    (case find_ack (ak_acknowledgementId row) raced of
                       Some r \<Rightarrow> (acks @ raced, ack_known hash r)
                     | None \<Rightarrow>
                         if \<not> ack_fits row then (acks @ raced, Inl (CheckViolation ''runtime_configuration_acknowledgements''))
                         else (acks @ raced @ [row], Inr False)))))"

text \<open>The HTTP status of an answer.\<close>

definition error_status :: "svc_error \<Rightarrow> int" where
  "error_status e = (case e of
     BadRequest _ \<Rightarrow> 400 | Conflict _ \<Rightarrow> 409 | NotFound _ \<Rightarrow> 404 | Forbidden _ \<Rightarrow> 403 | ServiceUnavailable _ \<Rightarrow> 503 | _ \<Rightarrow> 500)"

end
