(* ===== verification/SdkSnapshots.thy ===== *)
theory SdkSnapshots
  imports RuntimeDelivery SdkRouting
begin

text \<open>
  The runtime configuration in the Node SDK: acknowledgements (\<open>sdks/node/src/runtime/acknowledgements.ts\<close>), the file of the
  last known good snapshot (\<open>sdks/node/src/lkg.ts\<close>) and the snapshot manager (\<open>runtime-snapshot-manager.ts\<close>), over any
  control plane and over the API of \<open>RuntimeDelivery\<close>.
\<close>

subsection \<open>Documents\<close>

text \<open>What a JSON text denotes: a document of the shape of a snapshot, or another one, which no schema check passes.\<close>

datatype document = Shaped RuntimeSnapshot | Unshaped json

definition snapshot_json :: "'e snapshot_env_scheme \<Rightarrow> RuntimeSnapshot \<Rightarrow> json" where
  "snapshot_json env s = (case unsigned_json env s of
     JObj ms \<Rightarrow> JObj (ms @ [(''etag'', JStr (sn_etag s)), (''signature'', JStr (sn_signature s))]) | v \<Rightarrow> v)"

definition document_json :: "'e snapshot_env_scheme \<Rightarrow> document \<Rightarrow> json" where
  "document_json env doc = (case doc of Shaped s \<Rightarrow> snapshot_json env s | Unshaped j \<Rightarrow> j)"

datatype runtime_error =
    SnapshotInvalid sdk_error
  | SDK_RUNTIME_VERSION_COLLISION
  | SDK_UNEXPECTED_NOT_MODIFIED
  | SDK_RUNTIME_FETCH_FAILED int
  | SDK_RUNTIME_ACK_FAILED int
  | SDK_RUNTIME_UNAVAILABLE
  | SDK_RUNTIME_EXPIRED_CLOSED
  | FetchRejected
  | BodyInvalid
  | AcknowledgementInvalid
  | LkgUnreadable
  | LkgNotWritten

definition parse_document :: "'e snapshot_env_scheme \<Rightarrow> document \<Rightarrow> int \<Rightarrow> bool \<Rightarrow> runtime_error + RuntimeSnapshot" where
  "parse_document env doc now allowExpired = (case doc of
     Unshaped _ \<Rightarrow> Inl (SnapshotInvalid SDK_RUNTIME_SCHEMA)
   | Shaped s \<Rightarrow> (case parseVerifiedRuntimeSnapshot env s now allowExpired of
       Inl e \<Rightarrow> Inl (SnapshotInvalid e) | Inr v \<Rightarrow> Inr v))"

subsection \<open>Acknowledgements\<close>

datatype RuntimeAcknowledgementState = Received | Applied | Rejected

record RuntimeSdkIdentity =
  id_instanceId :: string
  id_version :: string

definition state_name :: "RuntimeAcknowledgementState \<Rightarrow> string" where
  "state_name s = (case s of Received \<Rightarrow> ''received'' | Applied \<Rightarrow> ''applied'' | Rejected \<Rightarrow> ''rejected'')"

text \<open>The pattern of the application id: a UUID of version 1 to 8.\<close>

definition application_uuid :: "string \<Rightarrow> bool" where
  "application_uuid s \<longleftrightarrow> hex_groups [8, 4, 4, 4, 12] s \<and> s ! 14 \<in> set ''12345678'' \<and> s ! 19 \<in> set ''89ABab''"

text \<open>\<open>configuration_version\<close> of a plan, when it is a positive safe integer.\<close>

definition plan_version :: "json \<Rightarrow> int option" where
  "plan_version plan = (case Option.bind (member plan ''configuration_version'') json_int of
     None \<Rightarrow> None | Some n \<Rightarrow> if 0 < n \<and> n \<le> 2 ^ 53 - 1 then Some n else None)"

text \<open>\<open>Object.values\<close> of an object or array.\<close>

definition json_values :: "json \<Rightarrow> json list option" where
  "json_values j = (case j of JObj ms \<Rightarrow> Some (map snd ms) | JArr xs \<Rightarrow> Some xs | _ \<Rightarrow> None)"

definition configurationReferences :: "json \<Rightarrow> (string \<times> int \<times> string) list" where
  "configurationReferences snapshot = (case Option.bind (member snapshot ''routing'') json_values of
     None \<Rightarrow> []
   | Some plans \<Rightarrow>
       (case (remdups (List.map_filter plan_version plans), string_member snapshot ''application_id'', string_member snapshot ''etag'') of
          ([version], Some app, Some etag) \<Rightarrow> if application_uuid app \<and> sha256_fingerprint etag then [(app, version, etag)] else []
        | _ \<Rightarrow> []))"

text \<open>The ids \<open>ulid\<close> draws and the messages of errors, cut to 500 characters, are arguments.\<close>

definition acknowledgement_json ::
  "'e snapshot_env_scheme \<Rightarrow> RuntimeAcknowledgementState \<Rightarrow> RuntimeSdkIdentity \<Rightarrow> int \<Rightarrow> string \<Rightarrow> string \<Rightarrow> string \<times> int \<times> string \<Rightarrow> json" where
  "acknowledgement_json env state identity now newId message reference =
     (let (app, version, etag) = reference in JObj
       [(''schema_version'', JStr ''2.0''), (''application_id'', JStr app), (''acknowledgement_id'', JStr newId),
        (''acknowledged_at'', JStr (toISOString env now)),
        (''connector'', JObj [(''instance_id'', JStr (id_instanceId identity)), (''name'', JStr ''node''), (''version'', JStr (id_version identity))]),
        (''configuration_version'', jint version), (''configuration_etag'', JStr etag), (''state'', JStr (state_name state)),
        (''applied_at'', if state = Applied then JStr (toISOString env now) else JNull),
        (''error'', if state = Rejected
          then JObj [(''code'', JStr ''SDK_RUNTIME_SNAPSHOT_REJECTED''), (''message'', JStr message)] else JNull)])"

definition runtimeAcknowledgements ::
  "'e ingest_env_scheme \<Rightarrow> json \<Rightarrow> RuntimeAcknowledgementState \<Rightarrow> RuntimeSdkIdentity \<Rightarrow> int \<Rightarrow> string \<Rightarrow> string \<Rightarrow> runtime_error + json list" where
  "runtimeAcknowledgements env value state identity now newId message =
     (let acks = map (acknowledgement_json env state identity now newId message) (configurationReferences value) in
      if list_all (runtimeConfigurationAcknowledgementSchema env) acks then Inr acks else Inl AcknowledgementInvalid)"

subsection \<open>The control plane\<close>

datatype 'b reply = NoReply | Reply int 'b

text \<open>The two endpoints, over the state of the server.\<close>

record 'd control_plane =
  cp_get :: "string option \<Rightarrow> 'd \<Rightarrow> 'd \<times> document option reply"
  cp_post :: "json \<Rightarrow> 'd \<Rightarrow> 'd \<times> unit reply"

definition ok :: "int \<Rightarrow> bool" where
  "ok status \<longleftrightarrow> 200 \<le> status \<and> status \<le> 299"

text \<open>\<open>flush\<close>: the acknowledgements in order until one is not accepted, which stays at the head.\<close>

fun ack_flush :: "(json \<Rightarrow> 'd \<Rightarrow> 'd \<times> unit reply) \<Rightarrow> json list \<Rightarrow> 'd \<Rightarrow> 'd \<times> json list \<times> runtime_error option" where
  "ack_flush post [] d = (d, [], None)"
| "ack_flush post (a # as) d = (case post a d of
     (d', NoReply) \<Rightarrow> (d', a # as, Some FetchRejected)
   | (d', Reply status _) \<Rightarrow>
       if ok status then ack_flush post as d' else (d', a # as, Some (SDK_RUNTIME_ACK_FAILED status)))"

subsection \<open>The snapshot manager\<close>

datatype RuntimeFailMode = Fail_open | Fail_closed

datatype snapshot_source = Remote | Lkg

text \<open>The file of the last known good snapshot, and what becomes of a write: the rename may have happened when the write
  fails.\<close>

datatype lkg_file = NoFile | Unreadable | Stored document

datatype lkg_write = Written | Failed_before_rename | Failed_after_rename

record manager =
  mg_snapshot :: "RuntimeSnapshot option"
  mg_source :: snapshot_source
  mg_pending :: "json list"
  mg_file :: lkg_file

datatype refresh_status = Updated | Not_modified | From_lkg

record RuntimeRefreshResult =
  rr_status :: refresh_status
  rr_version :: string
  rr_etag :: string
  rr_expired :: bool

text \<open>What one refresh meets: the readings of the clock at the four points that ask for it, the ids drawn, the messages of
  errors and the outcome of the write.\<close>

record refresh_world =
  rf_now :: "nat \<Rightarrow> int"
  rf_ids :: "nat \<Rightarrow> string"
  rf_message :: "runtime_error \<Rightarrow> string"
  rf_write :: lkg_write

record sdk_options =
  so_identity :: RuntimeSdkIdentity
  so_failMode :: RuntimeFailMode

definition requireUsable :: "RuntimeFailMode \<Rightarrow> int \<Rightarrow> manager \<Rightarrow> runtime_error + RuntimeSnapshot" where
  "requireUsable failMode now m = (case mg_snapshot m of
     None \<Rightarrow> Inl SDK_RUNTIME_UNAVAILABLE
   | Some s \<Rightarrow> if sn_expires_at s \<le> now \<and> failMode = Fail_closed then Inl SDK_RUNTIME_EXPIRED_CLOSED else Inr s)"

definition refresh_result :: "RuntimeFailMode \<Rightarrow> int \<Rightarrow> refresh_status \<Rightarrow> manager \<Rightarrow> runtime_error + RuntimeRefreshResult" where
  "refresh_result failMode now status m =
     bind_res (requireUsable failMode now m) (\<lambda>s. Inr
       \<lparr>rr_status = status, rr_version = sn_version s, rr_etag = sn_etag s, rr_expired = (sn_expires_at s \<le> now)\<rparr>)"

definition loadLkg :: "'e snapshot_env_scheme \<Rightarrow> int \<Rightarrow> manager \<Rightarrow> runtime_error + (manager \<times> bool)" where
  "loadLkg env now m = (case mg_file m of
     NoFile \<Rightarrow> Inr (m, False)
   | Unreadable \<Rightarrow> Inl LkgUnreadable
   | Stored doc \<Rightarrow>
       bind_res (parse_document env doc now True)
         (\<lambda>s. Inr (m\<lparr>mg_snapshot := Some s, mg_source := Lkg\<rparr>, True)))"

text \<open>The candidate passes the checks of \<open>refresh\<close>: verified, not expired, and not another snapshot under the version held.\<close>

definition accept_candidate :: "'e snapshot_env_scheme \<Rightarrow> int \<Rightarrow> manager \<Rightarrow> document \<Rightarrow> runtime_error + RuntimeSnapshot" where
  "accept_candidate env now m doc =
     bind_res (parse_document env doc now False)
       (\<lambda>candidate. case mg_snapshot m of
          Some s \<Rightarrow> if sn_version candidate = sn_version s \<and> sn_etag candidate \<noteq> sn_etag s
                    then Inl SDK_RUNTIME_VERSION_COLLISION else Inr candidate
        | None \<Rightarrow> Inr candidate)"

text \<open>\<open>queue\<close>, then \<open>flush\<close>; a refused acknowledgement is an error only where it is required.\<close>

definition queue_flush ::
  "'e ingest_env_scheme \<Rightarrow> sdk_options \<Rightarrow> refresh_world \<Rightarrow> 'd control_plane \<Rightarrow> nat \<Rightarrow> json \<Rightarrow> RuntimeAcknowledgementState \<Rightarrow> string \<Rightarrow> bool \<Rightarrow>
   manager \<Rightarrow> 'd \<Rightarrow> manager \<times> 'd \<times> runtime_error option" where
  "queue_flush env opts w cp k value state message required m d =
     (case runtimeAcknowledgements env value state (so_identity opts) (rf_now w k) (rf_ids w k) message of
        Inl e \<Rightarrow> (m, d, Some e)
      | Inr acks \<Rightarrow>
          (case ack_flush (cp_post cp) (mg_pending m @ acks) d of
             (d', pend, e) \<Rightarrow> (m\<lparr>mg_pending := pend\<rparr>, d', if required then e else None)))"

text \<open>A candidate is refused: its rejection is reported, then the failure is thrown.\<close>

definition refuse ::
  "'e ingest_env_scheme \<Rightarrow> sdk_options \<Rightarrow> refresh_world \<Rightarrow> 'd control_plane \<Rightarrow> json \<Rightarrow> runtime_error \<Rightarrow> manager \<Rightarrow> 'd \<Rightarrow>
   manager \<times> 'd \<times> (runtime_error + 'r)" where
  "refuse env opts w cp value failure m d =
     (case queue_flush env opts w cp 1 value Rejected (rf_message w failure) False m d of
        (m', d', Some e) \<Rightarrow> (m', d', Inl e)
      | (m', d', None) \<Rightarrow> (m', d', Inl failure))"

definition install ::
  "'e ingest_env_scheme \<Rightarrow> sdk_options \<Rightarrow> refresh_world \<Rightarrow> 'd control_plane \<Rightarrow> RuntimeSnapshot \<Rightarrow> manager \<Rightarrow> 'd \<Rightarrow>
   manager \<times> 'd \<times> (runtime_error + RuntimeRefreshResult)" where
  "install env opts w cp candidate m d =
     (let value = snapshot_json env candidate; stored = m\<lparr>mg_file := Stored (Shaped candidate)\<rparr> in
      case rf_write w of
        Failed_before_rename \<Rightarrow> refuse env opts w cp value LkgNotWritten m d
      | Failed_after_rename \<Rightarrow> refuse env opts w cp value LkgNotWritten stored d
      | Written \<Rightarrow>
          (case queue_flush env opts w cp 2 value Applied [] False (stored\<lparr>mg_snapshot := Some candidate, mg_source := Remote\<rparr>) d of
             (m', d', Some e) \<Rightarrow> (m', d', Inl e)
           | (m', d', None) \<Rightarrow> (m', d', refresh_result (so_failMode opts) (rf_now w 3) Updated m')))"

text \<open>The body of \<open>try\<close> in \<open>refresh\<close>.  The upload of spooled usage that follows a refresh reports its errors aside and
  touches none of this state.\<close>

definition try_refresh ::
  "'e ingest_env_scheme \<Rightarrow> sdk_options \<Rightarrow> refresh_world \<Rightarrow> 'd control_plane \<Rightarrow> manager \<Rightarrow> 'd \<Rightarrow>
   manager \<times> 'd \<times> (runtime_error + RuntimeRefreshResult)" where
  "try_refresh env opts w cp m d = (case ack_flush (cp_post cp) (mg_pending m) d of
     (d1, pend, Some e) \<Rightarrow> (m\<lparr>mg_pending := pend\<rparr>, d1, Inl e)
   | (d1, pend, None) \<Rightarrow>
       (let m1 = m\<lparr>mg_pending := pend\<rparr> in
        case cp_get cp (map_option (\<lambda>s. [CHR 0x22] @ sn_etag s @ [CHR 0x22]) (mg_snapshot m1)) d1 of
          (d2, NoReply) \<Rightarrow> (m1, d2, Inl FetchRejected)
        | (d2, Reply status body) \<Rightarrow>
            if status = 304 then
              (case mg_snapshot m1 of
                 None \<Rightarrow> (m1, d2, Inl SDK_UNEXPECTED_NOT_MODIFIED)
               | Some s \<Rightarrow>
                   (case parseVerifiedRuntimeSnapshot env s (rf_now w 0) False of
                      Inl e \<Rightarrow> (m1, d2, Inl (SnapshotInvalid e))
                    | Inr _ \<Rightarrow>
                        (let m2 = m1\<lparr>mg_source := Remote\<rparr> in
                         (m2, d2, refresh_result (so_failMode opts) (rf_now w 3) Not_modified m2))))
            else if \<not> ok status then (m1, d2, Inl (SDK_RUNTIME_FETCH_FAILED status))
            else
              (case body of
                 None \<Rightarrow> (m1, d2, Inl BodyInvalid)
               | Some doc \<Rightarrow>
                   (case accept_candidate env (rf_now w 0) m1 doc of
                      Inl failure \<Rightarrow> refuse env opts w cp (document_json env doc) failure m1 d2
                    | Inr candidate \<Rightarrow>
                        (case queue_flush env opts w cp 1 (snapshot_json env candidate) Received [] True m1 d2 of
                           (m2, d3, Some e) \<Rightarrow> (m2, d3, Inl e)
                         | (m2, d3, None) \<Rightarrow> install env opts w cp candidate m2 d3)))))"

definition refresh ::
  "'e ingest_env_scheme \<Rightarrow> sdk_options \<Rightarrow> refresh_world \<Rightarrow> 'd control_plane \<Rightarrow> manager \<Rightarrow> 'd \<Rightarrow>
   manager \<times> 'd \<times> (runtime_error + RuntimeRefreshResult)" where
  "refresh env opts w cp m d = (case try_refresh env opts w cp m d of
     (m1, d1, Inr result) \<Rightarrow> (m1, d1, Inr result)
   | (m1, d1, Inl failure) \<Rightarrow>
       (case (if mg_snapshot m1 = None then loadLkg env (rf_now w 0) m1 else Inr (m1, True)) of
          Inl e \<Rightarrow> (m1, d1, Inl e)
        | Inr (m2, _) \<Rightarrow>
            if mg_snapshot m2 = None then (m2, d1, Inl failure)
            else
              (let m3 = m2\<lparr>mg_source := Lkg\<rparr> in
               (m3, d1, refresh_result (so_failMode opts) (rf_now w 3) From_lkg m3))))"

subsection \<open>The API as the control plane\<close>

record runtime_server =
  sv_db :: routing_db
  sv_acks :: "AcknowledgementRow list"
  sv_now :: int

definition api_control_plane :: "'e ingest_env_scheme \<Rightarrow> string \<Rightarrow> runtime_server control_plane" where
  "api_control_plane env app =
     \<lparr>cp_get = (\<lambda>header s. (s, case get_snapshot env app header (rd_versions (sv_db s)) of
          Inl e \<Rightarrow> Reply (error_status e) None
        | Inr (snapshot, True) \<Rightarrow> Reply 304 None
        | Inr (snapshot, False) \<Rightarrow> Reply 200 (Some (Shaped snapshot)))),
      cp_post = (\<lambda>j s. case acknowledge_configuration env (sv_now s) app (rd_versions (sv_db s)) [] j (sv_acks s) of
          (acks, Inl e) \<Rightarrow> (s\<lparr>sv_acks := acks\<rparr>, Reply (error_status e) ())
        | (acks, Inr _) \<Rightarrow> (s\<lparr>sv_acks := acks\<rparr>, Reply 202 ()))\<rparr>"

end
