(* ===== verification/SnapshotFacts.thy ===== *)
theory SnapshotFacts
  imports SdkSnapshots RouteResolution
begin

text \<open>
  Facts about published configurations and the snapshot manager of the SDK: signing, inserting and serving, what a
  republished plan decides, and the steps of the manager with their invariant.
\<close>

subsection \<open>Signing, inserting, serving\<close>

lemma unsigned_json_signed [simp]: "unsigned_json env (s\<lparr>sn_etag := e, sn_signature := g\<rparr>) = unsigned_json env s"
  by (simp add: unsigned_json_def)

lemma sign_InrD:
  assumes "signRuntimeSnapshot env v = Inr s"
  shows "s = v\<lparr>sn_etag := runtimeFingerprint env (unsigned_json env v),
      sn_signature := bindingSignature env (sn_application_id v) (runtimeFingerprint env (unsigned_json env v))\<rparr>"
    and "runtimeSnapshotSchema env s"
  using assms by (simp_all add: signRuntimeSnapshot_def Let_def split: if_splits)

lemma sign_verifies:
  assumes "signRuntimeSnapshot env v = Inr s"
  shows "verifyRuntimeSnapshot env s = Inr s"
  using sign_InrD(2) [OF assms] by (simp add: verifyRuntimeSnapshot_def) (simp add: sign_InrD(1) [OF assms])

text \<open>The two verifiers agree but for the expiry.\<close>

lemma parse_verified_iff:
  "parseVerifiedRuntimeSnapshot env s now allowExpired = Inr v \<longleftrightarrow>
     v = s \<and> verifyRuntimeSnapshot env s = Inr s \<and> (allowExpired \<or> now < sn_expires_at s)"
  by (auto simp: parseVerifiedRuntimeSnapshot_def verifyRuntimeSnapshot_def runtimeFingerprint_def bindingSignature_def)

lemma verify_InrD: "verifyRuntimeSnapshot env s = Inr v \<Longrightarrow> v = s"
  by (auto simp: verifyRuntimeSnapshot_def split: if_splits)

lemma intact_InrD:
  assumes "intact_snapshot env app row = Inr s"
  shows "s = cf_snapshot row" "verifyRuntimeSnapshot env s = Inr s" "sn_application_id s = app" "cf_etag row = sn_etag s"
  using assms verify_InrD by (fastforce simp: intact_snapshot_def split: sum.splits if_splits)+

lemma retired_filter:
  "filter (\<lambda>v. cf_status v = Published) (update_rows (\<lambda>v. cf_status v = Published) (\<lambda>v. v\<lparr>cf_status := Retired\<rparr>) vs) = []"
  by (induction vs) (auto simp: update_rows_def)

definition new_version :: "nat \<Rightarrow> RuntimeSnapshot \<Rightarrow> ConfigurationVersion" where
  "new_version version s = \<lparr>cf_version = version, cf_status = Published, cf_etag = sn_etag s, cf_signature = sn_signature s, cf_snapshot = s\<rparr>"

lemma insert_InrD:
  assumes "insert_version version s db = Inr db'"
  shows "rd_versions db' =
      update_rows (\<lambda>v. cf_status v = Published) (\<lambda>v. v\<lparr>cf_status := Retired\<rparr>) (rd_versions db) @ [new_version version s]"
    and "sn_etag s \<notin> cf_etag ` set (rd_versions db)"
  using assms by (auto simp: insert_version_def new_version_def split: if_splits)

lemma insert_current:
  assumes "insert_version version s db = Inr db'"
  shows "current_version (rd_versions db') = Some (new_version version s)"
  by (simp add: insert_InrD(1) [OF assms] current_version_def retired_filter new_version_def)

lemma insert_serves:
  assumes "insert_version version s db = Inr db'" and "verifyRuntimeSnapshot env s = Inr s" and "sn_application_id s = app"
  shows "get_snapshot env app header (rd_versions db') = Inr (s, includesEtag header (sn_etag s))"
  by (simp add: get_snapshot_def insert_current [OF assms(1)] intact_snapshot_def new_version_def assms(2,3))

lemma publish_insert:
  assumes "publish env now db = Inr (s, db')"
  shows "insert_version (latest_version db + 1) s db = Inr db'"
  using assms by (auto simp: publish_def insert_version_def split: sum.splits if_splits)

subsection \<open>Routes of republished plans\<close>

text \<open>What a selection decides, without the version and the etag of the plan.\<close>

definition decided :: "sdk_error + RuntimeRouteSelection \<Rightarrow>
    sdk_error + string \<times> string \<times> string \<times> string option \<times> RuntimeRouteTarget \<times> RuntimeRouteTarget list" where
  "decided r = map_sum id (\<lambda>s. (se_virtualModel s, se_virtualModelId s, se_routeTag s, se_ruleId s, se_primary s, se_fallbacks s)) r"

lemma selection_republished:
  "decided (selection vm (republished_plan env app version now plan) route ruleId ctx) = decided (selection vm plan route ruleId ctx)"
  by (simp add: selection_def decided_def republished_plan_def split: list.split)

lemma map_of_republished:
  "map_of (map (\<lambda>(n, p). (n, f p)) ps) k = map_option f (map_of ps k)"
  by (induction ps) auto

lemma republished_routes:
  assumes "sn_routing s' = map (\<lambda>(name, plan). (name, republished_plan env' app version now plan)) (sn_routing s)"
  shows "decided (resolveRuntimeRoute env s' vm t ctx) = decided (resolveRuntimeRoute env s vm t ctx)"
proof (cases "map_of (sn_routing s) vm")
  case None
  then show ?thesis by (simp add: resolveRuntimeRoute_def assms map_of_republished)
next
  case (Some plan)
  let ?p = "republished_plan env' app version now plan"
  have same: "pl_timezone ?p = pl_timezone plan" "pl_default ?p = pl_default plan" "pl_rules ?p = pl_rules plan"
    by (simp_all add: republished_plan_def)
  show ?thesis
  proof (cases "localized env t (pl_timezone plan)")
    case (Inl e)
    then show ?thesis by (simp add: resolveRuntimeRoute_def assms map_of_republished Some same)
  next
    case (Inr loc)
    let ?matched = "filter (\<lambda>rule. ruleMatches env rule loc t ctx) (pl_rules plan)"
    let ?winners = "filter (\<lambda>rule. rr_priority rule = Max (set (map rr_priority ?matched))) ?matched"
    have "decided (case ?winners of [w] \<Rightarrow> selection vm ?p (rr_route w) (Some (RuntimeRoutingRule.rr_id w)) ctx | _ \<Rightarrow> Inl (SDK_RUNTIME_ROUTE_CONFLICT vm)) =
        decided (case ?winners of [w] \<Rightarrow> selection vm plan (rr_route w) (Some (RuntimeRoutingRule.rr_id w)) ctx | _ \<Rightarrow> Inl (SDK_RUNTIME_ROUTE_CONFLICT vm))"
      by (simp add: selection_republished split: list.split)
    then show ?thesis
      using Inr Some by (simp add: resolveRuntimeRoute_def assms map_of_republished same selection_republished Let_def)
  qed
qed

subsection \<open>Access publications and restorations\<close>

lemma publishWithin_InrD:
  assumes "publishWithin env now db = Inr (Some s, db')"
  shows "\<exists>row source. current_version (rd_versions db) = Some row \<and> intact_snapshot env (fst (rd_application db)) row = Inr source \<and>
    signRuntimeSnapshot env (access_snapshot env now db source) = Inr s \<and> insert_version (latest_version db + 1) s db = Inr db'"
  using assms by (cases "current_version (rd_versions db)")
    (auto simp: publishWithin_def bind_res_def split: sum.splits if_splits)

lemma restore_InrD:
  assumes "restore env enabledModels v now db = Inr (s, db')"
  shows "\<exists>row. List.find (\<lambda>r. int (cf_version r) = v) (rd_versions db) = Some row \<and>
    signRuntimeSnapshot env (restored_snapshot env now db (cf_snapshot row)) = Inr s \<and> insert_version (latest_version db + 1) s db = Inr db'"
  using assms verify_InrD
  by (cases "List.find (\<lambda>r. int (cf_version r) = v) (rd_versions db)")
    (fastforce simp: restore_def bind_res_def Let_def split: sum.splits if_splits)+

subsection \<open>The manager\<close>

lemma parse_document_InrD:
  assumes "parse_document env doc now allowExpired = Inr s"
  shows "doc = Shaped s" "verifyRuntimeSnapshot env s = Inr s" "allowExpired \<or> now < sn_expires_at s"
  using assms by (auto simp: parse_document_def parse_verified_iff split: document.splits sum.splits)

lemma accept_InrD:
  assumes "accept_candidate env now m doc = Inr s"
  shows "verifyRuntimeSnapshot env s = Inr s" "doc = Shaped s" "now < sn_expires_at s"
    and "mg_snapshot m = Some s0 \<Longrightarrow> sn_version s = sn_version s0 \<Longrightarrow> sn_etag s = sn_etag s0"
  using assms by (auto simp: accept_candidate_def bind_res_def dest: parse_document_InrD split: sum.splits option.splits if_splits)

text \<open>Acknowledgements move; the snapshot, its source and the file stay.\<close>

lemma queue_flush_frame:
  assumes "queue_flush env opts w cp k value state message required m d = (m', d', e)"
  shows "mg_snapshot m' = mg_snapshot m" "mg_file m' = mg_file m" "mg_source m' = mg_source m"
  using assms by (auto simp: queue_flush_def split: sum.splits prod.splits)

lemma refuse_frame:
  assumes "refuse env opts w cp value failure m d = (m', d', r)"
  shows "mg_snapshot m' = mg_snapshot m" "mg_file m' = mg_file m" "\<exists>e. r = Inl e"
proof -
  obtain m1 d1 e where q: "queue_flush env opts w cp 1 value Rejected (rf_message w failure) False m d = (m1, d1, e)" by (metis prod_cases3)
  have "m' = m1" "\<exists>x. r = Inl x" using assms q by (auto simp: refuse_def split: option.splits)
  then show "mg_snapshot m' = mg_snapshot m" "mg_file m' = mg_file m" "\<exists>e. r = Inl e" using queue_flush_frame [OF q] by simp_all
qed

text \<open>What a refresh may do to snapshot and file.\<close>

definition manager_moves :: "'e snapshot_env_scheme \<Rightarrow> manager \<Rightarrow> manager \<Rightarrow> bool" where
  "manager_moves env m m' \<longleftrightarrow>
     mg_snapshot m' = mg_snapshot m \<and> (mg_file m' = mg_file m \<or> (\<exists>s. mg_file m' = Stored (Shaped s) \<and> verifyRuntimeSnapshot env s = Inr s)) \<or>
     (\<exists>s. mg_snapshot m' = Some s \<and> mg_file m' = Stored (Shaped s) \<and> verifyRuntimeSnapshot env s = Inr s \<and>
        (\<forall>s0. mg_snapshot m = Some s0 \<longrightarrow> sn_version s = sn_version s0 \<longrightarrow> sn_etag s = sn_etag s0))"

lemma install_moves:
  assumes "install env opts w cp s m d = (m', d', r)" and "verifyRuntimeSnapshot env s = Inr s"
    and "\<And>s0. mg_snapshot m = Some s0 \<Longrightarrow> sn_version s = sn_version s0 \<Longrightarrow> sn_etag s = sn_etag s0"
  shows "manager_moves env m m'"
proof (cases "rf_write w")
  case Written
  let ?m = "m\<lparr>mg_file := Stored (Shaped s), mg_snapshot := Some s, mg_source := Remote\<rparr>"
  obtain m1 d1 e where q: "queue_flush env opts w cp 2 (snapshot_json env s) Applied [] False ?m d = (m1, d1, e)"
    by (metis prod_cases3)
  have "m' = m1" using assms(1) q Written by (auto simp: install_def Let_def split: option.splits)
  then show ?thesis using queue_flush_frame [OF q] assms(2,3) by (auto simp: manager_moves_def)
next
  case Failed_before_rename
  then have "refuse env opts w cp (snapshot_json env s) LkgNotWritten m d = (m', d', r)" using assms(1) by (simp add: install_def Let_def)
  from refuse_frame(1,2) [OF this] show ?thesis by (simp add: manager_moves_def)
next
  case Failed_after_rename
  then have "refuse env opts w cp (snapshot_json env s) LkgNotWritten (m\<lparr>mg_file := Stored (Shaped s)\<rparr>) d = (m', d', r)"
    using assms(1) by (simp add: install_def Let_def)
  from refuse_frame(1,2) [OF this] show ?thesis using assms(2) by (simp add: manager_moves_def)
qed

lemma moves_refl: "mg_snapshot m' = mg_snapshot m \<Longrightarrow> mg_file m' = mg_file m \<Longrightarrow> manager_moves env m m'"
  by (simp add: manager_moves_def)

lemma moves_pending [simp]: "manager_moves env (m\<lparr>mg_pending := p\<rparr>) m' = manager_moves env m m'"
  by (simp add: manager_moves_def)

lemma candidate_moves:
  assumes "queue_flush env opts w cp 1 value Received [] True m d = (m2, d3, e)"
    and "(case e of Some x \<Rightarrow> (m2, d3, Inl x) | None \<Rightarrow> install env opts w cp s m2 d3) = (m', d', r)"
    and "accept_candidate env now m doc = Inr s"
  shows "manager_moves env m m'"
proof (cases e)
  case None
  have "manager_moves env m2 m'"
  proof (rule install_moves)
    show "install env opts w cp s m2 d3 = (m', d', r)" using assms(2) None by simp
    show "verifyRuntimeSnapshot env s = Inr s" using accept_InrD(1) [OF assms(3)] .
  qed (use accept_InrD(4) [OF assms(3)] queue_flush_frame(1) [OF assms(1)] in simp)
  then show ?thesis using queue_flush_frame [OF assms(1)] by (simp add: manager_moves_def)
next
  case (Some x)
  then show ?thesis using assms(2) queue_flush_frame [OF assms(1)] by (auto intro: moves_refl)
qed

lemma try_refresh_moves:
  assumes "try_refresh env opts w cp m d = (m', d', r)"
  shows "manager_moves env m m'"
proof -
  obtain d1 pend e where fl: "ack_flush (cp_post cp) (mg_pending m) d = (d1, pend, e)" by (metis prod_cases3)
  let ?m1 = "m\<lparr>mg_pending := pend\<rparr>"
  show ?thesis
  proof (cases e)
    case (Some x)
    then show ?thesis using assms fl by (auto simp: try_refresh_def intro: moves_refl)
  next
    case None
    obtain d2 rep where get: "cp_get cp (map_option (\<lambda>s. [CHR 0x22] @ sn_etag s @ [CHR 0x22]) (mg_snapshot m)) d1 = (d2, rep)" by fastforce
    have "manager_moves env ?m1 m'"
    proof (cases rep)
      case NoReply
      then show ?thesis using assms fl None get by (auto simp: try_refresh_def intro: moves_refl)
    next
      case (Reply status body)
      show ?thesis
      proof (cases "status = 304 \<or> \<not> ok status \<or> body = None")
        case True
        then show ?thesis using assms fl None get Reply
          by (auto simp: try_refresh_def Let_def split: if_splits option.splits sum.splits intro: moves_refl)
      next
        case False
        then obtain doc where doc: "body = Some doc" by auto
        show ?thesis
        proof (cases "accept_candidate env (rf_now w 0) ?m1 doc")
          case (Inl failure)
          then have "refuse env opts w cp (document_json env doc) failure ?m1 d2 = (m', d', r)"
            using assms fl None get Reply False doc by (simp add: try_refresh_def Let_def)
          from refuse_frame(1,2) [OF this] show ?thesis by (auto intro: moves_refl)
        next
          case (Inr s)
          obtain m2 d3 e2 where q: "queue_flush env opts w cp 1 (snapshot_json env s) Received [] True ?m1 d2 = (m2, d3, e2)"
            by (metis prod_cases3)
          have "(case e2 of Some x \<Rightarrow> (m2, d3, Inl x) | None \<Rightarrow> install env opts w cp s m2 d3) = (m', d', r)"
            using assms fl None get Reply False doc Inr q by (auto simp: try_refresh_def Let_def split: option.splits)
          from candidate_moves [OF q this Inr] show ?thesis .
        qed
      qed
    qed
    then show ?thesis by simp
  qed
qed

lemma loadLkg_InrD:
  assumes "loadLkg env now m = Inr (m', found)"
  shows "mg_file m' = mg_file m" "mg_pending m' = mg_pending m"
    and "mg_snapshot m' = mg_snapshot m \<or> (\<exists>s. mg_snapshot m' = Some s \<and> mg_file m = Stored (Shaped s) \<and> verifyRuntimeSnapshot env s = Inr s)"
  using assms by (auto simp: loadLkg_def bind_res_def dest: parse_document_InrD split: lkg_file.splits sum.splits)

text \<open>The processes of an application: a manager refreshes, reads its file or starts anew with the file left behind.\<close>

inductive manager_step :: "'e ingest_env_scheme \<Rightarrow> 'd control_plane \<Rightarrow> manager \<Rightarrow> manager \<Rightarrow> bool" for env cp where
  refreshed: "refresh env opts w cp m d = (m', d', r) \<Longrightarrow> manager_step env cp m m'"
| loaded: "loadLkg env now m = Inr (m', found) \<Longrightarrow> manager_step env cp m m'"
| restarted: "manager_step env cp m (m\<lparr>mg_snapshot := None, mg_source := Lkg, mg_pending := []\<rparr>)"

inductive manager_reachable :: "'e ingest_env_scheme \<Rightarrow> 'd control_plane \<Rightarrow> lkg_file \<Rightarrow> manager \<Rightarrow> bool" for env cp f where
  start: "manager_reachable env cp f \<lparr>mg_snapshot = None, mg_source = Lkg, mg_pending = [], mg_file = f\<rparr>"
| step: "manager_reachable env cp f m \<Longrightarrow> manager_step env cp m m' \<Longrightarrow> manager_reachable env cp f m'"

definition held_verified :: "'e snapshot_env_scheme \<Rightarrow> manager \<Rightarrow> bool" where
  "held_verified env m \<longleftrightarrow> (case mg_snapshot m of None \<Rightarrow> True | Some s \<Rightarrow> verifyRuntimeSnapshot env s = Inr s)"

lemma moves_held: "manager_moves env m m' \<Longrightarrow> held_verified env m \<Longrightarrow> held_verified env m'"
  by (auto simp: manager_moves_def held_verified_def)

text \<open>A refresh is the body of its \<open>try\<close>, then possibly a look at the file.\<close>

lemma refresh_cases:
  assumes "refresh env opts w cp m d = (m', d', r)"
  shows "\<exists>m1 r1. try_refresh env opts w cp m d = (m1, d', r1) \<and>
    (m' = m1 \<or> (\<exists>x. r1 = Inl x) \<and> mg_file m' = mg_file m1 \<and> mg_pending m' = mg_pending m1 \<and>
       (mg_snapshot m' = mg_snapshot m1 \<or>
        mg_snapshot m1 = None \<and> (\<exists>s. mg_snapshot m' = Some s \<and> mg_file m1 = Stored (Shaped s) \<and> verifyRuntimeSnapshot env s = Inr s)))"
proof -
  obtain m1 d1 r1 where t: "try_refresh env opts w cp m d = (m1, d1, r1)" by (metis prod_cases3)
  show ?thesis
  proof (cases r1)
    case (Inr x)
    then show ?thesis using assms t by (simp add: refresh_def)
  next
    case (Inl failure)
    show ?thesis
    proof (cases "mg_snapshot m1")
      case (Some s)
      then show ?thesis using assms t Inl by (auto simp: refresh_def Let_def)
    next
      case None
      show ?thesis
      proof (cases "loadLkg env (rf_now w 0) m1")
        case l: (Inl e)
        then show ?thesis using assms t Inl None by (auto simp: refresh_def)
      next
        case l: (Inr p)
        obtain m2 found where p: "p = (m2, found)" by fastforce
        have "m' = m2 \<or> m' = m2\<lparr>mg_source := Lkg\<rparr>" "d' = d1"
          using assms t Inl None l p by (auto simp: refresh_def Let_def split: if_splits)
        then show ?thesis using t Inl None loadLkg_InrD [OF l [unfolded p]] by auto
      qed
    qed
  qed
qed

lemma manager_step_held:
  assumes "manager_step env cp m m'" and "held_verified env m"
  shows "held_verified env m'"
  using assms
proof (cases rule: manager_step.cases)
  case (refreshed opts w d d' r)
  obtain m1 r1 where t: "try_refresh env opts w cp m d = (m1, d', r1)"
    and c: "m' = m1 \<or> (\<exists>x. r1 = Inl x) \<and> mg_file m' = mg_file m1 \<and> mg_pending m' = mg_pending m1 \<and>
       (mg_snapshot m' = mg_snapshot m1 \<or>
        mg_snapshot m1 = None \<and> (\<exists>s. mg_snapshot m' = Some s \<and> mg_file m1 = Stored (Shaped s) \<and> verifyRuntimeSnapshot env s = Inr s))"
    using refresh_cases [OF refreshed] by blast
  have "held_verified env m1" using moves_held [OF try_refresh_moves [OF t] assms(2)] .
  then show ?thesis using c by (auto simp: held_verified_def)
next
  case (loaded now found)
  then show ?thesis using assms(2) loadLkg_InrD(3) [OF loaded] by (auto simp: held_verified_def)
next
  case restarted
  then show ?thesis by (simp add: held_verified_def)
qed

subsection \<open>The etag header\<close>

lemma split_on_free: "c \<notin> set s \<Longrightarrow> split_on c s = [s]"
  by (induction s) auto

lemma whitespace_ends:
  "list_all (\<lambda>w. w \<noteq> [] \<and> hd w \<noteq> CHR 0x22 \<and> last w \<noteq> CHR 0x22) js_whitespace"
  by code_simp

lemma strip_quote:
  assumes "list_all (\<lambda>w. w \<noteq> [] \<longrightarrow> hd w \<noteq> c) ws"
  shows "strip_words ws (c # s) = c # s"
proof -
  have "\<not> (w \<noteq> [] \<and> take (length w) (c # s) = w)" if "w \<in> set ws" for w
    using assms that by (cases w) (auto simp: list_all_iff)
  then have "List.find (\<lambda>w. w \<noteq> [] \<and> take (length w) (c # s) = w) ws = None" by (auto simp: find_None_iff)
  then show ?thesis by (simp add: strip_words.simps)
qed

lemma trim_quoted: "js_trim (CHR 0x22 # s @ [CHR 0x22]) = CHR 0x22 # s @ [CHR 0x22]"
proof -
  have "list_all (\<lambda>w. w \<noteq> [] \<longrightarrow> hd w \<noteq> CHR 0x22) js_whitespace"
    "list_all (\<lambda>w. w \<noteq> [] \<longrightarrow> hd w \<noteq> CHR 0x22) (map rev js_whitespace)"
    using whitespace_ends by (auto simp: list_all_iff hd_rev)
  then show ?thesis by (simp add: js_trim_def strip_quote)
qed

lemma fingerprint_chars: "sha256_fingerprint e \<Longrightarrow> CHR '','' \<notin> set e"
proof
  assume e: "sha256_fingerprint e" and "CHR '','' \<in> set e"
  then have "CHR '','' \<in> set (take 7 e) \<or> CHR '','' \<in> set (drop 7 e)" by (metis Un_iff append_take_drop_id set_append)
  then show False using e by (auto simp: sha256_fingerprint_def list_all_iff is_digit_def)
qed

lemma includesEtag_quoted:
  assumes "sha256_fingerprint e"
  shows "includesEtag (Some ([CHR 0x22] @ e @ [CHR 0x22])) etag \<longleftrightarrow> e = etag"
proof -
  have "CHR '','' \<notin> set (CHR 0x22 # e @ [CHR 0x22])" using fingerprint_chars [OF assms] by simp
  then have "split_on (CHR '','') (CHR 0x22 # e @ [CHR 0x22]) = [CHR 0x22 # e @ [CHR 0x22]]" by (rule split_on_free)
  then show ?thesis by (simp add: includesEtag_def trim_quoted js_startsWith_def Let_def)
qed

subsection \<open>Acknowledgements\<close>

definition clock_ok :: "'e ingest_env_scheme \<Rightarrow> int \<Rightarrow> bool" where
  "clock_ok env t \<longleftrightarrow> isRealUtcDateTime (toISOString env t) \<and> date_ms env (toISOString env t) = t"

definition identity_ok :: "RuntimeSdkIdentity \<Rightarrow> bool" where
  "identity_ok i \<longleftrightarrow> bounded_unicode 1 256 (id_instanceId i) \<and> semantic_version (id_version i) \<and> length (id_version i) \<le> 64"

lemma ack_schema:
  assumes "clock_ok env t" and "is_uuid env app" and "ulid k \<or> uuid_v7 k" and "0 < n" and "n \<le> 2 ^ 53 - 1"
    and "sha256_fingerprint etag" and "identity_ok identity" and "state = Rejected \<Longrightarrow> bounded_unicode 1 500 message"
  shows "runtimeConfigurationAcknowledgementSchema env (acknowledgement_json env state identity t k message (app, n, etag))"
proof -
  have conn: "ack_connector_schema (JObj [(''instance_id'', JStr (id_instanceId identity)), (''name'', JStr ''node''), (''version'', JStr (id_version identity))])"
    using assms(7) by (simp add: ack_connector_schema_def z_object_def req_def bounded_string_def z_enum_def identity_ok_def)
  have err: "ack_error_schema (JObj [(''code'', JStr ''SDK_RUNTIME_SNAPSHOT_REJECTED''), (''message'', JStr message)])" if "state = Rejected"
  proof -
    have "ack_error_code ''SDK_RUNTIME_SNAPSHOT_REJECTED''" by code_simp
    then show ?thesis using assms(8) [OF that] by (simp add: ack_error_schema_def z_object_def req_def bounded_string_def)
  qed
  have time: "utcTimestampSchema (JStr (toISOString env t))" using assms(1) by (simp add: utcTimestampSchema_def clock_ok_def)
  have num: "z_int (\<lambda>n. 0 < n) (jint n)" using assms(4,5) by (simp add: z_int_def jint_def json_int_def)
  show ?thesis
  proof (cases state)
    case Received
    then show ?thesis using assms(2,3,6) conn time num
      by (simp add: runtimeConfigurationAcknowledgementSchema_def acknowledgement_json_def z_object_def req_def z_literal_def contractIdSchema_def
          z_enum_def z_nullable_def ack_refined_def string_member_def json_string_def state_name_def)
  next
    case Applied
    then show ?thesis using assms(1,2,3,6) conn time num
      by (simp add: runtimeConfigurationAcknowledgementSchema_def acknowledgement_json_def z_object_def req_def z_literal_def contractIdSchema_def
          z_enum_def z_nullable_def ack_refined_def string_member_def json_string_def state_name_def event_text_def)
  next
    case Rejected
    then show ?thesis using assms(2,3,6) conn time num err
      by (simp add: runtimeConfigurationAcknowledgementSchema_def acknowledgement_json_def z_object_def req_def z_literal_def contractIdSchema_def
          z_enum_def z_nullable_def ack_refined_def string_member_def json_string_def state_name_def)
  qed
qed

lemma ack_texts:
  "event_text (acknowledgement_json env state identity t k message (app, n, etag)) ''application_id'' = app"
  "event_text (acknowledgement_json env state identity t k message (app, n, etag)) ''acknowledged_at'' = toISOString env t"
  "event_text (acknowledgement_json env state identity t k message (app, n, etag)) ''acknowledgement_id'' = k"
  "event_text (acknowledgement_json env state identity t k message (app, n, etag)) ''configuration_etag'' = etag"
  "event_text (acknowledgement_json env state identity t k message (app, n, etag)) ''state'' = state_name state"
  "event_text (sub (acknowledgement_json env state identity t k message (app, n, etag)) ''connector'') ''version'' = id_version identity"
  "int_member (acknowledgement_json env state identity t k message (app, n, etag)) ''configuration_version'' = n"
  by (simp_all add: acknowledgement_json_def event_text_def string_member_def json_string_def sub_def int_member_def jint_def json_int_def)

text \<open>The API accepts an acknowledgement of a version it has published, under a fresh id and not from the future.\<close>

lemma post_accepted:
  assumes j_def: "j = acknowledgement_json env state identity t k message (app, n, etag)"
    and "runtimeConfigurationAcknowledgementSchema env j" and "date_ms env (toISOString env t) = t" and "t \<le> sv_now s + 300000"
    and "k \<notin> ak_acknowledgementId ` set (sv_acks s)" and "length (id_version identity) \<le> 64" and "n \<le> 2 ^ 31 - 1"
    and "List.find (\<lambda>v. int (cf_version v) = n) (rd_versions (sv_db s)) = Some v" and "cf_etag v = etag"
  shows "cp_post (api_control_plane env app) j s = (s\<lparr>sv_acks := sv_acks s @ [ack_row env j]\<rparr>, Reply 202 ())"
    and "ak_acknowledgementId (ack_row env j) = k" and "ak_state (ack_row env j) = states (state_name state)"
proof -
  have none: "find_ack k (sv_acks s) = None" using assms(5) by (auto simp: find_ack_def find_None_iff)
  have row: "ak_acknowledgementId (ack_row env j) = k" "ak_configurationVersion (ack_row env j) = n" "ak_configurationEtag (ack_row env j) = etag"
    "ak_connectorVersion (ack_row env j) = id_version identity" "ak_state (ack_row env j) = states (state_name state)"
    by (simp_all add: ack_row_def j_def ack_texts)
  have texts: "event_text j ''application_id'' = app" "event_text j ''acknowledged_at'' = toISOString env t" by (simp_all add: j_def ack_texts)
  have "acknowledge_configuration env (sv_now s) app (rd_versions (sv_db s)) [] j (sv_acks s) = (sv_acks s @ [ack_row env j], Inr False)"
    using assms(2-9) none by (simp add: acknowledge_configuration_def Let_def row texts ack_fits_def find_ack_def)
  then show "cp_post (api_control_plane env app) j s = (s\<lparr>sv_acks := sv_acks s @ [ack_row env j]\<rparr>, Reply 202 ())"
    by (simp add: api_control_plane_def)
  show "ak_acknowledgementId (ack_row env j) = k" "ak_state (ack_row env j) = states (state_name state)" by (rule row)+
qed

text \<open>The version it acknowledges is unknown, or was published with another etag.\<close>

definition unacceptable :: "json \<Rightarrow> runtime_server \<Rightarrow> bool" where
  "unacceptable j s \<longleftrightarrow>
     list_all (\<lambda>v. int (cf_version v) \<noteq> int_member j ''configuration_version'' \<or> cf_etag v \<noteq> event_text j ''configuration_etag'')
       (rd_versions (sv_db s)) \<and>
     event_text j ''acknowledgement_id'' \<notin> ak_acknowledgementId ` set (sv_acks s)"

lemma post_unacceptable:
  assumes "unacceptable j s"
  shows "\<exists>status. cp_post (api_control_plane env app) j s = (s, Reply status ()) \<and> \<not> ok status"
proof -
  have row: "ak_acknowledgementId (ack_row env j) = event_text j ''acknowledgement_id''"
    "ak_configurationVersion (ack_row env j) = int_member j ''configuration_version''"
    "ak_configurationEtag (ack_row env j) = event_text j ''configuration_etag''" by (simp_all add: ack_row_def)
  have none: "find_ack (event_text j ''acknowledgement_id'') (sv_acks s) = None"
    using assms unfolding unacceptable_def find_ack_def find_None_iff by (metis image_eqI)
  have other: "cf_etag v \<noteq> event_text j ''configuration_etag''"
    if "List.find (\<lambda>v. int (cf_version v) = int_member j ''configuration_version'') (rd_versions (sv_db s)) = Some v" for v
    using that assms by (auto simp: unacceptable_def list_all_iff find_Some_iff)
  have "\<exists>e. acknowledge_configuration env (sv_now s) app (rd_versions (sv_db s)) [] j (sv_acks s) = (sv_acks s, Inl e) \<and> \<not> ok (error_status e)"
    using none other
    by (auto simp: acknowledge_configuration_def Let_def row ok_def error_status_def split: option.splits)
  then show ?thesis by (auto simp: api_control_plane_def)
qed

lemma refresh_blocked:
  assumes "mg_pending m = a # as" and "cp_post cp a d = (d, Reply status ())" and "\<not> ok status" and "mg_snapshot m = Some s"
  shows "fst (refresh env opts w cp m d) = m\<lparr>mg_source := Lkg\<rparr>" and "fst (snd (refresh env opts w cp m d)) = d"
proof -
  have "try_refresh env opts w cp m d = (m\<lparr>mg_pending := a # as\<rparr>, d, Inl (SDK_RUNTIME_ACK_FAILED status))"
    using assms by (simp add: try_refresh_def)
  moreover have "m\<lparr>mg_pending := a # as\<rparr> = m" using assms(1) by simp
  ultimately show "fst (refresh env opts w cp m d) = m\<lparr>mg_source := Lkg\<rparr>" "fst (snd (refresh env opts w cp m d)) = d"
    using assms(4) by (simp_all add: refresh_def Let_def)
qed

text \<open>Later refreshes, each with the server as it is then.\<close>

fun refresh_rounds :: "'e ingest_env_scheme \<Rightarrow> sdk_options \<Rightarrow> string \<Rightarrow> (refresh_world \<times> runtime_server) list \<Rightarrow> manager \<Rightarrow> manager" where
  "refresh_rounds env opts app [] m = m"
| "refresh_rounds env opts app ((w, s) # rounds) m =
     refresh_rounds env opts app rounds (fst (refresh env opts w (api_control_plane env app) m s))"

lemma rounds_blocked:
  assumes "mg_pending m = a # as" and "mg_snapshot m = Some s0" and "list_all (\<lambda>(w, s). unacceptable a s) rounds"
  shows "mg_snapshot (refresh_rounds env opts app rounds m) = Some s0 \<and> mg_pending (refresh_rounds env opts app rounds m) = a # as"
  using assms
proof (induction rounds arbitrary: m)
  case (Cons r rounds)
  obtain w s where r: "r = (w, s)" by fastforce
  then have "unacceptable a s" using Cons.prems(3) by simp
  then obtain status where "cp_post (api_control_plane env app) a s = (s, Reply status ())" "\<not> ok status"
    using post_unacceptable by blast
  from refresh_blocked(1) [OF Cons.prems(1) this Cons.prems(2)]
  have "fst (refresh env opts w (api_control_plane env app) m s) = m\<lparr>mg_source := Lkg\<rparr>" .
  then show ?case using Cons.IH [of "m\<lparr>mg_source := Lkg\<rparr>"] Cons.prems r by simp
qed simp

subsection \<open>Installing a publication\<close>

lemma build_plan_version:
  assumes "build_plan env inp vm = Inr (iss, ps)"
  shows "list_all (\<lambda>(_, p). pl_configuration_version p = int (in_version inp)) ps"
  using assms
  by (auto simp: build_plan_def Let_def bind_res_def split: if_splits option.splits sum.splits)

lemma build_plans_version:
  "build_plans env inp vms = Inr (iss, ps) \<Longrightarrow> list_all (\<lambda>(_, p). pl_configuration_version p = int (in_version inp)) ps"
proof (induction vms arbitrary: iss ps)
  case (Cons vm vms)
  obtain i1 p1 where b1: "build_plan env inp vm = Inr (i1, p1)" using Cons.prems by (cases "build_plan env inp vm") auto
  obtain i2 p2 where b2: "build_plans env inp vms = Inr (i2, p2)" using Cons.prems b1 by (cases "build_plans env inp vms") auto
  have "ps = p1 @ p2" using Cons.prems b1 b2 by simp
  then show ?case using build_plan_version [OF b1] Cons.IH [OF b2] by simp
qed simp

lemma build_plans_nonempty:
  assumes "build_plans env inp (vm # vms) = Inr ([], ps)"
  shows "ps \<noteq> []"
proof -
  obtain i1 p1 where b1: "build_plan env inp vm = Inr (i1, p1)" using assms by (cases "build_plan env inp vm") auto
  obtain i2 p2 where b2: "build_plans env inp vms = Inr (i2, p2)" using assms b1 by (cases "build_plans env inp vms") auto
  have "i1 = []" "ps = p1 @ p2" using assms b1 b2 by simp_all
  moreover obtain pl where "p1 = [(VirtualModel.vm_name vm, pl)]" using build_plan_InrD [of env inp vm p1] b1 \<open>i1 = []\<close> by blast
  ultimately show ?thesis by simp
qed

lemma publish_facts:
  assumes "publish env now db = Inr (s, db')"
  shows "sn_application_id s = fst (rd_application db)" "sn_routing s \<noteq> []" "verifyRuntimeSnapshot env s = Inr s"
    "sn_expires_at s = now + ten_years_ms"
    "list_all (\<lambda>(_, p). pl_configuration_version p = int (latest_version db + 1)) (sn_routing s)"
proof -
  let ?inp = "publish_input db now"
  have b: "buildRuntimePublication env ?inp = Inr s" using assms by (auto simp: publish_def split: sum.splits if_splits)
  have inp: "in_version ?inp = latest_version db + 1" "in_now ?inp = now" "in_applicationId ?inp = fst (rd_application db)"
    by (simp_all add: publish_input_def Let_def split: prod.splits)
  have plans: "build_plans env ?inp (in_virtualModels ?inp) = Inr ([], sn_routing s)" by (rule published_InrD(2) [OF b])
  show "sn_application_id s = fst (rd_application db)"
    using b inp(3) by (auto simp: buildRuntimePublication_def Let_def signRuntimeSnapshot_def split: sum.splits prod.splits if_splits)
  have "in_virtualModels ?inp \<noteq> []"
    using b by (auto simp: buildRuntimePublication_def Let_def split: sum.splits prod.splits if_splits)
  then obtain vm vms where "in_virtualModels ?inp = vm # vms" by (cases "in_virtualModels ?inp") simp_all
  then show "sn_routing s \<noteq> []" using build_plans_nonempty [of env ?inp vm vms "sn_routing s"] plans by simp
  show "verifyRuntimeSnapshot env s = Inr s" by (rule published_InrD(3) [OF b])
  show "sn_expires_at s = now + ten_years_ms" using published_InrD(4) [OF b] inp(2) by simp
  show "list_all (\<lambda>(_, p). pl_configuration_version p = int (latest_version db + 1)) (sn_routing s)"
    using build_plans_version [OF plans] inp(1) by simp
qed

lemma plan_version_json:
  assumes "0 < pl_configuration_version p" and "pl_configuration_version p \<le> 2 ^ 53 - 1"
  shows "plan_version (plan_json env p) = Some (pl_configuration_version p)"
  using assms by (simp add: plan_version_def plan_json_def jint_def json_int_def)

lemma references_of_snapshot:
  assumes "sn_routing s \<noteq> []" and "list_all (\<lambda>(_, p). pl_configuration_version p = n) (sn_routing s)" and "0 < n" and "n \<le> 2 ^ 53 - 1"
    and "application_uuid (sn_application_id s)" and "sha256_fingerprint (sn_etag s)"
  shows "configurationReferences (snapshot_json env s) = [(sn_application_id s, n, sn_etag s)]"
proof -
  have "List.map_filter plan_version (map (\<lambda>(k, p). plan_json env p) ps) = map (\<lambda>_. n) ps"
    if "list_all (\<lambda>(_, p). pl_configuration_version p = n) ps" for ps :: "(string \<times> RuntimeRoutingPlan) list"
    using that assms(3,4) by (induction ps) (auto simp: map_filter_simps plan_version_json)
  then have "List.map_filter plan_version (map (\<lambda>(k, p). plan_json env p) (sn_routing s)) = map (\<lambda>_. n) (sn_routing s)"
    using assms(2) by blast
  moreover have "remdups (map (\<lambda>_. n) ps) = [n]" if "ps \<noteq> []" for ps :: "(string \<times> RuntimeRoutingPlan) list"
  proof -
    have "set (map (\<lambda>_. n) ps) = {n}" using that by (cases ps) auto
    then have "length (remdups (map (\<lambda>_. n) ps)) = 1" by (simp add: length_remdups_card_conv)
    moreover have "set (remdups (map (\<lambda>_. n) ps)) = {n}" using that by (cases ps) auto
    ultimately show ?thesis by (cases "remdups (map (\<lambda>_. n) ps)") auto
  qed
  moreover have "map (snd \<circ> (\<lambda>(k, p). (k, plan_json env p))) (sn_routing s) = map (\<lambda>(k, p). plan_json env p) (sn_routing s)"
    by auto
  ultimately have "remdups (List.map_filter plan_version (map (snd \<circ> (\<lambda>(k, p). (k, plan_json env p))) (sn_routing s))) = [n]"
    using assms(1) by presburger
  then show ?thesis using assms(5,6)
    by (simp add: configurationReferences_def snapshot_json_def unsigned_json_def json_values_def string_member_def json_string_def)
qed

lemma latest_max: "v \<in> set (rd_versions db) \<Longrightarrow> cf_version v \<le> latest_version db"
proof -
  have mono: "x \<le> fold (\<lambda>v. max (cf_version v)) vs x" for vs x
  proof (induction vs arbitrary: x)
    case (Cons v vs)
    have "x \<le> max (cf_version v) x" by simp
    also have "\<dots> \<le> fold (\<lambda>v. max (cf_version v)) vs (max (cf_version v) x)" by (rule Cons.IH)
    finally show ?case by simp
  qed simp
  have "v \<in> set vs \<Longrightarrow> cf_version v \<le> fold (\<lambda>v. max (cf_version v)) vs x" for vs x
  proof (induction vs arbitrary: x)
    case (Cons u us)
    then show ?case using mono [of "max (cf_version u) x" us] by auto
  qed simp
  then show "v \<in> set (rd_versions db) \<Longrightarrow> cf_version v \<le> latest_version db" by (simp add: latest_version_def)
qed

lemma find_new_version:
  assumes "insert_version (latest_version db + 1) s db = Inr db'"
  shows "List.find (\<lambda>v. int (cf_version v) = int (latest_version db + 1)) (rd_versions db') = Some (new_version (latest_version db + 1) s)"
proof -
  have old: "cf_version v \<noteq> latest_version db + 1"
    if v: "v \<in> set (update_rows (\<lambda>v. cf_status v = Published) (\<lambda>v. v\<lparr>cf_status := Retired\<rparr>) (rd_versions db))" for v
  proof -
    obtain u where "u \<in> set (rd_versions db)" "cf_version v = cf_version u" using v unfolding update_rows_def by (auto split: if_splits)
    then show ?thesis using latest_max [of u db] by simp
  qed
  have last: "List.find P (xs @ [x]) = Some x" if "\<forall>y \<in> set xs. \<not> P y" "P x" for P xs and x :: ConfigurationVersion
    using that by (induction xs) auto
  show ?thesis unfolding insert_InrD(1) [OF assms]
    by (rule last) (use old in \<open>auto simp: new_version_def simp del: of_nat_add of_nat_Suc\<close>)
qed

text \<open>A required acknowledgement of a snapshot that the API has published.\<close>

lemma queue_flush_accepted:
  fixes cp :: "runtime_server control_plane"
  assumes "cp = api_control_plane env app" and "configurationReferences value = [(app, n, etag)]" and "mg_pending m = []"
    and j: "j = acknowledgement_json env state (so_identity opts) (rf_now w i) (rf_ids w i) message (app, n, etag)"
    and "runtimeConfigurationAcknowledgementSchema env j"
    and "cp_post (api_control_plane env app) j s = (s', Reply 202 ())"
  shows "queue_flush env opts w cp i value state message required m s = (m, s', None)"
proof -
  have "m\<lparr>mg_pending := []\<rparr> = m" using assms(3) by simp
  then show ?thesis using assms(1-3,5,6)
    by (simp add: queue_flush_def runtimeAcknowledgements_def j [symmetric] ok_def)
qed

lemma manager_step_file:
  assumes "manager_step env cp m m'"
  shows "mg_file m' = mg_file m \<or> (\<exists>g. mg_file m' = Stored (Shaped g) \<and> verifyRuntimeSnapshot env g = Inr g)"
  using assms
proof (cases rule: manager_step.cases)
  case (refreshed opts w d d' r)
  obtain m1 r1 where t: "try_refresh env opts w cp m d = (m1, d', r1)" and "mg_file m' = mg_file m1"
    using refresh_cases [OF refreshed] by auto
  then show ?thesis using try_refresh_moves [OF t] by (auto simp: manager_moves_def)
next
  case (loaded now found)
  then show ?thesis using loadLkg_InrD(1) [OF loaded] by simp
next
  case restarted
  then show ?thesis by simp
qed

text \<open>What a world must give for an acknowledgement to be accepted: a clock that is not ahead of the server and a fresh id.\<close>

definition ack_world :: "'e ingest_env_scheme \<Rightarrow> refresh_world \<Rightarrow> runtime_server \<Rightarrow> nat \<Rightarrow> bool" where
  "ack_world env w sv i \<longleftrightarrow> clock_ok env (rf_now w i) \<and> rf_now w i \<le> sv_now sv + 300000 \<and> (ulid (rf_ids w i) \<or> uuid_v7 (rf_ids w i)) \<and>
     rf_ids w i \<notin> ak_acknowledgementId ` set (sv_acks sv)"

lemma publish_references:
  assumes "publish env now db = Inr (s, db')" and "fst (rd_application db) = app" and "application_uuid app" and "latest_version db + 1 < 2 ^ 31"
  shows "configurationReferences (snapshot_json env s) = [(app, int (latest_version db + 1), sn_etag s)]" and "sha256_fingerprint (sn_etag s)"
proof -
  note pub = publish_facts [OF assms(1)]
  show etag: "sha256_fingerprint (sn_etag s)"
    using pub(3) by (auto simp: verifyRuntimeSnapshot_def runtimeSnapshotSchema_def split: if_splits)
  have "0 < int (latest_version db + 1)" "int (latest_version db + 1) \<le> 2 ^ 53 - 1" using assms(4) by simp_all
  from references_of_snapshot [OF pub(2,5) this] etag show "configurationReferences (snapshot_json env s) = [(app, int (latest_version db + 1), sn_etag s)]"
    using assms(2,3) pub(1) by simp
qed

lemma queue_published:
  assumes "publish env now db = Inr (s, db')" and "fst (rd_application db) = app" and "application_uuid app" and "is_uuid env app"
    and "latest_version db + 1 < 2 ^ 31" and "identity_ok (so_identity opts)" and "mg_pending m = []" and "sv_db sv = db'"
    and world: "ack_world env w sv i" and "state \<noteq> Rejected"
  shows "\<exists>row. queue_flush env opts w (api_control_plane env app) i (snapshot_json env s) state message required m sv =
      (m, sv\<lparr>sv_acks := sv_acks sv @ [row]\<rparr>, None) \<and> ak_state row = states (state_name state) \<and> ak_acknowledgementId row = rf_ids w i"
proof -
  let ?n = "int (latest_version db + 1)"
  let ?j = "acknowledgement_json env state (so_identity opts) (rf_now w i) (rf_ids w i) message (app, ?n, sn_etag s)"
  note refs = publish_references [OF assms(1-3,5)]
  have n: "0 < ?n" "?n \<le> 2 ^ 31 - 1" "?n \<le> 2 ^ 53 - 1" using assms(5) by simp_all
  have valid: "runtimeConfigurationAcknowledgementSchema env ?j"
    using ack_schema [OF _ assms(4) _ n(1,3) refs(2) assms(6)] world assms(10) unfolding ack_world_def by blast
  have facts: "date_ms env (toISOString env (rf_now w i)) = rf_now w i" "rf_now w i \<le> sv_now sv + 300000"
    "rf_ids w i \<notin> ak_acknowledgementId ` set (sv_acks sv)" "length (id_version (so_identity opts)) \<le> 64"
    using world assms(6) by (simp_all add: ack_world_def clock_ok_def identity_ok_def)
  have found: "List.find (\<lambda>v. int (cf_version v) = ?n) (rd_versions (sv_db sv)) = Some (new_version (latest_version db + 1) s)"
    using find_new_version [OF publish_insert [OF assms(1)]] assms(8) by simp
  have etag: "cf_etag (new_version (latest_version db + 1) s) = sn_etag s" by (simp add: new_version_def)
  note post = post_accepted [OF refl valid facts n(2) found etag]
  have "queue_flush env opts w (api_control_plane env app) i (snapshot_json env s) state message required m sv =
      (m, sv\<lparr>sv_acks := sv_acks sv @ [ack_row env ?j]\<rparr>, None)"
    by (rule queue_flush_accepted [OF refl refs(1) assms(7) refl valid post(1)])
  then show ?thesis using post(2,3) by blast
qed

text \<open>The API serves what was published to a client that has something else, or nothing.\<close>

lemma get_published:
  assumes "publish env now db = Inr (s, db')" and "fst (rd_application db) = app" and "sv_db sv = db'"
    and "case mg_snapshot m of None \<Rightarrow> True | Some s0 \<Rightarrow> sn_etag s0 \<noteq> sn_etag s \<and> sha256_fingerprint (sn_etag s0)"
  shows "cp_get (api_control_plane env app) (map_option (\<lambda>s. [CHR 0x22] @ sn_etag s @ [CHR 0x22]) (mg_snapshot m)) sv =
    (sv, Reply 200 (Some (Shaped s)))"
proof -
  note pub = publish_facts [OF assms(1)]
  have "sn_application_id s = app" using pub(1) assms(2) by simp
  from insert_serves [OF publish_insert [OF assms(1)] pub(3) this] show ?thesis
    using assms(3,4) includesEtag_quoted
    by (cases "mg_snapshot m") (simp_all add: api_control_plane_def, simp add: includesEtag_def)
qed

end
