(* ===== verification/SnapshotProperties.thy ===== *)
theory SnapshotProperties
  imports SnapshotFacts RoutingDemo
begin

text \<open>
  Properties of the way of a configuration from the API to the SDK and back: republished routes, the snapshots a client
  trusts, the installation of a publication, and the report that stops all updates.  The examples are the application of
  \<open>RoutingDemo\<close> and a client of it.
\<close>

subsection \<open>A sample client and server\<close>

definition wire_env :: ingest_env where
  "wire_env = demo_env (ingest_env.fields (\<lambda>_. True) (\<lambda>_. True) (\<lambda>_. 0) (\<lambda>_. True))"

text \<open>Hashes that tell the second version of the sample application from all other texts.\<close>

definition tag_env :: ingest_env where
  "tag_env = wire_env\<lparr>stringify := (\<lambda>j. if j = JStr ''runtime-demo-2'' then ''x'' else []),
     sha256hex := (\<lambda>s. if CHR ''x'' \<in> set s then replicate 64 (CHR ''1'') else replicate 64 (CHR ''0''))\<rparr>"

definition demo_app :: string where
  "demo_app = ''00000000-0000-4000-8000-000000000001''"

definition demo_versions_db :: routing_db where
  "demo_versions_db = demo_routing_db\<lparr>rd_versions := [new_version 1 demo_snapshot]\<rparr>"

definition demo_server :: runtime_server where
  "demo_server = \<lparr>sv_db = demo_versions_db, sv_acks = [], sv_now = 0\<rparr>"

definition demo_options :: sdk_options where
  "demo_options = \<lparr>so_identity = \<lparr>id_instanceId = ''node-sdk'', id_version = ''0.2.0''\<rparr>, so_failMode = Fail_open\<rparr>"

definition demo_world :: refresh_world where
  "demo_world = \<lparr>rf_now = (\<lambda>_. 0),
     rf_ids = (\<lambda>i. if i = 1 then ''01JZ5M0N8Q4R7T2V9W3X6Y1Z0A'' else ''01JZ5M0N8Q4R7T2V9W3X6Y1Z0B''),
     rf_message = (\<lambda>_. ''refused''), rf_write = Written\<rparr>"

definition new_client :: manager where
  "new_client = \<lparr>mg_snapshot = None, mg_source = Lkg, mg_pending = [], mg_file = NoFile\<rparr>"

definition changed_answer :: RuntimeSnapshot where
  "changed_answer = demo_snapshot\<lparr>sn_version := ''runtime-demo-9'', sn_etag := ''sha256:'' @ replicate 64 (CHR ''1'')\<rparr>"

lemma demo_publish: "publish wire_env 0 demo_routing_db = Inr (demo_snapshot, demo_versions_db)"
  by (simp add: publish_def wire_env_def demo_published) (simp add: demo_versions_db_def demo_routing_db_def new_version_def latest_version_def update_rows_def)

lemma demo_application: "fst (rd_application demo_routing_db) = demo_app" "latest_version demo_routing_db = 0"
  by (simp_all add: demo_routing_db_def demo_app_def latest_version_def)

lemma demo_texts:
  "application_uuid demo_app" "isRealUtcDateTime ''2025-01-01T00:00:00.000Z''" "semantic_version ''0.2.0''"
  "bounded_unicode 1 256 ''node-sdk''" "bounded_unicode 1 500 ''refused''" "sha256_fingerprint (''sha256:'' @ replicate 64 (CHR ''1''))"
  "ulid ''01JZ5M0N8Q4R7T2V9W3X6Y1Z0A''" "ulid ''01JZ5M0N8Q4R7T2V9W3X6Y1Z0B''"
  by code_simp+

lemma demo_clock: "clock_ok wire_env 0" "is_uuid wire_env k" "identity_ok (so_identity demo_options)"
  using demo_texts by (simp_all add: clock_ok_def wire_env_def demo_env_def ingest_env.defs identity_ok_def demo_options_def)


lemma join_member: "y \<in> set ys \<Longrightarrow> set y \<subseteq> set (join_with sep ys)"
  by (induction sep ys rule: join_with.induct) auto

lemma canonical_member:
  assumes "(k, v) \<in> set ms"
  shows "set (canonical env v) \<subseteq> set (canonical env (JObj ms))"
proof -
  let ?ts = "map (\<lambda>(k, text). stringify env (JStr k) @ '':'' @ text) (sort_key fst (map (\<lambda>(k, v). (k, canonical env v)) ms))"
  have "stringify env (JStr k) @ '':'' @ canonical env v \<in> set ?ts" using assms by force
  from join_member [OF this, of "'',''"] show ?thesis by auto
qed

lemma republished_schema:
  assumes "runtimeRoutingPlanSchema plan" and "0 < version" and "\<And>t. sha256_fingerprint (''sha256:'' @ sha256hex env t)"
  shows "runtimeRoutingPlanSchema (republished_plan env app version now plan)" "plan_targets (republished_plan env app version now plan) = plan_targets plan"
  using assms by (simp_all add: runtimeRoutingPlanSchema_def republished_plan_def runtimeFingerprint_def plan_targets_def)

lemma schema_env: "runtimeSnapshotSchema (env\<lparr>stringify := g, sha256hex := h\<rparr>) s = runtimeSnapshotSchema env s"
proof -
  let ?e = "env\<lparr>stringify := g, sha256hex := h\<rparr>"
  have url: "httpBaseUrl ?e u = httpBaseUrl env u" for u by (simp add: httpBaseUrl_def)
  have call: "runtimeCallConnectionSchema ?e c = runtimeCallConnectionSchema env c" for c
    unfolding runtimeCallConnectionSchema_def url by (rule refl)
  show ?thesis unfolding runtimeSnapshotSchema_def call by simp
qed

lemma tag_fingerprint: "sha256_fingerprint (''sha256:'' @ sha256hex tag_env t)"
  using demo_ids(4) demo_texts(6) by (simp add: tag_env_def)

lemma tag_hash: "runtimeFingerprint tag_env j = ''sha256:'' @ replicate 64 (if CHR ''x'' \<in> set (canonical tag_env j) then CHR ''1'' else CHR ''0'')"
  by (simp add: runtimeFingerprint_def tag_env_def)

lemma demo_tagged: "verifyRuntimeSnapshot tag_env demo_snapshot = Inr demo_snapshot"
proof -
  have "CHR ''x'' \<notin> set (canonical tag_env (unsigned_json tag_env demo_snapshot))" by code_simp
  then have "runtimeFingerprint tag_env (unsigned_json tag_env demo_snapshot) = sn_etag demo_snapshot"
    by (simp add: tag_hash demo_snapshot_def)
  moreover have "CHR ''x'' \<notin> set (canonical tag_env (JObj [(''application_id'', JStr (sn_application_id demo_snapshot)), (''etag'', JStr (sn_etag demo_snapshot))]))"
    by code_simp
  then have "bindingSignature tag_env (sn_application_id demo_snapshot) (sn_etag demo_snapshot) = sn_signature demo_snapshot"
    unfolding bindingSignature_def tag_hash by (simp add: demo_snapshot_def)
  moreover have "runtimeSnapshotSchema tag_env demo_snapshot" unfolding tag_env_def schema_env wire_env_def by (rule demo_snapshot_schema)
  ultimately show ?thesis by (simp add: verifyRuntimeSnapshot_def)
qed

text \<open>The sample snapshot under version two, whatever its other members, is signed with another etag.\<close>

lemma tagged_sign:
  assumes "runtimeSnapshotSchema wire_env (s\<lparr>sn_etag := ''sha256:'' @ replicate 64 (CHR ''1''),
      sn_signature := bindingSignature tag_env (sn_application_id s) (''sha256:'' @ replicate 64 (CHR ''1''))\<rparr>)"
    and "sn_version s = ''runtime-demo-2''"
  shows "\<exists>v. signRuntimeSnapshot tag_env s = Inr v \<and> sn_etag v \<noteq> sn_etag demo_snapshot"
proof -
  have "set (canonical tag_env (JStr ''runtime-demo-2'')) \<subseteq> set (canonical tag_env (unsigned_json tag_env s))"
    unfolding unsigned_json_def by (rule canonical_member [where k = "''version''"]) (simp add: assms(2))
  then have "runtimeFingerprint tag_env (unsigned_json tag_env s) = ''sha256:'' @ replicate 64 (CHR ''1'')"
    unfolding tag_hash by (simp add: tag_env_def)
  moreover have "runtimeSnapshotSchema tag_env v = runtimeSnapshotSchema wire_env v" for v unfolding tag_env_def schema_env by simp
  ultimately show ?thesis using assms(1) by (simp add: signRuntimeSnapshot_def Let_def demo_snapshot_def)
qed

lemma demo_version_text: "decimal_text 2 = ''2''" "opaque_id ''runtime-demo-2''"
  by code_simp+

lemma demo_versions: "latest_version demo_versions_db = 1" "rd_application demo_versions_db = (demo_app, ''demo'', True)"
  "rd_versions demo_versions_db = [new_version 1 demo_snapshot]" "rd_users demo_versions_db = []" "rd_groups demo_versions_db = []"
  "rd_settings demo_versions_db = Some (True, True)" "rd_properties demo_versions_db = [''plan'']"
  "current_version [new_version (Suc 0) demo_snapshot] = Some (new_version (Suc 0) demo_snapshot)"
  by (simp_all add: demo_versions_db_def demo_routing_db_def latest_version_def new_version_def demo_app_def current_version_def)

lemma demo_republished:
  fixes s :: RuntimeSnapshot
  assumes "s = demo_snapshot\<lparr>sn_version := ''runtime-demo-2'', sn_expires_at := 5 + ten_years_ms,
      sn_routing := [(''chat'', republished_plan tag_env demo_app 2 5 demo_plan)]\<rparr>"
  shows "\<exists>v. signRuntimeSnapshot tag_env s = Inr v \<and> sn_etag v \<noteq> sn_etag demo_snapshot"
proof (rule tagged_sign)
  have "sha256_fingerprint (bindingSignature tag_env a e)" for a e
    using tag_fingerprint unfolding bindingSignature_def runtimeFingerprint_def by blast
  then show "runtimeSnapshotSchema wire_env (s\<lparr>sn_etag := ''sha256:'' @ replicate 64 (CHR ''1''),
      sn_signature := bindingSignature tag_env (sn_application_id s) (''sha256:'' @ replicate 64 (CHR ''1''))\<rparr>)"
    using demo_snapshot_schema [of "ingest_env.fields (\<lambda>_. True) (\<lambda>_. True) (\<lambda>_. 0) (\<lambda>_. True)"] demo_texts(6) demo_version_text(2)
      republished_schema [OF demo_schema(1) _ tag_fingerprint, of 2 demo_app 5]
    by (simp add: assms wire_env_def runtimeSnapshotSchema_def demo_snapshot_def)
qed (simp add: assms)

lemma demo_inserted:
  assumes "sn_etag v \<noteq> sn_etag demo_snapshot"
  shows "\<exists>db'. insert_version 2 v demo_versions_db = Inr db'"
  using assms by (simp add: insert_version_def demo_versions(3)) (simp add: new_version_def)

lemma access_publishes: "\<exists>v db'. publishWithin tag_env 5 demo_versions_db = Inr (Some v, db')"
proof -
  have "access_snapshot tag_env 5 demo_versions_db demo_snapshot = demo_snapshot\<lparr>sn_version := ''runtime-demo-2'', sn_expires_at := 5 + ten_years_ms,
      sn_routing := [(''chat'', republished_plan tag_env demo_app 2 5 demo_plan)]\<rparr>"
    by (simp add: access_snapshot_def demo_versions numeral_2_eq_2 [symmetric] demo_version_text(1) demo_snapshot_def demo_app_def)
  from demo_republished [OF this] obtain v where v: "signRuntimeSnapshot tag_env (access_snapshot tag_env 5 demo_versions_db demo_snapshot) = Inr v"
    "sn_etag v \<noteq> sn_etag demo_snapshot" by blast
  have "intact_snapshot tag_env demo_app (new_version 1 demo_snapshot) = Inr demo_snapshot"
    by (simp add: intact_snapshot_def new_version_def demo_tagged) (simp add: demo_snapshot_def demo_app_def)
  then show ?thesis using v(1) demo_inserted [OF v(2)] by (auto simp: publishWithin_def demo_versions numeral_2_eq_2)
qed

lemma restore_publishes: "\<exists>v db'. restore tag_env [''a'', ''b''] 1 5 demo_versions_db = Inr (v, db')"
proof -
  have "restored_snapshot tag_env 5 demo_versions_db demo_snapshot = demo_snapshot\<lparr>sn_version := ''runtime-demo-2'', sn_expires_at := 5 + ten_years_ms,
      sn_routing := [(''chat'', republished_plan tag_env demo_app 2 5 demo_plan)]\<rparr>"
    by (simp add: restored_snapshot_def demo_versions numeral_2_eq_2 [symmetric] demo_version_text(1) demo_snapshot_def demo_app_def loadRouteAudience_def)
  from demo_republished [OF this] obtain v where v: "signRuntimeSnapshot tag_env (restored_snapshot tag_env 5 demo_versions_db demo_snapshot) = Inr v"
    "sn_etag v \<noteq> sn_etag demo_snapshot" by blast
  have row: "List.find (\<lambda>r. int (cf_version r) = 1) [new_version 1 demo_snapshot] = Some (new_version 1 demo_snapshot)"
    "cf_snapshot (new_version 1 demo_snapshot) = demo_snapshot" "cf_etag (new_version 1 demo_snapshot) = sn_etag demo_snapshot"
    "cf_signature (new_version 1 demo_snapshot) = sn_signature demo_snapshot" by (simp_all add: new_version_def)
  note row = row [unfolded One_nat_def]
  have ids: "sn_routing demo_snapshot = [(''chat'', demo_plan)]" "map rt_model_id (plan_targets demo_plan) = [''a'', ''b'', ''b'', ''a'']"
    "rt_model_id ` set (plan_targets demo_plan) = {''a'', ''b''}"
    by (auto simp: demo_snapshot_def demo_plan_def plan_targets_def demo_default_def demo_runtime_rule_def demo_route_target_def)
  have "sn_application_id demo_snapshot = demo_app" by (simp add: demo_snapshot_def demo_app_def)
  then show ?thesis using v(1) demo_inserted [OF v(2)] row demo_tagged
    by (simp add: restore_def demo_versions Let_def ids numeral_2_eq_2) auto
qed

subsection \<open>Publications without the builder\<close>

text \<open>C26: Publishing access controls keeps every route.  After a user is blocked or the application is paused, the snapshot the
  API serves lists exactly the users blocked now, and every call is routed as by the snapshot published before: same rule,
  same targets in the same order, or the same refusal.\<close>

theorem access_publication_keeps_routes:
  assumes "publishWithin env now db = Inr (Some s', db')" and "current_version (rd_versions db) = Some row"
  shows "decided (resolveRuntimeRoute env s' vm t ctx) = decided (resolveRuntimeRoute env (cf_snapshot row) vm t ctx) \<and>
    set (sn_blocked_user_ids s') = au_externalId ` {u \<in> set (rd_users db). au_blocked u} \<and>
    get_snapshot env (fst (rd_application db)) None (rd_versions db') = Inr (s', False)"
proof -
  obtain source where src: "intact_snapshot env (fst (rd_application db)) row = Inr source"
    and sign: "signRuntimeSnapshot env (access_snapshot env now db source) = Inr s'"
    and ins: "insert_version (latest_version db + 1) s' db = Inr db'"
    using publishWithin_InrD [OF assms(1)] assms(2) by auto
  have s': "sn_routing s' = map (\<lambda>(name, plan). (name, republished_plan env (fst (rd_application db)) (latest_version db + 1) now plan)) (sn_routing source)"
    "sn_application_id s' = fst (rd_application db)"
    "sn_blocked_user_ids s' = sort (map au_externalId (filter au_blocked (rd_users db)))"
    by (subst sign_InrD(1) [OF sign], simp add: access_snapshot_def Let_def split: prod.split)+
  have "decided (resolveRuntimeRoute env s' vm t ctx) = decided (resolveRuntimeRoute env source vm t ctx)" by (rule republished_routes [OF s'(1)])
  moreover have "get_snapshot env (fst (rd_application db)) None (rd_versions db') = Inr (s', False)"
    using insert_serves [OF ins sign_verifies [OF sign] s'(2), of None] by (simp add: includesEtag_def)
  ultimately show ?thesis using intact_InrD(1) [OF src] by (auto simp: s'(3))
qed

theorem access_publication_keeps_routes_witness:
  "\<exists>s' db'. publishWithin tag_env 5 demo_versions_db = Inr (Some s', db') \<and>
     decided (resolveRuntimeRoute tag_env s' ''chat'' 7 \<lparr>rc_userId = Some ''u1'', rc_userProperties = None, rc_callSource = None, rc_selectionKey = None\<rparr>) =
     decided (resolveRuntimeRoute tag_env demo_snapshot ''chat'' 7
       \<lparr>rc_userId = Some ''u1'', rc_userProperties = None, rc_callSource = None, rc_selectionKey = None\<rparr>)"
proof -
  obtain s' db' where p: "publishWithin tag_env 5 demo_versions_db = Inr (Some s', db')" using access_publishes by blast
  have "current_version (rd_versions demo_versions_db) = Some (new_version 1 demo_snapshot)" by (simp add: demo_versions)
  from access_publication_keeps_routes [OF p this] p show ?thesis by (auto simp: new_version_def)
qed

text \<open>A restored version routes as it did.  What the API serves after a restoration decides every call as the restored
  version did, under a new version number and with the access controls and settings of now.\<close>

theorem restored_version_routes_as_before:
  assumes "restore env enabledModels v now db = Inr (s', db')" and "List.find (\<lambda>r. int (cf_version r) = v) (rd_versions db) = Some row"
  shows "decided (resolveRuntimeRoute env s' vm t ctx) = decided (resolveRuntimeRoute env (cf_snapshot row) vm t ctx) \<and>
    get_snapshot env (fst (rd_application db)) None (rd_versions db') = Inr (s', False) \<and> v < int (latest_version db + 1)"
proof -
  have sign: "signRuntimeSnapshot env (restored_snapshot env now db (cf_snapshot row)) = Inr s'"
    and ins: "insert_version (latest_version db + 1) s' db = Inr db'"
    using restore_InrD [OF assms(1)] assms(2) by auto
  have s': "sn_routing s' =
      map (\<lambda>(name, plan). (name, republished_plan env (fst (rd_application db)) (latest_version db + 1) now plan)) (sn_routing (cf_snapshot row))"
    "sn_application_id s' = fst (rd_application db)"
    by (subst sign_InrD(1) [OF sign], simp add: restored_snapshot_def Let_def split: prod.split)+
  have "get_snapshot env (fst (rd_application db)) None (rd_versions db') = Inr (s', False)"
    using insert_serves [OF ins sign_verifies [OF sign] s'(2), of None] by (simp add: includesEtag_def)
  moreover have "row \<in> set (rd_versions db)" "int (cf_version row) = v" using assms(2) by (auto simp: find_Some_iff)
  then have "v < int (latest_version db + 1)" using latest_max [of row db] by simp
  ultimately show ?thesis using republished_routes [OF s'(1), of env vm t ctx] by simp
qed

theorem restored_version_routes_as_before_witness:
  "\<exists>s' db'. restore tag_env [''a'', ''b''] 1 5 demo_versions_db = Inr (s', db') \<and>
     decided (resolveRuntimeRoute tag_env s' ''chat'' 7 \<lparr>rc_userId = Some ''u1'', rc_userProperties = None, rc_callSource = None, rc_selectionKey = None\<rparr>) =
     decided (resolveRuntimeRoute tag_env demo_snapshot ''chat'' 7
       \<lparr>rc_userId = Some ''u1'', rc_userProperties = None, rc_callSource = None, rc_selectionKey = None\<rparr>)"
proof -
  obtain s' db' where p: "restore tag_env [''a'', ''b''] 1 5 demo_versions_db = Inr (s', db')" using restore_publishes by blast
  have "List.find (\<lambda>r. int (cf_version r) = 1) (rd_versions demo_versions_db) = Some (new_version 1 demo_snapshot)"
    by (simp add: demo_versions) (simp add: new_version_def)
  from restored_version_routes_as_before [OF p this] p show ?thesis by (auto simp: new_version_def)
qed

subsection \<open>The manager\<close>

text \<open>C11: The SDK holds verified snapshots only.  Whatever the server answers, whatever the file of the last known good
  snapshot contains and however refreshes, loads and restarts follow each other: the snapshot the SDK routes with has the
  shape of the schema, the etag of its content and the signature of its application; and the file changes only to a
  snapshot that was verified.\<close>

theorem held_snapshot_is_verified:
  assumes "manager_reachable env cp f m" and "mg_snapshot m = Some s"
  shows "verifyRuntimeSnapshot env s = Inr s \<and> (mg_file m = f \<or> (\<exists>g. mg_file m = Stored (Shaped g) \<and> verifyRuntimeSnapshot env g = Inr g))"
proof -
  have "held_verified env m \<and> (mg_file m = f \<or> (\<exists>g. mg_file m = Stored (Shaped g) \<and> verifyRuntimeSnapshot env g = Inr g))"
    using assms(1)
  proof induction
    case start
    then show ?case by (simp add: held_verified_def)
  next
    case (step m m')
    then show ?case using manager_step_held [OF step.hyps(2)] manager_step_file [OF step.hyps(2)] by auto
  qed
  then show ?thesis using assms(2) by (simp add: held_verified_def)
qed

theorem held_snapshot_is_verified_witness:
  "verifyRuntimeSnapshot wire_env demo_snapshot = Inr demo_snapshot \<and>
   (\<exists>m. manager_reachable wire_env (api_control_plane wire_env demo_app) (Stored (Shaped demo_snapshot)) m \<and> mg_snapshot m = Some demo_snapshot)"
proof -
  let ?f = "Stored (Shaped demo_snapshot)" and ?cp = "api_control_plane wire_env demo_app"
  let ?m = "\<lparr>mg_snapshot = None, mg_source = Lkg, mg_pending = [], mg_file = ?f\<rparr>"
  have "parseVerifiedRuntimeSnapshot wire_env demo_snapshot 0 True = Inr demo_snapshot"
    using publish_facts(3) [OF demo_publish] by (simp add: parse_verified_iff)
  then have "loadLkg wire_env 0 ?m = Inr (?m\<lparr>mg_snapshot := Some demo_snapshot\<rparr>, True)" by (simp add: loadLkg_def parse_document_def)
  from manager_reachable.step [OF manager_reachable.start manager_step.loaded [OF this]]
  have r: "manager_reachable wire_env ?cp ?f (?m\<lparr>mg_snapshot := Some demo_snapshot\<rparr>)" .
  from held_snapshot_is_verified [OF r] r show ?thesis by auto
qed

text \<open>C10: A publication reaches the SDK.  After a publication, a refresh of a client with no acknowledgements left to send asks
  the API, gets the new snapshot, accepts it, stores it in its file and routes with it; the API records that the version
  was received and then applied.\<close>

theorem publication_reaches_sdk:
  assumes "publish env now db = Inr (s, db')" and "fst (rd_application db) = app" and "application_uuid app" and "is_uuid env app"
    and "latest_version db + 1 < 2 ^ 31" and "identity_ok (so_identity opts)" and "mg_pending m = []"
    and "case mg_snapshot m of None \<Rightarrow> True
      | Some s0 \<Rightarrow> sn_etag s0 \<noteq> sn_etag s \<and> sn_version s0 \<noteq> sn_version s \<and> sha256_fingerprint (sn_etag s0)"
    and "rf_write w = Written" and "rf_now w 0 < now + ten_years_ms" and "rf_now w 3 < now + ten_years_ms"
    and "list_all (ack_world env w \<lparr>sv_db = db', sv_acks = acks, sv_now = t\<rparr>) [1, 2]" and "rf_ids w 1 \<noteq> rf_ids w 2"
  shows "\<exists>m' acks'. refresh env opts w (api_control_plane env app) m \<lparr>sv_db = db', sv_acks = acks, sv_now = t\<rparr> =
      (m', \<lparr>sv_db = db', sv_acks = acks @ acks', sv_now = t\<rparr>,
       Inr \<lparr>rr_status = Updated, rr_version = sn_version s, rr_etag = sn_etag s, rr_expired = False\<rparr>) \<and>
    mg_snapshot m' = Some s \<and> mg_file m' = Stored (Shaped s) \<and> mg_pending m' = [] \<and> map ak_state acks' = [Ack_received, Ack_applied]"
proof -
  let ?cp = "api_control_plane env app" and ?sv = "\<lparr>sv_db = db', sv_acks = acks, sv_now = t\<rparr>"
  let ?m2 = "m\<lparr>mg_file := Stored (Shaped s), mg_snapshot := Some s, mg_source := Remote\<rparr>"
  note pub = publish_facts [OF assms(1)]
  have w1: "ack_world env w ?sv 1" and w2: "ack_world env w ?sv 2" using assms(12) by simp_all
  obtain r1 where q1: "queue_flush env opts w ?cp 1 (snapshot_json env s) Received [] True m ?sv = (m, ?sv\<lparr>sv_acks := acks @ [r1]\<rparr>, None)"
    and r1: "ak_state r1 = Ack_received" "ak_acknowledgementId r1 = rf_ids w 1"
    using queue_published [OF assms(1-7) _ w1, of Received "[]" True] by (auto simp: states_def state_name_def)
  have "ack_world env w (?sv\<lparr>sv_acks := acks @ [r1]\<rparr>) 2" using w2 r1(2) assms(13) by (simp add: ack_world_def)
  then obtain r2 where q2: "queue_flush env opts w ?cp 2 (snapshot_json env s) Applied [] False ?m2 (?sv\<lparr>sv_acks := acks @ [r1]\<rparr>) =
      (?m2, ?sv\<lparr>sv_acks := (acks @ [r1]) @ [r2]\<rparr>, None)" and r2: "ak_state r2 = Ack_applied"
    using queue_published [OF assms(1-6), of ?m2 "?sv\<lparr>sv_acks := acks @ [r1]\<rparr>" w 2 Applied "[]" False] assms(7)
    by (auto simp: states_def state_name_def)
  have get: "cp_get ?cp (map_option (\<lambda>s. [CHR 0x22] @ sn_etag s @ [CHR 0x22]) (mg_snapshot m)) ?sv = (?sv, Reply 200 (Some (Shaped s)))"
    by (rule get_published [OF assms(1,2)]) (use assms(8) in \<open>auto split: option.splits\<close>)
  have acc: "accept_candidate env (rf_now w 0) m (Shaped s) = Inr s"
    using pub(3,4) assms(8,10) parse_verified_iff [of env s "rf_now w 0" False s]
    by (auto simp: accept_candidate_def parse_document_def split: option.splits)
  have same: "m\<lparr>mg_pending := []\<rparr> = m" using assms(7) by simp
  have "try_refresh env opts w ?cp m ?sv = install env opts w ?cp s m (?sv\<lparr>sv_acks := acks @ [r1]\<rparr>)"
    using get acc q1 assms(7) by (simp add: try_refresh_def ok_def Let_def same)
  also have "\<dots> = (?m2, ?sv\<lparr>sv_acks := (acks @ [r1]) @ [r2]\<rparr>, refresh_result (so_failMode opts) (rf_now w 3) Updated ?m2)"
    using q2 assms(9) by (simp add: install_def)
  also have "refresh_result (so_failMode opts) (rf_now w 3) Updated ?m2 =
      Inr \<lparr>rr_status = Updated, rr_version = sn_version s, rr_etag = sn_etag s, rr_expired = False\<rparr>"
    using pub(4) assms(11) by (simp add: refresh_result_def requireUsable_def)
  finally show ?thesis using r1(1) r2 assms(7)
    by (intro exI [of _ ?m2] exI [of _ "[r1, r2]"]) (simp add: refresh_def)
qed

theorem publication_reaches_sdk_witness:
  "\<exists>m' acks'. refresh wire_env demo_options demo_world (api_control_plane wire_env demo_app) new_client demo_server =
      (m', \<lparr>sv_db = demo_versions_db, sv_acks = [] @ acks', sv_now = 0\<rparr>,
       Inr \<lparr>rr_status = Updated, rr_version = sn_version demo_snapshot, rr_etag = sn_etag demo_snapshot, rr_expired = False\<rparr>) \<and>
    mg_snapshot m' = Some demo_snapshot \<and> mg_file m' = Stored (Shaped demo_snapshot) \<and> mg_pending m' = [] \<and>
    map ak_state acks' = [Ack_received, Ack_applied]"
  unfolding demo_server_def
  by (rule publication_reaches_sdk [OF demo_publish demo_application(1) demo_texts(1) demo_clock(2)])
    (use demo_clock demo_texts in \<open>simp_all add: demo_application new_client_def demo_world_def ten_years_ms_def ack_world_def\<close>)

text \<open>C37: One answer changed on its way stops all updates.  The SDK reports a snapshot it refuses to the API under the version
  and etag the answer names, and sends that report before it asks again.  When the API does not know this version and etag
  it refuses the report; the SDK keeps it at the head of its queue, and every later refresh ends there: whatever is
  published, the client stays with the snapshot it has until its process restarts.\<close>

theorem refused_report_stops_updates:
  assumes "accept_candidate env (rf_now w 0) m doc = Inl failure" and "mg_pending m = []" and "mg_snapshot m = Some s0"
    and "runtimeAcknowledgements env (document_json env doc) Rejected (so_identity opts) (rf_now w 1) (rf_ids w 1) (rf_message w failure) = Inr [a]"
    and "cp = (api_control_plane env app)\<lparr>cp_get := (\<lambda>_ s. (s, Reply 200 (Some doc)))\<rparr>" and "unacceptable a sv"
    and "list_all (\<lambda>(_, sv'). unacceptable a sv') rounds"
  shows "mg_snapshot (refresh_rounds env opts app rounds (fst (refresh env opts w cp m sv))) = Some s0 \<and>
    mg_pending (refresh_rounds env opts app rounds (fst (refresh env opts w cp m sv))) = [a]"
proof -
  obtain status where post: "cp_post (api_control_plane env app) a sv = (sv, Reply status ())" "\<not> ok status"
    using post_unacceptable [OF assms(6)] by blast
  have same: "m\<lparr>mg_pending := []\<rparr> = m" using assms(2) by simp
  have "try_refresh env opts w cp m sv = refuse env opts w cp (document_json env doc) failure m sv"
    using assms(1,2,5) by (simp add: try_refresh_def ok_def Let_def same)
  also have "\<dots> = (m\<lparr>mg_pending := [a]\<rparr>, sv, Inl failure)"
    using assms(2,4,5) post by (simp add: refuse_def queue_flush_def)
  finally have "fst (refresh env opts w cp m sv) = m\<lparr>mg_pending := [a], mg_source := Lkg\<rparr>"
    using assms(3) by (simp add: refresh_def Let_def)
  then show ?thesis using rounds_blocked [of "m\<lparr>mg_pending := [a], mg_source := Lkg\<rparr>" a "[]" s0 rounds env opts app] assms(3,7) by simp
qed

lemma changed_answer_reported:
  "\<exists>a. runtimeAcknowledgements wire_env (document_json wire_env (Shaped changed_answer)) Rejected (so_identity demo_options)
      (rf_now demo_world 1) (rf_ids demo_world 1) (rf_message demo_world failure) = Inr [a] \<and> unacceptable a demo_server"
proof -
  let ?etag = "''sha256:'' @ replicate 64 (CHR ''1'')"
  let ?a = "acknowledgement_json wire_env Rejected (so_identity demo_options) 0 ''01JZ5M0N8Q4R7T2V9W3X6Y1Z0A'' ''refused'' (demo_app, 1, ?etag)"
  have "configurationReferences (snapshot_json wire_env changed_answer) = [(sn_application_id changed_answer, 1, sn_etag changed_answer)]"
    by (rule references_of_snapshot)
      (use demo_texts(1,6) in \<open>simp_all add: changed_answer_def demo_snapshot_def demo_plan_def demo_app_def\<close>)
  then have refs: "configurationReferences (snapshot_json wire_env changed_answer) = [(demo_app, 1, ?etag)]"
    by (simp add: changed_answer_def demo_snapshot_def demo_app_def)
  have "runtimeConfigurationAcknowledgementSchema wire_env ?a"
    by (rule ack_schema) (use demo_clock demo_texts in simp_all)
  then have "runtimeAcknowledgements wire_env (document_json wire_env (Shaped changed_answer)) Rejected (so_identity demo_options)
      (rf_now demo_world 1) (rf_ids demo_world 1) (rf_message demo_world failure) = Inr [?a]"
    by (simp add: runtimeAcknowledgements_def document_json_def refs [simplified] demo_world_def Let_def)
  moreover have "unacceptable ?a demo_server"
    by (simp add: unacceptable_def demo_server_def demo_versions new_version_def ack_texts [simplified] ack_texts) (simp add: demo_snapshot_def)
  ultimately show ?thesis by blast
qed

theorem refused_report_stops_updates_witness:
  "mg_snapshot (refresh_rounds wire_env demo_options demo_app [(demo_world, demo_server), (demo_world, demo_server)]
     (fst (refresh wire_env demo_options demo_world
       ((api_control_plane wire_env demo_app)\<lparr>cp_get := (\<lambda>_ s. (s, Reply 200 (Some (Shaped changed_answer))))\<rparr>)
       (new_client\<lparr>mg_snapshot := Some (demo_snapshot\<lparr>sn_version := ''runtime-demo-0''\<rparr>)\<rparr>) demo_server))) =
   Some (demo_snapshot\<lparr>sn_version := ''runtime-demo-0''\<rparr>)"
proof -
  let ?m = "new_client\<lparr>mg_snapshot := Some (demo_snapshot\<lparr>sn_version := ''runtime-demo-0''\<rparr>)\<rparr>"
  have "verifyRuntimeSnapshot wire_env changed_answer \<noteq> Inr changed_answer"
    by (simp add: verifyRuntimeSnapshot_def runtimeFingerprint_def wire_env_def demo_hash) (simp add: changed_answer_def)
  then have "parseVerifiedRuntimeSnapshot wire_env changed_answer 0 False \<noteq> Inr v" for v by (simp add: parse_verified_iff)
  then obtain failure where f: "accept_candidate wire_env (rf_now demo_world 0) ?m (Shaped changed_answer) = Inl failure"
    by (cases "parseVerifiedRuntimeSnapshot wire_env changed_answer 0 False") (auto simp: accept_candidate_def parse_document_def demo_world_def)
  obtain a where a: "runtimeAcknowledgements wire_env (document_json wire_env (Shaped changed_answer)) Rejected (so_identity demo_options)
      (rf_now demo_world 1) (rf_ids demo_world 1) (rf_message demo_world failure) = Inr [a]" "unacceptable a demo_server"
    using changed_answer_reported by blast
  from refused_report_stops_updates [OF f _ _ a(1) refl a(2), of _ "[(demo_world, demo_server), (demo_world, demo_server)]" demo_app] a(2)
  show ?thesis by (simp add: new_client_def)
qed

end
