(* ===== verification/SdkTransport.thy ===== *)
theory SdkTransport
  imports SdkSnapshots "HOL-Library.AList"
begin

text \<open>
  Calls of model providers in the Node SDK: the context of a call (\<open>sdks/node/src/runtime/context.ts\<close>), the usage a provider
  reports (\<open>provider-usage.ts\<close>, \<open>mergeUsage\<close> of \<open>chat-common.ts\<close>), requests and answers (\<open>provider-transport.ts\<close>) and the
  reader of server-sent events.  What \<open>fetch\<close> and registered adapters answer are arguments.
\<close>

subsection \<open>Environment\<close>

text \<open>What \<open>Number\<close> makes of a text, the text of a number, and \<open>JSON.parse\<close>.\<close>

datatype js_number = Finite rat | PosInfinity | NegInfinity | NotANumber

record chat_env = ingest_env +
  jsNumber :: "string \<Rightarrow> js_number"
  numberText :: "rat \<Rightarrow> string"
  jsonParse :: "string \<Rightarrow> json option"

subsection \<open>The runtime context\<close>

record AiRuntimeContext =
  ic_userId :: "string option"
  ic_displayUser :: "string option"
  ic_applicationVersion :: "string option"
  ic_operationId :: "string option"
  ic_parentRequestId :: "string option"
  ic_sessionId :: "string option"
  ic_conversationId :: "string option"
  ic_callSource :: "string option"
  ic_eventProperties :: "(string \<times> json) list"
  ic_userProperties :: "(string \<times> json) list"
  ic_analyticsDimensions :: "(string \<times> json) list"

record ResolvedAiRuntimeContext =
  cx_userId :: string
  cx_displayUser :: "string option"
  cx_applicationVersion :: "string option"
  cx_operationId :: string
  cx_requestId :: string
  cx_parentRequestId :: "string option"
  cx_sessionId :: "string option"
  cx_conversationId :: "string option"
  cx_traceId :: string
  cx_callSource :: "string option"
  cx_eventProperties :: "(string \<times> json) list"
  cx_userProperties :: "(string \<times> json) list"
  cx_analyticsDimensions :: "(string \<times> json) list"

definition unsafePropertyKeys :: "string list" where
  "unsafePropertyKeys = [''api_key'', ''authorization'', ''cookie'', ''messages'', ''prompt'', ''response'']"

text \<open>\<open>prefix_\<close> and a fresh ULID in lower case.\<close>

definition new_identifier :: "string \<Rightarrow> string \<Rightarrow> string" where
  "new_identifier prefix fresh = prefix @ ''_'' @ js_lower fresh"

definition bounded :: "string option \<Rightarrow> string \<Rightarrow> nat \<Rightarrow> string + string option" where
  "bounded value fld maximum = (case value of
     None \<Rightarrow> Inr None
   | Some v \<Rightarrow>
       (let candidate = js_trim v in
        if candidate = [] \<or> maximum < code_points candidate then Inl (fld @ '' has an invalid length'')
        else Inr (Some candidate)))"

definition context_value :: "json \<Rightarrow> bool" where
  "context_value child = (case child of
     JStr s \<Rightarrow> s \<noteq> [] \<and> code_points s \<le> 2048
   | JNum x \<Rightarrow> \<bar>x\<bar> \<le> 2 ^ 53 - 1
   | JArr xs \<Rightarrow> length xs \<le> 32 \<and> distinct xs \<and> list_all (\<lambda>x. case x of JStr s \<Rightarrow> s \<noteq> [] \<and> code_points s \<le> 256 | _ \<Rightarrow> False) xs
   | JBool _ \<Rightarrow> True
   | _ \<Rightarrow> False)"

definition context_properties :: "(string \<times> json) list \<Rightarrow> string \<Rightarrow> string + (string \<times> json) list" where
  "context_properties entries fld =
     (if 64 < length entries then Inl (fld @ '' supports at most 64 properties'')
      else if list_all (\<lambda>(k, v). unit_key k \<and> k \<notin> set unsafePropertyKeys \<and> context_value v) entries then Inr entries
      else Inl (fld @ '' has an invalid property''))"

text \<open>The ULIDs drawn for the operation, the request and the trace are arguments.\<close>

definition resolved_context :: "string \<Rightarrow> string \<Rightarrow> string \<Rightarrow> AiRuntimeContext \<Rightarrow> string + ResolvedAiRuntimeContext" where
  "resolved_context u1 u2 u3 i =
     bind_res (bounded (ic_userId i) ''userId'' 256) (\<lambda>userId. case userId of
       None \<Rightarrow> Inl ''userId is required''
     | Some user \<Rightarrow>
         bind_res (bounded (ic_displayUser i) ''displayUser'' 256) (\<lambda>displayUser.
         bind_res (bounded (ic_applicationVersion i) ''applicationVersion'' 64) (\<lambda>applicationVersion.
         bind_res (bounded (ic_operationId i) ''operationId'' 256) (\<lambda>operationId.
         bind_res (bounded (ic_parentRequestId i) ''parentRequestId'' 256) (\<lambda>parentRequestId.
         bind_res (bounded (ic_sessionId i) ''sessionId'' 256) (\<lambda>sessionId.
         bind_res (bounded (ic_conversationId i) ''conversationId'' 256) (\<lambda>conversationId.
         bind_res (bounded (ic_callSource i) ''callSource'' 120) (\<lambda>callSource.
         bind_res (context_properties (ic_eventProperties i) ''eventProperties'') (\<lambda>eventProperties.
         bind_res (context_properties (ic_userProperties i) ''userProperties'') (\<lambda>userProperties.
         Inr \<lparr>cx_userId = user, cx_displayUser = displayUser, cx_applicationVersion = applicationVersion,
              cx_operationId = (case operationId of None \<Rightarrow> new_identifier ''op'' u1 | Some k \<Rightarrow> k),
              cx_requestId = new_identifier ''req'' u2, cx_parentRequestId = parentRequestId, cx_sessionId = sessionId,
              cx_conversationId = conversationId, cx_traceId = new_identifier ''trace'' u3, cx_callSource = callSource,
              cx_eventProperties = eventProperties, cx_userProperties = userProperties,
              cx_analyticsDimensions = ic_analyticsDimensions i\<rparr>))))))))))"

subsection \<open>Usage of a provider response\<close>

definition numberValue :: "json option \<Rightarrow> rat" where
  "numberValue v = (case v of Some (JNum x) \<Rightarrow> if 0 \<le> x then x else 0 | _ \<Rightarrow> 0)"

text \<open>\<open>String(Math.max(0, Math.trunc(value)))\<close>\<close>

definition decimal_count :: "'e chat_env_scheme \<Rightarrow> rat \<Rightarrow> string" where
  "decimal_count env x = numberText env (of_int (max 0 \<lfloor>x\<rfloor>))"

definition openAiUsage :: "'e chat_env_scheme \<Rightarrow> json \<Rightarrow> json" where
  "openAiUsage env value =
     (let usage = sub value ''usage'';
          input = numberValue (member usage ''prompt_tokens'');
          cached = min input (numberValue (member (sub usage ''prompt_tokens_details'') ''cached_tokens'')) in
      JObj [(''uncached_input_tokens'', JStr (decimal_count env (fl (input - cached)))),
            (''cache_read_input_tokens'', JStr (decimal_count env cached)),
            (''output_tokens'', JStr (decimal_count env (numberValue (member usage ''completion_tokens'')))),
            (''reasoning_output_tokens'',
              JStr (decimal_count env (numberValue (member (sub usage ''completion_tokens_details'') ''reasoning_tokens'')))),
            (''request_count'', JStr ''1'')])"

definition anthropicUsage :: "'e chat_env_scheme \<Rightarrow> json \<Rightarrow> json" where
  "anthropicUsage env value =
     (let usage = sub value ''usage'' in
      JObj [(''uncached_input_tokens'', JStr (decimal_count env (numberValue (member usage ''input_tokens'')))),
            (''cache_read_input_tokens'', JStr (decimal_count env (numberValue (member usage ''cache_read_input_tokens'')))),
            (''cache_write_input_tokens'', JStr (decimal_count env (numberValue (member usage ''cache_creation_input_tokens'')))),
            (''output_tokens'', JStr (decimal_count env (numberValue (member usage ''output_tokens'')))),
            (''request_count'', JStr ''1'')])"

definition streamUsage :: "'e chat_env_scheme \<Rightarrow> json \<Rightarrow> string \<Rightarrow> json option" where
  "streamUsage env value driver = (case value of
     JObj _ \<Rightarrow>
       if driver \<noteq> ''anthropic'' then (if member value ''usage'' = None then None else Some (openAiUsage env value))
       else
         (case (case member (sub value ''message'') ''usage'' of None \<Rightarrow> member value ''usage''
                | Some JNull \<Rightarrow> member value ''usage'' | Some u \<Rightarrow> Some u) of
            None \<Rightarrow> None | Some raw \<Rightarrow> Some (anthropicUsage env (JObj [(''usage'', raw)])))
   | JArr _ \<Rightarrow> None
   | _ \<Rightarrow> None)"

subsection \<open>Merging the usage of a stream\<close>

text \<open>\<open>String(Math.max(previous, candidate))\<close> for a finite candidate.\<close>

definition max_text :: "'e chat_env_scheme \<Rightarrow> js_number \<Rightarrow> rat \<Rightarrow> string" where
  "max_text env previous candidate = (case previous of
     Finite p \<Rightarrow> numberText env (max p candidate) | NegInfinity \<Rightarrow> numberText env candidate
   | PosInfinity \<Rightarrow> ''Infinity'' | NotANumber \<Rightarrow> ''NaN'')"

definition merge_entry :: "'e chat_env_scheme \<Rightarrow> string \<times> json \<Rightarrow> (string \<times> json) list \<Rightarrow> (string \<times> json) list" where
  "merge_entry env entry result = (case entry of
     (key, JArr xs) \<Rightarrow> AList.update key (JArr xs) result
   | (key, JStr value) \<Rightarrow>
       (let previous = jsNumber env (case map_of result key of Some (JStr s) \<Rightarrow> s | _ \<Rightarrow> ''0'') in
        case jsNumber env value of
          Finite candidate \<Rightarrow> AList.update key (JStr (max_text env previous candidate)) result
        | _ \<Rightarrow> AList.update key (JStr value) result)
   | _ \<Rightarrow> result)"

definition mergeUsage :: "'e chat_env_scheme \<Rightarrow> json \<Rightarrow> json option \<Rightarrow> json" where
  "mergeUsage env current next = (case (current, next) of
     (JObj ms, Some (JObj entries)) \<Rightarrow> JObj (fold (merge_entry env) entries ms) | _ \<Rightarrow> current)"

subsection \<open>The provider\<close>

record AiChatMessage =
  ms_role :: string
  ms_content :: json
  ms_name :: "string option"
  ms_tool_call_id :: "string option"

record AiChatInput =
  ch_model :: string
  ch_messages :: "AiChatMessage list"
  ch_maxTokens :: "rat option"
  ch_temperature :: "rat option"
  ch_tools :: "json list option"
  ch_responseFormat :: "json option"
  ch_estimatedAiuMicros :: "string option"

datatype failure_kind = Kind_failure | Kind_timeout | Kind_cancelled

record AiProviderRequestError =
  pe_message :: string
  pe_status :: "int option"
  pe_kind :: failure_kind
  pe_retryable :: bool

text \<open>What is thrown: an error of the transport, a \<open>DOMException\<close> of the given name, or anything else.\<close>

datatype provider_thrown = Thrown_provider AiProviderRequestError | Thrown_dom string | Thrown_other

text \<open>Whether the caller has cancelled and whether the deadline of the connection has passed.\<close>

record signal_state =
  sg_callerAborted :: bool
  sg_timedOut :: bool

definition provider_error :: "string \<Rightarrow> int option \<Rightarrow> failure_kind \<Rightarrow> bool \<Rightarrow> AiProviderRequestError" where
  "provider_error message status kind retryable =
     \<lparr>pe_message = message, pe_status = status, pe_kind = kind, pe_retryable = retryable\<rparr>"

definition providerFailure :: "provider_thrown \<Rightarrow> signal_state \<Rightarrow> AiProviderRequestError" where
  "providerFailure e sg = (case e of
     Thrown_provider pe \<Rightarrow> pe
   | _ \<Rightarrow>
       if sg_callerAborted sg then provider_error ''Model request was cancelled.'' None Kind_cancelled False
       else if sg_timedOut sg \<or> e = Thrown_dom ''TimeoutError'' then provider_error ''Model request timed out.'' None Kind_timeout True
       else if e = Thrown_dom ''AbortError'' then provider_error ''Model request was cancelled.'' None Kind_cancelled False
       else provider_error ''Model service request failed.'' None Kind_failure True)"

definition endpoint :: "string \<Rightarrow> string \<Rightarrow> string" where
  "endpoint baseUrl suffix = (if baseUrl \<noteq> [] \<and> last baseUrl = CHR ''/'' then butlast baseUrl else baseUrl) @ suffix"

record http_request =
  hr_url :: string
  hr_headers :: "(string \<times> string) list"
  hr_body :: json

definition opt_text :: "string \<Rightarrow> string option \<Rightarrow> (string \<times> json) list" where
  "opt_text k v = (case v of None \<Rightarrow> [] | Some s \<Rightarrow> [(k, JStr s)])"

definition message_json :: "AiChatMessage \<Rightarrow> json" where
  "message_json m = JObj ([(''role'', JStr (ms_role m)), (''content'', ms_content m)] @ opt_text ''name'' (ms_name m) @
     opt_text ''tool_call_id'' (ms_tool_call_id m))"

definition opt_num :: "string \<Rightarrow> rat option \<Rightarrow> (string \<times> json) list" where
  "opt_num k v = (case v of None \<Rightarrow> [] | Some x \<Rightarrow> [(k, JNum x)])"

text \<open>The request of \<open>requestProvider\<close> and \<open>requestProviderStream\<close>; \<open>endpoint\<close> throws for a connection without base URL.\<close>

definition provider_request :: "AiChatInput \<Rightarrow> RuntimeRouteTarget \<Rightarrow> RuntimeCallConnection \<Rightarrow> string \<Rightarrow> bool \<Rightarrow> provider_thrown + http_request" where
  "provider_request input target connection credential streaming =
     (let tools = (case ch_tools input of None \<Rightarrow> [] | Some ts \<Rightarrow> [(''tools'', JArr ts)]) in
      if cn_driver connection = ''anthropic'' then
        (let system = map ms_content (filter (\<lambda>m. ms_role m = ''system'') (ch_messages input)) in
         Inr \<lparr>hr_url = endpoint (case cn_base_url connection of None \<Rightarrow> ''https://api.anthropic.com/v1'' | Some u \<Rightarrow> u) ''/messages'',
              hr_headers = [(''content-type'', ''application/json''),
                 (''anthropic-version'', case cn_api_version connection of Some (Some v) \<Rightarrow> v | _ \<Rightarrow> ''2023-06-01'')] @
                 (if credential = [] then [] else [(''x-api-key'', credential)]),
              hr_body = JObj ([(''model'', JStr (rt_request_model target)),
                 (''max_tokens'', JNum (case ch_maxTokens input of None \<Rightarrow> 1024 | Some n \<Rightarrow> n)),
                 (''messages'', JArr (map message_json (filter (\<lambda>m. ms_role m \<noteq> ''system'') (ch_messages input))))] @
                 (if streaming then [(''stream'', JBool True)] else []) @
                 (if system = [] then [] else [(''system'', JArr system)]) @ opt_num ''temperature'' (ch_temperature input) @ tools)\<rparr>)
      else
        (case cn_base_url connection of
           None \<Rightarrow> Inl Thrown_other
         | Some base \<Rightarrow>
             Inr \<lparr>hr_url = endpoint base ''/chat/completions'',
                  hr_headers = (''content-type'', ''application/json'') #
                    (if credential = [] then [] else [(''authorization'', ''Bearer '' @ credential)]),
                  hr_body = JObj ([(''model'', JStr (rt_request_model target)), (''messages'', JArr (map message_json (ch_messages input))),
                     (''stream'', JBool streaming)] @
                     (if streaming then [(''stream_options'', JObj [(''include_usage'', JBool True)])] else []) @
                     opt_num ''max_tokens'' (ch_maxTokens input) @ opt_num ''temperature'' (ch_temperature input) @ tools @
                     (case ch_responseFormat input of None \<Rightarrow> [] | Some f \<Rightarrow> [(''response_format'', f)]))\<rparr>))"

record ProviderResult =
  pv_response :: json
  pv_status :: int
  pv_usage :: json
  pv_sourceCost :: json

record AiProviderChatResponse =
  ap_response :: json
  ap_httpStatus :: "int option"
  ap_usage :: "json option"
  ap_sourceCost :: "json option"

text \<open>What \<open>fetch\<close> yields: an exception, or a status with the JSON document of the body, if it is one.\<close>

datatype fetch_outcome = Fetch_throws provider_thrown | Fetch_response int "json option"

definition status_retryable :: "int \<Rightarrow> bool" where
  "status_retryable status \<longleftrightarrow> status \<in> {408, 409, 429} \<or> 500 \<le> status"

definition http_failure :: "'e chat_env_scheme \<Rightarrow> int \<Rightarrow> AiProviderRequestError" where
  "http_failure env status =
     provider_error (''Model service returned HTTP '' @ numberText env (of_int status) @ ''.'') (Some status) Kind_failure (status_retryable status)"

definition read_response :: "'e chat_env_scheme \<Rightarrow> RuntimeCallConnection \<Rightarrow> signal_state \<Rightarrow> fetch_outcome \<Rightarrow> AiProviderRequestError + ProviderResult" where
  "read_response env connection sg outcome = (case outcome of
     Fetch_throws e \<Rightarrow> Inl (providerFailure e sg)
   | Fetch_response status body \<Rightarrow>
       if \<not> ok status then Inl (http_failure env status)
       else
         (case body of
            None \<Rightarrow> Inl (provider_error ''Model service returned invalid JSON.'' (Some status) Kind_failure False)
          | Some (JObj ms) \<Rightarrow> Inr \<lparr>pv_response = JObj ms, pv_status = status,
              pv_usage = (if cn_driver connection = ''anthropic'' then anthropicUsage env (JObj ms) else openAiUsage env (JObj ms)), pv_sourceCost = JNull\<rparr>
          | Some _ \<Rightarrow> Inl (provider_error ''Model service returned an invalid response.'' (Some status) Kind_failure False)))"

definition requestProvider ::
  "'e chat_env_scheme \<Rightarrow> AiChatInput \<Rightarrow> RuntimeRouteTarget \<Rightarrow> RuntimeCallConnection \<Rightarrow> string \<Rightarrow> (http_request \<Rightarrow> fetch_outcome) \<Rightarrow>
   (provider_thrown + AiProviderChatResponse) option \<Rightarrow> signal_state \<Rightarrow> provider_thrown + ProviderResult" where
  "requestProvider env input target connection credential providerFetch adapted sg = (case adapted of
     Some (Inl e) \<Rightarrow> Inl (Thrown_provider (providerFailure e sg))
   | Some (Inr r) \<Rightarrow> Inr
       \<lparr>pv_response = ap_response r, pv_status = (case ap_httpStatus r of None \<Rightarrow> 200 | Some s \<Rightarrow> s),
        pv_usage = (case ap_usage r of None \<Rightarrow> JObj [(''request_count'', JStr ''1'')] | Some u \<Rightarrow> u),
        pv_sourceCost = (case ap_sourceCost r of None \<Rightarrow> JNull | Some c \<Rightarrow> c)\<rparr>
   | None \<Rightarrow>
       bind_res (provider_request input target connection credential False) (\<lambda>request.
         case read_response env connection sg (providerFetch request) of
           Inl e \<Rightarrow> Inl (Thrown_provider e) | Inr r \<Rightarrow> Inr r))"

subsection \<open>Server-sent events\<close>

definition drop_cr :: "string \<Rightarrow> string" where
  "drop_cr s = (case s of c # t \<Rightarrow> if c = CHR 0x0D then t else s | [] \<Rightarrow> [])"

text \<open>A match of \<open>/\r?\n\r?\n/u\<close> at the head of the text: what follows it.\<close>

definition separator :: "string \<Rightarrow> string option" where
  "separator s = (case drop_cr s of
     c # t \<Rightarrow>
       if c = CHR 0x0A then
         (case drop_cr t of d # u \<Rightarrow> if d = CHR 0x0A then Some u else None | [] \<Rightarrow> None)
       else None
   | [] \<Rightarrow> None)"

text \<open>The text before and after the first match.\<close>

fun cut :: "string \<Rightarrow> (string \<times> string) option" where
  "cut [] = None"
| "cut (c # s) = (case separator (c # s) of
     Some rest \<Rightarrow> Some ([], rest)
   | None \<Rightarrow> map_option (\<lambda>(block, rest). (c # block, rest)) (cut s))"

lemma separator_shorter: "separator s = Some rest \<Longrightarrow> length rest < length s"
  by (auto simp: separator_def drop_cr_def split: list.splits if_splits)

lemma cut_shorter: "cut s = Some (block, rest) \<Longrightarrow> length rest < length s"
  by (induction s arbitrary: block) (auto split: option.splits dest: separator_shorter)

text \<open>The loop over the matches: the blocks taken off the buffer and what is left of it.\<close>

function take_blocks :: "string \<Rightarrow> string list \<times> string" where
  "take_blocks buffer = (case cut buffer of
     None \<Rightarrow> ([], buffer)
   | Some (block, rest) \<Rightarrow> (case take_blocks rest of (blocks, left) \<Rightarrow> (block # blocks, left)))"
  by pat_completeness auto
termination
  by (relation "measure length") (auto dest: cut_shorter)

declare take_blocks.simps [simp del]

text \<open>\<open>split(/\r?\n/u)\<close>\<close>

definition block_lines :: "string \<Rightarrow> string list" where
  "block_lines block = (let ls = split_on (CHR 0x0A) block in
     map (\<lambda>l. if l \<noteq> [] \<and> last l = CHR 0x0D then butlast l else l) (butlast ls) @ [last ls])"

record AiProviderStreamPart =
  sp_value :: json
  sp_usage :: "json option"
  sp_sourceCost :: "json option"

definition invalid_data :: "int \<Rightarrow> AiProviderRequestError" where
  "invalid_data status = provider_error ''Model service returned invalid streaming data.'' (Some status) Kind_failure False"

definition parseBlock :: "'e chat_env_scheme \<Rightarrow> string \<Rightarrow> int \<Rightarrow> string \<Rightarrow> AiProviderRequestError + AiProviderStreamPart option" where
  "parseBlock env driver status block =
     (let data = join_with [CHR 0x0A] (map (\<lambda>l. strip_words js_whitespace (drop 5 l)) (filter (\<lambda>l. js_startsWith l ''data:'') (block_lines block))) in
      if data = [] \<or> data = ''[DONE]'' then Inr None
      else
        (case jsonParse env data of
           None \<Rightarrow> Inl (invalid_data status)
         | Some v \<Rightarrow> Inr (Some \<lparr>sp_value = v, sp_usage = streamUsage env v driver, sp_sourceCost = None\<rparr>)))"

text \<open>What the iteration over a stream meets: parts, and possibly an exception at the end.\<close>

datatype stream_item = Part AiProviderStreamPart | Broken provider_thrown

fun block_items :: "(string \<Rightarrow> AiProviderRequestError + AiProviderStreamPart option) \<Rightarrow> string list \<Rightarrow> stream_item list \<times> bool" where
  "block_items parse [] = ([], True)"
| "block_items parse (b # bs) = (case parse b of
     Inl e \<Rightarrow> ([Broken (Thrown_provider e)], False)
   | Inr None \<Rightarrow> block_items parse bs
   | Inr (Some part) \<Rightarrow> (case block_items parse bs of (items, going) \<Rightarrow> (Part part # items, going)))"

text \<open>What \<open>reader.read()\<close> yields: texts of chunks, then the end or an exception.  A chunk is the text the decoder makes of its
  bytes with the bytes held back before it.\<close>

fun read_loop ::
  "(string \<Rightarrow> AiProviderRequestError + AiProviderStreamPart option) \<Rightarrow> string \<Rightarrow> string list \<Rightarrow> provider_thrown option \<Rightarrow> stream_item list" where
  "read_loop parse buffer [] failure = (case failure of
     Some e \<Rightarrow> [Broken e]
   | None \<Rightarrow> if js_trim buffer = [] then [] else fst (block_items parse [buffer]))"
| "read_loop parse buffer (chunk # chunks) failure = (case take_blocks (buffer @ chunk) of
     (blocks, rest) \<Rightarrow>
       (case block_items parse blocks of
          (items, False) \<Rightarrow> items
        | (items, True) \<Rightarrow> items @ read_loop parse rest chunks failure))"

record stream_body =
  sb_chunks :: "string list"
  sb_failure :: "provider_thrown option"

definition responseStream :: "'e chat_env_scheme \<Rightarrow> string \<Rightarrow> int \<Rightarrow> stream_body option \<Rightarrow> stream_item list" where
  "responseStream env driver status body = (case body of
     None \<Rightarrow> [Broken (Thrown_provider (provider_error ''Model service returned an empty stream.'' (Some status) Kind_failure False))]
   | Some b \<Rightarrow> read_loop (parseBlock env driver status) [] (sb_chunks b) (sb_failure b))"

datatype stream_fetch = Stream_throws provider_thrown | Stream_response int "stream_body option"

text \<open>What a registered adapter answers to \<open>stream\<close>, if it has that method.\<close>

definition requestProviderStream ::
  "'e chat_env_scheme \<Rightarrow> AiChatInput \<Rightarrow> RuntimeRouteTarget \<Rightarrow> RuntimeCallConnection \<Rightarrow> string \<Rightarrow> (http_request \<Rightarrow> stream_fetch) \<Rightarrow>
   (provider_thrown + int option \<times> stream_item list) option option \<Rightarrow> signal_state \<Rightarrow> provider_thrown + int \<times> stream_item list" where
  "requestProviderStream env input target connection credential providerFetch adapted sg = (case adapted of
     Some None \<Rightarrow> Inl (Thrown_provider (provider_error
       (''The registered adapter for connection '' @ cn_name connection @ '' does not support streaming.'') None Kind_failure False))
   | Some (Some (Inl e)) \<Rightarrow> Inl (Thrown_provider (providerFailure e sg))
   | Some (Some (Inr (status, items))) \<Rightarrow> Inr (case status of None \<Rightarrow> 200 | Some s \<Rightarrow> s, items)
   | None \<Rightarrow>
       bind_res (provider_request input target connection credential True) (\<lambda>request.
         case providerFetch request of
           Stream_throws e \<Rightarrow> Inl (Thrown_provider (providerFailure e sg))
         | Stream_response status body \<Rightarrow>
             if \<not> ok status then Inl (Thrown_provider (http_failure env status))
             else Inr (status, responseStream env (cn_driver connection) status body)))"

end
