(* ===== verification/SdkChat.thy ===== *)
theory SdkChat
  imports SdkTransport Reservation
begin

text \<open>
  Chats of the Node SDK: reservations of the client (\<open>sdks/node/src/runtime/client.ts\<close> with the schemas of
  \<open>packages/contracts/src/runtime-snapshot.ts\<close>), targets and events of a chat (\<open>chat-common.ts\<close>), and the loops of
  \<open>executeChat\<close> and \<open>executeChatStream\<close>.  A chat is a function to what it did in order, so that claims about its calls of
  other services are claims about that list.
\<close>

subsection \<open>Reservations of the client\<close>

record reservation_token =
  rv_id :: string
  rv_token :: string

datatype SdkReservationResult = Not_required | Allowed | Reserved reservation_token | Failed_open

definition reserved_token :: "SdkReservationResult \<Rightarrow> reservation_token option" where
  "reserved_token r = (case r of Reserved t \<Rightarrow> Some t | _ \<Rightarrow> None)"

definition runtimeAiuMicrosSchema :: schema where
  "runtimeAiuMicrosSchema = z_string (\<lambda>s. digits s \<and> (s = ''0'' \<or> hd s \<noteq> CHR ''0'') \<and> (case js_Number s of None \<Rightarrow> False | Some n \<Rightarrow> n \<le> 2 ^ 63 - 1))"

definition runtimeUserPropertyValueSchema :: schema where
  "runtimeUserPropertyValueSchema v \<longleftrightarrow>
     z_string (\<lambda>s. utf16_length s \<le> 2048) v \<or> z_int (\<lambda>_. True) v \<or> z_boolean v \<or>
     z_array (z_string (\<lambda>s. utf16_length s \<le> 256)) (\<lambda>xs. length xs \<le> 32) v"

definition runtimeUserReservationRequestSchema :: "'e ingest_env_scheme \<Rightarrow> schema" where
  "runtimeUserReservationRequestSchema env = z_object
     [req ''user_id'' (bounded_string 1 256), opt ''display_user'' (bounded_string 1 256),
      opt ''user_properties'' (z_record unit_key runtimeUserPropertyValueSchema (\<lambda>_. True)),
      req ''operation_id'' opaqueIdSchema, req ''virtual_model'' (z_string virtualModelName),
      opt ''candidate_model_ids'' (z_array (z_string (is_uuid env)) (\<lambda>xs. 1 \<le> length xs \<and> length xs \<le> 32 \<and> distinct xs)),
      req ''estimated_aiu_micros'' runtimeAiuMicrosSchema]"

definition runtimeUserQuotaSummarySchema :: schema where
  "runtimeUserQuotaSummarySchema = z_object
     [req ''id'' opaqueIdSchema, req ''limit_aiu_micros'' (z_nullable runtimeAiuMicrosSchema),
      req ''used_aiu_micros'' runtimeAiuMicrosSchema, req ''reserved_aiu_micros'' runtimeAiuMicrosSchema,
      req ''remaining_aiu_micros'' (z_nullable runtimeAiuMicrosSchema)]"

definition reservation_schema :: schema where
  "reservation_schema = z_object
     [req ''id'' opaqueIdSchema, req ''token'' (bounded_string 64 4096),
      req ''reserved_aiu_micros'' runtimeAiuMicrosSchema, req ''expires_at'' utcTimestampSchema]"

definition runtimeUserReservationResponseSchema :: schema where
  "runtimeUserReservationResponseSchema j \<longleftrightarrow>
     z_object
       [req ''allowed'' z_boolean, req ''reason'' (bounded_string 1 120), req ''user'' runtimeUserQuotaSummarySchema,
        req ''reservation'' (z_nullable reservation_schema)] j \<and>
     (bool_member j ''allowed'' \<or> member j ''reservation'' = Some JNull)"

datatype reserve_error =
    Request_invalid
  | Fetch_failed
  | SDK_RUNTIME_REQUEST_FAILED int
  | Response_invalid
  | SDK_USER_AIU_DENIED string

text \<open>\<open>request\<close> followed by \<open>response.json()\<close>: a reply with its document, if the body is one.\<close>

definition reservation_answer :: "json option reply \<Rightarrow> reserve_error + SdkReservationResult" where
  "reservation_answer answer = (case answer of
     NoReply \<Rightarrow> Inl Fetch_failed
   | Reply status body \<Rightarrow>
       if \<not> ok status then Inl (SDK_RUNTIME_REQUEST_FAILED status)
       else
         (case body of
            None \<Rightarrow> Inl Response_invalid
          | Some j \<Rightarrow>
              if \<not> runtimeUserReservationResponseSchema j then Inl Response_invalid
              else if \<not> bool_member j ''allowed'' then Inl (SDK_USER_AIU_DENIED (event_text j ''reason''))
              else if member j ''reservation'' = Some JNull then Inr Allowed
              else Inr (Reserved \<lparr>rv_id = event_text (sub j ''reservation'') ''id'', rv_token = event_text (sub j ''reservation'') ''token''\<rparr>)))"

definition failOpenOrThrow :: "RuntimeFailMode \<Rightarrow> 'x \<Rightarrow> 'a \<Rightarrow> 'x + 'a" where
  "failOpenOrThrow failMode e fallback = (if failMode = Fail_closed then Inl e else Inr fallback)"

text \<open>\<open>reserveUserAiu\<close> over a server that answers the request.\<close>

definition reserveUserAiu ::
  "'e ingest_env_scheme \<Rightarrow> RuntimeFailMode \<Rightarrow> RuntimeSnapshot \<Rightarrow> (json \<Rightarrow> 'd \<Rightarrow> 'd \<times> json option reply) \<Rightarrow> json \<Rightarrow> 'd \<Rightarrow>
   'd \<times> (reserve_error + SdkReservationResult)" where
  "reserveUserAiu env failMode snapshot post input d =
     (if sn_aiu_mode snapshot \<noteq> AiuHardLimit then (d, Inr Not_required)
      else if \<not> runtimeUserReservationRequestSchema env input then (d, Inl Request_invalid)
      else
        (case post input d of
           (d', answer) \<Rightarrow>
             (d', case reservation_answer answer of
                Inl e \<Rightarrow> failOpenOrThrow failMode e Failed_open
              | Inr r \<Rightarrow> Inr r)))"

subsection \<open>Targets and events of a chat\<close>

definition part_capability :: "json \<Rightarrow> string list" where
  "part_capability part = (case part of
     JObj _ \<Rightarrow>
       (case string_member part ''type'' of
          Some t \<Rightarrow>
            if t \<in> {''image'', ''image_url'', ''input_image''} then [''image_input'']
            else if t \<in> {''audio'', ''input_audio''} then [''audio_input''] else []
        | None \<Rightarrow> [])
   | _ \<Rightarrow> [])"

definition requiredInputCapabilities :: "AiChatInput \<Rightarrow> string list" where
  "requiredInputCapabilities input =
     List.maps (\<lambda>m. case ms_content m of JArr parts \<Rightarrow> List.maps part_capability parts | _ \<Rightarrow> []) (ch_messages input)"

definition target_supports :: "AiChatInput \<Rightarrow> bool \<Rightarrow> RuntimeRouteTarget \<Rightarrow> bool" where
  "target_supports input streaming target \<longleftrightarrow>
     rt_task_type target = ''chat'' \<and>
     (streaming \<longrightarrow> ''streaming'' \<in> set (rt_capabilities target)) \<and>
     (ch_tools input \<noteq> None \<longrightarrow> ''tools'' \<in> set (rt_capabilities target)) \<and>
     (ch_responseFormat input \<noteq> None \<longrightarrow> ''structured_output'' \<in> set (rt_capabilities target)) \<and>
     list_all (\<lambda>c. c \<in> set (rt_capabilities target)) (requiredInputCapabilities input)"

datatype chat_error =
    Messages_empty
  | Route_error sdk_error
  | SDK_MODEL_CAPABILITY_UNAVAILABLE
  | SDK_AIU_ESTIMATE_REQUIRED
  | Reserve_error reserve_error
  | SDK_MODEL_REQUEST_FAILED string

definition chatTargets :: "RuntimeRouteSelection \<Rightarrow> AiChatInput \<Rightarrow> bool \<Rightarrow> chat_error + RuntimeRouteTarget list" where
  "chatTargets route input streaming =
     (let targets = filter (target_supports input streaming) (se_primary route # se_fallbacks route) in
      if targets = [] then Inl SDK_MODEL_CAPABILITY_UNAVAILABLE else Inr targets)"

datatype attempt_status = Att_success | Att_failed failure_kind

definition attempt_text :: "attempt_status \<Rightarrow> string" where
  "attempt_text s = (case s of
     Att_success \<Rightarrow> ''success'' | Att_failed Kind_failure \<Rightarrow> ''failure'' | Att_failed Kind_timeout \<Rightarrow> ''timeout''
   | Att_failed Kind_cancelled \<Rightarrow> ''cancelled'')"

record AiChatAttempt =
  at_attemptId :: string
  at_attemptIndex :: nat
  at_target :: RuntimeRouteTarget
  at_connection :: RuntimeCallConnection
  at_status :: attempt_status
  at_httpStatus :: "int option"
  at_latencyMs :: int

definition opt_json :: "string option \<Rightarrow> json" where
  "opt_json v = (case v of None \<Rightarrow> JNull | Some s \<Rightarrow> JStr s)"

definition opt_properties :: "string \<Rightarrow> (string \<times> json) list \<Rightarrow> (string \<times> json) list" where
  "opt_properties k ps = (if ps = [] then [] else [(k, JObj ps)])"

record chat_identity =
  ci_sdkVersion :: string
  ci_instanceId :: string

text \<open>The id and the time of the event are arguments.\<close>

definition eventFor ::
  "'e chat_env_scheme \<Rightarrow> chat_identity \<Rightarrow> ResolvedAiRuntimeContext \<Rightarrow> RuntimeRouteSelection \<Rightarrow> RuntimeRouteTarget option \<Rightarrow> string option \<Rightarrow>
   string \<Rightarrow> int \<Rightarrow> AiChatAttempt \<Rightarrow> json \<Rightarrow> json \<Rightarrow> bool \<Rightarrow> json" where
  "eventFor env identity cx route prior reservationId eventId now attempt usage sourceCost final =
     (let version = numberText env (of_int (se_configurationVersion route)); target = at_target attempt in JObj (
       [(''schema_version'', JStr ''2.0''), (''event_id'', JStr eventId), (''event_time'', JStr (toISOString env now))] @
       opt_text ''application_version'' (cx_applicationVersion cx) @
       [(''sdk_version'', JStr (ci_sdkVersion identity)), (''config_version'', JStr version),
        (''user'', JObj [(''user_id'', JStr (cx_userId cx)), (''display_user'', opt_json (cx_displayUser cx))])] @
       opt_properties ''event_properties'' (cx_eventProperties cx) @
       opt_properties ''user_properties'' (cx_userProperties cx) @
       [(''source'', JObj [(''type'', JStr ''sdk''), (''name'', JStr ''tokenpilot-node''), (''version'', JStr (ci_sdkVersion identity)),
           (''instance_id'', JStr (ci_instanceId identity))]),
        (''request'', JObj
          [(''request_id'', JStr (cx_requestId cx)), (''attempt_id'', JStr (at_attemptId attempt)),
           (''attempt_index'', jint (int (at_attemptIndex attempt))), (''is_final_attempt'', JBool final),
           (''operation_id'', JStr (cx_operationId cx)), (''parent_request_id'', opt_json (cx_parentRequestId cx)),
           (''session_id'', opt_json (cx_sessionId cx)), (''conversation_id'', opt_json (cx_conversationId cx)),
           (''trace_id'', JStr (cx_traceId cx)), (''reservation_id'', opt_json reservationId)]),
        (''model'', JObj
          [(''virtual_model'', JStr (se_virtualModel route)), (''model_id'', JStr (rt_model_id target)),
           (''connection_id'', JStr (rt_connection_id target)), (''connection_driver'', JStr (cn_driver (at_connection attempt))),
           (''request_model'', JStr (rt_request_model target)), (''provider'', JStr (rt_provider target))]),
        (''route'', JObj
          [(''configuration_version'', JStr version), (''rule'', opt_json (se_ruleId route)),
           (''reason'', JStr (if se_ruleId route = None then ''default'' else ''condition'')),
           (''tags'', JArr [JStr (se_routeTag route)]), (''fallback_from'', opt_json (map_option rt_model_id prior)),
           (''is_final_success_attempt'', JBool (at_status attempt = Att_success)), (''is_user_visible_operation'', JBool final)]),
        (''analytics_dimensions'', JObj (cx_analyticsDimensions cx)),
        (''result'', JObj
          [(''status'', JStr (attempt_text (at_status attempt))),
           (''http_status'', case at_httpStatus attempt of None \<Rightarrow> JNull | Some n \<Rightarrow> jint n),
           (''latency_ms'', jint (at_latencyMs attempt)),
           (''error_class'', if at_status attempt = Att_success then JNull else JStr (''provider_'' @ attempt_text (at_status attempt)))]),
        (''source_cost'', sourceCost),
        (''privacy'', JObj [(''contains_prompt'', JBool False), (''contains_response'', JBool False)]),
        (''usage'', usage)]))"

subsection \<open>A chat\<close>

text \<open>What one attempt comes to: an answer, a failure with the usage seen so far, or a consumer that stopped reading.\<close>

datatype attempt_outcome =
    Answered ProviderResult
  | Attempt_failed AiProviderRequestError json
  | Abandoned int json

text \<open>What a chat does to its surroundings, in order.\<close>

datatype chat_effect =
    Reserve json
  | Model_call nat RuntimeRouteTarget
  | Emit nat json
  | Report "json list"
  | Settle reservation_token string
  | Release reservation_token string
  | Warn

record chat_run =
  cr_events :: "json list"
  cr_attempts :: "AiChatAttempt list"
  cr_lastError :: "AiProviderRequestError option"
  cr_index :: nat
  cr_log :: "chat_effect list"

text \<open>What a chat meets: ids, clocks and elapsed milliseconds by attempt, adapters, credentials, and whether the calls that
  follow the attempts succeed.  An adapter says whether it needs a credential.\<close>

record chat_world =
  wo_routeNow :: int
  wo_attemptId :: "nat \<Rightarrow> string"
  wo_eventId :: "nat \<Rightarrow> string"
  wo_eventNow :: "nat \<Rightarrow> int"
  wo_elapsed :: "nat \<Rightarrow> int"
  wo_needsCredential :: "RuntimeCallConnection \<Rightarrow> bool"
  wo_credential :: "RuntimeCallConnection \<Rightarrow> string + string"
  wo_reportFails :: "json list \<Rightarrow> bool"
  wo_settleFails :: bool
  wo_releaseFails :: bool

record AiChatResult =
  cs_response :: json
  cs_virtualModel :: string
  cs_target :: RuntimeRouteTarget
  cs_connection :: RuntimeCallConnection
  cs_attempts :: "AiChatAttempt list"
  cs_operationId :: string

text \<open>How the loop over the targets ends: with an answer, with a consumer that stopped, or without either.\<close>

datatype loop_end = Loop_answer json RuntimeRouteTarget RuntimeCallConnection | Loop_stopped | Loop_exhausted

text \<open>What the steps of one chat share.\<close>

record chat_call =
  cc_identity :: chat_identity
  cc_context :: ResolvedAiRuntimeContext
  cc_route :: RuntimeRouteSelection
  cc_targets :: "RuntimeRouteTarget list"
  cc_reservation :: "reservation_token option"

definition prior_target :: "chat_call \<Rightarrow> nat \<Rightarrow> RuntimeRouteTarget option" where
  "prior_target call targetIndex = (if targetIndex = 0 then None else Some (cc_targets call ! (targetIndex - 1)))"

text \<open>Both records of an attempt: the entry of \<open>attempts\<close> and the event.\<close>

definition record_attempt ::
  "'e chat_env_scheme \<Rightarrow> chat_world \<Rightarrow> chat_call \<Rightarrow> nat \<Rightarrow> RuntimeCallConnection \<Rightarrow> attempt_status \<Rightarrow> int option \<Rightarrow> json \<Rightarrow> json \<Rightarrow> bool \<Rightarrow>
   chat_run \<Rightarrow> chat_run" where
  "record_attempt env w call targetIndex connection status httpStatus usage sourceCost final st =
     (let k = cr_index st;
          attempt = \<lparr>at_attemptId = ''att_'' @ wo_attemptId w k, at_attemptIndex = k, at_target = cc_targets call ! targetIndex,
            at_connection = connection, at_status = status, at_httpStatus = httpStatus, at_latencyMs = max 0 (wo_elapsed w k)\<rparr> in
      st\<lparr>cr_attempts := cr_attempts st @ [attempt],
         cr_events := cr_events st @ [eventFor env (cc_identity call) (cc_context call) (cc_route call) (prior_target call targetIndex)
           (map_option rv_id (cc_reservation call)) (wo_eventId w k) (wo_eventNow w k) attempt usage sourceCost final]\<rparr>)"

definition log_effects :: "chat_effect list \<Rightarrow> chat_run \<Rightarrow> chat_run" where
  "log_effects es st = st\<lparr>cr_log := cr_log st @ es\<rparr>"

text \<open>\<open>report\<close>, \<open>settle\<close> and \<open>release\<close>, each with a warning when it fails.\<close>

definition report_events :: "chat_world \<Rightarrow> chat_run \<Rightarrow> chat_run" where
  "report_events w st = log_effects (Report (cr_events st) # (if wo_reportFails w (cr_events st) then [Warn] else [])) st"

definition close_with :: "(reservation_token \<Rightarrow> chat_effect) \<Rightarrow> bool \<Rightarrow> chat_call \<Rightarrow> chat_run \<Rightarrow> chat_run" where
  "close_with effect fails call st = (case cc_reservation call of
     None \<Rightarrow> st
   | Some t \<Rightarrow> log_effects (effect t # (if fails then [Warn] else [])) st)"

definition estimate :: "AiChatInput \<Rightarrow> string" where
  "estimate input = (case ch_estimatedAiuMicros input of None \<Rightarrow> ''0'' | Some a \<Rightarrow> a)"

text \<open>The loop over the attempts of one target.  \<open>perform\<close> makes one attempt: the values it hands to the consumer and what it
  comes to; \<open>maximum\<close> is the number of attempts, \<open>tried\<close> how many came before, \<open>left\<close> how many remain.\<close>

fun retries ::
  "'e chat_env_scheme \<Rightarrow> chat_world \<Rightarrow> AiChatInput \<Rightarrow> chat_call \<Rightarrow> (nat \<Rightarrow> json list \<times> attempt_outcome) \<Rightarrow> nat \<Rightarrow> RuntimeCallConnection \<Rightarrow>
   rat \<Rightarrow> nat \<Rightarrow> nat \<Rightarrow> chat_run \<Rightarrow> chat_run \<times> loop_end" where
  "retries env w input call perform targetIndex connection maximum tried 0 st = (st, Loop_exhausted)"
| "retries env w input call perform targetIndex connection maximum tried (Suc left) st =
     (let target = cc_targets call ! targetIndex;
          (emitted, outcome) = perform (cr_index st);
          st1 = log_effects (Model_call (cr_index st) target # map (Emit (cr_index st)) emitted) st in
      case outcome of
        Answered result \<Rightarrow>
          (close_with (\<lambda>t. Settle t (estimate input)) (wo_settleFails w) call (report_events w
             (record_attempt env w call targetIndex connection Att_success (Some (pv_status result)) (pv_usage result) (pv_sourceCost result) True st1)),
           Loop_answer (pv_response result) target connection)
      | Abandoned status usage \<Rightarrow>
          (report_events w (close_with (\<lambda>t. Release t ''stream was cancelled'') (wo_releaseFails w) call
             (record_attempt env w call targetIndex connection (Att_failed Kind_cancelled) (Some status) usage JNull True st1)),
           Loop_stopped)
      | Attempt_failed failure usage \<Rightarrow>
          (let final = (\<not> pe_retryable failure \<or> Suc targetIndex = length (cc_targets call) \<and> of_nat tried = maximum - 1);
               st2 = (record_attempt env w call targetIndex connection (Att_failed (pe_kind failure)) (pe_status failure) usage JNull final st1)
                 \<lparr>cr_lastError := Some failure, cr_index := Suc (cr_index st)\<rparr> in
           if pe_retryable failure then retries env w input call perform targetIndex connection maximum (Suc tried) left st2
           else (st2, Loop_exhausted)))"

definition unknown_connection :: AiProviderRequestError where
  "unknown_connection = provider_error ''Published route references an unknown connection.'' None Kind_failure False"

text \<open>The loop over the targets from \<open>targetIndex\<close> on.  \<open>perform\<close> takes the target, its connection and the credential.\<close>

fun each_target ::
  "'e chat_env_scheme \<Rightarrow> chat_world \<Rightarrow> RuntimeSnapshot \<Rightarrow> AiChatInput \<Rightarrow> chat_call \<Rightarrow>
   (RuntimeRouteTarget \<Rightarrow> RuntimeCallConnection \<Rightarrow> string \<Rightarrow> nat \<Rightarrow> json list \<times> attempt_outcome) \<Rightarrow> (RuntimeCallConnection \<Rightarrow> rat) \<Rightarrow>
   nat \<Rightarrow> RuntimeRouteTarget list \<Rightarrow> chat_run \<Rightarrow> chat_run \<times> loop_end" where
  "each_target env w snapshot input call perform maximum targetIndex [] st = (st, Loop_exhausted)"
| "each_target env w snapshot input call perform maximum targetIndex (target # targets) st =
     (case map_of (sn_connections snapshot) (rt_connection_id target) of
        None \<Rightarrow> (st\<lparr>cr_lastError := Some unknown_connection\<rparr>, Loop_exhausted)
      | Some connection \<Rightarrow>
          (case (if wo_needsCredential w connection then wo_credential w connection else Inr []) of
             Inl message \<Rightarrow>
               each_target env w snapshot input call perform maximum (Suc targetIndex) targets
                 (log_effects [Warn] (st\<lparr>cr_lastError := Some (provider_error message None Kind_failure True)\<rparr>))
           | Inr credential \<Rightarrow>
               (case retries env w input call (perform target connection credential) targetIndex connection (maximum connection) 0
                       (nat \<lceil>maximum connection\<rceil>) st of
                  (st1, Loop_exhausted) \<Rightarrow>
                    if (case cr_lastError st1 of None \<Rightarrow> True | Some e \<Rightarrow> pe_retryable e)
                    then each_target env w snapshot input call perform maximum (Suc targetIndex) targets st1
                    else (st1, Loop_exhausted)
                | (st1, finished) \<Rightarrow> (st1, finished))))"

definition reservation_input :: "ResolvedAiRuntimeContext \<Rightarrow> AiChatInput \<Rightarrow> RuntimeRouteTarget list \<Rightarrow> json" where
  "reservation_input cx input targets = JObj (
     [(''user_id'', JStr (cx_userId cx))] @ opt_text ''display_user'' (cx_displayUser cx) @
     opt_properties ''user_properties'' (cx_userProperties cx) @
     [(''operation_id'', JStr (cx_operationId cx)), (''virtual_model'', JStr (ch_model input)),
      (''candidate_model_ids'', JArr (map (JStr \<circ> rt_model_id) targets)), (''estimated_aiu_micros'', JStr (estimate input))])"

definition route_context :: "ResolvedAiRuntimeContext \<Rightarrow> RuntimeRouteContext" where
  "route_context cx = \<lparr>rc_userId = Some (cx_userId cx), rc_userProperties = Some (cx_userProperties cx), rc_callSource = cx_callSource cx,
     rc_selectionKey = Some (cx_requestId cx)\<rparr>"

text \<open>The steps before the reservation: route and targets of the call.\<close>

definition chat_route ::
  "'e chat_env_scheme \<Rightarrow> chat_world \<Rightarrow> RuntimeSnapshot \<Rightarrow> ResolvedAiRuntimeContext \<Rightarrow> AiChatInput \<Rightarrow> bool \<Rightarrow>
   chat_error + RuntimeRouteSelection \<times> RuntimeRouteTarget list" where
  "chat_route env w snapshot cx input streaming =
     (if ch_messages input = [] then Inl Messages_empty
      else
        (case resolveRuntimeRoute env snapshot (ch_model input) (wo_routeNow w) (route_context cx) of
           Inl e \<Rightarrow> Inl (Route_error e)
         | Inr route \<Rightarrow>
             bind_res (chatTargets route input streaming) (\<lambda>targets.
               if sn_aiu_mode snapshot = AiuHardLimit \<and> ch_estimatedAiuMicros input = None then Inl SDK_AIU_ESTIMATE_REQUIRED
               else Inr (route, targets))))"

text \<open>The frame both kinds of chat share: route, reservation, the loop over the targets, and what follows when no target
  answered.  The result is what the chat did, the state of the server that keeps the reservations, and how it ended;
  \<open>None\<close> is a consumer that stopped.\<close>

definition chat_frame ::
  "'e chat_env_scheme \<Rightarrow> chat_identity \<Rightarrow> chat_world \<Rightarrow> (json \<Rightarrow> 'd \<Rightarrow> 'd \<times> (reserve_error + SdkReservationResult)) \<Rightarrow>
   (RuntimeRouteTarget \<Rightarrow> RuntimeCallConnection \<Rightarrow> string \<Rightarrow> nat \<Rightarrow> json list \<times> attempt_outcome) \<Rightarrow> (RuntimeCallConnection \<Rightarrow> rat) \<Rightarrow> bool \<Rightarrow>
   RuntimeSnapshot \<Rightarrow> ResolvedAiRuntimeContext \<Rightarrow> AiChatInput \<Rightarrow> 'd \<Rightarrow> chat_run \<times> 'd \<times> (chat_error + AiChatResult option)" where
  "chat_frame env identity w reserve perform maximum streaming snapshot cx input d =
     (let fresh = \<lparr>cr_events = [], cr_attempts = [], cr_lastError = None, cr_index = 0, cr_log = []\<rparr> in
      case chat_route env w snapshot cx input streaming of
        Inl e \<Rightarrow> (fresh, d, Inl e)
      | Inr (route, targets) \<Rightarrow>
          (case reserve (reservation_input cx input targets) d of
             (d', Inl e) \<Rightarrow> (log_effects [Reserve (reservation_input cx input targets)] fresh, d', Inl (Reserve_error e))
           | (d', Inr reservation) \<Rightarrow>
               (let call = \<lparr>cc_identity = identity, cc_context = cx, cc_route = route, cc_targets = targets,
                      cc_reservation = reserved_token reservation\<rparr> in
                case each_target env w snapshot input call perform maximum 0 targets
                       (log_effects [Reserve (reservation_input cx input targets)] fresh) of
                  (st, Loop_answer response target connection) \<Rightarrow>
                    (st, d', Inr (Some \<lparr>cs_response = response, cs_virtualModel = se_virtualModel route, cs_target = target,
                       cs_connection = connection, cs_attempts = cr_attempts st, cs_operationId = cx_operationId cx\<rparr>))
                | (st, Loop_stopped) \<Rightarrow> (st, d', Inr None)
                | (st, Loop_exhausted) \<Rightarrow>
                    (report_events w (close_with (\<lambda>t. Release t ''all model attempts failed'') (wo_releaseFails w) call st), d',
                     Inl (SDK_MODEL_REQUEST_FAILED
                       (case cr_lastError st of None \<Rightarrow> ''No model target could be called.'' | Some e \<Rightarrow> pe_message e))))))"

text \<open>One attempt of \<open>executeChat\<close>; what is thrown and is no error of the transport counts as a failed request.\<close>

record chat_provider =
  cp_fetch :: "nat \<Rightarrow> http_request \<Rightarrow> fetch_outcome"
  cp_adapted :: "RuntimeCallConnection \<Rightarrow> nat \<Rightarrow> (provider_thrown + AiProviderChatResponse) option"
  cp_streamFetch :: "nat \<Rightarrow> http_request \<Rightarrow> stream_fetch"
  cp_streamAdapted :: "RuntimeCallConnection \<Rightarrow> nat \<Rightarrow> (provider_thrown + int option \<times> stream_item list) option option"
  cp_signal :: "nat \<Rightarrow> signal_state"
  cp_stopsAfter :: "nat \<Rightarrow> nat option"

definition one_request :: json where
  "one_request = JObj [(''request_count'', JStr ''1'')]"

definition chat_attempt ::
  "'e chat_env_scheme \<Rightarrow> chat_provider \<Rightarrow> AiChatInput \<Rightarrow> RuntimeRouteTarget \<Rightarrow> RuntimeCallConnection \<Rightarrow> string \<Rightarrow> nat \<Rightarrow> json list \<times> attempt_outcome" where
  "chat_attempt env p input target connection credential k =
     ([], case requestProvider env input target connection credential (cp_fetch p k) (cp_adapted p connection k) (cp_signal p k) of
        Inr result \<Rightarrow> Answered result
      | Inl (Thrown_provider e) \<Rightarrow> Attempt_failed e one_request
      | Inl _ \<Rightarrow> Attempt_failed (provider_error ''Model service request failed.'' None Kind_failure True) one_request)"

definition executeChat ::
  "'e chat_env_scheme \<Rightarrow> chat_identity \<Rightarrow> chat_world \<Rightarrow> (json \<Rightarrow> 'd \<Rightarrow> 'd \<times> (reserve_error + SdkReservationResult)) \<Rightarrow> chat_provider \<Rightarrow>
   RuntimeSnapshot \<Rightarrow> ResolvedAiRuntimeContext \<Rightarrow> AiChatInput \<Rightarrow> 'd \<Rightarrow> chat_run \<times> 'd \<times> (chat_error + AiChatResult option)" where
  "executeChat env identity w reserve p snapshot cx input d =
     chat_frame env identity w reserve (chat_attempt env p input) (\<lambda>c. max 1 (cn_max_retries c + 1)) False snapshot cx input d"

subsection \<open>A streamed chat\<close>

text \<open>The iteration over the parts of a stream: the values handed out, the usage and cost so far, and what ended it.  The
  consumer stops at the value after as many as \<open>stops\<close> says, and takes all of them for \<open>None\<close>.\<close>

datatype stream_end = Stream_completed | Stream_error provider_thrown | Consumer_stopped

fun consume ::
  "'e chat_env_scheme \<Rightarrow> nat option \<Rightarrow> stream_item list \<Rightarrow> json \<Rightarrow> json \<Rightarrow> json list \<times> json \<times> json \<times> stream_end" where
  "consume env stops [] usage cost = ([], usage, cost, Stream_completed)"
| "consume env stops (Broken e # items) usage cost = ([], usage, cost, Stream_error e)"
| "consume env stops (Part part # items) usage cost =
     (let usage' = mergeUsage env usage (sp_usage part);
          cost' = (case sp_sourceCost part of None \<Rightarrow> cost | Some c \<Rightarrow> c) in
      case stops of
        Some 0 \<Rightarrow> ([sp_value part], usage', cost', Consumer_stopped)
      | Some (Suc n) \<Rightarrow> (case consume env (Some n) items usage' cost' of (vs, r) \<Rightarrow> (sp_value part # vs, r))
      | None \<Rightarrow> (case consume env None items usage' cost' of (vs, r) \<Rightarrow> (sp_value part # vs, r)))"

text \<open>The classification in the outer \<open>catch\<close>: it sees the signal of the caller only, and once a value was handed out nothing
  is tried again.\<close>

definition stream_failure :: "bool \<Rightarrow> signal_state \<Rightarrow> provider_thrown \<Rightarrow> AiProviderRequestError" where
  "stream_failure emitted sg e =
     (let classified = providerFailure e (sg\<lparr>sg_timedOut := False\<rparr>) in
      if emitted \<and> pe_retryable classified then classified\<lparr>pe_retryable := False\<rparr> else classified)"

definition stream_attempt ::
  "'e chat_env_scheme \<Rightarrow> chat_provider \<Rightarrow> AiChatInput \<Rightarrow> RuntimeRouteTarget \<Rightarrow> RuntimeCallConnection \<Rightarrow> string \<Rightarrow> nat \<Rightarrow> json list \<times> attempt_outcome" where
  "stream_attempt env p input target connection credential k =
     (case requestProviderStream env input target connection credential (cp_streamFetch p k) (cp_streamAdapted p connection k) (cp_signal p k) of
        Inl e \<Rightarrow> ([], Attempt_failed (stream_failure False (cp_signal p k) e) one_request)
      | Inr (status, items) \<Rightarrow>
          (case consume env (cp_stopsAfter p k) items one_request JNull of
             (values, usage, cost, finish) \<Rightarrow>
               (values, case finish of
                  Stream_completed \<Rightarrow> Answered \<lparr>pv_response = JNull, pv_status = status, pv_usage = usage, pv_sourceCost = cost\<rparr>
                | Consumer_stopped \<Rightarrow> Abandoned status usage
                | Stream_error e \<Rightarrow> Attempt_failed (stream_failure (values \<noteq> []) (cp_signal p k) e) usage)))"

definition executeChatStream ::
  "'e chat_env_scheme \<Rightarrow> chat_identity \<Rightarrow> chat_world \<Rightarrow> (json \<Rightarrow> 'd \<Rightarrow> 'd \<times> (reserve_error + SdkReservationResult)) \<Rightarrow> chat_provider \<Rightarrow>
   RuntimeSnapshot \<Rightarrow> ResolvedAiRuntimeContext \<Rightarrow> AiChatInput \<Rightarrow> 'd \<Rightarrow> chat_run \<times> 'd \<times> (chat_error + AiChatResult option)" where
  "executeChatStream env identity w reserve p snapshot cx input d =
     chat_frame env identity w reserve (stream_attempt env p input) (\<lambda>c. cn_max_retries c + 1) True snapshot cx input d"

subsection \<open>The client\<close>

text \<open>\<open>resolveCredential\<close>: the configured credentials, then the resolver or the environment of the process.\<close>

definition resolveCredential :: "(string \<times> string) list \<Rightarrow> (string \<Rightarrow> string option) \<Rightarrow> RuntimeCallConnection \<Rightarrow> string + string" where
  "resolveCredential credentials lookup connection = (case cn_credential_ref connection of
     None \<Rightarrow> Inr []
   | Some ref \<Rightarrow>
       (case (case map_of credentials ref of None \<Rightarrow> lookup ref | Some c \<Rightarrow> Some c) of
          Some (c # cs) \<Rightarrow> Inr (c # cs)
        | _ \<Rightarrow> Inl (''Credential '' @ ref @ '' is not configured for connection '' @ cn_name connection @ ''.'')))"

text \<open>\<open>adapterFor\<close>: adapters of the connection before adapters of its driver.\<close>

definition adapterFor :: "(string \<times> 'a) list \<Rightarrow> (string \<times> 'a) list \<Rightarrow> RuntimeCallConnection \<Rightarrow> 'a option" where
  "adapterFor connectionAdapters providerAdapters connection = (case map_of connectionAdapters (cn_id connection) of
     Some a \<Rightarrow> Some a | None \<Rightarrow> map_of providerAdapters (cn_driver connection))"

text \<open>\<open>chat\<close> of the client: the snapshot held must be usable.\<close>

definition client_chat ::
  "'e chat_env_scheme \<Rightarrow> chat_identity \<Rightarrow> RuntimeFailMode \<Rightarrow> chat_world \<Rightarrow> (json \<Rightarrow> 'd \<Rightarrow> 'd \<times> json option reply) \<Rightarrow> chat_provider \<Rightarrow>
   manager \<Rightarrow> ResolvedAiRuntimeContext \<Rightarrow> AiChatInput \<Rightarrow> 'd \<Rightarrow> runtime_error + chat_run \<times> 'd \<times> (chat_error + AiChatResult option)" where
  "client_chat env identity failMode w post p m cx input d =
     bind_res (requireUsable failMode (wo_routeNow w) m) (\<lambda>snapshot.
       Inr (executeChat env identity w (reserveUserAiu env failMode snapshot post) p snapshot cx input d))"

subsection \<open>The reservation API as the server\<close>

definition request_of_json :: "'e snapshot_env_scheme \<Rightarrow> json \<Rightarrow> reservation_request" where
  "request_of_json env j =
     \<lparr>rq_user_id = event_text j ''user_id'', rq_display_user = string_member j ''display_user'',
      rq_user_properties = map_option (stringify env) (member j ''user_properties''),
      rq_operation_id = event_text j ''operation_id'', rq_virtual_model = event_text j ''virtual_model'',
      rq_candidate_model_ids = map_option (\<lambda>v. List.map_filter (\<lambda>x. json_string (Some x)) (array_of (Some v))) (member j ''candidate_model_ids''),
      rq_estimated = (case js_Number (event_text j ''estimated_aiu_micros'') of None \<Rightarrow> 0 | Some n \<Rightarrow> int n)\<rparr>"

definition summary_json :: "user_summary \<Rightarrow> json" where
  "summary_json u = JObj
     [(''id'', JStr (s_id u)), (''limit_aiu_micros'', opt_json (map_option bigint_text (s_limit u))),
      (''used_aiu_micros'', JStr (bigint_text (s_used u))), (''reserved_aiu_micros'', JStr (bigint_text (s_reserved u))),
      (''remaining_aiu_micros'', opt_json (map_option bigint_text (s_remaining u)))]"

definition result_json :: "'e snapshot_env_scheme \<Rightarrow> reservation_result \<Rightarrow> json" where
  "result_json env r = JObj
     [(''allowed'', JBool (rs_allowed r)), (''reason'', JStr (rs_reason r)), (''user'', summary_json (rs_user r)),
      (''reservation'', case rs_reservation r of
         None \<Rightarrow> JNull
       | Some t \<Rightarrow> JObj
           [(''id'', JStr (reservation_ref.rr_id t)), (''token'', JStr (rr_token t)),
            (''reserved_aiu_micros'', JStr (bigint_text (rr_reserved t))),
            (''expires_at'', JStr (toISOString env (reservation_ref.rr_expires_at t)))])]"

text \<open>\<open>POST /runtime/users/aiu/reservations\<close>\<close>

definition api_reservations ::
  "'e ingest_env_scheme \<Rightarrow> request_env \<Rightarrow> ident \<Rightarrow> VirtualModelRow list \<Rightarrow> json \<Rightarrow> QuotaDb \<Rightarrow> QuotaDb \<times> json option reply" where
  "api_reservations env e app vms j db =
     (if \<not> runtimeUserReservationRequestSchema env j then (db, Reply 400 None)
      else
        (case create_request e (Some app) vms (request_of_json env j) db of
           (db', Inl err) \<Rightarrow> (db', Reply (error_status err) None)
         | (db', Inr r) \<Rightarrow> (db', Reply 200 (Some (result_json env r)))))"

subsection \<open>Usage recorded by hand\<close>

record RecordUsageInput =
  mu_eventId :: string
  mu_attemptId :: string
  mu_model :: string
  mu_modelId :: "string option"
  mu_attemptIndex :: "rat option"
  mu_isFinalAttempt :: "bool option"
  mu_status :: "string option"
  mu_httpStatus :: "rat option"
  mu_latencyMs :: "rat option"
  mu_errorClass :: "string option"
  mu_fallbackFrom :: "string option"
  mu_sourceCost :: "(string \<times> string \<times> bool option) option"
  mu_usage :: json

datatype manual_error =
    SDK_MANUAL_USAGE_MODEL_INVALID
  | SDK_MANUAL_USAGE_CONNECTION_INVALID
  | SDK_DIMENSION_NOT_ALLOWED string
  | Event_invalid

definition allowedDimensions :: "(string \<times> json) list \<Rightarrow> string list \<Rightarrow> manual_error + (string \<times> json) list" where
  "allowedDimensions values allowed = (case List.find (\<lambda>(k, _). k \<notin> set allowed) values of
     Some (k, _) \<Rightarrow> Inl (SDK_DIMENSION_NOT_ALLOWED k) | None \<Rightarrow> Inr values)"

definition json_or :: "json \<Rightarrow> json option \<Rightarrow> json" where
  "json_or d v = (case v of None \<Rightarrow> d | Some x \<Rightarrow> x)"

definition manual_event ::
  "'e chat_env_scheme \<Rightarrow> chat_identity \<Rightarrow> ResolvedAiRuntimeContext \<Rightarrow> RuntimeRouteSelection \<Rightarrow> RuntimeRouteTarget \<Rightarrow> RuntimeCallConnection \<Rightarrow>
   int \<Rightarrow> RecordUsageInput \<Rightarrow> (string \<times> json) list \<Rightarrow> json" where
  "manual_event env identity cx route target connection now v dimensions =
     (let version = numberText env (of_int (se_configurationVersion route));
          status = (case mu_status v of None \<Rightarrow> ''success'' | Some s \<Rightarrow> s);
          final = JBool (case mu_isFinalAttempt v of None \<Rightarrow> True | Some b \<Rightarrow> b) in JObj (
       [(''schema_version'', JStr ''2.0''), (''event_id'', JStr (mu_eventId v)), (''event_time'', JStr (toISOString env now))] @
       opt_text ''application_version'' (cx_applicationVersion cx) @
       [(''sdk_version'', JStr (ci_sdkVersion identity)), (''config_version'', JStr version),
        (''user'', JObj [(''user_id'', JStr (cx_userId cx)), (''display_user'', opt_json (cx_displayUser cx))])] @
       opt_properties ''event_properties'' (cx_eventProperties cx) @
       opt_properties ''user_properties'' (cx_userProperties cx) @
       [(''source'', JObj [(''type'', JStr ''sdk''), (''name'', JStr ''tokenpilot-node''), (''version'', JStr (ci_sdkVersion identity)),
           (''instance_id'', JStr (ci_instanceId identity))]),
        (''request'', JObj
          [(''request_id'', JStr (cx_requestId cx)), (''attempt_id'', JStr (mu_attemptId v)),
           (''attempt_index'', JNum (case mu_attemptIndex v of None \<Rightarrow> 0 | Some n \<Rightarrow> n)), (''is_final_attempt'', final),
           (''operation_id'', JStr (cx_operationId cx)), (''parent_request_id'', opt_json (cx_parentRequestId cx)),
           (''session_id'', opt_json (cx_sessionId cx)), (''conversation_id'', opt_json (cx_conversationId cx)),
           (''trace_id'', JStr (cx_traceId cx)), (''reservation_id'', JNull)]),
        (''model'', JObj
          [(''virtual_model'', JStr (se_virtualModel route)), (''model_id'', JStr (rt_model_id target)),
           (''connection_id'', JStr (rt_connection_id target)), (''connection_driver'', JStr (cn_driver connection)),
           (''request_model'', JStr (rt_request_model target)), (''provider'', JStr (rt_provider target))]),
        (''route'', JObj
          [(''configuration_version'', JStr version), (''rule'', opt_json (se_ruleId route)), (''reason'', JStr ''manual''),
           (''tags'', JArr [JStr (se_routeTag route)]), (''fallback_from'', opt_json (mu_fallbackFrom v)),
           (''is_final_success_attempt'', JBool (status = ''success'')), (''is_user_visible_operation'', final)]),
        (''analytics_dimensions'', JObj dimensions),
        (''result'', JObj
          [(''status'', JStr status), (''http_status'', json_or JNull (map_option JNum (mu_httpStatus v))),
           (''latency_ms'', json_or JNull (map_option JNum (mu_latencyMs v))), (''error_class'', opt_json (mu_errorClass v))]),
        (''source_cost'', case mu_sourceCost v of
           None \<Rightarrow> JNull
         | Some (amount, currency, estimated) \<Rightarrow> JObj
             [(''amount'', JStr amount), (''currency'', JStr currency),
              (''is_estimated'', JBool (case estimated of None \<Rightarrow> False | Some b \<Rightarrow> b))]),
        (''privacy'', JObj [(''contains_prompt'', JBool False), (''contains_response'', JBool False)]),
        (''usage'', mu_usage v)]))"

definition buildManualUsageEvent ::
  "'e chat_env_scheme \<Rightarrow> chat_identity \<Rightarrow> ResolvedAiRuntimeContext \<Rightarrow> RuntimeSnapshot \<Rightarrow> RuntimeRouteSelection \<Rightarrow> int \<Rightarrow> RecordUsageInput \<Rightarrow>
   manual_error + json" where
  "buildManualUsageEvent env identity cx snapshot route now v =
     (case (case mu_modelId v of
              None \<Rightarrow> Some (se_primary route)
            | Some m \<Rightarrow> List.find (\<lambda>t. rt_model_id t = m) (se_primary route # se_fallbacks route)) of
        None \<Rightarrow> Inl SDK_MANUAL_USAGE_MODEL_INVALID
      | Some target \<Rightarrow>
          (case map_of (sn_connections snapshot) (rt_connection_id target) of
             None \<Rightarrow> Inl SDK_MANUAL_USAGE_CONNECTION_INVALID
           | Some connection \<Rightarrow>
               bind_res (allowedDimensions (cx_analyticsDimensions cx) (sn_allowed_keys snapshot)) (\<lambda>dimensions.
                 let event = manual_event env identity cx route target connection now v dimensions in
                 if usageEventSchema env event then Inr event else Inl Event_invalid)))"

subsection \<open>Reserving around an operation\<close>

text \<open>\<open>withAiuReservation\<close>: whether the operation threw, and what settlement and release did.\<close>

definition withAiuReservation ::
  "SdkReservationResult \<Rightarrow> (string option \<Rightarrow> 'x + 'v) \<Rightarrow> ('v \<Rightarrow> string) \<Rightarrow> 'x option \<Rightarrow> chat_effect list \<times> ('x + 'v \<times> SdkReservationResult)" where
  "withAiuReservation reservation operation settledAiuMicros settleError =
     (let released = (case reserved_token reservation of None \<Rightarrow> [] | Some t \<Rightarrow> [Release t ''model operation failed'']) in
      case operation (map_option rv_token (reserved_token reservation)) of
        Inl e \<Rightarrow> (released, Inl e)
      | Inr v \<Rightarrow>
          (case reserved_token reservation of
             None \<Rightarrow> ([], Inr (v, reservation))
           | Some t \<Rightarrow>
               (case settleError of
                  None \<Rightarrow> ([Settle t (settledAiuMicros v)], Inr (v, reservation))
                | Some e \<Rightarrow> (Settle t (settledAiuMicros v) # released, Inl e))))"

end
