(* ===== verification/ChatFacts.thy ===== *)
theory ChatFacts
  imports SdkChat
begin

text \<open>
  Facts about chats: the reader of server-sent events does not depend on chunks; induction rules for the loops over attempts
  and targets, and what these loops log, record and hand out, by way of the locale \<open>chat_attempts\<close>, which both kinds of chat
  interpret; what follows for a whole chat.
\<close>

subsection \<open>Chunks of a stream\<close>

lemma separator_append: "separator s = Some rest \<Longrightarrow> separator (s @ t) = Some (rest @ t)"
  by (auto simp: separator_def drop_cr_def split: list.splits if_splits)

text \<open>A text at whose head a separator is unfinished holds no separator further on.\<close>

lemma unfinished_no_cut:
  assumes "separator (c # s) = None" and "separator (c # s @ t) \<noteq> None"
  shows "cut s = None"
proof -
  have "s = [] \<or> s = [CHR 0x0D] \<or> s = [CHR 0x0A] \<or> s = [CHR 0x0A, CHR 0x0D]"
    using assms by (cases s; cases "tl s"; cases "tl (tl s)") (auto simp: separator_def drop_cr_def split: if_splits list.splits)
  then show ?thesis by (auto simp: separator_def drop_cr_def)
qed

lemma cut_append: "cut s = Some (block, rest) \<Longrightarrow> cut (s @ t) = Some (block, rest @ t)"
proof (induction s arbitrary: block)
  case (Cons c s)
  show ?case
  proof (cases "separator (c # s)")
    case None
    then obtain b where b: "cut s = Some (b, rest)" "block = c # b" using Cons.prems by auto
    then have "separator (c # s @ t) = None" using unfinished_no_cut [OF None] by force
    then show ?thesis using Cons.IH [OF b(1)] b(2) by simp
  next
    case (Some r)
    then show ?thesis using Cons.prems separator_append [OF Some] by simp
  qed
qed simp

lemma take_blocks_append:
  "take_blocks (s @ t) = (case take_blocks s of (blocks, rest) \<Rightarrow> (case take_blocks (rest @ t) of (others, left) \<Rightarrow> (blocks @ others, left)))"
proof (induction s rule: take_blocks.induct)
  case (1 buffer)
  show ?case
  proof (cases "cut buffer")
    case None
    then show ?thesis by (subst (2) take_blocks.simps) simp
  next
    case (Some br)
    obtain block rest where br: "br = (block, rest)" by force
    have "take_blocks (buffer @ t) = (case take_blocks (rest @ t) of (blocks, left) \<Rightarrow> (block # blocks, left))"
      by (subst take_blocks.simps) (simp add: cut_append [OF Some [unfolded br]])
    moreover have "take_blocks buffer = (case take_blocks rest of (blocks, left) \<Rightarrow> (block # blocks, left))"
      by (subst take_blocks.simps) (simp add: Some br)
    ultimately show ?thesis using "1.IH" [OF Some br [symmetric]] by (simp split: prod.split)
  qed
qed

lemma block_items_append:
  "block_items parse (bs @ cs) = (case block_items parse bs of
     (items, False) \<Rightarrow> (items, False) | (items, True) \<Rightarrow> (case block_items parse cs of (others, going) \<Rightarrow> (items @ others, going)))"
  by (induction bs) (auto split: sum.split option.split prod.split bool.split)

lemma take_blocks_rest: "take_blocks s = (blocks, rest) \<Longrightarrow> cut rest = None"
proof (induction s arbitrary: blocks rule: take_blocks.induct)
  case (1 buffer)
  then show ?case by (subst (asm) (2) take_blocks.simps) (auto split: option.splits prod.splits)
qed

text \<open>How the body of a response is cut into chunks does not matter.\<close>

lemma read_loop_chunks:
  assumes "cut buffer = None"
  shows "read_loop parse buffer chunks failure = read_loop parse [] [buffer @ concat chunks] failure"
  using assms
proof (induction chunks arbitrary: buffer)
  case Nil
  then show ?case by (simp add: take_blocks.simps [of buffer])
next
  case (Cons chunk chunks)
  obtain blocks rest where tb: "take_blocks (buffer @ chunk) = (blocks, rest)" by force
  obtain others left where tm: "take_blocks (rest @ concat chunks) = (others, left)" by force
  have "take_blocks (buffer @ chunk @ concat chunks) = (blocks @ others, left)"
    using take_blocks_append [of "buffer @ chunk" "concat chunks"] tb tm by simp
  then show ?case using Cons.IH [OF take_blocks_rest [OF tb]] tb tm
    by (auto simp: block_items_append split: prod.splits bool.splits)
qed

subsection \<open>What a chat does\<close>

definition is_call :: "chat_effect \<Rightarrow> bool" where
  "is_call e = (case e of Model_call _ _ \<Rightarrow> True | _ \<Rightarrow> False)"

definition is_closing :: "chat_effect \<Rightarrow> bool" where
  "is_closing e = (case e of Settle _ _ \<Rightarrow> True | Release _ _ \<Rightarrow> True | _ \<Rightarrow> False)"

definition is_report :: "chat_effect \<Rightarrow> bool" where
  "is_report e = (case e of Report _ \<Rightarrow> True | _ \<Rightarrow> False)"

definition is_emit :: "chat_effect \<Rightarrow> bool" where
  "is_emit e = (case e of Emit _ _ \<Rightarrow> True | _ \<Rightarrow> False)"

lemmas effect_kinds = is_call_def is_closing_def is_report_def is_emit_def

lemma filter_emits [simp]:
  "filter is_call (map (Emit k) vs) = []" "filter is_closing (map (Emit k) vs) = []" "filter is_report (map (Emit k) vs) = []"
  "filter is_emit (map (Emit k) vs) = map (Emit k) vs"
  by (induction vs) (simp_all add: effect_kinds)

lemma record_attempt_simps [simp]:
  "cr_log (record_attempt env w call i c s h u co f st) = cr_log st"
  "cr_index (record_attempt env w call i c s h u co f st) = cr_index st"
  "cr_lastError (record_attempt env w call i c s h u co f st) = cr_lastError st"
  "length (cr_events (record_attempt env w call i c s h u co f st)) = Suc (length (cr_events st))"
  "map at_attemptIndex (cr_attempts (record_attempt env w call i c s h u co f st)) = map at_attemptIndex (cr_attempts st) @ [cr_index st]"
  by (simp_all add: record_attempt_def Let_def)

lemma log_effects_simps [simp]:
  "cr_log (log_effects es st) = cr_log st @ es" "cr_events (log_effects es st) = cr_events st"
  "cr_attempts (log_effects es st) = cr_attempts st" "cr_index (log_effects es st) = cr_index st"
  "cr_lastError (log_effects es st) = cr_lastError st"
  by (simp_all add: log_effects_def)

lemma report_events_simps [simp]:
  "cr_events (report_events w st) = cr_events st" "cr_attempts (report_events w st) = cr_attempts st"
  "cr_index (report_events w st) = cr_index st" "cr_lastError (report_events w st) = cr_lastError st"
  "filter is_call (cr_log (report_events w st)) = filter is_call (cr_log st)"
  "filter is_emit (cr_log (report_events w st)) = filter is_emit (cr_log st)"
  "filter is_closing (cr_log (report_events w st)) = filter is_closing (cr_log st)"
  "filter is_report (cr_log (report_events w st)) = filter is_report (cr_log st) @ [Report (cr_events st)]"
  by (simp_all add: report_events_def effect_kinds)

lemma close_with_simps [simp]:
  "cr_events (close_with f b call st) = cr_events st" "cr_attempts (close_with f b call st) = cr_attempts st"
  "cr_index (close_with f b call st) = cr_index st" "cr_lastError (close_with f b call st) = cr_lastError st"
  by (simp_all add: close_with_def split: option.split)

definition closes :: "(reservation_token \<Rightarrow> chat_effect) \<Rightarrow> chat_call \<Rightarrow> chat_effect list" where
  "closes f call = (case cc_reservation call of None \<Rightarrow> [] | Some t \<Rightarrow> [f t])"

lemma close_with_log [simp]:
  assumes "\<And>t. is_closing (f t)"
  shows "filter is_call (cr_log (close_with f b call st)) = filter is_call (cr_log st)"
    and "filter is_emit (cr_log (close_with f b call st)) = filter is_emit (cr_log st)"
    and "filter is_report (cr_log (close_with f b call st)) = filter is_report (cr_log st)"
    and "filter is_closing (cr_log (close_with f b call st)) = filter is_closing (cr_log st) @ closes f call"
proof -
  have "\<not> is_call (f t) \<and> \<not> is_emit (f t) \<and> \<not> is_report (f t)" for t
    using assms [of t] by (cases "f t") (simp_all add: effect_kinds)
  then show "filter is_call (cr_log (close_with f b call st)) = filter is_call (cr_log st)"
    and "filter is_emit (cr_log (close_with f b call st)) = filter is_emit (cr_log st)"
    and "filter is_report (cr_log (close_with f b call st)) = filter is_report (cr_log st)"
    and "filter is_closing (cr_log (close_with f b call st)) = filter is_closing (cr_log st) @ closes f call"
    using assms by (simp_all add: close_with_def closes_def effect_kinds split: option.split)
qed

lemma closing_kinds [simp]: "is_closing (Settle t a)" "is_closing (Release t a)" "\<not> is_closing Warn" "\<not> is_report Warn" "\<not> is_call Warn" "\<not> is_emit Warn"
  "\<not> is_closing (Reserve j)" "\<not> is_report (Reserve j)" "\<not> is_call (Reserve j)" "\<not> is_emit (Reserve j)"
  "\<not> is_closing (Model_call k t')" "\<not> is_report (Model_call k t')" "is_call (Model_call k t')" "\<not> is_emit (Model_call k t')"
  by (simp_all add: effect_kinds)

text \<open>How a loop ends: what it did to close the reservation and to report.\<close>

definition ending :: "AiChatInput \<Rightarrow> chat_call \<Rightarrow> chat_run \<Rightarrow> chat_run \<Rightarrow> loop_end \<Rightarrow> bool" where
  "ending input call st st' finish = (case finish of
     Loop_exhausted \<Rightarrow> filter is_closing (cr_log st') = filter is_closing (cr_log st) \<and> filter is_report (cr_log st') = filter is_report (cr_log st)
   | Loop_answer _ _ _ \<Rightarrow>
       filter is_closing (cr_log st') = filter is_closing (cr_log st) @ closes (\<lambda>t. Settle t (estimate input)) call \<and>
       filter is_report (cr_log st') = filter is_report (cr_log st) @ [Report (cr_events st')]
   | Loop_stopped \<Rightarrow>
       filter is_closing (cr_log st') = filter is_closing (cr_log st) @ closes (\<lambda>t. Release t ''stream was cancelled'') call \<and>
       filter is_report (cr_log st') = filter is_report (cr_log st) @ [Report (cr_events st')])"

text \<open>One event, one entry and one call per attempt, numbered from zero.\<close>

definition call_indices :: "chat_effect list \<Rightarrow> nat list" where
  "call_indices es = List.map_filter (\<lambda>e. case e of Model_call k _ \<Rightarrow> Some k | _ \<Rightarrow> None) es"

lemma call_indices_simps [simp]:
  "call_indices [] = []" "call_indices (xs @ ys) = call_indices xs @ call_indices ys" "call_indices (Model_call k t # xs) = k # call_indices xs"
  "call_indices (map (Emit k) vs) = []" "call_indices (Warn # xs) = call_indices xs" "call_indices (Reserve j # xs) = call_indices xs"
  "call_indices (Report es # xs) = call_indices xs" "call_indices (Settle t' a # xs) = call_indices xs" "call_indices (Release t' a # xs) = call_indices xs"
  by (simp_all add: call_indices_def map_filter_def)

definition recorded :: "nat \<Rightarrow> chat_run \<Rightarrow> bool" where
  "recorded n st \<longleftrightarrow> length (cr_events st) = n \<and> map at_attemptIndex (cr_attempts st) = [0..<n] \<and> call_indices (cr_log st) = [0..<n]"

definition made :: "chat_run \<Rightarrow> loop_end \<Rightarrow> nat" where
  "made st finish = (if finish = Loop_exhausted then cr_index st else Suc (cr_index st))"

lemma report_indices [simp]: "call_indices (cr_log (report_events w st)) = call_indices (cr_log st)"
  by (simp add: report_events_def)

lemma close_indices [simp]:
  "call_indices (cr_log (close_with (\<lambda>t. Settle t a) b call st)) = call_indices (cr_log st)"
  "call_indices (cr_log (close_with (\<lambda>t. Release t a) b call st)) = call_indices (cr_log st)"
  by (simp_all add: close_with_def split: option.split)

text \<open>The state after the effects of the attempt itself, and after a failed attempt.\<close>

definition attempted :: "chat_call \<Rightarrow> nat \<Rightarrow> json list \<Rightarrow> chat_run \<Rightarrow> chat_run" where
  "attempted call i vs st = log_effects (Model_call (cr_index st) (cc_targets call ! i) # map (Emit (cr_index st)) vs) st"

definition after_failure ::
  "'e chat_env_scheme \<Rightarrow> chat_world \<Rightarrow> chat_call \<Rightarrow> nat \<Rightarrow> RuntimeCallConnection \<Rightarrow> rat \<Rightarrow> nat \<Rightarrow> json list \<Rightarrow> AiProviderRequestError \<Rightarrow> json \<Rightarrow> chat_run \<Rightarrow> chat_run" where
  "after_failure env w call i c maximum tried vs failure usage st =
     (record_attempt env w call i c (Att_failed (pe_kind failure)) (pe_status failure) usage JNull
        (\<not> pe_retryable failure \<or> Suc i = length (cc_targets call) \<and> of_nat tried = maximum - 1) (attempted call i vs st))
     \<lparr>cr_lastError := Some failure, cr_index := Suc (cr_index st)\<rparr>"

lemma retries_failed:
  assumes "perform (cr_index st) = (vs, Attempt_failed failure usage)"
  shows "retries env w input call perform i c maximum tried (Suc left) st =
    (if pe_retryable failure
     then retries env w input call perform i c maximum (Suc tried) left (after_failure env w call i c maximum tried vs failure usage st)
     else (after_failure env w call i c maximum tried vs failure usage st, Loop_exhausted))"
  using assms by (simp add: Let_def after_failure_def attempted_def)

lemma retries_answered:
  assumes "perform (cr_index st) = (vs, Answered result)"
  shows "retries env w input call perform i c maximum tried (Suc left) st =
    (close_with (\<lambda>t. Settle t (estimate input)) (wo_settleFails w) call (report_events w
       (record_attempt env w call i c Att_success (Some (pv_status result)) (pv_usage result) (pv_sourceCost result) True (attempted call i vs st))),
     Loop_answer (pv_response result) (cc_targets call ! i) c)"
  using assms by (simp add: Let_def attempted_def)

lemma retries_abandoned:
  assumes "perform (cr_index st) = (vs, Abandoned status usage)"
  shows "retries env w input call perform i c maximum tried (Suc left) st =
    (report_events w (close_with (\<lambda>t. Release t ''stream was cancelled'') (wo_releaseFails w) call
       (record_attempt env w call i c (Att_failed Kind_cancelled) (Some status) usage JNull True (attempted call i vs st))), Loop_stopped)"
  using assms by (simp add: Let_def attempted_def)

text \<open>Induction over the attempts at one target.\<close>

lemma retries_induct [consumes 1, case_names spent answered abandoned fatal again]:
  assumes "retries env w input call perform i c maximum tried left st = (st', finish)"
    and "\<And>tried st. P tried 0 st st Loop_exhausted"
    and "\<And>tried left st vs result. perform (cr_index st) = (vs, Answered result) \<Longrightarrow>
      P tried (Suc left) st (close_with (\<lambda>t. Settle t (estimate input)) (wo_settleFails w) call (report_events w
        (record_attempt env w call i c Att_success (Some (pv_status result)) (pv_usage result) (pv_sourceCost result) True (attempted call i vs st))))
        (Loop_answer (pv_response result) (cc_targets call ! i) c)"
    and "\<And>tried left st vs status usage. perform (cr_index st) = (vs, Abandoned status usage) \<Longrightarrow>
      P tried (Suc left) st (report_events w (close_with (\<lambda>t. Release t ''stream was cancelled'') (wo_releaseFails w) call
        (record_attempt env w call i c (Att_failed Kind_cancelled) (Some status) usage JNull True (attempted call i vs st)))) Loop_stopped"
    and "\<And>tried left st vs failure usage. perform (cr_index st) = (vs, Attempt_failed failure usage) \<Longrightarrow> \<not> pe_retryable failure \<Longrightarrow>
      P tried (Suc left) st (after_failure env w call i c maximum tried vs failure usage st) Loop_exhausted"
    and "\<And>tried left st st' finish vs failure usage. perform (cr_index st) = (vs, Attempt_failed failure usage) \<Longrightarrow> pe_retryable failure \<Longrightarrow>
      P (Suc tried) left (after_failure env w call i c maximum tried vs failure usage st) st' finish \<Longrightarrow> P tried (Suc left) st st' finish"
  shows "P tried left st st' finish"
  using assms(1)
proof (induction left arbitrary: tried st)
  case 0
  then show ?case using assms(2) by simp
next
  case (Suc left)
  obtain vs outcome where p: "perform (cr_index st) = (vs, outcome)" by force
  show ?case
  proof (cases outcome)
    case (Answered result)
    note q = p [unfolded Answered]
    show ?thesis using assms(3) [OF q, of tried left] Suc.prems unfolding retries_answered [of perform st vs result, OF q] by auto
  next
    case (Abandoned status usage)
    note q = p [unfolded Abandoned]
    show ?thesis using assms(4) [OF q, of tried left] Suc.prems unfolding retries_abandoned [of perform st vs status usage, OF q] by auto
  next
    case (Attempt_failed failure usage)
    note q = p [unfolded Attempt_failed]
    show ?thesis
    proof (cases "pe_retryable failure")
      case True
      then have "retries env w input call perform i c maximum (Suc tried) left (after_failure env w call i c maximum tried vs failure usage st) = (st', finish)"
        using Suc.prems by (simp only: retries_failed [of perform st vs failure usage, OF q]) simp
      then show ?thesis using assms(6) [OF q True] Suc.IH by blast
    next
      case False
      then have "st' = after_failure env w call i c maximum tried vs failure usage st \<and> finish = Loop_exhausted"
        using Suc.prems by (simp only: retries_failed [of perform st vs failure usage, OF q]) simp
      then show ?thesis using assms(5) [OF q False] by simp
    qed
  qed
qed

lemma attempted_simps [simp]:
  "cr_events (attempted call i vs st) = cr_events st" "cr_attempts (attempted call i vs st) = cr_attempts st"
  "cr_index (attempted call i vs st) = cr_index st" "filter is_closing (cr_log (attempted call i vs st)) = filter is_closing (cr_log st)"
  "filter is_report (cr_log (attempted call i vs st)) = filter is_report (cr_log st)"
  "filter is_emit (cr_log (attempted call i vs st)) = filter is_emit (cr_log st) @ map (Emit (cr_index st)) vs"
  "call_indices (cr_log (attempted call i vs st)) = call_indices (cr_log st) @ [cr_index st]"
  by (simp_all add: attempted_def)

lemma after_failure_simps [simp]:
  "cr_index (after_failure env w call i c m k vs f u st) = Suc (cr_index st)"
  "cr_lastError (after_failure env w call i c m k vs f u st) = Some f"
  "length (cr_events (after_failure env w call i c m k vs f u st)) = Suc (length (cr_events st))"
  "map at_attemptIndex (cr_attempts (after_failure env w call i c m k vs f u st)) = map at_attemptIndex (cr_attempts st) @ [cr_index st]"
  "filter is_closing (cr_log (after_failure env w call i c m k vs f u st)) = filter is_closing (cr_log st)"
  "filter is_report (cr_log (after_failure env w call i c m k vs f u st)) = filter is_report (cr_log st)"
  "filter is_emit (cr_log (after_failure env w call i c m k vs f u st)) = filter is_emit (cr_log st) @ map (Emit (cr_index st)) vs"
  "call_indices (cr_log (after_failure env w call i c m k vs f u st)) = call_indices (cr_log st) @ [cr_index st]"
  by (simp_all add: after_failure_def)

lemma retries_ending: "retries env w input call perform i c m k n st = (st', finish) \<Longrightarrow> ending input call st st' finish"
  by (induction rule: retries_induct) (simp_all add: ending_def split: loop_end.splits)

lemma retries_recorded:
  "retries env w input call perform i c m k n st = (st', finish) \<Longrightarrow> recorded (cr_index st) st \<Longrightarrow> recorded (made st' finish) st'"
  by (induction rule: retries_induct) (auto simp: recorded_def made_def)

lemma retries_made: "retries env w input call perform i c m k n st = (st', finish) \<Longrightarrow> made st' finish \<le> cr_index st + n"
  by (induction rule: retries_induct) (simp_all add: made_def)

subsection \<open>The loop over the targets\<close>

definition gives_up :: "chat_run \<Rightarrow> bool" where
  "gives_up st \<longleftrightarrow> (case cr_lastError st of None \<Rightarrow> False | Some e \<Rightarrow> \<not> pe_retryable e)"

lemma each_target_induct [consumes 1, case_names nil unknown skipped finished fatal further]:
  assumes "each_target env w snapshot input call perform maximum i targets st = (st', finish)"
    and "\<And>i st. P i [] st st Loop_exhausted"
    and "\<And>i target targets st. map_of (sn_connections snapshot) (rt_connection_id target) = None \<Longrightarrow>
      P i (target # targets) st (st\<lparr>cr_lastError := Some unknown_connection\<rparr>) Loop_exhausted"
    and "\<And>i target targets st connection message st' finish. map_of (sn_connections snapshot) (rt_connection_id target) = Some connection \<Longrightarrow>
      P (Suc i) targets (log_effects [Warn] (st\<lparr>cr_lastError := Some (provider_error message None Kind_failure True)\<rparr>)) st' finish \<Longrightarrow>
      P i (target # targets) st st' finish"
    and "\<And>i target targets st connection credential st' finish. map_of (sn_connections snapshot) (rt_connection_id target) = Some connection \<Longrightarrow>
      retries env w input call (perform target connection credential) i connection (maximum connection) 0 (nat \<lceil>maximum connection\<rceil>) st = (st', finish) \<Longrightarrow>
      finish \<noteq> Loop_exhausted \<Longrightarrow> P i (target # targets) st st' finish"
    and "\<And>i target targets st connection credential st'. map_of (sn_connections snapshot) (rt_connection_id target) = Some connection \<Longrightarrow>
      retries env w input call (perform target connection credential) i connection (maximum connection) 0 (nat \<lceil>maximum connection\<rceil>) st = (st', Loop_exhausted) \<Longrightarrow>
      gives_up st' \<Longrightarrow> P i (target # targets) st st' Loop_exhausted"
    and "\<And>i target targets st connection credential st1 st' finish. map_of (sn_connections snapshot) (rt_connection_id target) = Some connection \<Longrightarrow>
      retries env w input call (perform target connection credential) i connection (maximum connection) 0 (nat \<lceil>maximum connection\<rceil>) st = (st1, Loop_exhausted) \<Longrightarrow>
      \<not> gives_up st1 \<Longrightarrow> P (Suc i) targets st1 st' finish \<Longrightarrow> P i (target # targets) st st' finish"
  shows "P i targets st st' finish"
  using assms(1)
proof (induction targets arbitrary: i st)
  case Nil
  then show ?case using assms(2) by simp
next
  case (Cons target targets)
  show ?case
  proof (cases "map_of (sn_connections snapshot) (rt_connection_id target)")
    case None
    then show ?thesis using assms(3) Cons.prems by auto
  next
    case (Some connection)
    show ?thesis
    proof (cases "if wo_needsCredential w connection then wo_credential w connection else Inr []")
      case (Inl message)
      have "each_target env w snapshot input call perform maximum (Suc i) targets
          (log_effects [Warn] (st\<lparr>cr_lastError := Some (provider_error message None Kind_failure True)\<rparr>)) = (st', finish)"
        using Cons.prems Inl by (simp add: Some)
      then show ?thesis using assms(4) [OF Some] Cons.IH by blast
    next
      case (Inr credential)
      obtain st1 finish1 where r: "retries env w input call (perform target connection credential) i connection (maximum connection) 0 (nat \<lceil>maximum connection\<rceil>) st = (st1, finish1)"
        by force
      have prem: "(case (st1, finish1) of
           (st1, Loop_exhausted) \<Rightarrow>
             if (case cr_lastError st1 of None \<Rightarrow> True | Some e \<Rightarrow> pe_retryable e)
             then each_target env w snapshot input call perform maximum (Suc i) targets st1 else (st1, Loop_exhausted)
         | (st1, finished) \<Rightarrow> (st1, finished)) = (st', finish)"
        using Cons.prems by (simp only: each_target.simps Some Inr option.case sum.case r)
      show ?thesis
      proof (cases "finish1 = Loop_exhausted")
        case True
        show ?thesis
        proof (cases "gives_up st1")
          case g: True
          then have "st' = st1 \<and> finish = Loop_exhausted" using prem True by (auto simp: gives_up_def split: option.splits)
          then show ?thesis using assms(6) [OF Some r [unfolded True] g] by simp
        next
          case g: False
          then have "each_target env w snapshot input call perform maximum (Suc i) targets st1 = (st', finish)"
            using prem True by (auto simp: gives_up_def split: option.splits)
          then show ?thesis using assms(7) [OF Some r [unfolded True] g] Cons.IH by blast
        qed
      next
        case False
        then have "st' = st1 \<and> finish = finish1" using prem by (auto split: loop_end.splits)
        then show ?thesis using assms(5) [OF Some r False] by simp
      qed
    qed
  qed
qed

lemma ending_trans:
  "ending input call st st1 Loop_exhausted \<Longrightarrow> ending input call st1 st' finish \<Longrightarrow> ending input call st st' finish"
  by (auto simp: ending_def split: loop_end.splits)

lemma targets_ending:
  "each_target env w snapshot input call perform maximum i targets st = (st', finish) \<Longrightarrow> ending input call st st' finish"
proof (induction rule: each_target_induct)
  case (further i target targets st connection credential st1 st' finish)
  then show ?case using ending_trans retries_ending by blast
qed (auto dest: retries_ending simp: ending_def split: loop_end.splits)

lemma targets_recorded:
  "each_target env w snapshot input call perform maximum i targets st = (st', finish) \<Longrightarrow>
   recorded (cr_index st) st \<Longrightarrow> recorded (made st' finish) st'"
proof (induction rule: each_target_induct)
  case (further i target targets st connection credential st1 st' finish)
  then show ?case using retries_recorded [OF further(2)] by (simp add: made_def)
qed (auto dest: retries_recorded simp: recorded_def made_def)

text \<open>The attempts a snapshot grants to a list of targets.\<close>

definition granted :: "RuntimeSnapshot \<Rightarrow> (RuntimeCallConnection \<Rightarrow> rat) \<Rightarrow> RuntimeRouteTarget list \<Rightarrow> nat" where
  "granted snapshot maximum targets =
     sum_list (map (\<lambda>t. case map_of (sn_connections snapshot) (rt_connection_id t) of None \<Rightarrow> 0 | Some c \<Rightarrow> nat \<lceil>maximum c\<rceil>) targets)"

lemma targets_made:
  "each_target env w snapshot input call perform maximum i targets st = (st', finish) \<Longrightarrow>
   made st' finish \<le> cr_index st + granted snapshot maximum targets"
proof (induction rule: each_target_induct)
  case (further i target targets st connection credential st1 st' finish)
  then show ?case using retries_made [OF further(2)] by (simp add: made_def granted_def)
qed (auto dest!: retries_made simp: made_def granted_def)

subsection \<open>What a consumer sees\<close>

text \<open>An attempt that handed out a value is not made again.\<close>

locale chat_attempts =
  fixes perform :: "RuntimeRouteTarget \<Rightarrow> RuntimeCallConnection \<Rightarrow> string \<Rightarrow> nat \<Rightarrow> json list \<times> attempt_outcome"
  assumes emitted_final: "perform target connection credential k = (vs, Attempt_failed failure usage) \<Longrightarrow> vs \<noteq> [] \<Longrightarrow> \<not> pe_retryable failure"
begin

lemma retries_emits:
  "retries env w input call (perform target connection credential) i c m k n st = (st', finish) \<Longrightarrow>
   filter is_emit (cr_log st) = [] \<Longrightarrow>
   filter is_emit (cr_log st') = [] \<or>
   (\<exists>vs. filter is_emit (cr_log st') = map (Emit (made st' finish - 1)) vs) \<and> (finish = Loop_exhausted \<longrightarrow> gives_up st')"
proof (induction rule: retries_induct)
  case (again tried left st st' finish vs failure usage)
  then have "vs = []" using emitted_final by blast
  then show ?case using again by simp
qed (auto simp: made_def gives_up_def)

lemma targets_emits:
  "each_target env w snapshot input call perform maximum i targets st = (st', finish) \<Longrightarrow>
   filter is_emit (cr_log st) = [] \<Longrightarrow> \<exists>vs. filter is_emit (cr_log st') = map (Emit (made st' finish - 1)) vs"
proof (induction rule: each_target_induct)
  case (further i target targets st connection credential st1 st' finish)
  then show ?case using retries_emits [OF further(2)] by auto
next
  case (finished i target targets st connection credential st' finish)
  then show ?case using retries_emits [OF finished(2)] by auto
next
  case (fatal i target targets st connection credential st')
  then show ?case using retries_emits [OF fatal(2)] by auto
qed auto

end

interpretation plain_chat: chat_attempts "chat_attempt env p input"
  by unfold_locales (simp add: chat_attempt_def)

lemma stream_failure_final: "pe_retryable (stream_failure emitted sg e) \<Longrightarrow> \<not> emitted"
  by (auto simp: stream_failure_def Let_def split: if_splits)

interpretation streamed_chat: chat_attempts "stream_attempt env p input"
proof unfold_locales
  fix target connection credential k vs failure usage
  assume "stream_attempt env p input target connection credential k = (vs, Attempt_failed failure usage)" and "vs \<noteq> []"
  then show "\<not> pe_retryable failure"
    using stream_failure_final by (auto simp: stream_attempt_def split: sum.splits prod.splits stream_end.splits)
qed

subsection \<open>Whole chats\<close>

definition fresh_run :: chat_run where
  "fresh_run = \<lparr>cr_events = [], cr_attempts = [], cr_lastError = None, cr_index = 0, cr_log = []\<rparr>"

definition the_call :: "chat_identity \<Rightarrow> ResolvedAiRuntimeContext \<Rightarrow> RuntimeRouteSelection \<Rightarrow> RuntimeRouteTarget list \<Rightarrow> SdkReservationResult \<Rightarrow> chat_call" where
  "the_call identity cx route targets reservation =
     \<lparr>cc_identity = identity, cc_context = cx, cc_route = route, cc_targets = targets, cc_reservation = reserved_token reservation\<rparr>"

text \<open>How a chat is closed: by its result.\<close>

definition closed_by :: "AiChatInput \<Rightarrow> 'x + AiChatResult option \<Rightarrow> reservation_token \<Rightarrow> chat_effect" where
  "closed_by input result t = (case result of
     Inr (Some _) \<Rightarrow> Settle t (estimate input)
   | Inr None \<Rightarrow> Release t ''stream was cancelled''
   | Inl _ \<Rightarrow> Release t ''all model attempts failed'')"

text \<open>What the frame makes of the end of its loop.\<close>

definition frame_end :: "chat_world \<Rightarrow> chat_call \<Rightarrow> chat_run \<Rightarrow> loop_end \<Rightarrow> chat_run \<Rightarrow> 'x + AiChatResult option \<Rightarrow> bool" where
  "frame_end w call st1 finish st result = (case finish of
     Loop_exhausted \<Rightarrow> (\<exists>e. result = Inl e) \<and>
       st = report_events w (close_with (\<lambda>t. Release t ''all model attempts failed'') (wo_releaseFails w) call st1)
   | Loop_stopped \<Rightarrow> result = Inr None \<and> st = st1
   | Loop_answer _ _ _ \<Rightarrow> (\<exists>a. result = Inr (Some a)) \<and> st = st1)"

lemma chat_frame_run:
  assumes "chat_frame env identity w reserve perform maximum streaming snapshot cx input d = (st, d', result)"
    and "chat_route env w snapshot cx input streaming = Inr (route, targets)"
    and "reserve (reservation_input cx input targets) d = (d1, Inr reservation)"
  obtains st1 finish where
    "each_target env w snapshot input (the_call identity cx route targets reservation) perform maximum 0 targets
       (log_effects [Reserve (reservation_input cx input targets)] fresh_run) = (st1, finish)"
    and "frame_end w (the_call identity cx route targets reservation) st1 finish st result"
proof -
  obtain st1 finish where e: "each_target env w snapshot input (the_call identity cx route targets reservation) perform maximum 0 targets
       (log_effects [Reserve (reservation_input cx input targets)] fresh_run) = (st1, finish)" by force
  then have "frame_end w (the_call identity cx route targets reservation) st1 finish st result"
    using assms by (cases finish) (auto simp: chat_frame_def Let_def the_call_def fresh_run_def frame_end_def)
  then show thesis by (rule that [OF e])
qed

lemma frame_end_simps:
  assumes "frame_end w call st1 finish st result"
  shows "cr_events st = cr_events st1" "cr_attempts st = cr_attempts st1" "call_indices (cr_log st) = call_indices (cr_log st1)"
    "filter is_emit (cr_log st) = filter is_emit (cr_log st1)"
  using assms by (cases finish; simp add: frame_end_def)+

lemma chat_frame_facts:
  assumes run: "chat_frame env identity w reserve perform maximum streaming snapshot cx input d = (st, d', result)"
    and route: "chat_route env w snapshot cx input streaming = Inr (route, targets)"
    and res: "reserve (reservation_input cx input targets) d = (d1, Inr reservation)"
  shows "filter is_closing (cr_log st) = (case reserved_token reservation of None \<Rightarrow> [] | Some t \<Rightarrow> [closed_by input result t])"
    and "filter is_report (cr_log st) = [Report (cr_events st)]"
    and "recorded (length (cr_events st)) st"
    and "length (cr_events st) \<le> granted snapshot maximum targets"
proof -
  let ?call = "the_call identity cx route targets reservation"
  let ?st0 = "log_effects [Reserve (reservation_input cx input targets)] fresh_run"
  obtain st1 finish where e: "each_target env w snapshot input ?call perform maximum 0 targets ?st0 = (st1, finish)"
    and out: "frame_end w ?call st1 finish st result"
    by (rule chat_frame_run [OF run route res])
  have start: "recorded (cr_index ?st0) ?st0" by (simp add: recorded_def fresh_run_def)
  have rec: "recorded (made st1 finish) st1" by (rule targets_recorded [OF e start])
  have bound: "made st1 finish \<le> granted snapshot maximum targets" using targets_made [OF e] by (simp add: fresh_run_def)
  have end1: "ending input ?call ?st0 st1 finish" by (rule targets_ending [OF e])
  have token: "closes f ?call = (case reserved_token reservation of None \<Rightarrow> [] | Some t \<Rightarrow> [f t])" for f
    by (simp add: closes_def the_call_def)
  have len: "length (cr_events st) = made st1 finish"
    using frame_end_simps [OF out] rec by (simp add: recorded_def)
  show "filter is_closing (cr_log st) = (case reserved_token reservation of None \<Rightarrow> [] | Some t \<Rightarrow> [closed_by input result t])"
    using out end1 by (cases finish) (auto simp: frame_end_def ending_def token closed_by_def fresh_run_def split: option.splits)
  show "filter is_report (cr_log st) = [Report (cr_events st)]"
    using out end1 by (cases finish) (auto simp: frame_end_def ending_def fresh_run_def)
  show "recorded (length (cr_events st)) st"
    unfolding len using frame_end_simps [OF out] rec by (simp add: recorded_def)
  show "length (cr_events st) \<le> granted snapshot maximum targets" unfolding len by (rule bound)
qed

text \<open>The values a consumer gets come from the last attempt.\<close>

lemma stream_emits:
  assumes run: "executeChatStream env identity w reserve p snapshot cx input d = (st, d', result)"
    and route: "chat_route env w snapshot cx input True = Inr (route, targets)"
    and res: "reserve (reservation_input cx input targets) d = (d1, Inr reservation)"
  shows "\<exists>vs. filter is_emit (cr_log st) = map (Emit (length (cr_events st) - 1)) vs"
proof -
  let ?call = "the_call identity cx route targets reservation"
  let ?st0 = "log_effects [Reserve (reservation_input cx input targets)] fresh_run"
  note run' = run [unfolded executeChatStream_def]
  obtain st1 finish where e: "each_target env w snapshot input ?call (stream_attempt env p input) (\<lambda>c. cn_max_retries c + 1) 0 targets ?st0 = (st1, finish)"
    and out: "frame_end w ?call st1 finish st result"
    by (rule chat_frame_run [OF run' route res])
  have "recorded (cr_index ?st0) ?st0" by (simp add: recorded_def fresh_run_def)
  then have "length (cr_events st) = made st1 finish"
    using frame_end_simps [OF out] targets_recorded [OF e] by (simp add: recorded_def)
  moreover have "\<exists>vs. filter is_emit (cr_log st1) = map (Emit (made st1 finish - 1)) vs"
    by (rule streamed_chat.targets_emits [OF e]) (simp add: fresh_run_def)
  ultimately show ?thesis using frame_end_simps [OF out] by simp
qed

text \<open>Every event bears the operation of its context.\<close>

definition bears :: "string \<Rightarrow> json \<Rightarrow> bool" where
  "bears op e \<longleftrightarrow> (\<exists>r. member e ''request'' = Some r \<and> member r ''operation_id'' = Some (JStr op))"

lemma eventFor_bears: "bears (cx_operationId cx) (eventFor env identity cx route prior rid eid now attempt usage cost final)"
  by (simp add: bears_def eventFor_def Let_def member_def opt_text_def opt_properties_def split: option.split)

lemma record_bears:
  "list_all (bears (cx_operationId (cc_context call))) (cr_events (record_attempt env w call i c s h u co f st)) =
   list_all (bears (cx_operationId (cc_context call))) (cr_events st)"
  by (simp add: record_attempt_def Let_def eventFor_bears)

lemma retries_bears:
  "retries env w input call perform i c m k n st = (st', finish) \<Longrightarrow>
   list_all (bears (cx_operationId (cc_context call))) (cr_events st) \<Longrightarrow> list_all (bears (cx_operationId (cc_context call))) (cr_events st')"
  by (induction rule: retries_induct) (simp_all add: record_bears after_failure_def)

lemma targets_bears:
  "each_target env w snapshot input call perform maximum i targets st = (st', finish) \<Longrightarrow>
   list_all (bears (cx_operationId (cc_context call))) (cr_events st) \<Longrightarrow> list_all (bears (cx_operationId (cc_context call))) (cr_events st')"
  by (induction rule: each_target_induct) (auto dest: retries_bears)

lemma chat_frame_bears:
  assumes "chat_frame env identity w reserve perform maximum streaming snapshot cx input d = (st, d', result)"
  shows "list_all (bears (cx_operationId cx)) (cr_events st)"
proof (cases "chat_route env w snapshot cx input streaming")
  case (Inl e)
  then show ?thesis using assms by (auto simp: chat_frame_def Let_def)
next
  case (Inr rt)
  obtain route targets where rt: "chat_route env w snapshot cx input streaming = Inr (route, targets)" using Inr by (cases rt) simp
  obtain d1 answer where res: "reserve (reservation_input cx input targets) d = (d1, answer)" by force
  show ?thesis
  proof (cases answer)
    case e: (Inl e)
    then show ?thesis using assms res rt by (auto simp: chat_frame_def Let_def)
  next
    case (Inr reservation)
    let ?call = "the_call identity cx route targets reservation"
    let ?st0 = "log_effects [Reserve (reservation_input cx input targets)] fresh_run"
    obtain st1 finish where e: "each_target env w snapshot input ?call perform maximum 0 targets ?st0 = (st1, finish)"
    and out: "frame_end w ?call st1 finish st result"
      by (rule chat_frame_run [OF assms rt res [unfolded Inr]])
    have cx: "cc_context ?call = cx" by (simp add: the_call_def)
    have "list_all (bears (cx_operationId cx)) (cr_events st1)"
      using targets_bears [OF e] unfolding cx by (simp add: fresh_run_def)
    then show ?thesis using frame_end_simps [OF out] by simp
  qed
qed

subsection \<open>Falling back\<close>

text \<open>A target all of whose attempts fail in a way that allows another attempt.\<close>

definition fails_softly :: "(RuntimeCallConnection \<Rightarrow> string \<Rightarrow> nat \<Rightarrow> json list \<times> attempt_outcome) \<Rightarrow> RuntimeCallConnection \<Rightarrow> bool" where
  "fails_softly perform c \<longleftrightarrow> (\<forall>credential k. \<exists>vs failure usage. perform c credential k = (vs, Attempt_failed failure usage) \<and> pe_retryable failure)"

lemma retries_soft:
  "retries env w input call (perform c credential) i c' m k n st = (st', finish) \<Longrightarrow> fails_softly perform c \<Longrightarrow> \<not> gives_up st \<Longrightarrow>
   finish = Loop_exhausted \<and> \<not> gives_up st'"
proof (induction rule: retries_induct)
  case (again tried left st st' finish vs failure usage)
  then show ?case by (simp add: gives_up_def)
qed (auto simp: fails_softly_def; metis Pair_inject attempt_outcome.distinct attempt_outcome.inject(2))+

lemma targets_fall_back:
  assumes "list_all (\<lambda>u. \<exists>c. map_of (sn_connections snapshot) (rt_connection_id u) = Some c \<and> fails_softly (perform u) c) earlier"
    and "map_of (sn_connections snapshot) (rt_connection_id t) = Some c"
    and "(if wo_needsCredential w c then wo_credential w c else Inr []) = Inr credential"
    and "0 < maximum c" and "\<And>k. \<exists>vs result. perform t c credential k = (vs, Answered result)"
    and "\<not> gives_up st" and "cc_targets call ! (i + length earlier) = t"
  shows "\<exists>st' v. each_target env w snapshot input call perform maximum i (earlier @ t # later) st = (st', Loop_answer v t c)"
  using assms(1,6,7)
proof (induction earlier arbitrary: i st)
  case Nil
  obtain n where n: "nat \<lceil>maximum c\<rceil> = Suc n" using assms(4) by (metis gr0_conv_Suc zero_less_ceiling zero_less_nat_eq)
  obtain vs result where p: "perform t c credential (cr_index st) = (vs, Answered result)" using assms(5) by blast
  show ?case using Nil.prems(3) assms(2,3) by (simp add: n retries_answered [of "perform t c credential" st vs result, OF p] del: retries.simps)
next
  case (Cons u earlier)
  obtain cu where cu: "map_of (sn_connections snapshot) (rt_connection_id u) = Some cu" "fails_softly (perform u) cu" using Cons.prems(1) by auto
  have next_i: "cc_targets call ! (Suc i + length earlier) = t" using Cons.prems(3) by simp
  show ?case
  proof (cases "if wo_needsCredential w cu then wo_credential w cu else Inr []")
    case (Inl message)
    have "\<not> gives_up (log_effects [Warn] (st\<lparr>cr_lastError := Some (provider_error message None Kind_failure True)\<rparr>))"
      by (simp add: gives_up_def provider_error_def)
    from Cons.IH [OF _ this next_i] Cons.prems(1) Inl cu(1) show ?thesis by simp
  next
    case (Inr cred)
    obtain st1 finish1 where r: "retries env w input call (perform u cu cred) i cu (maximum cu) 0 (nat \<lceil>maximum cu\<rceil>) st = (st1, finish1)" by force
    have soft: "finish1 = Loop_exhausted" "\<not> gives_up st1" using retries_soft [OF r cu(2) Cons.prems(2)] by blast+
    then have "each_target env w snapshot input call perform maximum i ((u # earlier) @ t # later) st =
        each_target env w snapshot input call perform maximum (Suc i) (earlier @ t # later) st1"
      using r cu(1) Inr by (simp add: gives_up_def split: option.splits)
    then show ?thesis using Cons.IH [OF _ soft(2) next_i] Cons.prems(1) by simp
  qed
qed

subsection \<open>Denials\<close>

lemma denied_is_no_answer:
  assumes "\<not> rs_allowed r"
  shows "\<exists>e. reservation_answer (Reply 200 (Some (result_json env r))) = Inl e"
  using assms by (simp add: reservation_answer_def ok_def result_json_def bool_member_def member_def)

lemma denied_reservation:
  assumes "sn_aiu_mode snapshot = AiuHardLimit" and "runtimeUserReservationRequestSchema env j"
    and "create_request e (Some app) vms (request_of_json env j) db = (db', Inr r)" and "\<not> rs_allowed r"
  shows "reserveUserAiu env Fail_open snapshot (api_reservations env e app vms) j db = (db', Inr Failed_open)"
  using assms denied_is_no_answer [of r env]
  by (auto simp: reserveUserAiu_def api_reservations_def failOpenOrThrow_def)

text \<open>A chat whose first target answers at once.\<close>

lemma chat_frame_first_answer:
  assumes "chat_route env w snapshot cx input streaming = Inr (route, t # ts)"
    and "reserve (reservation_input cx input (t # ts)) d = (d1, Inr reservation)"
    and "map_of (sn_connections snapshot) (rt_connection_id t) = Some c"
    and "(if wo_needsCredential w c then wo_credential w c else Inr []) = Inr credential"
    and "0 < maximum c" and "perform t c credential 0 = (vs, Answered answer)"
  shows "\<exists>st a. chat_frame env identity w reserve perform maximum streaming snapshot cx input d = (st, d1, Inr (Some a)) \<and>
    cs_response a = pv_response answer \<and> cs_target a = t \<and> Model_call 0 t \<in> set (cr_log st) \<and> length (cr_events st) = 1"
proof -
  let ?call = "the_call identity cx route (t # ts) reservation"
  let ?st0 = "log_effects [Reserve (reservation_input cx input (t # ts))] fresh_run"
  obtain n where n: "nat \<lceil>maximum c\<rceil> = Suc n" using assms(5) by (metis gr0_conv_Suc zero_less_ceiling zero_less_nat_eq)
  have p: "perform t c credential (cr_index ?st0) = (vs, Answered answer)" using assms(6) by (simp add: fresh_run_def)
  have r: "retries env w input ?call (perform t c credential) 0 c (maximum c) 0 (nat \<lceil>maximum c\<rceil>) ?st0 =
    (close_with (\<lambda>t. Settle t (estimate input)) (wo_settleFails w) ?call (report_events w
       (record_attempt env w ?call 0 c Att_success (Some (pv_status answer)) (pv_usage answer) (pv_sourceCost answer) True (attempted ?call 0 vs ?st0))),
     Loop_answer (pv_response answer) (cc_targets ?call ! 0) c)"
    unfolding n by (rule retries_answered [where perform = "perform t c credential", OF p])
  have logged: "Model_call 0 t \<in> set (cr_log (close_with f b ?call (report_events w (record_attempt env w ?call 0 c s h u co fi (attempted ?call 0 vs ?st0)))))" for f b s h u co fi
    by (simp add: close_with_def report_events_def attempted_def the_call_def fresh_run_def split: option.split)
  show ?thesis
    using assms(1-4) r logged by (simp add: chat_frame_def Let_def the_call_def fresh_run_def)
qed

subsection \<open>Events of a foreign operation\<close>

lemma bears_schema:
  assumes "bears op e" and "usageEventSchema env e"
  shows "opaque_id op"
proof -
  obtain r where r: "member e ''request'' = Some r" "member r ''operation_id'' = Some (JStr op)" using assms(1) by (auto simp: bears_def)
  have "usageRequestSchema r"
    by (rule z_object_memberD [OF assms(2) [unfolded usageEventSchema_def] r(1), of True]) (simp add: eventEnvelopeShape_def req_def opt_def)
  then have "z_nullable opaqueIdSchema (JStr op)"
    unfolding usageRequestSchema_def by (rule z_object_memberD [OF _ r(2), of _ True]) (simp add: req_def opt_def)
  then show ?thesis by (simp add: z_nullable_def opaqueIdSchema_def)
qed

end
