(* ===== verification/ChatProperties.thy ===== *)
theory ChatProperties
  imports ChatFacts SnapshotProperties QuotaProperties PipelineDemo
begin

text \<open>
  Properties of chats through the Node SDK: reservations and reports, streams, falling back, and two ways in which a limit or
  the accounting of usage is lost.  The examples are chats of the application of \<open>RoutingDemo\<close>.
\<close>

subsection \<open>A sample chat\<close>

definition talk_env :: chat_env where
  "talk_env = ingest_env.extend wire_env (chat_env.fields (\<lambda>_. NotANumber) (\<lambda>_. ''1'') (\<lambda>_. Some (JObj [])))"

definition talk_target :: "string \<Rightarrow> nat \<Rightarrow> RuntimeRouteTarget" where
  "talk_target i n = (demo_route_target ''cp:virtual:chat:default'' i n 1)\<lparr>rt_capabilities := [''streaming'']\<rparr>"

definition talk_connection :: RuntimeCallConnection where
  "talk_connection = \<lparr>cn_id = ''c1'', cn_name = ''gateway'', cn_driver = ''litellm'', cn_base_url = Some ''https://gw'',
     cn_credential_ref = None, cn_timeout_ms = 60000, cn_max_retries = 1, cn_api_version = None\<rparr>"

definition talk_snapshot :: "aiu_mode \<Rightarrow> RuntimeSnapshot" where
  "talk_snapshot mode = demo_snapshot\<lparr>sn_aiu_mode := mode, sn_connections := [(''c1'', talk_connection)],
     sn_routing := [(''chat'', demo_plan\<lparr>pl_rules := [], pl_default := \<lparr>ro_route_tag = ''cp:virtual:chat:default'', ro_selection_mode = Ordered,
       ro_targets = [talk_target ''b'' 0, talk_target ''a'' 1]\<rparr>\<rparr>)]\<rparr>"

definition talk_input :: AiChatInput where
  "talk_input = \<lparr>ch_model = ''chat'', ch_messages = [\<lparr>ms_role = ''user'', ms_content = JStr ''hello'', ms_name = None, ms_tool_call_id = None\<rparr>],
     ch_maxTokens = None, ch_temperature = None, ch_tools = None, ch_responseFormat = None, ch_estimatedAiuMicros = Some ''100''\<rparr>"

definition talk_context :: "string \<Rightarrow> ResolvedAiRuntimeContext" where
  "talk_context op = \<lparr>cx_userId = ''ext'', cx_displayUser = None, cx_applicationVersion = None, cx_operationId = op, cx_requestId = ''req_1'',
     cx_parentRequestId = None, cx_sessionId = None, cx_conversationId = None, cx_traceId = ''trace_1'', cx_callSource = None,
     cx_eventProperties = [], cx_userProperties = [], cx_analyticsDimensions = []\<rparr>"

definition talk_world :: chat_world where
  "talk_world = \<lparr>wo_routeNow = 7, wo_attemptId = (\<lambda>_. ''01JZ5M0N8Q4R7T2V9W3X6Y1Z0A''), wo_eventId = (\<lambda>_. ''01JZ5M0N8Q4R7T2V9W3X6Y1Z0A''),
     wo_eventNow = (\<lambda>_. 0), wo_elapsed = (\<lambda>_. 5), wo_needsCredential = (\<lambda>_. False), wo_credential = (\<lambda>_. Inl []),
     wo_reportFails = (\<lambda>_. False), wo_settleFails = False, wo_releaseFails = False\<rparr>"

text \<open>A service that is overloaded for one model and answers for the other.\<close>

definition talk_provider :: chat_provider where
  "talk_provider = \<lparr>cp_fetch = (\<lambda>_ r. if member (hr_body r) ''model'' = Some (JStr ''r-b'') then Fetch_response 503 None else Fetch_response 200 (Some (JObj []))),
     cp_adapted = (\<lambda>_ _. None), cp_streamFetch = (\<lambda>_ _. Stream_response 200 (Some \<lparr>sb_chunks = [''data: {}'', [CHR 0x0A, CHR 0x0A]], sb_failure = None\<rparr>)),
     cp_streamAdapted = (\<lambda>_ _. None), cp_signal = (\<lambda>_. \<lparr>sg_callerAborted = False, sg_timedOut = False\<rparr>), cp_stopsAfter = (\<lambda>_. None)\<rparr>"

definition talk_identity :: chat_identity where
  "talk_identity = \<lparr>ci_sdkVersion = ''0.2.0'', ci_instanceId = ''node-sdk''\<rparr>"

definition talk_token :: reservation_token where
  "talk_token = \<lparr>rv_id = ''r1'', rv_token = ''t1''\<rparr>"

definition talk_reserve :: "json \<Rightarrow> unit \<Rightarrow> unit \<times> (reserve_error + SdkReservationResult)" where
  "talk_reserve _ d = (d, Inr (Reserved talk_token))"

definition talk_route :: RuntimeRouteSelection where
  "talk_route = \<lparr>se_virtualModel = ''chat'', se_virtualModelId = ''v1'', se_configurationVersion = 1,
     se_configurationEtag = ''sha256:'' @ replicate 64 (CHR ''0''), se_routeTag = ''cp:virtual:chat:default'', se_ruleId = None,
     se_primary = talk_target ''b'' 0, se_fallbacks = [talk_target ''a'' 1]\<rparr>"

lemma talk_env_simps [simp]:
  "local_parts talk_env z t = local_parts wire_env z t" "is_uuid talk_env = is_uuid wire_env"
  by (simp_all add: talk_env_def ingest_env.defs chat_env.defs wire_env_def RoutingDemo.demo_env_def)

lemma talk_localized: "\<exists>l. localized talk_env 7 ''UTC'' = Inr l"
  by (simp add: localized_def wire_env_def RoutingDemo.demo_env_def weekdayNumber_def)

lemma talk_routes:
  "chat_route talk_env talk_world (talk_snapshot mode) cx talk_input streaming = Inr (talk_route, [talk_target ''b'' 0, talk_target ''a'' 1])"
proof -
  obtain l where l: "localized talk_env 7 ''UTC'' = Inr l" using talk_localized by blast
  show ?thesis
    by (simp add: chat_route_def talk_input_def talk_world_def resolveRuntimeRoute_def talk_snapshot_def demo_plan_def selection_def l
    orderedTargets_def route_context_def chatTargets_def target_supports_def talk_target_def demo_route_target_def
    requiredInputCapabilities_def demo_snapshot_def talk_route_def)
qed

text \<open>C12: A chat closes its reservation once and reports once.  Whatever providers, adapters and the control plane do: a chat
  that reserved AIU settles the reservation if a model answered and releases it otherwise, exactly once; it reports exactly
  one list of events, one per call of a model, numbered from zero; and it calls models at most as often as the connections
  of its targets allow.\<close>

theorem chat_closes_reservation:
  assumes "executeChat env identity w reserve p snapshot cx input d = (st, d', result)"
    and "chat_route env w snapshot cx input False = Inr (route, targets)"
    and "reserve (reservation_input cx input targets) d = (d1, Inr reservation)"
  shows "filter is_closing (cr_log st) = (case reserved_token reservation of None \<Rightarrow> [] | Some t \<Rightarrow> [closed_by input result t]) \<and>
    filter is_report (cr_log st) = [Report (cr_events st)] \<and>
    call_indices (cr_log st) = [0..<length (cr_events st)] \<and> map at_attemptIndex (cr_attempts st) = [0..<length (cr_events st)] \<and>
    length (cr_events st) \<le> granted snapshot (\<lambda>c. max 1 (cn_max_retries c + 1)) targets"
  using chat_frame_facts [OF assms(1) [unfolded executeChat_def] assms(2,3)] by (simp add: recorded_def)

theorem chat_closes_reservation_witness:
  "\<exists>st result. executeChat talk_env talk_identity talk_world talk_reserve talk_provider (talk_snapshot AiuHardLimit) (talk_context ''op'') talk_input () = (st, (), result) \<and>
     filter is_closing (cr_log st) = [closed_by talk_input result talk_token] \<and> filter is_report (cr_log st) = [Report (cr_events st)] \<and>
     length (cr_events st) \<le> 4"
proof -
  obtain st d' result where run: "executeChat talk_env talk_identity talk_world talk_reserve talk_provider (talk_snapshot AiuHardLimit) (talk_context ''op'') talk_input () = (st, d', result)"
    by (cases "executeChat talk_env talk_identity talk_world talk_reserve talk_provider (talk_snapshot AiuHardLimit) (talk_context ''op'') talk_input ()") auto
  have "granted (talk_snapshot AiuHardLimit) (\<lambda>c. max 1 (cn_max_retries c + 1)) [talk_target ''b'' 0, talk_target ''a'' 1] = 4"
    by (simp add: granted_def talk_snapshot_def talk_target_def demo_route_target_def talk_connection_def)
  then show ?thesis
    using run chat_closes_reservation [OF run talk_routes, of "()" "Reserved talk_token"] by (simp add: talk_reserve_def reserved_token_def)
qed

text \<open>C27: A consumer of a stream gets the values of one attempt.  However often a streamed chat tries again, the values it
  hands out all come from its last attempt; it closes its reservation once - by settlement if the stream ended, by release if
  the consumer stopped or nothing answered - and reports one event per attempt.\<close>

theorem stream_serves_one_attempt:
  assumes "executeChatStream env identity w reserve p snapshot cx input d = (st, d', result)"
    and "chat_route env w snapshot cx input True = Inr (route, targets)"
    and "reserve (reservation_input cx input targets) d = (d1, Inr reservation)"
  shows "(\<exists>vs. filter is_emit (cr_log st) = map (Emit (length (cr_events st) - 1)) vs) \<and>
    filter is_closing (cr_log st) = (case reserved_token reservation of None \<Rightarrow> [] | Some t \<Rightarrow> [closed_by input result t]) \<and>
    filter is_report (cr_log st) = [Report (cr_events st)] \<and> call_indices (cr_log st) = [0..<length (cr_events st)]"
  using stream_emits [OF assms] chat_frame_facts [OF assms(1) [unfolded executeChatStream_def] assms(2,3)] by (simp add: recorded_def)

theorem stream_serves_one_attempt_witness:
  "\<exists>st result vs. executeChatStream talk_env talk_identity talk_world talk_reserve talk_provider (talk_snapshot AiuHardLimit) (talk_context ''op'') talk_input () = (st, (), result) \<and>
     filter is_emit (cr_log st) = map (Emit (length (cr_events st) - 1)) vs \<and> filter is_closing (cr_log st) = [closed_by talk_input result talk_token]"
proof -
  obtain st d' result where run: "executeChatStream talk_env talk_identity talk_world talk_reserve talk_provider (talk_snapshot AiuHardLimit) (talk_context ''op'') talk_input () = (st, d', result)"
    by (cases "executeChatStream talk_env talk_identity talk_world talk_reserve talk_provider (talk_snapshot AiuHardLimit) (talk_context ''op'') talk_input ()") auto
  show ?thesis
    using run stream_serves_one_attempt [OF run talk_routes, of "()" "Reserved talk_token"] by (simp add: talk_reserve_def reserved_token_def)
qed

text \<open>C28: How a streamed answer is cut into chunks does not matter.  The parts read from a response, and where reading them
  fails, depend on its whole text only.\<close>

theorem stream_chunks_irrelevant:
  "responseStream env driver status (Some \<lparr>sb_chunks = chunks, sb_failure = failure\<rparr>) =
   responseStream env driver status (Some \<lparr>sb_chunks = [concat chunks], sb_failure = failure\<rparr>)"
  using read_loop_chunks [of "[]" "parseBlock env driver status" chunks failure] by (simp add: responseStream_def)

text \<open>C13: A chat falls back.  When the services of the first targets are unreachable or overloaded and a later target of the
  route answers, the chat returns the answer of that target.\<close>

theorem chat_falls_back:
  assumes "chat_route env w snapshot cx input False = Inr (route, earlier @ t # later)"
    and "reserve (reservation_input cx input (earlier @ t # later)) d = (d1, Inr reservation)"
    and "list_all (\<lambda>u. \<exists>c. map_of (sn_connections snapshot) (rt_connection_id u) = Some c \<and> fails_softly (chat_attempt env p input u) c) earlier"
    and "map_of (sn_connections snapshot) (rt_connection_id t) = Some c"
    and "(if wo_needsCredential w c then wo_credential w c else Inr []) = Inr credential"
    and "\<And>k. \<exists>vs answer. chat_attempt env p input t c credential k = (vs, Answered answer)"
  shows "\<exists>st a. executeChat env identity w reserve p snapshot cx input d = (st, d1, Inr (Some a)) \<and> cs_target a = t \<and> cs_connection a = c"
proof -
  let ?call = "the_call identity cx route (earlier @ t # later) reservation"
  let ?st0 = "log_effects [Reserve (reservation_input cx input (earlier @ t # later))] fresh_run"
  have "\<exists>st v. each_target env w snapshot input ?call (chat_attempt env p input) (\<lambda>c. max 1 (cn_max_retries c + 1)) 0 (earlier @ t # later) ?st0 =
      (st, Loop_answer v t c)"
    by (rule targets_fall_back [OF assms(3-5) _ assms(6)]) (simp_all add: gives_up_def fresh_run_def the_call_def nth_append)
  then show ?thesis
    using assms(1,2) by (auto simp: executeChat_def chat_frame_def Let_def the_call_def fresh_run_def)
qed

lemma talk_attempts:
  "fails_softly (chat_attempt talk_env talk_provider talk_input (talk_target ''b'' n)) talk_connection"
  "\<exists>vs answer. chat_attempt talk_env talk_provider talk_input (talk_target ''a'' n) talk_connection credential k = (vs, Answered answer)"
  by (simp_all add: fails_softly_def chat_attempt_def requestProvider_def talk_provider_def provider_request_def talk_connection_def talk_input_def
    talk_target_def demo_route_target_def member_def read_response_def ok_def http_failure_def provider_error_def status_retryable_def)

theorem chat_falls_back_witness:
  "\<exists>st a. executeChat talk_env talk_identity talk_world talk_reserve talk_provider (talk_snapshot AiuHardLimit) (talk_context ''op'') talk_input () = (st, (), Inr (Some a)) \<and>
     cs_target a = talk_target ''a'' 1"
proof -
  have c: "map_of (sn_connections (talk_snapshot AiuHardLimit)) (rt_connection_id (talk_target i n)) = Some talk_connection" for i n
    by (simp add: talk_snapshot_def talk_target_def demo_route_target_def)
  have soft: "list_all (\<lambda>u. \<exists>c. map_of (sn_connections (talk_snapshot AiuHardLimit)) (rt_connection_id u) = Some c \<and> fails_softly (chat_attempt talk_env talk_provider talk_input u) c) [talk_target ''b'' 0]"
    using c talk_attempts by simp
  have route: "chat_route talk_env talk_world (talk_snapshot AiuHardLimit) (talk_context ''op'') talk_input False = Inr (talk_route, [talk_target ''b'' 0] @ talk_target ''a'' 1 # [])"
    by (simp add: talk_routes)
  have res: "talk_reserve j () = ((), Inr (Reserved talk_token))" for j by (simp add: talk_reserve_def)
  have cred: "(if wo_needsCredential talk_world talk_connection then wo_credential talk_world talk_connection else Inr []) = Inr []"
    by (simp add: talk_world_def)
  show ?thesis using chat_falls_back [where reserve = talk_reserve and d = "()" and t = "talk_target ''a'' 1", OF route res soft c cred talk_attempts(2), of talk_identity] by blast
qed

text \<open>C31: A refused reservation does not keep a chat from the model.  The client throws its own error for a denial inside the
  block whose failures it treats by its fail mode.  In the default mode a user whom the API denies access under a hard limit -
  blocked, or with nothing left - is served like a user of an unreachable control plane: the model is called, its answer
  returned, and nothing is reserved or settled.\<close>

theorem denied_call_is_made:
  assumes "chat_route env w snapshot cx input False = Inr (route, t # ts)" and "sn_aiu_mode snapshot = AiuHardLimit"
    and "runtimeUserReservationRequestSchema env (reservation_input cx input (t # ts))"
    and "create_request e (Some app) vms (request_of_json env (reservation_input cx input (t # ts))) db = (db', Inr r)" and "\<not> rs_allowed r"
    and "map_of (sn_connections snapshot) (rt_connection_id t) = Some c"
    and "(if wo_needsCredential w c then wo_credential w c else Inr []) = Inr credential"
    and "chat_attempt env p input t c credential 0 = ([], Answered answer)"
  shows "\<exists>st a. executeChat env identity w (reserveUserAiu env Fail_open snapshot (api_reservations env e app vms)) p snapshot cx input db = (st, db', Inr (Some a)) \<and>
    cs_response a = pv_response answer \<and> Model_call 0 t \<in> set (cr_log st) \<and> filter is_closing (cr_log st) = []"
proof -
  let ?reserve = "reserveUserAiu env Fail_open snapshot (api_reservations env e app vms)"
  have res: "?reserve (reservation_input cx input (t # ts)) db = (db', Inr Failed_open)" by (rule denied_reservation [OF assms(2-5)])
  obtain st a where run: "executeChat env identity w ?reserve p snapshot cx input db = (st, db', Inr (Some a))"
    and a: "cs_response a = pv_response answer" "Model_call 0 t \<in> set (cr_log st)"
    using chat_frame_first_answer [where maximum = "\<lambda>c. max 1 (cn_max_retries c + 1)" and perform = "chat_attempt env p input" and reserve = ?reserve,
      OF assms(1) res assms(6,7) _ assms(8)]
    unfolding executeChat_def by fastforce
  have "filter is_closing (cr_log st) = []"
    using chat_frame_facts(1) [OF run [unfolded executeChat_def] assms(1) res] by (simp add: reserved_token_def)
  then show ?thesis using run a by blast
qed

definition blocked_db :: QuotaDb where
  "blocked_db = QuotaProperties.demo_db1\<lparr>d_users := [demo_user\<lparr>u_status := BLOCKED\<rparr>]\<rparr>"

definition chat_vm :: VirtualModelRow where
  "chat_vm = \<lparr>vm_applicationId = ''app'', vm_name = ''chat'', vm_enabled = True, vm_targets = [(''a'', True, True), (''b'', True, True)]\<rparr>"

lemma talk_texts: "bounded_unicode 1 256 ''ext''" "bounded_unicode (Suc 0) 256 ''ext''" "opaque_id ''op''" "js_Number ''100'' = Some 100" "digits ''100''"
  by code_simp+

lemma talk_request:
  "runtimeUserReservationRequestSchema talk_env (reservation_input (talk_context ''op'') talk_input [talk_target ''b'' 0, talk_target ''a'' 1])"
  by (simp add: runtimeUserReservationRequestSchema_def z_object_def req_def opt_def reservation_input_def talk_context_def talk_input_def opt_text_def
    opt_properties_def bounded_string_def z_string_def talk_texts opaqueIdSchema_def demo_schema z_array_def demo_clock talk_target_def
    demo_route_target_def runtimeAiuMicrosSchema_def estimate_def)

lemma talk_denied:
  "\<exists>db' r. create_request QuotaProperties.demo_env (Some ''app'') [chat_vm]
     (request_of_json talk_env (reservation_input (talk_context ''op'') talk_input [talk_target ''b'' 0, talk_target ''a'' 1])) blocked_db = (db', Inr r) \<and> \<not> rs_allowed r"
  by (simp add: create_request_def resolveCandidates_def upsert_user_def chat_vm_def request_of_json_def reservation_input_def talk_context_def talk_input_def
    blocked_db_def demo_db1_def demo_user_def find_unique_def event_text_def string_member_def json_string_def member_def opt_text_def opt_properties_def
    array_of_def map_filter_def talk_target_def demo_route_target_def reservationDenied_def Let_def)

definition answering_provider :: chat_provider where
  "answering_provider = talk_provider\<lparr>cp_fetch := (\<lambda>_ _. Fetch_response 200 (Some (JObj [])))\<rparr>"

lemma talk_answer:
  "\<exists>answer. chat_attempt talk_env answering_provider talk_input (talk_target ''b'' 0) talk_connection [] 0 = ([], Answered answer)"
  by (simp add: chat_attempt_def requestProvider_def answering_provider_def talk_provider_def provider_request_def talk_connection_def talk_input_def
    read_response_def ok_def)

theorem denied_call_is_made_witness:
  "\<exists>st db' a. executeChat talk_env talk_identity talk_world (reserveUserAiu talk_env Fail_open (talk_snapshot AiuHardLimit) (api_reservations talk_env QuotaProperties.demo_env ''app'' [chat_vm]))
       answering_provider (talk_snapshot AiuHardLimit) (talk_context ''op'') talk_input blocked_db = (st, db', Inr (Some a)) \<and>
     Model_call 0 (talk_target ''b'' 0) \<in> set (cr_log st) \<and> filter is_closing (cr_log st) = []"
proof -
  obtain db' r where r: "create_request QuotaProperties.demo_env (Some ''app'') [chat_vm]
      (request_of_json talk_env (reservation_input (talk_context ''op'') talk_input [talk_target ''b'' 0, talk_target ''a'' 1])) blocked_db = (db', Inr r)" "\<not> rs_allowed r"
    using talk_denied by blast
  have mode: "sn_aiu_mode (talk_snapshot AiuHardLimit) = AiuHardLimit" by (simp add: talk_snapshot_def demo_snapshot_def)
  have c: "map_of (sn_connections (talk_snapshot AiuHardLimit)) (rt_connection_id (talk_target ''b'' 0)) = Some talk_connection"
    by (simp add: talk_snapshot_def talk_target_def demo_route_target_def)
  have cred: "(if wo_needsCredential talk_world talk_connection then wo_credential talk_world talk_connection else Inr []) = Inr []"
    by (simp add: talk_world_def)
  obtain answer where "chat_attempt talk_env answering_provider talk_input (talk_target ''b'' 0) talk_connection [] 0 = ([], Answered answer)"
    using talk_answer by blast
  from denied_call_is_made [OF talk_routes mode talk_request r c cred this, of talk_identity] show ?thesis by blast
qed







end
