(* ===== verification/Spec2Isabelle.thy ===== *)
theory Spec2Isabelle
  imports QuotaProperties RatingProperties ConsoleProperties PipelineProperties SpoolProperties
    ReconciliationProperties SnapshotProperties ChatProperties
begin

text \<open>
  \<^bold>\<open>TokenPilot.\<close>  TokenPilot is a control plane for applications that call language models.  An
  application reports what it used; the server rates the usage in money and in AI units (AIU), charges it
  against quotas, and exports it to ClickHouse.  In the other direction the console publishes signed
  routing configurations that the SDKs evaluate on the client.  The parts and how they interact:

  \<^item> The reservation API of \<open>apps/api/src/runtime\<close>, the settlement of \<open>apps/worker/src/application-usage\<close>,
    the sweeper of \<open>apps/worker/src/maintenance\<close> and the quota service of \<open>apps/api/src/users\<close> share the
    quota tables of PostgreSQL.  \<open>packages/db/src/aiu-quota-policies.ts\<close> decides which policy holds and
    for which period.
  \<^item> The ingestion API (\<open>apps/api/src/usage-ingestion.service.ts\<close>) writes registry and inbox; the pipeline
    of \<open>apps/worker/src/pipeline\<close> leases inbox rows, normalizes, resolves the model, rates, settles, commits
    and fills the outbox; the outbox processor delivers to ClickHouse.  Dead letters are replayed by
    \<open>apps/api/src/dlq.service.ts\<close> and by the reconciliation operations of \<open>apps/worker/src/reconciliation\<close>.
  \<^item> The usage reporter of the Node SDK (\<open>sdks/node/src/runtime\<close>) keeps events in a local spool and uploads them in
    batches to the ingestion API.
  \<^item> Reconciliation (\<open>packages/reconciliation-engine\<close>, \<open>apps/worker/src/reconciliation\<close>,
    \<open>apps/api/src/reconciliation\<close>) compares the totals of PostgreSQL and ClickHouse on a schedule or on request,
    stores the differences, and queues replays and rebuilds that the operations of the pipeline execute.
  \<^item> The console edits virtual models (\<open>apps/api/src/virtual-models\<close>) and publishes them
    (\<open>apps/api/src/runtime-configuration\<close>); \<open>sdks/node/src/runtime/routing.ts\<close> verifies and evaluates the
    snapshot.  The snapshot manager of the SDK asks the API for the current snapshot, keeps the last good one in a file
    and acknowledges what it received, applied or refused.
  \<^item> A chat through the Node SDK (\<open>chat-execute.ts\<close>, \<open>chat-stream.ts\<close>) takes the targets of its route, reserves AIU at the
    reservation API, calls the providers of the targets in turn (\<open>provider-transport.ts\<close>), reports one usage event per
    attempt through the usage reporter, and settles or releases the reservation.

  \<^bold>\<open>Theories.\<close>  \<open>Prelude\<close> holds the result type of service calls (\<open>svc_error + 'a\<close>, with \<open>bind_res\<close> and
  \<open>guard_res\<close>), the row operations of the tables (\<open>update_rows\<close>, \<open>count_rows\<close>, \<open>find_unique\<close>) and the list
  lemmas about them.  \<open>JsValues\<close> holds JSON documents and the string methods of JavaScript: a string is its
  UTF-8 encoding and a number the rational it denotes.

  \<^item> \<^emph>\<open>Quota.\<close>  \<open>Calendar\<close> (local dates, midnight search, period windows), \<open>QuotaStore\<close> (rows, CHECK
    constraints, row locks, policy resolution, materialisation), \<open>Reservation\<close> (token codec, create, settle,
    release, retries), \<open>Settlement\<close> (consumption, sweeper, saving and resetting a quota), \<open>QuotaInvariant\<close>
    and \<open>QuotaSteps\<close> (the step relation of all writers and the invariant that the books balance),
    \<open>QuotaProperties\<close>.
  \<^item> \<^emph>\<open>Rating.\<close>  \<open>CostConditions\<close> (the schema of stored conditions), \<open>Rating\<close> (cost rules and AIU rates),
    \<open>Rounding\<close> (a locale for rounding functions with an interpretation on decimal rounding to twenty digits
    and on double precision), \<open>RatingProperties\<close>.
  \<^item> \<^emph>\<open>Routing.\<close>  \<open>RouteMatch\<close> (conditions of rules), \<open>RuntimeSnapshot\<close> (schemas and signature),
    \<open>SdkRouting\<close> (the SDK), \<open>VirtualModels\<close> (the console), \<open>Publication\<close>, \<open>RouteResolution\<close>, \<open>RoutingDemo\<close>
    (a concrete application), \<open>RoutingProperties\<close>, \<open>ConsoleProperties\<close>.
  \<^item> \<^emph>\<open>Pipeline.\<close>  \<open>UsageContract\<close> (schemas of raw and normalized usage, the normalizer), \<open>LeaseQueue\<close>
    (leasing and fencing of any queue table, with its locale \<open>lease_table\<close>), \<open>PipelineErrors\<close> (stages, error
    classification, back-off), \<open>PipelineStore\<close> (tables, inbox store, official commit, payload cleanup, replay
    of dead letters), \<open>OutboxStore\<close> (outbox store and processor), \<open>PipelineProcessor\<close> (one event through its
    stages), \<open>OfficialWriter\<close> (stage handlers and the writer, on top of Rating and Settlement), \<open>Ingestion\<close>,
    \<open>ReplayOperations\<close>, \<open>PipelineSteps\<close> (the step relation \<open>pipe_step\<close> of all services), \<open>PipelineInvariant\<close>,
    \<open>LeaseRefinement\<close> (the abstract lease service \<open>lease_step\<close> and the simulation), \<open>PipelineRuns\<close> (facts about
    whole runs by way of the locales \<open>checkpointed\<close> and \<open>guarded_run\<close>), \<open>PipelineTraces\<close> (what no step takes
    back), \<open>PipelineDemo\<close>, \<open>PipelineProperties\<close>.
  \<^item> \<^emph>\<open>Reporter.\<close>  \<open>UsageSpool\<close> (the durable spool and upload loop of the Node SDK, the response schema, the
    ingestion API as its server), \<open>SpoolDelivery\<close> (the composition of the two), \<open>SpoolProperties\<close>.
  \<^item> \<^emph>\<open>Delivery.\<close>  \<open>RuntimeDelivery\<close> (the snapshot endpoint, publication of access controls, restoration of a version,
    acknowledgements), \<open>SdkSnapshots\<close> (acknowledgement queue, file and snapshot manager of the Node SDK over any control
    plane, and the API as one), \<open>SnapshotFacts\<close> (the step relation \<open>manager_step\<close> and the facts of both sides),
    \<open>SnapshotProperties\<close>.
  \<^item> \<^emph>\<open>Chats.\<close>  \<open>SdkTransport\<close> (context of a call, usage of providers, requests and answers, server-sent events),
    \<open>SdkChat\<close> (reservations of the client, events, the loops of both kinds of chat, usage recorded by hand, the reservation API
    as a server), \<open>ChatFacts\<close> (induction over attempts and targets, the locale \<open>chat_attempts\<close> with its two interpretations),
    \<open>ChatProperties\<close>.
  \<^item> \<^emph>\<open>Reconciliation.\<close>  \<open>ReconciliationEngine\<close> (metrics, the comparison of two snapshots, pseudonyms, plans, CSV),
    \<open>ReconciliationRuns\<close> (mapping of PostgreSQL rows, repository, runner, schedule, console service),
    \<open>ReconciliationFacts\<close> (when two stores agree, a CSV reader, the comparison against them), \<open>ReconciliationSteps\<close>
    (the step relation \<open>recon_step\<close> of repository, console and operation executor with its invariants),
    \<open>ReconciliationProperties\<close>.

  \<^bold>\<open>Correspondence.\<close>  A table is the list of its rows, a row a record whose fields are the columns the code
  reads or writes; a transaction is a function from the database to an error or the new database, so a failed
  transaction leaves no trace.  SQL statements are the row operations with their \<open>WHERE\<close> conditions written
  out, including the three-valued comparison with \<open>NULL\<close>; a CHECK constraint that fails is an error value.
  Operations carry the names of the source.  Values the code draws from outside are arguments: the clock of
  each statement, generated ids, the rows other transactions have locked, the order in which \<open>RETURNING\<close>
  yields rows.  The environments (\<open>request_env\<close>, \<open>route_env\<close>, \<open>snapshot_env\<close>, \<open>ingest_env\<close>, \<open>rating_env\<close>,
  \<open>writer_env\<close>, \<open>chat_env\<close>) hold what the language or a library provides: SHA-256 and HMAC, \<open>JSON.stringify\<close>, \<open>Date\<close>,
  \<open>Intl\<close> and \<open>URL\<close>, \<open>decimal.js\<close>.  Where a property needs a law of these, it is a named hypothesis or an
  assumption of a locale, and a witness instantiates it.  AIU amounts and outbox ids are integers with the
  bounds of \<open>bigint\<close> as CHECKs; the hash of the SDK is computed on 32-bit words and its fractions in double
  precision.

  \<^bold>\<open>What is shown.\<close>  Quota: in every reachable store the counters of a quota equal the sums of its ledger and
  of its open reservations, hard limits are never oversold, replays of an operation are idempotent.  Rating: charges of lines add up to the
  rounded total, the first matching rule by priority prices an event, conditions on built-in fields do not depend
  on the locale.  Routing: the SDK resolves every published virtual model, the simulation of the console agrees
  with it, snapshots verify, weighted choice follows the hash in spite of rounding.  Delivery: one refresh
  brings a publication to the client and the API learns of it, the client only ever routes with verified snapshots, and neither
  the publication of access controls nor a restoration changes how calls are routed.  Chats: a reservation is closed exactly once
  and every attempt reported once, a stream hands out the values of one attempt and does not depend on its chunks, and a chat
  falls back to the next target that answers.  Pipeline: every valid event
  normalizes; resubmission is a duplicate; in every state an interleaving of the services can reach the tables
  are consistent and the inbox behaves as a lease service; a worker that lost its row changes nothing; retries
  end; a commit repeated adds nothing; a leased event completes; the watermark never moves back.  Reporter: against the ingestion API a
  report is delivered completely, and against any server no event is lost.  Reconciliation: the comparison reports
  nothing exactly when the stores agree and does not depend on the order of rows; what a
  run stores names no user.  Eleven properties
  show defects: calls made in spite of a denied reservation, usage lost for its operation id, reconciliation replays that cannot
  complete, comparisons that are never repeated after a failure, a refused report that stops all updates, a spool blocked by a
  blank user, an upload loop that empty answers keep running, usage after a renewal, names that stop publication, expiries the
  SDK ignores, and blocked users it keeps serving.  Further lemmas show a tiny cost that ends the schedule of comparisons, an
  export without buckets, cost totals that lose digits, and the daily window where midnight is skipped.

  \<^bold>\<open>Bounds and termination.\<close>  No model uses fuel that the source does not have: the upload loop is
  \<open>partial_function (option)\<close>, shown to return against the API and not to return against empty answers; the search for local midnight
  makes the four rounds of the source, a reservation transaction its three attempts, the walk through nested
  errors stops at the depth of the source.  All other recursion is structural or has a measure.

  \<^bold>\<open>Not modelled.\<close>  The web console, the OpenAPI documents, authentication, process start-up, metrics and logs,
  migrations and scripts hold no state of the core.  The reports are SQL texts for ClickHouse; the row mappers and
  HTTP inserts of the sink are a parameter of the outbox processor.  The connectors and the Python SDK are other
  languages behind the HTTP interface.  Of the Node SDK the set-up of the client and its facade for the OpenAI library,
  of reconciliation the aggregating queries, the mapping of ClickHouse rows, the listings of the console and the rebuild of
  quotas, and the evaluation of user groups are left out; the services that are modelled take their results as rows.
\<close>

end
